(* ===== verification/Prelude.thy ===== *)
theory Prelude
  imports Main
begin

text \<open>
  Shared vocabulary of the development: Rust's three ways a function ends (a value, an error
  value, a panic), programs that pass a store explicitly, the closure rules that carry the
  component proofs, and generic facts about the list-shaped tables of the database model.
\<close>

section \<open>Outcomes\<close>

type_synonym uuid = nat
type_synonym datetime = int \<comment> \<open>microseconds, the resolution of a PostgreSQL timestamp\<close>

datatype ('e, 'a) outcome = Ok 'a | Err 'e | Panic string

fun is_ok :: "('e, 'a) outcome \<Rightarrow> bool" where
  "is_ok (Ok a) = True"
| "is_ok _ = False"

fun obind :: "('e, 'a) outcome \<Rightarrow> ('a \<Rightarrow> ('e, 'b) outcome) \<Rightarrow> ('e, 'b) outcome" where
  "obind (Ok a) f = f a"
| "obind (Err e) f = Err e"
| "obind (Panic p) f = Panic p"

fun map_err :: "('e \<Rightarrow> 'f) \<Rightarrow> ('e, 'a) outcome \<Rightarrow> ('f, 'a) outcome" where
  "map_err g (Ok a) = Ok a"
| "map_err g (Err e) = Err (g e)"
| "map_err g (Panic p) = Panic p"

fun ok_or :: "'e \<Rightarrow> 'a option \<Rightarrow> ('e, 'a) outcome" where
  "ok_or e (Some a) = Ok a"
| "ok_or e None = Err e"

text \<open>\<open>iter().map(f).collect::<Result<Vec<_>, _>>()\<close>: the first failure ends the traversal.\<close>

fun try_map :: "('a \<Rightarrow> ('e, 'b) outcome) \<Rightarrow> 'a list \<Rightarrow> ('e, 'b list) outcome" where
  "try_map f [] = Ok []"
| "try_map f (x # xs) = obind (f x) (\<lambda>y. obind (try_map f xs) (\<lambda>ys. Ok (y # ys)))"

definition seconds :: "int \<Rightarrow> datetime" where
  "seconds n = n * 1000000"

section \<open>Programs over an explicit store\<close>

type_synonym ('s, 'e, 'a) prog = "'s \<Rightarrow> ('e, 'a) outcome \<times> 's"

definition ret :: "'a \<Rightarrow> ('s, 'e, 'a) prog" where
  "ret a s = (Ok a, s)"

definition throw :: "'e \<Rightarrow> ('s, 'e, 'a) prog" where
  "throw e s = (Err e, s)"

definition panic :: "string \<Rightarrow> ('s, 'e, 'a) prog" where
  "panic p s = (Panic p, s)"

definition gets :: "('s \<Rightarrow> 'a) \<Rightarrow> ('s, 'e, 'a) prog" where
  "gets f s = (Ok (f s), s)"

definition modify :: "('s \<Rightarrow> 's) \<Rightarrow> ('s, 'e, unit) prog" where
  "modify f s = (Ok (), f s)"

definition lift :: "('e, 'a) outcome \<Rightarrow> ('s, 'e, 'a) prog" where
  "lift r s = (r, s)"

definition bnd :: "('s, 'e, 'a) prog \<Rightarrow> ('a \<Rightarrow> ('s, 'e, 'b) prog) \<Rightarrow> ('s, 'e, 'b) prog" where
  "bnd m f s = (case m s of
      (Ok a, t) \<Rightarrow> f a t
    | (Err e, t) \<Rightarrow> (Err e, t)
    | (Panic p, t) \<Rightarrow> (Panic p, t))"

definition seq :: "('s, 'e, 'a) prog \<Rightarrow> ('s, 'e, 'b) prog \<Rightarrow> ('s, 'e, 'b) prog" where
  "seq m n = bnd m (\<lambda>_. n)"

definition map_err_p :: "('e \<Rightarrow> 'f) \<Rightarrow> ('s, 'e, 'a) prog \<Rightarrow> ('s, 'f, 'a) prog" where
  "map_err_p g m s = (case m s of (r, t) \<Rightarrow> (map_err g r, t))"

text \<open>\<open>match m.await { Ok(a) => ok(a), Err(e) => err(e) }\<close>.\<close>

definition match_result ::
  "('s, 'e, 'a) prog \<Rightarrow> ('a \<Rightarrow> ('s, 'f, 'b) prog) \<Rightarrow> ('e \<Rightarrow> ('s, 'f, 'b) prog) \<Rightarrow> ('s, 'f, 'b) prog" where
  "match_result m ok er s = (case m s of
      (Ok a, t) \<Rightarrow> ok a t
    | (Err e, t) \<Rightarrow> er e t
    | (Panic p, t) \<Rightarrow> (Panic p, t))"

text \<open>A \<open>for\<close> loop whose body may return early with \<open>?\<close>; \<open>continue\<close> is a body that returns.\<close>

primrec for_each :: "'x list \<Rightarrow> ('x \<Rightarrow> ('s, 'e, unit) prog) \<Rightarrow> ('s, 'e, unit) prog" where
  "for_each [] f = ret ()"
| "for_each (x # xs) f = seq (f x) (for_each xs f)"

text \<open>A loop that also carries a value from one iteration to the next.\<close>

primrec fold_p :: "('x \<Rightarrow> 'acc \<Rightarrow> ('s, 'e, 'acc) prog) \<Rightarrow> 'x list \<Rightarrow> 'acc \<Rightarrow> ('s, 'e, 'acc) prog" where
  "fold_p f [] acc = ret acc"
| "fold_p f (x # xs) acc = bnd (f x acc) (fold_p f xs)"

lemmas prog_defs = ret_def throw_def panic_def gets_def modify_def lift_def bnd_def seq_def
  map_err_p_def match_result_def

subsection \<open>Forward reasoning about successful runs\<close>

named_theorems ok_runs \<open>when a composed program returns a value\<close>

lemma obind_Ok [ok_runs]: "obind r f = Ok b \<longleftrightarrow> (\<exists>a. r = Ok a \<and> f a = Ok b)"
  by (cases r) auto

lemma map_err_Ok [ok_runs]: "map_err g r = Ok a \<longleftrightarrow> r = Ok a"
  by (cases r) auto

lemma ok_or_Ok [ok_runs]: "ok_or e x = Ok a \<longleftrightarrow> x = Some a"
  by (cases x) auto

lemma ret_Ok [ok_runs]: "ret a s = (Ok b, t) \<longleftrightarrow> b = a \<and> t = s"
  by (auto simp: ret_def)

lemma throw_Ok [ok_runs]: "throw e s = (Ok b, t) \<longleftrightarrow> False"
  by (auto simp: throw_def)

lemma panic_Ok [ok_runs]: "panic p s = (Ok b, t) \<longleftrightarrow> False"
  by (auto simp: panic_def)

lemma gets_Ok [ok_runs]: "gets f s = (Ok b, t) \<longleftrightarrow> b = f s \<and> t = s"
  by (auto simp: gets_def)

lemma modify_Ok [ok_runs]: "modify f s = (Ok b, t) \<longleftrightarrow> t = f s"
  by (auto simp: modify_def)

lemma lift_Ok [ok_runs]: "lift r s = (Ok b, t) \<longleftrightarrow> r = Ok b \<and> t = s"
  by (auto simp: lift_def)

lemma bnd_Ok [ok_runs]:
  "bnd m f s = (Ok b, t) \<longleftrightarrow> (\<exists>a u. m s = (Ok a, u) \<and> f a u = (Ok b, t))"
  by (auto simp: bnd_def split: prod.splits outcome.splits)

lemma seq_Ok [ok_runs]:
  "seq m n s = (Ok b, t) \<longleftrightarrow> (\<exists>a u. m s = (Ok a, u) \<and> n u = (Ok b, t))"
  by (auto simp: seq_def bnd_Ok)

lemma map_err_p_Ok [ok_runs]: "map_err_p g m s = (Ok b, t) \<longleftrightarrow> m s = (Ok b, t)"
  by (auto simp: map_err_p_def map_err_Ok split: prod.splits)

lemma match_result_Ok [ok_runs]:
  "match_result m ok er s = (Ok b, t) \<longleftrightarrow>
     (\<exists>a u. m s = (Ok a, u) \<and> ok a u = (Ok b, t)) \<or> (\<exists>e u. m s = (Err e, u) \<and> er e u = (Ok b, t))"
  by (auto simp: match_result_def split: prod.splits outcome.splits)

lemma try_map_Ok:
  "try_map f xs = Ok ys \<longleftrightarrow> list_all2 (\<lambda>x y. f x = Ok y) xs ys"
proof (induction xs arbitrary: ys)
  case Nil
  then show ?case by auto
next
  case (Cons x xs)
  show ?case by (cases ys) (auto simp: obind_Ok Cons.IH)
qed

lemma try_map_all_Ok: "(\<And>x. x \<in> set xs \<Longrightarrow> f x = Ok (g x)) \<Longrightarrow> try_map f xs = Ok (map g xs)"
  by (induction xs) auto

lemma try_map_length: "try_map f xs = Ok ys \<Longrightarrow> length ys = length xs"
  by (auto simp: try_map_Ok dest: list_all2_lengthD)

subsection \<open>Pure code that does not panic\<close>

definition no_panic :: "('e, 'a) outcome \<Rightarrow> bool" where
  "no_panic r \<longleftrightarrow> (\<forall>p. r \<noteq> Panic p)"

named_theorems no_panic_rules \<open>outcomes without a panic\<close>

lemma no_panic_value [no_panic_rules, simp]: "no_panic (Ok a)" "no_panic (Err e)" "\<not> no_panic (Panic p)"
  by (simp_all add: no_panic_def)

lemma no_panic_ok_or [no_panic_rules, simp]: "no_panic (ok_or e x)"
  by (cases x) simp_all

lemma no_panic_map_err [no_panic_rules, simp]: "no_panic (map_err g r) = no_panic r"
  by (cases r) simp_all

lemma no_panic_obind [no_panic_rules]:
  "no_panic r \<Longrightarrow> (\<And>a. r = Ok a \<Longrightarrow> no_panic (f a)) \<Longrightarrow> no_panic (obind r f)"
  by (cases r) simp_all

lemma no_panic_if [no_panic_rules]:
  "(b \<Longrightarrow> no_panic r) \<Longrightarrow> (\<not> b \<Longrightarrow> no_panic q) \<Longrightarrow> no_panic (if b then r else q)"
  by simp

lemma no_panic_prod [no_panic_rules]: "(\<And>a b. x = (a, b) \<Longrightarrow> no_panic (f a b)) \<Longrightarrow> no_panic (case x of (a, b) \<Rightarrow> f a b)"
  by (cases x) simp

lemma no_panic_option [no_panic_rules]:
  "no_panic r \<Longrightarrow> (\<And>a. x = Some a \<Longrightarrow> no_panic (f a)) \<Longrightarrow> no_panic (case x of None \<Rightarrow> r | Some a \<Rightarrow> f a)"
  by (cases x) simp_all

subsection \<open>Invariants of programs\<close>

definition preserves :: "('s \<Rightarrow> bool) \<Rightarrow> ('s, 'e, 'a) prog \<Rightarrow> bool" where
  "preserves I m \<longleftrightarrow> (\<forall>s. I s \<longrightarrow> I (snd (m s)))"

named_theorems preserves_rules \<open>invariants of composed programs\<close>

lemma preservesI: "(\<And>s. I s \<Longrightarrow> I (snd (m s))) \<Longrightarrow> preserves I m"
  by (simp add: preserves_def)

lemma preservesD: "preserves I m \<Longrightarrow> I s \<Longrightarrow> m s = (r, t) \<Longrightarrow> I t"
  by (auto simp: preserves_def dest: spec [of _ s])

lemma preserves_snd: "preserves I m \<Longrightarrow> I s \<Longrightarrow> I (snd (m s))"
  by (simp add: preserves_def)

lemma preserves_ret [preserves_rules, simp]: "preserves I (ret a)"
  by (simp add: preserves_def ret_def)

lemma preserves_throw [preserves_rules, simp]: "preserves I (throw e)"
  by (simp add: preserves_def throw_def)

lemma preserves_panic [preserves_rules, simp]: "preserves I (panic p)"
  by (simp add: preserves_def panic_def)

lemma preserves_gets [preserves_rules, simp]: "preserves I (gets f)"
  by (simp add: preserves_def gets_def)

lemma preserves_lift [preserves_rules, simp]: "preserves I (lift r)"
  by (simp add: preserves_def lift_def)

lemma preserves_modify [preserves_rules]: "(\<And>s. I s \<Longrightarrow> I (f s)) \<Longrightarrow> preserves I (modify f)"
  by (simp add: preserves_def modify_def)

text \<open>The continuation may rely on what the first program returns.\<close>

lemma preserves_bnd_result:
  assumes "preserves I m" and "\<And>a s t. m s = (Ok a, t) \<Longrightarrow> preserves I (f a)"
  shows "preserves I (bnd m f)"
proof (rule preservesI)
  fix s assume "I s"
  obtain r t where run: "m s = (r, t)" by fastforce
  with \<open>I s\<close> assms(1) have "I t" by (blast dest: preservesD)
  with run assms(2) show "I (snd (bnd m f s))"
    by (cases r) (auto simp: bnd_def preserves_def)
qed

lemma preserves_bnd [preserves_rules]:
  assumes "preserves I m" and "\<And>a. preserves I (f a)"
  shows "preserves I (bnd m f)"
  by (rule preserves_bnd_result) (use assms in auto)

lemma preserves_seq [preserves_rules]:
  "preserves I m \<Longrightarrow> preserves I n \<Longrightarrow> preserves I (seq m n)"
  by (simp add: seq_def preserves_bnd)

lemma preserves_map_err_p [preserves_rules]: "preserves I m \<Longrightarrow> preserves I (map_err_p g m)"
  by (auto simp: preserves_def map_err_p_def split: prod.splits)

lemma preserves_match_result [preserves_rules]:
  assumes "preserves I m" and "\<And>a. preserves I (ok a)" and "\<And>e. preserves I (er e)"
  shows "preserves I (match_result m ok er)"
proof (rule preservesI)
  fix s assume "I s"
  obtain r t where run: "m s = (r, t)" by fastforce
  with \<open>I s\<close> assms(1) have "I t" by (blast dest: preservesD)
  with run assms(2,3) show "I (snd (match_result m ok er s))"
    by (cases r) (auto simp: match_result_def preserves_def)
qed

lemma preserves_if [preserves_rules]:
  "(b \<Longrightarrow> preserves I m) \<Longrightarrow> (\<not> b \<Longrightarrow> preserves I n) \<Longrightarrow> preserves I (if b then m else n)"
  by simp

lemma preserves_for_each [preserves_rules]:
  "(\<And>x. x \<in> set xs \<Longrightarrow> preserves I (f x)) \<Longrightarrow> preserves I (for_each xs f)"
  by (induction xs) (auto intro: preserves_seq)

lemma preserves_fold_p [preserves_rules]:
  "(\<And>x acc. x \<in> set xs \<Longrightarrow> preserves I (f x acc)) \<Longrightarrow> preserves I (fold_p f xs acc)"
  by (induction xs arbitrary: acc) (auto intro: preserves_bnd)

text \<open>A program that only reads leaves the store as it is.\<close>

definition reads_only :: "('s, 'e, 'a) prog \<Rightarrow> bool" where
  "reads_only m \<longleftrightarrow> (\<forall>s. snd (m s) = s)"

lemma reads_only_preserves: "reads_only m \<Longrightarrow> preserves I m"
  by (simp add: reads_only_def preserves_def)

lemma reads_onlyI: "(\<And>v. preserves (\<lambda>s. s = v) m) \<Longrightarrow> reads_only m"
  by (simp add: reads_only_def preserves_def)

lemma reads_onlyD: "reads_only m \<Longrightarrow> m s = (r, t) \<Longrightarrow> t = s"
  by (auto simp: reads_only_def dest: spec [of _ s])

section \<open>Tables as lists of rows\<close>

definition update_where :: "('r \<Rightarrow> bool) \<Rightarrow> ('r \<Rightarrow> 'r) \<Rightarrow> 'r list \<Rightarrow> 'r list" where
  "update_where P f rows = map (\<lambda>r. if P r then f r else r) rows"

definition delete_where :: "('r \<Rightarrow> bool) \<Rightarrow> 'r list \<Rightarrow> 'r list" where
  "delete_where P rows = filter (\<lambda>r. \<not> P r) rows"

definition count_where :: "('r \<Rightarrow> bool) \<Rightarrow> 'r list \<Rightarrow> int" where
  "count_where P rows = int (length (filter P rows))"

definition unique_by :: "('r \<Rightarrow> 'k) \<Rightarrow> 'r list \<Rightarrow> bool" where
  "unique_by k rows \<longleftrightarrow> distinct (map k rows)"

lemma set_delete_where [simp]: "set (delete_where P rows) = {r \<in> set rows. \<not> P r}"
  by (simp add: delete_where_def)

lemma delete_where_none: "(\<And>r. r \<in> set rows \<Longrightarrow> \<not> P r) \<Longrightarrow> delete_where P rows = rows"
  by (simp add: delete_where_def filter_id_conv)

lemma count_where_Nil [simp]: "count_where P [] = 0"
  by (simp add: count_where_def)

lemma count_where_append [simp]: "count_where P (xs @ ys) = count_where P xs + count_where P ys"
  by (simp add: count_where_def)

lemma count_where_Cons: "count_where P (x # xs) = (if P x then 1 else 0) + count_where P xs"
  by (simp add: count_where_def)

lemma count_where_single [simp]: "count_where P [x] = (if P x then 1 else 0)"
  by (simp add: count_where_def)

lemma count_where_nonneg [simp]: "0 \<le> count_where P rows"
  by (simp add: count_where_def)

lemma count_where_cong:
  "(\<And>r. r \<in> set rows \<Longrightarrow> P r = Q r) \<Longrightarrow> count_where P rows = count_where Q rows"
  by (simp add: count_where_def cong: filter_cong)

lemma count_where_split: "count_where P rows =
   count_where (\<lambda>r. P r \<and> Q r) rows + count_where (\<lambda>r. P r \<and> \<not> Q r) rows"
  by (induction rows) (auto simp: count_where_Cons)

lemma count_where_delete:
  "count_where P (delete_where Q rows) = count_where (\<lambda>r. P r \<and> \<not> Q r) rows"
  by (simp add: count_where_def delete_where_def conj_commute)

lemma count_where_delete_disjoint:
  "(\<And>r. r \<in> set rows \<Longrightarrow> Q r \<Longrightarrow> \<not> P r) \<Longrightarrow> count_where P (delete_where Q rows) = count_where P rows"
  by (auto simp: count_where_delete intro: count_where_cong)

lemma count_where_zero: "count_where P rows = 0 \<longleftrightarrow> (\<forall>r \<in> set rows. \<not> P r)"
  by (simp add: count_where_def filter_empty_conv)

lemma unique_by_delete [simp]: "unique_by k rows \<Longrightarrow> unique_by k (delete_where P rows)"
  by (induction rows) (auto simp: unique_by_def delete_where_def)

lemma unique_by_append_single:
  "unique_by k (rows @ [r]) \<longleftrightarrow> unique_by k rows \<and> k r \<notin> k ` set rows"
  by (auto simp: unique_by_def)

lemma unique_byD: "unique_by k rows \<Longrightarrow> r \<in> set rows \<Longrightarrow> r' \<in> set rows \<Longrightarrow> k r = k r' \<Longrightarrow> r = r'"
  by (auto simp: unique_by_def distinct_map dest: inj_onD)

lemma unique_by_filter_key:
  assumes "unique_by k rows" and "r \<in> set rows" and "\<And>r'. P r' \<longleftrightarrow> k r' = k r"
  shows "filter P rows = [r]"
  using assms
proof (induction rows)
  case (Cons x xs)
  show ?case
  proof (cases "r = x")
    case True
    with Cons.prems have "\<forall>y \<in> set xs. \<not> P y" by (auto simp: unique_by_def image_iff)
    with True Cons.prems(3) show ?thesis by (simp add: filter_empty_conv)
  next
    case False
    with Cons.prems have "k x \<noteq> k r" by (auto simp: unique_by_def)
    with False Cons show ?thesis by (auto simp: unique_by_def)
  qed
qed simp

lemma unique_by_filter_le1:
  assumes "unique_by k rows" and "\<And>r r'. P r \<Longrightarrow> P r' \<Longrightarrow> k r = k r'"
  shows "filter P rows = [] \<or> (\<exists>r. filter P rows = [r] \<and> r \<in> set rows \<and> P r)"
proof (cases "filter P rows")
  case (Cons r rest)
  then have "r \<in> set (filter P rows)" by simp
  then have r: "r \<in> set rows" "P r" by simp_all
  have "filter P rows = filter (\<lambda>r'. P r' \<and> k r' = k r) rows"
    using assms(2) r(2) by (metis (no_types, lifting))
  moreover have "filter (\<lambda>r'. P r' \<and> k r' = k r) rows = filter P (filter (\<lambda>r'. k r' = k r) rows)"
    by (simp add: conj_commute)
  moreover have "filter (\<lambda>r'. k r' = k r) rows = [r]"
    by (rule unique_by_filter_key [OF assms(1) r(1)]) simp
  ultimately show ?thesis using r by simp
qed simp

lemma count_where_unique_le1:
  assumes "unique_by k rows" and "\<And>r r'. P r \<Longrightarrow> P r' \<Longrightarrow> k r = k r'"
  shows "count_where P rows = (if \<exists>r \<in> set rows. P r then 1 else 0)"
  using unique_by_filter_le1 [of k rows P, OF assms]
  by (auto simp: count_where_def filter_empty_conv)

lemma unique_by_update:
  "(\<And>r. k (f r) = k r) \<Longrightarrow> unique_by k (update_where P f rows) = unique_by k rows"
  by (simp add: unique_by_def update_where_def comp_def if_distrib cong: if_cong)

lemma set_update_where: "set (update_where P f rows) = (\<lambda>r. if P r then f r else r) ` set rows"
  by (simp add: update_where_def)

lemma count_where_update:
  "(\<And>r. Q (f r) = Q r) \<Longrightarrow> count_where Q (update_where P f rows) = count_where Q rows"
  by (induction rows) (auto simp: count_where_def update_where_def)

lemma map_update_where: "(\<And>r. g (f r) = g r) \<Longrightarrow> map g (update_where P f rows) = map g rows"
  by (simp add: update_where_def)

lemma image_key_update:
  "(\<And>r. k (f r) = k r) \<Longrightarrow> k ` set (update_where P f rows) = k ` set rows"
  by (metis image_set map_update_where)

lemma delete_where_False [simp]: "delete_where (\<lambda>_. False) rs = rs"
  by (simp add: delete_where_def)

lemma filter_update_same:
  assumes "\<And>x. P (f x) = P x"
  shows "filter P (update_where P f xs) = map f (filter P xs)"
  using assms by (induction xs) (auto simp: update_where_def)

lemma filter_update_where:
  assumes "\<And>x. Q (f x) = Q x"
  shows "filter Q (update_where P f xs) = update_where P f (filter Q xs)"
  using assms by (induction xs) (auto simp: update_where_def)

lemma filter_update_other:
  assumes "\<And>x. Q (f x) = Q x" and "\<And>x. P x \<Longrightarrow> \<not> Q x"
  shows "filter Q (update_where P f xs) = filter Q xs"
  using assms by (induction xs) (auto simp: update_where_def)

end
