(* ===== verification/Caip2.thy ===== *)
theory Caip2
  imports Prelude
begin

text \<open>
  Blockchain identifiers (\<open>apx_core/src/caip2.rs\<close>): namespaces, Monero networks, \<open>ChainId\<close> with
  its constructor, its printer and its parser. Strings are UTF-8 byte lists. The two regular
  expressions of the source are searched, not anchored, and so are their models here.
\<close>

section \<open>Characters and numbers\<close>

definition is_digit :: "char \<Rightarrow> bool" where
  "is_digit c \<longleftrightarrow> of_char c \<ge> (48 :: nat) \<and> of_char c \<le> (57 :: nat)"

definition is_lower :: "char \<Rightarrow> bool" where
  "is_lower c \<longleftrightarrow> of_char c \<ge> (97 :: nat) \<and> of_char c \<le> (122 :: nat)"

definition is_upper :: "char \<Rightarrow> bool" where
  "is_upper c \<longleftrightarrow> of_char c \<ge> (65 :: nat) \<and> of_char c \<le> (90 :: nat)"

definition is_hex_lower :: "char \<Rightarrow> bool" where
  "is_hex_lower c \<longleftrightarrow> is_digit c \<or> (of_char c \<ge> (97 :: nat) \<and> of_char c \<le> (102 :: nat))"

definition digit_val :: "char \<Rightarrow> nat" where
  "digit_val c = of_char c - 48"

definition digits_val :: "string \<Rightarrow> nat" where
  "digits_val s = foldl (\<lambda>n c. 10 * n + digit_val c) 0 s"

text \<open>\<open>str::parse::<u32>()\<close>: an optional plus sign, then at least one digit, below \<open>2 ^ 32\<close>.\<close>

definition parse_u32 :: "string \<Rightarrow> nat option" where
  "parse_u32 s = (let ds = (case s of (CHR ''+'') # cs \<Rightarrow> cs | _ \<Rightarrow> s) in
     if ds \<noteq> [] \<and> list_all is_digit ds \<and> digits_val ds < 2 ^ 32 then Some (digits_val ds) else None)"

definition parse_u64 :: "string \<Rightarrow> nat option" where
  "parse_u64 s = (let ds = (case s of (CHR ''+'') # cs \<Rightarrow> cs | _ \<Rightarrow> s) in
     if ds \<noteq> [] \<and> list_all is_digit ds \<and> digits_val ds < 2 ^ 64 then Some (digits_val ds) else None)"

fun show_nat :: "nat \<Rightarrow> string" where
  "show_nat n = (if n < 10 then [char_of (48 + n)] else show_nat (n div 10) @ [char_of (48 + n mod 10)])"

declare show_nat.simps [simp del]

section \<open>Chain identifiers\<close>

datatype monero_network = Mainnet | Stagenet | Testnet | Private

datatype namespace = Eip155 | MoneroNs

datatype chain_id_error = ChainIdError string

record chain_id =
  namespace :: namespace
  reference :: string

fun namespace_from_str :: "string \<Rightarrow> (chain_id_error, namespace) outcome" where
  "namespace_from_str v =
     (if v = ''eip155'' then Ok Eip155
      else if v = ''monero'' then Ok MoneroNs
      else Err (ChainIdError ''unsupported CAIP-2 namespace''))"

fun namespace_to_string :: "namespace \<Rightarrow> string" where
  "namespace_to_string Eip155 = ''eip155''"
| "namespace_to_string MoneroNs = ''monero''"

definition monero_network_from_str :: "string \<Rightarrow> (chain_id_error, monero_network) outcome" where
  "monero_network_from_str v =
     (if v = ''mainnet'' then Ok Mainnet
      else if v = ''stagenet'' then Ok Stagenet
      else if v = ''testnet'' then Ok Testnet
      else if v = ''fakechain'' \<or> v = ''regtest'' then Ok Private
      else Err (ChainIdError ''invalid monero network name''))"

fun monero_network_id :: "monero_network \<Rightarrow> string" where
  "monero_network_id Mainnet = ''418015bb9ae982a1975da7d79277c270''"
| "monero_network_id Stagenet = ''76ee3cc98646292206cd3e86f74d88b4''"
| "monero_network_id Testnet = ''48ca7cd3c8de5b6a4d53d2861fbdaedc''"
| "monero_network_id Private = ''00000000000000000000000000000000''"

definition from_monero_network :: "monero_network \<Rightarrow> chain_id" where
  "from_monero_network n = \<lparr>namespace = MoneroNs, reference = monero_network_id n\<rparr>"

definition from_ethereum_chain_id :: "nat \<Rightarrow> chain_id" where
  "from_ethereum_chain_id n = \<lparr>namespace = Eip155, reference = show_nat n\<rparr>"

definition parse_ethereum_chain_id :: "string \<Rightarrow> (chain_id_error, nat) outcome" where
  "parse_ethereum_chain_id r = ok_or (ChainIdError ''invalid EIP-155 chain ID'') (parse_u32 r)"

text \<open>\<open>Regex::is_match\<close> of \<open>[0-9a-f]{32}\<close>: some 32 consecutive characters are hexadecimal digits.\<close>

fun monero_chain_id_match :: "string \<Rightarrow> bool" where
  "monero_chain_id_match [] = False"
| "monero_chain_id_match (c # cs) =
     (32 \<le> length (takeWhile is_hex_lower (c # cs)) \<or> monero_chain_id_match cs)"

definition chain_id_new :: "string \<Rightarrow> string \<Rightarrow> (chain_id_error, chain_id) outcome" where
  "chain_id_new ns r = obind (namespace_from_str ns) (\<lambda>n. case n of
      Eip155 \<Rightarrow> obind (parse_ethereum_chain_id r) (\<lambda>_. Ok \<lparr>namespace = n, reference = r\<rparr>)
    | MoneroNs \<Rightarrow> (case monero_network_from_str r of
          Ok network \<Rightarrow> Ok (from_monero_network network)
        | Err _ \<Rightarrow> (if \<not> monero_chain_id_match r then Err (ChainIdError ''invalid monero chain ID'')
                   else Ok \<lparr>namespace = n, reference = r\<rparr>)
        | Panic p \<Rightarrow> Panic p))"

definition is_ethereum :: "chain_id \<Rightarrow> bool" where
  "is_ethereum c \<longleftrightarrow> namespace c = Eip155"

definition ethereum_chain_id :: "chain_id \<Rightarrow> (chain_id_error, nat) outcome" where
  "ethereum_chain_id c =
     (if \<not> is_ethereum c then Err (ChainIdError ''namespace is not eip155'')
      else parse_ethereum_chain_id (reference c))"

definition is_monero :: "chain_id \<Rightarrow> bool" where
  "is_monero c \<longleftrightarrow> namespace c = MoneroNs"

definition is_wownero_mainnet :: "chain_id \<Rightarrow> bool" where
  "is_wownero_mainnet c \<longleftrightarrow> is_monero c \<and> reference c = ''a3fd635dd5cb55700317783469ba749b''"

definition chain_monero_network :: "chain_id \<Rightarrow> (chain_id_error, monero_network) outcome" where
  "chain_monero_network c =
     (if \<not> is_monero c then Err (ChainIdError ''namespace is not monero'')
      else if reference c = monero_network_id Mainnet then Ok Mainnet
      else if reference c = monero_network_id Stagenet then Ok Stagenet
      else if reference c = monero_network_id Testnet then Ok Testnet
      else if reference c = monero_network_id Private then Ok Private
      else Err (ChainIdError ''unknown monero network''))"

section \<open>Parsing and printing\<close>

definition caip2_namespace_char :: "char \<Rightarrow> bool" where
  "caip2_namespace_char c \<longleftrightarrow> c = CHR ''-'' \<or> is_lower c \<or> is_digit c"

definition caip2_reference_char :: "char \<Rightarrow> bool" where
  "caip2_reference_char c \<longleftrightarrow> c = CHR ''-'' \<or> is_lower c \<or> is_upper c \<or> is_digit c"

text \<open>The expression \<open>([-a-z0-9]{3,8}):([-a-zA-Z0-9]{1,32})\<close> at the beginning of a string; the
  colon is in neither class, so the greedy namespace is the longest run before it.\<close>

definition caip2_match_here :: "string \<Rightarrow> (string \<times> string) option" where
  "caip2_match_here s =
     (let ns = takeWhile caip2_namespace_char s;
          rest = dropWhile caip2_namespace_char s in
      case rest of
        (CHR '':'') # rs \<Rightarrow>
          (let r = take 32 (takeWhile caip2_reference_char rs) in
           if 3 \<le> length ns \<and> length ns \<le> 8 \<and> r \<noteq> [] then Some (ns, r) else None)
      | _ \<Rightarrow> None)"

text \<open>\<open>Regex::captures\<close> searches for the leftmost match.\<close>

fun caip2_captures :: "string \<Rightarrow> (string \<times> string) option" where
  "caip2_captures [] = None"
| "caip2_captures (c # cs) =
     (case caip2_match_here (c # cs) of Some m \<Rightarrow> Some m | None \<Rightarrow> caip2_captures cs)"

definition chain_id_from_str :: "string \<Rightarrow> (chain_id_error, chain_id) outcome" where
  "chain_id_from_str v =
     obind (ok_or (ChainIdError ''invalid chain ID'') (caip2_captures v)) (\<lambda>(ns, r). chain_id_new ns r)"

definition chain_id_to_string :: "chain_id \<Rightarrow> string" where
  "chain_id_to_string c = namespace_to_string (namespace c) @ '':'' @ reference c"

section \<open>Well-formed identifiers\<close>

definition wf_chain_id :: "chain_id \<Rightarrow> bool" where
  "wf_chain_id c \<longleftrightarrow> (case namespace c of
      Eip155 \<Rightarrow> reference c \<noteq> [] \<and> length (reference c) \<le> 32 \<and> list_all is_digit (reference c)
                \<and> digits_val (reference c) < 2 ^ 32
    | MoneroNs \<Rightarrow> length (reference c) = 32 \<and> list_all is_hex_lower (reference c))"

lemma is_digit_reference_char: "is_digit c \<Longrightarrow> caip2_reference_char c"
  by (simp add: caip2_reference_char_def)

lemma is_hex_lower_reference_char: "is_hex_lower c \<Longrightarrow> caip2_reference_char c"
  by (auto simp: caip2_reference_char_def is_hex_lower_def is_lower_def)

lemma plus_not_reference_char: "\<not> caip2_reference_char (CHR ''+'')"
  by (simp add: caip2_reference_char_def is_lower_def is_upper_def is_digit_def)

lemma plus_not_digit: "\<not> is_digit (CHR ''+'')"
  by (simp add: is_digit_def)

lemma caip2_match_here_Some:
  "caip2_match_here s = Some (ns, r) \<Longrightarrow>
     r \<noteq> [] \<and> length r \<le> 32 \<and> list_all caip2_reference_char r"
  by (auto simp: caip2_match_here_def Let_def list_all_iff split: list.splits if_splits char.splits
      bool.splits dest!: in_set_takeD set_takeWhileD)

lemma caip2_captures_Some:
  "caip2_captures s = Some (ns, r) \<Longrightarrow>
     r \<noteq> [] \<and> length r \<le> 32 \<and> list_all caip2_reference_char r"
proof (induction s)
  case (Cons c cs)
  then show ?case
    by (auto split: option.splits dest: caip2_match_here_Some)
qed simp

lemma monero_chain_id_match_length: "monero_chain_id_match s \<Longrightarrow> 32 \<le> length s"
proof (induction s)
  case (Cons c cs)
  from Cons.prems have "32 \<le> length (takeWhile is_hex_lower (c # cs)) \<or> monero_chain_id_match cs"
    by simp
  moreover have "length (takeWhile is_hex_lower (c # cs)) \<le> length (c # cs)"
    by (rule length_takeWhile_le)
  ultimately show ?case using Cons.IH by fastforce
qed simp

lemma monero_chain_id_match_exact:
  assumes "monero_chain_id_match s" and "length s \<le> 32"
  shows "length s = 32 \<and> list_all is_hex_lower s"
proof (cases s)
  case Nil
  with assms show ?thesis by simp
next
  case (Cons c cs)
  with assms monero_chain_id_match_length [of cs]
  have long: "32 \<le> length (takeWhile is_hex_lower s)" by fastforce
  with assms(2) have "length (takeWhile is_hex_lower s) = length s"
    using length_takeWhile_le [of is_hex_lower s] by linarith
  then have "takeWhile is_hex_lower s = s"
    by (metis append_eq_conv_conj append_take_drop_id takeWhile_dropWhile_id take_all_iff order_refl)
  then have "list_all is_hex_lower s"
    by (metis list_all_iff set_takeWhileD)
  with long assms(2) \<open>length (takeWhile is_hex_lower s) = length s\<close> show ?thesis by simp
qed

lemma monero_chain_id_match_hex:
  "length s = 32 \<Longrightarrow> list_all is_hex_lower s \<Longrightarrow> monero_chain_id_match s"
  by (cases s) (auto simp: list_all_iff takeWhile_eq_all_conv [THEN iffD2])

lemma hex_not_network_name:
  assumes "length s = 32"
  shows "\<exists>e. monero_network_from_str s = Err e"
proof -
  from assms have "s \<noteq> ''mainnet''" "s \<noteq> ''stagenet''" "s \<noteq> ''testnet''" "s \<noteq> ''fakechain''"
    "s \<noteq> ''regtest''" by auto
  then show ?thesis by (simp add: monero_network_from_str_def)
qed

lemma wf_from_monero_network: "wf_chain_id (from_monero_network n)"
  by (cases n) (simp_all add: wf_chain_id_def from_monero_network_def is_hex_lower_def is_digit_def)

lemma parse_u32_digits:
  "list_all caip2_reference_char r \<Longrightarrow> parse_u32 r = Some n \<Longrightarrow>
     list_all is_digit r \<and> digits_val r < 2 ^ 32 \<and> n = digits_val r"
  using plus_not_reference_char
  by (auto simp: parse_u32_def Let_def split: list.splits if_splits char.splits bool.splits)

lemma parse_u32_of_digits:
  "r \<noteq> [] \<Longrightarrow> list_all is_digit r \<Longrightarrow> digits_val r < 2 ^ 32 \<Longrightarrow> parse_u32 r = Some (digits_val r)"
  using plus_not_digit
  by (cases r) (auto simp: parse_u32_def Let_def split: char.splits bool.splits)

lemma chain_id_from_str_wf:
  assumes "chain_id_from_str v = Ok c"
  shows "wf_chain_id c"
proof -
  from assms obtain ns r where cap: "caip2_captures v = Some (ns, r)" and new: "chain_id_new ns r = Ok c"
    by (auto simp: chain_id_from_str_def ok_runs)
  from caip2_captures_Some [OF cap] have r: "r \<noteq> []" "length r \<le> 32" "list_all caip2_reference_char r"
    by auto
  from new obtain n where n: "namespace_from_str ns = Ok n" by (auto simp: chain_id_new_def ok_runs)
  show ?thesis
  proof (cases n)
    case Eip155
    with new n r show ?thesis
      by (auto simp: chain_id_new_def ok_runs parse_ethereum_chain_id_def wf_chain_id_def
          dest!: parse_u32_digits)
  next
    case MoneroNs
    with new n r monero_chain_id_match_exact [of r] wf_from_monero_network show ?thesis
      by (auto simp: chain_id_new_def wf_chain_id_def split: outcome.splits if_splits)
  qed
qed

lemma caip2_captures_printed:
  assumes "r \<noteq> []" and "length r \<le> 32" and "list_all caip2_reference_char r"
  shows "caip2_captures (namespace_to_string n @ CHR '':'' # r) = Some (namespace_to_string n, r)"
proof -
  have tw: "takeWhile caip2_reference_char r = r"
    using assms(3) by (simp add: takeWhile_eq_all_conv list_all_iff)
  show ?thesis
    by (cases n) (simp_all add: caip2_match_here_def Let_def tw assms caip2_namespace_char_def is_lower_def
        is_digit_def)
qed

lemma chain_id_new_wf:
  assumes "wf_chain_id c"
  shows "chain_id_new (namespace_to_string (namespace c)) (reference c) = Ok c"
proof (cases "namespace c")
  case Eip155
  with assms show ?thesis
    by (simp add: wf_chain_id_def chain_id_new_def parse_ethereum_chain_id_def parse_u32_of_digits)
next
  case MoneroNs
  with assms have "length (reference c) = 32" "list_all is_hex_lower (reference c)"
    by (simp_all add: wf_chain_id_def)
  with MoneroNs hex_not_network_name [of "reference c"] monero_chain_id_match_hex show ?thesis
    by (auto simp: chain_id_new_def)
qed

lemma chain_id_print_parse:
  assumes "wf_chain_id c"
  shows "chain_id_from_str (chain_id_to_string c) = Ok c"
proof -
  from assms have "reference c \<noteq> [] \<and> length (reference c) \<le> 32 \<and> list_all caip2_reference_char (reference c)"
    by (auto simp: wf_chain_id_def list_all_iff is_digit_reference_char is_hex_lower_reference_char
        split: namespace.splits)
  then show ?thesis
    by (simp add: chain_id_from_str_def chain_id_to_string_def caip2_captures_printed
        chain_id_new_wf [OF assms] del: caip2_captures.simps)
qed

lemma chain_monero_network_inverse: "chain_monero_network (from_monero_network n) = Ok n"
  by (cases n) (simp_all add: chain_monero_network_def from_monero_network_def is_monero_def)

text \<open>The expression is not anchored: text after a complete identifier is ignored.\<close>

lemma caip2_captures_trailing:
  assumes "r \<noteq> []" and "length r \<le> 32" and "list_all caip2_reference_char r" and "\<not> caip2_reference_char x"
  shows "caip2_captures (namespace_to_string n @ CHR '':'' # r @ x # junk) = Some (namespace_to_string n, r)"
proof -
  have tw: "takeWhile caip2_reference_char (r @ x # junk) = r"
    using assms(3,4) by (simp add: takeWhile_append list_all_iff)
  show ?thesis
    using assms(1,2) tw
    by (cases n) (simp_all add: caip2_match_here_def Let_def caip2_namespace_char_def is_lower_def is_digit_def)
qed

lemma chain_id_trailing:
  assumes "wf_chain_id c" and "\<not> caip2_reference_char x"
  shows "chain_id_from_str (chain_id_to_string c @ x # junk) = Ok c"
proof -
  from assms(1) have "reference c \<noteq> [] \<and> length (reference c) \<le> 32 \<and> list_all caip2_reference_char (reference c)"
    by (auto simp: wf_chain_id_def list_all_iff is_digit_reference_char is_hex_lower_reference_char
        split: namespace.splits)
  with assms show ?thesis
    by (simp add: chain_id_from_str_def chain_id_to_string_def caip2_captures_trailing chain_id_new_wf)
qed

text \<open>Numbers as references: \<open>from_ethereum_chain_id\<close> takes a \<open>u64\<close>, the parser reads a \<open>u32\<close>.\<close>

lemma digits_val_snoc: "digits_val (ds @ [c]) = 10 * digits_val ds + digit_val c"
  by (simp add: digits_val_def)

lemma show_nat_digits: "list_all is_digit (show_nat n) \<and> digits_val (show_nat n) = n \<and> show_nat n \<noteq> []"
proof (induction n rule: show_nat.induct)
  case (1 n)
  have digit: "is_digit (char_of (48 + m))" "digit_val (char_of (48 + m)) = m" if "m < 10" for m :: nat
    using that by (simp_all add: is_digit_def digit_val_def)
  show ?case
  proof (cases "n < 10")
    case True
    then show ?thesis using digit [of n] digits_val_snoc [of "[]"] by (simp add: show_nat.simps [of n] digits_val_def)
  next
    case False
    with 1 digit [of "n mod 10"] show ?thesis by (simp add: show_nat.simps [of n] digits_val_snoc)
  qed
qed

lemma show_nat_length: "n < 10 ^ Suc k \<Longrightarrow> length (show_nat n) \<le> Suc k"
proof (induction k arbitrary: n)
  case 0
  then show ?case by (simp add: show_nat.simps [of n])
next
  case (Suc k)
  have "n div 10 < 10 ^ Suc k" using Suc.prems by (simp add: less_mult_imp_div_less mult.commute)
  with Suc.IH [of "n div 10"] show ?case by (simp add: show_nat.simps [of n])
qed

lemma ethereum_chain_id_print_parse:
  assumes "n < 2 ^ 64"
  shows "chain_id_from_str (chain_id_to_string (from_ethereum_chain_id n)) =
    (if n < 2 ^ 32 then Ok (from_ethereum_chain_id n) else Err (ChainIdError ''invalid EIP-155 chain ID''))"
proof -
  have digits: "list_all is_digit (show_nat n)" "digits_val (show_nat n) = n" "show_nat n \<noteq> []"
    using show_nat_digits by blast+
  have "length (show_nat n) \<le> 20" using show_nat_length [of n 19] assms by simp
  then have short: "length (show_nat n) \<le> 32" by simp
  have ref: "list_all caip2_reference_char (show_nat n)"
    using digits(1) is_digit_reference_char by (auto simp: list_all_iff)
  have "parse_u32 (show_nat n) = (if n < 2 ^ 32 then Some n else None)"
  proof (cases "n < 2 ^ 32")
    case True
    then show ?thesis using parse_u32_of_digits [OF digits(3,1)] digits(2) by simp
  next
    case False
    then show ?thesis using parse_u32_digits [OF ref] digits(2) by (cases "parse_u32 (show_nat n)") auto
  qed
  then show ?thesis
    using caip2_captures_printed [OF digits(3) short ref, of Eip155]
    by (simp add: chain_id_from_str_def chain_id_to_string_def from_ethereum_chain_id_def chain_id_new_def parse_ethereum_chain_id_def
        del: caip2_captures.simps)
qed

end
