(* ===== verification/IntEnums.thy ===== *)
theory IntEnums
  imports Prelude
begin

text \<open>
  Enumerations stored as \<open>SMALLINT\<close> columns. Every Rust enum of \<open>mitra_models\<close> that the
  macros \<open>int_enum_to_sql!\<close> and \<open>int_enum_from_sql!\<close> (\<open>database/int_enum.rs\<close>) register has a
  pair of conversions: \<open>From<T> for i16\<close> and \<open>TryFrom<i16> for T\<close>. The locale below is the
  contract the database layer relies on; each enum is an instance of it.
\<close>

section \<open>The contract of an integer enumeration\<close>

datatype database_type_error = DatabaseTypeError

locale int_enum =
  fixes to_i16 :: "'a \<Rightarrow> int"
    and try_from_i16 :: "int \<Rightarrow> (database_type_error, 'a) outcome"
  assumes decode_encode: "try_from_i16 (to_i16 x) = Ok x"
    and encode_decode: "try_from_i16 n = Ok x \<Longrightarrow> to_i16 x = n"
    and decode_total: "\<exists>x. try_from_i16 n = Ok x \<or> try_from_i16 n = Err DatabaseTypeError"
    and fits: "0 \<le> to_i16 x \<and> to_i16 x < 2 ^ 15"
begin

lemma to_i16_inj: "to_i16 x = to_i16 y \<longleftrightarrow> x = y"
  by (metis decode_encode outcome.inject(1))

lemma decode_iff: "try_from_i16 n = Ok x \<longleftrightarrow> n = to_i16 x"
  using decode_encode encode_decode by blast

lemma decode_fails_iff: "try_from_i16 n = Err DatabaseTypeError \<longleftrightarrow> n \<notin> range to_i16"
  by (metis decode_encode decode_total encode_decode outcome.distinct(1) rangeE rangeI)

lemma decode_never_panics: "try_from_i16 n \<noteq> Panic p"
  by (metis decode_total outcome.distinct(3) outcome.distinct(5))

text \<open>A column that holds encoded values only is read back without an error, row by row.\<close>

lemma decode_column: "try_map try_from_i16 (map to_i16 xs) = Ok xs"
  by (induction xs) (simp_all add: decode_encode)

end

section \<open>The enumerations\<close>

datatype relationship_type = RelFollow
  | RelFollowRequest
  | RelSubscription
  | RelHideReposts
  | RelHideReplies
  | RelMute
  | RelReject
  | RelGroupAdmin

definition relationship_type_to_i16 :: "relationship_type \<Rightarrow> int" where
  "relationship_type_to_i16 x = (case x of
      RelFollow \<Rightarrow> 1
    | RelFollowRequest \<Rightarrow> 2
    | RelSubscription \<Rightarrow> 3
    | RelHideReposts \<Rightarrow> 4
    | RelHideReplies \<Rightarrow> 5
    | RelMute \<Rightarrow> 6
    | RelReject \<Rightarrow> 7
    | RelGroupAdmin \<Rightarrow> 8)"

definition relationship_type_try_from_i16 :: "int \<Rightarrow> (database_type_error, relationship_type) outcome" where
  "relationship_type_try_from_i16 n =
     (if n = 1 then Ok RelFollow
      else if n = 2 then Ok RelFollowRequest
      else if n = 3 then Ok RelSubscription
      else if n = 4 then Ok RelHideReposts
      else if n = 5 then Ok RelHideReplies
      else if n = 6 then Ok RelMute
      else if n = 7 then Ok RelReject
      else if n = 8 then Ok RelGroupAdmin
      else Err DatabaseTypeError)"

interpretation relationship_type_enum: int_enum relationship_type_to_i16 relationship_type_try_from_i16
  by unfold_locales
    (auto simp: relationship_type_to_i16_def relationship_type_try_from_i16_def split: relationship_type.splits if_splits)

datatype follow_request_status = FrPending | FrAccepted | FrRejected

definition follow_request_status_to_i16 :: "follow_request_status \<Rightarrow> int" where
  "follow_request_status_to_i16 x = (case x of
      FrPending \<Rightarrow> 1
    | FrAccepted \<Rightarrow> 2
    | FrRejected \<Rightarrow> 3)"

definition follow_request_status_try_from_i16 :: "int \<Rightarrow> (database_type_error, follow_request_status) outcome" where
  "follow_request_status_try_from_i16 n =
     (if n = 1 then Ok FrPending
      else if n = 2 then Ok FrAccepted
      else if n = 3 then Ok FrRejected
      else Err DatabaseTypeError)"

interpretation follow_request_status_enum: int_enum follow_request_status_to_i16 follow_request_status_try_from_i16
  by unfold_locales
    (auto simp: follow_request_status_to_i16_def follow_request_status_try_from_i16_def split: follow_request_status.splits if_splits)

datatype invoice_status = Open
  | Paid
  | Forwarded
  | Timeout
  | Cancelled
  | Underpaid
  | Completed
  | Failed
  | Requested

definition invoice_status_to_i16 :: "invoice_status \<Rightarrow> int" where
  "invoice_status_to_i16 x = (case x of
      Open \<Rightarrow> 1
    | Paid \<Rightarrow> 2
    | Forwarded \<Rightarrow> 3
    | Timeout \<Rightarrow> 4
    | Cancelled \<Rightarrow> 5
    | Underpaid \<Rightarrow> 6
    | Completed \<Rightarrow> 7
    | Failed \<Rightarrow> 8
    | Requested \<Rightarrow> 9)"

definition invoice_status_try_from_i16 :: "int \<Rightarrow> (database_type_error, invoice_status) outcome" where
  "invoice_status_try_from_i16 n =
     (if n = 1 then Ok Open
      else if n = 2 then Ok Paid
      else if n = 3 then Ok Forwarded
      else if n = 4 then Ok Timeout
      else if n = 5 then Ok Cancelled
      else if n = 6 then Ok Underpaid
      else if n = 7 then Ok Completed
      else if n = 8 then Ok Failed
      else if n = 9 then Ok Requested
      else Err DatabaseTypeError)"

interpretation invoice_status_enum: int_enum invoice_status_to_i16 invoice_status_try_from_i16
  by unfold_locales
    (auto simp: invoice_status_to_i16_def invoice_status_try_from_i16_def split: invoice_status.splits if_splits)

datatype payment_type = Monero | MoneroLight

definition payment_type_to_i16 :: "payment_type \<Rightarrow> int" where
  "payment_type_to_i16 x = (case x of
      Monero \<Rightarrow> 1
    | MoneroLight \<Rightarrow> 2)"

definition payment_type_try_from_i16 :: "int \<Rightarrow> (database_type_error, payment_type) outcome" where
  "payment_type_try_from_i16 n =
     (if n = 1 then Ok Monero
      else if n = 2 then Ok MoneroLight
      else Err DatabaseTypeError)"

interpretation payment_type_enum: int_enum payment_type_to_i16 payment_type_try_from_i16
  by unfold_locales
    (auto simp: payment_type_to_i16_def payment_type_try_from_i16_def split: payment_type.splits if_splits)

datatype job_type = IncomingActivity | OutgoingActivity | MediaCleanup | DataImport | Fetcher

definition job_type_to_i16 :: "job_type \<Rightarrow> int" where
  "job_type_to_i16 x = (case x of
      IncomingActivity \<Rightarrow> 1
    | OutgoingActivity \<Rightarrow> 2
    | MediaCleanup \<Rightarrow> 3
    | DataImport \<Rightarrow> 4
    | Fetcher \<Rightarrow> 5)"

definition job_type_try_from_i16 :: "int \<Rightarrow> (database_type_error, job_type) outcome" where
  "job_type_try_from_i16 n =
     (if n = 1 then Ok IncomingActivity
      else if n = 2 then Ok OutgoingActivity
      else if n = 3 then Ok MediaCleanup
      else if n = 4 then Ok DataImport
      else if n = 5 then Ok Fetcher
      else Err DatabaseTypeError)"

interpretation job_type_enum: int_enum job_type_to_i16 job_type_try_from_i16
  by unfold_locales
    (auto simp: job_type_to_i16_def job_type_try_from_i16_def split: job_type.splits if_splits)

datatype job_status = Queued | Running

definition job_status_to_i16 :: "job_status \<Rightarrow> int" where
  "job_status_to_i16 x = (case x of
      Queued \<Rightarrow> 1
    | Running \<Rightarrow> 2)"

definition job_status_try_from_i16 :: "int \<Rightarrow> (database_type_error, job_status) outcome" where
  "job_status_try_from_i16 n =
     (if n = 1 then Ok Queued
      else if n = 2 then Ok Running
      else Err DatabaseTypeError)"

interpretation job_status_enum: int_enum job_status_to_i16 job_status_try_from_i16
  by unfold_locales
    (auto simp: job_status_to_i16_def job_status_try_from_i16_def split: job_status.splits if_splits)

datatype visibility = VisPublic | VisDirect | VisFollowers | VisSubscribers | VisConversation

definition visibility_to_i16 :: "visibility \<Rightarrow> int" where
  "visibility_to_i16 x = (case x of
      VisPublic \<Rightarrow> 1
    | VisDirect \<Rightarrow> 2
    | VisFollowers \<Rightarrow> 3
    | VisSubscribers \<Rightarrow> 4
    | VisConversation \<Rightarrow> 5)"

definition visibility_try_from_i16 :: "int \<Rightarrow> (database_type_error, visibility) outcome" where
  "visibility_try_from_i16 n =
     (if n = 1 then Ok VisPublic
      else if n = 2 then Ok VisDirect
      else if n = 3 then Ok VisFollowers
      else if n = 4 then Ok VisSubscribers
      else if n = 5 then Ok VisConversation
      else Err DatabaseTypeError)"

interpretation visibility_enum: int_enum visibility_to_i16 visibility_try_from_i16
  by unfold_locales
    (auto simp: visibility_to_i16_def visibility_try_from_i16_def split: visibility.splits if_splits)

datatype filter_action = FaRejectIncoming | FaRejectMediaAttachments | FaRejectProfileImages
  | FaRejectCustomEmojis | FaReject | FaMarkSensitive | FaRejectKeywords | FaProxyMedia

definition filter_action_to_i16 :: "filter_action \<Rightarrow> int" where
  "filter_action_to_i16 x = (case x of
      FaRejectIncoming \<Rightarrow> 1
    | FaRejectMediaAttachments \<Rightarrow> 2
    | FaRejectProfileImages \<Rightarrow> 3
    | FaRejectCustomEmojis \<Rightarrow> 4
    | FaReject \<Rightarrow> 5
    | FaMarkSensitive \<Rightarrow> 6
    | FaRejectKeywords \<Rightarrow> 7
    | FaProxyMedia \<Rightarrow> 8)"

definition filter_action_try_from_i16 :: "int \<Rightarrow> (database_type_error, filter_action) outcome" where
  "filter_action_try_from_i16 n =
     (if n = 1 then Ok FaRejectIncoming
      else if n = 2 then Ok FaRejectMediaAttachments
      else if n = 3 then Ok FaRejectProfileImages
      else if n = 4 then Ok FaRejectCustomEmojis
      else if n = 5 then Ok FaReject
      else if n = 6 then Ok FaMarkSensitive
      else if n = 7 then Ok FaRejectKeywords
      else if n = 8 then Ok FaProxyMedia
      else Err DatabaseTypeError)"

interpretation filter_action_enum: int_enum filter_action_to_i16 filter_action_try_from_i16
  by unfold_locales
    (auto simp: filter_action_to_i16_def filter_action_try_from_i16_def split: filter_action.splits if_splits)

datatype tracking_status = TrackFollow

definition tracking_status_to_i16 :: "tracking_status \<Rightarrow> int" where
  "tracking_status_to_i16 x = (case x of TrackFollow \<Rightarrow> 1)"

definition tracking_status_try_from_i16 :: "int \<Rightarrow> (database_type_error, tracking_status) outcome" where
  "tracking_status_try_from_i16 n = (if n = 1 then Ok TrackFollow else Err DatabaseTypeError)"

interpretation tracking_status_enum: int_enum tracking_status_to_i16 tracking_status_try_from_i16
  by unfold_locales
    (auto simp: tracking_status_to_i16_def tracking_status_try_from_i16_def split: tracking_status.splits if_splits)

datatype role = Guest | NormalUser | Admin | ReadOnlyUser

definition role_to_i16 :: "role \<Rightarrow> int" where
  "role_to_i16 x = (case x of
      Guest \<Rightarrow> 0
    | NormalUser \<Rightarrow> 1
    | Admin \<Rightarrow> 2
    | ReadOnlyUser \<Rightarrow> 3)"

definition role_try_from_i16 :: "int \<Rightarrow> (database_type_error, role) outcome" where
  "role_try_from_i16 n =
     (if n = 0 then Ok Guest
      else if n = 1 then Ok NormalUser
      else if n = 2 then Ok Admin
      else if n = 3 then Ok ReadOnlyUser
      else Err DatabaseTypeError)"

interpretation role_enum: int_enum role_to_i16 role_try_from_i16
  by unfold_locales
    (auto simp: role_to_i16_def role_try_from_i16_def split: role.splits if_splits)

datatype automated_account_type = AaApplication | AaRelay | AaAnonymous | AaGroup

definition automated_account_type_to_i16 :: "automated_account_type \<Rightarrow> int" where
  "automated_account_type_to_i16 x = (case x of
      AaApplication \<Rightarrow> 1
    | AaRelay \<Rightarrow> 2
    | AaAnonymous \<Rightarrow> 3
    | AaGroup \<Rightarrow> 4)"

definition automated_account_type_try_from_i16 :: "int \<Rightarrow> (database_type_error, automated_account_type) outcome" where
  "automated_account_type_try_from_i16 n =
     (if n = 1 then Ok AaApplication
      else if n = 2 then Ok AaRelay
      else if n = 3 then Ok AaAnonymous
      else if n = 4 then Ok AaGroup
      else Err DatabaseTypeError)"

interpretation automated_account_type_enum: int_enum automated_account_type_to_i16 automated_account_type_try_from_i16
  by unfold_locales
    (auto simp: automated_account_type_to_i16_def automated_account_type_try_from_i16_def split: automated_account_type.splits if_splits)

datatype actor_type = Person | Automated | Group

definition actor_type_to_i16 :: "actor_type \<Rightarrow> int" where
  "actor_type_to_i16 x = (case x of
      Person \<Rightarrow> 1
    | Automated \<Rightarrow> 2
    | Group \<Rightarrow> 3)"

definition actor_type_try_from_i16 :: "int \<Rightarrow> (database_type_error, actor_type) outcome" where
  "actor_type_try_from_i16 n =
     (if n = 1 then Ok Person
      else if n = 2 then Ok Automated
      else if n = 3 then Ok Group
      else Err DatabaseTypeError)"

interpretation actor_type_enum: int_enum actor_type_to_i16 actor_type_try_from_i16
  by unfold_locales
    (auto simp: actor_type_to_i16_def actor_type_try_from_i16_def split: actor_type.splits if_splits)

datatype mention_policy = MpNone | MpOnlyKnown | MpOnlyContacts

definition mention_policy_to_i16 :: "mention_policy \<Rightarrow> int" where
  "mention_policy_to_i16 x = (case x of
      MpNone \<Rightarrow> 0
    | MpOnlyKnown \<Rightarrow> 1
    | MpOnlyContacts \<Rightarrow> 2)"

definition mention_policy_try_from_i16 :: "int \<Rightarrow> (database_type_error, mention_policy) outcome" where
  "mention_policy_try_from_i16 n =
     (if n = 0 then Ok MpNone
      else if n = 1 then Ok MpOnlyKnown
      else if n = 2 then Ok MpOnlyContacts
      else Err DatabaseTypeError)"

interpretation mention_policy_enum: int_enum mention_policy_to_i16 mention_policy_try_from_i16
  by unfold_locales
    (auto simp: mention_policy_to_i16_def mention_policy_try_from_i16_def split: mention_policy.splits if_splits)

datatype option_payment_type = PtLink | PtMoneroSubscription | PtRemoteMoneroSubscription

definition option_payment_type_to_i16 :: "option_payment_type \<Rightarrow> int" where
  "option_payment_type_to_i16 x = (case x of
      PtLink \<Rightarrow> 1
    | PtMoneroSubscription \<Rightarrow> 3
    | PtRemoteMoneroSubscription \<Rightarrow> 4)"

definition option_payment_type_try_from_i16 :: "int \<Rightarrow> (database_type_error, option_payment_type) outcome" where
  "option_payment_type_try_from_i16 n =
     (if n = 1 then Ok PtLink
      else if n = 3 then Ok PtMoneroSubscription
      else if n = 4 then Ok PtRemoteMoneroSubscription
      else Err DatabaseTypeError)"

interpretation option_payment_type_enum: int_enum option_payment_type_to_i16 option_payment_type_try_from_i16
  by unfold_locales
    (auto simp: option_payment_type_to_i16_def option_payment_type_try_from_i16_def split: option_payment_type.splits if_splits)

section \<open>Event types\<close>

text \<open>\<open>EventType\<close> is the exception: \<open>SubscriptionStart\<close> still decodes from 8, and encoding it
  is \<open>unimplemented!\<close>, a panic.\<close>

datatype public_key_type = RsaPkcs1 | Ed25519Key

definition public_key_type_to_i16 :: "public_key_type \<Rightarrow> int" where
  "public_key_type_to_i16 x = (case x of
      RsaPkcs1 \<Rightarrow> 1
    | Ed25519Key \<Rightarrow> 2)"

definition public_key_type_try_from_i16 :: "int \<Rightarrow> (database_type_error, public_key_type) outcome" where
  "public_key_type_try_from_i16 n =
     (if n = 1 then Ok RsaPkcs1
      else if n = 2 then Ok Ed25519Key
      else Err DatabaseTypeError)"

interpretation public_key_type_enum: int_enum public_key_type_to_i16 public_key_type_try_from_i16
  by unfold_locales
    (auto simp: public_key_type_to_i16_def public_key_type_try_from_i16_def split: public_key_type.splits if_splits)

datatype identity_proof_type = LegacyEip191IdentityProof | LegacyMinisignIdentityProof | FepC390JcsBlake2Ed25519Proof | FepC390JcsEip191Proof | FepC390LegacyJcsEddsaProof | FepC390EddsaJcsProof

definition identity_proof_type_to_i16 :: "identity_proof_type \<Rightarrow> int" where
  "identity_proof_type_to_i16 x = (case x of
      LegacyEip191IdentityProof \<Rightarrow> 1
    | LegacyMinisignIdentityProof \<Rightarrow> 2
    | FepC390JcsBlake2Ed25519Proof \<Rightarrow> 3
    | FepC390JcsEip191Proof \<Rightarrow> 4
    | FepC390LegacyJcsEddsaProof \<Rightarrow> 5
    | FepC390EddsaJcsProof \<Rightarrow> 6)"

definition identity_proof_type_try_from_i16 :: "int \<Rightarrow> (database_type_error, identity_proof_type) outcome" where
  "identity_proof_type_try_from_i16 n =
     (if n = 1 then Ok LegacyEip191IdentityProof
      else if n = 2 then Ok LegacyMinisignIdentityProof
      else if n = 3 then Ok FepC390JcsBlake2Ed25519Proof
      else if n = 4 then Ok FepC390JcsEip191Proof
      else if n = 5 then Ok FepC390LegacyJcsEddsaProof
      else if n = 6 then Ok FepC390EddsaJcsProof
      else Err DatabaseTypeError)"

interpretation identity_proof_type_enum: int_enum identity_proof_type_to_i16 identity_proof_type_try_from_i16
  by unfold_locales
    (auto simp: identity_proof_type_to_i16_def identity_proof_type_try_from_i16_def split: identity_proof_type.splits if_splits)

datatype timeline = TlHome | TlNotifications

definition timeline_to_i16 :: "timeline \<Rightarrow> int" where
  "timeline_to_i16 x = (case x of
      TlHome \<Rightarrow> 1
    | TlNotifications \<Rightarrow> 2)"

definition timeline_try_from_i16 :: "int \<Rightarrow> (database_type_error, timeline) outcome" where
  "timeline_try_from_i16 n =
     (if n = 1 then Ok TlHome
      else if n = 2 then Ok TlNotifications
      else Err DatabaseTypeError)"

interpretation timeline_enum: int_enum timeline_to_i16 timeline_try_from_i16
  by unfold_locales
    (auto simp: timeline_to_i16_def timeline_try_from_i16_def split: timeline.splits if_splits)

datatype event_type = EvFollow
  | EvFollowRequest
  | EvReply
  | EvReaction
  | EvMention
  | EvRepost
  | EvSubscriberPayment
  | EvSubscriptionStart
  | EvSubscriptionExpiration
  | EvMove
  | EvSignUp
  | EvSubscriberLeaving

fun event_type_to_i16 :: "event_type \<Rightarrow> (database_type_error, int) outcome" where
  "event_type_to_i16 EvFollow = Ok 1"
| "event_type_to_i16 EvFollowRequest = Ok 2"
| "event_type_to_i16 EvReply = Ok 3"
| "event_type_to_i16 EvReaction = Ok 4"
| "event_type_to_i16 EvMention = Ok 5"
| "event_type_to_i16 EvRepost = Ok 6"
| "event_type_to_i16 EvSubscriberPayment = Ok 7"
| "event_type_to_i16 EvSubscriptionStart = Panic ''not implemented: not supported''"
| "event_type_to_i16 EvSubscriptionExpiration = Ok 9"
| "event_type_to_i16 EvMove = Ok 10"
| "event_type_to_i16 EvSignUp = Ok 11"
| "event_type_to_i16 EvSubscriberLeaving = Ok 12"

definition event_type_try_from_i16 :: "int \<Rightarrow> (database_type_error, event_type) outcome" where
  "event_type_try_from_i16 n =
     (if n = 1 then Ok EvFollow
      else if n = 2 then Ok EvFollowRequest
      else if n = 3 then Ok EvReply
      else if n = 4 then Ok EvReaction
      else if n = 5 then Ok EvMention
      else if n = 6 then Ok EvRepost
      else if n = 7 then Ok EvSubscriberPayment
      else if n = 8 then Ok EvSubscriptionStart
      else if n = 9 then Ok EvSubscriptionExpiration
      else if n = 10 then Ok EvMove
      else if n = 11 then Ok EvSignUp
      else if n = 12 then Ok EvSubscriberLeaving
      else Err DatabaseTypeError)"

lemma event_type_encode_decode:
  "event_type_to_i16 e = Ok n \<Longrightarrow> event_type_try_from_i16 n = Ok e"
  by (cases e) (auto simp: event_type_try_from_i16_def)

lemma event_type_encode_panics_iff:
  "(\<exists>p. event_type_to_i16 e = Panic p) \<longleftrightarrow> e = EvSubscriptionStart"
  by (cases e) simp_all

end
