(* ===== verification/Database.thy ===== *)
theory Database
  imports Caip2 IntEnums
begin

text \<open>
  The PostgreSQL database behind \<open>mitra_models\<close>: its errors (\<open>database/errors.rs\<close>), the rows of
  the tables the modelled queries touch (the \<open>FromSql\<close> structs of the \<open>types.rs\<close> files and
  \<open>migrations/schema.sql\<close>), the store as a record of tables, and transactions. A table is the
  list of its rows in insertion order; identity columns draw from sequences, which a rollback
  does not restore.
\<close>

section \<open>Errors\<close>

text \<open>The failures of a statement the modelled code can meet. \<open>RowCount\<close> is the driver's error
  for \<open>query_one\<close> or \<open>query_opt\<close> on an unexpected number of rows, \<open>FromSqlError\<close> that of \<open>try_get\<close> on a value of another type or a null.\<close>

datatype pg_error = UniqueViolation | CheckViolation | ForeignKeyViolation | NotNullViolation
  | NumericValueOutOfRange | RowCount | FromSqlError

datatype database_error = PoolError | QueryError | ClientError pg_error | TypeError
  | NotFound string | AlreadyExists string

definition catch_unique_violation :: "string \<Rightarrow> pg_error \<Rightarrow> database_error" where
  "catch_unique_violation object_type e =
     (if e = UniqueViolation then AlreadyExists object_type else ClientError e)"

section \<open>Rows\<close>

text \<open>\<open>serde_json::Value\<close>, with the integral numbers the modelled structs hold.\<close>

datatype json = JNull | JBool bool | JNumber int | JString string | JArray "json list"
  | JObject "(string \<times> json) list"

record partial_file_info =
  pf_file_name :: string
  pf_file_size :: "nat option" \<comment> \<open>\<open>usize\<close>\<close>
  pf_digest :: "string option"
  pf_media_type :: "string option"

datatype partial_media_info = PmFile partial_file_info "string option" | PmLink string string

fun pm_is_file :: "partial_media_info \<Rightarrow> bool" where
  "pm_is_file (PmFile _ _) = True"
| "pm_is_file (PmLink _ _) = False"

record db_actor_key =
  dk_id :: string
  dk_key_type :: public_key_type
  dk_key_data :: string

record identity_proof =
  ip_issuer :: string \<comment> \<open>the printed form of the issuer's DID\<close>
  ip_proof_type :: identity_proof_type
  ip_value :: json

record monero_subscription =
  ms_chain_id :: chain_id
  ms_price :: nat \<comment> \<open>\<open>NonZeroU64\<close>: piconeros per second\<close>

record remote_monero_subscription =
  rms_chain_id :: chain_id
  rms_price :: nat
  rms_amount_min :: "nat option"
  rms_object_id :: string

datatype payment_option = OptLink string string
  | OptMoneroSubscription monero_subscription
  | OptRemoteMoneroSubscription remote_monero_subscription

record custom_emoji =
  em_id :: uuid
  em_name :: string
  em_hostname :: "string option"
  em_image :: partial_media_info
  em_category :: "string option"
  em_object_id :: "string option"
  em_updated_at :: datetime

record db_actor_public_key =
  apk_id :: string
  apk_owner :: string
  apk_public_key_pem :: string

record db_actor =
  da_object_type :: string
  da_id :: string
  da_inbox :: string
  da_shared_inbox :: "string option"
  da_outbox :: string
  da_followers :: "string option"
  da_subscribers :: "string option"
  da_featured :: "string option"
  da_url :: "string option"
  da_gateways :: "string list"
  da_public_key :: "db_actor_public_key option" \<comment> \<open>deprecated\<close>

record extra_field =
  ef_name :: string
  ef_value :: string
  ef_value_source :: "string option"

record actor_profile =
  p_id :: uuid
  p_user_id :: "uuid option"
  p_automated_account_id :: "uuid option"
  p_portable_user_id :: "uuid option"
  p_actor_type :: actor_type
  p_username :: string
  p_hostname :: "string option"
  p_webfinger_hostname :: "string option"
  p_display_name :: "string option"
  p_bio :: "string option"
  p_bio_source :: "string option"
  p_avatar :: "partial_media_info option"
  p_banner :: "partial_media_info option"
  p_manually_approves_followers :: bool
  p_mention_policy :: mention_policy
  p_public_keys :: "db_actor_key list"
  p_identity_proofs :: "identity_proof list"
  p_payment_options :: "payment_option list"
  p_extra_fields :: "extra_field list"
  p_aliases :: "string list"
  p_follower_count :: int
  p_following_count :: int
  p_subscriber_count :: int
  p_post_count :: int
  p_emojis :: "custom_emoji list"
  p_actor_json :: "db_actor option"
  p_identity_key :: "string option"
  p_created_at :: datetime
  p_updated_at :: datetime
  p_unreachable_since :: "datetime option"

record user_invite_code =
  ic_code :: string
  ic_used :: bool
  ic_note :: "string option"
  ic_created_at :: datetime

record shared_client_config =
  scc_default_post_visibility :: visibility
  scc_default_post_language :: "string option"

record user_account =
  u_id :: uuid
  u_password_digest :: "string option"
  u_login_address_ethereum :: "string option"
  u_login_address_monero :: "string option"
  u_rsa_private_key :: string
  u_ed25519_private_key :: string
  u_invite_code :: "string option"
  u_role :: role
  u_client_config :: "(string \<times> json) list" \<comment> \<open>a \<open>JSONB\<close> object: distinct keys\<close>
  u_shared_client_config :: shared_client_config
  u_created_at :: datetime

record automated_account =
  aa_id :: uuid
  aa_account_type :: automated_account_type
  aa_rsa_secret_key :: string
  aa_ed25519_secret_key :: string
  aa_created_at :: datetime

record portable_user_account =
  pua_id :: uuid
  pua_rsa_secret_key :: string
  pua_ed25519_secret_key :: string
  pua_invite_code :: "string option"
  pua_created_at :: datetime

record caip122_nonce =
  cn_account_id :: string
  cn_nonce :: string
  cn_created_at :: datetime

record oauth_app =
  oa_id :: int
  oa_app_name :: string
  oa_website :: "string option"
  oa_scopes :: "string list"
  oa_redirect_uri :: string
  oa_client_id :: uuid
  oa_client_secret :: string
  oa_created_at :: datetime

record oauth_authorization =
  oz_id :: int
  oz_code :: string
  oz_user_id :: uuid
  oz_application_id :: int
  oz_scopes :: string
  oz_created_at :: datetime
  oz_expires_at :: datetime

record oauth_token =
  ot_id :: int
  ot_owner_id :: uuid
  ot_application_id :: "int option"
  ot_token_digest :: string
  ot_created_at :: datetime
  ot_expires_at :: datetime

record profile_emoji =
  pfe_profile_id :: uuid
  pfe_emoji_id :: uuid

record timeline_marker =
  tm_id :: int
  tm_user_id :: uuid
  tm_timeline :: timeline
  tm_last_read_id :: string
  tm_updated_at :: datetime

record relationship =
  rel_id :: int
  rel_source_id :: uuid
  rel_target_id :: uuid
  rel_type :: relationship_type
  rel_created_at :: datetime

record follow_request =
  fr_id :: uuid
  fr_source_id :: uuid
  fr_target_id :: uuid
  fr_activity_id :: "string option"
  fr_status :: follow_request_status
  fr_has_deprecated_ap_id :: bool
  fr_created_at :: datetime

record notification =
  ntf_id :: int
  ntf_sender_id :: uuid
  ntf_recipient_id :: uuid
  ntf_post_id :: "uuid option"
  ntf_reaction_id :: "uuid option"
  ntf_invoice_id :: "uuid option"
  ntf_event_type :: event_type

record payment_method =
  pm_id :: int
  pm_owner_id :: uuid
  pm_payment_type :: payment_type
  pm_chain_id :: chain_id
  pm_payout_address :: string
  pm_view_key :: "string option"
  pm_created_at :: datetime
  pm_updated_at :: datetime

record invoice =
  inv_id :: uuid
  inv_sender_id :: uuid
  inv_recipient_id :: uuid
  inv_chain_id :: chain_id
  inv_amount :: int \<comment> \<open>\<open>i64\<close>\<close>
  inv_status :: invoice_status
  inv_payment_type :: "payment_type option"
  inv_payment_address :: "string option"
  inv_payout_tx_id :: "string option"
  inv_payout_amount :: "int option"
  inv_object_id :: "string option"
  inv_created_at :: datetime
  inv_updated_at :: datetime

record subscription =
  sub_id :: int
  sub_sender_id :: uuid
  sub_recipient_id :: uuid
  sub_expires_at :: datetime
  sub_updated_at :: datetime

record post =
  po_id :: uuid
  po_author_id :: uuid
  po_title :: "string option"
  po_content :: string
  po_content_source :: "string option"
  po_language :: "string option" \<comment> \<open>an ISO 639-3 code\<close>
  po_conversation_id :: "uuid option"
  po_in_reply_to_id :: "uuid option"
  po_repost_of_id :: "uuid option"
  po_repost_has_deprecated_ap_id :: bool
  po_group_id :: "uuid option"
  po_visibility :: visibility
  po_is_sensitive :: bool
  po_is_pinned :: bool
  po_reply_count :: int
  po_reaction_count :: int
  po_repost_count :: int
  po_url :: "string option"
  po_object_id :: "string option"
  po_ipfs_cid :: "string option"
  po_created_at :: datetime
  po_updated_at :: "datetime option"

record conversation =
  cv_id :: uuid
  cv_root_id :: uuid
  cv_group_id :: "uuid option"
  cv_is_managed :: bool
  cv_object_id :: "string option"
  cv_audience :: "string option"

record conversation_tracking =
  ct_id :: int
  ct_conversation_id :: uuid
  ct_account_id :: uuid
  ct_tracking_status :: tracking_status

record media_attachment =
  ma_id :: uuid
  ma_owner_id :: uuid
  ma_media :: partial_media_info
  ma_description :: "string option"
  ma_ipfs_cid :: "string option"
  ma_post_id :: "uuid option"
  ma_created_at :: datetime

record post_mention =
  mn_id :: int
  mn_post_id :: uuid
  mn_profile_id :: uuid

record tag =
  tg_id :: int
  tg_name :: string

record post_tag =
  pt_post_id :: uuid
  pt_tag_id :: int

record post_link =
  pl_source_id :: uuid
  pl_target_id :: uuid

record post_emoji =
  pe_post_id :: uuid
  pe_emoji_id :: uuid

record bookmark =
  bk_id :: int
  bk_owner_id :: uuid
  bk_post_id :: uuid

record custom_feed =
  cf_id :: int
  cf_owner_id :: uuid
  cf_feed_name :: string

record custom_feed_source =
  cs_feed_id :: int
  cs_source_id :: uuid

record filter_rule =
  fl_id :: int
  fl_target :: string
  fl_action :: filter_action
  fl_is_reversed :: bool

record reaction =
  re_id :: uuid
  re_author_id :: uuid
  re_post_id :: uuid
  re_content :: "string option"
  re_emoji_id :: "uuid option"
  re_visibility :: visibility
  re_activity_id :: "string option"
  re_has_deprecated_ap_id :: bool
  re_created_at :: datetime

record poll_result =
  pr_option_name :: string
  pr_vote_count :: nat \<comment> \<open>\<open>u32\<close>\<close>

record poll =
  poll_id :: uuid
  poll_multiple_choices :: bool
  poll_ends_at :: "datetime option"
  poll_results :: "poll_result list"
  poll_voters_count :: "int option"

record poll_vote =
  pv_id :: uuid
  pv_poll_id :: uuid
  pv_voter_id :: uuid
  pv_choice :: string
  pv_object_id :: "string option"

record background_job =
  bj_id :: uuid
  bj_job_type :: job_type
  bj_job_data :: json
  bj_job_status :: job_status
  bj_scheduled_for :: datetime
  bj_updated_at :: datetime

record activitypub_object =
  ao_object_id :: string
  ao_object_data :: json
  ao_profile_id :: "uuid option"
  ao_post_id :: "uuid option"
  ao_created_at :: datetime

record collection_item =
  ci_owner_id :: uuid
  ci_collection_id :: string
  ci_object_id :: string
  ci_relationship_id :: "int option"

record activitypub_media =
  am_owner_id :: uuid
  am_media :: partial_media_info

section \<open>The store\<close>

record sequences =
  relationship_seq :: int
  notification_seq :: int
  subscription_seq :: int
  payment_method_seq :: int
  mention_seq :: int
  tag_seq :: int
  tracking_seq :: int
  bookmark_seq :: int
  filter_rule_seq :: int
  oauth_application_seq :: int
  oauth_authorization_seq :: int
  oauth_token_seq :: int
  marker_seq :: int
  custom_feed_seq :: int

record database =
  current_timestamp :: datetime
  seqs :: sequences
  actor_profiles :: "actor_profile list"
  user_accounts :: "user_account list"
  automated_accounts :: "automated_account list"
  relationships :: "relationship list"
  follow_requests :: "follow_request list"
  notifications :: "notification list"
  payment_methods :: "payment_method list"
  invoices :: "invoice list"
  subscriptions :: "subscription list"
  posts :: "post list"
  reactions :: "reaction list"
  polls :: "poll list"
  poll_votes :: "poll_vote list"
  background_jobs :: "background_job list"
  activitypub_objects :: "activitypub_object list"
  emojis :: "custom_emoji list"
  conversations :: "conversation list"
  conversation_trackings :: "conversation_tracking list"
  media_attachments :: "media_attachment list"
  post_mentions :: "post_mention list"
  tags :: "tag list"
  post_tags :: "post_tag list"
  post_links :: "post_link list"
  post_emojis :: "post_emoji list"
  bookmarks :: "bookmark list"
  custom_feeds :: "custom_feed list"
  custom_feed_sources :: "custom_feed_source list"
  filter_rules :: "filter_rule list"
  collection_items :: "collection_item list"
  activitypub_medias :: "activitypub_media list"
  instances :: "string list"
  user_invite_codes :: "user_invite_code list"
  portable_user_accounts :: "portable_user_account list"
  profile_emojis :: "profile_emoji list"
  caip122_nonces :: "caip122_nonce list"
  oauth_applications :: "oauth_app list"
  oauth_authorizations :: "oauth_authorization list"
  oauth_tokens :: "oauth_token list"
  timeline_markers :: "timeline_marker list"
  internal_properties :: "(string \<times> json) list"

type_synonym 'a stmt = "(database, pg_error, 'a) prog"
type_synonym 'a db = "(database, database_error, 'a) prog"

type_synonym 'r db_op = "database \<Rightarrow> 'r \<times> database"

text \<open>\<open>.await?\<close> on a statement: the driver's error becomes \<open>DatabaseError::ClientError\<close>.\<close>

definition run :: "'a stmt \<Rightarrow> 'a db" where
  "run m = map_err_p ClientError m"

definition type_check :: "(database_type_error, 'a) outcome \<Rightarrow> 'a db" where
  "type_check r = lift (map_err (\<lambda>_. TypeError) r)"

fun query_opt :: "'r list \<Rightarrow> (pg_error, 'r option) outcome" where
  "query_opt [] = Ok None"
| "query_opt [r] = Ok (Some r)"
| "query_opt _ = Err RowCount"

fun query_one :: "'r list \<Rightarrow> (pg_error, 'r) outcome" where
  "query_one [r] = Ok r"
| "query_one _ = Err RowCount"

definition select_opt :: "(database \<Rightarrow> 'r list) \<Rightarrow> 'r option db" where
  "select_opt q = bnd (gets q) (\<lambda>rows. run (lift (query_opt rows)))"

text \<open>\<open>maybe_row.ok_or(DatabaseError::NotFound(object_type))\<close> after \<open>query_opt\<close>.\<close>

definition select_or_not_found :: "string \<Rightarrow> (database \<Rightarrow> 'r list) \<Rightarrow> 'r db" where
  "select_or_not_found object_type q =
     bnd (select_opt q) (\<lambda>row. lift (ok_or (NotFound object_type) row))"

subsection \<open>Transactions\<close>

text \<open>An error or a panic drops the transaction, which rolls the tables back; sequence values
  that were drawn stay drawn.\<close>

definition rollback :: "database \<Rightarrow> database \<Rightarrow> database" where
  "rollback before after = before\<lparr>seqs := seqs after\<rparr>"

definition transaction :: "'a db \<Rightarrow> 'a db" where
  "transaction m s = (case m s of
      (Ok a, t) \<Rightarrow> (Ok a, t)
    | (Err e, t) \<Rightarrow> (Err e, rollback s t)
    | (Panic p, t) \<Rightarrow> (Panic p, rollback s t))"

definition same_tables :: "database \<Rightarrow> database \<Rightarrow> bool" where
  "same_tables s t \<longleftrightarrow> t = s\<lparr>seqs := seqs t\<rparr>"

lemma run_Ok [ok_runs]: "run m s = (Ok a, t) \<longleftrightarrow> m s = (Ok a, t)"
  by (simp add: run_def map_err_p_Ok)

lemma type_check_Ok [ok_runs]: "type_check r s = (Ok a, t) \<longleftrightarrow> r = Ok a \<and> t = s"
  by (simp add: type_check_def lift_Ok map_err_Ok)

lemma transaction_Ok [ok_runs]: "transaction m s = (Ok a, t) \<longleftrightarrow> m s = (Ok a, t)"
  by (auto simp: transaction_def split: prod.splits outcome.splits)

lemma query_opt_Ok [ok_runs]:
  "query_opt rows = Ok x \<longleftrightarrow> (rows = [] \<and> x = None) \<or> (\<exists>r. rows = [r] \<and> x = Some r)"
  by (induction rows rule: query_opt.induct) auto

lemma query_one_Ok [ok_runs]: "query_one rows = Ok x \<longleftrightarrow> rows = [x]"
  by (induction rows rule: query_one.induct) auto

lemma select_opt_Ok [ok_runs]:
  "select_opt q s = (Ok x, t) \<longleftrightarrow> t = s \<and> query_opt (q s) = Ok x"
  by (auto simp: select_opt_def bnd_Ok gets_Ok run_Ok lift_Ok)

lemma select_or_not_found_Ok [ok_runs]:
  "select_or_not_found ty q s = (Ok x, t) \<longleftrightarrow> t = s \<and> q s = [x]"
  by (auto simp: select_or_not_found_def bnd_Ok select_opt_Ok lift_Ok ok_or_Ok query_opt_Ok)

lemma select_or_not_found_run:
  "select_or_not_found ty q s =
     (case q s of [] \<Rightarrow> (Err (NotFound ty), s) | [r] \<Rightarrow> (Ok r, s) | _ \<Rightarrow> (Err (ClientError RowCount), s))"
  by (auto simp: select_or_not_found_def select_opt_def run_def prog_defs split: list.splits)

lemma reads_only_select [simp]: "reads_only (select_opt q)" "reads_only (select_or_not_found ty q)"
  by (auto simp: reads_only_def select_or_not_found_def select_opt_def run_def prog_defs
      split: outcome.splits)

lemma reads_only_run_lift [simp]: "reads_only (run (lift r))"
  by (simp add: reads_only_def run_def prog_defs)

lemma same_tables_refl [simp]: "same_tables s s"
  by (simp add: same_tables_def)

lemma transaction_fails:
  assumes "transaction m s = (r, t)" and "\<not> is_ok r"
  shows "same_tables s t"
  using assms by (auto simp: transaction_def rollback_def same_tables_def split: prod.splits outcome.splits)

text \<open>An operation is atomic when an error or a panic leaves every table as it was. An invariant
  that does not speak about sequences survives an atomic operation as soon as the successful
  runs keep it.\<close>

definition atomic :: "('e, 'a) outcome db_op \<Rightarrow> bool" where
  "atomic f \<longleftrightarrow> (\<forall>s. \<not> is_ok (fst (f s)) \<longrightarrow> same_tables s (snd (f s)))"

lemma atomic_transaction [simp]: "atomic (transaction m)"
  unfolding atomic_def by (metis prod.collapse transaction_fails)

lemma atomicD: "atomic f \<Longrightarrow> f s = (r, t) \<Longrightarrow> \<not> is_ok r \<Longrightarrow> t = s\<lparr>seqs := seqs t\<rparr>"
  unfolding atomic_def same_tables_def by (metis fst_conv snd_conv)

lemma atomic_checked [simp]: "atomic (seq (type_check r) (transaction m))"
proof (cases r)
  case (Ok x)
  then have "seq (type_check r) (transaction m) = transaction m" by (simp add: fun_eq_iff seq_def bnd_def type_check_def lift_def)
  then show ?thesis by simp
qed (simp_all add: atomic_def seq_def bnd_def type_check_def lift_def)

text \<open>A property of the tables survives a failed atomic operation.\<close>

lemma atomic_fails:
  assumes "atomic f" and "\<not> is_ok (fst (f s))" and "\<And>q. P (s\<lparr>seqs := q\<rparr>) = P s" and "P s"
  shows "P (snd (f s))"
  using assms unfolding atomic_def same_tables_def by metis

lemma reads_only_atomic: "reads_only f \<Longrightarrow> atomic f"
  by (simp add: reads_only_def atomic_def)

lemma preserves_atomic:
  assumes "atomic f"
    and "\<And>s a t. I s \<Longrightarrow> f s = (Ok a, t) \<Longrightarrow> I t"
    and "\<And>s q. I s \<Longrightarrow> I (s\<lparr>seqs := q\<rparr>)"
  shows "preserves I f"
proof (rule preservesI)
  fix s assume s: "I s"
  obtain r t where run: "f s = (r, t)" by fastforce
  show "I (snd (f s))"
  proof (cases r)
    case (Ok a)
    with run assms(2) [OF s] show ?thesis by simp
  qed (use run assms(3) [OF s] atomicD [OF assms(1) run] in \<open>metis is_ok.simps snd_conv\<close>)+
qed

lemma preserves_run [preserves_rules]: "preserves I m \<Longrightarrow> preserves I (run m)"
  by (simp add: run_def preserves_map_err_p)

lemma preserves_transaction:
  assumes "preserves I m" and "\<And>s q. I s \<Longrightarrow> I (s\<lparr>seqs := q\<rparr>)"
  shows "preserves I (transaction m)"
proof (rule preservesI)
  fix s assume s: "I s"
  obtain r t where run: "m s = (r, t)" by fastforce
  with assms(1) s have "I t" by (blast dest: preservesD)
  with run assms(2) [OF s] show "I (snd (transaction m s))"
    by (cases r) (simp_all add: transaction_def rollback_def)
qed

lemma preserves_type_check [preserves_rules, simp]: "preserves I (type_check r)"
  by (simp add: type_check_def)

lemma preserves_select [preserves_rules, simp]:
  "preserves I (select_opt q)" "preserves I (select_or_not_found ty q)"
  by (simp_all add: reads_only_preserves)

end
