(* ===== verification/Counters.thy ===== *)
theory Counters
  imports Prelude
begin

text \<open>
  Denormalised counters. Several tables keep, in a parent row, the number of child rows that
  refer to it: \<open>actor_profile.follower_count\<close>, \<open>following_count\<close> and \<open>subscriber_count\<close> count rows
  of \<open>relationship\<close>, \<open>post.reaction_count\<close> counts rows of \<open>post_reaction\<close>. The code keeps them up
  to date by hand, in the same transaction as the insertion or deletion of the child. The locale
  is the contract of such a counter column; its lemmas say when the pair of updates is balanced.
\<close>

definition counted_by ::
  "('p \<Rightarrow> uuid) \<Rightarrow> ('p \<Rightarrow> int) \<Rightarrow> ('c \<Rightarrow> uuid option) \<Rightarrow> 'p list \<Rightarrow> 'c list \<Rightarrow> bool" where
  "counted_by key cnt refs ps cs \<longleftrightarrow>
     (\<forall>p \<in> set ps. cnt p = count_where (\<lambda>c. refs c = Some (key p)) cs)"

lemma counted_byD:
  "counted_by key cnt refs ps cs \<Longrightarrow> p \<in> set ps \<Longrightarrow>
     cnt p = count_where (\<lambda>c. refs c = Some (key p)) cs"
  by (simp add: counted_by_def)

lemma counted_byI:
  "(\<And>p. p \<in> set ps \<Longrightarrow> cnt p = count_where (\<lambda>c. refs c = Some (key p)) cs) \<Longrightarrow>
     counted_by key cnt refs ps cs"
  by (simp add: counted_by_def)

locale counter_column =
  fixes key :: "'p \<Rightarrow> uuid"
    and cnt :: "'p \<Rightarrow> int"
    and add :: "int \<Rightarrow> 'p \<Rightarrow> 'p"
    and refs :: "'c \<Rightarrow> uuid option"
  assumes key_add: "key (add d p) = key p"
    and cnt_add: "cnt (add d p) = cnt p + d"
begin

lemma counted_cong:
  assumes "map (\<lambda>p. (key p, cnt p)) ps' = map (\<lambda>p. (key p, cnt p)) ps"
  shows "counted_by key cnt refs ps' cs = counted_by key cnt refs ps cs"
proof -
  have "(\<lambda>p. (key p, cnt p)) ` set ps' = (\<lambda>p. (key p, cnt p)) ` set ps"
    using assms by (metis image_set)
  moreover have "counted_by key cnt refs qs cs \<longleftrightarrow>
      (\<forall>(k, n) \<in> (\<lambda>p. (key p, cnt p)) ` set qs. n = count_where (\<lambda>c. refs c = Some k) cs)" for qs
    by (auto simp: counted_by_def)
  ultimately show ?thesis by (simp only:)
qed

text \<open>The counter of one key moves with the number of its children; the others stay.\<close>

lemma counted_shift:
  assumes ok: "counted_by key cnt refs ps cs"
    and hit: "count_where (\<lambda>c. refs c = Some k) cs' = count_where (\<lambda>c. refs c = Some k) cs + d"
    and miss: "\<And>k'. k' \<noteq> k \<Longrightarrow> k' \<in> key ` set ps \<Longrightarrow>
      count_where (\<lambda>c. refs c = Some k') cs' = count_where (\<lambda>c. refs c = Some k') cs"
  shows "counted_by key cnt refs (update_where (\<lambda>p. key p = k) (add d) ps) cs'"
proof (rule counted_byI)
  fix p' assume "p' \<in> set (update_where (\<lambda>p. key p = k) (add d) ps)"
  then obtain p where p: "p \<in> set ps" "p' = (if key p = k then add d p else p)"
    by (auto simp: set_update_where)
  note counted_byD [OF ok p(1)]
  with p hit miss [of "key p"] show "cnt p' = count_where (\<lambda>c. refs c = Some (key p')) cs'"
    by (cases "key p = k") (simp_all add: key_add cnt_add)
qed

lemma counted_insert:
  assumes "counted_by key cnt refs ps cs" and "refs c = Some k"
  shows "counted_by key cnt refs (update_where (\<lambda>p. key p = k) (add 1) ps) (cs @ [c])"
  by (rule counted_shift [OF assms(1)]) (simp_all add: assms(2))

lemma counted_insert_other:
  assumes "counted_by key cnt refs ps cs" and "refs c = None"
  shows "counted_by key cnt refs ps (cs @ [c])"
  using assms by (simp add: counted_by_def)

lemma counted_insert_absent:
  assumes "counted_by key cnt refs ps cs" and "refs c = Some k" and "k \<notin> key ` set ps"
  shows "counted_by key cnt refs ps (cs @ [c])"
  using assms by (auto simp: counted_by_def)

lemma counted_delete_other:
  assumes "counted_by key cnt refs ps cs" and "\<And>c. c \<in> set cs \<Longrightarrow> Q c \<Longrightarrow> refs c = None"
  shows "counted_by key cnt refs ps (delete_where Q cs)"
  using assms by (auto simp: counted_by_def count_where_delete_disjoint)

text \<open>Deleting the children selected by \<open>Q\<close>, all of which refer to \<open>k\<close>, and lowering the counter
  of \<open>k\<close> by their number.\<close>

lemma counted_delete:
  assumes ok: "counted_by key cnt refs ps cs"
    and refs: "\<And>c. c \<in> set cs \<Longrightarrow> Q c \<Longrightarrow> refs c = Some k"
  shows "counted_by key cnt refs (update_where (\<lambda>p. key p = k) (add (- count_where Q cs)) ps)
           (delete_where Q cs)"
proof -
  have "count_where (\<lambda>c. refs c = Some k \<and> Q c) cs = count_where Q cs"
    by (rule count_where_cong) (use refs in blast)
  then have hit: "count_where (\<lambda>c. refs c = Some k) (delete_where Q cs)
      = count_where (\<lambda>c. refs c = Some k) cs + (- count_where Q cs)"
    using count_where_split [of "\<lambda>c. refs c = Some k" cs Q] by (simp add: count_where_delete)
  have miss: "count_where (\<lambda>c. refs c = Some k') (delete_where Q cs) = count_where (\<lambda>c. refs c = Some k') cs"
    if "k' \<noteq> k" for k'
    by (rule count_where_delete_disjoint) (use refs that in fastforce)
  show ?thesis by (rule counted_shift [OF ok hit miss])
qed

lemma counted_delete_one:
  assumes ok: "counted_by key cnt refs ps cs"
    and refs: "\<And>c. c \<in> set cs \<Longrightarrow> Q c \<Longrightarrow> refs c = Some k"
    and one: "count_where Q cs = 1"
  shows "counted_by key cnt refs (update_where (\<lambda>p. key p = k) (add (- 1)) ps) (delete_where Q cs)"
  using counted_delete [where Q = Q and k = k, OF ok refs] by (simp add: one)

text \<open>The counter of a stored parent is never negative, and lowering it for a child that exists
  keeps it so: the \<open>CHECK\<close> constraint of the column cannot fail.\<close>

lemma counted_lower_nonneg:
  assumes "counted_by key cnt refs ps cs" and "p \<in> set ps"
    and "c \<in> set cs" and "refs c = Some (key p)"
  shows "0 \<le> cnt p - 1"
proof -
  have "count_where (\<lambda>c. refs c = Some (key p)) cs \<noteq> 0"
    using assms(3,4) by (auto simp: count_where_zero)
  then show ?thesis
    using counted_byD [OF assms(1,2)] count_where_nonneg [of "\<lambda>c. refs c = Some (key p)" cs]
    by linarith
qed

end

end
