(* ===== verification/Profiles.thy ===== *)
theory Profiles
  imports Database Counters
begin

text \<open>
  Actor profiles (\<open>mitra_models/src/profiles\<close>): the consistency check every row passes when it is
  read (\<open>types.rs\<close>, \<open>checks.rs\<close>), the lookups, and the counter updates of \<open>queries.rs\<close>. User
  accounts (\<open>accounts\<close>) are read through \<open>User::new\<close>.
\<close>

section \<open>Code outside the model\<close>

text \<open>Key and URI parsing belongs to cryptography and URI crates; the model takes the results it
  uses as functions.\<close>

record externals =
  ap_uri_parses :: "string \<Rightarrow> bool" \<comment> \<open>\<open>ApUri::parse(s).is_ok()\<close>\<close>
  rsa_pem_parses :: "string \<Rightarrow> bool" \<comment> \<open>\<open>rsa_secret_key_from_pkcs8_pem(s).is_ok()\<close>\<close>
  rsa_der_parses :: "string \<Rightarrow> bool" \<comment> \<open>\<open>rsa_secret_key_from_pkcs1_der(s).is_ok()\<close>\<close>
  rsa_to_pkcs1_der :: "string \<Rightarrow> string option" \<comment> \<open>\<open>rsa_secret_key_to_pkcs1_der(key).ok()\<close>\<close>
  ed25519_bytes_parse :: "string \<Rightarrow> bool" \<comment> \<open>\<open>ed25519_secret_key_from_bytes(s).is_ok()\<close>\<close>
  identity_key_of :: "string \<Rightarrow> string" \<comment> \<open>\<open>get_identity_key\<close> of the parsed key\<close>

section \<open>Profile predicates\<close>

definition is_ap_uri :: "string \<Rightarrow> bool" where
  "is_ap_uri uri \<longleftrightarrow> take 5 uri = ''ap://''"

definition actor_is_portable :: "db_actor \<Rightarrow> bool" where
  "actor_is_portable a \<longleftrightarrow> is_ap_uri (da_id a)"

definition has_user_account :: "actor_profile \<Rightarrow> bool" where
  "has_user_account p \<longleftrightarrow> p_user_id p \<noteq> None"

definition has_automated_account :: "actor_profile \<Rightarrow> bool" where
  "has_automated_account p \<longleftrightarrow> p_automated_account_id p \<noteq> None"

definition has_portable_account :: "actor_profile \<Rightarrow> bool" where
  "has_portable_account p \<longleftrightarrow> p_portable_user_id p \<noteq> None"

definition has_account :: "actor_profile \<Rightarrow> bool" where
  "has_account p \<longleftrightarrow> has_user_account p \<or> has_automated_account p \<or> has_portable_account p"

definition profile_is_local :: "actor_profile \<Rightarrow> bool" where
  "profile_is_local p \<longleftrightarrow> p_actor_json p = None"

definition is_portable :: "actor_profile \<Rightarrow> bool" where
  "is_portable p \<longleftrightarrow> (case p_actor_json p of Some a \<Rightarrow> actor_is_portable a | None \<Rightarrow> False)"

definition is_group :: "actor_profile \<Rightarrow> bool" where
  "is_group p \<longleftrightarrow> p_actor_type p = Group"

definition is_anonymous :: "actor_profile \<Rightarrow> bool" where
  "is_anonymous p \<longleftrightarrow> p_automated_account_id p \<noteq> None \<and> p_username p = ''anonymous''"

text \<open>The generated column \<open>acct\<close> of \<open>actor_profile\<close> (\<open>schema.sql\<close>).\<close>

definition acct :: "actor_profile \<Rightarrow> string option" where
  "acct p = (case p_webfinger_hostname p of
      Some h \<Rightarrow> Some (p_username p @ ''@'' @ h)
    | None \<Rightarrow> if p_user_id p \<noteq> None \<or> p_portable_user_id p \<noteq> None \<or> p_automated_account_id p \<noteq> None
              then Some (p_username p) else None)"

datatype webfinger_hostname = WfLocal | WfRemote string | WfUnknown

definition profile_webfinger_hostname :: "actor_profile \<Rightarrow> webfinger_hostname" where
  "profile_webfinger_hostname p = (case p_webfinger_hostname p of
      Some h \<Rightarrow> WfRemote h
    | None \<Rightarrow> if has_account p then WfLocal else WfUnknown)"

section \<open>Consistency checks\<close>

datatype origin = OriginLocal | OriginRemote

definition check_public_keys ::
  "db_actor_key list \<Rightarrow> origin \<Rightarrow> (database_type_error, unit) outcome" where
  "check_public_keys keys org =
     (if org = OriginRemote \<and> \<not> distinct (map dk_id keys) then Err DatabaseTypeError
      else if org = OriginLocal \<and> keys \<noteq> [] then Err DatabaseTypeError
      else Ok ())"

definition check_identity_proofs :: "identity_proof list \<Rightarrow> (database_type_error, unit) outcome" where
  "check_identity_proofs proofs =
     (if \<not> distinct (map ip_issuer proofs) then Err DatabaseTypeError else Ok ())"

fun payment_option_type :: "payment_option \<Rightarrow> option_payment_type" where
  "payment_option_type (OptLink _ _) = PtLink"
| "payment_option_type (OptMoneroSubscription _) = PtMoneroSubscription"
| "payment_option_type (OptRemoteMoneroSubscription _) = PtRemoteMoneroSubscription"

fun option_chain_id :: "payment_option \<Rightarrow> chain_id option" where
  "option_chain_id (OptLink _ _) = None"
| "option_chain_id (OptMoneroSubscription i) = Some (ms_chain_id i)"
| "option_chain_id (OptRemoteMoneroSubscription i) = Some (rms_chain_id i)"

fun option_check_chain_id :: "payment_option \<Rightarrow> (database_type_error, unit) outcome" where
  "option_check_chain_id (OptLink _ _) = Ok ()"
| "option_check_chain_id (OptMoneroSubscription i) =
     (if \<not> is_monero (ms_chain_id i) then Err DatabaseTypeError else Ok ())"
| "option_check_chain_id (OptRemoteMoneroSubscription i) =
     (if \<not> is_monero (rms_chain_id i) then Err DatabaseTypeError else Ok ())"

definition check_payment_options ::
  "payment_option list \<Rightarrow> origin \<Rightarrow> (database_type_error, unit) outcome" where
  "check_payment_options options org =
     (if org = OriginLocal \<and>
         list_ex (\<lambda>opt. payment_option_type opt \<in> {PtLink, PtRemoteMoneroSubscription}) options
      then Err DatabaseTypeError
      else if org = OriginRemote \<and> list_ex (\<lambda>opt. payment_option_type opt = PtMoneroSubscription) options
      then Err DatabaseTypeError
      else obind (try_map option_check_chain_id options) (\<lambda>_.
        if \<not> distinct (map option_payment_type_to_i16
                (filter (\<lambda>t. t \<noteq> PtLink) (map payment_option_type options)))
        then Err DatabaseTypeError
        else if \<not> distinct (map chain_id_to_string (List.map_filter option_chain_id options))
        then Err DatabaseTypeError
        else Ok ()))"

definition actor_check_consistency :: "externals \<Rightarrow> db_actor \<Rightarrow> (database_type_error, unit) outcome" where
  "actor_check_consistency X a =
     (if actor_is_portable a then
        (if \<not> ap_uri_parses X (da_id a) then Err DatabaseTypeError
         else if da_gateways a = [] then Err DatabaseTypeError
         else Ok ())
      else Ok ())"

definition check_accounts :: "actor_profile \<Rightarrow> (database_type_error, unit) outcome" where
  "check_accounts p =
     (if p_user_id p \<noteq> None \<and> (p_automated_account_id p \<noteq> None \<or> p_portable_user_id p \<noteq> None)
      then Err DatabaseTypeError
      else if p_user_id p \<noteq> None \<and> p_actor_json p \<noteq> None then Err DatabaseTypeError
      else if p_automated_account_id p \<noteq> None \<and> (p_user_id p \<noteq> None \<or> p_portable_user_id p \<noteq> None)
      then Err DatabaseTypeError
      else if p_automated_account_id p \<noteq> None \<and> p_actor_json p \<noteq> None then Err DatabaseTypeError
      else if p_portable_user_id p \<noteq> None \<and> (p_user_id p \<noteq> None \<or> p_automated_account_id p \<noteq> None)
      then Err DatabaseTypeError
      else if p_portable_user_id p \<noteq> None \<and> (p_actor_json p = None \<or> \<not> is_portable p)
      then Err DatabaseTypeError
      else Ok ())"

definition check_acct :: "actor_profile \<Rightarrow> (database_type_error, unit) outcome" where
  "check_acct p =
     (if (has_user_account p \<or> has_automated_account p) \<and> acct p \<noteq> Some (p_username p)
      then Err DatabaseTypeError
      else case profile_webfinger_hostname p of
        WfLocal \<Rightarrow> if acct p \<noteq> Some (p_username p) then Err DatabaseTypeError else Ok ()
      | WfRemote h \<Rightarrow>
          if acct p \<noteq> Some (p_username p @ ''@'' @ h) then Err DatabaseTypeError else Ok ()
      | WfUnknown \<Rightarrow> if acct p \<noteq> None then Err DatabaseTypeError else Ok ())"

definition check_local_media :: "actor_profile \<Rightarrow> (database_type_error, unit) outcome" where
  "check_local_media p =
     (if profile_is_local p \<and>
         ((case p_avatar p of Some m \<Rightarrow> \<not> pm_is_file m | None \<Rightarrow> False) \<or>
          (case p_banner p of Some m \<Rightarrow> \<not> pm_is_file m | None \<Rightarrow> False) \<or>
          \<not> list_all (\<lambda>e. pm_is_file (em_image e)) (p_emojis p))
      then Err DatabaseTypeError else Ok ())"

definition profile_check_consistency ::
  "externals \<Rightarrow> actor_profile \<Rightarrow> (database_type_error, unit) outcome" where
  "profile_check_consistency X p =
     obind (check_accounts p) (\<lambda>_.
     obind (check_acct p) (\<lambda>_.
     obind (case p_actor_json p of
              Some a \<Rightarrow> obind (actor_check_consistency X a) (\<lambda>_. Ok OriginRemote)
            | None \<Rightarrow> Ok OriginLocal) (\<lambda>org.
     obind (check_public_keys (p_public_keys p) org) (\<lambda>_.
     obind (check_identity_proofs (p_identity_proofs p)) (\<lambda>_.
     obind (check_payment_options (p_payment_options p) org) (\<lambda>_.
     obind (check_local_media p) (\<lambda>_.
     if p_actor_json p \<noteq> None \<and> p_identity_key p \<noteq> None then Err DatabaseTypeError else Ok ())))))))"

text \<open>\<open>TryFrom<&Row> for DbActorProfile\<close>.\<close>

definition profile_try_from :: "externals \<Rightarrow> actor_profile \<Rightarrow> actor_profile db" where
  "profile_try_from X p = seq (type_check (profile_check_consistency X p)) (ret p)"

definition profiles_try_from :: "externals \<Rightarrow> actor_profile list \<Rightarrow> actor_profile list db" where
  "profiles_try_from X ps =
     type_check (try_map (\<lambda>p. obind (profile_check_consistency X p) (\<lambda>_. Ok p)) ps)"

section \<open>Lookups\<close>

definition get_profile_by_id :: "externals \<Rightarrow> uuid \<Rightarrow> actor_profile db" where
  "get_profile_by_id X pid =
     bnd (select_or_not_found ''profile'' (\<lambda>s. filter (\<lambda>p. p_id p = pid) (actor_profiles s)))
       (profile_try_from X)"

definition get_remote_profile_by_actor_id :: "externals \<Rightarrow> string \<Rightarrow> actor_profile db" where
  "get_remote_profile_by_actor_id X aid =
     bnd (select_or_not_found ''profile''
            (\<lambda>s. filter (\<lambda>p. map_option da_id (p_actor_json p) = Some aid) (actor_profiles s)))
       (profile_try_from X)"

text \<open>\<open>find_subscription_option::<MoneroSubscription>\<close>, behind \<open>monero_subscription\<close>, which
  asserts that the chain is Monero.\<close>

fun as_monero_subscription :: "payment_option \<Rightarrow> monero_subscription option" where
  "as_monero_subscription (OptMoneroSubscription i) = Some i"
| "as_monero_subscription _ = None"

definition monero_subscription_of ::
  "actor_profile \<Rightarrow> chain_id \<Rightarrow> ('e, monero_subscription option) outcome" where
  "monero_subscription_of p c =
     (if \<not> is_monero c then Panic ''assertion failed: chain_id.is_monero()''
      else Ok (find (\<lambda>i. ms_chain_id i = c) (List.map_filter as_monero_subscription (p_payment_options p))))"

text \<open>A user joins the account row with the profile row; \<open>User::new\<close> checks both.\<close>

record user =
  user_id :: uuid
  user_password_digest :: "string option"
  user_login_address_ethereum :: "string option"
  user_login_address_monero :: "string option"
  user_rsa_secret_key :: string \<comment> \<open>the stored form, which parses\<close>
  user_ed25519_secret_key :: string
  user_role :: role
  user_client_config :: "(string \<times> json) list"
  user_shared_client_config :: shared_client_config
  user_profile :: actor_profile

definition user_new :: "externals \<Rightarrow> user_account \<Rightarrow> actor_profile \<Rightarrow> (database_type_error, user) outcome" where
  "user_new X u p =
     obind (profile_check_consistency X p) (\<lambda>_.
     if \<not> profile_is_local p then Err DatabaseTypeError
     else if u_id u \<noteq> p_id p then Err DatabaseTypeError
     else if p_user_id p \<noteq> Some (u_id u) then Err DatabaseTypeError
     else if \<not> rsa_pem_parses X (u_rsa_private_key u) then Err DatabaseTypeError
     else if \<not> ed25519_bytes_parse X (u_ed25519_private_key u) then Err DatabaseTypeError
     else if (case p_identity_key p of
                Some k \<Rightarrow> k \<noteq> identity_key_of X (u_ed25519_private_key u)
              | None \<Rightarrow> False) then Err DatabaseTypeError
     else Ok \<lparr>user_id = u_id u, user_password_digest = u_password_digest u,
       user_login_address_ethereum = u_login_address_ethereum u, user_login_address_monero = u_login_address_monero u,
       user_rsa_secret_key = u_rsa_private_key u, user_ed25519_secret_key = u_ed25519_private_key u,
       user_role = u_role u, user_client_config = u_client_config u,
       user_shared_client_config = u_shared_client_config u, user_profile = p\<rparr>)"

definition get_user_by_id :: "externals \<Rightarrow> uuid \<Rightarrow> user db" where
  "get_user_by_id X uid =
     bnd (select_or_not_found ''user''
            (\<lambda>s. [(u, p). u \<leftarrow> user_accounts s, p \<leftarrow> actor_profiles s, u_id u = p_id p \<and> u_id u = uid]))
       (\<lambda>(u, p). type_check (user_new X u p))"

definition get_users_by_role :: "role \<Rightarrow> uuid list db" where
  "get_users_by_role r =
     gets (\<lambda>s. [p_id p. u \<leftarrow> user_accounts s, p \<leftarrow> actor_profiles s, u_id u = p_id p \<and> u_role u = r])"

definition get_anonymous_system_account_id :: "uuid option db" where
  "get_anonymous_system_account_id =
     bnd (select_opt (\<lambda>s. filter (\<lambda>a. aa_account_type a = AaAnonymous) (automated_accounts s)))
       (\<lambda>row. ret (map_option aa_id row))"

section \<open>Counter updates\<close>

text \<open>\<open>UPDATE actor_profile SET c = c + $1 WHERE id = $2 RETURNING actor_profile\<close> on an
  \<open>INTEGER\<close> column with \<open>CHECK (c >= 0)\<close>.\<close>

definition update_profile_counter ::
  "externals \<Rightarrow> (actor_profile \<Rightarrow> int) \<Rightarrow> (int \<Rightarrow> actor_profile \<Rightarrow> actor_profile) \<Rightarrow> uuid \<Rightarrow> int \<Rightarrow>
   actor_profile db" where
  "update_profile_counter X cnt add pid change =
     bnd (gets (\<lambda>s. filter (\<lambda>p. p_id p = pid) (actor_profiles s))) (\<lambda>rows.
     if list_ex (\<lambda>p. cnt p + change \<ge> 2 ^ 31 \<or> cnt p + change < - (2 ^ 31)) rows
     then run (throw NumericValueOutOfRange)
     else if list_ex (\<lambda>p. cnt p + change < 0) rows then run (throw CheckViolation)
     else seq (modify (\<lambda>s. s\<lparr>actor_profiles :=
                 update_where (\<lambda>p. p_id p = pid) (add change) (actor_profiles s)\<rparr>))
       (bnd (run (lift (query_opt (map (add change) rows)))) (\<lambda>row.
        bnd (lift (ok_or (NotFound ''profile'') row)) (profile_try_from X))))"

definition add_follower_count :: "int \<Rightarrow> actor_profile \<Rightarrow> actor_profile" where
  "add_follower_count d p = p\<lparr>p_follower_count := p_follower_count p + d\<rparr>"

definition add_following_count :: "int \<Rightarrow> actor_profile \<Rightarrow> actor_profile" where
  "add_following_count d p = p\<lparr>p_following_count := p_following_count p + d\<rparr>"

definition add_subscriber_count :: "int \<Rightarrow> actor_profile \<Rightarrow> actor_profile" where
  "add_subscriber_count d p = p\<lparr>p_subscriber_count := p_subscriber_count p + d\<rparr>"

definition update_follower_count :: "externals \<Rightarrow> uuid \<Rightarrow> int \<Rightarrow> actor_profile db" where
  "update_follower_count X = update_profile_counter X p_follower_count add_follower_count"

definition update_following_count :: "externals \<Rightarrow> uuid \<Rightarrow> int \<Rightarrow> actor_profile db" where
  "update_following_count X = update_profile_counter X p_following_count add_following_count"

definition update_subscriber_count :: "externals \<Rightarrow> uuid \<Rightarrow> int \<Rightarrow> actor_profile db" where
  "update_subscriber_count X = update_profile_counter X p_subscriber_count add_subscriber_count"

end
