(* ===== verification/RelationshipQueries.thy ===== *)
theory RelationshipQueries
  imports Profiles
begin

text \<open>
  The reading half of \<open>mitra_models/src/relationships\<close>: the row types of \<open>types.rs\<close>, every
  \<open>SELECT\<close> of \<open>queries.rs\<close>, and the \<open>INSERT\<close> and \<open>DELETE\<close> statements on \<open>relationship\<close> that the
  state-changing operations are built from.
\<close>

section \<open>Row types\<close>

record rel_or_request =
  rr_source_id :: uuid
  rr_target_id :: uuid
  rr_type :: relationship_type
  rr_created_at :: datetime

record relationship_detailed =
  rd_id :: int
  rd_source :: actor_profile
  rd_target :: actor_profile
  rd_type :: relationship_type

record 'k related_profile =
  related_id :: 'k
  related_type :: relationship_type
  related_profile :: actor_profile

datatype follow_request_direction = Incoming | Outgoing

definition rr_is_direct :: "rel_or_request \<Rightarrow> uuid \<Rightarrow> uuid \<Rightarrow> (database_type_error, bool) outcome" where
  "rr_is_direct r src tgt =
     (if rr_source_id r = src \<and> rr_target_id r = tgt then Ok True
      else if rr_source_id r = tgt \<and> rr_target_id r = src then Ok False
      else Err DatabaseTypeError)"

definition rr_with :: "rel_or_request \<Rightarrow> uuid \<Rightarrow> (database_type_error, uuid) outcome" where
  "rr_with r pid =
     (if rr_source_id r = pid then Ok (rr_target_id r)
      else if rr_target_id r = pid then Ok (rr_source_id r)
      else Err DatabaseTypeError)"

definition related_try_from ::
  "externals \<Rightarrow> 'k \<times> relationship_type \<times> actor_profile \<Rightarrow> (database_type_error, 'k related_profile) outcome" where
  "related_try_from X row = (case row of (k, ty, p) \<Rightarrow>
     obind (profile_check_consistency X p) (\<lambda>_.
       Ok \<lparr>related_id = k, related_type = ty, related_profile = p\<rparr>))"

section \<open>Statements on the relationship table\<close>

definition profile_exists :: "database \<Rightarrow> uuid \<Rightarrow> bool" where
  "profile_exists s pid \<longleftrightarrow> list_ex (\<lambda>p. p_id p = pid) (actor_profiles s)"

definition is_rel :: "uuid \<Rightarrow> uuid \<Rightarrow> relationship_type \<Rightarrow> relationship \<Rightarrow> bool" where
  "is_rel src tgt ty r \<longleftrightarrow> rel_source_id r = src \<and> rel_target_id r = tgt \<and> rel_type r = ty"

definition new_relationship :: "database \<Rightarrow> uuid \<Rightarrow> uuid \<Rightarrow> relationship_type \<Rightarrow> relationship" where
  "new_relationship s src tgt ty = \<lparr>rel_id = relationship_seq (seqs s), rel_source_id = src,
     rel_target_id = tgt, rel_type = ty, rel_created_at = current_timestamp s\<rparr>"

definition draw_relationship_id :: "database \<Rightarrow> database" where
  "draw_relationship_id s = s\<lparr>seqs := (seqs s)\<lparr>relationship_seq := relationship_seq (seqs s) + 1\<rparr>\<rparr>"

text \<open>\<open>INSERT INTO relationship ... RETURNING id\<close>: the identity value is drawn, then the
  \<open>CHECK\<close>, the unique index and the foreign keys of \<open>schema.sql\<close> are tested.\<close>

definition insert_relationship :: "uuid \<Rightarrow> uuid \<Rightarrow> relationship_type \<Rightarrow> int stmt" where
  "insert_relationship src tgt ty s =
     (let t = draw_relationship_id s in
      if src = tgt then (Err CheckViolation, t)
      else if list_ex (is_rel src tgt ty) (relationships s) then (Err UniqueViolation, t)
      else if \<not> profile_exists s src \<or> \<not> profile_exists s tgt then (Err ForeignKeyViolation, t)
      else (Ok (relationship_seq (seqs s)),
            t\<lparr>relationships := relationships s @ [new_relationship s src tgt ty]\<rparr>))"

text \<open>The same with \<open>ON CONFLICT (source_id, target_id, relationship_type) DO NOTHING\<close>; the
  result is the number of inserted rows.\<close>

definition insert_relationship_opt :: "uuid \<Rightarrow> uuid \<Rightarrow> relationship_type \<Rightarrow> nat stmt" where
  "insert_relationship_opt src tgt ty s =
     (let t = draw_relationship_id s in
      if src = tgt then (Err CheckViolation, t)
      else if list_ex (is_rel src tgt ty) (relationships s) then (Ok 0, t)
      else if \<not> profile_exists s src \<or> \<not> profile_exists s tgt then (Err ForeignKeyViolation, t)
      else (Ok 1, t\<lparr>relationships := relationships s @ [new_relationship s src tgt ty]\<rparr>))"

text \<open>\<open>DELETE FROM relationship WHERE ... RETURNING id\<close>: the deleted rows. The items that collections hold for these relationships
  go with them (\<open>ON DELETE CASCADE\<close>).\<close>

definition without_items_of :: "relationship list \<Rightarrow> collection_item list \<Rightarrow> collection_item list" where
  "without_items_of gone items = delete_where (\<lambda>i. list_ex (\<lambda>r. ci_relationship_id i = Some (rel_id r)) gone) items"

definition delete_relationship :: "uuid \<Rightarrow> uuid \<Rightarrow> relationship_type \<Rightarrow> relationship list stmt" where
  "delete_relationship src tgt ty s =
     (Ok (filter (is_rel src tgt ty) (relationships s)),
      s\<lparr>relationships := delete_where (is_rel src tgt ty) (relationships s),
        collection_items := without_items_of (filter (is_rel src tgt ty) (relationships s)) (collection_items s)\<rparr>)"

section \<open>Queries\<close>

definition create_relationship :: "uuid \<Rightarrow> uuid \<Rightarrow> relationship_type \<Rightarrow> unit db" where
  "create_relationship src tgt ty = bnd (run (insert_relationship src tgt ty)) (\<lambda>_. ret ())"

definition rr_of_relationship :: "relationship \<Rightarrow> rel_or_request" where
  "rr_of_relationship r = \<lparr>rr_source_id = rel_source_id r, rr_target_id = rel_target_id r,
     rr_type = rel_type r, rr_created_at = rel_created_at r\<rparr>"

definition rr_of_request :: "follow_request \<Rightarrow> rel_or_request" where
  "rr_of_request r = \<lparr>rr_source_id = fr_source_id r, rr_target_id = fr_target_id r,
     rr_type = RelFollowRequest, rr_created_at = fr_created_at r\<rparr>"

text \<open>The \<open>UNION ALL\<close> behind \<open>get_relationships\<close> and \<open>get_relationships_many\<close>, for the pairs
  that \<open>between\<close> selects.\<close>

definition select_relationships :: "(uuid \<Rightarrow> uuid \<Rightarrow> bool) \<Rightarrow> database \<Rightarrow> rel_or_request list" where
  "select_relationships between s =
     map rr_of_relationship
       (filter (\<lambda>r. between (rel_source_id r) (rel_target_id r)) (relationships s)) @
     map rr_of_request
       (filter (\<lambda>r. between (fr_source_id r) (fr_target_id r) \<and> fr_status r = FrPending)
         (follow_requests s))"

definition get_relationships :: "uuid \<Rightarrow> uuid \<Rightarrow> rel_or_request list db" where
  "get_relationships src tgt =
     gets (select_relationships (\<lambda>a b. a = src \<and> b = tgt \<or> a = tgt \<and> b = src))"

fun bucket_push :: "uuid \<Rightarrow> 'a \<Rightarrow> (uuid \<times> 'a list) list \<Rightarrow> (uuid \<times> 'a list) list option" where
  "bucket_push k x [] = None"
| "bucket_push k x ((k', xs) # bs) =
     (if k' = k then Some ((k', xs @ [x]) # bs)
      else map_option (\<lambda>bs'. (k', xs) # bs') (bucket_push k x bs))"

primrec fill_buckets ::
  "uuid \<Rightarrow> rel_or_request list \<Rightarrow> (uuid \<times> rel_or_request list) list \<Rightarrow>
   (database_type_error, (uuid \<times> rel_or_request list) list) outcome" where
  "fill_buckets src [] bs = Ok bs"
| "fill_buckets src (r # rs) bs =
     obind (rr_with r src) (\<lambda>tgt.
     obind (ok_or DatabaseTypeError (bucket_push tgt r bs)) (fill_buckets src rs))"

definition get_relationships_many ::
  "uuid \<Rightarrow> uuid list \<Rightarrow> (uuid \<times> rel_or_request list) list db" where
  "get_relationships_many src tgts =
     bnd (gets (select_relationships (\<lambda>a b. a = src \<and> b \<in> set tgts \<or> a \<in> set tgts \<and> b = src)))
       (\<lambda>rows. type_check (fill_buckets src rows (map (\<lambda>t. (t, [])) (remdups tgts))))"

definition has_relationship :: "uuid \<Rightarrow> uuid \<Rightarrow> relationship_type \<Rightarrow> bool db" where
  "has_relationship src tgt ty =
     (if ty = RelFollowRequest then throw TypeError
      else bnd (select_opt (\<lambda>s. filter (is_rel src tgt ty) (relationships s)))
             (\<lambda>row. ret (row \<noteq> None)))"

definition get_relationship_by_id :: "int \<Rightarrow> relationship_detailed db" where
  "get_relationship_by_id rid =
     select_or_not_found ''relationship''
       (\<lambda>s. [\<lparr>rd_id = rel_id r, rd_source = a, rd_target = b, rd_type = rel_type r\<rparr>.
             r \<leftarrow> relationships s, a \<leftarrow> actor_profiles s, b \<leftarrow> actor_profiles s,
             p_id a = rel_source_id r \<and> p_id b = rel_target_id r \<and> rel_id r = rid])"

text \<open>\<open>actor_profile JOIN relationship ON ... ORDER BY relationship.id DESC\<close>, in either direction.\<close>

definition rel_near :: "bool \<Rightarrow> relationship \<Rightarrow> uuid" where
  "rel_near is_direct r = (if is_direct then rel_source_id r else rel_target_id r)"

definition rel_far :: "bool \<Rightarrow> relationship \<Rightarrow> uuid" where
  "rel_far is_direct r = (if is_direct then rel_target_id r else rel_source_id r)"

definition related_rows ::
  "uuid \<Rightarrow> bool \<Rightarrow> (relationship \<Rightarrow> bool) \<Rightarrow> database \<Rightarrow> (int \<times> relationship_type \<times> actor_profile) list" where
  "related_rows src is_direct Q s =
     rev (sort_key fst
       [(rel_id r, rel_type r, p). r \<leftarrow> relationships s, p \<leftarrow> actor_profiles s,
          p_id p = rel_far is_direct r \<and> rel_near is_direct r = src \<and> Q r])"

definition get_related_combined ::
  "externals \<Rightarrow> uuid \<Rightarrow> relationship_type list \<Rightarrow> bool \<Rightarrow> int related_profile list db" where
  "get_related_combined X src tys is_direct =
     bnd (gets (related_rows src is_direct (\<lambda>r. rel_type r \<in> set tys)))
       (\<lambda>rows. type_check (try_map (related_try_from X) rows))"

definition get_related_paginated ::
  "externals \<Rightarrow> uuid \<Rightarrow> relationship_type \<Rightarrow> bool \<Rightarrow> int option \<Rightarrow> nat \<Rightarrow> int related_profile list db" where
  "get_related_paginated X src ty is_direct max_id limit =
     bnd (gets (\<lambda>s. take limit (related_rows src is_direct
            (\<lambda>r. rel_type r = ty \<and> (case max_id of None \<Rightarrow> True | Some m \<Rightarrow> rel_id r < m)) s)))
       (\<lambda>rows. type_check (try_map (related_try_from X) rows))"

definition get_followers_paginated :: "externals \<Rightarrow> uuid \<Rightarrow> int option \<Rightarrow> nat \<Rightarrow> int related_profile list db" where
  "get_followers_paginated X pid = get_related_paginated X pid RelFollow False"

definition get_following_paginated :: "externals \<Rightarrow> uuid \<Rightarrow> int option \<Rightarrow> nat \<Rightarrow> int related_profile list db" where
  "get_following_paginated X pid = get_related_paginated X pid RelFollow True"

definition get_mutes_paginated :: "externals \<Rightarrow> uuid \<Rightarrow> int option \<Rightarrow> nat \<Rightarrow> int related_profile list db" where
  "get_mutes_paginated X pid = get_related_paginated X pid RelMute True"

definition get_followers :: "externals \<Rightarrow> uuid \<Rightarrow> actor_profile list db" where
  "get_followers X pid =
     bnd (gets (\<lambda>s. [p. p \<leftarrow> actor_profiles s, r \<leftarrow> relationships s,
                       p_id p = rel_source_id r \<and> rel_target_id r = pid \<and> rel_type r = RelFollow]))
       (profiles_try_from X)"

definition get_following :: "externals \<Rightarrow> uuid \<Rightarrow> actor_profile list db" where
  "get_following X pid =
     bnd (gets (\<lambda>s. [p. p \<leftarrow> actor_profiles s, r \<leftarrow> relationships s,
                       p_id p = rel_target_id r \<and> rel_source_id r = pid \<and> rel_type r = RelFollow]))
       (profiles_try_from X)"

definition get_subscribers :: "externals \<Rightarrow> uuid \<Rightarrow> actor_profile list db" where
  "get_subscribers X pid =
     bnd (gets (\<lambda>s. map (snd \<circ> snd) (related_rows pid False (\<lambda>r. rel_type r = RelSubscription) s)))
       (profiles_try_from X)"

definition is_local_or_followed :: "string \<Rightarrow> bool db" where
  "is_local_or_followed aid =
     bnd (select_opt (\<lambda>s. filter (\<lambda>p. map_option da_id (p_actor_json p) = Some aid \<and>
            (list_ex (\<lambda>r. rel_target_id r = p_id p \<and> rel_type r = RelFollow) (relationships s)
             \<or> list_ex (\<lambda>r. fr_target_id r = p_id p) (follow_requests s)
             \<or> has_account p)) (actor_profiles s)))
       (\<lambda>row. ret (row \<noteq> None))"

subsection \<open>Follow requests\<close>

definition get_follow_request_by_id :: "uuid \<Rightarrow> follow_request db" where
  "get_follow_request_by_id rid =
     select_or_not_found ''follow request'' (\<lambda>s. filter (\<lambda>r. fr_id r = rid) (follow_requests s))"

definition get_follow_request_by_remote_activity_id :: "string \<Rightarrow> follow_request db" where
  "get_follow_request_by_remote_activity_id aid =
     select_or_not_found ''follow request''
       (\<lambda>s. filter (\<lambda>r. fr_activity_id r = Some aid) (follow_requests s))"

definition is_request :: "uuid \<Rightarrow> uuid \<Rightarrow> follow_request \<Rightarrow> bool" where
  "is_request src tgt r \<longleftrightarrow> fr_source_id r = src \<and> fr_target_id r = tgt"

definition get_follow_request_by_participants :: "uuid \<Rightarrow> uuid \<Rightarrow> follow_request db" where
  "get_follow_request_by_participants src tgt =
     select_or_not_found ''follow request'' (\<lambda>s. filter (is_request src tgt) (follow_requests s))"

definition get_follow_requests_paginated ::
  "externals \<Rightarrow> uuid \<Rightarrow> follow_request_direction \<Rightarrow> uuid option \<Rightarrow> nat \<Rightarrow> uuid related_profile list db" where
  "get_follow_requests_paginated X pid dir max_id limit =
     bnd (gets (\<lambda>s. take limit (rev (sort_key fst
            [(fr_id r, RelFollowRequest, p). r \<leftarrow> follow_requests s, p \<leftarrow> actor_profiles s,
               p_id p = (case dir of Incoming \<Rightarrow> fr_source_id r | Outgoing \<Rightarrow> fr_target_id r) \<and>
               (case dir of Incoming \<Rightarrow> fr_target_id r | Outgoing \<Rightarrow> fr_source_id r) = pid \<and>
               fr_status r = FrPending \<and>
               (case max_id of None \<Rightarrow> True | Some m \<Rightarrow> fr_id r < m)]))))
       (\<lambda>rows. type_check (try_map (related_try_from X) rows))"

end
