(* ===== verification/Notifications.thy ===== *)
theory Notifications
  imports RelationshipQueries
begin

text \<open>
  Notifications (\<open>mitra_models/src/notifications\<close>): the insertion, one helper per kind of event,
  and the selection and paging of \<open>get_notifications\<close>. The helpers for events caused by another
  actor look for a mute first.
\<close>

definition create_notification ::
  "uuid \<Rightarrow> uuid \<Rightarrow> uuid option \<Rightarrow> uuid option \<Rightarrow> uuid option \<Rightarrow> event_type \<Rightarrow> unit db" where
  "create_notification snd_id rcp_id post_id react_id invoice_id ev s =
     (case event_type_to_i16 ev of
        Panic p \<Rightarrow> (Panic p, s)
      | Err e \<Rightarrow> (Err TypeError, s)
      | Ok _ \<Rightarrow>
          (let n = notification_seq (seqs s);
               t = s\<lparr>seqs := (seqs s)\<lparr>notification_seq := n + 1\<rparr>\<rparr> in
           if profile_exists s snd_id
              \<and> list_ex (\<lambda>u. u_id u = rcp_id) (user_accounts s)
              \<and> (case post_id of None \<Rightarrow> True | Some i \<Rightarrow> list_ex (\<lambda>p. po_id p = i) (posts s))
              \<and> (case react_id of None \<Rightarrow> True | Some i \<Rightarrow> list_ex (\<lambda>r. re_id r = i) (reactions s))
              \<and> (case invoice_id of None \<Rightarrow> True | Some i \<Rightarrow> list_ex (\<lambda>v. inv_id v = i) (invoices s))
           then (Ok (), t\<lparr>notifications := notifications s @
                  [\<lparr>ntf_id = n, ntf_sender_id = snd_id, ntf_recipient_id = rcp_id, ntf_post_id = post_id,
                    ntf_reaction_id = react_id, ntf_invoice_id = invoice_id, ntf_event_type = ev\<rparr>]\<rparr>)
           else (Err (ClientError ForeignKeyViolation), t)))"

text \<open>The common opening of the helpers: nothing happens when the recipient mutes the sender.\<close>

definition unless_muted :: "uuid \<Rightarrow> uuid \<Rightarrow> unit db \<Rightarrow> unit db" where
  "unless_muted snd_id rcp_id m =
     bnd (has_relationship rcp_id snd_id RelMute) (\<lambda>muted. if muted then ret () else m)"

definition create_follow_notification :: "uuid \<Rightarrow> uuid \<Rightarrow> unit db" where
  "create_follow_notification a b =
     unless_muted a b (create_notification a b None None None EvFollow)"

definition create_follow_request_notification :: "uuid \<Rightarrow> uuid \<Rightarrow> unit db" where
  "create_follow_request_notification a b =
     unless_muted a b (create_notification a b None None None EvFollowRequest)"

definition create_reply_notification :: "uuid \<Rightarrow> uuid \<Rightarrow> uuid \<Rightarrow> unit db" where
  "create_reply_notification a b p =
     unless_muted a b (create_notification a b (Some p) None None EvReply)"

definition create_reaction_notification :: "uuid \<Rightarrow> uuid \<Rightarrow> uuid \<Rightarrow> uuid \<Rightarrow> unit db" where
  "create_reaction_notification a b p r =
     unless_muted a b (create_notification a b (Some p) (Some r) None EvReaction)"

definition create_mention_notification :: "uuid \<Rightarrow> uuid \<Rightarrow> uuid \<Rightarrow> unit db" where
  "create_mention_notification a b p =
     unless_muted a b (create_notification a b (Some p) None None EvMention)"

definition create_repost_notification :: "uuid \<Rightarrow> uuid \<Rightarrow> uuid \<Rightarrow> unit db" where
  "create_repost_notification a b p =
     unless_muted a b (create_notification a b (Some p) None None EvRepost)"

definition create_subscriber_payment_notification :: "uuid \<Rightarrow> uuid \<Rightarrow> uuid \<Rightarrow> unit db" where
  "create_subscriber_payment_notification a b i =
     create_notification a b None None (Some i) EvSubscriberPayment"

definition create_subscriber_leaving_notification :: "uuid \<Rightarrow> uuid \<Rightarrow> unit db" where
  "create_subscriber_leaving_notification a b = create_notification a b None None None EvSubscriberLeaving"

definition create_subscription_expiration_notification :: "uuid \<Rightarrow> uuid \<Rightarrow> unit db" where
  "create_subscription_expiration_notification a b =
     create_notification a b None None None EvSubscriptionExpiration"

definition create_move_notification :: "uuid \<Rightarrow> uuid \<Rightarrow> unit db" where
  "create_move_notification a b = create_notification a b None None None EvMove"

definition create_signup_notifications :: "uuid \<Rightarrow> unit db" where
  "create_signup_notifications a =
     bnd (get_users_by_role Admin) (\<lambda>admins.
       for_each admins (\<lambda>b. create_notification a b None None None EvSignUp))"

section \<open>Reading and deleting\<close>

text \<open>The rows and the order of \<open>get_notifications\<close>: muted senders are left out; forward paging
  (a lower bound is given) takes the oldest rows above the bound and reverses them, so that the
  page is always newest first. The joined post, reaction and invoice columns are not modelled.\<close>

definition visible_notification ::
  "database \<Rightarrow> uuid \<Rightarrow> int option \<Rightarrow> int option \<Rightarrow> notification \<Rightarrow> bool" where
  "visible_notification s rcp min_id max_id n \<longleftrightarrow>
     ntf_recipient_id n = rcp
     \<and> \<not> list_ex (is_rel (ntf_recipient_id n) (ntf_sender_id n) RelMute) (relationships s)
     \<and> (case min_id of None \<Rightarrow> True | Some m \<Rightarrow> m < ntf_id n)
     \<and> (case max_id of None \<Rightarrow> True | Some m \<Rightarrow> ntf_id n < m)"

definition get_notifications_page ::
  "uuid \<Rightarrow> int option \<Rightarrow> int option \<Rightarrow> nat \<Rightarrow> database \<Rightarrow> notification list" where
  "get_notifications_page rcp min_id max_id limit s =
     (let rows = sort_key ntf_id (filter (visible_notification s rcp min_id max_id) (notifications s)) in
      if min_id \<noteq> None then rev (take limit rows) else take limit (rev rows))"

definition delete_notifications :: "uuid \<Rightarrow> unit db" where
  "delete_notifications rcp =
     modify (\<lambda>s. s\<lparr>notifications := delete_where (\<lambda>n. ntf_recipient_id n = rcp) (notifications s)\<rparr>)"

end
