(* ===== verification/Relationships.thy ===== *)
theory Relationships
  imports Notifications
begin

text \<open>
  The state-changing half of \<open>mitra_models/src/relationships\<close>: follow and unfollow, follow
  requests, subscriptions to a profile, mutes and visibility settings (\<open>queries.rs\<close>), and the two
  composed operations of \<open>helpers.rs\<close>.
\<close>

section \<open>Following\<close>

definition follow :: "externals \<Rightarrow> uuid \<Rightarrow> uuid \<Rightarrow> int db" where
  "follow X src tgt = transaction (
     bnd (map_err_p (catch_unique_violation ''relationship'') (insert_relationship src tgt RelFollow)) (\<lambda>rid.
     seq (run (delete_relationship tgt src RelReject))
     (bnd (update_follower_count X tgt 1) (\<lambda>target_profile.
     seq (update_following_count X src 1)
     (seq (if has_user_account target_profile \<and> \<not> p_manually_approves_followers target_profile
           then create_follow_notification src tgt else ret ())
     (ret rid))))))"

definition delete_follow_request_opt :: "uuid \<Rightarrow> uuid \<Rightarrow> (uuid \<times> bool) option db" where
  "delete_follow_request_opt src tgt =
     bnd (gets (\<lambda>s. filter (is_request src tgt) (follow_requests s))) (\<lambda>rows.
     seq (modify (\<lambda>s. s\<lparr>follow_requests := delete_where (is_request src tgt) (follow_requests s)\<rparr>))
     (bnd (run (lift (query_opt rows))) (\<lambda>row.
      ret (map_option (\<lambda>r. (fr_id r, fr_has_deprecated_ap_id r)) row))))"

definition show_reposts :: "uuid \<Rightarrow> uuid \<Rightarrow> unit db" where
  "show_reposts src tgt = seq (run (delete_relationship src tgt RelHideReposts)) (ret ())"

definition show_replies :: "uuid \<Rightarrow> uuid \<Rightarrow> unit db" where
  "show_replies src tgt = seq (run (delete_relationship src tgt RelHideReplies)) (ret ())"

definition unfollow :: "externals \<Rightarrow> uuid \<Rightarrow> uuid \<Rightarrow> (uuid \<times> bool) option db" where
  "unfollow X src tgt = transaction (
     bnd (run (delete_relationship src tgt RelFollow)) (\<lambda>deleted.
     bnd (delete_follow_request_opt src tgt) (\<lambda>follow_request_deleted.
     if deleted = [] \<and> follow_request_deleted = None then throw (NotFound ''relationship'')
     else seq
       (if deleted \<noteq> [] then
          seq (show_reposts src tgt)
          (seq (show_replies src tgt)
          (seq (update_follower_count X tgt (-1))
          (seq (update_following_count X src (-1)) (ret ()))))
        else ret ())
       (ret follow_request_deleted))))"

section \<open>Follow requests\<close>

text \<open>\<open>INSERT INTO follow_request\<close>: the primary key, the \<open>CHECK\<close>, the unique pair, the unique
  activity ID (a null never conflicts) and the foreign keys.\<close>

definition follow_request_conflict :: "follow_request \<Rightarrow> follow_request \<Rightarrow> bool" where
  "follow_request_conflict new r \<longleftrightarrow>
     fr_id r = fr_id new
     \<or> fr_source_id r = fr_source_id new \<and> fr_target_id r = fr_target_id new
     \<or> fr_activity_id new \<noteq> None \<and> fr_activity_id r = fr_activity_id new"

definition insert_follow_request :: "follow_request \<Rightarrow> follow_request stmt" where
  "insert_follow_request r s =
     (if fr_source_id r = fr_target_id r then (Err CheckViolation, s)
      else if list_ex (follow_request_conflict r) (follow_requests s) then (Err UniqueViolation, s)
      else if \<not> profile_exists s (fr_source_id r) \<or> \<not> profile_exists s (fr_target_id r)
      then (Err ForeignKeyViolation, s)
      else (Ok r, s\<lparr>follow_requests := follow_requests s @ [r]\<rparr>))"

definition new_follow_request ::
  "database \<Rightarrow> uuid \<Rightarrow> uuid \<Rightarrow> uuid \<Rightarrow> string option \<Rightarrow> follow_request" where
  "new_follow_request s rid src tgt aid = \<lparr>fr_id = rid, fr_source_id = src, fr_target_id = tgt,
     fr_activity_id = aid, fr_status = FrPending, fr_has_deprecated_ap_id = False,
     fr_created_at = current_timestamp s\<rparr>"

text \<open>The fresh identifier \<open>generate_ulid()\<close> is the argument \<open>ulid\<close>.\<close>

definition create_follow_request_unchecked :: "uuid \<Rightarrow> uuid \<Rightarrow> uuid \<Rightarrow> follow_request db" where
  "create_follow_request_unchecked ulid src tgt =
     bnd (gets (\<lambda>s. new_follow_request s ulid src tgt None)) (\<lambda>r.
     map_err_p (catch_unique_violation ''follow request'') (insert_follow_request r))"

text \<open>\<open>ON CONFLICT (source_id, target_id) DO UPDATE SET activity_id\<close>: a conflict on the pair
  updates the stored row, and that update may itself break the uniqueness of activity IDs; any
  other conflict is an error.\<close>

definition upsert_follow_request :: "follow_request \<Rightarrow> follow_request stmt" where
  "upsert_follow_request r s =
     (let pair = is_request (fr_source_id r) (fr_target_id r) in
      if fr_source_id r = fr_target_id r then (Err CheckViolation, s)
      else if list_ex pair (follow_requests s) then
        (if list_ex (\<lambda>r'. \<not> pair r' \<and> fr_activity_id r' = fr_activity_id r) (follow_requests s)
         then (Err UniqueViolation, s)
         else let t = s\<lparr>follow_requests :=
                    update_where pair (\<lambda>r'. r'\<lparr>fr_activity_id := fr_activity_id r\<rparr>) (follow_requests s)\<rparr> in
              (query_one (filter pair (follow_requests t)), t))
      else insert_follow_request r s)"

definition create_remote_follow_request_opt ::
  "uuid \<Rightarrow> uuid \<Rightarrow> uuid \<Rightarrow> string \<Rightarrow> (follow_request \<times> bool) db" where
  "create_remote_follow_request_opt ulid src tgt aid =
     bnd (gets (\<lambda>s. new_follow_request s ulid src tgt (Some aid))) (\<lambda>new.
     bnd (run (upsert_follow_request new)) (\<lambda>r. ret (r, fr_id r = ulid)))"

definition follow_request_accepted :: "externals \<Rightarrow> uuid \<Rightarrow> int db" where
  "follow_request_accepted X rid = transaction (
     bnd (gets (\<lambda>s. filter (\<lambda>r. fr_id r = rid) (follow_requests s))) (\<lambda>rows.
     seq (modify (\<lambda>s. s\<lparr>follow_requests :=
            update_where (\<lambda>r. fr_id r = rid) (\<lambda>r. r\<lparr>fr_status := FrAccepted\<rparr>) (follow_requests s)\<rparr>))
     (bnd (run (lift (query_opt rows))) (\<lambda>row.
      bnd (lift (ok_or (NotFound ''follow request'') row)) (\<lambda>r.
      follow X (fr_source_id r) (fr_target_id r))))))"

definition follow_request_rejected :: "uuid \<Rightarrow> unit db" where
  "follow_request_rejected rid = transaction (
     bnd (gets (\<lambda>s. filter (\<lambda>r. fr_id r = rid) (follow_requests s))) (\<lambda>rows.
     seq (modify (\<lambda>s. s\<lparr>follow_requests := delete_where (\<lambda>r. fr_id r = rid) (follow_requests s)\<rparr>))
     (bnd (run (lift (query_opt rows))) (\<lambda>row.
      bnd (lift (ok_or (NotFound ''follow request'') row)) (\<lambda>r.
      seq (run (insert_relationship_opt (fr_target_id r) (fr_source_id r) RelReject))
      (ret ()))))))"

text \<open>\<open>helpers.rs\<close>. \<open>LOCK TABLE\<close> orders concurrent writers and has no effect on the state.\<close>

definition create_follow_request :: "uuid \<Rightarrow> uuid \<Rightarrow> uuid \<Rightarrow> follow_request db" where
  "create_follow_request ulid src tgt = transaction (
     bnd (has_relationship src tgt RelFollow) (\<lambda>is_following.
     if is_following then throw (AlreadyExists ''relationship'')
     else create_follow_request_unchecked ulid src tgt))"

definition remove_follower :: "externals \<Rightarrow> uuid \<Rightarrow> uuid \<Rightarrow> string option db" where
  "remove_follower X src tgt = transaction (
     bnd (match_result (get_follow_request_by_participants src tgt)
            (\<lambda>r. seq (follow_request_rejected (fr_id r)) (ret (fr_activity_id r)))
            (\<lambda>e. case e of NotFound _ \<Rightarrow> ret None | other \<Rightarrow> throw other)) (\<lambda>maybe_activity_id.
     seq (unfollow X src tgt) (ret maybe_activity_id)))"

section \<open>Subscriptions to a profile\<close>

definition subscribe :: "externals \<Rightarrow> uuid \<Rightarrow> uuid \<Rightarrow> unit db" where
  "subscribe X src tgt = transaction (
     seq (map_err_p (catch_unique_violation ''relationship'') (insert_relationship src tgt RelSubscription))
     (seq (update_subscriber_count X tgt 1) (ret ())))"

definition subscribe_opt :: "externals \<Rightarrow> uuid \<Rightarrow> uuid \<Rightarrow> unit db" where
  "subscribe_opt X src tgt = transaction (
     bnd (run (insert_relationship_opt src tgt RelSubscription)) (\<lambda>inserted.
     if inserted > 0 then seq (update_subscriber_count X tgt 1) (ret ()) else ret ()))"

definition unsubscribe :: "externals \<Rightarrow> uuid \<Rightarrow> uuid \<Rightarrow> unit db" where
  "unsubscribe X src tgt = transaction (
     bnd (run (delete_relationship src tgt RelSubscription)) (\<lambda>deleted.
     if deleted = [] then throw (NotFound ''relationship'')
     else seq (update_subscriber_count X tgt (-1)) (ret ())))"

section \<open>Visibility settings and mutes\<close>

definition hide_reposts :: "uuid \<Rightarrow> uuid \<Rightarrow> unit db" where
  "hide_reposts src tgt = seq (run (insert_relationship_opt src tgt RelHideReposts)) (ret ())"

definition hide_replies :: "uuid \<Rightarrow> uuid \<Rightarrow> unit db" where
  "hide_replies src tgt = seq (run (insert_relationship_opt src tgt RelHideReplies)) (ret ())"

definition mute :: "uuid \<Rightarrow> uuid \<Rightarrow> unit db" where
  "mute src tgt =
     seq (map_err_p (catch_unique_violation ''mute'') (insert_relationship src tgt RelMute)) (ret ())"

definition unmute :: "uuid \<Rightarrow> uuid \<Rightarrow> unit db" where
  "unmute src tgt =
     bnd (run (delete_relationship src tgt RelMute)) (\<lambda>deleted.
     bnd (run (lift (query_opt deleted))) (\<lambda>row.
     bnd (lift (ok_or (NotFound ''mute'') row)) (\<lambda>_. ret ())))"

end
