(* ===== verification/RelationshipInvariants.thy ===== *)
theory RelationshipInvariants
  imports Relationships
begin

text \<open>
  What the relationship operations guarantee. The invariant \<open>rel_inv\<close> joins the constraints of
  the tables (unique keys, no self-reference, foreign keys) with the agreement of the three
  profile counters and the rows they count. Each operation has an effect lemma, the exact state
  after success, from which preservation follows.
\<close>

section \<open>The counters of a profile\<close>

definition follower_ref :: "relationship \<Rightarrow> uuid option" where
  "follower_ref r = (if rel_type r = RelFollow then Some (rel_target_id r) else None)"

definition following_ref :: "relationship \<Rightarrow> uuid option" where
  "following_ref r = (if rel_type r = RelFollow then Some (rel_source_id r) else None)"

definition subscriber_ref :: "relationship \<Rightarrow> uuid option" where
  "subscriber_ref r = (if rel_type r = RelSubscription then Some (rel_target_id r) else None)"

interpretation followers: counter_column p_id p_follower_count add_follower_count follower_ref
  by unfold_locales (simp_all add: add_follower_count_def)

interpretation following: counter_column p_id p_following_count add_following_count following_ref
  by unfold_locales (simp_all add: add_following_count_def)

interpretation subscribers: counter_column p_id p_subscriber_count add_subscriber_count subscriber_ref
  by unfold_locales (simp_all add: add_subscriber_count_def)

definition counts_ok :: "actor_profile list \<Rightarrow> relationship list \<Rightarrow> bool" where
  "counts_ok ps rs \<longleftrightarrow>
     counted_by p_id p_follower_count follower_ref ps rs
     \<and> counted_by p_id p_following_count following_ref ps rs
     \<and> counted_by p_id p_subscriber_count subscriber_ref ps rs"

section \<open>The invariant\<close>

definition rel_key :: "relationship \<Rightarrow> uuid \<times> uuid \<times> relationship_type" where
  "rel_key r = (rel_source_id r, rel_target_id r, rel_type r)"

definition has_profile :: "actor_profile list \<Rightarrow> uuid \<Rightarrow> bool" where
  "has_profile ps pid \<longleftrightarrow> pid \<in> p_id ` set ps"

definition rel_inv :: "database \<Rightarrow> bool" where
  "rel_inv s \<longleftrightarrow>
     unique_by p_id (actor_profiles s)
     \<and> unique_by rel_key (relationships s)
     \<and> (\<forall>r \<in> set (relationships s). rel_source_id r \<noteq> rel_target_id r
           \<and> has_profile (actor_profiles s) (rel_source_id r)
           \<and> has_profile (actor_profiles s) (rel_target_id r))
     \<and> unique_by fr_id (follow_requests s)
     \<and> unique_by (\<lambda>r. (fr_source_id r, fr_target_id r)) (follow_requests s)
     \<and> (\<forall>r \<in> set (follow_requests s). fr_source_id r \<noteq> fr_target_id r)
     \<and> counts_ok (actor_profiles s) (relationships s)"

lemma rel_invD:
  assumes "rel_inv s"
  shows "unique_by p_id (actor_profiles s)" "unique_by rel_key (relationships s)"
    "unique_by fr_id (follow_requests s)"
    "unique_by (\<lambda>r. (fr_source_id r, fr_target_id r)) (follow_requests s)"
    "counts_ok (actor_profiles s) (relationships s)"
  using assms by (simp_all add: rel_inv_def)

lemma rel_inv_seqs [simp]: "rel_inv (s\<lparr>seqs := q\<rparr>) = rel_inv s"
  by (simp add: rel_inv_def)

lemma rel_inv_frame:
  "actor_profiles t = actor_profiles s \<Longrightarrow> relationships t = relationships s \<Longrightarrow>
   follow_requests t = follow_requests s \<Longrightarrow> rel_inv t = rel_inv s"
  by (simp add: rel_inv_def)

lemma profile_exists_iff: "profile_exists s pid \<longleftrightarrow> has_profile (actor_profiles s) pid"
  by (auto simp: profile_exists_def has_profile_def list_ex_iff)

lemma is_rel_key: "is_rel a b ty r \<longleftrightarrow> rel_key r = (a, b, ty)"
  by (auto simp: is_rel_def rel_key_def)

lemma is_rel_rel_key [simp]: "is_rel (rel_source_id r) (rel_target_id r) (rel_type r) r"
  by (simp add: is_rel_def)

lemma new_relationship_simps [simp]:
  "rel_source_id (new_relationship s a b ty) = a" "rel_target_id (new_relationship s a b ty) = b"
  "rel_type (new_relationship s a b ty) = ty" "rel_key (new_relationship s a b ty) = (a, b, ty)"
  by (simp_all add: new_relationship_def rel_key_def)

lemma unique_filter_is_rel:
  assumes "unique_by rel_key rs"
  shows "filter (is_rel a b ty) rs = [] \<or> (\<exists>r. filter (is_rel a b ty) rs = [r] \<and> r \<in> set rs \<and> is_rel a b ty r)"
  by (rule unique_by_filter_le1 [OF assms]) (simp add: is_rel_key)

section \<open>Effects of the statements\<close>

lemma insert_relationship_Ok [ok_runs]:
  "insert_relationship a b ty s = (Ok rid, t) \<longleftrightarrow>
     a \<noteq> b \<and> \<not> list_ex (is_rel a b ty) (relationships s) \<and>
     has_profile (actor_profiles s) a \<and> has_profile (actor_profiles s) b \<and>
     rid = relationship_seq (seqs s) \<and>
     t = (draw_relationship_id s)\<lparr>relationships := relationships s @ [new_relationship s a b ty]\<rparr>"
  by (auto simp: insert_relationship_def Let_def profile_exists_iff)

lemma insert_relationship_opt_Ok [ok_runs]:
  "insert_relationship_opt a b ty s = (Ok n, t) \<longleftrightarrow>
     a \<noteq> b \<and>
     (list_ex (is_rel a b ty) (relationships s) \<and> n = 0 \<and> t = draw_relationship_id s
      \<or> \<not> list_ex (is_rel a b ty) (relationships s) \<and>
        has_profile (actor_profiles s) a \<and> has_profile (actor_profiles s) b \<and> n = 1 \<and>
        t = (draw_relationship_id s)\<lparr>relationships := relationships s @ [new_relationship s a b ty]\<rparr>)"
  by (auto simp: insert_relationship_opt_def Let_def profile_exists_iff)

lemma without_items_of_none [simp]: "without_items_of [] items = items"
  by (simp add: without_items_of_def delete_where_def)

lemma delete_relationship_Ok [ok_runs]:
  "delete_relationship a b ty s = (Ok rs, t) \<longleftrightarrow>
     rs = filter (is_rel a b ty) (relationships s) \<and>
     t = s\<lparr>relationships := delete_where (is_rel a b ty) (relationships s),
       collection_items := without_items_of rs (collection_items s)\<rparr>"
  by (auto simp: delete_relationship_def)

lemma draw_relationship_id_simps [simp]:
  "actor_profiles (draw_relationship_id s) = actor_profiles s"
  "relationships (draw_relationship_id s) = relationships s"
  "follow_requests (draw_relationship_id s) = follow_requests s"
  "user_accounts (draw_relationship_id s) = user_accounts s"
  "notifications (draw_relationship_id s) = notifications s"
  "subscriptions (draw_relationship_id s) = subscriptions s"
  "invoices (draw_relationship_id s) = invoices s"
  "current_timestamp (draw_relationship_id s) = current_timestamp s"
  by (simp_all add: draw_relationship_id_def)

lemma profile_try_from_Ok [ok_runs]:
  "profile_try_from X p s = (Ok q, t) \<longleftrightarrow> q = p \<and> t = s \<and> profile_check_consistency X p = Ok ()"
  by (auto simp: profile_try_from_def ok_runs)

lemma update_profile_counter_Ok:
  "update_profile_counter X cnt add pid d s = (Ok p, t) \<longleftrightarrow>
     (\<exists>p0. filter (\<lambda>p. p_id p = pid) (actor_profiles s) = [p0] \<and> p = add d p0 \<and>
       0 \<le> cnt p0 + d \<and> cnt p0 + d < 2 ^ 31 \<and> profile_check_consistency X p = Ok ()) \<and>
     t = s\<lparr>actor_profiles := update_where (\<lambda>p. p_id p = pid) (add d) (actor_profiles s)\<rparr>"
  by (auto simp: update_profile_counter_def ok_runs split: if_splits)

lemmas update_counts_defs = update_follower_count_def update_following_count_def
  update_subscriber_count_def

text \<open>A notification leaves every table but its own.\<close>

lemma create_notification_state:
  "\<exists>q n. snd (create_notification a b p r i ev s) = s\<lparr>seqs := q, notifications := n\<rparr>"
proof -
  have same: "\<exists>q n. s = s\<lparr>seqs := q, notifications := n\<rparr>"
    by (rule exI [of _ "seqs s"], rule exI [of _ "notifications s"]) simp
  have drawn: "\<exists>q n. s\<lparr>seqs := q'\<rparr> = s\<lparr>seqs := q, notifications := n\<rparr>" for q'
    by (rule exI [of _ q'], rule exI [of _ "notifications s"]) simp
  show ?thesis
    by (cases "event_type_to_i16 ev") (auto simp: create_notification_def Let_def same drawn)
qed

lemma has_relationship_Ok [ok_runs]:
  "has_relationship a b ty s = (Ok x, t) \<longleftrightarrow>
     t = s \<and> ty \<noteq> RelFollowRequest \<and>
     (filter (is_rel a b ty) (relationships s) = [] \<and> \<not> x
      \<or> (\<exists>r. filter (is_rel a b ty) (relationships s) = [r]) \<and> x)"
  by (auto simp: has_relationship_def ok_runs)

lemma reads_only_has_relationship [simp]: "reads_only (has_relationship a b ty)"
  by (auto simp: has_relationship_def reads_only_def select_opt_def run_def prog_defs split: outcome.splits)

lemma unless_muted_state:
  assumes "\<And>s. \<exists>q n. snd (m s) = s\<lparr>seqs := q, notifications := n\<rparr>"
  shows "\<exists>q n. snd (unless_muted a b m s) = s\<lparr>seqs := q, notifications := n\<rparr>"
proof -
  have same: "\<exists>q n. s = s\<lparr>seqs := q, notifications := n\<rparr>"
    by (rule exI [of _ "seqs s"], rule exI [of _ "notifications s"]) simp
  obtain r t where run: "has_relationship b a RelMute s = (r, t)" by fastforce
  then have "t = s" by (metis reads_onlyD reads_only_has_relationship)
  with run assms [of s] same show ?thesis
    by (cases r) (auto simp: unless_muted_def bnd_def ret_def)
qed

lemma create_follow_notification_state:
  "create_follow_notification a b s = (r, t) \<Longrightarrow> \<exists>q n. t = s\<lparr>seqs := q, notifications := n\<rparr>"
  using unless_muted_state [of "create_notification a b None None None EvFollow" a b s,
      OF create_notification_state]
  by (simp add: create_follow_notification_def)

section \<open>Effects of the operations\<close>

text \<open>The state after a successful \<open>follow\<close>.\<close>

lemma follow_effect:
  assumes "follow X a b s = (Ok rid, t)"
  obtains q n ci where
    "a \<noteq> b" "\<not> list_ex (is_rel a b RelFollow) (relationships s)"
    "has_profile (actor_profiles s) a" "has_profile (actor_profiles s) b"
    "rid = relationship_seq (seqs s)"
    "t = s\<lparr>relationships := delete_where (is_rel b a RelReject)
         (relationships s @ [new_relationship s a b RelFollow]), collection_items := ci,
       actor_profiles := update_where (\<lambda>p. p_id p = a) (add_following_count 1)
         (update_where (\<lambda>p. p_id p = b) (add_follower_count 1) (actor_profiles s)),
       seqs := q, notifications := n\<rparr>"
proof -
  from assms obtain p u ci where
    pre: "a \<noteq> b" "\<not> list_ex (is_rel a b RelFollow) (relationships s)"
      "has_profile (actor_profiles s) a" "has_profile (actor_profiles s) b"
      "rid = relationship_seq (seqs s)" and
    last: "(if has_user_account p \<and> \<not> p_manually_approves_followers p
            then create_follow_notification a b else ret ()) u = (Ok (), t)" and
    u: "u = (draw_relationship_id s)\<lparr>
       relationships := delete_where (is_rel b a RelReject)
         (relationships s @ [new_relationship s a b RelFollow]), collection_items := ci,
       actor_profiles := update_where (\<lambda>p. p_id p = a) (add_following_count 1)
         (update_where (\<lambda>p. p_id p = b) (add_follower_count 1) (actor_profiles s))\<rparr>"
    by (auto simp: follow_def ok_runs update_counts_defs update_profile_counter_Ok)
  have "\<exists>q n. t = u\<lparr>seqs := q, notifications := n\<rparr>"
  proof (cases "has_user_account p \<and> \<not> p_manually_approves_followers p")
    case True
    with last show ?thesis by (auto dest: create_follow_notification_state)
  next
    case False
    then have "t = u\<lparr>seqs := seqs u, notifications := notifications u\<rparr>"
      using last by (auto simp: ret_Ok)
    then show ?thesis by blast
  qed
  then obtain q n where "t = u\<lparr>seqs := q, notifications := n\<rparr>" by blast
  with pre u that show ?thesis by (simp add: draw_relationship_id_def)
qed

text \<open>Facts shared by the preservation proofs: an update of counters changes no key, and each
  counter ignores the rows and the updates of the others.\<close>

lemma add_count_simps [simp]:
  "p_id (add_follower_count d p) = p_id p" "p_id (add_following_count d p) = p_id p"
  "p_id (add_subscriber_count d p) = p_id p"
  by (simp_all add: add_follower_count_def add_following_count_def add_subscriber_count_def)

lemma has_profile_update [simp]:
  "(\<And>p. p_id (f p) = p_id p) \<Longrightarrow> has_profile (update_where P f ps) x = has_profile ps x"
  by (simp add: has_profile_def image_key_update)

lemma counts_ok_follow:
  assumes "counts_ok ps rs" and "rel_type r = RelFollow" and "rel_source_id r = a" and "rel_target_id r = b"
  shows "counts_ok (update_where (\<lambda>p. p_id p = a) (add_following_count 1)
           (update_where (\<lambda>p. p_id p = b) (add_follower_count 1) ps)) (rs @ [r])"
proof -
  have f: "counted_by p_id p_follower_count follower_ref (update_where (\<lambda>p. p_id p = b) (add_follower_count 1) ps) (rs @ [r])"
    by (rule followers.counted_insert) (use assms in \<open>simp_all add: counts_ok_def follower_ref_def\<close>)
  have g: "counted_by p_id p_following_count following_ref
      (update_where (\<lambda>p. p_id p = a) (add_following_count 1)
        (update_where (\<lambda>p. p_id p = b) (add_follower_count 1) ps)) (rs @ [r])"
    by (rule following.counted_insert)
      (use assms in \<open>simp_all add: counts_ok_def following_ref_def add_follower_count_def
          following.counted_cong [OF map_update_where]\<close>)
  have h: "counted_by p_id p_subscriber_count subscriber_ref ps (rs @ [r])"
    by (rule subscribers.counted_insert_other) (use assms in \<open>simp_all add: counts_ok_def subscriber_ref_def\<close>)
  show ?thesis using f g h
    by (simp add: counts_ok_def add_follower_count_def add_following_count_def
        followers.counted_cong [OF map_update_where] subscribers.counted_cong [OF map_update_where])
qed

lemma counts_ok_delete_other:
  assumes "counts_ok ps rs" and "ty \<noteq> RelFollow" and "ty \<noteq> RelSubscription"
  shows "counts_ok ps (delete_where (is_rel a b ty) rs)"
  using assms
  by (auto simp: counts_ok_def is_rel_def follower_ref_def following_ref_def subscriber_ref_def
      intro!: followers.counted_delete_other following.counted_delete_other subscribers.counted_delete_other)

lemma counts_ok_insert_other:
  assumes "counts_ok ps rs" and "rel_type r \<noteq> RelFollow" and "rel_type r \<noteq> RelSubscription"
  shows "counts_ok ps (rs @ [r])"
  using assms
  by (auto simp: counts_ok_def follower_ref_def following_ref_def subscriber_ref_def
      intro!: followers.counted_insert_other following.counted_insert_other subscribers.counted_insert_other)

lemma rel_inv_insert:
  assumes "rel_inv s" and "a \<noteq> b" and "\<not> list_ex (is_rel a b ty) (relationships s)"
    and "has_profile (actor_profiles s) a" and "has_profile (actor_profiles s) b"
    and ps: "map p_id ps = map p_id (actor_profiles s)"
    and "counts_ok ps (relationships s @ [new_relationship s a b ty])"
    and "actor_profiles t = ps" "relationships t = relationships s @ [new_relationship s a b ty]"
      "follow_requests t = follow_requests s"
  shows "rel_inv t"
proof -
  have "set (map p_id ps) = set (map p_id (actor_profiles s))" by (simp only: ps)
  then have "p_id ` set ps = p_id ` set (actor_profiles s)" by simp
  moreover have "unique_by p_id ps = unique_by p_id (actor_profiles s)"
    by (simp add: unique_by_def ps)
  moreover have "(a, b, ty) \<notin> rel_key ` set (relationships s)"
    using assms(3) by (auto simp: list_ex_iff is_rel_key)
  ultimately show ?thesis
    using assms by (auto simp: rel_inv_def unique_by_append_single has_profile_def)
qed

lemma rel_inv_delete:
  assumes "rel_inv s" and ps: "map p_id ps = map p_id (actor_profiles s)"
    and "counts_ok ps (delete_where P (relationships s))"
    and "actor_profiles t = ps" "relationships t = delete_where P (relationships s)"
      "follow_requests t = delete_where R (follow_requests s)"
  shows "rel_inv t"
proof -
  have "set (map p_id ps) = set (map p_id (actor_profiles s))" by (simp only: ps)
  then have "p_id ` set ps = p_id ` set (actor_profiles s)" by simp
  moreover have "unique_by p_id ps = unique_by p_id (actor_profiles s)"
    by (simp add: unique_by_def ps)
  ultimately show ?thesis
    using assms by (auto simp: rel_inv_def has_profile_def)
qed

lemma follow_preserves: "preserves rel_inv (follow X a b)"
proof (rule preserves_atomic)
  fix s rid t assume inv: "rel_inv s" and run: "follow X a b s = (Ok rid, t)"
  let ?ps = "update_where (\<lambda>p. p_id p = a) (add_following_count 1)
       (update_where (\<lambda>p. p_id p = b) (add_follower_count 1) (actor_profiles s))"
  let ?mid = "s\<lparr>actor_profiles := ?ps, relationships := relationships s @ [new_relationship s a b RelFollow]\<rparr>"
  from run obtain q n ci where pre:
    "a \<noteq> b" "\<not> list_ex (is_rel a b RelFollow) (relationships s)"
    "has_profile (actor_profiles s) a" "has_profile (actor_profiles s) b" and
    t: "t = s\<lparr>relationships := delete_where (is_rel b a RelReject)
       (relationships s @ [new_relationship s a b RelFollow]), collection_items := ci,
     actor_profiles := ?ps, seqs := q, notifications := n\<rparr>"
    by (rule follow_effect) simp
  have counts: "counts_ok ?ps (relationships s @ [new_relationship s a b RelFollow])"
    by (rule counts_ok_follow) (use inv in \<open>simp_all add: rel_inv_def\<close>)
  have mid: "rel_inv ?mid"
    by (rule rel_inv_insert [OF inv pre]) (use counts in \<open>simp_all add: map_update_where\<close>)
  show "rel_inv t"
    by (rule rel_inv_delete [OF mid, where ps = ?ps and P = "is_rel b a RelReject" and R = "\<lambda>_. False"])
      (use counts in \<open>simp_all add: t counts_ok_delete_other\<close>)
qed (simp_all add: follow_def)

text \<open>Deleting the follow relationship between two profiles lowers both counters by one.\<close>

lemma count_is_rel:
  assumes "unique_by rel_key rs" and "filter (is_rel a b ty) rs \<noteq> []"
  shows "count_where (is_rel a b ty) rs = 1"
  using unique_filter_is_rel [OF assms(1), of a b ty] assms(2) by (auto simp: count_where_def)

lemma counts_ok_unfollow:
  assumes "counts_ok ps rs" and "count_where (is_rel a b RelFollow) rs = 1"
  shows "counts_ok (update_where (\<lambda>p. p_id p = a) (add_following_count (- 1))
           (update_where (\<lambda>p. p_id p = b) (add_follower_count (- 1)) ps))
         (delete_where (is_rel a b RelFollow) rs)"
proof -
  have f: "counted_by p_id p_follower_count follower_ref
      (update_where (\<lambda>p. p_id p = b) (add_follower_count (- 1)) ps) (delete_where (is_rel a b RelFollow) rs)"
    by (rule followers.counted_delete_one)
      (use assms in \<open>auto simp: counts_ok_def follower_ref_def is_rel_def\<close>)
  have g: "counted_by p_id p_following_count following_ref
      (update_where (\<lambda>p. p_id p = a) (add_following_count (- 1))
        (update_where (\<lambda>p. p_id p = b) (add_follower_count (- 1)) ps)) (delete_where (is_rel a b RelFollow) rs)"
    by (rule following.counted_delete_one)
      (use assms in \<open>auto simp: counts_ok_def following_ref_def is_rel_def add_follower_count_def
          following.counted_cong [OF map_update_where]\<close>)
  have h: "counted_by p_id p_subscriber_count subscriber_ref ps (delete_where (is_rel a b RelFollow) rs)"
    by (rule subscribers.counted_delete_other)
      (use assms in \<open>auto simp: counts_ok_def subscriber_ref_def is_rel_def\<close>)
  show ?thesis using f g h
    by (simp add: counts_ok_def add_follower_count_def add_following_count_def
        followers.counted_cong [OF map_update_where] subscribers.counted_cong [OF map_update_where])
qed

lemma delete_follow_request_opt_Ok [ok_runs]:
  "delete_follow_request_opt a b s = (Ok x, t) \<longleftrightarrow>
     t = s\<lparr>follow_requests := delete_where (is_request a b) (follow_requests s)\<rparr> \<and>
     (filter (is_request a b) (follow_requests s) = [] \<and> x = None
      \<or> (\<exists>r. filter (is_request a b) (follow_requests s) = [r] \<and> x = Some (fr_id r, fr_has_deprecated_ap_id r)))"
  by (auto simp: delete_follow_request_opt_def ok_runs)

text \<open>The state after a successful \<open>unfollow\<close>: with a relationship it goes together with the
  repost and reply settings and the counters; without one only the request goes.\<close>

lemma unfollow_effect:
  assumes "unfollow X a b s = (Ok x, t)"
  shows "if filter (is_rel a b RelFollow) (relationships s) = []
     then x \<noteq> None \<and> t = s\<lparr>follow_requests := delete_where (is_request a b) (follow_requests s)\<rparr>
     else \<exists>ci. t = s\<lparr>follow_requests := delete_where (is_request a b) (follow_requests s),
            relationships := delete_where (is_rel a b RelHideReplies) (delete_where (is_rel a b RelHideReposts)
              (delete_where (is_rel a b RelFollow) (relationships s))), collection_items := ci,
            actor_profiles := update_where (\<lambda>p. p_id p = a) (add_following_count (-1))
              (update_where (\<lambda>p. p_id p = b) (add_follower_count (-1)) (actor_profiles s))\<rparr>"
proof (cases "filter (is_rel a b RelFollow) (relationships s) = []")
  case True
  then have "delete_where (is_rel a b RelFollow) (relationships s) = relationships s"
    by (intro delete_where_none) (simp add: filter_empty_conv)
  with True assms show ?thesis
    by (auto simp: unfollow_def ok_runs split: if_splits)
next
  case False
  with assms show ?thesis
    by (auto simp: unfollow_def ok_runs show_reposts_def show_replies_def update_counts_defs
        update_profile_counter_Ok split: if_splits)
qed

lemma unfollow_preserves: "preserves rel_inv (unfollow X a b)"
proof (rule preserves_atomic)
  fix s x t assume inv: "rel_inv s" and run: "unfollow X a b s = (Ok x, t)"
  let ?rs = "delete_where (is_rel a b RelFollow) (relationships s)"
  let ?ps = "update_where (\<lambda>p. p_id p = a) (add_following_count (-1))
       (update_where (\<lambda>p. p_id p = b) (add_follower_count (-1)) (actor_profiles s))"
  show "rel_inv t"
  proof (cases "filter (is_rel a b RelFollow) (relationships s) = []")
    case True
    with unfollow_effect [OF run] inv show ?thesis
      by (intro rel_inv_delete [OF inv refl, where P = "\<lambda>_. False" and R = "is_request a b"])
        (simp_all add: rel_inv_def)
  next
    case False
    let ?mid = "s\<lparr>actor_profiles := ?ps, relationships := ?rs,
      follow_requests := delete_where (is_request a b) (follow_requests s)\<rparr>"
    have counts: "counts_ok ?ps ?rs"
      by (rule counts_ok_unfollow [OF rel_invD(5) [OF inv] count_is_rel [OF rel_invD(2) [OF inv] False]])
    have mid: "rel_inv ?mid"
      by (rule rel_inv_delete [OF inv]) (use counts in \<open>simp_all add: map_update_where\<close>)
    have mid2: "rel_inv (?mid\<lparr>relationships := delete_where (is_rel a b RelHideReposts) ?rs\<rparr>)"
      by (rule rel_inv_delete [OF mid, where R = "\<lambda>_. False"])
        (use counts in \<open>simp_all add: counts_ok_delete_other\<close>)
    from unfollow_effect [OF run] False obtain ci where
      "t = s\<lparr>follow_requests := delete_where (is_request a b) (follow_requests s),
            relationships := delete_where (is_rel a b RelHideReplies) (delete_where (is_rel a b RelHideReposts) ?rs),
            collection_items := ci, actor_profiles := ?ps\<rparr>" by auto
    with counts show ?thesis
      by (intro rel_inv_delete [OF mid2, where ps = ?ps and P = "is_rel a b RelHideReplies" and R = "\<lambda>_. False"])
        (simp_all add: counts_ok_delete_other)
  qed
qed (simp_all add: unfollow_def)

section \<open>Single statements\<close>

lemma insert_relationship_atomic: "atomic (insert_relationship a b ty)"
  by (auto simp: atomic_def insert_relationship_def same_tables_def draw_relationship_id_def Let_def)

lemma insert_relationship_opt_atomic: "atomic (insert_relationship_opt a b ty)"
  by (auto simp: atomic_def insert_relationship_opt_def same_tables_def draw_relationship_id_def Let_def)

text \<open>A row of a kind that no counter counts.\<close>

lemma rel_inv_insert_other:
  assumes "rel_inv s" and "a \<noteq> b" and "\<not> list_ex (is_rel a b ty) (relationships s)"
    and "has_profile (actor_profiles s) a" and "has_profile (actor_profiles s) b"
    and "ty \<noteq> RelFollow" and "ty \<noteq> RelSubscription"
  shows "rel_inv ((draw_relationship_id s)\<lparr>relationships := relationships s @ [new_relationship s a b ty]\<rparr>)"
  by (rule rel_inv_insert [OF assms(1-5) refl])
    (use assms in \<open>simp_all add: counts_ok_insert_other rel_inv_def\<close>)

lemma rel_inv_draw [simp]: "rel_inv (draw_relationship_id s) = rel_inv s"
  by (rule rel_inv_frame) simp_all

lemma insert_relationship_preserves:
  assumes "ty \<noteq> RelFollow" and "ty \<noteq> RelSubscription"
  shows "preserves rel_inv (insert_relationship a b ty)"
proof (rule preserves_atomic [OF insert_relationship_atomic])
  fix s n t assume inv: "rel_inv s" and run: "insert_relationship a b ty s = (Ok n, t)"
  with assms show "rel_inv t" by (simp add: insert_relationship_Ok rel_inv_insert_other)
qed simp

lemma insert_relationship_opt_preserves:
  assumes "ty \<noteq> RelFollow" and "ty \<noteq> RelSubscription"
  shows "preserves rel_inv (insert_relationship_opt a b ty)"
proof (rule preserves_atomic [OF insert_relationship_opt_atomic])
  fix s n t assume inv: "rel_inv s" and run: "insert_relationship_opt a b ty s = (Ok n, t)"
  from run have "t = draw_relationship_id s \<or> rel_inv t"
    using inv assms unfolding insert_relationship_opt_Ok by (elim conjE disjE) (simp_all add: rel_inv_insert_other)
  with inv show "rel_inv t" by auto
qed simp

lemma delete_relationship_preserves:
  assumes "ty \<noteq> RelFollow" and "ty \<noteq> RelSubscription"
  shows "preserves rel_inv (delete_relationship a b ty)"
proof (rule preservesI)
  fix s assume inv: "rel_inv s"
  show "rel_inv (snd (delete_relationship a b ty s))"
    by (rule rel_inv_delete [OF inv refl, where P = "is_rel a b ty" and R = "\<lambda>_. False"])
      (use assms inv in \<open>simp_all add: delete_relationship_def counts_ok_delete_other rel_inv_def\<close>)
qed

lemma create_relationship_preserves:
  "ty \<noteq> RelFollow \<Longrightarrow> ty \<noteq> RelSubscription \<Longrightarrow> preserves rel_inv (create_relationship a b ty)"
  by (auto simp: create_relationship_def intro!: preserves_rules insert_relationship_preserves)

lemma setting_preserves:
  "preserves rel_inv (show_reposts a b)" "preserves rel_inv (show_replies a b)"
  "preserves rel_inv (hide_reposts a b)" "preserves rel_inv (hide_replies a b)"
  "preserves rel_inv (mute a b)" "preserves rel_inv (unmute a b)"
  by (auto simp: show_reposts_def show_replies_def hide_reposts_def hide_replies_def mute_def unmute_def
      intro!: preserves_rules delete_relationship_preserves insert_relationship_opt_preserves
        insert_relationship_preserves)

section \<open>Subscriptions to a profile\<close>

lemma counts_ok_subscribe:
  assumes "counts_ok ps rs" and "rel_type r = RelSubscription" and "rel_target_id r = b"
  shows "counts_ok (update_where (\<lambda>p. p_id p = b) (add_subscriber_count 1) ps) (rs @ [r])"
proof -
  have s: "counted_by p_id p_subscriber_count subscriber_ref
      (update_where (\<lambda>p. p_id p = b) (add_subscriber_count 1) ps) (rs @ [r])"
    by (rule subscribers.counted_insert) (use assms in \<open>simp_all add: counts_ok_def subscriber_ref_def\<close>)
  have f: "counted_by p_id p_follower_count follower_ref ps (rs @ [r])"
    by (rule followers.counted_insert_other) (use assms in \<open>simp_all add: counts_ok_def follower_ref_def\<close>)
  have g: "counted_by p_id p_following_count following_ref ps (rs @ [r])"
    by (rule following.counted_insert_other) (use assms in \<open>simp_all add: counts_ok_def following_ref_def\<close>)
  show ?thesis using s f g
    by (simp add: counts_ok_def add_subscriber_count_def
        followers.counted_cong [OF map_update_where] following.counted_cong [OF map_update_where])
qed

lemma counts_ok_unsubscribe:
  assumes "counts_ok ps rs" and "count_where (is_rel a b RelSubscription) rs = 1"
  shows "counts_ok (update_where (\<lambda>p. p_id p = b) (add_subscriber_count (- 1)) ps)
           (delete_where (is_rel a b RelSubscription) rs)"
proof -
  let ?rs = "delete_where (is_rel a b RelSubscription) rs"
  have s: "counted_by p_id p_subscriber_count subscriber_ref
      (update_where (\<lambda>p. p_id p = b) (add_subscriber_count (- 1)) ps) ?rs"
    by (rule subscribers.counted_delete_one)
      (use assms in \<open>auto simp: counts_ok_def subscriber_ref_def is_rel_def\<close>)
  have f: "counted_by p_id p_follower_count follower_ref ps ?rs"
    by (rule followers.counted_delete_other)
      (use assms in \<open>auto simp: counts_ok_def follower_ref_def is_rel_def\<close>)
  have g: "counted_by p_id p_following_count following_ref ps ?rs"
    by (rule following.counted_delete_other)
      (use assms in \<open>auto simp: counts_ok_def following_ref_def is_rel_def\<close>)
  show ?thesis using s f g
    by (simp add: counts_ok_def add_subscriber_count_def
        followers.counted_cong [OF map_update_where] following.counted_cong [OF map_update_where])
qed

text \<open>Inserting a subscription together with the counter update, for \<open>subscribe\<close> and \<open>subscribe_opt\<close>.\<close>

lemma rel_inv_subscribed:
  assumes "rel_inv s" and "a \<noteq> b" and "\<not> list_ex (is_rel a b RelSubscription) (relationships s)"
    and "has_profile (actor_profiles s) a" and "has_profile (actor_profiles s) b"
    and "actor_profiles t = update_where (\<lambda>p. p_id p = b) (add_subscriber_count 1) (actor_profiles s)"
    and "relationships t = relationships s @ [new_relationship s a b RelSubscription]"
    and "follow_requests t = follow_requests s"
  shows "rel_inv t"
  by (rule rel_inv_insert [OF assms(1-5), where ps = "actor_profiles t"])
    (use assms in \<open>simp_all add: map_update_where counts_ok_subscribe rel_inv_def\<close>)

lemma subscribe_preserves: "preserves rel_inv (subscribe X a b)"
proof (rule preserves_atomic)
  fix s x t assume inv: "rel_inv s" and run: "subscribe X a b s = (Ok x, t)"
  from run show "rel_inv t"
    by (auto simp: subscribe_def ok_runs update_counts_defs update_profile_counter_Ok
        intro!: rel_inv_subscribed [OF inv])
qed (simp_all add: subscribe_def)

lemma subscribe_opt_preserves: "preserves rel_inv (subscribe_opt X a b)"
proof (rule preserves_atomic)
  fix s x t assume inv: "rel_inv s" and run: "subscribe_opt X a b s = (Ok x, t)"
  from run obtain n u where ins: "insert_relationship_opt a b RelSubscription s = (Ok n, u)" and
    rest: "t = (if n > 0 then u\<lparr>actor_profiles :=
      update_where (\<lambda>p. p_id p = b) (add_subscriber_count 1) (actor_profiles u)\<rparr> else u)"
    by (auto simp: subscribe_opt_def bnd_Ok seq_Ok transaction_Ok run_Ok ret_Ok update_counts_defs update_profile_counter_Ok
        split: if_splits)
  from ins show "rel_inv t" unfolding insert_relationship_opt_Ok
  proof (elim conjE disjE)
    assume "n = 0" "u = draw_relationship_id s"
    with rest inv show ?thesis by simp
  next
    assume pre: "a \<noteq> b" "\<not> list_ex (is_rel a b RelSubscription) (relationships s)"
      "has_profile (actor_profiles s) a" "has_profile (actor_profiles s) b"
      and "n = 1" "u = (draw_relationship_id s)\<lparr>relationships := relationships s @ [new_relationship s a b RelSubscription]\<rparr>"
    with rest show ?thesis by (intro rel_inv_subscribed [OF inv pre]) simp_all
  qed
qed (simp_all add: subscribe_opt_def)

lemma unsubscribe_preserves: "preserves rel_inv (unsubscribe X a b)"
proof (rule preserves_atomic)
  fix s x t assume inv: "rel_inv s" and run: "unsubscribe X a b s = (Ok x, t)"
  let ?ps = "update_where (\<lambda>p. p_id p = b) (add_subscriber_count (-1)) (actor_profiles s)"
  from run have hit: "filter (is_rel a b RelSubscription) (relationships s) \<noteq> []" and
    t: "\<exists>ci. t = s\<lparr>relationships := delete_where (is_rel a b RelSubscription) (relationships s),
      collection_items := ci, actor_profiles := ?ps\<rparr>"
    by (auto simp: unsubscribe_def ok_runs update_counts_defs update_profile_counter_Ok split: if_splits)
  have "counts_ok ?ps (delete_where (is_rel a b RelSubscription) (relationships s))"
    by (rule counts_ok_unsubscribe [OF rel_invD(5) [OF inv] count_is_rel [OF rel_invD(2) [OF inv] hit]])
  with t show "rel_inv t"
    by (intro rel_inv_delete [OF inv, where ps = ?ps and R = "\<lambda>_. False"]) (auto simp: map_update_where)
qed (simp_all add: unsubscribe_def)

section \<open>Follow requests\<close>

lemma insert_follow_request_preserves: "preserves rel_inv (insert_follow_request r)"
proof (rule preservesI)
  fix s assume "rel_inv s"
  then show "rel_inv (snd (insert_follow_request r s))"
    by (auto simp: insert_follow_request_def rel_inv_def unique_by_append_single list_ex_iff
        follow_request_conflict_def)
qed

lemma rel_inv_update_requests:
  assumes "rel_inv s" and "\<And>r. fr_id (f r) = fr_id r" "\<And>r. fr_source_id (f r) = fr_source_id r"
    "\<And>r. fr_target_id (f r) = fr_target_id r"
  shows "rel_inv (s\<lparr>follow_requests := update_where P f (follow_requests s)\<rparr>)"
  using assms by (auto simp: rel_inv_def unique_by_update set_update_where)

lemma upsert_follow_request_preserves: "preserves rel_inv (upsert_follow_request r)"
proof (rule preservesI)
  fix s assume inv: "rel_inv s"
  with insert_follow_request_preserves [of r] have "rel_inv (snd (insert_follow_request r s))"
    by (auto simp: preserves_def)
  moreover have "rel_inv (s\<lparr>follow_requests := update_where (is_request (fr_source_id r) (fr_target_id r))
      (\<lambda>r'. r'\<lparr>fr_activity_id := fr_activity_id r\<rparr>) (follow_requests s)\<rparr>)"
    by (rule rel_inv_update_requests [OF inv]) simp_all
  ultimately show "rel_inv (snd (upsert_follow_request r s))"
    using inv by (simp add: upsert_follow_request_def Let_def)
qed

lemma delete_requests_preserves:
  "rel_inv s \<Longrightarrow> rel_inv (s\<lparr>follow_requests := delete_where P (follow_requests s)\<rparr>)"
  by (rule rel_inv_delete [where P = "\<lambda>_. False" and R = P and s = s]) (simp_all add: rel_inv_def)

lemma follow_request_accepted_preserves: "preserves rel_inv (follow_request_accepted X rid)"
proof (rule preserves_atomic)
  fix s x t assume inv: "rel_inv s" and run: "follow_request_accepted X rid s = (Ok x, t)"
  from run obtain a b where
    "follow X a b (s\<lparr>follow_requests :=
       update_where (\<lambda>r. fr_id r = rid) (\<lambda>r. r\<lparr>fr_status := FrAccepted\<rparr>) (follow_requests s)\<rparr>) = (Ok x, t)"
    by (auto simp: follow_request_accepted_def ok_runs)
  moreover have "rel_inv (s\<lparr>follow_requests :=
       update_where (\<lambda>r. fr_id r = rid) (\<lambda>r. r\<lparr>fr_status := FrAccepted\<rparr>) (follow_requests s)\<rparr>)"
    by (rule rel_inv_update_requests [OF inv]) simp_all
  ultimately show "rel_inv t" by (metis follow_preserves preservesD)
qed (simp_all add: follow_request_accepted_def)

lemma follow_request_rejected_preserves: "preserves rel_inv (follow_request_rejected rid)"
proof (rule preserves_atomic)
  fix s x t assume inv: "rel_inv s" and run: "follow_request_rejected rid s = (Ok x, t)"
  from run obtain a b n where
    "insert_relationship_opt a b RelReject
       (s\<lparr>follow_requests := delete_where (\<lambda>r. fr_id r = rid) (follow_requests s)\<rparr>) = (Ok n, t)"
    by (auto simp: follow_request_rejected_def ok_runs)
  then show "rel_inv t"
    using delete_requests_preserves [OF inv] insert_relationship_opt_preserves [of RelReject]
    by (metis preservesD relationship_type.distinct)
qed (simp_all add: follow_request_rejected_def)

lemma request_preserves:
  "preserves rel_inv (create_follow_request_unchecked u a b)"
  "preserves rel_inv (create_remote_follow_request_opt u a b aid)"
  by (auto simp: create_follow_request_unchecked_def create_remote_follow_request_opt_def
      intro!: preserves_rules insert_follow_request_preserves upsert_follow_request_preserves)

lemma create_follow_request_preserves: "preserves rel_inv (create_follow_request u a b)"
proof (rule preserves_atomic)
  fix s x t assume "rel_inv s" and "create_follow_request u a b s = (Ok x, t)"
  then show "rel_inv t"
    by (auto simp: create_follow_request_def ok_runs split: if_splits dest: preservesD [OF request_preserves(1)])
qed (simp_all add: create_follow_request_def)

lemma remove_follower_preserves: "preserves rel_inv (remove_follower X a b)"
proof (rule preserves_atomic)
  fix s x t assume inv: "rel_inv s" and run: "remove_follower X a b s = (Ok x, t)"
  from run obtain y u where mid: "match_result (get_follow_request_by_participants a b)
            (\<lambda>r. seq (follow_request_rejected (fr_id r)) (ret (fr_activity_id r)))
            (\<lambda>e. case e of NotFound _ \<Rightarrow> ret None | other \<Rightarrow> throw other) s = (Ok y, u)"
    and last: "\<exists>z. unfollow X a b u = (Ok z, t)"
    by (auto simp: remove_follower_def ok_runs)
  have "preserves rel_inv (match_result (get_follow_request_by_participants a b)
            (\<lambda>r. seq (follow_request_rejected (fr_id r)) (ret (fr_activity_id r)))
            (\<lambda>e. case e of NotFound _ \<Rightarrow> ret None | other \<Rightarrow> throw other))"
    by (auto intro!: preserves_rules follow_request_rejected_preserves
        simp: get_follow_request_by_participants_def split: database_error.splits)
  with mid inv have "rel_inv u" by (blast dest: preservesD)
  with last show "rel_inv t" by (metis unfollow_preserves preservesD)
qed (simp_all add: remove_follower_def)

end
