(* ===== verification/RelationshipResults.thy ===== *)
theory RelationshipResults
  imports RelationshipInvariants
begin

text \<open>
  Results about the relationship operations: every sequence of them keeps the invariant, an
  unfollow undoes a follow, what a removed follower leaves behind, and what a mute suppresses.
\<close>

section \<open>Sequences of operations\<close>

text \<open>One rule per operation, whatever its result; the last rule is any operation that leaves the
  three tables alone.\<close>

inductive relationship_step :: "database \<Rightarrow> database \<Rightarrow> bool" where
  step_follow: "relationship_step s (snd (follow X a b s))"
| step_unfollow: "relationship_step s (snd (unfollow X a b s))"
| step_request: "relationship_step s (snd (create_follow_request ulid a b s))"
| step_remote_request: "relationship_step s (snd (create_remote_follow_request_opt ulid a b aid s))"
| step_accepted: "relationship_step s (snd (follow_request_accepted X rid s))"
| step_rejected: "relationship_step s (snd (follow_request_rejected rid s))"
| step_remove_follower: "relationship_step s (snd (remove_follower X a b s))"
| step_subscribe: "relationship_step s (snd (subscribe X a b s))"
| step_subscribe_opt: "relationship_step s (snd (subscribe_opt X a b s))"
| step_unsubscribe: "relationship_step s (snd (unsubscribe X a b s))"
| step_hide_reposts: "relationship_step s (snd (hide_reposts a b s))"
| step_show_reposts: "relationship_step s (snd (show_reposts a b s))"
| step_hide_replies: "relationship_step s (snd (hide_replies a b s))"
| step_show_replies: "relationship_step s (snd (show_replies a b s))"
| step_mute: "relationship_step s (snd (mute a b s))"
| step_unmute: "relationship_step s (snd (unmute a b s))"
| step_elsewhere: "actor_profiles t = actor_profiles s \<Longrightarrow> relationships t = relationships s \<Longrightarrow>
    follow_requests t = follow_requests s \<Longrightarrow> relationship_step s t"

lemmas relationship_op_preserves = follow_preserves unfollow_preserves create_follow_request_preserves
  request_preserves follow_request_accepted_preserves follow_request_rejected_preserves
  remove_follower_preserves subscribe_preserves subscribe_opt_preserves unsubscribe_preserves
  setting_preserves

lemma relationship_step_preserves: "relationship_step s t \<Longrightarrow> rel_inv s \<Longrightarrow> rel_inv t"
proof (induction rule: relationship_step.induct)
  case (step_elsewhere t s)
  then show ?case using rel_inv_frame by blast
qed (auto intro!: preserves_snd [of rel_inv] relationship_op_preserves)

lemma relationship_steps_preserve: "relationship_step\<^sup>*\<^sup>* s t \<Longrightarrow> rel_inv s \<Longrightarrow> rel_inv t"
  by (induction rule: rtranclp_induct) (auto intro: relationship_step_preserves)

section \<open>Unfollow undoes follow\<close>

text \<open>The consistency check reads no counter.\<close>

lemma profile_check_cong:
  assumes "p_user_id q = p_user_id p"
    "p_automated_account_id q = p_automated_account_id p"
    "p_portable_user_id q = p_portable_user_id p"
    "p_username q = p_username p"
    "p_webfinger_hostname q = p_webfinger_hostname p"
    "p_avatar q = p_avatar p"
    "p_banner q = p_banner p"
    "p_public_keys q = p_public_keys p"
    "p_identity_proofs q = p_identity_proofs p"
    "p_payment_options q = p_payment_options p"
    "p_emojis q = p_emojis p"
    "p_actor_json q = p_actor_json p"
    "p_identity_key q = p_identity_key p"
  shows "profile_check_consistency X q = profile_check_consistency X p"
  unfolding profile_check_consistency_def check_accounts_def check_acct_def check_local_media_def
    has_user_account_def has_automated_account_def acct_def profile_webfinger_hostname_def has_account_def
    has_portable_account_def is_portable_def profile_is_local_def assms ..

lemma profile_check_add_count [simp]:
  "profile_check_consistency X (add_follower_count d p) = profile_check_consistency X p"
  "profile_check_consistency X (add_following_count d p) = profile_check_consistency X p"
  "profile_check_consistency X (add_subscriber_count d p) = profile_check_consistency X p"
  by (rule profile_check_cong;
      simp add: add_follower_count_def add_following_count_def add_subscriber_count_def)+

lemma follow_profiles:
  assumes "follow X a b s = (Ok rid, t)"
  obtains pa pb where "filter (\<lambda>p. p_id p = a) (actor_profiles s) = [pa]" "profile_check_consistency X pa = Ok ()"
    "p_following_count pa + 1 < 2 ^ 31"
    "filter (\<lambda>p. p_id p = b) (actor_profiles s) = [pb]" "profile_check_consistency X pb = Ok ()"
    "p_follower_count pb + 1 < 2 ^ 31"
proof -
  let ?ps = "update_where (\<lambda>p. p_id p = b) (add_follower_count 1) (actor_profiles s)"
  from assms obtain pa pb where
    b: "filter (\<lambda>p. p_id p = b) (actor_profiles s) = [pb]" "profile_check_consistency X pb = Ok ()"
      "p_follower_count pb + 1 < 2 ^ 31" and
    a: "filter (\<lambda>p. p_id p = a) ?ps = [pa]" "profile_check_consistency X pa = Ok ()"
      "p_following_count pa + 1 < 2 ^ 31" and ne: "a \<noteq> b"
    by (auto simp: follow_def ok_runs update_counts_defs update_profile_counter_Ok)
  have "filter (\<lambda>p. p_id p = a) ?ps = filter (\<lambda>p. p_id p = a) (actor_profiles s)"
    by (rule filter_update_other) (use ne in auto)
  with a b that show ?thesis by simp
qed

lemma update_counter_back:
  assumes "\<And>p. p_id (f p) = p_id p" "\<And>p. p_id (g p) = p_id p" "a \<noteq> b"
    and "\<And>p. f' (f p) = p" "\<And>p. g' (g p) = p"
  shows "update_where (\<lambda>p. p_id p = a) g' (update_where (\<lambda>p. p_id p = b) f'
     (update_where (\<lambda>p. p_id p = a) g (update_where (\<lambda>p. p_id p = b) f ps))) = ps"
  using assms by (induction ps) (auto simp: update_where_def)

lemma filter_update_key:
  assumes "filter (\<lambda>p. p_id p = k) ps = [p]" and "\<And>p. p_id (f p) = p_id p"
  shows "filter (\<lambda>p. p_id p = k) (update_where (\<lambda>p. p_id p = k') f ps) = [if k' = k then f p else p]"
proof (cases "k' = k")
  case True
  then show ?thesis using assms by (simp add: filter_update_same)
next
  case False
  then have "filter (\<lambda>p. p_id p = k) (update_where (\<lambda>p. p_id p = k') f ps) = filter (\<lambda>p. p_id p = k) ps"
    by (intro filter_update_other) (use assms in auto)
  with False assms show ?thesis by simp
qed

lemma unique_request_query:
  assumes "rel_inv s"
  shows "\<exists>x. query_opt (filter (is_request a b) (follow_requests s)) = Ok x"
proof -
  have "filter (is_request a b) (follow_requests s) = []
    \<or> (\<exists>r. filter (is_request a b) (follow_requests s) = [r] \<and> r \<in> set (follow_requests s) \<and> is_request a b r)"
    by (rule unique_by_filter_le1 [OF rel_invD(4) [OF assms]]) (auto simp: is_request_def)
  then show ?thesis by auto
qed

lemma follow_then_unfollow:
  assumes inv: "rel_inv s" and run: "follow X a b s = (Ok rid, t)"
  shows "\<exists>x u. unfollow X a b t = (Ok x, u) \<and> actor_profiles u = actor_profiles s
    \<and> follow_requests u = delete_where (is_request a b) (follow_requests s)
    \<and> relationships u = filter (\<lambda>r. \<not> is_rel b a RelReject r \<and> \<not> is_rel a b RelHideReposts r
        \<and> \<not> is_rel a b RelHideReplies r) (relationships s)"
proof -
  from run obtain q n ci where pre: "a \<noteq> b" "\<not> list_ex (is_rel a b RelFollow) (relationships s)"
    "has_profile (actor_profiles s) a" "has_profile (actor_profiles s) b" and
    t: "t = s\<lparr>relationships := delete_where (is_rel b a RelReject)
         (relationships s @ [new_relationship s a b RelFollow]), collection_items := ci,
       actor_profiles := update_where (\<lambda>p. p_id p = a) (add_following_count 1)
         (update_where (\<lambda>p. p_id p = b) (add_follower_count 1) (actor_profiles s)),
       seqs := q, notifications := n\<rparr>"
    by (rule follow_effect)
  from run obtain pa pb where pa: "filter (\<lambda>p. p_id p = a) (actor_profiles s) = [pa]"
      "profile_check_consistency X pa = Ok ()" "p_following_count pa + 1 < 2 ^ 31" and
    pb: "filter (\<lambda>p. p_id p = b) (actor_profiles s) = [pb]"
      "profile_check_consistency X pb = Ok ()" "p_follower_count pb + 1 < 2 ^ 31"
    by (rule follow_profiles)
  have "pa \<in> set (filter (\<lambda>p. p_id p = a) (actor_profiles s))" "pb \<in> set (filter (\<lambda>p. p_id p = b) (actor_profiles s))"
    using pa pb by simp_all
  then have mem: "pa \<in> set (actor_profiles s)" "pb \<in> set (actor_profiles s)" by simp_all
  have nonneg: "0 \<le> p_following_count pa" "0 \<le> p_follower_count pb"
    using rel_invD(5) [OF inv] mem by (auto simp: counts_ok_def counted_by_def)
  obtain x where x: "query_opt (filter (is_request a b) (follow_requests s)) = Ok x"
    using unique_request_query [OF inv] by blast
  let ?new = "new_relationship s a b RelFollow"
  let ?rs = "delete_where (is_rel b a RelReject) (relationships s @ [?new])"
  have hit: "filter (is_rel a b RelFollow) ?rs = [?new]"
    using pre(1,2) by (auto simp: delete_where_def is_rel_def list_ex_iff filter_empty_conv)
  have a1: "filter (\<lambda>p. p_id p = b) (actor_profiles t) = [add_follower_count 1 pb]"
    and a2: "filter (\<lambda>p. p_id p = a) (update_where (\<lambda>p. p_id p = b) (add_follower_count (-1)) (actor_profiles t))
      = [add_following_count 1 pa]"
    using pa(1) pb(1) pre(1) by (simp_all add: t filter_update_key)
  have restored: "update_where (\<lambda>p. p_id p = a) (add_following_count (-1)) (update_where (\<lambda>p. p_id p = b) (add_follower_count (-1))
      (actor_profiles t)) = actor_profiles s"
    unfolding t
    by (simp add: update_counter_back [OF _ _ pre(1)] add_follower_count_def add_following_count_def)
  have up1: "update_follower_count X b (-1) w = (Ok pb', w\<lparr>actor_profiles := update_where (\<lambda>p. p_id p = b) (add_follower_count (-1)) (actor_profiles w)\<rparr>)"
    if "actor_profiles w = actor_profiles t" "pb' = add_follower_count (-1) (add_follower_count 1 pb)" for w pb'
    using that a1 pb(2,3) nonneg(2)
    by (simp add: update_follower_count_def update_profile_counter_Ok) (simp add: add_follower_count_def)
  have up2: "update_following_count X a (-1) w = (Ok pa', w\<lparr>actor_profiles := update_where (\<lambda>p. p_id p = a) (add_following_count (-1)) (actor_profiles w)\<rparr>)"
    if "actor_profiles w = update_where (\<lambda>p. p_id p = b) (add_follower_count (-1)) (actor_profiles t)"
      "pa' = add_following_count (-1) (add_following_count 1 pa)" for w pa'
    using that a2 pa(2,3) nonneg(1)
    by (simp add: update_following_count_def update_profile_counter_Ok) (simp add: add_following_count_def)
  have "\<exists>y u. unfollow X a b t = (Ok y, u) \<and> actor_profiles u = actor_profiles s
      \<and> follow_requests u = delete_where (is_request a b) (follow_requests s)
      \<and> relationships u = delete_where (is_rel a b RelHideReplies) (delete_where (is_rel a b RelHideReposts)
          (delete_where (is_rel a b RelFollow) ?rs))"
    unfolding unfollow_def transaction_Ok bnd_Ok run_Ok delete_relationship_Ok
    using x hit restored
    by (auto simp: t ok_runs delete_follow_request_opt_def show_reposts_def show_replies_def up1 up2)
  then show ?thesis
    using pre(1,2)
    by (auto simp: delete_where_def is_rel_def list_ex_iff intro!: filter_cong)
qed

section \<open>Requests and removal\<close>

lemma unfollow_clears:
  assumes "unfollow X a b s = (Ok x, t)"
  shows "\<not> list_ex (is_rel a b RelFollow) (relationships t)" "\<not> list_ex (is_request a b) (follow_requests t)"
  using unfollow_effect [OF assms] by (auto simp: list_ex_iff filter_empty_conv split: if_splits)

lemma remove_follower_clears:
  assumes "remove_follower X a b s = (Ok x, t)"
  shows "\<not> list_ex (is_rel a b RelFollow) (relationships t)" "\<not> list_ex (is_request a b) (follow_requests t)"
  using assms by (auto simp: remove_follower_def ok_runs dest: unfollow_clears)

text \<open>With a pending request and no follow relationship the removal fails, and rolls the
  rejection of the request back.\<close>

lemma remove_follower_pending_only:
  assumes inv: "rel_inv s" and "r \<in> set (follow_requests s)" "is_request a b r"
    and none: "\<not> list_ex (is_rel a b RelFollow) (relationships s)"
    and prof: "has_profile (actor_profiles s) a" "has_profile (actor_profiles s) b"
  shows "fst (remove_follower X a b s) = Err (NotFound ''relationship'') \<and> same_tables s (snd (remove_follower X a b s))"
proof -
  have r: "filter (is_request a b) (follow_requests s) = [r]"
    by (rule unique_by_filter_key [OF rel_invD(4) [OF inv] assms(2)]) (use assms(3) in \<open>auto simp: is_request_def\<close>)
  have rid: "filter (\<lambda>q. fr_id q = fr_id r) (follow_requests s) = [r]"
    by (rule unique_by_filter_key [OF rel_invD(3) [OF inv] assms(2)]) simp
  have ab: "fr_source_id r = a" "fr_target_id r = b" "a \<noteq> b"
    using assms(2,3) inv by (auto simp: is_request_def rel_inv_def)
  let ?s1 = "s\<lparr>follow_requests := delete_where (\<lambda>q. fr_id q = fr_id r) (follow_requests s)\<rparr>"
  obtain n s2 where ins: "insert_relationship_opt b a RelReject ?s1 = (Ok n, s2)"
    and s2: "filter (is_rel a b RelFollow) (relationships s2) = []" "follow_requests s2 = follow_requests ?s1"
  proof (cases "list_ex (is_rel b a RelReject) (relationships s)")
    case True
    with ab(3) none that [of 0 "draw_relationship_id ?s1"] show ?thesis
      by (auto simp: insert_relationship_opt_Ok list_ex_iff filter_empty_conv)
  next
    case False
    with ab(3) none prof that [of 1 "(draw_relationship_id ?s1)\<lparr>relationships := relationships s @ [new_relationship ?s1 b a RelReject]\<rparr>"]
    show ?thesis
      by (auto simp: insert_relationship_opt_Ok list_ex_iff filter_empty_conv is_rel_def)
  qed
  have gone: "filter (is_request a b) (follow_requests s2) = []"
    using s2(2) r by (auto simp: delete_where_def filter_empty_conv dest: unique_byD [OF rel_invD(4) [OF inv]])
      (metis (mono_tags, lifting) assms(2,3) inv is_request_def rel_invD(4) unique_byD)
  have rej: "follow_request_rejected (fr_id r) s = (Ok (), s2)"
    using ins ab by (auto simp: follow_request_rejected_def ok_runs rid)
  have "fst (unfollow X a b s2) = Err (NotFound ''relationship'')"
    using s2(1) gone
    by (simp add: unfollow_def transaction_def bnd_def run_def map_err_p_def delete_relationship_def
        delete_follow_request_opt_def gets_def modify_def seq_def lift_def ret_def throw_def rollback_def)
  moreover have "get_follow_request_by_participants a b s = (Ok r, s)"
    by (simp add: get_follow_request_by_participants_def select_or_not_found_run r)
  ultimately have "fst (remove_follower X a b s) = Err (NotFound ''relationship'')"
    using rej
    by (auto simp: remove_follower_def transaction_def match_result_def bnd_def seq_def ret_def
        split: prod.splits outcome.splits)
  moreover have "atomic (remove_follower X a b)" by (simp add: remove_follower_def)
  ultimately show ?thesis by (simp add: atomic_def)
qed

section \<open>Mutes\<close>

lemma unless_muted_silent:
  assumes "rel_inv s" and "list_ex (is_rel b a RelMute) (relationships s)"
  shows "unless_muted a b m s = (Ok (), s)"
proof -
  have "\<exists>r. filter (is_rel b a RelMute) (relationships s) = [r]"
    using unique_filter_is_rel [OF rel_invD(2) [OF assms(1)], of b a RelMute] assms(2)
    by (auto simp: list_ex_iff filter_empty_conv)
  then have "has_relationship b a RelMute s = (Ok True, s)" by (auto simp: has_relationship_Ok)
  then show ?thesis by (simp add: unless_muted_def bnd_def ret_def)
qed

section \<open>Pages of notifications\<close>

lemma sorted_wrt_take: "sorted_wrt R xs \<Longrightarrow> sorted_wrt R (take n xs)"
  by (metis append_take_drop_id sorted_wrt_append)

lemma page_properties:
  assumes "unique_by ntf_id (notifications s)"
  shows "sorted_wrt (\<lambda>m n. ntf_id n < ntf_id m) (get_notifications_page rcp lo hi limit s)"
    and "set (get_notifications_page rcp lo hi limit s) \<subseteq> set (filter (visible_notification s rcp lo hi) (notifications s))"
    and "length (get_notifications_page rcp lo hi limit s) \<le> limit"
proof -
  let ?rows = "sort_key ntf_id (filter (visible_notification s rcp lo hi) (notifications s))"
  have "distinct (map ntf_id ?rows)"
    using assms by (auto simp: unique_by_def distinct_map intro: inj_on_subset)
  moreover have "sorted (map ntf_id ?rows)" by simp
  ultimately have "sorted_wrt (<) (map ntf_id ?rows)" by (simp only: strict_sorted_iff)
  then have up: "sorted_wrt (\<lambda>m n. ntf_id m < ntf_id n) ?rows" by (simp add: sorted_wrt_map)
  show "sorted_wrt (\<lambda>m n. ntf_id n < ntf_id m) (get_notifications_page rcp lo hi limit s)"
    using up by (auto simp: get_notifications_page_def Let_def sorted_wrt_rev intro: sorted_wrt_take)
  show "set (get_notifications_page rcp lo hi limit s) \<subseteq> set (filter (visible_notification s rcp lo hi) (notifications s))"
    by (auto simp: get_notifications_page_def Let_def dest!: in_set_takeD)
  show "length (get_notifications_page rcp lo hi limit s) \<le> limit"
    by (simp add: get_notifications_page_def Let_def)
qed

text \<open>Below the limit the page is complete.\<close>

lemma page_complete:
  assumes "length (get_notifications_page rcp lo hi limit s) < limit"
  shows "set (get_notifications_page rcp lo hi limit s) = set (filter (visible_notification s rcp lo hi) (notifications s))"
  using assms by (auto simp: get_notifications_page_def Let_def min_def split: if_splits)

end
