(* ===== verification/Subscriptions.thy ===== *)
theory Subscriptions
  imports RelationshipInvariants
begin

text \<open>
  Paid subscriptions: the table and its queries (\<open>mitra_models/src/subscriptions\<close>) and the
  creation and renewal of a subscription for a duration
  (\<open>mitra_adapters/src/payments/subscriptions.rs\<close>).
\<close>

section \<open>Queries\<close>

record subscription_detailed =
  sd_id :: int
  sd_sender :: actor_profile
  sd_expires_at :: datetime

definition is_sub :: "uuid \<Rightarrow> uuid \<Rightarrow> subscription \<Rightarrow> bool" where
  "is_sub src tgt x \<longleftrightarrow> sub_sender_id x = src \<and> sub_recipient_id x = tgt"

definition insert_subscription :: "uuid \<Rightarrow> uuid \<Rightarrow> datetime \<Rightarrow> datetime \<Rightarrow> subscription stmt" where
  "insert_subscription src tgt expires_at updated_at s =
     (let s1 = s\<lparr>seqs := (seqs s)\<lparr>subscription_seq := subscription_seq (seqs s) + 1\<rparr>\<rparr>;
          x = \<lparr>sub_id = subscription_seq (seqs s), sub_sender_id = src, sub_recipient_id = tgt,
               sub_expires_at = expires_at, sub_updated_at = updated_at\<rparr> in
      if src = tgt then (Err CheckViolation, s1)
      else if list_ex (is_sub src tgt) (subscriptions s) then (Err UniqueViolation, s1)
      else if \<not> profile_exists s src \<or> \<not> profile_exists s tgt then (Err ForeignKeyViolation, s1)
      else (Ok x, s1\<lparr>subscriptions := subscriptions s @ [x]\<rparr>))"

definition create_subscription ::
  "externals \<Rightarrow> uuid \<Rightarrow> uuid \<Rightarrow> datetime \<Rightarrow> datetime \<Rightarrow> subscription db" where
  "create_subscription X src tgt expires_at updated_at = transaction (
     bnd (map_err_p (catch_unique_violation ''subscription'')
            (insert_subscription src tgt expires_at updated_at)) (\<lambda>x.
     seq (subscribe_opt X (sub_sender_id x) (sub_recipient_id x))
     (ret x)))"

definition update_subscription ::
  "externals \<Rightarrow> int \<Rightarrow> datetime \<Rightarrow> datetime \<Rightarrow> subscription db" where
  "update_subscription X sid expires_at updated_at = transaction (
     seq (modify (\<lambda>s. s\<lparr>subscriptions := update_where (\<lambda>x. sub_id x = sid)
            (\<lambda>x. x\<lparr>sub_expires_at := expires_at, sub_updated_at := updated_at\<rparr>) (subscriptions s)\<rparr>))
     (bnd (select_or_not_found ''subscription'' (\<lambda>s. filter (\<lambda>x. sub_id x = sid) (subscriptions s))) (\<lambda>x.
      bnd (gets current_timestamp) (\<lambda>now.
      seq (if expires_at > now then subscribe_opt X (sub_sender_id x) (sub_recipient_id x) else ret ())
      (ret x)))))"

definition get_subscription_by_participants :: "uuid \<Rightarrow> uuid \<Rightarrow> subscription db" where
  "get_subscription_by_participants src tgt =
     select_or_not_found ''subscription'' (\<lambda>s. filter (is_sub src tgt) (subscriptions s))"

definition expired_subscriptions :: "database \<Rightarrow> subscription list" where
  "expired_subscriptions s =
     [x. x \<leftarrow> subscriptions s, r \<leftarrow> relationships s,
         is_rel (sub_sender_id x) (sub_recipient_id x) RelSubscription r
         \<and> sub_expires_at x \<le> current_timestamp s]"

definition get_expired_subscriptions :: "subscription list db" where
  "get_expired_subscriptions = gets expired_subscriptions"

definition get_incoming_subscriptions ::
  "externals \<Rightarrow> uuid \<Rightarrow> bool \<Rightarrow> int option \<Rightarrow> nat \<Rightarrow> subscription_detailed list db" where
  "get_incoming_subscriptions X tgt include_expired max_id limit =
     bnd (gets (\<lambda>s. take limit (rev (sort_key (\<lambda>(x, p). sub_id x)
            [(x, p). p \<leftarrow> actor_profiles s, x \<leftarrow> subscriptions s,
               p_id p = sub_sender_id x \<and> sub_recipient_id x = tgt
               \<and> (include_expired \<or> sub_expires_at x > current_timestamp s)
               \<and> (case max_id of None \<Rightarrow> True | Some m \<Rightarrow> sub_id x < m)])))) (\<lambda>rows.
     type_check (try_map (\<lambda>(x, p). obind (profile_check_consistency X p) (\<lambda>_.
       Ok \<lparr>sd_id = sub_id x, sd_sender = p, sd_expires_at = sub_expires_at x\<rparr>)) rows))"

definition local_subscription_rows :: "database \<Rightarrow> subscription list" where
  "local_subscription_rows s =
     [x. x \<leftarrow> subscriptions s, p \<leftarrow> actor_profiles s,
         sub_recipient_id x = p_id p \<and> p_user_id p \<noteq> None]"

definition get_active_subscription_count :: "int db" where
  "get_active_subscription_count = gets (\<lambda>s.
     count_where (\<lambda>x. sub_expires_at x > current_timestamp s) (local_subscription_rows s))"

definition get_expired_subscription_count :: "int db" where
  "get_expired_subscription_count = gets (\<lambda>s.
     count_where (\<lambda>x. sub_expires_at x \<le> current_timestamp s) (local_subscription_rows s))"

section \<open>Prices and durations\<close>

text \<open>\<open>mitra_adapters/src/payments/subscriptions.rs\<close>. Prices are \<open>u64\<close> piconeros per second.\<close>

definition monero_payment_amount_min :: nat where
  "monero_payment_amount_min = 1000000000"

definition seconds_in_month :: nat where
  "seconds_in_month = 30 * 24 * 3600"

definition checked_mul_u64 :: "nat \<Rightarrow> nat \<Rightarrow> nat option" where
  "checked_mul_u64 a b = (if a * b < 2 ^ 64 then Some (a * b) else None)"

definition validate_subscription_price :: "nat \<Rightarrow> (string, unit) outcome" where
  "validate_subscription_price price_per_second =
     obind (ok_or ''price is too high'' (checked_mul_u64 price_per_second seconds_in_month)) (\<lambda>price_per_month.
     if price_per_month < monero_payment_amount_min then Err ''price is too low'' else Ok ())"

text \<open>\<open>TimeDelta::seconds\<close> panics beyond \<open>i64::MAX / 1000\<close> seconds, and \<open>DateTime + TimeDelta\<close>
  panics past the first and last representable instants, the years -262143 and 262142.\<close>

definition datetime_min :: datetime where
  "datetime_min = - 8334601228800000000"

definition datetime_max :: datetime where
  "datetime_max = 8210266876799999999"

definition add_seconds :: "datetime \<Rightarrow> int \<Rightarrow> ('e, datetime) outcome" where
  "add_seconds t n =
     (if \<bar>n\<bar> > (2 ^ 63 - 1) div 1000 then Panic ''TimeDelta::seconds out of bounds''
      else if t + seconds n < datetime_min \<or> t + seconds n > datetime_max then Panic ''DateTime + TimeDelta overflowed''
      else Ok (t + seconds n))"

definition create_or_update_subscription ::
  "externals \<Rightarrow> actor_profile \<Rightarrow> actor_profile
   \<Rightarrow> (datetime option \<Rightarrow> (database_error, datetime) outcome) \<Rightarrow> subscription db" where
  "create_or_update_subscription X sender recipient next_expires_at =
     match_result (get_subscription_by_participants (p_id sender) (p_id recipient))
       (\<lambda>x. bnd (lift (next_expires_at (Some (sub_expires_at x)))) (\<lambda>expires_at.
            bnd (gets current_timestamp) (\<lambda>now.
            update_subscription X (sub_id x) expires_at now)))
       (\<lambda>e. case e of
            NotFound _ \<Rightarrow>
              bnd (lift (next_expires_at None)) (\<lambda>expires_at.
              bnd (gets current_timestamp) (\<lambda>now.
              create_subscription X (p_id sender) (p_id recipient) expires_at now))
          | other \<Rightarrow> throw other)"

definition create_or_update_local_subscription ::
  "externals \<Rightarrow> actor_profile \<Rightarrow> user \<Rightarrow> int \<Rightarrow> subscription db" where
  "create_or_update_local_subscription X sender recipient duration_secs =
     bnd (gets current_timestamp) (\<lambda>now.
     create_or_update_subscription X sender (user_profile recipient) (\<lambda>maybe_expires_at.
       case maybe_expires_at of
         Some expires_at \<Rightarrow> add_seconds (max expires_at now) duration_secs
       | None \<Rightarrow> add_seconds now duration_secs))"

section \<open>Effects\<close>

definition sub_keys :: "database \<Rightarrow> bool" where
  "sub_keys s \<longleftrightarrow> unique_by sub_id (subscriptions s)
     \<and> unique_by (\<lambda>x. (sub_sender_id x, sub_recipient_id x)) (subscriptions s)"

text \<open>\<open>subscribe_opt\<close> leaves the pair subscribed and touches no subscription row.\<close>

lemma subscribe_opt_effect:
  assumes "subscribe_opt X a b s = (Ok u, t)"
  shows "list_ex (is_rel a b RelSubscription) (relationships t)" and "subscriptions t = subscriptions s"
    and "invoices t = invoices s" and "current_timestamp t = current_timestamp s"
    and "list_ex (is_rel a b RelSubscription) (relationships s) \<Longrightarrow>
      relationships t = relationships s \<and> actor_profiles t = actor_profiles s"
  using assms
  by (auto simp: subscribe_opt_def ok_runs update_counts_defs update_profile_counter_Ok is_rel_def split: if_splits)

lemma create_subscription_Ok:
  assumes "create_subscription X a b e u s = (Ok x, t)"
  shows "sub_sender_id x = a" "sub_recipient_id x = b" "sub_expires_at x = e"
    "subscriptions t = subscriptions s @ [x]" "\<not> list_ex (is_sub a b) (subscriptions s)"
    "list_ex (is_rel a b RelSubscription) (relationships t)" "invoices t = invoices s"
  using assms
  by (auto simp: create_subscription_def insert_subscription_def Let_def bnd_Ok seq_Ok ret_Ok transaction_Ok
      map_err_p_Ok split: if_splits dest: subscribe_opt_effect)

lemma update_subscription_Ok:
  assumes "update_subscription X sid e u s = (Ok x, t)"
  shows "subscriptions t = update_where (\<lambda>x. sub_id x = sid)
      (\<lambda>x. x\<lparr>sub_expires_at := e, sub_updated_at := u\<rparr>) (subscriptions s)"
    and "filter (\<lambda>x. sub_id x = sid) (subscriptions t) = [x]"
    and "e > current_timestamp s \<Longrightarrow>
      list_ex (is_rel (sub_sender_id x) (sub_recipient_id x) RelSubscription) (relationships t)"
    and "\<not> e > current_timestamp s \<Longrightarrow> relationships t = relationships s"
    and "invoices t = invoices s"
  using assms
  by (auto simp: update_subscription_def bnd_Ok seq_Ok ret_Ok transaction_Ok modify_Ok gets_Ok
      select_or_not_found_Ok split: if_splits dest: subscribe_opt_effect)

lemma create_subscription_preserves: "preserves rel_inv (create_subscription X a b e u)"
proof (rule preserves_atomic)
  fix s x t assume inv: "rel_inv s" and run: "create_subscription X a b e u s = (Ok x, t)"
  then obtain y v where ins: "insert_subscription a b e u s = (Ok y, v)"
    and sub: "\<exists>z. subscribe_opt X (sub_sender_id y) (sub_recipient_id y) v = (Ok z, t)"
    by (auto simp: create_subscription_def bnd_Ok seq_Ok ret_Ok transaction_Ok map_err_p_Ok)
  from ins have "rel_inv v = rel_inv s"
    by (intro rel_inv_frame) (auto simp: insert_subscription_def Let_def split: if_splits)
  with inv sub show "rel_inv t" by (metis preservesD subscribe_opt_preserves)
qed (simp_all add: create_subscription_def)

lemma rel_inv_subscriptions [simp]: "rel_inv (s\<lparr>subscriptions := y\<rparr>) = rel_inv s"
  by (rule rel_inv_frame) simp_all

lemma update_subscription_preserves: "preserves rel_inv (update_subscription X sid e u)"
proof (rule preserves_atomic)
  fix s x t assume inv: "rel_inv s" and run: "update_subscription X sid e u s = (Ok x, t)"
  let ?s = "s\<lparr>subscriptions := update_where (\<lambda>x. sub_id x = sid)
      (\<lambda>x. x\<lparr>sub_expires_at := e, sub_updated_at := u\<rparr>) (subscriptions s)\<rparr>"
  from run have "t = ?s \<or> (\<exists>z. subscribe_opt X (sub_sender_id x) (sub_recipient_id x) ?s = (Ok z, t))"
    by (auto simp: update_subscription_def bnd_Ok seq_Ok ret_Ok transaction_Ok modify_Ok gets_Ok
        select_or_not_found_Ok split: if_splits)
  moreover have "rel_inv ?s" using inv by simp
  ultimately show "rel_inv t" by (metis preservesD subscribe_opt_preserves)
qed (simp_all add: update_subscription_def)

lemma create_or_update_local_subscription_preserves:
  "preserves rel_inv (create_or_update_local_subscription X p r n)"
  unfolding create_or_update_local_subscription_def create_or_update_subscription_def
    get_subscription_by_participants_def
  by (intro preserves_rules allI)
    (auto intro!: preserves_rules create_subscription_preserves update_subscription_preserves
      split: database_error.splits)

section \<open>Renewal\<close>

lemma add_seconds_Ok: "add_seconds t n = Ok e \<Longrightarrow> e = t + seconds n"
  by (simp add: add_seconds_def split: if_splits)

lemma unique_filter_is_sub:
  assumes "sub_keys s"
  shows "filter (is_sub a b) (subscriptions s) = []
     \<or> (\<exists>x. filter (is_sub a b) (subscriptions s) = [x] \<and> x \<in> set (subscriptions s) \<and> is_sub a b x)"
  by (rule unique_by_filter_le1 [of "\<lambda>x. (sub_sender_id x, sub_recipient_id x)"])
    (use assms in \<open>auto simp: sub_keys_def is_sub_def\<close>)

text \<open>The base of a renewal: the later of now and the current expiry.\<close>

definition renewal_base :: "database \<Rightarrow> uuid \<Rightarrow> uuid \<Rightarrow> datetime" where
  "renewal_base s a b = (case filter (is_sub a b) (subscriptions s) of
      [] \<Rightarrow> current_timestamp s
    | x # _ \<Rightarrow> max (sub_expires_at x) (current_timestamp s))"

lemma local_subscription_effect:
  assumes "sub_keys s" and "create_or_update_local_subscription X p r n s = (Ok x, t)"
  defines "a \<equiv> p_id p" and "b \<equiv> p_id (user_profile r)"
  shows "filter (is_sub a b) (subscriptions t) = [x]
     \<and> sub_expires_at x = renewal_base s a b + seconds n
     \<and> (\<forall>c d. (c, d) \<noteq> (a, b) \<longrightarrow> filter (is_sub c d) (subscriptions t) = filter (is_sub c d) (subscriptions s))
     \<and> (n > 0 \<longrightarrow> list_ex (is_rel a b RelSubscription) (relationships t))
     \<and> invoices t = invoices s"
proof (cases "filter (is_sub a b) (subscriptions s) = []")
  case True
  then have "create_subscription X a b (current_timestamp s + seconds n) (current_timestamp s) s = (Ok x, t)"
    using assms(2) unfolding a_def b_def
    by (auto simp: create_or_update_local_subscription_def create_or_update_subscription_def bnd_Ok gets_Ok
        match_result_Ok get_subscription_by_participants_def select_or_not_found_Ok select_or_not_found_run
        lift_Ok dest!: add_seconds_Ok)
  note x = create_subscription_Ok [OF this]
  have "\<not> is_sub c d x" if "(c, d) \<noteq> (a, b)" for c d using x(1,2) that by (auto simp: is_sub_def)
  with x True show ?thesis by (simp add: renewal_base_def is_sub_def)
next
  case False
  then obtain x0 where x0: "filter (is_sub a b) (subscriptions s) = [x0]" "x0 \<in> set (subscriptions s)" "is_sub a b x0"
    using unique_filter_is_sub [OF assms(1), of a b] by auto
  let ?e = "max (sub_expires_at x0) (current_timestamp s) + seconds n"
  have upd: "update_subscription X (sub_id x0) ?e (current_timestamp s) s = (Ok x, t)"
    using assms(2) x0(1) unfolding a_def b_def
    by (auto simp: create_or_update_local_subscription_def create_or_update_subscription_def bnd_Ok gets_Ok
        match_result_Ok get_subscription_by_participants_def select_or_not_found_Ok select_or_not_found_run
        lift_Ok dest!: add_seconds_Ok)
  note eff = update_subscription_Ok [OF upd]
  let ?f = "\<lambda>x. x\<lparr>sub_expires_at := ?e, sub_updated_at := current_timestamp s\<rparr>"
  have only: "filter (\<lambda>x. sub_id x = sub_id x0) (subscriptions s) = [x0]"
    by (rule unique_by_filter_key [of sub_id]) (use assms(1) x0 in \<open>auto simp: sub_keys_def\<close>)
  then have x: "x = ?f x0" using eff(1,2) by (simp add: filter_update_same)
  have same: "filter (is_sub c d) (subscriptions t) =
      update_where (\<lambda>x. sub_id x = sub_id x0) ?f (filter (is_sub c d) (subscriptions s))" for c d
    unfolding eff(1) by (rule filter_update_where) (simp add: is_sub_def)
  have other: "filter (is_sub c d) (subscriptions t) = filter (is_sub c d) (subscriptions s)"
    if "(c, d) \<noteq> (a, b)" for c d
  proof -
    have "sub_id y \<noteq> sub_id x0" if "y \<in> set (filter (is_sub c d) (subscriptions s))" for y
    proof
      assume "sub_id y = sub_id x0"
      with that x0(2) assms(1) have "y = x0" by (auto simp: sub_keys_def dest: unique_byD)
      with that x0(3) \<open>(c, d) \<noteq> (a, b)\<close> show False by (auto simp: is_sub_def)
    qed
    then show ?thesis by (auto simp: same update_where_def intro!: map_idI)
  qed
  have "n > 0 \<longrightarrow> ?e > current_timestamp s" by (auto simp: seconds_def)
  with eff(3) x x0(3) have "n > 0 \<longrightarrow> list_ex (is_rel a b RelSubscription) (relationships t)"
    by (auto simp: is_sub_def)
  with x0 x eff(5) other same [of a b] show ?thesis by (simp add: renewal_base_def update_where_def)
qed

end
