(* ===== verification/Jobs.thy ===== *)
theory Jobs
  imports Database "HOL-Library.Product_Lexorder" "HOL-Library.Multiset"
begin

text \<open>
  The background job queue (\<open>mitra_models/src/background_jobs/queries.rs\<close>): enqueueing, the batch
  selection that hands jobs to a worker, deletion and counting, and what a worker can rely on.
\<close>

section \<open>Queries\<close>

text \<open>The fresh identifier \<open>Uuid::new_v4()\<close> is the argument \<open>jid\<close>.\<close>

definition enqueue_job :: "uuid \<Rightarrow> job_type \<Rightarrow> json \<Rightarrow> datetime \<Rightarrow> uuid db" where
  "enqueue_job jid ty data scheduled_for =
     seq (run (\<lambda>s.
       if list_ex (\<lambda>j. bj_id j = jid) (background_jobs s) then (Err UniqueViolation, s)
       else (Ok (), s\<lparr>background_jobs := background_jobs s @ [\<lparr>bj_id = jid, bj_job_type = ty,
              bj_job_data = data, bj_job_status = Queued, bj_scheduled_for = scheduled_for,
              bj_updated_at = current_timestamp s\<rparr>]\<rparr>)))
     (ret jid)"

text \<open>\<open>locked\<close> holds the rows other workers have locked, which \<open>SKIP LOCKED\<close> passes over.\<close>

definition job_is_due :: "database \<Rightarrow> job_type \<Rightarrow> nat \<Rightarrow> background_job \<Rightarrow> bool" where
  "job_is_due s ty job_timeout j \<longleftrightarrow>
     bj_job_type j = ty \<and> bj_scheduled_for j < current_timestamp s
     \<and> (bj_job_status j = Queued
        \<or> bj_job_status j = Running
          \<and> bj_updated_at j < current_timestamp s - seconds (int job_timeout))"

definition job_order :: "background_job \<Rightarrow> int \<times> datetime" where
  "job_order j = (job_status_to_i16 (bj_job_status j), bj_scheduled_for j)"

definition select_job_batch ::
  "database \<Rightarrow> (uuid \<Rightarrow> bool) \<Rightarrow> job_type \<Rightarrow> nat \<Rightarrow> nat \<Rightarrow> background_job list" where
  "select_job_batch s locked ty batch_size job_timeout =
     take batch_size (sort_key job_order
       (filter (\<lambda>j. job_is_due s ty job_timeout j \<and> \<not> locked (bj_id j)) (background_jobs s)))"

definition start_job :: "database \<Rightarrow> background_job \<Rightarrow> background_job" where
  "start_job s j = j\<lparr>bj_job_status := Running, bj_updated_at := current_timestamp s\<rparr>"

definition get_job_batch ::
  "(uuid \<Rightarrow> bool) \<Rightarrow> job_type \<Rightarrow> nat \<Rightarrow> nat \<Rightarrow> background_job list db" where
  "get_job_batch locked ty batch_size job_timeout s =
     (let ids = bj_id ` set (select_job_batch s locked ty batch_size job_timeout);
          t = s\<lparr>background_jobs :=
                  update_where (\<lambda>j. bj_id j \<in> ids) (start_job s) (background_jobs s)\<rparr> in
      (Ok (sort_key bj_scheduled_for (filter (\<lambda>j. bj_id j \<in> ids) (background_jobs t))), t))"

definition delete_job_from_queue :: "uuid \<Rightarrow> unit db" where
  "delete_job_from_queue jid =
     bnd (gets (\<lambda>s. count_where (\<lambda>j. bj_id j = jid) (background_jobs s))) (\<lambda>deleted_count.
     seq (modify (\<lambda>s. s\<lparr>background_jobs := delete_where (\<lambda>j. bj_id j = jid) (background_jobs s)\<rparr>))
     (if deleted_count = 0 then throw (NotFound ''background job'') else ret ()))"

definition get_job_count :: "job_type \<Rightarrow> int db" where
  "get_job_count ty = gets (\<lambda>s. count_where (\<lambda>j. bj_job_type j = ty) (background_jobs s))"

section \<open>Properties\<close>

definition jobs_ok :: "database \<Rightarrow> bool" where
  "jobs_ok s \<longleftrightarrow> unique_by bj_id (background_jobs s)"

lemma jobs_ok_seqs [simp]: "jobs_ok (s\<lparr>seqs := q\<rparr>) = jobs_ok s"
  by (simp add: jobs_ok_def)

lemma start_job_simps [simp]:
  "bj_id (start_job s j) = bj_id j" "bj_job_type (start_job s j) = bj_job_type j"
  "bj_job_data (start_job s j) = bj_job_data j" "bj_scheduled_for (start_job s j) = bj_scheduled_for j"
  "bj_job_status (start_job s j) = Running" "bj_updated_at (start_job s j) = current_timestamp s"
  by (simp_all add: start_job_def)

lemma set_select_job_batch:
  "set (select_job_batch s locked ty n d) \<subseteq> {j \<in> set (background_jobs s). job_is_due s ty d j \<and> \<not> locked (bj_id j)}"
  unfolding select_job_batch_def by (auto dest: in_set_takeD)

lemma enqueue_job_Ok [ok_runs]:
  "enqueue_job jid ty data at s = (Ok x, t) \<longleftrightarrow>
     x = jid \<and> jid \<notin> bj_id ` set (background_jobs s) \<and>
     t = s\<lparr>background_jobs := background_jobs s @ [\<lparr>bj_id = jid, bj_job_type = ty, bj_job_data = data,
       bj_job_status = Queued, bj_scheduled_for = at, bj_updated_at = current_timestamp s\<rparr>]\<rparr>"
  by (auto simp: enqueue_job_def ok_runs list_ex_iff image_iff)

lemma delete_job_from_queue_Ok [ok_runs]:
  "delete_job_from_queue jid s = (Ok x, t) \<longleftrightarrow>
     jid \<in> bj_id ` set (background_jobs s) \<and>
     t = s\<lparr>background_jobs := delete_where (\<lambda>j. bj_id j = jid) (background_jobs s)\<rparr>"
  by (auto simp: delete_job_from_queue_def ok_runs count_where_zero image_iff)

lemma enqueue_job_preserves: "preserves jobs_ok (enqueue_job jid ty data at)"
  by (auto simp: enqueue_job_def preserves_def jobs_ok_def run_def prog_defs unique_by_append_single
      list_ex_iff image_iff)

lemma get_job_batch_preserves: "preserves jobs_ok (get_job_batch locked ty n d)"
  by (auto simp: get_job_batch_def preserves_def jobs_ok_def Let_def unique_by_update)

lemma delete_job_preserves: "preserves jobs_ok (delete_job_from_queue jid)"
  by (auto simp: delete_job_from_queue_def preserves_def jobs_ok_def prog_defs)

text \<open>With unique identifiers the batch is the selected rows, started.\<close>

lemma batch_rows:
  assumes "jobs_ok s" and "get_job_batch locked ty n d s = (Ok jobs, t)"
  shows "mset jobs = mset (map (start_job s) (select_job_batch s locked ty n d))"
proof -
  let ?sel = "select_job_batch s locked ty n d" and ?all = "background_jobs s"
  let ?due = "filter (\<lambda>j. job_is_due s ty d j \<and> \<not> locked (bj_id j)) ?all"
  have sub: "set ?sel \<subseteq> set ?all" using set_select_job_batch [of s locked ty n d] by auto
  have dist: "distinct ?all" using assms(1) by (simp add: jobs_ok_def unique_by_def distinct_map)
  have dsel: "distinct ?sel"
    unfolding select_job_batch_def by (intro distinct_take) (simp add: dist)
  have mem: "bj_id j \<in> bj_id ` set ?sel \<longleftrightarrow> j \<in> set ?sel" if "j \<in> set ?all" for j
    using that sub assms(1) by (auto simp: jobs_ok_def dest: unique_byD)
  have "mset jobs = mset (filter (\<lambda>j. bj_id j \<in> bj_id ` set ?sel)
      (update_where (\<lambda>j. bj_id j \<in> bj_id ` set ?sel) (start_job s) ?all))"
    using assms(2) by (auto simp: get_job_batch_def Let_def)
  also have "\<dots> = mset (map (start_job s) (filter (\<lambda>j. bj_id j \<in> bj_id ` set ?sel) ?all))"
    by (simp add: filter_update_same)
  also have "filter (\<lambda>j. bj_id j \<in> bj_id ` set ?sel) ?all = filter (\<lambda>j. j \<in> set ?sel) ?all"
    by (rule filter_cong [OF refl mem])
  also have "mset (map (start_job s) \<dots>) = image_mset (start_job s) (mset \<dots>)" by simp
  also have "mset (filter (\<lambda>j. j \<in> set ?sel) ?all) = mset ?sel"
    using sub dsel dist by (subst set_eq_iff_mset_eq_distinct [symmetric]) auto
  finally show ?thesis by simp
qed

lemma batch_job_cases:
  assumes "jobs_ok s" and "get_job_batch locked ty n d s = (Ok jobs, t)" and "j \<in> set jobs"
  obtains j0 where "j0 \<in> set (select_job_batch s locked ty n d)" "j = start_job s j0"
proof -
  have "set jobs = start_job s ` set (select_job_batch s locked ty n d)"
    using batch_rows [OF assms(1,2)] by (metis set_map set_mset_mset)
  with assms(3) that show ?thesis by auto
qed

lemma get_job_batch_state:
  assumes "get_job_batch locked ty n d s = (Ok jobs, t)"
  shows "t = s\<lparr>background_jobs := update_where (\<lambda>j. bj_id j \<in> bj_id ` set jobs) (start_job s) (background_jobs s)\<rparr>"
proof -
  let ?ids = "bj_id ` set (select_job_batch s locked ty n d)"
  have "set jobs = set (filter (\<lambda>j. bj_id j \<in> ?ids) (update_where (\<lambda>j. bj_id j \<in> ?ids) (start_job s) (background_jobs s)))"
    using assms by (auto simp: get_job_batch_def Let_def)
  then have "set jobs = start_job s ` {j \<in> set (background_jobs s). bj_id j \<in> ?ids}"
    by (auto simp: set_update_where)
  moreover have "set (select_job_batch s locked ty n d) \<subseteq> set (background_jobs s)"
    using set_select_job_batch [of s locked ty n d] by auto
  ultimately have "bj_id ` set jobs = ?ids" by (force simp: image_image)
  with assms show ?thesis by (auto simp: get_job_batch_def Let_def)
qed

lemma batch_distinct:
  assumes "jobs_ok s" and "get_job_batch locked ty n d s = (Ok jobs, t)"
  shows "distinct (map bj_id jobs)"
proof -
  have sel: "distinct (map bj_id (select_job_batch s locked ty n d))"
    using assms(1) unfolding select_job_batch_def jobs_ok_def unique_by_def
    by (auto simp: take_map [symmetric] distinct_map intro!: distinct_take intro: inj_on_subset)
  have "mset (map bj_id jobs) = mset (map bj_id (select_job_batch s locked ty n d))"
    using arg_cong [OF batch_rows [OF assms], of "image_mset bj_id"] by (simp add: image_mset.compositionality comp_def)
  then show ?thesis using sel by (metis mset_eq_imp_distinct_iff)
qed

text \<open>The first rows of a sorted table come before the rest.\<close>

lemma take_sorted_le:
  assumes "sorted (map k xs)" and "x \<in> set (take n xs)" and "y \<in> set (drop n xs)"
  shows "k x \<le> k y"
proof -
  have "sorted (map k (take n xs) @ map k (drop n xs))"
    using assms(1) by (metis append_take_drop_id map_append)
  with assms(2,3) show ?thesis by (auto simp: sorted_append)
qed

lemma left_out_of_batch:
  assumes "jobs_ok s" and "j0 \<in> set (background_jobs s)" and "job_is_due s ty d j0" and "\<not> locked (bj_id j0)"
    and "j0 \<notin> set (select_job_batch s locked ty n d)"
  shows "length (select_job_batch s locked ty n d) = n"
    and "k \<in> set (select_job_batch s locked ty n d) \<Longrightarrow> job_order k \<le> job_order j0"
proof -
  let ?rows = "sort_key job_order (filter (\<lambda>j. job_is_due s ty d j \<and> \<not> locked (bj_id j)) (background_jobs s))"
  have "j0 \<in> set ?rows" using assms by simp
  then have rest: "j0 \<in> set (drop n ?rows)"
    using assms(5) unfolding select_job_batch_def by (metis Un_iff append_take_drop_id set_append)
  then have "n < length ?rows" by (metis drop_all empty_iff linorder_not_le list.set(1))
  then show "length (select_job_batch s locked ty n d) = n" by (simp add: select_job_batch_def)
  show "job_order k \<le> job_order j0" if "k \<in> set (select_job_batch s locked ty n d)"
    using that rest unfolding select_job_batch_def by (rule take_sorted_le [rotated]) simp
qed

lemma batch_ids:
  assumes "jobs_ok s" and "get_job_batch locked ty n d s = (Ok jobs, t)"
  shows "bj_id ` set jobs = bj_id ` set (select_job_batch s locked ty n d)"
proof -
  have "set jobs = start_job s ` set (select_job_batch s locked ty n d)"
    using batch_rows [OF assms] by (metis set_map set_mset_mset)
  then show ?thesis by (simp add: image_image)
qed

lemma batch_selected:
  assumes "jobs_ok s" and "get_job_batch locked ty n d s = (Ok jobs, t)"
    and "k \<in> set (background_jobs s)" and "bj_id k \<in> bj_id ` set jobs"
  shows "k \<in> set (select_job_batch s locked ty n d)"
  using assms(1,3,4) set_select_job_batch [of s locked ty n d]
  by (auto simp: batch_ids [OF assms(1,2)] jobs_ok_def dest: unique_byD)

lemma batch_length:
  assumes "jobs_ok s" and "get_job_batch locked ty n d s = (Ok jobs, t)"
  shows "length jobs = length (select_job_batch s locked ty n d)"
  using arg_cong [OF batch_rows [OF assms], of size] by simp

text \<open>A job handed out is not due again before its timeout.\<close>

lemma started_not_due:
  "current_timestamp u \<le> current_timestamp s + seconds (int d) \<Longrightarrow> \<not> job_is_due u ty d (start_job s j)"
  by (simp add: job_is_due_def)

end
