(* ===== verification/Queues.thy ===== *)
theory Queues
  imports Jobs Profiles "HOL-Library.List_Lexorder" "HOL-Library.Char_ord" "HOL-Library.Word"
begin

text \<open>
  The federation queues (\<open>mitra_activitypub/src/queues.rs\<close>): the job data of incoming and
  outgoing activities with their JSON form, the recipients of a delivery
  (\<open>mitra_activitypub/src/deliverer.rs\<close>), and the processing of incoming jobs with its retries.
\<close>

section \<open>JSON values of the derived structs\<close>

text \<open>\<open>#[derive(Deserialize)]\<close> looks fields up by name, ignores unknown ones, reads a missing or
  null \<open>Option\<close> as \<open>None\<close>, and refuses a number outside the field's type.\<close>

fun json_field :: "json \<Rightarrow> string \<Rightarrow> json option" where
  "json_field (JObject kvs) k = map_of kvs k"
| "json_field _ k = None"

fun json_str :: "json \<Rightarrow> string option" where
  "json_str (JString x) = Some x"
| "json_str _ = None"

fun json_bool :: "json \<Rightarrow> bool option" where
  "json_bool (JBool b) = Some b"
| "json_bool _ = None"

fun json_u32 :: "json \<Rightarrow> nat option" where
  "json_u32 (JNumber n) = (if 0 \<le> n \<and> n < 2 ^ 32 then Some (nat n) else None)"
| "json_u32 _ = None"

definition json_opt_str :: "json option \<Rightarrow> string option option" where
  "json_opt_str x = (case x of
      None \<Rightarrow> Some None
    | Some JNull \<Rightarrow> Some None
    | Some v \<Rightarrow> map_option Some (json_str v))"

definition opt_str_json :: "string option \<Rightarrow> json" where
  "opt_str_json x = (case x of None \<Rightarrow> JNull | Some v \<Rightarrow> JString v)"

definition json_default_bool :: "json option \<Rightarrow> bool option" where
  "json_default_bool x = (case x of None \<Rightarrow> Some False | Some v \<Rightarrow> json_bool v)"

fun json_vec :: "(json \<Rightarrow> 'a option) \<Rightarrow> json \<Rightarrow> 'a list option" where
  "json_vec f (JArray vs) = those (map f vs)"
| "json_vec f _ = None"

lemma json_opt_str_roundtrip [simp]: "json_opt_str (Some (opt_str_json x)) = Some x"
  by (simp add: json_opt_str_def opt_str_json_def split: option.splits)

section \<open>Recipients\<close>

record recipient =
  rc_id :: string
  rc_inbox :: string
  rc_is_primary :: bool
  rc_is_delivered :: bool
  rc_is_unreachable :: bool
  rc_is_gone :: bool

definition recipient_new :: "string \<Rightarrow> string \<Rightarrow> recipient" where
  "recipient_new actor_id inbox = \<lparr>rc_id = actor_id, rc_inbox = inbox, rc_is_primary = False,
     rc_is_delivered = False, rc_is_unreachable = False, rc_is_gone = False\<rparr>"

definition is_finished :: "recipient \<Rightarrow> bool" where
  "is_finished r \<longleftrightarrow> rc_is_delivered r \<or> rc_is_unreachable r"

definition recipient_to_json :: "recipient \<Rightarrow> json" where
  "recipient_to_json r = JObject [
     (''id'', JString (rc_id r)), (''inbox'', JString (rc_inbox r)),
     (''is_primary'', JBool (rc_is_primary r)), (''is_delivered'', JBool (rc_is_delivered r)),
     (''is_unreachable'', JBool (rc_is_unreachable r)), (''is_gone'', JBool (rc_is_gone r))]"

definition recipient_from_json :: "json \<Rightarrow> recipient option" where
  "recipient_from_json j =
     Option.bind (Option.bind (json_field j ''id'') json_str) (\<lambda>aid.
     Option.bind (Option.bind (json_field j ''inbox'') json_str) (\<lambda>inbox.
     Option.bind (json_default_bool (json_field j ''is_primary'')) (\<lambda>primary.
     Option.bind (Option.bind (json_field j ''is_delivered'') json_bool) (\<lambda>delivered.
     Option.bind (Option.bind (json_field j ''is_unreachable'') json_bool) (\<lambda>unreachable.
     Option.bind (json_default_bool (json_field j ''is_gone'')) (\<lambda>gone.
     Some \<lparr>rc_id = aid, rc_inbox = inbox, rc_is_primary = primary, rc_is_delivered = delivered,
       rc_is_unreachable = unreachable, rc_is_gone = gone\<rparr>))))))"

text \<open>\<open>Vec::dedup_by_key\<close>: of every run of equal keys the first element stays.\<close>

fun dedup_by_key :: "('a \<Rightarrow> 'k) \<Rightarrow> 'a list \<Rightarrow> 'a list" where
  "dedup_by_key k [] = []"
| "dedup_by_key k [x] = [x]"
| "dedup_by_key k (x # y # xs) =
     (if k x = k y then dedup_by_key k (x # xs) else x # dedup_by_key k (y # xs))"

text \<open>\<open>sort_by_key\<close> is stable; strings compare as their bytes.\<close>

definition sort_recipients :: "recipient list \<Rightarrow> recipient list" where
  "sort_recipients rs =
     sort_key (\<lambda>r. (\<not> rc_is_primary r, rc_inbox r))
       (dedup_by_key rc_inbox
         (sort_key (\<lambda>r. (rc_inbox r, \<not> rc_is_primary r)) rs))"

section \<open>Job data\<close>

record incoming_activity_job_data =
  ij_activity :: json
  ij_recipient_id :: "string option"
  ij_sender_id :: "string option"
  ij_is_authenticated :: bool
  ij_failure_count :: nat \<comment> \<open>\<open>u32\<close>\<close>

definition incoming_job_data_new ::
  "json \<Rightarrow> (string \<times> string) option \<Rightarrow> bool \<Rightarrow> incoming_activity_job_data" where
  "incoming_job_data_new activity maybe_delivery is_authenticated = \<lparr>ij_activity = activity,
     ij_recipient_id = map_option fst maybe_delivery, ij_sender_id = map_option snd maybe_delivery,
     ij_is_authenticated = is_authenticated, ij_failure_count = 0\<rparr>"

definition incoming_to_value :: "incoming_activity_job_data \<Rightarrow> json" where
  "incoming_to_value d = JObject [
     (''activity'', ij_activity d), (''recipient_id'', opt_str_json (ij_recipient_id d)),
     (''sender_id'', opt_str_json (ij_sender_id d)), (''is_authenticated'', JBool (ij_is_authenticated d)),
     (''failure_count'', JNumber (int (ij_failure_count d)))]"

definition incoming_from_value :: "json \<Rightarrow> incoming_activity_job_data option" where
  "incoming_from_value j =
     Option.bind (json_field j ''activity'') (\<lambda>activity.
     Option.bind (json_opt_str (json_field j ''recipient_id'')) (\<lambda>recipient.
     Option.bind (json_opt_str (json_field j ''sender_id'')) (\<lambda>sender.
     Option.bind (Option.bind (json_field j ''is_authenticated'') json_bool) (\<lambda>auth.
     Option.bind (Option.bind (json_field j ''failure_count'') json_u32) (\<lambda>failures.
     Some \<lparr>ij_activity = activity, ij_recipient_id = recipient, ij_sender_id = sender,
       ij_is_authenticated = auth, ij_failure_count = failures\<rparr>)))))"

text \<open>A \<open>Sender\<close> holds secret keys; it is kept as the value it serializes to, and \<open>sender_parses\<close>
  says which values deserialize.\<close>

record outgoing_activity_job_data =
  oj_activity :: json
  oj_sender :: json
  oj_recipients :: "recipient list"
  oj_failure_count :: nat

definition outgoing_to_value :: "outgoing_activity_job_data \<Rightarrow> json" where
  "outgoing_to_value d = JObject [
     (''activity'', oj_activity d), (''sender'', oj_sender d),
     (''recipients'', JArray (map recipient_to_json (oj_recipients d))),
     (''failure_count'', JNumber (int (oj_failure_count d)))]"

definition outgoing_from_value :: "(json \<Rightarrow> bool) \<Rightarrow> json \<Rightarrow> outgoing_activity_job_data option" where
  "outgoing_from_value sender_parses j =
     Option.bind (json_field j ''activity'') (\<lambda>activity.
     Option.bind (Option.bind (json_field j ''sender'') (\<lambda>v. if sender_parses v then Some v else None)) (\<lambda>sender.
     Option.bind (Option.bind (json_field j ''recipients'') (json_vec recipient_from_json)) (\<lambda>recipients.
     Option.bind (Option.bind (json_field j ''failure_count'') json_u32) (\<lambda>failures.
     Some \<lparr>oj_activity = activity, oj_sender = sender, oj_recipients = recipients,
       oj_failure_count = failures\<rparr>))))"

section \<open>Enqueueing\<close>

text \<open>\<open>Utc::now()\<close> and \<open>CURRENT_TIMESTAMP\<close> are one clock; \<open>delay\<close> is a \<open>u32\<close>, which
  \<open>TimeDelta::seconds\<close> always accepts.\<close>

definition incoming_into_job :: "uuid \<Rightarrow> incoming_activity_job_data \<Rightarrow> nat \<Rightarrow> unit db" where
  "incoming_into_job jid d delay =
     bnd (gets current_timestamp) (\<lambda>now.
     seq (enqueue_job jid IncomingActivity (incoming_to_value d) (now + seconds (int delay)))
     (ret ()))"

definition outgoing_into_job :: "uuid \<Rightarrow> outgoing_activity_job_data \<Rightarrow> nat \<Rightarrow> uuid db" where
  "outgoing_into_job jid d delay =
     bnd (gets current_timestamp) (\<lambda>now.
     enqueue_job jid OutgoingActivity (outgoing_to_value d) (now + seconds (int delay)))"

definition outgoing_enqueue :: "uuid \<Rightarrow> outgoing_activity_job_data \<Rightarrow> unit db" where
  "outgoing_enqueue jid d = seq (outgoing_into_job jid d 0) (ret ())"

text \<open>\<open>INSERT INTO activitypub_object ... ON CONFLICT (object_id) DO NOTHING\<close>.\<close>

definition save_activity :: "string \<Rightarrow> json \<Rightarrow> bool db" where
  "save_activity oid activity s =
     (if list_ex (\<lambda>a. ao_object_id a = oid) (activitypub_objects s) then (Ok False, s)
      else (Ok True, s\<lparr>activitypub_objects := activitypub_objects s @ [\<lparr>ao_object_id = oid,
              ao_object_data = activity, ao_profile_id = None, ao_post_id = None,
              ao_created_at = current_timestamp s\<rparr>]\<rparr>))"

definition outgoing_save_activity :: "(string \<Rightarrow> string option) \<Rightarrow> outgoing_activity_job_data \<Rightarrow> unit db" where
  "outgoing_save_activity canonicalize d =
     bnd (lift (ok_or TypeError (Option.bind (json_field (oj_activity d) ''id'') json_str))) (\<lambda>activity_id.
     bnd (lift (ok_or TypeError (canonicalize activity_id))) (\<lambda>canonical_activity_id.
     seq (save_activity canonical_activity_id (oj_activity d))
     (ret ())))"

definition save_and_enqueue ::
  "(string \<Rightarrow> string option) \<Rightarrow> uuid \<Rightarrow> outgoing_activity_job_data \<Rightarrow> unit db" where
  "save_and_enqueue canonicalize jid d =
     seq (outgoing_save_activity canonicalize d) (outgoing_enqueue jid d)"

section \<open>Incoming activities\<close>

definition job_timeout :: nat where
  "job_timeout = 3600"

definition incoming_queue_retries_max :: nat where
  "incoming_queue_retries_max = 2"

definition incoming_queue_backoff :: "nat \<Rightarrow> nat" where
  "incoming_queue_backoff failure_count = 60 * 10"

text \<open>How \<open>handle_activity\<close> ends under the timeout: success, a failed network request (the one
  error that is retried), any other error, or no end within the limit.\<close>

datatype handler_result = Handled | RequestFailed | HandlerFailed | HandlerTimedOut

type_synonym handler =
  "json \<Rightarrow> bool \<Rightarrow> string option \<Rightarrow> string option \<Rightarrow> database \<Rightarrow> handler_result \<times> database"

definition run_handler :: "handler \<Rightarrow> incoming_activity_job_data \<Rightarrow> handler_result db" where
  "run_handler H d s =
     (case H (ij_activity d) (ij_is_authenticated d) (ij_recipient_id d) (ij_sender_id d) s of
        (r, t) \<Rightarrow> (Ok r, t))"

text \<open>\<open>failure_count += 1\<close> on a \<open>u32\<close>, wrapping as in a release build.\<close>

definition process_incoming_job :: "handler \<Rightarrow> (uuid \<Rightarrow> uuid) \<Rightarrow> background_job \<Rightarrow> unit db" where
  "process_incoming_job H fresh job =
     bnd (lift (ok_or TypeError (incoming_from_value (bj_job_data job)))) (\<lambda>d.
     bnd (run_handler H d) (\<lambda>r. case r of
         HandlerTimedOut \<Rightarrow> delete_job_from_queue (bj_id job)
       | HandlerFailed \<Rightarrow> delete_job_from_queue (bj_id job)
       | Handled \<Rightarrow> delete_job_from_queue (bj_id job)
       | RequestFailed \<Rightarrow>
           (let n = (ij_failure_count d + 1) mod 2 ^ 32 in
            seq (if n \<le> incoming_queue_retries_max
                 then incoming_into_job (fresh (bj_id job)) (d\<lparr>ij_failure_count := n\<rparr>) (incoming_queue_backoff n)
                 else ret ())
            (delete_job_from_queue (bj_id job)))))"

definition process_queued_incoming_activities ::
  "handler \<Rightarrow> (uuid \<Rightarrow> uuid) \<Rightarrow> (uuid \<Rightarrow> bool) \<Rightarrow> nat \<Rightarrow> unit db \<Rightarrow> unit db" where
  "process_queued_incoming_activities H fresh locked batch_size ap_client_new =
     bnd (get_job_batch locked IncomingActivity batch_size job_timeout) (\<lambda>batch.
     seq ap_client_new (for_each batch (process_incoming_job H fresh)))"

section \<open>Retry schedule of the outgoing queue\<close>

definition outgoing_queue_retries_max :: nat where
  "outgoing_queue_retries_max = 3"

definition outgoing_queue_backoff :: "32 word \<Rightarrow> 32 word" where
  "outgoing_queue_backoff failure_count = 30 * (10 ^ unat failure_count + 10)"

end
