(* ===== verification/PaymentMethods.thy ===== *)
theory PaymentMethods
  imports RelationshipQueries
begin

text \<open>
  The payment methods of a user (\<open>mitra_models/src/payment_methods\<close>): one row per owner and
  chain, holding the payout address and, for a light wallet, the view key.
\<close>

record payment_method_data =
  pmd_owner_id :: uuid
  pmd_payment_type :: payment_type
  pmd_chain_id :: chain_id
  pmd_payout_address :: string
  pmd_view_key :: "string option"

definition payment_method_check_consistency :: "payment_method \<Rightarrow> (database_type_error, unit) outcome" where
  "payment_method_check_consistency m = (case pm_payment_type m of
      Monero \<Rightarrow>
        if \<not> is_monero (pm_chain_id m) then Err DatabaseTypeError
        else if pm_view_key m \<noteq> None then Err DatabaseTypeError else Ok ()
    | MoneroLight \<Rightarrow>
        if \<not> is_monero (pm_chain_id m) then Err DatabaseTypeError
        else if pm_view_key m = None then Err DatabaseTypeError else Ok ())"

definition is_method :: "uuid \<Rightarrow> chain_id \<Rightarrow> payment_method \<Rightarrow> bool" where
  "is_method owner chain m \<longleftrightarrow> pm_owner_id m = owner \<and> pm_chain_id m = chain"

text \<open>\<open>INSERT ... ON CONFLICT (owner_id, chain_id) DO UPDATE\<close>. The identity value is drawn
  before the conflict is found; the owner must be a user account.\<close>

definition upsert_payment_method :: "payment_method_data \<Rightarrow> payment_method stmt" where
  "upsert_payment_method d s =
     (let here = is_method (pmd_owner_id d) (pmd_chain_id d);
          s1 = s\<lparr>seqs := (seqs s)\<lparr>payment_method_seq := payment_method_seq (seqs s) + 1\<rparr>\<rparr> in
      if list_ex here (payment_methods s) then
        (let t = s1\<lparr>payment_methods := update_where here
               (\<lambda>m. m\<lparr>pm_payment_type := pmd_payment_type d, pm_payout_address := pmd_payout_address d,
                   pm_view_key := pmd_view_key d, pm_updated_at := current_timestamp s\<rparr>)
               (payment_methods s)\<rparr> in
         (query_one (filter here (payment_methods t)), t))
      else if \<not> list_ex (\<lambda>u. u_id u = pmd_owner_id d) (user_accounts s) then (Err ForeignKeyViolation, s1)
      else
        (let m = \<lparr>pm_id = payment_method_seq (seqs s), pm_owner_id = pmd_owner_id d,
               pm_payment_type = pmd_payment_type d, pm_chain_id = pmd_chain_id d,
               pm_payout_address = pmd_payout_address d, pm_view_key = pmd_view_key d,
               pm_created_at = current_timestamp s, pm_updated_at = current_timestamp s\<rparr> in
         (Ok m, s1\<lparr>payment_methods := payment_methods s @ [m]\<rparr>)))"

definition create_payment_method :: "payment_method_data \<Rightarrow> payment_method db" where
  "create_payment_method d = transaction (
     bnd (run (upsert_payment_method d)) (\<lambda>m.
     seq (type_check (payment_method_check_consistency m))
     (ret m)))"

definition get_payment_method_by_chain_id :: "uuid \<Rightarrow> chain_id \<Rightarrow> payment_method option db" where
  "get_payment_method_by_chain_id owner chain =
     bnd (select_opt (\<lambda>s. filter (is_method owner chain) (payment_methods s))) (\<lambda>row.
     case row of
       Some m \<Rightarrow> seq (type_check (payment_method_check_consistency m)) (ret (Some m))
     | None \<Rightarrow> ret None)"

definition get_payment_methods :: "payment_type \<Rightarrow> chain_id \<Rightarrow> payment_method list db" where
  "get_payment_methods ty chain =
     gets (\<lambda>s. filter (\<lambda>m. pm_payment_type m = ty \<and> pm_chain_id m = chain) (payment_methods s))"

definition get_payment_method_by_type_and_chain_id ::
  "uuid \<Rightarrow> payment_type \<Rightarrow> chain_id \<Rightarrow> payment_method option db" where
  "get_payment_method_by_type_and_chain_id owner ty chain =
     bnd (get_payment_method_by_chain_id owner chain) (\<lambda>m.
     ret (Option.bind m (\<lambda>m. if pm_payment_type m = ty then Some m else None)))"

section \<open>One consistent method per owner and chain\<close>

definition methods_ok :: "database \<Rightarrow> bool" where
  "methods_ok s \<longleftrightarrow>
     unique_by (\<lambda>m. (pm_owner_id m, pm_chain_id m)) (payment_methods s)
     \<and> (\<forall>m \<in> set (payment_methods s). payment_method_check_consistency m = Ok ()
           \<and> pm_owner_id m \<in> u_id ` set (user_accounts s))"

lemma methods_ok_frame:
  "payment_methods t = payment_methods s \<Longrightarrow> user_accounts t = user_accounts s \<Longrightarrow>
   methods_ok t = methods_ok s"
  by (simp add: methods_ok_def)

lemma unique_filter_is_method:
  assumes "unique_by (\<lambda>m. (pm_owner_id m, pm_chain_id m)) ms"
  shows "filter (is_method owner chain) ms = []
     \<or> (\<exists>m. filter (is_method owner chain) ms = [m] \<and> m \<in> set ms \<and> is_method owner chain m)"
  by (rule unique_by_filter_le1 [OF assms]) (simp add: is_method_def)

text \<open>The row \<open>create_payment_method\<close> leaves for the owner and chain is the one it was given.\<close>

definition holds_data :: "payment_method_data \<Rightarrow> payment_method \<Rightarrow> bool" where
  "holds_data d m \<longleftrightarrow> pm_owner_id m = pmd_owner_id d \<and> pm_payment_type m = pmd_payment_type d \<and>
     pm_chain_id m = pmd_chain_id d \<and> pm_payout_address m = pmd_payout_address d \<and>
     pm_view_key m = pmd_view_key d"

lemma upsert_payment_method_Ok:
  assumes "methods_ok s" and "upsert_payment_method d s = (Ok m, t)"
  shows "holds_data d m \<and> filter (is_method (pmd_owner_id d) (pmd_chain_id d)) (payment_methods t) = [m] \<and>
    user_accounts t = user_accounts s \<and> (payment_method_check_consistency m = Ok () \<longrightarrow> methods_ok t)"
proof -
  let ?here = "is_method (pmd_owner_id d) (pmd_chain_id d)"
  let ?f = "\<lambda>m. m\<lparr>pm_payment_type := pmd_payment_type d, pm_payout_address := pmd_payout_address d,
      pm_view_key := pmd_view_key d, pm_updated_at := current_timestamp s\<rparr>"
  have uniq: "unique_by (\<lambda>m. (pm_owner_id m, pm_chain_id m)) (payment_methods s)"
    using assms(1) by (simp add: methods_ok_def)
  have keep: "?here (?f x) = ?here x" for x by (simp add: is_method_def)
  show ?thesis
  proof (cases "list_ex ?here (payment_methods s)")
    case True
    then obtain m0 where m0: "filter ?here (payment_methods s) = [m0]" "?here m0" "m0 \<in> set (payment_methods s)"
      using unique_filter_is_method [OF uniq, of "pmd_owner_id d" "pmd_chain_id d"]
      by (auto simp: list_ex_iff filter_empty_conv)
    have ms: "payment_methods t = update_where ?here ?f (payment_methods s)" and
      fl: "filter ?here (payment_methods t) = [m]" and us: "user_accounts t = user_accounts s"
      using True assms(2) by (auto simp: upsert_payment_method_def Let_def query_one_Ok)
    have m: "m = ?f m0" using fl m0 by (simp add: ms filter_update_same keep)
    have only: "x = m0" if "x \<in> set (payment_methods s)" "?here x" for x
      using unique_byD [OF uniq that(1) m0(3)] that(2) m0(2) by (simp add: is_method_def)
    have "methods_ok t" if "payment_method_check_consistency m = Ok ()"
    proof -
      have "payment_method_check_consistency (?f x) = Ok () \<and> pm_owner_id (?f x) \<in> u_id ` set (user_accounts s)"
        if "x \<in> set (payment_methods s)" "?here x" for x
        using only [OF that] assms(1) that(1) \<open>payment_method_check_consistency m = Ok ()\<close> m
        by (simp add: methods_ok_def)
      then show ?thesis using assms(1) uniq
        by (auto simp: methods_ok_def ms us unique_by_update set_update_where)
    qed
    with fl us m m0(2) show ?thesis
      by (simp add: holds_data_def is_method_def)
  next
    case False
    then have none: "filter ?here (payment_methods s) = []"
      "(pmd_owner_id d, pmd_chain_id d) \<notin> (\<lambda>m. (pm_owner_id m, pm_chain_id m)) ` set (payment_methods s)"
      by (auto simp: list_ex_iff filter_empty_conv is_method_def)
    have "holds_data d m" "payment_methods t = payment_methods s @ [m]" "user_accounts t = user_accounts s"
      "pmd_owner_id d \<in> u_id ` set (user_accounts s)"
      using False assms(2)
      by (auto simp: upsert_payment_method_def Let_def holds_data_def list_ex_iff intro: rev_image_eqI split: if_splits)
    with none assms(1) show ?thesis
      by (auto simp: methods_ok_def holds_data_def is_method_def unique_by_append_single)
  qed
qed

lemma create_payment_method_Ok:
  "create_payment_method d s = (Ok m, t) \<longleftrightarrow>
     upsert_payment_method d s = (Ok m, t) \<and> payment_method_check_consistency m = Ok ()"
  by (auto simp: create_payment_method_def ok_runs)

lemma create_payment_method_preserves: "preserves methods_ok (create_payment_method d)"
proof (rule preserves_atomic)
  fix s m t assume "methods_ok s" "create_payment_method d s = (Ok m, t)"
  then show "methods_ok t" by (auto simp: create_payment_method_Ok dest: upsert_payment_method_Ok)
next
  fix s q assume "methods_ok s"
  then show "methods_ok (s\<lparr>seqs := q\<rparr>)" by (simp add: methods_ok_def)
qed (simp add: create_payment_method_def)

end
