(* ===== verification/Invoices.thy ===== *)
theory Invoices
  imports RelationshipQueries
begin

text \<open>
  Invoices (\<open>mitra_models/src/invoices\<close>): the status graph and consistency rules of \<open>types.rs\<close>,
  the queries of \<open>queries.rs\<close> and the composed status changes of \<open>helpers.rs\<close>.
\<close>

section \<open>Types\<close>

definition is_final :: "invoice_status \<Rightarrow> bool" where
  "is_final st \<longleftrightarrow> st \<in> {Timeout, Cancelled, Underpaid, Completed, Failed}"

definition invoice_is_local :: "invoice \<Rightarrow> bool" where
  "invoice_is_local i \<longleftrightarrow> inv_object_id i = None \<and> inv_status i \<noteq> Requested"

definition invoice_check_consistency :: "invoice \<Rightarrow> (database_type_error, unit) outcome" where
  "invoice_check_consistency i =
     (if invoice_is_local i then
        obind (case inv_payment_type i of
            Some _ \<Rightarrow> if \<not> is_monero (inv_chain_id i) then Err DatabaseTypeError else Ok ()
          | None \<Rightarrow> Err DatabaseTypeError) (\<lambda>_.
        if inv_payment_address i = None then Err DatabaseTypeError else Ok ())
      else if inv_payment_type i \<noteq> None then Err DatabaseTypeError
      else if inv_payout_tx_id i \<noteq> None \<or> inv_payout_amount i \<noteq> None then Err DatabaseTypeError
      else if inv_payment_address i = None \<and> inv_status i \<noteq> Requested then Err DatabaseTypeError
      else Ok ())"

text \<open>\<open>u64::try_from(i64)\<close> and \<open>i64::try_from(u64)\<close>.\<close>

definition u64_try_from :: "int \<Rightarrow> (database_type_error, nat) outcome" where
  "u64_try_from n = (if n < 0 then Err DatabaseTypeError else Ok (nat n))"

definition i64_try_from :: "nat \<Rightarrow> (database_type_error, int) outcome" where
  "i64_try_from n = (if n < 2 ^ 63 then Ok (int n) else Err DatabaseTypeError)"

definition amount_u64 :: "invoice \<Rightarrow> (database_type_error, nat) outcome" where
  "amount_u64 i = u64_try_from (inv_amount i)"

definition monero_transitions :: "invoice \<Rightarrow> invoice_status list" where
  "monero_transitions i = (case inv_status i of
      Open \<Rightarrow> [Paid, Timeout, Cancelled]
    | Paid \<Rightarrow> if inv_payout_tx_id i \<noteq> None then [Forwarded] else [Underpaid]
    | Forwarded \<Rightarrow> if inv_payout_amount i \<noteq> None then [Completed] else [Failed]
    | Timeout \<Rightarrow> [Paid]
    | Cancelled \<Rightarrow> [Paid]
    | Underpaid \<Rightarrow> [Paid]
    | Completed \<Rightarrow> if inv_payout_tx_id i = None \<and> inv_payout_amount i = None then [Paid] else []
    | Failed \<Rightarrow> if inv_payout_tx_id i = None then [Paid] else []
    | Requested \<Rightarrow> [])"

definition monero_light_transitions :: "invoice \<Rightarrow> invoice_status list" where
  "monero_light_transitions i = (case inv_status i of
      Open \<Rightarrow> if inv_payout_tx_id i \<noteq> None then [Paid] else [Timeout, Cancelled]
    | Paid \<Rightarrow> if inv_payout_amount i \<noteq> None then [Completed] else []
    | Completed \<Rightarrow> []
    | _ \<Rightarrow> [])"

definition remote_transitions :: "invoice \<Rightarrow> invoice_status list" where
  "remote_transitions i = (case inv_status i of
      Open \<Rightarrow> [Paid, Completed, Timeout, Cancelled]
    | Paid \<Rightarrow> [Completed]
    | Forwarded \<Rightarrow> []
    | Timeout \<Rightarrow> [Completed]
    | Cancelled \<Rightarrow> [Paid]
    | Underpaid \<Rightarrow> []
    | Completed \<Rightarrow> []
    | Failed \<Rightarrow> []
    | Requested \<Rightarrow> if inv_payment_address i \<noteq> None then [Open, Cancelled] else [Cancelled])"

definition can_change_status :: "invoice \<Rightarrow> invoice_status \<Rightarrow> (database_type_error, bool) outcome" where
  "can_change_status i new =
     (if invoice_is_local i then
        (case inv_payment_type i of
            None \<Rightarrow> Panic ''payment type should be specified''
          | Some Monero \<Rightarrow> Ok (new \<in> set (monero_transitions i))
          | Some MoneroLight \<Rightarrow> Ok (new \<in> set (monero_light_transitions i)))
      else Ok (new \<in> set (remote_transitions i)))"

definition try_payment_address :: "invoice \<Rightarrow> (database_type_error, string) outcome" where
  "try_payment_address i = (case inv_status i of
      Requested \<Rightarrow> Panic ''payment address is not known''
    | _ \<Rightarrow> ok_or DatabaseTypeError (inv_payment_address i))"

definition try_payout_amount_u64 :: "invoice \<Rightarrow> (database_type_error, nat) outcome" where
  "try_payout_amount_u64 i = obind (ok_or DatabaseTypeError (inv_payout_amount i)) u64_try_from"

definition invoice_expires_at :: "invoice \<Rightarrow> nat \<Rightarrow> datetime" where
  "invoice_expires_at i timeout = inv_created_at i + seconds (int timeout)"

section \<open>Queries\<close>

definition is_user :: "database \<Rightarrow> uuid \<Rightarrow> bool" where
  "is_user s uid \<longleftrightarrow> list_ex (\<lambda>u. u_id u = uid) (user_accounts s)"

text \<open>The constraints of \<open>INSERT INTO invoice\<close>: both checks, the unique keys, the foreign keys.\<close>

definition insert_invoice :: "invoice \<Rightarrow> invoice stmt" where
  "insert_invoice i s =
     (if inv_sender_id i = inv_recipient_id i \<or> inv_amount i < 0
        \<or> (case inv_payout_amount i of None \<Rightarrow> False | Some n \<Rightarrow> n \<le> 0) then (Err CheckViolation, s)
      else if list_ex (\<lambda>j. inv_id j = inv_id i
        \<or> inv_object_id i \<noteq> None \<and> inv_object_id j = inv_object_id i) (invoices s)
      then (Err UniqueViolation, s)
      else if \<not> profile_exists s (inv_sender_id i) \<or> \<not> profile_exists s (inv_recipient_id i)
      then (Err ForeignKeyViolation, s)
      else (Ok i, s\<lparr>invoices := invoices s @ [i]\<rparr>))"

text \<open>\<open>INSERT ... SELECT ... WHERE\<close>: without a matching row nothing is inserted and
  \<open>query_one\<close> fails.\<close>

definition create_local_invoice ::
  "uuid \<Rightarrow> uuid \<Rightarrow> uuid \<Rightarrow> payment_type \<Rightarrow> chain_id \<Rightarrow> string \<Rightarrow> nat \<Rightarrow> invoice db" where
  "create_local_invoice ulid sender recipient ty chain address amount =
     bnd (type_check (i64_try_from amount)) (\<lambda>db_amount.
     map_err_p (catch_unique_violation ''invoice'') (\<lambda>s.
       if is_user s recipient then
         insert_invoice \<lparr>inv_id = ulid, inv_sender_id = sender, inv_recipient_id = recipient,
           inv_chain_id = chain, inv_amount = db_amount, inv_status = Open,
           inv_payment_type = Some ty, inv_payment_address = Some address,
           inv_payout_tx_id = None, inv_payout_amount = None, inv_object_id = None,
           inv_created_at = current_timestamp s, inv_updated_at = current_timestamp s\<rparr> s
       else (Err RowCount, s)))"

definition create_remote_invoice :: "uuid \<Rightarrow> uuid \<Rightarrow> uuid \<Rightarrow> chain_id \<Rightarrow> nat \<Rightarrow> invoice db" where
  "create_remote_invoice ulid sender recipient chain amount =
     bnd (type_check (i64_try_from amount)) (\<lambda>db_amount.
     map_err_p (catch_unique_violation ''invoice'') (\<lambda>s.
       if is_user s sender \<and> \<not> is_user s recipient then
         insert_invoice \<lparr>inv_id = ulid, inv_sender_id = sender, inv_recipient_id = recipient,
           inv_chain_id = chain, inv_amount = db_amount, inv_status = Requested,
           inv_payment_type = None, inv_payment_address = None,
           inv_payout_tx_id = None, inv_payout_amount = None, inv_object_id = None,
           inv_created_at = current_timestamp s, inv_updated_at = current_timestamp s\<rparr> s
       else (Err RowCount, s)))"

definition get_invoice_by_id :: "uuid \<Rightarrow> invoice db" where
  "get_invoice_by_id iid =
     select_or_not_found ''invoice'' (\<lambda>s. filter (\<lambda>i. inv_id i = iid) (invoices s))"

text \<open>\<open>ORDER BY created_at DESC LIMIT 1\<close>.\<close>

definition newest :: "invoice list \<Rightarrow> invoice list" where
  "newest rows = take 1 (sort_key (\<lambda>i. - inv_created_at i) rows)"

definition get_local_invoice_by_address :: "payment_type \<Rightarrow> chain_id \<Rightarrow> string \<Rightarrow> invoice db" where
  "get_local_invoice_by_address ty chain address =
     select_or_not_found ''invoice'' (\<lambda>s. newest (filter (\<lambda>i.
       is_user s (inv_recipient_id i) \<and> inv_payment_type i = Some ty \<and> inv_chain_id i = chain
       \<and> inv_payment_address i = Some address) (invoices s)))"

definition get_local_invoice_by_participants ::
  "uuid \<Rightarrow> uuid \<Rightarrow> payment_type \<Rightarrow> chain_id \<Rightarrow> invoice db" where
  "get_local_invoice_by_participants sender recipient ty chain =
     select_or_not_found ''invoice'' (\<lambda>s. newest (filter (\<lambda>i.
       inv_sender_id i = sender \<and> inv_recipient_id i = recipient \<and> inv_payment_type i = Some ty
       \<and> inv_chain_id i = chain \<and> inv_object_id i = None) (invoices s)))"

definition get_remote_invoice_by_object_id :: "string \<Rightarrow> invoice db" where
  "get_remote_invoice_by_object_id oid =
     select_or_not_found ''invoice'' (\<lambda>s. filter (\<lambda>i. inv_object_id i = Some oid) (invoices s))"

definition get_local_invoices_by_status ::
  "payment_type \<Rightarrow> chain_id \<Rightarrow> invoice_status \<Rightarrow> invoice list db" where
  "get_local_invoices_by_status ty chain st =
     gets (\<lambda>s. filter (\<lambda>i. inv_payment_type i = Some ty \<and> inv_chain_id i = chain
       \<and> inv_status i = st \<and> inv_object_id i = None) (invoices s))"

definition get_remote_invoices_by_status :: "invoice_status \<Rightarrow> invoice list db" where
  "get_remote_invoices_by_status st =
     gets (\<lambda>s. filter (\<lambda>i. inv_status i = st \<and> inv_object_id i \<noteq> None) (invoices s))"

text \<open>\<open>UPDATE invoice SET ... WHERE id = $1 RETURNING invoice\<close> through \<open>query_opt\<close>.\<close>

definition update_invoice :: "uuid \<Rightarrow> (invoice \<Rightarrow> invoice) \<Rightarrow> invoice db" where
  "update_invoice iid f =
     seq (modify (\<lambda>s. s\<lparr>invoices := update_where (\<lambda>i. inv_id i = iid) f (invoices s)\<rparr>))
     (select_or_not_found ''invoice'' (\<lambda>s. filter (\<lambda>i. inv_id i = iid) (invoices s)))"

definition set_invoice_status :: "uuid \<Rightarrow> invoice_status \<Rightarrow> invoice db" where
  "set_invoice_status iid new_status = transaction (
     bnd (get_invoice_by_id iid) (\<lambda>i.
     bnd (type_check (can_change_status i new_status)) (\<lambda>allowed.
     if \<not> allowed then throw TypeError
     else
       bnd (gets current_timestamp) (\<lambda>now.
       bnd (update_invoice iid (\<lambda>i. i\<lparr>inv_status := new_status, inv_updated_at := now\<rparr>)) (\<lambda>i.
       seq (type_check (invoice_check_consistency i))
       (ret i))))))"

definition set_invoice_payout_tx_id :: "uuid \<Rightarrow> string option \<Rightarrow> invoice db" where
  "set_invoice_payout_tx_id iid tx_id = update_invoice iid (\<lambda>i. i\<lparr>inv_payout_tx_id := tx_id\<rparr>)"

text \<open>The column has \<open>CHECK (payout_amount > 0)\<close>.\<close>

definition set_invoice_payout_amount :: "uuid \<Rightarrow> int option \<Rightarrow> invoice db" where
  "set_invoice_payout_amount iid amount =
     bnd (gets (\<lambda>s. list_ex (\<lambda>i. inv_id i = iid) (invoices s))) (\<lambda>found.
     if found \<and> (case amount of None \<Rightarrow> False | Some n \<Rightarrow> n \<le> 0) then throw (ClientError CheckViolation)
     else update_invoice iid (\<lambda>i. i\<lparr>inv_payout_amount := amount\<rparr>))"

text \<open>The object ID is unique; \<open>execute\<close> reports the number of rows updated.\<close>

definition set_remote_invoice_data :: "uuid \<Rightarrow> string \<Rightarrow> string \<Rightarrow> unit db" where
  "set_remote_invoice_data iid address oid =
     bnd (gets invoices) (\<lambda>rows.
     if list_ex (\<lambda>i. inv_id i = iid) rows
        \<and> list_ex (\<lambda>i. inv_id i \<noteq> iid \<and> inv_object_id i = Some oid) rows
     then throw (ClientError UniqueViolation)
     else
       seq (modify (\<lambda>s. s\<lparr>invoices := update_where (\<lambda>i. inv_id i = iid)
              (\<lambda>i. i\<lparr>inv_payment_address := Some address, inv_object_id := Some oid\<rparr>) (invoices s)\<rparr>))
       (if \<not> list_ex (\<lambda>i. inv_id i = iid) rows then throw (NotFound ''invoice'') else ret ()))"

definition get_invoice_summary :: "(invoice_status \<times> int) list db" where
  "get_invoice_summary =
     gets (\<lambda>s. map (\<lambda>st. (st, count_where (\<lambda>i. inv_status i = st) (invoices s)))
       (remdups (map inv_status (invoices s))))"

section \<open>Helpers\<close>

definition get_local_invoice_by_id :: "payment_type \<Rightarrow> chain_id \<Rightarrow> uuid \<Rightarrow> invoice db" where
  "get_local_invoice_by_id ty chain iid =
     bnd (get_invoice_by_id iid) (\<lambda>i.
     if inv_object_id i \<noteq> None \<or> inv_payment_type i \<noteq> Some ty \<or> inv_chain_id i \<noteq> chain
     then throw (NotFound ''invoice'') else ret i)"

definition local_invoice_forwarded :: "uuid \<Rightarrow> string \<Rightarrow> invoice db" where
  "local_invoice_forwarded iid tx_id = transaction (
     seq (set_invoice_payout_tx_id iid (Some tx_id))
     (set_invoice_status iid Forwarded))"

definition local_invoice_completed :: "uuid \<Rightarrow> nat \<Rightarrow> invoice db" where
  "local_invoice_completed iid amount = transaction (
     bnd (type_check (i64_try_from amount)) (\<lambda>amount.
     seq (set_invoice_payout_amount iid (Some amount))
     (set_invoice_status iid Completed)))"

definition local_invoice_reopened :: "uuid \<Rightarrow> invoice db" where
  "local_invoice_reopened iid = transaction (
     seq (set_invoice_payout_tx_id iid None)
     (seq (set_invoice_payout_amount iid None)
     (set_invoice_status iid Paid)))"

definition local_monero_light_invoice_paid :: "uuid \<Rightarrow> string \<Rightarrow> invoice db" where
  "local_monero_light_invoice_paid iid tx_id = transaction (
     seq (set_invoice_payout_tx_id iid (Some tx_id))
     (set_invoice_status iid Paid))"

definition remote_invoice_opened :: "uuid \<Rightarrow> string \<Rightarrow> string \<Rightarrow> invoice db" where
  "remote_invoice_opened iid address oid = transaction (
     seq (set_remote_invoice_data iid address oid)
     (set_invoice_status iid Open))"

end
