(* ===== verification/InvoiceLifecycle.thy ===== *)
theory InvoiceLifecycle
  imports Invoices
begin

text \<open>
  What the invoice operations guarantee: the exact effect of each status change, the invariant
  of the table (consistent rows, and a recorded payout behind every status that claims one) and
  its preservation along every sequence of operations.
\<close>

section \<open>Effects\<close>

lemma update_invoice_Ok [ok_runs]:
  assumes "\<And>i. inv_id (f i) = inv_id i"
  shows "update_invoice iid f s = (Ok i, t) \<longleftrightarrow>
     (\<exists>i0. filter (\<lambda>i. inv_id i = iid) (invoices s) = [i0] \<and> i = f i0) \<and>
     t = s\<lparr>invoices := update_where (\<lambda>i. inv_id i = iid) f (invoices s)\<rparr>"
  by (auto simp: update_invoice_def ok_runs filter_update_same assms map_eq_Cons_conv)

definition with_status :: "database \<Rightarrow> invoice_status \<Rightarrow> invoice \<Rightarrow> invoice" where
  "with_status s st i = i\<lparr>inv_status := st, inv_updated_at := current_timestamp s\<rparr>"

text \<open>All status changes have one shape: a change \<open>g\<close> of other columns, the guard on the changed
  row, the new status, and the consistency check on the result.\<close>

definition changed_by ::
  "(invoice \<Rightarrow> invoice) \<Rightarrow> uuid \<Rightarrow> invoice_status \<Rightarrow> database \<Rightarrow> invoice \<Rightarrow> database \<Rightarrow> bool" where
  "changed_by g iid st s i t \<longleftrightarrow>
     (\<exists>i0. filter (\<lambda>i. inv_id i = iid) (invoices s) = [i0]
       \<and> can_change_status (g i0) st = Ok True
       \<and> i = with_status s st (g i0)
       \<and> invoice_check_consistency i = Ok ())
     \<and> t = s\<lparr>invoices := update_where (\<lambda>i. inv_id i = iid) (\<lambda>i. with_status s st (g i)) (invoices s)\<rparr>"

lemma set_invoice_status_Ok [ok_runs]:
  "set_invoice_status iid st s = (Ok i, t) \<longleftrightarrow> changed_by (\<lambda>i. i) iid st s i t"
  by (auto simp: set_invoice_status_def get_invoice_by_id_def changed_by_def with_status_def ok_runs
      split: if_splits)

lemma update_where_twice:
  assumes "\<And>r. P (f r) = P r"
  shows "update_where P g (update_where P f rows) = update_where P (\<lambda>r. g (f r)) rows"
  using assms by (simp add: update_where_def)

lemma changed_by_after_update:
  assumes "\<And>i. inv_id (g i) = inv_id i"
  shows "changed_by h iid st (s\<lparr>invoices := update_where (\<lambda>i. inv_id i = iid) g (invoices s)\<rparr>) i t
     \<longleftrightarrow> changed_by (\<lambda>i. h (g i)) iid st s i t"
  by (auto simp: changed_by_def filter_update_same update_where_twice with_status_def assms map_eq_Cons_conv)

definition put_tx :: "string option \<Rightarrow> invoice \<Rightarrow> invoice" where
  "put_tx tx i = i\<lparr>inv_payout_tx_id := tx\<rparr>"

definition put_payout :: "int option \<Rightarrow> invoice \<Rightarrow> invoice" where
  "put_payout n i = i\<lparr>inv_payout_amount := n\<rparr>"

definition put_remote :: "string \<Rightarrow> string \<Rightarrow> invoice \<Rightarrow> invoice" where
  "put_remote address oid i = i\<lparr>inv_payment_address := Some address, inv_object_id := Some oid\<rparr>"

lemmas put_defs = put_tx_def put_payout_def put_remote_def

lemma local_invoice_forwarded_Ok:
  "local_invoice_forwarded iid tx s = (Ok i, t) \<Longrightarrow> changed_by (put_tx (Some tx)) iid Forwarded s i t"
  by (auto simp: local_invoice_forwarded_def set_invoice_payout_tx_id_def ok_runs
      changed_by_after_update put_defs [abs_def])

lemma local_monero_light_invoice_paid_Ok:
  "local_monero_light_invoice_paid iid tx s = (Ok i, t) \<Longrightarrow> changed_by (put_tx (Some tx)) iid Paid s i t"
  by (auto simp: local_monero_light_invoice_paid_def set_invoice_payout_tx_id_def ok_runs
      changed_by_after_update put_defs [abs_def])

lemma set_invoice_payout_amount_Ok [ok_runs]:
  "set_invoice_payout_amount iid n s = (Ok i, t) \<longleftrightarrow>
     (case n of None \<Rightarrow> True | Some m \<Rightarrow> 0 < m) \<and>
     (\<exists>i0. filter (\<lambda>i. inv_id i = iid) (invoices s) = [i0] \<and> i = put_payout n i0) \<and>
     t = s\<lparr>invoices := update_where (\<lambda>i. inv_id i = iid) (put_payout n) (invoices s)\<rparr>"
proof -
  have "list_ex (\<lambda>i. inv_id i = iid) (invoices s)" if "filter (\<lambda>i. inv_id i = iid) (invoices s) = [i0]" for i0
    using that by (metis (mono_tags, lifting) filter_empty_conv list.simps(3) list_ex_iff)
  then show ?thesis
    by (auto simp: set_invoice_payout_amount_def ok_runs put_payout_def [abs_def] split: option.splits if_splits)
qed

lemma local_invoice_completed_Ok:
  "local_invoice_completed iid n s = (Ok i, t) \<Longrightarrow>
   0 < n \<and> n < 2 ^ 63 \<and> changed_by (put_payout (Some (int n))) iid Completed s i t"
  by (auto simp: local_invoice_completed_def ok_runs i64_try_from_def changed_by_after_update
      put_payout_def [abs_def] split: if_splits)

lemma local_invoice_reopened_Ok:
  "local_invoice_reopened iid s = (Ok i, t) \<Longrightarrow>
   changed_by (\<lambda>i. put_payout None (put_tx None i)) iid Paid s i t"
  by (auto simp: local_invoice_reopened_def set_invoice_payout_tx_id_def ok_runs
      changed_by_after_update put_defs [abs_def])

lemma remote_invoice_opened_Ok:
  "remote_invoice_opened iid address oid s = (Ok i, t) \<Longrightarrow>
   changed_by (put_remote address oid) iid Open s i t
   \<and> (\<forall>j \<in> set (invoices s). inv_id j \<noteq> iid \<longrightarrow> inv_object_id j \<noteq> Some oid)"
  by (auto simp: remote_invoice_opened_def set_remote_invoice_data_def ok_runs list_ex_iff
      changed_by_after_update put_defs [abs_def] split: if_splits)

section \<open>The invariant\<close>

text \<open>The payout behind a status: a forwarded or failed invoice of a server wallet has a payout
  transaction, a paid invoice of a light wallet has one too, and a completed local invoice has a
  transaction and an amount.\<close>

definition payout_recorded :: "invoice \<Rightarrow> bool" where
  "payout_recorded i = (case inv_payment_type i of
      None \<Rightarrow> inv_payout_tx_id i = None \<and> inv_payout_amount i = None
    | Some Monero \<Rightarrow>
        (inv_status i \<in> {Forwarded, Failed, Completed} \<longrightarrow> inv_payout_tx_id i \<noteq> None)
        \<and> (inv_status i = Completed \<longrightarrow> inv_payout_amount i \<noteq> None)
    | Some MoneroLight \<Rightarrow>
        (inv_status i \<in> {Paid, Completed} \<longrightarrow> inv_payout_tx_id i \<noteq> None)
        \<and> (inv_status i = Completed \<longrightarrow> inv_payout_amount i \<noteq> None))"

definition invoice_ok :: "invoice \<Rightarrow> bool" where
  "invoice_ok i \<longleftrightarrow> invoice_check_consistency i = Ok () \<and> payout_recorded i
     \<and> inv_sender_id i \<noteq> inv_recipient_id i \<and> 0 \<le> inv_amount i
     \<and> (\<forall>n. inv_payout_amount i = Some n \<longrightarrow> 0 < n)"

lemma invoice_ok_code [code]:
  "invoice_ok i \<longleftrightarrow> invoice_check_consistency i = Ok () \<and> payout_recorded i
     \<and> inv_sender_id i \<noteq> inv_recipient_id i \<and> 0 \<le> inv_amount i
     \<and> (case inv_payout_amount i of None \<Rightarrow> True | Some n \<Rightarrow> 0 < n)"
  by (auto simp: invoice_ok_def split: option.splits)

definition invoices_inv :: "database \<Rightarrow> bool" where
  "invoices_inv s \<longleftrightarrow> unique_by inv_id (invoices s) \<and> (\<forall>i \<in> set (invoices s). invoice_ok i)"

text \<open>A change of other columns that may precede a status change.\<close>

definition prepares :: "(invoice \<Rightarrow> invoice) \<Rightarrow> invoice_status \<Rightarrow> bool" where
  "prepares g st \<longleftrightarrow> (\<forall>i.
     inv_id (g i) = inv_id i \<and> inv_sender_id (g i) = inv_sender_id i
     \<and> inv_recipient_id (g i) = inv_recipient_id i \<and> inv_amount (g i) = inv_amount i
     \<and> inv_status (g i) = inv_status i \<and> inv_payment_type (g i) = inv_payment_type i
     \<and> (\<forall>n. inv_payout_amount (g i) = Some n \<longrightarrow> inv_payout_amount i = Some n \<or> 0 < n)
     \<and> (st \<noteq> Paid \<longrightarrow> inv_payout_tx_id (g i) = None \<longrightarrow> inv_payout_tx_id i = None))"

lemma prepares_puts:
  "prepares (\<lambda>i. i) st" "prepares (put_tx (Some tx)) st" "0 < n \<Longrightarrow> prepares (put_payout (Some n)) st"
  "prepares (\<lambda>i. put_payout None (put_tx None i)) Paid" "prepares (put_remote address oid) st"
  by (simp_all add: prepares_def put_defs)

lemma consistent_cases:
  "invoice_check_consistency i = Ok () \<longleftrightarrow>
     (invoice_is_local i \<and> inv_payment_type i \<noteq> None \<and> is_monero (inv_chain_id i) \<and> inv_payment_address i \<noteq> None
      \<or> \<not> invoice_is_local i \<and> inv_payment_type i = None \<and> inv_payout_tx_id i = None
        \<and> inv_payout_amount i = None \<and> (inv_payment_address i = None \<longrightarrow> inv_status i = Requested))"
  by (auto simp: invoice_check_consistency_def split: option.splits)

lemma payout_recorded_step:
  assumes "payout_recorded i" and "prepares g st" and "can_change_status (g i) st = Ok True"
    and "invoice_check_consistency (with_status s st (g i)) = Ok ()" and "invoice_check_consistency i = Ok ()"
  shows "payout_recorded (with_status s st (g i))"
proof (cases "inv_payment_type i")
  case None
  with assms show ?thesis
    by (auto simp: payout_recorded_def prepares_def with_status_def consistent_cases)
next
  case (Some ty)
  with assms have "inv_payment_type (g i) = Some ty" "inv_status (g i) = inv_status i"
    "st \<noteq> Paid \<Longrightarrow> inv_payout_tx_id i \<noteq> None \<Longrightarrow> \<exists>tx. inv_payout_tx_id (g i) = Some tx"
    unfolding prepares_def by (metis option.exhaust_sel)+
  moreover have "invoice_is_local (with_status s st (g i))"
    using assms(4) calculation(1) by (auto simp: consistent_cases with_status_def)
  moreover have "invoice_is_local (g i)"
    using assms(5) Some calculation(2,4) by (auto simp: consistent_cases invoice_is_local_def with_status_def)
  ultimately show ?thesis using assms(1,3) Some
    by (cases ty; cases "inv_status i")
      (auto simp: payout_recorded_def with_status_def can_change_status_def monero_transitions_def
        monero_light_transitions_def split: if_splits)
qed

lemma changed_by_keeps_inv:
  assumes inv: "invoices_inv s" and change: "changed_by g iid st s i t" and g: "prepares g st"
  shows "invoices_inv t" and "invoice_ok i"
proof -
  from change obtain i0 where i0: "filter (\<lambda>i. inv_id i = iid) (invoices s) = [i0]"
    and guard: "can_change_status (g i0) st = Ok True" and i: "i = with_status s st (g i0)"
    and check: "invoice_check_consistency i = Ok ()"
    and t: "t = s\<lparr>invoices := update_where (\<lambda>i. inv_id i = iid) (\<lambda>i. with_status s st (g i)) (invoices s)\<rparr>"
    by (auto simp: changed_by_def)
  from i0 have i0_in: "i0 \<in> set (invoices s)" "inv_id i0 = iid"
    by (auto dest!: filter_eq_ConsD)
  then have ok0: "invoice_ok i0" using inv by (simp add: invoices_inv_def)
  have "payout_recorded i" unfolding i
    by (rule payout_recorded_step) (use ok0 g guard check i in \<open>simp_all add: invoice_ok_def\<close>)
  moreover have "0 < n" if "inv_payout_amount (g i0) = Some n" for n
    using g ok0 that unfolding prepares_def invoice_ok_def by blast
  ultimately show "invoice_ok i"
    using ok0 check g by (auto simp: invoice_ok_def prepares_def i with_status_def)
  have only: "j = i0" if "j \<in> set (invoices s)" "inv_id j = iid" for j
    using that i0_in inv by (auto simp: invoices_inv_def dest: unique_byD)
  from \<open>invoice_ok i\<close> have "invoice_ok (with_status s st (g j))" if "j \<in> set (invoices s)" "inv_id j = iid" for j
    using only [OF that] i by simp
  moreover have "inv_id (with_status s st (g j)) = inv_id j" for j
    using g by (simp add: prepares_def with_status_def)
  ultimately show "invoices_inv t"
    using inv by (auto simp: invoices_inv_def t unique_by_update set_update_where)
qed

section \<open>Operations\<close>

lemma invoices_inv_seqs [simp]: "invoices_inv (s\<lparr>seqs := q\<rparr>) = invoices_inv s"
  by (simp add: invoices_inv_def)

lemma preserves_change:
  assumes "atomic op" and "\<And>s i t. op s = (Ok i, t) \<Longrightarrow> \<exists>g st. changed_by g iid st s i t \<and> prepares g st"
  shows "preserves invoices_inv op"
proof (rule preserves_atomic [OF assms(1)])
  fix s i t assume inv: "invoices_inv s" and run: "op s = (Ok i, t)"
  from assms(2) [OF run] changed_by_keeps_inv(1) [OF inv] show "invoices_inv t" by blast
qed simp

lemma status_changes_atomic:
  "atomic (set_invoice_status iid st)" "atomic (local_invoice_forwarded iid tx)"
  "atomic (local_invoice_completed iid n)" "atomic (local_invoice_reopened iid)"
  "atomic (local_monero_light_invoice_paid iid tx)" "atomic (remote_invoice_opened iid address oid)"
  by (simp_all add: set_invoice_status_def local_invoice_forwarded_def local_invoice_completed_def
      local_invoice_reopened_def local_monero_light_invoice_paid_def remote_invoice_opened_def)

lemma set_invoice_status_preserves: "preserves invoices_inv (set_invoice_status iid st)"
  by (rule preserves_change [OF status_changes_atomic(1), where iid = iid])
    (auto simp: set_invoice_status_Ok intro: prepares_puts)

lemma local_invoice_forwarded_preserves: "preserves invoices_inv (local_invoice_forwarded iid tx)"
  by (rule preserves_change [OF status_changes_atomic(2), where iid = iid])
    (auto dest: local_invoice_forwarded_Ok intro: prepares_puts)

lemma local_invoice_completed_preserves: "preserves invoices_inv (local_invoice_completed iid n)"
proof (rule preserves_change [OF status_changes_atomic(3), where iid = iid])
  fix s i t assume "local_invoice_completed iid n s = (Ok i, t)"
  then have "0 < int n" "changed_by (put_payout (Some (int n))) iid Completed s i t"
    by (auto dest: local_invoice_completed_Ok)
  with prepares_puts(3) show "\<exists>g st. changed_by g iid st s i t \<and> prepares g st" by blast
qed

lemma local_invoice_reopened_preserves: "preserves invoices_inv (local_invoice_reopened iid)"
  by (rule preserves_change [OF status_changes_atomic(4), where iid = iid])
    (auto dest: local_invoice_reopened_Ok intro: prepares_puts)

lemma local_monero_light_invoice_paid_preserves:
  "preserves invoices_inv (local_monero_light_invoice_paid iid tx)"
  by (rule preserves_change [OF status_changes_atomic(5), where iid = iid])
    (auto dest: local_monero_light_invoice_paid_Ok intro: prepares_puts)

lemma remote_invoice_opened_preserves: "preserves invoices_inv (remote_invoice_opened iid address oid)"
  by (rule preserves_change [OF status_changes_atomic(6), where iid = iid])
    (auto dest: remote_invoice_opened_Ok intro: prepares_puts)

lemma insert_invoice_state:
  "snd (insert_invoice i s) = s \<or>
   snd (insert_invoice i s) = s\<lparr>invoices := invoices s @ [i]\<rparr> \<and> inv_sender_id i \<noteq> inv_recipient_id i
     \<and> 0 \<le> inv_amount i \<and> inv_id i \<notin> inv_id ` set (invoices s)"
  by (auto simp: insert_invoice_def list_ex_iff)

lemma insert_invoice_keeps_inv:
  assumes "invoices_inv s" and "invoice_check_consistency i = Ok ()" and "payout_recorded i"
    and "inv_payout_amount i = None"
  shows "invoices_inv (snd (insert_invoice i s))"
  using insert_invoice_state [of i s] assms
  by (auto simp: invoices_inv_def invoice_ok_def unique_by_append_single)

lemma create_local_invoice_preserves:
  assumes "is_monero chain"
  shows "preserves invoices_inv (create_local_invoice ulid snder rcp ty chain address n)"
  unfolding create_local_invoice_def
  by (intro preserves_bnd preserves_type_check preserves_map_err_p preservesI)
    (use assms in \<open>auto intro!: insert_invoice_keeps_inv simp: consistent_cases invoice_is_local_def
        payout_recorded_def split: payment_type.splits\<close>)

lemma create_remote_invoice_preserves:
  "preserves invoices_inv (create_remote_invoice ulid snder rcp chain n)"
  unfolding create_remote_invoice_def
  by (intro preserves_bnd preserves_type_check preserves_map_err_p preservesI)
    (auto intro!: insert_invoice_keeps_inv simp: consistent_cases invoice_is_local_def payout_recorded_def)

section \<open>Sequences of operations\<close>

text \<open>One rule per operation of the module, in the order of the code, whatever its result; the
  last rule is any operation that leaves the invoice table alone.\<close>

inductive invoice_step :: "database \<Rightarrow> database \<Rightarrow> bool" where
  create_local: "is_monero chain \<Longrightarrow>
    invoice_step s (snd (create_local_invoice ulid snder rcp ty chain address n s))"
| create_remote: "invoice_step s (snd (create_remote_invoice ulid snder rcp chain n s))"
| change_status: "invoice_step s (snd (set_invoice_status iid st s))"
| forwarded: "invoice_step s (snd (local_invoice_forwarded iid tx s))"
| completed: "invoice_step s (snd (local_invoice_completed iid n s))"
| reopened: "invoice_step s (snd (local_invoice_reopened iid s))"
| light_paid: "invoice_step s (snd (local_monero_light_invoice_paid iid tx s))"
| opened: "invoice_step s (snd (remote_invoice_opened iid address oid s))"
| elsewhere: "invoices t = invoices s \<Longrightarrow> invoice_step s t"

lemmas invoice_op_preserves = create_local_invoice_preserves create_remote_invoice_preserves
  set_invoice_status_preserves local_invoice_forwarded_preserves local_invoice_completed_preserves
  local_invoice_reopened_preserves local_monero_light_invoice_paid_preserves
  remote_invoice_opened_preserves

inductive_cases invoice_stepE: "invoice_step s t"

lemma invoice_step_preserves: "invoice_step s t \<Longrightarrow> invoices_inv s \<Longrightarrow> invoices_inv t"
proof (induction rule: invoice_step.induct)
  case (elsewhere t s)
  then show ?case by (simp add: invoices_inv_def)
qed (auto intro!: preserves_snd [of invoices_inv] invoice_op_preserves)

lemma invoice_steps_preserve: "invoice_step\<^sup>*\<^sup>* s t \<Longrightarrow> invoices_inv s \<Longrightarrow> invoices_inv t"
  by (induction rule: rtranclp_induct) (auto intro: invoice_step_preserves)

section \<open>Final states\<close>

lemma stored_row:
  assumes "invoices_inv s" and "i \<in> set (invoices s)"
  shows "filter (\<lambda>j. inv_id j = inv_id i) (invoices s) = [i]" and "invoice_ok i"
  using assms by (auto simp: invoices_inv_def intro!: unique_by_filter_key [of inv_id])

text \<open>No change of other columns but the clearing of the payout reopens a completed local invoice.\<close>

lemma completed_blocks:
  assumes "invoices_inv s" and "i \<in> set (invoices s)" and "inv_status i = Completed" and "inv_payment_type i \<noteq> None"
    and "inv_status (g i) = inv_status i" and "inv_payment_type (g i) = inv_payment_type i"
    and "inv_payout_tx_id (g i) = None \<Longrightarrow> inv_payout_tx_id i = None"
  shows "\<not> changed_by g (inv_id i) st s j t"
proof
  assume change: "changed_by g (inv_id i) st s j t"
  note row = stored_row [OF assms(1,2)]
  from change row(1) have allowed: "can_change_status (g i) st = Ok True" by (auto simp: changed_by_def)
  from row(2) assms(3,4) obtain ty where "inv_payment_type i = Some ty" "inv_payout_tx_id i \<noteq> None"
    by (cases "the (inv_payment_type i)") (auto simp: invoice_ok_def payout_recorded_def)
  with allowed assms(3-7) show False
    by (cases ty) (auto simp: can_change_status_def monero_transitions_def monero_light_transitions_def
        remote_transitions_def split: if_splits)
qed

lemma completed_blocks_puts:
  assumes "invoices_inv s" and "i \<in> set (invoices s)" and "inv_status i = Completed" and "inv_payment_type i \<noteq> None"
  shows "\<not> changed_by (\<lambda>i. i) (inv_id i) st s j t" "\<not> changed_by (put_tx (Some tx)) (inv_id i) st s j t"
    "\<not> changed_by (put_payout n) (inv_id i) st s j t" "\<not> changed_by (put_remote address oid) (inv_id i) st s j t"
  by (rule completed_blocks [OF assms]; simp add: put_defs)+

lemma local_invoice_reopened_run:
  assumes "changed_by (\<lambda>i. put_payout None (put_tx None i)) iid Paid s i t"
  shows "local_invoice_reopened iid s = (Ok i, t)"
proof -
  from assms obtain i0 where "filter (\<lambda>i. inv_id i = iid) (invoices s) = [i0]" by (auto simp: changed_by_def)
  then show ?thesis
    using assms
    by (simp add: local_invoice_reopened_def set_invoice_payout_tx_id_def ok_runs filter_update_same
        changed_by_after_update put_defs [abs_def])
qed

lemma reopened_change:
  assumes "invoices_inv s" and "i \<in> set (invoices s)" and "inv_payment_type i = Some Monero" and "is_final (inv_status i)"
  shows "\<exists>j t. changed_by (\<lambda>i. put_payout None (put_tx None i)) (inv_id i) Paid s j t
    \<and> j = i\<lparr>inv_status := Paid, inv_payout_tx_id := None, inv_payout_amount := None, inv_updated_at := current_timestamp s\<rparr>
    \<and> t = s\<lparr>invoices := update_where (\<lambda>k. inv_id k = inv_id i) (\<lambda>_. j) (invoices s)\<rparr>"
proof -
  note row = stored_row [OF assms(1,2)]
  let ?g = "\<lambda>i. put_payout None (put_tx None i)"
  let ?j = "with_status s Paid (?g i)"
  have cons: "invoice_check_consistency i = Ok ()" using row(2) by (simp add: invoice_ok_def)
  then have loc: "invoice_is_local i" "is_monero (inv_chain_id i)" "inv_payment_address i \<noteq> None"
    using assms(3) by (auto simp: consistent_cases)
  have "can_change_status (?g i) Paid = Ok True"
    using loc assms(3,4)
    by (auto simp: can_change_status_def monero_transitions_def put_defs invoice_is_local_def is_final_def
        split: invoice_status.splits)
  moreover have "invoice_check_consistency ?j = Ok ()"
    using loc assms(3) by (auto simp: consistent_cases with_status_def put_defs invoice_is_local_def)
  moreover have "update_where (\<lambda>k. inv_id k = inv_id i) (\<lambda>k. with_status s Paid (?g k)) (invoices s)
      = update_where (\<lambda>k. inv_id k = inv_id i) (\<lambda>_. ?j) (invoices s)"
    using assms(1,2) by (auto simp: update_where_def invoices_inv_def dest: unique_byD)
  moreover have "?j = i\<lparr>inv_status := Paid, inv_payout_tx_id := None, inv_payout_amount := None, inv_updated_at := current_timestamp s\<rparr>"
    by (simp add: with_status_def put_defs)
  ultimately show ?thesis using row(1) by (auto simp: changed_by_def)
qed

text \<open>Once a status change is allowed but its result inconsistent, the change fails.\<close>

lemma set_invoice_status_inconsistent:
  assumes "filter (\<lambda>j. inv_id j = iid) (invoices s) = [i]" and "can_change_status i st = Ok True"
    and "invoice_check_consistency (with_status s st i) \<noteq> Ok ()"
  shows "set_invoice_status iid st s = (Err TypeError, s)"
proof -
  obtain e where "invoice_check_consistency (with_status s st i) = Err e"
    using assms(3) by (auto simp: invoice_check_consistency_def split: if_splits option.splits)
  then show ?thesis
    using assms(1,2)
    by (simp add: set_invoice_status_def transaction_def get_invoice_by_id_def select_or_not_found_run bnd_def
        seq_def type_check_def lift_def gets_def update_invoice_def modify_def filter_update_same with_status_def
        rollback_def)
qed

lemma set_invoice_status_refused:
  assumes "filter (\<lambda>j. inv_id j = iid) (invoices s) = [i]" and "can_change_status i st = Ok False"
  shows "set_invoice_status iid st s = (Err TypeError, s)"
  using assms
  by (simp add: set_invoice_status_def transaction_def get_invoice_by_id_def select_or_not_found_run bnd_def
      type_check_def lift_def throw_def rollback_def)

end
