(* ===== verification/MoneroWallet.thy ===== *)
theory MoneroWallet
  imports Subscriptions Queues PaymentMethods InvoiceLifecycle
begin

text \<open>
  The wallet services (\<open>mitra_services/src/monero\<close>): the functions the payment code calls, over
  the two RPC clients of third-party crates (\<open>monero_rpc\<close>, \<open>monero_lws\<close>), whose answers are
  parameters. A successful sweep moves money, so the state of the payment code carries the log
  of sweeps beside the database.
\<close>

section \<open>Third-party clients\<close>

datatype address_type = Standard | SubAddress | Integrated nat

record monero_address =
  ad_text :: string \<comment> \<open>\<open>to_string()\<close>\<close>
  ad_network :: monero_network
  ad_type :: address_type

record address_index =
  ai_major :: nat
  ai_minor :: nat

record subaddress_balance =
  sb_address :: monero_address
  sb_address_index :: nat
  sb_balance :: nat
  sb_unlocked_balance :: nat

record incoming_transfer =
  it_amount :: nat
  it_subaddr_index :: address_index
  it_tx_hash :: string
  it_block_height :: nat

datatype transfer_category = TcIn | TcOut | TcPending | TcFailed | TcPool

record got_transfer =
  gt_transfer_type :: transfer_category
  gt_amount :: nat
  gt_confirmations :: "nat option"
  gt_subaddr_index :: address_index

record sweep_data =
  sd_tx_hash_list :: "string list"
  sd_amount_list :: "nat list"
  sd_fee_list :: "nat list"

text \<open>\<open>Address::from_str\<close> and \<open>PrivateKey::from_str\<close> of the \<open>monero\<close> crate, and the calls of
  \<open>WalletClient\<close>, whose errors are messages.\<close>

record wallet_rpc =
  address_from_str :: "string \<Rightarrow> monero_address option"
  view_key_parses :: "string \<Rightarrow> bool"
  tx_hash_parses :: "string \<Rightarrow> bool"
  rpc_build :: "(string, unit) outcome" \<comment> \<open>\<open>RpcClientBuilder::build\<close>\<close>
  rpc_refresh :: "(string, unit) outcome"
  rpc_open_wallet :: "string \<Rightarrow> string option \<Rightarrow> (string, unit) outcome"
  rpc_get_accounts :: "(string, nat list) outcome"
  rpc_create_address :: "nat \<Rightarrow> (string, monero_address \<times> nat) outcome"
  rpc_close_wallet :: "(string, unit) outcome"
  rpc_get_address_index :: "monero_address \<Rightarrow> (string, address_index) outcome"
  rpc_get_balance :: "nat \<Rightarrow> nat list option \<Rightarrow> (string, subaddress_balance list) outcome"
  rpc_incoming_transfers :: "nat \<Rightarrow> nat list \<Rightarrow> (string, incoming_transfer list) outcome"
  rpc_sweep_all :: "nat \<Rightarrow> nat \<Rightarrow> monero_address \<Rightarrow> (string, sweep_data) outcome"
  rpc_get_transfer :: "string \<Rightarrow> nat \<Rightarrow> (string, got_transfer option) outcome"
  random_payment_id :: "monero_address \<Rightarrow> monero_address" \<comment> \<open>\<open>create_integrated_address\<close>\<close>

record lws_transaction =
  lt_hash :: string
  lt_total_received :: string
  lt_payment_id :: "nat option"
  lt_height :: "nat option"
  lt_timestamp :: string

record lws_response =
  lr_scanned_block_height :: nat
  lr_transactions :: "lws_transaction list"

record light_wallet =
  lw_get_address_txs :: "monero_address \<Rightarrow> string \<Rightarrow> (string, lws_response) outcome"
  parse_from_rfc3339 :: "string \<Rightarrow> datetime option"

section \<open>Configuration and errors\<close>

record monero_config =
  mc_chain_id :: chain_id
  mc_wallet_name :: "string option"
  mc_wallet_password :: "string option"
  mc_account_index :: nat
  mc_tx_required_confirmations :: nat

record monero_light_config =
  mlc_chain_id :: chain_id
  mlc_tx_required_confirmations :: nat

datatype blockchain_config = BcMonero monero_config | BcMoneroLight monero_light_config

datatype monero_error = WalletError string | WalletRpcError string | UnexpectedAccount
  | TooManyRequests | AddressError | InvalidTransactionHash | Dust | OtherError string

datatype light_wallet_error = ApiError string | UnexpectedResponse

section \<open>State\<close>

record sweep =
  sw_account :: nat
  sw_address :: nat
  sw_to :: string

record payments_state =
  ps_db :: database
  ps_sweeps :: "sweep list"

definition on_db :: "'a db \<Rightarrow> (payments_state, database_error, 'a) prog" where
  "on_db m st = (case m (ps_db st) of (r, t) \<Rightarrow> (r, st\<lparr>ps_db := t\<rparr>))"

section \<open>Server wallet\<close>

definition build_wallet_client :: "wallet_rpc \<Rightarrow> (monero_error, unit) outcome" where
  "build_wallet_client W = map_err WalletError (rpc_build W)"

definition open_monero_wallet :: "wallet_rpc \<Rightarrow> monero_config \<Rightarrow> (monero_error, unit) outcome" where
  "open_monero_wallet W c =
     obind (build_wallet_client W) (\<lambda>_.
     obind (case rpc_refresh W of
         Ok _ \<Rightarrow> Ok ()
       | Panic p \<Rightarrow> Panic p
       | Err e \<Rightarrow>
           if e = ''Server error: No wallet file'' then
             (case mc_wallet_name c of
                Some name \<Rightarrow> map_err WalletError (rpc_open_wallet W name (mc_wallet_password c))
              | None \<Rightarrow> Err (WalletRpcError ''wallet file is required''))
           else Err (WalletError e)) (\<lambda>_.
     obind (map_err WalletError (rpc_get_accounts W)) (\<lambda>accounts.
     if mc_account_index c \<notin> set accounts then Err (WalletRpcError (''account doesn'' @ [CHR 0x27] @ ''t exist''))
     else Ok ())))"

definition create_monero_address :: "wallet_rpc \<Rightarrow> monero_config \<Rightarrow> (monero_error, monero_address) outcome" where
  "create_monero_address W c =
     obind (open_monero_wallet W c) (\<lambda>_.
     obind (map_err WalletError (rpc_create_address W (mc_account_index c))) (\<lambda>(address, _).
     obind (map_err WalletError (rpc_close_wallet W)) (\<lambda>_.
     Ok address)))"

definition get_subaddress_index ::
  "wallet_rpc \<Rightarrow> nat \<Rightarrow> string \<Rightarrow> (monero_error, address_index) outcome" where
  "get_subaddress_index W account address =
     obind (ok_or AddressError (address_from_str W address)) (\<lambda>address.
     obind (map_err WalletError (rpc_get_address_index W address)) (\<lambda>i.
     if ai_major i \<noteq> account then Err UnexpectedAccount else Ok i))"

fun get_single_item :: "'a list \<Rightarrow> (monero_error, 'a) outcome" where
  "get_single_item [x] = Ok x"
| "get_single_item _ = Err (WalletRpcError ''expected single item'')"

definition get_subaddress_balance ::
  "wallet_rpc \<Rightarrow> address_index \<Rightarrow> (monero_error, subaddress_balance) outcome" where
  "get_subaddress_balance W i =
     obind (map_err WalletError (rpc_get_balance W (ai_major i) (Some [ai_minor i]))) get_single_item"

text \<open>A \<open>HashMap\<close> keyed by address, as the list of its first entries.\<close>

definition get_active_addresses ::
  "wallet_rpc \<Rightarrow> nat \<Rightarrow> (monero_error, (monero_address \<times> nat) list) outcome" where
  "get_active_addresses W account =
     obind (map_err WalletError (rpc_get_balance W account None)) (\<lambda>rows.
     Ok (fold (\<lambda>b acc. if sb_address_index b = 0 \<or> sb_address b \<in> fst ` set acc then acc
                       else acc @ [(sb_address b, sb_balance b)]) rows []))"

definition get_incoming_transfers ::
  "wallet_rpc \<Rightarrow> nat \<Rightarrow> nat list \<Rightarrow> (monero_error, incoming_transfer list) outcome" where
  "get_incoming_transfers W account indices =
     obind (map_err WalletError (rpc_incoming_transfers W account indices)) (\<lambda>transfers.
     try_map (\<lambda>t. if ai_major (it_subaddr_index t) \<noteq> account \<or> ai_minor (it_subaddr_index t) \<notin> set indices
                  then Err (WalletRpcError ''unexpected transfer'') else Ok t) transfers)"

text \<open>The sweep is logged as soon as the wallet has made it: what follows may still fail.\<close>

definition send_monero ::
  "wallet_rpc \<Rightarrow> nat \<Rightarrow> nat \<Rightarrow> string \<Rightarrow> (payments_state, monero_error, string \<times> nat) prog" where
  "send_monero W from_account from_address to_address =
     bnd (lift (ok_or AddressError (address_from_str W to_address))) (\<lambda>address.
     bnd (\<lambda>st. case rpc_sweep_all W from_account from_address address of
            Ok d \<Rightarrow> (Ok d, st\<lparr>ps_sweeps := ps_sweeps st @ [\<lparr>sw_account = from_account,
                       sw_address = from_address, sw_to = to_address\<rparr>]\<rparr>)
          | Err e \<Rightarrow>
              (Err (if e = ''Server error: No unlocked balance in the specified subaddress(es)''
                      \<or> e = ''Server error: not enough unlocked money''
                    then Dust else WalletError e), st)
          | Panic p \<Rightarrow> (Panic p, st)) (\<lambda>d.
     bnd (lift (get_single_item (sd_tx_hash_list d))) (\<lambda>tx_hash.
     bnd (lift (get_single_item (sd_amount_list d))) (\<lambda>amount.
     bnd (lift (get_single_item (sd_fee_list d))) (\<lambda>fee.
     seq (lift (map_err WalletError (rpc_close_wallet W)))
     (ret (tx_hash, amount)))))))"

definition get_transaction_by_id ::
  "wallet_rpc \<Rightarrow> nat \<Rightarrow> string \<Rightarrow> (monero_error, got_transfer option) outcome" where
  "get_transaction_by_id W account tx_id =
     (if \<not> tx_hash_parses W tx_id then Err InvalidTransactionHash
      else obind (map_err (\<lambda>e. if e = ''Server error: No wallet file'' then TooManyRequests else WalletError e)
                   (rpc_get_transfer W tx_id account)) (\<lambda>maybe_transfer.
           case maybe_transfer of
             Some t \<Rightarrow>
               if ai_major (gt_subaddr_index t) \<noteq> account then Err (WalletRpcError ''unexpected transfer'')
               else Ok (Some t)
           | None \<Rightarrow> Ok None))"

definition get_latest_incoming_transfer ::
  "wallet_rpc \<Rightarrow> address_index \<Rightarrow> (monero_error, got_transfer option) outcome" where
  "get_latest_incoming_transfer W i =
     obind (get_incoming_transfers W (ai_major i) [ai_minor i]) (\<lambda>transfers.
     case rev (sort_key it_block_height transfers) of
       [] \<Rightarrow> Ok None
     | t # _ \<Rightarrow> get_transaction_by_id W (ai_major i) (it_tx_hash t))"

section \<open>Light wallet\<close>

definition get_tx_id_by_payment_id ::
  "light_wallet \<Rightarrow> monero_address \<Rightarrow> string \<Rightarrow> nat \<Rightarrow> (light_wallet_error, string option) outcome" where
  "get_tx_id_by_payment_id L address view_key payment_id =
     obind (map_err ApiError (lw_get_address_txs L address view_key)) (\<lambda>response.
     Ok (map_option lt_hash (find (\<lambda>tx. lt_payment_id tx = Some payment_id)
           (filter (\<lambda>tx. lt_total_received tx \<noteq> ''0'') (lr_transactions response)))))"

definition get_tx_info ::
  "light_wallet \<Rightarrow> monero_address \<Rightarrow> string \<Rightarrow> string \<Rightarrow> (light_wallet_error, nat \<times> nat) outcome" where
  "get_tx_info L address view_key tx_id =
     obind (map_err ApiError (lw_get_address_txs L address view_key)) (\<lambda>response.
     let blockchain_height = lr_scanned_block_height response in
     case find (\<lambda>tx. lt_hash tx = tx_id) (lr_transactions response) of
       None \<Rightarrow> Err UnexpectedResponse
     | Some tx \<Rightarrow>
         let tx_height = (case lt_height tx of Some h \<Rightarrow> h | None \<Rightarrow> blockchain_height) in
         if blockchain_height < tx_height then Err UnexpectedResponse
         else obind (ok_or UnexpectedResponse (parse_u64 (lt_total_received tx))) (\<lambda>amount.
              Ok (amount, blockchain_height - tx_height)))"

definition get_primary_address_txs ::
  "light_wallet \<Rightarrow> monero_address \<Rightarrow> string \<Rightarrow> datetime \<Rightarrow> (light_wallet_error, string list) outcome" where
  "get_primary_address_txs L address view_key since_date =
     obind (map_err ApiError (lw_get_address_txs L address view_key)) (\<lambda>response.
     obind (try_map (\<lambda>tx.
         if lt_total_received tx = ''0'' then Ok []
         else if lt_payment_id tx \<noteq> None \<and> lt_payment_id tx \<noteq> Some 0 then Ok []
         else obind (ok_or UnexpectedResponse (parse_from_rfc3339 L (lt_timestamp tx))) (\<lambda>timestamp.
              if timestamp \<le> since_date then Ok [] else Ok [lt_hash tx])) (lr_transactions response)) (\<lambda>ids.
     Ok (concat ids)))"

section \<open>Addresses\<close>

definition address_network :: "monero_address \<Rightarrow> monero_network" where
  "address_network a = ad_network a"

definition get_payment_id :: "monero_address \<Rightarrow> nat option" where
  "get_payment_id a = (case ad_type a of Integrated pid \<Rightarrow> Some pid | _ \<Rightarrow> None)"

end
