(* ===== verification/Payments.thy ===== *)
theory Payments
  imports MoneroWallet
begin

text \<open>
  The payment adapters (\<open>mitra_adapters/src/payments/monero.rs\<close> and \<open>common.rs\<close>) and workers
  (\<open>mitra_workers/src/payments\<close>): address checks, invoice creation and re-opening, and the periodic
  passes that move invoices through their life and credit subscriptions. The wallets' answers are
  parameters, fixed for one pass.
\<close>

datatype payment_error = PeMonero monero_error | PeLightWallet light_wallet_error | PeDatabase database_error

type_synonym 'a pay = "(payments_state, payment_error, 'a) prog"

definition db :: "'a db \<Rightarrow> 'a pay" where
  "db m = map_err_p PeDatabase (on_db m)"

definition wallet :: "(monero_error, 'a) outcome \<Rightarrow> 'a pay" where
  "wallet r = lift (map_err PeMonero r)"

definition light :: "(light_wallet_error, 'a) outcome \<Rightarrow> 'a pay" where
  "light r = lift (map_err PeLightWallet r)"

definition utc_now :: "datetime pay" where
  "utc_now = gets (\<lambda>st. current_timestamp (ps_db st))"

text \<open>The builders of the outgoing activities (\<open>mitra_activitypub/src/builders\<close>) and the fresh
  identifiers are parameters.\<close>

record builders =
  prepare_update_agreement ::
    "user \<Rightarrow> monero_subscription \<Rightarrow> invoice \<Rightarrow> db_actor \<Rightarrow> (database_error, outgoing_activity_job_data) outcome"
  prepare_add_subscriber :: "db_actor \<Rightarrow> user \<Rightarrow> datetime \<Rightarrow> uuid option \<Rightarrow> outgoing_activity_job_data"
  prepare_remove_subscriber :: "db_actor \<Rightarrow> user \<Rightarrow> outgoing_activity_job_data"
  canonical_id_of :: "string \<Rightarrow> string option"
  fresh_id :: "database \<Rightarrow> uuid"

definition send_activity :: "builders \<Rightarrow> outgoing_activity_job_data \<Rightarrow> unit db" where
  "send_activity B d = bnd (gets (fresh_id B)) (\<lambda>jid. save_and_enqueue (canonical_id_of B) jid d)"

section \<open>Adapters\<close>

definition monero_invoice_timeout :: nat where
  "monero_invoice_timeout = 3 * 60 * 60 + 2 * 20 * 120"

definition remote_invoice_timeout :: nat where
  "remote_invoice_timeout = monero_invoice_timeout"

definition is_valid_network :: "monero_network \<Rightarrow> chain_id \<Rightarrow> bool" where
  "is_valid_network network chain = (case chain_monero_network chain of
      Ok Private \<Rightarrow> True
    | Ok expected \<Rightarrow> network = expected
    | _ \<Rightarrow> False)"

definition validate_monero_address :: "wallet_rpc \<Rightarrow> string \<Rightarrow> chain_id \<Rightarrow> (string, unit) outcome" where
  "validate_monero_address W address chain =
     obind (ok_or ''invalid monero address'' (address_from_str W address)) (\<lambda>a.
     if \<not> is_valid_network (address_network a) chain then Err ''address belongs to wrong network'' else Ok ())"

definition validate_monero_standard_address ::
  "wallet_rpc \<Rightarrow> string \<Rightarrow> chain_id \<Rightarrow> (string, unit) outcome" where
  "validate_monero_standard_address W address chain =
     obind (ok_or ''invalid monero address'' (address_from_str W address)) (\<lambda>a.
     if ad_type a \<noteq> Standard then Err ''address is not a standard address''
     else if \<not> is_valid_network (address_network a) chain then Err ''address belongs to wrong network''
     else Ok ())"

definition payment_method_payout_address ::
  "wallet_rpc \<Rightarrow> payment_method \<Rightarrow> (database_error, monero_address) outcome" where
  "payment_method_payout_address W m = ok_or TypeError (address_from_str W (pm_payout_address m))"

definition payment_method_view_key :: "wallet_rpc \<Rightarrow> payment_method \<Rightarrow> (database_error, string) outcome" where
  "payment_method_view_key W m =
     obind (ok_or TypeError (pm_view_key m)) (\<lambda>k. if view_key_parses W k then Ok k else Err TypeError)"

fun bc_matches :: "payment_method \<Rightarrow> blockchain_config \<Rightarrow> bool" where
  "bc_matches m (BcMonero c) \<longleftrightarrow> pm_payment_type m = Monero \<and> mc_chain_id c = pm_chain_id m"
| "bc_matches m (BcMoneroLight c) \<longleftrightarrow> pm_payment_type m = MoneroLight \<and> mlc_chain_id c = pm_chain_id m"

definition create_payment_address ::
  "wallet_rpc \<Rightarrow> blockchain_config list \<Rightarrow> payment_method \<Rightarrow> (payment_error, string) outcome" where
  "create_payment_address W blockchains m =
     obind (ok_or (PeMonero (OtherError (''recipient can'' @ [CHR 0x27] @ ''t accept payment'')))
              (find (bc_matches m) blockchains)) (\<lambda>bc.
     case bc of
       BcMonero c \<Rightarrow> obind (map_err PeMonero (create_monero_address W c)) (\<lambda>a. Ok (ad_text a))
     | BcMoneroLight _ \<Rightarrow>
         obind (map_err PeDatabase (payment_method_payout_address W m)) (\<lambda>payout_address.
         Ok (ad_text (random_payment_id W payout_address))))"

definition invoice_payment_address :: "invoice \<Rightarrow> (database_error, string) outcome" where
  "invoice_payment_address i = map_err (\<lambda>_. TypeError) (try_payment_address i)"

definition reopen_local_invoice :: "wallet_rpc \<Rightarrow> monero_config \<Rightarrow> invoice \<Rightarrow> unit pay" where
  "reopen_local_invoice W c i =
     (if inv_chain_id i \<noteq> mc_chain_id c then throw (PeMonero (OtherError ''unexpected chain ID''))
      else if \<not> is_final (inv_status i) then throw (PeMonero (OtherError ''invoice is already open''))
      else
        bnd (db (get_payment_method_by_type_and_chain_id (inv_recipient_id i) Monero (inv_chain_id i))) (\<lambda>m.
        seq (wallet (ok_or (OtherError (''recipient can'' @ [CHR 0x27] @ ''t accept payment'')) m))
        (seq (wallet (open_monero_wallet W c))
        (bnd (lift (map_err PeDatabase (invoice_payment_address i))) (\<lambda>payment_address.
        bnd (wallet (get_subaddress_index W (mc_account_index c) payment_address)) (\<lambda>index.
        bnd (wallet (get_incoming_transfers W (ai_major index) [ai_minor index])) (\<lambda>transfers.
        if transfers = [] then ret ()
        else seq (db (local_invoice_reopened (inv_id i))) (ret ()))))))))"

definition get_payment_address ::
  "externals \<Rightarrow> builders \<Rightarrow> wallet_rpc \<Rightarrow> monero_config \<Rightarrow> uuid \<Rightarrow> uuid \<Rightarrow> string pay" where
  "get_payment_address X B W c sender_id recipient_id =
     bnd (db (get_user_by_id X recipient_id)) (\<lambda>recipient.
     bnd (lift (monero_subscription_of (user_profile recipient) (mc_chain_id c))) (\<lambda>info.
     if info = None then throw (PeMonero (OtherError (''recipient can'' @ [CHR 0x27] @ ''t accept payment'')))
     else
       bnd (db (get_payment_method_by_type_and_chain_id recipient_id Monero (mc_chain_id c))) (\<lambda>m.
       bnd (wallet (ok_or (OtherError (''recipient can'' @ [CHR 0x27] @ ''t accept payment'')) m)) (\<lambda>m.
       bnd (match_result
              (on_db (get_local_invoice_by_participants sender_id recipient_id (pm_payment_type m) (pm_chain_id m)))
              ret
              (\<lambda>e. case e of
                   NotFound _ \<Rightarrow>
                     bnd (wallet (create_monero_address W c)) (\<lambda>address.
                     bnd (gets (\<lambda>st. fresh_id B (ps_db st))) (\<lambda>ulid.
                     db (create_local_invoice ulid sender_id recipient_id (pm_payment_type m) (pm_chain_id m)
                           (ad_text address) 0)))
                 | other \<Rightarrow> throw (PeDatabase other))) (\<lambda>i.
       lift (map_err PeDatabase (invoice_payment_address i)))))))"

definition check_open_remote_invoices :: "unit db" where
  "check_open_remote_invoices =
     bnd (get_remote_invoices_by_status Open) (\<lambda>open_invoices.
     for_each open_invoices (\<lambda>i.
       bnd (gets current_timestamp) (\<lambda>now.
       if invoice_expires_at i remote_invoice_timeout \<le> now
       then seq (set_invoice_status (inv_id i) Timeout) (ret ())
       else ret ())))"

section \<open>Server wallet workers\<close>

definition send_invoice_status_update :: "externals \<Rightarrow> builders \<Rightarrow> invoice \<Rightarrow> unit db" where
  "send_invoice_status_update X B i =
     bnd (get_profile_by_id X (inv_sender_id i)) (\<lambda>sender.
     bnd (get_user_by_id X (inv_recipient_id i)) (\<lambda>recipient.
     bnd (lift (monero_subscription_of (user_profile recipient) (inv_chain_id i))) (\<lambda>info.
     case info of
       None \<Rightarrow> ret ()
     | Some payment_info \<Rightarrow>
         (case p_actor_json sender of
            Some remote_payer \<Rightarrow>
              bnd (lift (prepare_update_agreement B recipient payment_info i remote_payer)) (send_activity B)
          | None \<Rightarrow> ret ()))))"

text \<open>\<open>HashMap::insert\<close> on the waiting list, from subaddress index to invoice.\<close>

definition waitlist_insert :: "nat \<Rightarrow> uuid \<Rightarrow> (nat \<times> uuid) list \<Rightarrow> (nat \<times> uuid) list" where
  "waitlist_insert k v kvs = filter (\<lambda>kv. fst kv \<noteq> k) kvs @ [(k, v)]"

definition expire_or_wait ::
  "wallet_rpc \<Rightarrow> monero_config \<Rightarrow> invoice \<Rightarrow> (nat \<times> uuid) list \<Rightarrow> (nat \<times> uuid) list pay" where
  "expire_or_wait W c i waitlist =
     bnd utc_now (\<lambda>now.
     if invoice_expires_at i monero_invoice_timeout \<le> now
     then seq (db (set_invoice_status (inv_id i) Timeout)) (ret waitlist)
     else
       bnd (lift (map_err PeDatabase (invoice_payment_address i))) (\<lambda>payment_address.
       bnd (wallet (get_subaddress_index W (mc_account_index c) payment_address)) (\<lambda>index.
       ret (waitlist_insert (ai_minor index) (inv_id i) waitlist))))"

definition receive_transfer ::
  "externals \<Rightarrow> builders \<Rightarrow> (nat \<times> uuid) list \<Rightarrow> incoming_transfer \<Rightarrow> unit pay" where
  "receive_transfer X B waitlist t =
     bnd (wallet (ok_or (WalletRpcError ''unexpected address index'')
            (map_of waitlist (ai_minor (it_subaddr_index t))))) (\<lambda>iid.
     bnd (db (get_invoice_by_id iid)) (\<lambda>i.
     if inv_status i = Open then
       bnd (db (set_invoice_status (inv_id i) Paid)) (\<lambda>i.
       db (send_invoice_status_update X B i))
     else ret ()))"

definition check_open_invoices ::
  "externals \<Rightarrow> builders \<Rightarrow> wallet_rpc \<Rightarrow> monero_config \<Rightarrow> unit pay" where
  "check_open_invoices X B W c =
     bnd (db (get_local_invoices_by_status Monero (mc_chain_id c) Open)) (\<lambda>open_invoices.
     bnd (fold_p (expire_or_wait W c) open_invoices []) (\<lambda>waitlist.
     if waitlist = [] then ret ()
     else
       bnd (wallet (get_incoming_transfers W (mc_account_index c) (map fst waitlist))) (\<lambda>transfers.
       for_each transfers (receive_transfer X B waitlist))))"

text \<open>One paid invoice: forward the whole unlocked and confirmed balance, or leave it.\<close>

definition forward_payment ::
  "externals \<Rightarrow> wallet_rpc \<Rightarrow> invoice \<Rightarrow> address_index \<Rightarrow> unit pay" where
  "forward_payment X W i index =
     bnd (db (get_user_by_id X (inv_recipient_id i))) (\<lambda>recipient.
     bnd (db (get_payment_method_by_type_and_chain_id (user_id recipient) Monero (inv_chain_id i))) (\<lambda>m.
     case m of
       None \<Rightarrow> ret ()
     | Some m \<Rightarrow>
         match_result (send_monero W (ai_major index) (ai_minor index) (pm_payout_address m))
           (\<lambda>(payout_tx_id, _). seq (db (local_invoice_forwarded (inv_id i) payout_tx_id)) (ret ()))
           (\<lambda>e. case e of
                Dust \<Rightarrow> seq (db (set_invoice_status (inv_id i) Underpaid)) (ret ())
              | other \<Rightarrow> throw (PeMonero other))))"

definition check_paid_invoice ::
  "externals \<Rightarrow> wallet_rpc \<Rightarrow> monero_config \<Rightarrow> invoice \<Rightarrow> unit pay" where
  "check_paid_invoice X W c i =
     bnd (lift (map_err PeDatabase (invoice_payment_address i))) (\<lambda>payment_address.
     case get_subaddress_index W (mc_account_index c) payment_address of
       Panic p \<Rightarrow> panic p
     | Err UnexpectedAccount \<Rightarrow> ret ()
     | Err other \<Rightarrow> throw (PeMonero other)
     | Ok index \<Rightarrow>
         bnd (wallet (get_subaddress_balance W index)) (\<lambda>balance_data.
         bnd (wallet (get_latest_incoming_transfer W index)) (\<lambda>latest.
         case latest of
           None \<Rightarrow> ret ()
         | Some latest_transfer \<Rightarrow>
             let confirmations = (case gt_confirmations latest_transfer of Some n \<Rightarrow> n | None \<Rightarrow> 0) in
             if sb_balance balance_data \<noteq> sb_unlocked_balance balance_data \<or> sb_balance balance_data = 0
             then ret ()
             else if confirmations < mc_tx_required_confirmations c then ret ()
             else forward_payment X W i index)))"

definition check_paid_invoices :: "externals \<Rightarrow> wallet_rpc \<Rightarrow> monero_config \<Rightarrow> unit pay" where
  "check_paid_invoices X W c =
     seq (wallet (build_wallet_client W))
     (bnd (db (get_local_invoices_by_status Monero (mc_chain_id c) Paid)) (\<lambda>paid_invoices.
     for_each paid_invoices (check_paid_invoice X W c)))"

definition create_or_update_monero_subscription ::
  "externals \<Rightarrow> builders \<Rightarrow> invoice \<Rightarrow> unit pay" where
  "create_or_update_monero_subscription X B i =
     (if inv_status i \<noteq> Completed then panic ''assertion failed: invoice_status == Completed''
      else
        bnd (db (get_profile_by_id X (inv_sender_id i))) (\<lambda>sender.
        bnd (db (get_user_by_id X (inv_recipient_id i))) (\<lambda>recipient.
        bnd (lift (monero_subscription_of (user_profile recipient) (inv_chain_id i))) (\<lambda>info.
        case info of
          None \<Rightarrow> ret ()
        | Some subscription_info \<Rightarrow>
            bnd (lift (map_err (\<lambda>_. PeDatabase TypeError) (try_payout_amount_u64 i))) (\<lambda>payout_amount.
            bnd (wallet (map_err (\<lambda>_. OtherError ''amount is too big'')
                   (i64_try_from (payout_amount div ms_price subscription_info)))) (\<lambda>duration_secs.
            bnd (db (create_or_update_local_subscription X sender recipient duration_secs)) (\<lambda>subscription.
            seq (db (create_subscriber_payment_notification (p_id sender) (user_id recipient) (inv_id i)))
            (case p_actor_json sender of
               Some remote_sender \<Rightarrow>
                 db (send_activity B (prepare_add_subscriber B remote_sender recipient
                       (sub_expires_at subscription) (Some (inv_id i))))
             | None \<Rightarrow> ret ()))))))))"

definition check_forwarded_invoice ::
  "externals \<Rightarrow> builders \<Rightarrow> wallet_rpc \<Rightarrow> monero_config \<Rightarrow> invoice \<Rightarrow> unit pay" where
  "check_forwarded_invoice X B W c i = (case inv_payout_tx_id i of
      None \<Rightarrow> seq (db (set_invoice_status (inv_id i) Completed)) (ret ())
    | Some payout_tx_id \<Rightarrow>
        (case get_transaction_by_id W (mc_account_index c) payout_tx_id of
           Panic p \<Rightarrow> panic p
         | Err TooManyRequests \<Rightarrow> ret ()
         | Err other \<Rightarrow> throw (PeMonero other)
         | Ok None \<Rightarrow> ret ()
         | Ok (Some t) \<Rightarrow>
             if gt_transfer_type t = TcFailed
             then seq (db (set_invoice_status (inv_id i) Failed)) (ret ())
             else if gt_transfer_type t \<noteq> TcPending \<and> gt_transfer_type t \<noteq> TcOut then ret ()
             else if (case gt_confirmations t of Some n \<Rightarrow> n | None \<Rightarrow> 0) < mc_tx_required_confirmations c
             then ret ()
             else
               bnd (db (local_invoice_completed (inv_id i) (gt_amount t)))
                 (create_or_update_monero_subscription X B)))"

definition check_forwarded_invoices ::
  "externals \<Rightarrow> builders \<Rightarrow> wallet_rpc \<Rightarrow> monero_config \<Rightarrow> unit pay" where
  "check_forwarded_invoices X B W c =
     bnd (db (get_local_invoices_by_status Monero (mc_chain_id c) Forwarded)) (\<lambda>forwarded_invoices.
     for_each forwarded_invoices (check_forwarded_invoice X B W c))"

definition check_monero_invoices ::
  "externals \<Rightarrow> builders \<Rightarrow> wallet_rpc \<Rightarrow> monero_config \<Rightarrow> unit pay" where
  "check_monero_invoices X B W c =
     seq (wallet (open_monero_wallet W c))
     (seq (check_open_invoices X B W c)
     (seq (check_paid_invoices X W c)
     (check_forwarded_invoices X B W c)))"

definition check_closed_monero_invoices :: "wallet_rpc \<Rightarrow> monero_config \<Rightarrow> unit pay" where
  "check_closed_monero_invoices W c =
     seq (wallet (open_monero_wallet W c))
     (bnd (wallet (get_active_addresses W (mc_account_index c))) (\<lambda>addresses.
     for_each addresses (\<lambda>(address, _).
       match_result (on_db (get_local_invoice_by_address Monero (mc_chain_id c) (ad_text address)))
         (\<lambda>i. if \<not> is_final (inv_status i) then ret ()
              else seq (db (local_invoice_reopened (inv_id i))) (ret ()))
         (\<lambda>e. case e of NotFound _ \<Rightarrow> ret () | other \<Rightarrow> throw (PeDatabase other)))))"

section \<open>Light wallet workers\<close>

definition check_light_open_invoice ::
  "externals \<Rightarrow> builders \<Rightarrow> wallet_rpc \<Rightarrow> light_wallet \<Rightarrow> invoice \<Rightarrow> unit pay" where
  "check_light_open_invoice X B W L i =
     bnd utc_now (\<lambda>now.
     if invoice_expires_at i monero_invoice_timeout \<le> now
     then seq (db (set_invoice_status (inv_id i) Timeout)) (ret ())
     else
       bnd (db (get_user_by_id X (inv_recipient_id i))) (\<lambda>recipient.
       bnd (db (get_payment_method_by_type_and_chain_id (user_id recipient) MoneroLight (inv_chain_id i))) (\<lambda>m.
       case m of
         None \<Rightarrow> ret ()
       | Some m \<Rightarrow>
           bnd (lift (map_err PeDatabase (invoice_payment_address i))) (\<lambda>payment_address.
           if payment_address = pm_payout_address m then ret ()
           else
             bnd (lift (map_err PeDatabase (payment_method_payout_address W m))) (\<lambda>payout_address.
             bnd (lift (map_err PeDatabase (payment_method_view_key W m))) (\<lambda>view_key.
             bnd (lift (ok_or (PeDatabase TypeError) (address_from_str W payment_address))) (\<lambda>payment_address.
             bnd (lift (ok_or (PeDatabase TypeError) (get_payment_id payment_address))) (\<lambda>payment_id.
             bnd (light (get_tx_id_by_payment_id L payout_address view_key payment_id)) (\<lambda>tx_id.
             case tx_id of
               None \<Rightarrow> ret ()
             | Some payout_tx_id \<Rightarrow>
                 bnd (db (local_monero_light_invoice_paid (inv_id i) payout_tx_id)) (\<lambda>i.
                 db (send_invoice_status_update X B i)))))))))))"

definition check_monero_light_open_invoices ::
  "externals \<Rightarrow> builders \<Rightarrow> wallet_rpc \<Rightarrow> light_wallet \<Rightarrow> monero_light_config \<Rightarrow> unit pay" where
  "check_monero_light_open_invoices X B W L c =
     bnd (db (get_local_invoices_by_status MoneroLight (mlc_chain_id c) Open)) (\<lambda>open_invoices.
     for_each open_invoices (check_light_open_invoice X B W L))"

definition check_light_paid_invoice ::
  "externals \<Rightarrow> builders \<Rightarrow> wallet_rpc \<Rightarrow> light_wallet \<Rightarrow> monero_light_config \<Rightarrow> invoice \<Rightarrow> unit pay" where
  "check_light_paid_invoice X B W L c i = (case inv_payout_tx_id i of
      None \<Rightarrow> ret ()
    | Some payout_tx_id \<Rightarrow>
        bnd (db (get_user_by_id X (inv_recipient_id i))) (\<lambda>recipient.
        bnd (db (get_payment_method_by_type_and_chain_id (user_id recipient) MoneroLight (inv_chain_id i))) (\<lambda>m.
        case m of
          None \<Rightarrow> ret ()
        | Some m \<Rightarrow>
            bnd (lift (map_err PeDatabase (payment_method_payout_address W m))) (\<lambda>payout_address.
            bnd (lift (map_err PeDatabase (payment_method_view_key W m))) (\<lambda>view_key.
            bnd (light (get_tx_info L payout_address view_key payout_tx_id)) (\<lambda>(tx_amount, confirmations).
            if confirmations < mlc_tx_required_confirmations c then ret ()
            else
              bnd (db (local_invoice_completed (inv_id i) tx_amount))
                (create_or_update_monero_subscription X B)))))))"

definition check_monero_light_paid_invoices ::
  "externals \<Rightarrow> builders \<Rightarrow> wallet_rpc \<Rightarrow> light_wallet \<Rightarrow> monero_light_config \<Rightarrow> unit pay" where
  "check_monero_light_paid_invoices X B W L c =
     bnd (db (get_local_invoices_by_status MoneroLight (mlc_chain_id c) Paid)) (\<lambda>paid_invoices.
     for_each paid_invoices (check_light_paid_invoice X B W L c))"

definition check_monero_light_invoices ::
  "externals \<Rightarrow> builders \<Rightarrow> wallet_rpc \<Rightarrow> light_wallet \<Rightarrow> monero_light_config \<Rightarrow> unit pay" where
  "check_monero_light_invoices X B W L c =
     seq (check_monero_light_open_invoices X B W L c)
     (check_monero_light_paid_invoices X B W L c)"

definition detect_anonymous_payment ::
  "builders \<Rightarrow> wallet_rpc \<Rightarrow> light_wallet \<Rightarrow> uuid \<Rightarrow> payment_method \<Rightarrow> monero_address \<Rightarrow> string \<Rightarrow> datetime \<Rightarrow> unit pay" where
  "detect_anonymous_payment B W L anonymous_sender_id m payout_address view_key since_date =
     bnd (light (get_primary_address_txs L payout_address view_key since_date)) (\<lambda>transactions.
     case transactions of
       [] \<Rightarrow> ret ()
     | tx_id # _ \<Rightarrow>
         bnd (gets (\<lambda>st. fresh_id B (ps_db st))) (\<lambda>ulid.
         bnd (db (create_local_invoice ulid anonymous_sender_id (pm_owner_id m) (pm_payment_type m)
                    (pm_chain_id m) (ad_text payout_address) 0)) (\<lambda>i.
         seq (db (local_monero_light_invoice_paid (inv_id i) tx_id)) (ret ()))))"

definition check_light_payment ::
  "builders \<Rightarrow> wallet_rpc \<Rightarrow> light_wallet \<Rightarrow> monero_light_config \<Rightarrow> uuid \<Rightarrow> payment_method \<Rightarrow> unit pay" where
  "check_light_payment B W L c anonymous_sender_id m =
     bnd (lift (map_err PeDatabase (payment_method_payout_address W m))) (\<lambda>payout_address.
     bnd (lift (map_err PeDatabase (payment_method_view_key W m))) (\<lambda>view_key.
     match_result (on_db (get_local_invoice_by_address MoneroLight (mlc_chain_id c) (ad_text payout_address)))
       (\<lambda>i. if inv_status i \<noteq> Completed then ret ()
            else detect_anonymous_payment B W L anonymous_sender_id m payout_address view_key
                   (max (inv_updated_at i) (pm_updated_at m)))
       (\<lambda>e. case e of
            NotFound _ \<Rightarrow>
              detect_anonymous_payment B W L anonymous_sender_id m payout_address view_key (pm_updated_at m)
          | other \<Rightarrow> throw (PeDatabase other))))"

definition check_monero_light_payments ::
  "builders \<Rightarrow> wallet_rpc \<Rightarrow> light_wallet \<Rightarrow> monero_light_config \<Rightarrow> unit pay" where
  "check_monero_light_payments B W L c =
     bnd (db get_anonymous_system_account_id) (\<lambda>sender. case sender of
         None \<Rightarrow> ret ()
       | Some anonymous_sender_id \<Rightarrow>
           bnd (db (get_payment_methods MoneroLight (mlc_chain_id c))) (\<lambda>methods.
           for_each methods (check_light_payment B W L c anonymous_sender_id)))"

section \<open>Expired subscriptions\<close>

definition expire_subscription :: "externals \<Rightarrow> builders \<Rightarrow> subscription \<Rightarrow> unit db" where
  "expire_subscription X B x =
     seq (unsubscribe X (sub_sender_id x) (sub_recipient_id x))
     (bnd (get_profile_by_id X (sub_sender_id x)) (\<lambda>sender.
      bnd (get_user_by_id X (sub_recipient_id x)) (\<lambda>recipient.
      seq (case p_actor_json sender of
             Some remote_sender \<Rightarrow> send_activity B (prepare_remove_subscriber B remote_sender recipient)
           | None \<Rightarrow> create_subscription_expiration_notification (sub_recipient_id x) (sub_sender_id x))
      (if is_anonymous sender then ret ()
       else create_subscriber_leaving_notification (p_id sender) (user_id recipient)))))"

definition update_expired_subscriptions :: "externals \<Rightarrow> builders \<Rightarrow> unit db" where
  "update_expired_subscriptions X B =
     bnd get_expired_subscriptions (\<lambda>xs. for_each xs (expire_subscription X B))"

end
