(* ===== verification/PaymentProperties.thy ===== *)
theory PaymentProperties
  imports Payments "HOL-Library.Sublist"
begin

text \<open>
  What the payment passes guarantee whatever the wallets answer: the invoice invariant holds
  after every pass, money leaves the wallet only for a paid invoice and only to the recipient's
  payout address, and a successful expiry pass leaves no expired subscriber.
\<close>

section \<open>Programs that leave the invoices\<close>

definition keeps_invoices :: "'a db \<Rightarrow> bool" where
  "keeps_invoices m \<longleftrightarrow> (\<forall>v. preserves (\<lambda>s. invoices s = v) m)"

lemma keeps_invoices_inv: "keeps_invoices m \<Longrightarrow> preserves invoices_inv m"
  unfolding keeps_invoices_def preserves_def invoices_inv_def by metis

lemma keepsI: "(\<And>v. preserves (\<lambda>s. invoices s = v) m) \<Longrightarrow> keeps_invoices m"
  by (simp add: keeps_invoices_def)

lemma keepsD: "keeps_invoices m \<Longrightarrow> preserves (\<lambda>s. invoices s = v) m"
  by (simp add: keeps_invoices_def)

lemma keeps_insert_relationship_opt: "preserves (\<lambda>s. invoices s = v) (insert_relationship_opt a b ty)"
  by (auto simp: preserves_def insert_relationship_opt_def Let_def)

lemma keeps_profile_counter: "preserves (\<lambda>s. invoices s = v) (update_profile_counter X cnt add pid d)"
  unfolding update_profile_counter_def profile_try_from_def
  by (auto intro!: preserves_rules)

lemma keeps_subscribe_opt: "preserves (\<lambda>s. invoices s = v) (subscribe_opt X a b)"
  unfolding subscribe_opt_def update_subscriber_count_def
  by (intro preserves_transaction)
    (auto intro!: preserves_rules keeps_insert_relationship_opt keeps_profile_counter)

lemma keeps_insert_subscription: "preserves (\<lambda>s. invoices s = v) (insert_subscription a b e u)"
  by (auto simp: preserves_def insert_subscription_def Let_def)

lemma keeps_subscription_changes:
  "preserves (\<lambda>s. invoices s = v) (create_subscription X a b e u)"
  "preserves (\<lambda>s. invoices s = v) (update_subscription X sid e u)"
  unfolding create_subscription_def update_subscription_def
  by (intro preserves_transaction; auto intro!: preserves_rules keeps_subscribe_opt keeps_insert_subscription)+

lemma keeps_local_subscription: "keeps_invoices (create_or_update_local_subscription X p r n)"
  unfolding create_or_update_local_subscription_def create_or_update_subscription_def
    get_subscription_by_participants_def
  by (intro keepsI preserves_rules allI)
    (auto intro!: preserves_rules keeps_subscription_changes split: database_error.splits)

lemma keeps_create_notification: "preserves (\<lambda>s. invoices s = v) (create_notification a b p r i ev)"
proof (rule preservesI)
  fix s :: database assume "invoices s = v"
  moreover obtain q n where "snd (create_notification a b p r i ev s) = s\<lparr>seqs := q, notifications := n\<rparr>"
    using create_notification_state by blast
  ultimately show "invoices (snd (create_notification a b p r i ev s)) = v" by simp
qed

lemma keeps_enqueue_job: "preserves (\<lambda>s. invoices s = v) (enqueue_job jid ty data at)"
  by (auto simp: preserves_def enqueue_job_def run_def prog_defs)

lemma keeps_send_activity: "preserves (\<lambda>s. invoices s = v) (send_activity B d)"
  unfolding send_activity_def save_and_enqueue_def outgoing_save_activity_def outgoing_enqueue_def
    outgoing_into_job_def
  by (intro preserves_rules allI keeps_enqueue_job) (auto simp: preserves_def save_activity_def)

lemma preserves_lookups [preserves_rules]:
  "preserves I (get_profile_by_id X pid)" "preserves I (get_user_by_id X uid)"
  "preserves I (get_invoice_by_id iid)" "preserves I (get_payment_method_by_type_and_chain_id uid ty c)"
  "preserves I (get_local_invoices_by_status ty c st)" "preserves I (get_payment_methods ty c)"
  "preserves I get_anonymous_system_account_id" "preserves I (get_local_invoice_by_address ty c a)"
  "preserves I (get_local_invoice_by_participants x y ty c)"
  "preserves I (get_remote_invoices_by_status st)" "preserves I get_expired_subscriptions"
  unfolding get_profile_by_id_def get_user_by_id_def get_invoice_by_id_def
    get_payment_method_by_type_and_chain_id_def get_payment_method_by_chain_id_def
    get_local_invoices_by_status_def get_payment_methods_def get_anonymous_system_account_id_def
    get_local_invoice_by_address_def get_remote_invoices_by_status_def get_expired_subscriptions_def
    get_local_invoice_by_participants_def profile_try_from_def
  by (auto intro!: preserves_rules split: option.splits prod.splits)

lemma keeps_status_update: "keeps_invoices (send_invoice_status_update X B i)"
  unfolding send_invoice_status_update_def
  by (intro keepsI preserves_rules allI)
    (auto intro!: preserves_rules keeps_send_activity split: option.splits)

section \<open>The invoice invariant along every pass\<close>

abbreviation pay_inv :: "payments_state \<Rightarrow> bool" where
  "pay_inv st \<equiv> invoices_inv (ps_db st)"

lemma on_db_preserves: "preserves I m \<Longrightarrow> preserves (\<lambda>st. I (ps_db st)) (on_db m)"
  by (auto simp: preserves_def on_db_def split: prod.splits)

lemma db_preserves [preserves_rules]: "preserves I m \<Longrightarrow> preserves (\<lambda>st. I (ps_db st)) (db m)"
  unfolding db_def by (intro preserves_map_err_p on_db_preserves)

lemma pay_lift_preserves [preserves_rules]:
  "preserves I (wallet r)" "preserves I (light r')" "preserves I utc_now"
  by (simp_all add: wallet_def light_def utc_now_def)

lemma send_monero_preserves: "preserves (\<lambda>st. I (ps_db st)) (send_monero W a i to)"
  unfolding send_monero_def
  by (intro preserves_rules allI) (auto simp: preserves_def split: outcome.splits)

lemmas pay_rules = preserves_rules db_preserves [of invoices_inv] on_db_preserves [of invoices_inv]
  send_monero_preserves [of invoices_inv] invoice_op_preserves
  keeps_status_update [THEN keeps_invoices_inv] keeps_local_subscription [THEN keeps_invoices_inv]
  keeps_create_notification [THEN keepsI, THEN keeps_invoices_inv]
  keeps_send_activity [THEN keepsI, THEN keeps_invoices_inv]

lemma expire_or_wait_preserves: "preserves pay_inv (expire_or_wait W c i wl)"
  unfolding expire_or_wait_def by (intro pay_rules allI)

lemma receive_transfer_preserves: "preserves pay_inv (receive_transfer X B wl t)"
  unfolding receive_transfer_def by (intro pay_rules allI)

lemma check_open_invoices_preserves: "preserves pay_inv (check_open_invoices X B W c)"
  unfolding check_open_invoices_def
  by (intro pay_rules allI expire_or_wait_preserves receive_transfer_preserves)

lemma forward_payment_preserves: "preserves pay_inv (forward_payment X W i idx)"
  unfolding forward_payment_def
  by (intro pay_rules allI) (auto intro!: pay_rules split: option.splits monero_error.splits prod.splits)

lemma check_paid_invoice_preserves: "preserves pay_inv (check_paid_invoice X W c i)"
  unfolding check_paid_invoice_def
  by (intro pay_rules allI)
    (auto intro!: pay_rules forward_payment_preserves simp: Let_def split: option.splits outcome.splits monero_error.splits)

lemma monero_subscription_preserves: "preserves pay_inv (create_or_update_monero_subscription X B i)"
  unfolding create_or_update_monero_subscription_def
  by (intro pay_rules allI) (auto intro!: pay_rules simp: create_subscriber_payment_notification_def split: option.splits)

lemma check_forwarded_invoice_preserves: "preserves pay_inv (check_forwarded_invoice X B W c i)"
  unfolding check_forwarded_invoice_def
  by (auto intro!: pay_rules monero_subscription_preserves split: option.splits outcome.splits monero_error.splits)

lemma check_monero_invoices_preserves: "preserves pay_inv (check_monero_invoices X B W c)"
  unfolding check_monero_invoices_def check_paid_invoices_def check_forwarded_invoices_def
  by (intro pay_rules allI check_open_invoices_preserves check_paid_invoice_preserves
      check_forwarded_invoice_preserves)

lemma check_closed_monero_invoices_preserves: "preserves pay_inv (check_closed_monero_invoices W c)"
  unfolding check_closed_monero_invoices_def
  by (intro pay_rules allI) (auto intro!: pay_rules split: prod.splits database_error.splits)

lemma check_light_open_invoice_preserves: "preserves pay_inv (check_light_open_invoice X B W L i)"
  unfolding check_light_open_invoice_def
  by (intro pay_rules allI) (auto intro!: pay_rules split: option.splits)

lemma check_light_paid_invoice_preserves: "preserves pay_inv (check_light_paid_invoice X B W L c i)"
  unfolding check_light_paid_invoice_def
  by (auto intro!: pay_rules monero_subscription_preserves split: option.splits prod.splits)

lemma check_monero_light_invoices_preserves: "preserves pay_inv (check_monero_light_invoices X B W L c)"
  unfolding check_monero_light_invoices_def check_monero_light_open_invoices_def
    check_monero_light_paid_invoices_def
  by (intro pay_rules allI check_light_open_invoice_preserves check_light_paid_invoice_preserves)

lemma detect_anonymous_payment_preserves:
  "is_monero (pm_chain_id m) \<Longrightarrow> preserves pay_inv (detect_anonymous_payment B W L u m a k d)"
  unfolding detect_anonymous_payment_def
  by (intro pay_rules allI) (auto intro!: pay_rules split: list.splits)

lemma check_light_payment_preserves:
  "is_monero (pm_chain_id m) \<Longrightarrow> preserves pay_inv (check_light_payment B W L c u m)"
  unfolding check_light_payment_def
  by (intro pay_rules allI)
    (auto intro!: pay_rules detect_anonymous_payment_preserves split: database_error.splits)

lemma check_open_remote_invoices_preserves: "preserves invoices_inv check_open_remote_invoices"
  unfolding check_open_remote_invoices_def by (intro preserves_rules allI set_invoice_status_preserves)

lemma reopen_local_invoice_preserves: "preserves pay_inv (reopen_local_invoice W c i)"
  unfolding reopen_local_invoice_def by (intro pay_rules allI)

lemma check_monero_light_payments_preserves:
  assumes "is_monero (mlc_chain_id c)"
  shows "preserves pay_inv (check_monero_light_payments B W L c)"
proof -
  have "preserves pay_inv (bnd (db (get_payment_methods MoneroLight (mlc_chain_id c)))
      (\<lambda>methods. for_each methods (check_light_payment B W L c u)))" for u
  proof (rule preservesI)
    fix st assume inv: "pay_inv st"
    let ?ms = "filter (\<lambda>m. pm_payment_type m = MoneroLight \<and> pm_chain_id m = mlc_chain_id c)
        (payment_methods (ps_db st))"
    have "preserves pay_inv (for_each ?ms (check_light_payment B W L c u))"
      using assms by (intro preserves_for_each check_light_payment_preserves) auto
    with inv show "pay_inv (snd (bnd (db (get_payment_methods MoneroLight (mlc_chain_id c)))
        (\<lambda>methods. for_each methods (check_light_payment B W L c u)) st))"
      by (auto simp: bnd_def db_def on_db_def map_err_p_def get_payment_methods_def gets_def dest: preserves_snd)
  qed
  then show ?thesis unfolding check_monero_light_payments_def
    by (intro pay_rules allI) (auto intro!: preserves_rules split: option.splits)
qed

section \<open>Money leaves the wallet only for a paid invoice\<close>

text \<open>A sweep is justified by a paid invoice: it empties the invoice's subaddress, whose whole
  balance is positive, unlocked and confirmed, into the payout address of the recipient.\<close>

definition justified :: "wallet_rpc \<Rightarrow> monero_config \<Rightarrow> payment_method list \<Rightarrow> invoice \<Rightarrow> sweep \<Rightarrow> bool" where
  "justified W c methods i sw \<longleftrightarrow>
     (\<exists>address idx bal t m.
        inv_payment_address i = Some address
        \<and> get_subaddress_index W (mc_account_index c) address = Ok idx
        \<and> sw_account sw = ai_major idx \<and> sw_address sw = ai_minor idx
        \<and> get_subaddress_balance W idx = Ok bal
        \<and> 0 < sb_balance bal \<and> sb_balance bal = sb_unlocked_balance bal
        \<and> get_latest_incoming_transfer W idx = Ok (Some t)
        \<and> mc_tx_required_confirmations c \<le> (case gt_confirmations t of Some n \<Rightarrow> n | None \<Rightarrow> 0)
        \<and> m \<in> set methods \<and> pm_owner_id m = inv_recipient_id i \<and> pm_payment_type m = Monero
        \<and> pm_chain_id m = inv_chain_id i \<and> sw_to sw = pm_payout_address m)"

lemma db_run: "db m st = (map_err PeDatabase (fst (m (ps_db st))), st\<lparr>ps_db := snd (m (ps_db st))\<rparr>)"
  by (simp add: db_def on_db_def map_err_p_def split: prod.splits)

lemma map_err_Err: "map_err g r = Err e \<longleftrightarrow> (\<exists>e'. r = Err e' \<and> e = g e')"
  by (cases r) auto

lemma send_monero_sweeps:
  assumes "send_monero W a i to st = (r, st')"
  shows "ps_db st' = ps_db st" and
    "ps_sweeps st' = ps_sweeps st \<and> \<not> is_ok r
     \<or> ps_sweeps st' = ps_sweeps st @ [\<lparr>sw_account = a, sw_address = i, sw_to = to\<rparr>] \<and> r \<noteq> Err Dust"
  using assms unfolding send_monero_def
  by (auto simp: prog_defs map_err_Err split: outcome.splits if_splits elim!: get_single_item.elims)

lemma get_user_by_id_Ok: "get_user_by_id X uid s = (Ok u, t) \<Longrightarrow> t = s \<and> user_id u = uid"
proof -
  assume run: "get_user_by_id X uid s = (Ok u, t)"
  let ?rows = "[(u, p). u \<leftarrow> user_accounts s, p \<leftarrow> actor_profiles s, u_id u = p_id p \<and> u_id u = uid]"
  from run obtain a p where rows: "?rows = [(a, p)]" and new: "user_new X a p = Ok u" and t: "t = s"
    by (auto simp: get_user_by_id_def ok_runs split: prod.splits)
  from rows have "(a, p) \<in> set ?rows" by (simp only: list.set_intros)
  then have "u_id a = uid" by (auto split: if_splits)
  with new t show ?thesis by (auto simp: user_new_def obind_Ok split: if_splits)
qed

lemma get_payment_method_Ok:
  "get_payment_method_by_type_and_chain_id uid ty c s = (Ok (Some m), t) \<Longrightarrow>
   t = s \<and> m \<in> set (payment_methods s) \<and> pm_owner_id m = uid \<and> pm_chain_id m = c \<and> pm_payment_type m = ty"
  by (auto simp: get_payment_method_by_type_and_chain_id_def get_payment_method_by_chain_id_def ok_runs
      is_method_def split: option.splits if_splits dest!: filter_eq_ConsD)

text \<open>What one paid invoice can do to the state: nothing beyond its own row, and at most one
  sweep, which a successful run also records.\<close>

definition rows_of :: "uuid \<Rightarrow> payments_state \<Rightarrow> invoice list" where
  "rows_of iid st = filter (\<lambda>j. inv_id j = iid) (invoices (ps_db st))"

definition forwarded_in :: "payments_state \<Rightarrow> uuid \<Rightarrow> bool" where
  "forwarded_in st iid \<longleftrightarrow> (\<exists>j. rows_of iid st = [j] \<and> inv_status j = Forwarded \<and> inv_payout_tx_id j \<noteq> None)"

definition own_step ::
  "(sweep \<Rightarrow> bool) \<Rightarrow> uuid \<Rightarrow> payments_state \<Rightarrow> ('e, 'a) outcome \<Rightarrow> payments_state \<Rightarrow> bool" where
  "own_step P iid st r st' \<longleftrightarrow>
     payment_methods (ps_db st') = payment_methods (ps_db st)
     \<and> (\<forall>k. k \<noteq> iid \<longrightarrow> rows_of k st' = rows_of k st)
     \<and> (ps_sweeps st' = ps_sweeps st
        \<or> (\<exists>sw. ps_sweeps st' = ps_sweeps st @ [sw] \<and> P sw \<and> (is_ok r \<longrightarrow> forwarded_in st' iid)))"

lemma own_step_same: "own_step P iid st r st"
  by (simp add: own_step_def)

lemma atomic_or_changed:
  assumes "atomic op" and "\<And>s i t. op s = (Ok i, t) \<Longrightarrow> \<exists>g st. changed_by g iid st s i t \<and> prepares g st"
    and "op s = (r, t)"
  shows "payment_methods t = payment_methods s \<and> (\<forall>k. k \<noteq> iid \<longrightarrow>
    filter (\<lambda>j. inv_id j = k) (invoices t) = filter (\<lambda>j. inv_id j = k) (invoices s))"
proof (cases "is_ok r")
  case True
  then obtain i where "r = Ok i" by (cases r) auto
  with assms(2,3) obtain g st where "changed_by g iid st s i t" and g: "prepares g st" by blast
  then have t: "t = s\<lparr>invoices := update_where (\<lambda>i. inv_id i = iid) (\<lambda>i. with_status s st (g i)) (invoices s)\<rparr>"
    by (auto simp: changed_by_def)
  from g have "inv_id (with_status s st (g i)) = inv_id i" for i by (simp add: prepares_def with_status_def)
  then show ?thesis by (auto simp: t intro: filter_update_other)
next
  case False
  then obtain q where "t = s\<lparr>seqs := q\<rparr>" using atomicD [OF assms(1,3)] by blast
  then show ?thesis by simp
qed

lemma own_step_change:
  assumes "atomic op" and "\<And>s i t. op s = (Ok i, t) \<Longrightarrow> \<exists>g st. changed_by g iid st s i t \<and> prepares g st"
    and "db op st = (r, st')"
  shows "own_step P iid st r' st'"
  using atomic_or_changed [OF assms(1,2) prod.collapse [symmetric], of "ps_db st"] assms(3)
  by (auto simp: db_run own_step_def rows_of_def)

lemma forward_records:
  assumes "db (local_invoice_forwarded iid tx) st = (r, st')" and "is_ok r"
  shows "forwarded_in st' iid"
proof -
  from assms obtain i where "local_invoice_forwarded iid tx (ps_db st) = (Ok i, ps_db st')"
    by (cases "local_invoice_forwarded iid tx (ps_db st)"; cases "fst (local_invoice_forwarded iid tx (ps_db st))")
      (auto simp: db_run)
  then have "changed_by (put_tx (Some tx)) iid Forwarded (ps_db st) i (ps_db st')"
    by (rule local_invoice_forwarded_Ok)
  then obtain i0 where "filter (\<lambda>i. inv_id i = iid) (invoices (ps_db st)) = [i0]"
    and "ps_db st' = (ps_db st)\<lparr>invoices := update_where (\<lambda>i. inv_id i = iid)
      (\<lambda>i. with_status (ps_db st) Forwarded (put_tx (Some tx) i)) (invoices (ps_db st))\<rparr>"
    by (auto simp: changed_by_def)
  then show ?thesis
    by (simp add: forwarded_in_def rows_of_def filter_update_same with_status_def put_tx_def)
qed

lemma own_step_status: "db (set_invoice_status iid st0) st = (r, st') \<Longrightarrow> own_step P iid st r' st'"
  by (rule own_step_change [OF status_changes_atomic(1)]) (auto simp: set_invoice_status_Ok intro: prepares_puts)

lemma own_step_forwarded:
  "db (local_invoice_forwarded iid tx) st = (r, st') \<Longrightarrow> own_step P iid st r' st'"
  by (rule own_step_change [OF status_changes_atomic(2)])
    (auto dest: local_invoice_forwarded_Ok intro: prepares_puts)

lemma bndE:
  assumes "bnd m f s = (r, t)"
  obtains (good) a u where "m s = (Ok a, u)" "f a u = (r, t)"
  | (bad) e where "m s = (Err e, t)" "r = Err e"
  | (stuck) q where "m s = (Panic q, t)" "r = Panic q"
  using assms by (auto simp: bnd_def split: prod.splits outcome.splits)

lemma seqE:
  assumes "seq m n s = (r, t)"
  obtains (good) a u where "m s = (Ok a, u)" "n u = (r, t)"
  | (bad) e where "m s = (Err e, t)" "r = Err e"
  | (stuck) q where "m s = (Panic q, t)" "r = Panic q"
  using assms unfolding seq_def by (rule bndE)

lemma match_resultE:
  assumes "match_result m ok er s = (r, t)"
  obtains (good) a u where "m s = (Ok a, u)" "ok a u = (r, t)"
  | (bad) e u where "m s = (Err e, u)" "er e u = (r, t)"
  | (stuck) q where "m s = (Panic q, t)" "r = Panic q"
  using assms by (auto simp: match_result_def split: prod.splits outcome.splits)

lemma db_lookup:
  assumes "\<And>v. preserves (\<lambda>s. s = v) m" and "db m st = (r, st')"
  shows "st' = st" and "\<And>a. r = Ok a \<Longrightarrow> m (ps_db st) = (Ok a, ps_db st)"
proof -
  have "snd (m (ps_db st)) = ps_db st" using assms(1) [of "ps_db st"] by (simp add: preserves_def)
  with assms(2) show "st' = st" "\<And>a. r = Ok a \<Longrightarrow> m (ps_db st) = (Ok a, ps_db st)"
    by (auto simp: db_run map_err_Ok) (metis prod.collapse)
qed

lemma forward_payment_own_step:
  assumes "forward_payment X W i idx st = (r, st')"
    and P: "\<And>m. m \<in> set (payment_methods (ps_db st)) \<Longrightarrow> pm_owner_id m = inv_recipient_id i \<Longrightarrow>
      pm_payment_type m = Monero \<Longrightarrow> pm_chain_id m = inv_chain_id i \<Longrightarrow>
      P \<lparr>sw_account = ai_major idx, sw_address = ai_minor idx, sw_to = pm_payout_address m\<rparr>"
  shows "own_step P (inv_id i) st r st'"
proof -
  have "own_step P (inv_id i) st r st'"
    if m: "m \<in> set (payment_methods (ps_db st))" "pm_owner_id m = inv_recipient_id i"
        "pm_payment_type m = Monero" "pm_chain_id m = inv_chain_id i"
      and run: "match_result (send_monero W (ai_major idx) (ai_minor idx) (pm_payout_address m))
           (\<lambda>(payout_tx_id, _). seq (db (local_invoice_forwarded (inv_id i) payout_tx_id)) (ret ()))
           (\<lambda>e. case e of
                Dust \<Rightarrow> seq (db (set_invoice_status (inv_id i) Underpaid)) (ret ())
              | other \<Rightarrow> throw (PeMonero other)) st = (r, st')" for m
    using run
  proof (cases rule: match_resultE)
    case (good a u)
    note sw = send_monero_sweeps [OF good(1)]
    from good(2) obtain r1 where fwd: "db (local_invoice_forwarded (inv_id i) (fst a)) u = (r1, st')"
      and ok: "is_ok r \<Longrightarrow> is_ok r1"
      by (auto elim!: seqE simp: ret_def split: prod.splits)
    from own_step_forwarded [OF fwd, where P = "\<lambda>_. False" and r' = r] sw P [OF m] forward_records [OF fwd] ok
    show ?thesis by (auto simp: own_step_def rows_of_def db_run)
  next
    case (bad e u)
    note sw = send_monero_sweeps [OF bad(1)]
    show ?thesis
    proof (cases "e = Dust")
      case True
      with bad(2) obtain r1 where und: "db (set_invoice_status (inv_id i) Underpaid) u = (r1, st')"
        by (auto elim!: seqE simp: ret_def)
      from own_step_status [OF und, where P = "\<lambda>_. False" and r' = r] sw True
      show ?thesis by (auto simp: own_step_def rows_of_def)
    next
      case False
      with bad(2) have "st' = u" "\<not> is_ok r" by (auto simp: throw_def split: monero_error.splits)
      with sw P [OF m] show ?thesis by (auto simp: own_step_def rows_of_def)
    qed
  next
    case (stuck q)
    with send_monero_sweeps [OF stuck(1)] P [OF m] show ?thesis by (auto simp: own_step_def rows_of_def)
  qed
  note sent = this
  from assms(1) show ?thesis unfolding forward_payment_def
  proof (cases rule: bndE)
    case (good u v)
    note user = db_lookup [OF preserves_lookups(2) good(1)]
    have uid: "user_id u = inv_recipient_id i" using get_user_by_id_Ok [OF user(2) [OF refl]] by simp
    from good(2) show ?thesis
    proof (cases rule: bndE)
      case (good m w)
      note lookup = db_lookup [OF preserves_lookups(4) good(1)]
      show ?thesis
      proof (cases m)
        case None
        with good(2) lookup(1) user(1) show ?thesis by (simp add: ret_def own_step_same)
      next
        case (Some m')
        with lookup(2) [of "Some m'"] user(1) uid
        have "m' \<in> set (payment_methods (ps_db st))" "pm_owner_id m' = inv_recipient_id i"
          "pm_payment_type m' = Monero" "pm_chain_id m' = inv_chain_id i"
          by (auto dest: get_payment_method_Ok)
        from sent [OF this] good(2) Some lookup(1) user(1) show ?thesis by simp
      qed
    qed (use db_lookup(1) [OF preserves_lookups(4)] user(1) own_step_same in blast)+
  qed (use db_lookup(1) [OF preserves_lookups(2)] own_step_same in blast)+
qed

lemma check_paid_invoice_own_step:
  assumes "check_paid_invoice X W c i st = (r, st')"
  shows "own_step (justified W c (payment_methods (ps_db st)) i) (inv_id i) st r st'"
  using assms unfolding check_paid_invoice_def
proof (cases rule: bndE)
  case (good address u)
  then have u: "u = st" and address: "inv_payment_address i = Some address"
    by (auto simp: lift_def invoice_payment_address_def try_payment_address_def map_err_Ok ok_or_Ok
        split: invoice_status.splits)
  show ?thesis
  proof (cases "get_subaddress_index W (mc_account_index c) address")
    case (Err e)
    with good(2) u have "st' = st" by (auto simp: ret_def throw_def split: monero_error.splits)
    then show ?thesis by (simp add: own_step_same)
  next
    case (Panic q)
    with good(2) u show ?thesis by (simp add: panic_def own_step_same)
  next
    case (Ok idx)
    note run = good(2) [unfolded u Ok outcome.case]
    show ?thesis
    proof (cases "st' = st")
      case False
      with run obtain bal t where
        bal: "get_subaddress_balance W idx = outcome.Ok bal" "0 < sb_balance bal"
          "sb_balance bal = sb_unlocked_balance bal" and
        t: "get_latest_incoming_transfer W idx = outcome.Ok (Some t)"
          "mc_tx_required_confirmations c \<le> (case gt_confirmations t of Some n \<Rightarrow> n | None \<Rightarrow> 0)" and
        fwd: "forward_payment X W i idx st = (r, st')"
        by (auto elim!: bndE simp: wallet_def lift_def ret_def map_err_Ok Let_def
            split: option.splits if_splits)
      show ?thesis
        by (rule forward_payment_own_step [OF fwd]) (use address Ok bal t in \<open>auto simp: justified_def\<close>)
    qed (simp add: own_step_same)
  qed
qed (auto simp: lift_def own_step_same)

text \<open>Over the whole pass: the new sweeps belong, in order, to some of the invoices, each at most
  once; when the pass succeeds each of those invoices is recorded as forwarded.\<close>

lemma forwarded_in_rows: "rows_of iid st' = rows_of iid st \<Longrightarrow> forwarded_in st' iid = forwarded_in st iid"
  by (simp add: forwarded_in_def)

lemma for_each_sweeps:
  assumes "for_each is (check_paid_invoice X W c) st = (r, st')" and "distinct (map inv_id is)"
  shows "(\<exists>swept new. subseq swept is \<and> ps_sweeps st' = ps_sweeps st @ new
       \<and> list_all2 (justified W c (payment_methods (ps_db st))) swept new
       \<and> (is_ok r \<longrightarrow> (\<forall>i \<in> set swept. forwarded_in st' (inv_id i))))
     \<and> (\<forall>k. k \<notin> inv_id ` set is \<longrightarrow> rows_of k st' = rows_of k st)"
  using assms
proof (induction "is" arbitrary: st)
  case Nil
  then show ?case by (auto simp: ret_def)
next
  case (Cons i js)
  from Cons.prems(1) obtain r1 st1 where first: "check_paid_invoice X W c i st = (r1, st1)"
    and rest: "is_ok r1 \<and> for_each js (check_paid_invoice X W c) st1 = (r, st') \<or> \<not> is_ok r1 \<and> st' = st1 \<and> \<not> is_ok r"
    by (auto elim!: seqE)
  note one = check_paid_invoice_own_step [OF first, unfolded own_step_def]
  from rest show ?case
  proof
    assume "\<not> is_ok r1 \<and> st' = st1 \<and> \<not> is_ok r"
    with one show ?thesis by (auto intro: exI [of _ "[]"] exI [of _ "[i]"])
  next
    assume more: "is_ok r1 \<and> for_each js (check_paid_invoice X W c) st1 = (r, st')"
    with Cons.IH [of st1] Cons.prems(2) obtain swept new where
      IH: "subseq swept js" "ps_sweeps st' = ps_sweeps st1 @ new"
        "list_all2 (justified W c (payment_methods (ps_db st1))) swept new"
        "is_ok r \<longrightarrow> (\<forall>i \<in> set swept. forwarded_in st' (inv_id i))" and
      keep: "\<And>k. k \<notin> inv_id ` set js \<Longrightarrow> rows_of k st' = rows_of k st1"
      by auto
    have keep': "rows_of k st' = rows_of k st" if "k \<notin> inv_id ` set (i # js)" for k
      using keep one that by auto
    have own: "rows_of (inv_id i) st' = rows_of (inv_id i) st1" using keep Cons.prems(2) by auto
    from one more consider (quiet) "ps_sweeps st1 = ps_sweeps st"
      | (sent) sw where "ps_sweeps st1 = ps_sweeps st @ [sw]"
          "justified W c (payment_methods (ps_db st)) i sw" "forwarded_in st1 (inv_id i)"
      by auto
    then show ?thesis
    proof cases
      case quiet
      with IH one keep' show ?thesis by (intro conjI exI [of _ swept] exI [of _ new]) auto
    next
      case sent
      with IH one keep' forwarded_in_rows [OF own] show ?thesis
        by (intro conjI exI [of _ "i # swept"] exI [of _ "sw # new"]) auto
    qed
  qed
qed

section \<open>Expired subscriptions\<close>

definition sub_frame :: "database \<Rightarrow> subscription list \<times> relationship list \<times> datetime" where
  "sub_frame s = (subscriptions s, relationships s, current_timestamp s)"

lemma sub_frame_notification: "preserves (\<lambda>s. sub_frame s = v) (create_notification a b p r i ev)"
proof (rule preservesI)
  fix s :: database assume "sub_frame s = v"
  moreover obtain q n where "snd (create_notification a b p r i ev s) = s\<lparr>seqs := q, notifications := n\<rparr>"
    using create_notification_state by blast
  ultimately show "sub_frame (snd (create_notification a b p r i ev s)) = v" by (simp add: sub_frame_def)
qed

lemma sub_frame_send_activity: "preserves (\<lambda>s. sub_frame s = v) (send_activity B d)"
  unfolding send_activity_def save_and_enqueue_def outgoing_save_activity_def outgoing_enqueue_def
    outgoing_into_job_def
  by (intro preserves_rules allI)
    (auto simp: preserves_def save_activity_def enqueue_job_def run_def prog_defs sub_frame_def)

lemma unsubscribe_effect:
  assumes "unsubscribe X a b s = (Ok u, t)"
  shows "subscriptions t = subscriptions s" "current_timestamp t = current_timestamp s"
    "relationships t = delete_where (is_rel a b RelSubscription) (relationships s)"
  using assms
  by (auto simp: unsubscribe_def ok_runs update_counts_defs update_profile_counter_Ok split: if_splits)

lemma expire_subscription_effect:
  assumes "expire_subscription X B x s = (Ok u, t)"
  shows "subscriptions t = subscriptions s \<and> current_timestamp t = current_timestamp s \<and>
    relationships t = delete_where (is_rel (sub_sender_id x) (sub_recipient_id x) RelSubscription) (relationships s)"
proof -
  let ?rest = "bnd (get_profile_by_id X (sub_sender_id x)) (\<lambda>sender.
      bnd (get_user_by_id X (sub_recipient_id x)) (\<lambda>recipient.
      seq (case p_actor_json sender of
             Some remote_sender \<Rightarrow> send_activity B (prepare_remove_subscriber B remote_sender recipient)
           | None \<Rightarrow> create_subscription_expiration_notification (sub_recipient_id x) (sub_sender_id x))
      (if is_anonymous sender then ret ()
       else create_subscriber_leaving_notification (p_id sender) (user_id recipient))))"
  from assms obtain w v where un: "unsubscribe X (sub_sender_id x) (sub_recipient_id x) s = (Ok w, v)"
    and rest: "?rest v = (Ok u, t)"
    unfolding expire_subscription_def seq_Ok by blast
  have "preserves (\<lambda>s. sub_frame s = f) ?rest" for f
    by (intro preserves_rules allI)
      (auto intro!: preserves_rules sub_frame_notification sub_frame_send_activity
        simp: create_subscription_expiration_notification_def create_subscriber_leaving_notification_def
        split: option.splits)
  then have "sub_frame t = sub_frame v" using rest by (blast dest: preservesD)
  with unsubscribe_effect [OF un] show ?thesis by (simp add: sub_frame_def)
qed

lemma expire_all_effect:
  assumes "for_each xs (expire_subscription X B) s = (Ok u, t)"
  shows "subscriptions t = subscriptions s \<and> current_timestamp t = current_timestamp s
    \<and> set (relationships t) = {r \<in> set (relationships s).
        \<forall>x \<in> set xs. \<not> is_rel (sub_sender_id x) (sub_recipient_id x) RelSubscription r}"
  using assms
proof (induction xs arbitrary: s)
  case Nil
  then show ?case by (simp add: ret_Ok)
next
  case (Cons x xs)
  from Cons.prems obtain w v where first: "expire_subscription X B x s = (Ok w, v)"
    and rest: "for_each xs (expire_subscription X B) v = (Ok u, t)" by (auto simp: seq_Ok)
  from Cons.IH [OF rest] expire_subscription_effect [OF first] show ?case by auto
qed

lemma update_expired_subscriptions_effect:
  assumes "update_expired_subscriptions X B s = (Ok u, t)"
  shows "expired_subscriptions t = []"
proof -
  from assms have run: "for_each (expired_subscriptions s) (expire_subscription X B) s = (Ok u, t)"
    by (auto simp: update_expired_subscriptions_def get_expired_subscriptions_def bnd_Ok gets_Ok)
  note eff = expire_all_effect [OF run]
  have "\<not> (is_rel (sub_sender_id x) (sub_recipient_id x) RelSubscription r \<and> sub_expires_at x \<le> current_timestamp t)"
    if "x \<in> set (subscriptions t)" "r \<in> set (relationships t)" for x r
  proof
    assume both: "is_rel (sub_sender_id x) (sub_recipient_id x) RelSubscription r \<and> sub_expires_at x \<le> current_timestamp t"
    with that eff have "x \<in> set (expired_subscriptions s)"
      by (force simp: expired_subscriptions_def)
    with that eff both show False by auto
  qed
  then show ?thesis by (auto simp: expired_subscriptions_def)
qed

text \<open>The account that stands for anonymous payers is no user, so the expiry of its subscription
  stops at the notification it cannot receive.\<close>

lemma expire_anonymous_subscription_fails:
  assumes "unsubscribe X a b s = (Ok w, t)" and "get_profile_by_id X a t = (Ok sender, t)"
    and "get_user_by_id X b t = (Ok recipient, t)" and "p_actor_json sender = None"
    and "\<not> list_ex (\<lambda>u. u_id u = a) (user_accounts t)" and "sub_sender_id x = a" "sub_recipient_id x = b"
  shows "fst (expire_subscription X B x s) = Err (ClientError ForeignKeyViolation)"
  using assms
  by (simp add: expire_subscription_def seq_def bnd_def create_subscription_expiration_notification_def
      create_notification_def Let_def)

section \<open>Sequences of passes\<close>

lemma get_payment_address_preserves:
  assumes "is_monero (mc_chain_id c)"
  shows "preserves pay_inv (get_payment_address X B W c a b)"
proof -
  have create: "preserves pay_inv (bnd (match_result (on_db (get_local_invoice_by_participants a b (pm_payment_type m) (pm_chain_id m))) ret
       (\<lambda>e. case e of
            NotFound _ \<Rightarrow>
              bnd (wallet (create_monero_address W c)) (\<lambda>address.
              bnd (gets (\<lambda>st. fresh_id B (ps_db st))) (\<lambda>ulid.
              db (create_local_invoice ulid a b (pm_payment_type m) (pm_chain_id m) (ad_text address) 0)))
          | other \<Rightarrow> throw (PeDatabase other))) (\<lambda>i. lift (map_err PeDatabase (invoice_payment_address i))))"
    if "pm_chain_id m = mc_chain_id c" for m
    using assms that by (intro pay_rules allI) (auto intro!: pay_rules split: database_error.splits)
  have chain: "pm_chain_id m' = mc_chain_id c"
    if "db (get_payment_method_by_type_and_chain_id b Monero (mc_chain_id c)) st = (Ok m, st1)"
      "wallet (ok_or e m) st2 = (Ok m', st3)" for m m' e st st1 st2 st3
    using that db_lookup(2) [OF preserves_lookups(4) that(1)]
    by (auto simp: wallet_def ok_runs dest: get_payment_method_Ok)
  show ?thesis
    unfolding get_payment_address_def
    by (rule preserves_bnd, intro pay_rules, rule preserves_bnd, intro pay_rules, rule preserves_if,
        intro pay_rules, rule preserves_bnd_result, intro pay_rules, rule preserves_bnd_result, intro pay_rules,
        rule create, erule (1) chain)
qed

text \<open>One rule per entry point of the payment code, whatever it returns; the configured chain of a
  pass is a Monero chain. The last rule is any other step on the invoices.\<close>

inductive payment_step :: "payments_state \<Rightarrow> payments_state \<Rightarrow> bool" where
  server_pass: "payment_step st (snd (check_monero_invoices X B W c st))"
| closed_pass: "payment_step st (snd (check_closed_monero_invoices W c st))"
| light_pass: "payment_step st (snd (check_monero_light_invoices X B W L lc st))"
| light_payments: "is_monero (mlc_chain_id lc) \<Longrightarrow> payment_step st (snd (check_monero_light_payments B W L lc st))"
| reopen: "payment_step st (snd (reopen_local_invoice W c i st))"
| payment_address: "is_monero (mc_chain_id c) \<Longrightarrow> payment_step st (snd (get_payment_address X B W c a b st))"
| remote_pass: "payment_step st (st\<lparr>ps_db := snd (check_open_remote_invoices (ps_db st))\<rparr>)"
| expiry_pass: "payment_step st (st\<lparr>ps_db := snd (update_expired_subscriptions X B (ps_db st))\<rparr>)"
| other_step: "invoice_step (ps_db st) s \<Longrightarrow> payment_step st (st\<lparr>ps_db := s\<rparr>)"

lemma keeps_delete_relationship: "preserves (\<lambda>s. invoices s = v) (delete_relationship a b ty)"
  by (auto simp: preserves_def delete_relationship_def prog_defs)

lemma keeps_unsubscribe: "preserves (\<lambda>s. invoices s = v) (unsubscribe X a b)"
  unfolding unsubscribe_def update_subscriber_count_def
  by (intro preserves_transaction)
    (auto intro!: preserves_rules keeps_profile_counter keeps_delete_relationship)

lemma keeps_expired_subscriptions: "keeps_invoices (update_expired_subscriptions X B)"
  unfolding update_expired_subscriptions_def expire_subscription_def
  by (intro keepsI preserves_rules allI keeps_unsubscribe)
    (auto intro!: preserves_rules keeps_create_notification keeps_send_activity
      simp: create_subscription_expiration_notification_def create_subscriber_leaving_notification_def
      split: option.splits)

lemmas pass_preserves = check_monero_invoices_preserves check_closed_monero_invoices_preserves
  check_monero_light_invoices_preserves check_monero_light_payments_preserves
  reopen_local_invoice_preserves get_payment_address_preserves

lemma payment_step_preserves: "payment_step st st' \<Longrightarrow> pay_inv st \<Longrightarrow> pay_inv st'"
proof (induction rule: payment_step.induct)
  case (remote_pass st)
  then show ?case using preserves_snd [OF check_open_remote_invoices_preserves] by simp
next
  case (expiry_pass st X B)
  then show ?case using preserves_snd [OF keeps_invoices_inv [OF keeps_expired_subscriptions]] by simp
next
  case (other_step st s)
  then show ?case by (simp add: invoice_step_preserves)
qed (auto intro!: preserves_snd [of pay_inv] pass_preserves)

lemma payment_steps_preserve: "payment_step\<^sup>*\<^sup>* st st' \<Longrightarrow> pay_inv st \<Longrightarrow> pay_inv st'"
  by (induction rule: rtranclp_induct) (auto intro: payment_step_preserves)

section \<open>Legacy invoices\<close>

lemma legacy_forwarded_fails:
  assumes "filter (\<lambda>j. inv_id j = inv_id i) (invoices (ps_db st)) = [i]" and "inv_status i = Forwarded"
    and "inv_object_id i = None" and "inv_payment_type i = Some Monero"
    and "inv_payout_tx_id i = None" and "inv_payout_amount i = None"
  shows "check_forwarded_invoice X B W c i st = (Err (PeDatabase TypeError), st)"
proof -
  have "can_change_status i Completed = Ok False"
    using assms by (simp add: can_change_status_def invoice_is_local_def monero_transitions_def)
  then have "set_invoice_status (inv_id i) Completed (ps_db st) = (Err TypeError, ps_db st)"
    by (rule set_invoice_status_refused [OF assms(1)])
  with assms(5) show ?thesis
    by (simp add: check_forwarded_invoice_def seq_def bnd_def db_def on_db_def map_err_p_def)
qed

end
