(* ===== verification/QueueProperties.thy ===== *)
theory QueueProperties
  imports Queues
begin

text \<open>
  What the queues guarantee: job data survives its JSON form, recipients are de-duplicated by
  inbox without losing a primary one, and an incoming job is retried a bounded number of times
  and never lost while it may be retried.
\<close>

section \<open>JSON round trips\<close>

lemma those_map_Some: "(\<And>x. x \<in> set xs \<Longrightarrow> f (g x) = Some x) \<Longrightarrow> those (map f (map g xs)) = Some xs"
  by (induction xs) auto

lemma recipient_json_roundtrip [simp]: "recipient_from_json (recipient_to_json r) = Some r"
  by (simp add: recipient_from_json_def recipient_to_json_def json_default_bool_def)

lemma incoming_value_roundtrip:
  "ij_failure_count d < 2 ^ 32 \<Longrightarrow> incoming_from_value (incoming_to_value d) = Some d"
  by (simp add: incoming_from_value_def incoming_to_value_def)

lemma outgoing_value_roundtrip:
  "oj_failure_count d < 2 ^ 32 \<Longrightarrow> sender_parses (oj_sender d) \<Longrightarrow>
   outgoing_from_value sender_parses (outgoing_to_value d) = Some d"
  by (simp add: outgoing_from_value_def outgoing_to_value_def those_map_Some del: map_map)

section \<open>Recipients\<close>

lemma set_dedup_by_key: "set (dedup_by_key k xs) \<subseteq> set xs"
  by (induction k xs rule: dedup_by_key.induct) auto

lemma key_dedup_by_key: "k ` set (dedup_by_key k xs) = k ` set xs"
  by (induction k xs rule: dedup_by_key.induct) auto

lemma dedup_by_key_hd: "xs \<noteq> [] \<Longrightarrow> dedup_by_key k xs \<noteq> [] \<and> hd (dedup_by_key k xs) = hd xs"
  by (induction k xs rule: dedup_by_key.induct) auto

lemma distinct_dedup_by_key: "sorted (map k xs) \<Longrightarrow> distinct (map k (dedup_by_key k xs))"
  for k :: "'a \<Rightarrow> 'k :: linorder"
proof (induction k xs rule: dedup_by_key.induct)
  case (3 k x y xs)
  then show ?case
  proof (cases "k x = k y")
    case False
    with 3 have "k x \<notin> k ` set (y # xs)" by (auto simp: order.antisym)
    then have "k x \<notin> k ` set (dedup_by_key k (y # xs))" by (metis key_dedup_by_key)
    with 3 False show ?thesis by simp
  qed (use 3 in auto)
qed auto

text \<open>Sorted by a refinement of the key, the survivor of a key is least in the refined order.\<close>

lemma dedup_by_key_least:
  fixes k :: "'a \<Rightarrow> 'k :: linorder" and q :: "'a \<Rightarrow> 'q :: linorder"
  assumes "sorted (map (\<lambda>x. (k x, q x)) xs)" and "y \<in> set (dedup_by_key k xs)" and "x \<in> set xs" and "k x = k y"
  shows "q y \<le> q x"
  using assms
proof (induction k xs arbitrary: x rule: dedup_by_key.induct)
  case (3 k x1 x2 xs)
  show ?case
  proof (cases "k x1 = k x2")
    case True
    with 3(3,4) have sub: "sorted (map (\<lambda>x. (k x, q x)) (x1 # xs))" "y \<in> set (dedup_by_key k (x1 # xs))"
      by simp_all
    from 3(3) True have q12: "q x1 \<le> q x2" by (auto simp: less_eq_prod_def)
    note IH = 3(1) [OF True sub]
    show ?thesis
    proof (cases "x = x2")
      case x2: True
      with 3(6) True have "q y \<le> q x1" by (intro IH) auto
      with q12 x2 show ?thesis by simp
    qed (use 3(5,6) IH in auto)
  next
    case False
    then have lt: "k x1 < k z" if "z \<in> set (x2 # xs)" for z
      using 3(3) that by (auto simp: less_eq_prod_def)
    from 3(4) False consider "y = x1" | "y \<in> set (dedup_by_key k (x2 # xs))" by auto
    then show ?thesis
    proof cases
      case 1
      with 3(5,6) lt have "x = x1" by fastforce
      with 1 show ?thesis by simp
    next
      case 2
      then have "y \<in> set (x2 # xs)" using set_dedup_by_key by fast
      with 3(6) lt have "x \<noteq> x1" by fastforce
      with 3 2 False show ?thesis by auto
    qed
  qed
qed auto

lemma set_sort_recipients: "set (sort_recipients rs) \<subseteq> set rs"
  using set_dedup_by_key by (fastforce simp: sort_recipients_def)

lemma sort_recipients_inboxes: "rc_inbox ` set (sort_recipients rs) = rc_inbox ` set rs"
  by (simp add: sort_recipients_def key_dedup_by_key)

lemma sorted_fst: "sorted (map (\<lambda>x. (k x, q x)) xs) \<Longrightarrow> sorted (map k xs)"
  for k :: "'a \<Rightarrow> 'k :: linorder" and q :: "'a \<Rightarrow> 'q :: linorder"
  by (induction xs) (auto simp: less_eq_prod_def)

lemma sort_recipients_distinct: "distinct (map rc_inbox (sort_recipients rs))"
proof -
  let ?sorted = "sort_key (\<lambda>r. (rc_inbox r, \<not> rc_is_primary r)) rs"
  have "sorted (map rc_inbox ?sorted)"
    by (rule sorted_fst [where q = "\<lambda>r. \<not> rc_is_primary r"]) simp
  then have "distinct (map rc_inbox (dedup_by_key rc_inbox ?sorted))" by (rule distinct_dedup_by_key)
  moreover have "mset (map rc_inbox (sort_recipients rs)) = mset (map rc_inbox (dedup_by_key rc_inbox ?sorted))"
    by (simp add: sort_recipients_def)
  ultimately show ?thesis by (metis mset_eq_imp_distinct_iff)
qed

lemma sort_recipients_primary:
  assumes "r \<in> set (sort_recipients rs)" and "r' \<in> set rs" and "rc_inbox r' = rc_inbox r" and "rc_is_primary r'"
  shows "rc_is_primary r"
proof -
  let ?sorted = "sort_key (\<lambda>r. (rc_inbox r, \<not> rc_is_primary r)) rs"
  have "(\<not> rc_is_primary r) \<le> (\<not> rc_is_primary r')"
    by (rule dedup_by_key_least [where k = rc_inbox and xs = ?sorted])
      (use assms in \<open>simp_all add: sort_recipients_def\<close>)
  with assms(4) show ?thesis by simp
qed

section \<open>Incoming jobs\<close>

text \<open>A handler leaves the queue alone: the activity handlers only enqueue jobs, which is a
  change of other rows.\<close>

definition leaves_job :: "handler \<Rightarrow> uuid \<Rightarrow> bool" where
  "leaves_job H jid \<longleftrightarrow> (\<forall>a auth rcp snd_id s.
     filter (\<lambda>j. bj_id j = jid) (background_jobs (snd (H a auth rcp snd_id s)))
       = filter (\<lambda>j. bj_id j = jid) (background_jobs s))"

definition handler_result_of :: "handler \<Rightarrow> incoming_activity_job_data \<Rightarrow> database \<Rightarrow> handler_result" where
  "handler_result_of H d s =
     fst (H (ij_activity d) (ij_is_authenticated d) (ij_recipient_id d) (ij_sender_id d) s)"

definition handler_state_of :: "handler \<Rightarrow> incoming_activity_job_data \<Rightarrow> database \<Rightarrow> database" where
  "handler_state_of H d s =
     snd (H (ij_activity d) (ij_is_authenticated d) (ij_recipient_id d) (ij_sender_id d) s)"

definition retry_job :: "uuid \<Rightarrow> incoming_activity_job_data \<Rightarrow> datetime \<Rightarrow> background_job" where
  "retry_job jid d now = \<lparr>bj_id = jid, bj_job_type = IncomingActivity,
     bj_job_data = incoming_to_value (d\<lparr>ij_failure_count := ij_failure_count d + 1\<rparr>),
     bj_job_status = Queued, bj_scheduled_for = now + seconds 600, bj_updated_at = now\<rparr>"

lemma run_handler_run: "run_handler H d s = (Ok (handler_result_of H d s), handler_state_of H d s)"
  by (simp add: run_handler_def handler_result_of_def handler_state_of_def split: prod.splits)

lemma delete_job_run:
  "jid \<in> bj_id ` set (background_jobs s) \<Longrightarrow> delete_job_from_queue jid s =
     (Ok (), s\<lparr>background_jobs := delete_where (\<lambda>j. bj_id j = jid) (background_jobs s)\<rparr>)"
  using delete_job_from_queue_Ok [of jid s "()"] by blast

lemma enqueue_job_run:
  "jid \<notin> bj_id ` set (background_jobs s) \<Longrightarrow> enqueue_job jid ty data at s =
     (Ok jid, s\<lparr>background_jobs := background_jobs s @ [\<lparr>bj_id = jid, bj_job_type = ty, bj_job_data = data,
       bj_job_status = Queued, bj_scheduled_for = at, bj_updated_at = current_timestamp s\<rparr>]\<rparr>)"
  by (simp add: enqueue_job_Ok)

lemma leaves_job_present:
  assumes "leaves_job H jid" and "jid \<in> bj_id ` set (background_jobs s)"
  shows "jid \<in> bj_id ` set (background_jobs (handler_state_of H d s))"
proof -
  let ?t = "handler_state_of H d s"
  have eq: "filter (\<lambda>j. bj_id j = jid) (background_jobs ?t) = filter (\<lambda>j. bj_id j = jid) (background_jobs s)"
    using assms(1) by (simp add: leaves_job_def handler_state_of_def)
  from assms(2) obtain j where "j \<in> set (filter (\<lambda>j. bj_id j = jid) (background_jobs s))" by auto
  then have "j \<in> set (filter (\<lambda>j. bj_id j = jid) (background_jobs ?t))" by (simp only: eq)
  then show ?thesis by auto
qed

text \<open>The whole effect of one job on the store.\<close>

lemma process_incoming_job_run:
  assumes "incoming_from_value (bj_job_data job) = Some d" and "ij_failure_count d < 2 ^ 32 - 1"
    and "leaves_job H (bj_id job)" and "bj_id job \<in> bj_id ` set (background_jobs s)"
    and "fresh (bj_id job) \<notin> bj_id ` set (background_jobs (handler_state_of H d s))"
  shows "process_incoming_job H fresh job s =
    (let t = handler_state_of H d s;
         retry = handler_result_of H d s = RequestFailed \<and> ij_failure_count d < incoming_queue_retries_max in
     (Ok (), t\<lparr>background_jobs := delete_where (\<lambda>j. bj_id j = bj_id job) (background_jobs t)
        @ (if retry then [retry_job (fresh (bj_id job)) d (current_timestamp t)] else [])\<rparr>))"
proof -
  let ?t = "handler_state_of H d s"
  have here: "bj_id job \<in> bj_id ` set (background_jobs ?t)"
    by (rule leaves_job_present [OF assms(3,4)])
  with assms(5) have "fresh (bj_id job) \<noteq> bj_id job" by auto
  with here assms(1,2,5) show ?thesis
    by (cases "handler_result_of H d s")
      (auto simp: process_incoming_job_def Let_def bnd_def seq_def lift_def ret_def gets_def run_handler_run
        delete_job_run enqueue_job_run incoming_into_job_def incoming_queue_backoff_def
        incoming_queue_retries_max_def retry_job_def delete_where_def)
qed

section \<open>Backoff\<close>

lemma outgoing_queue_backoff_values:
  "unat (outgoing_queue_backoff 1) = 600" "unat (outgoing_queue_backoff 2) = 3300"
  "unat (outgoing_queue_backoff 3) = 30300"
  by (simp_all add: outgoing_queue_backoff_def)

lemma outgoing_queue_backoff_exact:
  assumes "unat n \<le> 8"
  shows "unat (outgoing_queue_backoff n) = 30 * (10 ^ unat n + 10)"
proof -
  have "10 ^ unat n \<le> (10 :: nat) ^ 8" by (rule power_increasing) (use assms in auto)
  then have "30 * (10 ^ unat n + 10) < (2 :: nat) ^ 32" by simp
  then have "take_bit 32 (30 * (10 ^ unat n + 10)) = (30 * (10 ^ unat n + 10) :: nat)"
    by (rule take_bit_nat_eq_self)
  moreover have "outgoing_queue_backoff n = of_nat (30 * (10 ^ unat n + 10))"
    by (simp add: outgoing_queue_backoff_def)
  ultimately show ?thesis by (simp only: unsigned_of_nat) simp
qed

end
