(* ===== verification/Polls.thy ===== *)
theory Polls
  imports RelationshipQueries
begin

text \<open>
  Polls (\<open>mitra_models/src/polls\<close>): creation, replacement, a single remote vote and the votes of a
  local user. The counts stored with a poll agree with the vote table as long as only votes
  change it.
\<close>

section \<open>Types\<close>

record poll_data =
  pd_multiple_choices :: bool
  pd_ends_at :: "datetime option"
  pd_results :: "poll_result list"
  pd_voters_count :: "int option"

definition poll_result_new :: "string \<Rightarrow> poll_result" where
  "poll_result_new name = \<lparr>pr_option_name = name, pr_vote_count = 0\<rparr>"

definition poll_ended :: "database \<Rightarrow> poll \<Rightarrow> bool" where
  "poll_ended s p = (case poll_ends_at p of None \<Rightarrow> False | Some t \<Rightarrow> t < current_timestamp s)"

definition poll_data_of :: "poll \<Rightarrow> poll_data" where
  "poll_data_of p = \<lparr>pd_multiple_choices = poll_multiple_choices p, pd_ends_at = poll_ends_at p,
     pd_results = poll_results p, pd_voters_count = poll_voters_count p\<rparr>"

section \<open>Queries\<close>

definition poll_row :: "uuid \<Rightarrow> poll_data \<Rightarrow> poll" where
  "poll_row pid d = \<lparr>poll_id = pid, poll_multiple_choices = pd_multiple_choices d,
     poll_ends_at = pd_ends_at d, poll_results = pd_results d, poll_voters_count = pd_voters_count d\<rparr>"

definition voters_count_ok :: "int option \<Rightarrow> bool" where
  "voters_count_ok n = (case n of None \<Rightarrow> True | Some k \<Rightarrow> 0 \<le> k)"

definition create_poll :: "uuid \<Rightarrow> poll_data \<Rightarrow> poll db" where
  "create_poll pid d = run (\<lambda>s.
     if \<not> voters_count_ok (pd_voters_count d) then (Err CheckViolation, s)
     else if list_ex (\<lambda>p. poll_id p = pid) (polls s) then (Err UniqueViolation, s)
     else if \<not> list_ex (\<lambda>p. po_id p = pid) (posts s) then (Err ForeignKeyViolation, s)
     else (Ok (poll_row pid d), s\<lparr>polls := polls s @ [poll_row pid d]\<rparr>))"

definition get_options :: "poll_result list \<Rightarrow> string set" where
  "get_options rs = pr_option_name ` set rs"

definition reset_poll :: "poll_data \<Rightarrow> poll_data" where
  "reset_poll d = d\<lparr>pd_results := map (\<lambda>r. r\<lparr>pr_vote_count := 0\<rparr>) (pd_results d), pd_voters_count := None\<rparr>"

definition put_poll :: "uuid \<Rightarrow> poll_data \<Rightarrow> poll db" where
  "put_poll pid d =
     (if \<not> voters_count_ok (pd_voters_count d) then throw (ClientError CheckViolation)
      else
        seq (modify (\<lambda>s. s\<lparr>polls := update_where (\<lambda>p. poll_id p = pid) (\<lambda>_. poll_row pid d) (polls s)\<rparr>))
        (bnd (gets (\<lambda>s. filter (\<lambda>p. poll_id p = pid) (polls s))) (\<lambda>rows. run (lift (query_one rows)))))"

definition update_poll :: "uuid \<Rightarrow> poll_data \<Rightarrow> poll db" where
  "update_poll pid d = transaction (
     bnd (select_or_not_found ''poll'' (\<lambda>s. filter (\<lambda>p. poll_id p = pid) (polls s))) (\<lambda>old.
     let options_changed = get_options (pd_results d) \<noteq> get_options (poll_results old)
           \<or> pd_multiple_choices d \<noteq> poll_multiple_choices old in
     if options_changed then
       seq (modify (\<lambda>s. s\<lparr>poll_votes := delete_where (\<lambda>v. pv_poll_id v = pid) (poll_votes s)\<rparr>))
       (put_poll pid (reset_poll d))
     else put_poll pid d))"

definition same_vote :: "uuid \<Rightarrow> uuid \<Rightarrow> string \<Rightarrow> poll_vote \<Rightarrow> bool" where
  "same_vote pid voter choice v \<longleftrightarrow> pv_poll_id v = pid \<and> pv_voter_id v = voter \<and> pv_choice v = choice"

definition has_voted :: "database \<Rightarrow> uuid \<Rightarrow> uuid \<Rightarrow> bool" where
  "has_voted s pid voter \<longleftrightarrow> list_ex (\<lambda>v. pv_poll_id v = pid \<and> pv_voter_id v = voter) (poll_votes s)"

text \<open>The identifiers \<open>generate_ulid()\<close> makes are the argument \<open>ulids\<close>, one per choice. The rows
  are inserted together or not at all.\<close>

definition new_votes :: "uuid list \<Rightarrow> uuid \<Rightarrow> uuid \<Rightarrow> string list \<Rightarrow> poll_vote list" where
  "new_votes ulids pid voter choices =
     map (\<lambda>(i, c). \<lparr>pv_id = i, pv_poll_id = pid, pv_voter_id = voter, pv_choice = c, pv_object_id = None\<rparr>)
       (zip ulids choices)"

definition create_votes :: "uuid list \<Rightarrow> uuid \<Rightarrow> uuid \<Rightarrow> string list \<Rightarrow> poll_vote list db" where
  "create_votes ulids pid voter choices =
     (if choices = [] then throw TypeError
      else
        bnd (run (\<lambda>s.
          if has_voted s pid voter then (Ok [], s)
          else if \<not> distinct choices \<or> \<not> distinct ulids \<or> (\<exists>v \<in> set (poll_votes s). pv_id v \<in> set ulids)
          then (Err UniqueViolation, s)
          else if \<not> list_ex (\<lambda>p. poll_id p = pid) (polls s) \<or> \<not> profile_exists s voter
          then (Err ForeignKeyViolation, s)
          else (Ok (new_votes ulids pid voter choices),
                s\<lparr>poll_votes := poll_votes s @ new_votes ulids pid voter choices\<rparr>))) (\<lambda>votes.
        if votes = [] then throw (AlreadyExists ''poll vote'')
        else if length votes \<noteq> length choices then panic ''assertion failed''
        else ret votes))"

text \<open>\<open>vote_count += 1\<close> on a \<open>u32\<close>.\<close>

definition count_vote :: "poll_result \<Rightarrow> poll_result" where
  "count_vote r = r\<lparr>pr_vote_count := (pr_vote_count r + 1) mod 2 ^ 32\<rparr>"

fun count_first :: "string \<Rightarrow> poll_result list \<Rightarrow> poll_result list option" where
  "count_first choice [] = None"
| "count_first choice (r # rs) =
     (if pr_option_name r = choice then Some (count_vote r # rs)
      else map_option (Cons r) (count_first choice rs))"

definition set_results :: "uuid \<Rightarrow> poll_result list \<Rightarrow> (poll \<Rightarrow> int option) \<Rightarrow> poll db" where
  "set_results pid results voters =
     seq (modify (\<lambda>s. s\<lparr>polls := update_where (\<lambda>p. poll_id p = pid)
            (\<lambda>p. p\<lparr>poll_results := results, poll_voters_count := voters p\<rparr>) (polls s)\<rparr>))
     (bnd (gets (\<lambda>s. filter (\<lambda>p. poll_id p = pid) (polls s))) (\<lambda>rows. run (lift (query_one rows))))"

definition vote_voters :: "database \<Rightarrow> uuid \<Rightarrow> uuid set" where
  "vote_voters s pid = pv_voter_id ` set (filter (\<lambda>v. pv_poll_id v = pid) (poll_votes s))"

definition insert_single_vote :: "poll_vote \<Rightarrow> nat stmt" where
  "insert_single_vote v s =
     (if has_voted s (pv_poll_id v) (pv_voter_id v)
         \<and> list_ex (\<lambda>p. poll_id p = pv_poll_id v \<and> \<not> poll_multiple_choices p) (polls s)
      then (Ok 0, s)
      else if list_ex (\<lambda>v'. pv_id v' = pv_id v \<or> same_vote (pv_poll_id v) (pv_voter_id v) (pv_choice v) v'
                \<or> pv_object_id v \<noteq> None \<and> pv_object_id v' = pv_object_id v) (poll_votes s)
      then (Ok 0, s)
      else if \<not> profile_exists s (pv_voter_id v) then (Err ForeignKeyViolation, s)
      else (Ok 1, s\<lparr>poll_votes := poll_votes s @ [v]\<rparr>))"

definition vote_one :: "uuid \<Rightarrow> uuid \<Rightarrow> uuid \<Rightarrow> string \<Rightarrow> string \<Rightarrow> poll db" where
  "vote_one ulid pid voter choice oid = transaction (
     bnd (select_or_not_found ''poll'' (\<lambda>s. filter (\<lambda>p. poll_id p = pid) (polls s))) (\<lambda>p.
     bnd (lift (ok_or (NotFound ''poll option'') (count_first choice (poll_results p)))) (\<lambda>results.
     bnd (run (insert_single_vote \<lparr>pv_id = ulid, pv_poll_id = pid, pv_voter_id = voter,
            pv_choice = choice, pv_object_id = Some oid\<rparr>)) (\<lambda>inserted_count.
     if inserted_count = 0 then throw (AlreadyExists ''poll vote'')
     else
       bnd (gets (\<lambda>s. int (card (vote_voters s pid)))) (\<lambda>n.
       set_results pid results (\<lambda>_. Some n))))))"

text \<open>The indices come from a \<open>HashSet\<close>: a list without repetition, in some order.\<close>

fun count_indices ::
  "nat list \<Rightarrow> poll_result list \<Rightarrow> (database_error, string list \<times> poll_result list) outcome" where
  "count_indices [] results = Ok ([], results)"
| "count_indices (i # is) results =
     (if i < length results
      then obind (count_indices is (results[i := count_vote (results ! i)])) (\<lambda>(choices, results').
             Ok (pr_option_name (results ! i) # choices, results'))
      else Err (NotFound ''poll option''))"

definition vote :: "uuid list \<Rightarrow> uuid \<Rightarrow> uuid \<Rightarrow> nat list \<Rightarrow> (poll \<times> poll_vote list) db" where
  "vote ulids pid voter choices_indices = transaction (
     bnd (select_or_not_found ''poll'' (\<lambda>s. filter (\<lambda>p. poll_id p = pid) (polls s))) (\<lambda>p.
     bnd (lift (count_indices choices_indices (poll_results p))) (\<lambda>(choices, results).
     bnd (create_votes ulids pid voter choices) (\<lambda>votes.
     bnd (set_results pid results (\<lambda>p. map_option (\<lambda>n. n + 1) (poll_voters_count p))) (\<lambda>p.
     ret (p, votes))))))"

definition get_voters :: "externals \<Rightarrow> uuid \<Rightarrow> actor_profile list db" where
  "get_voters X pid =
     bnd (gets (\<lambda>s. remdups [p. v \<leftarrow> poll_votes s, p \<leftarrow> actor_profiles s,
            pv_voter_id v = p_id p \<and> pv_poll_id v = pid])) (profiles_try_from X)"

definition find_votes_by_user :: "uuid \<Rightarrow> uuid list \<Rightarrow> (uuid \<times> string list) list db" where
  "find_votes_by_user user post_ids = gets (\<lambda>s.
     let rows = [v. v \<leftarrow> poll_votes s, p \<leftarrow> polls s,
           poll_id p = pv_poll_id v \<and> pv_voter_id v = user \<and> pv_poll_id v \<in> set post_ids] in
     map (\<lambda>pid. (pid, map pv_choice (filter (\<lambda>v. pv_poll_id v = pid) rows)))
       (remdups (map pv_poll_id rows)))"

text \<open>
  The tally of a poll: the stored count of every option is the number of votes for it, and the
  stored number of voters is the number of distinct voters. Votes keep it, on the poll they
  concern and on every other one.
\<close>

definition votes_for :: "database \<Rightarrow> uuid \<Rightarrow> string \<Rightarrow> int" where
  "votes_for s pid c = count_where (\<lambda>v. pv_poll_id v = pid \<and> pv_choice v = c) (poll_votes s)"

definition tally :: "database \<Rightarrow> poll \<Rightarrow> bool" where
  "tally s p \<longleftrightarrow>
     distinct (map pr_option_name (poll_results p))
     \<and> (\<forall>r \<in> set (poll_results p). int (pr_vote_count r) = votes_for s (poll_id p) (pr_option_name r))
     \<and> poll_voters_count p = Some (int (card (vote_voters s (poll_id p))))"

definition tallied :: "database \<Rightarrow> uuid \<Rightarrow> bool" where
  "tallied s pid \<longleftrightarrow> (\<exists>p. filter (\<lambda>p. poll_id p = pid) (polls s) = [p] \<and> tally s p)"

section \<open>Counting\<close>

lemma count_vote_name [simp]: "pr_option_name (count_vote r) = pr_option_name r"
  by (simp add: count_vote_def)

lemma count_vote_count: "pr_vote_count r + 1 < 2 ^ 32 \<Longrightarrow> pr_vote_count (count_vote r) = pr_vote_count r + 1"
  by (simp add: count_vote_def)

lemma count_first_Some:
  assumes "count_first c rs = Some rs'" and "distinct (map pr_option_name rs)"
  shows "rs' = map (\<lambda>r. if pr_option_name r = c then count_vote r else r) rs"
  using assms
proof (induction c rs arbitrary: rs' rule: count_first.induct)
  case (2 c r rs)
  then show ?case
    by (cases "pr_option_name r = c") (auto intro!: map_idI [symmetric] simp: image_iff)
qed simp

lemma count_indices_Ok:
  assumes "count_indices is rs = Ok (cs, rs')" and "distinct is"
  shows "cs = map (\<lambda>i. pr_option_name (rs ! i)) is \<and> length rs' = length rs \<and> (\<forall>i \<in> set is. i < length rs)
    \<and> (\<forall>k < length rs. rs' ! k = (if k \<in> set is then count_vote (rs ! k) else rs ! k))"
  using assms
proof (induction "is" rs arbitrary: cs rs' rule: count_indices.induct)
  case (2 i "is" rs)
  from 2(2,3) obtain cs' where i: "i < length rs" "i \<notin> set is" and
    rec: "count_indices is (rs[i := count_vote (rs ! i)]) = Ok (cs', rs')" and cs: "cs = pr_option_name (rs ! i) # cs'"
    by (auto simp: obind_Ok split: if_splits)
  from 2(1) [OF i(1) rec] 2(3) i have
    IH: "cs' = map (\<lambda>j. pr_option_name (rs[i := count_vote (rs ! i)] ! j)) is" "length rs' = length rs"
      "\<forall>j \<in> set is. j < length rs"
      "\<forall>k < length rs. rs' ! k = (if k \<in> set is then count_vote (rs[i := count_vote (rs ! i)] ! k)
         else rs[i := count_vote (rs ! i)] ! k)"
    by simp_all
  have "pr_option_name (rs[i := count_vote (rs ! i)] ! j) = pr_option_name (rs ! j)" for j
    using i by (cases "j = i") auto
  with IH cs i show ?case by (auto simp: nth_list_update)
qed simp

text \<open>With distinct option names, counting by index is counting by name.\<close>

lemma count_indices_names:
  assumes "count_indices is rs = Ok (cs, rs')" and "distinct is" and names: "distinct (map pr_option_name rs)"
  shows "rs' = map (\<lambda>r. if pr_option_name r \<in> set cs then count_vote r else r) rs"
proof (rule nth_equalityI)
  note eff = count_indices_Ok [OF assms(1,2)]
  show "length rs' = length (map (\<lambda>r. if pr_option_name r \<in> set cs then count_vote r else r) rs)"
    using eff by simp
  fix k assume "k < length rs'"
  with eff have k: "k < length rs" by simp
  have "pr_option_name (rs ! k) \<in> set cs \<longleftrightarrow> k \<in> set is"
  proof
    assume "pr_option_name (rs ! k) \<in> set cs"
    with eff obtain i where "i \<in> set is" "pr_option_name (rs ! i) = pr_option_name (rs ! k)" by auto
    with names k eff show "k \<in> set is" by (auto simp: distinct_conv_nth)
  qed (use eff in auto)
  with eff k show "rs' ! k = map (\<lambda>r. if pr_option_name r \<in> set cs then count_vote r else r) rs ! k"
    by simp
qed

lemma new_votes_simps:
  assumes "v \<in> set (new_votes ulids pid voter choices)"
  shows "pv_poll_id v = pid" "pv_voter_id v = voter" "pv_choice v \<in> set choices"
  using assms by (auto simp: new_votes_def dest: set_zip_rightD)

lemma map_choice_new_votes:
  "length (new_votes ulids pid voter choices) = length choices \<Longrightarrow> map pv_choice (new_votes ulids pid voter choices) = choices"
  by (simp add: new_votes_def comp_def case_prod_beta map_snd_zip_take)

lemma count_distinct_key:
  assumes "distinct (map k xs)"
  shows "count_where (\<lambda>x. k x = c) xs = (if c \<in> set (map k xs) then 1 else 0)"
  using assms by (induction xs) (auto simp: count_where_Cons)

section \<open>Appending votes\<close>

text \<open>The votes one voter casts in one go: at most one for every option.\<close>

lemma votes_for_append:
  assumes "poll_votes t = poll_votes s @ vs" and "\<forall>v \<in> set vs. pv_poll_id v = pid" and "distinct (map pv_choice vs)"
  shows "votes_for t q c = votes_for s q c + (if q = pid \<and> c \<in> pv_choice ` set vs then 1 else 0)"
proof (cases "q = pid")
  case True
  have "count_where (\<lambda>v. pv_poll_id v = pid \<and> pv_choice v = c) vs = count_where (\<lambda>v. pv_choice v = c) vs"
    using assms(2) by (intro count_where_cong) auto
  with True assms(1) count_distinct_key [OF assms(3), of c] show ?thesis by (simp add: votes_for_def)
next
  case False
  with assms(2) have "count_where (\<lambda>v. pv_poll_id v = q \<and> pv_choice v = c) vs = 0"
    by (auto simp: count_where_zero)
  with False assms(1) show ?thesis by (simp add: votes_for_def)
qed

lemma voters_append:
  assumes "poll_votes t = poll_votes s @ vs" and "vs \<noteq> []" and "\<forall>v \<in> set vs. pv_poll_id v = pid \<and> pv_voter_id v = u"
  shows "vote_voters t q = (if q = pid then insert u (vote_voters s q) else vote_voters s q)"
  using assms by (cases vs) (auto simp: vote_voters_def image_iff)

lemma votes_for_bound: "votes_for s pid c \<le> int (length (poll_votes s))"
  by (simp add: votes_for_def count_where_def)

lemma finite_voters [simp]: "finite (vote_voters s pid)"
  by (simp add: vote_voters_def)

text \<open>One lemma for both ways to vote.\<close>

lemma tallied_after_votes:
  assumes t: "poll_votes t = poll_votes s @ vs" "vs \<noteq> []"
      "\<forall>v \<in> set vs. pv_poll_id v = pid \<and> pv_voter_id v = u" "distinct (map pv_choice vs)"
    and polls: "polls t = update_where (\<lambda>p. poll_id p = pid)
        (\<lambda>p. p\<lparr>poll_results := rs', poll_voters_count := voters p\<rparr>) (polls s)"
    and p: "filter (\<lambda>p. poll_id p = pid) (polls s) = [p]"
    and rs': "rs' = map (\<lambda>r. if pr_option_name r \<in> pv_choice ` set vs then count_vote r else r) (poll_results p)"
    and voters: "tally s p \<Longrightarrow> voters p = Some (int (card (vote_voters t pid)))"
    and small: "length (poll_votes s) + 1 < 2 ^ 32"
    and q: "tallied s q"
  shows "tallied t q"
proof -
  note count = votes_for_append [OF t(1) _ t(4)] and who = voters_append [OF t(1,2,3)]
  have vs: "\<forall>v \<in> set vs. pv_poll_id v = pid" using t(3) by simp
  from q obtain p0 where p0: "filter (\<lambda>p. poll_id p = q) (polls s) = [p0]" and tal: "tally s p0"
    by (auto simp: tallied_def)
  have id0: "poll_id p0 = q" using p0 by (auto dest!: filter_eq_ConsD)
  show ?thesis
  proof (cases "q = pid")
    case True
    with p p0 have [simp]: "p0 = p" by simp
    let ?p = "p\<lparr>poll_results := rs', poll_voters_count := voters p\<rparr>"
    have row: "filter (\<lambda>p. poll_id p = q) (polls t) = [?p]"
      unfolding polls True by (simp add: filter_update_same p)
    have "int (pr_vote_count r) = votes_for t pid (pr_option_name r)" if r: "r \<in> set rs'" for r
    proof -
      from r rs' obtain r0 where r0: "r0 \<in> set (poll_results p)"
        and eq: "r = (if pr_option_name r0 \<in> pv_choice ` set vs then count_vote r0 else r0)" by auto
      with tal True id0 have c0: "int (pr_vote_count r0) = votes_for s pid (pr_option_name r0)"
        by (simp add: tally_def)
      moreover have "pr_vote_count r0 + 1 < 2 ^ 32"
        using c0 votes_for_bound [of s pid "pr_option_name r0"] small by linarith
      ultimately show ?thesis using eq count [OF vs, of pid] by (auto simp: count_vote_count)
    qed
    moreover have "distinct (map pr_option_name rs')"
      using tal rs' by (simp add: tally_def comp_def if_distrib cong: if_cong)
    moreover have "poll_id p = pid" using id0 True by simp
    ultimately have "tally t ?p" using voters tal by (simp add: tally_def)
    with row True show ?thesis by (auto simp: tallied_def)
  next
    case False
    have "filter (\<lambda>p. poll_id p = q) (polls t) = filter (\<lambda>p. poll_id p = q) (polls s)"
      unfolding polls by (rule filter_update_other) (use False in auto)
    moreover have "tally t p0"
      using tal id0 False count [OF vs] who by (simp add: tally_def)
    ultimately show ?thesis using p0 by (auto simp: tallied_def)
  qed
qed

section \<open>Operations\<close>

lemma set_results_Ok [ok_runs]:
  "set_results pid rs voters s = (Ok p, t) \<longleftrightarrow>
     t = s\<lparr>polls := update_where (\<lambda>p. poll_id p = pid)
        (\<lambda>p. p\<lparr>poll_results := rs, poll_voters_count := voters p\<rparr>) (polls s)\<rparr>
     \<and> filter (\<lambda>p. poll_id p = pid) (polls t) = [p]"
  by (auto simp: set_results_def ok_runs)

lemma create_votes_Ok [ok_runs]:
  "create_votes ulids pid voter choices s = (Ok vs, t) \<longleftrightarrow>
     choices \<noteq> [] \<and> \<not> has_voted s pid voter \<and> distinct choices \<and> distinct ulids
     \<and> (\<forall>v \<in> set (poll_votes s). pv_id v \<notin> set ulids)
     \<and> list_ex (\<lambda>p. poll_id p = pid) (polls s) \<and> profile_exists s voter
     \<and> vs = new_votes ulids pid voter choices \<and> length vs = length choices
     \<and> t = s\<lparr>poll_votes := poll_votes s @ vs\<rparr>"
  by (auto simp: create_votes_def ok_runs split: if_splits)

lemma vote_effect:
  assumes "vote ulids pid voter is s = (Ok (p', vs), t)" and "distinct is"
  obtains p choices results where
    "filter (\<lambda>p. poll_id p = pid) (polls s) = [p]" "count_indices is (poll_results p) = Ok (choices, results)"
    "choices \<noteq> []" "distinct choices" "\<not> has_voted s pid voter" "vs = new_votes ulids pid voter choices"
    "length vs = length choices" "filter (\<lambda>p. poll_id p = pid) (polls t) = [p']"
    "t = s\<lparr>poll_votes := poll_votes s @ vs, polls := update_where (\<lambda>p. poll_id p = pid)
       (\<lambda>p. p\<lparr>poll_results := results, poll_voters_count := map_option (\<lambda>n. n + 1) (poll_voters_count p)\<rparr>) (polls s)\<rparr>"
  using assms by (auto simp: vote_def ok_runs split: prod.splits)

lemma vote_keeps_tallies:
  assumes run: "vote ulids pid voter is s = (Ok (p', vs), t)" and "distinct is"
    and small: "length (poll_votes s) + 1 < 2 ^ 32" and tal: "tallied s pid" and q: "tallied s q"
  shows "tallied t q"
proof -
  from run \<open>distinct is\<close> obtain p choices results where
    p: "filter (\<lambda>p. poll_id p = pid) (polls s) = [p]" and
    cnt: "count_indices is (poll_results p) = Ok (choices, results)" and
    new: "choices \<noteq> []" "distinct choices" "\<not> has_voted s pid voter" and
    vs: "vs = new_votes ulids pid voter choices" "length vs = length choices" and
    t: "t = s\<lparr>poll_votes := poll_votes s @ vs, polls := update_where (\<lambda>p. poll_id p = pid)
       (\<lambda>p. p\<lparr>poll_results := results, poll_voters_count := map_option (\<lambda>n. n + 1) (poll_voters_count p)\<rparr>) (polls s)\<rparr>"
    by (rule vote_effect)
  from tal p have tp: "tally s p" by (auto simp: tallied_def)
  have choices: "map pv_choice vs = choices" using vs map_choice_new_votes by blast
  have mem: "\<forall>v \<in> set vs. pv_poll_id v = pid \<and> pv_voter_id v = voter"
    using vs(1) new_votes_simps by blast
  have ne: "vs \<noteq> []" using new(1) vs(2) by auto
  have set_choices: "pv_choice ` set vs = set choices" using choices by (metis set_map)
  have res: "results = map (\<lambda>r. if pr_option_name r \<in> pv_choice ` set vs then count_vote r else r) (poll_results p)"
    unfolding set_choices by (rule count_indices_names [OF cnt \<open>distinct is\<close>]) (use tp in \<open>simp add: tally_def\<close>)
  have idp: "poll_id p = pid" using p by (auto dest!: filter_eq_ConsD)
  have "voter \<notin> vote_voters s pid" using new(3) by (auto simp: has_voted_def vote_voters_def list_ex_iff)
  moreover have "vote_voters t pid = insert voter (vote_voters s pid)"
    using voters_append [of t s vs pid voter pid] ne mem by (simp add: t)
  ultimately have "map_option (\<lambda>n. n + 1) (poll_voters_count p) = Some (int (card (vote_voters t pid)))"
    using tp idp by (simp add: tally_def)
  with q small p res ne mem new(2) choices show ?thesis
    by (intro tallied_after_votes [where s = s and t = t and vs = vs and pid = pid and u = voter and p = p and rs' = results
          and voters = "\<lambda>p. map_option (\<lambda>n. n + 1) (poll_voters_count p)"]) (simp_all add: t)
qed

lemma insert_single_vote_Ok:
  "insert_single_vote v s = (Ok n, t) \<and> n \<noteq> 0 \<Longrightarrow>
   t = s\<lparr>poll_votes := poll_votes s @ [v]\<rparr> \<and> \<not> list_ex (same_vote (pv_poll_id v) (pv_voter_id v) (pv_choice v)) (poll_votes s)
   \<and> (has_voted s (pv_poll_id v) (pv_voter_id v) \<longrightarrow>
      \<not> list_ex (\<lambda>p. poll_id p = pv_poll_id v \<and> \<not> poll_multiple_choices p) (polls s))"
  by (auto simp: insert_single_vote_def list_ex_iff split: if_splits)

lemma vote_one_effect:
  assumes "vote_one ulid pid voter choice oid s = (Ok p', t)"
  obtains p results v where
    "filter (\<lambda>p. poll_id p = pid) (polls s) = [p]" "count_first choice (poll_results p) = Some results"
    "pv_poll_id v = pid" "pv_voter_id v = voter" "pv_choice v = choice"
    "\<not> list_ex (same_vote pid voter choice) (poll_votes s)"
    "has_voted s pid voter \<longrightarrow> poll_multiple_choices p"
    "filter (\<lambda>p. poll_id p = pid) (polls t) = [p']"
    "t = s\<lparr>poll_votes := poll_votes s @ [v], polls := update_where (\<lambda>p. poll_id p = pid)
       (\<lambda>p. p\<lparr>poll_results := results,
          poll_voters_count := Some (int (card (vote_voters (s\<lparr>poll_votes := poll_votes s @ [v]\<rparr>) pid)))\<rparr>) (polls s)\<rparr>"
proof -
  let ?v = "\<lparr>pv_id = ulid, pv_poll_id = pid, pv_voter_id = voter, pv_choice = choice, pv_object_id = Some oid\<rparr>"
  from assms obtain p results n w where
    p: "filter (\<lambda>p. poll_id p = pid) (polls s) = [p]" "count_first choice (poll_results p) = Some results" and
    ins: "insert_single_vote ?v s = (Ok n, w)" "n \<noteq> 0" and
    set: "set_results pid results (\<lambda>_. Some (int (card (vote_voters w pid)))) w = (Ok p', t)"
    by (auto simp: vote_one_def bnd_Ok transaction_Ok select_or_not_found_Ok lift_Ok ok_or_Ok run_Ok gets_Ok
        throw_Ok split: if_splits)
  note ins' = insert_single_vote_Ok [OF conjI [OF ins]]
  have "p \<in> set (filter (\<lambda>p. poll_id p = pid) (polls s))" using p by simp
  then have "p \<in> set (polls s)" "poll_id p = pid" by simp_all
  then have multi: "has_voted s pid voter \<longrightarrow> poll_multiple_choices p"
    using ins' by (auto simp: list_ex_iff)
  have w: "w = s\<lparr>poll_votes := poll_votes s @ [?v]\<rparr>" using ins' by simp
  show ?thesis
  proof (rule that [OF p, of ?v])
    show "\<not> list_ex (same_vote pid voter choice) (poll_votes s)" using ins' by simp
    show "filter (\<lambda>p. poll_id p = pid) (polls t) = [p']" using set unfolding set_results_Ok by (rule conjunct2)
    show "t = s\<lparr>poll_votes := poll_votes s @ [?v], polls := update_where (\<lambda>p. poll_id p = pid)
       (\<lambda>p. p\<lparr>poll_results := results,
          poll_voters_count := Some (int (card (vote_voters (s\<lparr>poll_votes := poll_votes s @ [?v]\<rparr>) pid)))\<rparr>) (polls s)\<rparr>"
      using set by (simp add: set_results_Ok w)
  qed (use multi in simp_all)
qed

lemma vote_one_keeps_tallies:
  assumes run: "vote_one ulid pid voter choice oid s = (Ok p', t)"
    and small: "length (poll_votes s) + 1 < 2 ^ 32" and tal: "tallied s pid" and q: "tallied s q"
  shows "tallied t q"
proof -
  from run obtain p results v where
    p: "filter (\<lambda>p. poll_id p = pid) (polls s) = [p]" and
    cnt: "count_first choice (poll_results p) = Some results" and
    v: "pv_poll_id v = pid" "pv_voter_id v = voter" "pv_choice v = choice" and
    t: "t = s\<lparr>poll_votes := poll_votes s @ [v], polls := update_where (\<lambda>p. poll_id p = pid)
       (\<lambda>p. p\<lparr>poll_results := results,
          poll_voters_count := Some (int (card (vote_voters (s\<lparr>poll_votes := poll_votes s @ [v]\<rparr>) pid)))\<rparr>) (polls s)\<rparr>"
    by (rule vote_one_effect)
  from tal p have "distinct (map pr_option_name (poll_results p))" by (auto simp: tallied_def tally_def)
  note res = count_first_Some [OF cnt this]
  show ?thesis
    by (rule tallied_after_votes [where s = s and t = t and vs = "[v]" and pid = pid and u = voter and p = p and rs' = results
          and voters = "\<lambda>_. Some (int (card (vote_voters (s\<lparr>poll_votes := poll_votes s @ [v]\<rparr>) pid)))"])
      (use q small p res v in \<open>simp_all add: t vote_voters_def\<close>)
qed

text \<open>The votes of a table: at most one for an option by a voter, and in a single-choice poll at
  most one by a voter.\<close>

definition votes_inv :: "database \<Rightarrow> bool" where
  "votes_inv s \<longleftrightarrow> unique_by (\<lambda>v. (pv_poll_id v, pv_voter_id v, pv_choice v)) (poll_votes s)"

lemma vote_one_keeps_votes_inv:
  assumes "vote_one ulid pid voter choice oid s = (Ok p', t)" and "votes_inv s"
  shows "votes_inv t"
  using assms(1)
proof (rule vote_one_effect)
  fix p results v
  assume "pv_poll_id v = pid" "pv_voter_id v = voter" "pv_choice v = choice"
    "\<not> list_ex (same_vote pid voter choice) (poll_votes s)"
    and t: "t = s\<lparr>poll_votes := poll_votes s @ [v], polls := update_where (\<lambda>p. poll_id p = pid)
       (\<lambda>p. p\<lparr>poll_results := results,
          poll_voters_count := Some (int (card (vote_voters (s\<lparr>poll_votes := poll_votes s @ [v]\<rparr>) pid)))\<rparr>) (polls s)\<rparr>"
  with assms(2) show ?thesis
    by (auto simp: votes_inv_def unique_by_append_single list_ex_iff same_vote_def)
qed

text \<open>Who has voted: a second vote is refused, except a new choice in a multiple-choice poll.\<close>

lemma second_vote_refused:
  assumes "filter (\<lambda>p. poll_id p = pid) (polls s) = [p]" and "has_voted s pid voter"
  shows "distinct is \<Longrightarrow> \<not> is_ok (fst (vote ulids pid voter is s))"
    and "\<not> poll_multiple_choices p \<Longrightarrow> \<not> is_ok (fst (vote_one ulid pid voter choice oid s))"
proof -
  show "\<not> is_ok (fst (vote ulids pid voter is s))" if "distinct is"
  proof
    assume "is_ok (fst (vote ulids pid voter is s))"
    then obtain x t where "vote ulids pid voter is s = (Ok x, t)"
      by (cases "vote ulids pid voter is s"; cases "fst (vote ulids pid voter is s)") auto
    then obtain p' vs where "vote ulids pid voter is s = (Ok (p', vs), t)" by (cases x) auto
    then show False using that by (rule vote_effect) (use assms in simp)
  qed
  show "\<not> is_ok (fst (vote_one ulid pid voter choice oid s))" if "\<not> poll_multiple_choices p"
  proof
    assume "is_ok (fst (vote_one ulid pid voter choice oid s))"
    then obtain p' t where "vote_one ulid pid voter choice oid s = (Ok p', t)"
      by (cases "vote_one ulid pid voter choice oid s"; cases "fst (vote_one ulid pid voter choice oid s)") auto
    then show False by (rule vote_one_effect) (use assms that in simp)
  qed
qed

end
