(* ===== verification/Reactions.thy ===== *)
theory Reactions
  imports RelationshipInvariants
begin

text \<open>
  Reactions to posts (\<open>mitra_models/src/reactions\<close>) with the counter they maintain on the post
  (\<open>posts/queries.rs\<close>), and the agreement of the counter with the reaction table.
\<close>

section \<open>Types\<close>

record reaction_data =
  rd_author_id :: uuid
  rd_post_id :: uuid
  rd_content :: "string option"
  rd_emoji_id :: "uuid option"
  rd_visibility :: visibility
  rd_activity_id :: "string option"

record reaction_detailed =
  rdt_id :: uuid
  rdt_author :: actor_profile
  rdt_content :: "string option"
  rdt_emoji :: "custom_emoji option"
  rdt_visibility :: visibility

record reaction_deleted =
  rdel_id :: uuid
  rdel_has_deprecated_ap_id :: bool
  rdel_visibility :: visibility

definition reaction_detailed_new ::
  "externals \<Rightarrow> reaction \<Rightarrow> actor_profile \<Rightarrow> custom_emoji option \<Rightarrow> (database_type_error, reaction_detailed) outcome" where
  "reaction_detailed_new X r author emoji =
     obind (profile_check_consistency X author) (\<lambda>_.
     if re_author_id r \<noteq> p_id author then Err DatabaseTypeError
     else if re_emoji_id r \<noteq> map_option em_id emoji then Err DatabaseTypeError
     else if re_emoji_id r \<noteq> None \<and> re_content r = None then Err DatabaseTypeError
     else if (case emoji of None \<Rightarrow> False | Some e \<Rightarrow>
                profile_is_local author \<and> em_object_id e = None \<and> \<not> pm_is_file (em_image e))
     then Err DatabaseTypeError
     else Ok \<lparr>rdt_id = re_id r, rdt_author = author, rdt_content = re_content r, rdt_emoji = emoji,
            rdt_visibility = re_visibility r\<rparr>)"

section \<open>The post counter\<close>

definition add_reaction_count :: "int \<Rightarrow> post \<Rightarrow> post" where
  "add_reaction_count d p = p\<lparr>po_reaction_count := po_reaction_count p + d\<rparr>"

definition is_original :: "uuid \<Rightarrow> post \<Rightarrow> bool" where
  "is_original pid p \<longleftrightarrow> po_id p = pid \<and> po_repost_of_id p = None"

definition update_reaction_count :: "uuid \<Rightarrow> int \<Rightarrow> unit db" where
  "update_reaction_count pid change =
     bnd (gets (\<lambda>s. filter (is_original pid) (posts s))) (\<lambda>rows.
     if list_ex (\<lambda>p. po_reaction_count p + change \<ge> 2 ^ 31 \<or> po_reaction_count p + change < - (2 ^ 31)) rows
     then throw (ClientError NumericValueOutOfRange)
     else if list_ex (\<lambda>p. po_reaction_count p + change < 0) rows then throw (ClientError CheckViolation)
     else
       seq (modify (\<lambda>s. s\<lparr>posts := update_where (is_original pid) (add_reaction_count change) (posts s)\<rparr>))
       (if rows = [] then throw (NotFound ''post'') else ret ()))"

definition get_post_author :: "externals \<Rightarrow> uuid \<Rightarrow> actor_profile db" where
  "get_post_author X pid =
     bnd (select_or_not_found ''post'' (\<lambda>s. [a. p \<leftarrow> posts s, a \<leftarrow> actor_profiles s,
            po_author_id p = p_id a \<and> po_id p = pid])) (profile_try_from X)"

section \<open>Queries\<close>

text \<open>The unique keys of a reaction: its identifier, its activity, and the author, post and
  content, where an absent content counts as a value.\<close>

definition reaction_conflict :: "reaction \<Rightarrow> reaction \<Rightarrow> bool" where
  "reaction_conflict new r \<longleftrightarrow>
     re_id r = re_id new
     \<or> re_activity_id new \<noteq> None \<and> re_activity_id r = re_activity_id new
     \<or> re_author_id r = re_author_id new \<and> re_post_id r = re_post_id new \<and> re_content r = re_content new"

definition reaction_row :: "database \<Rightarrow> uuid \<Rightarrow> reaction_data \<Rightarrow> reaction" where
  "reaction_row s ulid d = \<lparr>re_id = ulid, re_author_id = rd_author_id d, re_post_id = rd_post_id d,
     re_content = rd_content d, re_emoji_id = rd_emoji_id d, re_visibility = rd_visibility d,
     re_activity_id = rd_activity_id d, re_has_deprecated_ap_id = False, re_created_at = current_timestamp s\<rparr>"

text \<open>\<open>INSERT ... SELECT ... ON CONFLICT DO NOTHING\<close>: no row when the post does not exist; a repost
  selects a null post, which the column refuses.\<close>

definition insert_reaction :: "uuid \<Rightarrow> reaction_data \<Rightarrow> reaction option stmt" where
  "insert_reaction ulid d s = (case filter (\<lambda>p. po_id p = rd_post_id d) (posts s) of
      [] \<Rightarrow> (Ok None, s)
    | p # _ \<Rightarrow>
        if po_repost_of_id p \<noteq> None then (Err NotNullViolation, s)
        else if rd_content d = None \<and> rd_emoji_id d \<noteq> None then (Err CheckViolation, s)
        else if list_ex (reaction_conflict (reaction_row s ulid d)) (reactions s) then (Ok None, s)
        else if \<not> profile_exists s (rd_author_id d)
          \<or> (case rd_emoji_id d of None \<Rightarrow> False | Some e \<Rightarrow> \<not> list_ex (\<lambda>x. em_id x = e) (emojis s))
        then (Err ForeignKeyViolation, s)
        else (Ok (Some (reaction_row s ulid d)), s\<lparr>reactions := reactions s @ [reaction_row s ulid d]\<rparr>))"

definition create_reaction :: "externals \<Rightarrow> uuid \<Rightarrow> reaction_data \<Rightarrow> reaction db" where
  "create_reaction X ulid d = transaction (
     bnd (run (insert_reaction ulid d)) (\<lambda>row.
     bnd (lift (ok_or (AlreadyExists ''reaction'') row)) (\<lambda>r.
     seq (update_reaction_count (re_post_id r) 1)
     (bnd (get_post_author X (re_post_id r)) (\<lambda>author.
     seq (if has_user_account author \<and> p_id author \<noteq> re_author_id r
          then create_reaction_notification (re_author_id r) (p_id author) (re_post_id r) (re_id r)
          else ret ())
     (ret r))))))"

definition get_remote_reaction_by_activity_id :: "string \<Rightarrow> reaction db" where
  "get_remote_reaction_by_activity_id aid =
     select_or_not_found ''reaction'' (\<lambda>s. filter (\<lambda>r. re_activity_id r = Some aid) (reactions s))"

definition is_reaction :: "uuid \<Rightarrow> uuid \<Rightarrow> string option \<Rightarrow> reaction \<Rightarrow> bool" where
  "is_reaction author pid content r \<longleftrightarrow>
     re_author_id r = author \<and> re_post_id r = pid \<and> re_content r = content"

text \<open>Notifications about a deleted reaction go with it (\<open>ON DELETE CASCADE\<close>).\<close>

definition delete_reaction_rows :: "(reaction \<Rightarrow> bool) \<Rightarrow> database \<Rightarrow> database" where
  "delete_reaction_rows P s = s\<lparr>
     notifications := delete_where (\<lambda>n. list_ex (\<lambda>r. P r \<and> ntf_reaction_id n = Some (re_id r)) (reactions s)) (notifications s),
     reactions := delete_where P (reactions s)\<rparr>"

definition delete_reaction :: "uuid \<Rightarrow> uuid \<Rightarrow> string option \<Rightarrow> reaction_deleted db" where
  "delete_reaction author pid content = transaction (
     bnd (gets (\<lambda>s. filter (is_reaction author pid content) (reactions s))) (\<lambda>rows.
     seq (modify (delete_reaction_rows (is_reaction author pid content)))
     (bnd (run (lift (query_opt rows))) (\<lambda>row.
     bnd (lift (ok_or (NotFound ''reaction'') row)) (\<lambda>r.
     seq (update_reaction_count pid (-1))
     (ret \<lparr>rdel_id = re_id r, rdel_has_deprecated_ap_id = re_has_deprecated_ap_id r,
        rdel_visibility = re_visibility r\<rparr>))))))"

definition visible_reaction :: "post \<Rightarrow> uuid option \<Rightarrow> reaction \<Rightarrow> bool" where
  "visible_reaction p viewer r \<longleftrightarrow>
     re_visibility r = VisPublic \<or> viewer = Some (re_author_id r) \<or> viewer = Some (po_author_id p)"

definition get_post_reactions_detailed ::
  "externals \<Rightarrow> uuid \<Rightarrow> uuid option \<Rightarrow> uuid option \<Rightarrow> nat option \<Rightarrow> reaction_detailed list db" where
  "get_post_reactions_detailed X pid viewer max_id limit =
     bnd (gets (\<lambda>s. rev (sort_key (\<lambda>(r, a, e). re_id r)
            [(r, a, find (\<lambda>e. re_emoji_id r = Some (em_id e)) (emojis s)).
               r \<leftarrow> reactions s, p \<leftarrow> posts s, a \<leftarrow> actor_profiles s,
               re_post_id r = po_id p \<and> re_author_id r = p_id a \<and> re_post_id r = pid
               \<and> visible_reaction p viewer r
               \<and> (case max_id of None \<Rightarrow> True | Some m \<Rightarrow> re_id r < m)]))) (\<lambda>rows.
     type_check (try_map (\<lambda>(r, a, e). reaction_detailed_new X r a e)
       (case limit of None \<Rightarrow> rows | Some n \<Rightarrow> take n rows)))"

definition find_reacted_by_user :: "uuid \<Rightarrow> uuid list \<Rightarrow> (uuid \<times> string option) list db" where
  "find_reacted_by_user user post_ids = gets (\<lambda>s.
     map (\<lambda>r. (re_post_id r, re_content r))
       (filter (\<lambda>r. re_author_id r = user \<and> re_post_id r \<in> set post_ids) (reactions s)))"

section \<open>The counter agrees with the table\<close>

definition reaction_ref :: "reaction \<Rightarrow> uuid option" where
  "reaction_ref r = Some (re_post_id r)"

interpretation reaction_counter: counter_column po_id po_reaction_count add_reaction_count reaction_ref
  by unfold_locales (simp_all add: add_reaction_count_def)

definition reactions_inv :: "database \<Rightarrow> bool" where
  "reactions_inv s \<longleftrightarrow>
     unique_by po_id (posts s)
     \<and> unique_by (\<lambda>r. (re_author_id r, re_post_id r, re_content r)) (reactions s)
     \<and> (\<forall>r \<in> set (reactions s). list_ex (is_original (re_post_id r)) (posts s))
     \<and> counted_by po_id po_reaction_count reaction_ref (posts s) (reactions s)"

lemma reactions_inv_seqs [simp]: "reactions_inv (s\<lparr>seqs := q\<rparr>) = reactions_inv s"
  by (simp add: reactions_inv_def)

lemma update_original:
  assumes "unique_by po_id ps" and "list_ex (is_original pid) ps"
  shows "update_where (is_original pid) f ps = update_where (\<lambda>p. po_id p = pid) f ps"
proof -
  from assms(2) obtain p where p: "p \<in> set ps" "po_id p = pid" "po_repost_of_id p = None"
    by (auto simp: list_ex_iff is_original_def)
  have "is_original pid q \<longleftrightarrow> po_id q = pid" if "q \<in> set ps" for q
    using unique_byD [OF assms(1) that p(1)] p by (auto simp: is_original_def)
  then show ?thesis by (simp add: update_where_def)
qed

lemma update_reaction_count_Ok [ok_runs]:
  "update_reaction_count pid d s = (Ok u, t) \<longleftrightarrow>
     list_ex (is_original pid) (posts s)
     \<and> (\<forall>p \<in> set (posts s). is_original pid p \<longrightarrow> 0 \<le> po_reaction_count p + d \<and> po_reaction_count p + d < 2 ^ 31)
     \<and> t = s\<lparr>posts := update_where (is_original pid) (add_reaction_count d) (posts s)\<rparr>"
  by (auto simp: update_reaction_count_def ok_runs list_ex_iff filter_empty_conv split: if_splits)

lemma insert_reaction_Ok:
  assumes "insert_reaction ulid d s = (Ok (Some r), t)"
  shows "r = reaction_row s ulid d" "t = s\<lparr>reactions := reactions s @ [r]\<rparr>"
    "\<not> list_ex (reaction_conflict r) (reactions s)"
  using assms by (auto simp: insert_reaction_def split: list.splits if_splits)

lemma list_ex_original_update [simp]:
  "list_ex (is_original q) (update_where P (add_reaction_count d) ps) = list_ex (is_original q) ps"
  by (induction ps) (auto simp: update_where_def is_original_def add_reaction_count_def)

lemma unless_muted_frame:
  "create_reaction_notification a b p r s = (x, t) \<Longrightarrow> \<exists>q n. t = s\<lparr>seqs := q, notifications := n\<rparr>"
  using unless_muted_state [of "create_notification a b (Some p) (Some r) None EvReaction" a b s,
      OF create_notification_state]
  by (simp add: create_reaction_notification_def)

text \<open>The state after a successful \<open>create_reaction\<close>.\<close>

lemma create_reaction_effect:
  assumes "create_reaction X ulid d s = (Ok r, t)"
  obtains q n where "r = reaction_row s ulid d" "\<not> list_ex (reaction_conflict r) (reactions s)"
    "list_ex (is_original (rd_post_id d)) (posts s)"
    "t = s\<lparr>reactions := reactions s @ [r],
       posts := update_where (is_original (rd_post_id d)) (add_reaction_count 1) (posts s),
       seqs := q, notifications := n\<rparr>"
proof -
  from assms obtain u v author where
    ins: "insert_reaction ulid d s = (Ok (Some r), u)" and
    upd: "list_ex (is_original (re_post_id r)) (posts u)"
      "v = u\<lparr>posts := update_where (is_original (re_post_id r)) (add_reaction_count 1) (posts u)\<rparr>" and
    last: "(if has_user_account author \<and> p_id author \<noteq> re_author_id r
          then create_reaction_notification (re_author_id r) (p_id author) (re_post_id r) (re_id r)
          else ret ()) v = (Ok (), t)"
    by (auto simp: create_reaction_def bnd_Ok seq_Ok transaction_Ok run_Ok lift_Ok ok_or_Ok ret_Ok
        update_reaction_count_Ok get_post_author_def select_or_not_found_Ok profile_try_from_Ok)
  have "\<exists>q n. t = v\<lparr>seqs := q, notifications := n\<rparr>"
  proof (cases "has_user_account author \<and> p_id author \<noteq> re_author_id r")
    case True
    with last show ?thesis by (auto dest: unless_muted_frame)
  next
    case False
    then have "t = v\<lparr>seqs := seqs v, notifications := notifications v\<rparr>" using last by (auto simp: ret_Ok)
    then show ?thesis by blast
  qed
  then obtain q n where t: "t = v\<lparr>seqs := q, notifications := n\<rparr>" by blast
  note row = insert_reaction_Ok [OF ins]
  have "re_post_id r = rd_post_id d" using row(1) by (simp add: reaction_row_def)
  with row upd t that show ?thesis by simp
qed

lemma create_reaction_preserves: "preserves reactions_inv (create_reaction X ulid d)"
proof (rule preserves_atomic)
  fix s r t assume inv: "reactions_inv s" and run: "create_reaction X ulid d s = (Ok r, t)"
  from run obtain q n where r: "r = reaction_row s ulid d" "\<not> list_ex (reaction_conflict r) (reactions s)"
    and orig: "list_ex (is_original (rd_post_id d)) (posts s)"
    and t: "t = s\<lparr>reactions := reactions s @ [r],
       posts := update_where (is_original (rd_post_id d)) (add_reaction_count 1) (posts s), seqs := q, notifications := n\<rparr>"
    by (rule create_reaction_effect)
  have post: "re_post_id r = rd_post_id d" using r(1) by (simp add: reaction_row_def)
  have same: "update_where (is_original (rd_post_id d)) (add_reaction_count 1) (posts s)
      = update_where (\<lambda>p. po_id p = rd_post_id d) (add_reaction_count 1) (posts s)"
    using inv orig by (intro update_original) (simp_all add: reactions_inv_def)
  have "counted_by po_id po_reaction_count reaction_ref (posts t) (reactions t)"
    unfolding t using inv post same
    by (simp add: reactions_inv_def reaction_counter.counted_insert reaction_ref_def)
  moreover have "(re_author_id r, re_post_id r, re_content r) \<notin> (\<lambda>r. (re_author_id r, re_post_id r, re_content r)) ` set (reactions s)"
    using r(2) by (auto simp: list_ex_iff reaction_conflict_def)
  moreover have "unique_by po_id (posts t)"
    using inv by (simp add: t reactions_inv_def unique_by_update add_reaction_count_def)
  ultimately show "reactions_inv t"
    using inv orig post by (auto simp: reactions_inv_def t unique_by_append_single)
qed (simp_all add: create_reaction_def)

lemma delete_reaction_effect:
  assumes "delete_reaction a pid c s = (Ok x, t)"
  shows "count_where (is_reaction a pid c) (reactions s) = 1"
    "list_ex (is_original pid) (posts s)"
    "\<exists>n. t = s\<lparr>notifications := n, reactions := delete_where (is_reaction a pid c) (reactions s),
       posts := update_where (is_original pid) (add_reaction_count (-1)) (posts s)\<rparr>"
  using assms
  by (auto simp: delete_reaction_def ok_runs delete_reaction_rows_def count_where_def)

lemma delete_reaction_preserves: "preserves reactions_inv (delete_reaction a pid c)"
proof (rule preserves_atomic)
  fix s x t assume inv: "reactions_inv s" and run: "delete_reaction a pid c s = (Ok x, t)"
  note eff = delete_reaction_effect [OF run]
  from eff(3) obtain n where t: "t = s\<lparr>notifications := n, reactions := delete_where (is_reaction a pid c) (reactions s),
      posts := update_where (is_original pid) (add_reaction_count (-1)) (posts s)\<rparr>" by blast
  have same: "update_where (is_original pid) (add_reaction_count (-1)) (posts s)
      = update_where (\<lambda>p. po_id p = pid) (add_reaction_count (-1)) (posts s)"
    using inv eff(2) by (intro update_original) (simp_all add: reactions_inv_def)
  have "counted_by po_id po_reaction_count reaction_ref
      (update_where (\<lambda>p. po_id p = pid) (add_reaction_count (-1)) (posts s)) (delete_where (is_reaction a pid c) (reactions s))"
    by (rule reaction_counter.counted_delete_one)
      (use inv eff(1) in \<open>auto simp: reactions_inv_def reaction_ref_def is_reaction_def\<close>)
  with inv show "reactions_inv t"
    by (auto simp: reactions_inv_def t same [symmetric] unique_by_update add_reaction_count_def)
qed (simp_all add: delete_reaction_def)

text \<open>A reaction to a post that does not exist inserts nothing, which the code reads as a conflict.\<close>

lemma create_reaction_no_post:
  assumes "\<not> list_ex (\<lambda>p. po_id p = rd_post_id d) (posts s)"
  shows "create_reaction X ulid d s = (Err (AlreadyExists ''reaction''), s)"
proof -
  have "filter (\<lambda>p. po_id p = rd_post_id d) (posts s) = []"
    using assms by (auto simp: list_ex_iff filter_empty_conv)
  then show ?thesis
    by (simp add: create_reaction_def transaction_def bnd_def run_def map_err_p_def insert_reaction_def
        lift_def rollback_def)
qed

end
