(* ===== verification/Hostnames.thy ===== *)
theory Hostnames
  imports Caip2 "HOL-Library.Sublist"
begin

text \<open>
  Host names (\<open>apx_core/src/url/hostname.rs\<close>): address literals, overlay networks, apex domains and
  the guess of the URI scheme. The literals are recognised by the address parser of Rust's standard
  library (\<open>core::net::parser\<close>), which is written out here.
\<close>

definition to_ascii_lower :: "char \<Rightarrow> char" where
  "to_ascii_lower c = (if is_upper c then char_of (of_char c + (32 :: nat)) else c)"

section \<open>The address parser\<close>

text \<open>A parser consumes a prefix of the bytes or fails; a failed attempt consumes nothing.\<close>

type_synonym 'a address_parser = "string \<Rightarrow> ('a \<times> string) option"

definition hex_val :: "char \<Rightarrow> nat option" where
  "hex_val c =
     (if is_digit c then Some (digit_val c)
      else if of_char c \<ge> (97 :: nat) \<and> of_char c \<le> (102 :: nat) then Some (of_char c - 87)
      else if of_char c \<ge> (65 :: nat) \<and> of_char c \<le> (70 :: nat) then Some (of_char c - 55)
      else None)"

definition digit_of :: "nat \<Rightarrow> char \<Rightarrow> nat option" where
  "digit_of radix c = (case hex_val c of Some d \<Rightarrow> if d < radix then Some d else None | None \<Rightarrow> None)"

fun read_given_char :: "char \<Rightarrow> unit address_parser" where
  "read_given_char c (x # xs) = (if x = c then Some ((), xs) else None)"
| "read_given_char c [] = None"

text \<open>\<open>read_number\<close>: all the digits are read; too many of them, a value that does not fit the
  type, or a forbidden leading zero is a failure.\<close>

definition read_number :: "nat \<Rightarrow> nat \<Rightarrow> bool \<Rightarrow> nat \<Rightarrow> nat address_parser" where
  "read_number radix max_digits allow_zero_prefix bound s =
     (let ds = takeWhile (\<lambda>c. digit_of radix c \<noteq> None) s;
          v = foldl (\<lambda>n c. radix * n + (case digit_of radix c of Some d \<Rightarrow> d | None \<Rightarrow> 0)) 0 ds in
      if ds = [] \<or> max_digits < length ds \<or> bound \<le> v
         \<or> \<not> allow_zero_prefix \<and> hd ds = CHR ''0'' \<and> 1 < length ds
      then None else Some (v, drop (length ds) s))"

definition read_separator :: "char \<Rightarrow> nat \<Rightarrow> 'a address_parser \<Rightarrow> 'a address_parser" where
  "read_separator sep index p s =
     (if index = 0 then p s else case read_given_char sep s of Some (_, r) \<Rightarrow> p r | None \<Rightarrow> None)"

fun read_octets :: "nat \<Rightarrow> nat \<Rightarrow> nat list address_parser" where
  "read_octets 0 index s = Some ([], s)"
| "read_octets (Suc n) index s =
     (case read_separator (CHR ''.'') index (read_number 10 3 False 256) s of
        None \<Rightarrow> None
      | Some (v, r) \<Rightarrow> map_option (\<lambda>(vs, r'). (v # vs, r')) (read_octets n (Suc index) r))"

definition read_ipv4_addr :: "nat list address_parser" where
  "read_ipv4_addr = read_octets 4 0"

text \<open>\<open>read_groups\<close> fills at most \<open>limit\<close> groups; the result is the number of groups, whether the
  last two came from an embedded IPv4 address, and the rest of the input.\<close>

fun read_groups :: "nat \<Rightarrow> nat \<Rightarrow> string \<Rightarrow> nat \<times> bool \<times> string" where
  "read_groups 0 index s = (index, False, s)"
| "read_groups (Suc n) index s =
     (case (if 0 < n then read_separator (CHR '':'') index read_ipv4_addr s else None) of
        Some (_, r) \<Rightarrow> (index + 2, True, r)
      | None \<Rightarrow> (case read_separator (CHR '':'') index (read_number 16 4 True 65536) s of
            Some (_, r) \<Rightarrow> read_groups n (Suc index) r
          | None \<Rightarrow> (index, False, s)))"

definition read_ipv6_addr :: "string \<Rightarrow> string option" where
  "read_ipv6_addr s = (case read_groups 8 0 s of (head_size, head_ipv4, r) \<Rightarrow>
     if head_size = 8 then Some r
     else if head_ipv4 then None
     else case read_given_char (CHR '':'') r of
       None \<Rightarrow> None
     | Some (_, r1) \<Rightarrow> (case read_given_char (CHR '':'') r1 of
         None \<Rightarrow> None
       | Some (_, r2) \<Rightarrow> (case read_groups (8 - (head_size + 1)) 0 r2 of (_, _, r3) \<Rightarrow> Some r3)))"

definition ipv4_parses :: "string \<Rightarrow> bool" where
  "ipv4_parses s \<longleftrightarrow> (case read_ipv4_addr s of Some (_, r) \<Rightarrow> r = [] | None \<Rightarrow> False)"

definition ipv6_parses :: "string \<Rightarrow> bool" where
  "ipv6_parses s \<longleftrightarrow> read_ipv6_addr s = Some []"

section \<open>Strings\<close>

definition strip_prefix :: "string \<Rightarrow> string \<Rightarrow> string option" where
  "strip_prefix p s = (if prefix p s then Some (drop (length p) s) else None)"

definition strip_suffix :: "string \<Rightarrow> string \<Rightarrow> string option" where
  "strip_suffix p s = (if suffix p s then Some (take (length s - length p) s) else None)"

text \<open>\<open>str::split(c)\<close>: a list that is never empty.\<close>

fun split_char :: "char \<Rightarrow> string \<Rightarrow> string list" where
  "split_char c [] = [[]]"
| "split_char c (x # xs) =
     (if x = c then [] # split_char c xs
      else (case split_char c xs of [] \<Rightarrow> [[x]] | w # ws \<Rightarrow> (x # w) # ws))"

lemma split_char_nonempty [simp]: "split_char c s \<noteq> []"
  by (induction s) (auto split: list.splits)

lemma split_char_none: "c \<notin> set s \<Longrightarrow> split_char c s = [s]"
  by (induction s) auto

lemma split_char_append: "c \<notin> set a \<Longrightarrow> split_char c (a @ c # b) = a # split_char c b"
  by (induction a) auto

lemma split_char_snoc_label:
  "c \<notin> set l \<Longrightarrow> split_char c (s @ c # l) = split_char c s @ [l]"
  by (induction s) (auto simp: split_char_none split: list.splits)

lemma strip_prefix_Some: "strip_prefix p s = Some r \<longleftrightarrow> s = p @ r"
  by (auto simp: strip_prefix_def prefix_def)

lemma strip_suffix_Some: "strip_suffix p s = Some r \<longleftrightarrow> s = r @ p"
  by (auto simp: strip_suffix_def suffix_def)

section \<open>Host names\<close>

definition is_ipv4_hostname :: "string \<Rightarrow> bool" where
  "is_ipv4_hostname hostname \<longleftrightarrow> ipv4_parses hostname"

definition is_ipv6_hostname :: "string \<Rightarrow> bool" where
  "is_ipv6_hostname hostname \<longleftrightarrow>
     (case Option.bind (strip_prefix ''['' hostname) (strip_suffix '']'') of
        Some address \<Rightarrow> ipv6_parses address
      | None \<Rightarrow> False)"

text \<open>\<open>domain_to_ascii_cow\<close> of the \<open>idna\<close> package is a parameter.\<close>

definition encode_hostname :: "(string \<Rightarrow> string option) \<Rightarrow> string \<Rightarrow> string option" where
  "encode_hostname domain_to_ascii hostname =
     (if is_ipv6_hostname hostname then Some hostname else domain_to_ascii hostname)"

definition is_onion :: "string \<Rightarrow> bool" where
  "is_onion hostname \<longleftrightarrow> suffix ''.onion'' hostname"

definition is_i2p :: "string \<Rightarrow> bool" where
  "is_i2p hostname \<longleftrightarrow> suffix ''.i2p'' hostname"

definition is_same_apex_domain :: "string \<Rightarrow> string \<Rightarrow> bool" where
  "is_same_apex_domain h1 h2 \<longleftrightarrow>
     (if is_ipv4_hostname h1 \<or> is_ipv6_hostname h1 then h1 = h2
      else take 2 (rev (split_char (CHR ''.'') h1)) = take 2 (rev (split_char (CHR ''.'') h2)))"

definition guess_protocol :: "string \<Rightarrow> string" where
  "guess_protocol hostname =
     (if hostname = ''localhost'' then ''http''
      else if is_ipv4_hostname hostname then ''http''
      else if is_ipv6_hostname hostname then ''http''
      else if suffix ''.onion'' hostname \<or> suffix ''.i2p'' hostname \<or> suffix ''.loki'' hostname then ''http''
      else ''https'')"

section \<open>Properties\<close>

text \<open>Apex domains of registered names: the relation is reflexive, and both a site and its
  subdomains share the apex.\<close>

lemma is_same_apex_domain_refl [simp]: "is_same_apex_domain h h"
  by (simp add: is_same_apex_domain_def)

lemma rev_split_two:
  assumes "CHR ''.'' \<notin> set a" and "CHR ''.'' \<notin> set b"
  shows "take 2 (rev (split_char (CHR ''.'') (s @ CHR ''.'' # a @ CHR ''.'' # b))) = [b, a]"
proof -
  have "split_char (CHR ''.'') (s @ CHR ''.'' # a @ CHR ''.'' # b)
      = split_char (CHR ''.'') (s @ CHR ''.'' # a) @ [b]"
    using split_char_snoc_label [OF assms(2), of "s @ CHR ''.'' # a"] by simp
  then show ?thesis by (simp add: split_char_snoc_label [OF assms(1)])
qed

lemma subdomain_same_apex:
  assumes "CHR ''.'' \<notin> set a" and "CHR ''.'' \<notin> set b"
    and "\<not> is_ipv4_hostname (s @ ''.'' @ a @ ''.'' @ b)" and "\<not> is_ipv6_hostname (s @ ''.'' @ a @ ''.'' @ b)"
  shows "is_same_apex_domain (s @ ''.'' @ a @ ''.'' @ b) (a @ ''.'' @ b)"
  using assms rev_split_two [OF assms(1,2), of s]
  by (simp add: is_same_apex_domain_def split_char_append split_char_none)

end
