(* ===== verification/Multiformats.thy ===== *)
theory Multiformats
  imports Hostnames
begin

text \<open>
  Self-describing encodings of \<open>apx_core\<close>: \<open>multibase.rs\<close>, \<open>multicodec.rs\<close>, \<open>multihash.rs\<close> and
  \<open>hashlink.rs\<close>. The byte encoders of the packages \<open>bs58\<close>, \<open>base64ct\<close> and \<open>unsigned_varint\<close> are
  parameters; \<open>codec_laws\<close> states what their documentation promises. Bytes are characters.
\<close>

type_synonym bytes = "char list"

section \<open>The byte encoders\<close>

record codecs =
  bs58_encode :: "bytes \<Rightarrow> string" \<comment> \<open>Bitcoin alphabet\<close>
  bs58_decode :: "string \<Rightarrow> bytes option"
  base64url_encode :: "bytes \<Rightarrow> string" \<comment> \<open>without padding\<close>
  base64url_decode :: "string \<Rightarrow> bytes option"
  varint_encode :: "nat \<Rightarrow> bytes"
  varint_decode :: "bytes \<Rightarrow> (nat \<times> bytes) option"

definition is_base58_char :: "char \<Rightarrow> bool" where
  "is_base58_char c \<longleftrightarrow>
     is_lower c \<and> c \<noteq> CHR ''l'' \<or> is_upper c \<and> c \<noteq> CHR ''I'' \<and> c \<noteq> CHR ''O'' \<or> is_digit c \<and> c \<noteq> CHR ''0''"

text \<open>Encoders are left inverses of decoders, base 58 uses its alphabet and encodes some bytes to
  some characters, and a decoded number leaves the bytes after it. Codes are \<open>u128\<close>.\<close>

definition codec_laws :: "codecs \<Rightarrow> bool" where
  "codec_laws L \<longleftrightarrow>
     (\<forall>b. bs58_decode L (bs58_encode L b) = Some b) \<and>
     (\<forall>b. list_all is_base58_char (bs58_encode L b)) \<and>
     (\<forall>b. base64url_decode L (base64url_encode L b) = Some b) \<and>
     (\<forall>n b. n < 2 ^ 128 \<longrightarrow> varint_decode L (varint_encode L n @ b) = Some (n, b)) \<and>
     (\<forall>n. varint_encode L n \<noteq> []) \<and>
     (\<forall>b. b \<noteq> [] \<longrightarrow> bs58_encode L b \<noteq> [])"

lemma codec_lawsD:
  assumes "codec_laws L"
  shows "bs58_decode L (bs58_encode L b) = Some b" "list_all is_base58_char (bs58_encode L b)"
    "base64url_decode L (base64url_encode L b) = Some b"
    "n < 2 ^ 128 \<Longrightarrow> varint_decode L (varint_encode L n @ b) = Some (n, b)"
    "varint_encode L n \<noteq> []" "b \<noteq> [] \<Longrightarrow> bs58_encode L b \<noteq> []"
  using assms by (simp_all add: codec_laws_def)

section \<open>Multibase\<close>

datatype multibase = Base58Btc | Base64UrlNoPad

datatype multibase_error = InvalidBaseString | UnknownBase | Base58Error | Base64Error

fun multibase_encode :: "codecs \<Rightarrow> multibase \<Rightarrow> bytes \<Rightarrow> string" where
  "multibase_encode L Base58Btc value = ''z'' @ bs58_encode L value"
| "multibase_encode L Base64UrlNoPad value = ''u'' @ base64url_encode L value"

fun multibase_decode :: "codecs \<Rightarrow> string \<Rightarrow> (multibase_error, multibase \<times> bytes) outcome" where
  "multibase_decode L [] = Err InvalidBaseString"
| "multibase_decode L (c # encoded_data) =
     (if c = CHR ''z'' then
        obind (ok_or Base58Error (bs58_decode L encoded_data)) (\<lambda>data. Ok (Base58Btc, data))
      else if c = CHR ''u'' then
        obind (ok_or Base64Error (base64url_decode L encoded_data)) (\<lambda>data. Ok (Base64UrlNoPad, data))
      else Err UnknownBase)"

text \<open>\<open>decode_exact\<close> tests \<open>matches!(self, _encoding)\<close>: the pattern \<open>_encoding\<close> is a fresh binding,
  which every value matches, so the test never fails and the base is not compared.\<close>

definition multibase_decode_exact ::
  "codecs \<Rightarrow> multibase \<Rightarrow> string \<Rightarrow> (multibase_error, bytes) outcome" where
  "multibase_decode_exact L self value =
     obind (multibase_decode L value) (\<lambda>(encoding, data).
       if \<not> (case self of _ \<Rightarrow> True) then Err UnknownBase else Ok data)"

section \<open>Multicodec\<close>

datatype multicodec = Sha256 | Ed25519Pub | Ed25519Priv | RsaPub | RsaPriv

datatype multicodec_error = MulticodecError

fun multicodec_code :: "multicodec \<Rightarrow> nat" where
  "multicodec_code Sha256 = 0x12"
| "multicodec_code Ed25519Pub = 0xed"
| "multicodec_code Ed25519Priv = 0x1300"
| "multicodec_code RsaPub = 0x1205"
| "multicodec_code RsaPriv = 0x1305"

definition multicodec_from_code :: "nat \<Rightarrow> (multicodec_error, multicodec) outcome" where
  "multicodec_from_code code =
     (if code = 0x12 then Ok Sha256
      else if code = 0xed then Ok Ed25519Pub
      else if code = 0x1300 then Ok Ed25519Priv
      else if code = 0x1205 then Ok RsaPub
      else if code = 0x1305 then Ok RsaPriv
      else Err MulticodecError)"

definition multicodec_encode :: "codecs \<Rightarrow> multicodec \<Rightarrow> bytes \<Rightarrow> bytes" where
  "multicodec_encode L self data = varint_encode L (multicodec_code self) @ data"

definition varint_prefixed :: "codecs \<Rightarrow> bytes \<Rightarrow> (multicodec_error, nat \<times> bytes) outcome" where
  "varint_prefixed L value = ok_or MulticodecError (varint_decode L value)"

definition multicodec_decode_exact ::
  "codecs \<Rightarrow> multicodec \<Rightarrow> bytes \<Rightarrow> (multicodec_error, bytes) outcome" where
  "multicodec_decode_exact L self value =
     obind (varint_prefixed L value) (\<lambda>(code, data).
       if code \<noteq> multicodec_code self then Err MulticodecError else Ok data)"

definition multicodec_decode ::
  "codecs \<Rightarrow> bytes \<Rightarrow> (multicodec_error, multicodec \<times> bytes) outcome" where
  "multicodec_decode L value =
     obind (varint_prefixed L value) (\<lambda>(code, data).
     obind (multicodec_from_code code) (\<lambda>codec. Ok (codec, data)))"

section \<open>Multihash\<close>

datatype multihash_error = MhMultibaseError multibase_error | MhMulticodecError multicodec_error | InvalidLength

definition encode_digest :: "codecs \<Rightarrow> bytes \<Rightarrow> bytes" where
  "encode_digest L data = varint_encode L (length data) @ data"

definition encode_sha256_multihash :: "codecs \<Rightarrow> bytes \<Rightarrow> string" where
  "encode_sha256_multihash L digest =
     multibase_encode L Base58Btc (multicodec_encode L Sha256 (encode_digest L digest))"

text \<open>\<open>digest.try_into()\<close> into \<open>[u8; 32]\<close> checks the length.\<close>

definition decode_sha256_multihash :: "codecs \<Rightarrow> string \<Rightarrow> (multihash_error, bytes) outcome" where
  "decode_sha256_multihash L value =
     obind (map_err MhMultibaseError (multibase_decode_exact L Base58Btc value)) (\<lambda>digest_multicode.
     obind (map_err MhMulticodecError (multicodec_decode_exact L Sha256 digest_multicode)) (\<lambda>digest_sized.
     obind (map_err MhMulticodecError (varint_prefixed L digest_sized)) (\<lambda>(size, digest).
     if size \<noteq> 32 then Err InvalidLength
     else if length digest \<noteq> 32 then Err InvalidLength
     else Ok digest)))"

section \<open>Hashlinks\<close>

datatype hashlink_error = InvalidUri | HlMultihashError multihash_error

record hashlink = hl_digest :: bytes

definition is_alnum :: "char \<Rightarrow> bool" where
  "is_alnum c \<longleftrightarrow> is_lower c \<or> is_upper c \<or> is_digit c"

definition hashlink_parse :: "codecs \<Rightarrow> string \<Rightarrow> (hashlink_error, hashlink) outcome" where
  "hashlink_parse L value =
     (case strip_prefix ''hl:'' value of
        Some multihash \<Rightarrow>
          if multihash \<noteq> [] \<and> list_all is_alnum multihash
          then obind (map_err HlMultihashError (decode_sha256_multihash L multihash)) (\<lambda>digest.
               Ok \<lparr>hl_digest = digest\<rparr>)
          else Err InvalidUri
      | None \<Rightarrow> Err InvalidUri)"

definition hashlink_to_string :: "codecs \<Rightarrow> hashlink \<Rightarrow> string" where
  "hashlink_to_string L h = ''hl:'' @ encode_sha256_multihash L (hl_digest h)"

section \<open>Properties\<close>

lemma multibase_roundtrip: "codec_laws L \<Longrightarrow> multibase_decode L (multibase_encode L b data) = Ok (b, data)"
  by (cases b) (simp_all add: codec_lawsD)

lemma multibase_exact_roundtrip:
  "codec_laws L \<Longrightarrow> multibase_decode_exact L b (multibase_encode L b data) = Ok data"
  by (simp add: multibase_decode_exact_def multibase_roundtrip)

lemma multibase_exact_any: "codec_laws L \<Longrightarrow> multibase_decode_exact L b (multibase_encode L b' data) = Ok data"
  by (simp add: multibase_decode_exact_def multibase_roundtrip)

lemma multicodec_code_inverse [simp]: "multicodec_from_code (multicodec_code c) = Ok c"
  by (cases c) (simp_all add: multicodec_from_code_def)

lemma multicodec_from_code_Ok [ok_runs]: "multicodec_from_code n = Ok c \<longleftrightarrow> n = multicodec_code c"
  by (cases c) (auto simp: multicodec_from_code_def split: if_splits)

lemma multicodec_code_bound: "multicodec_code c < 2 ^ 128"
  by (cases c) simp_all

lemma varint_code: "codec_laws L \<Longrightarrow> varint_decode L (varint_encode L (multicodec_code c) @ b) = Some (multicodec_code c, b)"
  by (rule codec_lawsD(4) [OF _ multicodec_code_bound])

lemma multicodec_roundtrip: "codec_laws L \<Longrightarrow> multicodec_decode L (multicodec_encode L c data) = Ok (c, data)"
  by (simp add: multicodec_decode_def multicodec_encode_def varint_prefixed_def varint_code)

lemma multicodec_exact_roundtrip:
  "codec_laws L \<Longrightarrow> multicodec_decode_exact L c (multicodec_encode L c' data) =
     (if c = c' then Ok data else Err MulticodecError)"
proof -
  have "multicodec_code c' = multicodec_code c \<longleftrightarrow> c = c'" by (cases c; cases c') auto
  then show "codec_laws L \<Longrightarrow> ?thesis"
    by (simp add: multicodec_decode_exact_def multicodec_encode_def varint_prefixed_def varint_code)
qed

lemma multihash_roundtrip:
  "codec_laws L \<Longrightarrow> length digest = 32 \<Longrightarrow>
     decode_sha256_multihash L (encode_sha256_multihash L digest) = Ok digest"
  by (simp add: decode_sha256_multihash_def encode_sha256_multihash_def multibase_exact_roundtrip
      multicodec_exact_roundtrip encode_digest_def varint_prefixed_def codec_lawsD
      del: multibase_encode.simps)

lemma base58_alnum: "is_base58_char c \<Longrightarrow> is_alnum c"
  by (auto simp: is_base58_char_def is_alnum_def)

lemma hashlink_roundtrip:
  assumes "codec_laws L" and "length (hl_digest h) = 32"
  shows "hashlink_parse L (hashlink_to_string L h) = Ok h"
proof -
  let ?m = "encode_sha256_multihash L (hl_digest h)"
  have "?m \<noteq> [] \<and> list_all is_alnum ?m"
    using codec_lawsD(2) [OF assms(1)] base58_alnum
    by (auto simp: encode_sha256_multihash_def list_all_iff is_alnum_def is_lower_def)
  then show ?thesis
    by (simp add: hashlink_parse_def hashlink_to_string_def strip_prefix_def multihash_roundtrip [OF assms])
qed

end
