(* ===== verification/Dids.thy ===== *)
theory Dids
  imports Multiformats
begin

text \<open>
  Account and asset identifiers (\<open>apx_core/src/caip10.rs\<close>, \<open>caip19.rs\<close>) and decentralized identifiers
  (\<open>did.rs\<close>, \<open>did_key.rs\<close>, \<open>did_pkh.rs\<close>). Expressions without anchors are searched for their leftmost
  match, as \<open>Regex::captures\<close> does.
\<close>

section \<open>Expressions\<close>

fun leftmost :: "(string \<Rightarrow> 'a option) \<Rightarrow> string \<Rightarrow> 'a option" where
  "leftmost m [] = m []"
| "leftmost m (c # cs) = (case m (c # cs) of Some x \<Rightarrow> Some x | None \<Rightarrow> leftmost m cs)"

lemma leftmost_here: "m s = Some x \<Longrightarrow> leftmost m s = Some x"
  by (cases s) auto

lemma leftmost_Some: "leftmost m s = Some x \<Longrightarrow> \<exists>t. m t = Some x"
  by (induction s) (auto split: option.splits)

definition is_alpha :: "char \<Rightarrow> bool" where
  "is_alpha c \<longleftrightarrow> is_lower c \<or> is_upper c"

definition caip_address_char :: "char \<Rightarrow> bool" where
  "caip_address_char c \<longleftrightarrow> c \<in> {CHR ''-'', CHR ''.'', CHR ''%''} \<or> is_lower c \<or> is_upper c \<or> is_digit c"

text \<open>\<open>CAIP2_RE\<close> followed by a separator that is in neither of its classes, so both groups are whole
  runs of their class.\<close>

definition caip2_then :: "char \<Rightarrow> string \<Rightarrow> (string \<times> string \<times> string) option" where
  "caip2_then sep s =
     (let ns = takeWhile caip2_namespace_char s in
      case drop (length ns) s of
        c # rs \<Rightarrow>
          (let r = takeWhile caip2_reference_char rs in
           case drop (length r) rs of
             c' # rest \<Rightarrow>
               if c = CHR '':'' \<and> c' = sep \<and> 3 \<le> length ns \<and> length ns \<le> 8 \<and> r \<noteq> [] \<and> length r \<le> 32
               then Some (ns, r, rest) else None
           | [] \<Rightarrow> None)
      | [] \<Rightarrow> None)"

lemma takeWhile_run: "list_all P r \<Longrightarrow> \<not> P x \<Longrightarrow> takeWhile P (r @ x # s) = r"
  by (induction r) auto

lemma caip2_then_printed:
  assumes "wf_chain_id c" and "\<not> caip2_reference_char sep"
  shows "caip2_then sep (chain_id_to_string c @ sep # rest) =
    Some (namespace_to_string (namespace c), reference c, rest)"
proof -
  have r: "reference c \<noteq> [] \<and> length (reference c) \<le> 32 \<and> list_all caip2_reference_char (reference c)"
    using assms(1) by (auto simp: wf_chain_id_def list_all_iff is_digit_reference_char
        is_hex_lower_reference_char split: namespace.splits)
  then have "takeWhile caip2_reference_char (reference c @ sep # rest) = reference c"
    using assms(2) by (simp add: takeWhile_run)
  moreover have "takeWhile caip2_namespace_char (namespace_to_string n @ CHR '':'' # s) = namespace_to_string n" for n s
    by (cases n) (simp_all add: caip2_namespace_char_def is_lower_def is_digit_def)
  moreover have "3 \<le> length (namespace_to_string n) \<and> length (namespace_to_string n) \<le> 8" for n
    by (cases n) simp_all
  ultimately show ?thesis using r by (simp add: caip2_then_def chain_id_to_string_def Let_def)
qed

section \<open>Account identifiers\<close>

record account_id =
  ai_chain_id :: chain_id
  ai_address :: string

datatype account_id_error = AccountIdError

definition account_id_to_string :: "account_id \<Rightarrow> string" where
  "account_id_to_string a = chain_id_to_string (ai_chain_id a) @ '':'' @ ai_address a"

definition caip10_match_here :: "string \<Rightarrow> (string \<times> string \<times> string) option" where
  "caip10_match_here s = Option.bind (caip2_then (CHR '':'') s) (\<lambda>(ns, r, rest).
     (let address = take 128 (takeWhile caip_address_char rest) in
      if address \<noteq> [] then Some (ns, r, address) else None))"

definition account_id_from_str :: "string \<Rightarrow> (account_id_error, account_id) outcome" where
  "account_id_from_str value =
     obind (ok_or AccountIdError (leftmost caip10_match_here value)) (\<lambda>(ns, r, address).
     obind (map_err (\<lambda>_. AccountIdError) (chain_id_new ns r)) (\<lambda>c.
     Ok \<lparr>ai_chain_id = c, ai_address = address\<rparr>))"

definition account_id_to_uri :: "account_id \<Rightarrow> string" where
  "account_id_to_uri a = ''caip:10:'' @ account_id_to_string a"

definition account_id_from_uri :: "string \<Rightarrow> (account_id_error, account_id) outcome" where
  "account_id_from_uri uri =
     obind (ok_or AccountIdError (strip_prefix ''caip:10:'' uri)) account_id_from_str"

definition wf_account_id :: "account_id \<Rightarrow> bool" where
  "wf_account_id a \<longleftrightarrow> wf_chain_id (ai_chain_id a) \<and> ai_address a \<noteq> [] \<and> length (ai_address a) \<le> 128
     \<and> list_all caip_address_char (ai_address a)"

lemma account_id_print_parse:
  assumes "wf_account_id a"
  shows "account_id_from_str (account_id_to_string a) = Ok a"
proof -
  have addr: "takeWhile caip_address_char (ai_address a) = ai_address a"
    unfolding takeWhile_eq_all_conv using assms by (simp add: wf_account_id_def list_all_iff)
  have "\<not> caip2_reference_char (CHR '':'')"
    by (simp add: caip2_reference_char_def is_lower_def is_upper_def is_digit_def)
  then have "caip10_match_here (account_id_to_string a) =
      Some (namespace_to_string (namespace (ai_chain_id a)), reference (ai_chain_id a), ai_address a)"
    using assms caip2_then_printed [of "ai_chain_id a" "CHR '':''" "ai_address a"]
    by (simp add: caip10_match_here_def account_id_to_string_def wf_account_id_def addr)
  with assms show ?thesis
    by (simp add: account_id_from_str_def leftmost_here chain_id_new_wf wf_account_id_def)
qed

lemma account_id_uri_roundtrip: "wf_account_id a \<Longrightarrow> account_id_from_uri (account_id_to_uri a) = Ok a"
  by (simp add: account_id_from_uri_def account_id_to_uri_def strip_prefix_def account_id_print_parse)

section \<open>Asset types\<close>

record asset_type =
  at_chain_id :: chain_id
  at_namespace :: string
  at_reference :: string

datatype asset_type_error = AssetTypeError

definition chain_id_to_slip44 :: "chain_id \<Rightarrow> nat option" where
  "chain_id_to_slip44 c =
     (if is_monero c then
        (case chain_monero_network c of
           Ok Mainnet \<Rightarrow> Some 128
         | Ok _ \<Rightarrow> Some 1
         | _ \<Rightarrow> if is_wownero_mainnet c then Some 417 else None)
      else None)"

definition asset_type_new :: "chain_id \<Rightarrow> string \<Rightarrow> string \<Rightarrow> (asset_type_error, asset_type) outcome" where
  "asset_type_new c asset_namespace asset_reference =
     (if is_monero c then
        obind (ok_or AssetTypeError (chain_id_to_slip44 c)) (\<lambda>coin_type.
        if asset_namespace \<noteq> ''slip44'' \<or> asset_reference \<noteq> show_nat coin_type then Err AssetTypeError
        else Ok \<lparr>at_chain_id = c, at_namespace = asset_namespace, at_reference = asset_reference\<rparr>)
      else Err AssetTypeError)"

definition asset_type_monero :: "chain_id \<Rightarrow> (asset_type_error, asset_type) outcome" where
  "asset_type_monero c =
     (if \<not> is_monero c then Err AssetTypeError
      else obind (ok_or AssetTypeError (chain_id_to_slip44 c)) (\<lambda>coin_type.
        Ok \<lparr>at_chain_id = c, at_namespace = ''slip44'', at_reference = show_nat coin_type\<rparr>))"

definition asset_is_monero :: "asset_type \<Rightarrow> bool" where
  "asset_is_monero a \<longleftrightarrow>
     is_monero (at_chain_id a) \<and> at_namespace a = ''slip44'' \<and> at_reference a = show_nat 128"

definition asset_type_to_string :: "asset_type \<Rightarrow> string" where
  "asset_type_to_string a =
     chain_id_to_string (at_chain_id a) @ ''/'' @ at_namespace a @ '':'' @ at_reference a"

definition caip19_match_here :: "string \<Rightarrow> (string \<times> string \<times> string \<times> string) option" where
  "caip19_match_here s = Option.bind (caip2_then (CHR ''/'') s) (\<lambda>(ns, r, rest).
     (let an = takeWhile caip2_namespace_char rest in
      case drop (length an) rest of
        c # rs \<Rightarrow>
          (let ar = take 128 (takeWhile caip_address_char rs) in
           if c = CHR '':'' \<and> 3 \<le> length an \<and> length an \<le> 8 \<and> ar \<noteq> [] then Some (ns, r, an, ar) else None)
      | [] \<Rightarrow> None))"

definition asset_type_from_str :: "string \<Rightarrow> (asset_type_error, asset_type) outcome" where
  "asset_type_from_str value =
     obind (ok_or AssetTypeError (leftmost caip19_match_here value)) (\<lambda>(ns, r, an, ar).
     obind (map_err (\<lambda>_. AssetTypeError) (chain_id_new ns r)) (\<lambda>c. asset_type_new c an ar))"

definition asset_type_to_uri :: "asset_type \<Rightarrow> string" where
  "asset_type_to_uri a = ''caip:19:'' @ asset_type_to_string a"

definition asset_type_from_uri :: "string \<Rightarrow> (asset_type_error, asset_type) outcome" where
  "asset_type_from_uri uri =
     obind (ok_or AssetTypeError (strip_prefix ''caip:19:'' uri)) asset_type_from_str"

text \<open>The constructors agree: \<open>monero\<close> builds what \<open>new\<close> accepts, and nothing else passes.\<close>

lemma asset_type_new_Ok:
  "asset_type_new c an ar = Ok a \<longleftrightarrow> asset_type_monero c = Ok a \<and> an = at_namespace a \<and> ar = at_reference a"
  by (auto simp: asset_type_new_def asset_type_monero_def ok_runs split: if_splits)

lemma slip44_codes: "chain_id_to_slip44 c = Some n \<Longrightarrow> is_monero c \<and> n \<in> {1, 128, 417}"
  by (auto simp: chain_id_to_slip44_def split: if_splits outcome.splits monero_network.splits)

lemma slip44_digits: "show_nat 1 = ''1''" "show_nat 128 = ''128''" "show_nat 417 = ''417''"
  by code_simp+

lemma asset_type_roundtrip:
  assumes "asset_type_monero c = Ok a" and "wf_chain_id c"
  shows "asset_type_from_uri (asset_type_to_uri a) = Ok a"
proof -
  obtain n where n: "n \<in> {1, 128, 417}"
    and a: "a = \<lparr>at_chain_id = c, at_namespace = ''slip44'', at_reference = show_nat n\<rparr>"
    using assms(1) slip44_codes by (auto simp: asset_type_monero_def ok_runs split: if_splits)
  have sep: "\<not> caip2_reference_char (CHR ''/'')"
    by (simp add: caip2_reference_char_def is_lower_def is_upper_def is_digit_def)
  have ref: "show_nat n \<in> {''1'', ''128'', ''417''}" using n slip44_digits by auto
  have run: "takeWhile caip2_namespace_char (''slip44'' @ CHR '':'' # s) = ''slip44''" for s
    by (simp add: caip2_namespace_char_def is_lower_def is_digit_def)
  have run2: "takeWhile caip_address_char (show_nat n) = show_nat n" "length (show_nat n) \<le> 128" "show_nat n \<noteq> []"
    using ref by (auto simp: caip_address_char_def is_digit_def)
  have "caip19_match_here (asset_type_to_string a) =
      Some (namespace_to_string (namespace c), reference c, ''slip44'', show_nat n)"
    using caip2_then_printed [OF assms(2) sep, of "''slip44'' @ CHR '':'' # show_nat n"] run [of "show_nat n"]
    by (simp add: caip19_match_here_def asset_type_to_string_def a run2)
  then have "asset_type_from_str (asset_type_to_string a) = asset_type_new c ''slip44'' (show_nat n)"
    using chain_id_new_wf [OF assms(2)] by (simp add: asset_type_from_str_def leftmost_here)
  also have "\<dots> = Ok a" using assms(1) by (simp add: asset_type_new_Ok a)
  finally show ?thesis by (simp add: asset_type_from_uri_def asset_type_to_uri_def strip_prefix_def)
qed

section \<open>Decentralized identifiers\<close>

datatype did_parse_error = DidParseError

record did_key =
  kd_codec :: multicodec
  kd_key_data :: bytes

datatype did = DidKey did_key | DidPkh account_id

definition key_multibase :: "codecs \<Rightarrow> did_key \<Rightarrow> string" where
  "key_multibase L k = multibase_encode L Base58Btc (multicodec_encode L (kd_codec k) (kd_key_data k))"

definition did_key_to_string :: "codecs \<Rightarrow> did_key \<Rightarrow> string" where
  "did_key_to_string L k = ''did:key:'' @ key_multibase L k"

definition did_key_verification_method_id :: "codecs \<Rightarrow> did_key \<Rightarrow> string" where
  "did_key_verification_method_id L k = did_key_to_string L k @ ''#'' @ key_multibase L k"

definition did_key_from_ed25519 :: "bytes \<Rightarrow> did_key" where
  "did_key_from_ed25519 key = \<lparr>kd_codec = Ed25519Pub, kd_key_data = key\<rparr>"

text \<open>\<open>key_ok\<close> is \<open>ed25519_public_key_from_bytes(b).is_ok()\<close> of the curve package.\<close>

definition try_ed25519_key :: "(bytes \<Rightarrow> bool) \<Rightarrow> did_key \<Rightarrow> (multicodec_error, bytes) outcome" where
  "try_ed25519_key key_ok k =
     (if kd_codec k \<noteq> Ed25519Pub then Err MulticodecError
      else if \<not> key_ok (kd_key_data k) then Err MulticodecError
      else Ok (kd_key_data k))"

text \<open>\<open>did:key:(z[a-km-zA-HJ-NP-Z1-9]+)\<close>, searched: text around the match is not examined.\<close>

definition did_key_match_here :: "string \<Rightarrow> string option" where
  "did_key_match_here s = Option.bind (strip_prefix ''did:key:z'' s) (\<lambda>rest.
     (let k = takeWhile is_base58_char rest in if k = [] then None else Some (CHR ''z'' # k)))"

definition did_key_from_str :: "codecs \<Rightarrow> string \<Rightarrow> (did_parse_error, did_key) outcome" where
  "did_key_from_str L value =
     obind (ok_or DidParseError (leftmost did_key_match_here value)) (\<lambda>key.
     obind (map_err (\<lambda>_. DidParseError) (multibase_decode_exact L Base58Btc key)) (\<lambda>multidata.
     obind (map_err (\<lambda>_. DidParseError) (multicodec_decode L multidata)) (\<lambda>(codec, key_data).
     Ok \<lparr>kd_codec = codec, kd_key_data = key_data\<rparr>)))"

definition did_pkh_to_string :: "account_id \<Rightarrow> string" where
  "did_pkh_to_string a = ''did:pkh:'' @ account_id_to_string a"

definition did_pkh_verification_method_id :: "account_id \<Rightarrow> string" where
  "did_pkh_verification_method_id a = did_pkh_to_string a @ ''#blockchainAccountId''"

definition did_pkh_from_str :: "string \<Rightarrow> (did_parse_error, account_id) outcome" where
  "did_pkh_from_str value =
     obind (ok_or DidParseError (strip_prefix ''did:pkh:'' value)) (\<lambda>account.
     map_err (\<lambda>_. DidParseError) (account_id_from_str account))"

definition did_char :: "char \<Rightarrow> bool" where
  "did_char c \<longleftrightarrow> c \<in> {CHR ''.'', CHR ''_'', CHR '':'', CHR ''-''} \<or> is_alnum c"

text \<open>\<open>^did:(alpha+):[A-Za-z0-9._:-]+$\<close>; the colon ends the run of letters.\<close>

definition did_method :: "string \<Rightarrow> string option" where
  "did_method s = Option.bind (strip_prefix ''did:'' s) (\<lambda>rest.
     (let m = takeWhile is_alpha rest in
      case drop (length m) rest of
        c # ident \<Rightarrow> if c = CHR '':'' \<and> m \<noteq> [] \<and> ident \<noteq> [] \<and> list_all did_char ident then Some m else None
      | [] \<Rightarrow> None))"

definition did_from_str :: "codecs \<Rightarrow> string \<Rightarrow> (did_parse_error, did) outcome" where
  "did_from_str L value =
     obind (ok_or DidParseError (did_method value)) (\<lambda>m.
     if m = ''key'' then obind (did_key_from_str L value) (\<lambda>k. Ok (DidKey k))
     else if m = ''pkh'' then obind (did_pkh_from_str value) (\<lambda>a. Ok (DidPkh a))
     else Err DidParseError)"

fun did_to_string :: "codecs \<Rightarrow> did \<Rightarrow> string" where
  "did_to_string L (DidKey k) = did_key_to_string L k"
| "did_to_string L (DidPkh a) = did_pkh_to_string a"

fun did_method_name :: "did \<Rightarrow> string" where
  "did_method_name (DidKey k) = ''key''"
| "did_method_name (DidPkh a) = ''pkh''"

fun did_identifier :: "codecs \<Rightarrow> did \<Rightarrow> string" where
  "did_identifier L (DidKey k) = key_multibase L k"
| "did_identifier L (DidPkh a) = account_id_to_string a"

fun as_did_key :: "did \<Rightarrow> did_key option" where
  "as_did_key (DidKey k) = Some k"
| "as_did_key (DidPkh a) = None"

fun as_did_pkh :: "did \<Rightarrow> account_id option" where
  "as_did_pkh (DidPkh a) = Some a"
| "as_did_pkh (DidKey k) = None"

section \<open>Properties of identifiers\<close>

lemma did_to_string_parts: "did_to_string L d = ''did:'' @ did_method_name d @ '':'' @ did_identifier L d"
  by (cases d) (simp_all add: did_key_to_string_def did_pkh_to_string_def)

lemma key_multibase_shape:
  assumes "codec_laws L"
  shows "\<exists>k. key_multibase L x = CHR ''z'' # k \<and> k \<noteq> [] \<and> list_all is_base58_char k"
  using codec_lawsD(2,5,6) [OF assms] by (simp add: key_multibase_def multicodec_encode_def)

lemma did_key_captures_trailing:
  assumes "codec_laws L" and "junk = [] \<or> \<not> is_base58_char (hd junk)"
  shows "leftmost did_key_match_here (did_key_to_string L k @ junk) = Some (key_multibase L k)"
proof -
  obtain b where b: "key_multibase L k = CHR ''z'' # b" "b \<noteq> []" "list_all is_base58_char b"
    using key_multibase_shape [OF assms(1)] by blast
  have "takeWhile is_base58_char (b @ junk) = b"
    using assms(2) b(3) by (cases junk) (auto simp: takeWhile_run takeWhile_eq_all_conv list_all_iff)
  with b show ?thesis
    by (intro leftmost_here) (simp add: did_key_match_here_def did_key_to_string_def strip_prefix_def)
qed

lemma did_key_from_captures:
  "codec_laws L \<Longrightarrow> leftmost did_key_match_here s = Some (key_multibase L k) \<Longrightarrow> did_key_from_str L s = Ok k"
  by (simp add: did_key_from_str_def key_multibase_def multibase_exact_roundtrip multicodec_roundtrip
      del: multibase_encode.simps)

lemma did_method_printed:
  assumes "codec_laws L"
  shows "did_method (did_key_to_string L k) = Some ''key''"
proof -
  obtain b where b: "key_multibase L k = CHR ''z'' # b" "b \<noteq> []" "list_all is_base58_char b"
    using key_multibase_shape [OF assms] by blast
  then have "list_all did_char (key_multibase L k)"
    using base58_alnum by (auto simp: list_all_iff did_char_def is_alnum_def is_lower_def)
  with b show ?thesis
    by (simp add: did_method_def did_key_to_string_def strip_prefix_def Let_def is_alpha_def is_lower_def
        is_upper_def)
qed

lemma did_key_print_parse: "codec_laws L \<Longrightarrow> did_from_str L (did_to_string L (DidKey k)) = Ok (DidKey k)"
  using did_key_captures_trailing [of L "[]" k]
  by (simp add: did_from_str_def did_method_printed did_key_from_captures)

lemma did_char_of_address: "caip_address_char c \<Longrightarrow> c \<noteq> CHR ''%'' \<Longrightarrow> did_char c"
  by (auto simp: caip_address_char_def did_char_def is_alnum_def)

lemma did_pkh_print_parse:
  assumes "wf_account_id a" and "CHR ''%'' \<notin> set (ai_address a)"
  shows "did_from_str L (did_to_string L (DidPkh a)) = Ok (DidPkh a)"
proof -
  let ?c = "ai_chain_id a"
  have "list_all did_char (reference ?c)"
    using assms(1) by (auto simp: wf_account_id_def wf_chain_id_def list_all_iff did_char_def is_alnum_def
        is_hex_lower_def is_digit_def is_lower_def split: namespace.splits)
  moreover have "list_all did_char (namespace_to_string n)" for n
    by (cases n) (simp_all add: did_char_def is_alnum_def is_lower_def is_digit_def)
  moreover have "list_all did_char (ai_address a)"
    using assms did_char_of_address unfolding list_all_iff wf_account_id_def by metis
  ultimately have "list_all did_char (account_id_to_string a)"
    by (simp add: account_id_to_string_def chain_id_to_string_def did_char_def)
  moreover have "account_id_to_string a \<noteq> []" by (simp add: account_id_to_string_def)
  ultimately have "did_method (did_pkh_to_string a) = Some ''pkh''"
    by (simp add: did_method_def did_pkh_to_string_def strip_prefix_def Let_def is_alpha_def is_lower_def
        is_upper_def)
  with assms(1) show ?thesis
    by (simp add: did_from_str_def did_pkh_from_str_def strip_prefix_def did_pkh_to_string_def
        account_id_print_parse)
qed

text \<open>\<open>DidPkh\<close> accepts an address with a percent sign, the general parser does not.\<close>

lemma did_pkh_reparse: "wf_account_id a \<Longrightarrow> did_pkh_from_str (did_pkh_to_string a) = Ok a"
  by (simp add: did_pkh_from_str_def strip_prefix_def did_pkh_to_string_def account_id_print_parse)

lemma did_pkh_percent:
  assumes "CHR ''%'' \<in> set (ai_address a)"
  shows "did_from_str L (did_to_string L (DidPkh a)) = Err DidParseError"
proof -
  have "\<not> did_char (CHR ''%'')"
    by (simp add: did_char_def is_alnum_def is_lower_def is_upper_def is_digit_def)
  with assms have "\<not> list_all did_char (ai_address a)" by (metis list_all_iff)
  then have "\<not> list_all did_char (account_id_to_string a)" by (simp add: account_id_to_string_def)
  then have "did_method (did_pkh_to_string a) = None"
    by (simp add: did_method_def did_pkh_to_string_def strip_prefix_def Let_def is_alpha_def is_lower_def is_upper_def)
  then show ?thesis by (simp add: did_from_str_def)
qed

text \<open>The search inside a \<open>did:key\<close> accepts text after the key and drops it.\<close>

lemma did_key_trailing:
  assumes "codec_laws L" and "junk \<noteq> []" and "list_all did_char junk" and "\<not> is_base58_char (hd junk)"
  shows "did_from_str L (did_to_string L (DidKey k) @ junk) = Ok (DidKey k)"
proof -
  obtain b where b: "key_multibase L k = CHR ''z'' # b" "b \<noteq> []" "list_all is_base58_char b"
    using key_multibase_shape [OF assms(1)] by blast
  then have "list_all did_char (key_multibase L k)"
    using base58_alnum by (auto simp: list_all_iff did_char_def is_alnum_def is_lower_def)
  with assms(3) b(1) have "did_method (did_key_to_string L k @ junk) = Some ''key''"
    by (simp add: did_method_def did_key_to_string_def strip_prefix_def Let_def is_alpha_def is_lower_def
        is_upper_def)
  then show ?thesis
    using did_key_captures_trailing [of L junk k] assms by (simp add: did_from_str_def did_key_from_captures)
qed

end
