(* ===== verification/Uris.thy ===== *)
theory Uris
  imports Dids Profiles
begin

text \<open>
  URIs of the federation layer (\<open>apx_core/src/url\<close>: \<open>common.rs\<close>, \<open>http_uri.rs\<close>, \<open>ap_uri.rs\<close>,
  \<open>canonical.rs\<close>, and \<open>did_url.rs\<close>) and the conversions of stored URLs
  (\<open>mitra_activitypub/src/utils.rs\<close>). An object of a portable actor has a canonical \<open>ap\<close> URI, whose
  authority is a DID, and compatible HTTP URIs below the gateways that serve it.

  The grammar of RFC 3986 (\<open>iri_string\<close>), the WHATWG parser (\<open>url\<close>), percent encoding, query
  parsing and the curve are packages: they are the fields of \<open>uri_library\<close>, and \<open>uri_laws\<close> states
  what the code relies on.
\<close>

section \<open>The libraries\<close>

record absolute_uri =
  us_scheme :: string
  us_authority :: "string option"
  us_path :: string
  us_query :: "string option"
  us_fragment :: "string option"

record relative_ref =
  rr_authority :: "string option"
  rr_path :: string
  rr_query :: "string option"
  rr_fragment :: "string option"

record whatwg_url =
  wu_scheme :: string
  wu_has_host :: bool
  wu_string :: string

record uri_library =
  uri_from_str :: "string \<Rightarrow> absolute_uri option"
  authority_components :: "string \<Rightarrow> (string \<times> string option) option" \<comment> \<open>host and port\<close>
  relative_from_str :: "string \<Rightarrow> relative_ref option"
  whatwg_parse :: "string \<Rightarrow> whatwg_url option"
  percent_decode :: "string \<Rightarrow> string"
  percent_encode :: "string \<Rightarrow> string"
  form_pairs :: "string \<Rightarrow> (string \<times> string) list"
  ed25519_key_ok :: "bytes \<Rightarrow> bool"
  codecs_of :: codecs

definition with_mark :: "char \<Rightarrow> string option \<Rightarrow> string" where
  "with_mark c x = (case x of Some v \<Rightarrow> c # v | None \<Rightarrow> [])"

definition recompose_relative :: "relative_ref \<Rightarrow> string" where
  "recompose_relative r =
     (case rr_authority r of Some a \<Rightarrow> ''//'' @ a | None \<Rightarrow> [])
       @ rr_path r @ with_mark (CHR ''?'') (rr_query r) @ with_mark (CHR ''#'') (rr_fragment r)"

definition recompose :: "absolute_uri \<Rightarrow> string" where
  "recompose u = us_scheme u @ '':'' @
     (case us_authority u of Some a \<Rightarrow> ''//'' @ a | None \<Rightarrow> [])
       @ us_path u @ with_mark (CHR ''?'') (us_query u) @ with_mark (CHR ''#'') (us_fragment u)"

text \<open>A path that needs no escaping and cannot be read as an authority.\<close>

definition plain_path_char :: "char \<Rightarrow> bool" where
  "plain_path_char c \<longleftrightarrow> is_alnum c \<or> c \<in> {CHR ''-'', CHR ''_'', CHR ''/''}"

definition plain_path :: "string \<Rightarrow> bool" where
  "plain_path p \<longleftrightarrow> (\<exists>q. p = CHR ''/'' # q \<and> q \<noteq> [] \<and> hd q \<noteq> CHR ''/'') \<and> list_all plain_path_char p"

definition bare_uri :: "absolute_uri \<Rightarrow> bool" where
  "bare_uri u \<longleftrightarrow> us_authority u \<noteq> None \<and> us_path u = [] \<and> us_query u = None \<and> us_fragment u = None"

text \<open>A parsed reference prints as it was written; without its query it is still a reference; a
  plain path is a reference, and after a bare URI it is that URI with a path; decoding changes
  only percent signs.\<close>

definition uri_laws :: "uri_library \<Rightarrow> bool" where
  "uri_laws L \<longleftrightarrow>
     (\<forall>s u. uri_from_str L s = Some u \<longrightarrow> recompose u = s) \<and>
     (\<forall>s r. relative_from_str L s = Some r \<longrightarrow> recompose_relative r = s) \<and>
     (\<forall>s r. relative_from_str L s = Some r \<longrightarrow>
        relative_from_str L (recompose_relative (r\<lparr>rr_query := None\<rparr>)) = Some (r\<lparr>rr_query := None\<rparr>)) \<and>
     (\<forall>p. plain_path p \<longrightarrow> relative_from_str L p =
        Some \<lparr>rr_authority = None, rr_path = p, rr_query = None, rr_fragment = None\<rparr>) \<and>
     (\<forall>s u p. uri_from_str L s = Some u \<longrightarrow> bare_uri u \<longrightarrow> plain_path p \<longrightarrow>
        uri_from_str L (s @ p) = Some (u\<lparr>us_path := p\<rparr>)) \<and>
     (\<forall>s u w p. uri_from_str L s = Some u \<longrightarrow> bare_uri u \<longrightarrow> whatwg_parse L s = Some w \<longrightarrow> plain_path p \<longrightarrow>
        (\<exists>w'. whatwg_parse L (s @ p) = Some w' \<and> wu_scheme w' = wu_scheme w \<and> wu_has_host w' = wu_has_host w)) \<and>
     (\<forall>s. CHR ''%'' \<notin> set s \<longrightarrow> percent_decode L s = s) \<and>
     codec_laws (codecs_of L)"

lemma uri_lawsD:
  assumes "uri_laws L"
  shows "uri_from_str L s = Some u \<Longrightarrow> recompose u = s"
    "relative_from_str L s = Some r \<Longrightarrow> recompose_relative r = s"
    "relative_from_str L s = Some r \<Longrightarrow>
       relative_from_str L (recompose_relative (r\<lparr>rr_query := None\<rparr>)) = Some (r\<lparr>rr_query := None\<rparr>)"
    "plain_path p \<Longrightarrow> relative_from_str L p =
       Some \<lparr>rr_authority = None, rr_path = p, rr_query = None, rr_fragment = None\<rparr>"
    "uri_from_str L s = Some u \<Longrightarrow> bare_uri u \<Longrightarrow> plain_path p \<Longrightarrow> uri_from_str L (s @ p) = Some (u\<lparr>us_path := p\<rparr>)"
    "uri_from_str L s = Some u \<Longrightarrow> bare_uri u \<Longrightarrow> whatwg_parse L s = Some w \<Longrightarrow> plain_path p \<Longrightarrow>
       \<exists>w'. whatwg_parse L (s @ p) = Some w' \<and> wu_scheme w' = wu_scheme w \<and> wu_has_host w' = wu_has_host w"
    "CHR ''%'' \<notin> set s \<Longrightarrow> percent_decode L s = s" "codec_laws (codecs_of L)"
  using assms unfolding uri_laws_def by blast+

definition url_encode :: "uri_library \<Rightarrow> string \<Rightarrow> string" where
  "url_encode L input = percent_encode L input"

definition url_decode :: "uri_library \<Rightarrow> string \<Rightarrow> string" where
  "url_decode L input = percent_decode L input"

section \<open>Origins\<close>

datatype uri_origin = OriginTuple string string nat | OriginDid string

section \<open>HTTP URIs\<close>

definition parse_http_url_whatwg :: "uri_library \<Rightarrow> string \<Rightarrow> (string, whatwg_url) outcome" where
  "parse_http_url_whatwg L url =
     obind (ok_or ''invalid URL'' (whatwg_parse L url)) (\<lambda>u.
     if wu_scheme u \<noteq> ''http'' \<and> wu_scheme u \<noteq> ''https'' then Err ''invalid URL scheme''
     else if \<not> wu_has_host u then Err ''invalid HTTP URL''
     else Ok u)"

text \<open>\<open>u16::from_str\<close>: an optional plus sign, then at least one digit, below \<open>2 ^ 16\<close>.\<close>

definition parse_port_number :: "string \<Rightarrow> (string, nat) outcome" where
  "parse_port_number s = (let ds = (case s of (CHR ''+'') # cs \<Rightarrow> cs | _ \<Rightarrow> s) in
     if ds \<noteq> [] \<and> list_all is_digit ds \<and> digits_val ds < 2 ^ 16 then Ok (digits_val ds)
     else Err ''invalid port number'')"

text \<open>\<open>to_lowercase\<close>, on the ASCII characters a host of RFC 3986 consists of.\<close>

definition has_upper :: "string \<Rightarrow> bool" where
  "has_upper s \<longleftrightarrow> list_ex is_upper s"

text \<open>\<open>HttpUri\<close>: the URI with the components \<open>parse\<close> has checked, so that the accessors' \<open>expect\<close>
  calls hold by construction.\<close>

datatype http_scheme = SchemeHttp | SchemeHttps

fun scheme_str :: "http_scheme \<Rightarrow> string" where
  "scheme_str SchemeHttp = ''http''"
| "scheme_str SchemeHttps = ''https''"

record http_uri =
  hu_scheme :: http_scheme
  hu_authority :: string
  hu_host :: string
  hu_port :: "nat option"
  hu_path :: string
  hu_query :: "string option"
  hu_fragment :: "string option"

definition http_scheme_of :: "string \<Rightarrow> (string, http_scheme) outcome" where
  "http_scheme_of s =
     (if s = ''http'' then Ok SchemeHttp else if s = ''https'' then Ok SchemeHttps
      else Err ''invalid URI scheme'')"

definition transpose_port :: "string option \<Rightarrow> (string, nat option) outcome" where
  "transpose_port p = (case p of None \<Rightarrow> Ok None | Some s \<Rightarrow> obind (parse_port_number s) (\<lambda>n. Ok (Some n)))"

definition http_uri_parse :: "uri_library \<Rightarrow> string \<Rightarrow> (string, http_uri) outcome" where
  "http_uri_parse L value =
     obind (ok_or ''invalid URI'' (uri_from_str L value)) (\<lambda>u.
     obind (http_scheme_of (us_scheme u)) (\<lambda>scheme.
     let authority = (case us_authority u of Some a \<Rightarrow> a | None \<Rightarrow> []) in
     if authority = [] then Err ''invalid URI authority''
     else obind (ok_or ''invalid URI authority'' (authority_components L authority)) (\<lambda>(host, port).
     if has_upper host then Err ''invalid URI host''
     else obind (transpose_port port) (\<lambda>port_number.
     obind (parse_http_url_whatwg L value) (\<lambda>_.
     Ok \<lparr>hu_scheme = scheme, hu_authority = authority, hu_host = host, hu_port = port_number,
         hu_path = us_path u, hu_query = us_query u, hu_fragment = us_fragment u\<rparr>)))))"

definition http_uri_base :: "http_uri \<Rightarrow> string" where
  "http_uri_base u = scheme_str (hu_scheme u) @ ''://'' @ hu_authority u"

definition without_query_and_fragment :: "http_uri \<Rightarrow> string" where
  "without_query_and_fragment u = scheme_str (hu_scheme u) @ ''://'' @ hu_authority u @ hu_path u"

definition http_without_fragment :: "http_uri \<Rightarrow> string" where
  "http_without_fragment u = without_query_and_fragment u @ with_mark (CHR ''?'') (hu_query u)"

definition http_to_relative :: "http_uri \<Rightarrow> string" where
  "http_to_relative u =
     hu_path u @ with_mark (CHR ''?'') (hu_query u) @ with_mark (CHR ''#'') (hu_fragment u)"

text \<open>\<open>Display\<close> prints the wrapped URI.\<close>

definition http_uri_to_string :: "http_uri \<Rightarrow> string" where
  "http_uri_to_string u = recompose \<lparr>us_scheme = scheme_str (hu_scheme u), us_authority = Some (hu_authority u),
     us_path = hu_path u, us_query = hu_query u, us_fragment = hu_fragment u\<rparr>"

definition http_hostname :: "http_uri \<Rightarrow> string" where
  "http_hostname u = hu_host u"

definition port_or_known_default :: "http_uri \<Rightarrow> nat" where
  "port_or_known_default u = (case hu_port u of
      Some p \<Rightarrow> p
    | None \<Rightarrow> (case hu_scheme u of SchemeHttp \<Rightarrow> 80 | SchemeHttps \<Rightarrow> 443))"

definition http_origin :: "http_uri \<Rightarrow> uri_origin" where
  "http_origin u = OriginTuple (scheme_str (hu_scheme u)) (hu_host u) (port_or_known_default u)"

definition normalize_http_url :: "uri_library \<Rightarrow> string \<Rightarrow> (string, string) outcome" where
  "normalize_http_url L url = obind (parse_http_url_whatwg L url) (\<lambda>u. Ok (wu_string u))"

definition is_same_http_origin :: "uri_library \<Rightarrow> string \<Rightarrow> string \<Rightarrow> (string, bool) outcome" where
  "is_same_http_origin L uri_1 uri_2 =
     obind (http_uri_parse L uri_1) (\<lambda>u1. obind (http_uri_parse L uri_2) (\<lambda>u2.
     Ok (http_origin u1 = http_origin u2)))"

section \<open>\<open>ap\<close> URIs\<close>

definition ap_uri_prefix :: string where
  "ap_uri_prefix = ''ap://''"

definition with_ap_prefix :: "string \<Rightarrow> string" where
  "with_ap_prefix did_url = ap_uri_prefix @ did_url"

record ap_uri =
  au_authority :: did
  au_location :: relative_ref

definition ap_did_char :: "char \<Rightarrow> bool" where
  "ap_did_char c \<longleftrightarrow> did_char c \<or> c = CHR ''%''"

definition strip_colon :: "string \<Rightarrow> string option" where
  "strip_colon s = (case strip_prefix '':'' s of Some r \<Rightarrow> Some r | None \<Rightarrow> strip_prefix ''%3A'' s)"

text \<open>The group \<open>did\<close> of \<open>AP_URI_RE\<close>; no character of it is a slash, so it ends at the first one.\<close>

definition ap_did_matches :: "string \<Rightarrow> bool" where
  "ap_did_matches s \<longleftrightarrow>
     (case Option.bind (strip_prefix ''did'' s) strip_colon of
        None \<Rightarrow> False
      | Some rest \<Rightarrow>
          (let m = takeWhile is_alpha rest in
           m \<noteq> [] \<and> (case strip_colon (drop (length m) rest) of
                        None \<Rightarrow> False
                      | Some ident \<Rightarrow> ident \<noteq> [] \<and> list_all ap_did_char ident)))"

text \<open>\<open>^ap(\+ef61)?://(?P<did>...)(?P<path>/.+)$\<close>; the dot matches everything but a line feed.\<close>

definition ap_uri_captures :: "string \<Rightarrow> (string \<times> string) option" where
  "ap_uri_captures value =
     Option.bind (case strip_prefix ''ap://'' value of Some r \<Rightarrow> Some r | None \<Rightarrow> strip_prefix ''ap+ef61://'' value)
       (\<lambda>rest.
         (let d = takeWhile (\<lambda>c. c \<noteq> CHR ''/'') rest; path = drop (length d) rest in
          if ap_did_matches d \<and> 2 \<le> length path \<and> CHR ''\<newline>'' \<notin> set path then Some (d, path) else None))"

definition ap_uri_parse :: "uri_library \<Rightarrow> string \<Rightarrow> (string, ap_uri) outcome" where
  "ap_uri_parse L value =
     obind (ok_or ''invalid 'ap' URI'' (ap_uri_captures value)) (\<lambda>(d, path).
     obind (map_err (\<lambda>_. ''invalid 'ap' URI authority'') (did_from_str (codecs_of L) (url_decode L d))) (\<lambda>authority.
     if (case as_did_key authority of None \<Rightarrow> True
         | Some k \<Rightarrow> \<not> is_ok (try_ed25519_key (ed25519_key_ok L) k))
     then Err ''invalid 'ap' URI authority''
     else obind (ok_or ''invalid 'ap' URI'' (relative_from_str L path)) (\<lambda>location.
     if rr_authority location \<noteq> None then Err ''invalid 'ap' URI''
     else Ok \<lparr>au_authority = authority, au_location = location\<rparr>)))"

definition ap_uri_base :: "uri_library \<Rightarrow> ap_uri \<Rightarrow> string" where
  "ap_uri_base L u = ''ap://'' @ did_to_string (codecs_of L) (au_authority u)"

definition ap_relative_uri :: "ap_uri \<Rightarrow> string" where
  "ap_relative_uri u = recompose_relative (au_location u)"

definition ap_uri_from_did_url :: "uri_library \<Rightarrow> string \<Rightarrow> (string, ap_uri) outcome" where
  "ap_uri_from_did_url L did_url = ap_uri_parse L (with_ap_prefix did_url)"

definition to_did_url :: "uri_library \<Rightarrow> ap_uri \<Rightarrow> string" where
  "to_did_url L u = did_to_string (codecs_of L) (au_authority u) @ ap_relative_uri u"

definition did_origin :: "uri_library \<Rightarrow> did \<Rightarrow> uri_origin" where
  "did_origin L d = OriginDid (did_to_string (codecs_of L) d)"

definition ap_origin :: "uri_library \<Rightarrow> ap_uri \<Rightarrow> uri_origin" where
  "ap_origin L u = did_origin L (au_authority u)"

definition ap_gateways :: "uri_library \<Rightarrow> ap_uri \<Rightarrow> string list" where
  "ap_gateways L u =
     concat (map (\<lambda>(k, v). if k = ''gateways'' then split_char (CHR '','') v else [])
       (form_pairs L (case rr_query (au_location u) of Some q \<Rightarrow> q | None \<Rightarrow> [])))"

definition remove_query :: "uri_library \<Rightarrow> relative_ref \<Rightarrow> (string, relative_ref) outcome" where
  "remove_query L r =
     (case relative_from_str L (rr_path r @ with_mark (CHR ''#'') (rr_fragment r)) of
        Some r' \<Rightarrow> Ok r'
      | None \<Rightarrow> Panic ''URI should be valid'')"

definition ap_without_query :: "uri_library \<Rightarrow> ap_uri \<Rightarrow> (string, ap_uri) outcome" where
  "ap_without_query L u =
     obind (remove_query L (au_location u)) (\<lambda>location. Ok (u\<lparr>au_location := location\<rparr>))"

definition ap_without_fragment :: "ap_uri \<Rightarrow> ap_uri" where
  "ap_without_fragment u = u\<lparr>au_location := (au_location u)\<lparr>rr_fragment := None\<rparr>\<rparr>"

definition ap_uri_to_string :: "uri_library \<Rightarrow> ap_uri \<Rightarrow> string" where
  "ap_uri_to_string L u = ap_uri_base L u @ ap_relative_uri u"

section \<open>DID URLs\<close>

record did_url =
  du_did :: did
  du_resource :: relative_ref

text \<open>\<open>^(did:alpha+:[A-Za-z0-9._:-]+)(.*)$\<close>: the identifier is the longest run of its class.\<close>

definition did_url_captures :: "string \<Rightarrow> (string \<times> string) option" where
  "did_url_captures s = (let d = takeWhile did_char s; resource = drop (length d) s in
     if did_method d \<noteq> None \<and> CHR ''\<newline>'' \<notin> set resource then Some (d, resource) else None)"

definition did_url_parse :: "uri_library \<Rightarrow> string \<Rightarrow> (string, did_url) outcome" where
  "did_url_parse L url =
     obind (ok_or ''invalid DID URL'' (did_url_captures url)) (\<lambda>(d, resource_str).
     obind (map_err (\<lambda>_. ''invalid DID'') (did_from_str (codecs_of L) d)) (\<lambda>d'.
     obind (ok_or ''invalid DID URL'' (relative_from_str L resource_str)) (\<lambda>resource.
     Ok \<lparr>du_did = d', du_resource = resource\<rparr>)))"

definition did_url_to_string :: "uri_library \<Rightarrow> did_url \<Rightarrow> string" where
  "did_url_to_string L u = did_to_string (codecs_of L) (du_did u) @ recompose_relative (du_resource u)"

definition did_url_origin :: "uri_library \<Rightarrow> did_url \<Rightarrow> uri_origin" where
  "did_url_origin L u = did_origin L (du_did u)"

section \<open>Canonical URIs\<close>

definition gateway_path_prefix :: string where
  "gateway_path_prefix = ''/.well-known/apgateway/''"

datatype canonical_uri = CuHttp http_uri | CuAp ap_uri

datatype non_canonical_uri = NcHttp http_uri | NcAp "http_uri option" ap_uri

definition with_gateway :: "uri_library \<Rightarrow> ap_uri \<Rightarrow> string \<Rightarrow> string" where
  "with_gateway L u gateway_base = gateway_base @ gateway_path_prefix @ to_did_url L u"

definition parse_compatible_ap_uri :: "uri_library \<Rightarrow> http_uri \<Rightarrow> (string, ap_uri \<times> http_uri) outcome" where
  "parse_compatible_ap_uri L u =
     obind (ok_or ''invalid gateway URI'' (strip_prefix gateway_path_prefix (http_to_relative u))) (\<lambda>did_url.
     obind (ap_uri_from_did_url L did_url) (\<lambda>a.
     obind (http_uri_parse L (http_uri_base u)) (\<lambda>gateway.
     Ok (a, gateway))))"

definition non_canonical_parse :: "uri_library \<Rightarrow> string \<Rightarrow> (string, non_canonical_uri) outcome" where
  "non_canonical_parse L value =
     (if is_ap_uri value then obind (ap_uri_parse L value) (\<lambda>a. Ok (NcAp None a))
      else obind (http_uri_parse L value) (\<lambda>h.
        if prefix gateway_path_prefix (hu_path h)
        then obind (parse_compatible_ap_uri L h) (\<lambda>(a, gateway). Ok (NcAp (Some gateway) a))
        else Ok (NcHttp h)))"

fun into_canonical :: "uri_library \<Rightarrow> non_canonical_uri \<Rightarrow> (string, canonical_uri) outcome" where
  "into_canonical L (NcHttp h) = Ok (CuHttp h)"
| "into_canonical L (NcAp gateway a) = obind (ap_without_query L a) (\<lambda>a'. Ok (CuAp a'))"

fun non_canonical_origin :: "uri_library \<Rightarrow> non_canonical_uri \<Rightarrow> uri_origin" where
  "non_canonical_origin L (NcHttp h) = http_origin h"
| "non_canonical_origin L (NcAp gateway a) = ap_origin L a"

fun non_canonical_to_string :: "uri_library \<Rightarrow> non_canonical_uri \<Rightarrow> string" where
  "non_canonical_to_string L (NcHttp h) = http_uri_to_string h"
| "non_canonical_to_string L (NcAp (Some gateway) a) = with_gateway L a (http_uri_to_string gateway)"
| "non_canonical_to_string L (NcAp None a) = ap_uri_to_string L a"

fun canonical_to_string :: "uri_library \<Rightarrow> canonical_uri \<Rightarrow> string" where
  "canonical_to_string L (CuHttp h) = http_uri_to_string h"
| "canonical_to_string L (CuAp a) = ap_uri_to_string L a"

definition canonical_parse :: "uri_library \<Rightarrow> string \<Rightarrow> (string, canonical_uri) outcome" where
  "canonical_parse L value = obind (non_canonical_parse L value) (into_canonical L)"

definition parse_canonical :: "uri_library \<Rightarrow> string \<Rightarrow> (string, canonical_uri) outcome" where
  "parse_canonical L value =
     obind (canonical_parse L value) (\<lambda>c.
     if canonical_to_string L c \<noteq> value then Err ''URI is not canonical'' else Ok c)"

fun canonical_authority :: "uri_library \<Rightarrow> canonical_uri \<Rightarrow> string" where
  "canonical_authority L (CuHttp h) = hu_authority h"
| "canonical_authority L (CuAp a) = did_to_string (codecs_of L) (au_authority a)"

fun canonical_origin :: "uri_library \<Rightarrow> canonical_uri \<Rightarrow> uri_origin" where
  "canonical_origin L (CuHttp h) = http_origin h"
| "canonical_origin L (CuAp a) = ap_origin L a"

fun to_http_uri :: "uri_library \<Rightarrow> canonical_uri \<Rightarrow> string option \<Rightarrow> string option" where
  "to_http_uri L (CuHttp h) maybe_gateway = Some (http_uri_to_string h)"
| "to_http_uri L (CuAp a) maybe_gateway = map_option (with_gateway L a) maybe_gateway"

definition is_same_uri :: "uri_library \<Rightarrow> string \<Rightarrow> string \<Rightarrow> (string, bool) outcome" where
  "is_same_uri L url_1 url_2 =
     obind (canonical_parse L url_1) (\<lambda>c1. obind (canonical_parse L url_2) (\<lambda>c2. Ok (c1 = c2)))"

definition is_same_origin :: "uri_library \<Rightarrow> string \<Rightarrow> string \<Rightarrow> (string, bool) outcome" where
  "is_same_origin L id_1 id_2 =
     obind (canonical_parse L id_1) (\<lambda>c1. obind (canonical_parse L id_2) (\<lambda>c2.
     Ok (canonical_origin L c1 = canonical_origin L c2)))"

section \<open>URLs in the database\<close>

definition parse_http_url_from_db :: "uri_library \<Rightarrow> string \<Rightarrow> (database_type_error, http_uri) outcome" where
  "parse_http_url_from_db L url =
     obind (map_err (\<lambda>_. DatabaseTypeError) (normalize_http_url L url)) (\<lambda>normalized.
     map_err (\<lambda>_. DatabaseTypeError) (http_uri_parse L normalized))"

definition parse_id_from_db :: "uri_library \<Rightarrow> string \<Rightarrow> (database_error, canonical_uri) outcome" where
  "parse_id_from_db L url = map_err (\<lambda>_. TypeError) (parse_canonical L url)"

definition parse_id_from_db_lenient :: "uri_library \<Rightarrow> string \<Rightarrow> (database_type_error, canonical_uri) outcome" where
  "parse_id_from_db_lenient L url = map_err (\<lambda>_. DatabaseTypeError) (canonical_parse L url)"

definition db_url_to_http_url :: "uri_library \<Rightarrow> string \<Rightarrow> string \<Rightarrow> (database_type_error, string) outcome" where
  "db_url_to_http_url L url gateway =
     (if is_ap_uri url
      then obind (map_err (\<lambda>_. DatabaseTypeError) (ap_uri_parse L url)) (\<lambda>a. Ok (with_gateway L a gateway))
      else Ok url)"

end
