(* ===== verification/UriProperties.thy ===== *)
theory UriProperties
  imports Uris
begin

text \<open>
  What canonicalization guarantees: printing is the inverse of parsing, a canonical URI is a fixed
  point, the gateway of a compatible URI does not count, and local paths below a server parse.
\<close>

section \<open>HTTP URIs\<close>

lemma http_scheme_of_Ok: "http_scheme_of s = Ok x \<longleftrightarrow> s = scheme_str x"
  by (cases x) (auto simp: http_scheme_of_def split: if_splits)

text \<open>What a successful \<open>HttpUri::parse\<close> has established.\<close>

lemma http_uri_parse_Ok:
  "http_uri_parse L v = Ok h \<longleftrightarrow>
     (\<exists>u host port w. uri_from_str L v = Some u \<and> us_scheme u = scheme_str (hu_scheme h)
        \<and> us_authority u = Some (hu_authority h) \<and> hu_authority h \<noteq> []
        \<and> authority_components L (hu_authority h) = Some (host, port) \<and> host = hu_host h \<and> \<not> has_upper host
        \<and> transpose_port port = Ok (hu_port h) \<and> parse_http_url_whatwg L v = Ok w
        \<and> hu_path h = us_path u \<and> hu_query h = us_query u \<and> hu_fragment h = us_fragment u)"
  (is "_ \<longleftrightarrow> ?R")
proof
  assume "http_uri_parse L v = Ok h"
  then show ?R
    by (cases h) (auto simp: http_uri_parse_def ok_runs http_scheme_of_Ok Let_def split: if_splits option.splits)
next
  assume ?R
  then show "http_uri_parse L v = Ok h"
    by (cases h; cases "hu_scheme h") (auto simp: http_uri_parse_def http_scheme_of_def)
qed

lemma http_uri_print:
  assumes "uri_laws L" and "http_uri_parse L v = Ok h"
  shows "http_uri_to_string h = v"
proof -
  obtain u where u: "uri_from_str L v = Some u" "us_scheme u = scheme_str (hu_scheme h)"
    "us_authority u = Some (hu_authority h)" "hu_path h = us_path u" "hu_query h = us_query u"
    "hu_fragment h = us_fragment u"
    using assms(2) by (auto simp: http_uri_parse_Ok)
  then show ?thesis using uri_lawsD(1) [OF assms(1) u(1)] by (cases u) (simp add: http_uri_to_string_def)
qed

lemma http_uri_split: "http_uri_to_string h = http_uri_base h @ http_to_relative h"
  by (simp add: http_uri_to_string_def recompose_def http_uri_base_def http_to_relative_def)

lemma http_uri_injective:
  "uri_laws L \<Longrightarrow> http_uri_parse L v = Ok h \<Longrightarrow> http_uri_parse L v' = Ok h \<Longrightarrow> v = v'"
  by (metis http_uri_print)

text \<open>A plain path appended to the URI of a server.\<close>

lemma http_uri_append:
  assumes "uri_laws L" and "http_uri_parse L s = Ok h" and "hu_path h = []" "hu_query h = None" "hu_fragment h = None"
    and "plain_path p"
  shows "http_uri_parse L (s @ p) = Ok (h\<lparr>hu_path := p\<rparr>)"
proof -
  obtain u w where u: "uri_from_str L s = Some u" "us_scheme u = scheme_str (hu_scheme h)"
    "us_authority u = Some (hu_authority h)" and w: "parse_http_url_whatwg L s = Ok w"
    and "bare_uri u" and rest: "us_query u = None" "us_fragment u = None"
    using assms(2-5) by (auto simp: http_uri_parse_Ok bare_uri_def)
  then have u': "uri_from_str L (s @ p) = Some (u\<lparr>us_path := p\<rparr>)"
    using uri_lawsD(5) [OF assms(1) u(1) _ assms(6)] by blast
  obtain w' where "whatwg_parse L (s @ p) = Some w'" "wu_scheme w' = wu_scheme w" "wu_has_host w' = wu_has_host w"
    using w uri_lawsD(6) [OF assms(1) u(1) \<open>bare_uri u\<close> _ assms(6)]
    by (auto simp: parse_http_url_whatwg_def ok_runs split: if_splits)
  with w have "parse_http_url_whatwg L (s @ p) = Ok w'"
    by (auto simp: parse_http_url_whatwg_def ok_runs split: if_splits)
  with u' u rest assms(2,4,5) show ?thesis by (auto simp: http_uri_parse_Ok)
qed

section \<open>\<open>ap\<close> URIs\<close>

lemma ap_uri_parse_Ok:
  "ap_uri_parse L v = Ok a \<longleftrightarrow>
     (\<exists>d path k. ap_uri_captures v = Some (d, path) \<and> did_from_str (codecs_of L) (url_decode L d) = Ok (au_authority a)
        \<and> au_authority a = DidKey k \<and> is_ok (try_ed25519_key (ed25519_key_ok L) k)
        \<and> relative_from_str L path = Some (au_location a) \<and> rr_authority (au_location a) = None)"
proof -
  have "as_did_key x = Some k \<longleftrightarrow> x = DidKey k" for x k by (cases x) auto
  then show ?thesis
    by (cases a) (auto simp: ap_uri_parse_def ok_runs split: if_splits option.splits)
qed

text \<open>Parsed \<open>ap\<close> URIs: an Ed25519 authority, a path, no line feed.\<close>

definition wf_ap_uri :: "uri_library \<Rightarrow> ap_uri \<Rightarrow> bool" where
  "wf_ap_uri L a \<longleftrightarrow>
     (\<exists>k. au_authority a = DidKey k \<and> is_ok (try_ed25519_key (ed25519_key_ok L) k))
     \<and> relative_from_str L (recompose_relative (au_location a)) = Some (au_location a)
     \<and> rr_authority (au_location a) = None
     \<and> prefix ''/'' (rr_path (au_location a))
     \<and> CHR ''\<newline>'' \<notin> set (ap_relative_uri a)"

lemma recompose_relative_path:
  assumes "rr_authority r = None" and "prefix ''/'' (recompose_relative r)"
  shows "prefix ''/'' (rr_path r)"
  using assms by (cases "rr_path r") (auto simp: recompose_relative_def with_mark_def split: option.splits)

lemma ap_captures_path:
  assumes "ap_uri_captures v = Some (d, path)"
  shows "prefix ''/'' path \<and> 2 \<le> length path \<and> CHR ''\<newline>'' \<notin> set path"
proof -
  obtain rest where path: "path = drop (length (takeWhile (\<lambda>c. c \<noteq> CHR ''/'') rest)) rest"
    and len: "2 \<le> length path" "CHR ''\<newline>'' \<notin> set path"
    using assms by (auto simp: ap_uri_captures_def Let_def bind_eq_Some_conv split: if_splits)
  have "path = dropWhile (\<lambda>c. c \<noteq> CHR ''/'') rest" by (simp add: path dropWhile_eq_drop)
  then have "hd path = CHR ''/''" using len hd_dropWhile [of "\<lambda>c. c \<noteq> CHR ''/''" rest] by fastforce
  with len show ?thesis by (cases path) auto
qed

lemma ap_uri_parse_wf:
  assumes "uri_laws L" and "ap_uri_parse L v = Ok a"
  shows "wf_ap_uri L a"
proof -
  obtain d path where c: "ap_uri_captures v = Some (d, path)" "relative_from_str L path = Some (au_location a)"
    "rr_authority (au_location a) = None"
    and k: "\<exists>k. au_authority a = DidKey k \<and> is_ok (try_ed25519_key (ed25519_key_ok L) k)"
    using assms(2) by (auto simp: ap_uri_parse_Ok)
  have "recompose_relative (au_location a) = path" by (rule uri_lawsD(2) [OF assms(1) c(2)])
  with c k ap_captures_path [OF c(1)] show ?thesis
    by (auto simp: wf_ap_uri_def ap_relative_uri_def intro: recompose_relative_path)
qed

text \<open>Parsing what is printed.\<close>

lemma did_key_ap_match:
  assumes "codec_laws C"
  shows "ap_did_matches (did_key_to_string C k) \<and> CHR ''/'' \<notin> set (did_key_to_string C k)
    \<and> CHR ''%'' \<notin> set (did_key_to_string C k)"
proof -
  obtain b where b: "key_multibase C k = CHR ''z'' # b" "b \<noteq> []" "list_all is_base58_char b"
    using key_multibase_shape [OF assms] by blast
  then have chars: "list_all is_alnum (key_multibase C k)"
    using base58_alnum by (auto simp: list_all_iff is_alnum_def is_lower_def)
  then have "list_all ap_did_char (key_multibase C k)"
    by (auto simp: list_all_iff ap_did_char_def did_char_def)
  moreover have "c \<notin> set (key_multibase C k)" if "\<not> is_alnum c" for c
    using chars that by (auto simp: list_all_iff)
  ultimately show ?thesis using b(1)
    by (simp add: ap_did_matches_def did_key_to_string_def strip_prefix_def strip_colon_def Let_def is_alpha_def
        is_lower_def is_upper_def is_alnum_def is_digit_def)
qed

lemma takeWhile_neq_append: "c \<notin> set a \<Longrightarrow> takeWhile (\<lambda>x. x \<noteq> c) (a @ c # b) = a"
  by (induction a) auto

lemma ap_uri_reparse:
  assumes "uri_laws L" and "wf_ap_uri L a" and "2 \<le> length (ap_relative_uri a)"
  shows "ap_uri_parse L (ap_uri_to_string L a) = Ok a"
proof -
  let ?C = "codecs_of L"
  obtain k where k: "au_authority a = DidKey k" "is_ok (try_ed25519_key (ed25519_key_ok L) k)"
    using assms(2) by (auto simp: wf_ap_uri_def)
  let ?d = "did_key_to_string ?C k" and ?p = "ap_relative_uri a"
  have laws: "codec_laws ?C" by (rule uri_lawsD(8) [OF assms(1)])
  note d = did_key_ap_match [OF laws, of k]
  obtain q where q: "?p = CHR ''/'' # q"
    using assms(2) by (auto simp: wf_ap_uri_def ap_relative_uri_def recompose_relative_def prefix_def)
  have "ap_uri_captures (''ap://'' @ ?d @ ?p) = Some (?d, ?p)"
    using d assms(2,3) takeWhile_neq_append [of "CHR ''/''" ?d q]
    by (simp add: ap_uri_captures_def strip_prefix_def q wf_ap_uri_def)
  moreover have "did_from_str ?C (url_decode L ?d) = Ok (DidKey k)"
    using d did_key_print_parse [OF laws, of k] uri_lawsD(7) [OF assms(1)] by (simp add: url_decode_def)
  moreover have "relative_from_str L ?p = Some (au_location a)" "rr_authority (au_location a) = None"
    using assms(2) by (simp_all add: wf_ap_uri_def ap_relative_uri_def)
  ultimately show ?thesis
    using k by (simp add: ap_uri_parse_Ok ap_uri_to_string_def ap_uri_base_def)
qed

lemma ap_without_query_ok:
  assumes "uri_laws L" and "wf_ap_uri L a"
  shows "ap_without_query L a = Ok (a\<lparr>au_location := (au_location a)\<lparr>rr_query := None\<rparr>\<rparr>)"
    and "wf_ap_uri L (a\<lparr>au_location := (au_location a)\<lparr>rr_query := None\<rparr>\<rparr>)"
proof -
  let ?r = "au_location a"
  have rel: "relative_from_str L (recompose_relative (?r\<lparr>rr_query := None\<rparr>)) = Some (?r\<lparr>rr_query := None\<rparr>)"
    using assms(2) uri_lawsD(3) [OF assms(1)] by (auto simp: wf_ap_uri_def)
  moreover have "recompose_relative (?r\<lparr>rr_query := None\<rparr>) = rr_path ?r @ with_mark (CHR ''#'') (rr_fragment ?r)"
    using assms(2) by (simp add: wf_ap_uri_def recompose_relative_def with_mark_def)
  ultimately show "ap_without_query L a = Ok (a\<lparr>au_location := ?r\<lparr>rr_query := None\<rparr>\<rparr>)"
    by (simp add: ap_without_query_def remove_query_def)
  show "wf_ap_uri L (a\<lparr>au_location := ?r\<lparr>rr_query := None\<rparr>\<rparr>)"
    using assms(2) rel by (auto simp: wf_ap_uri_def ap_relative_uri_def recompose_relative_def with_mark_def)
qed

section \<open>Canonical URIs\<close>

lemma is_ap_uri_printed [simp]: "is_ap_uri (ap_uri_to_string L a)"
  by (simp add: is_ap_uri_def ap_uri_to_string_def ap_uri_base_def)

lemma canonical_parse_http:
  "canonical_parse L v = Ok (CuHttp h) \<longleftrightarrow>
     \<not> is_ap_uri v \<and> http_uri_parse L v = Ok h \<and> \<not> prefix gateway_path_prefix (hu_path h)"
  by (auto simp: canonical_parse_def non_canonical_parse_def ok_runs split: if_splits)

lemma non_canonical_parse_ap:
  assumes "uri_laws L" and "non_canonical_parse L v = Ok (NcAp g a)"
  shows "wf_ap_uri L a"
  using assms ap_uri_parse_wf [OF assms(1)]
  by (auto simp: non_canonical_parse_def parse_compatible_ap_uri_def ap_uri_from_did_url_def ok_runs split: if_splits)

lemma canonical_parse_ap:
  assumes "uri_laws L" and "canonical_parse L v = Ok (CuAp a)"
  shows "wf_ap_uri L a \<and> rr_query (au_location a) = None"
proof -
  obtain u where u: "non_canonical_parse L v = Ok u" "into_canonical L u = Ok (CuAp a)"
    using assms(2) by (auto simp: canonical_parse_def ok_runs)
  then obtain g a0 where nc: "non_canonical_parse L v = Ok (NcAp g a0)" and a: "ap_without_query L a0 = Ok a"
    by (cases u) (auto simp: ok_runs)
  have "wf_ap_uri L a0" by (rule non_canonical_parse_ap [OF assms(1) nc])
  from ap_without_query_ok [OF assms(1) this] a show ?thesis by auto
qed

text \<open>Canonicalization never panics, and its result is a fixed point, unless nothing but the
  query followed the slash of an \<open>ap\<close> URI.\<close>

lemma no_panic_multibase [no_panic_rules]: "no_panic (multibase_decode C s)"
  by (cases s) (auto intro!: no_panic_rules)

lemma no_panic_chain_id [no_panic_rules]: "no_panic (chain_id_new ns r)"
  unfolding chain_id_new_def parse_ethereum_chain_id_def
  by (auto simp: monero_network_from_str_def intro!: no_panic_rules split: namespace.splits)

lemma no_panic_did [no_panic_rules]: "no_panic (did_from_str C s)"
  unfolding did_from_str_def did_key_from_str_def did_pkh_from_str_def account_id_from_str_def
    multicodec_decode_def varint_prefixed_def multicodec_from_code_def multibase_decode_exact_def
  by (simp add: no_panic_rules)

lemma no_panic_http_uri [no_panic_rules]: "no_panic (http_uri_parse L s)"
  unfolding http_uri_parse_def http_scheme_of_def transpose_port_def parse_port_number_def parse_http_url_whatwg_def Let_def
  by (intro no_panic_rules)

lemma no_panic_ap_uri [no_panic_rules]: "no_panic (ap_uri_parse L s)"
  unfolding ap_uri_parse_def by (simp add: no_panic_rules)

lemma no_panic_non_canonical: "no_panic (non_canonical_parse L s)"
  unfolding non_canonical_parse_def parse_compatible_ap_uri_def ap_uri_from_did_url_def
  by (intro no_panic_rules)

lemma canonical_parse_no_panic:
  assumes "uri_laws L"
  shows "no_panic (canonical_parse L v)"
  unfolding canonical_parse_def
proof (rule no_panic_obind [OF no_panic_non_canonical])
  fix u assume u: "non_canonical_parse L v = Ok u"
  show "no_panic (into_canonical L u)"
  proof (cases u)
    case (NcAp g a)
    with u assms non_canonical_parse_ap have "wf_ap_uri L a" by blast
    from ap_without_query_ok(1) [OF assms this] show ?thesis by (simp add: NcAp)
  qed simp
qed

text \<open>When nothing but a query follows the slash, the canonical form is no valid \<open>ap\<close> URI.\<close>

definition has_object_path :: "canonical_uri \<Rightarrow> bool" where
  "has_object_path c \<longleftrightarrow> (case c of CuHttp h \<Rightarrow> True | CuAp a \<Rightarrow> ap_relative_uri a \<noteq> ''/'')"

lemma canonical_fixed_point:
  assumes "uri_laws L" and "canonical_parse L v = Ok c" and "has_object_path c"
  shows "parse_canonical L (canonical_to_string L c) = Ok c"
proof (cases c)
  case (CuHttp h)
  with assms(2) have "http_uri_to_string h = v" using http_uri_print [OF assms(1)] by (simp add: canonical_parse_http)
  with CuHttp assms(2) show ?thesis by (simp add: parse_canonical_def)
next
  case (CuAp a)
  have wf: "wf_ap_uri L a" and q: "rr_query (au_location a) = None"
    using canonical_parse_ap [OF assms(1)] assms(2) CuAp by auto
  have "prefix ''/'' (ap_relative_uri a)"
    using wf by (auto simp: wf_ap_uri_def ap_relative_uri_def recompose_relative_def prefix_def)
  moreover have "ap_relative_uri a \<noteq> ''/''" using assms(3) CuAp by (simp add: has_object_path_def)
  ultimately have "2 \<le> length (ap_relative_uri a)"
    by (cases "ap_relative_uri a" rule: list.exhaust; cases "tl (ap_relative_uri a)") auto
  from ap_uri_reparse [OF assms(1) wf this] have "ap_uri_parse L (ap_uri_to_string L a) = Ok a" .
  moreover have "ap_without_query L a = Ok a"
    using ap_without_query_ok(1) [OF assms(1) wf] q by (cases a; cases "au_location a") simp
  ultimately show ?thesis
    by (simp add: CuAp parse_canonical_def canonical_parse_def non_canonical_parse_def)
qed

lemma root_path_not_canonical:
  assumes "uri_laws L" and "canonical_parse L v = Ok c" and "\<not> has_object_path c"
  shows "parse_canonical L (canonical_to_string L c) = Err ''invalid 'ap' URI''"
proof -
  obtain a where a: "c = CuAp a" "ap_relative_uri a = ''/''"
    using assms(3) by (auto simp: has_object_path_def split: canonical_uri.splits)
  have "wf_ap_uri L a" using canonical_parse_ap [OF assms(1)] assms(2) a(1) by blast
  then obtain k where k: "au_authority a = DidKey k" by (auto simp: wf_ap_uri_def)
  note d = did_key_ap_match [OF uri_lawsD(8) [OF assms(1)], of k]
  have "ap_uri_captures (ap_uri_to_string L a) = None"
    using d takeWhile_neq_append [of "CHR ''/''" "did_key_to_string (codecs_of L) k" "[]"]
    by (simp add: ap_uri_captures_def ap_uri_to_string_def ap_uri_base_def k a(2) strip_prefix_def)
  then show ?thesis
    by (simp add: a(1) parse_canonical_def canonical_parse_def non_canonical_parse_def ap_uri_parse_def)
qed

lemma parse_canonical_Ok:
  "parse_canonical L v = Ok c \<longleftrightarrow> canonical_parse L v = Ok c \<and> canonical_to_string L c = v"
  by (auto simp: parse_canonical_def ok_runs split: if_splits)

text \<open>A compatible URI names the object of its DID, whatever the gateway.\<close>

lemma compatible_uri_origin:
  assumes "uri_laws L" and "http_uri_parse L v = Ok h" and "prefix gateway_path_prefix (hu_path h)"
    and "\<not> is_ap_uri v" and "canonical_parse L v = Ok c"
  shows "\<exists>k. canonical_origin L c = OriginDid (did_key_to_string (codecs_of L) k)"
proof -
  obtain g a0 where nc: "non_canonical_parse L v = Ok (NcAp g a0)" and c: "into_canonical L (NcAp g a0) = Ok c"
    using assms(2-5) by (auto simp: canonical_parse_def non_canonical_parse_def ok_runs split: if_splits)
  have "wf_ap_uri L a0" by (rule non_canonical_parse_ap [OF assms(1) nc])
  then show ?thesis
    using ap_without_query_ok(1) [OF assms(1)] c
    by (auto simp: wf_ap_uri_def ap_origin_def did_origin_def)
qed

end
