(* ===== verification/ApIdentifiers.thy ===== *)
theory ApIdentifiers
  imports UriProperties IntEnums
begin

text \<open>
  Naming authorities (\<open>mitra_activitypub/src/authority.rs\<close>), the identifiers of local actors, objects
  and activities (\<open>identifiers.rs\<close>) and their parsers, which go through \<open>parse_object_id\<close>
  (\<open>apx_sdk/src/identifiers.rs\<close>). The text form of a UUID (\<open>uuid\<close> package) is a parameter.
\<close>

section \<open>Authorities\<close>

datatype authority_root = RootServer http_uri | RootKey bytes

fun authority_root_to_string :: "uri_library \<Rightarrow> authority_root \<Rightarrow> string" where
  "authority_root_to_string L (RootServer server_uri) = http_uri_to_string server_uri"
| "authority_root_to_string L (RootKey public_key) =
     with_ap_prefix (did_key_to_string (codecs_of L) (did_key_from_ed25519 public_key))"

record authority =
  ath_root :: authority_root
  ath_http_base_uri :: "http_uri option"
  ath_prefer_compatible :: bool

definition authority_to_string :: "uri_library \<Rightarrow> authority \<Rightarrow> string" where
  "authority_to_string L a = (case ath_root a of
      RootServer _ \<Rightarrow> authority_root_to_string L (ath_root a)
    | RootKey public_key \<Rightarrow> (case ath_http_base_uri a of
          Some base \<Rightarrow> if ath_prefer_compatible a
            then http_uri_to_string base @ gateway_path_prefix
                   @ did_key_to_string (codecs_of L) (did_key_from_ed25519 public_key)
            else authority_root_to_string L (ath_root a)
        | None \<Rightarrow> authority_root_to_string L (ath_root a)))"

definition authority_server :: "http_uri \<Rightarrow> authority" where
  "authority_server server_uri = \<lparr>ath_root = RootServer server_uri, ath_http_base_uri = Some server_uri,
     ath_prefer_compatible = True\<rparr>"

definition authority_server_unchecked :: "uri_library \<Rightarrow> string \<Rightarrow> (string, authority) outcome" where
  "authority_server_unchecked L server_uri = (case http_uri_parse L server_uri of
      Ok u \<Rightarrow> Ok (authority_server u)
    | _ \<Rightarrow> Panic ''server URI should be valid'')"

definition authority_public_key :: "bytes \<Rightarrow> authority" where
  "authority_public_key public_key = \<lparr>ath_root = RootKey public_key, ath_http_base_uri = None,
     ath_prefer_compatible = True\<rparr>"

text \<open>\<open>public_of\<close> is \<open>ed25519_public_key_from_secret_key\<close>.\<close>

definition authority_key_with_gateway :: "(bytes \<Rightarrow> bytes) \<Rightarrow> bytes \<Rightarrow> http_uri \<Rightarrow> authority" where
  "authority_key_with_gateway public_of secret_key server_uri =
     \<lparr>ath_root = RootKey (public_of secret_key), ath_http_base_uri = Some server_uri,
      ath_prefer_compatible = True\<rparr>"

definition and_prefer_canonical :: "authority \<Rightarrow> authority" where
  "and_prefer_canonical a = a\<lparr>ath_prefer_compatible := False\<rparr>"

definition is_fep_ef61 :: "authority \<Rightarrow> bool" where
  "is_fep_ef61 a \<longleftrightarrow> (case ath_root a of RootServer _ \<Rightarrow> False | RootKey _ \<Rightarrow> True)"

definition authority_server_uri :: "authority \<Rightarrow> http_uri option" where
  "authority_server_uri a = (case ath_root a of RootServer u \<Rightarrow> Some u | RootKey _ \<Rightarrow> ath_http_base_uri a)"

definition expect_server_uri :: "authority \<Rightarrow> (string, http_uri) outcome" where
  "expect_server_uri a = (case authority_server_uri a of
      Some u \<Rightarrow> Ok u | None \<Rightarrow> Panic ''authority should be anchored'')"

definition authority_as_did_key :: "authority \<Rightarrow> did_key option" where
  "authority_as_did_key a = (case ath_root a of
      RootServer _ \<Rightarrow> None | RootKey public_key \<Rightarrow> Some (did_key_from_ed25519 public_key))"

section \<open>Building identifiers\<close>

record id_builder =
  ib_http_base_uri :: "http_uri option"
  ib_prefer_compatible :: bool

definition authority_id_builder :: "authority \<Rightarrow> id_builder" where
  "authority_id_builder a =
     \<lparr>ib_http_base_uri = ath_http_base_uri a, ib_prefer_compatible = ath_prefer_compatible a\<rparr>"

fun id_build :: "id_builder \<Rightarrow> canonical_uri \<Rightarrow> non_canonical_uri" where
  "id_build b (CuHttp h) = NcHttp h"
| "id_build b (CuAp a) = NcAp (if ib_prefer_compatible b then ib_http_base_uri b else None) a"

definition expect_canonical :: "uri_library \<Rightarrow> string \<Rightarrow> (string, canonical_uri) outcome" where
  "expect_canonical L uri = (case parse_canonical L uri of
      Ok c \<Rightarrow> Ok c | _ \<Rightarrow> Panic ''URI should be valid'')"

definition id_build_from_path ::
  "uri_library \<Rightarrow> id_builder \<Rightarrow> authority_root \<Rightarrow> string \<Rightarrow> (string, non_canonical_uri) outcome" where
  "id_build_from_path L b root path =
     obind (expect_canonical L (authority_root_to_string L root @ path)) (\<lambda>c. Ok (id_build b c))"

definition id_build_unchecked ::
  "uri_library \<Rightarrow> id_builder \<Rightarrow> string \<Rightarrow> (string, non_canonical_uri) outcome" where
  "id_build_unchecked L b canonical_id = obind (expect_canonical L canonical_id) (\<lambda>c. Ok (id_build b c))"

definition id_builder_for_profile ::
  "uri_library \<Rightarrow> authority \<Rightarrow> actor_profile \<Rightarrow> (string, id_builder) outcome" where
  "id_builder_for_profile L a p =
     (let local_builder = authority_id_builder a in
      case p_actor_json p of
        None \<Rightarrow> Ok local_builder
      | Some actor_data \<Rightarrow>
          (case da_gateways actor_data of
             [] \<Rightarrow> Ok \<lparr>ib_http_base_uri = None, ib_prefer_compatible = ib_prefer_compatible local_builder\<rparr>
           | gateway # _ \<Rightarrow> (case http_uri_parse L gateway of
                 Ok u \<Rightarrow> Ok \<lparr>ib_http_base_uri = Some u, ib_prefer_compatible = ib_prefer_compatible local_builder\<rparr>
               | _ \<Rightarrow> Panic ''gateway URI should be valid'')))"

record uuid_format =
  uuid_show :: "uuid \<Rightarrow> string"
  uuid_read :: "string \<Rightarrow> uuid option"

definition local_actor_id_canonical ::
  "uri_library \<Rightarrow> uuid_format \<Rightarrow> authority_root \<Rightarrow> uuid \<Rightarrow> string \<Rightarrow> (string, canonical_uri) outcome" where
  "local_actor_id_canonical L F root internal_id username =
     (let path = (case root of
          RootServer _ \<Rightarrow> ''/users/'' @ username
        | RootKey _ \<Rightarrow> ''/actors/'' @ uuid_show F internal_id) in
      expect_canonical L (authority_root_to_string L root @ path))"

definition local_actor_id_unified ::
  "uri_library \<Rightarrow> uuid_format \<Rightarrow> authority \<Rightarrow> uuid \<Rightarrow> string \<Rightarrow> (string, string) outcome" where
  "local_actor_id_unified L F a internal_id username =
     obind (local_actor_id_canonical L F (ath_root a) internal_id username) (\<lambda>c.
     Ok (non_canonical_to_string L (id_build (authority_id_builder a) c)))"

text \<open>\<open>Uuid::default()\<close> is the nil UUID.\<close>

definition local_actor_id :: "uri_library \<Rightarrow> uuid_format \<Rightarrow> string \<Rightarrow> string \<Rightarrow> (string, string) outcome" where
  "local_actor_id L F instance_uri username =
     obind (authority_server_unchecked L instance_uri) (\<lambda>a. local_actor_id_unified L F a 0 username)"

datatype local_actor_collection = Inbox | Outbox | Followers | Following | Subscribers | Featured

fun local_actor_collection_of :: "local_actor_collection \<Rightarrow> string \<Rightarrow> string" where
  "local_actor_collection_of Inbox actor_id = actor_id @ ''/inbox''"
| "local_actor_collection_of Outbox actor_id = actor_id @ ''/outbox''"
| "local_actor_collection_of Followers actor_id = actor_id @ ''/followers''"
| "local_actor_collection_of Following actor_id = actor_id @ ''/following''"
| "local_actor_collection_of Subscribers actor_id = actor_id @ ''/subscribers''"
| "local_actor_collection_of Featured actor_id = actor_id @ ''/collections/featured''"

definition local_instance_actor_id :: "string \<Rightarrow> string" where
  "local_instance_actor_id instance_uri = instance_uri @ ''/actor''"

definition local_actor_key_id :: "string \<Rightarrow> public_key_type \<Rightarrow> string" where
  "local_actor_key_id actor_id key_type =
     actor_id @ (case key_type of RsaPkcs1 \<Rightarrow> ''#main-key'' | Ed25519Key \<Rightarrow> ''#ed25519-key'')"

definition local_actor_proposal_id :: "string \<Rightarrow> chain_id \<Rightarrow> string" where
  "local_actor_proposal_id actor_id c = actor_id @ ''/proposals/'' @ chain_id_to_string c"

definition local_object_id :: "uuid_format \<Rightarrow> string \<Rightarrow> uuid \<Rightarrow> string" where
  "local_object_id F instance_uri oid = instance_uri @ ''/objects/'' @ uuid_show F oid"

definition local_object_id_unified :: "uri_library \<Rightarrow> uuid_format \<Rightarrow> authority \<Rightarrow> uuid \<Rightarrow> string" where
  "local_object_id_unified L F a oid = authority_to_string L a @ ''/objects/'' @ uuid_show F oid"

definition local_object_replies :: "string \<Rightarrow> string" where
  "local_object_replies object_id = object_id @ ''/replies''"

definition local_emoji_id :: "string \<Rightarrow> string \<Rightarrow> string" where
  "local_emoji_id instance_uri emoji_name = instance_uri @ ''/objects/emojis/'' @ emoji_name"

definition local_agreement_id :: "uuid_format \<Rightarrow> string \<Rightarrow> uuid \<Rightarrow> string" where
  "local_agreement_id F instance_uri iid = instance_uri @ ''/objects/agreements/'' @ uuid_show F iid"

definition local_tag_collection :: "uri_library \<Rightarrow> string \<Rightarrow> string \<Rightarrow> string" where
  "local_tag_collection L instance_uri tag_name = instance_uri @ ''/collections/tags/'' @ url_encode L tag_name"

definition local_conversation_collection :: "uri_library \<Rightarrow> uuid_format \<Rightarrow> authority \<Rightarrow> uuid \<Rightarrow> string" where
  "local_conversation_collection L F a cid =
     authority_to_string L a @ ''/collections/conversations/'' @ uuid_show F cid"

definition local_conversation_history_collection ::
  "uri_library \<Rightarrow> uuid_format \<Rightarrow> authority \<Rightarrow> uuid \<Rightarrow> string" where
  "local_conversation_history_collection L F a cid = local_conversation_collection L F a cid @ ''/history''"

definition local_activity_id_canonical ::
  "uri_library \<Rightarrow> uuid_format \<Rightarrow> authority_root \<Rightarrow> string \<Rightarrow> uuid \<Rightarrow> (string, canonical_uri) outcome" where
  "local_activity_id_canonical L F root activity_type internal_id =
     expect_canonical L (authority_root_to_string L root @
       ''/activities/'' @ map to_ascii_lower activity_type @ ''/'' @ uuid_show F internal_id)"

definition local_activity_id_unified ::
  "uri_library \<Rightarrow> uuid_format \<Rightarrow> authority \<Rightarrow> string \<Rightarrow> uuid \<Rightarrow> (string, string) outcome" where
  "local_activity_id_unified L F a activity_type internal_id =
     obind (local_activity_id_canonical L F (ath_root a) activity_type internal_id) (\<lambda>c.
     Ok (non_canonical_to_string L (id_build (authority_id_builder a) c)))"

definition local_activity_id ::
  "uri_library \<Rightarrow> uuid_format \<Rightarrow> string \<Rightarrow> string \<Rightarrow> uuid \<Rightarrow> (string, string) outcome" where
  "local_activity_id L F instance_uri activity_type internal_id =
     obind (authority_server_unchecked L instance_uri) (\<lambda>a.
     local_activity_id_unified L F a activity_type internal_id)"

section \<open>Parsing local identifiers\<close>

text \<open>\<open>parse_object_id\<close> with a path expression and the conversion of its groups.\<close>

definition parse_object_id ::
  "uri_library \<Rightarrow> string \<Rightarrow> (string \<Rightarrow> 'a option) \<Rightarrow> ('a \<Rightarrow> 'b option) \<Rightarrow> (string, string \<times> 'b) outcome" where
  "parse_object_id L object_id path_re from_captures =
     obind (map_err (\<lambda>_. ''invalid URI'') (parse_canonical L object_id)) (\<lambda>uri.
     case (case uri of
         CuAp a \<Rightarrow> (ap_uri_base L a, ap_relative_uri a)
       | CuHttp h \<Rightarrow> (http_uri_base h, http_to_relative h)) of (base_uri, path) \<Rightarrow>
     obind (ok_or ''invalid path'' (path_re path)) (\<lambda>caps.
     obind (ok_or ''invalid path segment'' (from_captures caps)) (\<lambda>v.
     Ok (base_uri, v))))"

definition capture_tail :: "string \<Rightarrow> (char \<Rightarrow> bool) \<Rightarrow> string \<Rightarrow> string option" where
  "capture_tail pre cls s = Option.bind (strip_prefix pre s) (\<lambda>t. if t \<noteq> [] \<and> list_all cls t then Some t else None)"

definition username_char :: "char \<Rightarrow> bool" where
  "username_char c \<longleftrightarrow> is_alnum c \<or> c = CHR ''_'' \<or> c = CHR ''-''"

definition uuid_char :: "char \<Rightarrow> bool" where
  "uuid_char c \<longleftrightarrow> is_hex_lower c \<or> c = CHR ''-''"

datatype uuid_or_username = IdUuid uuid | IdUsername string

definition parse_local_actor_id ::
  "uri_library \<Rightarrow> uuid_format \<Rightarrow> authority \<Rightarrow> string \<Rightarrow> (string, uuid_or_username) outcome" where
  "parse_local_actor_id L F a actor_id =
     obind (map_err (\<lambda>_. ''invalid local actor ID'') (case ath_root a of
         RootServer _ \<Rightarrow> parse_object_id L actor_id (capture_tail ''/users/'' username_char) (\<lambda>u. Some (IdUsername u))
       | RootKey _ \<Rightarrow> parse_object_id L actor_id (capture_tail ''/actors/'' uuid_char) (\<lambda>u. map_option IdUuid (uuid_read F u))))
     (\<lambda>(base_uri, v).
       if base_uri \<noteq> authority_root_to_string L (ath_root a) then Err ''authority mismatch'' else Ok v)"

definition parse_local_object_id ::
  "uri_library \<Rightarrow> uuid_format \<Rightarrow> authority \<Rightarrow> string \<Rightarrow> (string, uuid) outcome" where
  "parse_local_object_id L F a object_id =
     obind (map_err (\<lambda>_. ''invalid local object ID'')
       (parse_object_id L object_id (capture_tail ''/objects/'' uuid_char) (uuid_read F))) (\<lambda>(base_uri, v).
       if base_uri \<noteq> authority_root_to_string L (ath_root a) then Err ''authority mismatch'' else Ok v)"

text \<open>\<open>^/users/([0-9a-z_]+)/proposals/(.+)#primary$\<close>.\<close>

definition capture_proposal :: "string \<Rightarrow> (string \<times> string) option" where
  "capture_proposal s = Option.bind (strip_prefix ''/users/'' s) (\<lambda>t.
     (let u = takeWhile (\<lambda>c. is_lower c \<or> is_digit c \<or> c = CHR ''_'') t in
      if u = [] then None
      else Option.bind (strip_prefix ''/proposals/'' (drop (length u) t)) (\<lambda>r.
           Option.bind (strip_suffix ''#primary'' r) (\<lambda>c.
           if c \<noteq> [] \<and> CHR ''\<newline>'' \<notin> set c then Some (u, c) else None))))"

definition parse_local_primary_intent_id ::
  "uri_library \<Rightarrow> string \<Rightarrow> string \<Rightarrow> (string, string \<times> chain_id) outcome" where
  "parse_local_primary_intent_id L instance_uri proposal_id =
     obind (map_err (\<lambda>_. ''invalid local proposal ID'')
       (parse_object_id L proposal_id capture_proposal
         (\<lambda>(u, c). case chain_id_from_str c of Ok c' \<Rightarrow> Some (u, c') | _ \<Rightarrow> None))) (\<lambda>(base_uri, v).
       if base_uri \<noteq> instance_uri then Err ''instance mismatch'' else Ok v)"

text \<open>\<open>^/activities/[a-z]+/([0-9a-f-]+)$\<close>.\<close>

definition capture_activity :: "string \<Rightarrow> string option" where
  "capture_activity s = Option.bind (strip_prefix ''/activities/'' s) (\<lambda>t.
     (let ty = takeWhile is_lower t in
      if ty = [] then None else capture_tail ''/'' uuid_char (drop (length ty) t)))"

definition parse_local_activity_id ::
  "uri_library \<Rightarrow> uuid_format \<Rightarrow> authority \<Rightarrow> string \<Rightarrow> (string, uuid) outcome" where
  "parse_local_activity_id L F a activity_id =
     (case parse_local_object_id L F a activity_id of
        Ok v \<Rightarrow> Ok v
      | _ \<Rightarrow>
        obind (map_err (\<lambda>_. ''invalid local activity ID'')
          (parse_object_id L activity_id capture_activity (uuid_read F))) (\<lambda>(base_uri, v).
          if base_uri \<noteq> authority_root_to_string L (ath_root a) then Err ''authority mismatch'' else Ok v))"

section \<open>Identifiers of stored actors and objects\<close>

definition profile_actor_id ::
  "uri_library \<Rightarrow> uuid_format \<Rightarrow> authority \<Rightarrow> actor_profile \<Rightarrow> (string, string) outcome" where
  "profile_actor_id L F a p = (case p_actor_json p of
      Some actor \<Rightarrow> Ok (da_id actor)
    | None \<Rightarrow> local_actor_id_unified L F (and_prefer_canonical a) (p_id p) (p_username p))"

definition compatible_id :: "uri_library \<Rightarrow> db_actor \<Rightarrow> string \<Rightarrow> (database_type_error, string) outcome" where
  "compatible_id L actor object_id =
     obind (parse_id_from_db_lenient L object_id) (\<lambda>c.
     obind (case da_gateways actor of
              [] \<Rightarrow> Ok None
            | gateway # _ \<Rightarrow> obind (map_err (\<lambda>_. DatabaseTypeError) (http_uri_parse L gateway)) (\<lambda>u. Ok (Some u)))
       (\<lambda>maybe_gateway.
     case id_build \<lparr>ib_http_base_uri = maybe_gateway, ib_prefer_compatible = True\<rparr> c of
       NcAp None _ \<Rightarrow> Err DatabaseTypeError
     | u \<Rightarrow> Ok (non_canonical_to_string L u)))"

definition expect_compatible_actor_id :: "uri_library \<Rightarrow> db_actor \<Rightarrow> (string, string) outcome" where
  "expect_compatible_actor_id L actor = (case compatible_id L actor (da_id actor) of
      Ok v \<Rightarrow> Ok v | _ \<Rightarrow> Panic ''actor ID should be valid'')"

definition compatible_profile_actor_id ::
  "uri_library \<Rightarrow> uuid_format \<Rightarrow> authority \<Rightarrow> actor_profile \<Rightarrow> (string, string) outcome" where
  "compatible_profile_actor_id L F a p = (case p_actor_json p of
      Some actor \<Rightarrow> if actor_is_portable actor then expect_compatible_actor_id L actor else Ok (da_id actor)
    | None \<Rightarrow> local_actor_id_unified L F a (p_id p) (p_username p))"

definition canonicalize_id :: "uri_library \<Rightarrow> string \<Rightarrow> (string, canonical_uri) outcome" where
  "canonicalize_id L uri = canonical_parse L uri"

section \<open>Properties\<close>

definition uuid_laws :: "uuid_format \<Rightarrow> bool" where
  "uuid_laws F \<longleftrightarrow> (\<forall>u. uuid_read F (uuid_show F u) = Some u \<and> uuid_show F u \<noteq> [] \<and> list_all uuid_char (uuid_show F u))"

lemma uuid_lawsD:
  assumes "uuid_laws F"
  shows "uuid_read F (uuid_show F u) = Some u" "uuid_show F u \<noteq> []" "list_all uuid_char (uuid_show F u)"
  using assms by (simp_all add: uuid_laws_def)

text \<open>An authority whose root is a server without a path, or a valid Ed25519 key.\<close>

fun wf_root :: "uri_library \<Rightarrow> authority_root \<Rightarrow> bool" where
  "wf_root L (RootServer h) \<longleftrightarrow>
     http_uri_parse L (http_uri_to_string h) = Ok h \<and> hu_path h = [] \<and> hu_query h = None \<and> hu_fragment h = None"
| "wf_root L (RootKey key) \<longleftrightarrow> ed25519_key_ok L key"

lemma plain_path_chars:
  "is_alnum c \<Longrightarrow> plain_path_char c" "uuid_char c \<Longrightarrow> plain_path_char c" "username_char c \<Longrightarrow> plain_path_char c"
  by (auto simp: plain_path_char_def uuid_char_def username_char_def is_alnum_def is_hex_lower_def is_lower_def)

lemma plain_path_no_newline: "plain_path p \<Longrightarrow> CHR ''\<newline>'' \<notin> set p"
  by (auto simp: plain_path_def list_all_iff plain_path_char_def is_alnum_def is_lower_def is_upper_def is_digit_def)

lemma http_scheme_not_ap: "\<not> is_ap_uri (http_uri_to_string h)"
  by (cases "hu_scheme h") (simp_all add: is_ap_uri_def http_uri_to_string_def recompose_def)

lemma plain_path_no_gateway: "plain_path p \<Longrightarrow> \<not> prefix gateway_path_prefix p"
proof
  assume "plain_path p" "prefix gateway_path_prefix p"
  then have "CHR ''.'' \<in> set p" by (auto simp: gateway_path_prefix_def prefix_def)
  with \<open>plain_path p\<close> show False
    by (auto simp: plain_path_def list_all_iff plain_path_char_def is_alnum_def is_lower_def is_upper_def is_digit_def)
qed

text \<open>A plain path below an authority is canonical, and \<open>parse_object_id\<close> takes it apart again.\<close>

lemma root_path_parses:
  assumes "uri_laws L" and "wf_root L root" and "plain_path p"
  shows "parse_object_id L (authority_root_to_string L root @ p) re conv =
    obind (ok_or ''invalid path'' (re p)) (\<lambda>caps.
    obind (ok_or ''invalid path segment'' (conv caps)) (\<lambda>v. Ok (authority_root_to_string L root, v)))"
    and "\<exists>c. expect_canonical L (authority_root_to_string L root @ p) = Ok c
      \<and> canonical_to_string L c = authority_root_to_string L root @ p"
proof -
  let ?s = "authority_root_to_string L root @ p"
  have "(\<exists>c. parse_canonical L ?s = Ok c \<and> canonical_to_string L c = ?s \<and>
    (case c of CuAp a \<Rightarrow> (ap_uri_base L a, ap_relative_uri a) | CuHttp h \<Rightarrow> (http_uri_base h, http_to_relative h))
      = (authority_root_to_string L root, p))"
  proof (cases root)
    case (RootServer h)
    let ?h = "h\<lparr>hu_path := p\<rparr>"
    have bare: "hu_path h = []" "hu_query h = None" "hu_fragment h = None"
      and "http_uri_parse L (http_uri_to_string h) = Ok h" using assms(2) RootServer by simp_all
    from http_uri_append [OF assms(1) this(4) this(1-3) assms(3)]
    have h: "http_uri_parse L ?s = Ok ?h" by (simp add: RootServer)
    moreover have "http_uri_to_string ?h = ?s" by (rule http_uri_print [OF assms(1) h])
    moreover have "\<not> is_ap_uri ?s" using \<open>http_uri_to_string ?h = ?s\<close> http_scheme_not_ap [of ?h] by simp
    moreover have "http_uri_base ?h = http_uri_to_string h" "http_to_relative ?h = p"
      using bare by (simp_all add: http_uri_split http_uri_base_def http_to_relative_def with_mark_def)
    ultimately show ?thesis
      using plain_path_no_gateway [OF assms(3)]
      by (intro exI [of _ "CuHttp ?h"]) (simp add: parse_canonical_Ok canonical_parse_http RootServer)
  next
    case (RootKey key)
    let ?a = "\<lparr>au_authority = DidKey (did_key_from_ed25519 key),
      au_location = \<lparr>rr_authority = None, rr_path = p, rr_query = None, rr_fragment = None\<rparr>\<rparr>"
    have rel: "ap_relative_uri ?a = p" by (simp add: ap_relative_uri_def recompose_relative_def with_mark_def)
    have "wf_ap_uri L ?a"
      using assms(2,3) uri_lawsD(4) [OF assms(1,3)] rel RootKey plain_path_no_newline [OF assms(3)]
      by (auto simp: wf_ap_uri_def try_ed25519_key_def did_key_from_ed25519_def ap_relative_uri_def plain_path_def)
    moreover have "2 \<le> length p" using assms(3) by (auto simp: plain_path_def neq_Nil_conv)
    ultimately have "ap_uri_parse L (ap_uri_to_string L ?a) = Ok ?a"
      using ap_uri_reparse [OF assms(1)] rel by simp
    moreover have s: "ap_uri_to_string L ?a = ?s"
      using rel by (simp add: RootKey ap_uri_to_string_def ap_uri_base_def with_ap_prefix_def ap_uri_prefix_def)
    moreover have "ap_without_query L ?a = Ok ?a"
      using ap_without_query_ok(1) [OF assms(1) \<open>wf_ap_uri L ?a\<close>] by simp
    ultimately have "parse_canonical L ?s = Ok (CuAp ?a)"
      using is_ap_uri_printed [of L ?a]
      by (simp add: parse_canonical_Ok canonical_parse_def non_canonical_parse_def)
    moreover have "ap_uri_base L ?a = authority_root_to_string L root"
      by (simp add: RootKey ap_uri_base_def with_ap_prefix_def ap_uri_prefix_def)
    ultimately show ?thesis using s rel by (intro exI [of _ "CuAp ?a"]) simp
  qed
  then obtain c where c: "parse_canonical L ?s = Ok c" "canonical_to_string L c = ?s"
    "(case c of CuAp a \<Rightarrow> (ap_uri_base L a, ap_relative_uri a) | CuHttp h \<Rightarrow> (http_uri_base h, http_to_relative h))
      = (authority_root_to_string L root, p)" by blast
  then show "\<exists>c. expect_canonical L ?s = Ok c \<and> canonical_to_string L c = ?s" by (simp add: expect_canonical_def)
  show "parse_object_id L ?s re conv =
    obind (ok_or ''invalid path'' (re p)) (\<lambda>caps.
    obind (ok_or ''invalid path segment'' (conv caps)) (\<lambda>v. Ok (authority_root_to_string L root, v)))"
    using c(1,3) by (simp add: parse_object_id_def)
qed

lemma capture_tail_append: "t \<noteq> [] \<Longrightarrow> list_all cls t \<Longrightarrow> capture_tail pre cls (pre @ t) = Some t"
  by (simp add: capture_tail_def strip_prefix_def)

lemma plain_path_users: "u \<noteq> [] \<Longrightarrow> list_all username_char u \<Longrightarrow> plain_path (''/users/'' @ u)"
  using plain_path_chars by (auto simp: plain_path_def list_all_iff plain_path_char_def is_alnum_def is_lower_def)

lemma plain_path_uuid:
  "uuid_laws F \<Longrightarrow> plain_path (''/actors/'' @ uuid_show F u)" "uuid_laws F \<Longrightarrow> plain_path (''/objects/'' @ uuid_show F u)"
  using uuid_lawsD(3) plain_path_chars
  by (auto simp: plain_path_def list_all_iff plain_path_char_def is_alnum_def is_lower_def)

lemma parse_local_object_id_roundtrip:
  assumes "uri_laws L" and "uuid_laws F" and "wf_root L (ath_root a)"
  shows "parse_local_object_id L F a (authority_root_to_string L (ath_root a) @ ''/objects/'' @ uuid_show F u) = Ok u"
  unfolding parse_local_object_id_def root_path_parses(1) [OF assms(1,3) plain_path_uuid(2) [OF assms(2)]]
    capture_tail_append [OF uuid_lawsD(2,3) [OF assms(2)]]
  by (simp add: uuid_lawsD [OF assms(2)])

lemma local_actor_id_roundtrip:
  assumes "uri_laws L" and "uuid_laws F" and "wf_root L (ath_root a)"
    and "username \<noteq> []" and "list_all username_char username"
  shows "\<exists>c. local_actor_id_canonical L F (ath_root a) u username = Ok c \<and>
    parse_local_actor_id L F a (canonical_to_string L c) =
      Ok (case ath_root a of RootServer _ \<Rightarrow> IdUsername username | RootKey _ \<Rightarrow> IdUuid u)"
proof (cases "ath_root a")
  case (RootServer h)
  note path = plain_path_users [OF assms(4,5)]
  obtain c where "local_actor_id_canonical L F (ath_root a) u username = Ok c"
    and c: "canonical_to_string L c = authority_root_to_string L (ath_root a) @ ''/users/'' @ username"
    using root_path_parses(2) [OF assms(1,3) path] by (auto simp: local_actor_id_canonical_def RootServer)
  moreover have "parse_local_actor_id L F a (canonical_to_string L c) = Ok (IdUsername username)"
    unfolding parse_local_actor_id_def c root_path_parses(1) [OF assms(1,3) path]
      capture_tail_append [OF assms(4,5)] by (simp add: RootServer)
  ultimately show ?thesis by (simp add: RootServer)
next
  case (RootKey key)
  note path = plain_path_uuid(1) [OF assms(2), of u]
  obtain c where "local_actor_id_canonical L F (ath_root a) u username = Ok c"
    and c: "canonical_to_string L c = authority_root_to_string L (ath_root a) @ ''/actors/'' @ uuid_show F u"
    using root_path_parses(2) [OF assms(1,3) path] by (auto simp: local_actor_id_canonical_def RootKey)
  moreover have "parse_local_actor_id L F a (canonical_to_string L c) = Ok (IdUuid u)"
    unfolding parse_local_actor_id_def c root_path_parses(1) [OF assms(1,3) path]
      capture_tail_append [OF uuid_lawsD(2,3) [OF assms(2)]] by (simp add: RootKey uuid_lawsD [OF assms(2)])
  ultimately show ?thesis by (simp add: RootKey)
qed

lemma to_ascii_lower_alpha: "is_alpha c \<Longrightarrow> is_lower (to_ascii_lower c)"
  by (auto simp: is_alpha_def to_ascii_lower_def is_lower_def is_upper_def)

lemma plain_path_activity:
  assumes "uuid_laws F" and "ty \<noteq> []" and "list_all is_alpha ty"
  shows "plain_path (''/activities/'' @ map to_ascii_lower ty @ ''/'' @ uuid_show F u)"
proof -
  have "list_all plain_path_char (map to_ascii_lower ty)"
    using assms(3) to_ascii_lower_alpha by (auto simp: list_all_iff plain_path_char_def is_alnum_def)
  moreover have "list_all plain_path_char (uuid_show F u)"
    using uuid_lawsD(3) [OF assms(1), of u] plain_path_chars by (auto simp: list_all_iff)
  ultimately show ?thesis
    by (auto simp: plain_path_def plain_path_char_def is_alnum_def is_lower_def)
qed


text \<open>Activity identifiers are not mistaken for object identifiers, and parse to their UUID.\<close>

lemma local_activity_id_roundtrip:
  assumes "uri_laws L" and "uuid_laws F" and "wf_root L (ath_root a)"
    and "ty \<noteq> []" and "list_all is_alpha ty"
  shows "\<exists>c. local_activity_id_canonical L F (ath_root a) ty u = Ok c \<and>
    parse_local_activity_id L F a (canonical_to_string L c) = Ok u"
proof -
  let ?ty = "map to_ascii_lower ty" and ?u = "uuid_show F u"
  let ?p = "''/activities/'' @ ?ty @ ''/'' @ ?u"
  have ty: "?ty \<noteq> []" "list_all is_lower ?ty"
    using assms(4,5) to_ascii_lower_alpha by (auto simp: list_all_iff)
  have path: "plain_path ?p" by (rule plain_path_activity [OF assms(2,4,5)])
  obtain c where "local_activity_id_canonical L F (ath_root a) ty u = Ok c"
    and c: "canonical_to_string L c = authority_root_to_string L (ath_root a) @ ?p"
    using root_path_parses(2) [OF assms(1,3) path] by (auto simp: local_activity_id_canonical_def)
  moreover have "capture_tail ''/objects/'' uuid_char ?p = None"
    by (simp add: capture_tail_def strip_prefix_def)
  then have "parse_local_object_id L F a (canonical_to_string L c) = Err ''invalid local object ID''"
    unfolding parse_local_object_id_def c root_path_parses(1) [OF assms(1,3) path] by simp
  moreover have "takeWhile is_lower (?ty @ CHR ''/'' # ?u) = ?ty"
    by (rule takeWhile_run [OF ty(2)]) (simp add: is_lower_def)
  then have "capture_activity ?p = Some ?u"
    using ty(1) capture_tail_append [OF uuid_lawsD(2,3) [OF assms(2)], of "''/''" u]
    by (simp add: capture_activity_def strip_prefix_def)
  then have "parse_object_id L (canonical_to_string L c) capture_activity (uuid_read F) =
      Ok (authority_root_to_string L (ath_root a), u)"
    unfolding c root_path_parses(1) [OF assms(1,3) path] by (simp add: uuid_lawsD [OF assms(2)])
  ultimately show ?thesis by (simp add: parse_local_activity_id_def)
qed

section \<open>Identifiers given out\<close>

text \<open>A key with a gateway gives out compatible identifiers, unless canonical ones are preferred.\<close>

definition uses_gateway :: "authority \<Rightarrow> bool" where
  "uses_gateway a \<longleftrightarrow> is_fep_ef61 a \<and> ath_http_base_uri a \<noteq> None \<and> ath_prefer_compatible a"

definition wf_authority :: "uri_library \<Rightarrow> authority \<Rightarrow> bool" where
  "wf_authority L a \<longleftrightarrow> wf_root L (ath_root a) \<and> (case ath_http_base_uri a of Some g \<Rightarrow> wf_root L (RootServer g) | None \<Rightarrow> True)"

text \<open>The paths of compatible identifiers need no escaping either: a colon may stand in a path.\<close>

definition gateway_laws :: "uri_library \<Rightarrow> bool" where
  "gateway_laws L \<longleftrightarrow> (\<forall>s u q. uri_from_str L s = Some u \<longrightarrow> bare_uri u \<longrightarrow> list_all (\<lambda>c. plain_path_char c \<or> c = CHR '':'') q \<longrightarrow>
     uri_from_str L (s @ gateway_path_prefix @ q) = Some (u\<lparr>us_path := gateway_path_prefix @ q\<rparr>)
     \<and> (\<forall>w. whatwg_parse L s = Some w \<longrightarrow> (\<exists>w'. whatwg_parse L (s @ gateway_path_prefix @ q) = Some w'
          \<and> wu_scheme w' = wu_scheme w \<and> wu_has_host w' = wu_has_host w)))"

text \<open>The identifier is read back from its canonical form, and as it is exactly if it is canonical itself.\<close>

definition read_back :: "uri_library \<Rightarrow> authority \<Rightarrow> (string \<Rightarrow> (string, 'v) outcome) \<Rightarrow> string \<Rightarrow> 'v \<Rightarrow> bool" where
  "read_back L a parse i v \<longleftrightarrow> (\<exists>c. canonicalize_id L i = Ok c \<and> parse (canonical_to_string L c) = Ok v)
     \<and> (if uses_gateway a then \<not> is_ok (parse i) else parse i = Ok v)"

lemma gateway_uri_parses:
  assumes laws: "gateway_laws L" and g: "wf_root L (RootServer g)" and q: "list_all (\<lambda>c. plain_path_char c \<or> c = CHR '':'') q"
  shows "http_uri_parse L (http_uri_to_string g @ gateway_path_prefix @ q) = Ok (g\<lparr>hu_path := gateway_path_prefix @ q\<rparr>)"
proof -
  let ?s = "http_uri_to_string g" and ?p = "gateway_path_prefix @ q"
  have parse: "http_uri_parse L ?s = Ok g" and bare: "hu_path g = []" "hu_query g = None" "hu_fragment g = None" using g by simp_all
  then obtain u w where u: "uri_from_str L ?s = Some u" "us_scheme u = scheme_str (hu_scheme g)"
    "us_authority u = Some (hu_authority g)" and w: "parse_http_url_whatwg L ?s = Ok w"
    and "bare_uri u" and rest: "us_query u = None" "us_fragment u = None"
    by (auto simp: http_uri_parse_Ok bare_uri_def)
  then have u': "uri_from_str L (?s @ ?p) = Some (u\<lparr>us_path := ?p\<rparr>)"
    using laws q unfolding gateway_laws_def by blast
  have "whatwg_parse L ?s = Some w" using w by (auto simp: parse_http_url_whatwg_def ok_runs split: if_splits)
  then obtain w' where "whatwg_parse L (?s @ ?p) = Some w'" "wu_scheme w' = wu_scheme w" "wu_has_host w' = wu_has_host w"
    using laws q u(1) \<open>bare_uri u\<close> unfolding gateway_laws_def by blast
  with w have "parse_http_url_whatwg L (?s @ ?p) = Ok w'"
    by (auto simp: parse_http_url_whatwg_def ok_runs split: if_splits)
  with u' u rest parse bare show ?thesis by (auto simp: http_uri_parse_Ok)
qed

lemma did_key_path_chars:
  assumes "uri_laws L"
  shows "list_all (\<lambda>c. plain_path_char c \<or> c = CHR '':'') (did_key_to_string (codecs_of L) k)"
proof -
  obtain b where "key_multibase (codecs_of L) k = CHR ''z'' # b" "list_all is_base58_char b"
    using key_multibase_shape [OF uri_lawsD(8) [OF assms]] by blast
  then show ?thesis
    using base58_alnum
    by (auto simp: did_key_to_string_def list_all_iff plain_path_char_def is_alnum_def is_lower_def)
qed

text \<open>Under a gateway the canonical form is that of the key.\<close>

lemma gateway_canonical:
  assumes laws: "uri_laws L" "gateway_laws L" and g: "wf_root L (RootServer g)" and p: "plain_path p"
  shows "canonical_parse L (http_uri_to_string g @ gateway_path_prefix @ did_key_to_string (codecs_of L) (did_key_from_ed25519 key) @ p)
    = canonical_parse L (authority_root_to_string L (RootKey key) @ p)"
proof -
  let ?did = "did_key_to_string (codecs_of L) (did_key_from_ed25519 key)"
  let ?h = "g\<lparr>hu_path := gateway_path_prefix @ ?did @ p\<rparr>" and ?i = "http_uri_to_string g @ gateway_path_prefix @ ?did @ p"
  have "list_all (\<lambda>c. plain_path_char c \<or> c = CHR '':'') (?did @ p)"
    using did_key_path_chars [OF laws(1)] p by (auto simp: plain_path_def list_all_iff)
  from gateway_uri_parses [OF laws(2) g this] have h: "http_uri_parse L ?i = Ok ?h" .
  then have "\<not> is_ap_uri ?i" using http_uri_print [OF laws(1) h] http_scheme_not_ap [of ?h] by simp
  moreover have "http_to_relative ?h = gateway_path_prefix @ ?did @ p" "http_uri_base ?h = http_uri_to_string g"
    using g by (simp_all add: http_to_relative_def http_uri_split http_uri_base_def with_mark_def)
  moreover have "with_ap_prefix (?did @ p) = authority_root_to_string L (RootKey key) @ p"
    by (simp add: with_ap_prefix_def)
  moreover have "is_ap_uri (authority_root_to_string L (RootKey key) @ p)"
    by (simp add: is_ap_uri_def with_ap_prefix_def ap_uri_prefix_def)
  ultimately show ?thesis
    using h g
    by (cases "ap_uri_parse L (authority_root_to_string L (RootKey key) @ p)")
      (simp_all add: canonical_parse_def non_canonical_parse_def parse_compatible_ap_uri_def ap_uri_from_did_url_def strip_prefix_def)
qed

lemma http_prefix_not_ap: "\<not> is_ap_uri (http_uri_to_string h @ q)"
  by (cases "hu_scheme h") (simp_all add: is_ap_uri_def http_uri_to_string_def recompose_def)

lemma ap_not_http: "ap_uri_to_string L u \<noteq> http_uri_to_string h @ q"
  using http_prefix_not_ap [of h q] is_ap_uri_printed [of L u] by metis

text \<open>The identifier below a path, as the builder and as the printed authority give it.\<close>

lemma given_out:
  assumes laws: "uri_laws L" "gateway_laws L" and a: "wf_authority L a" and p: "plain_path p"
  obtains c where "expect_canonical L (authority_root_to_string L (ath_root a) @ p) = Ok c"
    "canonical_to_string L c = authority_root_to_string L (ath_root a) @ p"
    "non_canonical_to_string L (id_build (authority_id_builder a) c) = authority_to_string L a @ p"
    "canonicalize_id L (authority_to_string L a @ p) = Ok c"
    "uses_gateway a \<Longrightarrow> \<not> is_ok (parse_canonical L (authority_to_string L a @ p))"
    "\<not> uses_gateway a \<Longrightarrow> authority_to_string L a = authority_root_to_string L (ath_root a)"
proof -
  let ?root = "authority_root_to_string L (ath_root a)"
  have root: "wf_root L (ath_root a)" using a by (simp add: wf_authority_def)
  obtain c where c: "expect_canonical L (?root @ p) = Ok c" "canonical_to_string L c = ?root @ p"
    using root_path_parses(2) [OF laws(1) root p] by blast
  have parse: "canonical_parse L (?root @ p) = Ok c"
    using c(1) by (auto simp: expect_canonical_def parse_canonical_Ok split: outcome.splits)
  show ?thesis
  proof (cases "uses_gateway a")
    case True
    then obtain key g where key: "ath_root a = RootKey key" "ath_http_base_uri a = Some g" "ath_prefer_compatible a"
      by (auto simp: uses_gateway_def is_fep_ef61_def split: authority_root.splits)
    have g: "wf_root L (RootServer g)" using a key(2) by (simp add: wf_authority_def)
    have s: "authority_to_string L a @ p
        = http_uri_to_string g @ gateway_path_prefix @ did_key_to_string (codecs_of L) (did_key_from_ed25519 key) @ p"
      using key by (simp add: authority_to_string_def)
    have canon: "canonical_parse L (authority_to_string L a @ p) = Ok c"
      unfolding s gateway_canonical [OF laws g p] using parse key(1) by simp
    have "is_ap_uri (?root @ p)" using key(1) by (simp add: is_ap_uri_def with_ap_prefix_def ap_uri_prefix_def)
    then obtain u where u: "c = CuAp u"
      using parse by (cases c) (auto simp: canonical_parse_http)
    have "to_did_url L u = did_key_to_string (codecs_of L) (did_key_from_ed25519 key) @ p"
      using c(2) u key(1) by (simp add: ap_uri_to_string_def ap_uri_base_def to_did_url_def with_ap_prefix_def ap_uri_prefix_def)
    then have "non_canonical_to_string L (id_build (authority_id_builder a) c) = authority_to_string L a @ p"
      unfolding s using key u by (simp add: authority_id_builder_def with_gateway_def)
    moreover have "\<not> is_ok (parse_canonical L (authority_to_string L a @ p))"
    proof -
      have "\<not> is_ap_uri (authority_to_string L a @ p)"
        unfolding s by (rule http_prefix_not_ap)
      then have "?root @ p \<noteq> authority_to_string L a @ p" using \<open>is_ap_uri (?root @ p)\<close> by metis
      then show ?thesis using canon c(2) by (simp add: parse_canonical_def)
    qed
    ultimately show ?thesis using that [OF c] canon True by (simp add: canonicalize_id_def)
  next
    case False
    then have s: "authority_to_string L a = ?root"
      by (auto simp: uses_gateway_def is_fep_ef61_def authority_to_string_def split: authority_root.splits option.splits)
    have "non_canonical_to_string L (id_build (authority_id_builder a) c) = canonical_to_string L c"
      using False parse c(2)
      by (cases c) (auto simp: ap_not_http authority_id_builder_def uses_gateway_def is_fep_ef61_def canonical_parse_http
          split: authority_root.splits)
    then show ?thesis using that [OF c] c(2) parse s False by (simp add: canonicalize_id_def)
  qed
qed

lemma not_canonical_refused:
  assumes "\<not> is_ok (parse_canonical L i)"
  shows "\<not> is_ok (parse_local_object_id L F a i)" "\<not> is_ok (parse_local_actor_id L F a i)" "\<not> is_ok (parse_local_activity_id L F a i)"
proof -
  show object: "\<not> is_ok (parse_local_object_id L F a i)"
    using assms by (cases "parse_canonical L i") (simp_all add: parse_local_object_id_def parse_object_id_def)
  show "\<not> is_ok (parse_local_actor_id L F a i)"
    using assms by (cases "parse_canonical L i") (simp_all add: parse_local_actor_id_def parse_object_id_def split: authority_root.split)
  show "\<not> is_ok (parse_local_activity_id L F a i)"
    using object assms
    by (cases "parse_canonical L i"; cases "parse_local_object_id L F a i") (simp_all add: parse_local_activity_id_def parse_object_id_def)
qed

lemma given_out_read_back:
  assumes "uri_laws L" "gateway_laws L" "wf_authority L a" "plain_path p"
    and "parse (authority_root_to_string L (ath_root a) @ p) = Ok v"
    and "\<And>i. \<not> is_ok (parse_canonical L i) \<Longrightarrow> \<not> is_ok (parse i)"
  shows "read_back L a parse (authority_to_string L a @ p) v"
  by (rule given_out [OF assms(1-4)]) (use assms(5,6) in \<open>auto simp: read_back_def\<close>)

lemma local_ids_read_back:
  assumes laws: "uri_laws L" "gateway_laws L" "uuid_laws F" and a: "wf_authority L a"
    and name: "username \<noteq> []" "list_all username_char username" and ty: "ty \<noteq> []" "list_all is_alpha ty"
  shows "read_back L a (parse_local_object_id L F a) (local_object_id_unified L F a u) u"
    "\<exists>i. local_actor_id_unified L F a u username = Ok i
      \<and> read_back L a (parse_local_actor_id L F a) i (case ath_root a of RootServer _ \<Rightarrow> IdUsername username | RootKey _ \<Rightarrow> IdUuid u)"
    "\<exists>i. local_activity_id_unified L F a ty u = Ok i \<and> read_back L a (parse_local_activity_id L F a) i u"
proof -
  have root: "wf_root L (ath_root a)" using a by (simp add: wf_authority_def)
  show "read_back L a (parse_local_object_id L F a) (local_object_id_unified L F a u) u"
    unfolding local_object_id_unified_def
    using parse_local_object_id_roundtrip [OF laws(1,3) root] not_canonical_refused(1)
    by (intro given_out_read_back [OF laws(1,2) a plain_path_uuid(2) [OF laws(3)]]) auto
  let ?actor = "case ath_root a of RootServer _ \<Rightarrow> ''/users/'' @ username | RootKey _ \<Rightarrow> ''/actors/'' @ uuid_show F u"
  have path: "plain_path ?actor" using plain_path_users [OF name] plain_path_uuid(1) [OF laws(3)] by (simp split: authority_root.split)
  obtain c where c: "expect_canonical L (authority_root_to_string L (ath_root a) @ ?actor) = Ok c"
    "canonical_to_string L c = authority_root_to_string L (ath_root a) @ ?actor"
    "non_canonical_to_string L (id_build (authority_id_builder a) c) = authority_to_string L a @ ?actor"
    by (rule given_out [OF laws(1,2) a path])
  have "parse_local_actor_id L F a (authority_root_to_string L (ath_root a) @ ?actor)
      = Ok (case ath_root a of RootServer _ \<Rightarrow> IdUsername username | RootKey _ \<Rightarrow> IdUuid u)"
    using local_actor_id_roundtrip [OF laws(1,3) root name, of u] c(1,2) by (auto simp: local_actor_id_canonical_def)
  from given_out_read_back [OF laws(1,2) a path, of "parse_local_actor_id L F a", OF this not_canonical_refused(2)] c(1,3)
  show "\<exists>i. local_actor_id_unified L F a u username = Ok i
      \<and> read_back L a (parse_local_actor_id L F a) i (case ath_root a of RootServer _ \<Rightarrow> IdUsername username | RootKey _ \<Rightarrow> IdUuid u)"
    by (simp add: local_actor_id_unified_def local_actor_id_canonical_def)
  let ?activity = "''/activities/'' @ map to_ascii_lower ty @ ''/'' @ uuid_show F u"
  have path: "plain_path ?activity" by (rule plain_path_activity [OF laws(3) ty])
  obtain c where c: "expect_canonical L (authority_root_to_string L (ath_root a) @ ?activity) = Ok c"
    "canonical_to_string L c = authority_root_to_string L (ath_root a) @ ?activity"
    "non_canonical_to_string L (id_build (authority_id_builder a) c) = authority_to_string L a @ ?activity"
    by (rule given_out [OF laws(1,2) a path])
  have "parse_local_activity_id L F a (authority_root_to_string L (ath_root a) @ ?activity) = Ok u"
    using local_activity_id_roundtrip [OF laws(1,3) root ty, of u] c(1,2) by (auto simp: local_activity_id_canonical_def)
  from given_out_read_back [OF laws(1,2) a path, of "parse_local_activity_id L F a", OF this not_canonical_refused(3)] c(1,3)
  show "\<exists>i. local_activity_id_unified L F a ty u = Ok i \<and> read_back L a (parse_local_activity_id L F a) i u"
    by (simp add: local_activity_id_unified_def local_activity_id_canonical_def)
qed

end
