(* ===== verification/UriSamples.thy ===== *)
theory UriSamples
  imports ApIdentifiers
begin

text \<open>
  A concrete library behind the URI model, which shows that the laws the theorems assume can hold
  together: the generic syntax of RFC 3986 by its separators, bytes in pairs of base-58 digits,
  numbers and identifiers in unary.
\<close>

section \<open>Encodings\<close>

definition nibble_digits :: string where
  "nibble_digits = ''123456789ABCDEFG''"

definition digit_value :: "char \<Rightarrow> nat" where
  "digit_value c = length (takeWhile (\<lambda>d. d \<noteq> c) nibble_digits)"

fun pair_encode :: "bytes \<Rightarrow> string" where
  "pair_encode [] = []"
| "pair_encode (b # bs) =
     nibble_digits ! (of_char b div 16) # nibble_digits ! (of_char b mod 16) # pair_encode bs"

fun pair_decode :: "string \<Rightarrow> bytes option" where
  "pair_decode [] = Some []"
| "pair_decode [c] = None"
| "pair_decode (c # d # cs) =
     map_option (Cons (char_of (16 * digit_value c + digit_value d))) (pair_decode cs)"

definition unary_encode :: "nat \<Rightarrow> bytes" where
  "unary_encode n = replicate n (CHR ''a'') @ ''b''"

definition unary_decode :: "bytes \<Rightarrow> (nat \<times> bytes) option" where
  "unary_decode s = (let n = length (takeWhile (\<lambda>c. c = CHR ''a'') s) in
     if drop n s = [] then None else Some (n, drop (Suc n) s))"

definition sample_codecs :: codecs where
  "sample_codecs = \<lparr>bs58_encode = pair_encode, bs58_decode = pair_decode, base64url_encode = pair_encode,
     base64url_decode = pair_decode, varint_encode = unary_encode, varint_decode = unary_decode\<rparr>"

lemma nibble_checked: "list_all (\<lambda>n. digit_value (nibble_digits ! n) = n \<and> is_base58_char (nibble_digits ! n)) [0..<16]"
  by code_simp

lemma nibble: "n < 16 \<Longrightarrow> digit_value (nibble_digits ! n) = n" "n < 16 \<Longrightarrow> is_base58_char (nibble_digits ! n)"
  using nibble_checked by (simp_all add: list_all_iff)

lemma byte_halves: "of_char (b :: char) div 16 < (16 :: nat)"
  using nat_of_char_less_256 [of b] by (simp add: less_mult_imp_div_less)

lemma pair_roundtrip: "pair_decode (pair_encode bs) = Some bs"
  by (induction bs) (simp_all add: nibble byte_halves)

lemma pair_base58: "list_all is_base58_char (pair_encode bs)"
  by (induction bs) (simp_all add: nibble byte_halves)

lemma unary_roundtrip: "unary_decode (unary_encode n @ s) = Some (n, s)"
proof -
  have "takeWhile (\<lambda>c. c = CHR ''a'') (replicate n (CHR ''a'') @ ''b'' @ s) = replicate n (CHR ''a'')"
    by (induction n) simp_all
  then show ?thesis by (simp add: unary_decode_def unary_encode_def)
qed

lemma sample_codec_laws: "codec_laws sample_codecs"
proof -
  have "pair_encode b \<noteq> []" if "b \<noteq> []" for b using that by (cases b) simp_all
  then show ?thesis
    by (simp add: codec_laws_def sample_codecs_def pair_roundtrip pair_base58 unary_roundtrip)
      (simp add: unary_encode_def)
qed

section \<open>Generic syntax\<close>

definition cut_at :: "char \<Rightarrow> string \<Rightarrow> string \<times> string option" where
  "cut_at c s = (let a = takeWhile (\<lambda>x. x \<noteq> c) s in
     (a, case drop (length a) s of [] \<Rightarrow> None | _ # r \<Rightarrow> Some r))"

definition split_authority :: "string \<Rightarrow> string option \<times> string" where
  "split_authority s = (case strip_prefix ''//'' s of
      Some r \<Rightarrow> (let a = takeWhile (\<lambda>x. x \<noteq> CHR ''/'') r in (Some a, drop (length a) r))
    | None \<Rightarrow> (None, s))"

definition split_reference :: "string \<Rightarrow> relative_ref" where
  "split_reference s =
     (case cut_at (CHR ''#'') s of (r, fragment) \<Rightarrow>
      case cut_at (CHR ''?'') r of (q, query) \<Rightarrow>
      case split_authority q of (authority, path) \<Rightarrow>
      \<lparr>rr_authority = authority, rr_path = path, rr_query = query, rr_fragment = fragment\<rparr>)"

definition absolute_of :: "string \<Rightarrow> relative_ref \<Rightarrow> absolute_uri" where
  "absolute_of scheme r = \<lparr>us_scheme = scheme, us_authority = rr_authority r, us_path = rr_path r,
     us_query = rr_query r, us_fragment = rr_fragment r\<rparr>"

definition split_uri :: "string \<Rightarrow> absolute_uri option" where
  "split_uri s = (case cut_at (CHR '':'') s of
      (scheme, Some rest) \<Rightarrow> Some (absolute_of scheme (split_reference rest))
    | (_, None) \<Rightarrow> None)"

definition sample_whatwg :: "string \<Rightarrow> whatwg_url option" where
  "sample_whatwg s = map_option (\<lambda>u. \<lparr>wu_scheme = us_scheme u, wu_has_host = (us_authority u \<noteq> None), wu_string = s\<rparr>) (split_uri s)"

definition sample_uris :: uri_library where
  "sample_uris = \<lparr>uri_from_str = split_uri, authority_components = (\<lambda>a. Some (a, None)),
     relative_from_str = (\<lambda>s. Some (split_reference s)), whatwg_parse = sample_whatwg, percent_decode = (\<lambda>s. s),
     percent_encode = (\<lambda>s. s), form_pairs = (\<lambda>_. []), ed25519_key_ok = (\<lambda>_. True), codecs_of = sample_codecs\<rparr>"

lemma cut_join:
  assumes "cut_at c s = (a, b)"
  shows "a @ with_mark c b = s \<and> c \<notin> set a"
proof -
  let ?a = "takeWhile (\<lambda>x. x \<noteq> c) s" and ?d = "dropWhile (\<lambda>x. x \<noteq> c) s"
  have drop: "drop (length ?a) s = ?d" by (simp add: dropWhile_eq_drop)
  have a: "a = ?a" and b: "b = (case ?d of [] \<Rightarrow> None | _ # r \<Rightarrow> Some r)"
    using assms by (simp_all add: cut_at_def Let_def drop)
  have "c \<notin> set ?a" by (auto dest: set_takeWhileD)
  moreover have "with_mark c b = ?d"
  proof (cases ?d)
    case (Cons x r)
    then have "x = c" using hd_dropWhile [of "\<lambda>x. x \<noteq> c" s] by simp
    with Cons show ?thesis unfolding b Cons by (simp add: with_mark_def)
  qed (simp only: b list.case with_mark_def option.case)
  ultimately show ?thesis by (simp add: a)
qed

lemma cut_of_join:
  assumes "c \<notin> set a"
  shows "cut_at c (a @ with_mark c b) = (a, b)"
proof -
  have "takeWhile (\<lambda>x. x \<noteq> c) (a @ with_mark c b) = a"
  proof (cases b)
    case None
    then show ?thesis unfolding with_mark_def using assms by (simp add: takeWhile_eq_all_conv) metis
  next
    case (Some r)
    then show ?thesis using takeWhile_neq_append [OF assms] by (simp add: with_mark_def)
  qed
  then show ?thesis unfolding cut_at_def Let_def by (simp only:) (cases b; simp add: with_mark_def)
qed

definition join_authority :: "string option \<Rightarrow> string \<Rightarrow> string" where
  "join_authority a p = (case a of Some x \<Rightarrow> ''//'' @ x | None \<Rightarrow> []) @ p"

definition wf_parts :: "string option \<Rightarrow> string \<Rightarrow> bool" where
  "wf_parts a p \<longleftrightarrow> (case a of
      Some x \<Rightarrow> CHR ''/'' \<notin> set x \<and> (p = [] \<or> hd p = CHR ''/'')
    | None \<Rightarrow> \<not> prefix ''//'' p)"

lemma split_authority_join: "split_authority s = (a, p) \<Longrightarrow> join_authority a p = s \<and> wf_parts a p"
proof -
  assume split: "split_authority s = (a, p)"
  have slash: "CHR ''/'' \<notin> set (takeWhile (\<lambda>x. x \<noteq> CHR ''/'') r)" for r by (auto dest: set_takeWhileD)
  have rest: "drop (length (takeWhile (\<lambda>x. x \<noteq> CHR ''/'') r)) r = []
      \<or> hd (drop (length (takeWhile (\<lambda>x. x \<noteq> CHR ''/'') r)) r) = CHR ''/''" for r :: string
    using hd_dropWhile [of "\<lambda>x. x \<noteq> CHR ''/''" r] by (auto simp: dropWhile_eq_drop)
  show ?thesis
  proof (cases "strip_prefix ''//'' s")
    case None
    then have "\<not> prefix ''//'' s" by (auto simp: strip_prefix_def split: if_splits)
    with None split show ?thesis by (auto simp: split_authority_def join_authority_def wf_parts_def)
  next
    case (Some r)
    then have "s = ''//'' @ r" by (auto simp: strip_prefix_def prefix_def split: if_splits)
    moreover have "a = Some (takeWhile (\<lambda>x. x \<noteq> CHR ''/'') r)"
      and "p = drop (length (takeWhile (\<lambda>x. x \<noteq> CHR ''/'') r)) r"
      using Some split by (simp_all add: split_authority_def Let_def)
    ultimately show ?thesis
      using slash [of r] rest [of r] takeWhile_dropWhile_id [of "\<lambda>x. x \<noteq> CHR ''/''" r]
      by (simp add: join_authority_def wf_parts_def dropWhile_eq_drop)
  qed
qed

lemma split_authority_of_join: "wf_parts a p \<Longrightarrow> split_authority (join_authority a p) = (a, p)"
proof (cases a)
  case None
  assume "wf_parts a p"
  with None show ?thesis by (simp add: split_authority_def join_authority_def wf_parts_def strip_prefix_def)
next
  case (Some x)
  assume wf: "wf_parts a p"
  have "takeWhile (\<lambda>y. y \<noteq> CHR ''/'') (x @ p) = x"
  proof (cases p)
    case Nil
    then show ?thesis using wf Some by (auto simp: wf_parts_def)
  next
    case (Cons c r)
    then show ?thesis using wf Some takeWhile_neq_append [of "CHR ''/''" x r] by (simp add: wf_parts_def)
  qed
  with Some show ?thesis
    by (simp add: split_authority_def join_authority_def strip_prefix_def Let_def)
qed

definition wf_reference :: "relative_ref \<Rightarrow> bool" where
  "wf_reference r \<longleftrightarrow> wf_parts (rr_authority r) (rr_path r)
     \<and> CHR ''?'' \<notin> set (join_authority (rr_authority r) (rr_path r))
     \<and> CHR ''#'' \<notin> set (join_authority (rr_authority r) (rr_path r) @ with_mark (CHR ''?'') (rr_query r))"

lemma recompose_join: "recompose_relative r =
   (join_authority (rr_authority r) (rr_path r) @ with_mark (CHR ''?'') (rr_query r)) @ with_mark (CHR ''#'') (rr_fragment r)"
  by (simp add: recompose_relative_def join_authority_def)

lemma split_reference_of_recompose: "wf_reference r \<Longrightarrow> split_reference (recompose_relative r) = r"
  unfolding recompose_join split_reference_def wf_reference_def
  by (simp add: cut_of_join split_authority_of_join del: append_assoc)

lemma split_reference_wf: "recompose_relative (split_reference s) = s \<and> wf_reference (split_reference s)"
proof -
  obtain r f where r: "cut_at (CHR ''#'') s = (r, f)" by fastforce
  obtain q y where q: "cut_at (CHR ''?'') r = (q, y)" by fastforce
  obtain a p where a: "split_authority q = (a, p)" by fastforce
  show ?thesis
    using cut_join [OF r] cut_join [OF q] split_authority_join [OF a]
    by (simp add: recompose_join wf_reference_def split_reference_def r q a)
qed

lemma wf_reference_no_query: "wf_reference r \<Longrightarrow> wf_reference (r\<lparr>rr_query := None\<rparr>)"
  by (simp add: wf_reference_def with_mark_def)

lemma plain_path_wf:
  assumes "plain_path p"
  shows "CHR ''?'' \<notin> set p" "CHR ''#'' \<notin> set p" "\<not> prefix ''//'' p" "hd p = CHR ''/''"
  using assms by (auto simp: plain_path_def list_all_iff plain_path_char_def is_alnum_def is_lower_def is_upper_def
      is_digit_def prefix_def)

lemma split_uri_Some:
  "split_uri s = Some u \<longleftrightarrow> (\<exists>scheme rest. cut_at (CHR '':'') s = (scheme, Some rest) \<and> u = absolute_of scheme (split_reference rest))"
  by (auto simp: split_uri_def split: prod.splits option.splits)

lemma absolute_recompose: "recompose (absolute_of scheme r) = scheme @ CHR '':'' # recompose_relative r"
  by (simp add: recompose_def absolute_of_def recompose_relative_def)

lemma split_uri_recompose: "split_uri s = Some u \<Longrightarrow> recompose u = s"
  using cut_join [of "CHR '':''" s] split_reference_wf by (auto simp: split_uri_Some absolute_recompose with_mark_def)

lemma split_uri_append_path:
  assumes "split_uri s = Some u" and "bare_uri u"
    and p: "CHR ''?'' \<notin> set p" "CHR ''#'' \<notin> set p" "\<not> prefix ''//'' p" "hd p = CHR ''/''"
  shows "split_uri (s @ p) = Some (u\<lparr>us_path := p\<rparr>)"
proof -
  obtain scheme rest where cut: "cut_at (CHR '':'') s = (scheme, Some rest)" and u: "u = absolute_of scheme (split_reference rest)"
    using assms(1) by (auto simp: split_uri_Some)
  let ?r = "split_reference rest"
  have r: "recompose_relative ?r = rest" "wf_reference ?r" using split_reference_wf by blast+
  obtain a where bare: "rr_authority ?r = Some a" "rr_path ?r = []" "rr_query ?r = None" "rr_fragment ?r = None"
    using assms(2) by (auto simp: bare_uri_def u absolute_of_def)
  have "rest @ p = recompose_relative (?r\<lparr>rr_path := p\<rparr>)"
    by (subst r(1) [symmetric]) (simp add: recompose_relative_def bare with_mark_def)
  moreover have "wf_reference (?r\<lparr>rr_path := p\<rparr>)"
    using r(2) p bare by (simp add: wf_reference_def wf_parts_def join_authority_def with_mark_def)
  ultimately have "split_reference (rest @ p) = ?r\<lparr>rr_path := p\<rparr>" by (simp add: split_reference_of_recompose)
  moreover have "s @ p = scheme @ with_mark (CHR '':'') (Some (rest @ p))" and "CHR '':'' \<notin> set scheme"
    using cut_join [OF cut] by (auto simp: with_mark_def)
  ultimately have "split_uri (s @ p) = Some (absolute_of scheme (?r\<lparr>rr_path := p\<rparr>))"
    by (simp add: split_uri_Some cut_of_join)
  then show ?thesis by (simp add: u absolute_of_def)
qed

lemma split_uri_append:
  "split_uri s = Some u \<Longrightarrow> bare_uri u \<Longrightarrow> plain_path p \<Longrightarrow> split_uri (s @ p) = Some (u\<lparr>us_path := p\<rparr>)"
  by (rule split_uri_append_path [OF _ _ plain_path_wf])

lemma sample_gateway_laws: "gateway_laws sample_uris"
proof -
  have "split_uri (s @ gateway_path_prefix @ q) = Some (u\<lparr>us_path := gateway_path_prefix @ q\<rparr>)"
    if "split_uri s = Some u" "bare_uri u" "list_all (\<lambda>c. plain_path_char c \<or> c = CHR '':'') q" for s u q
    using that
    by (intro split_uri_append_path)
      (auto simp: gateway_path_prefix_def list_all_iff plain_path_char_def is_alnum_def is_lower_def is_upper_def is_digit_def)
  then show ?thesis
    by (auto simp: gateway_laws_def sample_uris_def sample_whatwg_def)
qed

lemma sample_uri_laws: "uri_laws sample_uris"
proof -
  have rel: "split_reference (recompose_relative (split_reference s\<lparr>rr_query := None\<rparr>)) = split_reference s\<lparr>rr_query := None\<rparr>" for s
    by (rule split_reference_of_recompose) (simp add: wf_reference_no_query split_reference_wf)
  have plain: "split_reference p = \<lparr>rr_authority = None, rr_path = p, rr_query = None, rr_fragment = None\<rparr>"
    if "plain_path p" for p
  proof -
    let ?r = "\<lparr>rr_authority = None, rr_path = p, rr_query = None, rr_fragment = None\<rparr>"
    have "wf_reference ?r"
      using plain_path_wf [OF that] by (simp add: wf_reference_def wf_parts_def join_authority_def with_mark_def)
    then show ?thesis using split_reference_of_recompose [of ?r] by (simp add: recompose_relative_def with_mark_def)
  qed
  show ?thesis
    unfolding uri_laws_def
    by (auto simp: sample_uris_def split_uri_recompose split_reference_wf rel plain split_uri_append sample_whatwg_def
        sample_codec_laws)
qed

section \<open>Identifiers\<close>

definition sample_uuids :: uuid_format where
  "sample_uuids = \<lparr>uuid_show = (\<lambda>u. replicate (Suc u) (CHR ''a'')),
     uuid_read = (\<lambda>s. if s \<noteq> [] \<and> list_all (\<lambda>c. c = CHR ''a'') s then Some (length s - 1) else None)\<rparr>"

lemma sample_uuid_laws: "uuid_laws sample_uuids"
  by (auto simp: uuid_laws_def sample_uuids_def list_all_iff uuid_char_def is_hex_lower_def)

definition sample_server :: http_uri where
  "sample_server = \<lparr>hu_scheme = SchemeHttps, hu_authority = ''a.example'', hu_host = ''a.example'', hu_port = None,
     hu_path = [], hu_query = None, hu_fragment = None\<rparr>"

end
