(* ===== verification/PostTypes.thy ===== *)
theory PostTypes
  imports Reactions Polls
begin

text \<open>
  Posts and conversations as the queries return them (\<open>mitra_models/src/posts/types.rs\<close>,
  \<open>conversations/types.rs\<close>, \<open>media/types.rs\<close>): the detailed post with its related rows, the
  consistency checks of \<open>PostDetailed::new\<close>, the rules for the visibility of replies.
\<close>

section \<open>Visibility\<close>

text \<open>\<open>Visibility::can_reply_with\<close>: what a reply to a post of the first visibility may have.\<close>

fun can_reply_with :: "visibility \<Rightarrow> visibility \<Rightarrow> bool \<Rightarrow> bool" where
  "can_reply_with VisPublic v same_author \<longleftrightarrow> v \<in> {VisPublic, VisFollowers, VisDirect}"
| "can_reply_with VisFollowers v same_author \<longleftrightarrow>
     (if same_author then v \<in> {VisConversation, VisFollowers, VisDirect} else v \<in> {VisConversation, VisDirect})"
| "can_reply_with VisSubscribers v same_author \<longleftrightarrow> v \<in> {VisConversation, VisDirect}"
| "can_reply_with VisConversation v same_author \<longleftrightarrow> v \<in> {VisConversation, VisDirect}"
| "can_reply_with VisDirect v same_author \<longleftrightarrow> v = VisDirect"

section \<open>Media\<close>

fun into_file_name :: "partial_media_info \<Rightarrow> string option" where
  "into_file_name (PmFile file_info url) = Some (pf_file_name file_info)"
| "into_file_name (PmLink media_type url) = None"

record deletion_queue =
  dq_files :: "string list"
  dq_ipfs_objects :: "string list"

section \<open>Conversations\<close>

definition ap_public :: string where
  "ap_public = ''https://www.w3.org/ns/activitystreams#Public''"

definition conversation_is_public :: "conversation \<Rightarrow> bool" where
  "conversation_is_public c \<longleftrightarrow> cv_audience c = Some ap_public"

section \<open>Detailed posts\<close>

record post_reaction =
  prx_content :: "string option"
  prx_emoji :: "custom_emoji option"
  prx_count :: int

record post_detailed =
  pd_post :: post \<comment> \<open>the columns of the row\<close>
  pd_author :: actor_profile
  pd_conversation :: "conversation option"
  pd_group :: "actor_profile option"
  pd_poll :: "poll option"
  pd_attachments :: "media_attachment list"
  pd_mentions :: "actor_profile list"
  pd_tags :: "string list"
  pd_links :: "uuid list"
  pd_emojis :: "custom_emoji list"
  pd_reactions :: "post_reaction list"
  pd_parent_visible :: bool

text \<open>A repost carries nothing but a reference.\<close>

definition repost_has_content :: "post \<Rightarrow> bool" where
  "repost_has_content p \<longleftrightarrow>
     po_title p \<noteq> None \<or> po_content p \<noteq> [] \<or> po_content_source p \<noteq> None \<or> po_language p \<noteq> None
     \<or> po_conversation_id p \<noteq> None \<or> po_is_sensitive p \<or> po_is_pinned p \<or> po_in_reply_to_id p \<noteq> None
     \<or> po_group_id p \<noteq> None \<or> po_url p \<noteq> None \<or> po_ipfs_cid p \<noteq> None"

definition conversation_mismatch :: "post \<Rightarrow> conversation option \<Rightarrow> bool" where
  "conversation_mismatch p conv = (case po_conversation_id p of
      Some cid \<Rightarrow> (case conv of
          None \<Rightarrow> True
        | Some c \<Rightarrow> cv_id c \<noteq> cid \<or> po_group_id p \<noteq> cv_group_id c
            \<or> cv_is_managed c \<and> cv_object_id c \<noteq> None
            \<or> cv_root_id c = po_id p \<and> cv_is_managed c \<noteq> (po_object_id p = None)
            \<or> po_id p = cv_root_id c \<and> po_visibility p = VisPublic \<and> \<not> conversation_is_public c)
    | None \<Rightarrow> conv \<noteq> None)"

definition post_detailed_new ::
  "externals \<Rightarrow> post \<Rightarrow> actor_profile \<Rightarrow> conversation option \<Rightarrow> actor_profile option \<Rightarrow> poll option \<Rightarrow>
   media_attachment list \<Rightarrow> actor_profile list \<Rightarrow> string list \<Rightarrow> uuid list \<Rightarrow> custom_emoji list \<Rightarrow>
   post_reaction list \<Rightarrow> (database_type_error, post_detailed) outcome" where
  "post_detailed_new X p author conv grp pl atts mns tgs lns ems rxs =
     obind (profile_check_consistency X author) (\<lambda>_.
     if po_author_id p \<noteq> p_id author then Err DatabaseTypeError
     else if profile_is_local author \<noteq> (po_object_id p = None) then Err DatabaseTypeError
     else if po_repost_of_id p = None \<and> po_conversation_id p = None then Err DatabaseTypeError
     else if po_repost_of_id p \<noteq> None \<and> (repost_has_content p \<or> pl \<noteq> None \<or> atts \<noteq> []
       \<or> mns \<noteq> [] \<or> tgs \<noteq> [] \<or> lns \<noteq> [] \<or> ems \<noteq> [] \<or> rxs \<noteq> []) then Err DatabaseTypeError
     else if conversation_mismatch p conv then Err DatabaseTypeError
     else if po_group_id p \<noteq> map_option p_id grp then Err DatabaseTypeError
     else if (case pl of Some q \<Rightarrow> poll_id q \<noteq> po_id p | None \<Rightarrow> False) then Err DatabaseTypeError
     else if profile_is_local author \<and>
       (\<not> list_all (\<lambda>a. pm_is_file (ma_media a)) atts \<or> \<not> list_all (\<lambda>e. pm_is_file (em_image e)) ems)
     then Err DatabaseTypeError
     else Ok \<lparr>pd_post = p, pd_author = author, pd_conversation = conv, pd_group = grp, pd_poll = pl,
       pd_attachments = atts, pd_mentions = mns, pd_tags = tgs, pd_links = lns,
       pd_emojis = ems, pd_reactions = rxs, pd_parent_visible = True\<rparr>)"

definition post_is_local :: "post_detailed \<Rightarrow> bool" where
  "post_is_local d \<longleftrightarrow> profile_is_local (pd_author d)"

definition post_is_public :: "post_detailed \<Rightarrow> bool" where
  "post_is_public d \<longleftrightarrow> po_visibility (pd_post d) = VisPublic"

definition expect_conversation :: "post_detailed \<Rightarrow> conversation db" where
  "expect_conversation d =
     (if po_repost_of_id (pd_post d) \<noteq> None then panic ''should not be a repost''
      else case pd_conversation d of Some c \<Rightarrow> ret c | None \<Rightarrow> panic ''conversation should not be null'')"

text \<open>Whether an update changes the title, the content, the options of the poll or the media.\<close>

definition post_is_edited ::
  "post_detailed \<Rightarrow> string option \<Rightarrow> string \<Rightarrow> poll_data option \<Rightarrow> uuid list \<Rightarrow> bool" where
  "post_is_edited d new_title new_content new_poll new_attachments \<longleftrightarrow>
     \<not> (po_title (pd_post d) = new_title \<and> po_content (pd_post d) = new_content
        \<and> map_option (\<lambda>q. map pr_option_name (poll_results q)) (pd_poll d)
            = map_option (\<lambda>q. map pr_option_name (pd_results q)) new_poll
        \<and> map ma_id (pd_attachments d) = new_attachments)"

record repost =
  rp_id :: uuid
  rp_author_id :: uuid
  rp_repost_of_id :: uuid
  rp_has_deprecated_ap_id :: bool
  rp_visibility :: visibility

definition repost_try_from :: "post \<Rightarrow> (database_type_error, repost) outcome" where
  "repost_try_from p = (case po_repost_of_id p of
      None \<Rightarrow> Err DatabaseTypeError
    | Some orig \<Rightarrow> Ok \<lparr>rp_id = po_id p, rp_author_id = po_author_id p, rp_repost_of_id = orig,
        rp_has_deprecated_ap_id = po_repost_has_deprecated_ap_id p, rp_visibility = po_visibility p\<rparr>)"

section \<open>Data of new and edited posts\<close>

datatype post_context =
    CtxTop (ctx_group_id: "uuid option") (ctx_object_id: "string option") (ctx_audience: "string option")
  | CtxReply (ctx_conversation_id: uuid) (ctx_parent_id: uuid)
  | CtxRepost (ctx_original_id: uuid)

fun context_in_reply_to_id :: "post_context \<Rightarrow> uuid option" where
  "context_in_reply_to_id (CtxReply c i) = Some i"
| "context_in_reply_to_id _ = None"

fun context_repost_of_id :: "post_context \<Rightarrow> uuid option" where
  "context_repost_of_id (CtxRepost orig) = Some orig"
| "context_repost_of_id _ = None"

record post_create_data =
  pc_id :: "uuid option"
  pc_context :: post_context
  pc_title :: "string option"
  pc_content :: string
  pc_content_source :: "string option"
  pc_language :: "string option"
  pc_visibility :: visibility
  pc_is_sensitive :: bool
  pc_poll :: "poll_data option"
  pc_attachments :: "uuid list"
  pc_mentions :: "uuid list"
  pc_tags :: "string list"
  pc_links :: "uuid list"
  pc_emojis :: "uuid list"
  pc_url :: "string option"
  pc_object_id :: "string option"
  pc_created_at :: datetime

definition create_data_check_consistency :: "post_create_data \<Rightarrow> (database_type_error, unit) outcome" where
  "create_data_check_consistency d = (case pc_context d of
      CtxTop grp object_id audience \<Rightarrow>
        if object_id \<noteq> None \<and> pc_object_id d = None then Err DatabaseTypeError
        else if audience = None \<and> pc_visibility d \<noteq> VisDirect then Err DatabaseTypeError
        else Ok ()
    | _ \<Rightarrow> Ok ())"

definition create_data_repost :: "datetime \<Rightarrow> uuid \<Rightarrow> visibility \<Rightarrow> string option \<Rightarrow> post_create_data" where
  "create_data_repost now repost_of_id visibility object_id = \<lparr>pc_id = None,
     pc_context = CtxRepost repost_of_id, pc_title = None, pc_content = [], pc_content_source = None,
     pc_language = None, pc_visibility = visibility, pc_is_sensitive = False, pc_poll = None,
     pc_attachments = [], pc_mentions = [], pc_tags = [], pc_links = [], pc_emojis = [], pc_url = None,
     pc_object_id = object_id, pc_created_at = now\<rparr>"

record post_update_data =
  pu_title :: "string option"
  pu_content :: string
  pu_content_source :: "string option"
  pu_language :: "string option"
  pu_is_sensitive :: bool
  pu_poll :: "poll_data option"
  pu_attachments :: "uuid list"
  pu_mentions :: "uuid list"
  pu_tags :: "string list"
  pu_links :: "uuid list"
  pu_emojis :: "uuid list"
  pu_url :: "string option"
  pu_updated_at :: "datetime option"

section \<open>Reading a post with its related rows\<close>

text \<open>The subqueries of \<open>post_subqueries\<close>; a missing row is \<open>NULL\<close>.\<close>

definition related_conversation :: "database \<Rightarrow> post \<Rightarrow> conversation option" where
  "related_conversation s p = find (\<lambda>c. po_conversation_id p = Some (cv_id c)) (conversations s)"

definition related_group :: "database \<Rightarrow> post \<Rightarrow> actor_profile option" where
  "related_group s p = find (\<lambda>a. po_group_id p = Some (p_id a)) (actor_profiles s)"

definition related_poll :: "database \<Rightarrow> post \<Rightarrow> poll option" where
  "related_poll s p = find (\<lambda>q. poll_id q = po_id p) (polls s)"

definition related_attachments :: "database \<Rightarrow> post \<Rightarrow> media_attachment list" where
  "related_attachments s p =
     sort_key ma_created_at (filter (\<lambda>a. ma_post_id a = Some (po_id p)) (media_attachments s))"

definition related_mentions :: "database \<Rightarrow> post \<Rightarrow> actor_profile list" where
  "related_mentions s p =
     [a. m \<leftarrow> sort_key mn_id (filter (\<lambda>m. mn_post_id m = po_id p) (post_mentions s)),
         a \<leftarrow> actor_profiles s, mn_profile_id m = p_id a]"

definition related_tags :: "database \<Rightarrow> post \<Rightarrow> string list" where
  "related_tags s p =
     [tg_name t. t \<leftarrow> tags s, pt \<leftarrow> post_tags s, pt_tag_id pt = tg_id t \<and> pt_post_id pt = po_id p]"

definition related_links :: "database \<Rightarrow> post \<Rightarrow> uuid list" where
  "related_links s p = map pl_target_id (filter (\<lambda>l. pl_source_id l = po_id p) (post_links s))"

definition related_emojis :: "database \<Rightarrow> post \<Rightarrow> custom_emoji list" where
  "related_emojis s p =
     [e. pe \<leftarrow> post_emojis s, e \<leftarrow> emojis s, pe_emoji_id pe = em_id e \<and> pe_post_id pe = po_id p]"

text \<open>Grouped by content, in the order of the first reaction of every group.\<close>

definition related_reactions :: "database \<Rightarrow> uuid \<Rightarrow> post_reaction list" where
  "related_reactions s pid =
     (let rs = filter (\<lambda>r. re_post_id r = pid) (reactions s) in
      map (\<lambda>c. let g = filter (\<lambda>r. re_content r = c) rs in
            \<lparr>prx_content = c, prx_emoji = find (\<lambda>e. re_emoji_id (hd g) = Some (em_id e)) (emojis s),
             prx_count = int (length g)\<rparr>)
        (rev (remdups (rev (map re_content rs)))))"

text \<open>\<open>TryFrom<&Row> for PostDetailed\<close> on a post joined with its author.\<close>

definition post_detailed_try_from ::
  "externals \<Rightarrow> database \<Rightarrow> post \<times> actor_profile \<Rightarrow> (database_type_error, post_detailed) outcome" where
  "post_detailed_try_from X s = (\<lambda>(p, a). post_detailed_new X p a (related_conversation s p) (related_group s p)
     (related_poll s p) (related_attachments s p) (related_mentions s p) (related_tags s p) (related_links s p)
     (related_emojis s p) (related_reactions s (po_id p)))"

definition posts_with_authors :: "database \<Rightarrow> (post \<Rightarrow> actor_profile \<Rightarrow> bool) \<Rightarrow> (post \<times> actor_profile) list" where
  "posts_with_authors s P = [(p, a). p \<leftarrow> posts s, a \<leftarrow> actor_profiles s, po_author_id p = p_id a \<and> P p a]"

text \<open>\<open>rows.iter().map(PostDetailed::try_from).collect()\<close>.\<close>

definition load_posts ::
  "externals \<Rightarrow> (database \<Rightarrow> (post \<times> actor_profile) list) \<Rightarrow> post_detailed list db" where
  "load_posts X q s = type_check (try_map (post_detailed_try_from X s) (q s)) s"

lemma post_detailed_new_Ok:
  "post_detailed_new X p a c g q ms mn tg ln em rs = Ok d \<Longrightarrow>
     pd_post d = p \<and> pd_author d = a \<and> pd_conversation d = c \<and> pd_mentions d = mn \<and> po_author_id p = p_id a"
  by (auto simp: post_detailed_new_def ok_runs split: if_splits)

lemma load_posts_Ok [ok_runs]:
  "load_posts X q s = (Ok ds, t) \<longleftrightarrow> t = s \<and> list_all2 (\<lambda>r d. post_detailed_try_from X s r = Ok d) (q s) ds"
  by (auto simp: load_posts_def type_check_Ok try_map_Ok)

lemma load_posts_rows:
  assumes "list_all2 (\<lambda>r d. post_detailed_try_from X s r = Ok d) rows ds"
  shows "map pd_post ds = map fst rows"
  using assms by (induction rule: list_all2_induct)
    (auto simp: post_detailed_try_from_def dest: post_detailed_new_Ok)

lemma reads_only_load_posts [simp]: "reads_only (load_posts X q)"
  by (simp add: reads_only_def load_posts_def type_check_def prog_defs)

end
