(* ===== verification/Posts.thy ===== *)
theory Posts
  imports PostTypes
begin

text \<open>
  The operations on posts (\<open>mitra_models/src/posts/queries.rs\<close>) and conversations
  (\<open>conversations/queries.rs\<close>): creation with the related rows, counters and notifications, update,
  deletion with its cascade, reposts, bookmarks (\<open>bookmarks/queries.rs\<close>). Identifiers drawn by
  \<open>generate_ulid\<close> are arguments. The foreign key from a conversation to its root is deferred to the
  commit; the root is inserted in the same transaction.
\<close>

section \<open>Conversations\<close>

definition create_conversation ::
  "uuid \<Rightarrow> uuid \<Rightarrow> uuid option \<Rightarrow> bool \<Rightarrow> string option \<Rightarrow> string option \<Rightarrow> conversation db" where
  "create_conversation cid root_id group_id is_managed object_id audience =
     map_err_p (catch_unique_violation ''conversation'') (\<lambda>s.
       if list_ex (\<lambda>c. cv_id c = cid \<or> cv_root_id c = root_id) (conversations s) then (Err UniqueViolation, s)
       else if (case group_id of Some g \<Rightarrow> \<not> profile_exists s g | None \<Rightarrow> False) then (Err ForeignKeyViolation, s)
       else (let c = \<lparr>cv_id = cid, cv_root_id = root_id, cv_group_id = group_id, cv_is_managed = is_managed,
                 cv_object_id = object_id, cv_audience = audience\<rparr> in
             (Ok c, s\<lparr>conversations := conversations s @ [c]\<rparr>)))"

definition get_conversation :: "uuid \<Rightarrow> conversation db" where
  "get_conversation cid =
     select_or_not_found ''conversation'' (\<lambda>s. filter (\<lambda>c. cv_id c = cid) (conversations s))"

definition related_to :: "database \<Rightarrow> uuid \<Rightarrow> uuid \<Rightarrow> relationship_type \<Rightarrow> bool" where
  "related_to s src tgt ty \<longleftrightarrow> list_ex (is_rel src tgt ty) (relationships s)"

text \<open>The condition on the root of a conversation that two queries share.\<close>

definition root_admits :: "database \<Rightarrow> uuid \<Rightarrow> post \<Rightarrow> bool" where
  "root_admits s viewer root \<longleftrightarrow>
     po_author_id root = viewer
     \<or> po_visibility root = VisFollowers \<and> related_to s viewer (po_author_id root) RelFollow
     \<or> po_visibility root = VisSubscribers \<and> related_to s viewer (po_author_id root) RelSubscription"

definition conversation_roots :: "database \<Rightarrow> uuid \<Rightarrow> post list" where
  "conversation_roots s cid = [r. c \<leftarrow> conversations s, r \<leftarrow> posts s, cv_root_id c = po_id r \<and> cv_id c = cid]"

definition is_conversation_participant :: "uuid \<Rightarrow> uuid \<Rightarrow> bool db" where
  "is_conversation_participant uid cid =
     bnd (select_opt (\<lambda>s. filter (root_admits s uid) (conversation_roots s cid))) (\<lambda>row. ret (row \<noteq> None))"

definition set_conversation_tracking_status :: "uuid \<Rightarrow> uuid \<Rightarrow> tracking_status option \<Rightarrow> unit db" where
  "set_conversation_tracking_status cid account_id status =
     (let same = (\<lambda>t. ct_conversation_id t = cid \<and> ct_account_id t = account_id) in
      case status of
        Some st \<Rightarrow> run (\<lambda>s.
          let n = tracking_seq (seqs s); t = s\<lparr>seqs := (seqs s)\<lparr>tracking_seq := n + 1\<rparr>\<rparr> in
          if list_ex same (conversation_trackings s)
          then (Ok (), t\<lparr>conversation_trackings :=
                  update_where same (\<lambda>x. x\<lparr>ct_tracking_status := st\<rparr>) (conversation_trackings t)\<rparr>)
          else if \<not> list_ex (\<lambda>c. cv_id c = cid) (conversations s)
            \<or> \<not> list_ex (\<lambda>u. u_id u = account_id) (user_accounts s) then (Err ForeignKeyViolation, t)
          else (Ok (), t\<lparr>conversation_trackings := conversation_trackings t @ [\<lparr>ct_id = n,
                  ct_conversation_id = cid, ct_account_id = account_id, ct_tracking_status = st\<rparr>]\<rparr>))
      | None \<Rightarrow> modify (\<lambda>s. s\<lparr>conversation_trackings := delete_where same (conversation_trackings s)\<rparr>))"

definition find_tracking_statuses_by_user :: "uuid \<Rightarrow> uuid list \<Rightarrow> (uuid \<times> tracking_status option) list db" where
  "find_tracking_statuses_by_user account_id ids = gets (\<lambda>s.
     map (\<lambda>p. (po_id p, map_option ct_tracking_status
            (find (\<lambda>t. po_conversation_id p = Some (ct_conversation_id t) \<and> ct_account_id t = account_id)
              (conversation_trackings s))))
       (filter (\<lambda>p. po_id p \<in> set ids) (posts s)))"

section \<open>Counters\<close>

definition add_post_count :: "int \<Rightarrow> actor_profile \<Rightarrow> actor_profile" where
  "add_post_count d p = p\<lparr>p_post_count := p_post_count p + d\<rparr>"

definition update_post_count :: "externals \<Rightarrow> uuid \<Rightarrow> int \<Rightarrow> actor_profile db" where
  "update_post_count X = update_profile_counter X p_post_count add_post_count"

text \<open>\<open>UPDATE post SET c = c + $1 WHERE id = $2 AND repost_of_id IS NULL\<close>.\<close>

definition update_post_counter ::
  "(post \<Rightarrow> int) \<Rightarrow> (int \<Rightarrow> post \<Rightarrow> post) \<Rightarrow> uuid \<Rightarrow> int \<Rightarrow> unit db" where
  "update_post_counter cnt add pid change =
     bnd (gets (\<lambda>s. filter (is_original pid) (posts s))) (\<lambda>rows.
     if list_ex (\<lambda>p. cnt p + change \<ge> 2 ^ 31 \<or> cnt p + change < - (2 ^ 31)) rows
     then throw (ClientError NumericValueOutOfRange)
     else if list_ex (\<lambda>p. cnt p + change < 0) rows then throw (ClientError CheckViolation)
     else
       seq (modify (\<lambda>s. s\<lparr>posts := update_where (is_original pid) (add change) (posts s)\<rparr>))
       (if rows = [] then throw (NotFound ''post'') else ret ()))"

definition add_reply_count :: "int \<Rightarrow> post \<Rightarrow> post" where
  "add_reply_count d p = p\<lparr>po_reply_count := po_reply_count p + d\<rparr>"

definition add_repost_count :: "int \<Rightarrow> post \<Rightarrow> post" where
  "add_repost_count d p = p\<lparr>po_repost_count := po_repost_count p + d\<rparr>"

definition update_reply_count :: "uuid \<Rightarrow> int \<Rightarrow> unit db" where
  "update_reply_count = update_post_counter po_reply_count add_reply_count"

definition update_repost_count :: "uuid \<Rightarrow> int \<Rightarrow> unit db" where
  "update_repost_count = update_post_counter po_repost_count add_repost_count"

section \<open>Related rows\<close>

definition create_post_attachments :: "uuid \<Rightarrow> uuid \<Rightarrow> uuid list \<Rightarrow> media_attachment list db" where
  "create_post_attachments pid author ids =
     (let mine = (\<lambda>a. ma_owner_id a = author \<and> ma_id a \<in> set ids) in
      bnd (gets (\<lambda>s. map (\<lambda>a. a\<lparr>ma_post_id := Some pid\<rparr>) (filter mine (media_attachments s)))) (\<lambda>rows.
      seq (modify (\<lambda>s. s\<lparr>media_attachments :=
             update_where mine (\<lambda>a. a\<lparr>ma_post_id := Some pid\<rparr>) (media_attachments s)\<rparr>))
      (if length rows \<noteq> length ids then throw (NotFound ''attachment'')
       else ret (sort_key ma_created_at rows))))"

text \<open>Rows go in one by one, each with the next value of the sequence; a second mention of one
  profile hits the primary key.\<close>

fun insert_mentions :: "uuid \<Rightarrow> uuid list \<Rightarrow> unit stmt" where
  "insert_mentions pid [] s = (Ok (), s)"
| "insert_mentions pid (i # is) s =
     (let n = mention_seq (seqs s); t = s\<lparr>seqs := (seqs s)\<lparr>mention_seq := n + 1\<rparr>\<rparr> in
      if list_ex (\<lambda>m. mn_post_id m = pid \<and> mn_profile_id m = i) (post_mentions s) then (Err UniqueViolation, t)
      else insert_mentions pid is
        (t\<lparr>post_mentions := post_mentions t @ [\<lparr>mn_id = n, mn_post_id = pid, mn_profile_id = i\<rparr>]\<rparr>))"

definition create_post_mentions :: "externals \<Rightarrow> uuid \<Rightarrow> uuid list \<Rightarrow> actor_profile list db" where
  "create_post_mentions X pid ids =
     bnd (gets (\<lambda>s. [a. i \<leftarrow> ids, a \<leftarrow> actor_profiles s, p_id a = i])) (\<lambda>rows.
     seq (run (insert_mentions pid (map p_id rows)))
     (if length rows \<noteq> length ids then throw (NotFound ''profile'')
      else profiles_try_from X rows))"

text \<open>\<open>ON CONFLICT DO NOTHING\<close> draws a value for every row.\<close>

fun insert_tags :: "string list \<Rightarrow> database \<Rightarrow> database" where
  "insert_tags [] s = s"
| "insert_tags (n # ns) s =
     (let i = tag_seq (seqs s); t = s\<lparr>seqs := (seqs s)\<lparr>tag_seq := i + 1\<rparr>\<rparr> in
      insert_tags ns (if list_ex (\<lambda>x. tg_name x = n) (tags s) then t
                      else t\<lparr>tags := tags t @ [\<lparr>tg_id = i, tg_name = n\<rparr>]\<rparr>))"

definition create_post_tags :: "uuid \<Rightarrow> string list \<Rightarrow> string list db" where
  "create_post_tags pid names =
     seq (modify (insert_tags names))
     (bnd (gets (\<lambda>s. filter (\<lambda>t. tg_name t \<in> set names) (tags s))) (\<lambda>rows.
      seq (run (\<lambda>s.
        if list_ex (\<lambda>t. list_ex (\<lambda>x. pt_post_id x = pid \<and> pt_tag_id x = tg_id t) (post_tags s)) rows
        then (Err UniqueViolation, s)
        else (Ok (), s\<lparr>post_tags := post_tags s @ map (\<lambda>t. \<lparr>pt_post_id = pid, pt_tag_id = tg_id t\<rparr>) rows\<rparr>)))
      (if length rows \<noteq> length names then throw (NotFound ''tag'') else ret (map tg_name rows))))"

definition linkable :: "post \<Rightarrow> bool" where
  "linkable p \<longleftrightarrow> po_repost_of_id p = None \<and> po_visibility p = VisPublic"

definition create_post_links :: "uuid \<Rightarrow> uuid list \<Rightarrow> uuid list db" where
  "create_post_links pid ids =
     bnd (gets (\<lambda>s. map po_id (filter (\<lambda>p. po_id p \<in> set ids \<and> linkable p) (posts s)))) (\<lambda>rows.
     seq (run (\<lambda>s.
       if pid \<in> set rows then (Err CheckViolation, s)
       else if list_ex (\<lambda>i. list_ex (\<lambda>l. pl_source_id l = pid \<and> pl_target_id l = i) (post_links s)) rows
       then (Err UniqueViolation, s)
       else (Ok (), s\<lparr>post_links := post_links s @ map (\<lambda>i. \<lparr>pl_source_id = pid, pl_target_id = i\<rparr>) rows\<rparr>)))
     (if length rows \<noteq> length ids then throw (NotFound ''post'') else ret rows))"

definition create_post_emojis :: "uuid \<Rightarrow> uuid list \<Rightarrow> custom_emoji list db" where
  "create_post_emojis pid ids =
     bnd (gets (\<lambda>s. filter (\<lambda>e. em_id e \<in> set ids) (emojis s))) (\<lambda>rows.
     seq (run (\<lambda>s.
       if list_ex (\<lambda>e. list_ex (\<lambda>x. pe_post_id x = pid \<and> pe_emoji_id x = em_id e) (post_emojis s)) rows
       then (Err UniqueViolation, s)
       else (Ok (), s\<lparr>post_emojis := post_emojis s @ map (\<lambda>e. \<lparr>pe_post_id = pid, pe_emoji_id = em_id e\<rparr>) rows\<rparr>)))
     (if length rows \<noteq> length ids then throw (NotFound ''emoji'') else ret rows))"

definition get_post_reactions :: "uuid \<Rightarrow> post_reaction list db" where
  "get_post_reactions pid =
     bnd (select_or_not_found ''post'' (\<lambda>s. filter (\<lambda>p. po_id p = pid) (posts s))) (\<lambda>_.
     gets (\<lambda>s. related_reactions s pid))"

section \<open>Creation\<close>

definition post_row :: "uuid \<Rightarrow> uuid \<Rightarrow> conversation option \<Rightarrow> post_create_data \<Rightarrow> post" where
  "post_row pid author conv d = \<lparr>po_id = pid, po_author_id = author, po_title = pc_title d,
     po_content = pc_content d, po_content_source = pc_content_source d, po_language = pc_language d,
     po_conversation_id = map_option cv_id conv, po_in_reply_to_id = context_in_reply_to_id (pc_context d),
     po_repost_of_id = context_repost_of_id (pc_context d), po_repost_has_deprecated_ap_id = False,
     po_group_id = Option.bind conv cv_group_id, po_visibility = pc_visibility d,
     po_is_sensitive = pc_is_sensitive d, po_is_pinned = False, po_reply_count = 0, po_reaction_count = 0,
     po_repost_count = 0, po_url = pc_url d, po_object_id = pc_object_id d, po_ipfs_cid = None,
     po_created_at = pc_created_at d, po_updated_at = None\<rparr>"

text \<open>The two \<open>NOT EXISTS\<close> conditions: no reply to a repost, no repost of a repost or of a post
  that is not public.\<close>

definition reply_or_repost_forbidden :: "database \<Rightarrow> post \<Rightarrow> bool" where
  "reply_or_repost_forbidden s new \<longleftrightarrow>
     list_ex (\<lambda>p. po_in_reply_to_id new = Some (po_id p) \<and> po_repost_of_id p \<noteq> None) (posts s)
     \<or> list_ex (\<lambda>p. po_repost_of_id new = Some (po_id p)
          \<and> (po_repost_of_id p \<noteq> None \<or> po_visibility p \<noteq> VisPublic)) (posts s)"

definition post_conflict :: "post \<Rightarrow> post \<Rightarrow> bool" where
  "post_conflict new p \<longleftrightarrow>
     po_id p = po_id new
     \<or> po_object_id new \<noteq> None \<and> po_object_id p = po_object_id new
     \<or> po_repost_of_id new \<noteq> None \<and> po_author_id p = po_author_id new \<and> po_repost_of_id p = po_repost_of_id new"

definition post_exists :: "database \<Rightarrow> uuid \<Rightarrow> bool" where
  "post_exists s pid \<longleftrightarrow> list_ex (\<lambda>p. po_id p = pid) (posts s)"

definition references_missing :: "database \<Rightarrow> post \<Rightarrow> bool" where
  "references_missing s new \<longleftrightarrow>
     \<not> profile_exists s (po_author_id new)
     \<or> (case po_in_reply_to_id new of Some i \<Rightarrow> \<not> post_exists s i \<and> i \<noteq> po_id new | None \<Rightarrow> False)
     \<or> (case po_repost_of_id new of Some i \<Rightarrow> \<not> post_exists s i \<and> i \<noteq> po_id new | None \<Rightarrow> False)
     \<or> (case po_group_id new of Some i \<Rightarrow> \<not> profile_exists s i | None \<Rightarrow> False)
     \<or> (case po_conversation_id new of Some i \<Rightarrow> \<not> list_ex (\<lambda>c. cv_id c = i) (conversations s) | None \<Rightarrow> False)"

definition insert_post :: "post \<Rightarrow> post option stmt" where
  "insert_post new s =
     (if reply_or_repost_forbidden s new then (Ok None, s)
      else if (po_conversation_id new = None) = (po_repost_of_id new = None) then (Err CheckViolation, s)
      else if list_ex (post_conflict new) (posts s) then (Err UniqueViolation, s)
      else if references_missing s new then (Err ForeignKeyViolation, s)
      else (Ok (Some new), s\<lparr>posts := posts s @ [new]\<rparr>))"

definition find_or_create_conversation :: "uuid \<Rightarrow> uuid \<Rightarrow> post_create_data \<Rightarrow> conversation option db" where
  "find_or_create_conversation cid pid d = (case pc_context d of
      CtxTop group_id object_id audience \<Rightarrow>
        bnd (create_conversation cid pid group_id (pc_object_id d = None) object_id audience) (\<lambda>c. ret (Some c))
    | CtxReply conversation_id _ \<Rightarrow> bnd (get_conversation conversation_id) (\<lambda>c. ret (Some c))
    | CtxRepost _ \<Rightarrow> ret None)"

definition get_conversation_group :: "externals \<Rightarrow> conversation option \<Rightarrow> actor_profile option db" where
  "get_conversation_group X conv = (case Option.bind conv cv_group_id of
      Some g \<Rightarrow> bnd (get_profile_by_id X g) (\<lambda>p. ret (Some p))
    | None \<Rightarrow> ret None)"

text \<open>The notifications to the author of the parent, to the author of the original, and to the
  mentioned users; \<open>notified\<close> are the users that already got one.\<close>

definition notify_parent :: "externals \<Rightarrow> post \<Rightarrow> uuid list db" where
  "notify_parent X p = (case po_in_reply_to_id p of
      None \<Rightarrow> ret []
    | Some parent \<Rightarrow>
        seq (update_reply_count parent 1)
        (bnd (get_post_author X parent) (\<lambda>author.
         if has_user_account author \<and> p_id author \<noteq> po_author_id p
         then seq (create_reply_notification (po_author_id p) (p_id author) (po_id p)) (ret [p_id author])
         else ret [])))"

definition notify_reposted :: "externals \<Rightarrow> post \<Rightarrow> uuid list \<Rightarrow> uuid list db" where
  "notify_reposted X p notified = (case po_repost_of_id p of
      None \<Rightarrow> ret notified
    | Some orig \<Rightarrow>
        seq (update_repost_count orig 1)
        (bnd (get_post_author X orig) (\<lambda>author.
         if has_user_account author \<and> p_id author \<noteq> po_author_id p \<and> p_id author \<notin> set notified
         then seq (create_repost_notification (po_author_id p) (p_id author) orig) (ret (notified @ [p_id author]))
         else ret notified)))"

definition notify_mentioned :: "post \<Rightarrow> actor_profile list \<Rightarrow> uuid list \<Rightarrow> uuid list db" where
  "notify_mentioned p mentioned notified =
     fold_p (\<lambda>m seen.
       if has_user_account m \<and> p_id m \<noteq> po_author_id p \<and> p_id m \<notin> set seen
       then seq (create_mention_notification (po_author_id p) (p_id m) (po_id p)) (ret (seen @ [p_id m]))
       else ret seen) mentioned notified"

definition create_optional_poll :: "uuid \<Rightarrow> poll_data option \<Rightarrow> poll option db" where
  "create_optional_poll pid d = (case d of
      Some q \<Rightarrow> bnd (create_poll pid q) (\<lambda>x. ret (Some x))
    | None \<Rightarrow> ret None)"

definition create_post :: "externals \<Rightarrow> uuid \<Rightarrow> uuid \<Rightarrow> uuid \<Rightarrow> post_create_data \<Rightarrow> post_detailed db" where
  "create_post X ulid cid author d =
     seq (type_check (create_data_check_consistency d))
     (transaction (
       let pid = (case pc_id d of Some i \<Rightarrow> i | None \<Rightarrow> ulid) in
       bnd (find_or_create_conversation cid pid d) (\<lambda>conv.
       bnd (get_conversation_group X conv) (\<lambda>grp.
       bnd (map_err_p (catch_unique_violation ''post'') (insert_post (post_row pid author conv d))) (\<lambda>row.
       bnd (lift (ok_or (NotFound ''post'') row)) (\<lambda>p.
       bnd (create_post_attachments (po_id p) (po_author_id p) (pc_attachments d)) (\<lambda>atts.
       bnd (create_post_mentions X (po_id p) (pc_mentions d)) (\<lambda>mns.
       bnd (create_post_tags (po_id p) (pc_tags d)) (\<lambda>tgs.
       bnd (create_post_links (po_id p) (pc_links d)) (\<lambda>lns.
       bnd (create_post_emojis (po_id p) (pc_emojis d)) (\<lambda>ems.
       bnd (create_optional_poll (po_id p) (pc_poll d)) (\<lambda>pl.
       bnd (update_post_count X (po_author_id p) 1) (\<lambda>author_profile.
       bnd (notify_parent X p) (\<lambda>notified.
       bnd (notify_reposted X p notified) (\<lambda>notified'.
       bnd (notify_mentioned p mns notified') (\<lambda>_.
       type_check (post_detailed_new X p author_profile conv grp pl atts mns tgs lns ems [])))))))))))))))))"

section \<open>Update\<close>

definition editable :: "uuid \<Rightarrow> post \<Rightarrow> bool" where
  "editable pid p \<longleftrightarrow> po_id p = pid \<and> po_repost_of_id p = None \<and> po_ipfs_cid p = None"

definition edit_post :: "post_update_data \<Rightarrow> post \<Rightarrow> post" where
  "edit_post d p = p\<lparr>po_title := pu_title d, po_content := pu_content d, po_content_source := pu_content_source d,
     po_language := pu_language d, po_is_sensitive := pu_is_sensitive d, po_url := pu_url d,
     po_updated_at := pu_updated_at d\<rparr>"

definition detach_media :: "uuid \<Rightarrow> uuid list \<Rightarrow> deletion_queue db" where
  "detach_media pid keep =
     (let gone = (\<lambda>a. ma_post_id a = Some pid \<and> ma_id a \<notin> set keep) in
      bnd (gets (\<lambda>s. filter gone (media_attachments s))) (\<lambda>rows.
      seq (modify (\<lambda>s. s\<lparr>media_attachments := delete_where gone (media_attachments s)\<rparr>))
      (ret \<lparr>dq_files = List.map_filter (\<lambda>a. into_file_name (ma_media a)) rows,
            dq_ipfs_objects = List.map_filter ma_ipfs_cid rows\<rparr>)))"

definition detach_related :: "uuid \<Rightarrow> uuid list db" where
  "detach_related pid =
     bnd (gets (\<lambda>s. map mn_profile_id (filter (\<lambda>m. mn_post_id m = pid) (post_mentions s)))) (\<lambda>old_mentions.
     seq (modify (\<lambda>s. s\<lparr>post_mentions := delete_where (\<lambda>m. mn_post_id m = pid) (post_mentions s),
            post_tags := delete_where (\<lambda>t. pt_post_id t = pid) (post_tags s),
            post_links := delete_where (\<lambda>l. pl_source_id l = pid) (post_links s),
            post_emojis := delete_where (\<lambda>e. pe_post_id e = pid) (post_emojis s)\<rparr>))
     (ret old_mentions))"

definition update_optional_poll :: "uuid \<Rightarrow> poll_data option \<Rightarrow> poll option db" where
  "update_optional_poll pid d = (case d of
      Some q \<Rightarrow> bnd (update_poll pid q) (\<lambda>x. ret (Some x))
    | None \<Rightarrow> ret None)"

definition update_post ::
  "externals \<Rightarrow> uuid \<Rightarrow> post_update_data \<Rightarrow> (post_detailed \<times> deletion_queue) db" where
  "update_post X pid d = transaction (
     bnd (gets (\<lambda>s. map (edit_post d) (filter (editable pid) (posts s)))) (\<lambda>rows.
     seq (modify (\<lambda>s. s\<lparr>posts := update_where (editable pid) (edit_post d) (posts s)\<rparr>))
     (bnd (run (lift (query_opt rows))) (\<lambda>row.
      bnd (lift (ok_or (NotFound ''post'') row)) (\<lambda>p.
      bnd (case po_conversation_id p of
             Some c \<Rightarrow> get_conversation c | None \<Rightarrow> panic ''should not be a repost'') (\<lambda>conv.
      bnd (get_conversation_group X (Some conv)) (\<lambda>grp.
      bnd (detach_media (po_id p) (pu_attachments d)) (\<lambda>queue.
      bnd (detach_related (po_id p)) (\<lambda>old_mentions.
      bnd (create_post_attachments (po_id p) (po_author_id p) (pu_attachments d)) (\<lambda>atts.
      bnd (create_post_mentions X (po_id p) (pu_mentions d)) (\<lambda>mns.
      bnd (create_post_tags (po_id p) (pu_tags d)) (\<lambda>tgs.
      bnd (create_post_links (po_id p) (pu_links d)) (\<lambda>lns.
      bnd (create_post_emojis (po_id p) (pu_emojis d)) (\<lambda>ems.
      bnd (get_post_reactions (po_id p)) (\<lambda>rxs.
      bnd (update_optional_poll (po_id p) (pu_poll d)) (\<lambda>pl.
      seq (for_each mns (\<lambda>m.
            if has_user_account m \<and> p_id m \<noteq> po_author_id p \<and> p_id m \<notin> set old_mentions
            then create_mention_notification (po_author_id p) (p_id m) (po_id p) else ret ()))
      (bnd (get_post_author X (po_id p)) (\<lambda>author.
       bnd (type_check (post_detailed_new X p author (Some conv) grp pl atts mns tgs lns ems rxs)) (\<lambda>post.
       ret (post, queue))))))))))))))))))))"

section \<open>Deletion\<close>

text \<open>A recursive query over the posts: \<open>n\<close> rounds, each adding the posts that the condition links
  to the identifiers found so far. As many rounds as there are posts reach every one of them.\<close>

definition closure_step :: "(post \<Rightarrow> uuid list \<Rightarrow> bool) \<Rightarrow> post list \<Rightarrow> uuid list \<Rightarrow> uuid list" where
  "closure_step R ps ids = ids @ map po_id (filter (\<lambda>p. po_id p \<notin> set ids \<and> R p ids) ps)"

definition post_closure :: "(post \<Rightarrow> uuid list \<Rightarrow> bool) \<Rightarrow> post list \<Rightarrow> uuid list \<Rightarrow> uuid list" where
  "post_closure R ps ids = ((closure_step R ps) ^^ length ps) ids"

definition replies_or_reposts :: "post \<Rightarrow> uuid list \<Rightarrow> bool" where
  "replies_or_reposts p ids \<longleftrightarrow>
     (case po_in_reply_to_id p of Some i \<Rightarrow> i \<in> set ids | None \<Rightarrow> False)
     \<or> (case po_repost_of_id p of Some i \<Rightarrow> i \<in> set ids | None \<Rightarrow> False)"

text \<open>The recursive query \<open>context\<close>, and the rows the foreign keys of \<open>post\<close> and \<open>conversation\<close>
  delete with a post: a conversation goes with its root and takes its posts along.\<close>

definition context_posts :: "database \<Rightarrow> uuid list \<Rightarrow> uuid list" where
  "context_posts s ids = post_closure replies_or_reposts (posts s) ids"

definition rooted_in :: "database \<Rightarrow> post \<Rightarrow> uuid list \<Rightarrow> bool" where
  "rooted_in s p ids \<longleftrightarrow>
     list_ex (\<lambda>c. po_conversation_id p = Some (cv_id c) \<and> cv_root_id c \<in> set ids) (conversations s)"

definition cascade_posts :: "database \<Rightarrow> uuid list \<Rightarrow> uuid list" where
  "cascade_posts s ids = post_closure (\<lambda>p ids. replies_or_reposts p ids \<or> rooted_in s p ids) (posts s) ids"

definition remove_posts :: "uuid set \<Rightarrow> database \<Rightarrow> database" where
  "remove_posts D s = s\<lparr>
     posts := delete_where (\<lambda>p. po_id p \<in> D) (posts s),
     conversations := delete_where (\<lambda>c. cv_root_id c \<in> D) (conversations s),
     conversation_trackings := delete_where (\<lambda>t. list_ex (\<lambda>c. cv_root_id c \<in> D \<and> cv_id c = ct_conversation_id t)
       (conversations s)) (conversation_trackings s),
     polls := delete_where (\<lambda>q. poll_id q \<in> D) (polls s),
     poll_votes := delete_where (\<lambda>v. pv_poll_id v \<in> D) (poll_votes s),
     reactions := delete_where (\<lambda>r. re_post_id r \<in> D) (reactions s),
     notifications := delete_where (\<lambda>n. (case ntf_post_id n of Some i \<Rightarrow> i \<in> D | None \<Rightarrow> False)
       \<or> list_ex (\<lambda>r. re_post_id r \<in> D \<and> ntf_reaction_id n = Some (re_id r)) (reactions s)) (notifications s),
     media_attachments := delete_where (\<lambda>a. case ma_post_id a of Some i \<Rightarrow> i \<in> D | None \<Rightarrow> False) (media_attachments s),
     post_mentions := delete_where (\<lambda>m. mn_post_id m \<in> D) (post_mentions s),
     post_tags := delete_where (\<lambda>t. pt_post_id t \<in> D) (post_tags s),
     post_links := delete_where (\<lambda>l. pl_source_id l \<in> D \<or> pl_target_id l \<in> D) (post_links s),
     post_emojis := delete_where (\<lambda>e. pe_post_id e \<in> D) (post_emojis s),
     bookmarks := delete_where (\<lambda>b. bk_post_id b \<in> D) (bookmarks s),
     collection_items := delete_where (\<lambda>i. list_ex (\<lambda>a. (case ao_post_id a of Some x \<Rightarrow> x \<in> D | None \<Rightarrow> False)
       \<and> ao_object_id a = ci_object_id i) (activitypub_objects s)) (collection_items s),
     activitypub_objects := delete_where (\<lambda>a. case ao_post_id a of Some i \<Rightarrow> i \<in> D | None \<Rightarrow> False)
       (activitypub_objects s)\<rparr>"

definition context_media :: "uuid list \<Rightarrow> database \<Rightarrow> deletion_queue" where
  "context_media ids s =
     (let ms = filter (\<lambda>a. case ma_post_id a of Some i \<Rightarrow> i \<in> set ids | None \<Rightarrow> False) (media_attachments s) in
      \<lparr>dq_files = List.map_filter (\<lambda>a. into_file_name (ma_media a)) ms,
       dq_ipfs_objects = List.map_filter ma_ipfs_cid ms
         @ List.map_filter po_ipfs_cid (filter (\<lambda>p. po_id p \<in> set ids) (posts s))\<rparr>)"

text \<open>\<open>SET post_count = post_count - post.count\<close>, grouped by author.\<close>

definition posts_by :: "database \<Rightarrow> uuid list \<Rightarrow> uuid \<Rightarrow> int" where
  "posts_by s ids author = count_where (\<lambda>p. po_id p \<in> set ids \<and> po_author_id p = author) (posts s)"

definition subtract_post_counts :: "uuid list \<Rightarrow> unit stmt" where
  "subtract_post_counts ids s =
     (if list_ex (\<lambda>a. p_post_count a - posts_by s ids (p_id a) < 0 \<and> posts_by s ids (p_id a) \<noteq> 0) (actor_profiles s)
      then (Err CheckViolation, s)
      else (Ok (), s\<lparr>actor_profiles := map (\<lambda>a. add_post_count (- posts_by s ids (p_id a)) a) (actor_profiles s)\<rparr>))"

definition delete_post :: "uuid \<Rightarrow> deletion_queue db" where
  "delete_post pid = transaction (
     bnd (gets (\<lambda>s. context_posts s (map po_id (filter (\<lambda>p. po_id p = pid) (posts s))))) (\<lambda>ids.
     bnd (gets (context_media ids)) (\<lambda>queue.
     seq (run (subtract_post_counts ids))
     (bnd (gets (\<lambda>s. filter (is_original pid) (posts s))) (\<lambda>rows.
      seq (modify (\<lambda>s. if rows = [] then s else remove_posts (set (cascade_posts s [pid])) s))
      (bnd (run (lift (query_opt rows))) (\<lambda>row.
       bnd (lift (ok_or (NotFound ''post'') row)) (\<lambda>p.
       seq (case po_in_reply_to_id p of Some parent \<Rightarrow> update_reply_count parent (-1) | None \<Rightarrow> ret ())
       (ret queue)))))))))"

definition is_repost_row :: "uuid \<Rightarrow> post \<Rightarrow> bool" where
  "is_repost_row rid p \<longleftrightarrow> po_id p = rid \<and> po_repost_of_id p \<noteq> None"

definition delete_repost :: "uuid \<Rightarrow> unit db" where
  "delete_repost rid = transaction (
     bnd (gets (\<lambda>s. filter (is_repost_row rid) (posts s))) (\<lambda>rows.
     seq (modify (\<lambda>s. if rows = [] then s else remove_posts (set (cascade_posts s [rid])) s))
     (bnd (run (lift (query_opt rows))) (\<lambda>row.
      bnd (lift (ok_or (NotFound ''post'') row)) (\<lambda>p.
      bnd (lift (ok_or TypeError (po_repost_of_id p))) (\<lambda>orig.
      update_repost_count orig (-1)))))))"

section \<open>Other updates\<close>

definition set_pinned_flag :: "uuid \<Rightarrow> bool \<Rightarrow> unit db" where
  "set_pinned_flag pid pinned =
     bnd (gets (\<lambda>s. count_where (is_original pid) (posts s))) (\<lambda>n.
     seq (modify (\<lambda>s. s\<lparr>posts := update_where (is_original pid) (\<lambda>p. p\<lparr>po_is_pinned := pinned\<rparr>) (posts s)\<rparr>))
     (if n = 0 then throw (NotFound ''post'') else ret ()))"

definition set_attachment_ipfs_cid :: "uuid \<Rightarrow> string \<Rightarrow> media_attachment db" where
  "set_attachment_ipfs_cid aid cid =
     (let pinnable = (\<lambda>a. ma_id a = aid \<and> ma_ipfs_cid a = None); pin = (\<lambda>a. a\<lparr>ma_ipfs_cid := Some cid\<rparr>) in
      bnd (gets (\<lambda>s. map pin (filter pinnable (media_attachments s)))) (\<lambda>rows.
      seq (modify (\<lambda>s. s\<lparr>media_attachments := update_where pinnable pin (media_attachments s)\<rparr>))
      (bnd (run (lift (query_opt rows))) (\<lambda>row. lift (ok_or (NotFound ''attachment'') row)))))"

definition set_post_ipfs_cid :: "uuid \<Rightarrow> string \<Rightarrow> (uuid \<times> string) list \<Rightarrow> unit db" where
  "set_post_ipfs_cid pid cid atts = transaction (
     bnd (gets (\<lambda>s. count_where (editable pid) (posts s))) (\<lambda>n.
     seq (modify (\<lambda>s. s\<lparr>posts := update_where (editable pid) (\<lambda>p. p\<lparr>po_ipfs_cid := Some cid\<rparr>) (posts s)\<rparr>))
     (if n = 0 then throw (NotFound ''post'')
      else for_each atts (\<lambda>(aid, c). seq (set_attachment_ipfs_cid aid c) (ret ())))))"

section \<open>Bookmarks\<close>

definition create_bookmark :: "uuid \<Rightarrow> uuid \<Rightarrow> unit db" where
  "create_bookmark owner pid = map_err_p (catch_unique_violation ''bookmark'') (\<lambda>s.
     let n = bookmark_seq (seqs s); t = s\<lparr>seqs := (seqs s)\<lparr>bookmark_seq := n + 1\<rparr>\<rparr> in
     if list_ex (\<lambda>b. bk_owner_id b = owner \<and> bk_post_id b = pid) (bookmarks s) then (Err UniqueViolation, t)
     else if \<not> list_ex (\<lambda>u. u_id u = owner) (user_accounts s) \<or> \<not> post_exists s pid then (Err ForeignKeyViolation, t)
     else (Ok (), t\<lparr>bookmarks := bookmarks t @ [\<lparr>bk_id = n, bk_owner_id = owner, bk_post_id = pid\<rparr>]\<rparr>))"

definition delete_bookmark :: "uuid \<Rightarrow> uuid \<Rightarrow> unit db" where
  "delete_bookmark owner pid =
     (let same = (\<lambda>b. bk_owner_id b = owner \<and> bk_post_id b = pid) in
      bnd (gets (\<lambda>s. count_where same (bookmarks s))) (\<lambda>n.
      seq (modify (\<lambda>s. s\<lparr>bookmarks := delete_where same (bookmarks s)\<rparr>))
      (if n = 0 then throw (NotFound ''bookmark'') else ret ())))"

definition find_bookmarked_by_user :: "uuid \<Rightarrow> uuid list \<Rightarrow> uuid list db" where
  "find_bookmarked_by_user uid ids = gets (\<lambda>s.
     map bk_post_id (filter (\<lambda>b. bk_owner_id b = uid \<and> bk_post_id b \<in> set ids) (bookmarks s)))"

end
