(* ===== verification/Timelines.thy ===== *)
theory Timelines
  imports Posts "HOL-Library.List_Lexorder"
begin

text \<open>
  Reading posts (\<open>mitra_models/src/posts/queries.rs\<close>): the visibility and mute filters, the
  timelines, threads and conversations, lookups, and the per-post check \<open>can_view_post\<close>
  (\<open>posts/helpers.rs\<close>), with the roles and permissions of \<open>accounts/types.rs\<close>. The viewer is
  \<open>None\<close> for an anonymous request, where every comparison with \<open>NULL\<close> fails.
\<close>

section \<open>Filters\<close>

definition mentions_profile :: "database \<Rightarrow> uuid \<Rightarrow> uuid \<Rightarrow> bool" where
  "mentions_profile s pid viewer \<longleftrightarrow>
     list_ex (\<lambda>m. mn_post_id m = pid \<and> mn_profile_id m = viewer) (post_mentions s)"

definition reposts_post_of :: "database \<Rightarrow> uuid \<Rightarrow> post \<Rightarrow> bool" where
  "reposts_post_of s author p \<longleftrightarrow>
     list_ex (\<lambda>q. po_repost_of_id p = Some (po_id q) \<and> po_author_id q = author) (posts s)"

definition visibility_filter :: "database \<Rightarrow> uuid option \<Rightarrow> post \<Rightarrow> bool" where
  "visibility_filter s viewer p \<longleftrightarrow>
     po_visibility p = VisPublic
     \<or> (case viewer of None \<Rightarrow> False | Some v \<Rightarrow>
          po_author_id p = v
          \<or> mentions_profile s (po_id p) v
          \<or> reposts_post_of s v p
          \<or> po_visibility p = VisFollowers \<and> related_to s v (po_author_id p) RelFollow
          \<or> po_visibility p = VisSubscribers \<and> related_to s v (po_author_id p) RelSubscription
          \<or> po_visibility p = VisConversation
              \<and> (case po_conversation_id p of
                   Some c \<Rightarrow> list_ex (root_admits s v) (conversation_roots s c) | None \<Rightarrow> False))"

definition mute_filter :: "database \<Rightarrow> uuid option \<Rightarrow> post \<Rightarrow> bool" where
  "mute_filter s viewer p \<longleftrightarrow> (case viewer of None \<Rightarrow> True | Some v \<Rightarrow>
     \<not> related_to s v (po_author_id p) RelMute
     \<and> \<not> list_ex (\<lambda>q. po_repost_of_id p = Some (po_id q) \<and> related_to s v (po_author_id q) RelMute) (posts s))"

section \<open>Pages\<close>

text \<open>\<open>ORDER BY post.id DESC LIMIT n\<close>, below an optional identifier.\<close>

definition newest_first :: "nat \<Rightarrow> (post \<times> actor_profile) list \<Rightarrow> (post \<times> actor_profile) list" where
  "newest_first limit rows = take limit (rev (sort_key (\<lambda>(p, a). po_id p) rows))"

definition below :: "uuid option \<Rightarrow> uuid \<Rightarrow> bool" where
  "below max_id i \<longleftrightarrow> (case max_id of None \<Rightarrow> True | Some m \<Rightarrow> i < m)"

definition load_page ::
  "externals \<Rightarrow> nat \<Rightarrow> uuid option \<Rightarrow> (database \<Rightarrow> post \<Rightarrow> actor_profile \<Rightarrow> bool) \<Rightarrow> post_detailed list db" where
  "load_page X limit max_id P =
     load_posts X (\<lambda>s. newest_first limit (posts_with_authors s (\<lambda>p a. P s p a \<and> below max_id (po_id p))))"

section \<open>Timelines\<close>

text \<open>Reposts and replies of an author the reader follows, unless hidden; reposts of and replies
  to the reader's own posts are shown anyway.\<close>

definition shows_repost :: "database \<Rightarrow> uuid \<Rightarrow> post \<Rightarrow> bool" where
  "shows_repost s v p \<longleftrightarrow>
     po_repost_of_id p = None \<or> \<not> related_to s v (po_author_id p) RelHideReposts \<or> reposts_post_of s v p"

definition replies_to_post_of :: "database \<Rightarrow> uuid \<Rightarrow> post \<Rightarrow> bool" where
  "replies_to_post_of s author p \<longleftrightarrow>
     list_ex (\<lambda>q. po_in_reply_to_id p = Some (po_id q) \<and> po_author_id q = author) (posts s)"

definition shows_reply :: "database \<Rightarrow> uuid \<Rightarrow> post \<Rightarrow> bool" where
  "shows_reply s v p \<longleftrightarrow>
     po_in_reply_to_id p = None \<or> \<not> related_to s v (po_author_id p) RelHideReplies \<or> replies_to_post_of s v p"

definition in_custom_feed :: "database \<Rightarrow> uuid \<Rightarrow> uuid \<Rightarrow> bool" where
  "in_custom_feed s v author \<longleftrightarrow>
     list_ex (\<lambda>f. cf_owner_id f = v \<and> list_ex (\<lambda>x. cs_feed_id x = cf_id f \<and> cs_source_id x = author)
       (custom_feed_sources s)) (custom_feeds s)"

definition home_timeline_post :: "database \<Rightarrow> uuid \<Rightarrow> post \<Rightarrow> bool" where
  "home_timeline_post s v p \<longleftrightarrow>
     po_author_id p = v
     \<or> (related_to s v (po_author_id p) RelFollow \<or> related_to s v (po_author_id p) RelSubscription)
         \<and> shows_repost s v p \<and> shows_reply s v p \<and> \<not> in_custom_feed s v (po_author_id p)
     \<or> mentions_profile s (po_id p) v
     \<or> list_ex (\<lambda>t. po_conversation_id p = Some (ct_conversation_id t) \<and> ct_account_id t = v
          \<and> ct_tracking_status t = TrackFollow) (conversation_trackings s)"

definition get_home_timeline :: "externals \<Rightarrow> uuid \<Rightarrow> uuid option \<Rightarrow> nat \<Rightarrow> post_detailed list db" where
  "get_home_timeline X v max_id limit = load_page X limit max_id (\<lambda>s p a.
     home_timeline_post s v p \<and> mute_filter s (Some v) p \<and> visibility_filter s (Some v) p)"

definition get_public_timeline ::
  "externals \<Rightarrow> uuid option \<Rightarrow> bool \<Rightarrow> string option \<Rightarrow> uuid option \<Rightarrow> nat \<Rightarrow> post_detailed list db" where
  "get_public_timeline X viewer only_local hostname max_id limit = load_page X limit max_id (\<lambda>s p a.
     (only_local \<longrightarrow> has_account a) \<and> (hostname \<noteq> None \<longrightarrow> p_hostname a = hostname)
     \<and> po_visibility p = VisPublic \<and> po_repost_of_id p = None \<and> mute_filter s viewer p)"

definition get_direct_timeline :: "externals \<Rightarrow> uuid \<Rightarrow> uuid option \<Rightarrow> nat \<Rightarrow> post_detailed list db" where
  "get_direct_timeline X v max_id limit = load_page X limit max_id (\<lambda>s p a.
     (po_author_id p = v \<or> mentions_profile s (po_id p) v)
     \<and> po_visibility p = VisDirect \<and> mute_filter s (Some v) p)"

definition get_posts_by_author ::
  "externals \<Rightarrow> uuid \<Rightarrow> uuid option \<Rightarrow> bool \<Rightarrow> bool \<Rightarrow> bool \<Rightarrow> bool \<Rightarrow> uuid option \<Rightarrow> nat \<Rightarrow> post_detailed list db" where
  "get_posts_by_author X author viewer include_replies include_reposts only_pinned only_media max_id limit =
     load_page X limit max_id (\<lambda>s p a.
       po_author_id p = author \<and> visibility_filter s viewer p
       \<and> (include_replies \<or> po_in_reply_to_id p = None)
       \<and> (include_reposts \<or> po_repost_of_id p = None)
       \<and> (only_pinned \<longrightarrow> po_is_pinned p)
       \<and> (only_media \<longrightarrow> list_ex (\<lambda>m. ma_post_id m = Some (po_id p)) (media_attachments s)))"

text \<open>\<open>to_lowercase\<close> of the tag is the argument \<open>tag_name\<close>.\<close>

definition get_posts_by_tag :: "externals \<Rightarrow> string \<Rightarrow> uuid option \<Rightarrow> uuid option \<Rightarrow> nat \<Rightarrow> post_detailed list db" where
  "get_posts_by_tag X tag_name viewer max_id limit = load_page X limit max_id (\<lambda>s p a.
     list_ex (\<lambda>t. tg_name t = tag_name \<and> list_ex (\<lambda>x. pt_tag_id x = tg_id t \<and> pt_post_id x = po_id p) (post_tags s)) (tags s)
     \<and> visibility_filter s viewer p \<and> mute_filter s viewer p)"

definition get_custom_feed_timeline :: "externals \<Rightarrow> int \<Rightarrow> uuid \<Rightarrow> uuid option \<Rightarrow> nat \<Rightarrow> post_detailed list db" where
  "get_custom_feed_timeline X feed v max_id limit = load_page X limit max_id (\<lambda>s p a.
     list_ex (\<lambda>f. cf_id f = feed \<and> list_ex (\<lambda>x. cs_feed_id x = cf_id f \<and> cs_source_id x = po_author_id p)
       (custom_feed_sources s)) (custom_feeds s)
     \<and> (po_repost_of_id p = None \<or> \<not> related_to s v (po_author_id p) RelHideReposts)
     \<and> (po_in_reply_to_id p = None \<or> \<not> related_to s v (po_author_id p) RelHideReplies)
     \<and> visibility_filter s (Some v) p \<and> mute_filter s (Some v) p)"

definition related_post_ids :: "database \<Rightarrow> uuid list \<Rightarrow> uuid list" where
  "related_post_ids s ids =
     (let ps = filter (\<lambda>p. po_id p \<in> set ids) (posts s);
          originals = [q. q \<leftarrow> posts s, p \<leftarrow> ps, po_repost_of_id p = Some (po_id q)] in
      List.map_filter po_in_reply_to_id ps @ List.map_filter po_repost_of_id ps
      @ map pl_target_id (filter (\<lambda>l. pl_source_id l \<in> set ids) (post_links s))
      @ List.map_filter po_in_reply_to_id originals
      @ [pl_target_id l. l \<leftarrow> post_links s, p \<leftarrow> ps, po_repost_of_id p = Some (pl_source_id l)])"

definition get_related_posts :: "externals \<Rightarrow> uuid list \<Rightarrow> post_detailed list db" where
  "get_related_posts X ids =
     load_posts X (\<lambda>s. posts_with_authors s (\<lambda>p a. po_id p \<in> set (related_post_ids s ids)))"

section \<open>Single posts\<close>

definition single_post ::
  "externals \<Rightarrow> (database \<Rightarrow> post \<Rightarrow> bool) \<Rightarrow> post_detailed db" where
  "single_post X P =
     bnd (select_or_not_found ''post'' (\<lambda>s. posts_with_authors s (\<lambda>p a. P s p))) (\<lambda>row.
     bnd (gets (\<lambda>s. post_detailed_try_from X s row)) type_check)"

definition get_post_by_id :: "externals \<Rightarrow> uuid \<Rightarrow> post_detailed db" where
  "get_post_by_id X pid = single_post X (\<lambda>s p. po_id p = pid \<and> po_repost_of_id p = None)"

definition get_remote_post_by_object_id :: "externals \<Rightarrow> string \<Rightarrow> post_detailed db" where
  "get_remote_post_by_object_id X oid = single_post X (\<lambda>s p. po_object_id p = Some oid \<and> po_repost_of_id p = None)"

definition get_remote_repost_by_activity_id :: "externals \<Rightarrow> string \<Rightarrow> post_detailed db" where
  "get_remote_repost_by_activity_id X aid = single_post X (\<lambda>s p. po_object_id p = Some aid \<and> po_repost_of_id p \<noteq> None)"

definition get_repost_by_author :: "uuid \<Rightarrow> uuid \<Rightarrow> repost db" where
  "get_repost_by_author pid author =
     bnd (select_or_not_found ''post'' (\<lambda>s. filter (\<lambda>p. po_repost_of_id p = Some pid \<and> po_author_id p = author) (posts s)))
       (\<lambda>p. type_check (repost_try_from p))"

definition get_post_reposts ::
  "uuid \<Rightarrow> uuid option \<Rightarrow> uuid option \<Rightarrow> nat \<Rightarrow> (uuid \<times> actor_profile) list db" where
  "get_post_reposts pid viewer max_id limit = gets (\<lambda>s.
     map (\<lambda>(p, a). (po_id p, a)) (newest_first limit (posts_with_authors s (\<lambda>p a.
       po_repost_of_id p = Some pid \<and> visibility_filter s viewer p \<and> below max_id (po_id p)))))"

definition find_reposted_by_user :: "uuid \<Rightarrow> uuid list \<Rightarrow> uuid list db" where
  "find_reposted_by_user v ids = gets (\<lambda>s. map po_id (filter (\<lambda>p. po_id p \<in> set ids
     \<and> list_ex (\<lambda>r. po_author_id r = v \<and> po_repost_of_id r = Some (po_id p)) (posts s)) (posts s)))"

definition find_expired_reposts :: "datetime \<Rightarrow> repost list db" where
  "find_expired_reposts created_before =
     bnd (gets (\<lambda>s. filter (\<lambda>p. po_repost_of_id p \<noteq> None \<and> po_object_id p = None \<and> po_created_at p < created_before) (posts s)))
       (\<lambda>rows. type_check (try_map repost_try_from rows))"

definition find_posts_hidden_by_user :: "uuid \<Rightarrow> uuid list \<Rightarrow> uuid list db" where
  "find_posts_hidden_by_user v ids = gets (\<lambda>s.
     map po_id (filter (\<lambda>p. po_id p \<in> set ids \<and> related_to s v (po_author_id p) RelMute) (posts s)))"

definition get_post_count :: "bool \<Rightarrow> int db" where
  "get_post_count only_local = gets (\<lambda>s. int (length (posts_with_authors s (\<lambda>p a.
     po_in_reply_to_id p = None \<and> po_repost_of_id p = None \<and> po_visibility p \<noteq> VisDirect
     \<and> (only_local \<longrightarrow> has_account a)))))"

text \<open>\<open>matches\<close> is the full text search of PostgreSQL.\<close>

definition search_posts ::
  "externals \<Rightarrow> (string option \<Rightarrow> string \<Rightarrow> string \<Rightarrow> bool) \<Rightarrow> string \<Rightarrow> uuid \<Rightarrow> nat \<Rightarrow> nat \<Rightarrow> post_detailed list db" where
  "search_posts X matches text v limit offset = load_posts X (\<lambda>s.
     take limit (drop offset (rev (sort_key (\<lambda>(p, a). po_id p) (posts_with_authors s (\<lambda>p a.
       matches (po_title p) (po_content p) text \<and> po_repost_of_id p = None
       \<and> (po_author_id p = v
          \<or> list_ex (\<lambda>b. bk_post_id b = po_id p \<and> bk_owner_id b = v) (bookmarks s)
          \<or> list_ex (\<lambda>r. re_post_id r = po_id p \<and> re_author_id r = v) (reactions s)
          \<or> mentions_profile s (po_id p) v)))))))"

definition get_bookmarked_posts ::
  "externals \<Rightarrow> uuid \<Rightarrow> int option \<Rightarrow> nat \<Rightarrow> (int \<times> post_detailed) list db" where
  "get_bookmarked_posts X owner max_id limit =
     bnd (gets (\<lambda>s. (take limit (rev (sort_key (\<lambda>(b, r). bk_id b)
            [(b, (p, a)). (p, a) \<leftarrow> posts_with_authors s (\<lambda>p a. True), b \<leftarrow> bookmarks s,
               bk_post_id b = po_id p \<and> bk_owner_id b = owner
               \<and> (case max_id of None \<Rightarrow> True | Some m \<Rightarrow> bk_id b < m)])), s))) (\<lambda>(rows, s).
     type_check (try_map (\<lambda>(b, r). obind (post_detailed_try_from X s r) (\<lambda>d. Ok (bk_id b, d))) rows))"

section \<open>Threads\<close>

text \<open>\<open>tree_node\<close>: the posts of a conversation with the path from the root, level by level.\<close>

definition path_step :: "post list \<Rightarrow> (uuid \<times> uuid list) list \<Rightarrow> (uuid \<times> uuid list) list" where
  "path_step ps level = [(po_id p, path @ [po_id p]). p \<leftarrow> ps, (i, path) \<leftarrow> level, po_in_reply_to_id p = Some i]"

fun tree_levels :: "nat \<Rightarrow> post list \<Rightarrow> (uuid \<times> uuid list) list \<Rightarrow> (uuid \<times> uuid list) list" where
  "tree_levels 0 ps level = level"
| "tree_levels (Suc n) ps level = level @ tree_levels n ps (path_step ps level)"

definition tree_nodes :: "post list \<Rightarrow> (uuid \<times> uuid list) list" where
  "tree_nodes ps = tree_levels (length ps) ps [(po_id p, [po_id p]). p \<leftarrow> ps, po_in_reply_to_id p = None]"

definition thread_rows :: "uuid \<Rightarrow> uuid option \<Rightarrow> database \<Rightarrow> (post \<times> actor_profile) list" where
  "thread_rows pid viewer s =
     (case filter (\<lambda>p. po_id p = pid \<and> visibility_filter s viewer p) (posts s) of
        [p] \<Rightarrow> (case po_conversation_id p of
            None \<Rightarrow> []
          | Some c \<Rightarrow>
              map snd (sort_key fst
                [(path, (q, a)). (q, a) \<leftarrow> posts_with_authors s (\<lambda>q a. visibility_filter s viewer q \<and> mute_filter s viewer q),
                   (i, path) \<leftarrow> tree_nodes (filter (\<lambda>q. po_conversation_id q = Some c) (posts s)), i = po_id q]))
      | _ \<Rightarrow> [])"

fun mark_parents :: "uuid list \<Rightarrow> post_detailed list \<Rightarrow> post_detailed list" where
  "mark_parents seen [] = []"
| "mark_parents seen (d # ds) =
     (case po_in_reply_to_id (pd_post d) of
        Some i \<Rightarrow> if i \<in> set seen then d else d\<lparr>pd_parent_visible := False\<rparr>
      | None \<Rightarrow> d) # mark_parents (seen @ [po_id (pd_post d)]) ds"

definition get_thread :: "externals \<Rightarrow> uuid \<Rightarrow> uuid option \<Rightarrow> post_detailed list db" where
  "get_thread X pid viewer =
     bnd (load_posts X (thread_rows pid viewer)) (\<lambda>ds.
     if ds = [] then throw (NotFound ''post'') else ret (mark_parents [] ds))"

definition get_conversation_items ::
  "externals \<Rightarrow> uuid \<Rightarrow> uuid option \<Rightarrow> (post_detailed \<times> post_detailed list) db" where
  "get_conversation_items X cid viewer =
     bnd (load_posts X (\<lambda>s. sort_key (\<lambda>(p, a). po_id p) (posts_with_authors s (\<lambda>p a.
            po_conversation_id p = Some cid \<and> visibility_filter s viewer p)))) (\<lambda>ds.
     case ds of
       [] \<Rightarrow> throw (NotFound ''conversation'')
     | root # _ \<Rightarrow>
         if (case pd_conversation root of None \<Rightarrow> True | Some c \<Rightarrow> cv_root_id c \<noteq> po_id (pd_post root))
         then throw TypeError else ret (root, ds))"

text \<open>The chain of parents of a post; the set of rows grows until nothing is new.\<close>

definition ancestor_ids :: "database \<Rightarrow> uuid \<Rightarrow> uuid list" where
  "ancestor_ids s pid =
     post_closure (\<lambda>p ids. list_ex (\<lambda>q. po_id q \<in> set ids \<and> po_in_reply_to_id q = Some (po_id p)) (posts s)) (posts s)
       (map po_id (filter (is_original pid) (posts s)))"

definition get_conversation_participants :: "externals \<Rightarrow> uuid \<Rightarrow> actor_profile list db" where
  "get_conversation_participants X pid =
     bnd (gets (\<lambda>s. [a. (i, r) \<leftarrow> remdups [(po_author_id p, po_in_reply_to_id p). j \<leftarrow> ancestor_ids s pid, p \<leftarrow> posts s, po_id p = j],
            a \<leftarrow> actor_profiles s, p_id a = i])) (\<lambda>rows.
     bnd (profiles_try_from X rows) (\<lambda>ps.
     if ps = [] then throw (NotFound ''post'') else ret ps))"

section \<open>Old remote conversations\<close>

text \<open>The posts and reposts that belong to a conversation, for \<open>find_extraneous_posts\<close>.\<close>

definition context_conversation :: "database \<Rightarrow> post \<Rightarrow> uuid option" where
  "context_conversation s p = (case po_repost_of_id p of
      Some i \<Rightarrow> Option.bind (find (\<lambda>q. po_id q = i) (posts s)) po_conversation_id
    | None \<Rightarrow> po_conversation_id p)"

definition has_local_account :: "database \<Rightarrow> uuid \<Rightarrow> bool" where
  "has_local_account s pid \<longleftrightarrow> list_ex (\<lambda>a. p_id a = pid \<and> has_account a) (actor_profiles s)"

definition is_extraneous :: "database \<Rightarrow> datetime \<Rightarrow> conversation \<Rightarrow> bool" where
  "is_extraneous s updated_before c \<longleftrightarrow>
     (let ps = filter (\<lambda>p. context_conversation s p = Some (cv_id c)) (posts s); ids = po_id ` set ps in
      ps \<noteq> [] \<and> list_all (\<lambda>p. po_created_at p < updated_before) ps
      \<and> \<not> list_ex (\<lambda>p. has_local_account s (po_author_id p)) ps
      \<and> \<not> list_ex (\<lambda>m. mn_post_id m \<in> ids \<and> has_local_account s (mn_profile_id m)) (post_mentions s)
      \<and> \<not> list_ex (\<lambda>r. re_post_id r \<in> ids \<and> has_local_account s (re_author_id r)) (reactions s)
      \<and> \<not> list_ex (\<lambda>l. pl_target_id l \<in> ids
           \<and> list_ex (\<lambda>q. po_id q = pl_source_id l \<and> has_local_account s (po_author_id q)) (posts s)) (post_links s)
      \<and> \<not> list_ex (\<lambda>l. pl_target_id l \<in> ids \<and> pl_source_id l \<notin> ids \<and> post_exists s (pl_source_id l)) (post_links s)
      \<and> \<not> list_ex (\<lambda>b. bk_post_id b \<in> ids) (bookmarks s)
      \<and> \<not> list_ex (\<lambda>v. pv_poll_id v \<in> ids) (poll_votes s)
      \<and> \<not> list_ex (\<lambda>t. ct_conversation_id t = cv_id c \<and> ct_tracking_status t = TrackFollow) (conversation_trackings s))"

definition find_extraneous_posts :: "datetime \<Rightarrow> uuid list db" where
  "find_extraneous_posts updated_before =
     gets (\<lambda>s. map cv_root_id (filter (is_extraneous s updated_before) (conversations s)))"

section \<open>Permissions\<close>

datatype permission = CreateFollowRequest | CreatePost | DeleteAnyPost | DeleteAnyProfile | ManageSubscriptionOptions

fun get_permissions :: "role \<Rightarrow> permission list" where
  "get_permissions Guest = []"
| "get_permissions NormalUser = [CreateFollowRequest, CreatePost, ManageSubscriptionOptions]"
| "get_permissions Admin = [CreateFollowRequest, CreatePost, DeleteAnyPost, DeleteAnyProfile, ManageSubscriptionOptions]"
| "get_permissions ReadOnlyUser = [CreateFollowRequest]"

definition has_permission :: "role \<Rightarrow> permission \<Rightarrow> bool" where
  "has_permission r p \<longleftrightarrow> p \<in> set (get_permissions r)"

definition can_create_post :: "user \<Rightarrow> bool" where
  "can_create_post u \<longleftrightarrow> has_permission (user_role u) CreatePost"

definition can_link_post :: "post_detailed \<Rightarrow> bool" where
  "can_link_post d \<longleftrightarrow>
     (if po_repost_of_id (pd_post d) \<noteq> None then False
      else if po_visibility (pd_post d) \<noteq> VisPublic then False
      else True)"

text \<open>\<open>can_view_post\<close>: the check of a single loaded post.\<close>

definition can_view_post :: "actor_profile option \<Rightarrow> post_detailed \<Rightarrow> bool db" where
  "can_view_post viewer d =
     (let is_author = (\<lambda>v. p_id (pd_author d) = p_id v);
          is_mentioned = (\<lambda>v. list_ex (\<lambda>m. p_id m = p_id v) (pd_mentions d)) in
      case po_visibility (pd_post d) of
        VisPublic \<Rightarrow> ret True
      | VisFollowers \<Rightarrow> (case viewer of
            Some v \<Rightarrow> bnd (has_relationship (p_id v) (p_id (pd_author d)) RelFollow) (\<lambda>following.
              ret (following \<or> is_author v \<or> is_mentioned v))
          | None \<Rightarrow> ret False)
      | VisSubscribers \<Rightarrow> (case viewer of Some v \<Rightarrow> ret (is_author v \<or> is_mentioned v) | None \<Rightarrow> ret False)
      | VisConversation \<Rightarrow> (case viewer of
            Some v \<Rightarrow> bnd (expect_conversation d) (\<lambda>c.
              bnd (is_conversation_participant (p_id v) (cv_id c)) (\<lambda>participant.
              ret (participant \<or> is_author v \<or> is_mentioned v)))
          | None \<Rightarrow> ret False)
      | VisDirect \<Rightarrow> (case viewer of Some v \<Rightarrow> ret (is_author v \<or> is_mentioned v) | None \<Rightarrow> ret False))"

definition get_local_post_by_id :: "externals \<Rightarrow> uuid \<Rightarrow> post_detailed db" where
  "get_local_post_by_id X pid =
     bnd (get_post_by_id X pid) (\<lambda>d. if \<not> post_is_local d then throw (NotFound ''post'') else ret d)"

definition get_post_by_id_for_view :: "externals \<Rightarrow> actor_profile option \<Rightarrow> uuid \<Rightarrow> post_detailed db" where
  "get_post_by_id_for_view X viewer pid =
     bnd (get_post_by_id X pid) (\<lambda>d.
     bnd (can_view_post viewer d) (\<lambda>ok.
     if \<not> ok then throw (NotFound ''post'') else ret d))"

end
