(* ===== verification/PostViews.thy ===== *)
theory PostViews
  imports Timelines RelationshipInvariants
begin

text \<open>
  What readers see: the check of a single post against the filter of the timelines, the pages of
  the timelines, the threads.
\<close>

section \<open>The check of a loaded post\<close>

lemma post_detailed_loaded:
  assumes "post_detailed_new X p a conv g q ms mn tg ln em rs = Ok d" and "po_repost_of_id p = None"
  obtains c where "pd_post d = p" "pd_author d = a" "pd_mentions d = mn" "p_id a = po_author_id p"
    "conv = Some c" "pd_conversation d = Some c" "po_conversation_id p = Some (cv_id c)"
proof -
  have fields: "pd_post d = p" "pd_author d = a" "pd_conversation d = conv" "pd_mentions d = mn" "po_author_id p = p_id a"
    using post_detailed_new_Ok [OF assms(1)] by simp_all
  have "po_conversation_id p \<noteq> None" "\<not> conversation_mismatch p conv"
    using assms by (auto simp: post_detailed_new_def ok_runs split: if_splits)
  then obtain c where "conv = Some c" "po_conversation_id p = Some (cv_id c)"
    by (auto simp: conversation_mismatch_def split: option.splits)
  with fields that show ?thesis by simp
qed

lemma get_post_by_id_loaded:
  assumes "get_post_by_id X pid s = (Ok d, t)"
  obtains p a c where "t = s" "p \<in> set (posts s)" "po_id p = pid" "po_repost_of_id p = None" "pd_post d = p"
    "pd_author d = a" "p_id a = po_author_id p" "pd_mentions d = related_mentions s p"
    "pd_conversation d = Some c" "po_conversation_id p = Some (cv_id c)"
proof -
  from assms obtain p a where row: "posts_with_authors s (\<lambda>p a. po_id p = pid \<and> po_repost_of_id p = None) = [(p, a)]"
    and new: "post_detailed_try_from X s (p, a) = Ok d" and t: "t = s"
    by (auto simp: get_post_by_id_def single_post_def ok_runs)
  from row have "(p, a) \<in> set (posts_with_authors s (\<lambda>p a. po_id p = pid \<and> po_repost_of_id p = None))" by simp
  then have p: "p \<in> set (posts s)" "po_id p = pid" "po_repost_of_id p = None"
    by (auto simp: posts_with_authors_def)
  from new have "post_detailed_new X p a (related_conversation s p) (related_group s p) (related_poll s p)
     (related_attachments s p) (related_mentions s p) (related_tags s p) (related_links s p)
     (related_emojis s p) (related_reactions s (po_id p)) = Ok d"
    by (simp add: post_detailed_try_from_def)
  then show ?thesis using p(3)
  proof (rule post_detailed_loaded)
    fix c assume "pd_post d = p" "pd_author d = a" "pd_mentions d = related_mentions s p" "p_id a = po_author_id p"
      "pd_conversation d = Some c" "po_conversation_id p = Some (cv_id c)"
    then show ?thesis using that p t by blast
  qed
qed

lemma related_mentions_viewer:
  assumes "profile_exists s v"
  shows "list_ex (\<lambda>m. p_id m = v) (related_mentions s p) = mentions_profile s (po_id p) v"
  using assms by (auto simp: related_mentions_def mentions_profile_def profile_exists_def list_ex_iff)

lemma has_relationship_run:
  assumes "unique_by rel_key (relationships s)" and "ty \<noteq> RelFollowRequest"
  shows "has_relationship a b ty s = (Ok (related_to s a b ty), s)"
proof -
  have "filter (is_rel a b ty) (relationships s) = [] \<or> (\<exists>r. filter (is_rel a b ty) (relationships s) = [r] \<and> r \<in> set (relationships s) \<and> is_rel a b ty r)"
    by (rule unique_by_filter_le1 [OF assms(1)]) (simp add: is_rel_def rel_key_def)
  then show ?thesis
    using assms(2) by (auto simp: has_relationship_Ok related_to_def list_ex_iff filter_empty_conv)
qed

text \<open>A conversation has one root, so the query for a participant returns at most one row.\<close>

lemma conversation_roots_eq:
  "conversation_roots s cid =
     concat (map (\<lambda>c. filter (\<lambda>r. po_id r = cv_root_id c) (posts s)) (filter (\<lambda>c. cv_id c = cid) (conversations s)))"
proof -
  have inner: "concat (map (\<lambda>r. if cv_root_id c = po_id r \<and> cv_id c = cid then [r] else []) ps)
      = (if cv_id c = cid then filter (\<lambda>r. po_id r = cv_root_id c) ps else [])" for c and ps :: "post list"
    by (induction ps) auto
  have outer: "concat (map (\<lambda>c. if cv_id c = cid then f c else []) cs) = concat (map f (filter (\<lambda>c. cv_id c = cid) cs))"
    for f :: "conversation \<Rightarrow> post list" and cs by (induction cs) simp_all
  show ?thesis unfolding conversation_roots_def inner outer ..
qed

lemma conversation_roots_le1:
  assumes "unique_by cv_id (conversations s)" and "unique_by po_id (posts s)"
  shows "conversation_roots s cid = [] \<or> (\<exists>r. conversation_roots s cid = [r])"
proof -
  have one: "filter (\<lambda>r. po_id r = i) (posts s) = [] \<or> (\<exists>r. filter (\<lambda>r. po_id r = i) (posts s) = [r])" for i
    using unique_by_filter_le1 [OF assms(2), of "\<lambda>r. po_id r = i"] by auto
  have "filter (\<lambda>c. cv_id c = cid) (conversations s) = [] \<or> (\<exists>c. filter (\<lambda>c. cv_id c = cid) (conversations s) = [c])"
    using unique_by_filter_le1 [OF assms(1), of "\<lambda>c. cv_id c = cid"] by auto
  then show ?thesis
  proof
    assume "\<exists>c. filter (\<lambda>c. cv_id c = cid) (conversations s) = [c]"
    then obtain c where "filter (\<lambda>c. cv_id c = cid) (conversations s) = [c]" by blast
    then show ?thesis using one [of "cv_root_id c"] by (simp add: conversation_roots_eq)
  qed (simp add: conversation_roots_eq)
qed

lemma participant_run:
  assumes "unique_by cv_id (conversations s)" and "unique_by po_id (posts s)"
  shows "is_conversation_participant v cid s = (Ok (list_ex (root_admits s v) (conversation_roots s cid)), s)"
  using conversation_roots_le1 [OF assms, of cid]
  by (auto simp: is_conversation_participant_def bnd_def select_opt_def gets_def run_def map_err_p_def lift_def ret_def)

text \<open>The tables the check reads have unique keys.\<close>

definition view_tables_ok :: "database \<Rightarrow> bool" where
  "view_tables_ok s \<longleftrightarrow>
     unique_by rel_key (relationships s) \<and> unique_by po_id (posts s) \<and> unique_by cv_id (conversations s)"

lemma can_view_post_viewer:
  assumes tables: "view_tables_ok s" and viewer: "profile_exists s (p_id v)"
    and loaded: "get_post_by_id X pid s = (Ok d, s)"
  shows "can_view_post (Some v) d s = (Ok (visibility_filter s (Some (p_id v)) (pd_post d)
      \<and> (po_visibility (pd_post d) = VisSubscribers \<longrightarrow>
           po_author_id (pd_post d) = p_id v \<or> mentions_profile s pid (p_id v))), s)"
  using loaded
proof (rule get_post_by_id_loaded)
  fix p a c
  assume d: "p \<in> set (posts s)" "po_id p = pid" "po_repost_of_id p = None" "pd_post d = p"
    "pd_author d = a" "p_id a = po_author_id p" "pd_mentions d = related_mentions s p"
    "pd_conversation d = Some c" "po_conversation_id p = Some (cv_id c)"
  have mentioned: "list_ex (\<lambda>m. p_id m = p_id v) (related_mentions s p) = mentions_profile s pid (p_id v)"
    using related_mentions_viewer [OF viewer] d(2) by simp
  have follows: "has_relationship (p_id v) (po_author_id p) RelFollow s
      = (Ok (related_to s (p_id v) (po_author_id p) RelFollow), s)"
    using tables by (intro has_relationship_run) (simp_all add: view_tables_ok_def)
  have participant: "is_conversation_participant (p_id v) (cv_id c) s
      = (Ok (list_ex (root_admits s (p_id v)) (conversation_roots s (cv_id c))), s)"
    using tables by (intro participant_run) (simp_all add: view_tables_ok_def)
  have no_repost: "\<not> reposts_post_of s (p_id v) p" using d(3) by (simp add: reposts_post_of_def list_ex_iff)
  show ?thesis
    unfolding can_view_post_def Let_def d(7) mentioned
    by (cases "po_visibility p")
      (auto simp: d mentioned visibility_filter_def no_repost ret_def bnd_def follows participant expect_conversation_def)
qed

lemma can_view_post_anonymous: "can_view_post None d s = (Ok (visibility_filter s None (pd_post d)), s)"
  by (cases "po_visibility (pd_post d)") (simp_all add: can_view_post_def visibility_filter_def ret_def)

section \<open>Timelines\<close>

lemma sorted_rev_take:
  assumes "sorted (map f xs)"
  shows "sorted_wrt (\<lambda>x y. f x \<ge> f y) (take n (rev xs))"
proof -
  have "sorted_wrt (\<lambda>x y. f x \<ge> f y) (rev xs)" using assms by (simp add: sorted_map sorted_wrt_rev)
  then show ?thesis by (rule sorted_wrt_take)
qed

text \<open>A page is sorted, bounded, and holds only rows that satisfy its condition.\<close>

lemma load_page_Ok:
  assumes "load_page X limit max_id P s = (Ok ds, t)"
  shows "t = s" "length ds \<le> limit" "sorted_wrt (\<lambda>d e. po_id (pd_post d) \<ge> po_id (pd_post e)) ds"
    "d \<in> set ds \<Longrightarrow> \<exists>a. pd_post d \<in> set (posts s) \<and> P s (pd_post d) a \<and> below max_id (po_id (pd_post d))"
proof -
  let ?rows = "newest_first limit (posts_with_authors s (\<lambda>p a. P s p a \<and> below max_id (po_id p)))"
  from assms have load: "list_all2 (\<lambda>r d. post_detailed_try_from X s r = Ok d) ?rows ds" and "t = s"
    by (auto simp: load_page_def load_posts_Ok)
  then show "t = s" by simp
  have rows: "map pd_post ds = map fst ?rows" by (rule load_posts_rows [OF load])
  have "length ds = length ?rows" using load by (simp add: list_all2_lengthD)
  then show "length ds \<le> limit" by (simp add: newest_first_def)
  have "sorted_wrt (\<lambda>x y. po_id (fst x) \<ge> po_id (fst y)) ?rows"
    unfolding newest_first_def case_prod_unfold by (rule sorted_rev_take) (rule sorted_sort_key)
  then have "sorted_wrt (\<lambda>p q. po_id p \<ge> po_id q) (map fst ?rows)" by (simp add: sorted_wrt_map)
  then have "sorted_wrt (\<lambda>p q. po_id p \<ge> po_id q) (map pd_post ds)" by (simp only: rows)
  then show "sorted_wrt (\<lambda>d e. po_id (pd_post d) \<ge> po_id (pd_post e)) ds" by (simp add: sorted_wrt_map)
  assume "d \<in> set ds"
  then have "pd_post d \<in> set (map fst ?rows)" using rows by (metis image_eqI list.set_map)
  then obtain a where "(pd_post d, a) \<in> set ?rows" by auto
  then have "(pd_post d, a) \<in> set (posts_with_authors s (\<lambda>p a. P s p a \<and> below max_id (po_id p)))"
    unfolding newest_first_def by (auto dest: in_set_takeD)
  then show "\<exists>a. pd_post d \<in> set (posts s) \<and> P s (pd_post d) a \<and> below max_id (po_id (pd_post d))"
    by (auto simp: posts_with_authors_def)
qed

section \<open>Threads\<close>

lemma mark_parents_posts: "map pd_post (mark_parents seen ds) = map pd_post ds"
  by (induction seen ds rule: mark_parents.induct) (auto split: option.splits)

lemma thread_rows_in:
  assumes "(q, a) \<in> set (thread_rows pid viewer s)"
  shows "q \<in> set (posts s)" "visibility_filter s viewer q" "mute_filter s viewer q"
proof -
  have "q \<in> set (posts s) \<and> visibility_filter s viewer q \<and> mute_filter s viewer q"
    using assms by (auto simp: thread_rows_def posts_with_authors_def split: list.splits option.splits)
  then show "q \<in> set (posts s)" "visibility_filter s viewer q" "mute_filter s viewer q" by simp_all
qed

lemma get_thread_Ok:
  assumes "get_thread X pid viewer s = (Ok ds, t)" and "d \<in> set ds"
  shows "t = s" "pd_post d \<in> set (posts s)" "visibility_filter s viewer (pd_post d)" "mute_filter s viewer (pd_post d)"
proof -
  from assms(1) obtain es where load: "list_all2 (\<lambda>r d. post_detailed_try_from X s r = Ok d) (thread_rows pid viewer s) es"
    and ds: "ds = mark_parents [] es" and t: "t = s"
    by (auto simp: get_thread_def ok_runs split: if_splits)
  then show "t = s" by simp
  have "map pd_post ds = map fst (thread_rows pid viewer s)"
    using load_posts_rows [OF load] by (simp add: ds mark_parents_posts)
  then have "pd_post d \<in> set (map fst (thread_rows pid viewer s))" using assms(2) by (metis image_eqI list.set_map)
  then obtain a where "(pd_post d, a) \<in> set (thread_rows pid viewer s)" by auto
  then show "pd_post d \<in> set (posts s)" "visibility_filter s viewer (pd_post d)" "mute_filter s viewer (pd_post d)"
    by (rule thread_rows_in)+
qed

end
