(* ===== verification/PostClosure.thy ===== *)
theory PostClosure
  imports Posts
begin

text \<open>
  The recursive queries over posts: a bounded number of rounds computes reachability, which is what
  \<open>WITH RECURSIVE ... UNION\<close> denotes, and what the cascades of the foreign keys delete.
\<close>

section \<open>Rounds of a recursive query\<close>

text \<open>The condition of a recursive query only gains from more identifiers.\<close>

definition mono_in :: "(post \<Rightarrow> uuid list \<Rightarrow> bool) \<Rightarrow> bool" where
  "mono_in R \<longleftrightarrow> (\<forall>p ids ids'. set ids \<subseteq> set ids' \<longrightarrow> R p ids \<longrightarrow> R p ids')"

definition closed_under :: "(post \<Rightarrow> uuid list \<Rightarrow> bool) \<Rightarrow> post list \<Rightarrow> uuid list \<Rightarrow> bool" where
  "closed_under R ps ids \<longleftrightarrow> (\<forall>p \<in> set ps. R p ids \<longrightarrow> po_id p \<in> set ids)"

lemma closure_step_closed: "closed_under R ps ids \<Longrightarrow> closure_step R ps ids = ids"
  by (auto simp: closure_step_def closed_under_def filter_empty_conv)

lemma closure_step_subset: "set ids \<subseteq> set (closure_step R ps ids)"
  by (auto simp: closure_step_def)

lemma closure_step_grows:
  "\<not> closed_under R ps ids \<Longrightarrow> \<exists>p \<in> set ps. po_id p \<notin> set ids \<and> po_id p \<in> set (closure_step R ps ids)"
  by (auto simp: closure_step_def closed_under_def)

lemma rounds_closed: "closed_under R ps ids \<Longrightarrow> (closure_step R ps ^^ n) ids = ids"
  by (induction n) (simp_all add: closure_step_closed)

text \<open>Every round that is not the last one finds another post.\<close>

lemma rounds_count:
  assumes "\<not> closed_under R ps ((closure_step R ps ^^ n) ids)"
  shows "n < card (po_id ` set ps \<inter> set ((closure_step R ps ^^ Suc n) ids))"
  using assms
proof (induction n)
  case 0
  then have "po_id ` set ps \<inter> set (closure_step R ps ids) \<noteq> {}" by (fastforce dest: closure_step_grows)
  then show ?case by (simp add: card_gt_0_iff)
next
  case (Suc n)
  let ?at = "\<lambda>k. (closure_step R ps ^^ k) ids" and ?U = "po_id ` set ps"
  have step: "?at (Suc k) = closure_step R ps (?at k)" for k by simp
  have open_before: "\<not> closed_under R ps (?at n)"
    using Suc.prems closure_step_closed [of R ps "?at n"] by (metis step)
  obtain p where p: "p \<in> set ps" "po_id p \<notin> set (?at (Suc n))" "po_id p \<in> set (?at (Suc (Suc n)))"
    using closure_step_grows [OF Suc.prems] by (auto simp: step [of "Suc n"])
  have "?U \<inter> set (?at (Suc n)) \<subset> ?U \<inter> set (?at (Suc (Suc n)))"
    using p closure_step_subset [of "?at (Suc n)" R ps] by (auto simp: step [of "Suc n"])
  then have "card (?U \<inter> set (?at (Suc n))) < card (?U \<inter> set (?at (Suc (Suc n))))"
    by (rule psubset_card_mono [rotated]) simp
  with Suc.IH [OF open_before] show ?case by linarith
qed

lemma post_closure_closed: "closed_under R ps (post_closure R ps ids)"
proof (rule ccontr)
  let ?n = "length ps"
  assume "\<not> closed_under R ps (post_closure R ps ids)"
  then have "?n < card (po_id ` set ps \<inter> set ((closure_step R ps ^^ Suc ?n) ids))"
    unfolding post_closure_def by (rule rounds_count)
  also have "\<dots> \<le> card (po_id ` set ps)" by (rule card_mono) auto
  also have "\<dots> \<le> ?n" using card_image_le [of "set ps" po_id] card_length [of ps] by simp
  finally show False by simp
qed

lemma rounds_start: "set ids \<subseteq> set ((closure_step R ps ^^ n) ids)"
  by (induction n) (use closure_step_subset in fastforce)+

lemma post_closure_start: "set ids \<subseteq> set (post_closure R ps ids)"
  unfolding post_closure_def by (rule rounds_start)

text \<open>The result is the least closed set above the start.\<close>

lemma post_closure_least:
  assumes "mono_in R" and "closed_under R ps ids'" and "set ids \<subseteq> set ids'"
  shows "set (post_closure R ps ids) \<subseteq> set ids'"
proof -
  have "set ((closure_step R ps ^^ n) ids) \<subseteq> set ids'" for n
  proof (induction n)
    case (Suc n)
    show ?case
    proof
      fix i assume "i \<in> set ((closure_step R ps ^^ Suc n) ids)"
      then consider "i \<in> set ((closure_step R ps ^^ n) ids)"
        | p where "p \<in> set ps" "i = po_id p" "R p ((closure_step R ps ^^ n) ids)"
        by (auto simp: closure_step_def)
      then show "i \<in> set ids'"
        using Suc assms(1,2) unfolding mono_in_def closed_under_def by cases blast+
    qed
  qed (use assms(3) in simp)
  then show ?thesis by (simp add: post_closure_def)
qed

section \<open>Reachability\<close>

inductive descends :: "post list \<Rightarrow> uuid \<Rightarrow> uuid \<Rightarrow> bool" for ps :: "post list" where
  self: "descends ps i i"
| child: "descends ps i j \<Longrightarrow> p \<in> set ps \<Longrightarrow> po_in_reply_to_id p = Some j \<or> po_repost_of_id p = Some j \<Longrightarrow>
    descends ps i (po_id p)"

lemma descends_trans: "descends ps j k \<Longrightarrow> descends ps i j \<Longrightarrow> descends ps i k"
  by (induction rule: descends.induct) (auto intro: descends.child)

lemma descends_mono: "descends ps i j \<Longrightarrow> set ps \<subseteq> set qs \<Longrightarrow> descends qs i j"
  by (induction rule: descends.induct) (auto intro: descends.intros)

lemma mono_replies: "mono_in replies_or_reposts"
  unfolding mono_in_def replies_or_reposts_def by (fastforce split: option.splits)

lemma mono_cascade: "mono_in (\<lambda>p ids. replies_or_reposts p ids \<or> rooted_in s p ids)"
proof -
  have "rooted_in s p ids \<Longrightarrow> set ids \<subseteq> set ids' \<Longrightarrow> rooted_in s p ids'" for p ids ids'
    by (auto simp: rooted_in_def list_ex_iff)
  with mono_replies show ?thesis unfolding mono_in_def by blast
qed

lemma replies_iff: "replies_or_reposts p ids \<longleftrightarrow>
   (\<exists>j \<in> set ids. po_in_reply_to_id p = Some j \<or> po_repost_of_id p = Some j)"
  by (auto simp: replies_or_reposts_def split: option.splits)

text \<open>The recursive query of \<open>delete_post\<close> finds exactly the descendants.\<close>

lemma context_posts_reachable:
  "i \<in> set (context_posts s ids) \<longleftrightarrow> (\<exists>r \<in> set ids. descends (posts s) r i)"
proof
  have closed: "closed_under replies_or_reposts (posts s) (context_posts s ids)"
    by (simp add: context_posts_def post_closure_closed)
  show "i \<in> set (context_posts s ids)" if reach: "\<exists>r \<in> set ids. descends (posts s) r i"
  proof -
    obtain r where "descends (posts s) r i" "r \<in> set ids" using reach by blast
    then show ?thesis
    proof (induction rule: descends.induct)
      case (self i)
      then show ?case using post_closure_start by (fastforce simp: context_posts_def)
    next
      case (child i j p)
      with closed show ?case by (auto simp: closed_under_def replies_iff)
    qed
  qed
  show "\<exists>r \<in> set ids. descends (posts s) r i" if member: "i \<in> set (context_posts s ids)"
  proof -
    define K where "K = filter (\<lambda>j. \<exists>r \<in> set ids. descends (posts s) r j) (ids @ map po_id (posts s))"
    have "closed_under replies_or_reposts (posts s) K"
      unfolding closed_under_def replies_iff K_def by (auto intro: descends.child)
    moreover have "set ids \<subseteq> set K" by (auto simp: K_def intro: descends.self)
    ultimately have "set (context_posts s ids) \<subseteq> set K"
      unfolding context_posts_def by (rule post_closure_least [OF mono_replies])
    with member show ?thesis by (auto simp: K_def)
  qed
qed

section \<open>The cascade\<close>

lemma cascade_closed:
  assumes "p \<in> set (posts s)" and "replies_or_reposts p (cascade_posts s ids) \<or> rooted_in s p (cascade_posts s ids)"
  shows "po_id p \<in> set (cascade_posts s ids)"
  using post_closure_closed [of "\<lambda>p ids. replies_or_reposts p ids \<or> rooted_in s p ids" "posts s" ids] assms
  by (auto simp: cascade_posts_def closed_under_def)

lemma cascade_start: "set ids \<subseteq> set (cascade_posts s ids)"
  by (simp add: cascade_posts_def post_closure_start)

text \<open>Threads: every post of a conversation descends from its root.\<close>

definition threads_ok :: "database \<Rightarrow> bool" where
  "threads_ok s \<longleftrightarrow> (\<forall>p \<in> set (posts s). \<forall>cid. po_conversation_id p = Some cid \<longrightarrow>
     (\<exists>c \<in> set (conversations s). cv_id c = cid \<and> descends (posts s) (cv_root_id c) (po_id p)))"

lemma cascade_eq_context:
  assumes "threads_ok s" and "unique_by cv_id (conversations s)"
  shows "set (cascade_posts s ids) = set (context_posts s ids)"
proof
  have "closed_under (\<lambda>p ids. replies_or_reposts p ids \<or> rooted_in s p ids) (posts s) (context_posts s ids)"
    unfolding closed_under_def
  proof (intro ballI impI)
    fix p assume p: "p \<in> set (posts s)"
    assume "replies_or_reposts p (context_posts s ids) \<or> rooted_in s p (context_posts s ids)"
    then show "po_id p \<in> set (context_posts s ids)"
    proof
      assume "replies_or_reposts p (context_posts s ids)"
      then show ?thesis
        using post_closure_closed [of replies_or_reposts "posts s" ids] p
        by (simp add: context_posts_def closed_under_def)
    next
      assume "rooted_in s p (context_posts s ids)"
      then obtain c where c: "c \<in> set (conversations s)" "po_conversation_id p = Some (cv_id c)"
        "cv_root_id c \<in> set (context_posts s ids)"
        by (auto simp: rooted_in_def list_ex_iff)
      then have "descends (posts s) (cv_root_id c) (po_id p)"
        using assms p unfolding threads_ok_def by (metis unique_byD)
      with c(3) show ?thesis by (auto simp: context_posts_reachable intro: descends_trans)
    qed
  qed
  then show "set (cascade_posts s ids) \<subseteq> set (context_posts s ids)"
    unfolding cascade_posts_def
    by (rule post_closure_least [OF mono_cascade]) (simp add: context_posts_def post_closure_start)
  have "closed_under replies_or_reposts (posts s) (cascade_posts s ids)"
    using cascade_closed by (auto simp: closed_under_def)
  then show "set (context_posts s ids) \<subseteq> set (cascade_posts s ids)"
    unfolding context_posts_def by (rule post_closure_least [OF mono_replies]) (rule cascade_start)
qed

end
