(* ===== verification/PostInvariants.thy ===== *)
theory PostInvariants
  imports PostClosure
begin

text \<open>
  The invariant of the tables of posts and conversations: references point to originals, threads
  hang from the root of their conversation, replies and reposts are counted in the row they refer
  to. Inserting a post and removing a set of posts closed under replies and reposts keep it.
\<close>

section \<open>The columns the invariant reads\<close>

type_synonym post_key = "uuid \<times> uuid option \<times> uuid option \<times> uuid option \<times> visibility"

definition post_key :: "post \<Rightarrow> post_key" where
  "post_key p = (po_id p, po_in_reply_to_id p, po_repost_of_id p, po_conversation_id p, po_visibility p)"

lemma post_key_eq: "post_key p = post_key q \<longleftrightarrow> po_id p = po_id q \<and> po_in_reply_to_id p = po_in_reply_to_id q
   \<and> po_repost_of_id p = po_repost_of_id q \<and> po_conversation_id p = po_conversation_id q \<and> po_visibility p = po_visibility q"
  by (simp add: post_key_def)

lemma post_key_counters [simp]:
  "post_key (add_reply_count n p) = post_key p" "post_key (add_repost_count n p) = post_key p"
  by (simp_all add: post_key_def add_reply_count_def add_repost_count_def)

lemma post_fields_counters [simp]:
  "po_id (add_reply_count n p) = po_id p" "po_id (add_repost_count n p) = po_id p"
  "po_author_id (add_reply_count n p) = po_author_id p" "po_author_id (add_repost_count n p) = po_author_id p"
  "po_in_reply_to_id (add_reply_count n p) = po_in_reply_to_id p"
  "po_in_reply_to_id (add_repost_count n p) = po_in_reply_to_id p"
  "po_repost_of_id (add_reply_count n p) = po_repost_of_id p"
  "po_repost_of_id (add_repost_count n p) = po_repost_of_id p"
  "po_repost_count (add_reply_count n p) = po_repost_count p"
  "po_reply_count (add_repost_count n p) = po_reply_count p"
  by (simp_all add: add_reply_count_def add_repost_count_def)

text \<open>Following a reply or a repost to the post it refers to.\<close>

definition reply_edges :: "post list \<Rightarrow> (uuid \<times> uuid) set" where
  "reply_edges ps = {(i, po_id p) |i p. p \<in> set ps \<and> (po_in_reply_to_id p = Some i \<or> po_repost_of_id p = Some i)}"

definition reference_ok :: "post list \<Rightarrow> post \<Rightarrow> bool" where
  "reference_ok ps p \<longleftrightarrow>
     (\<forall>i. po_in_reply_to_id p = Some i \<longrightarrow>
        (\<exists>q \<in> set ps. po_id q = i \<and> po_repost_of_id q = None \<and> po_conversation_id q = po_conversation_id p))
     \<and> (\<forall>i. po_repost_of_id p = Some i \<longrightarrow> po_in_reply_to_id p = None \<and> po_conversation_id p = None \<and>
        (\<exists>q \<in> set ps. po_id q = i \<and> po_repost_of_id q = None \<and> po_visibility q = VisPublic))"

text \<open>The two counters of a post, and the number of posts of a profile.\<close>

definition author_ref :: "post \<Rightarrow> uuid option" where
  "author_ref p = Some (po_author_id p)"

interpretation reply_counter: counter_column po_id po_reply_count add_reply_count po_in_reply_to_id
  by unfold_locales (simp_all add: add_reply_count_def)

interpretation repost_counter: counter_column po_id po_repost_count add_repost_count po_repost_of_id
  by unfold_locales (simp_all add: add_repost_count_def)

interpretation post_counter: counter_column p_id p_post_count add_post_count author_ref
  by unfold_locales (simp_all add: add_post_count_def)

definition thread_shape :: "post list \<Rightarrow> conversation list \<Rightarrow> bool" where
  "thread_shape ps cs \<longleftrightarrow>
     unique_by po_id ps \<and> unique_by cv_id cs
     \<and> (\<forall>p \<in> set ps. reference_ok ps p)
     \<and> acyclic (reply_edges ps)
     \<and> (\<forall>p \<in> set ps. \<forall>cid. po_conversation_id p = Some cid \<longrightarrow>
          (\<exists>c \<in> set cs. cv_id c = cid \<and> descends ps (cv_root_id c) (po_id p)))"

definition post_counts :: "post list \<Rightarrow> bool" where
  "post_counts ps \<longleftrightarrow> counted_by po_id po_reply_count po_in_reply_to_id ps ps
     \<and> counted_by po_id po_repost_count po_repost_of_id ps ps
     \<and> (\<forall>p \<in> set ps. po_reply_count p < 2 ^ 31 \<and> po_repost_count p < 2 ^ 31)"

definition posts_inv :: "database \<Rightarrow> bool" where
  "posts_inv s \<longleftrightarrow> thread_shape (posts s) (conversations s) \<and> post_counts (posts s)"

definition author_counts_ok :: "database \<Rightarrow> bool" where
  "author_counts_ok s \<longleftrightarrow> counted_by p_id p_post_count author_ref (actor_profiles s) (posts s)"

lemma posts_inv_threads: "posts_inv s \<Longrightarrow> threads_ok s \<and> unique_by cv_id (conversations s)"
  by (simp add: posts_inv_def thread_shape_def threads_ok_def)

lemma posts_inv_seqs [simp]: "posts_inv (s\<lparr>seqs := q\<rparr>) = posts_inv s"
  "author_counts_ok (s\<lparr>seqs := q\<rparr>) = author_counts_ok s"
  by (simp_all add: posts_inv_def author_counts_ok_def)

section \<open>Updates of other columns\<close>

lemma descends_keys:
  assumes "descends ps i j" and "post_key ` set ps \<subseteq> post_key ` set qs"
  shows "descends qs i j"
  using assms
proof (induction rule: descends.induct)
  case (child i j p)
  then obtain q where q: "q \<in> set qs" "post_key q = post_key p"
    by (metis (no_types, lifting) image_iff image_subset_iff)
  with child show ?case by (metis descends.child post_key_eq)
qed (rule descends.self)

lemma reference_ok_keys:
  assumes "reference_ok ps p" and "post_key ` set ps \<subseteq> post_key ` set qs" and "post_key p = post_key q"
  shows "reference_ok qs q"
proof -
  have sub: "\<exists>y \<in> set qs. post_key y = post_key x" if "x \<in> set ps" for x
    using assms(2) that by (metis (no_types, lifting) image_iff image_subset_iff)
  then show ?thesis
    using assms(1,3) unfolding reference_ok_def post_key_eq by (metis (no_types, lifting))
qed

lemma reply_edges_keys: "reply_edges ps = {(i, k). \<exists>r o' c v. (k, r, o', c, v) \<in> post_key ` set ps \<and> (r = Some i \<or> o' = Some i)}"
  by (fastforce simp: reply_edges_def post_key_def)

lemma thread_shape_keys:
  assumes "map post_key ps = map post_key qs" and shape: "thread_shape ps cs"
  shows "thread_shape qs cs"
proof -
  have keys: "post_key ` set ps = post_key ` set qs" using assms(1) by (metis image_set)
  have sub: "\<exists>x \<in> set ps. post_key x = post_key y" if "y \<in> set qs" for y
    using keys that by (metis (no_types, lifting) image_iff)
  have "map po_id ps = map fst (map post_key ps)" for ps :: "post list" by (simp add: post_key_def)
  then have "map po_id ps = map po_id qs" using assms(1) by metis
  then have "unique_by po_id qs" using shape by (simp add: thread_shape_def unique_by_def)
  moreover have "\<forall>q \<in> set qs. reference_ok qs q"
    using shape sub keys unfolding thread_shape_def by (metis order_refl reference_ok_keys)
  moreover have "acyclic (reply_edges qs)"
    using shape by (simp add: thread_shape_def reply_edges_keys keys)
  moreover have "\<exists>c \<in> set cs. cv_id c = cid \<and> descends qs (cv_root_id c) (po_id q)"
    if q: "q \<in> set qs" "po_conversation_id q = Some cid" for q cid
  proof -
    obtain p where "p \<in> set ps" "post_key p = post_key q" using sub [OF q(1)] by blast
    then show ?thesis
      using shape q(2) keys unfolding thread_shape_def post_key_eq
      by (metis descends_keys order_refl)
  qed
  ultimately show ?thesis using shape by (simp add: thread_shape_def)
qed

lemma map_post_key_update:
  "(\<And>p. post_key (f p) = post_key p) \<Longrightarrow> map post_key (update_where P f ps) = map post_key ps"
  by (rule map_update_where)

section \<open>Removing posts\<close>

text \<open>A set of identifiers that contains the replies and reposts of its posts.\<close>

definition thread_closed :: "post list \<Rightarrow> uuid set \<Rightarrow> bool" where
  "thread_closed ps D \<longleftrightarrow> (\<forall>p \<in> set ps. \<forall>i \<in> D.
     po_in_reply_to_id p = Some i \<or> po_repost_of_id p = Some i \<longrightarrow> po_id p \<in> D)"

lemma thread_closed_descends: "descends ps i j \<Longrightarrow> thread_closed ps D \<Longrightarrow> i \<in> D \<Longrightarrow> j \<in> D"
  by (induction rule: descends.induct) (auto simp: thread_closed_def)

lemma descends_closed: "thread_closed ps {j. \<exists>i \<in> I. descends ps i j}"
  by (auto simp: thread_closed_def intro: descends.child)

lemma descends_outside:
  assumes "descends ps i j" and "thread_closed ps D" and "j \<notin> D"
  shows "descends (delete_where (\<lambda>p. po_id p \<in> D) ps) i j"
  using assms
proof (induction rule: descends.induct)
  case (child i j p)
  then have "j \<notin> D" by (auto simp: thread_closed_def)
  with child show ?case by (intro descends.child [of _ i j]) auto
qed (rule descends.self)

lemma reference_outside:
  assumes "reference_ok ps p" and "p \<in> set ps" and "thread_closed ps D" and "po_id p \<notin> D"
  shows "reference_ok (delete_where (\<lambda>p. po_id p \<in> D) ps) p"
proof -
  have "i \<notin> D" if "po_in_reply_to_id p = Some i \<or> po_repost_of_id p = Some i" for i
    using assms(2,3,4) that by (auto simp: thread_closed_def)
  then show ?thesis using assms(1) unfolding reference_ok_def set_delete_where by fastforce
qed

lemma thread_shape_remove:
  assumes shape: "thread_shape ps cs" and D: "thread_closed ps D"
  shows "thread_shape (delete_where (\<lambda>p. po_id p \<in> D) ps) (delete_where (\<lambda>c. cv_root_id c \<in> D) cs)"
proof -
  let ?ps = "delete_where (\<lambda>p. po_id p \<in> D) ps"
  have "reply_edges ?ps \<subseteq> reply_edges ps" by (auto simp: reply_edges_def)
  then have "acyclic (reply_edges ?ps)" using shape by (auto simp: thread_shape_def intro: acyclic_subset)
  moreover have "\<forall>p \<in> set ?ps. reference_ok ?ps p"
    using shape D by (simp add: thread_shape_def reference_outside)
  moreover have "\<exists>c \<in> set (delete_where (\<lambda>c. cv_root_id c \<in> D) cs). cv_id c = cid \<and> descends ?ps (cv_root_id c) (po_id p)"
    if p: "p \<in> set ?ps" "po_conversation_id p = Some cid" for p cid
  proof -
    obtain c where c: "c \<in> set cs" "cv_id c = cid" "descends ps (cv_root_id c) (po_id p)"
      using shape p unfolding thread_shape_def set_delete_where by blast
    have "cv_root_id c \<notin> D" using thread_closed_descends [OF c(3) D] p(1) by auto
    with c D p(1) show ?thesis by (auto intro: descends_outside)
  qed
  ultimately show ?thesis using shape by (simp add: thread_shape_def)
qed

section \<open>Counters\<close>

text \<open>Moving the counters of the posts that \<open>p\<close> refers to.\<close>

definition bump_reply :: "int \<Rightarrow> post \<Rightarrow> post list \<Rightarrow> post list" where
  "bump_reply d p qs = (case po_in_reply_to_id p of
      Some i \<Rightarrow> update_where (\<lambda>q. po_id q = i) (add_reply_count d) qs | None \<Rightarrow> qs)"

definition bump_repost :: "int \<Rightarrow> post \<Rightarrow> post list \<Rightarrow> post list" where
  "bump_repost d p qs = (case po_repost_of_id p of
      Some i \<Rightarrow> update_where (\<lambda>q. po_id q = i) (add_repost_count d) qs | None \<Rightarrow> qs)"

lemma bump_keys [simp]:
  "map post_key (bump_reply d p qs) = map post_key qs" "map post_key (bump_repost d p qs) = map post_key qs"
  by (simp_all add: bump_reply_def bump_repost_def map_post_key_update split: option.splits)

lemma map_po_id_bump [simp]: "map po_id (bump_reply d p qs) = map po_id qs" "map po_id (bump_repost d p qs) = map po_id qs"
  by (simp_all add: bump_reply_def bump_repost_def update_where_def add_reply_count_def add_repost_count_def split: option.splits)

lemma bump_counts [simp]:
  "count_where (\<lambda>c. po_in_reply_to_id c = k) (bump_reply d p qs) = count_where (\<lambda>c. po_in_reply_to_id c = k) qs"
  "count_where (\<lambda>c. po_in_reply_to_id c = k) (bump_repost d p qs) = count_where (\<lambda>c. po_in_reply_to_id c = k) qs"
  "count_where (\<lambda>c. po_repost_of_id c = k) (bump_reply d p qs) = count_where (\<lambda>c. po_repost_of_id c = k) qs"
  "count_where (\<lambda>c. po_repost_of_id c = k) (bump_repost d p qs) = count_where (\<lambda>c. po_repost_of_id c = k) qs"
  "count_where (\<lambda>c. author_ref c = a) (bump_reply d p qs) = count_where (\<lambda>c. author_ref c = a) qs"
  "count_where (\<lambda>c. author_ref c = a) (bump_repost d p qs) = count_where (\<lambda>c. author_ref c = a) qs"
  by (simp_all add: bump_reply_def bump_repost_def count_where_update author_ref_def split: option.splits)

lemma counted_bump_reply:
  assumes "counted_by po_id po_reply_count po_in_reply_to_id ps cs"
    and "\<And>k. k \<in> po_id ` set ps \<Longrightarrow> count_where (\<lambda>c. po_in_reply_to_id c = Some k) cs'
      = count_where (\<lambda>c. po_in_reply_to_id c = Some k) cs + (if po_in_reply_to_id p = Some k then d else 0)"
  shows "counted_by po_id po_reply_count po_in_reply_to_id (bump_reply d p ps) cs'"
  using assms by (auto simp: bump_reply_def counted_by_def update_where_def add_reply_count_def split: option.splits)

lemma counted_bump_repost:
  assumes "counted_by po_id po_repost_count po_repost_of_id ps cs"
    and "\<And>k. k \<in> po_id ` set ps \<Longrightarrow> count_where (\<lambda>c. po_repost_of_id c = Some k) cs'
      = count_where (\<lambda>c. po_repost_of_id c = Some k) cs + (if po_repost_of_id p = Some k then d else 0)"
  shows "counted_by po_id po_repost_count po_repost_of_id (bump_repost d p ps) cs'"
  using assms by (auto simp: bump_repost_def counted_by_def update_where_def add_repost_count_def split: option.splits)

lemma counted_bump_other:
  "counted_by po_id po_repost_count po_repost_of_id (bump_reply d p ps) cs = counted_by po_id po_repost_count po_repost_of_id ps cs"
  "counted_by po_id po_reply_count po_in_reply_to_id (bump_repost d p ps) cs = counted_by po_id po_reply_count po_in_reply_to_id ps cs"
proof -
  have "map (\<lambda>q. (po_id q, po_repost_count q)) (bump_reply d p ps) = map (\<lambda>q. (po_id q, po_repost_count q)) ps"
    by (cases "po_in_reply_to_id p") (simp_all add: bump_reply_def map_update_where)
  then show "counted_by po_id po_repost_count po_repost_of_id (bump_reply d p ps) cs = counted_by po_id po_repost_count po_repost_of_id ps cs"
    by (rule repost_counter.counted_cong)
  have "map (\<lambda>q. (po_id q, po_reply_count q)) (bump_repost d p ps) = map (\<lambda>q. (po_id q, po_reply_count q)) ps"
    by (cases "po_repost_of_id p") (simp_all add: bump_repost_def map_update_where)
  then show "counted_by po_id po_reply_count po_in_reply_to_id (bump_repost d p ps) cs = counted_by po_id po_reply_count po_in_reply_to_id ps cs"
    by (rule reply_counter.counted_cong)
qed

lemma counted_bump_children:
  "counted_by po_id po_reply_count po_in_reply_to_id ps (bump_reply d p (bump_repost d p cs))
     = counted_by po_id po_reply_count po_in_reply_to_id ps cs"
  "counted_by po_id po_repost_count po_repost_of_id ps (bump_reply d p (bump_repost d p cs))
     = counted_by po_id po_repost_count po_repost_of_id ps cs"
  by (simp_all add: counted_by_def)

lemma bump_ids [simp]: "po_id ` set (bump_reply d p qs) = po_id ` set qs" "po_id ` set (bump_repost d p qs) = po_id ` set qs"
  by (simp_all add: bump_reply_def bump_repost_def image_key_update split: option.splits)

text \<open>The counters stay exact when the references move by \<open>d\<close> exactly at what \<open>p\<close> refers to.\<close>

lemma post_counts_bump:
  assumes "counted_by po_id po_reply_count po_in_reply_to_id ps cs" "counted_by po_id po_repost_count po_repost_of_id ps cs"
    and "\<And>k. k \<in> po_id ` set ps \<Longrightarrow> count_where (\<lambda>c. po_in_reply_to_id c = Some k) ps
      = count_where (\<lambda>c. po_in_reply_to_id c = Some k) cs + (if po_in_reply_to_id p = Some k then d else 0)"
    and "\<And>k. k \<in> po_id ` set ps \<Longrightarrow> count_where (\<lambda>c. po_repost_of_id c = Some k) ps
      = count_where (\<lambda>c. po_repost_of_id c = Some k) cs + (if po_repost_of_id p = Some k then d else 0)"
    and "\<forall>q \<in> set (bump_reply d p (bump_repost d p ps)). po_reply_count q < 2 ^ 31 \<and> po_repost_count q < 2 ^ 31"
  shows "post_counts (bump_reply d p (bump_repost d p ps))"
proof -
  have "counted_by po_id po_reply_count po_in_reply_to_id (bump_reply d p (bump_repost d p ps)) ps"
    by (rule counted_bump_reply [of _ cs]) (simp_all add: counted_bump_other assms(1) assms(3))
  moreover have "counted_by po_id po_repost_count po_repost_of_id (bump_reply d p (bump_repost d p ps)) ps"
    unfolding counted_bump_other by (rule counted_bump_repost [of _ cs]) (simp_all add: assms(2) assms(4))
  ultimately show ?thesis using assms(5) by (simp add: post_counts_def counted_bump_children)
qed

section \<open>Deletion\<close>

definition thread_of :: "post list \<Rightarrow> uuid \<Rightarrow> uuid set" where
  "thread_of ps pid = {j. descends ps pid j}"

lemma thread_of_closed: "thread_closed ps (thread_of ps pid)"
  by (auto simp: thread_of_def thread_closed_def intro: descends.child)

lemma thread_of_self [simp]: "pid \<in> thread_of ps pid"
  by (simp add: thread_of_def descends.self)

lemma descends_edges: "descends ps i j \<Longrightarrow> (i, j) \<in> (reply_edges ps)\<^sup>*"
  by (induction rule: descends.induct) (auto simp: reply_edges_def intro: rtrancl_into_rtrancl)

lemma parent_outside:
  assumes "acyclic (reply_edges ps)" and "p \<in> set ps" and "po_in_reply_to_id p = Some i \<or> po_repost_of_id p = Some i"
  shows "i \<notin> thread_of ps (po_id p)"
proof
  assume "i \<in> thread_of ps (po_id p)"
  then have "(po_id p, i) \<in> (reply_edges ps)\<^sup>*" by (simp add: thread_of_def descends_edges)
  moreover have "(i, po_id p) \<in> reply_edges ps" using assms(2,3) by (auto simp: reply_edges_def)
  ultimately have "(po_id p, po_id p) \<in> (reply_edges ps)\<^sup>+" by (rule rtrancl_into_trancl1)
  with assms(1) show False by (auto simp: acyclic_def)
qed

text \<open>The only removed post that refers to a post that stays is the root of the removed thread.\<close>

lemma removed_child:
  assumes shape: "thread_shape ps cs" and c: "c \<in> set ps" "po_in_reply_to_id c = Some k \<or> po_repost_of_id c = Some k"
    and removed: "po_id c \<in> thread_of ps pid" and stays: "k \<notin> thread_of ps pid"
  shows "po_id c = pid"
proof -
  have "descends ps pid (po_id c)" using removed by (simp add: thread_of_def)
  then show ?thesis
  proof cases
    case (child j q)
    have "q = c" using shape child(1,3) c(1) unfolding thread_shape_def by (metis unique_byD)
    moreover have "reference_ok ps c" using shape c(1) by (simp add: thread_shape_def)
    ultimately have "j = k" using c(2) child(4) by (auto simp: reference_ok_def)
    with child(2) stays show ?thesis by (simp add: thread_of_def)
  qed simp
qed

lemma count_removed:
  fixes ps :: "post list" and p :: post
  defines "D \<equiv> thread_of ps (po_id p)"
  assumes shape: "thread_shape ps cs" and p: "p \<in> set ps" and stays: "k \<notin> D"
    and refs: "\<And>c. refs c = Some k \<Longrightarrow> po_in_reply_to_id c = Some k \<or> po_repost_of_id c = Some k"
  shows "count_where (\<lambda>c. refs c = Some k) (delete_where (\<lambda>q. po_id q \<in> D) ps)
    = count_where (\<lambda>c. refs c = Some k) ps + (if refs p = Some k then - 1 else 0)"
proof -
  have uniq: "unique_by po_id ps" using shape by (simp add: thread_shape_def)
  have "c = p" if "c \<in> set ps" "refs c = Some k" "po_id c \<in> D" for c
    using removed_child [OF shape that(1) refs [OF that(2)]] that(3) stays unique_byD [OF uniq that(1) p]
    unfolding D_def by blast
  then have "count_where (\<lambda>c. refs c = Some k \<and> po_id c \<in> D) ps = count_where (\<lambda>c. c = p \<and> refs p = Some k) ps"
    by (intro count_where_cong) (auto simp: D_def)
  also have "\<dots> = (if refs p = Some k then 1 else 0)"
    using count_where_unique_le1 [OF uniq, of "\<lambda>c. c = p \<and> refs p = Some k"] p by auto
  finally show ?thesis
    using count_where_split [of "\<lambda>c. refs c = Some k" ps "\<lambda>c. po_id c \<in> D"] by (simp add: count_where_delete)
qed

lemma post_counts_remove:
  fixes ps :: "post list" and p :: post
  defines "qs \<equiv> delete_where (\<lambda>q. po_id q \<in> thread_of ps (po_id p)) ps"
  assumes shape: "thread_shape ps cs" and counts: "post_counts ps" and p: "p \<in> set ps"
  shows "post_counts (bump_reply (- 1) p (bump_repost (- 1) p qs))"
proof (rule post_counts_bump [of _ ps])
  note counts = counts [unfolded post_counts_def]
  show "counted_by po_id po_reply_count po_in_reply_to_id qs ps" "counted_by po_id po_repost_count po_repost_of_id qs ps"
    using counts by (simp_all add: counted_by_def qs_def)
  show "\<forall>q \<in> set (bump_reply (- 1) p (bump_repost (- 1) p qs)). po_reply_count q < 2 ^ 31 \<and> po_repost_count q < 2 ^ 31"
    using counts by (fastforce simp: qs_def bump_reply_def bump_repost_def set_update_where add_reply_count_def
        add_repost_count_def split: option.splits)
  fix k assume "k \<in> po_id ` set qs"
  then have k: "k \<notin> thread_of ps (po_id p)" by (auto simp: qs_def)
  show "count_where (\<lambda>c. po_in_reply_to_id c = Some k) qs
      = count_where (\<lambda>c. po_in_reply_to_id c = Some k) ps + (if po_in_reply_to_id p = Some k then - 1 else 0)"
    unfolding qs_def by (rule count_removed [OF shape p k]) simp
  show "count_where (\<lambda>c. po_repost_of_id c = Some k) qs
      = count_where (\<lambda>c. po_repost_of_id c = Some k) ps + (if po_repost_of_id p = Some k then - 1 else 0)"
    unfolding qs_def by (rule count_removed [OF shape p k]) simp
qed

section \<open>Insertion\<close>

lemma thread_shape_insert:
  assumes shape: "thread_shape ps cs" and fresh: "po_id new \<notin> po_id ` set ps"
    and uniq: "unique_by cv_id (cs @ cs')" and ref: "reference_ok ps new"
    and conv: "\<And>cid. po_conversation_id new = Some cid \<Longrightarrow> \<exists>c \<in> set (cs @ cs'). cv_id c = cid \<and>
      (cv_root_id c = po_id new \<or> (\<exists>i. po_in_reply_to_id new = Some i \<and> descends ps (cv_root_id c) i))"
  shows "thread_shape (ps @ [new]) (cs @ cs')"
proof -
  let ?ps = "ps @ [new]"
  have grow: "descends ?ps i j" if "descends ps i j" for i j using that by (rule descends_mono) auto
  have "\<forall>p \<in> set ?ps. reference_ok ?ps p"
    using shape ref by (fastforce simp: thread_shape_def reference_ok_def)
  moreover have "acyclic (reply_edges ?ps)"
  proof -
    let ?in = "{(i, po_id new) |i. po_in_reply_to_id new = Some i \<or> po_repost_of_id new = Some i}"
    have sources: "i \<in> po_id ` set ps" if "(i, j) \<in> reply_edges ?ps" for i j
      using that shape ref by (fastforce simp: reply_edges_def thread_shape_def reference_ok_def)
    have stop: "po_id new = j" if "(po_id new, j) \<in> (reply_edges ?ps)\<^sup>*" for j
      using that fresh by (metis converse_rtranclE sources)
    have split: "reply_edges ?ps = reply_edges ps \<union> ?in" by (auto simp: reply_edges_def)
    have no_loop: False if "(x, x) \<in> (reply_edges ?ps)\<^sup>+" for x
    proof -
      have path: "(x, y) \<in> (reply_edges ps)\<^sup>+ \<or> y = po_id new" if "(x, y) \<in> (reply_edges ?ps)\<^sup>+" for y
        using that
      proof (induction rule: trancl_induct)
        case (base y)
        then show ?case by (auto simp: split)
      next
        case (step y z)
        have "y \<noteq> po_id new" using sources [OF step(2)] fresh by metis
        with step show ?case by (auto simp: split intro: trancl_into_trancl)
      qed
      have "x \<in> po_id ` set ps" using that sources by (meson tranclD)
      then have "x \<noteq> po_id new" using fresh by metis
      then show False using path [OF that] shape by (auto simp: thread_shape_def acyclic_def)
    qed
    then show ?thesis by (auto simp: acyclic_def)
  qed
  moreover have "\<exists>c \<in> set (cs @ cs'). cv_id c = cid \<and> descends ?ps (cv_root_id c) (po_id p)"
    if p: "p \<in> set ?ps" "po_conversation_id p = Some cid" for p cid
  proof (cases "p = new")
    case True
    then show ?thesis using conv [of cid] p grow by (metis descends.child descends.self)
  next
    case False
    then have "p \<in> set ps" using p(1) by simp
    then show ?thesis using shape p(2) grow unfolding thread_shape_def by (metis Un_iff set_append)
  qed
  ultimately show ?thesis using shape fresh uniq by (simp add: thread_shape_def unique_by_append_single)
qed

lemma post_counts_insert:
  assumes shape: "thread_shape ps cs" and counts: "post_counts ps" and fresh: "po_id new \<notin> po_id ` set ps"
    and zero: "po_reply_count new = 0" "po_repost_count new = 0"
    and ref: "reference_ok ps new"
    and range: "\<forall>q \<in> set (bump_reply 1 new (bump_repost 1 new (ps @ [new]))). po_reply_count q < 2 ^ 31 \<and> po_repost_count q < 2 ^ 31"
  shows "post_counts (bump_reply 1 new (bump_repost 1 new (ps @ [new])))"
proof (rule post_counts_bump [of _ ps])
  have "po_in_reply_to_id p \<noteq> Some (po_id new) \<and> po_repost_of_id p \<noteq> Some (po_id new)" if "p \<in> set ps" for p
  proof -
    have "reference_ok ps p" using shape that by (simp add: thread_shape_def)
    then show ?thesis using fresh unfolding reference_ok_def by (metis image_eqI)
  qed
  then have none: "count_where (\<lambda>c. po_in_reply_to_id c = Some (po_id new)) ps = 0"
    "count_where (\<lambda>c. po_repost_of_id c = Some (po_id new)) ps = 0"
    by (simp_all add: count_where_zero)
  show "counted_by po_id po_reply_count po_in_reply_to_id (ps @ [new]) ps"
    "counted_by po_id po_repost_count po_repost_of_id (ps @ [new]) ps"
    using counts none zero by (simp_all add: post_counts_def counted_by_def)
  show "\<forall>q \<in> set (bump_reply 1 new (bump_repost 1 new (ps @ [new]))). po_reply_count q < 2 ^ 31 \<and> po_repost_count q < 2 ^ 31"
    by (rule range)
qed simp_all

end
