(* ===== verification/PostCreation.thy ===== *)
theory PostCreation
  imports PostInvariants
begin

text \<open>
  What \<open>create_post\<close> leaves in the tables of posts, conversations and profiles, and that it keeps
  the invariant of \<open>PostInvariants\<close> and the number of posts of every profile.
\<close>

section \<open>Programs that leave posts, conversations and profiles alone\<close>

definition post_frame :: "database \<Rightarrow> post list \<times> conversation list \<times> actor_profile list" where
  "post_frame s = (posts s, conversations s, actor_profiles s)"

definition keeps_frame :: "('e, 'a) outcome db_op \<Rightarrow> bool" where
  "keeps_frame m \<longleftrightarrow> (\<forall>v. preserves (\<lambda>s. post_frame s = v) m)"

lemma keeps_frameI: "(\<And>v. preserves (\<lambda>s. post_frame s = v) m) \<Longrightarrow> keeps_frame m"
  by (simp add: keeps_frame_def)

lemma keeps_frameD: "keeps_frame m \<Longrightarrow> m s = (r, t) \<Longrightarrow> post_frame t = post_frame s"
  using preservesD [of "\<lambda>u. post_frame u = post_frame s" m s r t] by (simp only: keeps_frame_def)

lemma keeps_frame_preserves: "keeps_frame m \<Longrightarrow> preserves (\<lambda>s. post_frame s = v) m"
  unfolding keeps_frame_def by (rule spec)

lemma keeps_frame_stmt: "(\<And>s. post_frame (snd (f s)) = post_frame s) \<Longrightarrow> keeps_frame f"
  by (simp add: keeps_frame_def preserves_def)

lemma keeps_frame_attachments: "keeps_frame (create_post_attachments pid author ids)"
  unfolding create_post_attachments_def Let_def
  by (rule keeps_frameI, intro preserves_rules) (simp add: post_frame_def)

lemma insert_mentions_frame: "post_frame (snd (insert_mentions pid ids s)) = post_frame s"
proof (induction ids arbitrary: s)
  case (Cons i ids)
  show ?case by (simp add: Let_def Cons.IH) (simp add: post_frame_def)
qed simp

lemma keeps_frame_mentions: "keeps_frame (create_post_mentions X pid ids)"
  unfolding create_post_mentions_def profiles_try_from_def
  by (rule keeps_frameI, intro preserves_rules) (simp add: preserves_def insert_mentions_frame)

lemma insert_tags_frame: "post_frame (insert_tags names s) = post_frame s"
proof (induction names arbitrary: s)
  case (Cons n names)
  show ?case by (simp add: Let_def Cons.IH) (simp add: post_frame_def)
qed simp

lemma keeps_frame_tags: "keeps_frame (create_post_tags pid names)"
  unfolding create_post_tags_def
  by (rule keeps_frameI, intro preserves_rules) (simp add: insert_tags_frame, simp add: preserves_def post_frame_def)

lemma keeps_frame_links: "keeps_frame (create_post_links pid ids)"
  unfolding create_post_links_def
  by (rule keeps_frameI, intro preserves_rules) (simp add: preserves_def post_frame_def)

lemma keeps_frame_emojis: "keeps_frame (create_post_emojis pid ids)"
  unfolding create_post_emojis_def
  by (rule keeps_frameI, intro preserves_rules) (simp add: preserves_def post_frame_def)

lemma keeps_frame_poll: "keeps_frame (create_optional_poll pid d)"
proof (cases d)
  case (Some q)
  show ?thesis unfolding create_optional_poll_def create_poll_def Some option.case
    by (rule keeps_frameI, intro preserves_rules) (simp add: preserves_def post_frame_def)
qed (simp add: create_optional_poll_def keeps_frame_def)

lemma notification_frame: "post_frame (snd (create_notification a b x y z ev s)) = post_frame s"
  by (simp add: create_notification_def Let_def post_frame_def split: outcome.splits)

lemma keeps_frame_muted: "keeps_frame m \<Longrightarrow> keeps_frame (unless_muted a b m)"
  unfolding unless_muted_def
  by (rule keeps_frameI, intro preserves_rules) (simp_all add: reads_only_preserves keeps_frame_preserves)

lemma keeps_frame_notifications:
  "keeps_frame (create_reply_notification a b i)" "keeps_frame (create_repost_notification a b i)"
  "keeps_frame (create_mention_notification a b i)"
  by (simp_all add: create_reply_notification_def create_repost_notification_def create_mention_notification_def
      keeps_frame_muted keeps_frame_stmt notification_frame)

lemma keeps_frame_mentioned: "keeps_frame (notify_mentioned p mns notified)"
  unfolding notify_mentioned_def
  by (rule keeps_frameI, intro preserves_rules) (simp add: keeps_frame_preserves keeps_frame_notifications)

section \<open>Conversations and counters\<close>

lemma find_or_create_conversation_Ok:
  assumes "find_or_create_conversation cid pid d s = (Ok conv, t)"
  shows "\<exists>cs. t = s\<lparr>conversations := conversations s @ cs\<rparr> \<and> (case pc_context d of
      CtxTop g oid au \<Rightarrow> \<exists>c. conv = Some c \<and> cs = [c] \<and> cv_root_id c = pid \<and> cv_id c \<notin> cv_id ` set (conversations s)
    | CtxReply i j \<Rightarrow> cs = [] \<and> (\<exists>c \<in> set (conversations s). conv = Some c \<and> cv_id c = i)
    | CtxRepost i \<Rightarrow> cs = [] \<and> conv = None)"
proof (cases "pc_context d")
  case (CtxTop g oid au)
  with assms show ?thesis
    by (auto simp: find_or_create_conversation_def create_conversation_def Let_def ok_runs list_ex_iff split: if_splits option.splits)
next
  case (CtxReply i j)
  with assms have "t = s" "\<exists>c. conv = Some c \<and> filter (\<lambda>c. cv_id c = i) (conversations s) = [c]"
    by (auto simp: find_or_create_conversation_def get_conversation_def ok_runs)
  moreover from this(2) have "\<exists>c \<in> set (conversations s). conv = Some c \<and> cv_id c = i"
    by (metis (mono_tags, lifting) list.set_intros(1) mem_Collect_eq set_filter)
  ultimately show ?thesis using CtxReply by (intro exI [of _ "[]"]) simp
next
  case (CtxRepost i)
  with assms show ?thesis by (auto simp: find_or_create_conversation_def ok_runs)
qed

lemma update_post_counter_Ok:
  "update_post_counter cnt add pid d s = (Ok u, t) \<longleftrightarrow>
     list_ex (is_original pid) (posts s)
     \<and> (\<forall>p \<in> set (posts s). is_original pid p \<longrightarrow> 0 \<le> cnt p + d \<and> cnt p + d < 2 ^ 31)
     \<and> t = s\<lparr>posts := update_where (is_original pid) (add d) (posts s)\<rparr>"
  by (auto simp: update_post_counter_def ok_runs list_ex_iff filter_empty_conv split: if_splits)

lemma reads_only_post_author [simp]: "reads_only (get_post_author X pid)"
  unfolding get_post_author_def profile_try_from_def
  by (intro reads_onlyI preserves_rules)

lemma notify_parent_frame:
  assumes "notify_parent X p s = (Ok l, t)"
  shows "case po_in_reply_to_id p of
      None \<Rightarrow> post_frame t = post_frame s
    | Some i \<Rightarrow> \<exists>u. update_reply_count i 1 s = (Ok (), u) \<and> post_frame t = post_frame u"
proof (cases "po_in_reply_to_id p")
  case (Some i)
  have "keeps_frame (bnd (get_post_author X i) (\<lambda>author.
         if has_user_account author \<and> p_id author \<noteq> po_author_id p
         then seq (create_reply_notification (po_author_id p) (p_id author) (po_id p)) (ret [p_id author])
         else ret []))"
    by (rule keeps_frameI, intro preserves_rules)
      (simp_all add: reads_only_preserves keeps_frame_preserves keeps_frame_notifications)
  then show ?thesis using assms Some by (auto simp: notify_parent_def seq_Ok dest: keeps_frameD)
qed (use assms in \<open>simp add: notify_parent_def ret_Ok\<close>)

lemma notify_reposted_frame:
  assumes "notify_reposted X p l s = (Ok l', t)"
  shows "case po_repost_of_id p of
      None \<Rightarrow> post_frame t = post_frame s
    | Some i \<Rightarrow> \<exists>u. update_repost_count i 1 s = (Ok (), u) \<and> post_frame t = post_frame u"
proof (cases "po_repost_of_id p")
  case (Some i)
  have "keeps_frame (bnd (get_post_author X i) (\<lambda>author.
         if has_user_account author \<and> p_id author \<noteq> po_author_id p \<and> p_id author \<notin> set l
         then seq (create_repost_notification (po_author_id p) (p_id author) i) (ret (l @ [p_id author]))
         else ret l))"
    by (rule keeps_frameI, intro preserves_rules)
      (simp_all add: reads_only_preserves keeps_frame_preserves keeps_frame_notifications)
  then show ?thesis using assms Some by (auto simp: notify_reposted_def seq_Ok dest: keeps_frameD)
qed (use assms in \<open>simp add: notify_reposted_def ret_Ok\<close>)

lemma insert_post_Some:
  assumes "insert_post new s = (Ok (Some p), t)"
  shows "p = new" "t = s\<lparr>posts := posts s @ [new]\<rparr>" "po_id new \<notin> po_id ` set (posts s)"
    "\<not> reply_or_repost_forbidden s new" "\<not> references_missing s new"
  using assms by (auto simp: insert_post_def list_ex_iff post_conflict_def split: if_splits)

section \<open>The tables after a new post\<close>

definition new_post_id :: "uuid \<Rightarrow> post_create_data \<Rightarrow> uuid" where
  "new_post_id ulid d = (case pc_id d of Some i \<Rightarrow> i | None \<Rightarrow> ulid)"

text \<open>The counters of the parent and of the original, as the two statements change them.\<close>

definition reply_counted :: "post \<Rightarrow> post list \<Rightarrow> post list \<Rightarrow> bool" where
  "reply_counted p ps qs \<longleftrightarrow> (case po_in_reply_to_id p of None \<Rightarrow> qs = ps
    | Some i \<Rightarrow> list_ex (is_original i) ps \<and> (\<forall>q \<in> set ps. is_original i q \<longrightarrow> po_reply_count q + 1 < 2 ^ 31)
        \<and> qs = update_where (is_original i) (add_reply_count 1) ps)"

definition repost_counted :: "post \<Rightarrow> post list \<Rightarrow> post list \<Rightarrow> bool" where
  "repost_counted p ps qs \<longleftrightarrow> (case po_repost_of_id p of None \<Rightarrow> qs = ps
    | Some i \<Rightarrow> list_ex (is_original i) ps \<and> (\<forall>q \<in> set ps. is_original i q \<longrightarrow> po_repost_count q + 1 < 2 ^ 31)
        \<and> qs = update_where (is_original i) (add_repost_count 1) ps)"

lemma create_post_effect:
  assumes "create_post X ulid cid author d s = (Ok dp, t)"
  obtains new conv s1 qs where
    "find_or_create_conversation cid (new_post_id ulid d) d s = (Ok conv, s1)"
    "new = post_row (new_post_id ulid d) author conv d" "pd_post dp = new"
    "insert_post new s1 = (Ok (Some new), s1\<lparr>posts := posts s1 @ [new]\<rparr>)"
    "reply_counted new (posts s1 @ [new]) qs" "repost_counted new qs (posts t)"
    "conversations t = conversations s1"
    "actor_profiles t = update_where (\<lambda>a. p_id a = author) (add_post_count 1) (actor_profiles s1)"
proof -
  let ?pid = "new_post_id ulid d"
  from assms obtain conv s1 grp s2 new s3 atts s4 mns s5 tgs s6 lns s7 ems s8 pl s9 ap s10 l s11 l' s12 l'' where
    run: "find_or_create_conversation cid ?pid d s = (Ok conv, s1)"
      "get_conversation_group X conv s1 = (Ok grp, s2)"
      "insert_post (post_row ?pid author conv d) s2 = (Ok (Some new), s3)"
      "create_post_attachments (po_id new) (po_author_id new) (pc_attachments d) s3 = (Ok atts, s4)"
      "create_post_mentions X (po_id new) (pc_mentions d) s4 = (Ok mns, s5)"
      "create_post_tags (po_id new) (pc_tags d) s5 = (Ok tgs, s6)"
      "create_post_links (po_id new) (pc_links d) s6 = (Ok lns, s7)"
      "create_post_emojis (po_id new) (pc_emojis d) s7 = (Ok ems, s8)"
      "create_optional_poll (po_id new) (pc_poll d) s8 = (Ok pl, s9)"
      "update_post_count X (po_author_id new) 1 s9 = (Ok ap, s10)"
      "notify_parent X new s10 = (Ok l, s11)" "notify_reposted X new l s11 = (Ok l', s12)"
      "notify_mentioned new mns l' s12 = (Ok l'', t)"
      "post_detailed_new X new ap conv grp pl atts mns tgs lns ems [] = Ok dp"
    unfolding create_post_def Let_def new_post_id_def [symmetric] seq_Ok transaction_Ok bnd_Ok map_err_p_Ok lift_Ok
      ok_or_Ok type_check_Ok by (elim exE conjE, hypsubst) (rule that)
  have "reads_only (get_conversation_group X conv)"
    unfolding get_conversation_group_def get_profile_by_id_def profile_try_from_def
    by (cases "Option.bind conv cv_group_id"; simp; intro reads_onlyI preserves_rules; simp)
  then have "s2 = s1" using run(2) by (rule reads_onlyD)
  note ins = insert_post_Some [OF run(3)]
  have frame3: "post_frame s9 = post_frame s3"
    using keeps_frameD [OF keeps_frame_attachments run(4)] keeps_frameD [OF keeps_frame_mentions run(5)]
      keeps_frameD [OF keeps_frame_tags run(6)] keeps_frameD [OF keeps_frame_links run(7)]
      keeps_frameD [OF keeps_frame_emojis run(8)] keeps_frameD [OF keeps_frame_poll run(9)] by simp
  have new: "new = post_row ?pid author conv d" using ins(1) .
  then have author: "po_author_id new = author" by (simp add: post_row_def)
  have count: "s10 = s9\<lparr>actor_profiles := update_where (\<lambda>a. p_id a = author) (add_post_count 1) (actor_profiles s9)\<rparr>"
    using run(10) by (auto simp: update_post_count_def update_profile_counter_Ok author)
  have last: "post_frame t = post_frame s12" by (rule keeps_frameD [OF keeps_frame_mentioned run(13)])
  have reply: "reply_counted new (posts s10) (posts s11)" "conversations s11 = conversations s10"
    "actor_profiles s11 = actor_profiles s10"
    using notify_parent_frame [OF run(11)]
    by (auto simp: reply_counted_def post_frame_def update_reply_count_def update_post_counter_Ok split: option.splits)
  have repost: "repost_counted new (posts s11) (posts s12)" "conversations s12 = conversations s11"
    "actor_profiles s12 = actor_profiles s11"
    using notify_reposted_frame [OF run(12)]
    by (auto simp: repost_counted_def post_frame_def update_repost_count_def update_post_counter_Ok split: option.splits)
  have "posts s10 = posts s1 @ [new]" using count frame3 ins(1,2) \<open>s2 = s1\<close> by (simp add: post_frame_def)
  moreover have "pd_post dp = new" using post_detailed_new_Ok [OF run(14)] by simp
  ultimately show ?thesis
    using that [of conv s1 new "posts s11"] run(1,3) ins(1,2) new reply repost count frame3 last \<open>s2 = s1\<close>
    by (simp add: post_frame_def)
qed

section \<open>The invariant\<close>

text \<open>What the callers of \<open>create_post\<close> ensure: a reply names the conversation of its parent.\<close>

definition reply_matches :: "database \<Rightarrow> post_create_data \<Rightarrow> bool" where
  "reply_matches s d \<longleftrightarrow> (case pc_context d of
      CtxReply c i \<Rightarrow> list_ex (\<lambda>q. po_id q = i \<and> po_conversation_id q = Some c) (posts s)
    | _ \<Rightarrow> True)"

lemma new_post_reference:
  assumes uniq: "unique_by po_id (posts s)" and d: "reply_matches s d"
    and conv: "find_or_create_conversation cid pid d s = (Ok conv, s1)"
    and ins: "insert_post (post_row pid author conv d) s1 = (Ok (Some p), t)"
    and self: "po_repost_of_id (post_row pid author conv d) \<noteq> Some pid"
  shows "reference_ok (posts s) (post_row pid author conv d)"
proof -
  let ?new = "post_row pid author conv d"
  have s1: "posts s1 = posts s" using find_or_create_conversation_Ok [OF conv] by auto
  note ins = insert_post_Some [OF ins, unfolded s1]
  show ?thesis
  proof (cases "pc_context d")
    case (CtxReply c i)
    then obtain q where q: "q \<in> set (posts s)" "po_id q = i" "po_conversation_id q = Some c"
      using d by (auto simp: reply_matches_def list_ex_iff)
    have "po_repost_of_id q = None"
      using ins(4) q CtxReply by (auto simp: reply_or_repost_forbidden_def list_ex_iff s1 post_row_def)
    moreover have "map_option cv_id conv = Some c"
      using find_or_create_conversation_Ok [OF conv] CtxReply by auto
    ultimately show ?thesis using q CtxReply by (auto simp: reference_ok_def post_row_def)
  next
    case (CtxRepost i)
    then have "i \<noteq> pid" using self by (simp add: post_row_def)
    then obtain q where q: "q \<in> set (posts s)" "po_id q = i"
      using ins(5) CtxRepost by (auto simp: references_missing_def post_exists_def list_ex_iff s1 post_row_def)
    moreover have "po_repost_of_id q = None" "po_visibility q = VisPublic"
      using ins(4) q CtxRepost by (auto simp: reply_or_repost_forbidden_def list_ex_iff s1 post_row_def)
    moreover have "conv = None" using find_or_create_conversation_Ok [OF conv] CtxRepost by auto
    ultimately show ?thesis using CtxRepost by (auto simp: reference_ok_def post_row_def)
  qed (simp add: reference_ok_def post_row_def)
qed

lemma new_post_shape:
  assumes shape: "thread_shape (posts s) (conversations s)" and d: "reply_matches s d"
    and conv: "find_or_create_conversation cid pid d s = (Ok conv, s1)"
    and ref: "reference_ok (posts s) (post_row pid author conv d)"
    and fresh: "po_id (post_row pid author conv d) \<notin> po_id ` set (posts s)"
  shows "thread_shape (posts s @ [post_row pid author conv d]) (conversations s1)"
proof -
  let ?new = "post_row pid author conv d"
  obtain cs where s1: "s1 = s\<lparr>conversations := conversations s @ cs\<rparr>" and
    found: "case pc_context d of
      CtxTop g oid au \<Rightarrow> \<exists>c. conv = Some c \<and> cs = [c] \<and> cv_root_id c = pid \<and> cv_id c \<notin> cv_id ` set (conversations s)
    | CtxReply i j \<Rightarrow> cs = [] \<and> (\<exists>c \<in> set (conversations s). conv = Some c \<and> cv_id c = i)
    | CtxRepost i \<Rightarrow> cs = [] \<and> conv = None"
    using find_or_create_conversation_Ok [OF conv] by blast
  have uniq: "unique_by cv_id (conversations s @ cs)"
    using shape found by (auto simp: thread_shape_def unique_by_append_single split: post_context.splits)
  have root: "\<exists>c \<in> set (conversations s @ cs). cv_id c = k \<and>
      (cv_root_id c = po_id ?new \<or> (\<exists>i. po_in_reply_to_id ?new = Some i \<and> descends (posts s) (cv_root_id c) i))"
    if k: "po_conversation_id ?new = Some k" for k
  proof (cases "pc_context d")
    case (CtxReply c i)
    then obtain q where q: "q \<in> set (posts s)" "po_id q = i" "po_conversation_id q = Some c"
      using d by (auto simp: reply_matches_def list_ex_iff)
    have "k = c" using found k CtxReply by (auto simp: post_row_def)
    then obtain c' where "c' \<in> set (conversations s)" "cv_id c' = k" "descends (posts s) (cv_root_id c') i"
      using shape q unfolding thread_shape_def by metis
    then show ?thesis using CtxReply by (auto simp: post_row_def)
  qed (use found k in \<open>auto simp: post_row_def\<close>)
  show ?thesis unfolding s1 using thread_shape_insert [OF shape fresh uniq ref root] by simp
qed

lemma bump_new:
  assumes uniq: "unique_by po_id ps" and excl: "po_in_reply_to_id p = None \<or> po_repost_of_id p = None"
    and reply: "reply_counted p ps qs" and repost: "repost_counted p qs rs"
  shows "rs = bump_reply 1 p (bump_repost 1 p ps)"
proof (cases "po_in_reply_to_id p")
  case None
  then show ?thesis
    using reply repost update_original [OF uniq]
    by (auto simp: reply_counted_def repost_counted_def bump_reply_def bump_repost_def split: option.splits)
next
  case (Some i)
  then show ?thesis
    using excl reply repost update_original [OF uniq]
    by (auto simp: reply_counted_def repost_counted_def bump_reply_def bump_repost_def)
qed

lemma counted_range:
  assumes "\<forall>q \<in> set ps. po_reply_count q < 2 ^ 31 \<and> po_repost_count q < 2 ^ 31"
    and "reply_counted p ps qs" and "repost_counted p qs rs"
  shows "\<forall>q \<in> set rs. po_reply_count q < 2 ^ 31 \<and> po_repost_count q < 2 ^ 31"
proof -
  have "\<forall>q \<in> set qs. po_reply_count q < 2 ^ 31 \<and> po_repost_count q < 2 ^ 31"
    using assms(1,2) by (auto simp: reply_counted_def set_update_where add_reply_count_def split: option.splits)
  then show ?thesis
    using assms(3) by (auto simp: repost_counted_def set_update_where add_repost_count_def split: option.splits)
qed

text \<open>A post cannot repost itself: its own row is not an original.\<close>

lemma repost_counted_self:
  assumes "reply_counted p ps qs" and "repost_counted p qs rs" and "unique_by po_id ps" and "p \<in> set ps"
  shows "po_repost_of_id p \<noteq> Some (po_id p)"
proof
  assume self: "po_repost_of_id p = Some (po_id p)"
  have "list_ex (is_original (po_id p)) qs" using assms(2) self by (simp add: repost_counted_def)
  then have "list_ex (is_original (po_id p)) ps"
    using assms(1) by (auto simp: reply_counted_def list_ex_iff set_update_where is_original_def split: option.splits if_splits)
  then obtain q where "q \<in> set ps" "po_id q = po_id p" "po_repost_of_id q = None"
    by (auto simp: list_ex_iff is_original_def)
  with self assms(3,4) show False by (metis option.distinct(1) unique_byD)
qed

lemma create_post_inv:
  assumes inv: "posts_inv s" and d: "reply_matches s d" and run: "create_post X ulid cid author d s = (Ok dp, t)"
  shows "posts_inv t"
proof -
  from run obtain new conv s1 qs where
    conv: "find_or_create_conversation cid (new_post_id ulid d) d s = (Ok conv, s1)" and
    new: "new = post_row (new_post_id ulid d) author conv d" and
    ins: "insert_post new s1 = (Ok (Some new), s1\<lparr>posts := posts s1 @ [new]\<rparr>)" and
    counted: "reply_counted new (posts s1 @ [new]) qs" "repost_counted new qs (posts t)" and
    convs: "conversations t = conversations s1"
    by (rule create_post_effect)
  have s1: "posts s1 = posts s" using find_or_create_conversation_Ok [OF conv] by auto
  note ins' = insert_post_Some [OF ins, unfolded s1]
  have shape: "thread_shape (posts s) (conversations s)" and counts: "post_counts (posts s)"
    using inv by (simp_all add: posts_inv_def)
  have uniq: "unique_by po_id (posts s @ [new])"
    using shape ins'(3) by (simp add: thread_shape_def unique_by_append_single)
  note counted = counted [unfolded s1]
  have self: "po_repost_of_id new \<noteq> Some (new_post_id ulid d)"
    using repost_counted_self [OF counted uniq] by (simp add: new post_row_def)
  have ref: "reference_ok (posts s) new"
    using new_post_reference [OF _ d conv, of author] ins self uniq unfolding new
    by (simp add: unique_by_append_single)
  have "po_in_reply_to_id new = None \<or> po_repost_of_id new = None"
    by (cases "pc_context d") (simp_all add: new post_row_def)
  then have posts_t: "posts t = bump_reply 1 new (bump_repost 1 new (posts s @ [new]))"
    by (rule bump_new [OF uniq _ counted])
  have zero: "po_reply_count new = 0" "po_repost_count new = 0" by (simp_all add: new post_row_def)
  have "\<forall>q \<in> set (posts t). po_reply_count q < 2 ^ 31 \<and> po_repost_count q < 2 ^ 31"
    by (rule counted_range [OF _ counted]) (use counts zero in \<open>auto simp: post_counts_def\<close>)
  then have "post_counts (posts t)"
    unfolding posts_t by (rule post_counts_insert [OF shape counts ins'(3) zero ref])
  moreover have "thread_shape (posts s @ [new]) (conversations s1)"
    using new_post_shape [OF shape d conv, of author] ref ins'(3) by (simp add: new)
  then have "thread_shape (posts t) (conversations t)"
    unfolding convs by (rule thread_shape_keys [rotated]) (simp add: posts_t)
  ultimately show ?thesis by (simp add: posts_inv_def)
qed

lemma create_post_author_counts:
  assumes ok: "author_counts_ok s" and run: "create_post X ulid cid author d s = (Ok dp, t)"
  shows "author_counts_ok t"
proof -
  from run obtain new conv s1 qs where
    conv: "find_or_create_conversation cid (new_post_id ulid d) d s = (Ok conv, s1)" and
    new: "new = post_row (new_post_id ulid d) author conv d" and
    counted: "reply_counted new (posts s1 @ [new]) qs" "repost_counted new qs (posts t)" and
    profiles: "actor_profiles t = update_where (\<lambda>a. p_id a = author) (add_post_count 1) (actor_profiles s1)"
    by (rule create_post_effect)
  have s1: "posts s1 = posts s" "actor_profiles s1 = actor_profiles s"
    using find_or_create_conversation_Ok [OF conv] by auto
  have "count_where (\<lambda>c. author_ref c = a) qs = count_where (\<lambda>c. author_ref c = a) (posts s @ [new])" for a
    using counted(1) by (auto simp: reply_counted_def author_ref_def s1 count_where_update split: option.splits)
  moreover have "count_where (\<lambda>c. author_ref c = a) (posts t) = count_where (\<lambda>c. author_ref c = a) qs" for a
    using counted(2) by (auto simp: repost_counted_def author_ref_def count_where_update split: option.splits)
  ultimately have same: "count_where (\<lambda>c. author_ref c = a) (posts t) = count_where (\<lambda>c. author_ref c = a) (posts s @ [new])" for a
    by simp
  have "counted_by p_id p_post_count author_ref
      (update_where (\<lambda>a. p_id a = author) (add_post_count 1) (actor_profiles s)) (posts s @ [new])"
    by (rule post_counter.counted_insert) (use ok in \<open>simp_all add: author_counts_ok_def author_ref_def new post_row_def\<close>)
  then show ?thesis by (simp add: author_counts_ok_def counted_by_def profiles s1 same)
qed

end
