(* ===== verification/PostDeletion.thy ===== *)
theory PostDeletion
  imports PostCreation
begin

text \<open>
  \<open>delete_post\<close> and \<open>delete_repost\<close> on tables that satisfy the invariant: which rows go, that
  nothing fails, that the counters stay exact. The number of posts of a profile is exact after
  \<open>delete_post\<close>; \<open>delete_repost\<close> does not lower it.
\<close>

section \<open>Removing a thread\<close>

text \<open>Every profile counts at least the posts it has, which keeps the \<open>CHECK\<close> of the column.\<close>

definition author_counts_cover :: "database \<Rightarrow> bool" where
  "author_counts_cover s \<longleftrightarrow>
     (\<forall>a \<in> set (actor_profiles s). count_where (\<lambda>p. author_ref p = Some (p_id a)) (posts s) \<le> p_post_count a)"

lemma author_counts_exact_cover: "author_counts_ok s \<Longrightarrow> author_counts_cover s"
  by (simp add: author_counts_ok_def author_counts_cover_def counted_by_def)

lemma context_posts_thread: "set (context_posts s [pid]) = thread_of (posts s) pid"
  by (auto simp: thread_of_def context_posts_reachable)

lemma cascade_posts_thread: "posts_inv s \<Longrightarrow> set (cascade_posts s [pid]) = thread_of (posts s) pid"
  using posts_inv_threads [of s] by (simp add: cascade_eq_context context_posts_thread)

lemma filter_post_id:
  assumes "unique_by po_id ps" and "p \<in> set ps"
  shows "filter (\<lambda>q. po_id q = po_id p) ps = [p]"
  by (rule unique_by_filter_key [OF assms]) simp

lemma filter_original:
  assumes "unique_by po_id ps" and "p \<in> set ps" and "po_repost_of_id p = None"
  shows "filter (is_original (po_id p)) ps = [p]"
proof -
  have "filter (is_original (po_id p)) ps = filter (\<lambda>q. po_repost_of_id q = None) (filter (\<lambda>q. po_id q = po_id p) ps)"
    by (simp add: is_original_def [abs_def] conj_commute)
  then show ?thesis using assms by (simp add: filter_post_id)
qed

lemma posts_by_author: "posts_by s ids a = count_where (\<lambda>p. author_ref p = Some a \<and> po_id p \<in> set ids) (posts s)"
  by (auto simp: posts_by_def author_ref_def intro: count_where_cong)

lemma posts_by_le:
  "posts_by s ids a \<le> count_where (\<lambda>p. author_ref p = Some a) (posts s)"
  using count_where_split [of "\<lambda>p. author_ref p = Some a" "posts s" "\<lambda>p. po_id p \<in> set ids"]
    count_where_nonneg [of "\<lambda>p. author_ref p = Some a \<and> po_id p \<notin> set ids" "posts s"]
  by (simp add: posts_by_author)

lemma subtract_post_counts_run:
  assumes "author_counts_cover s"
  shows "subtract_post_counts ids s =
    (Ok (), s\<lparr>actor_profiles := map (\<lambda>a. add_post_count (- posts_by s ids (p_id a)) a) (actor_profiles s)\<rparr>)"
proof -
  have "\<not> p_post_count a - posts_by s ids (p_id a) < 0" if "a \<in> set (actor_profiles s)" for a
    using assms that posts_by_le [of s ids "p_id a"] unfolding author_counts_cover_def by fastforce
  then have "\<not> list_ex (\<lambda>a. p_post_count a - posts_by s ids (p_id a) < 0 \<and> posts_by s ids (p_id a) \<noteq> 0) (actor_profiles s)"
    by (auto simp: list_ex_iff)
  then show ?thesis by (simp only: subtract_post_counts_def if_False)
qed

text \<open>The counter of the parent of a removed thread can be lowered.\<close>

lemma lower_reply_count_run:
  assumes shape: "thread_shape ps cs" and counts: "post_counts ps" and p: "p \<in> set ps" "po_in_reply_to_id p = Some i"
    and s: "posts s = delete_where (\<lambda>q. po_id q \<in> thread_of ps (po_id p)) ps"
  shows "update_reply_count i (- 1) s = (Ok (), s\<lparr>posts := bump_reply (- 1) p (posts s)\<rparr>)"
proof -
  let ?D = "thread_of ps (po_id p)"
  have ref: "reference_ok ps p" using shape p(1) by (simp add: thread_shape_def)
  then obtain q where q: "q \<in> set ps" "po_id q = i" "po_repost_of_id q = None"
    using p(2) by (auto simp: reference_ok_def)
  have "acyclic (reply_edges ps)" using shape by (simp add: thread_shape_def)
  then have "i \<notin> ?D" by (rule parent_outside) (use p in simp_all)
  then have stays: "q \<in> set (posts s)" using q by (simp add: s)
  have uniq: "unique_by po_id (posts s)" using shape by (simp add: s thread_shape_def)
  have orig: "list_ex (is_original i) (posts s)" using stays q by (auto simp: list_ex_iff is_original_def)
  have "0 \<le> po_reply_count r + - 1 \<and> po_reply_count r + - 1 < 2 ^ 31" if "r \<in> set (posts s)" "is_original i r" for r
  proof -
    have "r = q" using that stays q uniq by (auto simp: is_original_def dest: unique_byD)
    have "0 \<le> po_reply_count q - 1"
      by (rule reply_counter.counted_lower_nonneg [where ps = ps and cs = ps and c = p])
        (use counts q p in \<open>simp_all add: post_counts_def\<close>)
    moreover have "po_reply_count q < 2 ^ 31" using counts q by (simp add: post_counts_def)
    ultimately show ?thesis using \<open>r = q\<close> by simp
  qed
  then have "update_reply_count i (- 1) s =
      (Ok (), s\<lparr>posts := update_where (is_original i) (add_reply_count (- 1)) (posts s)\<rparr>)"
    using orig by (simp add: update_reply_count_def update_post_counter_Ok)
  then show ?thesis using update_original [OF uniq orig] p(2) by (simp add: bump_reply_def)
qed

section \<open>Deleting a post\<close>

definition after_delete :: "database \<Rightarrow> post \<Rightarrow> database" where
  "after_delete s p =
     (let ids = context_posts s [po_id p];
          t = remove_posts (set ids)
                (s\<lparr>actor_profiles := map (\<lambda>a. add_post_count (- posts_by s ids (p_id a)) a) (actor_profiles s)\<rparr>) in
      t\<lparr>posts := bump_reply (- 1) p (posts t)\<rparr>)"

lemma posts_after_delete: "posts (after_delete s p) =
   bump_reply (- 1) p (delete_where (\<lambda>q. po_id q \<in> thread_of (posts s) (po_id p)) (posts s))"
  by (simp add: after_delete_def Let_def remove_posts_def context_posts_thread)

lemma posts_inv_profiles: "posts_inv (s\<lparr>actor_profiles := ps\<rparr>) = posts_inv s"
  by (simp add: posts_inv_def)

lemma delete_post_run:
  assumes inv: "posts_inv s" and cover: "author_counts_cover s"
    and p: "p \<in> set (posts s)" "po_repost_of_id p = None"
  shows "delete_post (po_id p) s = (Ok (context_media (context_posts s [po_id p]) s), after_delete s p)"
proof -
  let ?ids = "context_posts s [po_id p]"
  let ?u = "s\<lparr>actor_profiles := map (\<lambda>a. add_post_count (- posts_by s ?ids (p_id a)) a) (actor_profiles s)\<rparr>"
  let ?v = "remove_posts (set ?ids) ?u"
  have shape: "thread_shape (posts s) (conversations s)" and counts: "post_counts (posts s)"
    using inv by (simp_all add: posts_inv_def)
  then have uniq: "unique_by po_id (posts s)" by (simp add: thread_shape_def)
  have cascade: "set (cascade_posts ?u [po_id p]) = set ?ids"
    using cascade_posts_thread [of ?u "po_id p"] inv by (simp add: posts_inv_profiles context_posts_thread)
  have removed: "posts ?v = delete_where (\<lambda>q. po_id q \<in> thread_of (posts s) (po_id p)) (posts s)"
    by (simp add: remove_posts_def context_posts_thread)
  have last: "(case po_in_reply_to_id p of Some parent \<Rightarrow> update_reply_count parent (-1) | None \<Rightarrow> ret ()) ?v
      = (Ok (), ?v\<lparr>posts := bump_reply (- 1) p (posts ?v)\<rparr>)"
    using lower_reply_count_run [OF shape counts p(1) _ removed]
    by (auto simp: ret_def bump_reply_def split: option.splits)
  have "map po_id (filter (\<lambda>q. po_id q = po_id p) (posts s)) = [po_id p]"
    using filter_post_id [OF uniq p(1)] by simp
  moreover have "filter (is_original (po_id p)) (posts ?u) = [p]"
    using filter_original [OF uniq p] by simp
  ultimately show ?thesis
    unfolding delete_post_def transaction_def
    by (simp add: bnd_def seq_def gets_def modify_def run_def map_err_p_def subtract_post_counts_run [OF cover]
        cascade lift_def last ret_def after_delete_def Let_def)
qed

lemma bump_repost_original: "po_repost_of_id p = None \<Longrightarrow> bump_repost d p ps = ps"
  by (simp add: bump_repost_def)

lemma after_delete_inv:
  assumes inv: "posts_inv s" and p: "p \<in> set (posts s)" "po_repost_of_id p = None"
  shows "posts_inv (after_delete s p)"
proof -
  let ?qs = "delete_where (\<lambda>q. po_id q \<in> thread_of (posts s) (po_id p)) (posts s)"
  have shape: "thread_shape (posts s) (conversations s)" and counts: "post_counts (posts s)"
    using inv by (simp_all add: posts_inv_def)
  have "post_counts (bump_reply (- 1) p ?qs)"
    using post_counts_remove [OF shape counts p(1)] by (simp add: bump_repost_original p(2))
  moreover have "conversations (after_delete s p) =
      delete_where (\<lambda>c. cv_root_id c \<in> thread_of (posts s) (po_id p)) (conversations s)"
    by (simp add: after_delete_def Let_def remove_posts_def context_posts_thread)
  moreover have "thread_shape (bump_reply (- 1) p ?qs)
      (delete_where (\<lambda>c. cv_root_id c \<in> thread_of (posts s) (po_id p)) (conversations s))"
    using thread_shape_remove [OF shape thread_of_closed] by (rule thread_shape_keys [rotated]) simp
  ultimately show ?thesis by (simp add: posts_inv_def posts_after_delete)
qed

lemma after_delete_author_counts:
  assumes "author_counts_ok s"
  shows "author_counts_ok (after_delete s p)"
  unfolding author_counts_ok_def
proof (rule counted_byI)
  let ?ids = "context_posts s [po_id p]"
  fix b assume "b \<in> set (actor_profiles (after_delete s p))"
  then obtain a where a: "a \<in> set (actor_profiles s)" "b = add_post_count (- posts_by s ?ids (p_id a)) a"
    by (auto simp: after_delete_def Let_def remove_posts_def)
  have "p_post_count a = count_where (\<lambda>q. author_ref q = Some (p_id a)) (posts s)"
    using assms a(1) by (simp add: author_counts_ok_def counted_by_def)
  then show "p_post_count b = count_where (\<lambda>q. author_ref q = Some (p_id b)) (posts (after_delete s p))"
    using count_where_split [of "\<lambda>q. author_ref q = Some (p_id a)" "posts s" "\<lambda>q. po_id q \<in> set ?ids"]
    by (simp add: a(2) add_post_count_def posts_after_delete count_where_delete posts_by_author context_posts_thread)
qed

text \<open>No original has the identifier: nothing happens, also when a repost has it.\<close>

lemma delete_post_missing:
  assumes "author_counts_cover s" and "\<And>p. p \<in> set (posts s) \<Longrightarrow> \<not> is_original pid p"
  shows "delete_post pid s = (Err (NotFound ''post''), s)"
proof -
  have "filter (is_original pid) (posts s) = []" using assms(2) by (simp add: filter_empty_conv)
  then show ?thesis
    by (simp add: delete_post_def transaction_def bnd_def seq_def gets_def modify_def run_def map_err_p_def
        subtract_post_counts_run [OF assms(1)] lift_def rollback_def)
qed

section \<open>Deleting a repost\<close>

lemma repost_thread:
  assumes inv: "posts_inv s" and r: "r \<in> set (posts s)" "po_repost_of_id r \<noteq> None"
  shows "thread_of (posts s) (po_id r) = {po_id r}"
proof -
  have leaf: "\<not> (po_in_reply_to_id q = Some (po_id r) \<or> po_repost_of_id q = Some (po_id r))" if q: "q \<in> set (posts s)" for q
  proof
    assume refers: "po_in_reply_to_id q = Some (po_id r) \<or> po_repost_of_id q = Some (po_id r)"
    have "reference_ok (posts s) q" using inv q by (simp add: posts_inv_def thread_shape_def)
    with refers obtain x where "x \<in> set (posts s)" "po_id x = po_id r" "po_repost_of_id x = None"
      by (auto simp: reference_ok_def)
    with inv r show False unfolding posts_inv_def thread_shape_def by (metis unique_byD)
  qed
  have "descends (posts s) i j \<Longrightarrow> i = po_id r \<Longrightarrow> j = po_id r" for i j
    by (induction rule: descends.induct) (use leaf in auto)
  then show ?thesis by (auto simp: thread_of_def descends.self)
qed

definition after_delete_repost :: "database \<Rightarrow> post \<Rightarrow> database" where
  "after_delete_repost s r =
     (let t = remove_posts {po_id r} s in t\<lparr>posts := bump_repost (- 1) r (posts t)\<rparr>)"

lemma lower_repost_count_run:
  assumes inv: "posts_inv s" and r: "r \<in> set (posts s)" "po_repost_of_id r = Some i"
  shows "update_repost_count i (- 1) (remove_posts {po_id r} s) = (Ok (), after_delete_repost s r)"
proof -
  let ?t = "remove_posts {po_id r} s"
  have shape: "thread_shape (posts s) (conversations s)" and counts: "post_counts (posts s)"
    using inv by (simp_all add: posts_inv_def)
  have ref: "reference_ok (posts s) r" using shape r(1) by (simp add: thread_shape_def)
  then obtain q where q: "q \<in> set (posts s)" "po_id q = i" "po_repost_of_id q = None"
    using r(2) by (auto simp: reference_ok_def)
  have "po_id q \<noteq> po_id r" using shape q r unfolding thread_shape_def by (metis option.distinct(1) unique_byD)
  then have stays: "q \<in> set (posts ?t)" using q by (simp add: remove_posts_def)
  have uniq: "unique_by po_id (posts ?t)" using shape by (simp add: remove_posts_def thread_shape_def)
  have orig: "list_ex (is_original i) (posts ?t)" using stays q by (auto simp: list_ex_iff is_original_def)
  have "0 \<le> po_repost_count x + - 1 \<and> po_repost_count x + - 1 < 2 ^ 31" if "x \<in> set (posts ?t)" "is_original i x" for x
  proof -
    have "x = q" using that stays q uniq by (auto simp: is_original_def dest: unique_byD)
    have "0 \<le> po_repost_count q - 1"
      by (rule repost_counter.counted_lower_nonneg [where ps = "posts s" and cs = "posts s" and c = r])
        (use counts q r in \<open>simp_all add: post_counts_def\<close>)
    moreover have "po_repost_count q < 2 ^ 31" using counts q by (simp add: post_counts_def)
    ultimately show ?thesis using \<open>x = q\<close> by simp
  qed
  then have "update_repost_count i (- 1) ?t =
      (Ok (), ?t\<lparr>posts := update_where (is_original i) (add_repost_count (- 1)) (posts ?t)\<rparr>)"
    using orig by (simp add: update_repost_count_def update_post_counter_Ok)
  then show ?thesis using update_original [OF uniq orig] r(2) by (simp add: bump_repost_def after_delete_repost_def Let_def)
qed

lemma delete_repost_run:
  assumes inv: "posts_inv s" and r: "r \<in> set (posts s)" "po_repost_of_id r = Some i"
  shows "delete_repost (po_id r) s = (Ok (), after_delete_repost s r)"
proof -
  have uniq: "unique_by po_id (posts s)" using inv by (simp add: posts_inv_def thread_shape_def)
  have "filter (is_repost_row (po_id r)) (posts s)
      = filter (\<lambda>q. po_repost_of_id q \<noteq> None) (filter (\<lambda>q. po_id q = po_id r) (posts s))"
    by (simp add: is_repost_row_def [abs_def] conj_commute)
  then have "filter (is_repost_row (po_id r)) (posts s) = [r]" using r filter_post_id [OF uniq r(1)] by simp
  moreover have "set (cascade_posts s [po_id r]) = {po_id r}"
    using cascade_posts_thread [OF inv] repost_thread [OF inv r(1)] r(2) by simp
  ultimately show ?thesis
    unfolding delete_repost_def transaction_def
    by (simp add: bnd_def seq_def gets_def modify_def run_def map_err_p_def lift_def r(2)
        lower_repost_count_run [OF inv r])
qed

lemma after_delete_repost_inv:
  assumes inv: "posts_inv s" and r: "r \<in> set (posts s)" "po_repost_of_id r = Some i"
  shows "posts_inv (after_delete_repost s r)"
proof -
  let ?qs = "delete_where (\<lambda>q. po_id q \<in> {po_id r}) (posts s)"
  have shape: "thread_shape (posts s) (conversations s)" and counts: "post_counts (posts s)"
    using inv by (simp_all add: posts_inv_def)
  have thread: "thread_of (posts s) (po_id r) = {po_id r}" using repost_thread [OF inv r(1)] r(2) by simp
  have "reference_ok (posts s) r" using shape r(1) by (simp add: thread_shape_def)
  then have "po_in_reply_to_id r = None" using r(2) by (simp add: reference_ok_def)
  then have "post_counts (bump_repost (- 1) r ?qs)"
    using post_counts_remove [OF shape counts r(1)] by (simp add: thread bump_reply_def)
  moreover have "thread_shape (bump_repost (- 1) r ?qs) (delete_where (\<lambda>c. cv_root_id c \<in> {po_id r}) (conversations s))"
    using thread_shape_remove [OF shape thread_of_closed, of "po_id r", unfolded thread]
    by (rule thread_shape_keys [rotated]) simp
  ultimately show ?thesis by (simp add: posts_inv_def after_delete_repost_def Let_def remove_posts_def)
qed

text \<open>The row of the author keeps its count although one of its posts is gone.\<close>

lemma after_delete_repost_author:
  assumes exact: "author_counts_ok s" and uniq: "unique_by po_id (posts s)" and r: "r \<in> set (posts s)"
    and a: "a \<in> set (actor_profiles s)" "p_id a = po_author_id r"
  shows "a \<in> set (actor_profiles (after_delete_repost s r))"
    "p_post_count a = count_where (\<lambda>q. author_ref q = Some (p_id a)) (posts (after_delete_repost s r)) + 1"
proof -
  show "a \<in> set (actor_profiles (after_delete_repost s r))"
    using a(1) by (simp add: after_delete_repost_def Let_def remove_posts_def)
  have "count_where (\<lambda>q. author_ref q = Some (p_id a) \<and> po_id q = po_id r) (posts s) = 1"
    using count_where_unique_le1 [OF uniq, of "\<lambda>q. author_ref q = Some (p_id a) \<and> po_id q = po_id r"] r a(2)
    by (auto simp: author_ref_def)
  moreover have "p_post_count a = count_where (\<lambda>q. author_ref q = Some (p_id a)) (posts s)"
    using exact a(1) by (simp add: author_counts_ok_def counted_by_def)
  ultimately show "p_post_count a = count_where (\<lambda>q. author_ref q = Some (p_id a)) (posts (after_delete_repost s r)) + 1"
    using count_where_split [of "\<lambda>q. author_ref q = Some (p_id a)" "posts s" "\<lambda>q. po_id q = po_id r"]
    by (simp add: after_delete_repost_def Let_def remove_posts_def count_where_delete)
qed

end
