(* ===== verification/Deliverer.thy ===== *)
theory Deliverer
  imports Queues Hostnames
begin

text \<open>
  Delivery of one activity (\<open>mitra_activitypub/src/deliverer.rs\<close>, \<open>deliver_activity_worker\<close>) with the
  result of \<open>send_object\<close> (\<open>apx_sdk/src/deliver.rs\<close>). The worker keeps a bounded pool of running
  requests, at most one per host and at most one to an onion service, and awaits whichever of them
  ends first. What the network does is a parameter: \<open>exchange\<close> gives how the request of every
  recipient ends, \<open>pick\<close> which of the running requests ends next.
\<close>

section \<open>Sending\<close>

text \<open>How an HTTP exchange ends; the variants of \<open>DelivererError\<close> other than \<open>HttpError\<close> are one case.\<close>

datatype http_exchange = ExchangeFailed | ResponseTooLarge | Responded nat

datatype deliverer_error = UrlError | RequestError | TooLargeError | HttpError nat

definition status_is_success :: "nat \<Rightarrow> bool" where
  "status_is_success status \<longleftrightarrow> 200 \<le> status \<and> status < 300"

fun send_object :: "http_exchange \<Rightarrow> (deliverer_error, nat) outcome" where
  "send_object ExchangeFailed = Err RequestError"
| "send_object ResponseTooLarge = Err TooLargeError"
| "send_object (Responded status) =
     (if status_is_success status then Ok status else Err (HttpError status))"

definition http_410_gone :: nat where
  "http_410_gone = 410"

section \<open>The worker\<close>

type_synonym delivery = "nat \<times> string \<times> string" \<comment> \<open>index of the recipient, host name, inbox\<close>

record worker_state =
  ws_pool :: "(nat \<times> string) list" \<comment> \<open>\<open>delivery_pool_state\<close>, in insertion order\<close>
  ws_sent :: "nat list"
  ws_recipients :: "recipient list"

fun list_deliveries ::
  "(string \<Rightarrow> string option) \<Rightarrow> nat \<Rightarrow> recipient list \<Rightarrow> (deliverer_error, delivery list) outcome" where
  "list_deliveries get_hostname index [] = Ok []"
| "list_deliveries get_hostname index (r # rs) =
     (if is_finished r then list_deliveries get_hostname (Suc index) rs
      else obind (ok_or UrlError (get_hostname (rc_inbox r))) (\<lambda>hostname.
           obind (list_deliveries get_hostname (Suc index) rs) (\<lambda>ds.
           Ok ((index, hostname, rc_inbox r) # ds))))"

text \<open>The inner \<open>for\<close> loop: \<open>break\<close> when the pool is full, \<open>continue\<close> in the three skipped cases.\<close>

fun fill_pool ::
  "nat \<Rightarrow> delivery list \<Rightarrow> (nat \<times> string) list \<times> nat list \<Rightarrow> (nat \<times> string) list \<times> nat list" where
  "fill_pool pool_size [] (pool, sent) = (pool, sent)"
| "fill_pool pool_size ((index, hostname, inbox) # ds) (pool, sent) =
     (if length pool = pool_size then (pool, sent)
      else if index \<in> set sent then fill_pool pool_size ds (pool, sent)
      else if hostname \<in> snd ` set pool then fill_pool pool_size ds (pool, sent)
      else if is_onion hostname \<and> list_ex is_onion (map snd pool) then fill_pool pool_size ds (pool, sent)
      else fill_pool pool_size ds (pool @ [(index, hostname)], sent @ [index]))"

text \<open>What the result of a request does to its recipient. \<open>send_object\<close> returns \<open>Ok\<close> for a success
  status only, so the assertion on the status holds.\<close>

definition record_result :: "(deliverer_error, nat) outcome \<Rightarrow> recipient \<Rightarrow> recipient" where
  "record_result result r = (case result of
      Ok status \<Rightarrow> r\<lparr>rc_is_delivered := True\<rparr>
    | Err (HttpError status) \<Rightarrow> if status = http_410_gone then r\<lparr>rc_is_gone := True\<rparr> else r
    | _ \<Rightarrow> r)"

definition finish_delivery :: "(nat \<Rightarrow> http_exchange) \<Rightarrow> nat \<Rightarrow> worker_state \<Rightarrow> worker_state" where
  "finish_delivery exchange index w = w\<lparr>
     ws_pool := filter (\<lambda>(i, _). i \<noteq> index) (ws_pool w),
     ws_recipients := (ws_recipients w)[index :=
       record_result (send_object (exchange index)) (ws_recipients w ! index)]\<rparr>"

definition fill_step :: "nat \<Rightarrow> delivery list \<Rightarrow> worker_state \<Rightarrow> worker_state" where
  "fill_step pool_size ds w =
     (case fill_pool pool_size ds (ws_pool w, ws_sent w) of
        (pool, sent) \<Rightarrow> w\<lparr>ws_pool := pool, ws_sent := sent\<rparr>)"

definition worker_done :: "delivery list \<Rightarrow> worker_state \<Rightarrow> bool" where
  "worker_done ds w \<longleftrightarrow> ws_pool w = [] \<and> list_all (\<lambda>(index, _). index \<in> set (ws_sent w)) ds"

text \<open>\<open>delivery_pool.next().await\<close>: an empty pool yields \<open>None\<close> at once; otherwise the scheduler
  decides which request ends first. It sees what was sent and what is running, which never repeat.\<close>

type_synonym scheduler = "nat list \<Rightarrow> (nat \<times> string) list \<Rightarrow> nat"

definition await_one :: "scheduler \<Rightarrow> (nat \<Rightarrow> http_exchange) \<Rightarrow> worker_state \<Rightarrow> worker_state" where
  "await_one pick exchange w =
     (if ws_pool w = [] then w
      else finish_delivery exchange
             (fst (ws_pool w ! (pick (ws_sent w) (ws_pool w) mod length (ws_pool w)))) w)"

definition worker_iteration ::
  "nat \<Rightarrow> scheduler \<Rightarrow> (nat \<Rightarrow> http_exchange) \<Rightarrow> delivery list \<Rightarrow> worker_state \<Rightarrow> worker_state" where
  "worker_iteration pool_size pick exchange ds w = await_one pick exchange (fill_step pool_size ds w)"

text \<open>The outer \<open>loop\<close>; \<open>None\<close> is a loop that never ends.\<close>

partial_function (option) worker_loop ::
  "nat \<Rightarrow> scheduler \<Rightarrow> (nat \<Rightarrow> http_exchange) \<Rightarrow> delivery list \<Rightarrow> worker_state \<Rightarrow> worker_state option" where
  "worker_loop pool_size pick exchange ds w =
     (if worker_done ds (worker_iteration pool_size pick exchange ds w)
      then Some (worker_iteration pool_size pick exchange ds w)
      else worker_loop pool_size pick exchange ds (worker_iteration pool_size pick exchange ds w))"

definition initial_worker :: "recipient list \<Rightarrow> worker_state" where
  "initial_worker rs = \<lparr>ws_pool = [], ws_sent = [], ws_recipients = rs\<rparr>"

definition deliver_activity_worker ::
  "bool \<Rightarrow> nat \<Rightarrow> (string \<Rightarrow> string option) \<Rightarrow> scheduler \<Rightarrow> (nat \<Rightarrow> http_exchange) \<Rightarrow> recipient list \<Rightarrow>
   (deliverer_error, recipient list) outcome option" where
  "deliver_activity_worker enabled pool_size get_hostname pick exchange rs =
     (if \<not> enabled then Some (Panic ''assertion failed: instance.federation.enabled'')
      else case list_deliveries get_hostname 0 rs of
        Ok ds \<Rightarrow> map_option (\<lambda>w. Ok (ws_recipients w))
                  (worker_loop pool_size pick exchange ds (initial_worker rs))
      | Err e \<Rightarrow> Some (Err e)
      | Panic p \<Rightarrow> Some (Panic p))"

section \<open>All schedules\<close>

text \<open>One iteration under any scheduler: the pool is filled, then any running request ends.\<close>

inductive worker_step :: "nat \<Rightarrow> (nat \<Rightarrow> http_exchange) \<Rightarrow> delivery list \<Rightarrow> worker_state \<Rightarrow> worker_state \<Rightarrow> bool"
  for pool_size :: nat and exchange :: "nat \<Rightarrow> http_exchange" and ds :: "delivery list" where
  filling: "w' = fill_step pool_size ds w \<Longrightarrow> worker_step pool_size exchange ds w w'"
| ending: "(index, hostname) \<in> set (ws_pool w) \<Longrightarrow> w' = finish_delivery exchange index w \<Longrightarrow>
    worker_step pool_size exchange ds w w'"

inductive worker_reachable ::
  "nat \<Rightarrow> (nat \<Rightarrow> http_exchange) \<Rightarrow> delivery list \<Rightarrow> recipient list \<Rightarrow> worker_state \<Rightarrow> bool"
  for pool_size :: nat and exchange :: "nat \<Rightarrow> http_exchange" and ds :: "delivery list" and rs :: "recipient list" where
  start: "worker_reachable pool_size exchange ds rs (initial_worker rs)"
| step: "worker_reachable pool_size exchange ds rs w \<Longrightarrow> worker_step pool_size exchange ds w w' \<Longrightarrow>
    worker_reachable pool_size exchange ds rs w'"

inductive_cases worker_stepE: "worker_step pool_size exchange ds w w'"

section \<open>The abstract specification\<close>

text \<open>One request per unfinished recipient, each result recorded at its recipient; no order, no pool.\<close>

definition deliver_once :: "(nat \<Rightarrow> http_exchange) \<Rightarrow> recipient list \<Rightarrow> recipient list" where
  "deliver_once exchange rs =
     map (\<lambda>(i, r). if is_finished r then r else record_result (send_object (exchange i)) r)
       (enumerate 0 rs)"

text \<open>
  What the delivery worker guarantees under every schedule of the network: the limits of the pool,
  one request per unfinished recipient, termination, and a result that does not depend on the order
  in which requests end.
\<close>

section \<open>The list of deliveries\<close>

lemma send_object_success: "send_object x = Ok status \<Longrightarrow> status_is_success status"
  by (cases x) (auto split: if_splits)

lemma list_deliveries_index:
  "list_deliveries gh k rs = Ok ds \<Longrightarrow>
     distinct (map fst ds) \<and> (\<forall>i. i \<in> fst ` set ds \<longleftrightarrow> k \<le> i \<and> i < k + length rs \<and> \<not> is_finished (rs ! (i - k)))"
proof (induction rs arbitrary: k ds)
  case (Cons r rs)
  have shift: "k \<le> i \<and> i < k + length (r # rs) \<and> \<not> is_finished ((r # rs) ! (i - k)) \<longleftrightarrow>
      i = k \<and> \<not> is_finished r \<or> Suc k \<le> i \<and> i < Suc k + length rs \<and> \<not> is_finished (rs ! (i - Suc k))" for i
    by (cases "i = k") (auto simp: nth_Cons' Suc_diff_le)
  show ?case
  proof (cases "is_finished r")
    case True
    with Cons.IH [of "Suc k" ds] Cons.prems show ?thesis unfolding shift by simp
  next
    case False
    then obtain h ds' where "gh (rc_inbox r) = Some h" "list_deliveries gh (Suc k) rs = Ok ds'"
      and ds: "ds = (k, h, rc_inbox r) # ds'"
      using Cons.prems by (auto simp: ok_runs)
    with Cons.IH have "distinct (map fst ds')"
      and "\<And>i. i \<in> fst ` set ds' \<longleftrightarrow> Suc k \<le> i \<and> i < Suc k + length rs \<and> \<not> is_finished (rs ! (i - Suc k))"
      by blast+
    with ds False show ?thesis unfolding shift by auto
  qed
qed auto

lemma list_deliveries_total:
  assumes "\<And>r. r \<in> set rs \<Longrightarrow> \<not> is_finished r \<Longrightarrow> gh (rc_inbox r) \<noteq> None"
  shows "\<exists>ds. list_deliveries gh k rs = Ok ds"
  using assms
proof (induction rs arbitrary: k)
  case (Cons r rs)
  then obtain ds where "list_deliveries gh (Suc k) rs = Ok ds" by (metis list.set_intros(2))
  with Cons.prems [of r] show ?case by auto
qed simp

section \<open>The invariant of the pool\<close>

text \<open>The limits the source states: a full pool at most, one request per host, one onion.\<close>

definition pool_within_limits :: "nat \<Rightarrow> (nat \<times> string) list \<Rightarrow> bool" where
  "pool_within_limits n pool \<longleftrightarrow>
     length pool \<le> n \<and> distinct (map snd pool) \<and> length (filter is_onion (map snd pool)) \<le> 1"

definition pool_inv :: "nat \<Rightarrow> delivery list \<Rightarrow> (nat \<times> string) list \<Rightarrow> nat list \<Rightarrow> bool" where
  "pool_inv n ds pool sent \<longleftrightarrow>
     pool_within_limits n pool \<and> distinct (map fst pool) \<and> distinct sent
     \<and> fst ` set pool \<subseteq> set sent \<and> set sent \<subseteq> fst ` set ds"

lemma pool_inv_add:
  assumes "pool_inv n ds pool sent" and "length pool \<noteq> n" and "i \<notin> set sent" and "h \<notin> snd ` set pool"
    and "\<not> (is_onion h \<and> list_ex is_onion (map snd pool))" and "i \<in> fst ` set ds"
  shows "pool_inv n ds (pool @ [(i, h)]) (sent @ [i])"
proof -
  have "length (filter is_onion (map snd (pool @ [(i, h)]))) \<le> 1"
    using assms(1,5) by (auto simp: pool_inv_def pool_within_limits_def list_ex_iff filter_empty_conv)
  with assms show ?thesis by (auto simp: pool_inv_def pool_within_limits_def)
qed

lemma fill_pool_inv:
  "pool_inv n ds pool sent \<Longrightarrow> set es \<subseteq> set ds \<Longrightarrow> fill_pool n es (pool, sent) = (pool', sent') \<Longrightarrow>
   pool_inv n ds pool' sent'"
proof (induction n es "(pool, sent)" arbitrary: pool sent rule: fill_pool.induct)
  case (2 n i h inbox es pool sent)
  have "i \<in> fst ` set ds" using 2(6) by force
  with 2 show ?case by (auto simp: pool_inv_add split: if_splits)
qed auto

text \<open>Filling only appends, the same indices to both lists.\<close>

lemma fill_pool_grows:
  "fill_pool n es (pool, sent) = (pool', sent') \<Longrightarrow>
     \<exists>new. pool' = pool @ new \<and> sent' = sent @ map fst new"
proof (induction es arbitrary: pool sent)
  case (Cons d es)
  obtain j h inbox where d: "d = (j, h, inbox)" by (cases d)
  have "(pool, sent) = (pool', sent') \<or> fill_pool n es (pool, sent) = (pool', sent') \<or>
      fill_pool n es (pool @ [(j, h)], sent @ [j]) = (pool', sent')"
    using Cons.prems by (simp add: d split: if_splits)
  then consider "(pool, sent) = (pool', sent')" | "fill_pool n es (pool, sent) = (pool', sent')"
    | "fill_pool n es (pool @ [(j, h)], sent @ [j]) = (pool', sent')" by blast
  then show ?case
  proof cases
    case 1
    then show ?thesis by (intro exI [of _ "[]"]) simp
  next
    case 2
    then show ?thesis by (rule Cons.IH)
  next
    case 3
    from Cons.IH [OF this] obtain new where "pool' = (pool @ [(j, h)]) @ new" "sent' = (sent @ [j]) @ map fst new"
      by blast
    then have "pool' = pool @ ((j, h) # new)" "sent' = sent @ map fst ((j, h) # new)" by simp_all
    then show ?thesis by blast
  qed
qed simp

lemma fill_pool_starts:
  "fill_pool n es ([], sent) = (pool', sent') \<Longrightarrow> 0 < n \<Longrightarrow> i \<in> fst ` set es \<Longrightarrow> i \<notin> set sent \<Longrightarrow> pool' \<noteq> []"
proof (induction es)
  case (Cons d es)
  obtain j h inbox where d: "d = (j, h, inbox)" by (cases d)
  show ?case
  proof (cases "j \<in> set sent")
    case False
    with Cons.prems(1,2) have "fill_pool n es ([(j, h)], sent @ [j]) = (pool', sent')" by (simp add: d)
    then show ?thesis by (auto dest: fill_pool_grows)
  qed (use Cons d in auto)
qed simp

text \<open>The recipients a worker has finished with, and the state of all of them.\<close>

definition worker_inv ::
  "nat \<Rightarrow> (nat \<Rightarrow> http_exchange) \<Rightarrow> delivery list \<Rightarrow> recipient list \<Rightarrow> worker_state \<Rightarrow> bool" where
  "worker_inv n exchange ds rs w \<longleftrightarrow>
     pool_inv n ds (ws_pool w) (ws_sent w) \<and> length (ws_recipients w) = length rs \<and>
     (\<forall>i < length rs. ws_recipients w ! i =
        (if i \<in> set (ws_sent w) - fst ` set (ws_pool w)
         then record_result (send_object (exchange i)) (rs ! i) else rs ! i))"

lemma worker_inv_initial: "worker_inv n exchange ds rs (initial_worker rs)"
  by (simp add: worker_inv_def initial_worker_def pool_inv_def pool_within_limits_def)

lemma worker_inv_fill:
  assumes "worker_inv n exchange ds rs w"
  shows "worker_inv n exchange ds rs (fill_step n ds w)"
proof -
  obtain pool' sent' where fill: "fill_pool n ds (ws_pool w, ws_sent w) = (pool', sent')" by fastforce
  then obtain new where new: "pool' = ws_pool w @ new" "sent' = ws_sent w @ map fst new"
    by (blast dest: fill_pool_grows)
  have inv: "pool_inv n ds pool' sent'"
    using fill_pool_inv [OF _ order_refl fill] assms by (simp add: worker_inv_def)
  then have "set sent' - fst ` set pool' = set (ws_sent w) - fst ` set (ws_pool w)"
    by (auto simp: new pool_inv_def)
  with assms inv fill show ?thesis by (simp add: worker_inv_def fill_step_def)
qed

lemma pool_inv_remove: "pool_inv n ds pool sent \<Longrightarrow> pool_inv n ds (filter P pool) sent"
proof -
  have "length (filter is_onion (map snd (filter P pool))) \<le> length (filter is_onion (map snd pool))"
    by (induction pool) auto
  then show "pool_inv n ds pool sent \<Longrightarrow> pool_inv n ds (filter P pool) sent"
    by (auto simp: pool_inv_def pool_within_limits_def distinct_map_filter
        intro: le_trans [OF length_filter_le])
qed

lemma worker_inv_finish:
  assumes "worker_inv n exchange ds rs w" and "(i, h) \<in> set (ws_pool w)"
  shows "worker_inv n exchange ds rs (finish_delivery exchange i w)"
proof -
  let ?pool = "filter (\<lambda>(j, _). j \<noteq> i) (ws_pool w)"
  let ?sent = "set (ws_sent w)" and ?result = "\<lambda>j. record_result (send_object (exchange j))"
  have inv: "pool_inv n ds (ws_pool w) (ws_sent w)" and len: "length (ws_recipients w) = length rs"
    and old: "\<And>j. j < length rs \<Longrightarrow> ws_recipients w ! j =
      (if j \<in> ?sent - fst ` set (ws_pool w) then ?result j (rs ! j) else rs ! j)"
    using assms(1) by (simp_all add: worker_inv_def)
  have i: "i \<in> ?sent" "i \<in> fst ` set (ws_pool w)"
    using inv assms(2) by (force simp: pool_inv_def)+
  have finished: "?sent - fst ` set ?pool = insert i (?sent - fst ` set (ws_pool w))" using i by force
  have "(ws_recipients w)[i := ?result i (ws_recipients w ! i)] ! j =
      (if j \<in> ?sent - fst ` set ?pool then ?result j (rs ! j) else rs ! j)" if "j < length rs" for j
    using that old [OF that] i len unfolding finished by (cases "j = i") simp_all
  with inv len show ?thesis by (simp add: worker_inv_def finish_delivery_def pool_inv_remove)
qed

lemma worker_step_inv:
  "worker_step n exchange ds w w' \<Longrightarrow> worker_inv n exchange ds rs w \<Longrightarrow> worker_inv n exchange ds rs w'"
  by (erule worker_stepE) (auto intro: worker_inv_fill worker_inv_finish)

lemma reachable_inv: "worker_reachable n exchange ds rs w \<Longrightarrow> worker_inv n exchange ds rs w"
  by (induction rule: worker_reachable.induct) (auto intro: worker_inv_initial worker_step_inv)

section \<open>Progress\<close>

text \<open>Requests that have not ended yet.\<close>

definition pending :: "delivery list \<Rightarrow> worker_state \<Rightarrow> nat" where
  "pending ds w = length ds - length (ws_sent w) + length (ws_pool w)"

lemma sent_length:
  assumes "pool_inv n ds pool sent" and "distinct (map fst ds)"
  shows "length sent \<le> length ds" and "length sent = length ds \<longleftrightarrow> set sent = fst ` set ds"
proof -
  have card: "card (set sent) = length sent" "card (fst ` set ds) = length ds"
    using assms by (simp_all add: pool_inv_def distinct_card card_image distinct_map)
  have sub: "set sent \<subseteq> fst ` set ds" using assms(1) by (simp add: pool_inv_def)
  show "length sent \<le> length ds" using card_mono [OF _ sub] by (simp add: card)
  show "length sent = length ds \<longleftrightarrow> set sent = fst ` set ds"
    using card_subset_eq [OF _ sub] card by auto
qed

lemma worker_done_iff:
  assumes "worker_inv n exchange ds rs w" and "distinct (map fst ds)"
  shows "worker_done ds w \<longleftrightarrow> pending ds w = 0"
proof -
  have inv: "pool_inv n ds (ws_pool w) (ws_sent w)" using assms(1) by (simp add: worker_inv_def)
  then have "list_all (\<lambda>(i, _). i \<in> set (ws_sent w)) ds \<longleftrightarrow> set (ws_sent w) = fst ` set ds"
    unfolding pool_inv_def list_all_iff by (metis (no_types, lifting) case_prod_beta' image_subset_iff subset_antisym subset_refl)
  then show ?thesis
    using sent_length [OF inv assms(2)] by (auto simp: worker_done_def pending_def)
qed

lemma pending_fill:
  assumes "worker_inv n exchange ds rs w" and "distinct (map fst ds)"
  shows "pending ds (fill_step n ds w) = pending ds w"
proof -
  obtain pool' sent' where fill: "fill_pool n ds (ws_pool w, ws_sent w) = (pool', sent')" by fastforce
  then obtain new where "pool' = ws_pool w @ new" "sent' = ws_sent w @ map fst new"
    by (blast dest: fill_pool_grows)
  moreover have "length sent' \<le> length ds"
    using worker_inv_fill [OF assms(1)] fill sent_length(1) [OF _ assms(2)]
    by (fastforce simp: worker_inv_def fill_step_def)
  ultimately show ?thesis using fill by (simp add: pending_def fill_step_def)
qed

lemma fill_step_runs:
  assumes "worker_inv n exchange ds rs w" and "distinct (map fst ds)" and "0 < n" and "0 < pending ds w"
  shows "ws_pool (fill_step n ds w) \<noteq> []"
proof -
  obtain pool' sent' where fill: "fill_pool n ds (ws_pool w, ws_sent w) = (pool', sent')" by fastforce
  have "pool' \<noteq> []"
  proof (cases "ws_pool w = []")
    case True
    have "\<not> worker_done ds w" using worker_done_iff [OF assms(1,2)] assms(4) by simp
    then obtain i where "i \<in> fst ` set ds" "i \<notin> set (ws_sent w)"
      using True by (force simp: worker_done_def list_all_iff)
    with fill True assms(3) show ?thesis by (metis fill_pool_starts)
  qed (use fill in \<open>auto dest: fill_pool_grows\<close>)
  with fill show ?thesis by (simp add: fill_step_def)
qed

lemma length_filter_remove:
  assumes "distinct (map fst xs)" and "x \<in> set xs"
  shows "length (filter (\<lambda>(j, _). j \<noteq> fst x) xs) = length xs - 1"
proof -
  have "filter (\<lambda>(j, _). j \<noteq> fst x) xs = remove1 x xs"
    using assms
  proof (induction xs)
    case (Cons y ys)
    then show ?case
    proof (cases "y = x")
      case True
      with Cons.prems have "\<forall>z \<in> set ys. fst z \<noteq> fst x" by (simp add: image_iff) metis
      with True show ?thesis by (simp add: split_beta filter_id_conv)
    next
      case False
      with Cons.prems have "fst y \<noteq> fst x" by force
      with Cons False show ?thesis by (simp add: split_beta)
    qed
  qed simp
  with assms(2) show ?thesis by (simp add: length_remove1)
qed

lemma pending_finish:
  assumes "worker_inv n exchange ds rs w" and "x \<in> set (ws_pool w)"
  shows "pending ds (finish_delivery exchange (fst x) w) = pending ds w - 1"
proof -
  have "length (filter (\<lambda>(j, _). j \<noteq> fst x) (ws_pool w)) = length (ws_pool w) - 1"
    using assms by (intro length_filter_remove) (auto simp: worker_inv_def pool_inv_def)
  moreover have "0 < length (ws_pool w)" using assms(2) by (rule length_pos_if_in_set)
  ultimately show ?thesis
    by (cases "length (ws_pool w)") (simp_all add: pending_def finish_delivery_def del: length_0_conv)
qed

lemma iteration_progress:
  assumes "worker_inv n exchange ds rs w" and "distinct (map fst ds)" and "0 < n"
  shows "worker_inv n exchange ds rs (worker_iteration n pick exchange ds w)
    \<and> pending ds (worker_iteration n pick exchange ds w) = pending ds w - 1"
proof -
  let ?f = "fill_step n ds w"
  let ?x = "ws_pool ?f ! (pick (ws_sent ?f) (ws_pool ?f) mod length (ws_pool ?f))"
  have inv: "worker_inv n exchange ds rs ?f" by (rule worker_inv_fill [OF assms(1)])
  have pend: "pending ds ?f = pending ds w" by (rule pending_fill [OF assms(1,2)])
  show ?thesis
  proof (cases "ws_pool ?f = []")
    case True
    with fill_step_runs [OF assms] have "pending ds w = 0" by auto
    with True inv pend show ?thesis by (simp add: worker_iteration_def await_one_def)
  next
    case False
    then have x: "?x \<in> set (ws_pool ?f)" by simp
    then have "worker_inv n exchange ds rs (finish_delivery exchange (fst ?x) ?f)"
      using worker_inv_finish [OF inv, of "fst ?x" "snd ?x"] by simp
    moreover have "pending ds (finish_delivery exchange (fst ?x) ?f) = pending ds w - 1"
      using pending_finish [OF inv x] pend by simp
    ultimately show ?thesis
      using False by (simp add: worker_iteration_def await_one_def)
  qed
qed

lemma worker_loop_ends:
  assumes "worker_inv n exchange ds rs w" and "distinct (map fst ds)" and "0 < n"
  shows "\<exists>w'. worker_loop n pick exchange ds w = Some w' \<and> worker_inv n exchange ds rs w' \<and> worker_done ds w'"
  using assms(1)
proof (induction "pending ds w" arbitrary: w rule: less_induct)
  case less
  let ?w = "worker_iteration n pick exchange ds w"
  have inv: "worker_inv n exchange ds rs ?w" and pend: "pending ds ?w = pending ds w - 1"
    using iteration_progress [OF less(2) assms(2,3)] by auto
  show ?case
  proof (cases "worker_done ds ?w")
    case True
    with inv show ?thesis by (subst worker_loop.simps) simp
  next
    case False
    then have "0 < pending ds ?w" using worker_done_iff [OF inv assms(2)] by simp
    with less(1) [OF _ inv] pend False show ?thesis by (subst worker_loop.simps) simp
  qed
qed

section \<open>Refinement\<close>

lemma done_recipients:
  assumes "worker_inv n exchange ds rs w" and "worker_done ds w"
    and "\<And>i. i \<in> fst ` set ds \<longleftrightarrow> i < length rs \<and> \<not> is_finished (rs ! i)"
  shows "ws_recipients w = deliver_once exchange rs"
proof (rule nth_equalityI)
  show "length (ws_recipients w) = length (deliver_once exchange rs)"
    using assms(1) by (simp add: worker_inv_def deliver_once_def)
  fix i assume "i < length (ws_recipients w)"
  then have i: "i < length rs" using assms(1) by (simp add: worker_inv_def)
  have "set (ws_sent w) - fst ` set (ws_pool w) = fst ` set ds"
    using assms(1,2) by (force simp: worker_inv_def pool_inv_def worker_done_def list_all_iff)
  with assms(1,3) i show "ws_recipients w ! i = deliver_once exchange rs ! i"
    by (simp add: worker_inv_def deliver_once_def nth_enumerate_eq)
qed

lemma worker_refines:
  assumes "0 < n" and "\<And>r. r \<in> set rs \<Longrightarrow> \<not> is_finished r \<Longrightarrow> gh (rc_inbox r) \<noteq> None"
  shows "deliver_activity_worker True n gh pick exchange rs = Some (Ok (deliver_once exchange rs))"
proof -
  obtain ds where ds: "list_deliveries gh 0 rs = Ok ds" using list_deliveries_total [where gh = gh, OF assms(2)] by blast
  have "distinct (map fst ds)" and index: "\<And>i. i \<in> fst ` set ds \<longleftrightarrow> i < length rs \<and> \<not> is_finished (rs ! i)"
    using list_deliveries_index [OF ds] by auto
  then obtain w where "worker_loop n pick exchange ds (initial_worker rs) = Some w"
    and "ws_recipients w = deliver_once exchange rs"
    using worker_loop_ends [OF worker_inv_initial _ assms(1)] done_recipients by metis
  with ds show ?thesis by (simp add: deliver_activity_worker_def)
qed

section \<open>A pool of size zero\<close>

lemma fill_pool_zero: "fill_pool 0 ds ([], sent) = ([], sent)"
  by (cases ds) auto

lemma worker_iteration_zero: "ws_pool w = [] \<Longrightarrow> worker_iteration 0 pick exchange ds w = w"
  by (simp add: worker_iteration_def fill_step_def fill_pool_zero await_one_def)

lemma worker_loop_zero:
  assumes "worker_loop 0 pick exchange ds w = Some w'" and "ws_pool w = []"
  shows "worker_done ds w"
proof -
  have "n = 0 \<longrightarrow> ws_pool w = [] \<longrightarrow> worker_done ds w" if "worker_loop n pick exchange ds w = Some w'"
    for n pick exchange ds w w'
    using that
    by (rule worker_loop.raw_induct [rotated]) (auto simp: worker_iteration_zero split: if_splits)
  with assms show ?thesis by blast
qed

text \<open>The worker returns exactly when it can send or has nothing to send.\<close>

lemma worker_returns_iff:
  assumes parse: "\<And>r. r \<in> set rs \<Longrightarrow> \<not> is_finished r \<Longrightarrow> gh (rc_inbox r) \<noteq> None"
  shows "(\<exists>x. deliver_activity_worker True n gh pick exchange rs = Some x) \<longleftrightarrow> 0 < n \<or> list_all is_finished rs"
proof (cases "n = 0")
  case True
  obtain ds where ds: "list_deliveries gh 0 rs = Ok ds" using list_deliveries_total [where gh = gh, OF parse] by blast
  have "i \<in> fst ` set ds \<longleftrightarrow> i < length rs \<and> \<not> is_finished (rs ! i)" for i
    using list_deliveries_index [OF ds] by simp
  then have "fst ` set ds = {i. i < length rs \<and> \<not> is_finished (rs ! i)}" by (intro set_eqI) (simp only: mem_Collect_eq)
  then have "fst ` set ds = {} \<longleftrightarrow> list_all is_finished rs" by (simp only: Collect_empty_eq list_all_length) simp
  then have finished: "ds = [] \<longleftrightarrow> list_all is_finished rs" by simp
  have empty: "worker_done ds (initial_worker rs) \<longleftrightarrow> ds = []"
    by (cases ds) (auto simp: worker_done_def initial_worker_def)
  have it: "worker_iteration 0 pick exchange ds (initial_worker rs) = initial_worker rs"
    by (rule worker_iteration_zero) (simp add: initial_worker_def)
  have "worker_loop 0 pick exchange ds (initial_worker rs) = Some (initial_worker rs)" if "worker_done ds (initial_worker rs)"
    by (subst worker_loop.simps) (simp only: it that if_True)
  then have "(\<exists>w. worker_loop 0 pick exchange ds (initial_worker rs) = Some w) \<longleftrightarrow> worker_done ds (initial_worker rs)"
    using worker_loop_zero [of pick exchange ds "initial_worker rs"] by (auto simp: initial_worker_def)
  then show ?thesis using True ds finished empty by (auto simp: deliver_activity_worker_def)
next
  case False
  then show ?thesis using worker_refines [where gh = gh and n = n and pick = pick and exchange = exchange, OF _ parse] by simp
qed

end
