(* ===== verification/FilterRules.thy ===== *)
theory FilterRules
  imports Uris "HOL-Library.Product_Lexorder" "HOL-Library.List_Lexorder" "HOL-Library.Char_ord"
begin

text \<open>
  Federation filter: the rules in the database (\<open>mitra_models/src/filter_rules/queries.rs\<close>), ordered
  from the least to the most specific, and the decision for a host name
  (\<open>mitra_activitypub/src/filter.rs\<close>). Matching a pattern is the package \<open>wildmatch\<close>, the argument \<open>wm\<close>.
\<close>

section \<open>Rules\<close>

definition same_rule :: "string \<Rightarrow> filter_action \<Rightarrow> filter_rule \<Rightarrow> bool" where
  "same_rule tgt act r \<longleftrightarrow> fl_target r = tgt \<and> fl_action r = act"

definition add_filter_rule :: "string \<Rightarrow> filter_action \<Rightarrow> bool \<Rightarrow> unit db" where
  "add_filter_rule tgt act reversed = modify (\<lambda>s.
     let n = filter_rule_seq (seqs s); t = s\<lparr>seqs := (seqs s)\<lparr>filter_rule_seq := n + 1\<rparr>\<rparr> in
     if list_ex (same_rule tgt act) (filter_rules s)
     then t\<lparr>filter_rules := update_where (same_rule tgt act) (\<lambda>r. r\<lparr>fl_is_reversed := reversed\<rparr>) (filter_rules s)\<rparr>
     else t\<lparr>filter_rules := filter_rules s @ [\<lparr>fl_id = n, fl_target = tgt, fl_action = act, fl_is_reversed = reversed\<rparr>]\<rparr>)"

definition remove_filter_rule :: "string \<Rightarrow> filter_action \<Rightarrow> unit db" where
  "remove_filter_rule tgt act =
     bnd (gets (\<lambda>s. count_where (same_rule tgt act) (filter_rules s))) (\<lambda>n.
     seq (modify (\<lambda>s. s\<lparr>filter_rules := delete_where (same_rule tgt act) (filter_rules s)\<rparr>))
     (if n = 0 then throw (NotFound ''filter rule'') else ret ()))"

text \<open>Rules with a wildcard first, then by length, by the reversed target, by the action.\<close>

definition rule_order :: "filter_rule \<Rightarrow> bool \<times> nat \<times> string \<times> int" where
  "rule_order r = (CHR ''*'' \<notin> set (fl_target r), length (fl_target r), rev (fl_target r),
     filter_action_to_i16 (fl_action r))"

definition get_filter_rules :: "filter_rule list db" where
  "get_filter_rules = gets (\<lambda>s. sort_key rule_order (filter_rules s))"

section \<open>Decisions\<close>

type_synonym wildmatch = "string \<Rightarrow> string \<Rightarrow> bool"

definition is_hostname_allowed :: "wildmatch \<Rightarrow> string list \<Rightarrow> string list \<Rightarrow> string \<Rightarrow> bool" where
  "is_hostname_allowed wm blocklist allowlist hostname =
     (if list_ex (\<lambda>b. wm b hostname) blocklist then list_ex (\<lambda>a. wm a hostname) allowlist else True)"

record federation_filter =
  ff_blocklist :: "string list"
  ff_allowlist :: "string list"
  ff_rules :: "filter_rule list"

definition federation_filter_init :: "string list option \<Rightarrow> string list option \<Rightarrow> federation_filter db" where
  "federation_filter_init blocked allowed =
     bnd get_filter_rules (\<lambda>rules.
     ret \<lparr>ff_blocklist = (case blocked of Some b \<Rightarrow> b | None \<Rightarrow> []),
          ff_allowlist = (case allowed of Some a \<Rightarrow> a | None \<Rightarrow> []), ff_rules = rules\<rparr>)"

definition is_action_required :: "wildmatch \<Rightarrow> federation_filter \<Rightarrow> string \<Rightarrow> filter_action \<Rightarrow> bool" where
  "is_action_required wm f hostname act =
     (let initial = (if act = FaRejectIncoming
                     then \<not> is_hostname_allowed wm (ff_blocklist f) (ff_allowlist f) hostname else False) in
      foldl (\<lambda>_ r. \<not> fl_is_reversed r) initial
        (filter (\<lambda>r. fl_action r = act) (filter (\<lambda>r. wm (fl_target r) hostname) (ff_rules f))))"

definition is_incoming_blocked :: "wildmatch \<Rightarrow> federation_filter \<Rightarrow> string \<Rightarrow> bool" where
  "is_incoming_blocked wm f hostname \<longleftrightarrow>
     is_action_required wm f hostname FaRejectIncoming \<or> is_action_required wm f hostname FaReject"

definition get_moderation_domain :: "uri_library \<Rightarrow> db_actor \<Rightarrow> (database_error, string) outcome" where
  "get_moderation_domain L a =
     obind (if actor_is_portable a then ok_or TypeError (case da_gateways a of [] \<Rightarrow> None | g # _ \<Rightarrow> Some g)
            else Ok (da_id a)) (\<lambda>url.
     obind (map_err (\<lambda>_. TypeError) (parse_http_url_from_db L url)) (\<lambda>u. Ok (http_hostname u)))"

section \<open>The most specific rule decides\<close>

lemma foldl_last: "foldl (\<lambda>_ x. f x) a xs = (if xs = [] then a else f (last xs))"
  by (induction xs arbitrary: a) auto

lemma last_sort_key_max:
  assumes "x \<in> set xs" and "\<And>y. y \<in> set xs \<Longrightarrow> y \<noteq> x \<Longrightarrow> f y < f x"
  shows "last (sort_key f xs) = x"
proof (rule ccontr)
  let ?ys = "sort_key f xs"
  assume other: "last ?ys \<noteq> x"
  have ne: "?ys \<noteq> []" using assms(1) by (metis empty_iff empty_set set_sort)
  then have "last ?ys \<in> set xs" by (metis last_in_set set_sort)
  with other have less: "f (last ?ys) < f x" by (rule assms(2) [rotated])
  have "\<forall>z \<in> set (map f ?ys). z \<le> last (map f ?ys)"
    using sorted_sort_key [of f xs] ne
    by (metis (no_types, lifting) append_butlast_last_id map_is_Nil_conv order_refl
        set_append sorted_append Un_iff empty_iff insert_iff list.set)
  then have "f x \<le> f (last ?ys)" using assms(1) ne by (simp add: last_map)
  with less show False by simp
qed

text \<open>What is used of the package: a pattern without wildcards matches itself and nothing else.\<close>

definition wildmatch_laws :: "wildmatch \<Rightarrow> bool" where
  "wildmatch_laws wm \<longleftrightarrow>
     (\<forall>p h. CHR ''*'' \<notin> set p \<longrightarrow> CHR ''?'' \<notin> set p \<longrightarrow> wm p h = (p = h))"

definition rules_ok :: "database \<Rightarrow> bool" where
  "rules_ok s \<longleftrightarrow> unique_by (\<lambda>r. (fl_target r, fl_action r)) (filter_rules s)"

lemma add_filter_rule_preserves: "preserves rules_ok (add_filter_rule tgt act reversed)"
  unfolding add_filter_rule_def
  by (rule preserves_modify)
    (auto simp: rules_ok_def Let_def unique_by_update unique_by_append_single list_ex_iff same_rule_def)

lemma exact_rule_required:
  assumes laws: "wildmatch_laws wm" and ok: "rules_ok s" and r: "r \<in> set (filter_rules s)" "same_rule hostname act r"
    and host: "CHR ''*'' \<notin> set hostname"
    and plain: "\<And>x. x \<in> set (filter_rules s) \<Longrightarrow> CHR ''?'' \<notin> set (fl_target x)"
    and f: "ff_rules f = sort_key rule_order (filter_rules s)"
  shows "is_action_required wm f hostname act = (\<not> fl_is_reversed r)"
proof -
  let ?P = "\<lambda>x. wm (fl_target x) hostname \<and> fl_action x = act"
  let ?xs = "filter ?P (filter_rules s)"
  have target: "fl_target r = hostname" "fl_action r = act" using r(2) by (simp_all add: same_rule_def)
  then have "wm (fl_target r) hostname" using laws host plain [OF r(1)] by (simp add: wildmatch_laws_def)
  then have mem: "r \<in> set ?xs" using r(1) target by simp
  have "rule_order x < rule_order r" if x: "x \<in> set ?xs" "x \<noteq> r" for x
  proof -
    have "fl_target x \<noteq> hostname"
      using x target ok r(1) unfolding rules_ok_def by (auto dest: unique_byD)
    then have "CHR ''*'' \<in> set (fl_target x)"
      using x laws plain [of x] by (auto simp: wildmatch_laws_def)
    then show ?thesis using host by (simp add: rule_order_def target less_prod_def)
  qed
  then have "last (sort_key rule_order ?xs) = r" by (rule last_sort_key_max [OF mem])
  moreover have "0 < length (sort_key rule_order ?xs)"
    using length_pos_if_in_set [OF mem] by (simp only: length_sort)
  moreover have "filter (\<lambda>r. fl_action r = act) (filter (\<lambda>r. wm (fl_target r) hostname) (ff_rules f)) = sort_key rule_order ?xs"
    by (simp only: f filter_sort filter_filter conj_commute)
  ultimately show ?thesis by (simp only: is_action_required_def foldl_last Let_def length_greater_0_conv if_False)
qed

end
