(* ===== verification/MediaFiles.thy ===== *)
theory MediaFiles
  imports Posts Jobs
begin

text \<open>
  Clean-up of media files (\<open>mitra_models/src/media/queries.rs\<close>): the job that deletes the files of
  removed rows first drops the names that another row still refers to.
\<close>

text \<open>\<open>DeletionQueue::into_job\<close>; the fields are those of the derived \<open>Serialize\<close>.\<close>

definition deletion_queue_to_value :: "deletion_queue \<Rightarrow> json" where
  "deletion_queue_to_value q = JObject [
     (''files'', JArray (map JString (dq_files q))), (''ipfs_objects'', JArray (map JString (dq_ipfs_objects q)))]"

definition deletion_queue_into_job :: "uuid \<Rightarrow> deletion_queue \<Rightarrow> unit db" where
  "deletion_queue_into_job jid q =
     bnd (gets current_timestamp) (\<lambda>now.
     seq (enqueue_job jid MediaCleanup (deletion_queue_to_value q) now) (ret ()))"

text \<open>\<open>media ->> 'file_name'\<close>: the file name, or null for a link.\<close>

definition media_file :: "partial_media_info option \<Rightarrow> string option" where
  "media_file m = Option.bind m into_file_name"

definition files_in_use :: "database \<Rightarrow> string list" where
  "files_in_use s =
     List.map_filter (\<lambda>a. into_file_name (ma_media a)) (media_attachments s)
     @ List.map_filter (\<lambda>x. x) (concat (map (\<lambda>a. [media_file (p_avatar a), media_file (p_banner a)]) (actor_profiles s)))
     @ List.map_filter (\<lambda>e. into_file_name (em_image e)) (emojis s)
     @ List.map_filter (\<lambda>m. into_file_name (am_media m)) (activitypub_medias s)"

definition find_orphaned_files :: "string list \<Rightarrow> string list db" where
  "find_orphaned_files files = gets (\<lambda>s. remdups (filter (\<lambda>f. f \<notin> set (files_in_use s)) files))"

definition find_orphaned_ipfs_objects :: "string list \<Rightarrow> string list db" where
  "find_orphaned_ipfs_objects objects = gets (\<lambda>s. remdups (filter (\<lambda>c.
     \<not> list_ex (\<lambda>a. ma_ipfs_cid a = Some c) (media_attachments s)
     \<and> \<not> list_ex (\<lambda>p. po_ipfs_cid p = Some c) (posts s)) objects))"

definition filter_objects :: "deletion_queue \<Rightarrow> deletion_queue db" where
  "filter_objects q =
     bnd (find_orphaned_files (dq_files q)) (\<lambda>files.
     bnd (find_orphaned_ipfs_objects (dq_ipfs_objects q)) (\<lambda>objects.
     ret \<lparr>dq_files = files, dq_ipfs_objects = objects\<rparr>))"

end
