(* ===== verification/ProfileDeletion.thy ===== *)
theory ProfileDeletion
  imports PostDeletion MediaFiles "HOL-Library.List_Lexorder" "HOL-Library.Char_ord"
begin

text \<open>
  Deleting a profile (\<open>mitra_models/src/profiles/queries.rs\<close>, \<open>delete_profile\<close>): the counters the code
  adjusts by hand, then the row with everything the foreign keys of \<open>schema.sql\<close> delete along. The
  files and IPFS objects that lose their owner are returned for clean-up.
\<close>

section \<open>Counters\<close>

text \<open>\<open>UPDATE ... SET c = c - n FROM ...\<close>, where \<open>n\<close> is 0 for a row without a match; the \<open>CHECK\<close> of the
  column refuses a negative value.\<close>

definition lower_profiles ::
  "(actor_profile \<Rightarrow> int) \<Rightarrow> (int \<Rightarrow> actor_profile \<Rightarrow> actor_profile) \<Rightarrow> (database \<Rightarrow> actor_profile \<Rightarrow> int) \<Rightarrow> unit stmt" where
  "lower_profiles cnt add n s =
     (if list_ex (\<lambda>a. n s a \<noteq> 0 \<and> cnt a - n s a < 0) (actor_profiles s) then (Err CheckViolation, s)
      else (Ok (), s\<lparr>actor_profiles := map (\<lambda>a. add (- n s a) a) (actor_profiles s)\<rparr>))"

definition lower_posts ::
  "(post \<Rightarrow> int) \<Rightarrow> (int \<Rightarrow> post \<Rightarrow> post) \<Rightarrow> (database \<Rightarrow> post \<Rightarrow> int) \<Rightarrow> unit stmt" where
  "lower_posts cnt add n s =
     (if list_ex (\<lambda>p. n s p \<noteq> 0 \<and> cnt p - n s p < 0) (posts s) then (Err CheckViolation, s)
      else (Ok (), s\<lparr>posts := map (\<lambda>p. add (- n s p) p) (posts s)\<rparr>))"

definition one_if :: "bool \<Rightarrow> int" where
  "one_if b = (if b then 1 else 0)"

text \<open>A joined row is updated once, however many rows it joins with.\<close>

definition lower_profile_counters :: "uuid \<Rightarrow> unit db" where
  "lower_profile_counters pid =
     seq (run (lower_profiles p_follower_count add_follower_count
            (\<lambda>s a. one_if (related_to s pid (p_id a) RelFollow))))
     (seq (run (lower_profiles p_following_count add_following_count
            (\<lambda>s a. one_if (related_to s (p_id a) pid RelFollow))))
     (run (lower_profiles p_subscriber_count add_subscriber_count
            (\<lambda>s a. one_if (related_to s pid (p_id a) RelSubscription)))))"

definition lower_post_counters :: "uuid \<Rightarrow> unit db" where
  "lower_post_counters pid =
     seq (run (lower_posts po_reply_count add_reply_count
            (\<lambda>s p. count_where (\<lambda>q. po_author_id q = pid \<and> po_in_reply_to_id q = Some (po_id p)) (posts s))))
     (seq (run (lower_posts po_reaction_count add_reaction_count
            (\<lambda>s p. one_if (list_ex (\<lambda>r. re_post_id r = po_id p \<and> re_author_id r = pid) (reactions s)))))
     (run (lower_posts po_repost_count add_repost_count
            (\<lambda>s p. one_if (list_ex (\<lambda>q. po_repost_of_id q = Some (po_id p) \<and> po_author_id q = pid) (posts s))))))"

section \<open>Rows\<close>

text \<open>The posts that go first: those of the profile, those in its group, those of a conversation
  of its group.\<close>

definition profile_posts :: "database \<Rightarrow> uuid \<Rightarrow> uuid list" where
  "profile_posts s pid = map po_id (filter (\<lambda>p. po_author_id p = pid \<or> po_group_id p = Some pid
     \<or> list_ex (\<lambda>c. po_conversation_id p = Some (cv_id c) \<and> cv_group_id c = Some pid) (conversations s)) (posts s))"

definition remove_profile :: "uuid \<Rightarrow> database \<Rightarrow> database" where
  "remove_profile pid s0 =
     (let s = remove_posts (set (cascade_posts s0 (profile_posts s0 pid))) s0;
          gone_invoice = (\<lambda>i. inv_sender_id i = pid \<or> inv_recipient_id i = pid);
          gone_relationship = (\<lambda>r. rel_source_id r = pid \<or> rel_target_id r = pid) in
      s\<lparr>actor_profiles := delete_where (\<lambda>a. p_id a = pid) (actor_profiles s),
        user_accounts := delete_where (\<lambda>u. u_id u = pid) (user_accounts s),
        automated_accounts := delete_where (\<lambda>a. aa_id a = pid) (automated_accounts s),
        relationships := delete_where gone_relationship (relationships s),
        follow_requests := delete_where (\<lambda>r. fr_source_id r = pid \<or> fr_target_id r = pid) (follow_requests s),
        notifications := delete_where (\<lambda>n. ntf_sender_id n = pid \<or> ntf_recipient_id n = pid
          \<or> list_ex (\<lambda>i. gone_invoice i \<and> ntf_invoice_id n = Some (inv_id i)) (invoices s)
          \<or> list_ex (\<lambda>r. re_author_id r = pid \<and> ntf_reaction_id n = Some (re_id r)) (reactions s)) (notifications s),
        payment_methods := delete_where (\<lambda>m. pm_owner_id m = pid) (payment_methods s),
        invoices := delete_where gone_invoice (invoices s),
        subscriptions := delete_where (\<lambda>x. sub_sender_id x = pid \<or> sub_recipient_id x = pid) (subscriptions s),
        conversations := delete_where (\<lambda>c. cv_group_id c = Some pid) (conversations s),
        conversation_trackings := delete_where (\<lambda>t. ct_account_id t = pid
          \<or> list_ex (\<lambda>c. cv_group_id c = Some pid \<and> cv_id c = ct_conversation_id t) (conversations s)) (conversation_trackings s),
        poll_votes := delete_where (\<lambda>v. pv_voter_id v = pid) (poll_votes s),
        reactions := delete_where (\<lambda>r. re_author_id r = pid) (reactions s),
        media_attachments := delete_where (\<lambda>a. ma_owner_id a = pid) (media_attachments s),
        post_mentions := delete_where (\<lambda>m. mn_profile_id m = pid) (post_mentions s),
        bookmarks := delete_where (\<lambda>b. bk_owner_id b = pid) (bookmarks s),
        custom_feeds := delete_where (\<lambda>f. cf_owner_id f = pid) (custom_feeds s),
        custom_feed_sources := delete_where (\<lambda>x. cs_source_id x = pid
          \<or> list_ex (\<lambda>f. cf_owner_id f = pid \<and> cf_id f = cs_feed_id x) (custom_feeds s)) (custom_feed_sources s),
        collection_items := delete_where (\<lambda>i. ci_owner_id i = pid
          \<or> list_ex (\<lambda>a. ao_profile_id a = Some pid \<and> ao_object_id a = ci_object_id i) (activitypub_objects s)
          \<or> list_ex (\<lambda>r. gone_relationship r \<and> ci_relationship_id i = Some (rel_id r)) (relationships s)) (collection_items s),
        activitypub_objects := delete_where (\<lambda>a. ao_profile_id a = Some pid) (activitypub_objects s),
        activitypub_medias := delete_where (\<lambda>m. am_owner_id m = pid) (activitypub_medias s),
        portable_user_accounts := delete_where (\<lambda>u. pua_id u = pid) (portable_user_accounts s),
        profile_emojis := delete_where (\<lambda>e. pfe_profile_id e = pid) (profile_emojis s),
        oauth_authorizations := delete_where (\<lambda>z. oz_user_id z = pid) (oauth_authorizations s),
        oauth_tokens := delete_where (\<lambda>k. ot_owner_id k = pid) (oauth_tokens s),
        timeline_markers := delete_where (\<lambda>m. tm_user_id m = pid) (timeline_markers s)\<rparr>)"

definition profile_media :: "uuid \<Rightarrow> uuid list \<Rightarrow> database \<Rightarrow> deletion_queue" where
  "profile_media pid ids s = \<lparr>
     dq_files = List.map_filter into_file_name
       (concat (map (\<lambda>a. List.map_filter (\<lambda>x. x) [p_avatar a, p_banner a]) (filter (\<lambda>a. p_id a = pid) (actor_profiles s)))
        @ map ma_media (filter (\<lambda>a. case ma_post_id a of Some i \<Rightarrow> i \<in> set ids | None \<Rightarrow> False) (media_attachments s))
        @ map am_media (filter (\<lambda>m. am_owner_id m = pid) (activitypub_medias s))),
     dq_ipfs_objects = dq_ipfs_objects (context_media ids s)\<rparr>"

definition delete_profile :: "uuid \<Rightarrow> deletion_queue db" where
  "delete_profile pid = transaction (
     bnd (gets (\<lambda>s. context_posts s (map po_id (filter (\<lambda>p. po_author_id p = pid) (posts s))))) (\<lambda>ids.
     bnd (gets (profile_media pid ids)) (\<lambda>queue.
     seq (run (subtract_post_counts ids))
     (seq (lower_profile_counters pid)
     (seq (lower_post_counters pid)
     (bnd (gets (\<lambda>s. count_where (\<lambda>a. p_id a = pid) (actor_profiles s))) (\<lambda>deleted_count.
      seq (modify (\<lambda>s. if deleted_count = 0 then s else remove_profile pid s))
      (if deleted_count = 0 then throw (NotFound ''profile'') else ret queue))))))))"

section \<open>Reachability\<close>

definition new_unreachable_since :: "datetime \<Rightarrow> bool \<Rightarrow> datetime option \<Rightarrow> datetime option" where
  "new_unreachable_since now is_unreachable since =
     (if is_unreachable \<and> since \<noteq> None then since
      else if is_unreachable \<and> since = None then Some now
      else None)"

definition set_reachability_status :: "(string \<times> bool) list \<Rightarrow> unit db" where
  "set_reachability_status statuses = modify (\<lambda>s. s\<lparr>actor_profiles := map (\<lambda>a.
     case Option.bind (p_actor_json a) (\<lambda>j. map_of statuses (da_id j)) of
       Some is_unreachable \<Rightarrow> a\<lparr>p_unreachable_since :=
         new_unreachable_since (current_timestamp s) is_unreachable (p_unreachable_since a)\<rparr>
     | None \<Rightarrow> a) (actor_profiles s)\<rparr>)"

definition find_unreachable :: "externals \<Rightarrow> datetime \<Rightarrow> actor_profile list db" where
  "find_unreachable X unreachable_since =
     bnd (gets (\<lambda>s. sort_key (\<lambda>a. (case p_hostname a of Some h \<Rightarrow> (False, h) | None \<Rightarrow> (True, []), p_username a))
            (filter (\<lambda>a. case p_unreachable_since a of Some t \<Rightarrow> t < unreachable_since | None \<Rightarrow> False) (actor_profiles s))))
       (profiles_try_from X)"

section \<open>The counters of the other profiles\<close>

lemma lower_profiles_Ok:
  "run (lower_profiles cnt add n) s = (Ok u, t) \<longleftrightarrow>
     (\<forall>a \<in> set (actor_profiles s). n s a = 0 \<or> 0 \<le> cnt a - n s a)
     \<and> t = s\<lparr>actor_profiles := map (\<lambda>a. add (- n s a) a) (actor_profiles s)\<rparr>"
  by (auto simp: run_Ok lower_profiles_def list_ex_iff split: if_splits)

lemma lower_posts_frame: "lower_posts cnt add n s = (r, t) \<Longrightarrow>
   actor_profiles t = actor_profiles s \<and> relationships t = relationships s \<and> follow_requests t = follow_requests s"
  by (auto simp: lower_posts_def split: if_splits)

text \<open>The rows of the deleted profile that another profile counts, and what the code subtracts.\<close>

lemma count_gone_relationships:
  assumes uniq: "unique_by rel_key rs"
    and refs: "\<And>r. r \<in> set rs \<Longrightarrow> ref r = Some a \<and> (rel_source_id r = pid \<or> rel_target_id r = pid) \<longleftrightarrow> is_rel src tgt ty r"
  shows "count_where (\<lambda>r. ref r = Some a) (delete_where (\<lambda>r. rel_source_id r = pid \<or> rel_target_id r = pid) rs)
    = count_where (\<lambda>r. ref r = Some a) rs - one_if (list_ex (is_rel src tgt ty) rs)"
proof -
  have "count_where (\<lambda>r. ref r = Some a \<and> (rel_source_id r = pid \<or> rel_target_id r = pid)) rs
      = count_where (is_rel src tgt ty) rs"
    by (rule count_where_cong) (use refs in simp)
  also have "\<dots> = one_if (list_ex (is_rel src tgt ty) rs)"
    using count_where_unique_le1 [OF uniq, of "is_rel src tgt ty"]
    by (auto simp: one_if_def list_ex_iff is_rel_def rel_key_def)
  finally show ?thesis
    using count_where_split [of "\<lambda>r. ref r = Some a" rs "\<lambda>r. rel_source_id r = pid \<or> rel_target_id r = pid"]
    by (simp add: count_where_delete)
qed

definition lowered :: "uuid \<Rightarrow> relationship list \<Rightarrow> actor_profile \<Rightarrow> actor_profile \<Rightarrow> bool" where
  "lowered pid rs a b \<longleftrightarrow> p_id b = p_id a
     \<and> p_follower_count b = p_follower_count a - one_if (list_ex (is_rel pid (p_id a) RelFollow) rs)
     \<and> p_following_count b = p_following_count a - one_if (list_ex (is_rel (p_id a) pid RelFollow) rs)
     \<and> p_subscriber_count b = p_subscriber_count a - one_if (list_ex (is_rel pid (p_id a) RelSubscription) rs)"

lemma delete_profile_effect:
  assumes "delete_profile pid s = (Ok q, t)"
  shows "relationships t = delete_where (\<lambda>r. rel_source_id r = pid \<or> rel_target_id r = pid) (relationships s)"
    "follow_requests t = delete_where (\<lambda>r. fr_source_id r = pid \<or> fr_target_id r = pid) (follow_requests s)"
    "\<exists>ps. list_all2 (lowered pid (relationships s)) (actor_profiles s) ps
       \<and> actor_profiles t = delete_where (\<lambda>a. p_id a = pid) ps"
proof -
  from assms obtain ids s1 s2 s3 where
    sub: "subtract_post_counts ids s = (Ok (), s1)" and
    low: "lower_profile_counters pid s1 = (Ok (), s2)" and
    posts: "lower_post_counters pid s2 = (Ok (), s3)" and
    t: "t = remove_profile pid s3"
    by (auto simp: delete_profile_def ok_runs split: if_splits)
  have s1: "s1 = s\<lparr>actor_profiles := map (\<lambda>a. add_post_count (- posts_by s ids (p_id a)) a) (actor_profiles s)\<rparr>"
    using sub by (auto simp: subtract_post_counts_def split: if_splits)
  have s3: "actor_profiles s3 = actor_profiles s2" "relationships s3 = relationships s2" "follow_requests s3 = follow_requests s2"
    using posts by (auto simp: lower_post_counters_def seq_Ok run_Ok dest!: lower_posts_frame)
  have s2: "relationships s2 = relationships s" "follow_requests s2 = follow_requests s"
    using low by (auto simp: lower_profile_counters_def seq_Ok lower_profiles_Ok s1)
  have "list_all2 (lowered pid (relationships s)) (actor_profiles s) (actor_profiles s2)"
    using low by (auto simp: lower_profile_counters_def seq_Ok lower_profiles_Ok s1 list_all2_conv_all_nth lowered_def
        related_to_def add_post_count_def add_follower_count_def add_following_count_def add_subscriber_count_def)
  with s2 s3 show "relationships t = delete_where (\<lambda>r. rel_source_id r = pid \<or> rel_target_id r = pid) (relationships s)"
    "follow_requests t = delete_where (\<lambda>r. fr_source_id r = pid \<or> fr_target_id r = pid) (follow_requests s)"
    "\<exists>ps. list_all2 (lowered pid (relationships s)) (actor_profiles s) ps
       \<and> actor_profiles t = delete_where (\<lambda>a. p_id a = pid) ps"
    by (auto simp: t remove_profile_def remove_posts_def Let_def)
qed

lemma lowered_counts:
  assumes inv: "rel_inv s" and a: "a \<in> set (actor_profiles s)" "p_id a \<noteq> pid" and b: "lowered pid (relationships s) a b"
  defines "rs \<equiv> delete_where (\<lambda>r. rel_source_id r = pid \<or> rel_target_id r = pid) (relationships s)"
  shows "p_follower_count b = count_where (\<lambda>r. follower_ref r = Some (p_id b)) rs"
    "p_following_count b = count_where (\<lambda>r. following_ref r = Some (p_id b)) rs"
    "p_subscriber_count b = count_where (\<lambda>r. subscriber_ref r = Some (p_id b)) rs"
proof -
  note uniq = rel_invD(2) [OF inv]
  have exact: "p_follower_count a = count_where (\<lambda>r. follower_ref r = Some (p_id a)) (relationships s)"
    "p_following_count a = count_where (\<lambda>r. following_ref r = Some (p_id a)) (relationships s)"
    "p_subscriber_count a = count_where (\<lambda>r. subscriber_ref r = Some (p_id a)) (relationships s)"
    using inv a(1) by (simp_all add: rel_inv_def counts_ok_def counted_by_def)
  show "p_follower_count b = count_where (\<lambda>r. follower_ref r = Some (p_id b)) rs"
  proof -
    have "(follower_ref r = Some (p_id a) \<and> (rel_source_id r = pid \<or> rel_target_id r = pid)) = is_rel pid (p_id a) RelFollow r" for r
      using a(2) by (auto simp: follower_ref_def is_rel_def)
    from count_gone_relationships [OF uniq this] show ?thesis using b exact by (simp add: lowered_def rs_def)
  qed
  show "p_following_count b = count_where (\<lambda>r. following_ref r = Some (p_id b)) rs"
  proof -
    have "(following_ref r = Some (p_id a) \<and> (rel_source_id r = pid \<or> rel_target_id r = pid)) = is_rel (p_id a) pid RelFollow r" for r
      using a(2) by (auto simp: following_ref_def is_rel_def)
    from count_gone_relationships [OF uniq this] show ?thesis using b exact by (simp add: lowered_def rs_def)
  qed
  show "p_subscriber_count b = count_where (\<lambda>r. subscriber_ref r = Some (p_id b)) rs"
  proof -
    have "(subscriber_ref r = Some (p_id a) \<and> (rel_source_id r = pid \<or> rel_target_id r = pid)) = is_rel pid (p_id a) RelSubscription r" for r
      using a(2) by (auto simp: subscriber_ref_def is_rel_def)
    from count_gone_relationships [OF uniq this] show ?thesis using b exact by (simp add: lowered_def rs_def)
  qed
qed

lemma delete_profile_rel_inv:
  assumes inv: "rel_inv s" and run: "delete_profile pid s = (Ok q, t)"
  shows "rel_inv t"
proof -
  note eff = delete_profile_effect [OF run]
  obtain ps where ps: "list_all2 (lowered pid (relationships s)) (actor_profiles s) ps"
    "actor_profiles t = delete_where (\<lambda>a. p_id a = pid) ps" using eff(3) by blast
  have ids: "map p_id ps = map p_id (actor_profiles s)"
    using ps(1) by (induction rule: list_all2_induct) (simp_all add: lowered_def)
  then have id_set: "p_id ` set ps = p_id ` set (actor_profiles s)" by (metis image_set)
  have orig: "\<exists>a \<in> set (actor_profiles s). p_id a \<noteq> pid \<and> lowered pid (relationships s) a b"
    if b: "b \<in> set (actor_profiles t)" for b
  proof -
    have "b \<in> set ps" "p_id b \<noteq> pid" using b by (simp_all add: ps(2))
    then obtain i where "i < length ps" "b = ps ! i" by (metis in_set_conv_nth)
    then show ?thesis using ps(1) \<open>p_id b \<noteq> pid\<close>
      by (intro bexI [of _ "actor_profiles s ! i"]) (auto simp: list_all2_conv_all_nth lowered_def)
  qed
  have "p_follower_count b = count_where (\<lambda>r. follower_ref r = Some (p_id b)) (relationships t)
      \<and> p_following_count b = count_where (\<lambda>r. following_ref r = Some (p_id b)) (relationships t)
      \<and> p_subscriber_count b = count_where (\<lambda>r. subscriber_ref r = Some (p_id b)) (relationships t)"
    if "b \<in> set (actor_profiles t)" for b
    using orig [OF that] lowered_counts [OF inv] unfolding eff(1) by blast
  then have "counts_ok (actor_profiles t) (relationships t)" by (simp only: counts_ok_def counted_by_def) blast
  moreover have "unique_by p_id ps" using inv ids by (simp add: rel_inv_def unique_by_def)
  moreover have "has_profile (actor_profiles t) i" if i: "has_profile (actor_profiles s) i" "i \<noteq> pid" for i
  proof -
    obtain b where "b \<in> set ps" "p_id b = i" using i(1) id_set unfolding has_profile_def by (metis imageE)
    then show ?thesis using i(2) by (auto simp: has_profile_def ps(2))
  qed
  ultimately show ?thesis using inv unfolding rel_inv_def eff(1,2) by (simp add: ps(2))
qed

end
