(* ===== verification/OutgoingQueue.thy ===== *)
theory OutgoingQueue
  imports Deliverer FilterRules ProfileDeletion
begin

text \<open>
  The outgoing queue (\<open>mitra_activitypub/src/queues.rs\<close>, \<open>process_queued_outgoing_activities\<close>): local
  inboxes are filled directly, blocked hosts are given up, the delivery worker sends the rest,
  unfinished deliveries are queued again a bounded number of times, then the reachability of the
  recipients is recorded and profiles that are gone are deleted. A worker that never returns makes
  the whole operation not return: the result is an \<open>option\<close>.
\<close>

section \<open>Recipients\<close>

definition recipient_for_inbox :: "uri_library \<Rightarrow> db_actor \<Rightarrow> (database_error, recipient list) outcome" where
  "recipient_for_inbox L a =
     (if actor_is_portable a
      then try_map (\<lambda>gateway. case db_url_to_http_url L (da_inbox a) gateway of
             Ok inbox \<Rightarrow> Ok (recipient_new (da_id a) inbox)
           | _ \<Rightarrow> Panic ''actor inbox URL should be valid'') (da_gateways a)
      else Ok [recipient_new (da_id a) (da_inbox a)])"

section \<open>Local inboxes\<close>

text \<open>\<open>INSERT INTO activitypub_collection_item ... ON CONFLICT (collection_id, object_id) DO NOTHING\<close>.\<close>

definition add_object_to_collection :: "uuid \<Rightarrow> string \<Rightarrow> string \<Rightarrow> unit db" where
  "add_object_to_collection owner cid oid = run (\<lambda>s.
     if list_ex (\<lambda>i. ci_collection_id i = cid \<and> ci_object_id i = oid) (collection_items s) then (Ok (), s)
     else if \<not> profile_exists s owner \<or> \<not> list_ex (\<lambda>a. ao_object_id a = oid) (activitypub_objects s)
     then (Err ForeignKeyViolation, s)
     else (Ok (), s\<lparr>collection_items := collection_items s @ [\<lparr>ci_owner_id = owner, ci_collection_id = cid,
             ci_object_id = oid, ci_relationship_id = None\<rparr>]\<rparr>))"

record federation_config =
  fc_enabled :: bool
  fc_instance_uri :: http_uri
  fc_blocked_instances :: "string list option"
  fc_allowed_instances :: "string list option"

definition expect_actor_data :: "actor_profile \<Rightarrow> db_actor db" where
  "expect_actor_data p = (case p_actor_json p of
      Some a \<Rightarrow> ret a | None \<Rightarrow> panic ''actor data should be present'')"

definition deliver_locally ::
  "externals \<Rightarrow> uri_library \<Rightarrow> federation_config \<Rightarrow> string \<Rightarrow> recipient \<Rightarrow> recipient db" where
  "deliver_locally X L cfg activity_id r = (case parse_http_url_from_db L (rc_inbox r) of
      Ok inbox \<Rightarrow>
        if http_origin inbox = http_origin (fc_instance_uri cfg) \<and> \<not> rc_is_delivered r then
          bnd (get_remote_profile_by_actor_id X (rc_id r)) (\<lambda>p.
          seq (if has_portable_account p
               then bnd (expect_actor_data p) (\<lambda>a. add_object_to_collection (p_id p) (da_inbox a) activity_id)
               else ret ())
          (ret (r\<lparr>rc_is_delivered := True\<rparr>)))
        else ret r
    | _ \<Rightarrow> panic ''actor inbox URL should be valid'')"

text \<open>A loop over \<open>iter_mut\<close>.\<close>

definition map_p :: "('x \<Rightarrow> ('s, 'e, 'x) prog) \<Rightarrow> 'x list \<Rightarrow> ('s, 'e, 'x list) prog" where
  "map_p f xs = fold_p (\<lambda>x acc. bnd (f x) (\<lambda>y. ret (acc @ [y]))) xs []"

section \<open>Blocked hosts\<close>

definition block_recipient ::
  "uri_library \<Rightarrow> wildmatch \<Rightarrow> federation_filter \<Rightarrow> recipient \<Rightarrow> recipient db" where
  "block_recipient L wm f r =
     (if is_finished r then ret r
      else bnd (type_check (parse_http_url_from_db L (rc_inbox r))) (\<lambda>inbox.
        if is_action_required wm f (http_hostname inbox) FaReject then ret (r\<lparr>rc_is_unreachable := True\<rparr>)
        else ret r))"

section \<open>After the attempt\<close>

definition unreachable_noretry :: int where
  "unreachable_noretry = 3600 * 24 * 30"

definition mark_unreachable :: "externals \<Rightarrow> recipient \<Rightarrow> recipient db" where
  "mark_unreachable X r =
     (if rc_is_delivered r then ret r
      else if rc_is_gone r then ret (r\<lparr>rc_is_unreachable := True\<rparr>)
      else match_result (get_remote_profile_by_actor_id X (rc_id r))
        (\<lambda>p. bnd (gets current_timestamp) (\<lambda>now.
           case p_unreachable_since p of
             Some since \<Rightarrow> if since + seconds unreachable_noretry < now then ret (r\<lparr>rc_is_unreachable := True\<rparr>) else ret r
           | None \<Rightarrow> ret r))
        (\<lambda>e. case e of NotFound _ \<Rightarrow> ret (r\<lparr>rc_is_unreachable := True\<rparr>) | _ \<Rightarrow> throw e))"

text \<open>The \<open>BTreeMap\<close> of the recipients of every actor, in the order of the identifiers.\<close>

definition recipients_by_actor :: "recipient list \<Rightarrow> (string \<times> recipient list) list" where
  "recipients_by_actor rs =
     map (\<lambda>i. (i, filter (\<lambda>r. rc_id r = i) rs)) (sort (remdups (map rc_id rs)))"

definition gone_actors :: "recipient list \<Rightarrow> string list" where
  "gone_actors rs = map fst (filter (\<lambda>(i, inboxes). list_all rc_is_gone inboxes) (recipients_by_actor rs))"

definition reachability_statuses :: "recipient list \<Rightarrow> (string \<times> bool) list" where
  "reachability_statuses rs =
     map (\<lambda>(i, inboxes). (i, \<not> list_ex rc_is_delivered inboxes)) (recipients_by_actor rs)"

definition delete_gone_actor :: "externals \<Rightarrow> (string \<Rightarrow> uuid) \<Rightarrow> string \<Rightarrow> unit db" where
  "delete_gone_actor X media_jid aid =
     match_result (get_remote_profile_by_actor_id X aid)
       (\<lambda>p. if has_account p then ret ()
            else bnd (delete_profile (p_id p)) (\<lambda>queue. deletion_queue_into_job (media_jid aid) queue))
       (\<lambda>e. case e of NotFound _ \<Rightarrow> ret () | _ \<Rightarrow> throw e)"

definition delete_gone_actors :: "externals \<Rightarrow> (string \<Rightarrow> uuid) \<Rightarrow> string list \<Rightarrow> unit db" where
  "delete_gone_actors X media_jid ids = for_each ids (delete_gone_actor X media_jid)"

section \<open>One job\<close>

text \<open>The part before the worker; \<open>None\<close> is a \<open>continue\<close> of the loop.\<close>

definition prepare_outgoing ::
  "externals \<Rightarrow> uri_library \<Rightarrow> wildmatch \<Rightarrow> (json \<Rightarrow> bool) \<Rightarrow> federation_config \<Rightarrow> federation_filter \<Rightarrow>
   background_job \<Rightarrow> (outgoing_activity_job_data \<times> recipient list) option db" where
  "prepare_outgoing X L wm sender_parses cfg f job =
     bnd (lift (ok_or TypeError (outgoing_from_value sender_parses (bj_job_data job)))) (\<lambda>d.
     if oj_recipients d = [] then seq (delete_job_from_queue (bj_id job)) (ret None)
     else
       bnd (lift (ok_or TypeError (Option.bind (json_field (oj_activity d) ''id'') json_str))) (\<lambda>activity_id.
       bnd (lift (map_err (\<lambda>_. TypeError) (canonical_parse L activity_id))) (\<lambda>canonical.
       bnd (map_p (deliver_locally X L cfg (canonical_to_string L canonical)) (oj_recipients d)) (\<lambda>rs.
       if \<not> fc_enabled cfg then seq (delete_job_from_queue (bj_id job)) (ret None)
       else bnd (map_p (block_recipient L wm f) rs) (\<lambda>rs'. ret (Some (d, rs')))))))"

text \<open>The part after the worker. \<open>failure_count += 1\<close> cannot overflow below the limit.\<close>

definition requeue_needed :: "outgoing_activity_job_data \<Rightarrow> recipient list \<Rightarrow> bool" where
  "requeue_needed d rs \<longleftrightarrow>
     list_ex (\<lambda>r. \<not> is_finished r) rs \<and> oj_failure_count d < outgoing_queue_retries_max"

definition finish_outgoing ::
  "externals \<Rightarrow> (uuid \<Rightarrow> uuid) \<Rightarrow> (string \<Rightarrow> uuid) \<Rightarrow> background_job \<Rightarrow> outgoing_activity_job_data \<Rightarrow>
   (deliverer_error, recipient list) outcome \<Rightarrow> unit db" where
  "finish_outgoing X fresh media_jid job d result = (case result of
      Panic p \<Rightarrow> panic p
    | Err e \<Rightarrow> delete_job_from_queue (bj_id job)
    | Ok delivered \<Rightarrow>
        bnd (if oj_failure_count d = 0 then map_p (mark_unreachable X) delivered else ret delivered) (\<lambda>rs.
        seq (if requeue_needed d rs
             then (let n = oj_failure_count d + 1 in
                   seq (outgoing_into_job (fresh (bj_id job)) (d\<lparr>oj_recipients := rs, oj_failure_count := n\<rparr>)
                          (unat (outgoing_queue_backoff (of_nat n))))
                   (ret ()))
             else seq (set_reachability_status (reachability_statuses rs))
                    (delete_gone_actors X media_jid (gone_actors rs)))
        (delete_job_from_queue (bj_id job))))"

type_synonym delivery_worker = "recipient list \<Rightarrow> (deliverer_error, recipient list) outcome option"

definition process_outgoing_job ::
  "externals \<Rightarrow> uri_library \<Rightarrow> wildmatch \<Rightarrow> (json \<Rightarrow> bool) \<Rightarrow> federation_config \<Rightarrow> federation_filter \<Rightarrow>
   delivery_worker \<Rightarrow> (uuid \<Rightarrow> uuid) \<Rightarrow> (string \<Rightarrow> uuid) \<Rightarrow> background_job \<Rightarrow> database \<Rightarrow>
   ((database_error, unit) outcome \<times> database) option" where
  "process_outgoing_job X L wm sender_parses cfg f worker fresh media_jid job s =
     (case prepare_outgoing X L wm sender_parses cfg f job s of
        (Ok None, t) \<Rightarrow> Some (Ok (), t)
      | (Ok (Some (d, rs)), t) \<Rightarrow> map_option (\<lambda>r. finish_outgoing X fresh media_jid job d r t) (worker rs)
      | (Err e, t) \<Rightarrow> Some (Err e, t)
      | (Panic p, t) \<Rightarrow> Some (Panic p, t))"

fun outgoing_jobs ::
  "(background_job \<Rightarrow> database \<Rightarrow> ((database_error, unit) outcome \<times> database) option) \<Rightarrow> background_job list \<Rightarrow>
   database \<Rightarrow> ((database_error, unit) outcome \<times> database) option" where
  "outgoing_jobs process [] s = Some (Ok (), s)"
| "outgoing_jobs process (job # jobs) s = (case process job s of
      Some (Ok _, t) \<Rightarrow> outgoing_jobs process jobs t
    | other \<Rightarrow> other)"

definition outgoing_queue_batch_size :: nat where
  "outgoing_queue_batch_size = 1"

definition process_queued_outgoing_activities ::
  "externals \<Rightarrow> uri_library \<Rightarrow> wildmatch \<Rightarrow> (json \<Rightarrow> bool) \<Rightarrow> federation_config \<Rightarrow> delivery_worker \<Rightarrow>
   (uuid \<Rightarrow> uuid) \<Rightarrow> (string \<Rightarrow> uuid) \<Rightarrow> (uuid \<Rightarrow> bool) \<Rightarrow> database \<Rightarrow>
   ((database_error, unit) outcome \<times> database) option" where
  "process_queued_outgoing_activities X L wm sender_parses cfg worker fresh media_jid locked s =
     (case bnd (federation_filter_init (fc_blocked_instances cfg) (fc_allowed_instances cfg)) (\<lambda>f.
           bnd (get_job_batch locked OutgoingActivity outgoing_queue_batch_size job_timeout) (\<lambda>batch.
           ret (f, batch))) s of
        (Ok (f, batch), t) \<Rightarrow>
          outgoing_jobs (process_outgoing_job X L wm sender_parses cfg f worker fresh media_jid) batch t
      | (Err e, t) \<Rightarrow> Some (Err e, t)
      | (Panic p, t) \<Rightarrow> Some (Panic p, t))"

end
