(* ===== verification/OutgoingProperties.thy ===== *)
theory OutgoingProperties
  imports OutgoingQueue QueueProperties
begin

text \<open>
  What one run over an outgoing job leaves in the queue, for every worker that meets the contract
  of the delivery worker: recipients keep their identity, what is delivered stays delivered, and the job is replaced by
  another exactly if a recipient of this run is unfinished and the limit is not reached; the new job has those recipients, one
  failure more, and is due after the backoff.
\<close>

section \<open>Progress of recipients\<close>

definition progress :: "recipient \<Rightarrow> recipient \<Rightarrow> bool" where
  "progress r r' \<longleftrightarrow> rc_id r' = rc_id r \<and> rc_inbox r' = rc_inbox r \<and> rc_is_primary r' = rc_is_primary r
     \<and> (rc_is_delivered r \<longrightarrow> rc_is_delivered r') \<and> (rc_is_unreachable r \<longrightarrow> rc_is_unreachable r')
     \<and> (rc_is_gone r \<longrightarrow> rc_is_gone r')"

lemma progress_refl [simp]: "progress r r"
  by (simp add: progress_def)

lemma progress_trans: "progress a b \<Longrightarrow> progress b c \<Longrightarrow> progress a c"
  by (simp add: progress_def)

lemma all_progress_trans: "list_all2 progress xs ys \<Longrightarrow> list_all2 progress ys zs \<Longrightarrow> list_all2 progress xs zs"
  by (rule list_all2_trans [of progress progress progress]) (auto intro: progress_trans)

lemma all_progress_refl [simp]: "list_all2 progress xs xs"
  by (rule list_all2_refl) simp

text \<open>A loop over the recipients makes progress when its body does.\<close>

lemma fold_collect_Ok:
  assumes "fold_p (\<lambda>x acc. bnd (f x) (\<lambda>y. ret (acc @ [y]))) xs acc s = (Ok zs, t)"
    and "\<And>x y s t. f x s = (Ok y, t) \<Longrightarrow> P x y"
  shows "\<exists>ys. zs = acc @ ys \<and> list_all2 P xs ys"
  using assms(1)
proof (induction xs arbitrary: acc s)
  case Nil
  then show ?case by (simp add: ret_Ok)
next
  case (Cons x xs)
  then obtain y u where "f x s = (Ok y, u)" "fold_p (\<lambda>x acc. bnd (f x) (\<lambda>y. ret (acc @ [y]))) xs (acc @ [y]) u = (Ok zs, t)"
    by (auto simp: bnd_Ok ret_Ok)
  with Cons.IH [of "acc @ [y]" u] assms(2) show ?case by fastforce
qed

lemma map_p_Ok:
  assumes "map_p f xs s = (Ok ys, t)" and "\<And>x y s t. f x s = (Ok y, t) \<Longrightarrow> P x y"
  shows "list_all2 P xs ys"
  using fold_collect_Ok [where P = P and f = f, OF assms(1) [unfolded map_p_def] assms(2)] by simp

lemma deliver_locally_progress: "deliver_locally X L cfg aid r s = (Ok r', t) \<Longrightarrow> progress r r'"
  by (auto simp: deliver_locally_def ok_runs progress_def split: outcome.splits if_splits)

lemma block_recipient_progress: "block_recipient L wm f r s = (Ok r', t) \<Longrightarrow> progress r r'"
  by (auto simp: block_recipient_def ok_runs progress_def split: if_splits)

lemma mark_unreachable_progress: "mark_unreachable X r s = (Ok r', t) \<Longrightarrow> progress r r'"
  by (auto simp: mark_unreachable_def ok_runs progress_def split: if_splits option.splits database_error.splits)

section \<open>The rows of the queue\<close>

definition outgoing_rows :: "database \<Rightarrow> background_job list" where
  "outgoing_rows s = filter (\<lambda>j. bj_job_type j = OutgoingActivity) (background_jobs s)"

definition keeps_outgoing :: "('e, 'a) outcome db_op \<Rightarrow> bool" where
  "keeps_outgoing m \<longleftrightarrow> (\<forall>v now ids. preserves (\<lambda>s. outgoing_rows s = v \<and> current_timestamp s = now \<and> ids \<subseteq> bj_id ` set (background_jobs s)) m)"

lemma keeps_outgoingI:
  "(\<And>v now ids. preserves (\<lambda>s. outgoing_rows s = v \<and> current_timestamp s = now \<and> ids \<subseteq> bj_id ` set (background_jobs s)) m) \<Longrightarrow> keeps_outgoing m"
  by (simp add: keeps_outgoing_def)

lemma keeps_outgoingD:
  assumes "keeps_outgoing m" and "m s = (r, t)"
  shows "outgoing_rows t = outgoing_rows s" "bj_id ` set (background_jobs s) \<subseteq> bj_id ` set (background_jobs t)"
    "current_timestamp t = current_timestamp s"
proof -
  have "preserves (\<lambda>u. outgoing_rows u = outgoing_rows s \<and> current_timestamp u = current_timestamp s
      \<and> bj_id ` set (background_jobs s) \<subseteq> bj_id ` set (background_jobs u)) m"
    using assms(1) unfolding keeps_outgoing_def by blast
  from preservesD [OF this _ assms(2)] show "outgoing_rows t = outgoing_rows s"
    "bj_id ` set (background_jobs s) \<subseteq> bj_id ` set (background_jobs t)" "current_timestamp t = current_timestamp s" by simp_all
qed

lemma keeps_outgoing_same: "(\<And>s. background_jobs (snd (m s)) = background_jobs s \<and> current_timestamp (snd (m s)) = current_timestamp s) \<Longrightarrow> keeps_outgoing m"
  by (simp add: keeps_outgoing_def preserves_def outgoing_rows_def)

lemma keeps_outgoing_preserves:
  "keeps_outgoing m \<Longrightarrow> preserves (\<lambda>s. outgoing_rows s = v \<and> current_timestamp s = now \<and> ids \<subseteq> bj_id ` set (background_jobs s)) m"
  unfolding keeps_outgoing_def by blast

lemma keeps_outgoing_reads: "reads_only m \<Longrightarrow> keeps_outgoing m"
  by (simp add: keeps_outgoing_same reads_only_def)

lemma reads_only_remote_profile [simp]: "reads_only (get_remote_profile_by_actor_id X aid)"
  unfolding get_remote_profile_by_actor_id_def profile_try_from_def by (intro reads_onlyI preserves_rules)

lemma add_object_jobs: "background_jobs (snd (add_object_to_collection a c i s)) = background_jobs s
    \<and> current_timestamp (snd (add_object_to_collection a c i s)) = current_timestamp s"
  by (simp add: add_object_to_collection_def run_def map_err_p_def)

lemma keeps_outgoing_collection: "keeps_outgoing (add_object_to_collection a c i)"
  by (rule keeps_outgoing_same) (rule add_object_jobs)

lemma keeps_outgoing_local: "keeps_outgoing (deliver_locally X L cfg aid r)"
proof (cases "parse_http_url_from_db L (rc_inbox r)")
  case (Ok inbox)
  have actor: "keeps_outgoing (expect_actor_data p)" for p
    by (rule keeps_outgoing_same) (simp add: expect_actor_data_def ret_def panic_def split: option.splits)
  show ?thesis unfolding deliver_locally_def Ok outcome.case
    by (rule keeps_outgoingI, intro preserves_rules)
      (simp_all add: reads_only_preserves keeps_outgoing_preserves keeps_outgoing_collection actor)
qed (simp_all add: deliver_locally_def keeps_outgoing_def)

lemma keeps_outgoing_map_p: "(\<And>x. keeps_outgoing (f x)) \<Longrightarrow> keeps_outgoing (map_p f xs)"
  unfolding map_p_def
  by (rule keeps_outgoingI, intro preserves_rules) (simp_all add: keeps_outgoing_preserves)

lemma keeps_outgoing_block: "keeps_outgoing (block_recipient L wm f r)"
  unfolding block_recipient_def by (rule keeps_outgoingI, intro preserves_rules)

lemma keeps_outgoing_mark: "keeps_outgoing (mark_unreachable X r)"
proof -
  have "preserves I (case e of NotFound x \<Rightarrow> ret (r\<lparr>rc_is_unreachable := True\<rparr>) | _ \<Rightarrow> throw e)" for I e
    by (cases e) simp_all
  moreover have "preserves I (case x of Some since \<Rightarrow> if since + seconds unreachable_noretry < now
      then ret (r\<lparr>rc_is_unreachable := True\<rparr>) else ret r | None \<Rightarrow> ret r)" for I x now
    by (cases x) simp_all
  ultimately show ?thesis
    unfolding mark_unreachable_def
    by (intro keeps_outgoingI preserves_rules) (simp_all add: reads_only_preserves)
qed

lemma lower_jobs:
  "background_jobs (snd (lower_profiles c a n s)) = background_jobs s"
  "background_jobs (snd (lower_posts c' a' n' s)) = background_jobs s"
  "background_jobs (snd (subtract_post_counts ids s)) = background_jobs s"
  "current_timestamp (snd (lower_profiles c a n s)) = current_timestamp s"
  "current_timestamp (snd (lower_posts c' a' n' s)) = current_timestamp s"
  "current_timestamp (snd (subtract_post_counts ids s)) = current_timestamp s"
  by (simp_all add: lower_profiles_def lower_posts_def subtract_post_counts_def)

lemma keeps_outgoing_delete_profile: "keeps_outgoing (delete_profile pid)"
proof -
  have "preserves (\<lambda>s. background_jobs s = v \<and> current_timestamp s = now) (delete_profile pid)" for v now
    unfolding delete_profile_def lower_profile_counters_def lower_post_counters_def
    by (rule preserves_transaction, intro preserves_rules)
      (simp_all add: preserves_def lower_jobs remove_profile_def remove_posts_def Let_def)
  then show ?thesis by (intro keeps_outgoing_same) (simp add: preserves_def)
qed

lemma keeps_outgoing_media_job: "keeps_outgoing (deletion_queue_into_job jid q)"
  by (rule keeps_outgoingI)
    (auto simp: deletion_queue_into_job_def enqueue_job_def preserves_def outgoing_rows_def run_def prog_defs)

lemma keeps_outgoing_gone: "keeps_outgoing (delete_gone_actor X media_jid aid)"
proof -
  have "preserves I (case e of NotFound x \<Rightarrow> ret () | _ \<Rightarrow> throw e)" for I e
    by (cases e) simp_all
  then show ?thesis
    unfolding delete_gone_actor_def
    by (intro keeps_outgoingI preserves_rules)
      (simp_all add: reads_only_preserves keeps_outgoing_preserves keeps_outgoing_delete_profile keeps_outgoing_media_job)
qed

lemma keeps_outgoing_statuses:
  "keeps_outgoing (seq (set_reachability_status st) (delete_gone_actors X media_jid ids))"
  unfolding set_reachability_status_def delete_gone_actors_def
  by (rule keeps_outgoingI, intro preserves_rules)
    (simp add: outgoing_rows_def, rule keeps_outgoing_preserves [OF keeps_outgoing_gone])

section \<open>The contract of the worker\<close>

text \<open>The job of the next attempt: the same activity and sender, the given recipients, one failure more, due after the
  backoff.\<close>

definition next_attempt ::
  "(json \<Rightarrow> bool) \<Rightarrow> outgoing_activity_job_data \<Rightarrow> recipient list \<Rightarrow> datetime \<Rightarrow> background_job \<Rightarrow> bool" where
  "next_attempt sp d rs now j \<longleftrightarrow>
     outgoing_from_value sp (bj_job_data j) = Some (d\<lparr>oj_recipients := rs, oj_failure_count := oj_failure_count d + 1\<rparr>)
     \<and> bj_job_type j = OutgoingActivity \<and> bj_job_status j = Queued
     \<and> bj_scheduled_for j = now + seconds (int (unat (outgoing_queue_backoff (of_nat (oj_failure_count d + 1)))))"

text \<open>The recipients of a run: on the first failure those that have been out of reach for long are given up.\<close>

definition marked_recipients :: "externals \<Rightarrow> outgoing_activity_job_data \<Rightarrow> recipient list \<Rightarrow> recipient list db" where
  "marked_recipients X d delivered =
     (if oj_failure_count d = 0 then map_p (mark_unreachable X) delivered else ret delivered)"

text \<open>What a run over a job leaves among the rows: \<open>rest\<close>, and the next attempt if one is due.\<close>

definition job_outcome ::
  "externals \<Rightarrow> (json \<Rightarrow> bool) \<Rightarrow> outgoing_activity_job_data \<Rightarrow> recipient list \<Rightarrow> (deliverer_error, recipient list) outcome \<Rightarrow>
   background_job list \<Rightarrow> database \<Rightarrow> database \<Rightarrow> bool" where
  "job_outcome X sp d rs result rest s t \<longleftrightarrow> (case result of
      Ok delivered \<Rightarrow> (case fst (marked_recipients X d delivered s) of
          Ok rs' \<Rightarrow> list_all2 progress rs rs'
            \<and> (if list_ex (\<lambda>r. \<not> is_finished r) rs' \<and> oj_failure_count d < outgoing_queue_retries_max
               then \<exists>j. outgoing_rows t = rest @ [j] \<and> next_attempt sp d rs' (current_timestamp s) j
               else outgoing_rows t = rest)
        | _ \<Rightarrow> False)
    | Err _ \<Rightarrow> outgoing_rows t = rest
    | Panic _ \<Rightarrow> False)"

locale worker_contract =
  fixes worker :: delivery_worker
  assumes worker_progress: "worker rs = Some (Ok rs') \<Longrightarrow> list_all2 progress rs rs'"
begin

text \<open>Before the worker: the job goes early, or its recipients are prepared.\<close>

lemma prepare_outgoing_early:
  assumes "prepare_outgoing X L wm sp cfg f job s = (Ok None, t)"
  shows "\<exists>d. outgoing_from_value sp (bj_job_data job) = Some d \<and> (oj_recipients d = [] \<or> \<not> fc_enabled cfg)"
    "outgoing_rows t = delete_where (\<lambda>j. bj_id j = bj_id job) (outgoing_rows s)"
proof -
  have gone: "outgoing_rows t = delete_where (\<lambda>j. bj_id j = bj_id job) (outgoing_rows u)"
    if "delete_job_from_queue (bj_id job) u = (Ok x, t)" for u x
    using that by (simp add: delete_job_from_queue_Ok outgoing_rows_def delete_where_def conj_commute)
  show "\<exists>d. outgoing_from_value sp (bj_job_data job) = Some d \<and> (oj_recipients d = [] \<or> \<not> fc_enabled cfg)"
    using assms by (auto simp: prepare_outgoing_def bnd_Ok seq_Ok ret_Ok lift_Ok ok_or_Ok split: if_splits)
  show "outgoing_rows t = delete_where (\<lambda>j. bj_id j = bj_id job) (outgoing_rows s)"
    using assms
    by (auto simp: prepare_outgoing_def bnd_Ok seq_Ok ret_Ok lift_Ok ok_or_Ok split: if_splits dest!: gone
        dest: keeps_outgoingD(1) [OF keeps_outgoing_map_p [OF keeps_outgoing_local]])
qed

lemma prepare_outgoing_ready:
  assumes "prepare_outgoing X L wm sp cfg f job s = (Ok (Some (d, rs)), t)"
  shows "outgoing_from_value sp (bj_job_data job) = Some d" "list_all2 progress (oj_recipients d) rs"
    "outgoing_rows t = outgoing_rows s" "bj_id ` set (background_jobs s) \<subseteq> bj_id ` set (background_jobs t)"
    "current_timestamp t = current_timestamp s" "oj_recipients d \<noteq> [] \<and> fc_enabled cfg"
proof -
  from assms obtain aid rs0 u where data: "outgoing_from_value sp (bj_job_data job) = Some d"
    and loc: "map_p (deliver_locally X L cfg aid) (oj_recipients d) s = (Ok rs0, u)"
    and blk: "map_p (block_recipient L wm f) rs0 u = (Ok rs, t)"
    by (auto simp: prepare_outgoing_def bnd_Ok seq_Ok ret_Ok lift_Ok ok_or_Ok split: if_splits)
  show "outgoing_from_value sp (bj_job_data job) = Some d" by (rule data)
  show "list_all2 progress (oj_recipients d) rs"
    using map_p_Ok [OF loc deliver_locally_progress] map_p_Ok [OF blk block_recipient_progress]
    by (rule all_progress_trans)
  note first = keeps_outgoingD [OF keeps_outgoing_map_p [OF keeps_outgoing_local] loc]
    and second = keeps_outgoingD [OF keeps_outgoing_map_p [OF keeps_outgoing_block] blk]
  show "outgoing_rows t = outgoing_rows s" using first(1) second(1) by simp
  show "bj_id ` set (background_jobs s) \<subseteq> bj_id ` set (background_jobs t)" using first(2) second(2) by blast
  show "current_timestamp t = current_timestamp s" using first(3) second(3) by simp
  show "oj_recipients d \<noteq> [] \<and> fc_enabled cfg"
    using assms data by (auto simp: prepare_outgoing_def ok_runs split: if_splits)
qed

text \<open>After the worker: the next attempt, or none.\<close>

lemma finish_outgoing_requeued:
  assumes parses: "sp (oj_sender d)" and few: "oj_failure_count d < outgoing_queue_retries_max"
    and run: "outgoing_into_job jid (d\<lparr>oj_recipients := rs, oj_failure_count := oj_failure_count d + 1\<rparr>)
      (unat (outgoing_queue_backoff (of_nat (oj_failure_count d + 1)))) s = (Ok x, t)"
  shows "\<exists>j. outgoing_rows t = outgoing_rows s @ [j] \<and> next_attempt sp d rs (current_timestamp s) j
    \<and> bj_id j \<notin> bj_id ` set (background_jobs s)"
proof -
  let ?d = "d\<lparr>oj_recipients := rs, oj_failure_count := oj_failure_count d + 1\<rparr>"
  have "outgoing_from_value sp (outgoing_to_value ?d) = Some ?d"
    using parses few by (intro outgoing_value_roundtrip) (simp_all add: outgoing_queue_retries_max_def)
  then show ?thesis
    using run by (auto simp: outgoing_into_job_def bnd_Ok gets_Ok enqueue_job_Ok outgoing_rows_def next_attempt_def)
qed

lemma finish_outgoing_Ok:
  assumes parses: "sp (oj_sender d)" and stored: "bj_id job \<in> bj_id ` set (background_jobs s)"
    and run: "finish_outgoing X fresh media_jid job d result s = (Ok x, t)" and sent: "worker rs = Some result"
  shows "job_outcome X sp d rs result (delete_where (\<lambda>j. bj_id j = bj_id job) (outgoing_rows s)) s t"
proof -
  have gone: "outgoing_rows t = delete_where (\<lambda>j. bj_id j = bj_id job) (outgoing_rows u)"
    if "delete_job_from_queue (bj_id job) u = (Ok y, t)" for u y
    using that by (simp add: delete_job_from_queue_Ok outgoing_rows_def delete_where_def conj_commute)
  show ?thesis
  proof (cases result)
    case (Err e)
    then show ?thesis using run by (auto simp: finish_outgoing_def job_outcome_def dest!: gone)
  next
    case (Ok delivered)
    from run Ok obtain rs' u v y where
      mark: "marked_recipients X d delivered s = (Ok rs', u)" and
      body: "(if requeue_needed d rs'
             then (let n = oj_failure_count d + 1 in
                   seq (outgoing_into_job (fresh (bj_id job)) (d\<lparr>oj_recipients := rs', oj_failure_count := n\<rparr>)
                          (unat (outgoing_queue_backoff (of_nat n)))) (ret ()))
             else seq (set_reachability_status (reachability_statuses rs'))
                    (delete_gone_actors X media_jid (gone_actors rs'))) u = (Ok y, v)" and
      del: "delete_job_from_queue (bj_id job) v = (Ok x, t)"
      by (auto simp: finish_outgoing_def marked_recipients_def bnd_Ok seq_Ok)
    have "list_all2 progress rs delivered" using worker_progress sent Ok by blast
    moreover have "list_all2 progress delivered rs'"
      using mark map_p_Ok [OF _ mark_unreachable_progress] by (auto simp: marked_recipients_def ret_Ok split: if_splits)
    ultimately have step: "list_all2 progress rs rs'" by (rule all_progress_trans)
    have "keeps_outgoing (marked_recipients X d delivered)"
      unfolding marked_recipients_def by (simp add: keeps_outgoing_map_p keeps_outgoing_mark) (simp add: keeps_outgoing_def)
    note u = keeps_outgoingD [OF this mark]
    show ?thesis
    proof (cases "requeue_needed d rs'")
      case True
      then have few: "oj_failure_count d < outgoing_queue_retries_max" by (simp add: requeue_needed_def)
      from True have "\<exists>z. outgoing_into_job (fresh (bj_id job)) (d\<lparr>oj_recipients := rs', oj_failure_count := oj_failure_count d + 1\<rparr>)
          (unat (outgoing_queue_backoff (of_nat (oj_failure_count d + 1)))) u = (Ok z, v)"
        using body by (auto simp: Let_def seq_Ok ret_Ok)
      then obtain j where j: "outgoing_rows v = outgoing_rows u @ [j]" "next_attempt sp d rs' (current_timestamp u) j"
        "bj_id j \<notin> bj_id ` set (background_jobs u)"
        using finish_outgoing_requeued [where sp = sp and d = d and rs = rs', OF parses few] by blast
      have "bj_id j \<noteq> bj_id job" using j(3) stored u(2) by auto
      then have "outgoing_rows t = delete_where (\<lambda>j. bj_id j = bj_id job) (outgoing_rows s) @ [j]"
        using gone [OF del] j(1) u(1) by (simp add: delete_where_def)
      with j(2) u(3) True mark step Ok show ?thesis by (auto simp: job_outcome_def requeue_needed_def)
    next
      case False
      then have "outgoing_rows v = outgoing_rows u"
        using body keeps_outgoingD(1) [OF keeps_outgoing_statuses] by simp
      with False mark step Ok u(1) gone [OF del] show ?thesis by (auto simp: job_outcome_def requeue_needed_def)
    qed
  qed (use run in \<open>simp add: finish_outgoing_def panic_Ok\<close>)
qed

lemma outgoing_job_attempt:
  assumes stored: "bj_id job \<in> bj_id ` set (background_jobs s)"
    and run: "process_outgoing_job X L wm sp cfg f worker fresh media_jid job s = Some (Ok (), t)"
  shows "\<exists>d. outgoing_from_value sp (bj_job_data job) = Some d
    \<and> (if oj_recipients d = [] \<or> \<not> fc_enabled cfg
       then outgoing_rows t = delete_where (\<lambda>j. bj_id j = bj_id job) (outgoing_rows s)
       else \<exists>rs u result. prepare_outgoing X L wm sp cfg f job s = (Ok (Some (d, rs)), u) \<and> list_all2 progress (oj_recipients d) rs
         \<and> current_timestamp u = current_timestamp s \<and> worker rs = Some result
         \<and> job_outcome X sp d rs result (delete_where (\<lambda>j. bj_id j = bj_id job) (outgoing_rows s)) u t)"
proof -
  obtain r u where prep: "prepare_outgoing X L wm sp cfg f job s = (r, u)" by fastforce
  show ?thesis
  proof (cases r)
    case (Ok plan)
    show ?thesis
    proof (cases plan)
      case None
      with run prep Ok have "t = u" by (simp add: process_outgoing_job_def)
      with prepare_outgoing_early [of X L wm sp cfg f job s u] prep Ok None show ?thesis by auto
    next
      case (Some dr)
      obtain d rs where dr: "dr = (d, rs)" by fastforce
      note ready = prepare_outgoing_ready [OF prep [unfolded Ok Some dr]]
      from run prep Ok Some dr obtain result where sent: "worker rs = Some result"
        and fin: "finish_outgoing X fresh media_jid job d result u = (Ok (), t)"
        by (auto simp: process_outgoing_job_def)
      have "sp (oj_sender d)" using ready(1) by (auto simp: outgoing_from_value_def split: if_splits Option.bind_splits)
      moreover have "bj_id job \<in> bj_id ` set (background_jobs u)" using stored ready(4) by blast
      ultimately have "job_outcome X sp d rs result (delete_where (\<lambda>j. bj_id j = bj_id job) (outgoing_rows s)) u t"
        using finish_outgoing_Ok [where sp = sp and d = d, OF _ _ fin sent] ready(3) by simp
      with ready sent prep Ok Some dr show ?thesis by auto
    qed
  qed (use run prep in \<open>simp_all add: process_outgoing_job_def\<close>)
qed

end

section \<open>The delivery worker meets its contract\<close>

lemma record_result_progress: "progress r (record_result x r)"
  by (auto simp: record_result_def progress_def split: outcome.splits deliverer_error.splits)

lemma deliver_once_progress: "list_all2 progress rs (deliver_once exchange rs)"
  by (auto simp: deliver_once_def list_all2_conv_all_nth nth_enumerate_eq record_result_progress)

text \<open>Whenever the worker returns recipients, they are those of the abstract specification.\<close>

lemma list_deliveries_parses:
  "list_deliveries gh k rs = Ok ds \<Longrightarrow> r \<in> set rs \<Longrightarrow> \<not> is_finished r \<Longrightarrow> gh (rc_inbox r) \<noteq> None"
  by (induction rs arbitrary: k ds) (auto simp: ok_runs split: if_splits)

lemma worker_returns_once:
  assumes run: "deliver_activity_worker enabled n gh pick exchange rs = Some (Ok rs')"
  shows "rs' = deliver_once exchange rs"
proof -
  obtain ds where ds: "list_deliveries gh 0 rs = Ok ds" and enabled
    using run by (auto simp: deliver_activity_worker_def split: if_splits outcome.splits)
  have parse: "gh (rc_inbox r) \<noteq> None" if "r \<in> set rs" "\<not> is_finished r" for r
    using ds that by (rule list_deliveries_parses)
  show ?thesis
  proof (cases "n = 0")
    case False
    then show ?thesis using worker_refines [where gh = gh and n = n and pick = pick and exchange = exchange, OF _ parse] run \<open>enabled\<close> by simp
  next
    case True
    then obtain w where "worker_loop 0 pick exchange ds (initial_worker rs) = Some w" "rs' = ws_recipients w"
      using run ds \<open>enabled\<close> by (auto simp: deliver_activity_worker_def)
    moreover from this have finished: "worker_done ds (initial_worker rs)"
      by (intro worker_loop_zero) (simp_all add: initial_worker_def)
    ultimately have "rs' = ws_recipients (initial_worker rs)"
      using worker_iteration_zero [of "initial_worker rs" pick exchange ds]
      by (subst (asm) worker_loop.simps) (simp add: initial_worker_def)
    then show ?thesis
      using done_recipients [OF worker_inv_initial finished] list_deliveries_index [OF ds] by simp
  qed
qed

interpretation deliverer: worker_contract "deliver_activity_worker enabled n gh pick exchange"
  by unfold_locales (metis deliver_once_progress worker_returns_once)

end
