(* ===== verification/ProfileQueries.thy ===== *)
theory ProfileQueries
  imports ProfileDeletion Hostnames "HOL-Library.Product_Lexorder"
begin

text \<open>
  Creating, updating and searching profiles (\<open>mitra_models/src/profiles/queries.rs\<close>, the create and
  update data of \<open>types.rs\<close>) and the table of peers (\<open>instances/queries.rs\<close>). The unique, foreign key
  and check constraints of \<open>actor_profile\<close> are those of \<open>schema.sql\<close>; identifiers drawn by
  \<open>generate_ulid\<close> are arguments.
\<close>

section \<open>Pattern matching of PostgreSQL\<close>

text \<open>\<open>LIKE\<close>: \<open>%\<close> is any text, \<open>_\<close> any character, a backslash quotes the next character. \<open>ILIKE\<close> folds
  case; the model folds the ASCII letters, what other letters do depends on the locale of the
  database.\<close>

fun like_match :: "string \<Rightarrow> string \<Rightarrow> bool" where
  "like_match [] s \<longleftrightarrow> s = []"
| "like_match (p # ps) s \<longleftrightarrow>
     (if p = CHR ''%'' then list_ex (\<lambda>n. like_match ps (drop n s)) [0..<Suc (length s)]
      else if p = CHR 0x5C then
        (case (ps, s) of (q # qs, c # cs) \<Rightarrow> q = c \<and> like_match qs cs | _ \<Rightarrow> False)
      else (case s of [] \<Rightarrow> False | c # cs \<Rightarrow> (p = CHR ''_'' \<or> p = c) \<and> like_match ps cs))"

definition ilike :: "string \<Rightarrow> string \<Rightarrow> bool" where
  "ilike subject pattern \<longleftrightarrow> like_match (map to_ascii_lower pattern) (map to_ascii_lower subject)"

definition like :: "string \<Rightarrow> string \<Rightarrow> bool" where
  "like subject pattern \<longleftrightarrow> like_match pattern subject"

section \<open>Data\<close>

record file_info =
  fi_file_name :: string
  fi_file_size :: nat
  fi_digest :: string
  fi_media_type :: string

datatype media_info = MiFile file_info "string option" | MiLink string string

definition partial_file_info_of :: "file_info \<Rightarrow> partial_file_info" where
  "partial_file_info_of f = \<lparr>pf_file_name = fi_file_name f, pf_file_size = Some (fi_file_size f),
     pf_digest = Some (fi_digest f), pf_media_type = Some (fi_media_type f)\<rparr>"

fun partial_media_of :: "media_info \<Rightarrow> partial_media_info" where
  "partial_media_of (MiFile f url) = PmFile (partial_file_info_of f) url"
| "partial_media_of (MiLink media_type url) = PmLink media_type url"

text \<open>\<open>ProfileCreateData\<close> holds new media, \<open>ProfileUpdateData\<close> media as they are stored; the other
  fields agree.\<close>

record 'm profile_data =
  prd_actor_type :: actor_type
  prd_username :: string
  prd_hostname :: "string option"
  prd_webfinger_hostname :: webfinger_hostname
  prd_display_name :: "string option"
  prd_bio :: "string option"
  prd_bio_source :: "string option"
  prd_avatar :: "'m option"
  prd_banner :: "'m option"
  prd_manually_approves_followers :: bool
  prd_mention_policy :: mention_policy
  prd_public_keys :: "db_actor_key list"
  prd_identity_proofs :: "identity_proof list"
  prd_payment_options :: "payment_option list"
  prd_extra_fields :: "extra_field list"
  prd_aliases :: "string list"
  prd_emojis :: "uuid list"
  prd_actor_json :: "db_actor option"

type_synonym profile_create_data = "media_info profile_data"
type_synonym profile_update_data = "partial_media_info profile_data"

fun webfinger_as_str :: "webfinger_hostname \<Rightarrow> string option" where
  "webfinger_as_str (WfRemote h) = Some h"
| "webfinger_as_str _ = None"

definition profile_data_check_consistency ::
  "externals \<Rightarrow> 'm profile_data \<Rightarrow> (database_type_error, unit) outcome" where
  "profile_data_check_consistency X d =
     obind (case prd_actor_json d of
         Some a \<Rightarrow> obind (actor_check_consistency X a) (\<lambda>_.
           if \<not> actor_is_portable a \<and> prd_hostname d = None then Err DatabaseTypeError
           else if \<not> actor_is_portable a \<and> webfinger_as_str (prd_webfinger_hostname d) = None
           then Err DatabaseTypeError
           else Ok OriginRemote)
       | None \<Rightarrow>
           if prd_hostname d \<noteq> None then Err DatabaseTypeError
           else if webfinger_as_str (prd_webfinger_hostname d) \<noteq> None then Err DatabaseTypeError
           else Ok OriginLocal) (\<lambda>org.
     obind (check_public_keys (prd_public_keys d) org) (\<lambda>_.
     obind (check_identity_proofs (prd_identity_proofs d)) (\<lambda>_.
     check_payment_options (prd_payment_options d) org)))"

definition add_identity_proof :: "identity_proof \<Rightarrow> 'm profile_data \<Rightarrow> 'm profile_data" where
  "add_identity_proof proof d =
     d\<lparr>prd_identity_proofs := filter (\<lambda>i. ip_issuer i \<noteq> ip_issuer proof) (prd_identity_proofs d) @ [proof]\<rparr>"

definition remove_identity_proof :: "string \<Rightarrow> 'm profile_data \<Rightarrow> 'm profile_data" where
  "remove_identity_proof issuer d =
     d\<lparr>prd_identity_proofs := filter (\<lambda>i. ip_issuer i \<noteq> issuer) (prd_identity_proofs d)\<rparr>"

definition add_payment_option :: "payment_option \<Rightarrow> 'm profile_data \<Rightarrow> 'm profile_data" where
  "add_payment_option opt d =
     d\<lparr>prd_payment_options :=
        filter (\<lambda>i. payment_option_type i \<noteq> payment_option_type opt) (prd_payment_options d) @ [opt]\<rparr>"

definition update_data_of :: "actor_profile \<Rightarrow> profile_update_data" where
  "update_data_of p = \<lparr>prd_actor_type = p_actor_type p, prd_username = p_username p, prd_hostname = p_hostname p,
     prd_webfinger_hostname = profile_webfinger_hostname p, prd_display_name = p_display_name p,
     prd_bio = p_bio p, prd_bio_source = p_bio_source p, prd_avatar = p_avatar p, prd_banner = p_banner p,
     prd_manually_approves_followers = p_manually_approves_followers p, prd_mention_policy = p_mention_policy p,
     prd_public_keys = p_public_keys p, prd_identity_proofs = p_identity_proofs p,
     prd_payment_options = p_payment_options p, prd_extra_fields = p_extra_fields p, prd_aliases = p_aliases p,
     prd_emojis = map em_id (p_emojis p), prd_actor_json = p_actor_json p\<rparr>"

section \<open>Peers\<close>

definition create_instance :: "string \<Rightarrow> unit db" where
  "create_instance hostname =
     modify (\<lambda>s. if hostname \<in> set (instances s) then s else s\<lparr>instances := instances s @ [hostname]\<rparr>)"

definition get_peers :: "string list db" where
  "get_peers = gets instances"

definition get_peer_count :: "int db" where
  "get_peer_count = gets (\<lambda>s. int (length (instances s)))"

section \<open>Constraints of the table\<close>

definition actor_id_of :: "actor_profile \<Rightarrow> string option" where
  "actor_id_of p = map_option da_id (p_actor_json p)"

text \<open>The unique columns that may be null: nulls are distinct from each other.\<close>

definition same_key :: "'k option \<Rightarrow> 'k option \<Rightarrow> bool" where
  "same_key k l \<longleftrightarrow> k \<noteq> None \<and> k = l"

definition profiles_clash :: "actor_profile \<Rightarrow> actor_profile \<Rightarrow> bool" where
  "profiles_clash p q \<longleftrightarrow> p_id p = p_id q \<or> same_key (acct p) (acct q)
     \<or> same_key (actor_id_of p) (actor_id_of q) \<or> same_key (p_identity_key p) (p_identity_key q)"

fun profile_keys_ok :: "actor_profile list \<Rightarrow> bool" where
  "profile_keys_ok [] = True"
| "profile_keys_ok (p # ps) = (\<not> list_ex (profiles_clash p) ps \<and> profile_keys_ok ps)"

definition hostname_known :: "database \<Rightarrow> actor_profile \<Rightarrow> bool" where
  "hostname_known s p \<longleftrightarrow> (case p_hostname p of None \<Rightarrow> True | Some h \<Rightarrow> h \<in> set (instances s))"

text \<open>A statement that replaces the rows of the table.\<close>

definition put_profiles :: "(database \<Rightarrow> actor_profile list) \<Rightarrow> unit stmt" where
  "put_profiles f s =
     (if \<not> profile_keys_ok (f s) then (Err UniqueViolation, s)
      else if \<not> list_all (hostname_known s) (f s) then (Err ForeignKeyViolation, s)
      else (Ok (), s\<lparr>actor_profiles := f s\<rparr>))"

definition prevent_acct_conflict :: "uuid \<Rightarrow> string \<Rightarrow> string \<Rightarrow> unit db" where
  "prevent_acct_conflict pid username hostname =
     run (put_profiles (\<lambda>s. update_where (\<lambda>p. p_id p \<noteq> pid \<and> p_username p = username
        \<and> p_webfinger_hostname p = Some hostname \<and> p_actor_json p \<noteq> None)
        (\<lambda>p. p\<lparr>p_webfinger_hostname := None\<rparr>) (actor_profiles s)))"

section \<open>Emojis of a profile\<close>

definition create_profile_emojis :: "uuid \<Rightarrow> uuid list \<Rightarrow> custom_emoji list db" where
  "create_profile_emojis pid ids =
     bnd (gets (\<lambda>s. filter (\<lambda>e. em_id e \<in> set ids) (emojis s))) (\<lambda>rows.
     bnd (gets (\<lambda>s. list_ex (\<lambda>x. pfe_profile_id x = pid \<and> pfe_emoji_id x \<in> set ids \<and> pfe_emoji_id x \<in> em_id ` set rows)
       (profile_emojis s))) (\<lambda>conflict.
     if conflict then run (throw UniqueViolation)
     else seq (modify (\<lambda>s. s\<lparr>profile_emojis := profile_emojis s
            @ map (\<lambda>e. \<lparr>pfe_profile_id = pid, pfe_emoji_id = em_id e\<rparr>) rows\<rparr>))
       (if length rows \<noteq> length ids then throw (NotFound ''emoji'') else ret rows)))"

text \<open>\<open>jsonb_agg(emoji)\<close> over the joined rows, in the order of \<open>profile_emoji\<close>.\<close>

definition emojis_of_profile :: "database \<Rightarrow> uuid \<Rightarrow> custom_emoji list" where
  "emojis_of_profile s pid = concat (map (\<lambda>x. filter (\<lambda>e. em_id e = pfe_emoji_id x) (emojis s))
     (filter (\<lambda>x. pfe_profile_id x = pid) (profile_emojis s)))"

definition refresh_emojis :: "database \<Rightarrow> actor_profile \<Rightarrow> actor_profile" where
  "refresh_emojis s p = p\<lparr>p_emojis := emojis_of_profile s (p_id p)\<rparr>"

definition update_emoji_cache :: "uuid \<Rightarrow> custom_emoji list db" where
  "update_emoji_cache pid =
     seq (modify (\<lambda>s. s\<lparr>actor_profiles := update_where (\<lambda>p. p_id p = pid) (refresh_emojis s) (actor_profiles s)\<rparr>))
     (bnd (select_or_not_found ''profile'' (\<lambda>s. filter (\<lambda>p. p_id p = pid) (actor_profiles s)))
       (\<lambda>p. ret (p_emojis p)))"

definition update_emoji_caches :: "uuid \<Rightarrow> unit db" where
  "update_emoji_caches eid =
     modify (\<lambda>s. s\<lparr>actor_profiles := update_where (\<lambda>p. list_ex (\<lambda>e. em_id e = eid) (p_emojis p))
       (refresh_emojis s) (actor_profiles s)\<rparr>)"

section \<open>Creating and updating\<close>

definition profile_row :: "database \<Rightarrow> uuid \<Rightarrow> profile_create_data \<Rightarrow> actor_profile" where
  "profile_row s pid d = \<lparr>p_id = pid, p_user_id = None, p_automated_account_id = None, p_portable_user_id = None,
     p_actor_type = prd_actor_type d, p_username = prd_username d, p_hostname = prd_hostname d,
     p_webfinger_hostname = webfinger_as_str (prd_webfinger_hostname d), p_display_name = prd_display_name d,
     p_bio = prd_bio d, p_bio_source = prd_bio_source d, p_avatar = map_option partial_media_of (prd_avatar d),
     p_banner = map_option partial_media_of (prd_banner d),
     p_manually_approves_followers = prd_manually_approves_followers d, p_mention_policy = prd_mention_policy d,
     p_public_keys = prd_public_keys d, p_identity_proofs = prd_identity_proofs d,
     p_payment_options = prd_payment_options d, p_extra_fields = prd_extra_fields d, p_aliases = prd_aliases d,
     p_follower_count = 0, p_following_count = 0, p_subscriber_count = 0, p_post_count = 0, p_emojis = [],
     p_actor_json = prd_actor_json d, p_identity_key = None, p_created_at = current_timestamp s,
     p_updated_at = current_timestamp s, p_unreachable_since = None\<rparr>"

definition insert_profile :: "uuid \<Rightarrow> profile_create_data \<Rightarrow> actor_profile stmt" where
  "insert_profile pid d =
     seq (put_profiles (\<lambda>s. actor_profiles s @ [profile_row s pid d])) (gets (\<lambda>s. profile_row s pid d))"

definition register_hostname :: "string option \<Rightarrow> unit db" where
  "register_hostname h = (case h of Some hostname \<Rightarrow> create_instance hostname | None \<Rightarrow> ret ())"

definition release_acct :: "uuid \<Rightarrow> string \<Rightarrow> webfinger_hostname \<Rightarrow> unit db" where
  "release_acct pid username w = (case w of WfRemote hostname \<Rightarrow> prevent_acct_conflict pid username hostname | _ \<Rightarrow> ret ())"

definition create_profile :: "externals \<Rightarrow> uuid \<Rightarrow> profile_create_data \<Rightarrow> actor_profile db" where
  "create_profile X pid d =
     seq (type_check (profile_data_check_consistency X d)) (transaction (
       seq (register_hostname (prd_hostname d))
       (seq (release_acct pid (prd_username d) (prd_webfinger_hostname d))
       (bnd (map_err_p (catch_unique_violation ''profile'') (insert_profile pid d)) (\<lambda>profile.
        seq (create_profile_emojis pid (prd_emojis d))
        (bnd (update_emoji_cache pid) (\<lambda>es.
         profile_try_from X (profile\<lparr>p_emojis := es\<rparr>))))))))"

definition update_profile_row :: "profile_update_data \<Rightarrow> database \<Rightarrow> actor_profile \<Rightarrow> actor_profile" where
  "update_profile_row d s p = p\<lparr>p_actor_type := prd_actor_type d, p_username := prd_username d,
     p_hostname := prd_hostname d, p_webfinger_hostname := webfinger_as_str (prd_webfinger_hostname d),
     p_display_name := prd_display_name d, p_bio := prd_bio d, p_bio_source := prd_bio_source d,
     p_avatar := prd_avatar d, p_banner := prd_banner d,
     p_manually_approves_followers := prd_manually_approves_followers d, p_mention_policy := prd_mention_policy d,
     p_public_keys := prd_public_keys d, p_identity_proofs := prd_identity_proofs d,
     p_payment_options := prd_payment_options d, p_extra_fields := prd_extra_fields d, p_aliases := prd_aliases d,
     p_actor_json := prd_actor_json d, p_updated_at := current_timestamp s, p_unreachable_since := None\<rparr>"

text \<open>\<open>UPDATE actor_profile SET ... WHERE id = $1 RETURNING actor_profile\<close>.\<close>

definition change_profile :: "uuid \<Rightarrow> (database \<Rightarrow> actor_profile \<Rightarrow> actor_profile) \<Rightarrow> actor_profile option stmt" where
  "change_profile pid f =
     seq (put_profiles (\<lambda>s. update_where (\<lambda>p. p_id p = pid) (f s) (actor_profiles s)))
     (bnd (gets (\<lambda>s. filter (\<lambda>p. p_id p = pid) (actor_profiles s))) (\<lambda>rows. lift (query_opt rows)))"

definition update_profile ::
  "externals \<Rightarrow> uuid \<Rightarrow> profile_update_data \<Rightarrow> (actor_profile \<times> deletion_queue) db" where
  "update_profile X pid d =
     seq (type_check (profile_data_check_consistency X d)) (transaction (
       bnd (select_or_not_found ''profile'' (\<lambda>s. filter (\<lambda>p. p_id p = pid) (actor_profiles s))) (\<lambda>old.
       if prd_hostname d \<noteq> p_hostname old \<and> \<not> is_portable old then throw TypeError
       else seq (register_hostname (prd_hostname d))
       (seq (if prd_webfinger_hostname d = WfUnknown then throw TypeError
             else release_acct pid (prd_username d) (prd_webfinger_hostname d))
       (bnd (run (change_profile pid (update_profile_row d))) (\<lambda>row.
        bnd (lift (ok_or (NotFound ''profile'') row)) (\<lambda>profile.
        seq (modify (\<lambda>s. s\<lparr>profile_emojis := delete_where (\<lambda>x. pfe_profile_id x = pid) (profile_emojis s)\<rparr>))
        (seq (create_profile_emojis pid (prd_emojis d))
        (bnd (update_emoji_cache pid) (\<lambda>es.
         bnd (profile_try_from X (profile\<lparr>p_emojis := es\<rparr>)) (\<lambda>new.
         ret (new, \<lparr>dq_files = List.map_filter (\<lambda>m. Option.bind m into_file_name) [p_avatar old, p_banner old],
                    dq_ipfs_objects = []\<rparr>))))))))))))"

definition set_profile_identity_key :: "externals \<Rightarrow> uuid \<Rightarrow> string \<Rightarrow> actor_profile db" where
  "set_profile_identity_key X pid secret_key = transaction (
     bnd (run (change_profile pid (\<lambda>s p. p\<lparr>p_identity_key := Some (identity_key_of X secret_key),
       p_updated_at := current_timestamp s\<rparr>))) (\<lambda>row.
     bnd (lift (ok_or (NotFound ''profile'') row)) (profile_try_from X)))"

section \<open>Lookups and searches\<close>

definition get_profile_by_acct :: "externals \<Rightarrow> string \<Rightarrow> actor_profile db" where
  "get_profile_by_acct X a =
     bnd (select_or_not_found ''profile'' (\<lambda>s. filter (\<lambda>p. acct p = Some a) (actor_profiles s))) (profile_try_from X)"

datatype profile_order = ByActivity | ByUsername

text \<open>The materialized view \<open>latest_post\<close>, which a periodic task refreshes, is an argument: the time
  of the last post of each author. \<open>DESC NULLS LAST\<close>.\<close>

definition activity_key :: "(uuid \<Rightarrow> datetime option) \<Rightarrow> actor_profile \<Rightarrow> bool \<times> int" where
  "activity_key latest p = (case latest (p_id p) of None \<Rightarrow> (True, 0) | Some d \<Rightarrow> (False, - d))"

definition get_profiles_paginated ::
  "externals \<Rightarrow> (uuid \<Rightarrow> datetime option) \<Rightarrow> bool \<Rightarrow> profile_order \<Rightarrow> nat \<Rightarrow> nat \<Rightarrow> actor_profile list db" where
  "get_profiles_paginated X latest only_local ord offset limit =
     bnd (gets (\<lambda>s. take limit (drop offset
       (let rows = filter (\<lambda>p. \<not> only_local \<or> has_account p) (actor_profiles s) in
        case ord of ByActivity \<Rightarrow> sort_key (activity_key latest) rows
          | ByUsername \<Rightarrow> sort_key p_username rows)))) (profiles_try_from X)"

text \<open>\<open>unnest($1) WITH ORDINALITY JOIN ... ORDER BY rank\<close>: the order of the argument.\<close>

definition ranked :: "(actor_profile \<Rightarrow> 'k option) \<Rightarrow> 'k list \<Rightarrow> database \<Rightarrow> actor_profile list" where
  "ranked key ks s = concat (map (\<lambda>k. filter (\<lambda>p. key p = Some k) (actor_profiles s)) ks)"

definition get_profiles_by_ids :: "externals \<Rightarrow> uuid list \<Rightarrow> actor_profile list db" where
  "get_profiles_by_ids X ids =
     bnd (gets (ranked (\<lambda>p. Some (p_id p)) ids)) (\<lambda>rows.
     bnd (profiles_try_from X rows) (\<lambda>ps.
     if length ps \<noteq> length ids then throw (NotFound ''profile'') else ret ps))"

definition get_profiles_by_accts :: "externals \<Rightarrow> string list \<Rightarrow> actor_profile list db" where
  "get_profiles_by_accts X accts = bnd (gets (ranked acct accts)) (profiles_try_from X)"

definition get_remote_profiles_by_actor_ids :: "externals \<Rightarrow> string list \<Rightarrow> actor_profile list db" where
  "get_remote_profiles_by_actor_ids X ids = bnd (gets (ranked actor_id_of ids)) (profiles_try_from X)"

definition search_pattern :: "string \<Rightarrow> string option \<Rightarrow> string" where
  "search_pattern username maybe_hostname = (case maybe_hostname of
      Some hostname \<Rightarrow> username @ ''@'' @ hostname @ ''%''
    | None \<Rightarrow> ''%'' @ username @ ''%'')"

definition search_profiles :: "externals \<Rightarrow> string \<Rightarrow> string option \<Rightarrow> nat \<Rightarrow> nat \<Rightarrow> actor_profile list db" where
  "search_profiles X username maybe_hostname limit offset =
     bnd (gets (\<lambda>s. take limit (drop offset (sort_key
         (\<lambda>p. (p_user_id p = None, p_portable_user_id p = None, - p_updated_at p))
         (filter (\<lambda>p. case acct p of Some a \<Rightarrow> ilike a (search_pattern username maybe_hostname) | None \<Rightarrow> False)
           (actor_profiles s)))))) (profiles_try_from X)"

definition search_profiles_by_did_only :: "externals \<Rightarrow> string \<Rightarrow> actor_profile list db" where
  "search_profiles_by_did_only X did =
     bnd (gets (\<lambda>s. filter (\<lambda>p. list_ex (\<lambda>i. ip_issuer i = did) (p_identity_proofs p)) (actor_profiles s)))
       (profiles_try_from X)"

datatype currency = Ethereum | MoneroCurrency

fun currency_of :: "namespace \<Rightarrow> currency" where
  "currency_of Eip155 = Ethereum"
| "currency_of MoneroNs = MoneroCurrency"

fun currency_field_name :: "currency \<Rightarrow> string" where
  "currency_field_name Ethereum = ''$ETH''"
| "currency_field_name MoneroCurrency = ''$XMR''"

definition unverified_match :: "chain_id \<Rightarrow> string \<Rightarrow> actor_profile \<Rightarrow> bool" where
  "unverified_match c address p \<longleftrightarrow> list_ex (\<lambda>f.
     ilike (ef_name f) (currency_field_name (currency_of (namespace c)))
     \<and> (case currency_of (namespace c) of
          Ethereum \<Rightarrow> ilike (ef_value f) address
        | MoneroCurrency \<Rightarrow> like (ef_value f) address)) (p_extra_fields p)"

definition search_profiles_by_did ::
  "externals \<Rightarrow> string \<Rightarrow> (chain_id \<times> string) option \<Rightarrow> bool \<Rightarrow> actor_profile list db" where
  "search_profiles_by_did X did pkh prefer_verified =
     bnd (search_profiles_by_did_only X did) (\<lambda>verified.
     bnd (case pkh of
            None \<Rightarrow> ret []
          | Some (c, address) \<Rightarrow>
              bnd (gets (\<lambda>s. filter (unverified_match c address) (actor_profiles s))) (\<lambda>rows.
              bnd (profiles_try_from X rows) (\<lambda>ps.
              ret (filter (\<lambda>p. \<not> list_ex (\<lambda>v. p_id v = p_id p) verified) ps)))) (\<lambda>unverified.
     ret (if prefer_verified \<and> verified \<noteq> [] then verified else verified @ unverified)))"

definition profile_is_empty :: "database \<Rightarrow> uuid \<Rightarrow> bool" where
  "profile_is_empty s pid \<longleftrightarrow>
     \<not> list_ex (\<lambda>r. rel_source_id r = pid \<or> rel_target_id r = pid) (relationships s)
     \<and> \<not> list_ex (\<lambda>r. fr_source_id r = pid \<or> fr_target_id r = pid) (follow_requests s)
     \<and> \<not> list_ex (\<lambda>p. po_author_id p = pid) (posts s)
     \<and> \<not> list_ex (\<lambda>r. re_author_id r = pid) (reactions s)
     \<and> \<not> list_ex (\<lambda>m. ma_owner_id m = pid) (media_attachments s)
     \<and> \<not> list_ex (\<lambda>m. mn_profile_id m = pid) (post_mentions s)
     \<and> \<not> list_ex (\<lambda>x. cs_source_id x = pid) (custom_feed_sources s)
     \<and> \<not> list_ex (\<lambda>n. ntf_sender_id n = pid) (notifications s)
     \<and> \<not> list_ex (\<lambda>i. inv_sender_id i = pid) (invoices s)
     \<and> \<not> list_ex (\<lambda>x. sub_sender_id x = pid) (subscriptions s)"

definition find_empty_profiles :: "datetime \<Rightarrow> uuid list db" where
  "find_empty_profiles updated_before = gets (\<lambda>s. map p_id (filter (\<lambda>p. \<not> has_account p
     \<and> p_updated_at p < updated_before \<and> profile_is_empty s (p_id p)) (actor_profiles s)))"

end
