(* ===== verification/Accounts.thy ===== *)
theory Accounts
  imports ProfileQueries "HOL-Library.AList"
begin

text \<open>
  Accounts (\<open>mitra_models/src/accounts\<close>): invitation codes, users, automated accounts and portable
  accounts, the checks every loaded account passes (\<open>types.rs\<close>) and the queries of \<open>queries.rs\<close>. An
  account row and its profile row carry the same identifier, and the profile refers back to it.
\<close>

section \<open>Invitation codes\<close>

definition create_invite_code :: "string \<Rightarrow> string option \<Rightarrow> string db" where
  "create_invite_code code note =
     bnd (gets (\<lambda>s. code \<in> ic_code ` set (user_invite_codes s))) (\<lambda>exists.
     if exists then run (throw UniqueViolation)
     else seq (modify (\<lambda>s. s\<lparr>user_invite_codes := user_invite_codes s
            @ [\<lparr>ic_code = code, ic_used = False, ic_note = note, ic_created_at = current_timestamp s\<rparr>]\<rparr>))
       (ret code))"

definition get_invite_codes :: "user_invite_code list db" where
  "get_invite_codes = gets (\<lambda>s. filter (\<lambda>c. \<not> ic_used c) (user_invite_codes s))"

definition unused_code :: "string \<Rightarrow> user_invite_code \<Rightarrow> bool" where
  "unused_code code c \<longleftrightarrow> ic_code c = code \<and> \<not> ic_used c"

definition is_valid_invite_code :: "string \<Rightarrow> bool db" where
  "is_valid_invite_code code =
     bnd (select_opt (\<lambda>s. filter (unused_code code) (user_invite_codes s))) (\<lambda>row. ret (row \<noteq> None))"

definition use_invite_code :: "string \<Rightarrow> unit db" where
  "use_invite_code code =
     bnd (gets (\<lambda>s. list_ex (unused_code code) (user_invite_codes s))) (\<lambda>updated.
     seq (modify (\<lambda>s. s\<lparr>user_invite_codes :=
            update_where (unused_code code) (\<lambda>c. c\<lparr>ic_used := True\<rparr>) (user_invite_codes s)\<rparr>))
       (if updated then ret () else throw (NotFound ''invite code'')))"

definition use_invite_code_opt :: "string option \<Rightarrow> unit db" where
  "use_invite_code_opt code = (case code of Some c \<Rightarrow> use_invite_code c | None \<Rightarrow> ret ())"

section \<open>Users\<close>

record user_create_data =
  ucd_username :: string
  ucd_password_digest :: "string option"
  ucd_login_address_ethereum :: "string option"
  ucd_login_address_monero :: "string option"
  ucd_rsa_secret_key :: string
  ucd_ed25519_secret_key :: string
  ucd_invite_code :: "string option"
  ucd_role :: role

definition user_data_check_consistency :: "user_create_data \<Rightarrow> (database_type_error, unit) outcome" where
  "user_data_check_consistency d =
     (if ucd_password_digest d = None \<and> ucd_login_address_ethereum d = None \<and> ucd_login_address_monero d = None
      then Err DatabaseTypeError else Ok ())"

definition check_local_username_unique :: "string \<Rightarrow> unit db" where
  "check_local_username_unique username =
     bnd (gets (\<lambda>s. list_ex (\<lambda>p. has_account p \<and> ilike (p_username p) username) (actor_profiles s))) (\<lambda>exists.
     if exists then throw (AlreadyExists ''user'') else ret ())"

text \<open>The profile of a new local account.\<close>

definition local_profile_data ::
  "actor_type \<Rightarrow> string \<Rightarrow> string option \<Rightarrow> string option \<Rightarrow> uuid list \<Rightarrow> profile_create_data" where
  "local_profile_data ty username bio bio_source es = \<lparr>prd_actor_type = ty, prd_username = username,
     prd_hostname = None, prd_webfinger_hostname = WfLocal, prd_display_name = None, prd_bio = bio,
     prd_bio_source = bio_source, prd_avatar = None, prd_banner = None, prd_manually_approves_followers = False,
     prd_mention_policy = MpNone, prd_public_keys = [], prd_identity_proofs = [], prd_payment_options = [],
     prd_extra_fields = [], prd_aliases = [], prd_emojis = es, prd_actor_json = None\<rparr>"

definition user_row :: "database \<Rightarrow> uuid \<Rightarrow> user_create_data \<Rightarrow> user_account" where
  "user_row s uid d = \<lparr>u_id = uid, u_password_digest = ucd_password_digest d,
     u_login_address_ethereum = ucd_login_address_ethereum d, u_login_address_monero = ucd_login_address_monero d,
     u_rsa_private_key = ucd_rsa_secret_key d, u_ed25519_private_key = ucd_ed25519_secret_key d,
     u_invite_code = ucd_invite_code d, u_role = ucd_role d, u_client_config = [],
     u_shared_client_config = \<lparr>scc_default_post_visibility = VisPublic, scc_default_post_language = None\<rparr>,
     u_created_at = current_timestamp s\<rparr>"

definition users_clash :: "user_account \<Rightarrow> user_account \<Rightarrow> bool" where
  "users_clash u v \<longleftrightarrow> u_id u = u_id v
     \<or> same_key (u_login_address_ethereum u) (u_login_address_ethereum v)
     \<or> same_key (u_login_address_monero u) (u_login_address_monero v)
     \<or> same_key (u_invite_code u) (u_invite_code v)"

definition code_known :: "database \<Rightarrow> string option \<Rightarrow> bool" where
  "code_known s code \<longleftrightarrow> (case code of None \<Rightarrow> True | Some c \<Rightarrow> c \<in> ic_code ` set (user_invite_codes s))"

definition insert_user :: "uuid \<Rightarrow> user_create_data \<Rightarrow> user_account stmt" where
  "insert_user uid d s =
     (let u = user_row s uid d in
      if list_ex (users_clash u) (user_accounts s) then (Err UniqueViolation, s)
      else if uid \<notin> p_id ` set (actor_profiles s) \<or> \<not> code_known s (u_invite_code u) then (Err ForeignKeyViolation, s)
      else (Ok u, s\<lparr>user_accounts := user_accounts s @ [u]\<rparr>))"

text \<open>\<open>query_one\<close> on \<open>UPDATE actor_profile SET ... WHERE id = $1 RETURNING actor_profile\<close>.\<close>

definition change_profile_one :: "uuid \<Rightarrow> (actor_profile \<Rightarrow> actor_profile) \<Rightarrow> actor_profile stmt" where
  "change_profile_one pid f =
     bnd (change_profile pid (\<lambda>_. f)) (\<lambda>row. lift (ok_or RowCount row))"

definition create_user :: "externals \<Rightarrow> uuid \<Rightarrow> user_create_data \<Rightarrow> user db" where
  "create_user X pid d =
     seq (type_check (user_data_check_consistency d)) (transaction (
       seq (check_local_username_unique (ucd_username d))
       (seq (use_invite_code_opt (ucd_invite_code d))
       (bnd (create_profile X pid (local_profile_data Person (ucd_username d) None None [])) (\<lambda>profile.
        bnd (map_err_p (catch_unique_violation ''user'') (insert_user (p_id profile) d)) (\<lambda>u.
        bnd (run (change_profile_one (p_id profile) (\<lambda>p. p\<lparr>p_user_id := Some (p_id p)\<rparr>))) (\<lambda>p.
        type_check (user_new X u p))))))))"

definition update_users :: "uuid \<Rightarrow> (user_account \<Rightarrow> user_account) \<Rightarrow> user_account list stmt" where
  "update_users uid f =
     seq (modify (\<lambda>s. s\<lparr>user_accounts := update_where (\<lambda>u. u_id u = uid) f (user_accounts s)\<rparr>))
       (gets (\<lambda>s. filter (\<lambda>u. u_id u = uid) (user_accounts s)))"

definition set_user_password :: "uuid \<Rightarrow> string \<Rightarrow> unit db" where
  "set_user_password uid digest =
     bnd (run (update_users uid (\<lambda>u. u\<lparr>u_password_digest := Some digest\<rparr>))) (\<lambda>rows.
     if rows = [] then throw (NotFound ''user'') else ret ())"

definition set_user_role :: "uuid \<Rightarrow> role \<Rightarrow> unit db" where
  "set_user_role uid r =
     bnd (run (update_users uid (\<lambda>u. u\<lparr>u_role := r\<rparr>))) (\<lambda>rows.
     if rows = [] then throw (NotFound ''user'') else ret ())"

text \<open>\<open>jsonb_set(client_config, ARRAY[$1], $2, true)\<close>.\<close>

definition update_client_config :: "uuid \<Rightarrow> string \<Rightarrow> json \<Rightarrow> (string \<times> json) list db" where
  "update_client_config uid client v =
     bnd (run (update_users uid (\<lambda>u. u\<lparr>u_client_config := AList.update client v (u_client_config u)\<rparr>))) (\<lambda>rows.
     bnd (run (lift (query_opt rows))) (\<lambda>row.
     bnd (lift (ok_or (NotFound ''user'') row)) (\<lambda>u. ret (u_client_config u))))"

definition set_shared_client_config :: "uuid \<Rightarrow> shared_client_config \<Rightarrow> shared_client_config db" where
  "set_shared_client_config uid config =
     bnd (run (update_users uid (\<lambda>u. u\<lparr>u_shared_client_config := config\<rparr>))) (\<lambda>rows.
     bnd (run (lift (query_opt rows))) (\<lambda>row.
     bnd (lift (ok_or (NotFound ''user account'') row)) (\<lambda>u. ret (u_shared_client_config u))))"

text \<open>\<open>user_account JOIN actor_profile USING (id)\<close>.\<close>

definition users_with_profiles :: "database \<Rightarrow> (user_account \<times> actor_profile) list" where
  "users_with_profiles s = [(u, p). u \<leftarrow> user_accounts s, p \<leftarrow> actor_profiles s, u_id u = p_id p]"

definition get_user_where :: "externals \<Rightarrow> (user_account \<Rightarrow> actor_profile \<Rightarrow> bool) \<Rightarrow> user db" where
  "get_user_where X P =
     bnd (select_or_not_found ''user'' (\<lambda>s. filter (\<lambda>(u, p). P u p) (users_with_profiles s)))
       (\<lambda>(u, p). type_check (user_new X u p))"

definition get_user_by_name :: "externals \<Rightarrow> string \<Rightarrow> user db" where
  "get_user_by_name X username = get_user_where X (\<lambda>u p. p_username p = username)"

definition get_user_by_login_address :: "externals \<Rightarrow> chain_id \<Rightarrow> string \<Rightarrow> user db" where
  "get_user_by_login_address X c address = get_user_where X (\<lambda>u p. (case namespace c of
      Eip155 \<Rightarrow> u_login_address_ethereum u
    | MoneroNs \<Rightarrow> u_login_address_monero u) = Some address)"

definition get_user_by_did :: "externals \<Rightarrow> string \<Rightarrow> user db" where
  "get_user_by_did X did = get_user_where X (\<lambda>u p. list_ex (\<lambda>i. ip_issuer i = did) (p_identity_proofs p))"

definition get_user_by_identity_key :: "externals \<Rightarrow> string \<Rightarrow> user db" where
  "get_user_by_identity_key X key = get_user_where X (\<lambda>u p. p_identity_key p = Some key)"

text \<open>\<open>Uuid::parse_str\<close> is an argument.\<close>

definition get_user_by_id_or_name :: "externals \<Rightarrow> (string \<Rightarrow> uuid option) \<Rightarrow> string \<Rightarrow> user db" where
  "get_user_by_id_or_name X parse_uuid v = (case parse_uuid v of
      Some uid \<Rightarrow> get_user_by_id X uid
    | None \<Rightarrow> get_user_by_name X v)"

definition get_admin_user :: "externals \<Rightarrow> user option db" where
  "get_admin_user X =
     bnd (gets (\<lambda>s. take 1 (sort_key (\<lambda>(u, p). - p_created_at p)
       (filter (\<lambda>(u, p). u_role u = Admin) (users_with_profiles s))))) (\<lambda>rows.
     case rows of [] \<Rightarrow> ret None
       | (u, p) # _ \<Rightarrow> bnd (type_check (user_new X u p)) (\<lambda>v. ret (Some v)))"

definition get_user_count :: "int db" where
  "get_user_count = gets (\<lambda>s. int (length (user_accounts s)))"

definition get_active_user_count :: "datetime \<Rightarrow> int db" where
  "get_active_user_count not_before = gets (\<lambda>s. int (length (remdups
     [u. u \<leftarrow> user_accounts s, k \<leftarrow> oauth_tokens s, ot_owner_id k = u_id u \<and> not_before < ot_created_at k])))"

text \<open>The first verified Ethereum address; \<open>did_pkh\<close> splits a printed \<open>did:pkh\<close>.\<close>

definition public_ethereum_address :: "(string \<Rightarrow> (chain_id \<times> string) option) \<Rightarrow> user \<Rightarrow> string option" where
  "public_ethereum_address did_pkh u =
     (case List.map_filter (\<lambda>i. case did_pkh (ip_issuer i) of
             Some (c, a) \<Rightarrow> if is_ethereum c then Some a else None | None \<Rightarrow> None)
           (p_identity_proofs (user_profile u)) of
        [] \<Rightarrow> None | a # _ \<Rightarrow> Some a)"

section \<open>Automated accounts\<close>

record automated_account_detailed =
  aad_id :: uuid
  aad_profile :: actor_profile
  aad_account_type :: automated_account_type
  aad_rsa_secret_key :: string
  aad_ed25519_secret_key :: string

definition automated_account_new ::
  "externals \<Rightarrow> automated_account \<Rightarrow> actor_profile \<Rightarrow> (database_type_error, automated_account_detailed) outcome" where
  "automated_account_new X a p =
     obind (profile_check_consistency X p) (\<lambda>_.
     if aa_id a \<noteq> p_id p then Err DatabaseTypeError
     else if p_automated_account_id p \<noteq> Some (aa_id a) then Err DatabaseTypeError
     else if p_actor_type p \<noteq> (if aa_account_type a = AaGroup then Group else Automated) then Err DatabaseTypeError
     else if \<not> rsa_der_parses X (aa_rsa_secret_key a) then Err DatabaseTypeError
     else if \<not> ed25519_bytes_parse X (aa_ed25519_secret_key a) then Err DatabaseTypeError
     else Ok \<lparr>aad_id = aa_id a, aad_profile = p, aad_account_type = aa_account_type a,
       aad_rsa_secret_key = aa_rsa_secret_key a, aad_ed25519_secret_key = aa_ed25519_secret_key a\<rparr>)"

record automated_account_data =
  acd_username :: string
  acd_bio :: "string option"
  acd_bio_source :: "string option"
  acd_emojis :: "uuid list"
  acd_account_type :: automated_account_type
  acd_rsa_secret_key :: string
  acd_ed25519_secret_key :: string

text \<open>The partial unique index admits several groups and one account of every other type.\<close>

definition insert_automated_account ::
  "uuid \<Rightarrow> automated_account_type \<Rightarrow> string \<Rightarrow> string \<Rightarrow> automated_account stmt" where
  "insert_automated_account aid ty rsa ed s =
     (let a = \<lparr>aa_id = aid, aa_account_type = ty, aa_rsa_secret_key = rsa, aa_ed25519_secret_key = ed,
               aa_created_at = current_timestamp s\<rparr> in
      if list_ex (\<lambda>b. aa_id b = aid \<or> ty \<noteq> AaGroup \<and> aa_account_type b = ty) (automated_accounts s)
      then (Err UniqueViolation, s)
      else if aid \<notin> p_id ` set (actor_profiles s) then (Err ForeignKeyViolation, s)
      else (Ok a, s\<lparr>automated_accounts := automated_accounts s @ [a]\<rparr>))"

definition create_automated_account ::
  "externals \<Rightarrow> uuid \<Rightarrow> automated_account_data \<Rightarrow> automated_account_detailed db" where
  "create_automated_account X pid d = transaction (
     seq (check_local_username_unique (acd_username d))
     (bnd (create_profile X pid (local_profile_data (if acd_account_type d = AaGroup then Group else Automated)
            (acd_username d) (acd_bio d) (acd_bio_source d) (acd_emojis d))) (\<lambda>profile.
      bnd (lift (ok_or TypeError (rsa_to_pkcs1_der X (acd_rsa_secret_key d)))) (\<lambda>der.
      bnd (map_err_p (catch_unique_violation ''automated account'')
            (insert_automated_account (p_id profile) (acd_account_type d) der (acd_ed25519_secret_key d))) (\<lambda>a.
      bnd (run (change_profile_one (p_id profile) (\<lambda>p. p\<lparr>p_automated_account_id := Some (p_id p)\<rparr>))) (\<lambda>p.
      type_check (automated_account_new X a p)))))))"

definition get_group_account_by_id :: "externals \<Rightarrow> uuid \<Rightarrow> automated_account_detailed db" where
  "get_group_account_by_id X aid =
     bnd (select_or_not_found ''account'' (\<lambda>s. [(a, p). a \<leftarrow> automated_accounts s, p \<leftarrow> actor_profiles s,
        aa_id a = p_id p \<and> aa_id a = aid \<and> aa_account_type a = AaGroup]))
       (\<lambda>(a, p). type_check (automated_account_new X a p))"

datatype managed_account = ManagedUser user | ManagedAutomated automated_account_detailed

fun managed_profile :: "managed_account \<Rightarrow> actor_profile" where
  "managed_profile (ManagedUser u) = user_profile u"
| "managed_profile (ManagedAutomated a) = aad_profile a"

fun managed_rsa_secret_key :: "managed_account \<Rightarrow> string" where
  "managed_rsa_secret_key (ManagedUser u) = user_rsa_secret_key u"
| "managed_rsa_secret_key (ManagedAutomated a) = aad_rsa_secret_key a"

fun managed_ed25519_secret_key :: "managed_account \<Rightarrow> string" where
  "managed_ed25519_secret_key (ManagedUser u) = user_ed25519_secret_key u"
| "managed_ed25519_secret_key (ManagedAutomated a) = aad_ed25519_secret_key a"

definition managed_account_try_from ::
  "externals \<Rightarrow> actor_profile \<Rightarrow> user_account option \<Rightarrow> automated_account option \<Rightarrow> managed_account db" where
  "managed_account_try_from X p u a = (case u of
      Some v \<Rightarrow> bnd (type_check (user_new X v p)) (\<lambda>w. ret (ManagedUser w))
    | None \<Rightarrow> (case a of
        Some b \<Rightarrow> bnd (type_check (automated_account_new X b p)) (\<lambda>w. ret (ManagedAutomated w))
      | None \<Rightarrow> throw (NotFound ''account'')))"

text \<open>\<open>actor_profile LEFT JOIN user_account LEFT JOIN automated_account\<close>, on primary keys.\<close>

definition get_managed_account_where :: "externals \<Rightarrow> (actor_profile \<Rightarrow> bool) \<Rightarrow> managed_account db" where
  "get_managed_account_where X P =
     bnd (select_or_not_found ''account'' (\<lambda>s. map (\<lambda>p. (p, find (\<lambda>u. u_id u = p_id p) (user_accounts s),
        find (\<lambda>a. aa_id a = p_id p) (automated_accounts s))) (filter P (actor_profiles s))))
       (\<lambda>(p, u, a). managed_account_try_from X p u a)"

definition get_managed_account_by_id :: "externals \<Rightarrow> uuid \<Rightarrow> managed_account db" where
  "get_managed_account_by_id X aid = get_managed_account_where X (\<lambda>p. p_id p = aid)"

definition get_managed_account_by_username :: "externals \<Rightarrow> string \<Rightarrow> managed_account db" where
  "get_managed_account_by_username X username = get_managed_account_where X (\<lambda>p. acct p = Some username)"

section \<open>Portable accounts\<close>

record portable_user =
  pru_id :: uuid
  pru_profile :: actor_profile
  pru_rsa_secret_key :: string
  pru_ed25519_secret_key :: string

definition portable_user_new ::
  "externals \<Rightarrow> portable_user_account \<Rightarrow> actor_profile \<Rightarrow> (database_type_error, portable_user) outcome" where
  "portable_user_new X u p =
     obind (profile_check_consistency X p) (\<lambda>_.
     if \<not> is_portable p then Err DatabaseTypeError
     else if pua_id u \<noteq> p_id p then Err DatabaseTypeError
     else if p_portable_user_id p \<noteq> Some (pua_id u) then Err DatabaseTypeError
     else if \<not> rsa_der_parses X (pua_rsa_secret_key u) then Err DatabaseTypeError
     else if \<not> ed25519_bytes_parse X (pua_ed25519_secret_key u) then Err DatabaseTypeError
     else Ok \<lparr>pru_id = pua_id u, pru_profile = p, pru_rsa_secret_key = pua_rsa_secret_key u,
       pru_ed25519_secret_key = pua_ed25519_secret_key u\<rparr>)"

record portable_user_data =
  pcd_profile_id :: uuid
  pcd_rsa_secret_key :: string
  pcd_ed25519_secret_key :: string
  pcd_invite_code :: "string option"

definition insert_portable_user ::
  "uuid \<Rightarrow> string \<Rightarrow> string \<Rightarrow> string option \<Rightarrow> portable_user_account stmt" where
  "insert_portable_user pid rsa ed code s =
     (let u = \<lparr>pua_id = pid, pua_rsa_secret_key = rsa, pua_ed25519_secret_key = ed, pua_invite_code = code,
               pua_created_at = current_timestamp s\<rparr> in
      if list_ex (\<lambda>v. pua_id v = pid \<or> same_key (pua_invite_code v) code) (portable_user_accounts s)
      then (Err UniqueViolation, s)
      else if pid \<notin> p_id ` set (actor_profiles s) \<or> \<not> code_known s code then (Err ForeignKeyViolation, s)
      else (Ok u, s\<lparr>portable_user_accounts := portable_user_accounts s @ [u]\<rparr>))"

definition create_portable_user :: "externals \<Rightarrow> portable_user_data \<Rightarrow> portable_user db" where
  "create_portable_user X d = transaction (
     bnd (gets (\<lambda>s. filter (\<lambda>p. p_id p = pcd_profile_id d) (actor_profiles s))) (\<lambda>rows.
     bnd (run (lift (query_one rows))) (\<lambda>row.
     seq (check_local_username_unique (p_username row))
     (seq (use_invite_code_opt (pcd_invite_code d))
     (bnd (lift (ok_or TypeError (rsa_to_pkcs1_der X (pcd_rsa_secret_key d)))) (\<lambda>der.
      bnd (map_err_p (catch_unique_violation ''portable user'')
            (insert_portable_user (pcd_profile_id d) der (pcd_ed25519_secret_key d) (pcd_invite_code d))) (\<lambda>u.
      bnd (run (change_profile_one (pcd_profile_id d) (\<lambda>p. p\<lparr>p_portable_user_id := Some (p_id p),
             p_hostname := None, p_webfinger_hostname := None\<rparr>))) (\<lambda>p.
      type_check (portable_user_new X u p)))))))))"

definition get_portable_user_where ::
  "externals \<Rightarrow> (portable_user_account \<Rightarrow> actor_profile \<Rightarrow> bool) \<Rightarrow> portable_user db" where
  "get_portable_user_where X P =
     bnd (select_or_not_found ''user'' (\<lambda>s. [(u, p). u \<leftarrow> portable_user_accounts s, p \<leftarrow> actor_profiles s,
        pua_id u = p_id p \<and> P u p]))
       (\<lambda>(u, p). type_check (portable_user_new X u p))"

definition get_portable_user_by_id :: "externals \<Rightarrow> uuid \<Rightarrow> portable_user db" where
  "get_portable_user_by_id X uid = get_portable_user_where X (\<lambda>u p. pua_id u = uid)"

definition get_portable_user_by_actor_id :: "externals \<Rightarrow> string \<Rightarrow> portable_user db" where
  "get_portable_user_by_actor_id X aid = get_portable_user_where X (\<lambda>u p. actor_id_of p = Some aid)"

definition get_portable_user_by_inbox_id :: "externals \<Rightarrow> string \<Rightarrow> portable_user db" where
  "get_portable_user_by_inbox_id X cid = get_portable_user_where X (\<lambda>u p. map_option da_inbox (p_actor_json p) = Some cid)"

definition get_portable_user_by_outbox_id :: "externals \<Rightarrow> string \<Rightarrow> portable_user db" where
  "get_portable_user_by_outbox_id X cid = get_portable_user_where X (\<lambda>u p. map_option da_outbox (p_actor_json p) = Some cid)"

section \<open>Accounts for the administrator\<close>

record account_admin_info =
  aai_profile :: actor_profile
  aai_is_portable :: bool
  aai_role :: "role option"
  aai_last_login :: "datetime option"

definition last_login :: "database \<Rightarrow> uuid \<Rightarrow> datetime option" where
  "last_login s uid = (case map ot_created_at (filter (\<lambda>k. ot_owner_id k = uid) (oauth_tokens s)) of
      [] \<Rightarrow> None | d # ds \<Rightarrow> Some (fold max ds d))"

definition account_admin_info_of :: "database \<Rightarrow> actor_profile \<Rightarrow> account_admin_info" where
  "account_admin_info_of s p =
     (let u = find (\<lambda>u. u_id u = p_id p) (user_accounts s) in
      \<lparr>aai_profile = p, aai_is_portable = list_ex (\<lambda>u. pua_id u = p_id p) (portable_user_accounts s),
       aai_role = map_option u_role u, aai_last_login = Option.bind u (\<lambda>v. last_login s (u_id v))\<rparr>)"

definition get_accounts_for_admin :: "externals \<Rightarrow> account_admin_info list db" where
  "get_accounts_for_admin X =
     bnd (gets (\<lambda>s. map (account_admin_info_of s) (sort_key (\<lambda>p. - p_created_at p)
       (filter (\<lambda>p. p_user_id p \<noteq> None \<or> p_portable_user_id p \<noteq> None) (actor_profiles s))))) (\<lambda>rows.
     type_check (try_map (\<lambda>i. obind (profile_check_consistency X (aai_profile i)) (\<lambda>_. Ok i)) rows))"

end
