(* ===== verification/ActivitypubStore.thy ===== *)
theory ActivitypubStore
  imports OutgoingQueue Accounts
begin

text \<open>
  Stored ActivityPub objects, the collections of portable actors and their media
  (\<open>mitra_models/src/activitypub\<close>): activities are kept as received and never overwritten, actors and
  posts are replaced, clean-up keeps what is still referenced. \<open>save_activity\<close> is in \<open>Queues\<close>,
  \<open>add_object_to_collection\<close> in \<open>OutgoingQueue\<close>. Canonical URIs are given in printed form.
\<close>

section \<open>Objects\<close>

definition object_row :: "database \<Rightarrow> string \<Rightarrow> json \<Rightarrow> uuid option \<Rightarrow> uuid option \<Rightarrow> activitypub_object" where
  "object_row s oid data profile post = \<lparr>ao_object_id = oid, ao_object_data = data, ao_profile_id = profile,
     ao_post_id = post, ao_created_at = current_timestamp s\<rparr>"

definition has_object :: "database \<Rightarrow> string \<Rightarrow> bool" where
  "has_object s oid \<longleftrightarrow> list_ex (\<lambda>a. ao_object_id a = oid) (activitypub_objects s)"

text \<open>\<open>INSERT ... ON CONFLICT (object_id) DO UPDATE\<close>; the columns \<open>profile_id\<close> and \<open>post_id\<close> are unique.\<close>

definition save_actor :: "string \<Rightarrow> json \<Rightarrow> uuid \<Rightarrow> unit db" where
  "save_actor aid data pid = run (\<lambda>s.
     if list_ex (\<lambda>a. ao_object_id a \<noteq> aid \<and> ao_profile_id a = Some pid) (activitypub_objects s)
     then (Err UniqueViolation, s)
     else if pid \<notin> p_id ` set (actor_profiles s) then (Err ForeignKeyViolation, s)
     else (Ok (), s\<lparr>activitypub_objects :=
        (if has_object s aid then update_where (\<lambda>a. ao_object_id a = aid)
            (\<lambda>a. a\<lparr>ao_object_data := data, ao_profile_id := Some pid\<rparr>) (activitypub_objects s)
         else activitypub_objects s @ [object_row s aid data (Some pid) None])\<rparr>))"

definition save_attributed_object :: "string \<Rightarrow> json \<Rightarrow> uuid \<Rightarrow> unit db" where
  "save_attributed_object oid data pid = run (\<lambda>s.
     if list_ex (\<lambda>a. ao_object_id a \<noteq> oid \<and> ao_post_id a = Some pid) (activitypub_objects s)
     then (Err UniqueViolation, s)
     else if pid \<notin> po_id ` set (posts s) then (Err ForeignKeyViolation, s)
     else (Ok (), s\<lparr>activitypub_objects :=
        (if has_object s oid then update_where (\<lambda>a. ao_object_id a = oid)
            (\<lambda>a. a\<lparr>ao_object_data := data, ao_post_id := Some pid\<rparr>) (activitypub_objects s)
         else activitypub_objects s @ [object_row s oid data None (Some pid)])\<rparr>))"

definition get_object_where :: "(activitypub_object \<Rightarrow> bool) \<Rightarrow> json db" where
  "get_object_where P =
     bnd (select_or_not_found ''activitypub object'' (\<lambda>s. filter P (activitypub_objects s)))
       (\<lambda>a. ret (ao_object_data a))"

definition get_object :: "string \<Rightarrow> json db" where
  "get_object oid = get_object_where (\<lambda>a. ao_object_id a = oid)"

text \<open>\<open>object_data -> 'to' @> to_jsonb(target)\<close>: an array contains a string as an element.\<close>

fun jsonb_contains_string :: "json \<Rightarrow> string \<Rightarrow> bool" where
  "jsonb_contains_string (JString t) target = (t = target)"
| "jsonb_contains_string (JArray js) target = (JString target \<in> set js)"
| "jsonb_contains_string _ target = False"

definition get_object_as_target :: "string \<Rightarrow> string \<Rightarrow> json db" where
  "get_object_as_target oid target = get_object_where (\<lambda>a. ao_object_id a = oid
     \<and> (case json_field (ao_object_data a) ''to'' of Some v \<Rightarrow> jsonb_contains_string v target | None \<Rightarrow> False))"

definition get_actor :: "string \<Rightarrow> json db" where
  "get_actor aid = get_object_where (\<lambda>a. ao_object_id a = aid \<and> ao_profile_id a \<noteq> None)"

section \<open>Clean-up\<close>

definition in_collection :: "database \<Rightarrow> activitypub_object \<Rightarrow> bool" where
  "in_collection s a \<longleftrightarrow> list_ex (\<lambda>i. ci_object_id i = ao_object_id a) (collection_items s)"

definition expendable :: "datetime \<Rightarrow> activitypub_object \<Rightarrow> bool" where
  "expendable created_before a \<longleftrightarrow> ao_created_at a < created_before \<and> ao_profile_id a = None \<and> ao_post_id a = None"

text \<open>Deleting an object deletes the collection items that refer to it.\<close>

definition remove_objects :: "(database \<Rightarrow> activitypub_object \<Rightarrow> bool) \<Rightarrow> nat db" where
  "remove_objects P =
     bnd (gets (\<lambda>s. filter (P s) (activitypub_objects s))) (\<lambda>gone.
     seq (modify (\<lambda>s. s\<lparr>activitypub_objects := delete_where (P s) (activitypub_objects s),
            collection_items := delete_where (\<lambda>i. ci_object_id i \<in> ao_object_id ` set gone) (collection_items s)\<rparr>))
       (ret (length gone)))"

definition delete_activitypub_objects :: "datetime \<Rightarrow> nat db" where
  "delete_activitypub_objects created_before =
     remove_objects (\<lambda>s a. expendable created_before a \<and> \<not> in_collection s a)"

definition delete_collection_items :: "datetime \<Rightarrow> nat db" where
  "delete_collection_items created_before =
     remove_objects (\<lambda>s a. expendable created_before a \<and> in_collection s a)"

section \<open>Collections\<close>

definition add_relationship :: "uuid \<Rightarrow> int \<Rightarrow> string \<Rightarrow> string \<Rightarrow> unit db" where
  "add_relationship owner rid cid oid = transaction (
     seq (select_or_not_found ''activitypub object'' (\<lambda>s. filter (\<lambda>a. ao_object_id a = oid) (activitypub_objects s)))
     (run (\<lambda>s.
       if list_ex (\<lambda>i. ci_collection_id i = cid \<and> ci_object_id i = oid) (collection_items s) then (Ok (), s)
       else if owner \<notin> p_id ` set (actor_profiles s) \<or> rid \<notin> rel_id ` set (relationships s)
         \<or> \<not> has_object s oid then (Err ForeignKeyViolation, s)
       else (Ok (), s\<lparr>collection_items := collection_items s @ [\<lparr>ci_owner_id = owner, ci_collection_id = cid,
               ci_object_id = oid, ci_relationship_id = Some rid\<rparr>]\<rparr>))))"

definition remove_object_from_collection :: "string \<Rightarrow> string \<Rightarrow> unit db" where
  "remove_object_from_collection cid oid =
     modify (\<lambda>s. s\<lparr>collection_items :=
       delete_where (\<lambda>i. ci_collection_id i = cid \<and> ci_object_id i = oid) (collection_items s)\<rparr>)"

definition collection_objects :: "database \<Rightarrow> string \<Rightarrow> activitypub_object list" where
  "collection_objects s cid = [a. a \<leftarrow> activitypub_objects s, i \<leftarrow> collection_items s,
     ao_object_id a = ci_object_id i \<and> ci_collection_id i = cid]"

definition get_collection_items :: "string \<Rightarrow> string option \<Rightarrow> nat \<Rightarrow> activitypub_object list db" where
  "get_collection_items cid maybe_after limit =
     bnd (case maybe_after of
            None \<Rightarrow> ret None
          | Some oid \<Rightarrow>
              bnd (select_opt (\<lambda>s. filter (\<lambda>a. ao_object_id a = oid) (activitypub_objects s)))
                (\<lambda>row. ret (map_option ao_created_at row))) (\<lambda>after.
     gets (\<lambda>s. case after of
        Some d \<Rightarrow> rev (take limit (sort_key ao_created_at
                   (filter (\<lambda>a. d < ao_created_at a) (collection_objects s cid))))
      | None \<Rightarrow> take limit (rev (sort_key ao_created_at (collection_objects s cid)))))"

definition get_collection_items_json :: "string \<Rightarrow> string option \<Rightarrow> nat \<Rightarrow> json list db" where
  "get_collection_items_json cid maybe_after limit =
     bnd (get_collection_items cid maybe_after limit) (\<lambda>items. ret (map ao_object_data items))"

definition expand_collections :: "string list \<Rightarrow> string list db" where
  "expand_collections audience =
     bnd (gets (\<lambda>s. filter (\<lambda>i. ci_collection_id i \<in> set audience) (collection_items s))) (\<lambda>items.
     ret (concat (map (\<lambda>target.
       let objects = map ci_object_id (filter (\<lambda>i. ci_collection_id i = target) items) in
       if objects \<noteq> [] then objects else [target]) audience)))"

section \<open>Media\<close>

definition media_digest :: "partial_media_info \<Rightarrow> string option" where
  "media_digest m = (case m of PmFile f _ \<Rightarrow> pf_digest f | PmLink _ _ \<Rightarrow> None)"

definition create_activitypub_media :: "uuid \<Rightarrow> file_info \<Rightarrow> unit db" where
  "create_activitypub_media owner f = run (\<lambda>s.
     if list_ex (\<lambda>m. am_owner_id m = owner \<and> media_digest (am_media m) = Some (fi_digest f)) (activitypub_medias s)
     then (Ok (), s)
     else if owner \<notin> pua_id ` set (portable_user_accounts s) then (Err ForeignKeyViolation, s)
     else (Ok (), s\<lparr>activitypub_medias := activitypub_medias s
            @ [\<lparr>am_owner_id = owner, am_media = partial_media_of (MiFile f None)\<rparr>]\<rparr>))"

definition delete_activitypub_media :: "uuid \<Rightarrow> string \<Rightarrow> unit db" where
  "delete_activitypub_media owner digest =
     (let mine = (\<lambda>m. am_owner_id m = owner \<and> media_digest (am_media m) = Some digest) in
      bnd (gets (\<lambda>s. list_ex mine (activitypub_medias s))) (\<lambda>deleted.
      seq (modify (\<lambda>s. s\<lparr>activitypub_medias := delete_where mine (activitypub_medias s)\<rparr>))
        (if deleted then ret () else throw (NotFound ''media''))))"

definition full_file_info :: "partial_file_info \<Rightarrow> file_info option" where
  "full_file_info f = (case (pf_file_size f, pf_digest f, pf_media_type f) of
      (Some n, Some d, Some t) \<Rightarrow> Some \<lparr>fi_file_name = pf_file_name f, fi_file_size = n, fi_digest = d, fi_media_type = t\<rparr>
    | _ \<Rightarrow> None)"

definition get_activitypub_media_by_digest :: "string \<Rightarrow> file_info db" where
  "get_activitypub_media_by_digest digest =
     bnd (select_or_not_found ''media'' (\<lambda>s.
        take 1 (filter (\<lambda>m. media_digest (am_media m) = Some digest) (activitypub_medias s)))) (\<lambda>m.
     case am_media m of
       PmFile f _ \<Rightarrow> run (lift (ok_or FromSqlError (full_file_info f)))
     | PmLink _ _ \<Rightarrow> throw TypeError)"

section \<open>Identifiers in use\<close>

fun option_object_id :: "payment_option \<Rightarrow> string option" where
  "option_object_id (OptRemoteMoneroSubscription i) = Some (rms_object_id i)"
| "option_object_id _ = None"

definition get_object_ids :: "string list db" where
  "get_object_ids = gets (\<lambda>s.
     concat (map (\<lambda>p. case p_actor_json p of None \<Rightarrow> []
       | Some a \<Rightarrow> List.map_filter (\<lambda>x. x) [Some (da_id a), Some (da_inbox a), Some (da_outbox a), da_followers a]) (actor_profiles s))
     @ concat (map (\<lambda>p. map dk_id (p_public_keys p)) (actor_profiles s))
     @ concat (map (\<lambda>p. List.map_filter option_object_id (p_payment_options p)) (actor_profiles s))
     @ List.map_filter po_object_id (posts s)
     @ concat (map (\<lambda>c. List.map_filter (\<lambda>x. x) [cv_object_id c, cv_audience c])
         (filter (\<lambda>c. cv_audience c \<noteq> None) (conversations s)))
     @ List.map_filter fr_activity_id (follow_requests s)
     @ List.map_filter re_activity_id (reactions s)
     @ List.map_filter em_object_id (emojis s)
     @ List.map_filter inv_object_id (invoices s))"

end
