(* ===== verification/Emojis.thy ===== *)
theory Emojis
  imports ProfileQueries
begin

text \<open>
  Custom emojis (\<open>mitra_models/src/emojis\<close>): upserts of local and remote emojis, deletion with the
  foreign key cascades of \<open>schema.sql\<close>, lookups. Every change refreshes the copies of the emoji that
  the rows of \<open>actor_profile\<close> cache.
\<close>

definition shortcode :: "custom_emoji \<Rightarrow> string" where
  "shortcode e = '':'' @ em_name e @ '':''"

section \<open>Constraints of the table\<close>

definition emojis_clash :: "custom_emoji \<Rightarrow> custom_emoji \<Rightarrow> bool" where
  "emojis_clash e f \<longleftrightarrow> em_id e = em_id f \<or> (em_name e = em_name f \<and> em_hostname e = em_hostname f)
     \<or> same_key (em_object_id e) (em_object_id f)"

fun emoji_keys_ok :: "custom_emoji list \<Rightarrow> bool" where
  "emoji_keys_ok [] = True"
| "emoji_keys_ok (e # es) = (\<not> list_ex (emojis_clash e) es \<and> emoji_keys_ok es)"

definition emoji_row_ok :: "database \<Rightarrow> custom_emoji \<Rightarrow> bool" where
  "emoji_row_ok s e \<longleftrightarrow> (case em_hostname e of None \<Rightarrow> True | Some h \<Rightarrow> h \<in> set (instances s))"

definition put_emojis :: "custom_emoji list \<Rightarrow> unit stmt" where
  "put_emojis es s =
     (if list_ex (\<lambda>e. (em_hostname e = None) \<noteq> (em_object_id e = None)) es then (Err CheckViolation, s)
      else if \<not> emoji_keys_ok es then (Err UniqueViolation, s)
      else if \<not> list_all (emoji_row_ok s) es then (Err ForeignKeyViolation, s)
      else (Ok (), s\<lparr>emojis := es\<rparr>))"

text \<open>\<open>INSERT ... ON CONFLICT (name and host) DO UPDATE ... RETURNING emoji\<close>.\<close>

definition named_emoji :: "string \<Rightarrow> string option \<Rightarrow> custom_emoji \<Rightarrow> bool" where
  "named_emoji name hostname e \<longleftrightarrow> em_name e = name \<and> em_hostname e = hostname"

definition upsert_emoji :: "custom_emoji \<Rightarrow> (custom_emoji \<Rightarrow> custom_emoji) \<Rightarrow> custom_emoji stmt" where
  "upsert_emoji new f =
     bnd (gets (\<lambda>s. list_ex (named_emoji (em_name new) (em_hostname new)) (emojis s))) (\<lambda>exists.
     seq (bnd (gets (\<lambda>s. if exists then update_where (named_emoji (em_name new) (em_hostname new)) f (emojis s)
                          else emojis s @ [new])) put_emojis)
     (bnd (gets (\<lambda>s. filter (named_emoji (em_name new) (em_hostname new)) (emojis s))) (\<lambda>rows.
      lift (query_one rows))))"

definition detached_image :: "partial_media_info option \<Rightarrow> deletion_queue" where
  "detached_image m = \<lparr>dq_files = List.map_filter (\<lambda>x. Option.bind x into_file_name) [m], dq_ipfs_objects = []\<rparr>"

section \<open>Operations\<close>

definition create_or_update_remote_emoji ::
  "uuid \<Rightarrow> string \<Rightarrow> string \<Rightarrow> media_info \<Rightarrow> string \<Rightarrow> datetime \<Rightarrow> (custom_emoji \<times> deletion_queue) db" where
  "create_or_update_remote_emoji eid name hostname img object_id updated_at = transaction (
     bnd (select_opt (\<lambda>s. filter (named_emoji name (Some hostname)) (emojis s))) (\<lambda>old.
     seq (create_instance hostname)
     (bnd (run (upsert_emoji \<lparr>em_id = eid, em_name = name, em_hostname = Some hostname,
              em_image = partial_media_of img, em_category = None, em_object_id = Some object_id,
              em_updated_at = updated_at\<rparr>
            (\<lambda>e. e\<lparr>em_image := partial_media_of img, em_object_id := Some object_id, em_updated_at := updated_at\<rparr>)))
       (\<lambda>emoji.
      seq (update_emoji_caches (em_id emoji)) (ret (emoji, detached_image (map_option em_image old)))))))"

definition update_remote_emoji ::
  "uuid \<Rightarrow> media_info \<Rightarrow> datetime \<Rightarrow> (custom_emoji \<times> deletion_queue) db" where
  "update_remote_emoji eid img updated_at = transaction (
     bnd (bnd (gets (\<lambda>s. filter (\<lambda>e. em_id e = eid) (emojis s))) (\<lambda>rows. run (lift (query_one rows)))) (\<lambda>old.
     seq (run (bnd (gets (\<lambda>s. update_where (\<lambda>e. em_id e = eid)
            (\<lambda>e. e\<lparr>em_image := partial_media_of img, em_updated_at := updated_at\<rparr>) (emojis s))) put_emojis))
     (bnd (bnd (gets (\<lambda>s. filter (\<lambda>e. em_id e = eid) (emojis s))) (\<lambda>rows. run (lift (query_one rows)))) (\<lambda>emoji.
      seq (update_emoji_caches (em_id emoji)) (ret (emoji, detached_image (Some (em_image old))))))))"

definition create_or_update_local_emoji ::
  "uuid \<Rightarrow> string \<Rightarrow> media_info \<Rightarrow> string option \<Rightarrow> (custom_emoji \<times> deletion_queue) db" where
  "create_or_update_local_emoji eid name img category = transaction (
     bnd (select_opt (\<lambda>s. filter (named_emoji name None) (emojis s))) (\<lambda>old.
     bnd (gets current_timestamp) (\<lambda>now.
     bnd (run (upsert_emoji \<lparr>em_id = eid, em_name = name, em_hostname = None,
             em_image = partial_media_of img, em_category = category, em_object_id = None, em_updated_at = now\<rparr>
           (\<lambda>e. e\<lparr>em_image := partial_media_of img, em_category := category, em_updated_at := now\<rparr>)))
       (\<lambda>emoji.
      seq (update_emoji_caches (em_id emoji)) (ret (emoji, detached_image (map_option em_image old)))))))"

text \<open>\<open>DELETE FROM emoji\<close>: the links to posts and profiles and the reactions with the emoji go along,
  the latter with their notifications.\<close>

definition remove_emoji :: "uuid \<Rightarrow> database \<Rightarrow> database" where
  "remove_emoji eid s =
     s\<lparr>emojis := delete_where (\<lambda>e. em_id e = eid) (emojis s),
       post_emojis := delete_where (\<lambda>x. pe_emoji_id x = eid) (post_emojis s),
       profile_emojis := delete_where (\<lambda>x. pfe_emoji_id x = eid) (profile_emojis s),
       reactions := delete_where (\<lambda>r. re_emoji_id r = Some eid) (reactions s),
       notifications := delete_where (\<lambda>n. list_ex (\<lambda>r. re_emoji_id r = Some eid \<and> ntf_reaction_id n = Some (re_id r))
         (reactions s)) (notifications s)\<rparr>"

definition delete_emoji :: "uuid \<Rightarrow> deletion_queue db" where
  "delete_emoji eid =
     bnd (select_or_not_found ''emoji'' (\<lambda>s. filter (\<lambda>e. em_id e = eid) (emojis s))) (\<lambda>emoji.
     seq (modify (remove_emoji eid))
     (seq (update_emoji_caches (em_id emoji)) (ret (detached_image (Some (em_image emoji))))))"

section \<open>Lookups\<close>

definition get_local_emoji_by_name :: "string \<Rightarrow> custom_emoji db" where
  "get_local_emoji_by_name name = select_or_not_found ''emoji'' (\<lambda>s. filter (named_emoji name None) (emojis s))"

definition get_local_emojis_by_names :: "string list \<Rightarrow> custom_emoji list db" where
  "get_local_emojis_by_names names =
     gets (\<lambda>s. filter (\<lambda>e. em_hostname e = None \<and> em_name e \<in> set names) (emojis s))"

definition get_local_emojis :: "custom_emoji list db" where
  "get_local_emojis = gets (\<lambda>s. sort_key em_name (filter (\<lambda>e. em_hostname e = None) (emojis s)))"

definition get_emoji_by_name_and_hostname :: "string \<Rightarrow> string \<Rightarrow> custom_emoji db" where
  "get_emoji_by_name_and_hostname name hostname =
     select_or_not_found ''emoji'' (\<lambda>s. filter (named_emoji name (Some hostname)) (emojis s))"

definition get_emoji_by_name :: "string \<Rightarrow> string option \<Rightarrow> custom_emoji db" where
  "get_emoji_by_name name maybe_hostname = (case maybe_hostname of
      Some hostname \<Rightarrow> get_emoji_by_name_and_hostname name hostname
    | None \<Rightarrow> get_local_emoji_by_name name)"

definition get_remote_emoji_by_object_id :: "string \<Rightarrow> custom_emoji db" where
  "get_remote_emoji_by_object_id oid =
     select_or_not_found ''emoji'' (\<lambda>s. filter (\<lambda>e. em_object_id e = Some oid) (emojis s))"

definition find_unused_remote_emojis :: "uuid list db" where
  "find_unused_remote_emojis = gets (\<lambda>s. map em_id (filter (\<lambda>e. em_object_id e \<noteq> None
     \<and> \<not> list_ex (\<lambda>x. pe_emoji_id x = em_id e) (post_emojis s)
     \<and> \<not> list_ex (\<lambda>r. re_emoji_id r = Some (em_id e)) (reactions s)
     \<and> \<not> list_ex (\<lambda>x. pfe_emoji_id x = em_id e) (profile_emojis s)) (emojis s)))"

end
