(* ===== verification/SmallTables.thy ===== *)
theory SmallTables
  imports Accounts Timelines
begin

text \<open>
  The remaining small tables of \<open>mitra_models\<close>: custom feeds (\<open>custom_feeds\<close>), unposted attachments
  (\<open>attachments\<close>), tags (\<open>tags\<close>), timeline markers (\<open>markers\<close>), internal properties (\<open>properties\<close>) and
  groups (\<open>groups\<close>).
\<close>

section \<open>Custom feeds\<close>

definition feed_of :: "int \<Rightarrow> uuid \<Rightarrow> custom_feed \<Rightarrow> bool" where
  "feed_of fid owner f \<longleftrightarrow> cf_id f = fid \<and> cf_owner_id f = owner"

definition insert_custom_feed :: "uuid \<Rightarrow> string \<Rightarrow> custom_feed stmt" where
  "insert_custom_feed owner name s =
     (let f = \<lparr>cf_id = custom_feed_seq (seqs s), cf_owner_id = owner, cf_feed_name = name\<rparr>;
          t = s\<lparr>seqs := (seqs s)\<lparr>custom_feed_seq := custom_feed_seq (seqs s) + 1\<rparr>\<rparr> in
      if list_ex (\<lambda>g. cf_id g = cf_id f \<or> cf_owner_id g = owner \<and> cf_feed_name g = name) (custom_feeds s)
      then (Err UniqueViolation, t)
      else if owner \<notin> u_id ` set (user_accounts s) then (Err ForeignKeyViolation, t)
      else (Ok f, t\<lparr>custom_feeds := custom_feeds t @ [f]\<rparr>))"

definition create_custom_feed :: "uuid \<Rightarrow> string \<Rightarrow> custom_feed db" where
  "create_custom_feed owner name = map_err_p (catch_unique_violation ''custom feed'') (insert_custom_feed owner name)"

definition rename_custom_feed :: "int \<Rightarrow> uuid \<Rightarrow> string \<Rightarrow> unit stmt" where
  "rename_custom_feed fid owner name s =
     (if list_ex (feed_of fid owner) (custom_feeds s)
         \<and> list_ex (\<lambda>g. cf_id g \<noteq> fid \<and> cf_owner_id g = owner \<and> cf_feed_name g = name) (custom_feeds s)
      then (Err UniqueViolation, s)
      else (Ok (), s\<lparr>custom_feeds := update_where (feed_of fid owner) (\<lambda>f. f\<lparr>cf_feed_name := name\<rparr>) (custom_feeds s)\<rparr>))"

definition get_custom_feed :: "int \<Rightarrow> uuid \<Rightarrow> custom_feed db" where
  "get_custom_feed fid owner =
     select_or_not_found ''custom feed'' (\<lambda>s. filter (feed_of fid owner) (custom_feeds s))"

definition update_custom_feed :: "int \<Rightarrow> uuid \<Rightarrow> string \<Rightarrow> custom_feed db" where
  "update_custom_feed fid owner name =
     seq (run (rename_custom_feed fid owner name))
       (select_or_not_found ''custom feed'' (\<lambda>s. filter (feed_of fid owner) (custom_feeds s)))"

definition delete_custom_feed :: "int \<Rightarrow> uuid \<Rightarrow> unit db" where
  "delete_custom_feed fid owner =
     bnd (gets (\<lambda>s. list_ex (feed_of fid owner) (custom_feeds s))) (\<lambda>deleted.
     seq (modify (\<lambda>s. if deleted then
            s\<lparr>custom_feeds := delete_where (feed_of fid owner) (custom_feeds s),
              custom_feed_sources := delete_where (\<lambda>x. cs_feed_id x = fid) (custom_feed_sources s)\<rparr> else s))
       (if deleted then ret () else throw (NotFound ''custom feed'')))"

definition get_custom_feeds :: "uuid \<Rightarrow> custom_feed list db" where
  "get_custom_feeds owner = gets (\<lambda>s. sort_key cf_feed_name (filter (\<lambda>f. cf_owner_id f = owner) (custom_feeds s)))"

definition insert_feed_sources :: "int \<Rightarrow> uuid list \<Rightarrow> unit stmt" where
  "insert_feed_sources fid ids s =
     (if \<not> distinct ids \<or> list_ex (\<lambda>x. cs_feed_id x = fid \<and> cs_source_id x \<in> set ids) (custom_feed_sources s)
      then (Err UniqueViolation, s)
      else if ids \<noteq> [] \<and> (fid \<notin> cf_id ` set (custom_feeds s) \<or> \<not> set ids \<subseteq> p_id ` set (actor_profiles s))
      then (Err ForeignKeyViolation, s)
      else (Ok (), s\<lparr>custom_feed_sources := custom_feed_sources s
             @ map (\<lambda>i. \<lparr>cs_feed_id = fid, cs_source_id = i\<rparr>) ids\<rparr>))"

definition add_custom_feed_sources :: "int \<Rightarrow> uuid list \<Rightarrow> unit db" where
  "add_custom_feed_sources fid ids =
     map_err_p (catch_unique_violation ''custom feed source'') (insert_feed_sources fid ids)"

definition remove_custom_feed_sources :: "int \<Rightarrow> uuid list \<Rightarrow> unit db" where
  "remove_custom_feed_sources fid ids =
     modify (\<lambda>s. s\<lparr>custom_feed_sources :=
       delete_where (\<lambda>x. cs_feed_id x = fid \<and> cs_source_id x \<in> set ids) (custom_feed_sources s)\<rparr>)"

definition get_custom_feed_sources :: "externals \<Rightarrow> int \<Rightarrow> uuid option \<Rightarrow> nat \<Rightarrow> actor_profile list db" where
  "get_custom_feed_sources X fid max_id limit =
     bnd (gets (\<lambda>s. take limit (rev (sort_key p_id
        [p. x \<leftarrow> custom_feed_sources s, p \<leftarrow> actor_profiles s,
          cs_source_id x = p_id p \<and> cs_feed_id x = fid \<and> below max_id (p_id p)])))) (profiles_try_from X)"

definition get_custom_feeds_by_source :: "uuid \<Rightarrow> uuid \<Rightarrow> custom_feed list db" where
  "get_custom_feeds_by_source owner source =
     gets (\<lambda>s. [f. f \<leftarrow> custom_feeds s, x \<leftarrow> custom_feed_sources s,
       cs_feed_id x = cf_id f \<and> cf_owner_id f = owner \<and> cs_source_id x = source])"

section \<open>Attachments\<close>

definition attachment_of :: "uuid \<Rightarrow> uuid \<Rightarrow> media_attachment \<Rightarrow> bool" where
  "attachment_of owner aid a \<longleftrightarrow> ma_owner_id a = owner \<and> ma_id a = aid"

definition create_attachment :: "uuid \<Rightarrow> uuid \<Rightarrow> media_info \<Rightarrow> string option \<Rightarrow> media_attachment db" where
  "create_attachment aid owner media description = run (\<lambda>s.
     (let a = \<lparr>ma_id = aid, ma_owner_id = owner, ma_media = partial_media_of media, ma_description = description,
               ma_ipfs_cid = None, ma_post_id = None, ma_created_at = current_timestamp s\<rparr> in
      if aid \<in> ma_id ` set (media_attachments s) then (Err UniqueViolation, s)
      else if owner \<notin> p_id ` set (actor_profiles s) then (Err ForeignKeyViolation, s)
      else (Ok a, s\<lparr>media_attachments := media_attachments s @ [a]\<rparr>)))"

definition get_attachment :: "uuid \<Rightarrow> uuid \<Rightarrow> media_attachment db" where
  "get_attachment owner aid =
     select_or_not_found ''attachment'' (\<lambda>s. filter (attachment_of owner aid) (media_attachments s))"

text \<open>\<open>UPDATE media_attachment SET ... WHERE ... RETURNING media_attachment\<close>.\<close>

definition change_attachment ::
  "(media_attachment \<Rightarrow> bool) \<Rightarrow> (media_attachment \<Rightarrow> media_attachment) \<Rightarrow> media_attachment db" where
  "change_attachment P f =
     bnd (gets (\<lambda>s. map f (filter P (media_attachments s)))) (\<lambda>rows.
     seq (modify (\<lambda>s. s\<lparr>media_attachments := update_where P f (media_attachments s)\<rparr>))
     (bnd (run (lift (query_opt rows))) (\<lambda>row. lift (ok_or (NotFound ''attachment'') row))))"

definition update_attachment :: "uuid \<Rightarrow> uuid \<Rightarrow> string option \<Rightarrow> media_attachment db" where
  "update_attachment owner aid description =
     change_attachment (attachment_of owner aid) (\<lambda>a. a\<lparr>ma_description := description\<rparr>)"

definition unused_attachment :: "datetime \<Rightarrow> media_attachment \<Rightarrow> bool" where
  "unused_attachment created_before a \<longleftrightarrow> ma_post_id a = None \<and> ma_created_at a < created_before"

text \<open>\<open>media ->> 'file_name'\<close> is read into a \<open>String\<close>: a null is an error of the driver. The rows are
  already deleted then.\<close>

definition delete_unused_attachments :: "datetime \<Rightarrow> (nat \<times> deletion_queue) db" where
  "delete_unused_attachments created_before =
     bnd (gets (\<lambda>s. filter (unused_attachment created_before) (media_attachments s))) (\<lambda>rows.
     seq (modify (\<lambda>s. s\<lparr>media_attachments := delete_where (unused_attachment created_before) (media_attachments s)\<rparr>))
     (bnd (run (lift (try_map (\<lambda>a. ok_or FromSqlError (into_file_name (ma_media a))) rows))) (\<lambda>files.
      ret (length rows, \<lparr>dq_files = files, dq_ipfs_objects = List.map_filter ma_ipfs_cid rows\<rparr>))))"

section \<open>Tags\<close>

definition delete_tag :: "string \<Rightarrow> unit db" where
  "delete_tag name =
     bnd (gets (\<lambda>s. list_ex (\<lambda>g. tg_name g = name) (tags s))) (\<lambda>deleted.
     seq (modify (\<lambda>s. s\<lparr>
            post_tags := delete_where (\<lambda>x. list_ex (\<lambda>g. tg_name g = name \<and> tg_id g = pt_tag_id x) (tags s)) (post_tags s),
            tags := delete_where (\<lambda>g. tg_name g = name) (tags s)\<rparr>))
       (if deleted then ret () else throw (NotFound ''tag'')))"

definition search_tags :: "string \<Rightarrow> nat \<Rightarrow> nat \<Rightarrow> string list db" where
  "search_tags query limit offset = gets (\<lambda>s. take limit (drop offset
     (map tg_name (filter (\<lambda>g. ilike (tg_name g) (''%'' @ query @ ''%'')) (tags s)))))"

definition find_unused_tags :: "string list db" where
  "find_unused_tags = gets (\<lambda>s. map tg_name (filter (\<lambda>g. \<not> list_ex (\<lambda>x. pt_tag_id x = tg_id g) (post_tags s)) (tags s)))"

section \<open>Timeline markers\<close>

definition marker_of :: "uuid \<Rightarrow> timeline \<Rightarrow> timeline_marker \<Rightarrow> bool" where
  "marker_of uid line m \<longleftrightarrow> tm_user_id m = uid \<and> tm_timeline m = line"

definition upsert_marker :: "uuid \<Rightarrow> timeline \<Rightarrow> string \<Rightarrow> timeline_marker stmt" where
  "upsert_marker uid line last_read s =
     (let t = s\<lparr>seqs := (seqs s)\<lparr>marker_seq := marker_seq (seqs s) + 1\<rparr>\<rparr>;
          m = \<lparr>tm_id = marker_seq (seqs s), tm_user_id = uid, tm_timeline = line, tm_last_read_id = last_read,
               tm_updated_at = current_timestamp s\<rparr> in
      case filter (marker_of uid line) (timeline_markers s) of
        old # _ \<Rightarrow>
          (let new = old\<lparr>tm_last_read_id := last_read, tm_updated_at := current_timestamp s\<rparr> in
           (Ok new, t\<lparr>timeline_markers := update_where (marker_of uid line)
              (\<lambda>x. x\<lparr>tm_last_read_id := last_read, tm_updated_at := current_timestamp s\<rparr>) (timeline_markers t)\<rparr>))
      | [] \<Rightarrow>
          if uid \<notin> u_id ` set (user_accounts s) then (Err ForeignKeyViolation, t)
          else (Ok m, t\<lparr>timeline_markers := timeline_markers t @ [m]\<rparr>))"

definition create_or_update_marker :: "uuid \<Rightarrow> timeline \<Rightarrow> string \<Rightarrow> timeline_marker db" where
  "create_or_update_marker uid line last_read = run (upsert_marker uid line last_read)"

definition get_marker_opt :: "uuid \<Rightarrow> timeline \<Rightarrow> timeline_marker option db" where
  "get_marker_opt uid line = select_opt (\<lambda>s. filter (marker_of uid line) (timeline_markers s))"

section \<open>Internal properties\<close>

definition set_internal_property :: "string \<Rightarrow> json \<Rightarrow> unit db" where
  "set_internal_property name v =
     modify (\<lambda>s. s\<lparr>internal_properties := AList.update name v (internal_properties s)\<rparr>)"

definition get_internal_property_json :: "string \<Rightarrow> json option db" where
  "get_internal_property_json name =
     bnd (select_opt (\<lambda>s. filter (\<lambda>x. fst x = name) (internal_properties s))) (\<lambda>row. ret (map_option snd row))"

text \<open>\<open>serde_json::from_value::<T>\<close> is an argument.\<close>

definition get_internal_property :: "(json \<Rightarrow> 'a option) \<Rightarrow> string \<Rightarrow> 'a option db" where
  "get_internal_property decode name =
     bnd (get_internal_property_json name) (\<lambda>v. case v of
        None \<Rightarrow> ret None
      | Some j \<Rightarrow> bnd (lift (ok_or TypeError (decode j))) (\<lambda>a. ret (Some a)))"

definition get_internal_properties_json :: "json db" where
  "get_internal_properties_json = gets (\<lambda>s. JObject (internal_properties s))"

section \<open>Groups\<close>

record group_create_data =
  gcd_username :: string
  gcd_bio :: "string option"
  gcd_bio_source :: "string option"
  gcd_emojis :: "uuid list"
  gcd_rsa_secret_key :: string
  gcd_ed25519_secret_key :: string

definition create_group :: "externals \<Rightarrow> uuid \<Rightarrow> uuid \<Rightarrow> group_create_data \<Rightarrow> automated_account_detailed db" where
  "create_group X pid owner d = transaction (
     bnd (create_automated_account X pid \<lparr>acd_username = gcd_username d, acd_bio = gcd_bio d,
            acd_bio_source = gcd_bio_source d, acd_emojis = gcd_emojis d, acd_account_type = AaGroup,
            acd_rsa_secret_key = gcd_rsa_secret_key d, acd_ed25519_secret_key = gcd_ed25519_secret_key d\<rparr>) (\<lambda>account.
     seq (create_relationship owner (aad_id account) RelGroupAdmin) (ret account)))"

datatype group_filter = GfFollowing | GfModerating

fun group_filter_type :: "group_filter \<Rightarrow> relationship_type" where
  "group_filter_type GfFollowing = RelFollow"
| "group_filter_type GfModerating = RelGroupAdmin"

definition group_activity_key :: "database \<Rightarrow> actor_profile \<Rightarrow> bool \<times> int" where
  "group_activity_key s p = (case map po_created_at (filter (\<lambda>q. po_group_id q = Some (p_id p)) (posts s)) of
      [] \<Rightarrow> (True, 0) | d # ds \<Rightarrow> (False, - fold max ds d))"

definition get_related_groups :: "externals \<Rightarrow> uuid \<Rightarrow> group_filter \<Rightarrow> nat \<Rightarrow> nat \<Rightarrow> actor_profile list db" where
  "get_related_groups X account flt offset limit =
     bnd (gets (\<lambda>s. take limit (drop offset (sort_key (group_activity_key s)
        [p. p \<leftarrow> actor_profiles s, r \<leftarrow> relationships s, p_id p = rel_target_id r \<and> p_actor_type p = Group
          \<and> rel_source_id r = account \<and> rel_type r = group_filter_type flt])))) (profiles_try_from X)"

definition get_group_timeline :: "externals \<Rightarrow> uuid \<Rightarrow> uuid \<Rightarrow> uuid option \<Rightarrow> nat \<Rightarrow> post_detailed list db" where
  "get_group_timeline X gid viewer max_id limit =
     load_page X limit max_id (\<lambda>s p a. po_group_id p = Some gid \<and> po_in_reply_to_id p = None
       \<and> visibility_filter s (Some viewer) p \<and> mute_filter s (Some viewer) p)"

end
