(* ===== verification/UnicodeText.thy ===== *)
theory UnicodeText
  imports Multiformats
begin

text \<open>
  Text of the validators. A Rust \<open>str\<close> is its UTF-8 bytes, one HOL character each: \<open>len\<close> counts bytes,
  \<open>chars\<close> yields the byte sequences of the code points. \<open>trim\<close> and \<open>split_whitespace\<close> are those of the
  standard library (Unicode \<open>White_Space\<close>), \<open>trim_invisible\<close> is \<open>mitra_utils/src/unicode.rs\<close>.
\<close>

section \<open>Code points\<close>

definition is_continuation :: "char \<Rightarrow> bool" where
  "is_continuation c \<longleftrightarrow> 128 \<le> (of_char c :: nat) \<and> (of_char c :: nat) < 192"

function chars_of :: "string \<Rightarrow> string list" where
  "chars_of [] = []"
| "chars_of (c # s) = (c # takeWhile is_continuation s) # chars_of (dropWhile is_continuation s)"
  by pat_completeness auto

termination
  by (relation "measure length") (auto simp: length_dropWhile_le le_imp_less_Suc)

definition char_count :: "string \<Rightarrow> nat" where
  "char_count s = length (chars_of s)"

definition take_chars :: "nat \<Rightarrow> string \<Rightarrow> string" where
  "take_chars n s = concat (take n (chars_of s))"

section \<open>White space\<close>

definition white_space_chars :: "string list" where
  "white_space_chars = map (\<lambda>c. [c]) [CHR 0x09, CHR 0x0A, CHR 0x0B, CHR 0x0C, CHR 0x0D, CHR 0x20]
     @ [[CHR 0xC2, CHR 0x85], [CHR 0xC2, CHR 0xA0], [CHR 0xE1, CHR 0x9A, CHR 0x80]]
     @ map (\<lambda>c. [CHR 0xE2, CHR 0x80, c]) [CHR 0x80, CHR 0x81, CHR 0x82, CHR 0x83, CHR 0x84, CHR 0x85, CHR 0x86,
         CHR 0x87, CHR 0x88, CHR 0x89, CHR 0x8A, CHR 0xA8, CHR 0xA9, CHR 0xAF]
     @ [[CHR 0xE2, CHR 0x81, CHR 0x9F], [CHR 0xE3, CHR 0x80, CHR 0x80]]"

definition is_white_space :: "string \<Rightarrow> bool" where
  "is_white_space ch \<longleftrightarrow> ch \<in> set white_space_chars"

text \<open>U+200B, U+200C, U+200D, U+FEFF.\<close>

definition is_zero_width :: "string \<Rightarrow> bool" where
  "is_zero_width ch \<longleftrightarrow> ch \<in> {[CHR 0xE2, CHR 0x80, CHR 0x8B], [CHR 0xE2, CHR 0x80, CHR 0x8C],
     [CHR 0xE2, CHR 0x80, CHR 0x8D], [CHR 0xEF, CHR 0xBB, CHR 0xBF]}"

definition trim_matches :: "(string \<Rightarrow> bool) \<Rightarrow> string \<Rightarrow> string" where
  "trim_matches P s = concat (rev (dropWhile P (rev (dropWhile P (chars_of s)))))"

definition trim :: "string \<Rightarrow> string" where
  "trim = trim_matches is_white_space"

definition trim_invisible :: "string \<Rightarrow> string" where
  "trim_invisible s = trim_matches is_zero_width (trim s)"

fun words_of :: "string \<Rightarrow> string list \<Rightarrow> string list" where
  "words_of w [] = (if w = [] then [] else [w])"
| "words_of w (ch # cs) =
     (if is_white_space ch then (if w = [] then words_of [] cs else w # words_of [] cs)
      else words_of (w @ ch) cs)"

definition split_whitespace :: "string \<Rightarrow> string list" where
  "split_whitespace s = words_of [] (chars_of s)"

section \<open>Lemmas\<close>

lemma concat_chars_of [simp]: "concat (chars_of s) = s"
  by (induction s rule: chars_of.induct) simp_all

lemma chars_of_not_Nil: "ch \<in> set (chars_of s) \<Longrightarrow> ch \<noteq> []"
  by (induction s rule: chars_of.induct) auto

text \<open>A sequence of code points splits back into itself.\<close>

definition is_char :: "string \<Rightarrow> bool" where
  "is_char ch \<longleftrightarrow> (\<exists>c cs. ch = c # cs \<and> list_all is_continuation cs)"

definition starts_char :: "string list \<Rightarrow> bool" where
  "starts_char cs \<longleftrightarrow> (case concat cs of [] \<Rightarrow> True | c # _ \<Rightarrow> \<not> is_continuation c)"

lemma takeWhile_all_append: "list_all P a \<Longrightarrow> (case b of [] \<Rightarrow> True | c # _ \<Rightarrow> \<not> P c) \<Longrightarrow> takeWhile P (a @ b) = a"
  by (cases b) (simp_all add: list_all_iff takeWhile_append)

lemma dropWhile_all_append: "list_all P a \<Longrightarrow> (case b of [] \<Rightarrow> True | c # _ \<Rightarrow> \<not> P c) \<Longrightarrow> dropWhile P (a @ b) = b"
  by (cases b) (simp_all add: list_all_iff dropWhile_append)

lemma chars_of_Cons: "is_char ch \<Longrightarrow> starts_char cs \<Longrightarrow> chars_of (ch @ concat cs) = ch # chars_of (concat cs)"
  by (auto simp: is_char_def starts_char_def takeWhile_all_append dropWhile_all_append)

lemma chars_of_head: "chars_of s = ch # cs \<Longrightarrow> is_char ch \<and> starts_char cs"
proof (induction s arbitrary: ch cs rule: chars_of.induct)
  case (2 c s)
  have "case dropWhile is_continuation s of [] \<Rightarrow> True | d # _ \<Rightarrow> \<not> is_continuation d"
    by (simp only: split: list.split) (metis hd_dropWhile list.sel(1) list.distinct(1))
  moreover have "list_all is_continuation (takeWhile is_continuation s)" by (auto simp: list_all_iff dest: set_takeWhileD)
  ultimately show ?case using 2(2) by (auto simp: is_char_def starts_char_def)
qed simp

lemma starts_char_take: "chars_of s = ch # cs \<Longrightarrow> starts_char (take n cs)"
proof -
  assume "chars_of s = ch # cs"
  then have start: "starts_char cs" by (simp add: chars_of_head)
  show ?thesis
  proof (cases "take n cs")
    case (Cons d ds)
    then obtain es where "cs = d # es" by (cases cs; cases n) auto
    moreover have "d \<in> set (chars_of s)" using \<open>chars_of s = ch # cs\<close> calculation by simp
    then have "d \<noteq> []" by (rule chars_of_not_Nil)
    then obtain x xs where "d = x # xs" by (cases d) auto
    ultimately show ?thesis using start Cons by (auto simp: starts_char_def)
  qed (auto simp: starts_char_def)
qed

lemma chars_of_take: "chars_of (take_chars n s) = take n (chars_of s)"
proof (induction s arbitrary: n rule: chars_of.induct)
  case (2 c s)
  let ?ch = "c # takeWhile is_continuation s" and ?rest = "dropWhile is_continuation s"
  have whole: "chars_of (c # s) = ?ch # chars_of ?rest" by simp
  show ?case
  proof (cases n)
    case (Suc m)
    have "chars_of (?ch @ concat (take m (chars_of ?rest))) = ?ch # chars_of (concat (take m (chars_of ?rest)))"
      using chars_of_head [OF whole] starts_char_take [OF whole, of m] by (intro chars_of_Cons) simp_all
    then show ?thesis using 2 [of m] by (simp add: take_chars_def Suc)
  qed (simp add: take_chars_def)
qed (simp add: take_chars_def)

lemma char_count_take [simp]: "char_count (take_chars n s) = min n (char_count s)"
  by (simp add: char_count_def chars_of_take)

lemma length_char_pos: "ch \<in> set (chars_of s) \<Longrightarrow> 1 \<le> length ch"
  using chars_of_not_Nil by (cases ch) auto

lemma char_count_le: "char_count s \<le> length s"
  by (induction s rule: chars_of.induct)
    (auto simp: char_count_def intro: order_trans [OF _ length_dropWhile_le])

end
