(* ===== verification/Validators.thy ===== *)
theory Validators
  imports UnicodeText Uris ProfileQueries SmallTables
begin

text \<open>
  Validation of user and remote input (\<open>mitra_validators/src\<close>): cleaning functions, which make input
  acceptable, and validators, which refuse it. A validation error is its message. Lengths are in bytes
  where the code calls \<open>len\<close> and in code points where it calls \<open>chars().count()\<close>. The HTML cleaner
  \<open>ammonia\<close> behind \<open>mitra_utils/src/html.rs\<close>, grapheme segmentation, the Unicode class \<open>\w\<close> of the
  \<open>regex\<close> package and \<open>idna\<close> are arguments.
\<close>

type_synonym validated = "(string, unit) outcome"

record text_library =
  clean_html_all :: "string \<Rightarrow> string"
  clean_html :: "string \<Rightarrow> (string \<times> string list) list \<Rightarrow> string"
  clean_html_strict :: "string \<Rightarrow> string list \<Rightarrow> (string \<times> string list) list \<Rightarrow> string"
  is_single_character :: "string \<Rightarrow> bool"
  is_word_character :: "string \<Rightarrow> bool"
  domain_to_ascii :: "string \<Rightarrow> string option"

definition require :: "bool \<Rightarrow> string \<Rightarrow> validated" where
  "require b message = (if b then Ok () else Err message)"

definition check_opt :: "('a \<Rightarrow> validated) \<Rightarrow> 'a option \<Rightarrow> validated" where
  "check_opt f x = (case x of None \<Rightarrow> Ok () | Some a \<Rightarrow> f a)"

fun check_all :: "('a \<Rightarrow> validated) \<Rightarrow> 'a list \<Rightarrow> validated" where
  "check_all f [] = Ok ()"
| "check_all f (x # xs) = obind (f x) (\<lambda>_. check_all f xs)"

definition andThen :: "validated \<Rightarrow> validated \<Rightarrow> validated" where
  "andThen a b = obind a (\<lambda>_. b)"

lemma require_Ok [ok_runs]: "require b m = Ok u \<longleftrightarrow> b"
  by (simp add: require_def)

lemma check_opt_Ok [ok_runs]: "check_opt f x = Ok u \<longleftrightarrow> (case x of None \<Rightarrow> True | Some a \<Rightarrow> f a = Ok ())"
  by (simp add: check_opt_def split: option.split)

lemma check_all_Ok [ok_runs]: "check_all f xs = Ok u \<longleftrightarrow> (\<forall>x \<in> set xs. f x = Ok ())"
  by (induction xs) (auto simp: obind_Ok)

lemma andThen_Ok [ok_runs]: "andThen a b = Ok u \<longleftrightarrow> a = Ok () \<and> b = Ok ()"
  by (simp add: andThen_def obind_Ok)

section \<open>Identifiers (\<open>activitypub.rs\<close>)\<close>

definition object_id_size_max :: nat where
  "object_id_size_max = 2000"

fun is_ap_canonical :: "canonical_uri \<Rightarrow> bool" where
  "is_ap_canonical (CuAp _) = True"
| "is_ap_canonical (CuHttp _) = False"

text \<open>\<open>into_canonical\<close> of the model is an outcome; the code's cannot fail on a parsed identifier.\<close>

definition validate_object_id_with :: "uri_library \<Rightarrow> bool \<Rightarrow> string \<Rightarrow> validated" where
  "validate_object_id_with L allow_ap object_id =
     andThen (require (length object_id \<le> object_id_size_max) ''object ID is too long'')
     (obind (map_err (\<lambda>_. ''invalid object ID'') (obind (non_canonical_parse L object_id) (into_canonical L))) (\<lambda>canonical.
      andThen (require (canonical_to_string L canonical = object_id) ''object ID is not canonical'')
      (require (allow_ap \<or> \<not> is_ap_canonical canonical) ''object ID is 'ap' URI'')))"

definition validate_object_id :: "uri_library \<Rightarrow> string \<Rightarrow> validated" where
  "validate_object_id L object_id = validate_object_id_with L False object_id"

definition validate_any_object_id :: "uri_library \<Rightarrow> string \<Rightarrow> validated" where
  "validate_any_object_id L object_id = validate_object_id_with L True object_id"

definition validate_origin :: "uri_library \<Rightarrow> string \<Rightarrow> string \<Rightarrow> validated" where
  "validate_origin L id_1 id_2 =
     obind (map_err (\<lambda>_. ''invalid object ID'') (parse_canonical L id_1)) (\<lambda>u1.
     obind (map_err (\<lambda>_. ''invalid object ID'') (parse_canonical L id_2)) (\<lambda>u2.
     require (canonical_origin L u1 = canonical_origin L u2) ''related ID has different origin''))"

definition validate_endpoint_url :: "uri_library \<Rightarrow> string \<Rightarrow> validated" where
  "validate_endpoint_url L url = obind (map_err (\<lambda>_. ''invalid endpoint URL'') (http_uri_parse L url)) (\<lambda>_. Ok ())"

definition validate_gateway_url :: "uri_library \<Rightarrow> string \<Rightarrow> validated" where
  "validate_gateway_url L url = obind (map_err (\<lambda>_. ''invalid gateway URL'') (http_uri_parse L url)) (\<lambda>u.
     require (http_uri_base u = url) ''invalid gateway URL'')"

section \<open>Names\<close>

definition valid_username_char :: "char \<Rightarrow> bool" where
  "valid_username_char c \<longleftrightarrow> is_upper c \<or> is_lower c \<or> is_digit c \<or> c \<in> {CHR ''-'', CHR ''.'', CHR ''_''}"

definition validate_username :: "string \<Rightarrow> validated" where
  "validate_username username =
     andThen (require (username \<noteq> []) ''username is empty'')
     (andThen (require (length username \<le> 100) ''username is too long'')
     (require (username \<noteq> [] \<and> list_all valid_username_char username) ''invalid username''))"

definition local_username_char :: "char \<Rightarrow> bool" where
  "local_username_char c \<longleftrightarrow> is_upper c \<or> is_lower c \<or> is_digit c \<or> c \<in> {CHR ''_'', CHR ''-''}"

definition validate_local_username :: "string \<Rightarrow> validated" where
  "validate_local_username username =
     andThen (validate_username username)
     (andThen (require (username \<noteq> [] \<and> list_all local_username_char username)
        ''only letters, numbers, hyphens, and underscores are allowed in usernames'')
     (require (length username \<le> 30) ''username is too long''))"

definition hostname_matches :: "string \<Rightarrow> bool" where
  "hostname_matches h \<longleftrightarrow>
     h \<noteq> [] \<and> list_all (\<lambda>c. is_lower c \<or> is_digit c \<or> c \<in> {CHR ''.'', CHR ''-''}) h
     \<or> h \<noteq> [] \<and> list_all (\<lambda>c. is_digit c \<or> c = CHR ''.'') h
     \<or> (\<exists>a \<in> set [take (length h - 2) (drop 1 h)]. h = ''['' @ a @ '']'' \<and> a \<noteq> []
          \<and> list_all (\<lambda>c. is_hex_lower c \<or> c = CHR '':'') a)"

definition validate_hostname :: "text_library \<Rightarrow> string \<Rightarrow> validated" where
  "validate_hostname W hostname =
     andThen (require (length hostname \<le> 100) ''hostname is too long'')
     (obind (ok_or ''invalid hostname'' (encode_hostname (domain_to_ascii W) hostname)) (\<lambda>normalized.
      andThen (require (normalized = hostname) ''hostname is not normalized'')
      (require (hostname_matches hostname) ''invalid hostname'')))"

definition emoji_char :: "origin \<Rightarrow> char \<Rightarrow> bool" where
  "emoji_char org c \<longleftrightarrow> is_upper c \<or> is_lower c \<or> is_digit c \<or>
     c \<in> (case org of OriginLocal \<Rightarrow> {CHR ''_''} | OriginRemote \<Rightarrow> {CHR ''.'', CHR ''_'', CHR ''+'', CHR ''-''})"

definition validate_emoji_name :: "string \<Rightarrow> origin \<Rightarrow> validated" where
  "validate_emoji_name name org =
     andThen (require ((case org of OriginLocal \<Rightarrow> 2 | OriginRemote \<Rightarrow> 1) \<le> length name
        \<and> list_all (emoji_char org) name) ''invalid emoji name'')
     (require (length name \<le> 100) ''emoji name is too long'')"

definition parse_emoji_shortcode :: "string \<Rightarrow> string option" where
  "parse_emoji_shortcode code = Option.bind (strip_prefix '':'' code) (\<lambda>v. strip_suffix '':'' v)"

definition clean_emoji_name :: "string \<Rightarrow> string" where
  "clean_emoji_name name = (case parse_emoji_shortcode name of Some n \<Rightarrow> n | None \<Rightarrow> name)"

definition validate_emoji_category_name :: "string \<Rightarrow> validated" where
  "validate_emoji_category_name name =
     andThen (require (2 \<le> length name \<and> list_all is_lower name) ''invalid category name'')
     (require (length name \<le> 100) ''category name is too long'')"

definition validate_hashtag :: "text_library \<Rightarrow> string \<Rightarrow> validated" where
  "validate_hashtag W name =
     andThen (require (length name \<le> 100) ''tag name is too long'')
     (require (name \<noteq> [] \<and> list_all (is_word_character W) (chars_of name)) ''invalid tag name'')"

definition validate_rule_target :: "string \<Rightarrow> validated" where
  "validate_rule_target target =
     require (target \<noteq> [] \<and> list_all (\<lambda>c. is_lower c \<or> is_digit c \<or> c \<in> {CHR ''.'', CHR ''*'', CHR ''?'', CHR ''-''}) target)
       ''invalid rule target''"

definition clean_custom_feed_name :: "string \<Rightarrow> string" where
  "clean_custom_feed_name name = trim_invisible name"

definition validate_custom_feed_name :: "string \<Rightarrow> validated" where
  "validate_custom_feed_name name =
     andThen (require (trim_invisible name \<noteq> []) ''feed name is empty'')
     (require (length name \<le> 200) ''feed name is too long'')"

section \<open>Posts (\<open>posts.rs\<close>, \<open>polls.rs\<close>, \<open>media.rs\<close>)\<close>

definition title_length_max :: nat where
  "title_length_max = 300"

definition content_allowed_tags :: "string list" where
  "content_allowed_tags = [''a'', ''br'', ''pre'', ''code'', ''strong'', ''em'', ''u'', ''del'', ''h1'',
     ''blockquote'', ''p'', ''span'', ''ruby'', ''rt'', ''rp'']"

definition content_allowed_classes :: "(string \<times> string list) list" where
  "content_allowed_classes = [(''a'', [''hashtag'', ''mention'', ''u-url'']), (''span'', [''h-card'']),
     (''p'', [''inline-quote''])]"

definition clean_title :: "text_library \<Rightarrow> string \<Rightarrow> string" where
  "clean_title W title =
     (let cleaned = trim (clean_html_all W title) in
      if length cleaned \<le> title_length_max then cleaned
      else take_chars (title_length_max - 3) cleaned @ ''...'')"

definition validate_title :: "string \<Rightarrow> validated" where
  "validate_title title = require (length title \<le> title_length_max) ''title is too long''"

definition clean_local_content :: "text_library \<Rightarrow> string \<Rightarrow> string" where
  "clean_local_content W content = trim (clean_html_strict W content content_allowed_tags content_allowed_classes)"

definition clean_remote_content :: "text_library \<Rightarrow> string \<Rightarrow> string" where
  "clean_remote_content W content = clean_html W content content_allowed_classes"

definition validate_content :: "text_library \<Rightarrow> string \<Rightarrow> origin \<Rightarrow> validated" where
  "validate_content W content org =
     andThen (require (length content \<le> 150000) ''post is too long'')
     (require (content = (case org of OriginLocal \<Rightarrow> clean_local_content W content
         | OriginRemote \<Rightarrow> clean_remote_content W content)) ''content has not been sanitized'')"

definition validate_url :: "string \<Rightarrow> validated" where
  "validate_url url = require (length url \<le> 2000) ''post URL is too long''"

definition clean_poll_option_name :: "text_library \<Rightarrow> string \<Rightarrow> string" where
  "clean_poll_option_name W name = clean_html_all W name"

definition validate_poll_option_name :: "text_library \<Rightarrow> string \<Rightarrow> validated" where
  "validate_poll_option_name W name =
     andThen (require (length name \<le> 1000) ''poll option name is too long'')
     (require (name = clean_poll_option_name W name) ''option name has not been sanitized'')"

text \<open>The loop over the options, with the names seen so far.\<close>

fun validate_poll_options :: "text_library \<Rightarrow> string list \<Rightarrow> string list \<Rightarrow> validated" where
  "validate_poll_options W seen [] = Ok ()"
| "validate_poll_options W seen (n # ns) =
     andThen (validate_poll_option_name W n)
     (if n \<notin> set seen then validate_poll_options W (seen @ [n]) ns else Err ''poll options must be unique'')"

definition validate_poll_data :: "text_library \<Rightarrow> poll_data \<Rightarrow> validated" where
  "validate_poll_data W d =
     andThen (require (2 \<le> length (pd_results d)) ''too few poll options'')
     (andThen (require (length (pd_results d) \<le> 20) ''too many poll options'')
     (andThen (validate_poll_options W [] (map pr_option_name (pd_results d)))
     (require (case pd_voters_count d of Some n \<Rightarrow> 0 \<le> n | None \<Rightarrow> True) ''number of voters must be positive'')))"

definition mention_limit :: nat where "mention_limit = 50"
definition hashtag_limit :: nat where "hashtag_limit = 100"
definition link_limit :: nat where "link_limit = 10"
definition emoji_limit :: nat where "emoji_limit = 50"

definition validate_post_limits :: "uuid list \<Rightarrow> string list \<Rightarrow> uuid list \<Rightarrow> uuid list \<Rightarrow> validated" where
  "validate_post_limits mentions tag_names post_links' emoji_ids =
     andThen (require (length mentions \<le> mention_limit) ''too many mentions'')
     (andThen (require (length tag_names \<le> hashtag_limit) ''too many hashtags'')
     (andThen (require (length post_links' \<le> link_limit) ''too many links'')
     (require (length emoji_ids \<le> emoji_limit) ''too many emojis'')))"

definition validate_post_create_data :: "text_library \<Rightarrow> uri_library \<Rightarrow> post_create_data \<Rightarrow> origin \<Rightarrow> validated" where
  "validate_post_create_data W L d org =
     andThen (case pc_context d of
         CtxTop _ object_id audience \<Rightarrow>
           andThen (require (pc_visibility d \<noteq> VisConversation) ''top-level post can't have conversation visibility'')
           (andThen (check_opt (validate_any_object_id L) object_id) (check_opt (validate_any_object_id L) audience))
       | CtxRepost _ \<Rightarrow> Panic ''incorrect context''
       | CtxReply _ _ \<Rightarrow> Ok ())
     (andThen (check_opt validate_title (pc_title d))
     (andThen (validate_content W (pc_content d) org)
     (andThen (require (\<not> (pc_content d = [] \<and> pc_attachments d = [] \<and> pc_links d = [])) ''post can not be empty'')
     (andThen (check_opt (validate_poll_data W) (pc_poll d))
     (andThen (validate_post_limits (pc_mentions d) (pc_tags d) (pc_links d) (pc_emojis d))
     (andThen (check_opt validate_url (pc_url d))
     (check_opt (validate_any_object_id L) (pc_object_id d))))))))"

definition validate_post_update_data :: "text_library \<Rightarrow> post_update_data \<Rightarrow> origin \<Rightarrow> validated" where
  "validate_post_update_data W d org =
     andThen (check_opt validate_title (pu_title d))
     (andThen (validate_content W (pu_content d) org)
     (andThen (require (\<not> (pu_content d = [] \<and> pu_attachments d = [] \<and> pu_links d = [])) ''post can not be empty'')
     (andThen (check_opt (validate_poll_data W) (pu_poll d))
     (andThen (validate_post_limits (pu_mentions d) (pu_tags d) (pu_links d) (pu_emojis d))
     (check_opt validate_url (pu_url d))))))"

definition validate_post_mentions :: "uuid list \<Rightarrow> visibility \<Rightarrow> validated" where
  "validate_post_mentions mentions v =
     require (\<not> (mentions = [] \<and> v = VisDirect)) ''direct message should have at least one mention''"

definition validate_local_post_links :: "uuid list \<Rightarrow> visibility \<Rightarrow> validated" where
  "validate_local_post_links links' v =
     require (\<not> (links' \<noteq> [] \<and> v \<noteq> VisPublic)) ''can't add links to non-public posts''"

definition validate_reply :: "post_detailed \<Rightarrow> uuid \<Rightarrow> visibility \<Rightarrow> uuid list \<Rightarrow> validated" where
  "validate_reply parent author v mentions =
     andThen (require (po_repost_of_id (pd_post parent) = None) ''can't reply to repost'')
     (andThen (require (can_reply_with (po_visibility (pd_post parent)) v (author = p_id (pd_author parent)))
        ''reply must have narrower visibility'')
     (require (\<not> (po_visibility (pd_post parent) \<noteq> VisPublic \<and> v \<noteq> VisPublic)
        \<or> list_all (\<lambda>i. i \<in> set (map p_id (pd_mentions parent) @ [p_id (pd_author parent)])) mentions)
        ''can't add more recipients''))"

definition validate_repost_data :: "uri_library \<Rightarrow> post_create_data \<Rightarrow> validated" where
  "validate_repost_data L d =
     andThen (case pc_context d of CtxRepost _ \<Rightarrow> Ok () | _ \<Rightarrow> Panic ''incorrect context'')
     (andThen (require (pc_visibility d \<in> {VisPublic, VisFollowers}) ''invalid repost visibility'')
     (check_opt (validate_any_object_id L) (pc_object_id d)))"

definition validate_media_url :: "uri_library \<Rightarrow> string \<Rightarrow> validated" where
  "validate_media_url L url =
     andThen (obind (map_err (\<lambda>_. ''invalid media URL'') (http_uri_parse L url)) (\<lambda>_. Ok ()))
     (require (length url \<le> 2000) ''media URL is too long'')"

definition validate_media_description :: "string \<Rightarrow> validated" where
  "validate_media_description description = require (length description \<le> 3000) ''media description is too long''"

definition validate_reaction_data :: "text_library \<Rightarrow> uri_library \<Rightarrow> reaction_data \<Rightarrow> validated" where
  "validate_reaction_data W L d =
     andThen (case rd_content d of
         Some content \<Rightarrow>
           andThen (require (length content \<le> 102) ''reaction content is too long'')
           (if is_single_character W content then Ok ()
            else andThen (require (rd_emoji_id d \<noteq> None) ''invalid reaction content'')
              (obind (ok_or ''invalid emoji shortcode'' (parse_emoji_shortcode content)) (\<lambda>name.
               validate_emoji_name name OriginRemote)))
       | None \<Rightarrow> require (rd_emoji_id d = None) ''custom emoji reaction without content'')
     (andThen (require (rd_visibility d \<in> {VisPublic, VisDirect}) ''invalid reaction visibility'')
     (check_opt (validate_any_object_id L) (rd_activity_id d)))"

section \<open>Profiles (\<open>profiles.rs\<close>, \<open>groups.rs\<close>, \<open>accounts.rs\<close>)\<close>

definition display_name_max_length :: nat where "display_name_max_length = 200"
definition bio_max_length :: nat where "bio_max_length = 10000"

definition clean_display_name :: "string \<Rightarrow> bool \<Rightarrow> string option" where
  "clean_display_name name is_remote =
     (let trimmed = trim_invisible name;
          text = (if is_remote then take_chars display_name_max_length trimmed else trimmed) in
      if text = [] then None else Some text)"

definition validate_display_name :: "string \<Rightarrow> validated" where
  "validate_display_name name =
     andThen (require (trim_invisible name \<noteq> []) ''display name is empty'')
     (require (char_count name \<le> display_name_max_length) ''display name is too long'')"

definition clean_bio :: "text_library \<Rightarrow> string \<Rightarrow> bool \<Rightarrow> string" where
  "clean_bio W bio is_remote =
     (if is_remote then clean_html W (take_chars bio_max_length bio) []
      else clean_html_strict W bio [''a'', ''br'', ''p''] [])"

definition validate_bio :: "text_library \<Rightarrow> string \<Rightarrow> validated" where
  "validate_bio W bio =
     andThen (require (char_count bio \<le> bio_max_length) ''bio is too long'')
     (require (bio = clean_html W bio []) ''bio has not been sanitized'')"

definition allowed_profile_image_media_types :: "string list \<Rightarrow> string list" where
  "allowed_profile_image_media_types types = filter (\<lambda>t. strip_prefix ''image/'' t \<noteq> None) types"

definition validate_public_keys :: "uri_library \<Rightarrow> db_actor_key list \<Rightarrow> validated" where
  "validate_public_keys L keys = check_all (\<lambda>k. validate_any_object_id L (dk_id k)) keys"

definition validate_identity_proofs :: "identity_proof list \<Rightarrow> validated" where
  "validate_identity_proofs proofs = require (length proofs \<le> 10) ''at most 10 identity proofs are allowed''"

definition validate_payment_options :: "uri_library \<Rightarrow> payment_option list \<Rightarrow> validated" where
  "validate_payment_options L opts = check_all (\<lambda>opt. case opt of
      OptRemoteMoneroSubscription i \<Rightarrow> validate_any_object_id L (rms_object_id i) | _ \<Rightarrow> Ok ()) opts"

definition clean_extra_field_value :: "text_library \<Rightarrow> string \<Rightarrow> string" where
  "clean_extra_field_value W v = clean_html_strict W v [''a''] []"

definition clean_extra_field :: "text_library \<Rightarrow> extra_field \<Rightarrow> extra_field" where
  "clean_extra_field W f = f\<lparr>ef_name := trim (ef_name f), ef_value := clean_extra_field_value W (ef_value f)\<rparr>"

definition validate_extra_field :: "text_library \<Rightarrow> extra_field \<Rightarrow> validated" where
  "validate_extra_field W f =
     andThen (require (trim (ef_name f) \<noteq> []) ''field name is empty'')
     (andThen (require (length (ef_name f) \<le> 500) ''field name is too long'')
     (andThen (require (length (ef_value f) \<le> 5000) ''field value is too long'')
     (require (ef_value f = clean_extra_field_value W (ef_value f)) ''field has not been sanitized'')))"

definition validate_extra_fields :: "text_library \<Rightarrow> extra_field list \<Rightarrow> bool \<Rightarrow> validated" where
  "validate_extra_fields W fs is_remote =
     andThen (check_all (validate_extra_field W) fs)
     (if is_remote then require (length fs \<le> 100) ''at most 100 fields are allowed''
      else require (length fs \<le> 10) ''at most 10 fields are allowed'')"

definition validate_aliases :: "string list \<Rightarrow> validated" where
  "validate_aliases aliases = require (length aliases \<le> 10) ''at most 10 aliases are allowed''"

definition validate_actor_data :: "uri_library \<Rightarrow> db_actor \<Rightarrow> validated" where
  "validate_actor_data L a =
     andThen (validate_any_object_id L (da_id a))
     (andThen (validate_any_object_id L (da_inbox a))
     (andThen (check_opt (validate_endpoint_url L) (da_shared_inbox a))
     (andThen (validate_any_object_id L (da_outbox a))
     (andThen (check_opt (validate_any_object_id L) (da_followers a))
     (andThen (check_opt (validate_any_object_id L) (da_subscribers a))
     (andThen (check_opt (validate_any_object_id L) (da_featured a))
     (andThen (if actor_is_portable a
         then andThen (validate_origin L (da_id a) (da_inbox a))
           (andThen (validate_origin L (da_id a) (da_outbox a))
           (require (da_gateways a \<noteq> []) ''at least one gateway must be specified''))
         else Ok ())
     (check_all (validate_gateway_url L) (da_gateways a)))))))))"

text \<open>The two validators of profile data agree on the fields they check.\<close>

definition validate_profile_data :: "text_library \<Rightarrow> uri_library \<Rightarrow> 'm profile_data \<Rightarrow> validated" where
  "validate_profile_data W L d =
     andThen (validate_username (prd_username d))
     (andThen (check_opt (validate_hostname W) (prd_hostname d))
     (andThen (check_opt (validate_hostname W) (webfinger_as_str (prd_webfinger_hostname d)))
     (andThen (check_opt validate_display_name (prd_display_name d))
     (andThen (check_opt (validate_actor_data L) (prd_actor_json d))
     (andThen (check_opt (validate_bio W) (prd_bio d))
     (andThen (validate_public_keys L (prd_public_keys d))
     (andThen (validate_identity_proofs (prd_identity_proofs d))
     (andThen (validate_payment_options L (prd_payment_options d))
     (andThen (validate_extra_fields W (prd_extra_fields d) (prd_actor_json d \<noteq> None))
     (andThen (validate_aliases (prd_aliases d))
     (require (length (prd_emojis d) \<le> emoji_limit) ''too many emojis'')))))))))))"

definition clean_profile_data ::
  "text_library \<Rightarrow> uri_library \<Rightarrow> 'm profile_data \<Rightarrow> (string, 'm profile_data) outcome" where
  "clean_profile_data W L d =
     (let is_remote = (prd_actor_json d \<noteq> None);
          d' = d\<lparr>prd_display_name := Option.bind (prd_display_name d) (\<lambda>n. clean_display_name n is_remote),
                 prd_bio := map_option (\<lambda>b. clean_bio W b is_remote) (prd_bio d)\<rparr> in
      obind (validate_profile_data W L d') (\<lambda>_. Ok d'))"

definition clean_group_create_data :: "text_library \<Rightarrow> group_create_data \<Rightarrow> group_create_data" where
  "clean_group_create_data W d = d\<lparr>gcd_bio := map_option (\<lambda>b. clean_bio W b False) (gcd_bio d)\<rparr>"

definition validate_group_create_data :: "text_library \<Rightarrow> group_create_data \<Rightarrow> validated" where
  "validate_group_create_data W d =
     andThen (validate_local_username (gcd_username d)) (check_opt (validate_bio W) (gcd_bio d))"

text \<open>\<open>serde_json::to_string(config).len()\<close> is an argument.\<close>

definition validate_client_config_update ::
  "((string \<times> json) list \<Rightarrow> nat) \<Rightarrow> (string \<times> json) list \<Rightarrow> (string \<times> json) list \<Rightarrow> validated" where
  "validate_client_config_update config_size config update =
     andThen (require (length update = 1) ''can't update more than one config'')
     (require (config_size config + config_size update \<le> 20 * 1000) ''client config size exceeds limit'')"

section \<open>Other input\<close>

definition validate_amount :: "nat \<Rightarrow> validated" where
  "validate_amount v =
     andThen (require (v \<noteq> 0) ''amount must be greater than 0'')
     (require (v < 2 ^ 63) ''amount is too big'')"

definition validate_redirect_uri :: "uri_library \<Rightarrow> string \<Rightarrow> validated" where
  "validate_redirect_uri L uri = require (uri_from_str L uri \<noteq> None) ''invalid redirect URI''"

definition allowed_scopes :: "string list" where
  "allowed_scopes = [''read'', ''write'', ''profile'']"

definition clean_scopes :: "string \<Rightarrow> string list" where
  "clean_scopes scopes = filter (\<lambda>x. x \<in> set allowed_scopes) (remdups_adj (sort (split_whitespace scopes)))"

end
