(* ===== verification/ProfileProperties.thy ===== *)
theory ProfileProperties
  imports ProfileQueries Emojis
begin

text \<open>
  The table of profiles stays usable: identifiers, account names, actor identifiers and identity
  keys are unique, host names are registered, every row passes the check it is read with, and the
  emojis cached in a row are those of the emoji tables. Creating and updating profiles and changing
  emojis keep it so, and a profile is found again under its keys.
\<close>

section \<open>Unique keys\<close>

lemma filter_one:
  assumes "filter P xs = [x]"
  shows "x \<in> set xs" "P x" "y \<in> set xs \<Longrightarrow> P y \<Longrightarrow> y = x"
proof -
  have "set (filter P xs) = {x}" using assms by simp
  then show "x \<in> set xs" "P x" "y \<in> set xs \<Longrightarrow> P y \<Longrightarrow> y = x" by auto
qed

lemma same_key_sym: "same_key k l = same_key l k"
  by (auto simp: same_key_def)

lemma profiles_clash_sym: "profiles_clash p q \<longleftrightarrow> profiles_clash q p"
  using same_key_sym by (metis profiles_clash_def)

lemma profiles_clash_refl [simp]: "profiles_clash p p"
  by (simp add: profiles_clash_def)

lemma profile_keys_okD:
  "profile_keys_ok ps \<Longrightarrow> p \<in> set ps \<Longrightarrow> q \<in> set ps \<Longrightarrow> profiles_clash p q \<Longrightarrow> p = q"
  by (induction ps) (auto simp: list_ex_iff dest: profiles_clash_sym [THEN iffD1])

lemma profile_keys_ok_append [simp]:
  "profile_keys_ok (ps @ [q]) \<longleftrightarrow> profile_keys_ok ps \<and> \<not> list_ex (profiles_clash q) ps"
  by (induction ps) (auto simp: list_ex_iff dest: profiles_clash_sym [THEN iffD1])

lemma profile_keys_ok_map:
  assumes "\<And>p q. profiles_clash (f p) (f q) \<Longrightarrow> profiles_clash p q" and "profile_keys_ok ps"
  shows "profile_keys_ok (map f ps)"
  using assms(2) by (induction ps) (auto simp: list_ex_iff dest: assms(1))

lemma filter_found:
  assumes "profile_keys_ok ps" and "p \<in> set ps" and "P p"
    and "\<And>q. q \<in> set ps \<Longrightarrow> P q \<Longrightarrow> profiles_clash p q"
  shows "filter P ps = [p]"
  using assms
proof (induction ps)
  case (Cons q ps)
  show ?case
  proof (cases "p = q")
    case True
    then have "\<not> P r" if "r \<in> set ps" for r using Cons.prems(1,4) that by (auto simp: list_ex_iff)
    then show ?thesis using True Cons.prems(3) by (simp add: filter_empty_conv)
  next
    case False
    then have "p \<in> set ps" using Cons.prems(2) by simp
    moreover have "\<not> P q" using False Cons.prems profile_keys_okD by (metis list.set_intros(1))
    ultimately show ?thesis using Cons by simp
  qed
qed simp

lemma filter_by_id: "profile_keys_ok ps \<Longrightarrow> p \<in> set ps \<Longrightarrow> filter (\<lambda>q. p_id q = p_id p) ps = [p]"
  by (rule filter_found) (auto simp: profiles_clash_def)

lemma put_profiles_Ok [ok_runs]:
  "put_profiles f s = (Ok u, t) \<longleftrightarrow>
     profile_keys_ok (f s) \<and> list_all (hostname_known s) (f s) \<and> t = s\<lparr>actor_profiles := f s\<rparr>"
  by (auto simp: put_profiles_def)

section \<open>The invariant\<close>

definition emoji_links_ok :: "database \<Rightarrow> bool" where
  "emoji_links_ok s \<longleftrightarrow> unique_by em_id (emojis s)
     \<and> (\<forall>x \<in> set (profile_emojis s). pfe_emoji_id x \<in> em_id ` set (emojis s))"

definition emoji_cache_ok :: "database \<Rightarrow> bool" where
  "emoji_cache_ok s \<longleftrightarrow> (\<forall>p \<in> set (actor_profiles s). p_emojis p = emojis_of_profile s (p_id p))"

definition profile_readable :: "externals \<Rightarrow> actor_profile \<Rightarrow> bool" where
  "profile_readable X p \<longleftrightarrow> profile_check_consistency X p = Ok ()"

definition profile_tables_inv :: "database \<Rightarrow> bool" where
  "profile_tables_inv s \<longleftrightarrow> profile_keys_ok (actor_profiles s) \<and> list_all (hostname_known s) (actor_profiles s)
     \<and> emoji_links_ok s \<and> emoji_cache_ok s"

definition profiles_inv :: "externals \<Rightarrow> database \<Rightarrow> bool" where
  "profiles_inv X s \<longleftrightarrow> profile_tables_inv s \<and> list_all (profile_readable X) (actor_profiles s)"

lemma profile_tables_inv_seqs [simp]: "profile_tables_inv (s\<lparr>seqs := q\<rparr>) = profile_tables_inv s"
  by (simp add: profile_tables_inv_def emoji_links_ok_def emoji_cache_ok_def emojis_of_profile_def hostname_known_def
      list_all_iff split: option.splits)

lemma profiles_inv_seqs [simp]: "profiles_inv X (s\<lparr>seqs := q\<rparr>) = profiles_inv X s"
  by (simp add: profiles_inv_def)

lemma profile_try_from_run: "profile_try_from X p s = (Ok q, t) \<longleftrightarrow> profile_readable X p \<and> q = p \<and> t = s"
  by (auto simp: profile_try_from_def profile_readable_def ok_runs)

section \<open>The pieces of an update\<close>

lemma register_hostname_Ok:
  assumes "register_hostname h s = (Ok u, t)"
  shows "\<exists>hs. t = s\<lparr>instances := hs\<rparr> \<and> set hs = set (instances s) \<union> set_option h"
proof (cases h)
  case None
  then show ?thesis using assms by (intro exI [of _ "instances s"]) (simp add: register_hostname_def ret_Ok)
next
  case (Some hostname)
  then have t: "t = (if hostname \<in> set (instances s) then s else s\<lparr>instances := instances s @ [hostname]\<rparr>)"
    using assms by (simp add: register_hostname_def create_instance_def modify_Ok)
  show ?thesis
  proof (cases "hostname \<in> set (instances s)")
    case True
    then show ?thesis using t Some by (intro exI [of _ "instances s"]) auto
  next
    case False
    then show ?thesis using t Some by (intro exI [of _ "instances s @ [hostname]"]) simp
  qed
qed

text \<open>The rows after \<open>prevent_acct_conflict\<close>.\<close>

definition takes_acct :: "uuid \<Rightarrow> string \<Rightarrow> webfinger_hostname \<Rightarrow> actor_profile \<Rightarrow> bool" where
  "takes_acct pid username w p \<longleftrightarrow> p_id p \<noteq> pid \<and> p_username p = username
     \<and> webfinger_as_str w \<noteq> None \<and> p_webfinger_hostname p = webfinger_as_str w \<and> p_actor_json p \<noteq> None"

definition released :: "uuid \<Rightarrow> string \<Rightarrow> webfinger_hostname \<Rightarrow> actor_profile list \<Rightarrow> actor_profile list" where
  "released pid username w ps = update_where (takes_acct pid username w) (\<lambda>p. p\<lparr>p_webfinger_hostname := None\<rparr>) ps"

lemma release_acct_Ok:
  assumes "release_acct pid username w s = (Ok u, t)"
  shows "t = s\<lparr>actor_profiles := released pid username w (actor_profiles s)\<rparr>"
proof (cases w)
  case (WfRemote h)
  then have "takes_acct pid username w = (\<lambda>p. p_id p \<noteq> pid \<and> p_username p = username
      \<and> p_webfinger_hostname p = Some h \<and> p_actor_json p \<noteq> None)"
    by (auto simp: takes_acct_def fun_eq_iff)
  with assms WfRemote show ?thesis
    by (auto simp: release_acct_def prevent_acct_conflict_def released_def ok_runs)
qed (use assms in \<open>auto simp: release_acct_def released_def takes_acct_def update_where_def ok_runs\<close>)

lemma check_acct_release:
  assumes "profile_readable X p" and "p_actor_json p \<noteq> None"
  shows "profile_readable X (p\<lparr>p_webfinger_hostname := None\<rparr>)"
  using assms
  by (auto simp: profile_readable_def profile_check_consistency_def check_accounts_def check_acct_def acct_def
      profile_webfinger_hostname_def has_account_def has_user_account_def has_automated_account_def
      has_portable_account_def is_portable_def check_local_media_def profile_is_local_def obind_Ok
      split: if_splits option.splits)

lemma released_readable:
  "list_all (profile_readable X) ps \<Longrightarrow> list_all (profile_readable X) (released pid username w ps)"
  by (auto simp: released_def list_all_iff set_update_where takes_acct_def check_acct_release)

lemma released_keeps:
  "map p_id (released pid username w ps) = map p_id ps"
  "map (\<lambda>p. (p_id p, p_emojis p)) (released pid username w ps) = map (\<lambda>p. (p_id p, p_emojis p)) ps"
  "map p_hostname (released pid username w ps) = map p_hostname ps"
  unfolding released_def by (rule map_update_where, simp)+

definition links :: "uuid \<Rightarrow> custom_emoji list \<Rightarrow> profile_emoji list" where
  "links pid es = map (\<lambda>e. \<lparr>pfe_profile_id = pid, pfe_emoji_id = em_id e\<rparr>) es"

lemma create_profile_emojis_Ok:
  "create_profile_emojis pid ids s = (Ok es, t) \<Longrightarrow>
     es = filter (\<lambda>e. em_id e \<in> set ids) (emojis s) \<and> length es = length ids
     \<and> t = s\<lparr>profile_emojis := profile_emojis s @ links pid es\<rparr>"
  by (auto simp: create_profile_emojis_def links_def ok_runs split: if_splits)

lemma acct_emojis [simp]: "acct (p\<lparr>p_emojis := e\<rparr>) = acct p"
  by (simp add: acct_def split: option.split)

lemma profiles_clash_emojis [simp]:
  "profiles_clash (p\<lparr>p_emojis := e\<rparr>) q = profiles_clash p q"
  "profiles_clash q (p\<lparr>p_emojis := e\<rparr>) = profiles_clash q p"
  by (simp_all add: profiles_clash_def acct_emojis actor_id_of_def)

lemma hostname_known_iff: "hostname_known s p \<longleftrightarrow> set_option (p_hostname p) \<subseteq> set (instances s)"
  by (simp add: hostname_known_def split: option.split)

lemma hostname_known_simps [simp]:
  "hostname_known (s\<lparr>actor_profiles := ps\<rparr>) p = hostname_known s p"
  "hostname_known (s\<lparr>profile_emojis := xs\<rparr>) p = hostname_known s p"
  "hostname_known (s\<lparr>emojis := es\<rparr>) p = hostname_known s p"
  "hostname_known s (p\<lparr>p_emojis := es\<rparr>) = hostname_known s p"
  by (simp_all add: hostname_known_def split: option.split)

lemma emojis_of_profile_frame [simp]:
  "emojis_of_profile (s\<lparr>actor_profiles := ps\<rparr>) pid = emojis_of_profile s pid"
  "emojis_of_profile (s\<lparr>instances := hs\<rparr>) pid = emojis_of_profile s pid"
  by (simp_all add: emojis_of_profile_def)

lemma refreshed_ok:
  "profile_keys_ok ps \<Longrightarrow> profile_keys_ok (update_where P (refresh_emojis s) ps)"
  "list_all (hostname_known u) ps \<Longrightarrow> list_all (hostname_known u) (update_where P (refresh_emojis s) ps)"
  unfolding update_where_def
  by (rule profile_keys_ok_map) (auto simp: refresh_emojis_def list_all_iff split: if_splits)

text \<open>One profile of the table has the identifier; its copy is refreshed and returned.\<close>

lemma update_emoji_cache_Ok:
  assumes "update_emoji_cache pid s = (Ok es, t)"
  shows "t = s\<lparr>actor_profiles := update_where (\<lambda>p. p_id p = pid) (refresh_emojis s) (actor_profiles s)\<rparr>"
    and "es = emojis_of_profile s pid"
proof -
  let ?ps = "update_where (\<lambda>p. p_id p = pid) (refresh_emojis s) (actor_profiles s)"
  from assms obtain p where p: "filter (\<lambda>p. p_id p = pid) ?ps = [p]" "es = p_emojis p"
      and t: "t = s\<lparr>actor_profiles := ?ps\<rparr>"
    by (auto simp: update_emoji_cache_def ok_runs)
  show "t = s\<lparr>actor_profiles := ?ps\<rparr>" by (rule t)
  have "p \<in> set ?ps" "p_id p = pid" by (rule filter_one(1,2) [OF p(1)])+
  then obtain x where "p = refresh_emojis s x" "p_id x = pid"
    by (auto simp: set_update_where refresh_emojis_def split: if_splits)
  with p(2) show "es = emojis_of_profile s pid" by (simp add: refresh_emojis_def)
qed

section \<open>Creating a profile\<close>

lemma update_last:
  assumes "profile_keys_ok (ps @ [q])"
  shows "update_where (\<lambda>p. p_id p = p_id q) f (ps @ [q]) = ps @ [f q]"
proof -
  have "p_id p \<noteq> p_id q" if "p \<in> set ps" for p
    using assms that by (auto simp: list_ex_iff profiles_clash_def)
  then show ?thesis by (simp add: update_where_def map_idI)
qed

lemma create_profile_effect:
  assumes "create_profile X pid d s = (Ok p, t)"
  obtains hs es where "set hs = set (instances s) \<union> set_option (prd_hostname d)"
    "es = filter (\<lambda>e. em_id e \<in> set (prd_emojis d)) (emojis s)"
    "t = s\<lparr>instances := hs, actor_profiles := released pid (prd_username d) (prd_webfinger_hostname d) (actor_profiles s) @ [p],
       profile_emojis := profile_emojis s @ links pid es\<rparr>"
    "profile_keys_ok (actor_profiles t)" "list_all (hostname_known t) (actor_profiles t)"
    "p = (profile_row s pid d)\<lparr>p_emojis := emojis_of_profile t pid\<rparr>" "profile_readable X p"
proof -
  from assms obtain u1 s1 u2 s2 row s3 es s4 cache s5 where
    run: "register_hostname (prd_hostname d) s = (Ok u1, s1)"
      "release_acct pid (prd_username d) (prd_webfinger_hostname d) s1 = (Ok u2, s2)"
      "insert_profile pid d s2 = (Ok row, s3)" "create_profile_emojis pid (prd_emojis d) s3 = (Ok es, s4)"
      "update_emoji_cache pid s4 = (Ok cache, s5)" "profile_try_from X (row\<lparr>p_emojis := cache\<rparr>) s5 = (Ok p, t)"
    unfolding create_profile_def by (auto simp: seq_Ok bnd_Ok transaction_Ok map_err_p_Ok type_check_Ok)
  obtain hs where hs: "s1 = s\<lparr>instances := hs\<rparr>" "set hs = set (instances s) \<union> set_option (prd_hostname d)"
    using register_hostname_Ok [OF run(1)] by auto
  let ?ps = "released pid (prd_username d) (prd_webfinger_hostname d) (actor_profiles s)"
  have s2: "s2 = s\<lparr>instances := hs, actor_profiles := ?ps\<rparr>" using release_acct_Ok [OF run(2)] hs(1) by simp
  then have row: "row = profile_row s pid d" "s3 = s2\<lparr>actor_profiles := ?ps @ [row]\<rparr>"
      and keys: "profile_keys_ok (?ps @ [row])" "list_all (hostname_known s2) (?ps @ [row])"
    using run(3) by (auto simp: insert_profile_def ok_runs profile_row_def)
  have es: "es = filter (\<lambda>e. em_id e \<in> set (prd_emojis d)) (emojis s)"
      and s4: "s4 = s3\<lparr>profile_emojis := profile_emojis s @ links pid es\<rparr>"
    using create_profile_emojis_Ok [OF run(4)] row(2) s2 by auto
  have "p_id row = pid" by (simp add: row(1) profile_row_def)
  then have cached: "update_where (\<lambda>p. p_id p = pid) (refresh_emojis s4) (?ps @ [row]) = ?ps @ [row\<lparr>p_emojis := cache\<rparr>]"
    using update_last [OF keys(1)] update_emoji_cache_Ok(2) [OF run(5)] by (simp add: refresh_emojis_def)
  have p: "p = row\<lparr>p_emojis := cache\<rparr>" "profile_readable X p" and t: "t = s5"
    using run(6) by (auto simp: profile_try_from_run)
  have t': "t = s\<lparr>instances := hs, actor_profiles := ?ps @ [p], profile_emojis := profile_emojis s @ links pid es\<rparr>"
    using update_emoji_cache_Ok(1) [OF run(5)] cached by (simp add: t p(1) s4 row(2) s2)
  have clash: "profiles_clash p = profiles_clash row" by (simp add: p(1) fun_eq_iff)
  have "cache = emojis_of_profile t pid"
    using update_emoji_cache_Ok(2) [OF run(5)] by (simp add: t' s4 row(2) s2 emojis_of_profile_def)
  then have "p = (profile_row s pid d)\<lparr>p_emojis := emojis_of_profile t pid\<rparr>" using p(1) row(1) by simp
  moreover have "profile_keys_ok (actor_profiles t)" using keys(1) by (simp add: t' clash)
  moreover have "list_all (hostname_known t) (actor_profiles t)"
    using keys(2) by (simp add: t' p(1) s2 hostname_known_iff list_all_iff)
  ultimately show ?thesis using that [OF hs(2) es t'] p(2) by blast
qed

text \<open>The cache of a profile depends on its own links only.\<close>

lemma emojis_of_profile_cong:
  assumes "emojis t = emojis s"
    and "filter (\<lambda>x. pfe_profile_id x = pid) (profile_emojis t) = filter (\<lambda>x. pfe_profile_id x = pid) (profile_emojis s)"
  shows "emojis_of_profile t pid = emojis_of_profile s pid"
  using assms by (simp add: emojis_of_profile_def)

lemma filter_links: "filter (\<lambda>x. pfe_profile_id x = i) (links pid es) = (if i = pid then links pid es else [])"
  by (induction es) (auto simp: links_def)

lemma links_known: "set es \<subseteq> set (emojis s) \<Longrightarrow> x \<in> set (links pid es) \<Longrightarrow> pfe_emoji_id x \<in> em_id ` set (emojis s)"
  by (auto simp: links_def)

lemma released_cached:
  assumes "emoji_cache_ok s" and "q \<in> set (released pid username w (actor_profiles s))"
  shows "p_emojis q = emojis_of_profile s (p_id q)"
proof -
  obtain p where "p \<in> set (actor_profiles s)" "p_id q = p_id p" "p_emojis q = p_emojis p"
    using assms(2) by (auto simp: released_def set_update_where split: if_splits)
  with assms(1) show ?thesis by (simp add: emoji_cache_ok_def)
qed

lemma create_profile_inv:
  assumes run: "create_profile X pid d s = (Ok p, t)"
  shows "profile_tables_inv s \<Longrightarrow> profile_tables_inv t"
    and "list_all (profile_readable X) (actor_profiles s) \<Longrightarrow> list_all (profile_readable X) (actor_profiles t)"
proof -
  from run obtain hs es where es: "es = filter (\<lambda>e. em_id e \<in> set (prd_emojis d)) (emojis s)"
    and t: "t = s\<lparr>instances := hs,
       actor_profiles := released pid (prd_username d) (prd_webfinger_hostname d) (actor_profiles s) @ [p],
       profile_emojis := profile_emojis s @ links pid es\<rparr>"
    and keys: "profile_keys_ok (actor_profiles t)" "list_all (hostname_known t) (actor_profiles t)"
    and p: "p = (profile_row s pid d)\<lparr>p_emojis := emojis_of_profile t pid\<rparr>" "profile_readable X p"
    by (rule create_profile_effect)
  have "p_id p = pid" by (simp add: p(1) profile_row_def)
  have other: "emojis_of_profile t i = emojis_of_profile s i" if "i \<noteq> pid" for i
    using that by (intro emojis_of_profile_cong) (simp_all add: t filter_links)
  have cache: "emoji_cache_ok t" if inv: "profile_tables_inv s"
    unfolding emoji_cache_ok_def
  proof
    fix q assume q: "q \<in> set (actor_profiles t)"
    show "p_emojis q = emojis_of_profile t (p_id q)"
    proof (cases "q = p")
      case False
      then have old: "q \<in> set (released pid (prd_username d) (prd_webfinger_hostname d) (actor_profiles s))"
        using q by (simp add: t)
      have "p_id q \<noteq> pid"
        using profile_keys_okD [OF keys(1) q, of p] False \<open>p_id p = pid\<close> by (auto simp: t profiles_clash_def)
      then show ?thesis using released_cached [OF _ old] inv other by (simp add: profile_tables_inv_def)
    qed (use p(1) in \<open>simp add: profile_row_def\<close>)
  qed
  have "emoji_links_ok t" if "profile_tables_inv s"
    using that links_known [of es s] by (auto simp: profile_tables_inv_def emoji_links_ok_def t es)
  with cache keys show "profile_tables_inv s \<Longrightarrow> profile_tables_inv t" by (simp add: profile_tables_inv_def)
  show "list_all (profile_readable X) (actor_profiles s) \<Longrightarrow> list_all (profile_readable X) (actor_profiles t)"
    using p(2) released_readable by (auto simp: t)
qed

section \<open>Updating a profile\<close>

lemma change_profile_Ok:
  assumes "change_profile pid f s = (Ok r, t)"
  shows "t = s\<lparr>actor_profiles := update_where (\<lambda>p. p_id p = pid) (f s) (actor_profiles s)\<rparr>"
    "profile_keys_ok (actor_profiles t)" "list_all (hostname_known t) (actor_profiles t)"
    "query_opt (filter (\<lambda>p. p_id p = pid) (actor_profiles t)) = Ok r"
  using assms by (auto simp: change_profile_def ok_runs list_all_iff)

lemma update_profile_effect:
  assumes "update_profile X pid d s = (Ok (p, dq), t)"
  obtains old hs es where "filter (\<lambda>p. p_id p = pid) (actor_profiles s) = [old]"
    "prd_hostname d = p_hostname old \<or> is_portable old"
    "set hs = set (instances s) \<union> set_option (prd_hostname d)"
    "es = filter (\<lambda>e. em_id e \<in> set (prd_emojis d)) (emojis s)"
    "profile_emojis t = delete_where (\<lambda>x. pfe_profile_id x = pid) (profile_emojis s) @ links pid es"
    "p = (update_profile_row d s old)\<lparr>p_emojis := emojis_of_profile t pid\<rparr>"
    "t = s\<lparr>instances := hs, profile_emojis := profile_emojis t,
       actor_profiles := update_where (\<lambda>q. p_id q = pid) (\<lambda>_. p)
         (released pid (prd_username d) (prd_webfinger_hostname d) (actor_profiles s))\<rparr>"
    "profile_keys_ok (actor_profiles t)" "list_all (hostname_known t) (actor_profiles t)" "profile_readable X p"
    "dq = \<lparr>dq_files = List.map_filter (\<lambda>m. Option.bind m into_file_name) [p_avatar old, p_banner old], dq_ipfs_objects = []\<rparr>"
proof -
  from assms obtain old s1 s2 s3 r u s4 es s5 cache s6 s7 where
    run: "filter (\<lambda>p. p_id p = pid) (actor_profiles s) = [old]"
      "prd_hostname d = p_hostname old \<or> is_portable old"
      "register_hostname (prd_hostname d) s = (Ok (), s1)"
      "release_acct pid (prd_username d) (prd_webfinger_hostname d) s1 = (Ok (), s2)"
      "change_profile pid (update_profile_row d) s2 = (Ok (Some u), s3)"
      "s4 = s3\<lparr>profile_emojis := delete_where (\<lambda>x. pfe_profile_id x = pid) (profile_emojis s3)\<rparr>"
      "create_profile_emojis pid (prd_emojis d) s4 = (Ok es, s5)"
      "update_emoji_cache pid s5 = (Ok cache, s6)" "profile_try_from X (u\<lparr>p_emojis := cache\<rparr>) s6 = (Ok p, t)"
      "dq = \<lparr>dq_files = List.map_filter (\<lambda>m. Option.bind m into_file_name) [p_avatar old, p_banner old], dq_ipfs_objects = []\<rparr>"
    unfolding update_profile_def
    by (auto simp: seq_Ok bnd_Ok transaction_Ok run_Ok type_check_Ok select_or_not_found_Ok lift_Ok ok_or_Ok
        modify_Ok ret_Ok throw_Ok split: if_splits)
  obtain hs where hs: "s1 = s\<lparr>instances := hs\<rparr>" "set hs = set (instances s) \<union> set_option (prd_hostname d)"
    using register_hostname_Ok [OF run(3)] by auto
  let ?rel = "released pid (prd_username d) (prd_webfinger_hostname d) (actor_profiles s)"
  let ?mine = "\<lambda>q. p_id q = pid"
  have s2: "s2 = s\<lparr>instances := hs, actor_profiles := ?rel\<rparr>" using release_acct_Ok [OF run(4)] hs(1) by simp
  have "p_id old = pid" by (rule filter_one(2) [OF run(1)])
  then have old: "filter ?mine ?rel = [old]"
    using run(1) by (simp add: released_def filter_update_where) (simp add: update_where_def takes_acct_def)
  have only: "q = old" if "q \<in> set ?rel" "p_id q = pid" for q
    using that by (rule filter_one(3) [OF old])
  let ?new = "update_where ?mine (update_profile_row d s2) ?rel"
  have s3: "s3 = s2\<lparr>actor_profiles := ?new\<rparr>"
    and keys: "profile_keys_ok ?new" "list_all (hostname_known s2) ?new"
    and u: "filter ?mine ?new = [u]"
    using change_profile_Ok [OF run(5)] by (simp_all add: s2 query_opt_Ok list_all_iff hostname_known_iff)
  have row: "p_id (update_profile_row d s' q) = p_id q" "update_profile_row d s2 q = update_profile_row d s q" for q s'
    by (simp_all add: update_profile_row_def s2)
  have u': "u = update_profile_row d s old"
    using u filter_update_same [of ?mine "update_profile_row d s2" ?rel] old row by simp
  have es: "es = filter (\<lambda>e. em_id e \<in> set (prd_emojis d)) (emojis s)"
      and s5: "s5 = s3\<lparr>profile_emojis := delete_where (\<lambda>x. pfe_profile_id x = pid) (profile_emojis s) @ links pid es\<rparr>"
    using create_profile_emojis_Ok [OF run(7)] by (simp_all add: run(6) s3 s2)
  have p: "p = u\<lparr>p_emojis := cache\<rparr>" "profile_readable X p" "t = s6"
    using run(9) by (auto simp: profile_try_from_run)
  have cache: "cache = emojis_of_profile s5 pid" and s6: "s6 = s5\<lparr>actor_profiles := update_where ?mine (refresh_emojis s5) ?new\<rparr>"
    using update_emoji_cache_Ok [OF run(8)] by (simp_all add: s5 s3)
  have "update_where ?mine (refresh_emojis s5) ?new = update_where ?mine (\<lambda>_. p) ?rel"
    using only by (auto simp: update_where_def row refresh_emojis_def p(1) u' cache \<open>p_id old = pid\<close>)
  then have t: "t = s\<lparr>instances := hs, profile_emojis := profile_emojis s5, actor_profiles := update_where ?mine (\<lambda>_. p) ?rel\<rparr>"
    by (simp add: p(3) s6 s5 s3 s2)
  have "cache = emojis_of_profile t pid" by (simp add: cache t s5 s3 s2 emojis_of_profile_def)
  moreover have "profile_keys_ok (actor_profiles t)" "list_all (hostname_known t) (actor_profiles t)"
    using refreshed_ok(1) [OF keys(1)] refreshed_ok(2) [OF keys(2)]
    by (simp_all add: p(3) s6 s5 s3 s2 list_all_iff hostname_known_iff)
  ultimately show ?thesis
    using that [OF run(1,2) hs(2) es] t p(1,2) u' run(10) by (simp add: s5)
qed

lemma update_profile_inv:
  assumes run: "update_profile X pid d s = (Ok (p, dq), t)"
  shows "profile_tables_inv s \<Longrightarrow> profile_tables_inv t"
    and "list_all (profile_readable X) (actor_profiles s) \<Longrightarrow> list_all (profile_readable X) (actor_profiles t)"
proof -
  let ?rel = "released pid (prd_username d) (prd_webfinger_hostname d) (actor_profiles s)"
  from run obtain old hs es where old: "filter (\<lambda>p. p_id p = pid) (actor_profiles s) = [old]"
    and es: "es = filter (\<lambda>e. em_id e \<in> set (prd_emojis d)) (emojis s)"
      "profile_emojis t = delete_where (\<lambda>x. pfe_profile_id x = pid) (profile_emojis s) @ links pid es"
    and p: "p = (update_profile_row d s old)\<lparr>p_emojis := emojis_of_profile t pid\<rparr>" "profile_readable X p"
    and t: "t = s\<lparr>instances := hs, profile_emojis := profile_emojis t,
       actor_profiles := update_where (\<lambda>q. p_id q = pid) (\<lambda>_. p) ?rel\<rparr>"
    and keys: "profile_keys_ok (actor_profiles t)" "list_all (hostname_known t) (actor_profiles t)"
    by (rule update_profile_effect)
  have ps: "actor_profiles t = update_where (\<lambda>q. p_id q = pid) (\<lambda>_. p) ?rel" "emojis t = emojis s"
    by (subst t, simp)+
  have "p_id old = pid" by (rule filter_one(2) [OF old])
  then have "p_id p = pid" by (simp add: p(1) update_profile_row_def)
  have other: "emojis_of_profile t i = emojis_of_profile s i" if "i \<noteq> pid" for i
    using that by (intro emojis_of_profile_cong) (auto simp: es filter_links ps delete_where_def intro: filter_cong)
  have cache: "emoji_cache_ok t" if inv: "profile_tables_inv s"
    unfolding emoji_cache_ok_def ps(1)
  proof
    fix q assume "q \<in> set (update_where (\<lambda>q. p_id q = pid) (\<lambda>_. p) ?rel)"
    then consider "q = p" | "q \<in> set ?rel" "p_id q \<noteq> pid" by (auto simp: set_update_where split: if_splits)
    then show "p_emojis q = emojis_of_profile t (p_id q)"
      by cases (use p(1) \<open>p_id p = pid\<close> released_cached inv other in \<open>auto simp: profile_tables_inv_def\<close>)
  qed
  have "emoji_links_ok t" if "profile_tables_inv s"
    using that links_known [of es s] by (auto simp: profile_tables_inv_def emoji_links_ok_def ps es)
  with cache keys show "profile_tables_inv s \<Longrightarrow> profile_tables_inv t" by (simp add: profile_tables_inv_def)
  show "list_all (profile_readable X) (actor_profiles s) \<Longrightarrow> list_all (profile_readable X) (actor_profiles t)"
    using p(2) released_readable [of X "actor_profiles s"] by (auto simp: ps list_all_iff set_update_where)
qed

section \<open>Lookups\<close>

lemma readable_found:
  assumes "profiles_inv X s" and "p \<in> set (actor_profiles s)"
  shows "get_profile_by_id X (p_id p) s = (Ok p, s)"
    "acct p = Some a \<Longrightarrow> get_profile_by_acct X a s = (Ok p, s)"
    "actor_id_of p = Some i \<Longrightarrow> get_remote_profile_by_actor_id X i s = (Ok p, s)"
proof -
  have keys: "profile_keys_ok (actor_profiles s)" and readable: "profile_readable X p"
    using assms by (auto simp: profiles_inv_def profile_tables_inv_def list_all_iff)
  show "get_profile_by_id X (p_id p) s = (Ok p, s)"
    using filter_by_id [OF keys assms(2)] readable by (simp add: get_profile_by_id_def ok_runs profile_readable_def)
  show "get_profile_by_acct X a s = (Ok p, s)" if "acct p = Some a"
    using filter_found [OF keys assms(2), of "\<lambda>p. acct p = Some a"] that readable
    by (simp add: get_profile_by_acct_def ok_runs profile_readable_def profiles_clash_def same_key_def)
  show "get_remote_profile_by_actor_id X i s = (Ok p, s)" if "actor_id_of p = Some i"
  proof -
    have "filter (\<lambda>p. actor_id_of p = Some i) (actor_profiles s) = [p]"
      by (rule filter_found [OF keys assms(2)]) (use that in \<open>auto simp: profiles_clash_def same_key_def\<close>)
    then show ?thesis using readable
      by (simp add: get_remote_profile_by_actor_id_def ok_runs profile_readable_def actor_id_of_def)
  qed
qed

section \<open>Emojis\<close>

lemma emoji_keys_unique: "emoji_keys_ok es \<Longrightarrow> unique_by em_id es"
  by (induction es) (auto simp: unique_by_def list_ex_iff emojis_clash_def)

lemma put_emojis_Ok [ok_runs]:
  "put_emojis es s = (Ok u, t) \<longleftrightarrow> t = s\<lparr>emojis := es\<rparr> \<and> emoji_keys_ok es \<and> list_all (emoji_row_ok s) es
     \<and> list_all (\<lambda>e. (em_hostname e = None) = (em_object_id e = None)) es"
  by (auto simp: put_emojis_def list_ex_iff list_all_iff)

text \<open>The tables after a change of the emoji \<open>eid\<close>: the other emojis that profiles link to are as
  before, and every copy of \<open>eid\<close> has been refreshed.\<close>

definition emoji_changed :: "uuid \<Rightarrow> database \<Rightarrow> database \<Rightarrow> bool" where
  "emoji_changed eid s t \<longleftrightarrow> unique_by em_id (emojis t)
     \<and> (\<forall>i \<noteq> eid. i \<in> em_id ` set (emojis s) \<longrightarrow> filter (\<lambda>e. em_id e = i) (emojis t) = filter (\<lambda>e. em_id e = i) (emojis s))
     \<and> set (profile_emojis t) \<subseteq> set (profile_emojis s)
     \<and> filter (\<lambda>x. pfe_emoji_id x \<noteq> eid) (profile_emojis t) = filter (\<lambda>x. pfe_emoji_id x \<noteq> eid) (profile_emojis s)
     \<and> (\<forall>x \<in> set (profile_emojis t). pfe_emoji_id x \<in> em_id ` set (emojis t))
     \<and> actor_profiles t = update_where (\<lambda>p. list_ex (\<lambda>e. em_id e = eid) (p_emojis p)) (refresh_emojis t) (actor_profiles s)
     \<and> set (instances s) \<subseteq> set (instances t)"

lemma no_copy_no_link:
  assumes "emoji_links_ok s" and "\<not> list_ex (\<lambda>e. em_id e = eid) (emojis_of_profile s pid)"
    and "x \<in> set (profile_emojis s)" and "pfe_profile_id x = pid"
  shows "pfe_emoji_id x \<noteq> eid"
proof
  assume x: "pfe_emoji_id x = eid"
  obtain e where "e \<in> set (emojis s)" "em_id e = eid" using assms(1,3) x by (auto simp: emoji_links_ok_def)
  then have "e \<in> set (emojis_of_profile s pid)" using assms(3,4) x by (auto simp: emojis_of_profile_def)
  with assms(2) \<open>em_id e = eid\<close> show False by (auto simp: list_ex_iff)
qed

lemma emoji_changed_inv:
  assumes inv: "profile_tables_inv s" and ch: "emoji_changed eid s t"
  shows "profile_tables_inv t"
proof -
  have links: "emoji_links_ok s" and cache: "emoji_cache_ok s" using inv by (simp_all add: profile_tables_inv_def)
  have same: "emojis_of_profile t (p_id p) = p_emojis p"
    if p: "p \<in> set (actor_profiles s)" and no: "\<not> list_ex (\<lambda>e. em_id e = eid) (p_emojis p)" for p
  proof -
    let ?mine = "\<lambda>x. pfe_profile_id x = p_id p"
    have own: "p_emojis p = emojis_of_profile s (p_id p)" using cache p by (simp add: emoji_cache_ok_def)
    have away: "pfe_emoji_id x \<noteq> eid" if "x \<in> set (profile_emojis s)" "?mine x" for x
      using no_copy_no_link [OF links _ that] no own by simp
    have own_links: "filter ?mine (profile_emojis u) = filter ?mine (filter (\<lambda>x. pfe_emoji_id x \<noteq> eid) (profile_emojis u))"
      if "set (profile_emojis u) \<subseteq> set (profile_emojis s)" for u
      using that away by (auto intro: filter_cong)
    have "filter (\<lambda>x. pfe_emoji_id x \<noteq> eid) (profile_emojis t) = filter (\<lambda>x. pfe_emoji_id x \<noteq> eid) (profile_emojis s)"
      using ch unfolding emoji_changed_def by blast
    then have fil: "filter ?mine (profile_emojis t) = filter ?mine (profile_emojis s)"
      using own_links [of t] own_links [of s] ch unfolding emoji_changed_def by (metis order_refl)
    have "filter (\<lambda>e. em_id e = pfe_emoji_id x) (emojis t) = filter (\<lambda>e. em_id e = pfe_emoji_id x) (emojis s)"
      if "x \<in> set (filter ?mine (profile_emojis s))" for x
      using that away links ch by (auto simp: emoji_changed_def emoji_links_ok_def)
    then show ?thesis unfolding own emojis_of_profile_def fil by (metis (no_types, lifting) map_cong)
  qed
  let ?P = "\<lambda>p. list_ex (\<lambda>e. em_id e = eid) (p_emojis p)"
  have ps: "actor_profiles t = update_where ?P (refresh_emojis t) (actor_profiles s)"
    using ch by (simp add: emoji_changed_def)
  have "emoji_cache_ok t"
    using same by (auto simp: emoji_cache_ok_def ps set_update_where refresh_emojis_def)
  moreover have "emoji_links_ok t" using ch by (simp add: emoji_changed_def emoji_links_ok_def)
  moreover have "profile_keys_ok (actor_profiles t)"
    using inv unfolding ps profile_tables_inv_def by (intro refreshed_ok(1)) simp
  moreover have "list_all (hostname_known t) (actor_profiles s)"
    using inv ch by (fastforce simp: profile_tables_inv_def list_all_iff hostname_known_iff emoji_changed_def)
  then have "list_all (hostname_known t) (actor_profiles t)" unfolding ps by (rule refreshed_ok(2))
  ultimately show ?thesis by (simp add: profile_tables_inv_def)
qed

lemma update_emoji_caches_run:
  "update_emoji_caches eid s = (Ok u, t) \<longleftrightarrow> t = s\<lparr>actor_profiles :=
     update_where (\<lambda>p. list_ex (\<lambda>e. em_id e = eid) (p_emojis p)) (refresh_emojis s) (actor_profiles s)\<rparr>"
  by (simp add: update_emoji_caches_def modify_Ok)

lemma refresh_emojis_frame [simp]: "refresh_emojis (s\<lparr>actor_profiles := ps\<rparr>) = refresh_emojis s"
  by (simp add: refresh_emojis_def fun_eq_iff)

text \<open>The rows after an upsert, and what they leave of the other emojis.\<close>

lemma upsert_emoji_Ok:
  assumes run: "upsert_emoji new f s = (Ok e, t)"
    and f: "\<And>x. em_id (f x) = em_id x" "\<And>x. em_name (f x) = em_name x" "\<And>x. em_hostname (f x) = em_hostname x"
  shows "\<exists>es. t = s\<lparr>emojis := es\<rparr> \<and> unique_by em_id es \<and> em_id ` set (emojis s) \<subseteq> em_id ` set es
    \<and> (\<forall>i \<noteq> em_id e. filter (\<lambda>x. em_id x = i) es = filter (\<lambda>x. em_id x = i) (emojis s))"
proof -
  let ?named = "named_emoji (em_name new) (em_hostname new)"
  let ?es = "if list_ex ?named (emojis s) then update_where ?named f (emojis s) else emojis s @ [new]"
  have t: "t = s\<lparr>emojis := ?es\<rparr>" and one: "filter ?named ?es = [e]" and keys: "emoji_keys_ok ?es"
    using run by (auto simp: upsert_emoji_def ok_runs split: if_splits)
  have "filter (\<lambda>x. em_id x = i) ?es = filter (\<lambda>x. em_id x = i) (emojis s)" if i: "i \<noteq> em_id e" for i
  proof (cases "list_ex ?named (emojis s)")
    case True
    have "em_id x = em_id e" if "x \<in> set (emojis s)" "?named x" for x
    proof -
      have "f x \<in> set ?es" "?named (f x)" using that True f by (auto simp: set_update_where named_emoji_def)
      then show ?thesis using filter_one(3) [OF one] f(1) by metis
    qed
    then have "(if ?named x then f x else x) = x" if "x \<in> set (filter (\<lambda>x. em_id x = i) (emojis s))" for x
      using that i by auto
    then show ?thesis using True f(1)
      by (simp add: update_where_def filter_map o_def if_distrib [of em_id] cong: if_cong) (rule map_idI, auto)
  next
    case False
    have "new = e" by (rule filter_one(3) [OF one]) (use False in \<open>simp_all add: named_emoji_def\<close>)
    with False i show ?thesis by simp
  qed
  moreover have "map em_id (update_where ?named f (emojis s)) = map em_id (emojis s)"
    using f(1) by (rule map_update_where)
  then have "em_id ` set (emojis s) \<subseteq> em_id ` set ?es" by (auto simp flip: set_map)
  ultimately show ?thesis using t emoji_keys_unique [OF keys] by (intro exI [of _ ?es]) simp
qed

lemma upserted_changed:
  assumes links: "emoji_links_ok s" and "upsert_emoji new f (s\<lparr>instances := hs\<rparr>) = (Ok e, u)"
    and "\<And>x. em_id (f x) = em_id x" "\<And>x. em_name (f x) = em_name x" "\<And>x. em_hostname (f x) = em_hostname x"
    and hs: "set (instances s) \<subseteq> set hs" and "update_emoji_caches (em_id e) u = (Ok v, t)"
  shows "emoji_changed (em_id e) s t"
proof -
  obtain es where u: "u = s\<lparr>instances := hs, emojis := es\<rparr>" "unique_by em_id es"
      "em_id ` set (emojis s) \<subseteq> em_id ` set es"
      "\<forall>i \<noteq> em_id e. filter (\<lambda>x. em_id x = i) es = filter (\<lambda>x. em_id x = i) (emojis s)"
    using upsert_emoji_Ok [OF assms(2-5)] by auto
  have "t = u\<lparr>actor_profiles := update_where (\<lambda>p. list_ex (\<lambda>x. em_id x = em_id e) (p_emojis p)) (refresh_emojis u) (actor_profiles u)\<rparr>"
    using assms(7) by (simp add: update_emoji_caches_run)
  with u links hs show ?thesis by (auto simp: emoji_changed_def emoji_links_ok_def)
qed

lemma remote_emoji_inv:
  assumes "profile_tables_inv s"
    and "create_or_update_remote_emoji eid name hostname img oid now s = (Ok r, t)"
  shows "profile_tables_inv t"
proof -
  let ?new = "\<lparr>em_id = eid, em_name = name, em_hostname = Some hostname, em_image = partial_media_of img,
    em_category = None, em_object_id = Some oid, em_updated_at = now\<rparr>"
  let ?f = "\<lambda>e. e\<lparr>em_image := partial_media_of img, em_object_id := Some oid, em_updated_at := now\<rparr>"
  from assms(2) obtain s1 e u where run: "create_instance hostname s = (Ok (), s1)"
      "upsert_emoji ?new ?f s1 = (Ok e, u)" "update_emoji_caches (em_id e) u = (Ok (), t)"
    unfolding create_or_update_remote_emoji_def by (auto simp: seq_Ok bnd_Ok transaction_Ok run_Ok select_opt_Ok ret_Ok)
  have "register_hostname (Some hostname) s = (Ok (), s1)" using run(1) by (simp add: register_hostname_def)
  then obtain hs where hs: "s1 = s\<lparr>instances := hs\<rparr>" "set (instances s) \<subseteq> set hs"
    using register_hostname_Ok by blast
  have "emoji_changed (em_id e) s t"
    by (rule upserted_changed [OF _ run(2) [unfolded hs(1)] _ _ _ hs(2) run(3)])
      (use assms(1) in \<open>simp_all add: profile_tables_inv_def\<close>)
  then show ?thesis by (rule emoji_changed_inv [OF assms(1)])
qed

lemma local_emoji_inv:
  assumes "profile_tables_inv s" and "create_or_update_local_emoji eid name img category s = (Ok r, t)"
  shows "profile_tables_inv t"
proof -
  let ?now = "current_timestamp s"
  let ?new = "\<lparr>em_id = eid, em_name = name, em_hostname = None, em_image = partial_media_of img,
    em_category = category, em_object_id = None, em_updated_at = ?now\<rparr>"
  let ?f = "\<lambda>e. e\<lparr>em_image := partial_media_of img, em_category := category, em_updated_at := ?now\<rparr>"
  from assms(2) obtain e u where run: "upsert_emoji ?new ?f s = (Ok e, u)" "update_emoji_caches (em_id e) u = (Ok (), t)"
    unfolding create_or_update_local_emoji_def
    by (auto simp: seq_Ok bnd_Ok transaction_Ok run_Ok select_opt_Ok ret_Ok gets_Ok)
  have "upsert_emoji ?new ?f (s\<lparr>instances := instances s\<rparr>) = (Ok e, u)" using run(1) by simp
  from upserted_changed [OF _ this _ _ _ _ run(2)] have "emoji_changed (em_id e) s t"
    by (rule meta_mp) (use assms(1) in \<open>simp_all add: profile_tables_inv_def\<close>)
  then show ?thesis by (rule emoji_changed_inv [OF assms(1)])
qed

lemma update_remote_emoji_inv:
  assumes inv: "profile_tables_inv s" and "update_remote_emoji eid img now s = (Ok r, t)"
  shows "profile_tables_inv t"
proof -
  let ?f = "\<lambda>e. e\<lparr>em_image := partial_media_of img, em_updated_at := now\<rparr>"
  let ?es = "update_where (\<lambda>e. em_id e = eid) ?f (emojis s)"
  from assms(2) obtain e where one: "filter (\<lambda>e. em_id e = eid) ?es = [e]"
      and t: "update_emoji_caches (em_id e) (s\<lparr>emojis := ?es\<rparr>) = (Ok (), t)"
    unfolding update_remote_emoji_def
    by (auto simp: seq_Ok bnd_Ok transaction_Ok run_Ok ret_Ok gets_Ok lift_Ok query_one_Ok put_emojis_Ok)
  have e: "em_id e = eid" by (rule filter_one(2) [OF one])
  have "map em_id ?es = map em_id (emojis s)" by (rule map_update_where) simp
  then have "unique_by em_id ?es = unique_by em_id (emojis s)" "em_id ` set ?es = em_id ` set (emojis s)"
    by (auto simp: unique_by_def simp flip: set_map)
  moreover have "filter (\<lambda>e. em_id e = i) ?es = filter (\<lambda>e. em_id e = i) (emojis s)" if "i \<noteq> eid" for i
    using that by (intro filter_update_other) auto
  ultimately have "emoji_changed eid s t"
    using t inv by (auto simp: emoji_changed_def profile_tables_inv_def emoji_links_ok_def update_emoji_caches_run e)
  then show ?thesis by (rule emoji_changed_inv [OF inv])
qed

lemma delete_emoji_run:
  "delete_emoji eid s = (Ok dq, t) \<longleftrightarrow> (\<exists>e. filter (\<lambda>e. em_id e = eid) (emojis s) = [e]
     \<and> dq = detached_image (Some (em_image e))
     \<and> update_emoji_caches eid (remove_emoji eid s) = (Ok (), t))"
  by (auto simp: delete_emoji_def seq_Ok bnd_Ok ret_Ok modify_Ok select_or_not_found_Ok dest: filter_one(2))

lemma delete_emoji_inv:
  assumes inv: "profile_tables_inv s" and "delete_emoji eid s = (Ok dq, t)"
  shows "profile_tables_inv t"
proof -
  have t: "update_emoji_caches eid (remove_emoji eid s) = (Ok (), t)" using assms(2) by (auto simp: delete_emoji_run)
  have "filter (\<lambda>e. em_id e = i) (delete_where (\<lambda>e. em_id e = eid) (emojis s)) = filter (\<lambda>e. em_id e = i) (emojis s)"
    if "i \<noteq> eid" for i using that by (auto simp: delete_where_def intro: filter_cong)
  moreover have "filter (\<lambda>x. pfe_emoji_id x \<noteq> eid) (delete_where (\<lambda>x. pfe_emoji_id x = eid) (profile_emojis s))
      = filter (\<lambda>x. pfe_emoji_id x \<noteq> eid) (profile_emojis s)" by (simp add: delete_where_def)
  moreover have "emoji_links_ok s" using inv by (simp add: profile_tables_inv_def)
  ultimately have "emoji_changed eid s t"
    using t by (auto simp: emoji_changed_def emoji_links_ok_def update_emoji_caches_run remove_emoji_def)
  then show ?thesis by (rule emoji_changed_inv [OF inv])
qed

section \<open>Changing one row\<close>

lemma profile_tables_inv_frame:
  assumes "actor_profiles t = actor_profiles s" "instances t = instances s" "emojis t = emojis s"
    "profile_emojis t = profile_emojis s"
  shows "profile_tables_inv t = profile_tables_inv s"
  using assms by (simp add: profile_tables_inv_def emoji_links_ok_def emoji_cache_ok_def
      emojis_of_profile_def hostname_known_iff list_all_iff)

lemma change_profile_inv:
  assumes run: "change_profile pid f s = (Ok r, t)"
    and f: "\<And>p. p_id (f s p) = p_id p" "\<And>p. p_emojis (f s p) = p_emojis p"
  shows "profile_tables_inv s \<Longrightarrow> profile_tables_inv t"
    and "list_all (profile_readable X) (actor_profiles s) \<Longrightarrow> (\<And>p. r = Some p \<Longrightarrow> profile_readable X p) \<Longrightarrow>
      list_all (profile_readable X) (actor_profiles t)"
proof -
  note ch = change_profile_Ok [OF run]
  have old: "q \<in> set (actor_profiles s) \<or> r = Some q \<and> (\<exists>p \<in> set (actor_profiles s). q = f s p)"
    if q: "q \<in> set (actor_profiles t)" for q
  proof (cases "p_id q = pid")
    case True
    then have "r = Some q" using ch(4) filter_by_id [OF ch(2) q] by simp
    with q True show ?thesis unfolding ch(1) by (auto simp: set_update_where)
  qed (use q ch(1) f(1) in \<open>auto simp: set_update_where\<close>)
  have t: "emojis t = emojis s" "profile_emojis t = profile_emojis s" using ch(1) by simp_all
  have "emoji_cache_ok t" if "profile_tables_inv s"
    unfolding emoji_cache_ok_def
  proof
    fix q assume "q \<in> set (actor_profiles t)"
    from old [OF this] obtain p where "p \<in> set (actor_profiles s)" "p_id q = p_id p" "p_emojis q = p_emojis p"
      using f by auto
    with that show "p_emojis q = emojis_of_profile t (p_id q)"
      by (simp add: profile_tables_inv_def emoji_cache_ok_def emojis_of_profile_def t)
  qed
  with ch(2,3) show "profile_tables_inv s \<Longrightarrow> profile_tables_inv t"
    by (simp add: profile_tables_inv_def emoji_links_ok_def t)
  show "list_all (profile_readable X) (actor_profiles s) \<Longrightarrow> (\<And>p. r = Some p \<Longrightarrow> profile_readable X p) \<Longrightarrow>
      list_all (profile_readable X) (actor_profiles t)"
    using old by (auto simp: list_all_iff)
qed

lemma set_profile_identity_key_inv:
  assumes "set_profile_identity_key X pid key s = (Ok p, t)"
  shows "profile_tables_inv s \<Longrightarrow> profile_tables_inv t"
    and "list_all (profile_readable X) (actor_profiles s) \<Longrightarrow> list_all (profile_readable X) (actor_profiles t)"
proof -
  let ?f = "\<lambda>s p. p\<lparr>p_identity_key := Some (identity_key_of X key), p_updated_at := current_timestamp s\<rparr>"
  from assms have "change_profile pid ?f s = (Ok (Some p), t)" "profile_readable X p"
    by (auto simp: set_profile_identity_key_def bnd_Ok transaction_Ok run_Ok lift_Ok ok_or_Ok profile_try_from_run)
  then show "profile_tables_inv s \<Longrightarrow> profile_tables_inv t"
      "list_all (profile_readable X) (actor_profiles s) \<Longrightarrow> list_all (profile_readable X) (actor_profiles t)"
    using change_profile_inv [of pid ?f s "Some p" t] by simp_all
qed

section \<open>Histories\<close>

text \<open>The operations on the two tables, as step relations.\<close>

inductive profile_step :: "externals \<Rightarrow> database \<Rightarrow> database \<Rightarrow> bool" for X where
  created: "create_profile X pid d s = (r1, t) \<Longrightarrow> profile_step X s t"
| updated: "update_profile X pid e s = (r2, t) \<Longrightarrow> profile_step X s t"
| key_set: "set_profile_identity_key X pid key s = (r3, t) \<Longrightarrow> profile_step X s t"

inductive emoji_step :: "database \<Rightarrow> database \<Rightarrow> bool" where
  remote_saved: "create_or_update_remote_emoji eid name hostname img oid now s = (r1, t) \<Longrightarrow> emoji_step s t"
| remote_updated: "update_remote_emoji eid img now s = (r2, t) \<Longrightarrow> emoji_step s t"
| local_saved: "create_or_update_local_emoji eid name img category s = (r3, t) \<Longrightarrow> emoji_step s t"
| emoji_deleted: "delete_emoji eid s = (r4, t) \<Longrightarrow> emoji_step s t"

lemma profile_atomic [simp]:
  "atomic (create_profile X pid d)" "atomic (update_profile X pid e)" "atomic (set_profile_identity_key X pid key)"
  by (simp_all add: create_profile_def update_profile_def set_profile_identity_key_def)

lemma emoji_atomic [simp]:
  "atomic (create_or_update_remote_emoji eid name hostname img oid now)" "atomic (update_remote_emoji eid img now)"
  "atomic (create_or_update_local_emoji eid name img category)"
  by (simp_all add: create_or_update_remote_emoji_def update_remote_emoji_def create_or_update_local_emoji_def)

lemma delete_emoji_atomic [simp]: "atomic (delete_emoji eid)"
  by (auto simp: atomic_def delete_emoji_def select_or_not_found_run bnd_def seq_def modify_def ret_def
      update_emoji_caches_def split: list.splits)

lemma readable_seqs: "list_all P (actor_profiles s) \<Longrightarrow> list_all P (actor_profiles (s\<lparr>seqs := q\<rparr>))"
  by simp

lemma profile_step_inv:
  assumes "profile_step X s t"
  shows "profile_tables_inv s \<Longrightarrow> profile_tables_inv t"
    and "list_all (profile_readable X) (actor_profiles s) \<Longrightarrow> list_all (profile_readable X) (actor_profiles t)"
proof -
  let ?I = profile_tables_inv and ?R = "\<lambda>s. list_all (profile_readable X) (actor_profiles s)"
  have tables: "preserves ?I (create_profile X pid d)" "preserves ?I (update_profile X pid e)"
      "preserves ?I (set_profile_identity_key X pid key)" for pid d e key
    by (rule preserves_atomic, simp, auto intro: create_profile_inv update_profile_inv set_profile_identity_key_inv)+
  have rows: "preserves ?R (create_profile X pid d)" "preserves ?R (update_profile X pid e)"
      "preserves ?R (set_profile_identity_key X pid key)" for pid d e key
    by (rule preserves_atomic, simp, auto intro: create_profile_inv update_profile_inv set_profile_identity_key_inv)+
  from assms show "?I s \<Longrightarrow> ?I t" by cases (use tables in \<open>blast dest: preservesD\<close>)+
  from assms show "?R s \<Longrightarrow> ?R t" by cases (use rows in \<open>blast dest: preservesD\<close>)+
qed

lemma emoji_step_inv:
  assumes "emoji_step s t" and "profile_tables_inv s"
  shows "profile_tables_inv t"
proof -
  let ?I = profile_tables_inv
  have keep: "preserves ?I (create_or_update_remote_emoji eid name hostname img oid now)"
      "preserves ?I (update_remote_emoji eid img now)" "preserves ?I (create_or_update_local_emoji eid name img category)"
      "preserves ?I (delete_emoji eid)" for eid name hostname img oid now category
    by (rule preserves_atomic, simp,
        auto intro: remote_emoji_inv update_remote_emoji_inv local_emoji_inv delete_emoji_inv)+
  from assms(1) show ?thesis by cases (use assms(2) keep in \<open>blast dest: preservesD\<close>)+
qed

end
