(* ===== verification/Oauth.thy ===== *)
theory Oauth
  imports Accounts
begin

text \<open>
  Sign-in state: OAuth applications, authorization codes and bearer tokens
  (\<open>mitra_models/src/oauth\<close>), the one-time nonces of wallet sign-in (\<open>caip122/queries.rs\<close>). A token is
  stored as its SHA-256 digest; the hash function is an argument.
\<close>

type_synonym token_hash = "string \<Rightarrow> string"

record oauth_app_data =
  oad_app_name :: string
  oad_website :: "string option"
  oad_scopes :: "string list"
  oad_redirect_uri :: string
  oad_client_id :: uuid
  oad_client_secret :: string

definition draw_oauth_application_id :: "database \<Rightarrow> database" where
  "draw_oauth_application_id s = s\<lparr>seqs := (seqs s)\<lparr>oauth_application_seq := oauth_application_seq (seqs s) + 1\<rparr>\<rparr>"

definition draw_oauth_authorization_id :: "database \<Rightarrow> database" where
  "draw_oauth_authorization_id s = s\<lparr>seqs := (seqs s)\<lparr>oauth_authorization_seq := oauth_authorization_seq (seqs s) + 1\<rparr>\<rparr>"

definition draw_oauth_token_id :: "database \<Rightarrow> database" where
  "draw_oauth_token_id s = s\<lparr>seqs := (seqs s)\<lparr>oauth_token_seq := oauth_token_seq (seqs s) + 1\<rparr>\<rparr>"

section \<open>Applications and authorizations\<close>

definition insert_oauth_app :: "oauth_app_data \<Rightarrow> oauth_app stmt" where
  "insert_oauth_app d s =
     (let app = \<lparr>oa_id = oauth_application_seq (seqs s), oa_app_name = oad_app_name d, oa_website = oad_website d,
            oa_scopes = oad_scopes d, oa_redirect_uri = oad_redirect_uri d, oa_client_id = oad_client_id d,
            oa_client_secret = oad_client_secret d, oa_created_at = current_timestamp s\<rparr>;
          t = draw_oauth_application_id s in
      if list_ex (\<lambda>a. oa_id a = oa_id app \<or> oa_client_id a = oa_client_id app) (oauth_applications s)
      then (Err UniqueViolation, t)
      else (Ok app, t\<lparr>oauth_applications := oauth_applications t @ [app]\<rparr>))"

definition create_oauth_app :: "oauth_app_data \<Rightarrow> oauth_app db" where
  "create_oauth_app d = map_err_p (catch_unique_violation ''oauth_application'') (insert_oauth_app d)"

definition get_oauth_app_by_client_id :: "uuid \<Rightarrow> oauth_app db" where
  "get_oauth_app_by_client_id client =
     select_or_not_found ''oauth application'' (\<lambda>s. filter (\<lambda>a. oa_client_id a = client) (oauth_applications s))"

definition insert_oauth_authorization ::
  "string \<Rightarrow> uuid \<Rightarrow> int \<Rightarrow> string \<Rightarrow> datetime \<Rightarrow> datetime \<Rightarrow> unit stmt" where
  "insert_oauth_authorization code uid app scopes created_at expires_at s =
     (let t = draw_oauth_authorization_id s;
          z = \<lparr>oz_id = oauth_authorization_seq (seqs s), oz_code = code, oz_user_id = uid, oz_application_id = app,
            oz_scopes = scopes, oz_created_at = created_at, oz_expires_at = expires_at\<rparr> in
      if list_ex (\<lambda>y. oz_id y = oz_id z \<or> oz_code y = code) (oauth_authorizations s) then (Err UniqueViolation, t)
      else if uid \<notin> u_id ` set (user_accounts s) \<or> app \<notin> oa_id ` set (oauth_applications s)
      then (Err ForeignKeyViolation, t)
      else (Ok (), t\<lparr>oauth_authorizations := oauth_authorizations t @ [z]\<rparr>))"

definition create_oauth_authorization ::
  "string \<Rightarrow> uuid \<Rightarrow> int \<Rightarrow> string \<Rightarrow> datetime \<Rightarrow> datetime \<Rightarrow> unit db" where
  "create_oauth_authorization code uid app scopes created_at expires_at =
     run (insert_oauth_authorization code uid app scopes created_at expires_at)"

definition get_user_by_authorization_code :: "externals \<Rightarrow> uuid \<Rightarrow> string \<Rightarrow> user db" where
  "get_user_by_authorization_code X client code =
     bnd (select_or_not_found ''authorization'' (\<lambda>s.
        [(u, p). z \<leftarrow> oauth_authorizations s, a \<leftarrow> oauth_applications s, u \<leftarrow> user_accounts s, p \<leftarrow> actor_profiles s,
          oz_application_id z = oa_id a \<and> oz_user_id z = u_id u \<and> u_id u = p_id p
          \<and> oa_client_id a = client \<and> oz_code z = code \<and> current_timestamp s < oz_expires_at z]))
       (\<lambda>(u, p). type_check (user_new X u p))"

section \<open>Tokens\<close>

definition insert_oauth_token ::
  "uuid \<Rightarrow> int option \<Rightarrow> string \<Rightarrow> datetime \<Rightarrow> datetime \<Rightarrow> int stmt" where
  "insert_oauth_token owner app digest created_at expires_at s =
     (let t = draw_oauth_token_id s;
          k = \<lparr>ot_id = oauth_token_seq (seqs s), ot_owner_id = owner, ot_application_id = app,
            ot_token_digest = digest, ot_created_at = created_at, ot_expires_at = expires_at\<rparr> in
      if list_ex (\<lambda>l. ot_id l = ot_id k \<or> ot_token_digest l = digest) (oauth_tokens s) then (Err UniqueViolation, t)
      else if owner \<notin> u_id ` set (user_accounts s)
        \<or> (case app of Some a \<Rightarrow> a \<notin> oa_id ` set (oauth_applications s) | None \<Rightarrow> False)
      then (Err ForeignKeyViolation, t)
      else (Ok (ot_id k), t\<lparr>oauth_tokens := oauth_tokens t @ [k]\<rparr>))"

definition save_oauth_token ::
  "token_hash \<Rightarrow> uuid \<Rightarrow> int option \<Rightarrow> string \<Rightarrow> datetime \<Rightarrow> datetime \<Rightarrow> int db" where
  "save_oauth_token H owner app token created_at expires_at =
     run (insert_oauth_token owner app (H token) created_at expires_at)"

definition delete_oauth_token :: "token_hash \<Rightarrow> uuid \<Rightarrow> string \<Rightarrow> unit db" where
  "delete_oauth_token H current_user token = transaction (
     bnd (select_opt (\<lambda>s. filter (\<lambda>k. ot_token_digest k = H token) (oauth_tokens s))) (\<lambda>row.
     case row of
       None \<Rightarrow> ret ()
     | Some k \<Rightarrow>
         if ot_owner_id k \<noteq> current_user then throw (NotFound ''token'')
         else modify (\<lambda>s. s\<lparr>oauth_tokens := delete_where (\<lambda>l. ot_token_digest l = H token) (oauth_tokens s)\<rparr>)))"

definition delete_oauth_token_by_id :: "uuid \<Rightarrow> int \<Rightarrow> unit db" where
  "delete_oauth_token_by_id current_user tid =
     bnd (gets (\<lambda>s. list_ex (\<lambda>k. ot_id k = tid \<and> ot_owner_id k = current_user) (oauth_tokens s))) (\<lambda>deleted.
     seq (modify (\<lambda>s. s\<lparr>oauth_tokens :=
            delete_where (\<lambda>k. ot_id k = tid \<and> ot_owner_id k = current_user) (oauth_tokens s)\<rparr>))
       (if deleted then ret () else throw (NotFound ''oauth token'')))"

definition delete_oauth_tokens :: "uuid \<Rightarrow> unit db" where
  "delete_oauth_tokens owner =
     modify (\<lambda>s. s\<lparr>oauth_tokens := delete_where (\<lambda>k. ot_owner_id k = owner) (oauth_tokens s)\<rparr>)"

record oauth_token_info =
  oti_id :: int
  oti_client_name :: "string option"
  oti_created_at :: datetime
  oti_expires_at :: datetime

definition get_oauth_tokens :: "uuid \<Rightarrow> oauth_token_info list db" where
  "get_oauth_tokens owner = gets (\<lambda>s. map (\<lambda>k. \<lparr>oti_id = ot_id k,
       oti_client_name = Option.bind (ot_application_id k)
         (\<lambda>a. map_option oa_app_name (find (\<lambda>app. oa_id app = a) (oauth_applications s))),
       oti_created_at = ot_created_at k, oti_expires_at = ot_expires_at k\<rparr>)
     (filter (\<lambda>k. ot_owner_id k = owner) (oauth_tokens s)))"

definition get_user_by_oauth_token :: "token_hash \<Rightarrow> externals \<Rightarrow> string \<Rightarrow> (int \<times> user) db" where
  "get_user_by_oauth_token H X token =
     bnd (select_or_not_found ''user'' (\<lambda>s.
        [(ot_id k, u, p). k \<leftarrow> oauth_tokens s, u \<leftarrow> user_accounts s, p \<leftarrow> actor_profiles s,
          ot_owner_id k = u_id u \<and> u_id u = p_id p
          \<and> ot_token_digest k = H token \<and> current_timestamp s < ot_expires_at k]))
       (\<lambda>(i, u, p). bnd (type_check (user_new X u p)) (\<lambda>v. ret (i, v)))"

section \<open>Nonces of wallet sign-in\<close>

definition insert_nonce :: "string \<Rightarrow> string \<Rightarrow> unit stmt" where
  "insert_nonce account nonce s =
     (if list_ex (\<lambda>n. cn_account_id n = account \<and> cn_nonce n = nonce) (caip122_nonces s) then (Err UniqueViolation, s)
      else (Ok (), s\<lparr>caip122_nonces := caip122_nonces s
             @ [\<lparr>cn_account_id = account, cn_nonce = nonce, cn_created_at = current_timestamp s\<rparr>]\<rparr>))"

definition is_valid_caip122_nonce :: "string \<Rightarrow> string \<Rightarrow> bool db" where
  "is_valid_caip122_nonce account nonce =
     match_result (map_err_p (catch_unique_violation ''nonce'') (insert_nonce account nonce))
       (\<lambda>_. ret True)
       (\<lambda>e. case e of AlreadyExists _ \<Rightarrow> ret False | _ \<Rightarrow> throw e)"

end
