(* ===== verification/AccountProperties.thy ===== *)
theory AccountProperties
  imports ProfileProperties Oauth
begin

text \<open>
  Accounts and sign-in: a new account is found again under its identifier and keeps the table of
  profiles usable, an invitation code makes one account, a bearer token signs in its owner until it
  expires or is deleted, a nonce is accepted once.
\<close>

section \<open>Joins\<close>

lemma concat_map_one:
  assumes "filter P xs = [x]" and "\<And>y. y \<in> set xs \<Longrightarrow> \<not> P y \<Longrightarrow> f y = []"
  shows "concat (map f xs) = f x"
  using assms
proof (induction xs)
  case (Cons a xs)
  show ?case
  proof (cases "P a")
    case True
    then have "concat (map f xs) = []" using Cons.prems by (simp add: filter_empty_conv)
    with True Cons.prems(1) show ?thesis by simp
  qed (use Cons in simp)
qed simp

lemma user_join:
  assumes "filter (\<lambda>u. u_id u = uid) us = [u]" and "filter (\<lambda>p. p_id p = uid) ps = [p]"
  shows "[(u, p). u \<leftarrow> us, p \<leftarrow> ps, u_id u = p_id p \<and> u_id u = uid] = [(u, p)]"
proof -
  have ids: "u_id u = uid" "p_id p = uid" by (rule filter_one(2) [OF assms(1)], rule filter_one(2) [OF assms(2)])
  have "concat (map (\<lambda>p. if u_id u = p_id p \<and> u_id u = uid then [(u, p)] else []) ps) = [(u, p)]"
    by (subst concat_map_one [OF assms(2)]) (use ids in auto)
  then show ?thesis by (subst concat_map_one [OF assms(1)]) auto
qed

lemma get_user_by_id_found:
  assumes "filter (\<lambda>u. u_id u = uid) (user_accounts s) = [u]" and "filter (\<lambda>p. p_id p = uid) (actor_profiles s) = [p]"
  shows "get_user_by_id X uid s = (map_err (\<lambda>_. TypeError) (user_new X u p), s)"
  unfolding get_user_by_id_def
  by (simp add: bnd_def select_or_not_found_run user_join [OF assms] type_check_def lift_def)

section \<open>New accounts\<close>

lemma change_profile_one_Ok:
  "change_profile_one pid f s = (Ok p, t) \<longleftrightarrow> change_profile pid (\<lambda>_. f) s = (Ok (Some p), t)"
  by (auto simp: change_profile_one_def ok_runs)

lemma insert_user_Ok:
  "insert_user uid d s = (Ok u, t) \<longleftrightarrow> u = user_row s uid d \<and> t = s\<lparr>user_accounts := user_accounts s @ [u]\<rparr>
     \<and> \<not> list_ex (users_clash u) (user_accounts s) \<and> uid \<in> p_id ` set (actor_profiles s) \<and> code_known s (u_invite_code u)"
  by (auto simp: insert_user_def Let_def)

definition code_used :: "string \<Rightarrow> database \<Rightarrow> bool" where
  "code_used c s \<longleftrightarrow> \<not> list_ex (unused_code c) (user_invite_codes s)"

lemma use_invite_code_Ok:
  "use_invite_code c s = (Ok x, t) \<longleftrightarrow> \<not> code_used c s \<and> t = s\<lparr>user_invite_codes :=
     update_where (unused_code c) (\<lambda>c. c\<lparr>ic_used := True\<rparr>) (user_invite_codes s)\<rparr>"
  by (auto simp: use_invite_code_def code_used_def ok_runs split: if_splits)

lemma use_invite_code_fails:
  "code_used c s \<Longrightarrow> fst (use_invite_code c s) = Err (NotFound ''invite code'')"
  by (simp add: use_invite_code_def code_used_def bnd_def seq_def gets_def modify_def throw_def)

lemma use_invite_code_opt_frame:
  assumes "use_invite_code_opt c s = (Ok x, t)"
  shows "\<exists>cs. t = s\<lparr>user_invite_codes := cs\<rparr>" and "c = Some i \<Longrightarrow> code_used i t"
proof -
  show "\<exists>cs. t = s\<lparr>user_invite_codes := cs\<rparr>"
  proof (cases c)
    case None
    then show ?thesis using assms by (intro exI [of _ "user_invite_codes s"]) (simp add: use_invite_code_opt_def ret_Ok)
  next
    case (Some i)
    then show ?thesis using assms by (simp add: use_invite_code_opt_def use_invite_code_Ok) blast
  qed
  show "code_used i t" if "c = Some i"
    using assms that
    by (auto simp: use_invite_code_opt_def use_invite_code_Ok code_used_def list_ex_iff set_update_where unused_code_def
        split: if_splits)
qed

lemma profile_tables_inv_accounts [simp]:
  "profile_tables_inv (s\<lparr>user_invite_codes := cs\<rparr>) = profile_tables_inv s"
  "profile_tables_inv (s\<lparr>user_accounts := us\<rparr>) = profile_tables_inv s"
  "profile_tables_inv (s\<lparr>automated_accounts := as\<rparr>) = profile_tables_inv s"
  "profile_tables_inv (s\<lparr>portable_user_accounts := ps\<rparr>) = profile_tables_inv s"
  by (rule profile_tables_inv_frame, simp_all)+

lemma check_username_Ok:
  "check_local_username_unique n s = (Ok u, t) \<longleftrightarrow>
     t = s \<and> (\<forall>p \<in> set (actor_profiles s). has_account p \<longrightarrow> \<not> ilike (p_username p) n)"
  by (auto simp: check_local_username_unique_def ok_runs list_ex_iff split: if_splits)

lemma user_new_Ok:
  "user_new X a p = Ok u \<Longrightarrow> profile_readable X p \<and> user_profile u = p \<and> user_id u = u_id a \<and> user_role u = u_role a
     \<and> user_password_digest u = u_password_digest a"
  by (auto simp: user_new_def profile_readable_def ok_runs split: if_splits)

text \<open>The tables after a registration, one operation after the other.\<close>

lemma create_user_effect:
  assumes "create_user X pid d s = (Ok u, t)"
  obtains cs s2 prof p where
    "\<forall>q \<in> set (actor_profiles s). has_account q \<longrightarrow> \<not> ilike (p_username q) (ucd_username d)"
    "use_invite_code_opt (ucd_invite_code d) s = (Ok (), s\<lparr>user_invite_codes := cs\<rparr>)"
    "create_profile X pid (local_profile_data Person (ucd_username d) None None []) (s\<lparr>user_invite_codes := cs\<rparr>) = (Ok prof, s2)"
    "p_id prof = pid" "\<not> list_ex (users_clash (user_row s2 pid d)) (user_accounts s2)"
    "change_profile pid (\<lambda>_ p. p\<lparr>p_user_id := Some (p_id p)\<rparr>)
       (s2\<lparr>user_accounts := user_accounts s2 @ [user_row s2 pid d]\<rparr>) = (Ok (Some p), t)"
    "user_new X (user_row s2 pid d) p = Ok u"
proof -
  from assms obtain s1 prof s2 a s3 p where
    name: "\<forall>q \<in> set (actor_profiles s). has_account q \<longrightarrow> \<not> ilike (p_username q) (ucd_username d)"
    and code: "use_invite_code_opt (ucd_invite_code d) s = (Ok (), s1)"
    and prof: "create_profile X pid (local_profile_data Person (ucd_username d) None None []) s1 = (Ok prof, s2)"
    and ins: "insert_user (p_id prof) d s2 = (Ok a, s3)"
    and chg: "change_profile_one (p_id prof) (\<lambda>p. p\<lparr>p_user_id := Some (p_id p)\<rparr>) s3 = (Ok p, t)"
    and new: "user_new X a p = Ok u"
    unfolding create_user_def
    by (auto simp: seq_Ok bnd_Ok transaction_Ok map_err_p_Ok type_check_Ok run_Ok check_username_Ok)
  obtain cs where cs: "s1 = s\<lparr>user_invite_codes := cs\<rparr>" using use_invite_code_opt_frame(1) [OF code] by blast
  have pid: "p_id prof = pid" using prof by (rule create_profile_effect) (simp add: profile_row_def)
  show ?thesis
    by (rule that [OF name _ _ pid, of cs s2 p])
      (use code prof ins chg new in \<open>auto simp: cs pid insert_user_Ok change_profile_one_Ok\<close>)
qed

lemma create_user_inv:
  assumes run: "create_user X pid d s = (Ok u, t)"
  shows "profile_tables_inv s \<Longrightarrow> profile_tables_inv t"
    and "list_all (profile_readable X) (actor_profiles s) \<Longrightarrow> list_all (profile_readable X) (actor_profiles t)"
proof -
  from run obtain cs s2 prof p where
    prof: "create_profile X pid (local_profile_data Person (ucd_username d) None None []) (s\<lparr>user_invite_codes := cs\<rparr>) = (Ok prof, s2)"
    and chg: "change_profile pid (\<lambda>_ p. p\<lparr>p_user_id := Some (p_id p)\<rparr>)
       (s2\<lparr>user_accounts := user_accounts s2 @ [user_row s2 pid d]\<rparr>) = (Ok (Some p), t)"
    and new: "user_new X (user_row s2 pid d) p = Ok u"
    by (rule create_user_effect)
  have "profile_readable X p" using user_new_Ok [OF new] by simp
  note after = change_profile_inv [OF chg]
  show "profile_tables_inv t" if "profile_tables_inv s"
    using after(1) create_profile_inv(1) [OF prof] that by simp
  show "list_all (profile_readable X) (actor_profiles t)" if "list_all (profile_readable X) (actor_profiles s)"
    using after(2) [of X] create_profile_inv(2) [OF prof] that \<open>profile_readable X p\<close> by simp
qed

text \<open>The new account is found, with the data it was registered with.\<close>

lemma create_user_found:
  assumes run: "create_user X pid d s = (Ok u, t)"
  shows "get_user_by_id X pid t = (Ok u, t)" "user_id u = pid" "user_role u = ucd_role d"
    "user_password_digest u = ucd_password_digest d" "p_username (user_profile u) = ucd_username d"
    "ucd_invite_code d = Some c \<Longrightarrow> \<not> code_used c s \<and> code_used c t"
proof -
  from run obtain cs s2 prof p where
    code: "use_invite_code_opt (ucd_invite_code d) s = (Ok (), s\<lparr>user_invite_codes := cs\<rparr>)"
    and prof: "create_profile X pid (local_profile_data Person (ucd_username d) None None []) (s\<lparr>user_invite_codes := cs\<rparr>) = (Ok prof, s2)"
      "p_id prof = pid"
    and fresh: "\<not> list_ex (users_clash (user_row s2 pid d)) (user_accounts s2)"
    and chg: "change_profile pid (\<lambda>_ p. p\<lparr>p_user_id := Some (p_id p)\<rparr>)
       (s2\<lparr>user_accounts := user_accounts s2 @ [user_row s2 pid d]\<rparr>) = (Ok (Some p), t)"
    and new: "user_new X (user_row s2 pid d) p = Ok u"
    by (rule create_user_effect)
  let ?a = "user_row s2 pid d"
  note t = change_profile_Ok [OF chg]
  have users: "user_accounts t = user_accounts s2 @ [?a]" using t(1) by simp
  have a: "u_id ?a = pid" "u_role ?a = ucd_role d" "u_password_digest ?a = ucd_password_digest d"
    by (simp_all add: user_row_def)
  have "filter (\<lambda>v. u_id v = pid) (user_accounts t) = [?a]"
    using fresh a(1) by (auto simp: users filter_empty_conv list_ex_iff users_clash_def)
  moreover have row: "filter (\<lambda>p. p_id p = pid) (actor_profiles t) = [p]" using t(4) by (simp add: query_opt_Ok)
  ultimately show "get_user_by_id X pid t = (Ok u, t)" using get_user_by_id_found new by simp
  show "user_id u = pid" "user_role u = ucd_role d" "user_password_digest u = ucd_password_digest d"
    using user_new_Ok [OF new] a by simp_all
  have "p \<in> set (actor_profiles t)" "p_id p = pid" by (rule filter_one(1,2) [OF row])+
  then obtain q where q: "q \<in> set (actor_profiles s2)" "p_id q = pid" "p = q\<lparr>p_user_id := Some (p_id q)\<rparr>"
    unfolding t(1) by (auto simp: set_update_where)
  from q(3) have "p_username p = p_username q" by (rule ssubst) simp
  let ?d = "local_profile_data Person (ucd_username d) None None []" and ?s = "s\<lparr>user_invite_codes := cs\<rparr>"
  obtain hs es where s2: "s2 = ?s\<lparr>instances := hs, actor_profiles := released pid (prd_username ?d)
        (prd_webfinger_hostname ?d) (actor_profiles ?s) @ [prof], profile_emojis := profile_emojis ?s @ links pid es\<rparr>"
      and keys: "profile_keys_ok (actor_profiles s2)"
      and row': "prof = (profile_row ?s pid ?d)\<lparr>p_emojis := emojis_of_profile s2 pid\<rparr>"
    by (rule create_profile_effect [OF prof(1)])
  have "prof \<in> set (actor_profiles s2)" "p_username prof = ucd_username d"
    by (subst s2, simp) (subst row', simp add: profile_row_def local_profile_data_def)
  with keys have "q = prof" using profile_keys_okD q(1,2) prof(2) by (metis profiles_clash_def)
  then show "p_username (user_profile u) = ucd_username d"
    using user_new_Ok [OF new] \<open>p_username p = p_username q\<close> \<open>p_username prof = _\<close> by simp
  show "\<not> code_used c s \<and> code_used c t" if "ucd_invite_code d = Some c"
  proof -
    have "user_invite_codes t = cs" using t(1) s2 by simp
    then have "code_used c t" using use_invite_code_opt_frame(2) [OF code that] by (simp add: code_used_def)
    moreover have "\<not> code_used c s" using code that by (simp add: use_invite_code_opt_def use_invite_code_Ok)
    ultimately show ?thesis by simp
  qed
qed

text \<open>A used code is refused, whatever the other data.\<close>

lemma create_user_atomic [simp]: "atomic (create_user X pid d)"
  by (simp add: create_user_def)

lemma used_code_refused:
  assumes "code_used c s" and "ucd_invite_code d = Some c"
  shows "\<not> is_ok (fst (create_user X pid d s))"
proof
  assume "is_ok (fst (create_user X pid d s))"
  then obtain u t where "create_user X pid d s = (Ok u, t)" by (metis is_ok.elims(2) prod.collapse)
  from create_user_found(6) [OF this assms(2)] assms(1) show False by simp
qed

section \<open>Invitation codes over time\<close>

text \<open>The code has been issued and is used up.\<close>

definition code_spent :: "string \<Rightarrow> user_invite_code list \<Rightarrow> bool" where
  "code_spent c cs \<longleftrightarrow> c \<in> ic_code ` set cs \<and> \<not> list_ex (unused_code c) cs"

text \<open>The table changes when a code is issued and when an account is registered; any other operation of the server leaves
  it as it is.\<close>

inductive code_step :: "externals \<Rightarrow> database \<Rightarrow> database \<Rightarrow> bool" for X where
  issued: "create_invite_code code note s = (r1, t) \<Longrightarrow> code_step X s t"
| registered_user: "create_user X pid d s = (r2, t) \<Longrightarrow> code_step X s t"
| registered_portable: "create_portable_user X e s = (r3, t) \<Longrightarrow> code_step X s t"
| elsewhere: "user_invite_codes t = user_invite_codes s \<Longrightarrow> code_step X s t"

abbreviation mark_used :: "string \<Rightarrow> user_invite_code list \<Rightarrow> user_invite_code list" where
  "mark_used code \<equiv> update_where (unused_code code) (\<lambda>c. c\<lparr>ic_used := True\<rparr>)"

lemma mark_used_keeps:
  "c \<in> ic_code ` set cs \<Longrightarrow> c \<in> ic_code ` set (mark_used code cs)" "code_spent c cs \<Longrightarrow> code_spent c (mark_used code cs)"
proof -
  have codes: "ic_code ` set (mark_used code cs) = ic_code ` set cs"
    by (auto simp: update_where_def image_Un image_image)
  then show "c \<in> ic_code ` set cs \<Longrightarrow> c \<in> ic_code ` set (mark_used code cs)" by simp
  show "code_spent c cs \<Longrightarrow> code_spent c (mark_used code cs)"
    unfolding code_spent_def codes by (auto simp: list_ex_iff set_update_where unused_code_def split: if_splits)
qed

lemma create_profile_codes:
  assumes "create_profile X pid d s = (Ok p, t)"
  shows "user_invite_codes t = user_invite_codes s"
  using assms
proof (rule create_profile_effect)
  fix hs es
  assume t: "t = s\<lparr>instances := hs, actor_profiles := released pid (prd_username d) (prd_webfinger_hostname d) (actor_profiles s) @ [p],
       profile_emojis := profile_emojis s @ links pid es\<rparr>"
  show ?thesis by (subst t) simp
qed

lemma registration_codes:
  assumes Q: "\<And>cs code. Q cs \<Longrightarrow> Q (mark_used code cs)"
  shows "preserves (\<lambda>s. Q (user_invite_codes s)) (create_user X pid d)"
    and "preserves (\<lambda>s. Q (user_invite_codes s)) (create_portable_user X e)"
proof -
  let ?I = "\<lambda>s. Q (user_invite_codes s)"
  have code: "preserves ?I (use_invite_code_opt c)" for c
    unfolding use_invite_code_opt_def use_invite_code_def
    by (cases c) (auto simp: preserves_def Q prog_defs)
  have put: "preserves ?I (put_profiles f)" for f
    by (simp add: preserves_def put_profiles_def)
  have prof: "preserves ?I (create_profile X i p)" for i p
    by (rule preserves_atomic) (simp_all add: create_profile_codes)
  have one: "preserves ?I (change_profile_one i f)" for i f
    unfolding change_profile_one_def change_profile_def by (intro preserves_rules put)
  have ins: "preserves ?I (insert_user i d')" "preserves ?I (insert_portable_user i k l c)" for i d' k l c
    by (auto simp: preserves_def insert_user_def insert_portable_user_def Let_def)
  show "preserves ?I (create_user X pid d)" "preserves ?I (create_portable_user X e)"
    unfolding create_user_def create_portable_user_def check_local_username_unique_def
    by (intro preserves_transaction preserves_rules code prof one ins; simp)+
qed

lemma code_step_spent:
  assumes "code_step X s t" and "code_spent c (user_invite_codes s)"
  shows "code_spent c (user_invite_codes t)"
proof -
  have "preserves (\<lambda>s. code_spent c (user_invite_codes s)) (create_user X pid d)"
    "preserves (\<lambda>s. code_spent c (user_invite_codes s)) (create_portable_user X e)" for pid d e
    by (rule registration_codes, rule mark_used_keeps(2), assumption)+
  note keeps = preservesD [OF this(1)] preservesD [OF this(2)]
  from assms(1) show ?thesis
  proof cases
    case issued
    with assms(2) show ?thesis
      by (auto simp: create_invite_code_def code_spent_def unused_code_def run_def prog_defs split: if_splits)
  next
    case registered_user
    then show ?thesis by (rule keeps(1) [OF assms(2)])
  next
    case registered_portable
    then show ?thesis by (rule keeps(2) [OF assms(2)])
  qed (simp add: assms(2))
qed

lemma code_steps_spent:
  "(code_step X)\<^sup>*\<^sup>* s t \<Longrightarrow> code_spent c (user_invite_codes s) \<Longrightarrow> code_spent c (user_invite_codes t)"
  by (induction rule: rtranclp_induct) (auto intro: code_step_spent)

lemma registration_spends_code:
  assumes "create_user X pid d s = (Ok u, t)" and "ucd_invite_code d = Some c"
  shows "code_spent c (user_invite_codes t)"
proof -
  have used: "\<not> code_used c s" "code_used c t" using create_user_found(6) [OF assms] by auto
  then have "c \<in> ic_code ` set (user_invite_codes s)"
    by (auto simp: code_used_def list_ex_iff unused_code_def)
  moreover have "preserves (\<lambda>s. c \<in> ic_code ` set (user_invite_codes s)) (create_user X pid d)"
    by (rule registration_codes(1), rule mark_used_keeps(1), assumption)
  ultimately have "c \<in> ic_code ` set (user_invite_codes t)" using preservesD assms(1) by fast
  with used(2) show ?thesis by (simp add: code_spent_def code_used_def)
qed

lemma spent_code_refused:
  assumes "code_spent c (user_invite_codes s)" and "ucd_invite_code d = Some c"
  shows "\<not> is_ok (fst (create_user X pid d s)) \<and> same_tables s (snd (create_user X pid d s))"
proof -
  have "\<not> is_ok (fst (create_user X pid d s))"
    using assms by (intro used_code_refused) (simp_all add: code_used_def code_spent_def)
  with create_user_atomic show ?thesis unfolding atomic_def by blast
qed

section \<open>Similar names\<close>

definition plain_pattern :: "string \<Rightarrow> bool" where
  "plain_pattern p \<longleftrightarrow> CHR ''%'' \<notin> set p \<and> CHR 0x5C \<notin> set p"

lemma like_match_self: "plain_pattern p \<Longrightarrow> like_match p p"
  by (induction p) (auto simp: plain_pattern_def)

lemma like_match_one:
  "plain_pattern (x @ y) \<Longrightarrow> like_match (x @ CHR ''_'' # y) (x @ c # y)"
  by (induction x) (auto simp: plain_pattern_def like_match_self [unfolded plain_pattern_def])

lemma ilike_one:
  assumes "plain_pattern (map to_ascii_lower (x @ y))"
  shows "ilike (x @ c # y) (x @ CHR ''_'' # y)"
  using like_match_one [of "map to_ascii_lower x" "map to_ascii_lower y" "to_ascii_lower c"] assms
  by (simp add: ilike_def to_ascii_lower_def is_upper_def)

lemma create_user_similar:
  assumes "p \<in> set (actor_profiles s)" "has_account p" "ilike (p_username p) (ucd_username d)"
    and "user_data_check_consistency d = Ok ()"
  shows "fst (create_user X pid d s) = Err (AlreadyExists ''user'')"
proof -
  have "list_ex (\<lambda>p. has_account p \<and> ilike (p_username p) (ucd_username d)) (actor_profiles s)"
    using assms(1-3) by (auto simp: list_ex_iff)
  then show ?thesis using assms(4)
    by (simp add: create_user_def seq_def bnd_def type_check_def lift_def transaction_def
        check_local_username_unique_def gets_def throw_def)
qed

section \<open>Tokens\<close>

definition tokens_inv :: "database \<Rightarrow> bool" where
  "tokens_inv s \<longleftrightarrow> unique_by ot_token_digest (oauth_tokens s) \<and> unique_by ot_id (oauth_tokens s)"

definition token_valid :: "token_hash \<Rightarrow> string \<Rightarrow> oauth_token \<Rightarrow> database \<Rightarrow> bool" where
  "token_valid H token k s \<longleftrightarrow> ot_token_digest k = H token \<and> current_timestamp s < ot_expires_at k"

lemma token_rows:
  assumes "filter (\<lambda>k. token_valid H token k s) (oauth_tokens s) = [k]"
    and "filter (\<lambda>u. u_id u = ot_owner_id k) (user_accounts s) = [u]"
    and "filter (\<lambda>p. p_id p = ot_owner_id k) (actor_profiles s) = [p]"
  shows "[(ot_id k, u, p). k \<leftarrow> oauth_tokens s, u \<leftarrow> user_accounts s, p \<leftarrow> actor_profiles s,
          ot_owner_id k = u_id u \<and> u_id u = p_id p \<and> ot_token_digest k = H token \<and> current_timestamp s < ot_expires_at k]
     = [(ot_id k, u, p)]"
proof -
  have v: "token_valid H token k s" "u_id u = ot_owner_id k" "p_id p = ot_owner_id k"
    by (rule filter_one(2) [OF assms(1)], rule filter_one(2) [OF assms(2)], rule filter_one(2) [OF assms(3)])
  have "concat (map (\<lambda>p. if ot_owner_id k = u_id u \<and> u_id u = p_id p \<and> ot_token_digest k = H token
          \<and> current_timestamp s < ot_expires_at k then [(ot_id k, u, p)] else []) (actor_profiles s)) = [(ot_id k, u, p)]"
    by (subst concat_map_one [OF assms(3)]) (use v in \<open>auto simp: token_valid_def\<close>)
  then have "concat (map (\<lambda>u. concat (map (\<lambda>p. if ot_owner_id k = u_id u \<and> u_id u = p_id p \<and> ot_token_digest k = H token
          \<and> current_timestamp s < ot_expires_at k then [(ot_id k, u, p)] else []) (actor_profiles s))) (user_accounts s))
      = [(ot_id k, u, p)]"
    by (subst concat_map_one [OF assms(2)]) auto
  then show ?thesis by (subst concat_map_one [OF assms(1)]) (auto simp: token_valid_def)
qed

lemma token_signs_in:
  assumes "filter (\<lambda>k. token_valid H token k s) (oauth_tokens s) = [k]"
    and "get_user_by_id X (ot_owner_id k) s = (Ok v, s)"
    and "unique_by u_id (user_accounts s)" "profile_keys_ok (actor_profiles s)"
  shows "get_user_by_oauth_token H X token s = (Ok (ot_id k, v), s)"
proof -
  let ?o = "ot_owner_id k"
  let ?rows = "[(u, p). u \<leftarrow> user_accounts s, p \<leftarrow> actor_profiles s, u_id u = p_id p \<and> u_id u = ?o]"
  from assms(2) obtain u p where rows: "?rows = [(u, p)]" and new: "user_new X u p = Ok v"
    by (auto simp: get_user_by_id_def ok_runs split: prod.splits)
  from rows have "(u, p) \<in> set ?rows" by (simp only: list.set_intros)
  then have mem: "u \<in> set (user_accounts s)" "p \<in> set (actor_profiles s)" "u_id u = ?o" "p_id p = ?o"
    by (auto split: if_splits)
  have "filter (\<lambda>u. u_id u = ?o) (user_accounts s) = [u]"
    using unique_by_filter_key [OF assms(3) mem(1)] mem(3) by simp
  moreover have "filter (\<lambda>p. p_id p = ?o) (actor_profiles s) = [p]"
    using filter_by_id [OF assms(4) mem(2)] mem(4) by simp
  ultimately show ?thesis
    unfolding get_user_by_oauth_token_def
    by (simp add: bnd_def select_or_not_found_run token_rows [OF assms(1)] type_check_def lift_def new ret_def)
qed

lemma no_token_no_user:
  assumes "filter (\<lambda>k. token_valid H token k s) (oauth_tokens s) = []"
  shows "get_user_by_oauth_token H X token s = (Err (NotFound ''user''), s)"
proof -
  have rows: "[(ot_id k, u, p). k \<leftarrow> oauth_tokens s, u \<leftarrow> user_accounts s, p \<leftarrow> actor_profiles s,
          ot_owner_id k = u_id u \<and> u_id u = p_id p \<and> ot_token_digest k = H token \<and> current_timestamp s < ot_expires_at k] = []"
    using assms by (auto simp: filter_empty_conv token_valid_def)
  show ?thesis
    by (simp only: get_user_by_oauth_token_def bnd_def select_or_not_found_run rows list.case prod.case outcome.case)
qed

lemma get_user_by_id_rows:
  "get_user_by_id X uid s = (Ok v, t) \<longleftrightarrow> t = s \<and> (\<exists>u p. user_new X u p = Ok v \<and>
     [(u, p). u \<leftarrow> user_accounts s, p \<leftarrow> actor_profiles s, u_id u = p_id p \<and> u_id u = uid] = [(u, p)])"
  by (auto simp: get_user_by_id_def ok_runs split: prod.splits)

text \<open>A stored token, seen at any later time.\<close>

definition later :: "datetime \<Rightarrow> database \<Rightarrow> database" where
  "later now s = s\<lparr>current_timestamp := now\<rparr>"

lemma save_oauth_token_Ok:
  assumes "save_oauth_token H owner app token created expires s = (Ok i, t)"
  obtains k where "k = \<lparr>ot_id = i, ot_owner_id = owner, ot_application_id = app, ot_token_digest = H token,
      ot_created_at = created, ot_expires_at = expires\<rparr>"
    "t = (draw_oauth_token_id s)\<lparr>oauth_tokens := oauth_tokens s @ [k]\<rparr>"
    "\<forall>l \<in> set (oauth_tokens s). ot_token_digest l \<noteq> H token \<and> ot_id l \<noteq> i"
proof -
  have "(let k = \<lparr>ot_id = i, ot_owner_id = owner, ot_application_id = app, ot_token_digest = H token,
      ot_created_at = created, ot_expires_at = expires\<rparr> in
    t = (draw_oauth_token_id s)\<lparr>oauth_tokens := oauth_tokens s @ [k]\<rparr> \<and>
    (\<forall>l \<in> set (oauth_tokens s). ot_token_digest l \<noteq> H token \<and> ot_id l \<noteq> i))"
    using assms
    by (auto simp: save_oauth_token_def run_Ok insert_oauth_token_def Let_def draw_oauth_token_id_def list_ex_iff
        split: if_splits)
  then show ?thesis by (auto simp: Let_def intro: that)
qed

lemma saved_token_row:
  assumes "save_oauth_token H owner app token created expires s = (Ok i, t)"
  shows "\<exists>k. ot_owner_id k = owner \<and> filter (\<lambda>k. ot_token_digest k = H token) (oauth_tokens t) = [k]"
  using assms
  by (rule save_oauth_token_Ok) (auto simp: filter_empty_conv intro!: exI)

lemma save_oauth_token_inv:
  assumes "tokens_inv s" and "save_oauth_token H owner app token created expires s = (Ok i, t)"
  shows "tokens_inv t"
  using assms(2)
  by (rule save_oauth_token_Ok) (use assms(1) in \<open>auto simp: tokens_inv_def unique_by_def\<close>)

lemma saved_token_signs_in:
  assumes run: "save_oauth_token H owner app token created expires s = (Ok i, t)"
    and user: "get_user_by_id X owner s = (Ok v, s)"
    and keys: "unique_by u_id (user_accounts s)" "profile_keys_ok (actor_profiles s)"
  shows "get_user_by_oauth_token H X token (later now t) =
    ((if now < expires then Ok (i, v) else Err (NotFound ''user'')), later now t)"
proof -
  from run obtain k where k: "k = \<lparr>ot_id = i, ot_owner_id = owner, ot_application_id = app, ot_token_digest = H token,
      ot_created_at = created, ot_expires_at = expires\<rparr>"
    and t: "t = (draw_oauth_token_id s)\<lparr>oauth_tokens := oauth_tokens s @ [k]\<rparr>"
    and fresh: "\<forall>l \<in> set (oauth_tokens s). ot_token_digest l \<noteq> H token \<and> ot_id l \<noteq> i"
    by (rule save_oauth_token_Ok)
  let ?t = "later now t"
  have rows: "filter (\<lambda>k. token_valid H token k ?t) (oauth_tokens ?t) = (if now < expires then [k] else [])"
    using fresh by (auto simp: later_def t token_valid_def k filter_empty_conv)
  have "get_user_by_id X owner ?t = (Ok v, ?t)"
    using user by (simp add: get_user_by_id_rows later_def t draw_oauth_token_id_def)
  moreover have "user_accounts ?t = user_accounts s" "actor_profiles ?t = actor_profiles s"
    by (simp_all add: later_def t draw_oauth_token_id_def)
  ultimately show ?thesis
    using token_signs_in [of H token ?t k X v] no_token_no_user [of H token ?t X] rows keys k by simp
qed

lemma delete_oauth_token_run:
  assumes "filter (\<lambda>k. ot_token_digest k = H token) (oauth_tokens s) = [k]"
  shows "delete_oauth_token H uid token s = (if uid = ot_owner_id k
     then (Ok (), s\<lparr>oauth_tokens := delete_where (\<lambda>l. ot_token_digest l = H token) (oauth_tokens s)\<rparr>)
     else (Err (NotFound ''token''), s))"
  using assms
  by (simp add: delete_oauth_token_def transaction_def bnd_def select_opt_def run_def modify_def throw_def
      ret_def gets_def lift_def map_err_p_def rollback_def)

lemma deleted_token_no_user:
  assumes "delete_oauth_token H uid token s = (Ok (), t)"
  shows "get_user_by_oauth_token H X token (later now t) = (Err (NotFound ''user''), later now t)"
proof (rule no_token_no_user)
  from assms have "filter (\<lambda>k. ot_token_digest k = H token) (oauth_tokens t) = []"
    unfolding delete_oauth_token_def transaction_Ok bnd_Ok select_opt_Ok query_opt_Ok
    by (auto simp: ret_Ok throw_Ok modify_Ok delete_where_def filter_empty_conv split: if_splits)
  then show "filter (\<lambda>k. token_valid H token k (later now t)) (oauth_tokens (later now t)) = []"
    by (simp add: later_def token_valid_def filter_empty_conv)
qed

section \<open>Nonces\<close>

lemma nonce_run:
  "is_valid_caip122_nonce account nonce s =
     (if list_ex (\<lambda>n. cn_account_id n = account \<and> cn_nonce n = nonce) (caip122_nonces s) then (Ok False, s)
      else (Ok True, s\<lparr>caip122_nonces := caip122_nonces s
             @ [\<lparr>cn_account_id = account, cn_nonce = nonce, cn_created_at = current_timestamp s\<rparr>]\<rparr>))"
  by (simp add: is_valid_caip122_nonce_def match_result_def map_err_p_def insert_nonce_def catch_unique_violation_def ret_def)

section \<open>Histories\<close>

inductive account_step :: "externals \<Rightarrow> database \<Rightarrow> database \<Rightarrow> bool" for X where
  profile: "profile_step X s t \<Longrightarrow> account_step X s t"
| registered: "create_user X pid d s = (r, t) \<Longrightarrow> account_step X s t"

inductive tables_step :: "externals \<Rightarrow> database \<Rightarrow> database \<Rightarrow> bool" for X where
  account: "account_step X s t \<Longrightarrow> tables_step X s t"
| emoji: "emoji_step s t \<Longrightarrow> tables_step X s t"

lemma account_step_inv:
  assumes "account_step X s t"
  shows "profile_tables_inv s \<Longrightarrow> profile_tables_inv t"
    and "profiles_inv X s \<Longrightarrow> profiles_inv X t"
proof -
  have keep: "preserves profile_tables_inv (create_user X pid d)" "preserves (profiles_inv X) (create_user X pid d)" for pid d
    by (rule preserves_atomic, simp, auto simp: profiles_inv_def intro: create_user_inv)+
  from assms show "profile_tables_inv s \<Longrightarrow> profile_tables_inv t"
    by cases (use profile_step_inv(1) keep(1) in \<open>blast dest: preservesD\<close>)+
  from assms show "profiles_inv X s \<Longrightarrow> profiles_inv X t"
  proof cases
    case profile
    then show "profiles_inv X s \<Longrightarrow> profiles_inv X t" using profile_step_inv by (simp add: profiles_inv_def)
  next
    case registered
    then show "profiles_inv X s \<Longrightarrow> profiles_inv X t" using keep(2) by (blast dest: preservesD)
  qed
qed

lemma tables_steps_inv:
  assumes "(tables_step X)\<^sup>*\<^sup>* s t" and "profile_tables_inv s"
  shows "profile_tables_inv t"
  using assms by induction (auto elim!: tables_step.cases intro: account_step_inv(1) emoji_step_inv)

lemma account_steps_inv:
  assumes "(account_step X)\<^sup>*\<^sup>* s t" and "profiles_inv X s"
  shows "profiles_inv X t"
  using assms by induction (auto intro: account_step_inv(2))

end
