(* ===== verification/StoreProperties.thy ===== *)
theory StoreProperties
  imports ActivitypubStore Emojis SmallTables Reactions Validators AccountProperties
begin

text \<open>
  What deletions leave behind: emojis with their reactions, unposted attachments, stored objects and
  collections.
\<close>

section \<open>Attachments\<close>

lemma try_map_file_names:
  assumes "a \<in> set as" and "\<not> pm_is_file (ma_media a)"
  shows "try_map (\<lambda>a. ok_or FromSqlError (into_file_name (ma_media a))) as = Err FromSqlError"
  using assms
proof (induction as)
  case (Cons b as)
  then show ?case by (cases "ma_media b"; cases "a = b") auto
qed simp

lemma delete_unused_attachments_link:
  assumes "a \<in> set (media_attachments s)" and "unused_attachment before a" and "\<not> pm_is_file (ma_media a)"
  shows "delete_unused_attachments before s =
    (Err (ClientError FromSqlError), s\<lparr>media_attachments := delete_where (unused_attachment before) (media_attachments s)\<rparr>)"
  using try_map_file_names [of a "filter (unused_attachment before) (media_attachments s)"] assms
  by (simp add: delete_unused_attachments_def bnd_def seq_def gets_def modify_def run_def lift_def map_err_p_def)

section \<open>Stored objects\<close>

lemma cleanup_run:
  "delete_activitypub_objects before s =
     (let P = \<lambda>a. expendable before a \<and> \<not> in_collection s a in
      (Ok (length (filter P (activitypub_objects s))),
       s\<lparr>activitypub_objects := filter (\<lambda>a. \<not> P a) (activitypub_objects s)\<rparr>))"
proof -
  let ?gone = "filter (\<lambda>a. expendable before a \<and> \<not> in_collection s a) (activitypub_objects s)"
  have "delete_where (\<lambda>i. ci_object_id i \<in> ao_object_id ` set ?gone) (collection_items s) = collection_items s"
    by (auto simp: delete_where_def in_collection_def list_ex_iff intro!: filter_True)
  then show ?thesis
    by (simp add: delete_activitypub_objects_def remove_objects_def bnd_def seq_def gets_def modify_def ret_def
        delete_where_def Let_def)
qed

lemma concat_map_filter:
  "(\<And>x. x \<in> set xs \<Longrightarrow> \<not> P x \<Longrightarrow> f x = []) \<Longrightarrow> concat (map f (filter P xs)) = concat (map f xs)"
  by (induction xs) auto

lemma collection_objects_cleanup:
  "collection_objects (s\<lparr>activitypub_objects :=
      filter (\<lambda>a. \<not> (expendable before a \<and> \<not> in_collection s a)) (activitypub_objects s)\<rparr>) cid
   = collection_objects s cid"
  unfolding collection_objects_def
  by (simp, rule concat_map_filter) (auto simp: in_collection_def list_ex_iff)

section \<open>Emojis\<close>

lemma count_where_mono: "(\<And>y. Q y \<Longrightarrow> P y) \<Longrightarrow> count_where Q xs \<le> count_where P xs"
  by (induction xs) (auto simp: count_where_Cons)

lemma count_where_less:
  assumes "x \<in> set xs" and "P x" and "\<not> Q x" and "\<And>y. Q y \<Longrightarrow> P y"
  shows "count_where Q xs < count_where P xs"
  using assms(1)
proof (induction xs)
  case (Cons y ys)
  show ?case
  proof (cases "x = y")
    case True
    then show ?thesis using assms(2,3) count_where_mono [of Q P ys] assms(4) by (simp add: count_where_Cons)
  qed (use Cons assms(4) in \<open>auto simp: count_where_Cons\<close>)
qed simp

text \<open>A deleted row that the counter of its post still counts.\<close>

lemma uncounted_row:
  assumes "reactions_inv s" and "posts t = posts s" and "reactions t = filter Q (reactions s)"
    and "r \<in> set (reactions s)" and "\<not> Q r"
  shows "\<not> reactions_inv t"
proof
  assume t: "reactions_inv t"
  obtain p where p: "p \<in> set (posts s)" "po_id p = re_post_id r"
    using assms(1,4) by (fastforce simp: reactions_inv_def list_ex_iff is_original_def)
  have "count_where (\<lambda>c. reaction_ref c = Some (po_id p)) (reactions t)
      = count_where (\<lambda>c. reaction_ref c = Some (po_id p)) (reactions s)"
    using assms(1,2) t p(1) by (simp add: reactions_inv_def counted_by_def)
  moreover have "count_where (\<lambda>c. reaction_ref c = Some (po_id p)) (reactions t)
      = count_where (\<lambda>c. reaction_ref c = Some (po_id p) \<and> Q c) (reactions s)"
    by (simp add: assms(3) count_where_def conj_commute)
  moreover have "count_where (\<lambda>c. reaction_ref c = Some (po_id p) \<and> Q c) (reactions s)
      < count_where (\<lambda>c. reaction_ref c = Some (po_id p)) (reactions s)"
    using assms(4,5) p(2) by (intro count_where_less [of r]) (simp_all add: reaction_ref_def)
  ultimately show False by simp
qed

text \<open>
  What validated input satisfies: the cleaned forms that always pass the validator behind them and
  those that do not, the options of a poll, the scopes of a token, user names as patterns.
\<close>

section \<open>Polls\<close>

lemma validate_poll_options_Ok:
  "validate_poll_options W seen ns = Ok u \<longleftrightarrow>
     list_all (\<lambda>n. length n \<le> 1000 \<and> clean_html_all W n = n) ns \<and> distinct ns \<and> set seen \<inter> set ns = {}"
  by (induction ns arbitrary: seen)
    (auto simp: andThen_Ok require_Ok validate_poll_option_name_def clean_poll_option_name_def)

lemma validate_poll_data_Ok:
  "validate_poll_data W d = Ok u \<longleftrightarrow>
     (let names = map pr_option_name (pd_results d) in
      2 \<le> length names \<and> length names \<le> 20 \<and> distinct names \<and>
      list_all (\<lambda>n. length n \<le> 1000 \<and> clean_html_all W n = n) names \<and>
      (\<forall>n. pd_voters_count d = Some n \<longrightarrow> 0 \<le> n))"
  by (auto simp: validate_poll_data_def andThen_Ok require_Ok validate_poll_options_Ok Let_def split: option.splits)

section \<open>Scopes\<close>

lemma distinct_remdups_adj: "sorted xs \<Longrightarrow> distinct (remdups_adj xs)"
  for xs :: "'a :: linorder list"
  by (induction xs rule: remdups_adj.induct) (auto dest: antisym)

lemma clean_scopes_filter:
  "clean_scopes s = filter (\<lambda>x. x \<in> set (split_whitespace s)) [''profile'', ''read'', ''write'']"
proof -
  let ?ws = "split_whitespace s"
  have "sorted (clean_scopes s)" "distinct (clean_scopes s)"
    by (simp_all add: clean_scopes_def sorted_filter [of id, simplified] sorted_remdups_adj distinct_remdups_adj)
  moreover have abc: "sorted [''profile'', ''read'', ''write'']" "distinct [''profile'', ''read'', ''write'']"
    by code_simp+
  then have "sorted (filter (\<lambda>x. x \<in> set ?ws) [''profile'', ''read'', ''write''])"
    by (intro sorted_filter [of id, simplified])
  moreover have "distinct (filter (\<lambda>x. x \<in> set ?ws) [''profile'', ''read'', ''write''])"
    using abc(2) by (rule distinct_filter)
  moreover have "set (clean_scopes s) = set (filter (\<lambda>x. x \<in> set ?ws) [''profile'', ''read'', ''write''])"
    by (auto simp: clean_scopes_def allowed_scopes_def)
  ultimately show ?thesis by (rule sorted_distinct_set_unique)
qed

section \<open>Titles and names\<close>

lemma chars_of_ascii: "list_all (\<lambda>c. \<not> is_continuation c) s \<Longrightarrow> chars_of s = map (\<lambda>c. [c]) s"
proof (induction s rule: chars_of.induct)
  case (2 c s)
  then have "takeWhile is_continuation s = []" "dropWhile is_continuation s = s" by (cases s; simp)+
  with 2 show ?case by simp
qed simp

lemma chars_of_append:
  "\<not> is_continuation c \<Longrightarrow> chars_of (s @ c # t) = chars_of s @ chars_of (c # t)"
proof (induction s rule: chars_of.induct)
  case (2 d s)
  have "takeWhile is_continuation (s @ c # t) = takeWhile is_continuation s"
    "dropWhile is_continuation (s @ c # t) = dropWhile is_continuation s @ c # t"
    using 2(2) by (induction s) simp_all
  then show ?case using 2 by simp
qed simp

lemma take_chars_all: "char_count s \<le> n \<Longrightarrow> take_chars n s = s"
  by (simp add: take_chars_def char_count_def)

lemma clean_title_chars: "char_count (clean_title W title) \<le> title_length_max"
proof -
  let ?t = "trim (clean_html_all W title)"
  have "char_count (take_chars n ?t @ ''...'') \<le> n + 3" for n
    using chars_of_append [of "CHR ''.''" "take_chars n ?t" "''..''"]
    by (simp add: char_count_def chars_of_take chars_of_ascii is_continuation_def)
  from this [of "title_length_max - 3"] show ?thesis
    using char_count_le [of ?t] by (auto simp: clean_title_def title_length_max_def Let_def)
qed

lemma clean_title_single_byte:
  assumes "list_all (\<lambda>c. \<not> is_continuation c) (trim (clean_html_all W title))"
  shows "validate_title (clean_title W title) = Ok ()"
proof -
  let ?t = "trim (clean_html_all W title)"
  have "length (take_chars n ?t) \<le> n" for n
    by (simp add: take_chars_def chars_of_ascii [OF assms] take_map)
  from this [of "title_length_max - 3"] show ?thesis
    by (auto simp: validate_title_def require_def clean_title_def title_length_max_def Let_def)
qed

lemma clean_title_multibyte:
  assumes "char_count (trim (clean_html_all W title)) \<le> 297" "300 < length (trim (clean_html_all W title))"
  shows "clean_title W title = trim (clean_html_all W title) @ ''...''"
    and "validate_title (clean_title W title) = Err ''title is too long''"
  using assms by (simp_all add: clean_title_def validate_title_def require_def title_length_max_def take_chars_all Let_def)

lemma clean_display_name_remote:
  "clean_display_name name True = Some m \<Longrightarrow> m \<noteq> [] \<and> char_count m \<le> display_name_max_length"
  by (auto simp: clean_display_name_def Let_def split: if_splits)

section \<open>User names\<close>

lemma validate_local_username_Ok:
  "validate_local_username n = Ok u \<longleftrightarrow> n \<noteq> [] \<and> length n \<le> 30 \<and> list_all local_username_char n"
  by (auto simp: validate_local_username_def validate_username_def andThen_Ok require_Ok list_all_iff
      local_username_char_def valid_username_char_def)

lemma to_ascii_lower_local: "local_username_char c \<Longrightarrow> local_username_char (to_ascii_lower c)"
  by (cases "is_upper c") (auto simp: to_ascii_lower_def local_username_char_def is_upper_def is_lower_def)

lemma local_username_plain:
  assumes "validate_local_username n = Ok u"
  shows "plain_pattern (map to_ascii_lower n)"
proof -
  have "local_username_char c" if "c \<in> set (map to_ascii_lower n)" for c
    using assms that to_ascii_lower_local by (auto simp: validate_local_username_Ok list_all_iff)
  moreover have "\<not> local_username_char CHR ''%''" "\<not> local_username_char CHR 0x5C" by code_simp+
  ultimately show ?thesis unfolding plain_pattern_def by blast
qed

end
