(* ===== verification/Samples.thy ===== *)
theory Samples
  imports RelationshipResults PaymentProperties QueueProperties Polls Reactions UriSamples PostViews PostDeletion OutgoingProperties StoreProperties
begin

text \<open>
  A small concrete instance, on which the theorems with hypotheses are applied: two local users, a
  remote actor, the account for anonymous payers, a Monero chain, and the operations run on them.
\<close>

definition sample_externals :: externals where
  "sample_externals = \<lparr>ap_uri_parses = (\<lambda>_. True), rsa_pem_parses = (\<lambda>_. True),
     rsa_der_parses = (\<lambda>_. True), rsa_to_pkcs1_der = Some, ed25519_bytes_parse = (\<lambda>_. True), identity_key_of = (\<lambda>k. k)\<rparr>"

definition sample_chain :: chain_id where
  "sample_chain = from_monero_network Mainnet"

definition sample_profile :: "uuid \<Rightarrow> string \<Rightarrow> actor_profile" where
  "sample_profile i name = \<lparr>p_id = i, p_user_id = Some i, p_automated_account_id = None,
     p_portable_user_id = None, p_actor_type = Person, p_username = name, p_hostname = None, p_webfinger_hostname = None,
     p_display_name = None, p_bio = None, p_bio_source = None, p_avatar = None, p_banner = None, p_manually_approves_followers = False, p_mention_policy = MpNone, p_public_keys = [],
     p_identity_proofs = [],
     p_payment_options = [OptMoneroSubscription \<lparr>ms_chain_id = sample_chain, ms_price = 1000\<rparr>],
     p_extra_fields = [], p_aliases = [], p_follower_count = 0, p_following_count = 0, p_subscriber_count = 0, p_post_count = 0, p_emojis = [],
     p_actor_json = None, p_identity_key = None, p_created_at = 0, p_updated_at = 0, p_unreachable_since = None\<rparr>"

definition sample_account :: "uuid \<Rightarrow> user_account" where
  "sample_account i = \<lparr>u_id = i, u_password_digest = Some ''digest'', u_login_address_ethereum = None,
     u_login_address_monero = None, u_rsa_private_key = ''rsa'', u_ed25519_private_key = ''ed'', u_invite_code = None,
     u_role = NormalUser, u_client_config = [], u_shared_client_config = \<lparr>scc_default_post_visibility = VisPublic,
       scc_default_post_language = None\<rparr>, u_created_at = 0\<rparr>"

definition sample_post :: post where
  "sample_post = \<lparr>po_id = 50, po_author_id = 2, po_title = None, po_content = ''hello'', po_content_source = None,
     po_language = None, po_conversation_id = Some 60, po_in_reply_to_id = None, po_repost_of_id = None,
     po_repost_has_deprecated_ap_id = False, po_group_id = None, po_visibility = VisPublic,
     po_is_sensitive = False, po_is_pinned = False, po_reply_count = 0, po_reaction_count = 0,
     po_repost_count = 0, po_url = None, po_object_id = None, po_ipfs_cid = None, po_created_at = 0,
     po_updated_at = None\<rparr>"

definition sample_conversation :: conversation where
  "sample_conversation = \<lparr>cv_id = 60, cv_root_id = 50, cv_group_id = None, cv_is_managed = True,
     cv_object_id = None, cv_audience = Some ''https://www.w3.org/ns/activitystreams#Public''\<rparr>"

definition sample_method :: payment_method where
  "sample_method = \<lparr>pm_id = 1, pm_owner_id = 2, pm_payment_type = Monero, pm_chain_id = sample_chain,
     pm_payout_address = ''payout'', pm_view_key = None, pm_created_at = 0, pm_updated_at = 0\<rparr>"

definition sample_db :: database where
  "sample_db = \<lparr>current_timestamp = seconds 1000000,
     seqs = \<lparr>relationship_seq = 1, notification_seq = 1, subscription_seq = 1, payment_method_seq = 2,
       mention_seq = 1, tag_seq = 1, tracking_seq = 1, bookmark_seq = 1, filter_rule_seq = 1,
       oauth_application_seq = 1, oauth_authorization_seq = 1, oauth_token_seq = 1, marker_seq = 1, custom_feed_seq = 1\<rparr>,
     actor_profiles = [sample_profile 1 ''alice'', sample_profile 2 ''bob''],
     user_accounts = [sample_account 1, sample_account 2], automated_accounts = [],
     relationships = [], follow_requests = [], notifications = [], payment_methods = [sample_method],
     invoices = [], subscriptions = [], posts = [sample_post], reactions = [], polls = [],
     poll_votes = [], background_jobs = [], activitypub_objects = [], emojis = [],
     conversations = [sample_conversation], conversation_trackings = [], media_attachments = [], post_mentions = [],
     tags = [], post_tags = [], post_links = [], post_emojis = [], bookmarks = [], custom_feeds = [],
     custom_feed_sources = [], filter_rules = [], collection_items = [],
     activitypub_medias = [], instances = [], user_invite_codes = [], portable_user_accounts = [], profile_emojis = [],
     caip122_nonces = [], oauth_applications = [], oauth_authorizations = [], oauth_tokens = [], timeline_markers = [],
     internal_properties = []\<rparr>"

lemmas sample_defs = sample_externals_def sample_chain_def sample_profile_def sample_account_def
  sample_post_def sample_conversation_def sample_method_def sample_db_def

definition followed_db :: database where
  "followed_db = snd (follow sample_externals 1 2 sample_db)"

lemma followed: "follow sample_externals 1 2 sample_db = (Ok 1, followed_db)"
  by code_simp

definition unfollowed_db :: database where
  "unfollowed_db = snd (unfollow sample_externals 1 2 followed_db)"

lemma unfollowed: "unfollow sample_externals 1 2 followed_db = (Ok None, unfollowed_db)"
  by code_simp

section \<open>A pending request and a mute\<close>

definition requested_db :: database where
  "requested_db = snd (create_follow_request 9 1 2 sample_db)"

definition muted_db :: database where
  "muted_db = snd (mute 2 1 sample_db)"

section \<open>Invoices\<close>

text \<open>One local invoice per stage of its life, and a requested remote one.\<close>

definition sample_invoice :: "uuid \<Rightarrow> invoice_status \<Rightarrow> string option \<Rightarrow> int option \<Rightarrow> invoice" where
  "sample_invoice i st tx payout = \<lparr>inv_id = i, inv_sender_id = 1, inv_recipient_id = 2,
     inv_chain_id = sample_chain, inv_amount = 0, inv_status = st, inv_payment_type = Some Monero,
     inv_payment_address = Some ''address'', inv_payout_tx_id = tx, inv_payout_amount = payout,
     inv_object_id = None, inv_created_at = seconds 999000, inv_updated_at = seconds 999000\<rparr>"

definition requested_invoice :: invoice where
  "requested_invoice = (sample_invoice 105 Requested None None)\<lparr>inv_payment_type := None, inv_payment_address := None\<rparr>"

definition invoice_db :: database where
  "invoice_db = sample_db\<lparr>invoices := [
     sample_invoice 100 Open None None,
     sample_invoice 101 Paid None None,
     sample_invoice 102 Forwarded (Some ''tx'') None,
     sample_invoice 103 Completed (Some ''tx'') (Some 5000),
     sample_invoice 104 Failed (Some ''tx'') None,
     requested_invoice]\<rparr>"

definition legacy_db :: database where
  "legacy_db = sample_db\<lparr>invoices := [sample_invoice 106 Forwarded None None]\<rparr>"

section \<open>Wallets\<close>

text \<open>A server wallet that knows one funded subaddress and sweeps it in one transaction.\<close>

definition sample_address :: "string \<Rightarrow> monero_address" where
  "sample_address a = \<lparr>ad_text = a, ad_network = Mainnet, ad_type = Standard\<rparr>"

definition sample_index :: address_index where
  "sample_index = \<lparr>ai_major = 0, ai_minor = 7\<rparr>"

definition sample_wallet :: wallet_rpc where
  "sample_wallet = \<lparr>address_from_str = (\<lambda>a. Some (sample_address a)), view_key_parses = (\<lambda>_. True),
     tx_hash_parses = (\<lambda>_. True), rpc_build = Ok (), rpc_refresh = Ok (), rpc_open_wallet = (\<lambda>_ _. Ok ()),
     rpc_get_accounts = Ok [0], rpc_create_address = (\<lambda>_. Ok (sample_address ''new'', 8)),
     rpc_close_wallet = Ok (), rpc_get_address_index = (\<lambda>_. Ok sample_index),
     rpc_get_balance = (\<lambda>_ _. Ok [\<lparr>sb_address = sample_address ''address'', sb_address_index = 7,
       sb_balance = 6000, sb_unlocked_balance = 6000\<rparr>]),
     rpc_incoming_transfers = (\<lambda>_ _. Ok [\<lparr>it_amount = 6000, it_subaddr_index = sample_index,
       it_tx_hash = ''in'', it_block_height = 5\<rparr>]),
     rpc_sweep_all = (\<lambda>_ _ _. Ok \<lparr>sd_tx_hash_list = [''out''], sd_amount_list = [5500], sd_fee_list = [500]\<rparr>),
     rpc_get_transfer = (\<lambda>_ _. Ok (Some \<lparr>gt_transfer_type = TcOut, gt_amount = 5500,
       gt_confirmations = Some 20, gt_subaddr_index = sample_index\<rparr>)),
     random_payment_id = (\<lambda>a. a)\<rparr>"

definition sample_config :: monero_config where
  "sample_config = \<lparr>mc_chain_id = sample_chain, mc_wallet_name = None, mc_wallet_password = None,
     mc_account_index = 0, mc_tx_required_confirmations = 10\<rparr>"

definition sample_job_data :: outgoing_activity_job_data where
  "sample_job_data = \<lparr>oj_activity = JObject [(''id'', JString ''https://social.example/a'')], oj_sender = JNull,
     oj_recipients = [], oj_failure_count = 0\<rparr>"

definition sample_builders :: builders where
  "sample_builders = \<lparr>prepare_update_agreement = (\<lambda>_ _ _ _. Ok sample_job_data),
     prepare_add_subscriber = (\<lambda>_ _ _ _. sample_job_data), prepare_remove_subscriber = (\<lambda>_ _. sample_job_data),
     canonical_id_of = Some, fresh_id = (\<lambda>s. 1000 + length (background_jobs s) + length (invoices s))\<rparr>"

definition paid_state :: payments_state where
  "paid_state = \<lparr>ps_db = sample_db\<lparr>invoices := [sample_invoice 101 Paid None None]\<rparr>, ps_sweeps = []\<rparr>"

definition forwarded_state :: payments_state where
  "forwarded_state = snd (check_paid_invoices sample_externals sample_wallet sample_config paid_state)"

lemma forwarded_sweeps: "ps_sweeps forwarded_state = [\<lparr>sw_account = 0, sw_address = 7, sw_to = ''payout''\<rparr>]"
  by code_simp

definition completed_state :: payments_state where
  "completed_state = snd (check_monero_invoices sample_externals sample_builders sample_wallet sample_config paid_state)"

section \<open>Subscriptions\<close>

definition sample_user :: user where
  "sample_user = \<lparr>user_id = 2, user_password_digest = Some ''digest'', user_login_address_ethereum = None,
     user_login_address_monero = None, user_rsa_secret_key = ''rsa'', user_ed25519_secret_key = ''ed'',
     user_role = NormalUser, user_client_config = [], user_shared_client_config = \<lparr>scc_default_post_visibility = VisPublic,
       scc_default_post_language = None\<rparr>, user_profile = sample_profile 2 ''bob''\<rparr>"

definition subscribed_db :: database where
  "subscribed_db = snd (create_or_update_local_subscription sample_externals (sample_profile 1 ''alice'') sample_user 3600 sample_db)"

lemma subscribed:
  "create_or_update_local_subscription sample_externals (sample_profile 1 ''alice'') sample_user 3600 sample_db
   = (Ok \<lparr>sub_id = 1, sub_sender_id = 1, sub_recipient_id = 2, sub_expires_at = seconds 1003600,
         sub_updated_at = seconds 1000000\<rparr>, subscribed_db)"
  by code_simp

text \<open>Two hours later.\<close>

definition expired_db :: database where
  "expired_db = subscribed_db\<lparr>current_timestamp := seconds 1007200\<rparr>"

definition swept_db :: database where
  "swept_db = snd (update_expired_subscriptions sample_externals sample_builders expired_db)"

lemma swept: "update_expired_subscriptions sample_externals sample_builders expired_db = (Ok (), swept_db)"
  by code_simp

text \<open>The same subscription held by the account for anonymous payers.\<close>

definition anonymous_profile :: actor_profile where
  "anonymous_profile = (sample_profile 3 ''anonymous'')\<lparr>p_user_id := None, p_automated_account_id := Some 3,
     p_actor_type := Automated, p_payment_options := []\<rparr>"

definition anonymous_db :: database where
  "anonymous_db = (let s = sample_db\<lparr>actor_profiles := actor_profiles sample_db @ [anonymous_profile]\<rparr> in
     (snd (create_or_update_local_subscription sample_externals anonymous_profile sample_user 3600 s))
       \<lparr>current_timestamp := seconds 1007200\<rparr>)"

definition anonymous_sub :: subscription where
  "anonymous_sub = \<lparr>sub_id = 1, sub_sender_id = 3, sub_recipient_id = 2, sub_expires_at = seconds 1003600,
     sub_updated_at = seconds 1000000\<rparr>"

section \<open>Payment methods\<close>

definition sample_method_data :: payment_method_data where
  "sample_method_data = \<lparr>pmd_owner_id = 2, pmd_payment_type = MoneroLight, pmd_chain_id = sample_chain,
     pmd_payout_address = ''other'', pmd_view_key = Some ''key''\<rparr>"

section \<open>Jobs\<close>

definition sample_incoming :: incoming_activity_job_data where
  "sample_incoming = incoming_job_data_new (JObject [(''type'', JString ''Create'')]) None True"

definition sample_job :: "uuid \<Rightarrow> job_status \<Rightarrow> background_job" where
  "sample_job i st = \<lparr>bj_id = i, bj_job_type = IncomingActivity, bj_job_data = incoming_to_value sample_incoming,
     bj_job_status = st, bj_scheduled_for = seconds 999000, bj_updated_at = seconds 999990\<rparr>"

definition jobs_db :: database where
  "jobs_db = sample_db\<lparr>background_jobs := [sample_job 1 Queued, sample_job 2 Running, sample_job 3 Queued]\<rparr>"

definition failing_handler :: handler where
  "failing_handler a auth rcp sndr s = (RequestFailed, s)"

section \<open>Polls and reactions\<close>

definition sample_poll :: poll where
  "sample_poll = \<lparr>poll_id = 50, poll_multiple_choices = False, poll_ends_at = None,
     poll_results = [poll_result_new ''yes'', poll_result_new ''no''], poll_voters_count = Some 0\<rparr>"

definition poll_db :: database where
  "poll_db = sample_db\<lparr>polls := [sample_poll]\<rparr>"

definition voted_db :: database where
  "voted_db = snd (vote_one 60 50 1 ''yes'' ''https://social.example/vote'' poll_db)"

definition sample_reaction :: reaction_data where
  "sample_reaction = \<lparr>rd_author_id = 1, rd_post_id = 50, rd_content = None, rd_emoji_id = None,
     rd_visibility = VisPublic, rd_activity_id = None\<rparr>"

definition reacted_db :: database where
  "reacted_db = snd (create_reaction sample_externals 70 sample_reaction sample_db)"

text \<open>
  Concrete posts, deliveries and outgoing jobs on the sample database, for the theorems about them.
\<close>

section \<open>Posts\<close>

definition posts_db :: database where
  "posts_db = sample_db\<lparr>actor_profiles := [sample_profile 1 ''alice'', (sample_profile 2 ''bob'')\<lparr>p_post_count := 1\<rparr>]\<rparr>"

lemma posts_db_inv: "posts_inv posts_db"
proof -
  have ps: "posts posts_db = [sample_post]" "conversations posts_db = [sample_conversation]"
    by (simp_all add: posts_db_def sample_db_def)
  have edges: "reply_edges [sample_post] = {}" by (simp add: reply_edges_def sample_post_def)
  have "thread_shape [sample_post] [sample_conversation]"
    unfolding thread_shape_def edges
    by (simp add: unique_by_def reference_ok_def sample_post_def sample_conversation_def descends.self acyclic_def)
  moreover have "post_counts [sample_post]"
    by (simp add: post_counts_def counted_by_def sample_post_def)
  ultimately show ?thesis by (simp add: posts_inv_def ps)
qed

lemma posts_db_author_counts: "author_counts_ok posts_db"
  by (simp add: author_counts_ok_def counted_by_def posts_db_def sample_defs author_ref_def)

definition sample_reply :: post_create_data where
  "sample_reply = \<lparr>pc_id = None, pc_context = CtxReply 60 50, pc_title = None, pc_content = ''hi'',
     pc_content_source = None, pc_language = None, pc_visibility = VisPublic, pc_is_sensitive = False,
     pc_poll = None, pc_attachments = [], pc_mentions = [2], pc_tags = [''tag''], pc_links = [], pc_emojis = [],
     pc_url = None, pc_object_id = None, pc_created_at = 0\<rparr>"

definition replied_db :: database where
  "replied_db = snd (create_post sample_externals 51 61 1 sample_reply posts_db)"

lemma replied: "is_ok (fst (create_post sample_externals 51 61 1 sample_reply posts_db))"
  by code_simp

lemma sample_reply_matches: "reply_matches posts_db sample_reply"
  by code_simp

definition reposted_db :: database where
  "reposted_db = snd (create_post sample_externals 52 62 1 (create_data_repost 0 50 VisPublic None) posts_db)"

definition sample_repost :: post where
  "sample_repost = post_row 52 1 None (create_data_repost 0 50 VisPublic None)"

lemma reposted: "is_ok (fst (create_post sample_externals 52 62 1 (create_data_repost 0 50 VisPublic None) posts_db))"
  by code_simp

lemma reposted_db_inv: "posts_inv reposted_db" "author_counts_ok reposted_db"
proof -
  let ?run = "create_post sample_externals 52 62 1 (create_data_repost 0 50 VisPublic None) posts_db"
  obtain dp where run: "?run = (Ok dp, reposted_db)"
    using reposted unfolding reposted_db_def by (cases "?run"; cases "fst ?run") auto
  have "reply_matches posts_db (create_data_repost 0 50 VisPublic None)" by code_simp
  from create_post_inv [OF posts_db_inv this run] show "posts_inv reposted_db" .
  from create_post_author_counts [OF posts_db_author_counts run] show "author_counts_ok reposted_db" .
qed

definition sample_detailed :: post_detailed where
  "sample_detailed = (case fst (get_post_by_id sample_externals 50 posts_db) of Ok d \<Rightarrow> d | _ \<Rightarrow> undefined)"

lemma sample_post_loads: "get_post_by_id sample_externals 50 posts_db = (Ok sample_detailed, posts_db)"
  by code_simp

lemma sample_detailed_post: "pd_post sample_detailed = sample_post"
  by code_simp

lemma sample_home_timeline: "get_home_timeline sample_externals 2 None 20 posts_db = (Ok [sample_detailed], posts_db)"
  by code_simp

section \<open>Deliveries\<close>

definition sample_recipient :: recipient where
  "sample_recipient = recipient_new ''https://b.example/users/bob'' ''https://b.example/inbox''"

definition sample_hostname :: "string \<Rightarrow> string option" where
  "sample_hostname url = Some (takeWhile (\<lambda>c. c \<noteq> CHR ''/'') (drop 8 url))"

definition sample_outgoing :: outgoing_activity_job_data where
  "sample_outgoing = sample_job_data\<lparr>oj_recipients := [sample_recipient]\<rparr>"

definition outgoing_job :: background_job where
  "outgoing_job = \<lparr>bj_id = 7, bj_job_type = OutgoingActivity, bj_job_data = outgoing_to_value sample_outgoing,
     bj_job_status = Running, bj_scheduled_for = seconds 999000, bj_updated_at = seconds 1000000\<rparr>"

text \<open>The job after its first failure.\<close>

definition second_outgoing :: outgoing_activity_job_data where
  "second_outgoing = sample_outgoing\<lparr>oj_failure_count := 1\<rparr>"

definition second_job :: background_job where
  "second_job = outgoing_job\<lparr>bj_job_data := outgoing_to_value second_outgoing\<rparr>"

definition second_db :: database where
  "second_db = sample_db\<lparr>background_jobs := [second_job]\<rparr>"

definition sample_federation :: federation_config where
  "sample_federation = \<lparr>fc_enabled = True, fc_instance_uri = sample_server, fc_blocked_instances = None,
     fc_allowed_instances = None\<rparr>"

definition sample_wildmatch :: wildmatch where
  "sample_wildmatch p h \<longleftrightarrow> (if CHR ''*'' \<in> set p then True else p = h)"

lemma sample_wildmatch_laws: "wildmatch_laws sample_wildmatch"
  by (simp add: wildmatch_laws_def sample_wildmatch_def)

definition sample_filter :: federation_filter where
  "sample_filter = \<lparr>ff_blocklist = [], ff_allowlist = [], ff_rules = []\<rparr>"

definition unreachable_worker :: delivery_worker where
  "unreachable_worker = deliver_activity_worker True 1 sample_hostname (\<lambda>_ _. 0) (\<lambda>_. ExchangeFailed)"

lemma unreachable_worker_run: "unreachable_worker [sample_recipient] = Some (Ok [sample_recipient])"
proof -
  have "unreachable_worker [sample_recipient] = Some (Ok (deliver_once (\<lambda>_. ExchangeFailed) [sample_recipient]))"
    unfolding unreachable_worker_def by (rule worker_refines) (simp_all add: sample_hostname_def)
  then show ?thesis by (simp add: deliver_once_def record_result_def)
qed

lemma second_prepared:
  "prepare_outgoing sample_externals sample_uris sample_wildmatch (\<lambda>_. True) sample_federation sample_filter second_job second_db
   = (Ok (Some (second_outgoing, [sample_recipient])), second_db)"
  by code_simp

lemma second_processed:
  "\<exists>t. process_outgoing_job sample_externals sample_uris sample_wildmatch (\<lambda>_. True) sample_federation sample_filter
     unreachable_worker (\<lambda>i. i + 100) (\<lambda>_. 0) second_job second_db = Some (Ok (), t)"
proof -
  have "fst (finish_outgoing sample_externals (\<lambda>i. i + 100) (\<lambda>_. 0) second_job second_outgoing
      (Ok [sample_recipient]) second_db) = Ok ()" by code_simp
  then show ?thesis
    by (simp add: process_outgoing_job_def second_prepared unreachable_worker_run) (metis prod.collapse)
qed

section \<open>Identifiers and rules\<close>

definition sample_key :: did_key where
  "sample_key = \<lparr>kd_codec = Ed25519Pub, kd_key_data = ''key''\<rparr>"

definition sample_authority :: authority where
  "sample_authority = \<lparr>ath_root = RootServer sample_server, ath_http_base_uri = None, ath_prefer_compatible = False\<rparr>"

text \<open>A key with the server as its gateway.\<close>

definition key_authority :: authority where
  "key_authority = authority_key_with_gateway (\<lambda>k. k) ''key'' sample_server"

lemma sample_authorities_wf:
  "wf_authority sample_uris sample_authority \<and> wf_authority sample_uris key_authority
   \<and> uses_gateway key_authority \<and> \<not> uses_gateway sample_authority"
  by code_simp

lemma sample_canonical:
  "\<exists>c. canonical_parse sample_uris ''https://a.example/users/alice'' = Ok c \<and> has_object_path c"
proof -
  have "case canonical_parse sample_uris ''https://a.example/users/alice'' of Ok c \<Rightarrow> has_object_path c | _ \<Rightarrow> False"
    by code_simp
  then show ?thesis by (auto split: outcome.splits)
qed

definition sample_rule :: "int \<Rightarrow> string \<Rightarrow> bool \<Rightarrow> filter_rule" where
  "sample_rule i target reversed = \<lparr>fl_id = i, fl_target = target, fl_action = FaReject, fl_is_reversed = reversed\<rparr>"

definition filtered_db :: database where
  "filtered_db = sample_db\<lparr>filter_rules := [sample_rule 1 ''*'' False, sample_rule 2 ''good.example'' True]\<rparr>"

text \<open>
  Concrete registrations, tokens, emojis, attachments and inputs, for the theorems about them.
\<close>

section \<open>Accounts\<close>

definition invited_db :: database where
  "invited_db = sample_db\<lparr>user_invite_codes :=
     [\<lparr>ic_code = ''code'', ic_used = False, ic_note = None, ic_created_at = 0\<rparr>]\<rparr>"

definition sample_registration :: user_create_data where
  "sample_registration = \<lparr>ucd_username = ''carol'', ucd_password_digest = Some ''digest'',
     ucd_login_address_ethereum = None, ucd_login_address_monero = None, ucd_rsa_secret_key = ''rsa'',
     ucd_ed25519_secret_key = ''ed'', ucd_invite_code = Some ''code'', ucd_role = NormalUser\<rparr>"

definition registered_db :: database where
  "registered_db = snd (create_user sample_externals 3 sample_registration invited_db)"

lemma registered: "is_ok (fst (create_user sample_externals 3 sample_registration invited_db))"
  by code_simp

lemma registered_run: "\<exists>u. create_user sample_externals 3 sample_registration invited_db = (Ok u, registered_db)"
  using registered unfolding registered_db_def
  by (metis is_ok.elims(2) prod.collapse)

lemma invited_db_inv: "profiles_inv sample_externals invited_db"
  by code_simp

definition sample_hash :: token_hash where
  "sample_hash token = ''digest of '' @ token"

definition signed_in_db :: database where
  "signed_in_db = snd (save_oauth_token sample_hash 1 None ''token'' 0 (seconds 2000000) sample_db)"

lemma signed_in: "save_oauth_token sample_hash 1 None ''token'' 0 (seconds 2000000) sample_db = (Ok 1, signed_in_db)"
  by code_simp

definition signed_in_user :: user where
  "signed_in_user = (case fst (get_user_by_id sample_externals 1 sample_db) of Ok u \<Rightarrow> u | _ \<Rightarrow> undefined)"

lemma signed_in_user_loads: "get_user_by_id sample_externals 1 sample_db = (Ok signed_in_user, sample_db)"
  by code_simp

section \<open>Emojis and attachments\<close>

definition sample_image :: partial_media_info where
  "sample_image = PmFile \<lparr>pf_file_name = ''image.png'', pf_file_size = None, pf_digest = None, pf_media_type = None\<rparr> None"

definition sample_emoji :: custom_emoji where
  "sample_emoji = \<lparr>em_id = 70, em_name = ''blob'', em_hostname = None, em_image = sample_image, em_category = None,
     em_object_id = None, em_updated_at = 0\<rparr>"

definition emoji_db :: database where
  "emoji_db = sample_db\<lparr>emojis := [sample_emoji],
     actor_profiles := [(sample_profile 1 ''alice'')\<lparr>p_emojis := [sample_emoji]\<rparr>, sample_profile 2 ''bob''],
     profile_emojis := [\<lparr>pfe_profile_id = 1, pfe_emoji_id = 70\<rparr>],
     posts := [sample_post\<lparr>po_reaction_count := 1\<rparr>],
     reactions := [\<lparr>re_id = 80, re_author_id = 1, re_post_id = 50, re_content = Some '':blob:'', re_emoji_id = Some 70,
       re_visibility = VisPublic, re_activity_id = None, re_has_deprecated_ap_id = False, re_created_at = 0\<rparr>]\<rparr>"

lemma emoji_db_inv: "profile_tables_inv emoji_db"
  by code_simp

definition emoji_deleted_db :: database where
  "emoji_deleted_db = snd (delete_emoji 70 emoji_db)"

lemma emoji_deleted: "is_ok (fst (delete_emoji 70 emoji_db))"
  by code_simp

definition sample_attachment :: "uuid \<Rightarrow> partial_media_info \<Rightarrow> media_attachment" where
  "sample_attachment i m = \<lparr>ma_id = i, ma_owner_id = 1, ma_media = m, ma_description = None, ma_ipfs_cid = None,
     ma_post_id = None, ma_created_at = 0\<rparr>"

definition attachments_db :: database where
  "attachments_db = sample_db\<lparr>media_attachments :=
     [sample_attachment 90 sample_image, sample_attachment 91 (PmLink ''image/png'' ''https://b.example/a.png'')]\<rparr>"

definition sample_object :: "string \<Rightarrow> activitypub_object" where
  "sample_object oid = \<lparr>ao_object_id = oid, ao_object_data = JObject [], ao_profile_id = None, ao_post_id = None,
     ao_created_at = 0\<rparr>"

definition objects_db :: database where
  "objects_db = sample_db\<lparr>activitypub_objects := [sample_object ''kept'', sample_object ''old''],
     collection_items := [\<lparr>ci_owner_id = 1, ci_collection_id = ''c'', ci_object_id = ''kept'', ci_relationship_id = None\<rparr>]\<rparr>"

section \<open>Input\<close>

text \<open>A cleaner that leaves text alone: the inputs below have no markup.\<close>

definition sample_text :: text_library where
  "sample_text = \<lparr>clean_html_all = (\<lambda>s. s), clean_html = (\<lambda>s _. s), clean_html_strict = (\<lambda>s _ _. s),
     is_single_character = (\<lambda>s. char_count s = 1), is_word_character = (\<lambda>_. True), domain_to_ascii = Some\<rparr>"

definition accented :: string where
  "accented = concat (replicate 160 [CHR 0xC3, CHR 0xA9])"

lemma accented_lengths: "trim accented = accented" "char_count accented = 160" "length accented = 320"
  by code_simp+

end
