(* ===== verification/FurtherResults.thy ===== *)
theory FurtherResults
  imports Samples
begin

text \<open>
  Further results about single operations, each applied at a concrete input.
\<close>

section \<open>Relationships and notifications\<close>

text \<open>After a successful unfollow, or a successful removal of a follower, the source neither
  follows the target nor has a request to do so.\<close>

theorem unfollow_and_remove_clear:
  assumes "(\<exists>x. unfollow X a b s = (Ok x, t)) \<or> (\<exists>x. remove_follower X a b s = (Ok x, t))"
  shows "\<not> list_ex (is_rel a b RelFollow) (relationships t) \<and> \<not> list_ex (is_request a b) (follow_requests t)"
  using assms by (auto dest: unfollow_clears remove_follower_clears)

theorem unfollow_and_remove_clear_witness:
  "\<not> list_ex (is_rel 1 2 RelFollow) (relationships unfollowed_db)
   \<and> \<not> list_ex (is_request 1 2) (follow_requests unfollowed_db)"
  using unfollow_and_remove_clear unfollowed by blast

text \<open>A follow request from an actor who already follows the target is refused with
  \<open>AlreadyExists\<close>, and nothing changes.\<close>

theorem follow_request_refused_when_following:
  assumes "rel_inv s" and "list_ex (is_rel a b RelFollow) (relationships s)"
  shows "create_follow_request ulid a b s = (Err (AlreadyExists ''relationship''), s)"
proof -
  have "has_relationship a b RelFollow s = (Ok True, s)"
    using unique_filter_is_rel [OF rel_invD(2) [OF assms(1)], of a b RelFollow] assms(2)
    by (auto simp: has_relationship_Ok list_ex_iff filter_empty_conv)
  then show ?thesis by (simp add: create_follow_request_def transaction_def bnd_def throw_def rollback_def)
qed

theorem follow_request_refused_witness:
  "create_follow_request 9 1 2 followed_db = (Err (AlreadyExists ''relationship''), followed_db)"
proof -
  have "rel_inv followed_db" "list_ex (is_rel 1 2 RelFollow) (relationships followed_db)" by code_simp+
  then show ?thesis by (rule follow_request_refused_when_following)
qed

text \<open>With a pending request and no relationship, removing the follower fails with \<open>NotFound\<close>
  and rolls back the rejection of the request it had begun, so the request stays.\<close>

theorem remove_follower_keeps_pending_request:
  assumes "rel_inv s" and "r \<in> set (follow_requests s)" and "is_request a b r"
    and "\<not> list_ex (is_rel a b RelFollow) (relationships s)"
    and "has_profile (actor_profiles s) a" and "has_profile (actor_profiles s) b"
  shows "fst (remove_follower X a b s) = Err (NotFound ''relationship'') \<and> same_tables s (snd (remove_follower X a b s))"
  using assms by (rule remove_follower_pending_only)

theorem remove_follower_keeps_pending_request_witness:
  "\<exists>r. r \<in> set (follow_requests requested_db)
     \<and> fst (remove_follower sample_externals 1 2 requested_db) = Err (NotFound ''relationship'')
     \<and> same_tables requested_db (snd (remove_follower sample_externals 1 2 requested_db))"
proof -
  let ?r = "new_follow_request sample_db 9 1 2 None"
  have "rel_inv requested_db" "?r \<in> set (follow_requests requested_db)" "is_request 1 2 ?r"
    "\<not> list_ex (is_rel 1 2 RelFollow) (relationships requested_db)"
    "has_profile (actor_profiles requested_db) 1" "has_profile (actor_profiles requested_db) 2"
    by code_simp+
  then show ?thesis using remove_follower_keeps_pending_request by blast
qed

text \<open>While the recipient mutes the sender, none of the six helpers for events caused by that
  sender writes anything, and each reports success.\<close>

theorem muted_sender_causes_no_notification:
  assumes "rel_inv s" and "list_ex (is_rel b a RelMute) (relationships s)"
  shows "create_follow_notification a b s = (Ok (), s)
    \<and> create_follow_request_notification a b s = (Ok (), s)
    \<and> create_reply_notification a b p s = (Ok (), s)
    \<and> create_reaction_notification a b p r s = (Ok (), s)
    \<and> create_mention_notification a b p s = (Ok (), s)
    \<and> create_repost_notification a b p s = (Ok (), s)"
  using unless_muted_silent [OF assms]
  by (simp add: create_follow_notification_def create_follow_request_notification_def
      create_reply_notification_def create_reaction_notification_def create_mention_notification_def
      create_repost_notification_def)

theorem muted_sender_witness:
  "create_follow_notification 1 2 muted_db = (Ok (), muted_db) \<and> create_repost_notification 1 2 50 muted_db = (Ok (), muted_db)"
proof -
  have "rel_inv muted_db" "list_ex (is_rel 2 1 RelMute) (relationships muted_db)" by code_simp+
  then show ?thesis using muted_sender_causes_no_notification by blast
qed

text \<open>A successful follow adds one row for the pair, takes away the reverse rejection and no
  other row, raises the target's follower counter and the source's following counter by one, and
  leaves every other profile alone.\<close>

theorem follow_adds_relationship:
  assumes "follow X a b s = (Ok rid, t)"
  shows "relationships t = filter (\<lambda>r. \<not> is_rel b a RelReject r) (relationships s) @ [new_relationship s a b RelFollow]
    \<and> actor_profiles t = map (\<lambda>p.
      if p_id p = b then p\<lparr>p_follower_count := p_follower_count p + 1\<rparr>
      else if p_id p = a then p\<lparr>p_following_count := p_following_count p + 1\<rparr>
      else p) (actor_profiles s)
    \<and> follow_requests t = follow_requests s \<and> a \<noteq> b"
  using assms
proof (rule follow_effect)
  fix q n ci
  assume "a \<noteq> b" and "t = s\<lparr>relationships := delete_where (is_rel b a RelReject)
         (relationships s @ [new_relationship s a b RelFollow]), collection_items := ci,
       actor_profiles := update_where (\<lambda>p. p_id p = a) (add_following_count 1)
         (update_where (\<lambda>p. p_id p = b) (add_follower_count 1) (actor_profiles s)),
       seqs := q, notifications := n\<rparr>"
  then show ?thesis
    by (auto simp: delete_where_def update_where_def is_rel_def add_follower_count_def add_following_count_def)
qed

theorem follow_adds_relationship_witness:
  "follow sample_externals 1 2 sample_db = (Ok 1, followed_db)
   \<and> relationships followed_db = [new_relationship sample_db 1 2 RelFollow]"
  using followed follow_adds_relationship [OF followed] by (simp add: sample_db_def)

section \<open>Prices, queues\<close>

text \<open>A subscription price is accepted exactly between 386 and 7116799411153 piconeros per
  second: a month at the price costs at least the minimal payment and fits 64 bits.\<close>

theorem subscription_price_bounds:
  "validate_subscription_price p = Ok () \<longleftrightarrow> 386 \<le> p \<and> p \<le> 7116799411153"
  by (auto simp: validate_subscription_price_def checked_mul_u64_def seconds_in_month_def
      monero_payment_amount_min_def split: if_splits)

text \<open>Job data survives its JSON form: what a queue stores it reads back, for incoming and outgoing
  activities whose failure count fits 32 bits.\<close>

theorem job_data_roundtrip:
  assumes "ij_failure_count d < 2 ^ 32" and "oj_failure_count e < 2 ^ 32" and "sender_parses (oj_sender e)"
  shows "incoming_from_value (incoming_to_value d) = Some d
    \<and> outgoing_from_value sender_parses (outgoing_to_value e) = Some e"
  using assms by (simp add: incoming_value_roundtrip outgoing_value_roundtrip)

theorem job_data_roundtrip_witness:
  "incoming_from_value (incoming_to_value sample_incoming) = Some sample_incoming
   \<and> outgoing_from_value (\<lambda>_. True) (outgoing_to_value sample_job_data) = Some sample_job_data"
  by (rule job_data_roundtrip) (simp_all add: sample_incoming_def incoming_job_data_new_def sample_job_data_def)

text \<open>The backoff of the outgoing queue is 30 times ten to the failure count plus ten seconds,
  computed in 32 bits without overflow for up to eight failures, more than the retries allow.\<close>

theorem outgoing_backoff_exact:
  assumes "unat n \<le> outgoing_queue_retries_max + 5"
  shows "unat (outgoing_queue_backoff n) = 30 * (10 ^ unat n + 10)"
  using assms by (intro outgoing_queue_backoff_exact) (simp add: outgoing_queue_retries_max_def)

theorem outgoing_backoff_witness: "unat (outgoing_queue_backoff 3) = 30300"
  using outgoing_backoff_exact [of 3] by (simp add: outgoing_queue_retries_max_def)

text \<open>In every state the worker can reach, under every schedule, at most \<open>pool_size\<close> requests are
  running, no two to one host, at most one to an onion service, and no recipient was sent to twice.\<close>

theorem delivery_pool_within_limits:
  assumes "worker_reachable pool_size exchange ds rs w"
  shows "length (ws_pool w) \<le> pool_size \<and> distinct (map snd (ws_pool w))
    \<and> length (filter is_onion (map snd (ws_pool w))) \<le> 1 \<and> distinct (ws_sent w)"
  using reachable_inv [OF assms] by (simp add: worker_inv_def pool_inv_def pool_within_limits_def)

theorem delivery_pool_witness:
  "let w = fill_step 2 [(0, ''a.onion'', ''i''), (1, ''b.onion'', ''j'')] (initial_worker [sample_recipient, sample_recipient]) in
   ws_pool w = [(0, ''a.onion'')] \<and> length (filter is_onion (map snd (ws_pool w))) \<le> 1"
proof -
  let ?ds = "[(0, ''a.onion'', ''i''), (1, ''b.onion'', ''j'')]" and ?rs = "[sample_recipient, sample_recipient]"
  let ?w = "fill_step 2 ?ds (initial_worker ?rs)"
  have "worker_reachable 2 (\<lambda>_. ExchangeFailed) ?ds ?rs ?w"
    by (rule worker_reachable.step [OF worker_reachable.start]) (rule worker_step.filling, rule refl)
  moreover have "ws_pool ?w = [(0, ''a.onion'')]" by code_simp
  ultimately show ?thesis using delivery_pool_within_limits unfolding Let_def by blast
qed

section \<open>Reactions, identifiers, events\<close>

text \<open>A reaction to a post that does not exist is reported as an existing reaction: the insertion
  selects no row and the code takes that for a conflict. Nothing changes.\<close>

theorem reaction_to_missing_post:
  assumes "\<not> list_ex (\<lambda>p. po_id p = rd_post_id d) (posts s)"
  shows "create_reaction X ulid d s = (Err (AlreadyExists ''reaction''), s)"
  using assms by (rule create_reaction_no_post)

theorem reaction_to_missing_post_witness:
  "create_reaction sample_externals 70 (sample_reaction\<lparr>rd_post_id := 51\<rparr>) sample_db = (Err (AlreadyExists ''reaction''), sample_db)"
  by (rule reaction_to_missing_post) (simp add: sample_reaction_def sample_db_def sample_post_def)

text \<open>Chain identifiers survive printing and parsing: whatever parses is well formed, and every
  well-formed identifier parses back from its printed form.\<close>

theorem chain_id_roundtrip:
  "(\<forall>v c. chain_id_from_str v = Ok c \<longrightarrow> wf_chain_id c) \<and> (\<forall>c. wf_chain_id c \<longrightarrow> chain_id_from_str (chain_id_to_string c) = Ok c)"
  using chain_id_from_str_wf chain_id_print_parse by blast

theorem chain_id_roundtrip_witness: "chain_id_from_str (chain_id_to_string sample_chain) = Ok sample_chain"
  using chain_id_roundtrip wf_from_monero_network unfolding sample_chain_def by blast

text \<open>The parser does not look past an identifier: text after a complete one is ignored as soon as it
  starts with a character that cannot continue it.\<close>

theorem chain_id_parser_ignores_tail:
  assumes "wf_chain_id c" and "\<not> caip2_reference_char x"
  shows "chain_id_from_str (chain_id_to_string c @ x # tail) = Ok c"
  using assms by (rule chain_id_trailing)

theorem chain_id_parser_ignores_tail_witness:
  "chain_id_from_str (chain_id_to_string sample_chain @ CHR ''/'' # ''x'') = Ok sample_chain"
proof -
  have "wf_chain_id sample_chain" unfolding sample_chain_def by (rule wf_from_monero_network)
  moreover have "\<not> caip2_reference_char (CHR ''/'')" by (simp add: caip2_reference_char_def is_lower_def is_upper_def is_digit_def)
  ultimately show ?thesis by (rule chain_id_parser_ignores_tail)
qed

text \<open>The event types are the exception: one of them, the start of a subscription, still decodes
  from the number 8 but panics when it is written; the others read back as written.\<close>

theorem event_type_storage:
  "event_type_try_from_i16 8 = Ok EvSubscriptionStart
   \<and> (\<forall>e. (\<exists>q. event_type_to_i16 e = Panic q) \<longleftrightarrow> e = EvSubscriptionStart)
   \<and> (\<forall>e n. event_type_to_i16 e = Ok n \<longrightarrow> event_type_try_from_i16 n = Ok e)"
  using event_type_encode_panics_iff event_type_encode_decode by (auto simp: event_type_try_from_i16_def)

theorem event_type_storage_witness:
  "event_type_try_from_i16 1 = Ok EvFollow"
proof -
  have "event_type_to_i16 EvFollow = Ok 1" by simp
  with event_type_storage show ?thesis by blast
qed

text \<open>Every enumeration kept in a column reads back as it was written, and no number reads as two
  values: relationship types, request statuses, invoice statuses, payment types, job types and
  statuses, visibilities, roles, account and actor types, mention policies.\<close>

theorem stored_enumerations_roundtrip:
  "(\<forall>x n. relationship_type_try_from_i16 n = Ok x \<longleftrightarrow> n = relationship_type_to_i16 x)
   \<and> (\<forall>x n. follow_request_status_try_from_i16 n = Ok x \<longleftrightarrow> n = follow_request_status_to_i16 x)
   \<and> (\<forall>x n. invoice_status_try_from_i16 n = Ok x \<longleftrightarrow> n = invoice_status_to_i16 x)
   \<and> (\<forall>x n. payment_type_try_from_i16 n = Ok x \<longleftrightarrow> n = payment_type_to_i16 x)
   \<and> (\<forall>x n. job_type_try_from_i16 n = Ok x \<longleftrightarrow> n = job_type_to_i16 x)
   \<and> (\<forall>x n. job_status_try_from_i16 n = Ok x \<longleftrightarrow> n = job_status_to_i16 x)
   \<and> (\<forall>x n. visibility_try_from_i16 n = Ok x \<longleftrightarrow> n = visibility_to_i16 x)
   \<and> (\<forall>x n. role_try_from_i16 n = Ok x \<longleftrightarrow> n = role_to_i16 x)
   \<and> (\<forall>x n. automated_account_type_try_from_i16 n = Ok x \<longleftrightarrow> n = automated_account_type_to_i16 x)
   \<and> (\<forall>x n. actor_type_try_from_i16 n = Ok x \<longleftrightarrow> n = actor_type_to_i16 x)
   \<and> (\<forall>x n. mention_policy_try_from_i16 n = Ok x \<longleftrightarrow> n = mention_policy_to_i16 x)"
  by (intro conjI allI relationship_type_enum.decode_iff follow_request_status_enum.decode_iff invoice_status_enum.decode_iff
    payment_type_enum.decode_iff job_type_enum.decode_iff job_status_enum.decode_iff visibility_enum.decode_iff
    role_enum.decode_iff automated_account_type_enum.decode_iff actor_type_enum.decode_iff mention_policy_enum.decode_iff)

text \<open>Deleting an emoji that a reaction uses deletes the reaction through the foreign key and leaves the
  reaction count of the post as it was: the counter no longer agrees with the rows.\<close>

theorem delete_emoji_leaves_reaction_count:
  assumes "reactions_inv s" and "delete_emoji eid s = (Ok dq, t)"
    and "r \<in> set (reactions s)" and "re_emoji_id r = Some eid"
  shows "posts t = posts s \<and> reactions t = filter (\<lambda>r. re_emoji_id r \<noteq> Some eid) (reactions s) \<and> \<not> reactions_inv t"
proof -
  have posts: "posts t = posts s" and rows: "reactions t = filter (\<lambda>r. re_emoji_id r \<noteq> Some eid) (reactions s)"
    using assms(2) by (auto simp: delete_emoji_run update_emoji_caches_run remove_emoji_def delete_where_def)
  have "\<not> reactions_inv t" by (rule uncounted_row [OF assms(1) posts rows assms(3)]) (simp add: assms(4))
  with posts rows show ?thesis by simp
qed

theorem delete_emoji_leaves_reaction_count_witness:
  "map po_reaction_count (posts emoji_deleted_db) = [1] \<and> reactions emoji_deleted_db = [] \<and> \<not> reactions_inv emoji_deleted_db"
proof -
  obtain dq where run: "delete_emoji 70 emoji_db = (Ok dq, emoji_deleted_db)"
    using emoji_deleted unfolding emoji_deleted_db_def by (metis is_ok.elims(2) prod.collapse)
  have "reactions_inv emoji_db" "re_emoji_id (hd (reactions emoji_db)) = Some 70"
    "hd (reactions emoji_db) \<in> set (reactions emoji_db)" by code_simp+
  from delete_emoji_leaves_reaction_count [OF this(1) run this(3,2)]
  show ?thesis by (intro conjI) (code_simp, code_simp, blast)
qed

text \<open>Deleting a repost succeeds and keeps the invariant of the posts, but not the post counter: the
  profile of its author still counts the deleted repost.\<close>

theorem delete_repost_leaves_post_count:
  assumes "posts_inv s" and "author_counts_ok s" and "r \<in> set (posts s)" and "po_repost_of_id r = Some i"
    and "a \<in> set (actor_profiles s)" and "p_id a = po_author_id r"
  shows "\<exists>t. delete_repost (po_id r) s = (Ok (), t) \<and> posts_inv t \<and> po_id r \<notin> po_id ` set (posts t)
    \<and> a \<in> set (actor_profiles t)
    \<and> p_post_count a = count_where (\<lambda>q. po_author_id q = p_id a) (posts t) + 1"
proof -
  have uniq: "unique_by po_id (posts s)" using assms(1) by (simp add: posts_inv_def thread_shape_def)
  have "po_id r \<notin> po_id ` set (posts (after_delete_repost s r))"
    by (auto simp: after_delete_repost_def Let_def remove_posts_def)
  then show ?thesis
    using delete_repost_run [OF assms(1,3,4)] after_delete_repost_inv [OF assms(1,3,4)]
      after_delete_repost_author [OF assms(2) uniq assms(3,5,6)] by (simp add: author_ref_def)
qed

theorem delete_repost_leaves_post_count_witness:
  "\<exists>t. delete_repost 52 reposted_db = (Ok (), t) \<and> \<not> author_counts_ok t"
proof -
  have row: "sample_repost \<in> set (posts reposted_db)" "po_repost_of_id sample_repost = Some 50"
    "po_id sample_repost = 52" "po_author_id sample_repost = 1" by code_simp+
  obtain a where a: "a \<in> set (actor_profiles reposted_db)" "p_id a = 1"
  proof
    show "(sample_profile 1 ''alice'')\<lparr>p_post_count := 1\<rparr> \<in> set (actor_profiles reposted_db)" by code_simp
    show "p_id ((sample_profile 1 ''alice'')\<lparr>p_post_count := 1\<rparr>) = 1" by code_simp
  qed
  obtain t where "delete_repost 52 reposted_db = (Ok (), t)" "a \<in> set (actor_profiles t)"
    "p_post_count a = count_where (\<lambda>q. po_author_id q = p_id a) (posts t) + 1"
    using delete_repost_leaves_post_count [OF reposted_db_inv row(1,2) a(1)] row(3,4) a(2) by auto
  then show ?thesis by (auto simp: author_counts_ok_def counted_by_def author_ref_def intro!: bexI [of _ a])
qed

section \<open>Invoices, payments, subscriptions\<close>

text \<open>Every local Monero invoice in a final status can be reopened: the operation succeeds, the
  invoice is paid again with its old payout cleared, and no other row changes.\<close>

theorem final_invoice_can_be_reopened:
  assumes "invoices_inv s" and "i \<in> set (invoices s)" and "inv_payment_type i = Some Monero" and "is_final (inv_status i)"
  shows "\<exists>j t. local_invoice_reopened (inv_id i) s = (Ok j, t)
    \<and> j = i\<lparr>inv_status := Paid, inv_payout_tx_id := None, inv_payout_amount := None, inv_updated_at := current_timestamp s\<rparr>
    \<and> t = s\<lparr>invoices := update_where (\<lambda>k. inv_id k = inv_id i) (\<lambda>_. j) (invoices s)\<rparr>"
  using reopened_change [OF assms] local_invoice_reopened_run by blast

theorem final_invoice_can_be_reopened_witness:
  "\<exists>j t. local_invoice_reopened 103 invoice_db = (Ok j, t) \<and> inv_status j = Paid"
proof -
  let ?i = "sample_invoice 103 Completed (Some ''tx'') (Some 5000)"
  have "invoices_inv invoice_db" "?i \<in> set (invoices invoice_db)" "inv_payment_type ?i = Some Monero"
    "is_final (inv_status ?i)" "inv_id ?i = 103"
    by code_simp+
  then show ?thesis using final_invoice_can_be_reopened [of invoice_db ?i] by auto
qed

text \<open>A requested remote invoice that has no object ID yet can never be cancelled, although the
  status graph allows it: without an object ID a cancelled invoice counts as a local one, which
  needs a payment type, so the consistency check refuses the changed row.\<close>

theorem requested_invoice_cannot_be_cancelled:
  assumes "invoices_inv s" and "i \<in> set (invoices s)" and "inv_status i = Requested" and "inv_object_id i = None"
  shows "can_change_status i Cancelled = Ok True \<and> set_invoice_status (inv_id i) Cancelled s = (Err TypeError, s)"
proof -
  note row = stored_row [OF assms(1,2)]
  have remote: "\<not> invoice_is_local i" using assms(3) by (simp add: invoice_is_local_def)
  with row(2) have "inv_payment_type i = None" by (simp add: invoice_ok_def consistent_cases)
  then have "invoice_check_consistency (with_status s Cancelled i) \<noteq> Ok ()"
    using assms(4) by (simp add: consistent_cases with_status_def invoice_is_local_def)
  moreover have "can_change_status i Cancelled = Ok True"
    using remote assms(3) by (simp add: can_change_status_def remote_transitions_def)
  ultimately show ?thesis using set_invoice_status_inconsistent [OF row(1)] by blast
qed

theorem requested_invoice_cannot_be_cancelled_witness:
  "set_invoice_status 105 Cancelled invoice_db = (Err TypeError, invoice_db)"
proof -
  have "invoices_inv invoice_db" "requested_invoice \<in> set (invoices invoice_db)"
    "inv_status requested_invoice = Requested" "inv_object_id requested_invoice = None" "inv_id requested_invoice = 105"
    by code_simp+
  then show ?thesis using requested_invoice_cannot_be_cancelled [of invoice_db requested_invoice] by simp
qed

text \<open>A forwarded invoice without a payout transaction, which the code keeps a branch for, cannot
  be completed by that branch: the status graph allows only \<open>Failed\<close>, so the pass stops with an
  error on that invoice every time.\<close>

theorem legacy_forwarded_invoice_stops_pass:
  assumes "filter (\<lambda>j. inv_id j = inv_id i) (invoices (ps_db st)) = [i]" and "inv_status i = Forwarded"
    and "inv_object_id i = None" and "inv_payment_type i = Some Monero"
    and "inv_payout_tx_id i = None" and "inv_payout_amount i = None"
  shows "check_forwarded_invoice X B W c i st = (Err (PeDatabase TypeError), st)"
  using assms by (rule legacy_forwarded_fails)

theorem legacy_forwarded_invoice_witness:
  "check_forwarded_invoice sample_externals sample_builders sample_wallet sample_config
     (sample_invoice 106 Forwarded None None) \<lparr>ps_db = legacy_db, ps_sweeps = []\<rparr>
   = (Err (PeDatabase TypeError), \<lparr>ps_db = legacy_db, ps_sweeps = []\<rparr>)"
  by (rule legacy_forwarded_invoice_stops_pass) (simp_all add: legacy_db_def sample_invoice_def)

text \<open>When the subscriber is the account for anonymous payers, which has no actor and is no user,
  the expiry of its subscription ends in a foreign-key violation, after the subscriber has
  already been removed; the pass stops there.\<close>

theorem anonymous_expiry_fails:
  assumes "unsubscribe X a b s = (Ok w, t)" and "get_profile_by_id X a t = (Ok sender, t)"
    and "get_user_by_id X b t = (Ok recipient, t)" and "p_actor_json sender = None"
    and "\<not> list_ex (\<lambda>u. u_id u = a) (user_accounts t)" and "sub_sender_id x = a" "sub_recipient_id x = b"
  shows "fst (expire_subscription X B x s) = Err (ClientError ForeignKeyViolation)"
  using assms by (rule expire_anonymous_subscription_fails)

theorem anonymous_expiry_fails_witness:
  "fst (expire_subscription sample_externals sample_builders anonymous_sub anonymous_db) = Err (ClientError ForeignKeyViolation)"
proof (rule anonymous_expiry_fails)
  let ?t = "snd (unsubscribe sample_externals 3 2 anonymous_db)"
  show "unsubscribe sample_externals 3 2 anonymous_db = (Ok (), ?t)" by code_simp
  show "get_profile_by_id sample_externals 3 ?t = (Ok anonymous_profile, ?t)" by code_simp
  show "get_user_by_id sample_externals 2 ?t = (Ok sample_user, ?t)" by code_simp
qed code_simp+

text \<open>Storing a payment method keeps one consistent method per owner and chain, all owned by
  users; on success a lookup for that owner and chain returns exactly the given data, and on
  failure nothing changes.\<close>

theorem payment_method_stored:
  assumes "methods_ok s" and "create_payment_method d s = (r, t)"
  shows "methods_ok t \<and>
    (case r of
       Ok m \<Rightarrow> holds_data d m \<and> get_payment_method_by_chain_id (pmd_owner_id d) (pmd_chain_id d) t = (Ok (Some m), t)
     | _ \<Rightarrow> same_tables s t)"
proof -
  have inv: "methods_ok t" using preservesD [OF create_payment_method_preserves] assms by blast
  show ?thesis
  proof (cases r)
    case (Ok m)
    with assms(2) have up: "upsert_payment_method d s = (outcome.Ok m, t)"
      and check: "payment_method_check_consistency m = outcome.Ok ()"
      by (simp_all add: create_payment_method_Ok)
    from upsert_payment_method_Ok [OF assms(1) up]
    have "holds_data d m" "filter (is_method (pmd_owner_id d) (pmd_chain_id d)) (payment_methods t) = [m]" by simp_all
    with Ok inv check show ?thesis
      by (simp add: get_payment_method_by_chain_id_def select_opt_def type_check_def run_def prog_defs)
  next
    case (Err e)
    with inv assms(2) atomic_transaction show ?thesis
      unfolding create_payment_method_def by (auto dest: transaction_fails)
  next
    case (Panic q)
    with inv assms(2) show ?thesis
      unfolding create_payment_method_def by (auto dest: transaction_fails)
  qed
qed

theorem payment_method_stored_witness:
  "methods_ok sample_db \<and> methods_ok (snd (create_payment_method sample_method_data sample_db))"
proof -
  have "methods_ok sample_db" by code_simp
  with payment_method_stored [of sample_db sample_method_data] show ?thesis by (metis prod.collapse)
qed

text \<open>A status change succeeds exactly when the row exists, the status graph allows the change
  and the changed row is consistent; then that row alone changes, in its status and update time.
  On any other outcome no table changes.\<close>

theorem set_invoice_status_correct:
  "case set_invoice_status iid st s of
     (Ok i, t) \<Rightarrow>
       (\<exists>i0. filter (\<lambda>i. inv_id i = iid) (invoices s) = [i0] \<and> can_change_status i0 st = Ok True
         \<and> i = i0\<lparr>inv_status := st, inv_updated_at := current_timestamp s\<rparr> \<and> invoice_check_consistency i = Ok ())
       \<and> t = s\<lparr>invoices := map (\<lambda>j. if inv_id j = iid
             then j\<lparr>inv_status := st, inv_updated_at := current_timestamp s\<rparr> else j) (invoices s)\<rparr>
   | (_, t) \<Rightarrow> same_tables s t
       \<and> \<not> (\<exists>i0. filter (\<lambda>i. inv_id i = iid) (invoices s) = [i0] \<and> can_change_status i0 st = Ok True
         \<and> invoice_check_consistency (i0\<lparr>inv_status := st, inv_updated_at := current_timestamp s\<rparr>) = Ok ())"
proof -
  obtain r t where run: "set_invoice_status iid st s = (r, t)" by fastforce
  have "same_tables s t" if "\<not> is_ok r"
    using status_changes_atomic(1) [of iid st] run that unfolding atomic_def by (metis fst_conv snd_conv)
  moreover have ok: "changed_by (\<lambda>i. i) iid st s i t" if "r = Ok i" for i
    using run that by (simp add: set_invoice_status_Ok [symmetric])
  moreover have "is_ok r" if "changed_by (\<lambda>i. i) iid st s i u" for i u
    using that run by (simp add: set_invoice_status_Ok [symmetric])
  then have "is_ok r" if "filter (\<lambda>i. inv_id i = iid) (invoices s) = [i0]" "can_change_status i0 st = Ok True"
    "invoice_check_consistency (with_status s st i0) = Ok ()" for i0
    using that by (auto simp: changed_by_def)
  ultimately show ?thesis
    unfolding run by (cases r) (auto simp: changed_by_def with_status_def update_where_def)
qed

section \<open>Notifications, recipients, votes\<close>

text \<open>A page of notifications is newest first without repetition, holds at most \<open>limit\<close> rows,
  only rows of the recipient within the bounds whose sender is not muted, and misses none of them
  as long as the limit is not reached.\<close>

theorem notification_page_correct:
  assumes "unique_by ntf_id (notifications s)"
  shows "let page = get_notifications_page rcp lo hi limit s;
       visible = {n \<in> set (notifications s). visible_notification s rcp lo hi n} in
     sorted_wrt (\<lambda>m n. ntf_id n < ntf_id m) page \<and> length page \<le> limit \<and> set page \<subseteq> visible
     \<and> (length page < limit \<longrightarrow> set page = visible)"
  using page_properties [OF assms] page_complete by (simp add: Let_def)

theorem notification_page_correct_witness:
  "set (get_notifications_page 2 None None 20 followed_db)
     = {n \<in> set (notifications followed_db). visible_notification followed_db 2 None None n}"
proof -
  have "unique_by ntf_id (notifications followed_db)" "length (get_notifications_page 2 None None 20 followed_db) < 20"
    by code_simp+
  then show ?thesis using notification_page_correct [of followed_db 2 None None 20] by (simp add: Let_def)
qed

text \<open>The recipients of a delivery are sent to each inbox once: the list keeps every inbox, no inbox
  twice, invents no recipient, prefers a primary recipient of an inbox, and puts primary
  recipients first.\<close>

theorem recipients_deduplicated:
  "set (sort_recipients rs) \<subseteq> set rs \<and> rc_inbox ` set (sort_recipients rs) = rc_inbox ` set rs
   \<and> distinct (map rc_inbox (sort_recipients rs))
   \<and> (\<forall>r \<in> set (sort_recipients rs). (\<exists>r' \<in> set rs. rc_inbox r' = rc_inbox r \<and> rc_is_primary r') \<longrightarrow> rc_is_primary r)
   \<and> sorted (map (\<lambda>r. \<not> rc_is_primary r) (sort_recipients rs))"
proof -
  have "sorted (map (\<lambda>r. \<not> rc_is_primary r) (sort_recipients rs))"
    by (rule sorted_fst [where q = rc_inbox]) (simp add: sort_recipients_def)
  then show ?thesis
    using set_sort_recipients sort_recipients_inboxes sort_recipients_distinct sort_recipients_primary by blast
qed

theorem recipients_deduplicated_witness:
  "rc_inbox ` set (sort_recipients [recipient_new ''a'' ''i'', (recipient_new ''b'' ''i'')\<lparr>rc_is_primary := True\<rparr>]) = {''i''}"
  using recipients_deduplicated [of "[recipient_new ''a'' ''i'', (recipient_new ''b'' ''i'')\<lparr>rc_is_primary := True\<rparr>]"]
  by (simp add: recipient_new_def)

text \<open>A voter who has voted cannot vote again: not through \<open>vote\<close>, and in a single-choice poll not
  through \<open>vote_one\<close> either. The attempt changes no table.\<close>

theorem second_vote_changes_nothing:
  assumes "filter (\<lambda>p. poll_id p = pid) (polls s) = [p]" and "has_voted s pid voter"
    and "distinct idx" and "\<not> poll_multiple_choices p"
  shows "\<not> is_ok (fst (vote ulids pid voter idx s)) \<and> same_tables s (snd (vote ulids pid voter idx s))
    \<and> \<not> is_ok (fst (vote_one ulid pid voter choice oid s)) \<and> same_tables s (snd (vote_one ulid pid voter choice oid s))"
proof -
  have "atomic (vote ulids pid voter idx)" "atomic (vote_one ulid pid voter choice oid)"
    by (simp_all add: vote_def vote_one_def)
  with second_vote_refused [OF assms(1,2)] assms(3,4) show ?thesis by (simp add: atomic_def)
qed

theorem second_vote_witness:
  "\<not> is_ok (fst (vote_one 61 50 1 ''no'' ''https://social.example/again''
     (poll_db\<lparr>poll_votes := [\<lparr>pv_id = 60, pv_poll_id = 50, pv_voter_id = 1, pv_choice = ''yes'', pv_object_id = None\<rparr>]\<rparr>)))"
  (is "\<not> is_ok (fst (vote_one _ _ _ _ _ ?s))")
proof -
  have "filter (\<lambda>p. poll_id p = 50) (polls ?s) = [sample_poll]" "has_voted ?s 50 1" "\<not> poll_multiple_choices sample_poll"
    by (simp_all add: poll_db_def sample_poll_def has_voted_def)
  then show ?thesis using second_vote_changes_nothing [where idx = "[]"] by simp
qed

section \<open>Sign-in, attachments, validators\<close>

text \<open>A nonce of wallet sign-in is accepted once per account: after the first check every further check
  of it is negative, while the same nonce of another account stays acceptable.\<close>

theorem nonce_accepted_once:
  assumes "is_valid_caip122_nonce account nonce s = (r, t)"
  shows "(\<exists>b. r = Ok b) \<and> is_valid_caip122_nonce account nonce t = (Ok False, t)
    \<and> (\<forall>other. other \<noteq> account \<longrightarrow>
      fst (is_valid_caip122_nonce other nonce t) = fst (is_valid_caip122_nonce other nonce s))"
  using assms by (auto simp: nonce_run split: if_splits)

theorem nonce_witness:
  "fst (is_valid_caip122_nonce ''eip155:1:0x1'' ''n'' sample_db) = Ok True \<and>
   fst (is_valid_caip122_nonce ''eip155:1:0x1'' ''n'' (snd (is_valid_caip122_nonce ''eip155:1:0x1'' ''n'' sample_db))) = Ok False"
proof -
  have "fst (is_valid_caip122_nonce ''eip155:1:0x1'' ''n'' sample_db) = Ok True" by code_simp
  with nonce_accepted_once [OF prod.collapse [symmetric], of "''eip155:1:0x1''" "''n''" sample_db] show ?thesis by simp
qed

text \<open>The clean-up of unposted attachments fails when one of them is a link, since it reads a file name
  from every deleted row; the rows are deleted all the same, so the files of the other attachments are
  never handed over for deletion.\<close>

theorem unused_link_attachment_fails_cleanup:
  assumes "a \<in> set (media_attachments s)" and "unused_attachment before a" and "\<not> pm_is_file (ma_media a)"
  shows "delete_unused_attachments before s =
    (Err (ClientError FromSqlError), s\<lparr>media_attachments := delete_where (unused_attachment before) (media_attachments s)\<rparr>)"
  by (rule delete_unused_attachments_link [OF assms])

theorem unused_link_attachment_witness:
  "fst (delete_unused_attachments 1 attachments_db) = Err (ClientError FromSqlError)
   \<and> media_attachments (snd (delete_unused_attachments 1 attachments_db)) = []"
proof -
  let ?a = "sample_attachment 91 (PmLink ''image/png'' ''https://b.example/a.png'')"
  have "?a \<in> set (media_attachments attachments_db)" by (simp add: attachments_db_def)
  moreover have "unused_attachment 1 ?a" "\<not> pm_is_file (ma_media ?a)" by code_simp+
  moreover have "delete_where (unused_attachment 1) (media_attachments attachments_db) = []" by code_simp
  ultimately show ?thesis using unused_link_attachment_fails_cleanup [of ?a attachments_db 1] by simp
qed

text \<open>The validator of polls accepts exactly the polls with two to twenty options, whose names are
  distinct, sanitized and at most 1000 bytes long, and whose number of voters is not negative.\<close>

theorem poll_validation_exact:
  "validate_poll_data W d = Ok () \<longleftrightarrow>
     (let names = map pr_option_name (pd_results d) in
      2 \<le> length names \<and> length names \<le> 20 \<and> distinct names
      \<and> list_all (\<lambda>n. length n \<le> 1000 \<and> clean_html_all W n = n) names
      \<and> (case pd_voters_count d of Some n \<Rightarrow> 0 \<le> n | None \<Rightarrow> True))"
  by (auto simp: validate_poll_data_Ok Let_def split: option.splits)

text \<open>The scopes granted to a token are those of the three known scopes that the request lists, each once
  and in alphabetical order.\<close>

theorem granted_scopes_exact:
  "clean_scopes s = filter (\<lambda>x. x \<in> set (split_whitespace s)) [''profile'', ''read'', ''write'']"
  by (rule clean_scopes_filter)

text \<open>The uniqueness check of user names reads the new name as a pattern: a name that the validator
  accepts and that has an underscore where an existing local account has any other character is refused as
  already existing, though no account has that name.\<close>

theorem underscore_username_refused:
  assumes "p \<in> set (actor_profiles s)" and "has_account p" and "p_username p = x @ c # y"
    and "ucd_username d = x @ CHR ''_'' # y" and "validate_local_username (ucd_username d) = Ok ()"
    and "user_data_check_consistency d = Ok ()"
  shows "fst (create_user X pid d s) = Err (AlreadyExists ''user'')"
proof -
  have "plain_pattern (map to_ascii_lower (x @ y))"
    using local_username_plain [OF assms(5)] by (simp add: assms(4) plain_pattern_def)
  from ilike_one [OF this, of c] show ?thesis
    by (intro create_user_similar [OF assms(1,2)]) (use assms in simp_all)
qed

theorem underscore_username_witness:
  "fst (create_user sample_externals 4 (sample_registration\<lparr>ucd_username := ''b_b''\<rparr>) sample_db) = Err (AlreadyExists ''user'')"
proof (rule underscore_username_refused [where p = "sample_profile 2 ''bob''" and x = "''b''" and c = "CHR ''o''" and y = "''b''"])
  show "sample_profile 2 ''bob'' \<in> set (actor_profiles sample_db)" by (simp add: sample_db_def)
  show "has_account (sample_profile 2 ''bob'')" by code_simp
  show "validate_local_username (ucd_username (sample_registration\<lparr>ucd_username := ''b_b''\<rparr>)) = Ok ()" by code_simp
  show "user_data_check_consistency (sample_registration\<lparr>ucd_username := ''b_b''\<rparr>) = Ok ()" by code_simp
qed (simp_all add: sample_profile_def)

text \<open>The cleaned title of a remote post has at most 300 code points, but the validator counts bytes: a title
  of at most 297 code points in more than 300 bytes is lengthened by three dots and then refused.\<close>

theorem cleaned_title_may_be_refused:
  assumes "char_count (trim (clean_html_all W title)) \<le> 297" and "300 < length (trim (clean_html_all W title))"
  shows "char_count (clean_title W title) \<le> 300
    \<and> clean_title W title = trim (clean_html_all W title) @ ''...''
    \<and> validate_title (clean_title W title) = Err ''title is too long''"
  using clean_title_chars [of W title] clean_title_multibyte [OF assms] by (simp_all add: title_length_max_def)

theorem cleaned_title_witness:
  "validate_title (clean_title sample_text accented) = Err ''title is too long''"
proof -
  have "trim (clean_html_all sample_text accented) = accented" by (simp add: sample_text_def accented_lengths)
  then have "char_count (trim (clean_html_all sample_text accented)) \<le> 297"
    "300 < length (trim (clean_html_all sample_text accented))" using accented_lengths(2,3) by simp_all
  then show ?thesis using cleaned_title_may_be_refused by blast
qed

text \<open>The clean-up of stored objects deletes exactly the old ones that describe no profile and no post and
  are in no collection, reports how many, and leaves every collection with the objects it had.\<close>

theorem object_cleanup_keeps_collections:
  assumes "delete_activitypub_objects before s = (r, t)"
  shows "r = Ok (length (activitypub_objects s) - length (activitypub_objects t))
    \<and> activitypub_objects t = filter (\<lambda>a. \<not> (ao_created_at a < before \<and> ao_profile_id a = None
        \<and> ao_post_id a = None \<and> \<not> in_collection s a)) (activitypub_objects s)
    \<and> (\<forall>cid. collection_objects t cid = collection_objects s cid)"
proof -
  have t: "t = s\<lparr>activitypub_objects := filter (\<lambda>a. \<not> (expendable before a \<and> \<not> in_collection s a)) (activitypub_objects s)\<rparr>"
      and r: "r = Ok (length (filter (\<lambda>a. expendable before a \<and> \<not> in_collection s a) (activitypub_objects s)))"
    using assms by (auto simp: cleanup_run Let_def)
  have "r = Ok (length (activitypub_objects s) - length (activitypub_objects t))"
    using sum_length_filter_compl [of "\<lambda>a. expendable before a \<and> \<not> in_collection s a" "activitypub_objects s"]
    by (simp add: r t)
  moreover have "collection_objects t cid = collection_objects s cid" for cid
    unfolding t by (rule collection_objects_cleanup)
  ultimately show ?thesis by (simp add: t expendable_def)
qed

theorem object_cleanup_witness:
  "map ao_object_id (activitypub_objects (snd (delete_activitypub_objects 5 objects_db))) = [''kept'']
   \<and> collection_objects (snd (delete_activitypub_objects 5 objects_db)) ''c'' = collection_objects objects_db ''c''"
proof -
  have "map ao_object_id (activitypub_objects (snd (delete_activitypub_objects 5 objects_db))) = [''kept'']" by code_simp
  with object_cleanup_keeps_collections [OF prod.collapse [symmetric], of 5 objects_db] show ?thesis by simp
qed

text \<open>A rule for an exact hostname decides: whatever wildcard rules there are, the action is required for
  that host if and only if its own rule is not reversed.\<close>

theorem exact_filter_rule_decides:
  assumes "wildmatch_laws wm" and "rules_ok s" and "r \<in> set (filter_rules s)" and "same_rule hostname act r"
    and "CHR ''*'' \<notin> set hostname" and "\<forall>x \<in> set (filter_rules s). CHR ''?'' \<notin> set (fl_target x)"
    and "ff_rules f = sort_key rule_order (filter_rules s)"
  shows "is_action_required wm f hostname act = (\<not> fl_is_reversed r)"
  using assms by (intro exact_rule_required) auto

theorem exact_filter_rule_witness:
  "is_action_required sample_wildmatch
     (sample_filter\<lparr>ff_rules := sort_key rule_order (filter_rules filtered_db)\<rparr>) ''good.example'' FaReject = False"
proof -
  let ?r = "sample_rule 2 ''good.example'' True"
  have "rules_ok filtered_db" "?r \<in> set (filter_rules filtered_db)" "same_rule ''good.example'' FaReject ?r"
    "CHR ''*'' \<notin> set ''good.example''" "\<forall>x \<in> set (filter_rules filtered_db). CHR ''?'' \<notin> set (fl_target x)"
    "fl_is_reversed ?r"
    by code_simp+
  then show ?thesis using exact_filter_rule_decides [OF sample_wildmatch_laws, of filtered_db ?r] by simp
qed

end
