(* ===== verification/ApObjects.thy ===== *)
theory ApObjects
  imports ApIdentifiers Queues UnicodeText PostTypes
begin

text \<open>
  ActivityPub documents as JSON values: reading properties (\<open>apx_sdk/src/deserialization.rs\<close>), core
  types and key identifiers (\<open>apx_sdk/src/utils.rs\<close>), and who owns a document
  (\<open>apx_sdk/src/ownership.rs\<close>, \<open>mitra_activitypub/src/ownership.rs\<close>). An error of these functions is its
  message; the wrappers of \<open>mitra_activitypub\<close> keep the message and add log lines. The entries of
  \<open>JObject\<close> are in the order of the map, sorted by key.
\<close>

section \<open>Properties\<close>

text \<open>\<open>value[key]\<close>: null unless the value is an object with that key.\<close>

definition json_index :: "json \<Rightarrow> string \<Rightarrow> json" where
  "json_index v k = (case json_field v k of Some x \<Rightarrow> x | None \<Rightarrow> JNull)"

definition has_property :: "json \<Rightarrow> string \<Rightarrow> bool" where
  "has_property v k \<longleftrightarrow> json_index v k \<noteq> JNull"

definition string_property :: "json \<Rightarrow> string \<Rightarrow> string option" where
  "string_property v k = json_str (json_index v k)"

fun object_to_id :: "json \<Rightarrow> (string, string) outcome" where
  "object_to_id (JString x) = Ok x"
| "object_to_id (JObject kvs) = ok_or ''missing 'id' property'' (string_property (JObject kvs) ''id'')"
| "object_to_id _ = Err ''unexpected value type''"

definition deserialize_into_object_id_opt :: "json option \<Rightarrow> (string, string option) outcome" where
  "deserialize_into_object_id_opt v = (case v of
      None \<Rightarrow> Ok None
    | Some JNull \<Rightarrow> Ok None
    | Some x \<Rightarrow> obind (object_to_id x) (\<lambda>i. Ok (Some i)))"

fun parse_string_array :: "json \<Rightarrow> (string, string list) outcome" where
  "parse_string_array (JString x) = Ok [x]"
| "parse_string_array (JArray xs) = try_map (\<lambda>x. ok_or ''unexpected array item type'' (json_str x)) xs"
| "parse_string_array _ = Err ''unexpected value type''"

definition deserialize_string_array :: "json option \<Rightarrow> (string, string list) outcome" where
  "deserialize_string_array v = (case v of None \<Rightarrow> Ok [] | Some JNull \<Rightarrow> Ok [] | Some x \<Rightarrow> parse_string_array x)"

fun parse_into_id_array :: "json \<Rightarrow> (string, string list) outcome" where
  "parse_into_id_array JNull = Ok []"
| "parse_into_id_array (JString x) = obind (object_to_id (JString x)) (\<lambda>i. Ok [i])"
| "parse_into_id_array (JObject kvs) = obind (object_to_id (JObject kvs)) (\<lambda>i. Ok [i])"
| "parse_into_id_array (JArray xs) = try_map object_to_id xs"
| "parse_into_id_array _ = Err ''unexpected value type''"

text \<open>The field of a struct read with \<open>deserialize_into_id_array\<close> and \<open>default\<close>.\<close>

definition id_array_field :: "json \<Rightarrow> string \<Rightarrow> (string, string list) outcome" where
  "id_array_field v k = (case json_field v k of None \<Rightarrow> Ok [] | Some x \<Rightarrow> parse_into_id_array x)"

fun link_to_href :: "json \<Rightarrow> (string, string) outcome" where
  "link_to_href (JString x) = Ok x"
| "link_to_href (JObject kvs) = ok_or ''missing href property'' (string_property (JObject kvs) ''href'')"
| "link_to_href _ = Err ''unexpected value type''"

fun parse_into_href_array :: "json \<Rightarrow> (string, string list) outcome" where
  "parse_into_href_array (JString x) = obind (link_to_href (JString x)) (\<lambda>i. Ok [i])"
| "parse_into_href_array (JObject kvs) = obind (link_to_href (JObject kvs)) (\<lambda>i. Ok [i])"
| "parse_into_href_array (JArray xs) = try_map link_to_href xs"
| "parse_into_href_array _ = Err ''unexpected value type''"

text \<open>\<open>serde_json::from_value\<close> for the type of the items is an argument.\<close>

fun parse_into_array :: "(json \<Rightarrow> 'a option) \<Rightarrow> json \<Rightarrow> (string, 'a list) outcome" where
  "parse_into_array decode (JArray xs) = try_map (\<lambda>x. ok_or ''invalid array item'' (decode x)) xs"
| "parse_into_array decode (JObject kvs) = try_map (\<lambda>x. ok_or ''invalid array item'' (decode x)) [JObject kvs]"
| "parse_into_array decode _ = Err ''unexpected value type''"

definition deserialize_object_array :: "(json \<Rightarrow> 'a option) \<Rightarrow> json option \<Rightarrow> (string, 'a list) outcome" where
  "deserialize_object_array decode v =
     (case v of None \<Rightarrow> Ok [] | Some JNull \<Rightarrow> Ok [] | Some x \<Rightarrow> parse_into_array decode x)"

section \<open>Core types\<close>

datatype core_type = CtObject | CtLink | CtActor | CtActivity | CtCollection | CtPublicKey | CtVerificationMethod

definition collection_properties :: "string list" where
  "collection_properties = [''items'', ''orderedItems'', ''totalItems'', ''partOf'', ''first'', ''last'', ''next'',
     ''prev'', ''current'']"

definition get_core_type :: "json \<Rightarrow> core_type" where
  "get_core_type v =
     (if has_property v ''inbox'' then CtActor
      else if has_property v ''publicKeyMultibase'' then CtVerificationMethod
      else if has_property v ''publicKeyPem'' then CtPublicKey
      else if has_property v ''href'' then CtLink
      else if has_property v ''actor'' \<and> \<not> has_property v ''attributedTo'' then CtActivity
      else if list_ex (has_property v) collection_properties then CtCollection
      else CtObject)"

definition is_key_like :: "json \<Rightarrow> bool" where
  "is_key_like v \<longleftrightarrow> has_property v ''publicKeyMultibase'' \<or> has_property v ''publicKeyPem''"

definition is_actor :: "json \<Rightarrow> bool" where
  "is_actor v \<longleftrightarrow> get_core_type v = CtActor"

definition is_activity :: "json \<Rightarrow> bool" where
  "is_activity v \<longleftrightarrow> get_core_type v = CtActivity"

definition is_collection :: "json \<Rightarrow> bool" where
  "is_collection v \<longleftrightarrow> get_core_type v = CtCollection"

definition is_object :: "json \<Rightarrow> bool" where
  "is_object v \<longleftrightarrow> get_core_type v \<in> {CtObject, CtLink}"

text \<open>\<open>str::trim_end_matches\<close> with a non-empty pattern.\<close>

function trim_end_matches :: "string \<Rightarrow> string \<Rightarrow> string" where
  "trim_end_matches pat s =
     (if pat = [] then s else case strip_suffix pat s of Some r \<Rightarrow> trim_end_matches pat r | None \<Rightarrow> s)"
  by pat_completeness auto

termination
  by (relation "measure (\<lambda>(_, s). length s)") (auto simp: strip_suffix_Some)

declare trim_end_matches.simps [simp del]

definition key_id_to_actor_id :: "uri_library \<Rightarrow> string \<Rightarrow> (string, string) outcome" where
  "key_id_to_actor_id L key_id =
     obind (http_uri_parse L key_id) (\<lambda>u. Ok (trim_end_matches ''/main-key'' (http_without_fragment u)))"

definition is_public :: "string \<Rightarrow> bool" where
  "is_public target \<longleftrightarrow> target \<in> set [ap_public, ''as:Public'', ''Public'']"

section \<open>Header values\<close>

definition remove_quotes :: "string \<Rightarrow> string" where
  "remove_quotes v = (case Option.bind (strip_prefix [CHR 0x22] v) (strip_suffix [CHR 0x22]) of
      Some x \<Rightarrow> x | None \<Rightarrow> v)"

text \<open>\<open>HeaderValue::to_str\<close>: visible ASCII characters, space and tab.\<close>

definition header_to_str :: "string \<Rightarrow> string option" where
  "header_to_str v = (if list_all (\<lambda>c. 32 \<le> (of_char c :: nat) \<and> (of_char c :: nat) < 127 \<or> c = CHR 0x09) v
     then Some v else None)"

fun join :: "string \<Rightarrow> string list \<Rightarrow> string" where
  "join sep [] = []"
| "join sep [x] = x"
| "join sep (x # xs) = x @ sep @ join sep xs"

definition media_type_part :: "string \<Rightarrow> string" where
  "media_type_part part =
     (let p = trim part; key = takeWhile (\<lambda>c. c \<noteq> CHR ''='') p in
      case drop (length key) p of
        [] \<Rightarrow> p
      | _ # v \<Rightarrow> key @ [CHR ''='', CHR 0x22] @ remove_quotes v @ [CHR 0x22])"

definition extract_media_type :: "string \<Rightarrow> string option" where
  "extract_media_type header = Option.bind (header_to_str header) (\<lambda>v.
     Some (join ''; '' (filter (\<lambda>p. strip_prefix ''q='' p = None \<and> strip_prefix ''charset='' p = None)
       (map media_type_part (split_char (CHR '';'') (hd (split_char (CHR '','') v)))))))"

section \<open>Owners\<close>

definition parse_attributed_to_opt :: "json \<Rightarrow> (string, string option) outcome" where
  "parse_attributed_to_opt v =
     obind (map_err (\<lambda>_. ''invalid 'attributedTo' property'') (parse_into_id_array v)) (\<lambda>ids.
     Ok (case ids of [] \<Rightarrow> None | i # _ \<Rightarrow> Some i))"

definition get_owner :: "json \<Rightarrow> core_type \<Rightarrow> (string, string) outcome" where
  "get_owner v ty = (case ty of
      CtObject \<Rightarrow> obind (parse_attributed_to_opt (json_index v ''attributedTo''))
        (ok_or '''attributedTo' property is missing'')
    | CtCollection \<Rightarrow> obind (parse_attributed_to_opt (json_index v ''attributedTo''))
        (ok_or '''attributedTo' property is missing'')
    | CtLink \<Rightarrow> Err ''link doesn't have an owner''
    | CtActor \<Rightarrow> ok_or '''id' property is missing'' (string_property v ''id'')
    | CtActivity \<Rightarrow> map_err (\<lambda>_. ''invalid 'actor' property'') (object_to_id (json_index v ''actor''))
    | CtPublicKey \<Rightarrow> ok_or '''owner' property is missing'' (string_property v ''owner'')
    | CtVerificationMethod \<Rightarrow> ok_or '''controller' property is missing'' (string_property v ''controller''))"

definition is_ownership_ambiguous :: "json \<Rightarrow> core_type \<Rightarrow> bool" where
  "is_ownership_ambiguous v ty \<longleftrightarrow>
     ty \<in> {CtActor, CtActivity, CtPublicKey, CtVerificationMethod} \<and> has_property v ''attributedTo''"

definition get_object_id :: "json \<Rightarrow> (string, string) outcome" where
  "get_object_id v = ok_or '''id' property is missing'' (string_property v ''id'')"

definition is_same_id :: "uri_library \<Rightarrow> string \<Rightarrow> string \<Rightarrow> (string, bool) outcome" where
  "is_same_id L id_1 id_2 = is_same_uri L id_1 id_2"

definition verify_owner_as :: "uri_library \<Rightarrow> core_type \<Rightarrow> json \<Rightarrow> (string, unit) outcome" where
  "verify_owner_as L ty v =
     obind (get_object_id v) (\<lambda>i.
     obind (get_owner v ty) (\<lambda>owner.
     obind (is_same_origin L i owner) (\<lambda>valid.
     if valid then Ok () else Err ''owner has different origin'')))"

definition verify_activity_owner :: "uri_library \<Rightarrow> json \<Rightarrow> (string, unit) outcome" where
  "verify_activity_owner L activity = verify_owner_as L CtActivity activity"

definition verify_object_owner :: "uri_library \<Rightarrow> json \<Rightarrow> (string, unit) outcome" where
  "verify_object_owner L v = verify_owner_as L CtObject v"

definition parse_attributed_to :: "json \<Rightarrow> (string, string) outcome" where
  "parse_attributed_to v = obind (parse_attributed_to_opt v) (ok_or ''missing 'attributedTo' property'')"

text \<open>\<open>host\<close> is the host name of the instance.\<close>

definition is_local_origin :: "uri_library \<Rightarrow> string \<Rightarrow> string \<Rightarrow> bool" where
  "is_local_origin L host object_id = (case http_uri_parse L object_id of
      Ok u \<Rightarrow> http_hostname u = host | _ \<Rightarrow> False)"

section \<open>Lemmas\<close>

lemma verify_owner_as_Ok [ok_runs]:
  "verify_owner_as L ty v = Ok u \<longleftrightarrow> (\<exists>i owner. string_property v ''id'' = Some i \<and> get_owner v ty = Ok owner
     \<and> is_same_origin L i owner = Ok True)"
  by (auto simp: verify_owner_as_def get_object_id_def ok_runs split: if_splits)

lemma is_same_origin_Ok:
  "is_same_origin L a b = Ok r \<longleftrightarrow> (\<exists>x y. canonical_parse L a = Ok x \<and> canonical_parse L b = Ok y
     \<and> r = (canonical_origin L x = canonical_origin L y))"
  by (auto simp: is_same_origin_def ok_runs)

end
