(* ===== verification/JsonSignatures.thy ===== *)
theory JsonSignatures
  imports ApObjects "HOL-Library.AList"
begin

text \<open>
  Integrity proofs on JSON documents (\<open>apx_core/src/json_signatures\<close>, \<open>jcs.rs\<close>) and public keys
  (\<open>crypto/common.rs\<close>). The signature schemes, the hash functions, the canonicalization of JSON and the
  text form of dates are packages: the fields of \<open>crypto\<close>. A key is represented by its bytes (the
  PKCS#1 form of an RSA key), a signature by its bytes.
\<close>

section \<open>The libraries\<close>

record crypto =
  eddsa_sign :: "bytes \<Rightarrow> string \<Rightarrow> bytes"
  eddsa_verify :: "bytes \<Rightarrow> string \<Rightarrow> bytes \<Rightarrow> bool" \<comment> \<open>key, message, signature\<close>
  eddsa_public :: "bytes \<Rightarrow> bytes"
  rsa_sign :: "bytes \<Rightarrow> string \<Rightarrow> bytes option"
  rsa_verify :: "bytes \<Rightarrow> string \<Rightarrow> bytes \<Rightarrow> bool"
  rsa_public :: "bytes \<Rightarrow> bytes"
  rsa_public_parses :: "bytes \<Rightarrow> bool" \<comment> \<open>\<open>rsa_public_key_from_pkcs1_der(key).is_ok()\<close>\<close>
  rsa_public_from_pem :: "string \<Rightarrow> bytes option" \<comment> \<open>\<open>deserialize_rsa_public_key\<close>\<close>
  ed25519_public_from_pem :: "string \<Rightarrow> bytes option"
  eip191_verify :: "account_id \<Rightarrow> string \<Rightarrow> bytes \<Rightarrow> bool"
  minisign_verify :: "did_key \<Rightarrow> string \<Rightarrow> bytes \<Rightarrow> bool"
  sha256 :: "string \<Rightarrow> bytes"
  sha512 :: "string \<Rightarrow> bytes"
  to_jcs :: "json \<Rightarrow> string option"
  show_rfc3339 :: "datetime \<Rightarrow> string"
  read_rfc3339 :: "string \<Rightarrow> datetime option"

text \<open>A signature verifies under the public key of its signer; a printed date reads back.\<close>

definition crypto_laws :: "crypto \<Rightarrow> bool" where
  "crypto_laws C \<longleftrightarrow>
     (\<forall>sk m. eddsa_verify C (eddsa_public C sk) m (eddsa_sign C sk m)) \<and>
     (\<forall>sk m sg. rsa_sign C sk m = Some sg \<longrightarrow> rsa_verify C (rsa_public C sk) m sg) \<and>
     (\<forall>t. read_rfc3339 C (show_rfc3339 C t) = Some t)"

datatype public_key = PkEd25519 bytes | PkRsa bytes

datatype secret_key = SkEd25519 bytes | SkRsa bytes

fun public_key_of :: "crypto \<Rightarrow> secret_key \<Rightarrow> public_key" where
  "public_key_of C (SkEd25519 sk) = PkEd25519 (eddsa_public C sk)"
| "public_key_of C (SkRsa sk) = PkRsa (rsa_public C sk)"

fun key_verifies :: "crypto \<Rightarrow> public_key \<Rightarrow> string \<Rightarrow> bytes \<Rightarrow> bool" where
  "key_verifies C (PkEd25519 k) m sg = eddsa_verify C k m sg"
| "key_verifies C (PkRsa k) m sg = rsa_verify C k m sg"

definition public_key_from_multikey ::
  "crypto \<Rightarrow> uri_library \<Rightarrow> string \<Rightarrow> (string, public_key) outcome" where
  "public_key_from_multikey C L text =
     obind (map_err (\<lambda>_. ''invalid key encoding'') (multibase_decode_exact (codecs_of L) Base58Btc text)) (\<lambda>multicode.
     obind (map_err (\<lambda>_. ''unexpected key type'') (multicodec_decode (codecs_of L) multicode)) (\<lambda>(codec, key).
     case codec of
       RsaPub \<Rightarrow> if rsa_public_parses C key then Ok (PkRsa key) else Err ''invalid key encoding''
     | Ed25519Pub \<Rightarrow> if ed25519_key_ok L key then Ok (PkEd25519 key) else Err ''invalid key encoding''
     | _ \<Rightarrow> Err ''unexpected key type''))"

definition public_key_from_pem :: "crypto \<Rightarrow> string \<Rightarrow> (string, public_key) outcome" where
  "public_key_from_pem C pem = (case rsa_public_from_pem C pem of
      Some key \<Rightarrow> Ok (PkRsa key)
    | None \<Rightarrow> (case ed25519_public_from_pem C pem of
          Some key \<Rightarrow> Ok (PkEd25519 key)
        | None \<Rightarrow> Err ''unexpected key type''))"

section \<open>Verification methods\<close>

datatype verification_method = VmHttp http_uri | VmAp ap_uri | VmDid did_url

definition verification_method_parse :: "uri_library \<Rightarrow> string \<Rightarrow> (string, verification_method) outcome" where
  "verification_method_parse L url =
     (if is_ap_uri url then obind (ap_uri_parse L url) (\<lambda>u. Ok (VmAp u))
      else case did_url_parse L url of
        Ok d \<Rightarrow> Ok (VmDid d)
      | _ \<Rightarrow> (case http_uri_parse L url of
            Ok u \<Rightarrow> Ok (VmHttp u)
          | _ \<Rightarrow> Err ''invalid verification method ID''))"

fun verification_method_origin :: "uri_library \<Rightarrow> verification_method \<Rightarrow> uri_origin" where
  "verification_method_origin L (VmHttp u) = http_origin u"
| "verification_method_origin L (VmAp u) = ap_origin L u"
| "verification_method_origin L (VmDid u) = did_url_origin L u"

fun verification_method_to_string :: "uri_library \<Rightarrow> verification_method \<Rightarrow> string" where
  "verification_method_to_string L (VmHttp u) = http_uri_to_string u"
| "verification_method_to_string L (VmAp u) = ap_uri_to_string L u"
| "verification_method_to_string L (VmDid u) = did_url_to_string L u"

section \<open>Proof types\<close>

datatype proof_type = JcsEip191Signature | JcsBlake2Ed25519Signature | JcsRsaSignature | JcsEddsaSignature
  | EddsaJcsSignature

definition data_integrity_proof :: string where
  "data_integrity_proof = ''DataIntegrityProof''"

definition proof_type_from_str :: "string \<Rightarrow> proof_type option" where
  "proof_type_from_str v =
     (if v = ''MitraJcsEip191Signature2022'' then Some JcsEip191Signature
      else if v = ''MitraJcsEd25519Signature2022'' then Some JcsBlake2Ed25519Signature
      else if v = ''MitraJcsRsaSignature2022'' then Some JcsRsaSignature
      else None)"

definition proof_type_from_cryptosuite :: "string \<Rightarrow> proof_type option" where
  "proof_type_from_cryptosuite v =
     (if v = ''jcs-eddsa-2022'' then Some JcsEddsaSignature
      else if v = ''eddsa-jcs-2022'' then Some EddsaJcsSignature
      else None)"

section \<open>Proof configurations\<close>

record integrity_proof_config =
  ipc_context :: "json option"
  ipc_proof_type :: string
  ipc_cryptosuite :: "string option"
  ipc_proof_purpose :: string
  ipc_verification_method :: string
  ipc_created :: datetime
  ipc_expires :: "datetime option"

definition opt_entry :: "string \<Rightarrow> json option \<Rightarrow> (string \<times> json) list" where
  "opt_entry k v = (case v of None \<Rightarrow> [] | Some x \<Rightarrow> [(k, x)])"

text \<open>The serialized fields in the order of the map; \<open>tail\<close> is the entry of the proof value, if any.\<close>

definition proof_entries :: "crypto \<Rightarrow> integrity_proof_config \<Rightarrow> string option \<Rightarrow> (string \<times> json) list" where
  "proof_entries C c proof_value =
     opt_entry ''@context'' (ipc_context c)
     @ [(''created'', JString (show_rfc3339 C (ipc_created c)))]
     @ opt_entry ''cryptosuite'' (map_option JString (ipc_cryptosuite c))
     @ opt_entry ''expires'' (map_option (\<lambda>t. JString (show_rfc3339 C t)) (ipc_expires c))
     @ [(''proofPurpose'', JString (ipc_proof_purpose c))]
     @ opt_entry ''proofValue'' (map_option JString proof_value)
     @ [(''type'', JString (ipc_proof_type c)), (''verificationMethod'', JString (ipc_verification_method c))]"

definition proof_config_to_value :: "crypto \<Rightarrow> integrity_proof_config \<Rightarrow> json" where
  "proof_config_to_value C c = JObject (proof_entries C c None)"

definition integrity_proof_to_value :: "crypto \<Rightarrow> codecs \<Rightarrow> integrity_proof_config \<Rightarrow> bytes \<Rightarrow> json" where
  "integrity_proof_to_value C K c signature =
     JObject (proof_entries C c (Some (multibase_encode K Base58Btc signature)))"

definition json_opt_date :: "crypto \<Rightarrow> json option \<Rightarrow> datetime option option" where
  "json_opt_date C v = (case v of
      None \<Rightarrow> Some None
    | Some JNull \<Rightarrow> Some None
    | Some x \<Rightarrow> map_option Some (Option.bind (json_str x) (read_rfc3339 C)))"

definition json_opt_value :: "json option \<Rightarrow> json option" where
  "json_opt_value v = (case v of Some JNull \<Rightarrow> None | _ \<Rightarrow> v)"

definition proof_config_from_value :: "crypto \<Rightarrow> json \<Rightarrow> integrity_proof_config option" where
  "proof_config_from_value C v =
     Option.bind (Option.bind (json_field v ''type'') json_str) (\<lambda>ty.
     Option.bind (json_opt_str (json_field v ''cryptosuite'')) (\<lambda>suite.
     Option.bind (Option.bind (json_field v ''proofPurpose'') json_str) (\<lambda>purpose.
     Option.bind (Option.bind (json_field v ''verificationMethod'') json_str) (\<lambda>vm.
     Option.bind (Option.bind (Option.bind (json_field v ''created'') json_str) (read_rfc3339 C)) (\<lambda>created.
     Option.bind (json_opt_date C (json_field v ''expires'')) (\<lambda>expires.
     Some \<lparr>ipc_context = json_opt_value (json_field v ''@context''), ipc_proof_type = ty, ipc_cryptosuite = suite,
       ipc_proof_purpose = purpose, ipc_verification_method = vm, ipc_created = created, ipc_expires = expires\<rparr>))))))"

definition jcs_eddsa_config :: "string \<Rightarrow> datetime \<Rightarrow> json option \<Rightarrow> integrity_proof_config" where
  "jcs_eddsa_config vm created ctx = \<lparr>ipc_context = ctx, ipc_proof_type = data_integrity_proof,
     ipc_cryptosuite = Some ''eddsa-jcs-2022'', ipc_proof_purpose = ''assertionMethod'',
     ipc_verification_method = vm, ipc_created = created, ipc_expires = None\<rparr>"

definition jcs_eddsa_legacy_config :: "string \<Rightarrow> datetime \<Rightarrow> integrity_proof_config" where
  "jcs_eddsa_legacy_config vm created = \<lparr>ipc_context = None, ipc_proof_type = data_integrity_proof,
     ipc_cryptosuite = Some ''jcs-eddsa-2022'', ipc_proof_purpose = ''assertionMethod'',
     ipc_verification_method = vm, ipc_created = created, ipc_expires = None\<rparr>"

section \<open>Signing\<close>

datatype json_signing_error = JeContextRequired | JeCanonicalization | JeInvalidObject | JeAlreadySigned | JeRsa

text \<open>\<open>BTreeMap::insert\<close> on the entries in key order.\<close>

definition map_insert :: "string \<Rightarrow> json \<Rightarrow> (string \<times> json) list \<Rightarrow> (string \<times> json) list" where
  "map_insert k v kvs = takeWhile (\<lambda>e. fst e < k) kvs @ (k, v) # dropWhile (\<lambda>e. fst e \<le> k) kvs"

fun add_integrity_proof :: "json \<Rightarrow> json \<Rightarrow> (json_signing_error, json) outcome" where
  "add_integrity_proof prf (JObject kvs) =
     (if map_of kvs ''proof'' \<noteq> None then Err JeAlreadySigned else Ok (JObject (map_insert ''proof'' prf kvs)))"
| "add_integrity_proof prf _ = Err JeInvalidObject"

definition prepare_jcs_sha256_data :: "crypto \<Rightarrow> json \<Rightarrow> json \<Rightarrow> string option" where
  "prepare_jcs_sha256_data C v config =
     Option.bind (to_jcs C v) (\<lambda>canonical.
     Option.bind (to_jcs C config) (\<lambda>canonical_config.
     Some (sha256 C canonical_config @ sha256 C canonical)))"

definition sign_object_eddsa ::
  "crypto \<Rightarrow> codecs \<Rightarrow> bytes \<Rightarrow> string \<Rightarrow> json \<Rightarrow> datetime \<Rightarrow> bool \<Rightarrow> bool \<Rightarrow> bool \<Rightarrow> (json_signing_error, json) outcome" where
  "sign_object_eddsa C K key key_id v now legacy use_proof_context require_context =
     (let ctx = (if legacy \<or> \<not> use_proof_context then None else json_field v ''@context'') in
      if \<not> legacy \<and> use_proof_context \<and> require_context \<and> ctx = None then Err JeContextRequired
      else let config = (if legacy then jcs_eddsa_legacy_config key_id now else jcs_eddsa_config key_id now ctx) in
        obind (ok_or JeCanonicalization (prepare_jcs_sha256_data C v (proof_config_to_value C config))) (\<lambda>hash_data.
        add_integrity_proof (integrity_proof_to_value C K config (eddsa_sign C key hash_data)) v))"

definition sign_object :: "crypto \<Rightarrow> codecs \<Rightarrow> bytes \<Rightarrow> string \<Rightarrow> json \<Rightarrow> datetime \<Rightarrow> (json_signing_error, json) outcome" where
  "sign_object C K key key_id v now = sign_object_eddsa C K key key_id v now False False False"

definition is_object_signed :: "json \<Rightarrow> bool" where
  "is_object_signed v \<longleftrightarrow> json_field v ''proof'' \<noteq> None"

section \<open>Verification\<close>

datatype json_signature_error = JsInvalidObject | JsNoProof | JsInvalidProof string | JsCanonicalization
  | JsInvalidEncoding multibase_error | JsInvalidSignature

record json_signature_data =
  js_proof_type :: proof_type
  js_verification_method :: verification_method
  js_object :: json
  js_proof_config :: json
  js_signature :: bytes
  js_expires_at :: "datetime option"

fun as_object :: "json \<Rightarrow> (string \<times> json) list option" where
  "as_object (JObject kvs) = Some kvs"
| "as_object _ = None"

definition config_proof_type :: "integrity_proof_config \<Rightarrow> (json_signature_error, proof_type) outcome" where
  "config_proof_type c =
     (if ipc_proof_type c = data_integrity_proof
      then obind (ok_or (JsInvalidProof ''cryptosuite is not specified'') (ipc_cryptosuite c)) (\<lambda>suite.
        ok_or (JsInvalidProof ''unsupported proof type'') (proof_type_from_cryptosuite suite))
      else ok_or (JsInvalidProof ''unsupported proof type'') (proof_type_from_str (ipc_proof_type c)))"

definition get_json_signature ::
  "crypto \<Rightarrow> uri_library \<Rightarrow> json \<Rightarrow> (json_signature_error, json_signature_data) outcome" where
  "get_json_signature C L v =
     obind (ok_or JsInvalidObject (as_object v)) (\<lambda>kvs.
     let kvs' = AList.delete ''signature'' kvs in
     obind (ok_or JsNoProof (map_of kvs' ''proof'')) (\<lambda>prf.
     let unsigned = JObject (AList.delete ''proof'' kvs') in
     if (case json_field prf ''@context'' of Some ctx \<Rightarrow> ctx \<noteq> json_index unsigned ''@context'' | None \<Rightarrow> False)
     then Err (JsInvalidProof ''incorrect proof context'')
     else
     obind (ok_or (JsInvalidProof ''invalid proof'') (as_object prf)) (\<lambda>proof_kvs.
     obind (ok_or (JsInvalidProof '''proofValue' is missing'') (map_of proof_kvs ''proofValue'')) (\<lambda>proof_value.
     obind (ok_or (JsInvalidProof ''invalid proof value'') (json_str proof_value)) (\<lambda>signature_text.
     let config = JObject (AList.delete ''proofValue'' proof_kvs) in
     obind (ok_or (JsInvalidProof ''invalid proof configuration'') (proof_config_from_value C config)) (\<lambda>c.
     if ipc_proof_purpose c \<noteq> ''assertionMethod'' \<and> ipc_proof_purpose c \<noteq> ''authentication''
     then Err (JsInvalidProof ''invalid proof purpose'')
     else
     obind (config_proof_type c) (\<lambda>ty.
     obind (map_err JsInvalidProof (verification_method_parse L (ipc_verification_method c))) (\<lambda>vm.
     obind (map_err JsInvalidEncoding (multibase_decode_exact (codecs_of L) Base58Btc signature_text)) (\<lambda>sg.
     Ok \<lparr>js_proof_type = ty, js_verification_method = vm, js_object = unsigned, js_proof_config = config,
        js_signature = sg, js_expires_at = ipc_expires c\<rparr>)))))))))"

definition verify_eddsa_json_signature ::
  "crypto \<Rightarrow> bytes \<Rightarrow> json \<Rightarrow> json \<Rightarrow> bytes \<Rightarrow> (json_signature_error, unit) outcome" where
  "verify_eddsa_json_signature C key v config signature =
     obind (ok_or JsCanonicalization (prepare_jcs_sha256_data C v config)) (\<lambda>hash_data.
     if eddsa_verify C key hash_data signature then Ok () else Err JsInvalidSignature)"

definition verify_rsa_json_signature :: "crypto \<Rightarrow> bytes \<Rightarrow> json \<Rightarrow> bytes \<Rightarrow> (json_signature_error, unit) outcome" where
  "verify_rsa_json_signature C key v signature =
     obind (ok_or JsCanonicalization (to_jcs C v)) (\<lambda>canonical.
     if rsa_verify C key canonical signature then Ok () else Err JsInvalidSignature)"

definition verify_eip191_json_signature ::
  "crypto \<Rightarrow> account_id \<Rightarrow> json \<Rightarrow> bytes \<Rightarrow> (json_signature_error, unit) outcome" where
  "verify_eip191_json_signature C signer v signature =
     obind (ok_or JsCanonicalization (to_jcs C v)) (\<lambda>canonical.
     if eip191_verify C signer canonical signature then Ok () else Err JsInvalidSignature)"

definition verify_blake2_ed25519_json_signature ::
  "crypto \<Rightarrow> did_key \<Rightarrow> json \<Rightarrow> bytes \<Rightarrow> (json_signature_error, unit) outcome" where
  "verify_blake2_ed25519_json_signature C signer v signature =
     obind (ok_or JsCanonicalization (to_jcs C v)) (\<lambda>canonical.
     if minisign_verify C signer canonical signature then Ok () else Err JsInvalidSignature)"

end
