(* ===== verification/HttpSignatures.thy ===== *)
theory HttpSignatures
  imports JsonSignatures Subscriptions
begin

text \<open>
  HTTP signatures (\<open>apx_core/src/http_signatures\<close>) and content digests (\<open>http_digest.rs\<close>): the
  signature base of a request is rebuilt from the signed components and verified under the key of the
  signer. Base64, structured field values (\<open>sfv\<close>), and the dates of RFC 2822 are packages, the fields
  of \<open>http_library\<close>. A request is its method, its URI, and its headers with names in lower case.
\<close>

section \<open>The libraries\<close>

datatype sfv_bare = SfvString string | SfvInteger int | SfvBytes bytes | SfvOther string

type_synonym sfv_params = "(string \<times> sfv_bare) list"

datatype sfv_entry = SfvItem sfv_bare sfv_params | SfvInner "(sfv_bare \<times> sfv_params) list" sfv_params

record http_library =
  b64_encode :: "bytes \<Rightarrow> string"
  b64_decode :: "string \<Rightarrow> bytes option"
  sfv_parse_dictionary :: "string \<Rightarrow> (string \<times> sfv_entry) list option"
  sfv_list_to_string :: "sfv_entry list \<Rightarrow> string option"
  sfv_dictionary_to_string :: "(string \<times> sfv_entry) list \<Rightarrow> string option"
  read_rfc2822 :: "string \<Rightarrow> datetime option"
  show_http_date :: "datetime \<Rightarrow> string"

type_synonym header_map = "(string \<times> string) list"

record request_uri =
  ru_path :: string
  ru_query :: "string option"
  ru_authority :: "string option"
  ru_string :: string

definition header_get :: "header_map \<Rightarrow> string \<Rightarrow> string option" where
  "header_get hs name = map_of hs (map to_ascii_lower name)"

section \<open>Digests\<close>

datatype digest_algorithm = DigestSha256 | DigestSha512

definition digest_algorithm_parse :: "string \<Rightarrow> digest_algorithm option" where
  "digest_algorithm_parse key =
     (if key = ''sha-256'' then Some DigestSha256 else if key = ''sha-512'' then Some DigestSha512 else None)"

fun digest_algorithm_str :: "digest_algorithm \<Rightarrow> string" where
  "digest_algorithm_str DigestSha256 = ''sha-256''"
| "digest_algorithm_str DigestSha512 = ''sha-512''"

record content_digest =
  cd_algorithm :: digest_algorithm
  cd_digest :: bytes

definition content_digest_new :: "crypto \<Rightarrow> string \<Rightarrow> content_digest" where
  "content_digest_new C body = \<lparr>cd_algorithm = DigestSha256, cd_digest = sha256 C body\<rparr>"

definition content_digest_new_sha512 :: "crypto \<Rightarrow> string \<Rightarrow> content_digest" where
  "content_digest_new_sha512 C body = \<lparr>cd_algorithm = DigestSha512, cd_digest = sha512 C body\<rparr>"

definition to_ascii_upper :: "char \<Rightarrow> char" where
  "to_ascii_upper c = (if is_lower c then char_of (of_char c - (32 :: nat)) else c)"

definition create_digest_header :: "http_library \<Rightarrow> content_digest \<Rightarrow> string" where
  "create_digest_header T d = map to_ascii_upper (digest_algorithm_str (cd_algorithm d)) @ ''='' @ b64_encode T (cd_digest d)"

text \<open>\<open>^([\w-]+)=([^,]+)(,|$)\<close>, on the visible ASCII characters of a header value.\<close>

definition digest_captures :: "string \<Rightarrow> (string \<times> string) option" where
  "digest_captures v =
     (let algorithm = takeWhile (\<lambda>c. is_alnum c \<or> c = CHR ''_'' \<or> c = CHR ''-'') v in
      case drop (length algorithm) v of
        (CHR ''='') # rest \<Rightarrow>
          (let digest = takeWhile (\<lambda>c. c \<noteq> CHR '','') rest in
           if algorithm \<noteq> [] \<and> digest \<noteq> [] then Some (algorithm, digest) else None)
      | _ \<Rightarrow> None)"

definition parse_digest_header :: "http_library \<Rightarrow> string \<Rightarrow> (string, content_digest) outcome" where
  "parse_digest_header T v =
     obind (ok_or ''invalid digest header value'' (digest_captures v)) (\<lambda>(algorithm_text, digest_b64).
     obind (ok_or ''unexpected digest algorithm'' (digest_algorithm_parse (map to_ascii_lower algorithm_text))) (\<lambda>algorithm.
     obind (ok_or ''invalid digest encoding'' (b64_decode T digest_b64)) (\<lambda>digest.
     Ok \<lparr>cd_algorithm = algorithm, cd_digest = digest\<rparr>)))"

definition create_content_digest_header :: "http_library \<Rightarrow> content_digest \<Rightarrow> (string, string) outcome" where
  "create_content_digest_header T d = ok_or ''invalid structured value''
     (sfv_dictionary_to_string T [(digest_algorithm_str (cd_algorithm d), SfvItem (SfvBytes (cd_digest d)) [])])"

definition first_entry :: "(string \<times> sfv_entry) list \<Rightarrow> (string \<times> sfv_entry) option" where
  "first_entry d = (case d of [] \<Rightarrow> None | e # _ \<Rightarrow> Some e)"

fun item_bytes :: "sfv_entry \<Rightarrow> bytes option" where
  "item_bytes (SfvItem (SfvBytes b) _) = Some b"
| "item_bytes _ = None"

definition parse_content_digest_header :: "http_library \<Rightarrow> string \<Rightarrow> (string, content_digest) outcome" where
  "parse_content_digest_header T v =
     obind (ok_or ''invalid content-digest header'' (sfv_parse_dictionary T v)) (\<lambda>d.
     obind (ok_or ''invalid content-digest header'' (first_entry d)) (\<lambda>(label, entry).
     obind (ok_or ''unexpected digest algorithm'' (digest_algorithm_parse label)) (\<lambda>algorithm.
     obind (ok_or ''invalid digest encoding'' (item_bytes entry)) (\<lambda>digest.
     Ok \<lparr>cd_algorithm = algorithm, cd_digest = digest\<rparr>))))"

section \<open>Parsed signatures\<close>

datatype http_signature_error = HsNoSignature | HsMissingHeader string | HsInvalidHeader string string
  | HsParseError string | HsMissingComponent string | HsUnsupportedComponent string | HsInvalidEncoding
  | HsExpired | HsNoDigest | HsDigestMismatch | HsInvalidSignature

record http_signature_data =
  hs_is_rfc9421 :: bool
  hs_key_id :: verification_method
  hs_base :: string
  hs_signature :: bytes
  hs_expires_at :: datetime
  hs_authority :: string
  hs_content_digest :: "content_digest option"

definition header_value_error :: "string \<Rightarrow> http_signature_error" where
  "header_value_error name = HsInvalidHeader name ''invalid value''"

text \<open>A required header as text; \<open>missing\<close> is the error when it is absent.\<close>

definition header_text ::
  "header_map \<Rightarrow> string \<Rightarrow> http_signature_error \<Rightarrow> string \<Rightarrow> (http_signature_error, string) outcome" where
  "header_text hs name missing shown =
     obind (ok_or missing (header_get hs name)) (\<lambda>v. ok_or (header_value_error shown) (header_to_str v))"

definition digest_header_name :: "header_map \<Rightarrow> string list \<Rightarrow> string" where
  "digest_header_name hs components =
     (if ''content-digest'' \<in> set components then ''content-digest''
      else if ''digest'' \<in> set components then ''digest''
      else if header_get hs ''content-digest'' \<noteq> None then ''content-digest''
      else ''digest'')"

definition get_content_digest ::
  "http_library \<Rightarrow> string \<Rightarrow> header_map \<Rightarrow> string list \<Rightarrow> (http_signature_error, (string \<times> content_digest) option) outcome" where
  "get_content_digest T meth hs components =
     (if meth \<notin> {''POST'', ''PUT'', ''PATCH''} then Ok None
      else let name = digest_header_name hs components in
        obind (header_text hs name HsNoDigest name) (\<lambda>v.
        obind (map_err (HsInvalidHeader name)
          (if name = ''digest'' then parse_digest_header T v else parse_content_digest_header T v)) (\<lambda>d.
        Ok (Some (name, d)))))"

fun check_required_components :: "string list \<Rightarrow> string list \<Rightarrow> (http_signature_error, unit) outcome" where
  "check_required_components components [] = Ok ()"
| "check_required_components components (r # rs) =
     (if r \<notin> set components then Err (HsMissingComponent r) else check_required_components components rs)"

definition signature_expires_in :: int where
  "signature_expires_in = 12 * 3600"

text \<open>\<open>i64::from_str\<close>, then \<open>Utc.timestamp_opt(n, 0)\<close>.\<close>

definition parse_i64 :: "string \<Rightarrow> int option" where
  "parse_i64 s =
     (let (sign, ds) = (case s of
         (CHR ''-'') # cs \<Rightarrow> (-1, cs) | (CHR ''+'') # cs \<Rightarrow> (1, cs) | _ \<Rightarrow> (1, s));
          n = sign * int (digits_val ds) in
      if ds \<noteq> [] \<and> list_all is_digit ds \<and> - (2 ^ 63) \<le> n \<and> n < 2 ^ 63 then Some n else None)"

definition timestamp_of :: "int \<Rightarrow> datetime option" where
  "timestamp_of n = (if datetime_min \<le> seconds n \<and> seconds n \<le> datetime_max then Some (seconds n) else None)"

definition parse_timestamp :: "string \<Rightarrow> (http_signature_error, datetime) outcome" where
  "parse_timestamp v = ok_or (HsParseError ''invalid timestamp'') (Option.bind (parse_i64 v) timestamp_of)"

section \<open>Draft-Cavage signatures\<close>

text \<open>\<open>^([a-zA-Z]+)=(.+)$\<close>.\<close>

definition parameter_captures :: "string \<Rightarrow> (string \<times> string) option" where
  "parameter_captures item =
     (let key = takeWhile is_alpha item in
      case drop (length key) item of
        (CHR ''='') # v \<Rightarrow> if key \<noteq> [] \<and> v \<noteq> [] \<and> CHR 0x0A \<notin> set v then Some (key, v) else None
      | _ \<Rightarrow> None)"

definition signature_parameter :: "string \<Rightarrow> (http_signature_error, string \<times> string) outcome" where
  "signature_parameter item =
     obind (ok_or (header_value_error ''Signature'') (parameter_captures item)) (\<lambda>(k, v). Ok (k, remove_quotes v))"

text \<open>Inserting into the hash map: the last value of a key stays.\<close>

definition signature_parameters :: "string \<Rightarrow> (http_signature_error, string \<Rightarrow> string option) outcome" where
  "signature_parameters header =
     obind (try_map signature_parameter (split_char (CHR '','') header)) (\<lambda>ps. Ok (map_of (rev ps)))"

definition cavage_created_at ::
  "http_library \<Rightarrow> header_map \<Rightarrow> (string \<Rightarrow> string option) \<Rightarrow> (http_signature_error, datetime) outcome" where
  "cavage_created_at T hs params = (case params ''created'' of
      Some v \<Rightarrow> parse_timestamp v
    | None \<Rightarrow> obind (header_text hs ''date'' (HsMissingHeader ''Date'') ''Date'') (\<lambda>v.
        ok_or (header_value_error ''Date'') (read_rfc2822 T v)))"

definition cavage_expires_at :: "(string \<Rightarrow> string option) \<Rightarrow> datetime \<Rightarrow> (http_signature_error, datetime) outcome" where
  "cavage_expires_at params created_at = (case params ''expires'' of
      Some v \<Rightarrow> parse_timestamp v
    | None \<Rightarrow> add_seconds created_at signature_expires_in)"

definition request_target_cavage :: "string \<Rightarrow> string \<Rightarrow> string" where
  "request_target_cavage meth path = map to_ascii_lower meth @ '' '' @ path"

definition cavage_component ::
  "string \<Rightarrow> request_uri \<Rightarrow> header_map \<Rightarrow> (string \<Rightarrow> string option) \<Rightarrow> string \<Rightarrow> (http_signature_error, string \<times> string) outcome" where
  "cavage_component meth uri hs params name =
     obind (if name = ''(request-target)'' then Ok (request_target_cavage meth (ru_path uri))
       else if name = ''(created)'' then ok_or (HsParseError ''created parameter is missing'') (params ''created'')
       else if name = ''(expires)'' then ok_or (HsParseError ''expires parameter is missing'') (params ''expires'')
       else header_text hs name (HsMissingHeader name) name) (\<lambda>v. Ok (name, v))"

text \<open>\<open>IndexMap::insert\<close> keeps the place of the first insertion.\<close>

definition index_map :: "(string \<times> string) list \<Rightarrow> (string \<times> string) list" where
  "index_map entries = fold (\<lambda>(k, v) m. AList.update k v m) entries []"

definition cavage_base :: "(string \<times> string) list \<Rightarrow> string" where
  "cavage_base entries = join [CHR 0x0A] (map (\<lambda>(k, v). k @ '': '' @ v) entries)"

definition required_components_cavage :: "string list" where
  "required_components_cavage = [''(request-target)'', ''host'']"

definition parse_http_signature_cavage ::
  "http_library \<Rightarrow> uri_library \<Rightarrow> string \<Rightarrow> request_uri \<Rightarrow> header_map \<Rightarrow> (http_signature_error, http_signature_data) outcome" where
  "parse_http_signature_cavage T L meth uri hs =
     obind (header_text hs ''signature'' HsNoSignature ''Signature'') (\<lambda>signature_header.
     obind (signature_parameters signature_header) (\<lambda>params.
     obind (ok_or (HsParseError ''keyId parameter is missing'') (params ''keyId'')) (\<lambda>key_id_str.
     obind (map_err (\<lambda>_. HsParseError ''invalid key ID'') (verification_method_parse L key_id_str)) (\<lambda>key_id.
     obind (ok_or (HsParseError ''headers parameter is missing'') (params ''headers'')) (\<lambda>headers_parameter.
     obind (ok_or (HsParseError ''signature is missing'') (params ''signature'')) (\<lambda>signature_b64.
     obind (ok_or HsInvalidEncoding (b64_decode T signature_b64)) (\<lambda>sg.
     obind (header_text hs ''Host'' (HsMissingHeader ''Host'') ''Host'') (\<lambda>authority.
     obind (cavage_created_at T hs params) (\<lambda>created_at.
     obind (cavage_expires_at params created_at) (\<lambda>expires_at.
     let signed_headers = split_char (CHR '' '') headers_parameter in
     obind (get_content_digest T meth hs signed_headers) (\<lambda>digest.
     obind (check_required_components signed_headers
       (required_components_cavage @ map fst (case digest of None \<Rightarrow> [] | Some d \<Rightarrow> [d]))) (\<lambda>_.
     obind (try_map (cavage_component meth uri hs params) signed_headers) (\<lambda>entries.
     Ok \<lparr>hs_is_rfc9421 = False, hs_key_id = key_id, hs_base = cavage_base (index_map entries), hs_signature = sg,
        hs_expires_at = expires_at, hs_authority = authority, hs_content_digest = map_option snd digest\<rparr>)))))))))))))"

section \<open>RFC 9421 signatures\<close>

fun bare_string :: "sfv_bare \<Rightarrow> string option" where
  "bare_string (SfvString s) = Some s"
| "bare_string _ = None"

fun bare_integer :: "sfv_bare \<Rightarrow> int option" where
  "bare_integer (SfvInteger n) = Some n"
| "bare_integer _ = None"

fun inner_list :: "sfv_entry \<Rightarrow> ((sfv_bare \<times> sfv_params) list \<times> sfv_params) option" where
  "inner_list (SfvInner items params) = Some (items, params)"
| "inner_list _ = None"

definition rfc9421_expires_at :: "sfv_params \<Rightarrow> (http_signature_error, datetime) outcome" where
  "rfc9421_expires_at params = (case map_of params ''expires'' of
      Some v \<Rightarrow>
        obind (ok_or (HsParseError (''invalid encoding of 'expires'' @ [CHR 0x27])) (bare_integer v)) (\<lambda>n.
        ok_or (HsParseError ''invalid timestamp'') (timestamp_of n))
    | None \<Rightarrow>
        obind (ok_or (HsParseError ''parameter 'created' not found'') (map_of params ''created'')) (\<lambda>v.
        obind (ok_or (HsParseError (''invalid encoding of 'created'' @ [CHR 0x27])) (bare_integer v)) (\<lambda>n.
        obind (ok_or (HsParseError ''invalid timestamp'') (timestamp_of n)) (\<lambda>created_at.
        add_seconds created_at signature_expires_in))))"

definition rfc9421_component ::
  "string \<Rightarrow> request_uri \<Rightarrow> string \<Rightarrow> header_map \<Rightarrow> string \<Rightarrow> (http_signature_error, string) outcome" where
  "rfc9421_component meth uri authority hs name =
     (if name = ''@method'' then Ok meth
      else if name = ''@target-uri'' then Ok (ru_string uri)
      else if name = ''@request-target'' then Ok (ru_path uri @ with_mark (CHR ''?'') (ru_query uri))
      else if name = ''@path'' then Ok (ru_path uri)
      else if name = ''@query'' then Ok (''?'' @ (case ru_query uri of Some q \<Rightarrow> q | None \<Rightarrow> []))
      else if name = ''@authority'' then Ok authority
      else if take 1 name = ''@'' then Err (HsUnsupportedComponent name)
      else header_text hs name (HsMissingHeader name) name)"

fun rfc9421_entries ::
  "(string \<Rightarrow> (http_signature_error, string) outcome) \<Rightarrow> (string \<times> string) list \<Rightarrow> string list
   \<Rightarrow> (http_signature_error, (string \<times> string) list) outcome" where
  "rfc9421_entries component seen [] = Ok seen"
| "rfc9421_entries component seen (c # cs) =
     (if c \<in> fst ` set seen then Err (HsParseError ''duplicate component'')
      else obind (component c) (\<lambda>v. rfc9421_entries component (seen @ [(c, v)]) cs))"

definition rfc9421_base :: "(string \<times> string) list \<Rightarrow> string" where
  "rfc9421_base entries = join [CHR 0x0A] (map (\<lambda>(k, v). [CHR 0x22] @ k @ [CHR 0x22] @ '': '' @ v) entries)"

definition required_components_rfc9421 :: "string list" where
  "required_components_rfc9421 = [''@method'', ''@target-uri'']"

definition parse_http_signature_rfc9421 ::
  "http_library \<Rightarrow> uri_library \<Rightarrow> string \<Rightarrow> request_uri \<Rightarrow> header_map \<Rightarrow> bool
   \<Rightarrow> (http_signature_error, http_signature_data) outcome" where
  "parse_http_signature_rfc9421 T L meth uri hs ignore_required =
     obind (header_text hs ''Signature'' HsNoSignature ''Signature'') (\<lambda>signature_header.
     obind (ok_or (HsParseError ''invalid 'signature' dictionary'') (sfv_parse_dictionary T signature_header)) (\<lambda>signature_dict.
     obind (ok_or (HsParseError ''invalid 'signature' dictionary'') (first_entry signature_dict)) (\<lambda>(label, entry).
     obind (ok_or (HsParseError ''invalid signature value'') (item_bytes entry)) (\<lambda>sg.
     obind (header_text hs ''Signature-Input'' HsNoSignature ''Signature-Input'') (\<lambda>input_header.
     obind (ok_or (HsParseError ''invalid 'signature-input' dictionary'') (sfv_parse_dictionary T input_header)) (\<lambda>input_dict.
     obind (ok_or (HsParseError ''signature parameters not found'') (map_of input_dict label)) (\<lambda>param_list.
     obind (ok_or (HsParseError ''serialization error'') (sfv_list_to_string T [param_list])) (\<lambda>signature_params.
     obind (ok_or (HsParseError ''invalid encoding of signature parameters'') (inner_list param_list)) (\<lambda>(items, params).
     obind (ok_or (HsParseError ''parameter 'keyid' not found'') (map_of params ''keyid'')) (\<lambda>key_item.
     obind (ok_or (HsParseError (''invalid encoding of 'keyid'' @ [CHR 0x27])) (bare_string key_item)) (\<lambda>key_id_str.
     obind (map_err (\<lambda>_. HsParseError ''invalid key ID'') (verification_method_parse L key_id_str)) (\<lambda>key_id.
     obind (rfc9421_expires_at params) (\<lambda>expires_at.
     obind (try_map (\<lambda>i. ok_or (HsParseError ''invalid encoding of signature parameter'') (bare_string (fst i))) items) (\<lambda>components.
     obind (ok_or (HsParseError ''incomplete request URI'') (ru_authority uri)) (\<lambda>authority.
     obind (get_content_digest T meth hs components) (\<lambda>digest.
     obind (if ignore_required then Ok () else check_required_components components
       (required_components_rfc9421 @ map fst (case digest of None \<Rightarrow> [] | Some d \<Rightarrow> [d]))) (\<lambda>_.
     obind (rfc9421_entries (rfc9421_component meth uri authority hs) [] components) (\<lambda>entries.
     Ok \<lparr>hs_is_rfc9421 = True, hs_key_id = key_id,
        hs_base = rfc9421_base (AList.update ''@signature-params'' signature_params entries), hs_signature = sg,
        hs_expires_at = expires_at, hs_authority = authority, hs_content_digest = map_option snd digest\<rparr>))))))))))))))))))"

section \<open>Verification\<close>

definition parse_http_signature ::
  "http_library \<Rightarrow> uri_library \<Rightarrow> string \<Rightarrow> request_uri \<Rightarrow> header_map \<Rightarrow> (http_signature_error, http_signature_data) outcome" where
  "parse_http_signature T L meth uri hs =
     (if header_get hs ''Signature-Input'' \<noteq> None then parse_http_signature_rfc9421 T L meth uri hs False
      else parse_http_signature_cavage T L meth uri hs)"

definition verify_http_signature ::
  "crypto \<Rightarrow> datetime \<Rightarrow> http_signature_data \<Rightarrow> public_key \<Rightarrow> content_digest option \<Rightarrow> (http_signature_error, unit) outcome" where
  "verify_http_signature C now d key digest =
     (if hs_expires_at d < now then Err HsExpired
      else if hs_content_digest d \<noteq> digest then Err HsDigestMismatch
      else if \<not> key_verifies C key (hs_base d) (hs_signature d) then Err HsInvalidSignature
      else Ok ())"

section \<open>Signing requests\<close>

record http_signer =
  sg_key :: secret_key
  sg_key_id :: string

record http_signature_headers =
  sh_host :: string
  sh_date :: string
  sh_digest :: "string option"
  sh_signature :: string

datatype http_signing_error = SgUrlError string | SgSerializationError | SgSigningError

fun algorithm_cavage :: "secret_key \<Rightarrow> string" where
  "algorithm_cavage (SkEd25519 _) = ''hs2019''"
| "algorithm_cavage (SkRsa _) = ''rsa-sha256''"

fun algorithm_rfc9421 :: "secret_key \<Rightarrow> string" where
  "algorithm_rfc9421 (SkEd25519 _) = ''ed25519''"
| "algorithm_rfc9421 (SkRsa _) = ''rsa-v1_5-sha256''"

fun sign_with :: "crypto \<Rightarrow> secret_key \<Rightarrow> string \<Rightarrow> (http_signing_error, bytes) outcome" where
  "sign_with C (SkEd25519 k) m = Ok (eddsa_sign C k m)"
| "sign_with C (SkRsa k) m = ok_or SgSigningError (rsa_sign C k m)"

definition quoted :: "string \<Rightarrow> string" where
  "quoted v = [CHR 0x22] @ v @ [CHR 0x22]"

definition signature_header_cavage :: "string \<Rightarrow> string \<Rightarrow> string \<Rightarrow> string \<Rightarrow> string" where
  "signature_header_cavage key_id algorithm headers_parameter signature_text =
     join '','' [''keyId='' @ quoted key_id, ''algorithm='' @ quoted algorithm,
       ''headers='' @ quoted headers_parameter, ''signature='' @ quoted signature_text]"

definition host_header :: "http_uri \<Rightarrow> string" where
  "host_header u = (case hu_port u of Some p \<Rightarrow> hu_host u @ '':'' @ show_nat p | None \<Rightarrow> hu_host u)"

definition cavage_signed_headers :: "string \<Rightarrow> http_uri \<Rightarrow> string \<Rightarrow> string option \<Rightarrow> (string \<times> string) list" where
  "cavage_signed_headers meth u date digest_header =
     [(''(request-target)'', request_target_cavage meth (hu_path u)), (''host'', host_header u), (''date'', date)]
     @ (case digest_header of Some d \<Rightarrow> [(''digest'', d)] | None \<Rightarrow> [])"

definition create_http_signature_cavage ::
  "crypto \<Rightarrow> http_library \<Rightarrow> uri_library \<Rightarrow> datetime \<Rightarrow> string \<Rightarrow> string \<Rightarrow> string option \<Rightarrow> http_signer
   \<Rightarrow> (http_signing_error, http_signature_headers) outcome" where
  "create_http_signature_cavage C T L now meth url body signer =
     obind (map_err SgUrlError (normalize_http_url L url)) (\<lambda>normal.
     obind (map_err SgUrlError (http_uri_parse L normal)) (\<lambda>u.
     let digest_header = map_option (\<lambda>b. create_digest_header T (content_digest_new C b)) body;
         date = show_http_date T now;
         headers = cavage_signed_headers meth u date digest_header in
     obind (sign_with C (sg_key signer) (cavage_base headers)) (\<lambda>sg.
     Ok \<lparr>sh_host = host_header u, sh_date = date, sh_digest = digest_header,
        sh_signature = signature_header_cavage (sg_key_id signer) (algorithm_cavage (sg_key signer))
          (join '' '' (map fst headers)) (b64_encode T sg)\<rparr>)))"

record http_signature_headers_rfc9421 =
  sr_content_digest :: "string option"
  sr_signature :: string
  sr_signature_input :: string

definition create_http_signature_rfc9421 ::
  "crypto \<Rightarrow> http_library \<Rightarrow> uri_library \<Rightarrow> int \<Rightarrow> string \<Rightarrow> string \<Rightarrow> string option \<Rightarrow> http_signer
   \<Rightarrow> (http_signing_error, http_signature_headers_rfc9421) outcome" where
  "create_http_signature_rfc9421 C T L created meth url body signer =
     obind (map_err SgUrlError (normalize_http_url L url)) (\<lambda>normal.
     obind (map_err SgUrlError (http_uri_parse L normal)) (\<lambda>u.
     obind (case body of
         None \<Rightarrow> Ok None
       | Some b \<Rightarrow> obind (map_err (\<lambda>_. SgSerializationError) (create_content_digest_header T (content_digest_new C b)))
           (\<lambda>h. Ok (Some h))) (\<lambda>digest_header.
     let entries = [(''@method'', meth), (''@target-uri'', http_uri_to_string u)]
           @ (case digest_header of Some h \<Rightarrow> [(''content-digest'', h)] | None \<Rightarrow> []);
         params = [(''keyid'', SfvString (sg_key_id signer)), (''created'', SfvInteger created),
           (''alg'', SfvString (algorithm_rfc9421 (sg_key signer)))];
         param_list = SfvInner (map (\<lambda>e. (SfvString (fst e), [])) entries) params in
     obind (ok_or SgSerializationError (sfv_list_to_string T [param_list])) (\<lambda>signature_params.
     obind (sign_with C (sg_key signer) (rfc9421_base (entries @ [(''@signature-params'', signature_params)]))) (\<lambda>sg.
     obind (ok_or SgSerializationError (sfv_dictionary_to_string T [(''sig1'', param_list)])) (\<lambda>input_header.
     obind (ok_or SgSerializationError (sfv_dictionary_to_string T [(''sig1'', SfvItem (SfvBytes sg) [])])) (\<lambda>signature_header.
     Ok \<lparr>sr_content_digest = digest_header, sr_signature = signature_header, sr_signature_input = input_header\<rparr>)))))))"

end
