(* ===== verification/FederationClient.thy ===== *)
theory FederationClient
  imports HttpSignatures Deliverer
begin

text \<open>
  The federation client (\<open>apx_sdk/src/http_client.rs\<close>, \<open>fetch.rs\<close>, \<open>deliver.rs\<close>, \<open>agent.rs\<close>): which addresses
  may be contacted, how a client is configured, how requests are signed and redirections followed.
  Parsing of URLs (\<open>url\<close>), building a client (\<open>reqwest\<close>) and parsing of JSON are packages, the fields of
  \<open>net_library\<close>; the other servers are an argument too, a function from requests to responses. The
  state of a program is the list of the requests sent so far.
\<close>

section \<open>Safe addresses\<close>

text \<open>The four octets of an IPv4 address, the eight segments of an IPv6 address.\<close>

datatype ip_addr = IpV4 nat nat nat nat | IpV6 "16 word list"

text \<open>\<open>is_loopback\<close>, \<open>is_unspecified\<close>, \<open>is_private\<close>, \<open>is_link_local\<close>, then the conditions written out in the source;
  \<open>b & 0b1100_0000 == 0b0100_0000\<close> selects 64 to 127 and \<open>b & 0xfe == 18\<close> selects 18 and 19.\<close>

definition is_unsafe_ipv4 :: "nat \<Rightarrow> nat \<Rightarrow> nat \<Rightarrow> nat \<Rightarrow> bool" where
  "is_unsafe_ipv4 a b c d \<longleftrightarrow>
     a = 127
     \<or> a = 0 \<and> b = 0 \<and> c = 0 \<and> d = 0
     \<or> a = 10 \<or> a = 172 \<and> 16 \<le> b \<and> b \<le> 31 \<or> a = 192 \<and> b = 168
     \<or> a = 169 \<and> b = 254
     \<or> a = 100 \<and> b div 64 = 1
     \<or> a = 198 \<and> b div 2 = 9
     \<or> a = 192 \<and> b = 0 \<and> c = 0 \<and> d \<noteq> 9 \<and> d \<noteq> 10"

definition is_unsafe_ipv6 :: "16 word list \<Rightarrow> bool" where
  "is_unsafe_ipv6 segs \<longleftrightarrow>
     segs = [0, 0, 0, 0, 0, 0, 0, 1]
     \<or> segs = [0, 0, 0, 0, 0, 0, 0, 0]
     \<or> drop_bit 6 (segs ! 0) = 0x3fa
     \<or> drop_bit 9 (segs ! 0) = 0x7e
     \<or> segs ! 0 = 0x2001 \<and> segs ! 1 = 2 \<and> segs ! 2 = 0"

definition to_ipv4_mapped :: "16 word list \<Rightarrow> (nat \<times> nat \<times> nat \<times> nat) option" where
  "to_ipv4_mapped segs =
     (if take 6 segs = [0, 0, 0, 0, 0, 0xffff] \<and> length segs = 8
      then Some (unat (segs ! 6) div 256, unat (segs ! 6) mod 256, unat (segs ! 7) div 256, unat (segs ! 7) mod 256)
      else None)"

fun is_safe_addr :: "ip_addr \<Rightarrow> bool" where
  "is_safe_addr (IpV4 a b c d) \<longleftrightarrow> \<not> is_unsafe_ipv4 a b c d"
| "is_safe_addr (IpV6 segs) \<longleftrightarrow> \<not> is_unsafe_ipv6 segs \<and>
     \<not> (case to_ipv4_mapped segs of Some (a, b, c, d) \<Rightarrow> is_unsafe_ipv4 a b c d | None \<Rightarrow> False)"

section \<open>Configuration of a client\<close>

datatype network = NetworkDefault | NetworkTor | NetworkI2p

definition get_network_type :: "string \<Rightarrow> network" where
  "get_network_type hostname =
     (if is_onion hostname then NetworkTor else if is_i2p hostname then NetworkI2p else NetworkDefault)"

datatype redirect_action = RedirectNone | RedirectFollow

datatype redirect_policy = PolicyNone | PolicySafe | PolicyLimited nat

definition redirect_limit :: nat where
  "redirect_limit = 3"

definition connection_timeout :: nat where
  "connection_timeout = 30"

record federation_agent =
  fa_user_agent :: "string option"
  fa_ssrf_protection_enabled :: bool
  fa_response_size_limit :: nat
  fa_fetcher_timeout :: nat
  fa_deliverer_timeout :: nat
  fa_proxy_url :: "string option"
  fa_onion_proxy_url :: "string option"
  fa_i2p_proxy_url :: "string option"
  fa_no_proxy :: "string list"
  fa_signer :: "http_signer option"
  fa_rfc9421_enabled :: bool

record client_config =
  cc_proxy :: "string option"
  cc_safe_resolver :: bool
  cc_timeout :: nat
  cc_connect_timeout :: nat
  cc_redirect_policy :: redirect_policy

definition or_else :: "'a option \<Rightarrow> 'a option \<Rightarrow> 'a option" where
  "or_else x y = (case x of Some _ \<Rightarrow> x | None \<Rightarrow> y)"

definition proxy_url_for :: "federation_agent \<Rightarrow> string \<Rightarrow> string option" where
  "proxy_url_for A host = (case get_network_type host of
      NetworkDefault \<Rightarrow> fa_proxy_url A
    | NetworkTor \<Rightarrow> or_else (fa_onion_proxy_url A) (fa_proxy_url A)
    | NetworkI2p \<Rightarrow> or_else (fa_i2p_proxy_url A) (fa_proxy_url A))"

definition redirect_policy_of :: "federation_agent \<Rightarrow> redirect_action \<Rightarrow> redirect_policy" where
  "redirect_policy_of A action = (case action of
      RedirectNone \<Rightarrow> PolicyNone
    | RedirectFollow \<Rightarrow> if fa_ssrf_protection_enabled A then PolicySafe else PolicyLimited redirect_limit)"

definition client_config_of :: "federation_agent \<Rightarrow> string \<Rightarrow> nat \<Rightarrow> redirect_action \<Rightarrow> client_config" where
  "client_config_of A host timeout action =
     \<lparr>cc_proxy = (if host \<in> set (fa_no_proxy A) then None else proxy_url_for A host),
      cc_safe_resolver = fa_ssrf_protection_enabled A, cc_timeout = timeout,
      cc_connect_timeout = max timeout connection_timeout, cc_redirect_policy = redirect_policy_of A action\<rparr>"

section \<open>Requests and responses\<close>

record http_request =
  rq_method :: string
  rq_url :: string
  rq_headers :: header_map
  rq_body :: "string option"

record http_response =
  rs_status :: nat
  rs_url :: string
  rs_headers :: header_map
  rs_content_length :: "nat option"
  rs_body :: bytes
  rs_complete :: bool \<comment> \<open>the body arrives without an error\<close>

record net_library =
  url_host :: "string \<Rightarrow> string option"
  url_ip_address :: "string \<Rightarrow> ip_addr option"
  url_fragment :: "string \<Rightarrow> string option"
  url_join :: "string \<Rightarrow> string \<Rightarrow> string option"
  url_set_fragment :: "string \<Rightarrow> string option \<Rightarrow> string"
  proxy_parses :: "string \<Rightarrow> bool"
  client_builds :: "client_config \<Rightarrow> bool"
  json_from_slice :: "bytes \<Rightarrow> json option"
  json_to_text :: "json \<Rightarrow> string option"
  sniff_media_type :: "bytes \<Rightarrow> string option"

text \<open>What the other servers answer; no answer is an error of \<open>send\<close>.\<close>

type_synonym servers = "client_config \<Rightarrow> http_request \<Rightarrow> http_response option"

type_synonym ('e, 'a) exchange = "(http_request list, 'e, 'a) prog"

definition is_safe_url :: "uri_library \<Rightarrow> net_library \<Rightarrow> string \<Rightarrow> bool" where
  "is_safe_url L N url = (case parse_http_url_whatwg L url of
      Ok _ \<Rightarrow> (case url_ip_address N url of Some a \<Rightarrow> is_safe_addr a | None \<Rightarrow> True)
    | _ \<Rightarrow> False)"

text \<open>The addresses the resolver of a protected client returns for a name.\<close>

definition safe_resolve :: "(string \<Rightarrow> ip_addr list) \<Rightarrow> string \<Rightarrow> ip_addr list" where
  "safe_resolve gai name = filter is_safe_addr (gai name)"

text \<open>\<open>create_safe_redirect_policy\<close>: \<open>previous\<close> is the number of the URLs visited so far.\<close>

datatype redirect_decision = RedirectError | RedirectStop | RedirectContinue

definition safe_redirect_policy :: "uri_library \<Rightarrow> net_library \<Rightarrow> nat \<Rightarrow> string \<Rightarrow> redirect_decision" where
  "safe_redirect_policy L N previous url =
     (if previous > redirect_limit then RedirectError
      else if \<not> is_safe_url L N url then RedirectStop
      else RedirectContinue)"

definition create_http_client ::
  "net_library \<Rightarrow> federation_agent \<Rightarrow> string \<Rightarrow> nat \<Rightarrow> redirect_action \<Rightarrow> client_config option" where
  "create_http_client N A host timeout action =
     (let c = client_config_of A host timeout action in
      if (case proxy_url_for A host of Some p \<Rightarrow> \<not> proxy_parses N p | None \<Rightarrow> False) then None
      else if client_builds N c then Some c
      else None)"

definition build_http_request ::
  "uri_library \<Rightarrow> net_library \<Rightarrow> federation_agent \<Rightarrow> string \<Rightarrow> string \<Rightarrow> http_request option" where
  "build_http_request L N A meth url =
     (if fa_ssrf_protection_enabled A \<and> \<not> is_safe_url L N url then None
      else Some \<lparr>rq_method = meth, rq_url = url,
        rq_headers = (case fa_user_agent A of Some ua \<Rightarrow> [(''user-agent'', ua)] | None \<Rightarrow> []), rq_body = None\<rparr>)"

definition add_header :: "string \<Rightarrow> string \<Rightarrow> http_request \<Rightarrow> http_request" where
  "add_header k v r = r\<lparr>rq_headers := rq_headers r @ [(k, v)]\<rparr>"

definition add_opt_header :: "string \<Rightarrow> string option \<Rightarrow> http_request \<Rightarrow> http_request" where
  "add_opt_header k v r = (case v of Some x \<Rightarrow> add_header k x r | None \<Rightarrow> r)"

text \<open>The packages a signer needs, and the clock.\<close>

record signing_context =
  sc_crypto :: crypto
  sc_http :: http_library
  sc_now :: datetime

text \<open>\<open>now\<close> as a Unix time in seconds.\<close>

definition unix_seconds :: "datetime \<Rightarrow> int" where
  "unix_seconds t = t div 1000000"

definition sign_http_request ::
  "signing_context \<Rightarrow> uri_library \<Rightarrow> http_request \<Rightarrow> string \<Rightarrow> string \<Rightarrow> string option \<Rightarrow> http_signer \<Rightarrow> bool
   \<Rightarrow> (http_signing_error, http_request) outcome" where
  "sign_http_request S L r meth url body signer rfc9421 =
     (if rfc9421 then
        obind (create_http_signature_rfc9421 (sc_crypto S) (sc_http S) L (unix_seconds (sc_now S)) meth url body signer) (\<lambda>h.
        Ok (add_header ''signature-input'' (sr_signature_input h) (add_header ''signature'' (sr_signature h)
          (add_opt_header ''content-digest'' (sr_content_digest h) r))))
      else
        obind (create_http_signature_cavage (sc_crypto S) (sc_http S) L (sc_now S) meth url body signer) (\<lambda>h.
        Ok (add_header ''signature'' (sh_signature h) (add_header ''date'' (sh_date h) (add_header ''host'' (sh_host h)
          (add_opt_header ''digest'' (sh_digest h) r))))))"

definition limited_response :: "http_response \<Rightarrow> nat \<Rightarrow> bytes option" where
  "limited_response r limit = (if rs_complete r \<and> length (rs_body r) \<le> limit then Some (rs_body r) else None)"

definition send_request :: "servers \<Rightarrow> client_config \<Rightarrow> http_request \<Rightarrow> 'e \<Rightarrow> ('e, http_response) exchange" where
  "send_request W c r failed = (\<lambda>sent. (ok_or failed (W c r), sent @ [r]))"

definition ap_media_type :: string where
  "ap_media_type = ''application/ld+json; profile='' @ [CHR 0x22] @ ''https://www.w3.org/ns/activitystreams'' @ [CHR 0x22]"

definition as_media_type :: string where
  "as_media_type = ''application/activity+json''"

text \<open>
  Fetching of ActivityPub objects and media (\<open>apx_sdk/src/fetch.rs\<close>), the authentication of what was
  fetched (\<open>apx_sdk/src/authentication.rs\<close>) and the delivery of objects (\<open>apx_sdk/src/deliver.rs\<close>). Redirections
  are followed by hand, because every request is signed again.
\<close>

section \<open>Errors\<close>

datatype portable_error = PeInvalidObjectId string | PeNotPortable | PeNoProof | PeInvalidVerificationMethod
  | PeUnexpectedSigner | PeUnexpectedProofType | PeJsonSignature json_signature_error

datatype fetch_error = FeSignature http_signing_error | FeUrl | FeUnsafeUrl string | FeRequest | FeStream string
  | FeForbidden string | FeNotFound string | FeRedirection | FeResponseTooLarge | FeJsonParse string
  | FeUnexpectedContentType string | FeNoObjectId string | FeUnexpectedObjectId string
  | FeInvalidProof portable_error | FeRecursion | FeNoGateway

section \<open>Fetching\<close>

record fetched_object =
  fo_value :: json
  fo_location :: string

text \<open>Everything a fetch depends on besides its arguments.\<close>

record fetch_env =
  fe_uris :: uri_library
  fe_net :: net_library
  fe_servers :: servers
  fe_signing :: signing_context

definition create_fetcher_client ::
  "fetch_env \<Rightarrow> federation_agent \<Rightarrow> string \<Rightarrow> redirect_action \<Rightarrow> (fetch_error, client_config) outcome" where
  "create_fetcher_client E A url action =
     obind (ok_or FeUrl (url_host (fe_net E) url)) (\<lambda>host.
     ok_or FeRequest (create_http_client (fe_net E) A host (fa_fetcher_timeout A) action))"

text \<open>\<open>error_for_status\<close>, then \<open>fetcher_error_for_status\<close>.\<close>

definition is_error_status :: "nat \<Rightarrow> bool" where
  "is_error_status n \<longleftrightarrow> 400 \<le> n \<and> n < 600"

definition fetcher_error_for_status :: "http_response \<Rightarrow> fetch_error" where
  "fetcher_error_for_status r =
     (if rs_status r = 403 then FeForbidden (rs_url r)
      else if rs_status r = 404 then FeNotFound (rs_url r)
      else FeRequest)"

definition is_redirection :: "nat \<Rightarrow> bool" where
  "is_redirection n \<longleftrightarrow> 300 \<le> n \<and> n < 400"

definition get_target_url :: "net_library \<Rightarrow> string \<Rightarrow> string \<Rightarrow> string option" where
  "get_target_url N current location =
     Option.bind (url_join N current location) (\<lambda>url_next.
     Some (if url_fragment N url_next = None then url_set_fragment N url_next (url_fragment N current) else url_next))"

definition redirect_target :: "net_library \<Rightarrow> http_response \<Rightarrow> string option" where
  "redirect_target N r =
     Option.bind (header_get (rs_headers r) ''Location'') (\<lambda>h.
     Option.bind (header_to_str h) (get_target_url N (rs_url r)))"

text \<open>The signed request for a URL.\<close>

definition fetch_request ::
  "fetch_env \<Rightarrow> federation_agent \<Rightarrow> string \<Rightarrow> (fetch_error, http_request) outcome" where
  "fetch_request E A url =
     obind (ok_or (FeUnsafeUrl url) (build_http_request (fe_uris E) (fe_net E) A ''GET'' url)) (\<lambda>r.
     let r' = add_header ''accept'' ap_media_type r in
     case fa_signer A of
       None \<Rightarrow> Ok r'
     | Some signer \<Rightarrow> map_err FeSignature
         (sign_http_request (fe_signing E) (fe_uris E) r' ''GET'' url None signer (fa_rfc9421_enabled A)))"

text \<open>The loop of \<open>fetch_object\<close>; \<open>n\<close> is how many more redirections may be counted before the limit.\<close>

fun fetch_loop ::
  "fetch_env \<Rightarrow> federation_agent \<Rightarrow> client_config \<Rightarrow> nat \<Rightarrow> string \<Rightarrow> (fetch_error, http_response) exchange" where
  "fetch_loop E A c n url =
     bnd (lift (fetch_request E A url)) (\<lambda>r.
     bnd (send_request (fe_servers E) c r FeRequest) (\<lambda>response.
     if is_error_status (rs_status response) then throw (fetcher_error_for_status response)
     else if \<not> is_redirection (rs_status response) then ret response
     else (case n of
         0 \<Rightarrow> throw FeRedirection
       | Suc m \<Rightarrow> (case redirect_target (fe_net E) response of
             None \<Rightarrow> throw FeRedirection
           | Some target \<Rightarrow> fetch_loop E A c m target))))"

declare fetch_loop.simps [simp del]

definition allowed_types :: "string list" where
  "allowed_types = [ap_media_type, as_media_type, ''application/ld+json'']"

definition response_media_type :: "http_response \<Rightarrow> string option" where
  "response_media_type r = Option.bind (header_get (rs_headers r) ''Content-Type'') extract_media_type"

definition fetch_object ::
  "fetch_env \<Rightarrow> federation_agent \<Rightarrow> string \<Rightarrow> bool \<Rightarrow> (fetch_error, fetched_object) exchange" where
  "fetch_object E A url skip_content_type =
     bnd (lift (create_fetcher_client E A url RedirectNone)) (\<lambda>c.
     bnd (fetch_loop E A c (redirect_limit - 1) url) (\<lambda>response.
     let content_type = (case response_media_type response of Some t \<Rightarrow> t | None \<Rightarrow> []) in
     if \<not> skip_content_type \<and> content_type \<notin> set allowed_types then throw (FeUnexpectedContentType content_type)
     else lift
       (obind (ok_or FeResponseTooLarge (limited_response response (fa_response_size_limit A))) (\<lambda>data.
        obind (ok_or (FeJsonParse (rs_url response)) (json_from_slice (fe_net E) data)) (\<lambda>v.
        Ok \<lparr>fo_value = v, fo_location = rs_url response\<rparr>)))))"

section \<open>Media and other data\<close>

definition application_octet_stream :: string where
  "application_octet_stream = ''application/octet-stream''"

definition get_media_type :: "net_library \<Rightarrow> bytes \<Rightarrow> string option \<Rightarrow> string" where
  "get_media_type N data reported =
     (case or_else (Option.bind reported (\<lambda>t. if t \<noteq> application_octet_stream then Some t else None)) (sniff_media_type N data) of
        Some t \<Rightarrow> t | None \<Rightarrow> application_octet_stream)"

definition fetch_media ::
  "fetch_env \<Rightarrow> federation_agent \<Rightarrow> string \<Rightarrow> string list \<Rightarrow> nat \<Rightarrow> (fetch_error, bytes \<times> string) exchange" where
  "fetch_media E A url allowed size_limit =
     bnd (lift (create_fetcher_client E A url RedirectFollow)) (\<lambda>c.
     bnd (lift (ok_or (FeUnsafeUrl url) (build_http_request (fe_uris E) (fe_net E) A ''GET'' url))) (\<lambda>r.
     bnd (send_request (fe_servers E) c r FeRequest) (\<lambda>response.
     if is_error_status (rs_status response) then throw FeRequest
     else if (case rs_content_length response of Some n \<Rightarrow> n > size_limit | None \<Rightarrow> False) then throw FeResponseTooLarge
     else lift
       (obind (ok_or FeResponseTooLarge (limited_response response size_limit)) (\<lambda>data.
        let ty = get_media_type (fe_net E) data (response_media_type response) in
        if ty \<notin> set allowed then Err (FeUnexpectedContentType ty) else Ok (data, ty))))))"

definition fetch_json :: "fetch_env \<Rightarrow> federation_agent \<Rightarrow> string \<Rightarrow> string option \<Rightarrow> (fetch_error, json) exchange" where
  "fetch_json E A url accept =
     bnd (lift (create_fetcher_client E A url RedirectFollow)) (\<lambda>c.
     bnd (lift (ok_or (FeUnsafeUrl url) (build_http_request (fe_uris E) (fe_net E) A ''GET'' url))) (\<lambda>r.
     bnd (send_request (fe_servers E) c
            (add_header ''accept'' (case accept of Some a \<Rightarrow> a | None \<Rightarrow> ''application/json'') r) FeRequest) (\<lambda>response.
     if is_error_status (rs_status response) then throw FeRequest
     else lift
       (obind (ok_or FeResponseTooLarge (limited_response response (fa_response_size_limit A))) (\<lambda>data.
        ok_or (FeJsonParse (rs_url response)) (json_from_slice (fe_net E) data))))))"

section \<open>Fetched objects\<close>

text \<open>\<open>is_same_origin(...).unwrap_or(false)\<close>.\<close>

definition verify_origin :: "uri_library \<Rightarrow> fetched_object \<Rightarrow> (fetch_error, unit) outcome" where
  "verify_origin L f =
     obind (ok_or (FeNoObjectId (fo_location f)) (string_property (fo_value f) ''id'')) (\<lambda>i.
     if is_same_origin L (fo_location f) i = Ok True then Ok () else Err (FeUnexpectedObjectId (fo_location f)))"

text \<open>The entries are visited in the order of the map.\<close>

fun fragment_in :: "string \<Rightarrow> json \<Rightarrow> json option"
  and fragment_in_entries :: "string \<Rightarrow> json \<Rightarrow> (string \<times> json) list \<Rightarrow> json option" where
  "fragment_in i (JObject kvs) = fragment_in_entries i (JObject kvs) kvs"
| "fragment_in i _ = None"
| "fragment_in_entries i doc [] = None"
| "fragment_in_entries i doc ((k, v) # kvs) =
     (if k = ''id'' \<and> json_str v = Some i then Some doc
      else case fragment_in i v of Some f \<Rightarrow> Some f | None \<Rightarrow> fragment_in_entries i doc kvs)"

definition extract_fragment :: "net_library \<Rightarrow> fetched_object \<Rightarrow> (fetch_error, json) outcome" where
  "extract_fragment N f =
     obind (ok_or (FeNoObjectId (fo_location f)) (string_property (fo_value f) ''id'')) (\<lambda>i.
     case url_fragment N (fo_location f) of
       Some fragment_id \<Rightarrow> ok_or (FeNotFound (fo_location f)) (fragment_in (i @ ''#'' @ fragment_id) (fo_value f))
     | None \<Rightarrow> Ok (fo_value f))"

section \<open>Portable objects\<close>

definition verify_portable_object :: "crypto \<Rightarrow> uri_library \<Rightarrow> json \<Rightarrow> (portable_error, ap_uri) outcome" where
  "verify_portable_object C L v =
     obind (ok_or (PeInvalidObjectId '''id' property not found'') (string_property v ''id'')) (\<lambda>i.
     obind (map_err PeInvalidObjectId (canonical_parse L i)) (\<lambda>canonical. case canonical of
       CuHttp _ \<Rightarrow> Err PeNotPortable
     | CuAp uri \<Rightarrow>
         obind (map_err (\<lambda>e. if e = JsNoProof then PeNoProof else PeJsonSignature e) (get_json_signature C L v)) (\<lambda>d.
         case js_verification_method d of
           VmHttp _ \<Rightarrow> Err PeInvalidVerificationMethod
         | VmAp _ \<Rightarrow> Err PeInvalidVerificationMethod
         | VmDid u \<Rightarrow>
             if du_did u \<noteq> au_authority uri then Err PeUnexpectedSigner
             else if js_proof_type d \<noteq> EddsaJcsSignature then Err PeUnexpectedProofType
             else obind (ok_or PeInvalidVerificationMethod (as_did_key (du_did u))) (\<lambda>k.
               obind (map_err (\<lambda>_. PeInvalidVerificationMethod) (try_ed25519_key (ed25519_key_ok L) k)) (\<lambda>key.
               obind (map_err PeJsonSignature
                 (verify_eddsa_json_signature C key (js_object d) (js_proof_config d) (js_signature d))) (\<lambda>_.
               Ok uri))))))"

definition verify_fetched_object ::
  "crypto \<Rightarrow> uri_library \<Rightarrow> fetched_object \<Rightarrow> string list \<Rightarrow> (fetch_error, unit) outcome" where
  "verify_fetched_object C L f trusted_origins = (case verify_portable_object C L (fo_value f) of
      Ok _ \<Rightarrow> Ok ()
    | Err (PeInvalidObjectId _) \<Rightarrow> Err FeUrl
    | Err PeNotPortable \<Rightarrow> verify_origin L f
    | Err PeNoProof \<Rightarrow>
        if list_ex (\<lambda>o'. is_same_http_origin L (fo_location f) o' = Ok True) trusted_origins then Ok ()
        else Err (FeUnexpectedObjectId (fo_location f))
    | Err e \<Rightarrow> Err (FeInvalidProof e)
    | Panic m \<Rightarrow> Panic m)"

section \<open>Delivery\<close>

definition deliver_request ::
  "fetch_env \<Rightarrow> federation_agent \<Rightarrow> string \<Rightarrow> string \<Rightarrow> header_map \<Rightarrow> http_request option" where
  "deliver_request E A inbox body extra =
     Option.bind (build_http_request (fe_uris E) (fe_net E) A ''POST'' inbox) (\<lambda>r.
     let r' = add_header ''content-type'' ap_media_type r in
     Option.bind (case fa_signer A of
         None \<Rightarrow> Some r'
       | Some signer \<Rightarrow> (case sign_http_request (fe_signing E) (fe_uris E) r' ''POST'' inbox (Some body) signer (fa_rfc9421_enabled A) of
             Ok x \<Rightarrow> Some x | _ \<Rightarrow> None)) (\<lambda>signed.
     Some ((foldl (\<lambda>x (k, v). add_header k v x) signed extra)\<lparr>rq_body := Some body\<rparr>)))"

text \<open>The end of an exchange as the delivery worker sees it.\<close>

definition deliver_object ::
  "fetch_env \<Rightarrow> federation_agent \<Rightarrow> string \<Rightarrow> json \<Rightarrow> header_map \<Rightarrow> http_exchange \<times> http_request list" where
  "deliver_object E A inbox v extra =
     (case Option.bind (url_host (fe_net E) inbox) (\<lambda>host.
           Option.bind (create_http_client (fe_net E) A host (fa_deliverer_timeout A) RedirectNone) (\<lambda>c.
           Option.bind (json_to_text (fe_net E) v) (\<lambda>body.
           Option.bind (deliver_request E A inbox body extra) (\<lambda>r. Some (c, r))))) of
        None \<Rightarrow> (ExchangeFailed, [])
      | Some (c, r) \<Rightarrow> (case fe_servers E c r of
            None \<Rightarrow> (ExchangeFailed, [r])
          | Some response \<Rightarrow>
              ((if limited_response response (fa_response_size_limit A) = None then ResponseTooLarge
                else Responded (rs_status response)), [r])))"

end
