(* ===== verification/ApClient.thy ===== *)
theory ApClient
  imports FederationClient FilterRules Validators Accounts Emojis ActivitypubStore MediaFiles OutgoingQueue Timelines
begin

text \<open>
  The client the importers and handlers work with (\<open>mitra_activitypub/src/importers.rs\<close>): filtered and
  authenticated fetching, gateways of portable objects, WebFinger (\<open>webfinger.rs\<close>, \<open>apx_sdk/src/addresses.rs\<close>,
  \<open>jrd.rs\<close>), and the lookup of actors and posts by identifier. The other servers, the file storage, the
  clocks and generators are fields of the environment \<open>ap_env\<close>; a generated identifier may depend on the
  state it is generated in.
\<close>

section \<open>Errors\<close>

datatype handler_error = HeLocalObject | HeFetch fetch_error | HeValidation string | HeDatabase database_error
  | HeStorage | HeService string | HeFiltered string

type_synonym 'a hand = "(database, handler_error, 'a) prog"

definition in_db :: "'a db \<Rightarrow> 'a hand" where
  "in_db m = map_err_p HeDatabase m"

definition validate :: "(string, 'a) outcome \<Rightarrow> 'a hand" where
  "validate r = lift (map_err HeValidation r)"

definition deserialized :: "'a option \<Rightarrow> 'a hand" where
  "deserialized x = lift (ok_or (HeValidation ''deserialization error'') x)"

text \<open>\<open>match q.await { Ok(x) => f(x), Err(NotFound(_)) => g, Err(e) => return Err(e.into()) }\<close>.\<close>

definition found_or :: "'a db \<Rightarrow> ('a \<Rightarrow> 'b hand) \<Rightarrow> 'b hand \<Rightarrow> 'b hand" where
  "found_or q f g = match_result q f (\<lambda>e. case e of NotFound _ \<Rightarrow> g | _ \<Rightarrow> throw (HeDatabase e))"

lemma in_db_Ok [ok_runs]: "in_db m s = (Ok a, t) \<longleftrightarrow> m s = (Ok a, t)"
  by (simp add: in_db_def ok_runs)

lemma validate_Ok [ok_runs]: "validate r s = (Ok a, t) \<longleftrightarrow> r = Ok a \<and> t = s"
  by (simp add: validate_def ok_runs)

lemma deserialized_Ok [ok_runs]: "deserialized x s = (Ok a, t) \<longleftrightarrow> x = Some a \<and> t = s"
  by (simp add: deserialized_def ok_runs)

lemma found_or_Ok [ok_runs]:
  "found_or q f g s = (Ok b, t) \<longleftrightarrow> (\<exists>a u. q s = (Ok a, u) \<and> f a u = (Ok b, t))
     \<or> (\<exists>what u. q s = (Err (NotFound what), u) \<and> g u = (Ok b, t))"
  by (auto simp: found_or_def match_result_def ok_runs split: database_error.splits prod.splits outcome.splits)

section \<open>Environment and client\<close>

record ap_env =
  ev_ext :: externals
  ev_fetch :: fetch_env
  ev_wildmatch :: wildmatch
  ev_uuids :: uuid_format
  ev_text :: text_library
  ev_save_file :: "bytes \<Rightarrow> string \<Rightarrow> file_info option"
  ev_fresh :: "string \<Rightarrow> database \<Rightarrow> uuid" \<comment> \<open>generated identifiers, by purpose\<close>
  ev_lowercase :: "string \<Rightarrow> string"
  ev_language :: "string \<Rightarrow> string option" \<comment> \<open>\<open>parse_language_tag\<close>\<close>
  ev_language_code :: "string \<Rightarrow> string option" \<comment> \<open>\<open>Language::to_639_1\<close>\<close>

definition uris :: "ap_env \<Rightarrow> uri_library" where
  "uris V = fe_uris (ev_fetch V)"

definition cryptography :: "ap_env \<Rightarrow> crypto" where
  "cryptography V = sc_crypto (fe_signing (ev_fetch V))"

record ap_client =
  ac_instance_uri :: http_uri
  ac_webfinger_hostname :: string
  ac_agent :: federation_agent
  ac_filter :: federation_filter
  ac_recursion_limit :: nat
  ac_fep_1b12_full_enabled :: bool
  ac_fep_171b_public_enabled :: bool
  ac_attachment_limit :: nat
  ac_file_size_limit :: nat
  ac_emoji_size_limit :: nat
  ac_profile_image_size_limit :: nat
  ac_media_types :: "string list"

definition client_authority :: "ap_client \<Rightarrow> authority" where
  "client_authority K = authority_server (ac_instance_uri K)"

definition is_local_id :: "ap_env \<Rightarrow> ap_client \<Rightarrow> string \<Rightarrow> bool" where
  "is_local_id V K i \<longleftrightarrow> is_local_origin (uris V) (http_hostname (ac_instance_uri K)) i"

definition action_required :: "ap_env \<Rightarrow> ap_client \<Rightarrow> string \<Rightarrow> filter_action \<Rightarrow> bool" where
  "action_required V K hostname act \<longleftrightarrow> is_action_required (ev_wildmatch V) (ac_filter K) hostname act"

section \<open>Fetching\<close>

definition fetch_object_raw :: "ap_env \<Rightarrow> ap_client \<Rightarrow> string \<Rightarrow> (fetch_error, fetched_object) outcome" where
  "fetch_object_raw V K i = fst (FederationClient.fetch_object (ev_fetch V) (ac_agent K) i False [])"

definition client_fetch_media ::
  "ap_env \<Rightarrow> ap_client \<Rightarrow> string \<Rightarrow> string list \<Rightarrow> nat \<Rightarrow> (fetch_error, bytes \<times> string) outcome" where
  "client_fetch_media V K url allowed limit = fst (fetch_media (ev_fetch V) (ac_agent K) url allowed limit [])"

text \<open>\<open>ApClient::fetch_object\<close>; the caller deserializes the value.\<close>

definition client_fetch :: "ap_env \<Rightarrow> ap_client \<Rightarrow> string \<Rightarrow> (handler_error, json) outcome" where
  "client_fetch V K i =
     obind (map_err (\<lambda>_. HeValidation ''invalid HTTP URI'') (http_uri_parse (uris V) i)) (\<lambda>u.
     if action_required V K (http_hostname u) FaReject then Err (HeFiltered (''request blocked: '' @ i))
     else obind (map_err HeFetch (fetch_object_raw V K i)) (\<lambda>f.
       obind (map_err HeFetch (verify_fetched_object (cryptography V) (uris V) f [])) (\<lambda>_.
       obind (map_err HeFetch (extract_fragment (fe_net (ev_fetch V)) f)) (\<lambda>v.
       obind (map_err HeValidation (get_object_id v)) (\<lambda>oid.
       if is_local_id V K oid then Err HeLocalObject else Ok v)))))"

definition fetch_value :: "ap_env \<Rightarrow> ap_client \<Rightarrow> string \<Rightarrow> json hand" where
  "fetch_value V K i = lift (client_fetch V K i)"

section \<open>Gateways\<close>

text \<open>A \<open>FetcherContext\<close> is its list of gateways.\<close>

definition remove_gateway :: "string \<Rightarrow> string list \<Rightarrow> string list" where
  "remove_gateway url gs = filter (\<lambda>g. g \<noteq> url) gs"

definition add_gateways :: "string list \<Rightarrow> string list \<Rightarrow> string list" where
  "add_gateways news gs = foldr (\<lambda>g acc. if g \<in> set acc then acc else g # acc) news gs"

definition prepare_object_id ::
  "uri_library \<Rightarrow> string list \<Rightarrow> string \<Rightarrow> (fetch_error, string \<times> string list) outcome" where
  "prepare_object_id L gs i =
     obind (map_err (\<lambda>_. FeUrl) (non_canonical_parse L i)) (\<lambda>n. case n of
       NcHttp h \<Rightarrow> Ok (http_uri_to_string h, gs)
     | NcAp gateway a \<Rightarrow>
         let gs' = add_gateways ((case gateway of Some g \<Rightarrow> [http_uri_to_string g] | None \<Rightarrow> []) @ ap_gateways L a) gs in
         (case gs' of
            [] \<Rightarrow> Err FeNoGateway
          | g # _ \<Rightarrow> obind (map_err (\<lambda>_. FeUrl) (http_uri_parse L g)) (\<lambda>u.
              Ok (non_canonical_to_string L (NcAp (Some u) a), gs'))))"

section \<open>WebFinger\<close>

record webfinger_address =
  wa_username :: string
  wa_hostname :: string

definition webfinger_username_char :: "char \<Rightarrow> bool" where
  "webfinger_username_char c \<longleftrightarrow> is_alnum c \<or> c \<in> {CHR ''-'', CHR ''.'', CHR ''_'', CHR ''~'', CHR ''%''}"

text \<open>The expression is anchored; the host name has the classes of \<open>validate_hostname\<close>.\<close>

definition webfinger_parse :: "string \<Rightarrow> webfinger_address option" where
  "webfinger_parse v =
     (let username = takeWhile (\<lambda>c. c \<noteq> CHR ''@'') v in
      case drop (length username) v of
        (CHR ''@'') # hostname \<Rightarrow>
          if username \<noteq> [] \<and> list_all webfinger_username_char username \<and> hostname_matches hostname
          then Some \<lparr>wa_username = username, wa_hostname = hostname\<rparr> else None
      | _ \<Rightarrow> None)"

definition webfinger_to_string :: "webfinger_address \<Rightarrow> string" where
  "webfinger_to_string a = wa_username a @ ''@'' @ wa_hostname a"

definition from_handle :: "string \<Rightarrow> webfinger_address option" where
  "from_handle h = webfinger_parse (case strip_prefix ''@'' h of Some r \<Rightarrow> r | None \<Rightarrow> h)"

definition webfinger_handle :: "webfinger_address \<Rightarrow> string" where
  "webfinger_handle a = ''@'' @ webfinger_to_string a"

definition short_address :: "webfinger_address \<Rightarrow> string \<Rightarrow> string" where
  "short_address a local_hostname =
     (if wa_hostname a = local_hostname then wa_username a else webfinger_to_string a)"

definition to_acct_uri :: "webfinger_address \<Rightarrow> string" where
  "to_acct_uri a = ''acct:'' @ webfinger_to_string a"

definition from_acct_uri :: "string \<Rightarrow> webfinger_address option" where
  "from_acct_uri uri = Option.bind (strip_prefix ''acct:'' uri) webfinger_parse"

definition endpoint_uri :: "webfinger_address \<Rightarrow> string" where
  "endpoint_uri a = guess_protocol (wa_hostname a) @ ''://'' @ wa_hostname a @ ''/.well-known/webfinger''"

definition resource_uri :: "uri_library \<Rightarrow> webfinger_address \<Rightarrow> string" where
  "resource_uri L a = endpoint_uri a @ ''?resource='' @ url_encode L (to_acct_uri a)"

record jrd_link =
  jl_rel :: string
  jl_media_type :: "string option"
  jl_href :: "string option"
  jl_properties :: "(string \<times> string) list"

record jrd =
  jrd_subject :: string
  jrd_links :: "jrd_link list"

text \<open>\<open>Option<HashMap<String, String>>\<close>.\<close>

definition json_opt_string_map :: "json option \<Rightarrow> (string \<times> string) list option" where
  "json_opt_string_map v = (case v of
      None \<Rightarrow> Some []
    | Some JNull \<Rightarrow> Some []
    | Some (JObject kvs) \<Rightarrow> those (map (\<lambda>(k, x). map_option (Pair k) (json_str x)) kvs)
    | Some _ \<Rightarrow> None)"

definition jrd_link_from_value :: "json \<Rightarrow> jrd_link option" where
  "jrd_link_from_value v =
     Option.bind (Option.bind (json_field v ''rel'') json_str) (\<lambda>rel'.
     Option.bind (json_opt_str (json_field v ''type'')) (\<lambda>ty.
     Option.bind (json_opt_str (json_field v ''href'')) (\<lambda>href.
     Option.bind (json_opt_str (json_field v ''template'')) (\<lambda>_.
     Option.bind (json_opt_string_map (json_field v ''properties'')) (\<lambda>props.
     Some \<lparr>jl_rel = rel', jl_media_type = ty, jl_href = href, jl_properties = props\<rparr>)))))"

definition jrd_from_value :: "json \<Rightarrow> jrd option" where
  "jrd_from_value v =
     Option.bind (Option.bind (json_field v ''subject'') json_str) (\<lambda>subject.
     Option.bind (Option.bind (json_field v ''links'') (json_vec jrd_link_from_value)) (\<lambda>links.
     Some \<lparr>jrd_subject = subject, jrd_links = links\<rparr>))"

definition ap_type_property :: string where
  "ap_type_property = ''https://www.w3.org/ns/activitystreams#type''"

definition actor_links :: "jrd \<Rightarrow> jrd_link list" where
  "actor_links j = filter (\<lambda>l. jl_rel l = ''self'' \<and> jl_media_type l \<in> {Some ap_media_type, Some as_media_type}) (jrd_links j)"

definition actor_id_for_type :: "jrd \<Rightarrow> string \<Rightarrow> string option" where
  "actor_id_for_type j preferred =
     Option.bind (or_else (find (\<lambda>l. map_of (jl_properties l) ap_type_property = Some preferred) (actor_links j))
       (case actor_links j of [] \<Rightarrow> None | l # _ \<Rightarrow> Some l)) jl_href"

definition jrd_actor_id :: "jrd \<Rightarrow> string option" where
  "jrd_actor_id j = actor_id_for_type j ''Group''"

definition fetch_webfinger_jrd :: "ap_env \<Rightarrow> federation_agent \<Rightarrow> webfinger_address \<Rightarrow> (handler_error, json) outcome" where
  "fetch_webfinger_jrd V A a =
     map_err HeFetch (fst (fetch_json (ev_fetch V) A (resource_uri (uris V) a) (Some ''application/jrd+json'') []))"

definition deserialize_jrd :: "json \<Rightarrow> (handler_error, jrd) outcome" where
  "deserialize_jrd v = ok_or (HeValidation ''deserialization error'') (jrd_from_value v)"

definition perform_webfinger_query ::
  "ap_env \<Rightarrow> federation_agent \<Rightarrow> webfinger_address \<Rightarrow> (handler_error, string) outcome" where
  "perform_webfinger_query V A a =
     obind (fetch_webfinger_jrd V A a) (\<lambda>v.
     obind (deserialize_jrd v) (\<lambda>j.
     ok_or (HeValidation ''actor ID is not found in JRD'') (jrd_actor_id j)))"

definition perform_reverse_webfinger_query ::
  "ap_env \<Rightarrow> federation_agent \<Rightarrow> string \<Rightarrow> http_uri \<Rightarrow> (handler_error, string) outcome" where
  "perform_reverse_webfinger_query V A username actor_uri =
     (let server_hostname = http_hostname actor_uri in
      obind (fetch_webfinger_jrd V A \<lparr>wa_username = username, wa_hostname = server_hostname\<rparr>) (\<lambda>v.
      obind (deserialize_jrd v) (\<lambda>j.
      obind (ok_or (HeValidation ''invalid JRD subject'') (from_acct_uri (jrd_subject j))) (\<lambda>discovered.
      if wa_username discovered \<noteq> username then Err (HeValidation ''username mismatch'')
      else if wa_hostname discovered \<noteq> server_hostname then
        (if \<not> is_same_apex_domain server_hostname (wa_hostname discovered)
         then Err (HeValidation ''discovered address has unexpected hostname'')
         else obind (perform_webfinger_query V A discovered) (\<lambda>discovered_id.
           if discovered_id \<noteq> http_uri_to_string actor_uri then Err (HeValidation ''unexpected actor ID in JRD'')
           else Ok (wa_hostname discovered)))
      else Ok (wa_hostname discovered)))))"

section \<open>Actors and posts by identifier\<close>

definition get_profile_by_actor_id :: "ap_env \<Rightarrow> authority \<Rightarrow> string \<Rightarrow> actor_profile db" where
  "get_profile_by_actor_id V a i = (case parse_local_actor_id (uris V) (ev_uuids V) a i of
      Ok (IdUuid uid) \<Rightarrow> bnd (get_user_by_id (ev_ext V) uid) (\<lambda>u. ret (user_profile u))
    | Ok (IdUsername name) \<Rightarrow> bnd (get_user_by_name (ev_ext V) name) (\<lambda>u. ret (user_profile u))
    | _ \<Rightarrow> get_remote_profile_by_actor_id (ev_ext V) i)"

definition get_user_by_actor_id :: "ap_env \<Rightarrow> authority \<Rightarrow> string \<Rightarrow> user db" where
  "get_user_by_actor_id V a i = (case parse_local_actor_id (uris V) (ev_uuids V) a i of
      Ok (IdUuid uid) \<Rightarrow> get_user_by_id (ev_ext V) uid
    | Ok (IdUsername name) \<Rightarrow> get_user_by_name (ev_ext V) name
    | _ \<Rightarrow> throw (NotFound ''user''))"

definition get_managed_account_by_actor_id :: "ap_env \<Rightarrow> authority \<Rightarrow> string \<Rightarrow> managed_account db" where
  "get_managed_account_by_actor_id V a i = (case parse_local_actor_id (uris V) (ev_uuids V) a i of
      Ok (IdUuid uid) \<Rightarrow> get_managed_account_by_id (ev_ext V) uid
    | Ok (IdUsername name) \<Rightarrow> get_managed_account_by_username (ev_ext V) name
    | _ \<Rightarrow> throw (NotFound ''user''))"

definition get_post_by_object_id :: "ap_env \<Rightarrow> authority \<Rightarrow> string \<Rightarrow> post_detailed db" where
  "get_post_by_object_id V a i = (case parse_local_object_id (uris V) (ev_uuids V) a i of
      Ok pid \<Rightarrow> get_local_post_by_id (ev_ext V) pid
    | _ \<Rightarrow> get_remote_post_by_object_id (ev_ext V) i)"

text \<open>\<open>canonicalize_id(...)?.to_string()\<close>.\<close>

definition canonical_id :: "ap_env \<Rightarrow> string \<Rightarrow> string hand" where
  "canonical_id V i = validate (obind (canonicalize_id (uris V) i) (\<lambda>c. Ok (canonical_to_string (uris V) c)))"

lemma canonical_id_Ok [ok_runs]:
  "canonical_id V i s = (Ok x, t) \<longleftrightarrow> t = s \<and>
     (\<exists>c. canonicalize_id (uris V) i = Ok c \<and> x = canonical_to_string (uris V) c)"
  by (auto simp: canonical_id_def ok_runs)

end
