(* ===== verification/RemoteActors.thy ===== *)
theory RemoteActors
  imports ApClient
begin

text \<open>
  Remote actors (\<open>mitra_activitypub/src/actors/handlers.rs\<close>, \<open>actors/attachments.rs\<close>, \<open>keys.rs\<close>,
  \<open>handlers/proposal.rs\<close>, \<open>handlers/emoji.rs\<close>): an actor document is read, its keys, images, payment options,
  fields, aliases and emojis are checked, and a profile is created or updated.
\<close>

section \<open>Values of derived structs\<close>

definition json_required_str :: "json \<Rightarrow> string \<Rightarrow> string option" where
  "json_required_str v k = Option.bind (json_field v k) json_str"

definition json_optional_str :: "json \<Rightarrow> string \<Rightarrow> string option option" where
  "json_optional_str v k = json_opt_str (json_field v k)"

definition of_outcome :: "('e, 'a) outcome \<Rightarrow> 'a option" where
  "of_outcome r = (case r of Ok a \<Rightarrow> Some a | _ \<Rightarrow> None)"

definition is_object_type :: "json \<Rightarrow> string \<Rightarrow> bool" where
  "is_object_type v ty \<longleftrightarrow> string_property v ''type'' = Some ty"

section \<open>Emojis\<close>

record emoji_tag =
  et_id :: "string option"
  et_name :: string
  et_icon_url :: string
  et_updated :: datetime

definition emoji_from_value :: "crypto \<Rightarrow> json \<Rightarrow> emoji_tag option" where
  "emoji_from_value C v =
     Option.bind (json_optional_str v ''id'') (\<lambda>i.
     Option.bind (json_required_str v ''name'') (\<lambda>name.
     Option.bind (json_optional_str v ''alternateName'') (\<lambda>_.
     Option.bind (Option.bind (json_field v ''icon'') (\<lambda>icon. json_required_str icon ''url'')) (\<lambda>url.
     Option.bind (case json_field v ''updated'' of None \<Rightarrow> Some 0 | Some x \<Rightarrow> Option.bind (json_str x) (read_rfc3339 C)) (\<lambda>updated.
     Some \<lparr>et_id = i, et_name = name, et_icon_url = url, et_updated = updated\<rparr>)))))"

definition emoji_remote_media_types :: "string list" where
  "emoji_remote_media_types =
     [''image/apng'', ''image/avif'', ''image/gif'', ''image/jpeg'', ''image/png'', ''image/webp'']"

text \<open>\<open>save_file\<close>, or a link when the media of the host are proxied.\<close>

definition store_media :: "ap_env \<Rightarrow> bool \<Rightarrow> bytes \<Rightarrow> string \<Rightarrow> string \<Rightarrow> media_info hand" where
  "store_media V proxied data media_type url =
     (if proxied then ret (MiLink media_type url)
      else bnd (lift (ok_or HeStorage (ev_save_file V data media_type))) (\<lambda>f. ret (MiFile f (Some url))))"

definition enqueue_deletion :: "ap_env \<Rightarrow> deletion_queue \<Rightarrow> unit hand" where
  "enqueue_deletion V q = bnd (gets (ev_fresh V ''job'')) (\<lambda>jid. in_db (deletion_queue_into_job jid q))"

definition emoji_host :: "ap_env \<Rightarrow> string \<Rightarrow> string option" where
  "emoji_host V object_id = (case http_uri_parse (uris V) object_id of
      Ok u \<Rightarrow> if is_ok (validate_hostname (ev_text V) (http_hostname u)) then Some (http_hostname u) else None
    | _ \<Rightarrow> None)"

definition save_emoji ::
  "ap_env \<Rightarrow> ap_client \<Rightarrow> string \<Rightarrow> string \<Rightarrow> string \<Rightarrow> string \<Rightarrow> emoji_tag \<Rightarrow> uuid option \<Rightarrow> custom_emoji option hand" where
  "save_emoji V K domain object_id name hostname e old =
     (case client_fetch_media V K (et_icon_url e) emoji_remote_media_types (ac_emoji_size_limit K) of
        Ok (data, media_type) \<Rightarrow>
          bnd (store_media V (action_required V K domain FaProxyMedia) data media_type (et_icon_url e)) (\<lambda>img.
          bnd (case old of
              Some eid \<Rightarrow> in_db (update_remote_emoji eid img (et_updated e))
            | None \<Rightarrow> bnd (gets (ev_fresh V ''emoji'')) (\<lambda>eid.
                in_db (create_or_update_remote_emoji eid name hostname img object_id (et_updated e)))) (\<lambda>(emoji, queue).
          seq (enqueue_deletion V queue) (ret (Some emoji))))
      | Err _ \<Rightarrow> ret None
      | Panic m \<Rightarrow> panic m)"

definition handle_emoji :: "ap_env \<Rightarrow> ap_client \<Rightarrow> string \<Rightarrow> json \<Rightarrow> custom_emoji option hand" where
  "handle_emoji V K domain tag_value = (case emoji_from_value (cryptography V) tag_value of
      None \<Rightarrow> ret None
    | Some e \<Rightarrow>
        let object_id = (case et_id e of Some i \<Rightarrow> i | None \<Rightarrow> et_icon_url e);
            name = clean_emoji_name (et_name e) in
        if \<not> is_ok (validate_object_id (uris V) object_id) \<or> \<not> is_ok (validate_emoji_name name OriginRemote) then ret None
        else (case emoji_host V object_id of
            None \<Rightarrow> ret None
          | Some hostname \<Rightarrow>
              if \<not> is_ok (validate_media_url (uris V) (et_icon_url e)) then ret None
              else if action_required V K domain FaRejectCustomEmojis then ret None
              else found_or (get_remote_emoji_by_object_id object_id)
                (\<lambda>emoji. if em_updated_at emoji \<ge> et_updated e then ret (Some emoji)
                  else if em_name emoji \<noteq> name then ret None
                  else save_emoji V K domain object_id name hostname e (Some (em_id emoji)))
                (save_emoji V K domain object_id name hostname e None)))"

section \<open>Keys\<close>

record public_key_pem =
  pkp_id :: string
  pkp_owner :: string
  pkp_public_key_pem :: string

record multikey =
  mk_id :: string
  mk_controller :: string
  mk_public_key_multibase :: string

definition public_key_pem_from_value :: "json \<Rightarrow> public_key_pem option" where
  "public_key_pem_from_value v =
     Option.bind (json_required_str v ''id'') (\<lambda>i.
     Option.bind (json_required_str v ''owner'') (\<lambda>owner.
     Option.bind (json_required_str v ''publicKeyPem'') (\<lambda>pem.
     Some \<lparr>pkp_id = i, pkp_owner = owner, pkp_public_key_pem = pem\<rparr>)))"

definition multikey_from_value :: "json \<Rightarrow> multikey option" where
  "multikey_from_value v =
     Option.bind (json_required_str v ''id'') (\<lambda>i.
     Option.bind (json_required_str v ''type'') (\<lambda>_.
     Option.bind (json_required_str v ''controller'') (\<lambda>controller.
     Option.bind (json_required_str v ''publicKeyMultibase'') (\<lambda>mb.
     Some \<lparr>mk_id = i, mk_controller = controller, mk_public_key_multibase = mb\<rparr>))))"

fun db_key_of :: "string \<Rightarrow> public_key \<Rightarrow> db_actor_key" where
  "db_key_of i (PkRsa key) = \<lparr>dk_id = i, dk_key_type = RsaPkcs1, dk_key_data = key\<rparr>"
| "db_key_of i (PkEd25519 key) = \<lparr>dk_id = i, dk_key_type = Ed25519Key, dk_key_data = key\<rparr>"

definition to_db_key :: "uri_library \<Rightarrow> string \<Rightarrow> public_key \<Rightarrow> (string, db_actor_key) outcome" where
  "to_db_key L key_id key =
     obind (canonicalize_id L key_id) (\<lambda>c. Ok (db_key_of (canonical_to_string L c) key))"

definition pem_to_db_key :: "ap_env \<Rightarrow> public_key_pem \<Rightarrow> (string, db_actor_key) outcome" where
  "pem_to_db_key V k =
     obind (public_key_from_pem (cryptography V) (pkp_public_key_pem k)) (to_db_key (uris V) (pkp_id k))"

definition multikey_to_db_key :: "ap_env \<Rightarrow> multikey \<Rightarrow> (string, db_actor_key) outcome" where
  "multikey_to_db_key V k =
     obind (public_key_from_multikey (cryptography V) (uris V) (mk_public_key_multibase k)) (to_db_key (uris V) (mk_id k))"

definition verification_method_to_public_key :: "ap_env \<Rightarrow> json \<Rightarrow> (string, public_key) outcome" where
  "verification_method_to_public_key V v =
     (if is_object_type v ''Multikey''
      then obind (ok_or ''invalid verification method'' (multikey_from_value v))
        (\<lambda>k. public_key_from_multikey (cryptography V) (uris V) (mk_public_key_multibase k))
      else obind (ok_or ''invalid verification method'' (public_key_pem_from_value v))
        (\<lambda>k. public_key_from_pem (cryptography V) (pkp_public_key_pem k)))"

section \<open>Actor documents\<close>

record validated_actor =
  va_id :: string
  va_type :: string
  va_name :: "string option"
  va_preferred_username :: string
  va_inbox :: string
  va_outbox :: string
  va_followers :: "string option"
  va_subscribers :: "string option"
  va_featured :: "string option"
  va_shared_inbox :: "string option"
  va_assertion_method :: "multikey list"
  va_public_key :: "public_key_pem option"
  va_icon :: "string option" \<comment> \<open>the URL of the first image\<close>
  va_image :: "string option"
  va_summary :: "string option"
  va_also_known_as :: "json option"
  va_attachment :: "json list"
  va_manually_approves_followers :: bool
  va_tag :: "json list"
  va_url :: "string option"
  va_gateways :: "string list"

definition image_from_value :: "json \<Rightarrow> string option" where
  "image_from_value v =
     Option.bind (json_required_str v ''type'') (\<lambda>_.
     Option.bind (json_required_str v ''url'') (\<lambda>url.
     Option.bind (json_optional_str v ''mediaType'') (\<lambda>_. Some url)))"

text \<open>An image that does not deserialize is ignored.\<close>

definition deserialize_image_opt :: "json option \<Rightarrow> string option" where
  "deserialize_image_opt v = (case json_opt_value v of
      None \<Rightarrow> None
    | Some x \<Rightarrow> (case parse_into_array image_from_value x of
          Ok (i # _) \<Rightarrow> Some i | _ \<Rightarrow> None))"

definition deserialize_url_opt :: "json option \<Rightarrow> string option option" where
  "deserialize_url_opt v = (case json_opt_value v of
      None \<Rightarrow> Some None
    | Some x \<Rightarrow> map_option (\<lambda>urls. case urls of [] \<Rightarrow> None | u # _ \<Rightarrow> Some u) (of_outcome (parse_into_href_array x)))"

definition endpoints_from_value :: "json option \<Rightarrow> string option option" where
  "endpoints_from_value v = (case json_opt_value v of
      None \<Rightarrow> Some None
    | Some (JObject kvs) \<Rightarrow> json_optional_str (JObject kvs) ''sharedInbox''
    | Some _ \<Rightarrow> None)"

definition optional_from_value :: "(json \<Rightarrow> 'a option) \<Rightarrow> json option \<Rightarrow> 'a option option" where
  "optional_from_value decode v = (case json_opt_value v of
      None \<Rightarrow> Some None
    | Some x \<Rightarrow> map_option Some (decode x))"

definition object_array_field :: "(json \<Rightarrow> 'a option) \<Rightarrow> json \<Rightarrow> string \<Rightarrow> 'a list option" where
  "object_array_field decode v k = of_outcome (deserialize_object_array decode (json_field v k))"

definition actor_from_value :: "json \<Rightarrow> validated_actor option" where
  "actor_from_value v =
     Option.bind (json_required_str v ''id'') (\<lambda>i.
     Option.bind (json_required_str v ''type'') (\<lambda>ty.
     Option.bind (json_optional_str v ''name'') (\<lambda>name.
     Option.bind (json_required_str v ''preferredUsername'') (\<lambda>username.
     Option.bind (json_required_str v ''inbox'') (\<lambda>inbox.
     Option.bind (json_required_str v ''outbox'') (\<lambda>outbox.
     Option.bind (json_optional_str v ''followers'') (\<lambda>followers.
     Option.bind (json_optional_str v ''subscribers'') (\<lambda>subscribers.
     Option.bind (of_outcome (deserialize_into_object_id_opt (json_field v ''featured''))) (\<lambda>featured.
     Option.bind (endpoints_from_value (json_field v ''endpoints'')) (\<lambda>shared_inbox.
     Option.bind (object_array_field multikey_from_value v ''assertionMethod'') (\<lambda>keys.
     Option.bind (optional_from_value public_key_pem_from_value (json_field v ''publicKey'')) (\<lambda>key.
     Option.bind (json_optional_str v ''summary'') (\<lambda>summary.
     Option.bind (object_array_field Some v ''attachment'') (\<lambda>attachment.
     Option.bind (json_default_bool (json_field v ''manuallyApprovesFollowers'')) (\<lambda>approves.
     Option.bind (object_array_field Some v ''tag'') (\<lambda>tg.
     Option.bind (deserialize_url_opt (json_field v ''url'')) (\<lambda>url.
     Option.bind (of_outcome (deserialize_string_array (json_field v ''gateways''))) (\<lambda>gateways.
     Some \<lparr>va_id = i, va_type = ty, va_name = name, va_preferred_username = username, va_inbox = inbox,
       va_outbox = outbox, va_followers = followers, va_subscribers = subscribers, va_featured = featured,
       va_shared_inbox = shared_inbox, va_assertion_method = keys, va_public_key = key,
       va_icon = deserialize_image_opt (json_field v ''icon''), va_image = deserialize_image_opt (json_field v ''image''),
       va_summary = summary, va_also_known_as = json_opt_value (json_field v ''alsoKnownAs''),
       va_attachment = attachment, va_manually_approves_followers = approves, va_tag = tg, va_url = url,
       va_gateways = gateways\<rparr>))))))))))))))))))"

record actor =
  act_inner :: validated_actor
  act_value :: json

definition actor_of_value :: "json \<Rightarrow> actor option" where
  "actor_of_value v = map_option (\<lambda>a. \<lparr>act_inner = a, act_value = v\<rparr>) (actor_from_value v)"

definition act_id :: "actor \<Rightarrow> string" where
  "act_id a = va_id (act_inner a)"

definition actor_is_local :: "uri_library \<Rightarrow> uri_origin \<Rightarrow> actor \<Rightarrow> (string, bool) outcome" where
  "actor_is_local L local_origin a =
     obind (map_err (\<lambda>_. ''invalid actor ID'') (canonical_parse L (act_id a))) (\<lambda>c.
     Ok (canonical_origin L c = local_origin))"

definition va_actor_type :: "validated_actor \<Rightarrow> actor_type" where
  "va_actor_type a =
     (if va_type a \<in> {''Application'', ''Service''} then Automated
      else if va_type a = ''Group'' then Group else Person)"

definition canonicalize_opt :: "uri_library \<Rightarrow> string option \<Rightarrow> (string, string option) outcome" where
  "canonicalize_opt L x = (case x of
      None \<Rightarrow> Ok None
    | Some i \<Rightarrow> obind (canonicalize_id L i) (\<lambda>c. Ok (Some (canonical_to_string L c))))"

definition to_db_actor :: "uri_library \<Rightarrow> validated_actor \<Rightarrow> (string, db_actor) outcome" where
  "to_db_actor L a =
     obind (canonicalize_id L (va_id a)) (\<lambda>i.
     obind (canonicalize_id L (va_inbox a)) (\<lambda>inbox.
     obind (canonicalize_id L (va_outbox a)) (\<lambda>outbox.
     obind (canonicalize_opt L (va_followers a)) (\<lambda>followers.
     obind (canonicalize_opt L (va_subscribers a)) (\<lambda>subscribers.
     obind (canonicalize_opt L (va_featured a)) (\<lambda>featured.
     Ok \<lparr>da_object_type = va_type a, da_id = canonical_to_string L i, da_inbox = canonical_to_string L inbox,
        da_shared_inbox = va_shared_inbox a, da_outbox = canonical_to_string L outbox, da_followers = followers,
        da_subscribers = subscribers, da_featured = featured, da_url = va_url a, da_gateways = va_gateways a,
        da_public_key = None\<rparr>))))))"

section \<open>Host names\<close>

definition get_webfinger_hostname ::
  "ap_env \<Rightarrow> ap_client \<Rightarrow> validated_actor \<Rightarrow> bool \<Rightarrow> (handler_error, string option \<times> webfinger_hostname) outcome" where
  "get_webfinger_hostname V K a has_portable =
     obind (map_err (\<lambda>_. HeValidation ''invalid actor ID'') (canonical_parse (uris V) (va_id a))) (\<lambda>c. case c of
       CuHttp u \<Rightarrow>
         (case perform_reverse_webfinger_query V (ac_agent K) (va_preferred_username a) u of
            Ok h \<Rightarrow> Ok (Some (http_hostname u), WfRemote h)
          | Err _ \<Rightarrow> Ok (Some (http_hostname u), WfRemote (http_hostname u))
          | Panic m \<Rightarrow> Panic m)
     | CuAp u \<Rightarrow>
         (case va_gateways a of
            [] \<Rightarrow> Err (HeValidation ''at least one gateway must be specified'')
          | gateway # _ \<Rightarrow>
              obind (map_err (\<lambda>_. HeValidation ''invalid gateway URL'') (http_uri_parse (uris V) gateway)) (\<lambda>g.
              if http_hostname g = http_hostname (ac_instance_uri K)
              then Ok (None, if has_portable then WfLocal else WfUnknown)
              else obind (perform_webfinger_query V (ac_agent K)
                  \<lparr>wa_username = va_preferred_username a, wa_hostname = http_hostname g\<rparr>) (\<lambda>found.
                obind (map_err (\<lambda>_. HeValidation ''invalid actor ID in JRD'') (canonical_parse (uris V) found)) (\<lambda>c'.
                if c' = c then Ok (Some (http_hostname g), WfRemote (http_hostname g))
                else Err (HeValidation ''unexpected actor ID in JRD''))))))"

section \<open>Images\<close>

datatype actor_image_result = ImgSome media_info | ImgNone | ImgError

fun image_ok :: "actor_image_result \<Rightarrow> media_info option" where
  "image_ok (ImgSome m) = Some m"
| "image_ok _ = None"

fun image_ok_or_default :: "actor_image_result \<Rightarrow> partial_media_info option \<Rightarrow> partial_media_info option" where
  "image_ok_or_default (ImgSome m) d = Some (partial_media_of m)"
| "image_ok_or_default ImgNone d = None"
| "image_ok_or_default ImgError d = d"

definition fetch_actor_image :: "ap_env \<Rightarrow> ap_client \<Rightarrow> string \<Rightarrow> string option \<Rightarrow> actor_image_result hand" where
  "fetch_actor_image V K domain img = (case img of
      None \<Rightarrow> ret ImgNone
    | Some url \<Rightarrow>
        if \<not> is_ok (validate_media_url (uris V) url) then ret ImgError
        else if action_required V K domain FaRejectProfileImages then ret ImgNone
        else (case client_fetch_media V K url (allowed_profile_image_media_types (ac_media_types K))
              (ac_profile_image_size_limit K) of
            Ok (data, media_type) \<Rightarrow>
              bnd (store_media V (action_required V K domain FaProxyMedia) data media_type url) (\<lambda>m. ret (ImgSome m))
          | Err _ \<Rightarrow> ret ImgError
          | Panic m \<Rightarrow> panic m))"

section \<open>Keys of an actor\<close>

text \<open>A key counts only if the actor is its owner and both have the same origin.\<close>

definition own_key ::
  "uri_library \<Rightarrow> string \<Rightarrow> string \<Rightarrow> string \<Rightarrow> (string, db_actor_key) outcome \<Rightarrow> (string, db_actor_key list) outcome" where
  "own_key L aid owner key_id key =
     (if owner \<noteq> aid then Ok []
      else obind (is_same_origin L key_id owner) (\<lambda>same.
        if \<not> same then Ok []
        else Ok (case key of Ok k \<Rightarrow> [k] | _ \<Rightarrow> [])))"

definition parse_public_keys :: "ap_env \<Rightarrow> validated_actor \<Rightarrow> (string, db_actor_key list) outcome" where
  "parse_public_keys V a =
     obind (case va_public_key a of
         None \<Rightarrow> Ok []
       | Some k \<Rightarrow> own_key (uris V) (va_id a) (pkp_owner k) (pkp_id k) (pem_to_db_key V k)) (\<lambda>pems.
     obind (try_map (\<lambda>k. own_key (uris V) (va_id a) (mk_controller k) (mk_id k) (multikey_to_db_key V k)) (va_assertion_method a)) (\<lambda>multis.
     Ok (dedup_by_key dk_id (sort_key dk_id (pems @ concat multis)))))"

end
