(* ===== verification/RemoteProfiles.thy ===== *)
theory RemoteProfiles
  imports RemoteActors
begin

text \<open>
  From an actor document to a profile (\<open>mitra_activitypub/src/actors/handlers.rs\<close>, \<open>actors/attachments.rs\<close>,
  \<open>handlers/proposal.rs\<close>) and the resolution of actor identifiers (\<open>importers.rs\<close>): a known remote actor is
  refreshed once a day, an unknown one is fetched and imported.
\<close>

section \<open>Attachments\<close>

text \<open>The verified identity proofs of FEP-c390: the signer is the subject, and the statement names the actor.\<close>

definition identity_proof_type_of ::
  "ap_env \<Rightarrow> did \<Rightarrow> json_signature_data \<Rightarrow> (string, identity_proof_type) outcome" where
  "identity_proof_type_of V signer d =
     (let C = cryptography V; L = uris V;
          eddsa = (\<lambda>ty. obind (ok_or ''unexpected DID type'' (as_did_key signer)) (\<lambda>k.
            obind (map_err (\<lambda>_. ''invalid public key'') (try_ed25519_key (ed25519_key_ok L) k)) (\<lambda>key.
            obind (map_err (\<lambda>_. ''invalid identity proof'')
              (verify_eddsa_json_signature C key (js_object d) (js_proof_config d) (js_signature d))) (\<lambda>_. Ok ty)))) in
      case js_proof_type d of
        JcsBlake2Ed25519Signature \<Rightarrow>
          obind (ok_or ''unexpected DID type'' (as_did_key signer)) (\<lambda>k.
          obind (map_err (\<lambda>_. ''invalid identity proof'')
            (verify_blake2_ed25519_json_signature C k (js_object d) (js_signature d))) (\<lambda>_.
          Ok FepC390JcsBlake2Ed25519Proof))
      | JcsEip191Signature \<Rightarrow>
          obind (ok_or ''unexpected DID type'' (as_did_pkh signer)) (\<lambda>k.
          obind (map_err (\<lambda>_. ''invalid identity proof'')
            (verify_eip191_json_signature C k (js_object d) (js_signature d))) (\<lambda>_.
          Ok FepC390JcsEip191Proof))
      | JcsEddsaSignature \<Rightarrow> eddsa FepC390LegacyJcsEddsaProof
      | EddsaJcsSignature \<Rightarrow> eddsa FepC390EddsaJcsProof
      | JcsRsaSignature \<Rightarrow> Err ''unsupported signature type'')"

definition parse_identity_proof_fep_c390 :: "ap_env \<Rightarrow> string \<Rightarrow> json \<Rightarrow> (string, identity_proof) outcome" where
  "parse_identity_proof_fep_c390 V aid v =
     (let L = uris V in
      obind (ok_or ''invalid FEP-c390 attachment'' (json_required_str v ''type'')) (\<lambda>ty.
      obind (ok_or ''invalid FEP-c390 attachment'' (Option.bind (json_required_str v ''subject'')
        (\<lambda>x. of_outcome (did_from_str (codecs_of L) x)))) (\<lambda>subject.
      obind (ok_or ''invalid FEP-c390 attachment'' (json_required_str v ''alsoKnownAs'')) (\<lambda>aka.
      if ty \<noteq> ''VerifiableIdentityStatement'' then Err ''invalid attachment type''
      else obind (canonicalize_id L aka) (\<lambda>c1. obind (canonicalize_id L aid) (\<lambda>c2.
        if c1 \<noteq> c2 then Err ''actor ID mismatch''
        else obind (map_err (\<lambda>_. ''invalid proof'') (get_json_signature (cryptography V) L v)) (\<lambda>d.
          case js_verification_method d of
            VmDid u \<Rightarrow>
              if du_did u \<noteq> subject then Err ''subject mismatch''
              else obind (identity_proof_type_of V (du_did u) d) (\<lambda>pt.
                Ok \<lparr>ip_issuer = did_to_string (codecs_of L) (du_did u), ip_proof_type = pt, ip_value = v\<rparr>)
          | _ \<Rightarrow> Err ''unsupported verification method'')))))))"

datatype link_attachment = LaPaymentLink string string | LaProposal string string | LaOther extra_field

definition checked_field :: "text_library \<Rightarrow> string \<Rightarrow> string \<Rightarrow> (string, extra_field) outcome" where
  "checked_field W name v =
     (let f = clean_extra_field W \<lparr>ef_name = name, ef_value = v, ef_value_source = None\<rparr> in
      obind (validate_extra_field W f) (\<lambda>_. Ok f))"

definition valueflows_proposal_rel :: string where
  "valueflows_proposal_rel = ''https://w3id.org/valueflows/ont/vf#'' @ ''Proposal''"

definition parse_link :: "text_library \<Rightarrow> json \<Rightarrow> (string, link_attachment) outcome" where
  "parse_link W v =
     obind (ok_or ''invalid link attachment'' (json_required_str v ''name'')) (\<lambda>name.
     obind (ok_or ''invalid link attachment'' (json_required_str v ''href'')) (\<lambda>href.
     obind (map_err (\<lambda>_. ''invalid link attachment'') (deserialize_string_array (json_field v ''rel''))) (\<lambda>rels.
     if ''payment'' \<in> set rels then
       Ok (if valueflows_proposal_rel \<in> set rels then LaProposal name href else LaPaymentLink name href)
     else obind (checked_field W name href) (\<lambda>f. Ok (LaOther f)))))"

definition parse_property_value :: "text_library \<Rightarrow> json \<Rightarrow> (string, extra_field) outcome" where
  "parse_property_value W v =
     obind (ok_or ''invalid attachment'' (json_required_str v ''type'')) (\<lambda>ty.
     obind (ok_or ''invalid attachment'' (json_required_str v ''name'')) (\<lambda>name.
     obind (ok_or ''invalid attachment'' (json_required_str v ''value'')) (\<lambda>x.
     if ty \<noteq> ''PropertyValue'' then Err ''invalid attachment type'' else checked_field W name x)))"

definition parse_metadata_field :: "text_library \<Rightarrow> json \<Rightarrow> (string, extra_field) outcome" where
  "parse_metadata_field W v =
     obind (ok_or ''invalid metadata field'' (json_required_str v ''name'')) (\<lambda>name.
     obind (ok_or ''invalid metadata field'' (json_required_str v ''content'')) (\<lambda>x. checked_field W name x))"

record actor_attachments =
  aa_identity_proofs :: "identity_proof list"
  aa_payment_options :: "payment_option list"
  aa_proposals :: "string list"
  aa_extra_fields :: "extra_field list"
  aa_property_values :: "extra_field list"

text \<open>Only the first proposal is kept as one, the others are payment links.\<close>

definition add_attachment :: "ap_env \<Rightarrow> string \<Rightarrow> json \<Rightarrow> actor_attachments \<Rightarrow> actor_attachments" where
  "add_attachment V aid v acc =
     (let W = ev_text V; ty = string_property v ''type'' in
      if ty = Some ''VerifiableIdentityStatement'' then (case parse_identity_proof_fep_c390 V aid v of
          Ok p \<Rightarrow> acc\<lparr>aa_identity_proofs := aa_identity_proofs acc @ [p]\<rparr> | _ \<Rightarrow> acc)
      else if ty = Some ''Link'' then (case parse_link W v of
          Ok (LaPaymentLink name href) \<Rightarrow> acc\<lparr>aa_payment_options := aa_payment_options acc @ [OptLink name href]\<rparr>
        | Ok (LaProposal name href) \<Rightarrow>
            (if aa_proposals acc = [] then acc\<lparr>aa_proposals := [href]\<rparr>
             else acc\<lparr>aa_payment_options := aa_payment_options acc @ [OptLink name href]\<rparr>)
        | Ok (LaOther f) \<Rightarrow> acc\<lparr>aa_extra_fields := aa_extra_fields acc @ [f]\<rparr>
        | _ \<Rightarrow> acc)
      else if ty = Some ''PropertyValue'' then (case parse_property_value W v of
          Ok f \<Rightarrow> acc\<lparr>aa_property_values := aa_property_values acc @ [f]\<rparr> | _ \<Rightarrow> acc)
      else if ty = Some ''Note'' then (case parse_metadata_field W v of
          Ok f \<Rightarrow> acc\<lparr>aa_extra_fields := aa_extra_fields acc @ [f]\<rparr> | _ \<Rightarrow> acc)
      else acc)"

definition add_property_value :: "extra_field \<Rightarrow> extra_field list \<Rightarrow> extra_field list" where
  "add_property_value f fs = (if list_ex (\<lambda>g. ef_name g = ef_name f) fs then fs else fs @ [f])"

definition parse_attachments :: "ap_env \<Rightarrow> validated_actor \<Rightarrow> actor_attachments" where
  "parse_attachments V a =
     (let acc = fold (add_attachment V (va_id a)) (va_attachment a)
        \<lparr>aa_identity_proofs = [], aa_payment_options = [], aa_proposals = [], aa_extra_fields = [], aa_property_values = []\<rparr> in
      acc\<lparr>aa_identity_proofs := dedup_by_key ip_issuer (sort_key ip_issuer (aa_identity_proofs acc)),
          aa_extra_fields := fold add_property_value (aa_property_values acc) (aa_extra_fields acc)\<rparr>)"

section \<open>Proposals\<close>

record quantity =
  q_unit :: string
  q_value :: string

definition quantity_from_value :: "json \<Rightarrow> quantity option" where
  "quantity_from_value v =
     Option.bind (json_required_str v ''hasUnit'') (\<lambda>u.
     Option.bind (json_required_str v ''hasNumericalValue'') (\<lambda>n. Some \<lparr>q_unit = u, q_value = n\<rparr>))"

definition parse_currency_amount :: "(string \<Rightarrow> 'a option) \<Rightarrow> quantity \<Rightarrow> (string, 'a) outcome" where
  "parse_currency_amount from_str q =
     (if q_unit q \<noteq> ''one'' then Err ''unexpected unit'' else ok_or ''invalid quantity'' (from_str (q_value q)))"

definition parse_duration :: "quantity \<Rightarrow> (string, nat) outcome" where
  "parse_duration q =
     (if q_unit q \<noteq> ''second'' then Err ''unexpected time unit'' else ok_or ''invalid quantity'' (parse_u64 (q_value q)))"

record intent =
  in_action :: string
  in_resource_conforms_to :: string
  in_resource_quantity :: quantity
  in_minimum_quantity :: "quantity option"

record proposal =
  prop_id :: string
  prop_purpose :: string
  prop_publishes :: intent
  prop_reciprocal :: intent
  prop_unit_based :: bool

definition intent_from_value :: "json \<Rightarrow> intent option" where
  "intent_from_value v =
     Option.bind (json_required_str v ''action'') (\<lambda>action.
     Option.bind (json_required_str v ''resourceConformsTo'') (\<lambda>conforms.
     Option.bind (Option.bind (json_field v ''resourceQuantity'') quantity_from_value) (\<lambda>q.
     Option.bind (optional_from_value quantity_from_value (json_field v ''minimumQuantity'')) (\<lambda>m.
     Some \<lparr>in_action = action, in_resource_conforms_to = conforms, in_resource_quantity = q, in_minimum_quantity = m\<rparr>))))"

definition proposal_from_value :: "json \<Rightarrow> proposal option" where
  "proposal_from_value v =
     Option.bind (json_required_str v ''id'') (\<lambda>i.
     Option.bind (json_required_str v ''purpose'') (\<lambda>purpose.
     Option.bind (Option.bind (json_field v ''publishes'') intent_from_value) (\<lambda>publishes.
     Option.bind (Option.bind (json_field v ''reciprocal'') intent_from_value) (\<lambda>reciprocal.
     Option.bind (Option.bind (json_field v ''unitBased'') json_bool) (\<lambda>unit_based.
     Some \<lparr>prop_id = i, prop_purpose = purpose, prop_publishes = publishes, prop_reciprocal = reciprocal,
       prop_unit_based = unit_based\<rparr>)))))"

definition parse_non_zero_u64 :: "string \<Rightarrow> nat option" where
  "parse_non_zero_u64 s = Option.bind (parse_u64 s) (\<lambda>n. if n = 0 then None else Some n)"

definition parse_proposal :: "uri_library \<Rightarrow> proposal \<Rightarrow> (string, payment_option) outcome" where
  "parse_proposal L p =
     obind (canonicalize_id L (prop_id p)) (\<lambda>i.
     if prop_purpose p \<noteq> ''offer'' then Err ''proposal is not an offer''
     else if in_action (prop_publishes p) \<noteq> ''deliverService'' then Err ''unexpected action''
     else if in_resource_conforms_to (prop_publishes p) \<noteq> ''https://www.wikidata.org/wiki/Q579716''
     then Err ''unexpected resource type''
     else obind (parse_duration (in_resource_quantity (prop_publishes p))) (\<lambda>duration.
     if duration \<noteq> 1 then Err ''unexpected time unit''
     else if \<not> prop_unit_based p then Err ''proposal is not unit based''
     else if in_action (prop_reciprocal p) \<noteq> ''transfer'' then Err ''unexpected action''
     else obind (map_err (\<lambda>_. ''invalid asset type'') (asset_type_from_uri (in_resource_conforms_to (prop_reciprocal p)))) (\<lambda>asset.
     if \<not> asset_is_monero asset then Err ''unexpected asset type''
     else obind (parse_currency_amount parse_non_zero_u64 (in_resource_quantity (prop_reciprocal p))) (\<lambda>price.
     obind (case in_minimum_quantity (prop_reciprocal p) of
         Some q \<Rightarrow> parse_currency_amount parse_u64 q
       | None \<Rightarrow> Ok monero_payment_amount_min) (\<lambda>amount_min.
     Ok (OptRemoteMoneroSubscription \<lparr>rms_chain_id = at_chain_id asset, rms_price = price,
       rms_amount_min = Some amount_min, rms_object_id = canonical_to_string L i\<rparr>))))))"

text \<open>A proposal that cannot be fetched or is not valid is skipped.\<close>

definition fetch_proposal :: "ap_env \<Rightarrow> ap_client \<Rightarrow> string \<Rightarrow> payment_option list" where
  "fetch_proposal V K i = (case client_fetch V K i of
      Ok v \<Rightarrow> (case proposal_from_value v of
          Some p \<Rightarrow> (case parse_proposal (uris V) p of Ok opt \<Rightarrow> [opt] | _ \<Rightarrow> [])
        | None \<Rightarrow> [])
    | _ \<Rightarrow> [])"

section \<open>Aliases and emojis\<close>

definition alias_limit :: nat where
  "alias_limit = 10"

fun collect_aliases :: "uri_library \<Rightarrow> string \<Rightarrow> string list \<Rightarrow> string list \<Rightarrow> string list" where
  "collect_aliases L aid acc [] = acc"
| "collect_aliases L aid acc (i # is) =
     (if length acc \<ge> alias_limit then acc
      else if i = aid \<or> \<not> is_ok (validate_object_id L i) then collect_aliases L aid acc is
      else collect_aliases L aid (acc @ [i]) is)"

definition parse_aliases :: "uri_library \<Rightarrow> validated_actor \<Rightarrow> string list" where
  "parse_aliases L a = (case Option.bind (va_also_known_as a) (\<lambda>v. of_outcome (parse_into_id_array v)) of
      None \<Rightarrow> [] | Some ids \<Rightarrow> collect_aliases L (va_id a) [] ids)"

definition tag_type :: "json \<Rightarrow> string" where
  "tag_type v = (case string_property v ''type'' of Some ty \<Rightarrow> ty | None \<Rightarrow> ''Hashtag'')"

definition add_new :: "'a \<Rightarrow> 'a list \<Rightarrow> 'a list" where
  "add_new x xs = (if x \<in> set xs then xs else xs @ [x])"

definition parse_actor_tags :: "ap_env \<Rightarrow> ap_client \<Rightarrow> string \<Rightarrow> validated_actor \<Rightarrow> uuid list hand" where
  "parse_actor_tags V K domain a =
     fold_p (\<lambda>v acc.
       if tag_type v \<noteq> ''Emoji'' \<or> length acc \<ge> emoji_limit then ret acc
       else bnd (handle_emoji V K domain v) (\<lambda>e. ret (case e of Some emoji \<Rightarrow> add_new (em_id emoji) acc | None \<Rightarrow> acc)))
     (va_tag a) []"

section \<open>Creating and updating profiles\<close>

definition domain_of :: "ap_env \<Rightarrow> db_actor \<Rightarrow> string hand" where
  "domain_of V a = in_db (lift (get_moderation_domain (uris V) a))"

definition expected_domain :: "ap_env \<Rightarrow> db_actor \<Rightarrow> string hand" where
  "expected_domain V a = (case get_moderation_domain (uris V) a of
      Ok d \<Rightarrow> ret d | _ \<Rightarrow> panic ''actor data should be valid'')"

text \<open>What a document says of a profile; the images are added by the callers.\<close>

definition actor_profile_data ::
  "ap_env \<Rightarrow> ap_client \<Rightarrow> validated_actor \<Rightarrow> db_actor \<Rightarrow> string option \<Rightarrow> webfinger_hostname \<Rightarrow> db_actor_key list
   \<Rightarrow> uuid list \<Rightarrow> string option \<Rightarrow> 'm option \<Rightarrow> 'm option \<Rightarrow> 'm profile_data" where
  "actor_profile_data V K a data hostname webfinger keys es bio_source avatar banner =
     (let atts = parse_attachments V a in
      \<lparr>prd_actor_type = va_actor_type a, prd_username = va_preferred_username a, prd_hostname = hostname,
       prd_webfinger_hostname = webfinger, prd_display_name = va_name a, prd_bio = va_summary a,
       prd_bio_source = bio_source, prd_avatar = avatar, prd_banner = banner,
       prd_manually_approves_followers = va_manually_approves_followers a, prd_mention_policy = MpNone,
       prd_public_keys = keys, prd_identity_proofs = aa_identity_proofs atts,
       prd_payment_options = aa_payment_options atts @ concat (map (fetch_proposal V K) (aa_proposals atts)),
       prd_extra_fields = aa_extra_fields atts, prd_aliases = parse_aliases (uris V) a, prd_emojis = es,
       prd_actor_json = Some data\<rparr>)"

definition save_actor_object :: "ap_env \<Rightarrow> actor_profile \<Rightarrow> json \<Rightarrow> unit hand" where
  "save_actor_object V p v =
     bnd (in_db (expect_actor_data p)) (\<lambda>data.
     bnd (in_db (lift (parse_id_from_db (uris V) (da_id data)))) (\<lambda>i.
     in_db (save_actor (canonical_to_string (uris V) i) v (p_id p))))"

definition create_remote_profile :: "ap_env \<Rightarrow> ap_client \<Rightarrow> actor \<Rightarrow> actor_profile hand" where
  "create_remote_profile V K act =
     (let a = act_inner act in
      bnd (lift (get_webfinger_hostname V K a False)) (\<lambda>(hostname, webfinger).
      bnd (validate (to_db_actor (uris V) a)) (\<lambda>data.
      seq (validate (validate_actor_data (uris V) data)) (
      bnd (expected_domain V data) (\<lambda>domain.
      if action_required V K domain FaReject then throw (HeFiltered (''actor rejected: '' @ da_id data))
      else
      bnd (fetch_actor_image V K domain (va_icon a)) (\<lambda>avatar.
      bnd (fetch_actor_image V K domain (va_image a)) (\<lambda>banner.
      bnd (validate (parse_public_keys V a)) (\<lambda>keys.
      bnd (parse_actor_tags V K domain a) (\<lambda>es.
      bnd (validate (clean_profile_data (ev_text V) (uris V)
        (actor_profile_data V K a data hostname webfinger keys es None (image_ok avatar) (image_ok banner)))) (\<lambda>d.
      bnd (gets (ev_fresh V ''profile'')) (\<lambda>pid.
      bnd (in_db (create_profile (ev_ext V) pid d)) (\<lambda>p.
      seq (save_actor_object V p (act_value act)) (ret p)))))))))))))"

definition update_remote_profile :: "ap_env \<Rightarrow> ap_client \<Rightarrow> actor_profile \<Rightarrow> actor \<Rightarrow> actor_profile hand" where
  "update_remote_profile V K p act =
     (let a = act_inner act in
      bnd (in_db (expect_actor_data p)) (\<lambda>old.
      bnd (validate (to_db_actor (uris V) a)) (\<lambda>data.
      if da_id old \<noteq> da_id data then panic ''actor ID shouldn't change''
      else
      bnd (lift (get_webfinger_hostname V K a (has_portable_account p))) (\<lambda>(hostname, webfinger).
      seq (validate (validate_actor_data (uris V) data)) (
      bnd (expected_domain V data) (\<lambda>domain.
      bnd (fetch_actor_image V K domain (va_icon a)) (\<lambda>avatar.
      bnd (fetch_actor_image V K domain (va_image a)) (\<lambda>banner.
      bnd (validate (parse_public_keys V a)) (\<lambda>keys.
      bnd (parse_actor_tags V K domain a) (\<lambda>es.
      bnd (validate (clean_profile_data (ev_text V) (uris V)
        (actor_profile_data V K a data hostname webfinger keys es (va_summary a)
          (image_ok_or_default avatar (p_avatar p)) (image_ok_or_default banner (p_banner p))))) (\<lambda>d.
      bnd (in_db (update_profile (ev_ext V) (p_id p) d)) (\<lambda>(p', queue).
      seq (enqueue_deletion V queue)
      (seq (save_actor_object V p' (act_value act)) (ret p'))))))))))))))"

section \<open>Importing and resolving actors\<close>

definition import_actor :: "ap_env \<Rightarrow> ap_client \<Rightarrow> json \<Rightarrow> actor_profile hand" where
  "import_actor V K v =
     bnd (deserialized (actor_of_value v)) (\<lambda>act.
     bnd (validate (actor_is_local (uris V) (http_origin (ac_instance_uri K)) act)) (\<lambda>is_local.
     if is_local then throw HeLocalObject
     else bnd (canonical_id V (act_id act)) (\<lambda>i.
       found_or (get_remote_profile_by_actor_id (ev_ext V) i)
         (\<lambda>p. update_remote_profile V K p act) (create_remote_profile V K act))))"

definition one_day :: datetime where
  "one_day = seconds (24 * 3600)"

definition refresh_remote_profile :: "ap_env \<Rightarrow> ap_client \<Rightarrow> actor_profile \<Rightarrow> bool \<Rightarrow> actor_profile hand" where
  "refresh_remote_profile V K p force =
     bnd (gets current_timestamp) (\<lambda>now.
     if \<not> force \<and> \<not> p_updated_at p < now - one_day then ret p
     else if has_portable_account p then ret p
     else
     bnd (in_db (expect_actor_data p)) (\<lambda>data.
     bnd (lift (map_err HeFetch (prepare_object_id (uris V)
       (remove_gateway (http_uri_to_string (ac_instance_uri K)) (da_gateways data)) (da_id data)))) (\<lambda>(url, _).
     case obind (client_fetch V K url) (\<lambda>v. ok_or (HeValidation ''deserialization error'') (actor_of_value v)) of
       Ok act \<Rightarrow>
         bnd (canonical_id V (act_id act)) (\<lambda>i.
         if i \<noteq> da_id data then ret p else update_remote_profile V K p act)
     | Err _ \<Rightarrow> ret p
     | Panic m \<Rightarrow> panic m)))"

record actor_id_resolver =
  rs_only_remote :: bool
  rs_include_automated :: bool
  rs_force_refetch :: bool

definition default_resolver :: actor_id_resolver where
  "default_resolver = \<lparr>rs_only_remote = False, rs_include_automated = False, rs_force_refetch = False\<rparr>"

definition only_remote :: "actor_id_resolver \<Rightarrow> actor_id_resolver" where
  "only_remote r = r\<lparr>rs_only_remote := True\<rparr>"

definition include_automated_accounts :: "actor_id_resolver \<Rightarrow> actor_id_resolver" where
  "include_automated_accounts r = r\<lparr>rs_include_automated := True\<rparr>"

definition force_refetch :: "actor_id_resolver \<Rightarrow> actor_id_resolver" where
  "force_refetch r = r\<lparr>rs_force_refetch := True\<rparr>"

definition resolve :: "ap_env \<Rightarrow> ap_client \<Rightarrow> actor_id_resolver \<Rightarrow> string \<Rightarrow> actor_profile hand" where
  "resolve V K r aid =
     bnd (validate (canonicalize_id (uris V) aid)) (\<lambda>c.
     let i = canonical_to_string (uris V) c in
     if canonical_origin (uris V) c = http_origin (ac_instance_uri K) then
       (if rs_only_remote r then throw HeLocalObject
        else if rs_include_automated r
        then bnd (in_db (get_managed_account_by_actor_id V (client_authority K) i)) (\<lambda>m. ret (managed_profile m))
        else bnd (in_db (get_user_by_actor_id V (client_authority K) i)) (\<lambda>u. ret (user_profile u)))
     else found_or (get_remote_profile_by_actor_id (ev_ext V) i)
       (\<lambda>p. refresh_remote_profile V K p (rs_force_refetch r))
       (bnd (fetch_value V K aid) (import_actor V K)))"

definition is_actor_importer_error :: "handler_error \<Rightarrow> bool" where
  "is_actor_importer_error e \<longleftrightarrow> (case e of
      HeFetch _ \<Rightarrow> True | HeValidation _ \<Rightarrow> True | HeDatabase (NotFound _) \<Rightarrow> True | HeFiltered _ \<Rightarrow> True | _ \<Rightarrow> False)"

definition import_actor_by_webfinger_address :: "ap_env \<Rightarrow> ap_client \<Rightarrow> webfinger_address \<Rightarrow> actor_profile hand" where
  "import_actor_by_webfinger_address V K w =
     (if wa_hostname w = ac_webfinger_hostname K then throw HeLocalObject
      else bnd (lift (perform_webfinger_query V (ac_agent K) w)) (\<lambda>aid.
        bnd (fetch_value V K aid) (import_actor V K)))"

definition get_or_import_actor_by_webfinger_address :: "ap_env \<Rightarrow> ap_client \<Rightarrow> webfinger_address \<Rightarrow> actor_profile hand" where
  "get_or_import_actor_by_webfinger_address V K w =
     match_result (get_profile_by_acct (ev_ext V) (short_address w (ac_webfinger_hostname K)))
       (\<lambda>p. if profile_is_local p then ret p else refresh_remote_profile V K p False)
       (\<lambda>e. case e of
          NotFound _ \<Rightarrow> if wa_hostname w = ac_webfinger_hostname K then throw (HeDatabase e)
            else import_actor_by_webfinger_address V K w
        | _ \<Rightarrow> throw (HeDatabase e))"

end
