(* ===== verification/RemotePosts.thy ===== *)
theory RemotePosts
  imports RemoteProfiles "HOL-Library.Sublist"
begin

text \<open>
  Remote posts (\<open>mitra_activitypub/src/handlers/note.rs\<close>, \<open>mitra_adapters/src/permissions.rs\<close>, \<open>posts.rs\<close>): an
  object attributed to a remote actor becomes a post. Its content is cleaned, its attachments are
  fetched or linked, its tags become mentions, hashtags, links and emojis, and its audience decides
  the visibility.
\<close>

section \<open>Objects\<close>

record media_object =
  mo_type :: string
  mo_name :: "string option"
  mo_summary :: "string option"
  mo_media_type :: "string option"
  mo_url :: string

datatype attachment = AttMedia media_object | AttLink string

definition media_object_from_value :: "json \<Rightarrow> media_object option" where
  "media_object_from_value v =
     Option.bind (json_required_str v ''type'') (\<lambda>ty.
     Option.bind (json_optional_str v ''name'') (\<lambda>name.
     Option.bind (json_optional_str v ''summary'') (\<lambda>summary.
     Option.bind (json_optional_str v ''mediaType'') (\<lambda>media_type.
     Option.bind (Option.bind (json_field v ''url'') (\<lambda>u. of_outcome (link_to_href u))) (\<lambda>url.
     Some \<lparr>mo_type = ty, mo_name = name, mo_summary = summary, mo_media_type = media_type, mo_url = url\<rparr>)))))"

text \<open>Icons and attachments of other types, and those that do not deserialize, are skipped.\<close>

definition icon_of_value :: "json \<Rightarrow> media_object list" where
  "icon_of_value v = (if is_object_type v ''Image''
     then (case media_object_from_value v of Some m \<Rightarrow> [m] | None \<Rightarrow> []) else [])"

definition attachment_of_value :: "json \<Rightarrow> attachment list" where
  "attachment_of_value v = (case string_property v ''type'' of
      None \<Rightarrow> []
    | Some ty \<Rightarrow>
        if ty \<in> {''Audio'', ''Document'', ''Image'', ''Video''}
        then (case media_object_from_value v of Some m \<Rightarrow> [AttMedia m] | None \<Rightarrow> [])
        else if ty = ''Link''
        then (case string_property v ''href'' of Some h \<Rightarrow> [AttLink h] | None \<Rightarrow> [])
        else [])"

record attributed_object =
  ob_id :: string
  ob_type :: string
  ob_attributed_to :: string
  ob_name :: "string option"
  ob_content :: "string option"
  ob_content_map :: "(string \<times> string) list"
  ob_media_type :: "string option"
  ob_sensitive :: "bool option"
  ob_summary :: "string option"
  ob_icon :: "media_object list"
  ob_attachment :: "attachment list"
  ob_tag :: "json list"
  ob_in_reply_to :: "string option"
  ob_context :: "string option"
  ob_to :: "string list"
  ob_cc :: "string list"
  ob_audience :: "string list"
  ob_published :: "datetime option"
  ob_updated :: "datetime option"
  ob_url :: "json option"
  ob_one_of :: "json option"
  ob_any_of :: "json option"
  ob_voters_count :: "int option"
  ob_end_time :: "datetime option"
  ob_closed :: "datetime option"
  ob_quote :: "string option"
  ob_quote_url :: "string option"
  ob_inbox :: "string option"

definition json_i32 :: "json \<Rightarrow> int option" where
  "json_i32 v = (case v of JNumber n \<Rightarrow> if - (2 ^ 31) \<le> n \<and> n < 2 ^ 31 then Some n else None | _ \<Rightarrow> None)"

definition id_array :: "json \<Rightarrow> string \<Rightarrow> string list option" where
  "id_array v k = of_outcome (id_array_field v k)"

definition object_from_value :: "crypto \<Rightarrow> json \<Rightarrow> attributed_object option" where
  "object_from_value C v =
     (let date = (\<lambda>k. json_opt_date C (json_field v k)); opt = json_optional_str v in
     Option.bind (json_required_str v ''id'') (\<lambda>i.
     Option.bind (json_required_str v ''type'') (\<lambda>ty.
     Option.bind (Option.bind (json_field v ''attributedTo'') (\<lambda>x. of_outcome (parse_attributed_to x))) (\<lambda>author.
     Option.bind (opt ''name'') (\<lambda>name.
     Option.bind (opt ''content'') (\<lambda>content.
     Option.bind (json_opt_string_map (json_field v ''contentMap'')) (\<lambda>content_map.
     Option.bind (opt ''mediaType'') (\<lambda>media_type.
     Option.bind (optional_from_value json_bool (json_field v ''sensitive'')) (\<lambda>sensitive.
     Option.bind (opt ''summary'') (\<lambda>summary.
     Option.bind (object_array_field Some v ''icon'') (\<lambda>icons.
     Option.bind (object_array_field Some v ''attachment'') (\<lambda>attachments.
     Option.bind (object_array_field Some v ''tag'') (\<lambda>tags'.
     Option.bind (of_outcome (deserialize_into_object_id_opt (json_field v ''inReplyTo''))) (\<lambda>in_reply_to.
     Option.bind (opt ''context'') (\<lambda>ctx.
     Option.bind (id_array v ''to'') (\<lambda>tos.
     Option.bind (id_array v ''cc'') (\<lambda>ccs.
     Option.bind (id_array v ''audience'') (\<lambda>audience.
     Option.bind (date ''published'') (\<lambda>published.
     Option.bind (date ''updated'') (\<lambda>updated.
     Option.bind (optional_from_value json_i32 (json_field v ''votersCount'')) (\<lambda>voters.
     Option.bind (date ''endTime'') (\<lambda>end_time.
     Option.bind (date ''closed'') (\<lambda>closed.
     Option.bind (opt ''quote'') (\<lambda>quote.
     Option.bind (opt ''quoteUrl'') (\<lambda>quote_url.
     Option.bind (opt ''inbox'') (\<lambda>inbox.
     Some \<lparr>ob_id = i, ob_type = ty, ob_attributed_to = author, ob_name = name, ob_content = content,
       ob_content_map = content_map, ob_media_type = media_type, ob_sensitive = sensitive, ob_summary = summary,
       ob_icon = concat (map icon_of_value icons), ob_attachment = concat (map attachment_of_value attachments),
       ob_tag = tags', ob_in_reply_to = in_reply_to, ob_context = ctx, ob_to = tos, ob_cc = ccs,
       ob_audience = audience, ob_published = published, ob_updated = updated,
       ob_url = json_opt_value (json_field v ''url''), ob_one_of = json_opt_value (json_field v ''oneOf''),
       ob_any_of = json_opt_value (json_field v ''anyOf''), ob_voters_count = voters, ob_end_time = end_time,
       ob_closed = closed, ob_quote = quote, ob_quote_url = quote_url, ob_inbox = inbox\<rparr>))))))))))))))))))))))))))"

record object_json =
  oj_inner :: attributed_object
  oj_value :: json

definition object_of_value :: "ap_env \<Rightarrow> json \<Rightarrow> object_json option" where
  "object_of_value V v = map_option (\<lambda>x. \<lparr>oj_inner = x, oj_value = v\<rparr>) (object_from_value (cryptography V) v)"

definition check_not_actor :: "attributed_object \<Rightarrow> validated" where
  "check_not_actor x = require (ob_inbox x = None) ''object is actor''"

definition is_converted :: "attributed_object \<Rightarrow> bool" where
  "is_converted x \<longleftrightarrow> ob_type x \<notin> {''Note'', ''Question'', ''ChatMessage''}"

definition object_targets :: "attributed_object \<Rightarrow> string list" where
  "object_targets x = ob_to x @ ob_cc x @ ob_audience x"

text \<open>The entries of the hash map are visited in an unspecified order, here that of the document.\<close>

definition object_language :: "ap_env \<Rightarrow> attributed_object \<Rightarrow> string option" where
  "object_language V x =
     Option.bind (find (\<lambda>(_, c). ob_content x = Some c) (ob_content_map x)) (\<lambda>(language_tag, _). ev_language V language_tag)"

definition object_quote :: "attributed_object \<Rightarrow> string option" where
  "object_quote x =
     or_else (Option.bind (ob_quote x) (\<lambda>q. if ob_type x = ''Quotation'' \<or> \<not> sublist ''/quotation/'' (ob_id x) then Some q else None))
       (ob_quote_url x)"

definition get_object_url :: "attributed_object \<Rightarrow> (string, string option) outcome" where
  "get_object_url x = (case ob_url x of
      Some v \<Rightarrow> obind (map_err (\<lambda>_. ''invalid object URL'') (parse_into_href_array v))
        (\<lambda>urls. Ok (case urls of [] \<Rightarrow> None | u # _ \<Rightarrow> Some u))
    | None \<Rightarrow> Ok None)"

section \<open>Content\<close>

definition object_title :: "text_library \<Rightarrow> attributed_object \<Rightarrow> string option" where
  "object_title W x =
     (if ob_in_reply_to x \<noteq> None then None
      else Option.bind (or_else (ob_name x) (ob_summary x)) (\<lambda>t. let c = clean_title W t in if c = [] then None else Some c))"

definition get_object_content :: "text_library \<Rightarrow> attributed_object \<Rightarrow> (string, string option \<times> string) outcome" where
  "get_object_content W x =
     (let content = (case ob_content x of
          Some c \<Rightarrow> if ob_media_type x = Some ''text/markdown'' then ''<p>'' @ c @ ''</p>'' else c
        | None \<Rightarrow> []);
          safe = clean_remote_content W content in
      obind (validate_content W safe OriginRemote) (\<lambda>_. Ok (object_title W x, safe)))"

definition create_content_link :: "string \<Rightarrow> string" where
  "create_content_link url =
     ''<p><a href='' @ [CHR 0x22] @ url @ [CHR 0x22] @ '' rel='' @ [CHR 0x22] @ ''noopener'' @ [CHR 0x22] @ ''>'' @ url @ ''</a></p>''"

definition add_links :: "string list \<Rightarrow> string \<Rightarrow> string" where
  "add_links urls content = content @ concat (map create_content_link urls)"

section \<open>Attachments\<close>

definition is_gnu_social_link :: "string \<Rightarrow> media_object \<Rightarrow> bool" where
  "is_gnu_social_link author_id m \<longleftrightarrow>
     sublist ''/index.php/user/'' author_id \<and> mo_type m = ''Document'' \<and>
     (case mo_media_type m of None \<Rightarrow> True | Some t \<Rightarrow> sublist ''text/html'' t)"

fun media_url :: "media_info \<Rightarrow> string option" where
  "media_url (MiFile _ url) = url"
| "media_url (MiLink _ url) = Some url"

definition attachment_values :: "attributed_object \<Rightarrow> (string, attachment list) outcome" where
  "attachment_values x =
     obind (if ob_type x = ''Image'' then
         obind (get_object_url x) (\<lambda>u. Ok (case u of
             Some url \<Rightarrow> [AttMedia \<lparr>mo_type = ob_type x, mo_name = ob_name x, mo_summary = ob_summary x,
               mo_media_type = ob_media_type x, mo_url = url\<rparr>]
           | None \<Rightarrow> []))
       else Ok []) (\<lambda>images.
     Ok (ob_attachment x @ images @ (if ob_type x = ''Video'' then map AttMedia (take 1 (ob_icon x)) else [])))"

record attachment_state =
  as_downloaded :: "(media_info \<times> string option) list"
  as_unprocessed :: "string list"

definition leave_unprocessed :: "string \<Rightarrow> attachment_state \<Rightarrow> attachment_state" where
  "leave_unprocessed url st = st\<lparr>as_unprocessed := as_unprocessed st @ [url]\<rparr>"

definition media_description :: "media_object \<Rightarrow> string option" where
  "media_description m = Option.bind (or_else (mo_name m) (mo_summary m))
     (\<lambda>d. if is_ok (validate_media_description d) then Some d else None)"

definition download_attachment ::
  "ap_env \<Rightarrow> ap_client \<Rightarrow> string \<Rightarrow> string \<Rightarrow> media_object \<Rightarrow> attachment_state \<Rightarrow> attachment_state hand" where
  "download_attachment V K domain author_id m st =
     (if is_gnu_social_link author_id m then ret st
      else if \<not> is_ok (validate_media_url (uris V) (mo_url m)) then ret st
      else if list_ex (\<lambda>(media, _). media_url media = Some (mo_url m)) (as_downloaded st) then ret st
      else if action_required V K domain FaRejectMediaAttachments then ret (leave_unprocessed (mo_url m) st)
      else if length (as_downloaded st) \<ge> ac_attachment_limit K then ret (leave_unprocessed (mo_url m) st)
      else (case client_fetch_media V K (mo_url m) (ac_media_types K) (ac_file_size_limit K) of
          Ok (data, media_type) \<Rightarrow>
            bnd (store_media V (action_required V K domain FaProxyMedia) data media_type (mo_url m)) (\<lambda>media.
            ret (st\<lparr>as_downloaded := as_downloaded st @ [(media, media_description m)]\<rparr>))
        | Err _ \<Rightarrow> ret (leave_unprocessed (mo_url m) st)
        | Panic p \<Rightarrow> panic p))"

definition attachment_step ::
  "ap_env \<Rightarrow> ap_client \<Rightarrow> string \<Rightarrow> string \<Rightarrow> attachment \<Rightarrow> attachment_state \<Rightarrow> attachment_state hand" where
  "attachment_step V K domain author_id a st = (case a of
      AttLink link \<Rightarrow> ret (leave_unprocessed link st)
    | AttMedia m \<Rightarrow> download_attachment V K domain author_id m st)"

definition save_attachment :: "ap_env \<Rightarrow> uuid \<Rightarrow> media_info \<times> string option \<Rightarrow> uuid list \<Rightarrow> uuid list hand" where
  "save_attachment V owner d ids =
     bnd (gets (ev_fresh V ''attachment'')) (\<lambda>aid.
     bnd (in_db (create_attachment aid owner (fst d) (snd d))) (\<lambda>a. ret (ids @ [ma_id a])))"

definition get_object_attachments ::
  "ap_env \<Rightarrow> ap_client \<Rightarrow> attributed_object \<Rightarrow> actor_profile \<Rightarrow> (uuid list \<times> string list) hand" where
  "get_object_attachments V K x author =
     bnd (in_db (expect_actor_data author)) (\<lambda>data.
     bnd (domain_of V data) (\<lambda>domain.
     bnd (validate (attachment_values x)) (\<lambda>vals.
     bnd (fold_p (attachment_step V K domain (da_id data)) vals \<lparr>as_downloaded = [], as_unprocessed = []\<rparr>) (\<lambda>st.
     bnd (fold_p (save_attachment V (p_id author)) (as_downloaded st) []) (\<lambda>ids.
     ret (ids, as_unprocessed st))))))"

section \<open>Audience\<close>

definition normalize_audience :: "uri_library \<Rightarrow> string list \<Rightarrow> (string, canonical_uri list) outcome" where
  "normalize_audience L targets =
     obind (try_map (\<lambda>t. map_err (\<lambda>_. ''invalid target ID'')
       (canonicalize_id L (if is_public t then ap_public else t))) targets) (\<lambda>ids.
     Ok (dedup_by_key (canonical_to_string L) (sort_key (canonical_to_string L) ids)))"

definition get_audience :: "uri_library \<Rightarrow> attributed_object \<Rightarrow> (string, string list) outcome" where
  "get_audience L x =
     obind (normalize_audience L (object_targets x)) (\<lambda>ids. Ok (map (canonical_to_string L) ids))"

end
