(* ===== verification/PostHandlers.thy ===== *)
theory PostHandlers
  imports RemotePosts
begin

text \<open>
  Creation and update of remote posts (\<open>mitra_activitypub/src/handlers/note.rs\<close>): mentions, hashtags, links
  and emojis of an object, the filter of unwanted mentions (\<open>mitra_adapters/src/permissions.rs\<close>), the
  visibility of a post in its conversation, polls, and the two handlers. \<open>redirects\<close> maps identifiers
  met during an import to those of the objects found behind them.
\<close>

section \<open>Mentions that are accepted\<close>

definition is_connected :: "uuid \<Rightarrow> uuid \<Rightarrow> bool db" where
  "is_connected src tgt =
     bnd (get_relationships src tgt) (\<lambda>rs. ret (list_ex (\<lambda>r. rr_type r = RelFollow \<or> rr_type r = RelSubscription) rs))"

definition actor_profile_age_min :: datetime where
  "actor_profile_age_min = seconds (60 * 60)"

text \<open>The operands of \<open>||\<close> are evaluated from left to right.\<close>

definition mention_allowed :: "actor_profile \<Rightarrow> uuid list \<Rightarrow> actor_profile \<Rightarrow> bool db" where
  "mention_allowed author participants p = (case p_mention_policy p of
      MpNone \<Rightarrow> ret True
    | MpOnlyKnown \<Rightarrow>
        bnd (gets (\<lambda>s. current_timestamp s - p_created_at author)) (\<lambda>age.
        if p_id p \<in> set participants then ret True
        else bnd (is_connected (p_id author) (p_id p)) (\<lambda>connected. ret (connected \<or> age \<ge> actor_profile_age_min)))
    | MpOnlyContacts \<Rightarrow>
        if p_id p \<in> set participants then ret True else is_connected (p_id author) (p_id p))"

definition filter_mentions :: "externals \<Rightarrow> uuid list \<Rightarrow> actor_profile \<Rightarrow> uuid option \<Rightarrow> actor_profile list db" where
  "filter_mentions X mentions author in_reply_to_id =
     bnd (get_profiles_by_ids X mentions) (\<lambda>profiles.
     bnd (case in_reply_to_id of
            Some i \<Rightarrow> bnd (get_conversation_participants X i) (\<lambda>ps. ret (map p_id ps)) | None \<Rightarrow> ret []) (\<lambda>participants.
     fold_p (\<lambda>p acc.
       if \<not> profile_is_local p then ret (acc @ [p])
       else bnd (mention_allowed author participants p) (\<lambda>allowed. ret (if allowed then acc @ [p] else acc)))
     profiles []))"

definition check_post_limits :: "nat \<Rightarrow> nat \<Rightarrow> uuid list \<Rightarrow> origin \<Rightarrow> validated" where
  "check_post_limits local_limit remote_limit attachments org =
     require (length attachments \<le> (case org of OriginLocal \<Rightarrow> local_limit | OriginRemote \<Rightarrow> remote_limit))
       ''too many attachments''"

section \<open>Tags\<close>

record tag_object =
  tg_name :: "string option"
  tg_href :: "string option"

definition tag_from_value :: "json \<Rightarrow> tag_object option" where
  "tag_from_value v =
     Option.bind (json_optional_str v ''name'') (\<lambda>name.
     Option.bind (json_optional_str v ''href'') (\<lambda>href. Some \<lparr>tg_name = name, tg_href = href\<rparr>))"

record link_tag =
  lt_tag_type :: string
  lt_name :: "string option"
  lt_href :: string
  lt_media_type :: string
  lt_rel :: "string list"

definition link_tag_from_value :: "json \<Rightarrow> link_tag option" where
  "link_tag_from_value v =
     Option.bind (json_required_str v ''type'') (\<lambda>ty.
     Option.bind (json_optional_str v ''name'') (\<lambda>name.
     Option.bind (json_required_str v ''href'') (\<lambda>href.
     Option.bind (json_required_str v ''mediaType'') (\<lambda>media_type.
     Option.bind (of_outcome (deserialize_string_array (json_field v ''rel''))) (\<lambda>rel'.
     Some \<lparr>lt_tag_type = ty, lt_name = name, lt_href = href, lt_media_type = media_type, lt_rel = rel'\<rparr>)))))"

definition is_object_link :: "link_tag \<Rightarrow> bool" where
  "is_object_link t \<longleftrightarrow> lt_media_type t = ap_media_type \<or> lt_media_type t = as_media_type"

definition normalize_hashtag :: "ap_env \<Rightarrow> string \<Rightarrow> (string, string) outcome" where
  "normalize_hashtag V t =
     (let name = dropWhile (\<lambda>c. c = CHR ''#'') t in
      obind (validate_hashtag (ev_text V) name) (\<lambda>_. Ok (ev_lowercase V name)))"

text \<open>The links of an object: its link tags, and the object it quotes.\<close>

definition get_object_links :: "attributed_object \<Rightarrow> string list" where
  "get_object_links x =
     (let links = foldl (\<lambda>acc v. if tag_type v \<noteq> ''Link'' then acc else
            (case link_tag_from_value v of
               Some t \<Rightarrow> if is_object_link t then add_new (lt_href t) acc else acc
             | None \<Rightarrow> acc)) [] (ob_tag x) in
      case object_quote x of Some q \<Rightarrow> add_new q links | None \<Rightarrow> links)"

record tag_state =
  ts_hashtag_count :: nat
  ts_mention_count :: nat
  ts_link_count :: nat
  ts_emoji_count :: nat
  ts_mentions :: "uuid list"
  ts_hashtags :: "string list"
  ts_links :: "uuid list"
  ts_emojis :: "uuid list"

definition no_tags :: tag_state where
  "no_tags = \<lparr>ts_hashtag_count = 0, ts_mention_count = 0, ts_link_count = 0, ts_emoji_count = 0,
     ts_mentions = [], ts_hashtags = [], ts_links = [], ts_emojis = []\<rparr>"

definition add_mention :: "actor_profile \<Rightarrow> tag_state \<Rightarrow> tag_state" where
  "add_mention p st = st\<lparr>ts_mentions := add_new (p_id p) (ts_mentions st)\<rparr>"

definition hashtag_tag :: "ap_env \<Rightarrow> json \<Rightarrow> tag_state \<Rightarrow> tag_state hand" where
  "hashtag_tag V v st0 =
     (let st = st0\<lparr>ts_hashtag_count := ts_hashtag_count st0 + 1\<rparr> in
      if ts_hashtag_count st > hashtag_limit then ret st
      else (case Option.bind (tag_from_value v) tg_name of
          None \<Rightarrow> ret st
        | Some name \<Rightarrow> (case normalize_hashtag V name of
              Ok n \<Rightarrow> ret (st\<lparr>ts_hashtags := add_new n (ts_hashtags st)\<rparr>)
            | Err _ \<Rightarrow> ret st
            | Panic m \<Rightarrow> panic m)))"

definition mention_by_name :: "ap_env \<Rightarrow> ap_client \<Rightarrow> tag_object \<Rightarrow> tag_state \<Rightarrow> tag_state hand" where
  "mention_by_name V K t st = (case Option.bind (tg_name t) from_handle of
      None \<Rightarrow> ret st
    | Some w \<Rightarrow> match_result (get_or_import_actor_by_webfinger_address V K w)
        (\<lambda>p. ret (add_mention p st))
        (\<lambda>e. if is_actor_importer_error e then ret st else throw e))"

definition mention_tag :: "ap_env \<Rightarrow> ap_client \<Rightarrow> json \<Rightarrow> tag_state \<Rightarrow> tag_state hand" where
  "mention_tag V K v st0 =
     (let st = st0\<lparr>ts_mention_count := ts_mention_count st0 + 1\<rparr> in
      if ts_mention_count st > mention_limit then ret st
      else (case tag_from_value v of
          None \<Rightarrow> ret st
        | Some t \<Rightarrow> (case tg_href t of
              Some href \<Rightarrow> match_result (resolve V K default_resolver href)
                (\<lambda>p. ret (add_mention p st))
                (\<lambda>e. if is_actor_importer_error e then mention_by_name V K t st else throw e)
            | None \<Rightarrow> mention_by_name V K t st)))"

definition follow_redirect :: "(string \<times> string) list \<Rightarrow> string \<Rightarrow> string" where
  "follow_redirect redirects i = (case map_of redirects i of Some j \<Rightarrow> j | None \<Rightarrow> i)"

definition get_linked :: "ap_env \<Rightarrow> ap_client \<Rightarrow> (string \<times> string) list \<Rightarrow> string \<Rightarrow> post_detailed hand" where
  "get_linked V K redirects i =
     bnd (canonical_id V (follow_redirect redirects i)) (\<lambda>c.
     in_db (get_post_by_object_id V (client_authority K) c))"

definition link_tag_step ::
  "ap_env \<Rightarrow> ap_client \<Rightarrow> (string \<times> string) list \<Rightarrow> json \<Rightarrow> tag_state \<Rightarrow> tag_state hand" where
  "link_tag_step V K redirects v st0 =
     (let st = st0\<lparr>ts_link_count := ts_link_count st0 + 1\<rparr> in
      if ts_link_count st > link_limit then ret st
      else (case link_tag_from_value v of
          None \<Rightarrow> ret st
        | Some t \<Rightarrow>
            if \<not> is_object_link t then ret st
            else bnd (get_linked V K redirects (lt_href t)) (\<lambda>linked.
              if can_link_post linked
              then ret (st\<lparr>ts_links := add_new (po_id (pd_post linked)) (ts_links st)\<rparr>) else ret st)))"

definition emoji_tag_step :: "ap_env \<Rightarrow> ap_client \<Rightarrow> string \<Rightarrow> json \<Rightarrow> tag_state \<Rightarrow> tag_state hand" where
  "emoji_tag_step V K domain v st0 =
     (let st = st0\<lparr>ts_emoji_count := ts_emoji_count st0 + 1\<rparr> in
      if ts_emoji_count st > emoji_limit then ret st
      else bnd (handle_emoji V K domain v) (\<lambda>e. ret (case e of
          Some emoji \<Rightarrow> st\<lparr>ts_emojis := add_new (em_id emoji) (ts_emojis st)\<rparr> | None \<Rightarrow> st)))"

definition tag_step ::
  "ap_env \<Rightarrow> ap_client \<Rightarrow> string \<Rightarrow> (string \<times> string) list \<Rightarrow> json \<Rightarrow> tag_state \<Rightarrow> tag_state hand" where
  "tag_step V K domain redirects v st =
     (if tag_type v = ''Hashtag'' then hashtag_tag V v st
      else if tag_type v = ''Mention'' then mention_tag V K v st
      else if tag_type v = ''Link'' then link_tag_step V K redirects v st
      else if tag_type v = ''Emoji'' then emoji_tag_step V K domain v st
      else ret st)"

text \<open>Known actors of the audience are mentioned, until there are \<open>MENTION_LIMIT\<close> mentions.\<close>

fun mention_targets :: "ap_env \<Rightarrow> ap_client \<Rightarrow> string list \<Rightarrow> tag_state \<Rightarrow> tag_state hand" where
  "mention_targets V K [] st = ret st"
| "mention_targets V K (t # ts) st =
     (if is_public t then mention_targets V K ts st
      else if length (ts_mentions st) \<ge> mention_limit then ret st
      else bnd (canonical_id V t) (\<lambda>i.
        found_or (get_profile_by_actor_id V (client_authority K) i)
          (\<lambda>p. mention_targets V K ts (add_mention p st))
          (mention_targets V K ts st)))"

definition add_quote ::
  "ap_env \<Rightarrow> ap_client \<Rightarrow> (string \<times> string) list \<Rightarrow> attributed_object \<Rightarrow> tag_state \<Rightarrow> tag_state hand" where
  "add_quote V K redirects x st = (case object_quote x of
      None \<Rightarrow> ret st
    | Some q \<Rightarrow> bnd (get_linked V K redirects q) (\<lambda>linked.
        ret (if can_link_post linked \<and> length (ts_links st) < link_limit
             then st\<lparr>ts_links := add_new (po_id (pd_post linked)) (ts_links st)\<rparr> else st)))"

definition get_object_tags ::
  "ap_env \<Rightarrow> ap_client \<Rightarrow> attributed_object \<Rightarrow> actor_profile \<Rightarrow> (string \<times> string) list
   \<Rightarrow> (uuid list \<times> string list \<times> uuid list \<times> uuid list) hand" where
  "get_object_tags V K x author redirects =
     bnd (in_db (expect_actor_data author)) (\<lambda>data.
     bnd (domain_of V data) (\<lambda>domain.
     bnd (fold_p (tag_step V K domain redirects) (ob_tag x) no_tags) (\<lambda>st.
     bnd (validate (get_audience (uris V) x)) (\<lambda>audience.
     bnd (mention_targets V K audience st) (\<lambda>st1.
     bnd (add_quote V K redirects x st1) (\<lambda>st2.
     ret (ts_mentions st2, ts_hashtags st2, ts_links st2, ts_emojis st2)))))))"

section \<open>Visibility\<close>

definition addressed_to :: "string list \<Rightarrow> string option \<Rightarrow> bool" where
  "addressed_to audience collection \<longleftrightarrow> list_ex (\<lambda>i. Some i = collection) audience"

definition reply_visibility :: "db_actor \<Rightarrow> string list \<Rightarrow> string option \<Rightarrow> visibility" where
  "reply_visibility actor audience conversation_audience = (case conversation_audience of
      None \<Rightarrow> VisDirect
    | Some ca \<Rightarrow>
        if ca = ap_public then
          (if ca \<in> set audience then VisPublic
           else if addressed_to audience (da_followers actor) then VisFollowers
           else VisDirect)
        else if ca \<in> set audience then VisConversation
        else if ap_public \<in> set audience then VisConversation
        else if addressed_to audience (da_followers actor) then VisConversation
        else VisDirect)"

definition get_object_visibility ::
  "actor_profile \<Rightarrow> string option \<Rightarrow> string list \<Rightarrow> post_detailed option \<Rightarrow> uuid option \<Rightarrow> (visibility \<times> post_context) db" where
  "get_object_visibility author context_id audience in_reply_to grp =
     bnd (expect_actor_data author) (\<lambda>actor. case in_reply_to of
       Some parent \<Rightarrow> bnd (expect_conversation parent) (\<lambda>c.
         ret (reply_visibility actor audience (cv_audience c), CtxReply (cv_id c) (po_id (pd_post parent))))
     | None \<Rightarrow> ret (
         let (vis, conversation_audience) =
           (if list_ex is_public audience then (VisPublic, Some ap_public)
            else if addressed_to audience (da_followers actor) then (VisFollowers, da_followers actor)
            else if addressed_to audience (da_subscribers actor) then (VisSubscribers, da_subscribers actor)
            else (VisDirect, None)) in
         (vis, CtxTop grp context_id conversation_audience)))"

section \<open>Polls\<close>

definition poll_option_from_value :: "text_library \<Rightarrow> json \<Rightarrow> (string, poll_result) outcome" where
  "poll_option_from_value W v = ok_or ''invalid poll option''
     (Option.bind (json_required_str v ''name'') (\<lambda>name.
      Option.bind (json_field v ''replies'') (\<lambda>replies.
      Option.bind (Option.bind (json_field replies ''totalItems'') json_u32) (\<lambda>n.
      Some \<lparr>pr_option_name = clean_poll_option_name W name, pr_vote_count = n\<rparr>))))"

definition poll_values :: "attributed_object \<Rightarrow> (string, json \<times> bool) outcome" where
  "poll_values x = (case (ob_one_of x, ob_any_of x) of
      (Some v, None) \<Rightarrow> Ok (v, False)
    | (None, Some v) \<Rightarrow> Ok (v, True)
    | _ \<Rightarrow> Err ''invalid poll'')"

definition parse_poll_results :: "text_library \<Rightarrow> attributed_object \<Rightarrow> (string, poll_data) outcome" where
  "parse_poll_results W x =
     obind (poll_values x) (\<lambda>(v, multiple).
     obind (case v of JArray vs \<Rightarrow> Ok vs | _ \<Rightarrow> Err ''invalid poll options'') (\<lambda>vs.
     obind (try_map (poll_option_from_value W) vs) (\<lambda>results.
     let d = \<lparr>pd_multiple_choices = multiple, pd_ends_at = or_else (ob_end_time x) (ob_closed x),
       pd_results = results, pd_voters_count = ob_voters_count x\<rparr> in
     obind (validate_poll_data W d) (\<lambda>_. Ok d))))"

text \<open>A question whose poll is not valid becomes a post without a poll.\<close>

definition object_poll :: "text_library \<Rightarrow> attributed_object \<Rightarrow> poll_data option" where
  "object_poll W x = (if ob_type x = ''Question'' then of_outcome (parse_poll_results W x) else None)"

section \<open>The handlers\<close>

text \<open>The title, and the content with the links appended for conversions and skipped attachments.\<close>

definition object_link :: "attributed_object \<Rightarrow> string option \<Rightarrow> string list" where
  "object_link x url = (if is_converted x then [case url of Some u \<Rightarrow> u | None \<Rightarrow> ob_id x] else [])"

definition is_marked_sensitive :: "ap_env \<Rightarrow> ap_client \<Rightarrow> attributed_object \<Rightarrow> string \<Rightarrow> bool" where
  "is_marked_sensitive V K x domain \<longleftrightarrow>
     ob_sensitive x = Some True \<or> action_required V K domain FaMarkSensitive"

definition find_parent :: "ap_env \<Rightarrow> ap_client \<Rightarrow> (string \<times> string) list \<Rightarrow> attributed_object \<Rightarrow> post_detailed option hand" where
  "find_parent V K redirects x = (case ob_in_reply_to x of
      Some i \<Rightarrow> bnd (get_linked V K redirects i) (\<lambda>p. ret (Some p)) | None \<Rightarrow> ret None)"

definition find_group :: "ap_env \<Rightarrow> ap_client \<Rightarrow> attributed_object \<Rightarrow> uuid option hand" where
  "find_group V K x = (case ob_audience x of
      [] \<Rightarrow> ret None
    | i # _ \<Rightarrow> match_result (resolve V K (only_remote default_resolver) i)
        (\<lambda>p. ret (if p_actor_type p = Group then Some (p_id p) else None))
        (\<lambda>e. if is_actor_importer_error e then ret None else throw e))"

definition starts_with :: "string \<Rightarrow> string \<Rightarrow> bool" where
  "starts_with p x \<longleftrightarrow> strip_prefix p x \<noteq> None"

definition object_context_id :: "ap_env \<Rightarrow> attributed_object \<Rightarrow> string option hand" where
  "object_context_id V x = (case ob_context x of
      Some i \<Rightarrow> if starts_with ''data:'' i \<or> starts_with ''tag:'' i then ret None
        else bnd (canonical_id V i) (\<lambda>c. ret (Some c))
    | None \<Rightarrow> ret None)"

definition check_attribution :: "ap_env \<Rightarrow> attributed_object \<Rightarrow> unit hand" where
  "check_attribution V x =
     bnd (validate (map_err (\<lambda>_. ''invalid object ID'') (is_same_origin (uris V) (ob_attributed_to x) (ob_id x)))) (\<lambda>same.
     if same then ret () else throw (HeValidation ''object attributed to actor from different server''))"

text \<open>The result of \<open>validate_reply\<close> is only logged, in both handlers.\<close>

definition create_remote_post :: "ap_env \<Rightarrow> ap_client \<Rightarrow> object_json \<Rightarrow> (string \<times> string) list \<Rightarrow> post_detailed hand" where
  "create_remote_post V K ob redirects =
     (let x = oj_inner ob; W = ev_text V in
      bnd (canonical_id V (ob_id x)) (\<lambda>oid.
      seq (validate (check_not_actor x)) (
      seq (check_attribution V x) (
      bnd (resolve V K (only_remote default_resolver) (ob_attributed_to x)) (\<lambda>author.
      bnd (in_db (expect_actor_data author)) (\<lambda>data.
      bnd (domain_of V data) (\<lambda>domain.
      bnd (find_parent V K redirects x) (\<lambda>parent.
      bnd (validate (get_object_content W x)) (\<lambda>(title, content).
      bnd (validate (get_object_url x)) (\<lambda>url.
      bnd (get_object_attachments V K x author) (\<lambda>(attachments, unprocessed).
      bnd (get_object_tags V K x author redirects) (\<lambda>(mentions, hashtags, links, es).
      bnd (find_group V K x) (\<lambda>grp.
      bnd (in_db (filter_mentions (ev_ext V) mentions author (map_option (\<lambda>p. po_id (pd_post p)) parent))) (\<lambda>mentioned.
      bnd (validate (get_audience (uris V) x)) (\<lambda>audience.
      bnd (object_context_id V x) (\<lambda>context_id.
      bnd (in_db (get_object_visibility author context_id audience parent grp)) (\<lambda>(vis, ctx).
      bnd (gets current_timestamp) (\<lambda>now.
      let d = \<lparr>pc_id = None, pc_context = ctx, pc_title = title,
        pc_content = add_links (object_link x url @ unprocessed) content, pc_content_source = None,
        pc_language = object_language V x, pc_visibility = vis, pc_is_sensitive = is_marked_sensitive V K x domain,
        pc_poll = object_poll W x, pc_attachments = attachments, pc_mentions = map p_id mentioned,
        pc_tags = hashtags, pc_links = links, pc_emojis = es, pc_url = url, pc_object_id = Some oid,
        pc_created_at = (case ob_published x of Some t \<Rightarrow> t | None \<Rightarrow> now)\<rparr> in
      seq (validate (validate_post_create_data W (uris V) d OriginRemote)) (
      seq (validate (validate_post_mentions (pc_mentions d) (pc_visibility d))) (
      seq (validate (check_post_limits (ac_attachment_limit K) (ac_attachment_limit K) (pc_attachments d) OriginRemote)) (
      bnd (gets (\<lambda>s. (ev_fresh V ''post'' s, ev_fresh V ''conversation'' s))) (\<lambda>(ulid, cid).
      bnd (in_db (create_post (ev_ext V) ulid cid (p_id author) d)) (\<lambda>post.
      seq (in_db (save_attributed_object oid (oj_value ob) (po_id (pd_post post)))) (ret post))))))))))))))))))))))))"

definition expect_remote_actor_id :: "actor_profile \<Rightarrow> string hand" where
  "expect_remote_actor_id p = (case p_actor_json p of Some a \<Rightarrow> ret (da_id a) | None \<Rightarrow> panic ''actor data should be present'')"

definition expect_remote_object_id :: "post_detailed \<Rightarrow> string hand" where
  "expect_remote_object_id d = (case po_object_id (pd_post d) of
      Some i \<Rightarrow> ret i | None \<Rightarrow> panic ''object ID should be present'')"

definition update_remote_post :: "ap_env \<Rightarrow> ap_client \<Rightarrow> post_detailed \<Rightarrow> object_json \<Rightarrow> post_detailed hand" where
  "update_remote_post V K post ob =
     (let x = oj_inner ob; W = ev_text V; author = pd_author post in
      if post_is_local post then panic ''post is local''
      else
      bnd (canonical_id V (ob_attributed_to x)) (\<lambda>author_id.
      bnd (expect_remote_actor_id author) (\<lambda>old_id.
      if author_id \<noteq> old_id then throw (HeValidation ''object owner can't be changed'')
      else
      bnd (in_db (expect_actor_data author)) (\<lambda>data.
      bnd (domain_of V data) (\<lambda>domain.
      bnd (find_parent V K [] x) (\<lambda>parent.
      if map_option (\<lambda>p. po_id (pd_post p)) parent \<noteq> po_in_reply_to_id (pd_post post)
      then throw (HeValidation ''inReplyTo can't be changed'')
      else
      bnd (validate (get_object_content W x)) (\<lambda>(title, content0).
      let poll = (if pd_poll post \<noteq> None then object_poll W x else None) in
      bnd (validate (get_object_url x)) (\<lambda>url.
      bnd (get_object_attachments V K x author) (\<lambda>(attachments, unprocessed).
      let content = add_links (object_link x url @ unprocessed) content0 in
      bnd (get_object_tags V K x author []) (\<lambda>(mentions, hashtags, links, es).
      bnd (in_db (filter_mentions (ev_ext V) mentions author (po_in_reply_to_id (pd_post post)))) (\<lambda>mentioned.
      bnd (gets current_timestamp) (\<lambda>now.
      let d = \<lparr>pu_title = title, pu_content = content, pu_content_source = None, pu_language = object_language V x,
        pu_is_sensitive = is_marked_sensitive V K x domain, pu_poll = poll, pu_attachments = attachments,
        pu_mentions = map p_id mentioned, pu_tags = hashtags, pu_links = links, pu_emojis = es, pu_url = url,
        pu_updated_at = (if post_is_edited post title content poll attachments then Some now
          else po_updated_at (pd_post post))\<rparr> in
      seq (validate (validate_post_update_data W d OriginRemote)) (
      seq (validate (validate_post_mentions (pu_mentions d) (po_visibility (pd_post post)))) (
      seq (validate (check_post_limits (ac_attachment_limit K) (ac_attachment_limit K) (pu_attachments d) OriginRemote)) (
      bnd (in_db (update_post (ev_ext V) (po_id (pd_post post)) d)) (\<lambda>(post', queue).
      seq (enqueue_deletion V queue) (
      bnd (expect_remote_object_id post') (\<lambda>oid.
      seq (in_db (save_attributed_object oid (oj_value ob) (po_id (pd_post post')))) (ret post')))))))))))))))))))"

end
