(* ===== verification/PostImport.thy ===== *)
theory PostImport
  imports PostHandlers
begin

text \<open>
  Import of posts (\<open>mitra_activitypub/src/importers.rs\<close>, \<open>import_post\<close>, \<open>import_object\<close>): the ancestors and
  the linked objects of an object are fetched first, at most \<open>fetcher_recursion_limit\<close> of them, then a
  post is created for each, starting with the root. The loop reads the database and does not write it.
  Its queue is a vector whose last element is taken first; here the head of the list is that element.
\<close>

record import_state =
  im_queue :: "string list"
  im_fetch_count :: nat
  im_object :: "object_json option"
  im_objects :: "object_json list"
  im_redirects :: "(string \<times> string) list"

datatype import_event = ImReturn post_detailed | ImBreak | ImContinue import_state

abbreviation oj_id :: "object_json \<Rightarrow> string" where
  "oj_id ob \<equiv> ob_id (oj_inner ob)"

text \<open>A fetched object must belong to the actor it is attributed to.\<close>

definition fetch_attributed :: "ap_env \<Rightarrow> ap_client \<Rightarrow> string \<Rightarrow> (handler_error, object_json) outcome" where
  "fetch_attributed V K i =
     obind (client_fetch V K i) (\<lambda>v.
     obind (ok_or (HeValidation ''deserialization error'') (object_of_value V v)) (\<lambda>ob.
     obind (map_err HeValidation (verify_object_owner (uris V) (oj_value ob))) (\<lambda>_. Ok ob)))"

text \<open>The object that is at hand, or the object fetched, with the new number of fetches.\<close>

definition next_object :: "ap_env \<Rightarrow> ap_client \<Rightarrow> string \<Rightarrow> import_state \<Rightarrow> (handler_error, object_json \<times> nat) outcome" where
  "next_object V K i st = (case im_object st of
      Some ob \<Rightarrow> Ok (ob, im_fetch_count st)
    | None \<Rightarrow>
        if im_fetch_count st \<ge> ac_recursion_limit K then Err (HeFetch FeRecursion)
        else obind (fetch_attributed V K i) (\<lambda>ob. Ok (ob, im_fetch_count st + 1)))"

text \<open>An object under another identifier is a redirection; otherwise its parent is the next to fetch
  and its links are the last.\<close>

definition queue_object :: "string \<Rightarrow> object_json \<Rightarrow> nat \<Rightarrow> import_state \<Rightarrow> import_state" where
  "queue_object i ob fetches st =
     (if oj_id ob \<noteq> i then
        st\<lparr>im_fetch_count := fetches, im_redirects := (i, oj_id ob) # im_redirects st,
           im_queue := oj_id ob # im_queue st, im_object := Some ob\<rparr>
      else
        st\<lparr>im_fetch_count := fetches,
           im_queue := (case ob_in_reply_to (oj_inner ob) of Some p \<Rightarrow> p # im_queue st | None \<Rightarrow> im_queue st)
             @ get_object_links (oj_inner ob),
           im_object := None, im_objects := im_objects st @ [ob]\<rparr>)"

definition fetch_step :: "ap_env \<Rightarrow> ap_client \<Rightarrow> string \<Rightarrow> import_state \<Rightarrow> (handler_error, import_event) outcome" where
  "fetch_step V K i st = obind (next_object V K i st) (\<lambda>(ob, fetches). Ok (ImContinue (queue_object i ob fetches st)))"

text \<open>\<open>rest\<close> is the state after \<open>queue.pop()\<close>.\<close>

definition visit :: "ap_env \<Rightarrow> ap_client \<Rightarrow> database \<Rightarrow> string \<Rightarrow> import_state \<Rightarrow> (handler_error, import_event) outcome" where
  "visit V K s i rest =
     (if i \<in> set (map oj_id (im_objects rest)) then Ok (ImContinue (rest\<lparr>im_object := None\<rparr>))
      else obind (map_err HeValidation (canonicalize_id (uris V) i)) (\<lambda>c.
        case parse_local_object_id (uris V) (ev_uuids V) (client_authority K) (canonical_to_string (uris V) c) of
          Ok pid \<Rightarrow>
            if im_objects rest = [] then Err HeLocalObject
            else obind (map_err HeDatabase (fst (get_local_post_by_id (ev_ext V) pid s))) (\<lambda>_. Ok (ImContinue rest))
        | _ \<Rightarrow> (case fst (get_remote_post_by_object_id (ev_ext V) (canonical_to_string (uris V) c) s) of
              Ok p \<Rightarrow> if im_objects rest = [] then Ok (ImReturn p) else Ok (ImContinue (rest\<lparr>im_object := None\<rparr>))
            | Err (NotFound _) \<Rightarrow> fetch_step V K i rest
            | Err e \<Rightarrow> Err (HeDatabase e)
            | Panic m \<Rightarrow> Panic m)))"

definition import_step :: "ap_env \<Rightarrow> ap_client \<Rightarrow> database \<Rightarrow> import_state \<Rightarrow> (handler_error, import_event) outcome" where
  "import_step V K s st = (case im_queue st of
      [] \<Rightarrow> Ok ImBreak
    | i # q \<Rightarrow> visit V K s i (st\<lparr>im_queue := q\<rparr>))"

section \<open>The loop ends\<close>

text \<open>An iteration fetches, uses up the object at hand, shortens the queue, or puts the identifier of
  the object at hand on top of the queue.\<close>

definition import_rank :: "ap_client \<Rightarrow> import_state \<Rightarrow> nat \<times> nat \<times> nat" where
  "import_rank K st =
     (2 * (ac_recursion_limit K - im_fetch_count st) + (if im_object st = None then 0 else 1),
      length (im_queue st),
      (case im_object st of Some ob \<Rightarrow> if im_queue st \<noteq> [] \<and> hd (im_queue st) = oj_id ob then 0 else 1 | None \<Rightarrow> 0))"

definition rank_order :: "((nat \<times> nat \<times> nat) \<times> (nat \<times> nat \<times> nat)) set" where
  "rank_order = less_than <*lex*> less_than <*lex*> less_than"

lemma wf_rank_order: "wf rank_order"
  by (simp add: rank_order_def wf_lex_prod)

lemma fetch_step_rank:
  assumes "fetch_step V K i rest = Ok (ImContinue st')" and "st = rest\<lparr>im_queue := i # im_queue rest\<rparr>"
  shows "(import_rank K st', import_rank K st) \<in> rank_order"
  using assms
  by (cases "im_object rest")
    (auto simp: fetch_step_def next_object_def queue_object_def import_rank_def rank_order_def
      obind_Ok split: if_splits option.splits)

lemma visit_cases:
  assumes "visit V K s i rest = Ok ev"
  obtains (known) "ev = ImContinue (rest\<lparr>im_object := None\<rparr>)" "im_objects rest \<noteq> []"
    | (local) "ev = ImContinue rest" "im_objects rest \<noteq> []"
    | (found) p where "ev = ImReturn p" "im_objects rest = []"
    | (fetched) "fetch_step V K i rest = Ok ev" "i \<notin> set (map oj_id (im_objects rest))"
proof (cases "i \<in> set (map oj_id (im_objects rest))")
  case True
  then have "im_objects rest \<noteq> []" by auto
  then show thesis using True assms known by (simp add: visit_def)
next
  case False
  then obtain c where run: "(case parse_local_object_id (uris V) (ev_uuids V) (client_authority K) (canonical_to_string (uris V) c) of
          Ok pid \<Rightarrow>
            if im_objects rest = [] then Err HeLocalObject
            else obind (map_err HeDatabase (fst (get_local_post_by_id (ev_ext V) pid s))) (\<lambda>_. Ok (ImContinue rest))
        | _ \<Rightarrow> (case fst (get_remote_post_by_object_id (ev_ext V) (canonical_to_string (uris V) c) s) of
              Ok p \<Rightarrow> if im_objects rest = [] then Ok (ImReturn p) else Ok (ImContinue (rest\<lparr>im_object := None\<rparr>))
            | Err (NotFound _) \<Rightarrow> fetch_step V K i rest
            | Err e \<Rightarrow> Err (HeDatabase e)
            | Panic m \<Rightarrow> Panic m)) = Ok ev" (is "(case ?P of Ok pid \<Rightarrow> ?A pid | _ \<Rightarrow> ?B) = _")
    using assms by (auto simp: visit_def obind_Ok)
  have other: thesis if B: "?B = Ok ev"
  proof (cases "fst (get_remote_post_by_object_id (ev_ext V) (canonical_to_string (uris V) c) s)")
    case (Ok p) then show thesis using B known found [of p] by (cases "im_objects rest = []") auto
  next
    case (Err e) then show thesis using B fetched False by (cases e) simp_all
  next
    case (Panic m) then show thesis using B by simp
  qed
  show thesis
  proof (cases ?P)
    case (Ok pid) then show thesis using run local by (simp add: obind_Ok split: if_splits)
  qed (use run other in simp_all)
qed

lemma visit_rank:
  assumes "visit V K s i rest = Ok (ImContinue st')" and st: "st = rest\<lparr>im_queue := i # im_queue rest\<rparr>"
  shows "(import_rank K st', import_rank K st) \<in> rank_order"
  using assms(1)
proof (cases rule: visit_cases)
  case fetched then show ?thesis using fetch_step_rank st by blast
qed (auto simp: st import_rank_def rank_order_def split: option.splits)

lemma import_step_rank:
  assumes "import_step V K s st = Ok (ImContinue st')"
  shows "(import_rank K st', import_rank K st) \<in> rank_order"
proof -
  obtain i q where q: "im_queue st = i # q" and v: "visit V K s i (st\<lparr>im_queue := q\<rparr>) = Ok (ImContinue st')"
    using assms by (auto simp: import_step_def split: list.splits)
  show ?thesis by (rule visit_rank [OF v]) (simp add: q)
qed

datatype import_outcome = ImFound post_detailed | ImFetched "object_json list" "(string \<times> string) list"

function import_loop :: "ap_env \<Rightarrow> ap_client \<Rightarrow> database \<Rightarrow> import_state \<Rightarrow> (handler_error, import_outcome) outcome" where
  "import_loop V K s st = (case import_step V K s st of
      Ok (ImReturn p) \<Rightarrow> Ok (ImFound p)
    | Ok ImBreak \<Rightarrow> Ok (ImFetched (im_objects st) (im_redirects st))
    | Ok (ImContinue st') \<Rightarrow> import_loop V K s st'
    | Err e \<Rightarrow> Err e
    | Panic m \<Rightarrow> Panic m)"
  by pat_completeness auto

termination
  by (relation "inv_image rank_order (\<lambda>(V, K, s, st). import_rank K st)")
    (auto simp: wf_rank_order dest: import_step_rank)

declare import_loop.simps [simp del]

section \<open>The importers\<close>

definition import_start :: "string \<Rightarrow> object_json option \<Rightarrow> import_state" where
  "import_start i received = \<lparr>im_queue = [i], im_fetch_count = 0, im_object = received, im_objects = [], im_redirects = []\<rparr>"

definition create_fetched :: "ap_env \<Rightarrow> ap_client \<Rightarrow> (string \<times> string) list \<Rightarrow> object_json \<Rightarrow> post_detailed list \<Rightarrow> post_detailed list hand" where
  "create_fetched V K redirects ob created =
     bnd (create_remote_post V K ob redirects) (\<lambda>p. ret (created @ [p]))"

definition initial_post :: "string \<Rightarrow> post_detailed list \<Rightarrow> post_detailed hand" where
  "initial_post i created = (case find (\<lambda>p. po_object_id (pd_post p) = Some i) created of
      Some p \<Rightarrow> ret p | None \<Rightarrow> panic ''requested post should be among fetched objects'')"

definition import_post :: "ap_env \<Rightarrow> ap_client \<Rightarrow> string \<Rightarrow> object_json option \<Rightarrow> post_detailed hand" where
  "import_post V K i received =
     bnd (bnd (gets (\<lambda>s. import_loop V K s (import_start i received))) lift) (\<lambda>r. case r of
       ImFound p \<Rightarrow> ret p
     | ImFetched obs redirects \<Rightarrow> (case obs of
          [] \<Rightarrow> panic ''index out of bounds''
        | ob # _ \<Rightarrow>
            bnd (canonical_id V (oj_id ob)) (\<lambda>first.
            bnd (fold_p (create_fetched V K redirects) (rev obs) []) (initial_post first))))"

definition import_object :: "ap_env \<Rightarrow> ap_client \<Rightarrow> json \<Rightarrow> post_detailed hand" where
  "import_object V K v =
     bnd (deserialized (object_of_value V v)) (\<lambda>ob.
     bnd (canonical_id V (oj_id ob)) (\<lambda>i.
     found_or (get_remote_post_by_object_id (ev_ext V) i)
       (\<lambda>p. update_remote_post V K p ob)
       (import_post V K (oj_id ob) (Some ob))))"

end
