(* ===== verification/FetchResults.thy ===== *)
theory FetchResults
  imports FederationClient PostImport PostCreation
begin

text \<open>
  Results about the client: which requests a fetch sends, and that a signed document is verified with the
  public key of its signer.
\<close>

section \<open>Requests of a fetch\<close>

lemma sign_http_request_target:
  "sign_http_request S L r meth url body signer rfc = Ok q \<Longrightarrow> rq_url q = rq_url r \<and> rq_method q = rq_method r"
  by (auto simp: sign_http_request_def ok_runs add_header_def add_opt_header_def split: if_splits option.splits)

lemma fetch_request_target:
  assumes "fetch_request E A url = Ok q"
  shows "rq_url q = url \<and> rq_method q = ''GET'' \<and> (fa_ssrf_protection_enabled A \<longrightarrow> is_safe_url (fe_uris E) (fe_net E) url)"
  using assms
  by (auto simp: fetch_request_def ok_runs build_http_request_def Let_def add_header_def
      dest!: sign_http_request_target split: if_splits option.splits)

text \<open>A request that a fetch may send.\<close>

definition safe_request :: "fetch_env \<Rightarrow> federation_agent \<Rightarrow> http_request \<Rightarrow> bool" where
  "safe_request E A q \<longleftrightarrow> rq_method q = ''GET''
     \<and> (fa_ssrf_protection_enabled A \<longrightarrow> is_safe_url (fe_uris E) (fe_net E) (rq_url q))"

lemma fetch_loop_requests:
  "\<exists>new. snd (fetch_loop E A c n url sent) = sent @ new \<and> length new \<le> Suc n \<and> list_all (safe_request E A) new"
proof (induction E A c n url arbitrary: sent rule: fetch_loop.induct)
  case (1 E A c n url)
  show ?case
  proof (cases "fetch_request E A url")
    case (Ok q)
    then have safe: "safe_request E A q"
      by (auto simp: safe_request_def dest: fetch_request_target)
    let ?sent = "sent @ [q]"
    show ?thesis
    proof (cases "fe_servers E c q")
      case None
      with Ok safe show ?thesis
        by (intro exI [of _ "[q]"]) (simp add: fetch_loop.simps [of E A c n] prog_defs send_request_def)
    next
      case (Some response)
      let ?stop = "is_error_status (rs_status response) \<or> \<not> is_redirection (rs_status response) \<or> n = 0
        \<or> redirect_target (fe_net E) response = None"
      show ?thesis
      proof (cases ?stop)
        case True
        with Ok Some safe show ?thesis
          by (intro exI [of _ "[q]"])
            (auto simp: fetch_loop.simps [of E A c n] prog_defs send_request_def split: nat.splits)
      next
        case False
        then obtain m target where m: "n = Suc m" "redirect_target (fe_net E) response = Some target"
          by (cases n) auto
        with False Ok Some have eq: "snd (fetch_loop E A c n url sent) = snd (fetch_loop E A c m target ?sent)"
          by (simp add: fetch_loop.simps [of E A c "Suc m"] prog_defs send_request_def)
        obtain new where "snd (fetch_loop E A c m target ?sent) = ?sent @ new" "length new \<le> Suc m"
          "list_all (safe_request E A) new"
          using "1.IH" [of response m target ?sent] False m by auto
        with eq m safe show ?thesis
          by (intro exI [of _ "q # new"]) simp
      qed
    qed
  qed (auto simp: fetch_loop.simps [of E A c n] prog_defs)
qed

lemma fetch_object_requests:
  "\<exists>new. snd (fetch_object E A url skip sent) = sent @ new \<and> length new \<le> redirect_limit
     \<and> list_all (safe_request E A) new"
proof (cases "create_fetcher_client E A url RedirectNone")
  case (Ok c)
  obtain r sent' where run: "fetch_loop E A c (redirect_limit - 1) url sent = (r, sent')"
    by fastforce
  obtain new where new: "sent' = sent @ new" "length new \<le> redirect_limit" "list_all (safe_request E A) new"
    using fetch_loop_requests [of E A c "redirect_limit - 1" url sent] run by (auto simp: redirect_limit_def)
  have "snd (fetch_object E A url skip sent) = sent'"
    using run Ok by (auto simp: fetch_object_def prog_defs Let_def split: outcome.splits)
  with new show ?thesis
    by auto
qed (auto simp: fetch_object_def prog_defs)

section \<open>Signed documents\<close>

text \<open>The entries of a JSON object, as the map of the library keeps them.\<close>

definition entries_ok :: "(string \<times> json) list \<Rightarrow> bool" where
  "entries_ok kvs \<longleftrightarrow> sorted_wrt (<) (map fst kvs)"

lemma map_insert_new:
  assumes "entries_ok kvs" and "map_of kvs k = None"
  shows "\<exists>before after. kvs = before @ after \<and> map_insert k v kvs = before @ (k, v) # after
    \<and> k \<notin> fst ` set (before @ after)"
proof -
  have k: "k \<notin> fst ` set kvs"
    using assms(2) by (simp add: map_of_eq_None_iff)
  have "dropWhile (\<lambda>e. fst e \<le> k) kvs = dropWhile (\<lambda>e. fst e < k) kvs"
    using k by (induction kvs) (auto simp: order_le_less)
  then show ?thesis
    using k by (intro exI [of _ "takeWhile (\<lambda>e. fst e < k) kvs"] exI [of _ "dropWhile (\<lambda>e. fst e < k) kvs"])
      (simp add: map_insert_def)
qed

lemma delete_append: "AList.delete k (xs @ ys) = AList.delete k xs @ AList.delete k ys"
  by (simp add: AList.delete_eq)

lemma delete_inserted:
  assumes "entries_ok kvs" and "map_of kvs k = None" and "map_of kvs j = None" and "j \<noteq> k"
  shows "AList.delete j (map_insert k v kvs) = map_insert k v kvs"
    and "map_of (map_insert k v kvs) k = Some v"
    and "AList.delete k (map_insert k v kvs) = kvs"
proof -
  obtain before after where split: "kvs = before @ after" "map_insert k v kvs = before @ (k, v) # after"
      "k \<notin> fst ` set (before @ after)"
    using map_insert_new [OF assms(1,2)] by blast
  have "j \<notin> fst ` set (before @ after)"
    using assms(3) split(1) by (auto simp: map_of_eq_None_iff)
  then show "AList.delete j (map_insert k v kvs) = map_insert k v kvs"
    using split assms(4) by (simp add: delete_append image_Un)
  have "map_of before k = None"
    using split(3) by (simp add: map_of_eq_None_iff image_Un)
  then show "map_of (map_insert k v kvs) k = Some v"
    using split(2) by (simp add: map_add_def)
  show "AList.delete k (map_insert k v kvs) = kvs"
    using split by (simp add: delete_append image_Un)
qed

lemma proof_config_roundtrip:
  assumes "crypto_laws C" and "ipc_context c = None" and "ipc_cryptosuite c = Some suite" and "ipc_expires c = None"
  shows "proof_config_from_value C (JObject (proof_entries C c None)) = Some c"
    and "map_of (proof_entries C c (Some sg)) ''proofValue'' = Some (JString sg)"
    and "AList.delete ''proofValue'' (proof_entries C c (Some sg)) = proof_entries C c None"
    and "json_field (JObject (proof_entries C c (Some sg))) ''@context'' = None"
  using assms
  by (auto simp: proof_config_from_value_def proof_entries_def opt_entry_def json_opt_str_def json_opt_date_def
      json_opt_value_def crypto_laws_def intro!: integrity_proof_config.equality)

lemma sign_object_Ok:
  assumes "sign_object C K key key_id (JObject kvs) now = Ok doc"
  obtains hash_data where "map_of kvs ''proof'' = None"
    and "prepare_jcs_sha256_data C (JObject kvs) (proof_config_to_value C (jcs_eddsa_config key_id now None)) = Some hash_data"
    and "doc = JObject (map_insert ''proof''
      (integrity_proof_to_value C K (jcs_eddsa_config key_id now None) (eddsa_sign C key hash_data)) kvs)"
  using assms that by (auto simp: sign_object_def sign_object_eddsa_def ok_runs Let_def split: if_splits)

lemma signed_object_roundtrip:
  assumes "crypto_laws C" and "codec_laws (codecs_of L)" and "verification_method_parse L key_id = Ok vm"
    and "entries_ok kvs" and "map_of kvs ''signature'' = None"
    and "sign_object C (codecs_of L) key key_id (JObject kvs) now = Ok doc"
  shows "\<exists>d. get_json_signature C L doc = Ok d \<and> js_verification_method d = vm \<and> js_object d = JObject kvs
    \<and> js_proof_type d = EddsaJcsSignature
    \<and> verify_eddsa_json_signature C (eddsa_public C key) (js_object d) (js_proof_config d) (js_signature d) = Ok ()"
proof -
  let ?c = "jcs_eddsa_config key_id now None"
  obtain hash_data where fresh: "map_of kvs ''proof'' = None"
      and hash: "prepare_jcs_sha256_data C (JObject kvs) (proof_config_to_value C ?c) = Some hash_data"
      and doc: "doc = JObject (map_insert ''proof''
        (integrity_proof_to_value C (codecs_of L) ?c (eddsa_sign C key hash_data)) kvs)"
    using sign_object_Ok [OF assms(6)] by blast
  have cfg: "ipc_context ?c = None" "ipc_cryptosuite ?c = Some ''eddsa-jcs-2022''" "ipc_expires ?c = None"
      "ipc_proof_purpose ?c = ''assertionMethod''" "ipc_verification_method ?c = key_id"
      "config_proof_type ?c = Ok EddsaJcsSignature"
    by (simp_all add: jcs_eddsa_config_def config_proof_type_def proof_type_from_cryptosuite_def)
  note ins = delete_inserted [OF assms(4) fresh assms(5), of "integrity_proof_to_value C (codecs_of L) ?c (eddsa_sign C key hash_data)"]
  note entries = proof_config_roundtrip [OF assms(1) cfg(1-3)]
  let ?d = "\<lparr>js_proof_type = EddsaJcsSignature, js_verification_method = vm, js_object = JObject kvs,
    js_proof_config = JObject (proof_entries C ?c None), js_signature = eddsa_sign C key hash_data, js_expires_at = None\<rparr>"
  have "get_json_signature C L doc = Ok ?d"
    using ins entries assms(2,3) cfg unfolding get_json_signature_def doc
    by (simp add: integrity_proof_to_value_def multibase_exact_roundtrip del: multibase_encode.simps)
  moreover have "verify_eddsa_json_signature C (eddsa_public C key) (js_object ?d) (js_proof_config ?d) (js_signature ?d) = Ok ()"
    using hash assms(1) by (simp add: verify_eddsa_json_signature_def proof_config_to_value_def crypto_laws_def)
  ultimately show ?thesis
    by (intro exI [of _ ?d]) simp
qed

text \<open>
  Results about the import of posts: what the loop over the queue of references collects, and the
  visibility of the posts that are created from it.
\<close>

section \<open>The loop over the queue\<close>

text \<open>The objects collected so far have different identifiers, there is something to create once the queue is
  empty, and each object was either received or counted as a fetch.\<close>

definition import_inv :: "ap_client \<Rightarrow> bool \<Rightarrow> import_state \<Rightarrow> bool" where
  "import_inv K received st \<longleftrightarrow>
     distinct (map oj_id (im_objects st)) \<and> (im_queue st = [] \<longrightarrow> im_objects st \<noteq> [])
     \<and> im_fetch_count st \<le> ac_recursion_limit K
     \<and> length (im_objects st) + (if im_object st = None then 0 else 1) \<le> im_fetch_count st + (if received then 1 else 0)"

lemma fetch_step_inv:
  assumes "fetch_step V K i rest = Ok (ImContinue st')" and "i \<notin> set (map oj_id (im_objects rest))"
    and "import_inv K received (rest\<lparr>im_queue := i # im_queue rest\<rparr>)"
  shows "import_inv K received st'"
  using assms
  by (cases "im_object rest")
    (auto simp: fetch_step_def next_object_def queue_object_def import_inv_def obind_Ok split: if_splits)

lemma import_step_inv:
  assumes "import_step V K s st = Ok (ImContinue st')" and inv: "import_inv K received st"
  shows "import_inv K received st'"
proof -
  obtain i q where q: "im_queue st = i # q" and v: "visit V K s i (st\<lparr>im_queue := q\<rparr>) = Ok (ImContinue st')"
    using assms by (auto simp: import_step_def split: list.splits)
  have inv': "import_inv K received (st\<lparr>im_queue := q\<rparr>\<lparr>im_queue := i # im_queue (st\<lparr>im_queue := q\<rparr>)\<rparr>)"
    using inv q by (simp add: import_inv_def)
  from v show ?thesis
  proof (cases rule: visit_cases)
    case fetched then show ?thesis using fetch_step_inv inv' by simp
  qed (use inv in \<open>auto simp: import_inv_def split: if_splits\<close>)
qed

lemma import_step_break: "import_step V K s st = Ok ImBreak \<Longrightarrow> im_queue st = []"
proof (cases "im_queue st")
  case (Cons i q)
  assume "import_step V K s st = Ok ImBreak"
  then have "visit V K s i (st\<lparr>im_queue := q\<rparr>) = Ok ImBreak"
    using Cons by (simp add: import_step_def)
  then show ?thesis
    by (cases rule: visit_cases) (auto simp: fetch_step_def obind_Ok)
qed simp

lemma import_loop_inv:
  assumes "import_loop V K s st = Ok (ImFetched obs redirects)" and "import_inv K received st"
  shows "obs \<noteq> [] \<and> distinct (map oj_id obs)
    \<and> length obs \<le> ac_recursion_limit K + (if received then 1 else 0)"
  using assms
proof (induction V K s st rule: import_loop.induct)
  case (1 V K s st)
  show ?case
  proof (cases "import_step V K s st")
    case (Ok ev)
    then show ?thesis
    proof (cases ev)
      case ImBreak
      then show ?thesis
        using Ok 1(2,3) import_step_break [of V K s st]
        by (simp add: import_loop.simps [of V K s st] import_inv_def split: if_splits)
    next
      case (ImContinue st')
      then show ?thesis
        using Ok "1.IH" [of ev st'] 1(2) import_step_inv [OF _ 1(3)] by (simp add: import_loop.simps [of V K s st])
    qed (use Ok 1(2) in \<open>simp add: import_loop.simps [of V K s st]\<close>)
  qed (use 1(2) in \<open>simp_all add: import_loop.simps [of V K s st]\<close>)
qed

lemma import_start_inv: "import_inv K (received \<noteq> None) (import_start i received)"
  by (simp add: import_inv_def import_start_def)

section \<open>Visibility of created posts\<close>


text \<open>The chain of calls up to the insertion, with what decides about the visibility.\<close>

lemma expect_actor_data_Ok: "expect_actor_data p s = (Ok data, t) \<longleftrightarrow> p_actor_json p = Some data \<and> t = s"
  by (auto simp: expect_actor_data_def ok_runs split: option.split)

lemma check_attribution_Ok:
  "check_attribution V x s = (Ok a, t) \<longleftrightarrow> is_same_origin (uris V) (ob_attributed_to x) (ob_id x) = Ok True \<and> t = s"
  by (auto simp: check_attribution_def ok_runs map_err_Ok split: if_splits)

lemma domain_of_Ok: "domain_of V a s = (Ok d, t) \<longleftrightarrow> get_moderation_domain (uris V) a = Ok d \<and> t = s"
  by (simp add: domain_of_def ok_runs)

lemma create_remote_post_run:
  assumes "create_remote_post V K ob redirects s = (Ok post, t)"
  obtains author u parent u2 audience context_id grp vis ctx u3 u4 d ulid cid u5 u6 where
    "resolve V K (only_remote default_resolver) (ob_attributed_to (oj_inner ob)) s = (Ok author, u)"
    "find_parent V K redirects (oj_inner ob) u = (Ok parent, u2)"
    "get_audience (uris V) (oj_inner ob) = Ok audience"
    "get_object_visibility author context_id audience parent grp u3 = (Ok (vis, ctx), u4)"
    "create_post (ev_ext V) ulid cid (p_id author) d u5 = (Ok post, u6)"
    "pc_visibility d = vis" "pc_context d = ctx"
  using assms unfolding create_remote_post_def Let_def
  apply (simp only: ok_runs split_paired_Ex prod.case expect_actor_data_Ok check_attribution_Ok domain_of_Ok)
  apply (elim exE conjE)
  apply hypsubst
  apply (rule that, assumption, assumption, assumption, assumption, assumption)
   apply simp_all
  done

lemma object_visibility_reply:
  assumes "get_object_visibility author context_id audience (Some parent) grp s = (Ok (vis, ctx), t)"
  shows "\<exists>c data. pd_conversation parent = Some c \<and> p_actor_json author = Some data
    \<and> vis = reply_visibility data audience (cv_audience c) \<and> ctx = CtxReply (cv_id c) (po_id (pd_post parent))"
  using assms
  by (auto simp: get_object_visibility_def ok_runs expect_actor_data_def expect_conversation_def
      split: option.splits if_splits)

lemma reply_visibility_public:
  "reply_visibility data audience ca \<in> {VisPublic, VisFollowers, VisSubscribers} \<Longrightarrow> ca = Some ap_public"
  by (auto simp: reply_visibility_def split: option.splits if_splits)

lemma created_reply:
  assumes "create_post X ulid cid author d s = (Ok post, t)" and "pc_context d = CtxReply c i"
  shows "po_conversation_id (pd_post post) = Some c \<and> po_in_reply_to_id (pd_post post) = Some i
    \<and> po_visibility (pd_post post) = pc_visibility d"
proof -
  obtain conv s1 where conv: "find_or_create_conversation cid (new_post_id ulid d) d s = (Ok conv, s1)"
      and row: "pd_post post = post_row (new_post_id ulid d) author conv d"
    by (rule create_post_effect [OF assms(1)]) blast
  have "map_option cv_id conv = Some c"
    using find_or_create_conversation_Ok [OF conv] assms(2) by auto
  then show ?thesis
    using row assms(2) by (simp add: post_row_def)
qed

lemma remote_reply_conversation:
  assumes "create_remote_post V K ob redirects s = (Ok post, t)" and "ob_in_reply_to (oj_inner ob) = Some i"
  shows "\<exists>author data audience parent c u.
    resolve V K (only_remote default_resolver) (ob_attributed_to (oj_inner ob)) s = (Ok author, u)
    \<and> p_actor_json author = Some data \<and> get_audience (uris V) (oj_inner ob) = Ok audience
    \<and> fst (get_linked V K redirects i u) = Ok parent \<and> pd_conversation parent = Some c
    \<and> po_in_reply_to_id (pd_post post) = Some (po_id (pd_post parent)) \<and> po_conversation_id (pd_post post) = Some (cv_id c)
    \<and> po_visibility (pd_post post) = reply_visibility data audience (cv_audience c)
    \<and> (po_visibility (pd_post post) \<in> {VisPublic, VisFollowers, VisSubscribers} \<longrightarrow> conversation_is_public c)"
proof -
  obtain author u parent u2 audience context_id grp vis ctx u3 u4 d ulid cid u5 u6 where
    run: "resolve V K (only_remote default_resolver) (ob_attributed_to (oj_inner ob)) s = (Ok author, u)"
      "find_parent V K redirects (oj_inner ob) u = (Ok parent, u2)"
      "get_audience (uris V) (oj_inner ob) = Ok audience"
      "get_object_visibility author context_id audience parent grp u3 = (Ok (vis, ctx), u4)"
      "create_post (ev_ext V) ulid cid (p_id author) d u5 = (Ok post, u6)"
      "pc_visibility d = vis" "pc_context d = ctx"
    by (rule create_remote_post_run [OF assms(1)]) blast
  obtain p where p: "parent = Some p" "get_linked V K redirects i u = (Ok p, u2)"
    using run(2) assms(2) by (auto simp: find_parent_def ok_runs)
  obtain c data where c: "pd_conversation p = Some c" "p_actor_json author = Some data"
      "vis = reply_visibility data audience (cv_audience c)" "ctx = CtxReply (cv_id c) (po_id (pd_post p))"
    using object_visibility_reply run(4) p(1) by blast
  have "po_conversation_id (pd_post post) = Some (cv_id c)" "po_in_reply_to_id (pd_post post) = Some (po_id (pd_post p))"
      "po_visibility (pd_post post) = vis"
    using created_reply [OF run(5)] run(6,7) c(4) by auto
  moreover have "conversation_is_public c" if "vis \<in> {VisPublic, VisFollowers, VisSubscribers}"
    using that c(3) reply_visibility_public by (simp add: conversation_is_public_def)
  moreover have "fst (get_linked V K redirects i u) = Ok p" by (simp add: p(2))
  ultimately show ?thesis
    using run(1,3) c(1-3) by blast
qed

end
