(* ===== verification/OutgoingActivities.thy ===== *)
theory OutgoingActivities
  imports PostImport
begin

text \<open>
  Outgoing activities (\<open>mitra_activitypub/src/builders\<close>, \<open>queues.rs\<close>, \<open>deliverer.rs\<close>, \<open>contexts.rs\<close>,
  \<open>forwarder.rs\<close>): an activity is built, signed with the key of its sender and put into the outgoing queue
  with its recipients. Serialization writes the fields of an object in the order of their names.
\<close>

section \<open>Serialization\<close>

definition json_struct :: "(string \<times> json option) list \<Rightarrow> json" where
  "json_struct fs = JObject (sort_key fst (List.map_filter (\<lambda>(k, v). map_option (Pair k) v) fs))"

abbreviation js_str :: "string \<Rightarrow> json option" where
  "js_str x \<equiv> Some (JString x)"

abbreviation js_strs :: "string list \<Rightarrow> json option" where
  "js_strs xs \<equiv> Some (JArray (map JString xs))"

abbreviation js_opt :: "string option \<Rightarrow> json option" where
  "js_opt x \<equiv> map_option JString x"

definition js_bytes :: "bytes \<Rightarrow> json" where
  "js_bytes b = JArray (map (\<lambda>c. JNumber (int (of_char c))) b)"

definition build_default_context :: json where
  "build_default_context = JArray [JString ''https://www.w3.org/ns/activitystreams'',
     JString ''https://w3id.org/security/v1'', JString ''https://w3id.org/security/data-integrity/v2'',
     json_struct [(''Hashtag'', js_str ''as:Hashtag''), (''sensitive'', js_str ''as:sensitive''),
       (''toot'', js_str ''http://joinmastodon.org/ns#''), (''Emoji'', js_str ''toot:Emoji'')]]"

definition expect :: "(string, 'a) outcome \<Rightarrow> 'a db" where
  "expect r = lift (map_err (\<lambda>_. TypeError) r)"

section \<open>Senders and jobs\<close>

record sender =
  sn_rsa_secret_key :: string
  sn_rsa_key_id :: string
  sn_ed25519_secret_key :: string
  sn_ed25519_key_id :: string

definition sender_from_account :: "ap_env \<Rightarrow> authority \<Rightarrow> managed_account \<Rightarrow> (string, sender) outcome" where
  "sender_from_account V a acc =
     obind (expect_server_uri a) (\<lambda>u.
     obind (local_actor_id (uris V) (ev_uuids V) (http_uri_to_string u) (p_username (managed_profile acc))) (\<lambda>aid.
     Ok \<lparr>sn_rsa_secret_key = managed_rsa_secret_key acc, sn_rsa_key_id = local_actor_key_id aid RsaPkcs1,
         sn_ed25519_secret_key = managed_ed25519_secret_key acc,
         sn_ed25519_key_id = local_actor_key_id aid Ed25519Key\<rparr>))"

definition find_by_value :: "string \<Rightarrow> db_actor_key list \<Rightarrow> db_actor_key option" where
  "find_by_value v ks = find (\<lambda>k. dk_key_data k = v) ks"

definition sender_key_id :: "ap_env \<Rightarrow> string \<Rightarrow> string \<Rightarrow> (string, string) outcome" where
  "sender_key_id V i instance_uri = (case db_url_to_http_url (uris V) i instance_uri of
      Ok u \<Rightarrow> Ok u | _ \<Rightarrow> Panic ''RSA key ID should be valid'')"

text \<open>No sender, if a secret key does not correspond to a public key of the actor.\<close>

definition sender_from_portable_user :: "ap_env \<Rightarrow> string \<Rightarrow> portable_user \<Rightarrow> (string, sender option) outcome" where
  "sender_from_portable_user V instance_uri u =
     (let ks = p_public_keys (pru_profile u) in
      case find_by_value (rsa_public (cryptography V) (pru_rsa_secret_key u)) ks of
        None \<Rightarrow> Ok None
      | Some rsa \<Rightarrow> obind (sender_key_id V (dk_id rsa) instance_uri) (\<lambda>rsa_id.
          case find_by_value (eddsa_public (cryptography V) (pru_ed25519_secret_key u)) ks of
            None \<Rightarrow> Ok None
          | Some ed \<Rightarrow> obind (sender_key_id V (dk_id ed) instance_uri) (\<lambda>ed_id.
              Ok (Some \<lparr>sn_rsa_secret_key = pru_rsa_secret_key u, sn_rsa_key_id = rsa_id,
                sn_ed25519_secret_key = pru_ed25519_secret_key u, sn_ed25519_key_id = ed_id\<rparr>))))"

definition sender_to_value :: "ap_env \<Rightarrow> sender \<Rightarrow> (string, json) outcome" where
  "sender_to_value V sn = (case rsa_to_pkcs1_der (ev_ext V) (sn_rsa_secret_key sn) of
      None \<Rightarrow> Panic ''activity should be serializable''
    | Some der \<Rightarrow> Ok (json_struct [(''rsa_secret_key'', Some (js_bytes der)), (''rsa_key_id'', js_str (sn_rsa_key_id sn)),
        (''ed25519_secret_key'', Some (js_bytes (sn_ed25519_secret_key sn))),
        (''ed25519_key_id'', js_str (sn_ed25519_key_id sn))]))"

definition sign_activity :: "ap_env \<Rightarrow> datetime \<Rightarrow> sender \<Rightarrow> json \<Rightarrow> (json_signing_error, json) outcome" where
  "sign_activity V now sn activity =
     (if is_object_signed activity then Ok activity
      else sign_object (cryptography V) (codecs_of (uris V)) (sn_ed25519_secret_key sn) (sn_ed25519_key_id sn) activity now)"

definition outgoing_new ::
  "ap_env \<Rightarrow> authority \<Rightarrow> managed_account \<Rightarrow> json \<Rightarrow> recipient list \<Rightarrow> outgoing_activity_job_data db" where
  "outgoing_new V a acc activity rs =
     bnd (expect (sender_from_account V a acc)) (\<lambda>sn.
     bnd (gets current_timestamp) (\<lambda>now.
     case sign_activity V now sn activity of
       Ok signed_activity \<Rightarrow> bnd (expect (sender_to_value V sn)) (\<lambda>v.
         ret \<lparr>oj_activity = signed_activity, oj_sender = v, oj_recipients = sort_recipients rs, oj_failure_count = 0\<rparr>)
     | _ \<Rightarrow> panic ''activity should be valid''))"

datatype endpoint_type = EndpointInbox | EndpointOutbox

definition clone_recipients :: "ap_env \<Rightarrow> string \<Rightarrow> db_actor \<Rightarrow> endpoint_type \<Rightarrow> (database_error, recipient list) outcome" where
  "clone_recipients V instance_uri a ep =
     try_map (\<lambda>gateway. case db_url_to_http_url (uris V) (case ep of EndpointInbox \<Rightarrow> da_inbox a | EndpointOutbox \<Rightarrow> da_outbox a) gateway of
         Ok u \<Rightarrow> Ok (recipient_new (da_id a) u) | _ \<Rightarrow> Panic ''collection ID should be valid'')
       (filter (\<lambda>g. g \<noteq> instance_uri) (da_gateways a))"

definition outgoing_new_forwarded ::
  "ap_env \<Rightarrow> string \<Rightarrow> portable_user \<Rightarrow> json \<Rightarrow> db_actor list \<Rightarrow> endpoint_type \<Rightarrow> outgoing_activity_job_data option db" where
  "outgoing_new_forwarded V instance_uri u activity recipient_actors ep =
     (if recipient_actors \<noteq> [] \<and> ep \<noteq> EndpointOutbox then panic ''assertion failed''
      else bnd (lift (try_map (recipient_for_inbox (uris V)) recipient_actors)) (\<lambda>rss.
      bnd (expect_actor_data (pru_profile u)) (\<lambda>data.
      bnd (lift (clone_recipients V instance_uri data ep)) (\<lambda>clones.
      bnd (expect (sender_from_portable_user V instance_uri u)) (\<lambda>sn. case sn of
        None \<Rightarrow> ret None
      | Some x \<Rightarrow> bnd (expect (sender_to_value V x)) (\<lambda>v.
          ret (Some \<lparr>oj_activity = activity, oj_sender = v, oj_recipients = sort_recipients (concat rss @ clones),
            oj_failure_count = 0\<rparr>)))))))"

definition canonical_opt :: "ap_env \<Rightarrow> string \<Rightarrow> string option" where
  "canonical_opt V i = map_option (canonical_to_string (uris V)) (of_outcome (canonicalize_id (uris V) i))"

definition enqueue_activity :: "ap_env \<Rightarrow> outgoing_activity_job_data \<Rightarrow> unit db" where
  "enqueue_activity V d = bnd (gets (ev_fresh V ''job'')) (\<lambda>jid. outgoing_enqueue jid d)"

definition save_and_enqueue_activity :: "ap_env \<Rightarrow> outgoing_activity_job_data \<Rightarrow> unit db" where
  "save_and_enqueue_activity V d =
     bnd (gets (ev_fresh V ''job'')) (\<lambda>jid. save_and_enqueue (canonical_opt V) jid d)"

section \<open>Recipients\<close>

text \<open>Remote recipients of an activity: collections are expanded.\<close>

definition get_activity_recipients :: "ap_env \<Rightarrow> string list \<Rightarrow> actor_profile list db" where
  "get_activity_recipients V audience =
     bnd (expand_collections audience) (get_remote_profiles_by_actor_ids (ev_ext V))"

definition profile_recipients :: "ap_env \<Rightarrow> actor_profile list \<Rightarrow> recipient list db" where
  "profile_recipients V ps =
     bnd (lift (try_map (recipient_for_inbox (uris V)) (List.map_filter p_actor_json ps))) (\<lambda>rss. ret (concat rss))"

definition note_audience :: "ap_env \<Rightarrow> post_detailed \<Rightarrow> (actor_profile list \<times> actor_profile list) db" where
  "note_audience V d = (case po_visibility (pd_post d) of
      VisPublic \<Rightarrow> bnd (get_followers (ev_ext V) (p_id (pd_author d))) (\<lambda>ps. ret ([], ps))
    | VisFollowers \<Rightarrow> bnd (get_followers (ev_ext V) (p_id (pd_author d))) (\<lambda>ps. ret ([], ps))
    | VisSubscribers \<Rightarrow> bnd (get_subscribers (ev_ext V) (p_id (pd_author d))) (\<lambda>ps. ret ([], ps))
    | VisConversation \<Rightarrow> bnd (expect_conversation d) (\<lambda>c.
        bnd (get_post_author (ev_ext V) (cv_root_id c)) (\<lambda>p. ret ([p], [])))
    | VisDirect \<Rightarrow> ret ([], []))"

definition get_note_recipients :: "ap_env \<Rightarrow> post_detailed \<Rightarrow> recipient list db" where
  "get_note_recipients V d =
     bnd (note_audience V d) (\<lambda>(primary, secondary).
     bnd (case po_in_reply_to_id (pd_post d) of
            Some i \<Rightarrow> bnd (get_post_author (ev_ext V) i) (\<lambda>p. ret [p]) | None \<Rightarrow> ret []) (\<lambda>parent.
     bnd (case pd_poll d of Some q \<Rightarrow> get_voters (ev_ext V) (poll_id q) | None \<Rightarrow> ret []) (\<lambda>voters.
     bnd (profile_recipients V (primary @ parent @ (case pd_group d of Some g \<Rightarrow> [g] | None \<Rightarrow> []) @ pd_mentions d)) (\<lambda>ps.
     bnd (profile_recipients V (secondary @ voters)) (\<lambda>ss.
     ret (map (\<lambda>r. r\<lparr>rc_is_primary := True\<rparr>) ps @ ss))))))"

section \<open>Follows\<close>

definition build_accept_follow ::
  "ap_env \<Rightarrow> authority \<Rightarrow> uuid \<Rightarrow> actor_profile \<Rightarrow> string \<Rightarrow> string \<Rightarrow> (string, json) outcome" where
  "build_accept_follow V a ulid p source_actor_id follow_activity_id =
     obind (local_activity_id_unified (uris V) (ev_uuids V) a ''Accept'' ulid) (\<lambda>i.
     obind (local_actor_id_unified (uris V) (ev_uuids V) a (p_id p) (p_username p)) (\<lambda>aid.
     Ok (json_struct [(''@context'', Some build_default_context), (''type'', js_str ''Accept''), (''id'', js_str i),
       (''actor'', js_str aid), (''object'', js_str follow_activity_id), (''to'', js_strs [source_actor_id])])))"

definition compatible :: "ap_env \<Rightarrow> db_actor \<Rightarrow> string \<Rightarrow> string db" where
  "compatible V a i = type_check (compatible_id (uris V) a i)"

definition prepare_accept_follow ::
  "ap_env \<Rightarrow> ap_client \<Rightarrow> managed_account \<Rightarrow> db_actor \<Rightarrow> string \<Rightarrow> outgoing_activity_job_data db" where
  "prepare_accept_follow V K acc source_actor follow_activity_id =
     bnd (compatible V source_actor (da_id source_actor)) (\<lambda>source_id.
     bnd (compatible V source_actor follow_activity_id) (\<lambda>follow_id.
     bnd (gets (ev_fresh V ''activity'')) (\<lambda>ulid.
     bnd (expect (build_accept_follow V (client_authority K) ulid (managed_profile acc) source_id follow_id)) (\<lambda>activity.
     bnd (lift (recipient_for_inbox (uris V) source_actor)) (\<lambda>rs.
     outgoing_new V (client_authority K) acc activity rs)))))"

definition build_follow ::
  "ap_env \<Rightarrow> authority \<Rightarrow> actor_profile \<Rightarrow> string \<Rightarrow> uuid \<Rightarrow> bool \<Rightarrow> bool \<Rightarrow> (string, string \<times> json) outcome" where
  "build_follow V a p target_id request_id deprecated_id with_context =
     obind (if deprecated_id
            then obind (expect_server_uri a) (\<lambda>u. Ok (local_object_id (ev_uuids V) (http_uri_to_string u) request_id))
            else local_activity_id_unified (uris V) (ev_uuids V) a ''Follow'' request_id) (\<lambda>i.
     obind (local_actor_id_unified (uris V) (ev_uuids V) a (p_id p) (p_username p)) (\<lambda>aid.
     Ok (i, json_struct [(''@context'', if with_context then Some build_default_context else None),
       (''type'', js_str ''Follow''), (''id'', js_str i), (''actor'', js_str aid), (''object'', js_str target_id),
       (''to'', js_strs [target_id])])))"

definition prepare_follow :: "ap_env \<Rightarrow> ap_client \<Rightarrow> user \<Rightarrow> db_actor \<Rightarrow> uuid \<Rightarrow> outgoing_activity_job_data db" where
  "prepare_follow V K u target request_id =
     bnd (compatible V target (da_id target)) (\<lambda>target_id.
     bnd (expect (build_follow V (client_authority K) (user_profile u) target_id request_id False True)) (\<lambda>(_, activity).
     bnd (lift (recipient_for_inbox (uris V) target)) (\<lambda>rs.
     outgoing_new V (client_authority K) (ManagedUser u) activity rs)))"

definition build_undo_follow ::
  "ap_env \<Rightarrow> authority \<Rightarrow> actor_profile \<Rightarrow> string \<Rightarrow> uuid \<Rightarrow> bool \<Rightarrow> (string, json) outcome" where
  "build_undo_follow V a p target_id request_id deprecated_id =
     obind (build_follow V a p target_id request_id deprecated_id False) (\<lambda>(follow_id, follow_json).
     obind (local_activity_id_unified (uris V) (ev_uuids V) a ''Undo'' request_id) (\<lambda>i.
     obind (local_actor_id_unified (uris V) (ev_uuids V) a (p_id p) (p_username p)) (\<lambda>aid.
     Ok (json_struct [(''@context'', Some build_default_context), (''type'', js_str ''Undo''), (''id'', js_str i),
       (''actor'', js_str aid),
       (''object'', Some (case ath_root a of RootServer _ \<Rightarrow> follow_json | RootKey _ \<Rightarrow> JString follow_id)),
       (''to'', js_strs [target_id])]))))"

definition prepare_undo_follow ::
  "ap_env \<Rightarrow> ap_client \<Rightarrow> user \<Rightarrow> db_actor \<Rightarrow> uuid \<Rightarrow> bool \<Rightarrow> outgoing_activity_job_data db" where
  "prepare_undo_follow V K u target request_id deprecated_id =
     bnd (compatible V target (da_id target)) (\<lambda>target_id.
     bnd (expect (build_undo_follow V (client_authority K) (user_profile u) target_id request_id deprecated_id)) (\<lambda>activity.
     bnd (lift (recipient_for_inbox (uris V) target)) (\<lambda>rs.
     outgoing_new V (client_authority K) (ManagedUser u) activity rs)))"

section \<open>Conversations\<close>

definition build_group_announce ::
  "ap_env \<Rightarrow> authority \<Rightarrow> uuid \<Rightarrow> actor_profile \<Rightarrow> json \<Rightarrow> (string, json \<times> string list) outcome" where
  "build_group_announce V a ulid grp activity =
     (let b = authority_id_builder a; L = uris V; show_id = non_canonical_to_string L in
      obind (local_actor_id_canonical L (ev_uuids V) (ath_root a) (p_id grp) (p_username grp)) (\<lambda>aid.
      obind (local_activity_id_canonical L (ev_uuids V) (ath_root a) ''Announce'' ulid) (\<lambda>i.
      let followers = local_actor_collection_of Followers (canonical_to_string L aid) in
      obind (id_build_unchecked L b ap_public) (\<lambda>to_id.
      obind (id_build_unchecked L b followers) (\<lambda>cc_id.
      Ok (json_struct [(''@context'', Some build_default_context), (''type'', js_str ''Announce''),
          (''id'', js_str (show_id (id_build b i))), (''actor'', js_str (show_id (id_build b aid))),
          (''object'', Some activity), (''audience'', js_str (show_id (id_build b aid))),
          (''to'', js_strs [show_id to_id]), (''cc'', js_strs [show_id cc_id])],
        [ap_public, followers]))))))"

definition prepare_group_announce ::
  "ap_env \<Rightarrow> ap_client \<Rightarrow> automated_account_detailed \<Rightarrow> json \<Rightarrow> outgoing_activity_job_data db" where
  "prepare_group_announce V K grp activity =
     bnd (gets (ev_fresh V ''activity'')) (\<lambda>ulid.
     bnd (expect (build_group_announce V (client_authority K) ulid (aad_profile grp) activity)) (\<lambda>(announce, audience).
     bnd (get_activity_recipients V audience) (\<lambda>ps.
     bnd (profile_recipients V ps) (\<lambda>rs.
     outgoing_new V (client_authority K) (ManagedAutomated grp) announce rs))))"

definition build_add_context_activity ::
  "ap_env \<Rightarrow> string \<Rightarrow> uuid \<Rightarrow> string \<Rightarrow> uuid \<Rightarrow> string \<Rightarrow> json \<Rightarrow> (string, json) outcome" where
  "build_add_context_activity V instance_uri ulid username cid audience activity =
     obind (authority_server_unchecked (uris V) instance_uri) (\<lambda>a.
     obind (local_actor_id (uris V) (ev_uuids V) instance_uri username) (\<lambda>aid.
     obind (local_activity_id (uris V) (ev_uuids V) instance_uri ''Add'' ulid) (\<lambda>i.
     Ok (json_struct [(''@context'', Some build_default_context), (''type'', js_str ''Add''), (''actor'', js_str aid),
       (''id'', js_str i), (''object'', Some activity),
       (''target'', Some (json_struct [(''type'', js_str ''OrderedCollection''),
          (''id'', js_str (local_conversation_history_collection (uris V) (ev_uuids V) a cid)),
          (''attributedTo'', js_str aid)])),
       (''to'', js_strs [audience])]))))"

definition prepare_add_context_activity ::
  "ap_env \<Rightarrow> ap_client \<Rightarrow> user \<Rightarrow> uuid \<Rightarrow> post_detailed \<Rightarrow> string \<Rightarrow> json \<Rightarrow> outgoing_activity_job_data db" where
  "prepare_add_context_activity V K owner cid root audience activity =
     (if user_id owner \<noteq> p_id (pd_author root) then panic ''assertion failed''
      else bnd (expect_conversation root) (\<lambda>c.
        if cid \<noteq> cv_id c then panic ''assertion failed''
        else bnd (gets (ev_fresh V ''activity'')) (\<lambda>ulid.
        bnd (expect (build_add_context_activity V (http_uri_to_string (ac_instance_uri K)) ulid
          (p_username (user_profile owner)) cid audience activity)) (\<lambda>add.
        bnd (get_note_recipients V root) (\<lambda>rs.
        outgoing_new V (client_authority K) (ManagedUser owner) add rs)))))"

text \<open>Whether an activity is distributed to the participants of a conversation with a local owner.\<close>

definition is_synced :: "ap_client \<Rightarrow> conversation \<Rightarrow> visibility \<Rightarrow> bool" where
  "is_synced K c vis \<longleftrightarrow>
     (if vis = VisConversation then True
      else if conversation_is_public c \<and> ac_fep_171b_public_enabled K then vis = VisPublic
      else False)"

definition sync_group :: "ap_env \<Rightarrow> ap_client \<Rightarrow> uuid \<Rightarrow> json \<Rightarrow> visibility \<Rightarrow> unit db" where
  "sync_group V K gid activity vis =
     match_result (get_group_account_by_id (ev_ext V) gid)
       (\<lambda>grp. if vis = VisPublic
          then bnd (prepare_group_announce V K grp activity) (save_and_enqueue_activity V) else ret ())
       (\<lambda>e. case e of NotFound _ \<Rightarrow> ret () | _ \<Rightarrow> throw e)"

definition sync_owned :: "ap_env \<Rightarrow> ap_client \<Rightarrow> conversation \<Rightarrow> json \<Rightarrow> visibility \<Rightarrow> post_detailed \<Rightarrow> unit db" where
  "sync_owned V K c activity vis root =
     (if \<not> post_is_local root \<or> \<not> is_synced K c vis then ret ()
      else (case cv_audience c of
          None \<Rightarrow> ret ()
        | Some audience \<Rightarrow> bnd (get_user_by_id (ev_ext V) (p_id (pd_author root))) (\<lambda>owner.
            bnd (prepare_add_context_activity V K owner (cv_id c) root audience activity) (save_and_enqueue_activity V))))"

definition sync_conversation :: "ap_env \<Rightarrow> ap_client \<Rightarrow> conversation \<Rightarrow> json \<Rightarrow> visibility \<Rightarrow> unit db" where
  "sync_conversation V K c activity vis = (case cv_group_id c of
      Some gid \<Rightarrow> sync_group V K gid activity vis
    | None \<Rightarrow> match_result (get_post_by_id (ev_ext V) (cv_root_id c))
        (sync_owned V K c activity vis)
        (\<lambda>e. case e of
           NotFound _ \<Rightarrow> if string_property activity ''type'' = Some ''Delete'' then ret () else throw e
         | _ \<Rightarrow> throw e))"

end
