(* ===== verification/NoteBuilder.thy ===== *)
theory NoteBuilder
  imports OutgoingActivities
begin

text \<open>
  The document of a local post (\<open>mitra_activitypub/src/builders/note.rs\<close>, \<open>emoji.rs\<close>, \<open>update_note.rs\<close>,
  \<open>mitra_models/src/posts/helpers.rs\<close>, \<open>mitra_adapters/src/profiles.rs\<close>): its audience follows from its
  visibility, its mentions, the post it replies to and its group.
\<close>

section \<open>Related posts\<close>

record related_posts =
  rlp_in_reply_to :: "post_detailed option"
  rlp_linked :: "post_detailed list"

text \<open>Of a repost, the original with its own related posts.\<close>

record related_with_repost = related_posts +
  rlp_repost_of :: "(post_detailed \<times> related_posts) option"

definition find_related :: "post_detailed list \<Rightarrow> uuid \<Rightarrow> (database_error, post_detailed) outcome" where
  "find_related related i = ok_or (NotFound ''post'') (find (\<lambda>p. po_id (pd_post p) = i) related)"

definition direct_related :: "post_detailed list \<Rightarrow> post_detailed \<Rightarrow> (database_error, related_posts) outcome" where
  "direct_related related p =
     obind (case po_in_reply_to_id (pd_post p) of
              Some i \<Rightarrow> obind (find_related related i) (\<lambda>q. Ok (Some q)) | None \<Rightarrow> Ok None) (\<lambda>parent.
     obind (try_map (find_related related) (pd_links p)) (\<lambda>linked.
     Ok \<lparr>rlp_in_reply_to = parent, rlp_linked = linked\<rparr>))"

definition all_related :: "post_detailed list \<Rightarrow> post_detailed \<Rightarrow> (database_error, related_with_repost) outcome" where
  "all_related related p =
     obind (direct_related related p) (\<lambda>r.
     obind (case po_repost_of_id (pd_post p) of
              Some i \<Rightarrow> obind (find_related related i) (\<lambda>orig.
                obind (direct_related related orig) (\<lambda>q. Ok (Some (orig, q))))
            | None \<Rightarrow> Ok None) (\<lambda>orig.
     Ok \<lparr>rlp_in_reply_to = rlp_in_reply_to r, rlp_linked = rlp_linked r, rlp_repost_of = orig\<rparr>))"

definition add_related_posts :: "externals \<Rightarrow> post_detailed list \<Rightarrow> related_with_repost list db" where
  "add_related_posts X ps =
     bnd (get_related_posts X (map (\<lambda>p. po_id (pd_post p)) ps)) (\<lambda>related.
     lift (try_map (all_related related) ps))"

section \<open>Parts of a document\<close>

definition media_server_url :: "string \<Rightarrow> string \<Rightarrow> string" where
  "media_server_url base_url file_name = base_url @ ''/media/'' @ file_name"

fun expect_file_info :: "partial_media_info \<Rightarrow> (string, partial_file_info) outcome" where
  "expect_file_info (PmFile f _) = Ok f"
| "expect_file_info (PmLink _ _) = Panic ''media should be stored locally''"

fun pm_media_type :: "partial_media_info \<Rightarrow> string option" where
  "pm_media_type (PmFile f _) = pf_media_type f"
| "pm_media_type (PmLink media_type _) = Some media_type"

fun pm_url :: "partial_media_info \<Rightarrow> string option" where
  "pm_url (PmFile _ url) = url"
| "pm_url (PmLink _ url) = Some url"

datatype attachment_type = AttachmentImage | AttachmentVideo | AttachmentAudio | AttachmentUnknown

definition attachment_type_of :: "media_attachment \<Rightarrow> attachment_type" where
  "attachment_type_of m = (case pm_media_type (ma_media m) of
      Some t \<Rightarrow>
        if starts_with ''image/'' t then AttachmentImage
        else if starts_with ''video/'' t then AttachmentVideo
        else if starts_with ''audio/'' t then AttachmentAudio
        else AttachmentUnknown
    | None \<Rightarrow> AttachmentUnknown)"

definition build_emoji :: "ap_env \<Rightarrow> string \<Rightarrow> custom_emoji \<Rightarrow> (string, json) outcome" where
  "build_emoji V instance_uri e =
     obind (case em_object_id e of
         Some oid \<Rightarrow> Ok (oid, case pm_url (em_image e) of Some u \<Rightarrow> u | None \<Rightarrow> oid)
       | None \<Rightarrow> obind (expect_file_info (em_image e)) (\<lambda>f.
           Ok (local_emoji_id instance_uri (em_name e), media_server_url instance_uri (pf_file_name f)))) (\<lambda>(oid, url).
     Ok (json_struct [(''type'', js_str ''Emoji''), (''id'', js_str oid), (''name'', js_str (shortcode e)),
       (''icon'', Some (json_struct [(''type'', js_str ''Image''), (''url'', js_str url),
          (''mediaType'', js_opt (pm_media_type (em_image e)))])),
       (''updated'', js_str (show_rfc3339 (cryptography V) (em_updated_at e)))]))"

definition build_attachment :: "ap_env \<Rightarrow> string \<Rightarrow> media_attachment \<Rightarrow> (string, json) outcome" where
  "build_attachment V instance_uri m =
     obind (expect_file_info (ma_media m)) (\<lambda>f.
     let nullable = (\<lambda>x. Some (opt_str_json x)) in
     Ok (json_struct [(''type'', js_str (if attachment_type_of m = AttachmentImage then ''Image'' else ''Document'')),
       (''name'', js_opt (ma_description m)), (''mediaType'', nullable (pf_media_type f)),
       (''digestMultibase'', nullable (map_option (encode_sha256_multihash (codecs_of (uris V))) (pf_digest f))),
       (''url'', js_str (media_server_url instance_uri (pf_file_name f)))]))"

definition simple_tag :: "string \<Rightarrow> string \<Rightarrow> string \<Rightarrow> json" where
  "simple_tag ty name href = json_struct [(''type'', js_str ty), (''href'', js_str href), (''name'', js_str name)]"

definition link_tag_to_value :: "link_tag \<Rightarrow> json" where
  "link_tag_to_value t = json_struct [(''type'', js_str (lt_tag_type t)), (''name'', Some (opt_str_json (lt_name t))),
     (''href'', js_str (lt_href t)), (''mediaType'', js_str (lt_media_type t)),
     (''rel'', if lt_rel t = [] then None else js_strs (lt_rel t))]"

definition link_rel_misskey_quote :: string where
  "link_rel_misskey_quote = ''https://misskey-hub.net/ns#_misskey_quote''"

definition build_link_tags :: "string list \<Rightarrow> json list" where
  "build_link_tags hrefs = map (\<lambda>(k, href). link_tag_to_value \<lparr>lt_tag_type = ''Link'', lt_name = None, lt_href = href,
     lt_media_type = ap_media_type, lt_rel = (if k = 0 then [link_rel_misskey_quote] else [])\<rparr>) (enumerate 0 hrefs)"

definition profile_address :: "string \<Rightarrow> actor_profile \<Rightarrow> webfinger_address option" where
  "profile_address local_hostname p = (case profile_webfinger_hostname p of
      WfRemote h \<Rightarrow> Some \<lparr>wa_username = p_username p, wa_hostname = h\<rparr>
    | WfLocal \<Rightarrow> Some \<lparr>wa_username = p_username p, wa_hostname = local_hostname\<rparr>
    | WfUnknown \<Rightarrow> None)"

definition mention_name :: "string \<Rightarrow> actor_profile \<Rightarrow> string" where
  "mention_name local_hostname p = (case profile_address local_hostname p of
      Some w \<Rightarrow> webfinger_handle w | None \<Rightarrow> ''@'' @ p_username p)"

definition compatible_post_object_id :: "ap_env \<Rightarrow> authority \<Rightarrow> post_detailed \<Rightarrow> (string, string) outcome" where
  "compatible_post_object_id V a d = (case po_object_id (pd_post d) of
      Some oid \<Rightarrow> (case p_actor_json (pd_author d) of
          None \<Rightarrow> Panic ''actor data should be present''
        | Some data \<Rightarrow>
            if actor_is_portable data
            then (case compatible_id (uris V) data oid of Ok i \<Rightarrow> Ok i | _ \<Rightarrow> Panic ''object ID should be valid'')
            else Ok oid)
    | None \<Rightarrow> Ok (local_object_id_unified (uris V) (ev_uuids V) a (po_id (pd_post d))))"

definition question_option :: "poll_result \<Rightarrow> json" where
  "question_option r = json_struct [(''type'', js_str ''Note''), (''name'', js_str (pr_option_name r)),
     (''replies'', Some (json_struct [(''totalItems'', Some (JNumber (int (pr_vote_count r))))]))]"

section \<open>The document\<close>

fun visibility_audience :: "visibility \<Rightarrow> string \<Rightarrow> string list \<times> string list" where
  "visibility_audience VisPublic aid = ([ap_public], [local_actor_collection_of Followers aid])"
| "visibility_audience VisFollowers aid = ([local_actor_collection_of Followers aid], [])"
| "visibility_audience VisSubscribers aid = ([local_actor_collection_of Subscribers aid], [])"
| "visibility_audience VisConversation aid = ([], [])"
| "visibility_audience VisDirect aid = ([], [])"

text \<open>The author of the parent and, in a limited conversation, its audience.\<close>

definition reply_audience ::
  "ap_env \<Rightarrow> authority \<Rightarrow> post_detailed \<Rightarrow> related_posts \<Rightarrow> string list \<Rightarrow> (string list \<times> string option) db" where
  "reply_audience V a d r audience = (case po_in_reply_to_id (pd_post d) of
      None \<Rightarrow> ret (audience, None)
    | Some i \<Rightarrow> (case rlp_in_reply_to r of
        None \<Rightarrow> panic ''in_reply_to should be populated''
      | Some parent \<Rightarrow>
          if po_id (pd_post parent) \<noteq> i then panic ''assertion failed''
          else bnd (if p_id (pd_author d) \<noteq> p_id (pd_author parent)
                    then bnd (expect (compatible_profile_actor_id (uris V) (ev_uuids V) a (pd_author parent)))
                           (\<lambda>pid. ret (add_new pid audience))
                    else ret audience) (\<lambda>audience1.
          bnd (if po_visibility (pd_post d) = VisConversation
               then bnd (expect_conversation parent) (\<lambda>c. ret (case cv_audience c of
                      Some ca \<Rightarrow> add_new ca audience1 | None \<Rightarrow> audience1))
               else ret audience1) (\<lambda>audience2.
          bnd (expect (compatible_post_object_id V a parent)) (\<lambda>oid. ret (audience2, Some oid))))))"

record note_document =
  nd_value :: json
  nd_attributed_to :: string
  nd_to :: "string list"
  nd_cc :: "string list"

definition build_note ::
  "ap_env \<Rightarrow> string \<Rightarrow> authority \<Rightarrow> post_detailed \<Rightarrow> related_posts \<Rightarrow> bool \<Rightarrow> note_document db" where
  "build_note V webfinger a d r with_context =
     (let L = uris V; F = ev_uuids V; p = pd_post d; C = cryptography V in
      bnd (expect (expect_server_uri a)) (\<lambda>u.
      let server = http_uri_to_string u; oid = local_object_id_unified L F a (po_id p) in
      bnd (expect (local_actor_id_unified L F a (p_id (pd_author d)) (p_username (pd_author d)))) (\<lambda>aid.
      bnd (expect (try_map (build_attachment V server) (pd_attachments d))) (\<lambda>attachments.
      let (primary, secondary) = visibility_audience (po_visibility p) aid in
      bnd (expect (try_map (compatible_profile_actor_id L F a) (pd_mentions d))) (\<lambda>mention_ids.
      bnd (expect (try_map (compatible_post_object_id V a) (rlp_linked r))) (\<lambda>link_ids.
      bnd (expect (try_map (build_emoji V server) (pd_emojis d))) (\<lambda>emoji_tags.
      bnd (reply_audience V a d r (foldl (\<lambda>acc i. add_new i acc) primary mention_ids)) (\<lambda>(audience, parent_id).
      bnd (expect_conversation d) (\<lambda>c.
      bnd (case pd_group d of
             Some g \<Rightarrow> bnd (expect (compatible_profile_actor_id L F a g)) (\<lambda>gid. ret (Some gid)) | None \<Rightarrow> ret None) (\<lambda>gid.
      let tos = (case gid of Some g \<Rightarrow> add_new g audience | None \<Rightarrow> audience);
          options = (case pd_poll d of Some q \<Rightarrow> map question_option (poll_results q) | None \<Rightarrow> []);
          multiple = (case pd_poll d of Some q \<Rightarrow> poll_multiple_choices q | None \<Rightarrow> False);
          tag_values = map2 (\<lambda>m i. simple_tag ''Mention'' (mention_name webfinger m) i) (pd_mentions d) mention_ids
            @ map (\<lambda>t. simple_tag ''Hashtag'' (''#'' @ t) (local_tag_collection L server t)) (pd_tags d)
            @ build_link_tags link_ids @ emoji_tags;
          quote = js_opt (case link_ids of [] \<Rightarrow> None | i # _ \<Rightarrow> Some i);
          non_empty = (\<lambda>xs. if xs = [] then None else Some (JArray xs)) in
      ret \<lparr>nd_value = json_struct [(''@context'', if with_context then Some build_default_context else None),
        (''id'', js_str oid), (''type'', js_str (if pd_poll d = None then ''Note'' else ''Question'')),
        (''attachment'', non_empty attachments), (''attributedTo'', js_str aid), (''inReplyTo'', js_opt parent_id),
        (''context'', js_opt (if cv_is_managed c then Some (local_conversation_collection L F a (cv_id c)) else cv_object_id c)),
        (''replies'', js_str (local_object_replies oid)), (''name'', js_opt (po_title p)), (''content'', js_str (po_content p)),
        (''contentMap'', map_option (\<lambda>code. json_struct [(code, js_str (po_content p))])
           (Option.bind (po_language p) (ev_language_code V))),
        (''sensitive'', Some (JBool (po_is_sensitive p))), (''tag'', non_empty tag_values),
        (''oneOf'', if multiple then None else non_empty options), (''anyOf'', if multiple then non_empty options else None),
        (''votersCount'', map_option JNumber (Option.bind (pd_poll d) poll_voters_count)),
        (''endTime'', js_opt (map_option (show_rfc3339 C) (Option.bind (pd_poll d) poll_ends_at))),
        (''to'', js_strs tos), (''cc'', js_strs secondary), (''audience'', js_opt gid), (''quote'', quote), (''quoteUrl'', quote),
        (''published'', js_str (show_rfc3339 C (po_created_at p))),
        (''updated'', js_opt (map_option (show_rfc3339 C) (po_updated_at p)))],
        nd_attributed_to = aid, nd_to = tos, nd_cc = secondary\<rparr>))))))))))"

definition build_update_note ::
  "ap_env \<Rightarrow> authority \<Rightarrow> string \<Rightarrow> uuid \<Rightarrow> post_detailed \<Rightarrow> related_posts \<Rightarrow> json db" where
  "build_update_note V a webfinger ulid d r =
     bnd (build_note V webfinger a d r False) (\<lambda>n.
     bnd (expect (local_activity_id_unified (uris V) (ev_uuids V) a ''Update'' ulid)) (\<lambda>i.
     ret (json_struct [(''@context'', Some build_default_context), (''type'', js_str ''Update''), (''id'', js_str i),
       (''actor'', js_str (nd_attributed_to n)), (''object'', Some (nd_value n)), (''to'', js_strs (nd_to n)),
       (''cc'', js_strs (nd_cc n))])))"

definition prepare_update_note ::
  "ap_env \<Rightarrow> ap_client \<Rightarrow> user \<Rightarrow> post_detailed \<Rightarrow> related_posts \<Rightarrow> outgoing_activity_job_data db" where
  "prepare_update_note V K author d r =
     (if user_id author \<noteq> p_id (pd_author d) then panic ''assertion failed''
      else bnd (gets (ev_fresh V ''activity'')) (\<lambda>ulid.
      bnd (build_update_note V (client_authority K) (ac_webfinger_hostname K) ulid d r) (\<lambda>activity.
      bnd (get_note_recipients V d) (\<lambda>rs.
      outgoing_new V (client_authority K) (ManagedUser author) activity rs))))"

end
