(* ===== verification/FollowHandlers.thy ===== *)
theory FollowHandlers
  imports NoteBuilder
begin

text \<open>
  Handlers of activities about relationships (\<open>mitra_activitypub/src/handlers/accept.rs\<close>, \<open>reject.rs\<close>,
  \<open>follow.rs\<close>, \<open>undo.rs\<close>, \<open>block.rs\<close>, \<open>move.rs\<close>), with \<open>adapters/follow_requests.rs\<close>, \<open>adapters/users.rs\<close> and
  \<open>c2s/followers.rs\<close>. A handler returns \<open>None\<close> for an activity it ignores.
\<close>

datatype descriptor = DescNone | DescObject string | DescTarget string

type_synonym handled = "descriptor option hand"

definition handled :: "string \<Rightarrow> handled" where
  "handled ty = ret (Some (DescObject ty))"

definition ignored :: handled where
  "ignored = ret None"

fun descriptor_to_string :: "descriptor \<Rightarrow> string" where
  "descriptor_to_string DescNone = []"
| "descriptor_to_string (DescObject x) = x"
| "descriptor_to_string (DescTarget x) = ''target: '' @ x"

text \<open>A field read with \<open>deserialize_into_object_id\<close>.\<close>

definition id_field :: "json \<Rightarrow> string \<Rightarrow> string option" where
  "id_field v k = Option.bind (json_field v k) (\<lambda>x. of_outcome (object_to_id x))"

definition is_relative_error :: "database_error \<Rightarrow> bool" where
  "is_relative_error e \<longleftrightarrow> (case e of NotFound _ \<Rightarrow> True | _ \<Rightarrow> False)"

section \<open>Followers\<close>

definition local_actor_data :: "ap_env \<Rightarrow> authority_root \<Rightarrow> actor_profile \<Rightarrow> (string, db_actor) outcome" where
  "local_actor_data V root p =
     obind (local_actor_id_canonical (uris V) (ev_uuids V) root (p_id p) (p_username p)) (\<lambda>c.
     let aid = canonical_to_string (uris V) c in
     Ok \<lparr>da_object_type = (case p_actor_type p of Automated \<Rightarrow> ''Service'' | Group \<Rightarrow> ''Group'' | Person \<Rightarrow> ''Person''),
         da_id = aid, da_inbox = local_actor_collection_of Inbox aid, da_shared_inbox = None,
         da_outbox = local_actor_collection_of Outbox aid,
         da_followers = Some (local_actor_collection_of Followers aid),
         da_subscribers = Some (local_actor_collection_of Subscribers aid),
         da_featured = Some (local_actor_collection_of Featured aid), da_url = None, da_gateways = [],
         da_public_key = None\<rparr>)"

definition get_actor_data :: "ap_env \<Rightarrow> authority_root \<Rightarrow> actor_profile \<Rightarrow> (string, db_actor) outcome" where
  "get_actor_data V root p = (case p_actor_json p of Some a \<Rightarrow> Ok a | None \<Rightarrow> local_actor_data V root p)"

definition record_follower :: "ap_env \<Rightarrow> uuid \<Rightarrow> int \<Rightarrow> string \<Rightarrow> string \<Rightarrow> unit db" where
  "record_follower V owner rid followers_id follower_id =
     bnd (type_check (parse_id_from_db_lenient (uris V) followers_id)) (\<lambda>cid.
     bnd (type_check (parse_id_from_db_lenient (uris V) follower_id)) (\<lambda>oid.
     match_result (add_relationship owner rid (canonical_to_string (uris V) cid) (canonical_to_string (uris V) oid))
       ret (\<lambda>e. if is_relative_error e then ret () else throw e)))"

definition accept_and_add_follower :: "ap_env \<Rightarrow> authority_root \<Rightarrow> uuid \<Rightarrow> unit db" where
  "accept_and_add_follower V root rid = transaction (
     bnd (follow_request_accepted (ev_ext V) rid) (\<lambda>rel.
     bnd (get_relationship_by_id rel) (\<lambda>r.
     bnd (expect (get_actor_data V root (rd_source r))) (\<lambda>src.
     bnd (expect (get_actor_data V root (rd_target r))) (\<lambda>tgt.
     case da_followers tgt of
       Some followers_id \<Rightarrow> record_follower V (p_id (rd_target r)) rel followers_id (da_id src)
     | None \<Rightarrow> ret ())))))"

definition client_root :: "ap_client \<Rightarrow> authority_root" where
  "client_root K = ath_root (client_authority K)"

definition follow_or_create_request :: "ap_env \<Rightarrow> ap_client \<Rightarrow> user \<Rightarrow> actor_profile \<Rightarrow> unit db" where
  "follow_or_create_request V K u target =
     bnd (gets (ev_fresh V ''follow request'')) (\<lambda>ulid.
     match_result (create_follow_request ulid (user_id u) (p_id target))
       (\<lambda>req. case p_actor_json target of
          Some remote_actor \<Rightarrow> bnd (prepare_follow V K u remote_actor (fr_id req)) (save_and_enqueue_activity V)
        | None \<Rightarrow>
            if p_manually_approves_followers target
            then create_follow_request_notification (user_id u) (p_id target)
            else accept_and_add_follower V (client_root K) (fr_id req))
       (\<lambda>e. case e of AlreadyExists _ \<Rightarrow> ret () | _ \<Rightarrow> throw e))"

text \<open>The followers of portable actors are tracked in a collection.\<close>

definition with_followers :: "actor_profile \<Rightarrow> actor_profile \<Rightarrow> (string \<Rightarrow> string \<Rightarrow> unit db) \<Rightarrow> unit db" where
  "with_followers src tgt f = (case (p_actor_json src, p_actor_json tgt) of
      (Some source_data, Some target_data) \<Rightarrow> (case da_followers target_data of
          Some cid \<Rightarrow> f cid (da_id source_data) | None \<Rightarrow> ret ())
    | _ \<Rightarrow> ret ())"

definition c2s_add_follower :: "actor_profile \<Rightarrow> actor_profile \<Rightarrow> unit db" where
  "c2s_add_follower src tgt = with_followers src tgt (\<lambda>cid aid. add_object_to_collection (p_id tgt) cid aid)"

definition c2s_remove_follower :: "actor_profile \<Rightarrow> actor_profile \<Rightarrow> unit db" where
  "c2s_remove_follower src tgt = with_followers src tgt remove_object_from_collection"

section \<open>Accept and Reject\<close>

definition get_follow_request_by_activity_id :: "ap_env \<Rightarrow> authority \<Rightarrow> string \<Rightarrow> follow_request db" where
  "get_follow_request_by_activity_id V a i = (case parse_local_activity_id (uris V) (ev_uuids V) a i of
      Ok rid \<Rightarrow> get_follow_request_by_id rid
    | _ \<Rightarrow> get_follow_request_by_remote_activity_id i)"

definition handle_accept_follow :: "ap_env \<Rightarrow> ap_client \<Rightarrow> json \<Rightarrow> handled" where
  "handle_accept_follow V K activity =
     bnd (deserialized (id_field activity ''actor'')) (\<lambda>actor.
     bnd (deserialized (id_field activity ''object'')) (\<lambda>object.
     bnd (canonical_id V actor) (\<lambda>aid.
     bnd (in_db (get_remote_profile_by_actor_id (ev_ext V) aid)) (\<lambda>p.
     bnd (canonical_id V object) (\<lambda>oid.
     bnd (in_db (get_follow_request_by_activity_id V (client_authority K) oid)) (\<lambda>req.
     if fr_target_id req \<noteq> p_id p then throw (HeValidation ''actor is not a target'')
     else if fr_status req = FrAccepted then ignored
     else seq (in_db (accept_and_add_follower V (client_root K) (fr_id req)))
       (seq (if has_portable_account p
             then in_db (bnd (get_profile_by_id (ev_ext V) (fr_source_id req)) (\<lambda>src. c2s_add_follower src p))
             else ret ())
        (handled ''Follow''))))))))"

definition ignore_missing :: "'a db \<Rightarrow> unit db" where
  "ignore_missing m = match_result m (\<lambda>_. ret ()) (\<lambda>e. if is_relative_error e then ret () else throw e)"

definition handle_reject :: "ap_env \<Rightarrow> ap_client \<Rightarrow> json \<Rightarrow> handled" where
  "handle_reject V K activity =
     bnd (deserialized (json_required_str activity ''actor'')) (\<lambda>actor.
     bnd (deserialized (id_field activity ''object'')) (\<lambda>object.
     bnd (in_db (get_remote_profile_by_actor_id (ev_ext V) actor)) (\<lambda>p.
     bnd (canonical_id V object) (\<lambda>oid.
     found_or (get_follow_request_by_activity_id V (client_authority K) oid)
       (\<lambda>req.
          if fr_target_id req \<noteq> p_id p then throw (HeValidation ''actor is not a target'')
          else seq (in_db (follow_request_rejected (fr_id req)))
            (seq (in_db (ignore_missing (unfollow (ev_ext V) (fr_source_id req) (fr_target_id req))))
             (handled ''Follow'')))
       ignored))))"

section \<open>Follow\<close>

text \<open>What happens to a request, given the account that is followed.\<close>

definition process_follow_request ::
  "ap_env \<Rightarrow> ap_client \<Rightarrow> db_actor \<Rightarrow> managed_account \<Rightarrow> string \<Rightarrow> follow_request \<Rightarrow> bool \<Rightarrow> unit db" where
  "process_follow_request V K source_actor acc activity_id req created =
     (if created \<and> p_manually_approves_followers (managed_profile acc)
      then create_follow_request_notification (fr_source_id req) (fr_target_id req)
      else seq (match_result (accept_and_add_follower V (client_root K) (fr_id req))
                 ret (\<lambda>e. case e of AlreadyExists _ \<Rightarrow> ret () | _ \<Rightarrow> throw e))
        (bnd (prepare_accept_follow V K acc source_actor activity_id) (save_and_enqueue_activity V)))"

definition handle_follow :: "ap_env \<Rightarrow> ap_client \<Rightarrow> json \<Rightarrow> handled" where
  "handle_follow V K activity =
     bnd (deserialized (json_required_str activity ''id'')) (\<lambda>activity_id.
     bnd (deserialized (id_field activity ''actor'')) (\<lambda>actor.
     bnd (deserialized (id_field activity ''object'')) (\<lambda>object.
     bnd (resolve V K (only_remote default_resolver) actor) (\<lambda>src.
     bnd (in_db (expect_actor_data src)) (\<lambda>source_actor.
     bnd (resolve V K (include_automated_accounts default_resolver) object) (\<lambda>tgt.
     bnd (canonical_id V activity_id) (\<lambda>cid.
     seq (validate (validate_any_object_id (uris V) cid)) (
     bnd (gets (ev_fresh V ''follow request'')) (\<lambda>ulid.
     bnd (in_db (create_remote_follow_request_opt ulid (p_id src) (p_id tgt) cid)) (\<lambda>(req, created).
     if \<not> profile_is_local tgt then handled ''Actor''
     else bnd (in_db (get_managed_account_by_id (ev_ext V) (p_id tgt))) (\<lambda>acc.
       seq (in_db (process_follow_request V K source_actor acc cid req created)) (handled ''Actor''))))))))))))"

section \<open>Undo\<close>

definition undo_relationship :: "ap_env \<Rightarrow> actor_profile \<Rightarrow> actor_profile \<Rightarrow> unit db" where
  "undo_relationship V src tgt = (if has_portable_account tgt then c2s_remove_follower src tgt else ret ())"

definition handle_undo_follow :: "ap_env \<Rightarrow> ap_client \<Rightarrow> json \<Rightarrow> handled" where
  "handle_undo_follow V K activity =
     bnd (deserialized (json_required_str activity ''actor'')) (\<lambda>actor.
     bnd (deserialized (json_field activity ''object'')) (\<lambda>object.
     bnd (canonical_id V actor) (\<lambda>aid.
     bnd (in_db (get_remote_profile_by_actor_id (ev_ext V) aid)) (\<lambda>src.
     bnd (validate (map_err (\<lambda>_. ''invalid follow activity object'') (object_to_id (json_index object ''object'')))) (\<lambda>target_id.
     bnd (resolve V K (include_automated_accounts default_resolver) target_id) (\<lambda>tgt.
     found_or (unfollow (ev_ext V) (p_id src) (p_id tgt))
       (\<lambda>_. seq (in_db (undo_relationship V src tgt)) (handled ''Follow''))
       ignored))))))"

definition undo_follow_request :: "ap_env \<Rightarrow> actor_profile \<Rightarrow> follow_request \<Rightarrow> handled" where
  "undo_follow_request V p req =
     (if fr_source_id req \<noteq> p_id p then throw (HeValidation ''actor is not a follower'')
      else seq (in_db (unfollow (ev_ext V) (fr_source_id req) (fr_target_id req)))
        (bnd (in_db (get_profile_by_id (ev_ext V) (fr_target_id req))) (\<lambda>tgt.
         seq (in_db (undo_relationship V p tgt)) (handled ''Follow''))))"

definition undo_reaction :: "ap_env \<Rightarrow> ap_client \<Rightarrow> json \<Rightarrow> actor_profile \<Rightarrow> reaction \<Rightarrow> handled" where
  "undo_reaction V K activity p r =
     (if re_author_id r \<noteq> p_id p then throw (HeValidation ''actor is not an author'')
      else bnd (in_db (get_post_by_id (ev_ext V) (re_post_id r))) (\<lambda>post.
        seq (in_db (delete_reaction (re_author_id r) (re_post_id r) (re_content r)))
        (bnd (in_db (expect_conversation post)) (\<lambda>c.
         seq (in_db (sync_conversation V K c activity (re_visibility r))) (handled ''Like'')))))"

definition undo_repost :: "actor_profile \<Rightarrow> post_detailed \<Rightarrow> handled" where
  "undo_repost p repost =
     (if p_id (pd_author repost) \<noteq> p_id p then throw (HeValidation ''actor is not an author'')
      else seq (in_db (delete_repost (po_id (pd_post repost)))) (handled ''Announce''))"

definition handle_undo :: "ap_env \<Rightarrow> ap_client \<Rightarrow> json \<Rightarrow> handled" where
  "handle_undo V K activity =
     (if string_property (json_index activity ''object'') ''type'' = Some ''Follow''
      then handle_undo_follow V K activity
      else
      bnd (deserialized (id_field activity ''actor'')) (\<lambda>actor.
      bnd (deserialized (id_field activity ''object'')) (\<lambda>object.
      bnd (canonical_id V actor) (\<lambda>aid.
      bnd (resolve V K (only_remote default_resolver) aid) (\<lambda>p.
      bnd (canonical_id V object) (\<lambda>oid.
      found_or (get_follow_request_by_remote_activity_id oid)
        (undo_follow_request V p)
        (found_or (get_remote_reaction_by_activity_id oid)
          (undo_reaction V K activity p)
          (found_or (get_remote_repost_by_activity_id (ev_ext V) oid)
            (undo_repost p)
            ignored))))))))"

section \<open>Block\<close>

definition handle_block :: "ap_env \<Rightarrow> ap_client \<Rightarrow> json \<Rightarrow> handled" where
  "handle_block V K activity =
     bnd (deserialized (json_required_str activity ''actor'')) (\<lambda>actor.
     bnd (deserialized (json_required_str activity ''object'')) (\<lambda>object.
     bnd (resolve V K (only_remote default_resolver) actor) (\<lambda>src.
     bnd (canonical_id V object) (\<lambda>oid.
     bnd (in_db (get_user_by_actor_id V (client_authority K) oid)) (\<lambda>u.
     seq (in_db (ignore_missing (unfollow (ev_ext V) (p_id src) (user_id u))))
     (seq (in_db (ignore_missing (unfollow (ev_ext V) (user_id u) (p_id src))))
      (handled ''Actor'')))))))"

section \<open>Move\<close>

definition add_linked :: "actor_profile \<Rightarrow> actor_profile list \<Rightarrow> actor_profile list \<Rightarrow> actor_profile list" where
  "add_linked p linked aliases = foldl (\<lambda>acc q. if p_id q = p_id p \<or> p_id q \<in> set (map p_id acc) then acc else acc @ [q]) aliases linked"

definition find_verified_aliases :: "externals \<Rightarrow> actor_profile \<Rightarrow> actor_profile list db" where
  "find_verified_aliases X p =
     fold_p (\<lambda>prf acc. bnd (search_profiles_by_did_only X (ip_issuer prf)) (\<lambda>linked. ret (add_linked p linked acc)))
       (p_identity_proofs p) []"

definition move_follower :: "ap_env \<Rightarrow> ap_client \<Rightarrow> actor_profile \<Rightarrow> actor_profile \<Rightarrow> actor_profile \<Rightarrow> unit db" where
  "move_follower V K old_profile new_profile follower =
     (if \<not> profile_is_local follower then ret ()
      else bnd (get_user_by_id (ev_ext V) (p_id follower)) (\<lambda>u.
      bnd (unfollow (ev_ext V) (user_id u) (p_id old_profile)) (\<lambda>deleted.
      seq (case p_actor_json old_profile of
             None \<Rightarrow> ret ()
           | Some old_actor \<Rightarrow> (case deleted of
               None \<Rightarrow> panic ''follow request must exist''
             | Some (rid, deprecated_id) \<Rightarrow>
                 bnd (prepare_undo_follow V K u old_actor rid deprecated_id) (save_and_enqueue_activity V)))
      (if user_id u = p_id new_profile then ret ()
       else seq (follow_or_create_request V K u new_profile)
         (create_move_notification (p_id new_profile) (user_id u))))))"

definition handle_move :: "ap_env \<Rightarrow> ap_client \<Rightarrow> json \<Rightarrow> handled" where
  "handle_move V K activity =
     bnd (deserialized (json_required_str activity ''actor'')) (\<lambda>actor.
     bnd (deserialized (json_required_str activity ''object'')) (\<lambda>object.
     bnd (deserialized (json_required_str activity ''target'')) (\<lambda>target.
     if object \<noteq> actor \<and> target \<noteq> actor then throw (HeValidation ''actor ID mismatch'')
     else
     bnd (resolve V K default_resolver object) (\<lambda>old_profile.
     bnd (in_db (expect (profile_actor_id (uris V) (ev_uuids V) (client_authority K) old_profile))) (\<lambda>old_id.
     bnd (resolve V K (force_refetch default_resolver) target) (\<lambda>new_profile.
     bnd (in_db (find_verified_aliases (ev_ext V) new_profile)) (\<lambda>verified.
     bnd (in_db (expect (try_map (profile_actor_id (uris V) (ev_uuids V) (client_authority K)) verified))) (\<lambda>verified_ids.
     if old_id \<notin> set (verified_ids @ p_aliases new_profile) then throw (HeValidation ''target ID is not an alias'')
     else bnd (in_db (get_followers (ev_ext V) (p_id old_profile))) (\<lambda>followers.
       seq (in_db (for_each followers (move_follower V K old_profile new_profile))) (handled ''Actor''))))))))))"

end
