(* ===== verification/PaymentHandlers.thy ===== *)
theory PaymentHandlers
  imports FollowHandlers Payments
begin

text \<open>
  Handlers of activities about payments (\<open>mitra_activitypub/src/handlers/agreement.rs\<close>, \<open>offer.rs\<close>,
  \<open>accept.rs\<close>, \<open>add.rs\<close>, \<open>remove.rs\<close>, \<open>update.rs\<close>, FEP-0837) and the agreements built for them
  (\<open>builders/agreement.rs\<close>, \<open>accept_offer.rs\<close>, \<open>proposal.rs\<close>).
\<close>

section \<open>Agreements\<close>

record commitment =
  cm_satisfies :: string
  cm_resource_quantity :: quantity

record agreement =
  ag_id :: "string option"
  ag_stipulates :: commitment
  ag_stipulates_reciprocal :: commitment
  ag_url :: "string option"
  ag_preview :: "string option"

definition commitment_from_value :: "json \<Rightarrow> commitment option" where
  "commitment_from_value v =
     Option.bind (json_required_str v ''satisfies'') (\<lambda>satisfies.
     Option.bind (Option.bind (json_field v ''resourceQuantity'') quantity_from_value) (\<lambda>q.
     Some \<lparr>cm_satisfies = satisfies, cm_resource_quantity = q\<rparr>))"

definition agreement_from_value :: "json \<Rightarrow> agreement option" where
  "agreement_from_value v =
     Option.bind (json_optional_str v ''id'') (\<lambda>i.
     Option.bind (Option.bind (json_field v ''stipulates'') commitment_from_value) (\<lambda>primary.
     Option.bind (Option.bind (json_field v ''stipulatesReciprocal'') commitment_from_value) (\<lambda>reciprocal.
     Option.bind (optional_from_value (\<lambda>u. json_required_str u ''href'') (json_field v ''url'')) (\<lambda>url.
     Option.bind (optional_from_value (\<lambda>u. json_required_str u ''name'') (json_field v ''preview'')) (\<lambda>preview.
     Some \<lparr>ag_id = i, ag_stipulates = primary, ag_stipulates_reciprocal = reciprocal, ag_url = url,
       ag_preview = preview\<rparr>)))))"

text \<open>\<open>PaymentStatus::invoice_status\<close>.\<close>

definition preview_status :: "string \<Rightarrow> invoice_status option" where
  "preview_status name = (if name = ''Paid'' then Some Paid else None)"

fun show_invoice_status :: "invoice_status \<Rightarrow> string" where
  "show_invoice_status Open = ''Open''"
| "show_invoice_status Paid = ''Paid''"
| "show_invoice_status Forwarded = ''Forwarded''"
| "show_invoice_status Timeout = ''Timeout''"
| "show_invoice_status Cancelled = ''Cancelled''"
| "show_invoice_status Underpaid = ''Underpaid''"
| "show_invoice_status Completed = ''Completed''"
| "show_invoice_status Failed = ''Failed''"
| "show_invoice_status Requested = ''Requested''"

definition quantity_to_value :: "string \<Rightarrow> nat \<Rightarrow> json" where
  "quantity_to_value u n = json_struct [(''hasUnit'', js_str u), (''hasNumericalValue'', js_str (show_nat n))]"

definition build_commitment :: "string \<Rightarrow> string \<Rightarrow> json \<Rightarrow> json" where
  "build_commitment i satisfies q = json_struct [(''id'', js_str i), (''type'', js_str ''Commitment''),
     (''satisfies'', js_str satisfies), (''resourceQuantity'', Some q)]"

definition build_agreement ::
  "ap_env \<Rightarrow> string \<Rightarrow> string \<Rightarrow> monero_subscription \<Rightarrow> invoice \<Rightarrow> (database_type_error, json) outcome" where
  "build_agreement V instance_uri username info i =
     obind (map_err (\<lambda>_. DatabaseTypeError) (local_actor_id (uris V) (ev_uuids V) instance_uri username)) (\<lambda>aid.
     let proposal_id = local_actor_proposal_id aid (ms_chain_id info);
         agreement_id = local_agreement_id (ev_uuids V) instance_uri (inv_id i) in
     obind (amount_u64 i) (\<lambda>amount.
     obind (try_payment_address i) (\<lambda>address.
     Ok (json_struct [(''id'', js_str agreement_id), (''type'', js_str ''Agreement''), (''attributedTo'', js_str aid),
       (''stipulates'', Some (build_commitment (agreement_id @ ''#primary'') (proposal_id @ ''#primary'')
          (quantity_to_value ''second'' (amount div ms_price info)))),
       (''stipulatesReciprocal'', Some (build_commitment (agreement_id @ ''#reciprocal'') (proposal_id @ ''#reciprocal'')
          (quantity_to_value ''one'' amount))),
       (''url'', Some (json_struct [(''type'', js_str ''Link''),
          (''href'', js_str (account_id_to_uri \<lparr>ai_chain_id = inv_chain_id i, ai_address = address\<rparr>)),
          (''rel'', js_strs [''payment''])])),
       (''preview'', Some (json_struct [(''type'', js_str ''Note''), (''name'', js_str (show_invoice_status (inv_status i)))]))]))))"

definition valueflows_terms :: "string list" where
  "valueflows_terms = [''Proposal'', ''Intent'', ''purpose'', ''publishes'', ''reciprocal'', ''unitBased'', ''action'',
     ''Agreement'', ''stipulates'', ''stipulatesReciprocal'', ''Commitment'', ''satisfies'', ''resourceConformsTo'',
     ''resourceQuantity'', ''minimumQuantity'', ''hasUnit'', ''hasNumericalValue'']"

definition build_valueflows_context :: json where
  "build_valueflows_context = JArray [JString ''https://www.w3.org/ns/activitystreams'',
     JString ''https://w3id.org/security/v1'', JString ''https://w3id.org/security/data-integrity/v2'',
     json_struct ([(''Hashtag'', js_str ''as:Hashtag''), (''sensitive'', js_str ''as:sensitive''),
       (''toot'', js_str ''http://joinmastodon.org/ns#''), (''Emoji'', js_str ''toot:Emoji''),
       (''vf'', js_str ''https://w3id.org/valueflows/ont/vf#'')]
       @ map (\<lambda>t. (t, js_str (''vf:'' @ t))) valueflows_terms)]"

definition prepare_accept_offer ::
  "ap_env \<Rightarrow> ap_client \<Rightarrow> user \<Rightarrow> monero_subscription \<Rightarrow> invoice \<Rightarrow> db_actor \<Rightarrow> string \<Rightarrow> outgoing_activity_job_data db" where
  "prepare_accept_offer V K u info i remote_actor offer_id =
     (let instance_uri = http_uri_to_string (ac_instance_uri K) in
      bnd (type_check (build_agreement V instance_uri (p_username (user_profile u)) info i)) (\<lambda>agreement_json.
      bnd (expect (local_actor_id (uris V) (ev_uuids V) instance_uri (p_username (user_profile u)))) (\<lambda>aid.
      bnd (gets (ev_fresh V ''activity'')) (\<lambda>ulid.
      bnd (expect (local_activity_id (uris V) (ev_uuids V) instance_uri ''Accept'' ulid)) (\<lambda>activity_id.
      bnd (lift (recipient_for_inbox (uris V) remote_actor)) (\<lambda>rs.
      outgoing_new V (client_authority K) (ManagedUser u)
        (json_struct [(''@context'', Some build_valueflows_context), (''type'', js_str ''Accept''), (''id'', js_str activity_id),
          (''actor'', js_str aid), (''object'', js_str offer_id), (''result'', Some agreement_json),
          (''to'', js_str (da_id remote_actor))]) rs))))))"

section \<open>Offers\<close>

definition find_subscription_option :: "payment_option list \<Rightarrow> chain_id \<Rightarrow> monero_subscription option" where
  "find_subscription_option opts chain =
     find (\<lambda>m. ms_chain_id m = chain) (List.map_filter (\<lambda>x. case x of OptMoneroSubscription m \<Rightarrow> Some m | _ \<Rightarrow> None) opts)"

definition payment_failure :: "payment_error \<Rightarrow> handler_error" where
  "payment_failure e = (case e of
      PeDatabase d \<Rightarrow> HeDatabase d | _ \<Rightarrow> HeService ''failed to create monero address'')"

definition handle_offer :: "ap_env \<Rightarrow> ap_client \<Rightarrow> wallet_rpc \<Rightarrow> blockchain_config list \<Rightarrow> json \<Rightarrow> handled" where
  "handle_offer V K W blockchains activity =
     (let instance_uri = http_uri_to_string (ac_instance_uri K) in
      bnd (deserialized (json_required_str activity ''id'')) (\<lambda>offer_id.
      bnd (deserialized (json_required_str activity ''actor'')) (\<lambda>actor.
      bnd (deserialized (Option.bind (json_field activity ''object'') agreement_from_value)) (\<lambda>ag.
      bnd (in_db (get_remote_profile_by_actor_id (ev_ext V) actor)) (\<lambda>p.
      bnd (validate (parse_local_primary_intent_id (uris V) instance_uri (cm_satisfies (ag_stipulates ag)))) (\<lambda>(username, chain).
      bnd (in_db (get_user_by_name (ev_ext V) username)) (\<lambda>proposer.
      bnd (in_db (get_payment_method_by_chain_id (user_id proposer) chain)) (\<lambda>m.
      bnd (validate (ok_or ''recipient can't accept payment'' m)) (\<lambda>payment_method.
      bnd (validate (ok_or ''recipient can't accept payment''
        (find_subscription_option (p_payment_options (user_profile proposer)) chain))) (\<lambda>info.
      bnd (validate (parse_duration (cm_resource_quantity (ag_stipulates ag)))) (\<lambda>duration.
      bnd (validate (parse_currency_amount parse_u64 (cm_resource_quantity (ag_stipulates_reciprocal ag)))) (\<lambda>amount.
      if duration \<noteq> amount div ms_price info then throw (HeValidation ''invalid duration'')
      else
      bnd (lift (map_err payment_failure (create_payment_address W blockchains payment_method))) (\<lambda>address.
      bnd (gets (ev_fresh V ''invoice'')) (\<lambda>ulid.
      bnd (in_db (create_local_invoice ulid (p_id p) (user_id proposer) (pm_payment_type payment_method)
        (pm_chain_id payment_method) address amount)) (\<lambda>i.
      bnd (in_db (expect_actor_data p)) (\<lambda>remote_actor.
      seq (in_db (bnd (prepare_accept_offer V K proposer info i remote_actor offer_id) (save_and_enqueue_activity V)))
        (handled ''Agreement'')))))))))))))))))"

definition handle_accept_offer :: "ap_env \<Rightarrow> ap_client \<Rightarrow> json \<Rightarrow> handled" where
  "handle_accept_offer V K activity =
     bnd (deserialized (id_field activity ''actor'')) (\<lambda>actor.
     bnd (deserialized (id_field activity ''object'')) (\<lambda>object.
     bnd (deserialized (Option.bind (json_field activity ''result'') agreement_from_value)) (\<lambda>ag.
     bnd (in_db (get_remote_profile_by_actor_id (ev_ext V) actor)) (\<lambda>p.
     bnd (validate (parse_local_activity_id (uris V) (ev_uuids V) (client_authority K) object)) (\<lambda>iid.
     bnd (in_db (get_invoice_by_id iid)) (\<lambda>i.
     if inv_recipient_id i \<noteq> p_id p then throw (HeValidation ''actor is not a recipient'')
     else
     bnd (validate (ok_or ''missing 'id' field'' (ag_id ag))) (\<lambda>agreement_id.
     bnd (validate (parse_currency_amount parse_i64 (cm_resource_quantity (ag_stipulates_reciprocal ag)))) (\<lambda>amount.
     if amount \<noteq> inv_amount i then throw (HeValidation ''unexpected amount'')
     else
     bnd (validate (ok_or ''missing 'url' field'' (ag_url ag))) (\<lambda>payment_uri.
     bnd (validate (map_err (\<lambda>_. ''invalid account ID'') (account_id_from_uri payment_uri))) (\<lambda>account.
     if ai_chain_id account \<noteq> inv_chain_id i then throw (HeValidation ''unexpected chain ID'')
     else seq (validate (validate_object_id (uris V) agreement_id))
       (seq (in_db (remote_invoice_opened (inv_id i) (ai_address account) agreement_id))
        (handled ''Offer''))))))))))))"

definition handle_accept :: "ap_env \<Rightarrow> ap_client \<Rightarrow> json \<Rightarrow> handled" where
  "handle_accept V K activity =
     (if as_object (json_index activity ''result'') \<noteq> None then handle_accept_offer V K activity
      else handle_accept_follow V K activity)"

text \<open>The update of an agreement reads nothing of the activity but its object.\<close>

definition handle_update_agreement :: "json \<Rightarrow> handled" where
  "handle_update_agreement activity =
     bnd (deserialized (agreement_from_value (json_index activity ''object''))) (\<lambda>ag.
     bnd (validate (ok_or ''missing 'id' field'' (ag_id ag))) (\<lambda>agreement_id.
     bnd (validate (ok_or ''missing 'preview' field'' (ag_preview ag))) (\<lambda>name.
     bnd (in_db (get_remote_invoice_by_object_id agreement_id)) (\<lambda>i.
     seq (if inv_status i = Open \<and> preview_status name = Some Paid
          then in_db (bnd (set_invoice_status (inv_id i) Paid) (\<lambda>_. ret ())) else ret ())
       (handled ''Agreement'')))))"

section \<open>Collections of an actor\<close>

definition add_subscriber :: "ap_env \<Rightarrow> ap_client \<Rightarrow> actor_profile \<Rightarrow> string \<Rightarrow> datetime option \<Rightarrow> string option \<Rightarrow> handled" where
  "add_subscriber V K recipient object end_time agreement_id =
     bnd (canonical_id V object) (\<lambda>oid.
     bnd (in_db (get_user_by_actor_id V (client_authority K) oid)) (\<lambda>sender.
     seq (in_db (subscribe_opt (ev_ext V) (user_id sender) (p_id recipient))) (
     bnd (validate (ok_or '''endTime' property is missing'' end_time)) (\<lambda>expires_at.
     let subscribed = ret (Some (DescTarget ''subscribers''));
         extend = seq (in_db (create_or_update_subscription (ev_ext V) (user_profile sender) recipient (\<lambda>_. Ok expires_at))) subscribed in
     case agreement_id of
       None \<Rightarrow> extend
     | Some i \<Rightarrow> found_or (get_remote_invoice_by_object_id i)
         (\<lambda>inv.
            if inv_sender_id inv \<noteq> user_id sender \<or> inv_recipient_id inv \<noteq> p_id recipient
            then throw (HeValidation ''invalid context ID'')
            else if inv_status inv = Completed then subscribed
            else seq (in_db (set_invoice_status (inv_id inv) Completed)) extend)
         extend))))"

text \<open>Posts are pinned and unpinned by the identifier of the object.\<close>

definition set_featured :: "ap_env \<Rightarrow> string \<Rightarrow> bool \<Rightarrow> handled" where
  "set_featured V object pinned =
     found_or (get_remote_post_by_object_id (ev_ext V) object)
       (\<lambda>post. seq (in_db (set_pinned_flag (po_id (pd_post post)) pinned)) (ret (Some (DescTarget ''featured''))))
       ignored"

definition handle_add_item :: "ap_env \<Rightarrow> ap_client \<Rightarrow> json \<Rightarrow> handled" where
  "handle_add_item V K activity =
     bnd (deserialized (json_required_str activity ''actor'')) (\<lambda>actor.
     bnd (deserialized (id_field activity ''object'')) (\<lambda>object.
     bnd (deserialized (id_field activity ''target'')) (\<lambda>target.
     bnd (deserialized (json_opt_date (cryptography V) (json_field activity ''endTime''))) (\<lambda>end_time.
     bnd (deserialized (json_optional_str activity ''context'')) (\<lambda>agreement_id.
     bnd (in_db (get_remote_profile_by_actor_id (ev_ext V) actor)) (\<lambda>p.
     bnd (in_db (expect_actor_data p)) (\<lambda>data.
     if Some target = da_subscribers data then add_subscriber V K p object end_time agreement_id
     else if Some target = da_featured data then set_featured V object True
     else ignored)))))))"

definition remove_subscriber :: "ap_env \<Rightarrow> ap_client \<Rightarrow> actor_profile \<Rightarrow> string \<Rightarrow> handled" where
  "remove_subscriber V K recipient object =
     bnd (canonical_id V object) (\<lambda>oid.
     bnd (in_db (get_user_by_actor_id V (client_authority K) oid)) (\<lambda>u.
     found_or (unsubscribe (ev_ext V) (user_id u) (p_id recipient))
       (\<lambda>_. seq (in_db (create_subscription_expiration_notification (p_id recipient) (user_id u)))
          (ret (Some (DescTarget ''subscribers''))))
       ignored))"

definition handle_remove :: "ap_env \<Rightarrow> ap_client \<Rightarrow> json \<Rightarrow> handled" where
  "handle_remove V K activity =
     bnd (deserialized (json_required_str activity ''actor'')) (\<lambda>actor.
     bnd (deserialized (id_field activity ''object'')) (\<lambda>object.
     bnd (deserialized (id_field activity ''target'')) (\<lambda>target.
     bnd (in_db (get_remote_profile_by_actor_id (ev_ext V) actor)) (\<lambda>p.
     bnd (in_db (expect_actor_data p)) (\<lambda>data.
     if Some target = da_subscribers data then remove_subscriber V K p object
     else if Some target = da_featured data then set_featured V object False
     else ignored)))))"

end
