(* ===== verification/Authentication.thy ===== *)
theory Authentication
  imports RemoteProfiles
begin

text \<open>
  Authentication of requests and objects (\<open>mitra_activitypub/src/authentication.rs\<close>) and the receiver of
  activities (\<open>mitra_api/src/activitypub/receiver.rs\<close>). The key identifier of a signature leads to an actor;
  the signature is verified with the key which the profile of that actor lists under the identifier.
\<close>

section \<open>Errors\<close>

datatype auth_error = AuHttpSignature http_signature_error | AuNoHttpSignature | AuUnexpectedTargetAuthority string
  | AuJsonSignature json_signature_error | AuNoJsonSignature | AuUnsupportedSignatureAlgorithm
  | AuUnsupportedVerificationMethod | AuDatabase database_error | AuValidation string | AuActorNotFound string
  | AuImport handler_error | AuKeyNotFound canonical_uri | AuUnexpectedKeyType | AuInvalidRsaPublicKey
  | AuInvalidEd25519PublicKey | AuUnexpectedObjectSigner | AuUnexpectedKeyOrigin | AuInvalidPortableObject portable_error

type_synonym 'a auth = "(database, auth_error, 'a) prog"

definition auth_validate :: "(string, 'a) outcome \<Rightarrow> 'a auth" where
  "auth_validate r = lift (map_err AuValidation r)"

lemma auth_validate_Ok [ok_runs]: "auth_validate r s = (Ok a, t) \<longleftrightarrow> r = Ok a \<and> t = s"
  by (simp add: auth_validate_def ok_runs)

section \<open>The signer and its keys\<close>

definition authentication_fetcher_timeout :: nat where
  "authentication_fetcher_timeout = 10"

definition with_fetcher_timeout :: "nat \<Rightarrow> ap_client \<Rightarrow> ap_client" where
  "with_fetcher_timeout n K = K\<lparr>ac_agent := (ac_agent K)\<lparr>fa_fetcher_timeout := n\<rparr>\<rparr>"

definition require_remote :: "actor_profile \<Rightarrow> actor_profile auth" where
  "require_remote p = (if profile_is_local p then panic ''signer should not be local actor'' else ret p)"

definition find_signer :: "ap_env \<Rightarrow> ap_client \<Rightarrow> string \<Rightarrow> bool \<Rightarrow> actor_profile auth" where
  "find_signer V K signer_id no_fetch =
     (if no_fetch then
        bnd (auth_validate (map_err (\<lambda>_. ''invalid actor ID'') (canonicalize_id (uris V) signer_id))) (\<lambda>c.
        match_result (get_remote_profile_by_actor_id (ev_ext V) (canonical_to_string (uris V) c)) ret
          (\<lambda>e. case e of NotFound _ \<Rightarrow> throw (AuActorNotFound signer_id) | _ \<Rightarrow> throw (AuDatabase e)))
      else
        match_result (resolve V (with_fetcher_timeout authentication_fetcher_timeout K) (only_remote default_resolver) signer_id) ret
          (\<lambda>e. case e of
             HeDatabase (NotFound _) \<Rightarrow> throw (AuActorNotFound signer_id)
           | HeDatabase d \<Rightarrow> throw (AuDatabase d)
           | _ \<Rightarrow> throw (AuImport e)))"

definition get_signer :: "ap_env \<Rightarrow> ap_client \<Rightarrow> string \<Rightarrow> bool \<Rightarrow> actor_profile auth" where
  "get_signer V K signer_id no_fetch = bnd (find_signer V K signer_id no_fetch) require_remote"

text \<open>The exact identifier, or the identifier without the fragment \<open>#main-key\<close> that PeerTube omits.\<close>

definition key_matches :: "string \<Rightarrow> db_actor_key \<Rightarrow> bool" where
  "key_matches key_id k \<longleftrightarrow> dk_id k = key_id \<or> dk_id k = key_id @ ''#main-key''"

definition stored_key :: "ap_env \<Rightarrow> db_actor_key \<Rightarrow> (auth_error, public_key) outcome" where
  "stored_key V k = (case dk_key_type k of
      RsaPkcs1 \<Rightarrow> if rsa_public_parses (cryptography V) (dk_key_data k) then Ok (PkRsa (dk_key_data k)) else Err AuInvalidRsaPublicKey
    | Ed25519Key \<Rightarrow> if ed25519_key_ok (uris V) (dk_key_data k) then Ok (PkEd25519 (dk_key_data k)) else Err AuInvalidEd25519PublicKey)"

text \<open>The deprecated key of the actor data, compared with the identifier as it was given.\<close>

definition legacy_key :: "ap_env \<Rightarrow> actor_profile \<Rightarrow> string \<Rightarrow> canonical_uri \<Rightarrow> (auth_error, public_key) outcome" where
  "legacy_key V p key_id canonical = (case p_actor_json p of
      None \<Rightarrow> Panic ''should be signed by remote actor''
    | Some a \<Rightarrow> (case da_public_key a of
          Some k \<Rightarrow> if apk_id k = key_id
            then obind (ok_or AuInvalidRsaPublicKey (rsa_public_from_pem (cryptography V) (apk_public_key_pem k))) (\<lambda>key. Ok (PkRsa key))
            else Err (AuKeyNotFound canonical)
        | None \<Rightarrow> Err (AuKeyNotFound canonical)))"

definition get_signer_key :: "ap_env \<Rightarrow> actor_profile \<Rightarrow> string \<Rightarrow> (auth_error, public_key) outcome" where
  "get_signer_key V p key_id =
     obind (map_err (\<lambda>_. AuValidation ''invalid key ID'') (canonicalize_id (uris V) key_id)) (\<lambda>c.
     case find (key_matches (canonical_to_string (uris V) c)) (p_public_keys p) of
       Some k \<Rightarrow> stored_key V k
     | None \<Rightarrow> legacy_key V p key_id c)"

definition get_signer_ed25519_key :: "ap_env \<Rightarrow> actor_profile \<Rightarrow> string \<Rightarrow> (auth_error, bytes) outcome" where
  "get_signer_ed25519_key V p key_id =
     obind (get_signer_key V p key_id) (\<lambda>k. case k of PkEd25519 key \<Rightarrow> Ok key | PkRsa _ \<Rightarrow> Err AuUnexpectedKeyType)"

section \<open>Requests\<close>

text \<open>The actor to which the key identifier belongs, guessed from the identifier.\<close>

definition signer_id_of :: "uri_library \<Rightarrow> verification_method \<Rightarrow> (auth_error, string) outcome" where
  "signer_id_of L vm = (case vm of
      VmHttp u \<Rightarrow> map_err (\<lambda>_. AuValidation ''invalid key ID'') (key_id_to_actor_id L (http_uri_to_string u))
    | VmAp u \<Rightarrow> Ok (ap_uri_to_string L (ap_without_fragment u))
    | VmDid _ \<Rightarrow> Err AuUnsupportedVerificationMethod)"

definition verify_signed_request ::
  "ap_env \<Rightarrow> ap_client \<Rightarrow> string \<Rightarrow> request_uri \<Rightarrow> header_map \<Rightarrow> content_digest option \<Rightarrow> bool
   \<Rightarrow> (verification_method \<times> actor_profile) auth" where
  "verify_signed_request V K meth uri headers digest no_fetch =
     bnd (lift (map_err (\<lambda>e. if e = HsNoSignature then AuNoHttpSignature else AuHttpSignature e)
       (parse_http_signature (sc_http (fe_signing (ev_fetch V))) (uris V) meth uri headers))) (\<lambda>d.
     if hs_authority d \<noteq> hu_authority (ac_instance_uri K) then throw (AuUnexpectedTargetAuthority (hs_authority d))
     else
     bnd (lift (signer_id_of (uris V) (hs_key_id d))) (\<lambda>signer_id.
     bnd (get_signer V K signer_id no_fetch) (\<lambda>signer.
     bnd (lift (get_signer_key V signer (verification_method_to_string (uris V) (hs_key_id d)))) (\<lambda>key.
     bnd (gets current_timestamp) (\<lambda>now.
     seq (lift (map_err AuHttpSignature (verify_http_signature (cryptography V) now d key digest)))
     (ret (hs_key_id d, signer)))))))"

section \<open>Objects\<close>

definition remote_actor_id :: "actor_profile \<Rightarrow> string auth" where
  "remote_actor_id p = (case p_actor_json p of
      Some a \<Rightarrow> ret (da_id a) | None \<Rightarrow> panic ''actor data should be present'')"

text \<open>An expired proof is only logged.\<close>

definition verify_object_proof :: "ap_env \<Rightarrow> ap_client \<Rightarrow> json \<Rightarrow> core_type \<Rightarrow> bool \<Rightarrow> actor_profile auth" where
  "verify_object_proof V K v ty no_fetch =
     bnd (auth_validate (get_object_id v)) (\<lambda>object_id.
     bnd (lift (map_err (\<lambda>e. if e = JsNoProof then AuNoJsonSignature else AuJsonSignature e)
       (get_json_signature (cryptography V) (uris V) v))) (\<lambda>d.
     bnd (case js_verification_method d of
         VmHttp u \<Rightarrow>
           bnd (auth_validate (is_same_origin (uris V) object_id (http_uri_to_string u))) (\<lambda>same.
           if \<not> same then throw AuUnexpectedKeyOrigin
           else
           bnd (lift (map_err (\<lambda>_. AuValidation ''invalid key ID'') (key_id_to_actor_id (uris V) (http_uri_to_string u)))) (\<lambda>signer_id.
           bnd (get_signer V K signer_id no_fetch) (\<lambda>signer.
           if js_proof_type d \<notin> {JcsEddsaSignature, EddsaJcsSignature} then throw AuUnsupportedSignatureAlgorithm
           else
           bnd (lift (get_signer_ed25519_key V signer (http_uri_to_string u))) (\<lambda>key.
           seq (lift (map_err AuJsonSignature (verify_eddsa_json_signature (cryptography V) key (js_object d)
             (js_proof_config d) (js_signature d)))) (ret signer)))))
       | VmAp _ \<Rightarrow> throw AuUnsupportedVerificationMethod
       | VmDid _ \<Rightarrow> throw AuUnsupportedVerificationMethod) (\<lambda>signer.
     bnd (auth_validate (get_owner v ty)) (\<lambda>owner_id.
     bnd (remote_actor_id signer) (\<lambda>signer_id.
     if signer_id \<noteq> owner_id then throw AuUnexpectedObjectSigner else ret signer)))))"

definition verify_signed_object :: "ap_env \<Rightarrow> ap_client \<Rightarrow> json \<Rightarrow> core_type \<Rightarrow> bool \<Rightarrow> actor_profile auth" where
  "verify_signed_object V K v ty no_fetch = (case verify_portable_object (cryptography V) (uris V) v of
      Ok _ \<Rightarrow> bnd (auth_validate (get_owner v ty)) (\<lambda>owner_id. get_signer V K owner_id no_fetch)
    | Err PeNotPortable \<Rightarrow> verify_object_proof V K v ty no_fetch
    | Err (PeInvalidObjectId m) \<Rightarrow> throw (AuValidation m)
    | Err e \<Rightarrow> throw (AuInvalidPortableObject e)
    | Panic m \<Rightarrow> panic m)"

definition verify_signed_fetched_object :: "ap_env \<Rightarrow> ap_client \<Rightarrow> fetched_object \<Rightarrow> unit hand" where
  "verify_signed_fetched_object V K f = (case verify_origin (uris V) f of
      Ok _ \<Rightarrow> ret ()
    | Err fetch_error \<Rightarrow>
        match_result (verify_signed_object V K (fo_value f) (get_core_type (fo_value f)) True) (\<lambda>_. ret ())
          (\<lambda>e. case e of
             AuNoJsonSignature \<Rightarrow> throw (HeFetch fetch_error)
           | AuDatabase d \<Rightarrow> throw (HeDatabase d)
           | _ \<Rightarrow> throw (HeValidation ''authentication error''))
    | Panic m \<Rightarrow> panic m)"

section \<open>Receiving activities\<close>

datatype endpoint_error = EpValidation string | EpDatabase database_error | EpAuth auth_error

fun endpoint_error_of :: "auth_error \<Rightarrow> endpoint_error" where
  "endpoint_error_of (AuValidation m) = EpValidation m"
| "endpoint_error_of (AuDatabase d) = EpDatabase d"
| "endpoint_error_of e = EpAuth e"

type_synonym 'a endpoint = "(database, endpoint_error, 'a) prog"

definition ep_validate :: "(string, 'a) outcome \<Rightarrow> 'a endpoint" where
  "ep_validate r = lift (map_err EpValidation r)"

lemma ep_validate_Ok [ok_runs]: "ep_validate r s = (Ok a, t) \<longleftrightarrow> r = Ok a \<and> t = s"
  by (simp add: ep_validate_def ok_runs)

record received_request =
  rr_method :: string
  rr_uri :: request_uri
  rr_headers :: header_map
  rr_digest :: content_digest \<comment> \<open>of the body that was received\<close>

text \<open>\<open>Delete\<close> of the actor itself: its document may be gone already.\<close>

definition is_self_delete :: "json \<Rightarrow> string \<Rightarrow> string \<Rightarrow> (string, bool) outcome" where
  "is_self_delete activity ty activity_actor =
     (if ty = ''Delete'' then obind (map_err (\<lambda>_. ''invalid activity object'') (object_to_id (json_index activity ''object'')))
        (\<lambda>i. Ok (i = activity_actor))
      else Ok False)"

text \<open>The optional signature of the activity replaces the signer of the request.\<close>

definition activity_signer :: "ap_env \<Rightarrow> ap_client \<Rightarrow> json \<Rightarrow> bool \<Rightarrow> actor_profile \<Rightarrow> actor_profile endpoint" where
  "activity_signer V K activity self_delete request_signer =
     match_result (verify_signed_object V K activity CtActivity self_delete) ret
       (\<lambda>e. case e of AuNoJsonSignature \<Rightarrow> ret request_signer | _ \<Rightarrow> throw (endpoint_error_of e))"

definition ep_actor_data :: "actor_profile \<Rightarrow> db_actor endpoint" where
  "ep_actor_data p = map_err_p EpDatabase (expect_actor_data p)"

definition enqueue_authenticated ::
  "ap_env \<Rightarrow> ap_client \<Rightarrow> json \<Rightarrow> string \<Rightarrow> string \<Rightarrow> bool \<Rightarrow> actor_profile \<Rightarrow> unit endpoint" where
  "enqueue_authenticated V K activity recipient_id canonical_actor_id self_delete signer =
     bnd (ep_actor_data signer) (\<lambda>data.
     bnd (map_err_p EpDatabase (lift (get_moderation_domain (uris V) data))) (\<lambda>hostname.
     if is_incoming_blocked (ev_wildmatch V) (ac_filter K) hostname then ret ()
     else if canonical_actor_id \<noteq> da_id data \<and> self_delete then ret ()
     else
     bnd (gets (ev_fresh V ''job'')) (\<lambda>jid.
     map_err_p EpDatabase (incoming_into_job jid
       (incoming_job_data_new activity (Some (recipient_id, da_id data)) (canonical_actor_id = da_id data)) 0))))"

definition receive_activity :: "ap_env \<Rightarrow> ap_client \<Rightarrow> received_request \<Rightarrow> json \<Rightarrow> string \<Rightarrow> unit endpoint" where
  "receive_activity V K req activity recipient_id =
     bnd (ep_validate (ok_or '''id' property is missing'' (string_property activity ''id''))) (\<lambda>activity_id.
     bnd (ep_validate (ok_or '''type' property is missing'' (string_property activity ''type''))) (\<lambda>ty.
     bnd (ep_validate (map_err (\<lambda>_. ''invalid 'actor' property'') (object_to_id (json_index activity ''actor'')))) (\<lambda>activity_actor.
     if (case url_host (fe_net (ev_fetch V)) activity_actor of
           Some h \<Rightarrow> is_incoming_blocked (ev_wildmatch V) (ac_filter K) h | None \<Rightarrow> False)
     then ret ()
     else
     bnd (ep_validate (canonicalize_id (uris V) activity_id)) (\<lambda>_.
     bnd (ep_validate (canonicalize_id (uris V) activity_actor)) (\<lambda>canonical_actor.
     if is_local_id V K activity_id then ret ()
     else
     bnd (ep_validate (is_self_delete activity ty activity_actor)) (\<lambda>self_delete.
     match_result (verify_signed_request V K (rr_method req) (rr_uri req) (rr_headers req) (Some (rr_digest req)) self_delete)
       (\<lambda>(_, request_signer).
          bnd (activity_signer V K activity self_delete request_signer)
            (enqueue_authenticated V K activity recipient_id (canonical_to_string (uris V) canonical_actor) self_delete))
       (\<lambda>e. if self_delete \<and> (case e of AuNoHttpSignature \<Rightarrow> True | AuActorNotFound _ \<Rightarrow> True | _ \<Rightarrow> False) then ret ()
            else throw (endpoint_error_of e))))))))"

end
