(* ===== verification/ContentHandlers.thy ===== *)
theory ContentHandlers
  imports PaymentHandlers Authentication SmallTables
begin

text \<open>
  Handlers of activities about posts (\<open>mitra_activitypub/src/handlers/create.rs\<close>, \<open>question_vote.rs\<close>,
  \<open>update.rs\<close>, \<open>delete.rs\<close>, \<open>like.rs\<close>, \<open>announce.rs\<close>, \<open>add.rs\<close>).
\<close>

section \<open>Objects of activities\<close>

text \<open>\<open>activity[k] = v\<close>.\<close>

fun json_set :: "string \<Rightarrow> json \<Rightarrow> json \<Rightarrow> ('e, json) outcome" where
  "json_set k v (JObject kvs) = Ok (JObject (map_insert k v kvs))"
| "json_set k v JNull = Ok (JObject [(k, v)])"
| "json_set k v _ = Panic ''cannot access key in JSON value''"

definition is_string :: "json \<Rightarrow> bool" where
  "is_string v \<longleftrightarrow> json_str v \<noteq> None"

definition activity_object_id :: "json \<Rightarrow> (string, string) outcome" where
  "activity_object_id activity =
     map_err (\<lambda>_. ''invalid activity object'') (object_to_id (json_index activity ''object''))"

text \<open>An object is fetched if it is not embedded, or if the activity is not authenticated.\<close>

definition trusted_object :: "ap_env \<Rightarrow> ap_client \<Rightarrow> json \<Rightarrow> json \<Rightarrow> bool \<Rightarrow> json hand" where
  "trusted_object V K activity object is_authenticated =
     (if is_string object \<or> \<not> is_authenticated
      then bnd (validate (activity_object_id activity)) (fetch_value V K) else ret object)"

definition check_portable :: "ap_env \<Rightarrow> json \<Rightarrow> unit hand" where
  "check_portable V object = (case verify_portable_object (cryptography V) (uris V) object of
      Ok _ \<Rightarrow> ret ()
    | Err (PeInvalidObjectId m) \<Rightarrow> throw (HeValidation m)
    | Err PeNotPortable \<Rightarrow> ret ()
    | Err _ \<Rightarrow> throw (HeValidation ''invalid portable object'')
    | Panic m \<Rightarrow> panic m)"

definition sync_post :: "ap_env \<Rightarrow> ap_client \<Rightarrow> post_detailed \<Rightarrow> json \<Rightarrow> unit hand" where
  "sync_post V K post activity =
     in_db (bnd (expect_conversation post) (\<lambda>c. sync_conversation V K c activity (po_visibility (pd_post post))))"

section \<open>Votes\<close>

definition is_question_vote :: "json \<Rightarrow> bool" where
  "is_question_vote object \<longleftrightarrow>
     string_property object ''type'' = Some ''Note'' \<and> is_string (json_index object ''inReplyTo'')
     \<and> is_string (json_index object ''name'')
     \<and> (json_index object ''content'' = JNull \<or> string_property object ''content'' = Some [])"

definition handle_question_vote :: "ap_env \<Rightarrow> ap_client \<Rightarrow> json \<Rightarrow> handled" where
  "handle_question_vote V K object =
     seq (validate (verify_object_owner (uris V) object)) (
     bnd (deserialized (json_required_str object ''id'')) (\<lambda>vote_id.
     bnd (deserialized (json_required_str object ''attributedTo'')) (\<lambda>author_id.
     bnd (deserialized (json_required_str object ''inReplyTo'')) (\<lambda>question_id.
     bnd (deserialized (json_required_str object ''name'')) (\<lambda>name.
     bnd (resolve V K (only_remote default_resolver) author_id) (\<lambda>voter.
     case parse_local_object_id (uris V) (ev_uuids V) (client_authority K) question_id of
       Ok pid \<Rightarrow>
         bnd (in_db (get_local_post_by_id (ev_ext V) pid)) (\<lambda>post.
         bnd (in_db (can_view_post (Some voter) post)) (\<lambda>visible.
         if \<not> visible then throw (HeValidation ''actor is not allowed to vote'')
         else
         bnd (validate (ok_or ''post doesn't have a poll'' (pd_poll post))) (\<lambda>q.
         bnd (gets (\<lambda>s. poll_ended s q)) (\<lambda>ended.
         if ended then throw (HeValidation ''poll has already ended'')
         else
         bnd (gets (ev_fresh V ''vote'')) (\<lambda>ulid.
         match_result (vote_one ulid (poll_id q) (p_id voter) name vote_id)
           (\<lambda>updated.
              let post' = post\<lparr>pd_poll := Some updated\<rparr> in
              in_db (bnd (add_related_posts (ev_ext V) [post']) (\<lambda>related.
                bnd (get_user_by_id (ev_ext V) (p_id (pd_author post'))) (\<lambda>author.
                bnd (prepare_update_note V K author post' (related_posts.truncate (hd related)))
                  (\<lambda>d. seq (save_and_enqueue_activity V d) (ret (Some (DescObject ''Vote''))))))))
           (\<lambda>e. case e of AlreadyExists _ \<Rightarrow> ignored | _ \<Rightarrow> throw (HeDatabase e)))))))
     | _ \<Rightarrow> ignored))))))"

section \<open>Create\<close>

definition is_unsolicited :: "ap_env \<Rightarrow> authority \<Rightarrow> attributed_object \<Rightarrow> string \<Rightarrow> string list \<Rightarrow> bool hand" where
  "is_unsolicited V a x sender_id audience =
     (if \<not> list_ex is_public audience then ret False
      else if list_ex (\<lambda>i. is_ok (parse_local_actor_id (uris V) (ev_uuids V) a i)) audience then ret False
      else
      bnd (in_db (get_remote_profiles_by_actor_ids (ev_ext V) audience)) (\<lambda>ps.
      if list_ex has_portable_account ps then ret False
      else
      bnd (in_db (is_local_or_followed sender_id)) (\<lambda>followed.
      if followed then ret False
      else (case ob_in_reply_to x of
          Some i \<Rightarrow> bnd (canonical_id V i) (\<lambda>c.
            found_or (get_post_by_object_id V a c) (\<lambda>_. ret False) (ret True))
        | None \<Rightarrow> ret True))))"

definition check_unsolicited_message :: "ap_env \<Rightarrow> authority \<Rightarrow> attributed_object \<Rightarrow> string \<Rightarrow> unit hand" where
  "check_unsolicited_message V a x sender_id =
     bnd (canonical_id V sender_id) (\<lambda>canonical_sender_id.
     bnd (validate (get_audience (uris V) x)) (\<lambda>audience.
     bnd (is_unsolicited V a x canonical_sender_id audience) (\<lambda>unsolicited.
     if unsolicited then throw (HeFiltered (''unsolicited message from '' @ canonical_sender_id)) else ret ())))"

text \<open>The property of the dynamic configuration that is used here.\<close>

definition filter_keywords :: "string list db" where
  "filter_keywords =
     bnd get_internal_properties_json (\<lambda>v. case json_field v ''filter_keywords'' of
       None \<Rightarrow> ret []
     | Some ks \<Rightarrow> lift (ok_or TypeError (json_vec json_str ks)))"

definition check_keywords :: "ap_env \<Rightarrow> ap_client \<Rightarrow> attributed_object \<Rightarrow> string \<Rightarrow> unit hand" where
  "check_keywords V K x author_id = (case http_uri_parse (uris V) author_id of
      Ok u \<Rightarrow>
        bnd (validate (get_object_content (ev_text V) x)) (\<lambda>(title, content).
        let full_text = (case title of Some t \<Rightarrow> t | None \<Rightarrow> []) @ '' '' @ content in
        if action_required V K (http_hostname u) FaRejectKeywords
        then bnd (in_db filter_keywords) (\<lambda>ks. case find (\<lambda>k. sublist k full_text) ks of
          Some k \<Rightarrow> throw (HeFiltered (''rejected keyword '' @ [CHR 0x22] @ k @ [CHR 0x22])) | None \<Rightarrow> ret ())
        else ret ())
    | _ \<Rightarrow> ret ())"

definition check_sender :: "ap_env \<Rightarrow> ap_client \<Rightarrow> object_json \<Rightarrow> string \<Rightarrow> string option \<Rightarrow> unit hand" where
  "check_sender V K ob author_id sender = (case sender of
      None \<Rightarrow> ret ()
    | Some sender_id \<Rightarrow>
        seq (check_unsolicited_message V (client_authority K) (oj_inner ob) sender_id)
          (check_keywords V K (oj_inner ob) author_id))"

definition handle_create :: "ap_env \<Rightarrow> ap_client \<Rightarrow> json \<Rightarrow> string option \<Rightarrow> bool \<Rightarrow> handled" where
  "handle_create V K activity sender is_authenticated =
     bnd (deserialized (id_field activity ''actor'')) (\<lambda>actor.
     bnd (deserialized (json_field activity ''object'')) (\<lambda>embedded.
     bnd (trusted_object V K activity embedded is_authenticated) (\<lambda>object.
     seq (check_portable V object) (
     bnd (validate (parse_attributed_to (json_index object ''attributedTo''))) (\<lambda>author_id.
     if author_id \<noteq> actor then throw (HeValidation ''actor is not authorized to create object'')
     else
     seq (validate (verify_object_owner (uris V) object)) (
     if is_question_vote object then handle_question_vote V K object
     else
     bnd (deserialized (object_of_value V object)) (\<lambda>ob.
     seq (check_sender V K ob author_id sender) (
     bnd (import_post V K (oj_id ob) (Some ob)) (\<lambda>post.
     seq (sync_post V K post activity) (handled (ob_type (oj_inner ob))))))))))))"

section \<open>Update\<close>

definition handle_update_note :: "ap_env \<Rightarrow> ap_client \<Rightarrow> json \<Rightarrow> handled" where
  "handle_update_note V K activity =
     bnd (deserialized (id_field activity ''actor'')) (\<lambda>actor.
     bnd (deserialized (Option.bind (json_field activity ''object'') (object_of_value V))) (\<lambda>ob.
     bnd (canonical_id V (oj_id ob)) (\<lambda>oid.
     if ob_attributed_to (oj_inner ob) \<noteq> actor then throw (HeValidation ''attributedTo value doesn't match actor'')
     else found_or (get_remote_post_by_object_id (ev_ext V) oid)
       (\<lambda>post. bnd (update_remote_post V K post ob) (\<lambda>post'.
          seq (sync_post V K post' activity) (handled (ob_type (oj_inner ob)))))
       ignored)))"

definition handle_update_person :: "ap_env \<Rightarrow> ap_client \<Rightarrow> json \<Rightarrow> handled" where
  "handle_update_person V K activity =
     bnd (deserialized (json_required_str activity ''actor'')) (\<lambda>actor.
     bnd (deserialized (Option.bind (json_field activity ''object'') actor_of_value)) (\<lambda>act.
     if act_id act \<noteq> actor then throw (HeValidation ''actor ID mismatch'')
     else bnd (canonical_id V (act_id act)) (\<lambda>aid.
       found_or (get_remote_profile_by_actor_id (ev_ext V) aid)
         (\<lambda>p. bnd (update_remote_profile V K p act) (\<lambda>p'.
            bnd (in_db (expect_actor_data p')) (\<lambda>data. handled (da_object_type data))))
         ignored)))"

definition update_trusted :: "ap_env \<Rightarrow> ap_client \<Rightarrow> json \<Rightarrow> handled" where
  "update_trusted V K activity =
     (let object = json_index activity ''object'' in
      seq (check_portable V object) (
      if is_actor object then handle_update_person V K activity
      else if is_object object then
        seq (validate (verify_object_owner (uris V) object)) (
        if string_property object ''type'' = Some ''Agreement'' then handle_update_agreement activity
        else handle_update_note V K activity)
      else ignored))"

definition handle_update :: "ap_env \<Rightarrow> ap_client \<Rightarrow> json \<Rightarrow> bool \<Rightarrow> handled" where
  "handle_update V K activity is_authenticated =
     (let object = json_index activity ''object'' in
      if is_string object \<or> \<not> is_authenticated
      then bnd (trusted_object V K activity object is_authenticated) (\<lambda>fetched.
        bnd (lift (json_set ''object'' fetched activity)) (update_trusted V K))
      else update_trusted V K activity)"

section \<open>Delete\<close>

definition delete_actor :: "ap_env \<Rightarrow> string \<Rightarrow> handled" where
  "delete_actor V aid =
     found_or (get_remote_profile_by_actor_id (ev_ext V) aid)
       (\<lambda>p. bnd (in_db (delete_profile (p_id p))) (\<lambda>queue. seq (enqueue_deletion V queue) (handled ''Actor'')))
       ignored"

definition delete_object :: "ap_env \<Rightarrow> ap_client \<Rightarrow> json \<Rightarrow> string \<Rightarrow> post_detailed \<Rightarrow> handled" where
  "delete_object V K activity aid post =
     bnd (in_db (get_remote_profile_by_actor_id (ev_ext V) aid)) (\<lambda>p.
     if p_id (pd_author post) \<noteq> p_id p then throw (HeValidation ''actor is not an author'')
     else bnd (in_db (delete_post (po_id (pd_post post)))) (\<lambda>queue.
       seq (enqueue_deletion V queue)
       (seq (sync_post V K post activity) (handled ''Object''))))"

definition handle_delete :: "ap_env \<Rightarrow> ap_client \<Rightarrow> json \<Rightarrow> handled" where
  "handle_delete V K activity =
     bnd (deserialized (id_field activity ''actor'')) (\<lambda>actor.
     bnd (deserialized (id_field activity ''object'')) (\<lambda>object.
     bnd (validate (canonicalize_id (uris V) actor)) (\<lambda>aid.
     bnd (validate (canonicalize_id (uris V) object)) (\<lambda>oid.
     if oid = aid then delete_actor V (canonical_to_string (uris V) oid)
     else found_or (get_remote_post_by_object_id (ev_ext V) (canonical_to_string (uris V) oid))
       (delete_object V K activity (canonical_to_string (uris V) aid))
       ignored))))"

section \<open>Like\<close>

record like_activity =
  lk_id :: string
  lk_type :: string
  lk_actor :: string
  lk_object :: string
  lk_content :: "string option"
  lk_tag :: "json list"
  lk_to :: "string list"
  lk_cc :: "string list"

definition like_from_value :: "json \<Rightarrow> like_activity option" where
  "like_from_value v =
     Option.bind (json_required_str v ''id'') (\<lambda>i.
     Option.bind (json_required_str v ''type'') (\<lambda>ty.
     Option.bind (id_field v ''actor'') (\<lambda>actor.
     Option.bind (id_field v ''object'') (\<lambda>object.
     Option.bind (json_optional_str v ''content'') (\<lambda>content.
     Option.bind (object_array_field Some v ''tag'') (\<lambda>tags'.
     Option.bind (id_array v ''to'') (\<lambda>tos.
     Option.bind (id_array v ''cc'') (\<lambda>ccs.
     Some \<lparr>lk_id = i, lk_type = ty, lk_actor = actor, lk_object = object, lk_content = content, lk_tag = tags',
       lk_to = tos, lk_cc = ccs\<rparr>))))))))"

text \<open>A reaction for followers only is stored as a direct one.\<close>

definition reaction_visibility :: "uri_library \<Rightarrow> string list \<Rightarrow> (string, visibility) outcome" where
  "reaction_visibility L targets =
     obind (normalize_audience L targets) (\<lambda>ids.
     Ok (if list_ex (\<lambda>c. canonical_to_string L c = ap_public) ids then VisPublic else VisDirect))"

definition thumbs_down :: string where
  "thumbs_down = [CHR 0xF0, CHR 0x9F, CHR 0x91, CHR 0x8E]"

definition reaction_content ::
  "ap_env \<Rightarrow> ap_client \<Rightarrow> actor_profile \<Rightarrow> like_activity \<Rightarrow> (string option \<times> uuid option) hand" where
  "reaction_content V K author l = (case lk_content l of
      Some content \<Rightarrow>
        if is_single_character (ev_text V) content then ret (Some content, None)
        else bnd (case lk_tag l of
             v # _ \<Rightarrow>
               bnd (in_db (expect_actor_data author)) (\<lambda>data.
               bnd (domain_of V data) (\<lambda>domain.
               bnd (handle_emoji V K domain v) (\<lambda>e.
               ret (Option.bind e (\<lambda>em. if shortcode em = content then Some em else None)))))
           | [] \<Rightarrow> ret None) (\<lambda>e. ret (case e of
             Some em \<Rightarrow> (Some content, Some (em_id em)) | None \<Rightarrow> (None, None)))
    | None \<Rightarrow> ret (if lk_type l = ''Dislike'' then Some thumbs_down else None, None))"

definition handle_like :: "ap_env \<Rightarrow> ap_client \<Rightarrow> json \<Rightarrow> handled" where
  "handle_like V K activity =
     bnd (deserialized (like_from_value activity)) (\<lambda>l.
     bnd (resolve V K (only_remote default_resolver) (lk_actor l)) (\<lambda>author.
     bnd (canonical_id V (lk_object l)) (\<lambda>oid.
     found_or (get_post_by_object_id V (client_authority K) oid)
       (\<lambda>post.
          seq (in_db (expect_actor_data author)) (
          bnd (validate (reaction_visibility (uris V) (lk_to l @ lk_cc l))) (\<lambda>vis.
          bnd (reaction_content V K author l) (\<lambda>(content, emoji_id).
          bnd (canonical_id V (lk_id l)) (\<lambda>aid.
          let d = \<lparr>rd_author_id = p_id author, rd_post_id = po_id (pd_post post), rd_content = content,
            rd_emoji_id = emoji_id, rd_visibility = vis, rd_activity_id = Some aid\<rparr> in
          seq (validate (validate_reaction_data (ev_text V) (uris V) d)) (
          bnd (gets (ev_fresh V ''reaction'')) (\<lambda>ulid.
          match_result (create_reaction (ev_ext V) ulid d)
            (\<lambda>r. in_db (bnd (expect_conversation post) (\<lambda>c.
               seq (sync_conversation V K c activity (re_visibility r)) (ret (Some (DescObject ''Object''))))))
            (\<lambda>e. case e of AlreadyExists _ \<Rightarrow> ignored | _ \<Rightarrow> throw (HeDatabase e)))))))))
       ignored)))"

section \<open>Announce\<close>

definition get_repost_visibility :: "uri_library \<Rightarrow> db_actor \<Rightarrow> string list \<Rightarrow> (string, visibility) outcome" where
  "get_repost_visibility L actor audience =
     obind (normalize_audience L audience) (\<lambda>ids.
     if list_ex (\<lambda>c. canonical_to_string L c = ap_public) ids then Ok VisPublic
     else if list_ex (\<lambda>c. Some (canonical_to_string L c) = da_followers actor) ids then Ok VisFollowers
     else Err ''invalid repost visibility'')"

text \<open>\<open>create_post\<close> with the data of a repost; a repost that exists is not an error.\<close>

definition create_repost :: "ap_env \<Rightarrow> uuid \<Rightarrow> post_create_data \<Rightarrow> 'a hand \<Rightarrow> 'a hand \<Rightarrow> 'a hand" where
  "create_repost V author d created exists =
     seq (validate (validate_repost_data (uris V) d)) (
     bnd (gets (\<lambda>s. (ev_fresh V ''post'' s, ev_fresh V ''conversation'' s))) (\<lambda>(ulid, cid).
     match_result (create_post (ev_ext V) ulid cid author d) (\<lambda>_. created)
       (\<lambda>e. if e = AlreadyExists ''post'' then exists else throw (HeDatabase e))))"

definition announced_post :: "ap_env \<Rightarrow> ap_client \<Rightarrow> string \<Rightarrow> post_detailed hand" where
  "announced_post V K object = (case parse_local_object_id (uris V) (ev_uuids V) (client_authority K) object of
      Ok pid \<Rightarrow> in_db (get_post_by_id (ev_ext V) pid)
    | _ \<Rightarrow> import_post V K object None)"

definition handle_announce_object :: "ap_env \<Rightarrow> ap_client \<Rightarrow> json \<Rightarrow> handled" where
  "handle_announce_object V K activity =
     bnd (deserialized (json_required_str activity ''id'')) (\<lambda>announce_id.
     bnd (deserialized (json_required_str activity ''actor'')) (\<lambda>actor.
     bnd (deserialized (id_field activity ''object'')) (\<lambda>object.
     bnd (deserialized (id_array activity ''to'')) (\<lambda>tos.
     bnd (deserialized (id_array activity ''cc'')) (\<lambda>ccs.
     bnd (canonical_id V announce_id) (\<lambda>aid.
     found_or (get_remote_repost_by_activity_id (ev_ext V) aid) (\<lambda>_. ignored) (
       bnd (resolve V K (only_remote default_resolver) actor) (\<lambda>author.
       bnd (announced_post V K object) (\<lambda>post.
       if \<not> post_is_public post then throw (HeDatabase (NotFound ''post''))
       else
       bnd (in_db (expect_actor_data author)) (\<lambda>data.
       bnd (validate (get_repost_visibility (uris V) data (tos @ ccs))) (\<lambda>vis.
       bnd (gets current_timestamp) (\<lambda>now.
       create_repost V (p_id author) (create_data_repost now (po_id (pd_post post)) vis (Some aid))
         (handled ''Object'') ignored))))))))))))"

text \<open>A wrapped activity is authentic if it is signed by its owner, if it is embedded by a document of its
  origin (\<open>same_origin\<close>), or if it is fetched. \<open>None\<close>: it is not available.\<close>

definition authenticate_wrapped :: "ap_env \<Rightarrow> ap_client \<Rightarrow> json \<Rightarrow> bool hand \<Rightarrow> json option hand" where
  "authenticate_wrapped V K activity same_origin =
     bnd (validate (get_object_id activity)) (\<lambda>activity_id.
     match_result (verify_signed_object V K activity CtActivity False) (\<lambda>_. ret (Some activity))
       (\<lambda>e. case e of
          AuNoJsonSignature \<Rightarrow> bnd same_origin (\<lambda>trusted.
            if trusted then ret (Some activity)
            else match_result (fetch_value V K activity_id) (\<lambda>v. ret (Some v)) (\<lambda>_. ret None))
        | AuDatabase d \<Rightarrow> throw (HeDatabase d)
        | _ \<Rightarrow> throw (HeValidation ''invalid integrity proof'')))"

definition announced_delete :: "ap_env \<Rightarrow> actor_profile \<Rightarrow> json \<Rightarrow> handled" where
  "announced_delete V grp activity =
     bnd (validate (activity_object_id activity)) (\<lambda>object.
     found_or (get_remote_post_by_object_id (ev_ext V) object)
       (\<lambda>post. found_or (get_repost_by_author (po_id (pd_post post)) (p_id grp))
          (\<lambda>r. seq (in_db (delete_repost (rp_id r))) (handled ''Delete''))
          ignored)
       ignored)"

definition announced_create :: "ap_env \<Rightarrow> ap_client \<Rightarrow> actor_profile \<Rightarrow> string \<Rightarrow> json \<Rightarrow> handled" where
  "announced_create V K grp announce_id activity =
     bnd (handle_create V K activity None True) (\<lambda>desc.
     seq (if map_option descriptor_to_string desc \<in> {Some ''Article'', Some ''Note'', Some ''Page''} then
        bnd (validate (activity_object_id activity)) (\<lambda>object.
        bnd (in_db (get_remote_post_by_object_id (ev_ext V) object)) (\<lambda>post.
        if post_is_public post \<and> po_in_reply_to_id (pd_post post) = None then
          bnd (gets current_timestamp) (\<lambda>now.
          create_repost V (p_id grp) (create_data_repost now (po_id (pd_post post)) VisPublic (Some announce_id)) (ret ()) (ret ()))
        else ret ()))
      else ret ())
     (handled ''Create''))"

definition described_as :: "string \<Rightarrow> handled \<Rightarrow> handled" where
  "described_as ty m = bnd m (\<lambda>desc. ret (map_option (\<lambda>_. DescObject ty) desc))"

definition handle_fep_1b12_announce :: "ap_env \<Rightarrow> ap_client \<Rightarrow> json \<Rightarrow> handled" where
  "handle_fep_1b12_announce V K announce =
     bnd (deserialized (json_required_str announce ''id'')) (\<lambda>announce_id.
     bnd (deserialized (id_field announce ''actor'')) (\<lambda>group_id.
     bnd (deserialized (json_field announce ''object'')) (\<lambda>wrapped.
     seq (validate (verify_activity_owner (uris V) wrapped)) (
     bnd (validate (get_object_id wrapped)) (\<lambda>activity_id.
     if is_local_id V K activity_id then ignored
     else
     bnd (validate (ok_or ''unexpected activity structure'' (string_property wrapped ''type''))) (\<lambda>ty.
     if ty \<noteq> ''Delete'' \<and> \<not> ac_fep_1b12_full_enabled K then ignored
     else if ty \<notin> {''Create'', ''Delete'', ''Dislike'', ''Like'', ''Undo'', ''Update''} then ignored
     else
     bnd (authenticate_wrapped V K wrapped (validate (is_same_origin (uris V) announce_id activity_id))) (\<lambda>auth. case auth of
       None \<Rightarrow> ignored
     | Some activity \<Rightarrow>
         seq (validate (verify_activity_owner (uris V) activity)) (
         bnd (resolve V K (only_remote default_resolver) group_id) (\<lambda>grp.
         if ty = ''Delete'' then announced_delete V grp activity
         else if ty = ''Create'' then announced_create V K grp announce_id activity
         else if ty = ''Like'' \<or> ty = ''Dislike'' then described_as ty (handle_like V K activity)
         else if ty = ''Undo'' then described_as ty (handle_undo V K activity)
         else if ty = ''Update'' then described_as ty (handle_update V K activity True)
         else ignored)))))))))"

definition handle_announce :: "ap_env \<Rightarrow> ap_client \<Rightarrow> json \<Rightarrow> handled" where
  "handle_announce V K activity =
     (if is_activity (json_index activity ''object'') then handle_fep_1b12_announce V K activity
      else handle_announce_object V K activity)"

section \<open>Add\<close>

definition handle_fep_171b_add :: "ap_env \<Rightarrow> ap_client \<Rightarrow> json \<Rightarrow> handled" where
  "handle_fep_171b_add V K add =
     bnd (deserialized (id_field add ''actor'')) (\<lambda>owner.
     bnd (deserialized (json_field add ''object'')) (\<lambda>wrapped.
     bnd (deserialized (id_field add ''target'')) (\<lambda>target.
     bnd (validate (get_object_id wrapped)) (\<lambda>activity_id.
     if is_local_id V K activity_id then ignored
     else
     bnd (authenticate_wrapped V K wrapped (ret False)) (\<lambda>auth. case auth of
       None \<Rightarrow> ignored
     | Some activity \<Rightarrow>
         bnd (validate (is_same_origin (uris V) owner target)) (\<lambda>same.
         if \<not> same then throw (HeValidation ''actor is not allowed to modify target'')
         else
         seq (validate (verify_activity_owner (uris V) activity)) (
         bnd (validate (ok_or ''unexpected activity structure'' (string_property activity ''type''))) (\<lambda>ty.
         if ty = ''Create'' then seq (handle_create V K activity None True) (handled ty)
         else if ty = ''Delete'' then described_as ty (handle_delete V K activity)
         else if ty = ''Update'' then described_as ty (handle_update V K activity True)
         else if ty \<in> {''Like'', ''Dislike'', ''EmojiReact''} then described_as ty (handle_like V K activity)
         else ignored))))))))"

definition handle_add :: "ap_env \<Rightarrow> ap_client \<Rightarrow> json \<Rightarrow> handled" where
  "handle_add V K activity =
     (if is_activity (json_index activity ''object'') then handle_fep_171b_add V K activity
      else handle_add_item V K activity)"

end
