(* ===== verification/ActivityHandlers.thy ===== *)
theory ActivityHandlers
  imports ContentHandlers
begin

text \<open>
  Activities (\<open>mitra_activitypub/src/handlers/activity.rs\<close>): authentication of those that were not signed
  by their actor, dispatch by type, storage and forwarding; and the importers of collections
  (\<open>importers.rs\<close>).
\<close>

section \<open>Dispatch\<close>

definition get_activity_audience :: "uri_library \<Rightarrow> json \<Rightarrow> string option \<Rightarrow> (string, string list) outcome" where
  "get_activity_audience L activity recipient_id =
     obind (ok_or ''invalid audience'' (id_array activity ''to'')) (\<lambda>tos.
     obind (ok_or ''invalid audience'' (id_array activity ''cc'')) (\<lambda>ccs.
     obind (normalize_audience L (tos @ ccs @ (case recipient_id of Some r \<Rightarrow> [r] | None \<Rightarrow> []))) (\<lambda>ids.
     Ok (map (canonical_to_string L) ids))))"

record federation_services =
  fs_wallet :: wallet_rpc
  fs_blockchains :: "blockchain_config list"

text \<open>The handler of a type of activity.\<close>

definition dispatch ::
  "ap_env \<Rightarrow> ap_client \<Rightarrow> federation_services \<Rightarrow> string \<Rightarrow> json \<Rightarrow> bool \<Rightarrow> string option \<Rightarrow> handled" where
  "dispatch V K S ty activity is_authenticated sender =
     (if ty = ''Accept'' then handle_accept V K activity
      else if ty = ''AcceptAgreement'' then handle_accept_offer V K activity
      else if ty = ''Add'' then handle_add V K activity
      else if ty = ''Announce'' then handle_announce V K activity
      else if ty = ''Block'' then handle_block V K activity
      else if ty = ''Create'' then handle_create V K activity sender is_authenticated
      else if ty = ''Delete'' then handle_delete V K activity
      else if ty = ''EncryptedActivity'' then ret (Some DescNone)
      else if ty = ''Follow'' then handle_follow V K activity
      else if ty \<in> {''Dislike'', ''Like'', ''EmojiReact''} then handle_like V K activity
      else if ty = ''Listen'' then ignored
      else if ty = ''Move'' then handle_move V K activity
      else if ty = ''Offer'' \<or> ty = ''OfferAgreement'' then handle_offer V K (fs_wallet S) (fs_blockchains S) activity
      else if ty = ''Reject'' then handle_reject V K activity
      else if ty = ''Remove'' then handle_remove V K activity
      else if ty = ''Undo'' then handle_undo V K activity
      else if ty = ''Update'' then handle_update V K activity is_authenticated
      else ignored)"

text \<open>An activity that is not authenticated is fetched, unless its object will be.\<close>

definition authentic_activity :: "ap_env \<Rightarrow> ap_client \<Rightarrow> json \<Rightarrow> bool \<Rightarrow> json hand" where
  "authentic_activity V K activity is_authenticated =
     (if is_authenticated then ret activity
      else bnd (validate (get_object_id activity)) (\<lambda>i.
        bnd (validate (ok_or '''type' property is missing'' (string_property activity ''type''))) (\<lambda>ty.
        if ty = ''Create'' \<or> ty = ''Update'' then ret activity else fetch_value V K i)))"

section \<open>Forwarding\<close>

definition forwarder_limit :: nat where
  "forwarder_limit = 50"

definition forward :: "ap_env \<Rightarrow> ap_client \<Rightarrow> portable_user \<Rightarrow> json \<Rightarrow> db_actor list \<Rightarrow> endpoint_type \<Rightarrow> unit db" where
  "forward V K u activity recipient_actors ep =
     bnd (outgoing_new_forwarded V (http_uri_to_string (ac_instance_uri K)) u activity recipient_actors ep) (\<lambda>job.
     case job of Some d \<Rightarrow> enqueue_activity V d | None \<Rightarrow> ret ())"

text \<open>A recipient with a portable account: its inbox is filled, and its other gateways get a copy.\<close>

definition forward_to_inbox :: "ap_env \<Rightarrow> ap_client \<Rightarrow> json \<Rightarrow> string \<Rightarrow> bool \<Rightarrow> actor_profile \<Rightarrow> unit db" where
  "forward_to_inbox V K activity activity_id is_new p =
     (if \<not> has_portable_account p \<or> \<not> is_new then ret ()
      else bnd (get_portable_user_by_id (ev_ext V) (p_id p)) (\<lambda>u.
        bnd (expect_actor_data (pru_profile u)) (\<lambda>data.
        seq (add_object_to_collection (pru_id u) (da_inbox data) activity_id)
          (forward V K u activity [] EndpointInbox))))"

text \<open>An activity of an actor with a portable account goes to its outbox and to the recipients.\<close>

definition forward_from_outbox ::
  "ap_env \<Rightarrow> ap_client \<Rightarrow> json \<Rightarrow> string \<Rightarrow> bool \<Rightarrow> actor_profile list \<Rightarrow> portable_user \<Rightarrow> unit db" where
  "forward_from_outbox V K activity activity_id is_new recipients u =
     (if \<not> is_new then ret ()
      else bnd (expect_actor_data (pru_profile u)) (\<lambda>data.
        seq (add_object_to_collection (pru_id u) (da_outbox data) activity_id)
          (forward V K u activity (List.map_filter p_actor_json recipients) EndpointOutbox)))"

definition store_and_forward ::
  "ap_env \<Rightarrow> ap_client \<Rightarrow> json \<Rightarrow> string \<Rightarrow> string \<Rightarrow> string list \<Rightarrow> unit db" where
  "store_and_forward V K activity activity_id actor_id audience =
     bnd (save_activity activity_id activity) (\<lambda>is_new.
     bnd (get_activity_recipients V audience) (\<lambda>recipients.
     seq (for_each (take forwarder_limit recipients) (forward_to_inbox V K activity activity_id is_new))
     (match_result (get_portable_user_by_actor_id (ev_ext V) actor_id)
        (forward_from_outbox V K activity activity_id is_new recipients)
        (\<lambda>e. if is_relative_error e then ret () else throw e))))"

definition handle_activity ::
  "ap_env \<Rightarrow> ap_client \<Rightarrow> federation_services \<Rightarrow> json \<Rightarrow> bool \<Rightarrow> string option \<Rightarrow> string option \<Rightarrow> string hand" where
  "handle_activity V K S received is_authenticated recipient sender =
     bnd (authentic_activity V K received is_authenticated) (\<lambda>activity.
     seq (validate (verify_activity_owner (uris V) activity)) (
     bnd (validate (get_object_id activity)) (\<lambda>i.
     bnd (canonical_id V i) (\<lambda>activity_id.
     bnd (validate (ok_or ''type property is missing'' (string_property activity ''type''))) (\<lambda>ty.
     bnd (validate (map_err (\<lambda>_. ''invalid actor property'') (object_to_id (json_index activity ''actor'')))) (\<lambda>actor.
     bnd (canonical_id V actor) (\<lambda>actor_id.
     bnd (validate (get_activity_audience (uris V) activity recipient)) (\<lambda>audience.
     bnd (dispatch V K S ty activity is_authenticated sender) (\<lambda>desc.
     seq (if desc = None then ret () else in_db (store_and_forward V K activity activity_id actor_id audience))
       (ret activity_id))))))))))"

section \<open>Activities of clients\<close>

definition handle_like_c2s :: "ap_env \<Rightarrow> ap_client \<Rightarrow> json \<Rightarrow> handled" where
  "handle_like_c2s V K activity =
     bnd (deserialized (like_from_value activity)) (\<lambda>l.
     bnd (resolve V K default_resolver (lk_actor l)) (\<lambda>author.
     bnd (canonical_id V (lk_object l)) (\<lambda>oid.
     found_or (get_post_by_object_id V (client_authority K) oid)
       (\<lambda>post.
          seq (in_db (expect (local_actor_data V (client_root K) author))) (
          bnd (validate (reaction_visibility (uris V) (lk_to l @ lk_cc l))) (\<lambda>vis.
          let d = \<lparr>rd_author_id = p_id author, rd_post_id = po_id (pd_post post), rd_content = None,
            rd_emoji_id = None, rd_visibility = vis, rd_activity_id = None\<rparr> in
          seq (validate (validate_reaction_data (ev_text V) (uris V) d)) (
          bnd (gets (ev_fresh V ''reaction'')) (\<lambda>ulid.
          match_result (create_reaction (ev_ext V) ulid d)
            (\<lambda>r.
               bnd (validate (get_activity_audience (uris V) activity None)) (\<lambda>audience.
               in_db (
               bnd (get_activity_recipients V audience) (\<lambda>ps.
               bnd (profile_recipients V ps) (\<lambda>rs.
               bnd (get_user_by_id (ev_ext V) (p_id author)) (\<lambda>u.
               bnd (outgoing_new V (client_authority K) (ManagedUser u) activity rs) (\<lambda>job.
               seq (save_and_enqueue_activity V job) (
               bnd (expect_conversation post) (\<lambda>c.
               seq (sync_conversation V K c activity (re_visibility r)) (ret (Some (DescObject ''Object''))))))))))))
            (\<lambda>e. case e of AlreadyExists _ \<Rightarrow> ignored | _ \<Rightarrow> throw (HeDatabase e)))))))
       ignored)))"

definition handle_activity_c2s :: "ap_env \<Rightarrow> ap_client \<Rightarrow> json \<Rightarrow> unit hand" where
  "handle_activity_c2s V K activity =
     bnd (validate (map_err (\<lambda>_. ''invalid actor property'') (object_to_id (json_index activity ''actor'')))) (\<lambda>_.
     bnd (validate (ok_or ''type property is missing'' (string_property activity ''type''))) (\<lambda>ty.
     seq (validate (verify_activity_owner (uris V) activity)) (
     bnd (if ty = ''Like'' then handle_like_c2s V K activity else ignored) (\<lambda>_. ret ()))))"

section \<open>Collections\<close>

record collection_page =
  cp_id :: "non_canonical_uri option"
  cp_next :: "json option"
  cp_items :: "json list"

definition non_canonical_from_value :: "uri_library \<Rightarrow> json \<Rightarrow> non_canonical_uri option" where
  "non_canonical_from_value L v = Option.bind (json_str v) (\<lambda>x. of_outcome (non_canonical_parse L x))"

text \<open>A \<open>Vec\<close> with \<open>#[serde(default)]\<close>.\<close>

definition items_field :: "json \<Rightarrow> string \<Rightarrow> json list option" where
  "items_field v k = (case json_field v k of None \<Rightarrow> Some [] | Some x \<Rightarrow> json_vec Some x)"

definition page_from_value :: "uri_library \<Rightarrow> string \<Rightarrow> json \<Rightarrow> collection_page option" where
  "page_from_value L next_property v =
     Option.bind (optional_from_value (non_canonical_from_value L) (json_field v ''id'')) (\<lambda>i.
     Option.bind (items_field v ''items'') (\<lambda>xs.
     Option.bind (items_field v ''orderedItems'') (\<lambda>ys.
     Some \<lparr>cp_id = i, cp_next = json_opt_value (json_field v next_property), cp_items = xs @ ys\<rparr>)))"

definition read_page :: "ap_env \<Rightarrow> ap_client \<Rightarrow> json \<Rightarrow> (handler_error, collection_page) outcome" where
  "read_page V K v =
     (let decode = (\<lambda>x. ok_or (HeValidation ''deserialization error'') (page_from_value (uris V) ''next'' x)) in
      case v of JString i \<Rightarrow> obind (client_fetch V K i) decode | _ \<Rightarrow> decode v)"

definition page_limit :: nat where
  "page_limit = 3"

text \<open>At most \<open>n\<close> pages, while fewer than \<open>limit\<close> items were read.\<close>

fun fetch_pages ::
  "ap_env \<Rightarrow> ap_client \<Rightarrow> uri_origin \<Rightarrow> nat \<Rightarrow> nat \<Rightarrow> json \<Rightarrow> json list \<Rightarrow> (handler_error, json list) outcome" where
  "fetch_pages V K org limit 0 page items = Ok items"
| "fetch_pages V K org limit (Suc n) page items =
     (if length items \<ge> limit then Ok items
      else obind (read_page V K page) (\<lambda>p.
        if (case cp_id p of Some i \<Rightarrow> non_canonical_origin (uris V) i \<noteq> org | None \<Rightarrow> False)
        then Err (HeValidation ''collection page has different origin'')
        else (case cp_next p of
            Some next_page \<Rightarrow> fetch_pages V K org limit n next_page (items @ cp_items p)
          | None \<Rightarrow> Ok (items @ cp_items p))))"

text \<open>Embedded items of the origin of the collection are trusted, others are fetched.\<close>

fun authenticate_items ::
  "ap_env \<Rightarrow> ap_client \<Rightarrow> uri_origin \<Rightarrow> json list \<Rightarrow> (handler_error, json list) outcome" where
  "authenticate_items V K org [] = Ok []"
| "authenticate_items V K org (v # vs) =
     obind (map_err (\<lambda>_. HeValidation ''invalid object ID'') (object_to_id v)) (\<lambda>i.
     obind (map_err (\<lambda>_. HeValidation ''invalid object ID'') (http_uri_parse (uris V) i)) (\<lambda>u.
     obind (if \<not> is_string v \<and> http_origin u = org then Ok [v]
            else (case client_fetch V K (http_uri_to_string u) of
                Ok x \<Rightarrow> Ok [x] | Err _ \<Rightarrow> Ok [] | Panic m \<Rightarrow> Panic m)) (\<lambda>item.
     obind (authenticate_items V K org vs) (\<lambda>rest. Ok (item @ rest)))))"

definition fetch_collection :: "ap_env \<Rightarrow> ap_client \<Rightarrow> string \<Rightarrow> nat \<Rightarrow> (handler_error, json list) outcome" where
  "fetch_collection V K collection_id limit =
     obind (client_fetch V K collection_id) (\<lambda>v.
     obind (ok_or (HeValidation ''deserialization error'') (page_from_value (uris V) ''first'' v)) (\<lambda>c.
     obind (ok_or (HeValidation ''deserialization error'') (cp_id c)) (\<lambda>i.
     let org = non_canonical_origin (uris V) i in
     obind (case cp_next c of
         Some page \<Rightarrow> fetch_pages V K org limit page_limit page (cp_items c) | None \<Rightarrow> Ok (cp_items c)) (\<lambda>items.
     authenticate_items V K org (take limit items)))))"

datatype collection_item_type = ItemObject | ItemActor | ItemActivity

datatype collection_order = OrderForward | OrderReverse

definition item_type_of :: "json \<Rightarrow> (handler_error, collection_item_type) outcome" where
  "item_type_of v = (case get_core_type v of
      CtObject \<Rightarrow> Ok ItemObject | CtActor \<Rightarrow> Ok ItemActor | CtActivity \<Rightarrow> Ok ItemActivity
    | _ \<Rightarrow> Err (HeValidation ''unexpected item type''))"

definition import_item :: "ap_env \<Rightarrow> ap_client \<Rightarrow> federation_services \<Rightarrow> collection_item_type \<Rightarrow> json \<Rightarrow> string hand" where
  "import_item V K S ty v = (case ty of
      ItemObject \<Rightarrow> bnd (import_object V K v) expect_remote_object_id
    | ItemActor \<Rightarrow> bnd (import_actor V K v) expect_remote_actor_id
    | ItemActivity \<Rightarrow> handle_activity V K S v True None None)"

definition import_collection ::
  "ap_env \<Rightarrow> ap_client \<Rightarrow> federation_services \<Rightarrow> string \<Rightarrow> collection_item_type option \<Rightarrow> collection_order \<Rightarrow> nat
   \<Rightarrow> string list hand" where
  "import_collection V K S collection_id item_type ord limit =
     bnd (lift (fetch_collection V K collection_id limit)) (\<lambda>items. case items of
       [] \<Rightarrow> ret []
     | item # _ \<Rightarrow>
         bnd (lift (case item_type of Some ty \<Rightarrow> Ok ty | None \<Rightarrow> item_type_of item)) (\<lambda>ty.
         fold_p (\<lambda>v imported.
           seq (validate (get_object_id v))
           (match_result (import_item V K S ty v) (\<lambda>i. ret (imported @ [i])) (\<lambda>_. ret imported)))
         (case ord of OrderForward \<Rightarrow> items | OrderReverse \<Rightarrow> rev items) []))"

definition prepared_id :: "ap_env \<Rightarrow> ap_client \<Rightarrow> db_actor \<Rightarrow> string \<Rightarrow> string hand" where
  "prepared_id V K data i =
     bnd (lift (map_err HeFetch (prepare_object_id (uris V) (da_gateways data) i))) (\<lambda>(url, _). ret url)"

definition import_from_outbox :: "ap_env \<Rightarrow> ap_client \<Rightarrow> federation_services \<Rightarrow> string \<Rightarrow> nat \<Rightarrow> unit hand" where
  "import_from_outbox V K S aid limit =
     bnd (in_db (get_remote_profile_by_actor_id (ev_ext V) aid)) (\<lambda>p.
     bnd (in_db (expect_actor_data p)) (\<lambda>data.
     bnd (prepared_id V K data (da_outbox data)) (\<lambda>url.
     bnd (import_collection V K S url (Some ItemActivity) OrderReverse limit) (\<lambda>_. ret ()))))"

definition import_featured :: "ap_env \<Rightarrow> ap_client \<Rightarrow> federation_services \<Rightarrow> string \<Rightarrow> nat \<Rightarrow> unit hand" where
  "import_featured V K S aid limit =
     bnd (in_db (get_remote_profile_by_actor_id (ev_ext V) aid)) (\<lambda>p.
     bnd (in_db (expect_actor_data p)) (\<lambda>data. case da_featured data of
       None \<Rightarrow> ret ()
     | Some featured \<Rightarrow>
         bnd (prepared_id V K data featured) (\<lambda>url.
         bnd (import_collection V K S url (Some ItemObject) OrderForward limit) (\<lambda>imported.
         for_each imported (\<lambda>oid. found_or (get_remote_post_by_object_id (ev_ext V) oid)
           (\<lambda>post. in_db (set_pinned_flag (po_id (pd_post post)) True)) (ret ()))))))"

definition replies_collection :: "json \<Rightarrow> bool \<Rightarrow> (handler_error, (string \<times> collection_item_type) option) outcome" where
  "replies_collection v use_context =
     (let field = (\<lambda>k. map_err HeValidation (deserialize_into_object_id_opt (json_field v k))) in
      obind (field ''contextHistory'') (\<lambda>history.
      obind (field ''context'') (\<lambda>ctx.
      obind (field ''replies'') (\<lambda>replies.
      if use_context then (case history of
          Some i \<Rightarrow> Ok (Some (i, ItemActivity))
        | None \<Rightarrow> (case ctx of
            Some i \<Rightarrow> Ok (Some (i, ItemObject)) | None \<Rightarrow> Err (HeValidation ''object doesn't have context'')))
      else Ok (map_option (\<lambda>i. (i, ItemObject)) replies)))))"

definition import_replies :: "ap_env \<Rightarrow> ap_client \<Rightarrow> federation_services \<Rightarrow> string \<Rightarrow> bool \<Rightarrow> nat \<Rightarrow> unit hand" where
  "import_replies V K S object_id use_context limit =
     bnd (fetch_value V K object_id) (\<lambda>v.
     bnd (lift (replies_collection v use_context)) (\<lambda>c. case c of
       None \<Rightarrow> ret ()
     | Some (i, ty) \<Rightarrow> bnd (import_collection V K S i (Some ty) OrderForward limit) (\<lambda>_. ret ())))"

section \<open>Registration of portable actors\<close>

record registration_config =
  rg_open :: bool
  rg_federation_enabled :: bool

definition check_invite_code :: "registration_config \<Rightarrow> string option \<Rightarrow> string option hand" where
  "check_invite_code cfg code =
     (if rg_open cfg \<and> \<not> rg_federation_enabled cfg then ret None
      else bnd (validate (ok_or ''invite code is required'' code)) (\<lambda>c.
        bnd (in_db (is_valid_invite_code c)) (\<lambda>ok.
        if ok then ret (Some c) else throw (HeValidation ''invalid invite code''))))"

text \<open>\<open>rsa_key\<close> and \<open>ed25519_key\<close> are the generated secret keys.\<close>

definition register_portable_actor ::
  "ap_env \<Rightarrow> ap_client \<Rightarrow> registration_config \<Rightarrow> string \<Rightarrow> string \<Rightarrow> json \<Rightarrow> string option \<Rightarrow> (portable_user \<times> bool) hand" where
  "register_portable_actor V K cfg rsa_key ed25519_key v code =
     bnd (validate (map_err (\<lambda>_. ''invalid portable actor'') (verify_portable_object (cryptography V) (uris V) v))) (\<lambda>_.
     bnd (deserialized (actor_of_value v)) (\<lambda>act.
     bnd (canonical_id V (act_id act)) (\<lambda>aid.
     found_or (get_portable_user_by_actor_id (ev_ext V) aid) (\<lambda>u. ret (u, False)) (
       bnd (check_invite_code cfg code) (\<lambda>checked.
       bnd (found_or (get_remote_profile_by_actor_id (ev_ext V) aid)
              (\<lambda>p. update_remote_profile V K p act) (create_remote_profile V K act)) (\<lambda>p.
       bnd (in_db (create_portable_user (ev_ext V) \<lparr>pcd_profile_id = p_id p, pcd_rsa_secret_key = rsa_key,
         pcd_ed25519_secret_key = ed25519_key, pcd_invite_code = checked\<rparr>)) (\<lambda>u.
       seq (in_db (create_signup_notifications (pru_id u))) (ret (u, True)))))))))"

end
