(* ===== verification/HandlerResults.thy ===== *)
theory HandlerResults
  imports ActivityHandlers InvoiceLifecycle OutgoingProperties FollowHandlers RelationshipInvariants
begin

text \<open>
  Results about the handlers of activities: what they leave alone, and whom they listen to.
\<close>

section \<open>Queries leave the tables alone\<close>

lemma reads_only_single_post [simp]: "reads_only (single_post X P)"
  unfolding single_post_def type_check_def by (intro reads_onlyI preserves_rules)

lemma reads_only_posts [simp]:
  "reads_only (get_post_by_id X pid)" "reads_only (get_remote_post_by_object_id X oid)"
  by (simp_all add: get_post_by_id_def get_remote_post_by_object_id_def)

lemma reads_only_group [simp]: "reads_only (get_group_account_by_id X gid)"
  unfolding get_group_account_by_id_def type_check_def
  by (intro reads_onlyI preserves_rules) (auto intro: preserves_rules)

lemma reads_only_match_result:
  "reads_only m \<Longrightarrow> (\<And>a. reads_only (f a)) \<Longrightarrow> (\<And>e. reads_only (g e)) \<Longrightarrow> reads_only (match_result m f g)"
  by (intro reads_onlyI preserves_rules) (auto intro: reads_only_preserves)

lemma reads_only_basic [simp]: "reads_only (ret a)" "reads_only (throw e)" "reads_only (panic p)"
  by (simp_all add: reads_only_def prog_defs)

section \<open>Conversations\<close>

text \<open>Only public activities and activities of the conversation itself are passed on.\<close>

lemma sync_conversation_private:
  assumes "vis \<notin> {VisPublic, VisConversation}"
  shows "reads_only (sync_conversation V K c activity vis)"
proof (cases "cv_group_id c")
  case (Some gid)
  show ?thesis unfolding sync_conversation_def Some option.case sync_group_def
    by (rule reads_only_match_result) (use assms in \<open>auto split: database_error.splits\<close>)
next
  case None
  have "sync_owned V K c activity vis root = ret ()" for root
    using assms by (auto simp: sync_owned_def is_synced_def)
  then show ?thesis unfolding sync_conversation_def None option.case
    by (intro reads_only_match_result) (auto split: database_error.splits)
qed

section \<open>Agreements\<close>


lemma open_remote_invoice_paid:
  assumes inv: "invoices_inv s" and row: "filter (\<lambda>i. inv_object_id i = Some oid) (invoices s) = [i]"
    and status: "inv_status i = Open"
  shows "\<exists>t. set_invoice_status (inv_id i) Paid s = (Ok (with_status s Paid i), t)
    \<and> with_status s Paid i \<in> set (invoices t)"
proof -
  have i: "i \<in> set (invoices s)" "inv_object_id i = Some oid"
    using row filter_eq_ConsD [of _ "invoices s" i "[]"] by (auto dest: filter_eq_ConsD)
  have ok: "filter (\<lambda>j. inv_id j = inv_id i) (invoices s) = [i]" "invoice_ok i"
    using stored_row [OF inv i(1)] by simp_all
  have "can_change_status i Paid = Ok True" "invoice_check_consistency (with_status s Paid i) = Ok ()"
    using i(2) status ok(2)
    by (auto simp: can_change_status_def invoice_is_local_def remote_transitions_def invoice_ok_def with_status_def
        invoice_check_consistency_def split: if_splits)
  then have "changed_by (\<lambda>i. i) (inv_id i) Paid s (with_status s Paid i)
      (s\<lparr>invoices := update_where (\<lambda>j. inv_id j = inv_id i) (with_status s Paid) (invoices s)\<rparr>)"
    using ok(1) by (simp add: changed_by_def)
  then show ?thesis
    using i(1) by (intro exI) (auto simp: set_invoice_status_Ok [symmetric] update_where_def)
qed

lemma update_agreement_pays:
  assumes "invoices_inv s" and "filter (\<lambda>i. inv_object_id i = Some oid) (invoices s) = [i]" and "inv_status i = Open"
    and "agreement_from_value (json_index activity ''object'') = Some ag" and "ag_id ag = Some oid"
    and "ag_preview ag = Some ''Paid''"
  shows "\<exists>t. handle_update_agreement activity s = (Ok (Some (DescObject ''Agreement'')), t)
    \<and> with_status s Paid i \<in> set (invoices t)"
proof -
  obtain t where t: "set_invoice_status (inv_id i) Paid s = (Ok (with_status s Paid i), t)"
      "with_status s Paid i \<in> set (invoices t)"
    using open_remote_invoice_paid [OF assms(1-3)] by blast
  have "handle_update_agreement activity s = (Ok (Some (DescObject ''Agreement'')), t)"
    using assms t(1)
    by (simp add: handle_update_agreement_def ok_runs get_remote_invoice_by_object_id_def preview_status_def handled_def)
      blast
  with t(2) show ?thesis by blast
qed

section \<open>Featured posts\<close>

lemma posts_with_authors_single:
  "posts_with_authors s P = [(p, a)] \<Longrightarrow> p \<in> set (posts s) \<and> a \<in> set (actor_profiles s) \<and> po_author_id p = p_id a \<and> P p a"
proof -
  assume "posts_with_authors s P = [(p, a)]"
  then have "(p, a) \<in> set (posts_with_authors s P)"
    by simp
  then show ?thesis
    by (auto simp: posts_with_authors_def)
qed

lemma remote_post_row:
  assumes "get_remote_post_by_object_id X oid s = (Ok d, t)"
  shows "pd_post d \<in> set (posts s) \<and> po_object_id (pd_post d) = Some oid \<and> po_repost_of_id (pd_post d) = None"
proof -
  obtain p a where row: "posts_with_authors s (\<lambda>p a. po_object_id p = Some oid \<and> po_repost_of_id p = None) = [(p, a)]"
      and "post_detailed_try_from X s (p, a) = Ok d"
    using assms by (auto simp: get_remote_post_by_object_id_def single_post_def ok_runs)
  then have "pd_post d = p"
    by (auto simp: post_detailed_try_from_def dest: post_detailed_new_Ok)
  with posts_with_authors_single [OF row] show ?thesis
    by simp
qed

lemma set_featured_pins:
  assumes "get_remote_post_by_object_id (ev_ext V) oid s = (Ok post, s)"
  shows "\<exists>t. set_featured V oid pinned s = (Ok (Some (DescTarget ''featured'')), t)
    \<and> (pd_post post)\<lparr>po_is_pinned := pinned\<rparr> \<in> set (posts t)"
proof -
  let ?p = "pd_post post"
  have p: "?p \<in> set (posts s)" "is_original (po_id ?p) ?p"
    using remote_post_row [OF assms] by (simp_all add: is_original_def)
  then have "count_where (is_original (po_id ?p)) (posts s) \<noteq> 0"
    by (auto simp: count_where_def filter_empty_conv)
  with p show ?thesis
    by (intro exI) (auto simp: set_featured_def ok_runs assms set_pinned_flag_def update_where_def)
qed

section \<open>Deletion and changes of posts\<close>

lemma delete_object_by_author:
  assumes "posts (snd (delete_object V K activity aid post s)) \<noteq> posts s"
  shows "\<exists>p. get_remote_profile_by_actor_id (ev_ext V) aid s = (Ok p, s) \<and> p_id (pd_author post) = p_id p"
proof -
  obtain r t where run: "get_remote_profile_by_actor_id (ev_ext V) aid s = (r, t)"
    by fastforce
  then have t: "t = s"
    by (rule reads_onlyD [rotated]) simp
  show ?thesis
  proof (cases r)
    case (Ok p)
    with assms run t show ?thesis
      by (cases "p_id (pd_author post) = p_id p") (auto simp: delete_object_def in_db_def prog_defs)
  qed (use assms run t in \<open>auto simp: delete_object_def in_db_def prog_defs\<close>)
qed

lemma handle_delete_by_author:
  assumes "id_field activity ''actor'' = Some actor" and "canonicalize_id (uris V) actor = Ok aid"
    and "id_field activity ''object'' = Some object" and "canonicalize_id (uris V) object = Ok oid" and "oid \<noteq> aid"
    and "posts (snd (handle_delete V K activity s)) \<noteq> posts s"
  shows "\<exists>post p. get_remote_post_by_object_id (ev_ext V) (canonical_to_string (uris V) oid) s = (Ok post, s)
    \<and> get_remote_profile_by_actor_id (ev_ext V) (canonical_to_string (uris V) aid) s = (Ok p, s)
    \<and> p_id (pd_author post) = p_id p"
proof -
  let ?oid = "canonical_to_string (uris V) oid"
  obtain r t where run: "get_remote_post_by_object_id (ev_ext V) ?oid s = (r, t)"
    by fastforce
  then have t: "t = s"
    by (rule reads_onlyD [rotated]) simp
  have eq: "handle_delete V K activity s = found_or (get_remote_post_by_object_id (ev_ext V) ?oid)
      (delete_object V K activity (canonical_to_string (uris V) aid)) ignored s"
    using assms(1-5) by (simp add: handle_delete_def deserialized_def validate_def prog_defs)
  show ?thesis
  proof (cases r)
    case (Ok post)
    with assms(6) eq run t delete_object_by_author [of V K activity _ post s] show ?thesis
      by (auto simp: found_or_def prog_defs)
  qed (use assms(6) eq run t in \<open>auto simp: found_or_def ignored_def prog_defs split: database_error.splits\<close>)
qed

lemma update_remote_post_owner:
  assumes "\<not> post_is_local post" and "p_actor_json (pd_author post) = Some data"
    and "canonicalize_id (uris V) (ob_attributed_to (oj_inner ob)) = Ok c" and "canonical_to_string (uris V) c \<noteq> da_id data"
  shows "update_remote_post V K post ob s = (Err (HeValidation ''object owner can't be changed''), s)"
  using assms by (simp add: update_remote_post_def Let_def canonical_id_def expect_remote_actor_id_def validate_def prog_defs)

text \<open>
  What a \<open>Follow\<close> activity does to the relationships of the account that is followed.
\<close>

section \<open>Errors other than a duplicate\<close>

definition never_exists :: "'a db \<Rightarrow> bool" where
  "never_exists m \<longleftrightarrow> (\<forall>s w. fst (m s) \<noteq> Err (AlreadyExists w))"

named_theorems never_exists_rules \<open>programs that do not report a duplicate\<close>

lemma never_existsI: "(\<And>s w. fst (m s) \<noteq> Err (AlreadyExists w)) \<Longrightarrow> never_exists m"
  by (simp add: never_exists_def)

lemma map_err_is_Err: "map_err g r = Err e \<longleftrightarrow> (\<exists>d. r = Err d \<and> e = g d)"
  by (cases r) auto

lemma never_exists_basic [never_exists_rules]:
  "never_exists (ret a)" "never_exists (panic p)" "never_exists (gets f)" "never_exists (modify g)"
  "never_exists (run m)" "never_exists (type_check r)" "never_exists (expect x)"
  "never_exists (lift (ok_or (NotFound what) v))" "never_exists (throw TypeError)"
  by (auto intro!: never_existsI simp: prog_defs run_def type_check_def expect_def map_err_is_Err
      split: prod.splits) (cases v; simp)+

lemma never_exists_bnd [never_exists_rules]:
  assumes "never_exists m" and "\<And>a. never_exists (f a)"
  shows "never_exists (bnd m f)"
proof (rule never_existsI)
  fix s w
  obtain r t where run: "m s = (r, t)" by fastforce
  then have "r \<noteq> Err (AlreadyExists w)"
    using assms(1) by (auto simp: never_exists_def dest: spec [of _ s])
  with run show "fst (bnd m f s) \<noteq> Err (AlreadyExists w)"
    using assms(2) by (cases r) (auto simp: bnd_def never_exists_def)
qed

lemma never_exists_seq [never_exists_rules]: "never_exists m \<Longrightarrow> never_exists n \<Longrightarrow> never_exists (seq m n)"
  by (simp add: seq_def never_exists_bnd)

lemma never_exists_if [never_exists_rules]:
  "(b \<Longrightarrow> never_exists m) \<Longrightarrow> (\<not> b \<Longrightarrow> never_exists n) \<Longrightarrow> never_exists (if b then m else n)"
  by simp

lemma never_exists_match [never_exists_rules]:
  assumes "never_exists m" and "\<And>a. never_exists (f a)" and "\<And>e. (\<And>w. e \<noteq> AlreadyExists w) \<Longrightarrow> never_exists (g e)"
  shows "never_exists (match_result m f g)"
proof (rule never_existsI)
  fix s w
  obtain r t where run: "m s = (r, t)" by fastforce
  then have "r \<noteq> Err (AlreadyExists v)" for v
    using assms(1) by (auto simp: never_exists_def dest: spec [of _ s])
  with run show "fst (match_result m f g s) \<noteq> Err (AlreadyExists w)"
    using assms(2,3) by (cases r) (auto simp: match_result_def never_exists_def)
qed

lemma never_exists_transaction [never_exists_rules]: "never_exists m \<Longrightarrow> never_exists (transaction m)"
  by (auto simp: never_exists_def transaction_def split: prod.splits outcome.splits) (metis fst_conv)

lemma never_exists_counters [never_exists_rules]:
  "never_exists (update_follower_count X pid n)" "never_exists (update_following_count X pid n)"
  unfolding update_counts_defs update_profile_counter_def profile_try_from_def by (intro never_exists_rules)+

lemma never_exists_notification [never_exists_rules]: "never_exists (create_follow_notification a b)"
  unfolding create_follow_notification_def unless_muted_def has_relationship_def select_opt_def
  by (intro never_exists_rules)
    (auto intro!: never_existsI simp: create_notification_def Let_def split: outcome.splits if_splits)

section \<open>Acceptance\<close>

lemma follow_exists:
  assumes "follow X a b s = (Err (AlreadyExists w), t)"
  shows "list_ex (is_rel a b RelFollow) (relationships s)"
proof (cases "insert_relationship a b RelFollow s")
  case (Pair r u)
  show ?thesis
  proof (cases r)
    case (Ok rid)
    let ?rest = "seq (run (delete_relationship b a RelReject))
     (bnd (update_follower_count X b 1) (\<lambda>target_profile.
     seq (update_following_count X a 1)
     (seq (if has_user_account target_profile \<and> \<not> p_manually_approves_followers target_profile
           then create_follow_notification a b else ret ())
     (ret rid))))"
    have "never_exists ?rest"
      by (intro never_exists_rules)
    moreover have "fst (?rest u) = Err (AlreadyExists w)"
      using assms Pair Ok
      by (auto simp: follow_def transaction_def bnd_def [of "map_err_p _ _"] map_err_p_def split: prod.splits outcome.splits)
    ultimately show ?thesis
      unfolding never_exists_def by blast
  next
    case (Err e)
    then have "e = UniqueViolation"
      using assms Pair by (auto simp: follow_def transaction_def prog_defs catch_unique_violation_def split: if_splits)
    then show ?thesis
      using Pair Err by (auto simp: insert_relationship_def Let_def split: if_splits)
  qed (use assms Pair in \<open>auto simp: follow_def transaction_def prog_defs\<close>)
qed

lemma follow_adds: "follow X a b s = (Ok rid, t) \<Longrightarrow> list_ex (is_rel a b RelFollow) (relationships t)"
  by (erule follow_effect) (auto simp: list_ex_iff delete_where_def is_rel_def new_relationship_def)

lemma accepted_Ok:
  assumes "follow_request_accepted X rid s = (Ok rel, t)" and "r \<in> set (follow_requests s)" and "fr_id r = rid"
  shows "list_ex (is_rel (fr_source_id r) (fr_target_id r) RelFollow) (relationships t)"
proof -
  obtain r' u where row: "filter (\<lambda>r. fr_id r = rid) (follow_requests s) = [r']"
      and run: "follow X (fr_source_id r') (fr_target_id r') u = (Ok rel, t)"
    using assms(1) by (auto simp: follow_request_accepted_def ok_runs)
  have "r \<in> set (filter (\<lambda>r. fr_id r = rid) (follow_requests s))"
    using assms(2,3) by simp
  with row follow_adds [OF run] show ?thesis
    by simp
qed

lemma accepted_exists:
  assumes "follow_request_accepted X rid s = (Err (AlreadyExists w), t)" and "r \<in> set (follow_requests s)" and "fr_id r = rid"
  shows "list_ex (is_rel (fr_source_id r) (fr_target_id r) RelFollow) (relationships s)"
proof -
  have r: "r \<in> set (filter (\<lambda>r. fr_id r = rid) (follow_requests s))"
    using assms(2,3) by simp
  then obtain x xs where rows: "filter (\<lambda>r. fr_id r = rid) (follow_requests s) = x # xs"
    by (cases "filter (\<lambda>r. fr_id r = rid) (follow_requests s)") auto
  show ?thesis
  proof (cases xs)
    case Nil
    let ?u = "s\<lparr>follow_requests := update_where (\<lambda>r. fr_id r = rid) (\<lambda>r. r\<lparr>fr_status := FrAccepted\<rparr>) (follow_requests s)\<rparr>"
    have "fst (follow X (fr_source_id x) (fr_target_id x) ?u) = Err (AlreadyExists w)"
      using assms(1) rows Nil
      by (auto simp: follow_request_accepted_def transaction_def prog_defs run_def split: prod.splits outcome.splits)
    then obtain v where "follow X (fr_source_id x) (fr_target_id x) ?u = (Err (AlreadyExists w), v)"
      by (metis prod.collapse)
    from follow_exists [OF this] r rows Nil show ?thesis
      by simp
  next
    case (Cons y ys)
    then show ?thesis
      using assms(1) rows by (auto simp: follow_request_accepted_def transaction_def prog_defs run_def)
  qed
qed

lemma keeps_relationships_add:
  "preserves (\<lambda>s. relationships s = R) (record_follower V owner rid followers_id follower_id)"
  unfolding record_follower_def type_check_def add_relationship_def run_def select_or_not_found_def
  by (intro preserves_rules preserves_transaction) (auto simp: preserves_def is_relative_error_def prog_defs)

lemma never_exists_record [never_exists_rules]: "never_exists (record_follower V owner rid followers_id follower_id)"
  unfolding record_follower_def add_relationship_def select_or_not_found_def select_opt_def
  by (intro never_exists_rules) (auto intro!: never_existsI simp: prog_defs)

text \<open>What follows the acceptance.\<close>

definition after_acceptance :: "ap_env \<Rightarrow> authority_root \<Rightarrow> int \<Rightarrow> unit db" where
  "after_acceptance V root rel = bnd (get_relationship_by_id rel) (\<lambda>r.
     bnd (expect (get_actor_data V root (rd_source r))) (\<lambda>src.
     bnd (expect (get_actor_data V root (rd_target r))) (\<lambda>tgt.
     case da_followers tgt of
       Some followers_id \<Rightarrow> record_follower V (p_id (rd_target r)) rel followers_id (da_id src)
     | None \<Rightarrow> ret ())))"

lemma accept_and_add_split:
  "accept_and_add_follower V root rid = transaction (bnd (follow_request_accepted (ev_ext V) rid) (after_acceptance V root))"
  by (simp add: accept_and_add_follower_def after_acceptance_def [abs_def])

lemma after_acceptance_keeps: "preserves (\<lambda>s. relationships s = R) (after_acceptance V root rel)"
  unfolding after_acceptance_def get_relationship_by_id_def expect_def
  by (intro preserves_rules) (auto intro: keeps_relationships_add reads_only_preserves split: option.splits)

lemma never_exists_after: "never_exists (after_acceptance V root rel)"
  unfolding after_acceptance_def get_relationship_by_id_def select_or_not_found_def select_opt_def
  by (intro never_exists_rules) (auto intro: never_exists_rules split: option.splits)

lemma accept_and_add_Ok:
  assumes "accept_and_add_follower V root rid s = (Ok x, t)" and "r \<in> set (follow_requests s)" and "fr_id r = rid"
  shows "list_ex (is_rel (fr_source_id r) (fr_target_id r) RelFollow) (relationships t)"
proof -
  obtain rel u where acc: "follow_request_accepted (ev_ext V) rid s = (Ok rel, u)"
      and rest: "after_acceptance V root rel u = (Ok x, t)"
    using assms(1) by (auto simp: accept_and_add_split ok_runs)
  have "relationships t = relationships u"
    using preservesD [OF after_acceptance_keeps [of "relationships u"] refl rest] .
  with accepted_Ok [OF acc assms(2,3)] show ?thesis
    by simp
qed

lemma accept_and_add_exists:
  assumes "accept_and_add_follower V root rid s = (Err (AlreadyExists w), t)" and "r \<in> set (follow_requests s)"
    and "fr_id r = rid"
  shows "list_ex (is_rel (fr_source_id r) (fr_target_id r) RelFollow) (relationships t)"
proof -
  obtain res u where acc: "follow_request_accepted (ev_ext V) rid s = (res, u)"
    by fastforce
  have "res = Err (AlreadyExists w)"
  proof (cases res)
    case (Ok rel)
    then have "fst (after_acceptance V root rel u) = Err (AlreadyExists w)"
      using assms(1) acc
      by (auto simp: accept_and_add_split transaction_def bnd_def split: prod.splits outcome.splits)
    with never_exists_after show ?thesis
      unfolding never_exists_def by blast
  qed (use assms(1) acc in \<open>auto simp: accept_and_add_split transaction_def bnd_def\<close>)
  moreover have "relationships t = relationships s"
    using assms(1) by (auto simp: accept_and_add_split transaction_def rollback_def split: prod.splits outcome.splits)
  ultimately show ?thesis
    using accepted_exists [of "ev_ext V" rid s w u r] acc assms(2,3) by simp
qed

lemma outgoing_new_keeps: "preserves I (outgoing_new V a acc activity rs)"
  unfolding outgoing_new_def expect_def
  by (intro preserves_rules) (auto intro: preserves_rules split: outcome.splits)

lemma keeps_relationships_accept:
  "preserves (\<lambda>s. relationships s = R) (bnd (prepare_accept_follow V K acc actor cid) (save_and_enqueue_activity V))"
  unfolding prepare_accept_follow_def compatible_def type_check_def expect_def save_and_enqueue_activity_def
    save_and_enqueue_def outgoing_save_activity_def outgoing_enqueue_def outgoing_into_job_def
  by (intro preserves_rules outgoing_new_keeps) (auto simp: preserves_def save_activity_def enqueue_job_def prog_defs run_def
      split: if_splits)

section \<open>Follow activities\<close>

lemma process_follow_request_follows:
  assumes "process_follow_request V K actor acc cid req created s = (Ok x, t)"
    and "\<not> (created \<and> p_manually_approves_followers (managed_profile acc))" and "req \<in> set (follow_requests s)"
  shows "list_ex (is_rel (fr_source_id req) (fr_target_id req) RelFollow) (relationships t)"
proof -
  obtain u where u: "match_result (accept_and_add_follower V (client_root K) (fr_id req)) ret
        (\<lambda>e. case e of AlreadyExists _ \<Rightarrow> ret () | _ \<Rightarrow> throw e) s = (Ok (), u)"
      and rest: "bnd (prepare_accept_follow V K acc actor cid) (save_and_enqueue_activity V) u = (Ok x, t)"
    using assms(1,2) by (auto simp: process_follow_request_def seq_Ok)
  have "list_ex (is_rel (fr_source_id req) (fr_target_id req) RelFollow) (relationships u)"
  proof (cases "accept_and_add_follower V (client_root K) (fr_id req) s")
    case (Pair res v)
    show ?thesis
    proof (cases res)
      case (Ok y)
      with Pair u accept_and_add_Ok [OF _ assms(3) refl, of V "client_root K"] show ?thesis
        by (auto simp: match_result_def ret_def)
    next
      case (Err e)
      with Pair u accept_and_add_exists [OF _ assms(3) refl, of V "client_root K"] show ?thesis
        by (cases e) (auto simp: match_result_def ret_def throw_def)
    qed (use Pair u in \<open>simp add: match_result_def\<close>)
  qed
  moreover have "relationships t = relationships u"
    using preservesD [OF keeps_relationships_accept [of "relationships u"] refl rest] .
  ultimately show ?thesis
    by simp
qed

lemma upsert_follow_request_Ok:
  assumes "upsert_follow_request r s = (Ok req, t)"
  shows "req \<in> set (follow_requests t) \<and> fr_source_id req = fr_source_id r \<and> fr_target_id req = fr_target_id r
    \<and> actor_profiles t = actor_profiles s
    \<and> (list_ex (is_request (fr_source_id r) (fr_target_id r)) (follow_requests s) \<longrightarrow> fr_id req \<in> fr_id ` set (follow_requests s))"
proof (cases "list_ex (is_request (fr_source_id r) (fr_target_id r)) (follow_requests s)")
  case True
  let ?pair = "is_request (fr_source_id r) (fr_target_id r)"
  let ?rows = "update_where ?pair (\<lambda>r'. r'\<lparr>fr_activity_id := fr_activity_id r\<rparr>) (follow_requests s)"
  have t: "t = s\<lparr>follow_requests := ?rows\<rparr>" and one: "query_one (filter ?pair ?rows) = Ok req"
    using assms True by (auto simp: upsert_follow_request_def Let_def split: if_splits)
  have "filter ?pair ?rows = [req]"
    using one by (cases "filter ?pair ?rows" rule: query_one.cases) auto
  then have req: "req \<in> set ?rows" "?pair req"
    by (auto dest: filter_eq_ConsD)
  then have "fr_id req \<in> fr_id ` set (follow_requests s)"
    by (auto simp: update_where_def image_iff split: if_splits)
  with t req show ?thesis
    by (simp add: is_request_def)
next
  case False
  with assms show ?thesis
    by (auto simp: upsert_follow_request_def Let_def insert_follow_request_def split: if_splits)
qed

lemma create_remote_follow_request_opt_Ok:
  assumes "create_remote_follow_request_opt ulid a b cid s = (Ok (req, created), t)"
  shows "req \<in> set (follow_requests t) \<and> fr_source_id req = a \<and> fr_target_id req = b \<and> actor_profiles t = actor_profiles s"
    and "list_ex (is_request a b) (follow_requests s) \<Longrightarrow> ulid \<notin> fr_id ` set (follow_requests s) \<Longrightarrow> \<not> created"
proof -
  have run: "upsert_follow_request (new_follow_request s ulid a b (Some cid)) s = (Ok req, t)" and created: "created = (fr_id req = ulid)"
    using assms by (auto simp: create_remote_follow_request_opt_def ok_runs run_def)
  from upsert_follow_request_Ok [OF run] created show
    "req \<in> set (follow_requests t) \<and> fr_source_id req = a \<and> fr_target_id req = b \<and> actor_profiles t = actor_profiles s"
    "list_ex (is_request a b) (follow_requests s) \<Longrightarrow> ulid \<notin> fr_id ` set (follow_requests s) \<Longrightarrow> \<not> created"
    by (auto simp: new_follow_request_def)
qed

lemma managed_account_profile:
  assumes "get_managed_account_by_id X pid s = (Ok acc, t)"
  shows "t = s \<and> managed_profile acc \<in> set (actor_profiles s) \<and> p_id (managed_profile acc) = pid"
proof -
  obtain p u a where row: "filter (\<lambda>p. p_id p = pid) (actor_profiles s) = [p]"
      and run: "managed_account_try_from X p u a s = (Ok acc, t)"
    using assms by (auto simp: get_managed_account_by_id_def get_managed_account_where_def ok_runs map_eq_Cons_conv)
  have "t = s \<and> managed_profile acc = p"
    using run
    by (auto simp: managed_account_try_from_def ok_runs user_new_def automated_account_new_def split: option.splits if_splits)
  moreover have "p \<in> set (actor_profiles s)" "p_id p = pid"
    using row by (auto dest: filter_eq_ConsD)
  ultimately show ?thesis
    by simp
qed

lemma handle_follow_follows:
  assumes run: "handle_follow V K activity s = (Ok desc, t)"
    and actor: "id_field activity ''actor'' = Some actor" and object: "id_field activity ''object'' = Some object"
    and src: "resolve V K (only_remote default_resolver) actor s = (Ok src, s1)"
    and tgt: "resolve V K (include_automated_accounts default_resolver) object s1 = (Ok tgt, s2)"
    and loc: "profile_is_local tgt" and fresh: "ev_fresh V ''follow request'' s2 \<notin> fr_id ` set (follow_requests s2)"
    and unlocked: "list_ex (is_request (p_id src) (p_id tgt)) (follow_requests s2)
      \<or> (\<forall>p \<in> set (actor_profiles s2). p_id p = p_id tgt \<longrightarrow> \<not> p_manually_approves_followers p)"
  shows "list_ex (is_rel (p_id src) (p_id tgt) RelFollow) (relationships t)"
proof -
  obtain actor_data cid req created s3 acc u where
    req: "create_remote_follow_request_opt (ev_fresh V ''follow request'' s2) (p_id src) (p_id tgt) cid s2 = (Ok (req, created), s3)"
      and acc: "get_managed_account_by_id (ev_ext V) (p_id tgt) s3 = (Ok acc, u)"
      and proc: "process_follow_request V K actor_data acc cid req created u = (Ok (), t)"
    using run actor object src tgt loc
    by (auto simp: handle_follow_def ok_runs expect_actor_data_def handled_def split: option.splits)
  note row = create_remote_follow_request_opt_Ok [OF req]
  have acc': "u = s3" "managed_profile acc \<in> set (actor_profiles s2)" "p_id (managed_profile acc) = p_id tgt"
    using managed_account_profile [OF acc] row(1) by auto
  have "\<not> (created \<and> p_manually_approves_followers (managed_profile acc))"
    using unlocked row(2) fresh acc'(2,3) by blast
  from process_follow_request_follows [OF proc this] row(1) acc'(1) show ?thesis
    by simp
qed

end
