(* ===== verification/AuthResults.thy ===== *)
theory AuthResults
  imports Authentication ProfileProperties FetchResults
begin

text \<open>
  Results about authentication: what a verified request shows, and that the receiver puts an activity into the
  queue only after a signature has been verified.
\<close>

section \<open>Jobs that finding a signer leaves alone\<close>

definition incoming_jobs :: "database \<Rightarrow> background_job list" where
  "incoming_jobs s = filter (\<lambda>j. bj_job_type j = IncomingActivity) (background_jobs s)"

definition same_incoming :: "background_job list \<Rightarrow> datetime \<Rightarrow> database \<Rightarrow> bool" where
  "same_incoming J T s \<longleftrightarrow> incoming_jobs s = J \<and> current_timestamp s = T"

named_theorems keeps_incoming \<open>programs that leave the incoming jobs and the clock alone\<close>

lemma same_incoming_update [simp]:
  "same_incoming J T (s\<lparr>seqs := q\<rparr>) = same_incoming J T s"
  "same_incoming J T (s\<lparr>actor_profiles := ps\<rparr>) = same_incoming J T s"
  "same_incoming J T (s\<lparr>profile_emojis := pe\<rparr>) = same_incoming J T s"
  "same_incoming J T (s\<lparr>instances := hs\<rparr>) = same_incoming J T s"
  "same_incoming J T (s\<lparr>emojis := es\<rparr>) = same_incoming J T s"
  "same_incoming J T (s\<lparr>activitypub_objects := os\<rparr>) = same_incoming J T s"
  by (simp_all add: same_incoming_def incoming_jobs_def)

lemma same_incoming_transaction [keeps_incoming]:
  "preserves (same_incoming J T) m \<Longrightarrow> preserves (same_incoming J T) (transaction m)"
  by (rule preserves_transaction) simp_all

lemma preserves_in_db [keeps_incoming]: "preserves I m \<Longrightarrow> preserves I (in_db m)"
  by (simp add: in_db_def preserves_map_err_p)

lemma preserves_reading [keeps_incoming]:
  "preserves I (validate r)" "preserves I (deserialized x)" "preserves I (canonical_id V i)"
  "preserves I (expect_actor_data p)" "preserves I (profile_try_from X p)"
  "preserves I (get_remote_profile_by_actor_id X i)" "preserves I (get_remote_emoji_by_object_id i)" "preserves I (expected_domain V data)"
  by (auto simp: validate_def deserialized_def canonical_id_def expect_actor_data_def profile_try_from_def
      get_remote_profile_by_actor_id_def get_remote_emoji_by_object_id_def expected_domain_def intro!: preserves_rules split: option.split outcome.split)

lemma preserves_found_or [keeps_incoming]:
  "preserves I q \<Longrightarrow> (\<And>a. preserves I (f a)) \<Longrightarrow> preserves I g \<Longrightarrow> preserves I (found_or q f g)"
  by (auto simp: found_or_def intro!: preserves_rules split: database_error.split)

lemma same_incoming_statements [keeps_incoming]:
  "preserves (same_incoming J T) (put_profiles f)" "preserves (same_incoming J T) (put_emojis es)"
  "preserves (same_incoming J T) (create_instance h)" "preserves (same_incoming J T) (update_emoji_caches eid)"
  "preserves (same_incoming J T) (save_actor aid v pid)"
  by (simp_all add: preserves_def put_profiles_def put_emojis_def create_instance_def update_emoji_caches_def save_actor_def
      modify_def run_def map_err_p_def)

lemma same_incoming_profiles [keeps_incoming]:
  "preserves (same_incoming J T) (create_profile X pid d)" "preserves (same_incoming J T) (update_profile X pid d')"
  unfolding create_profile_def update_profile_def register_hostname_def release_acct_def prevent_acct_conflict_def
    insert_profile_def create_profile_emojis_def update_emoji_cache_def change_profile_def
  by (auto intro!: preserves_rules keeps_incoming split: option.split webfinger_hostname.split)

lemma same_incoming_emojis [keeps_incoming]:
  "preserves (same_incoming J T) (create_or_update_remote_emoji eid name h img oid t)"
  "preserves (same_incoming J T) (update_remote_emoji eid img t)"
  unfolding create_or_update_remote_emoji_def update_remote_emoji_def upsert_emoji_def
  by (auto intro!: preserves_rules keeps_incoming)

lemma same_incoming_deletion [keeps_incoming]: "preserves (same_incoming J T) (enqueue_deletion V q)"
proof -
  have "preserves (same_incoming J T) (enqueue_job jid MediaCleanup v now)" for jid v now
    unfolding enqueue_job_def
    by (intro preserves_rules) (simp add: preserves_def same_incoming_def incoming_jobs_def)
  then show ?thesis
    unfolding enqueue_deletion_def deletion_queue_into_job_def by (auto intro!: preserves_rules keeps_incoming)
qed

lemma same_incoming_media [keeps_incoming]: "preserves I (store_media V proxied data ty url)"
  by (auto simp: store_media_def intro!: preserves_rules)

lemma same_incoming_handle_emoji [keeps_incoming]: "preserves (same_incoming J T) (handle_emoji V K domain v)"
  unfolding handle_emoji_def save_emoji_def Let_def
  by (auto intro!: preserves_rules keeps_incoming split: option.split outcome.split prod.split)

lemma preserves_case_outcome [keeps_incoming]:
  "(\<And>a. preserves I (f a)) \<Longrightarrow> (\<And>e. preserves I (g e)) \<Longrightarrow> (\<And>m. preserves I (h m))
   \<Longrightarrow> preserves I (case r of Ok a \<Rightarrow> f a | Err e \<Rightarrow> g e | Panic m \<Rightarrow> h m)"
  by (cases r) simp_all

lemma preserves_accounts [keeps_incoming]:
  "preserves I (get_user_by_id X uid)" "preserves I (get_user_by_name X name)"
  "preserves I (get_managed_account_by_id X uid)" "preserves I (get_managed_account_by_username X name)"
  by (auto simp: get_user_by_id_def get_user_by_name_def get_user_where_def get_managed_account_by_id_def
      get_managed_account_by_username_def get_managed_account_where_def managed_account_try_from_def
      intro!: preserves_rules split: option.split prod.split)

lemma preserves_queries [keeps_incoming]:
  "preserves I (get_managed_account_by_actor_id V a i)" "preserves I (get_user_by_actor_id V a i)" "preserves I (fetch_value V K i)"
  by (auto simp: get_managed_account_by_actor_id_def get_user_by_actor_id_def fetch_value_def
      intro!: preserves_rules keeps_incoming split: uuid_or_username.split)

lemma same_incoming_actor [keeps_incoming]:
  "preserves (same_incoming J T) (create_remote_profile V K act)" "preserves (same_incoming J T) (update_remote_profile V K p act)"
  unfolding create_remote_profile_def update_remote_profile_def parse_actor_tags_def save_actor_object_def fetch_actor_image_def Let_def
  by (auto intro!: preserves_rules keeps_incoming split: option.split outcome.split prod.split)

lemma same_incoming_resolve [keeps_incoming]: "preserves (same_incoming J T) (resolve V K r aid)"
  unfolding resolve_def refresh_remote_profile_def import_actor_def Let_def
  by (auto intro!: preserves_rules keeps_incoming)

lemma same_incoming_signer [keeps_incoming]: "preserves (same_incoming J T) (get_signer V K i no_fetch)"
  unfolding get_signer_def find_signer_def require_remote_def auth_validate_def
  by (auto intro!: preserves_rules keeps_incoming split: handler_error.split database_error.split)

lemma same_incoming_request [keeps_incoming]:
  "preserves (same_incoming J T) (verify_signed_request V K meth uri headers digest no_fetch)"
  unfolding verify_signed_request_def by (auto intro!: preserves_rules keeps_incoming)

lemma same_incoming_object [keeps_incoming]:
  "preserves (same_incoming J T) (verify_signed_object V K v ty no_fetch)"
  unfolding verify_signed_object_def verify_object_proof_def remote_actor_id_def auth_validate_def
  by (auto intro!: preserves_rules keeps_incoming split: option.split outcome.split portable_error.split verification_method.split)

section \<open>The signer is a stored profile\<close>

lemma filter_query_row:
  "filter P xs = [x] \<Longrightarrow> x \<in> set xs" "filter P xs = [x] \<Longrightarrow> P x"
  using filter_one by metis+

lemma created_profile_row:
  assumes "create_profile X pid d s = (Ok p, t)"
  shows "p \<in> set (actor_profiles t)"
  using assms
proof (rule create_profile_effect)
  fix hs es
  assume t: "t = s\<lparr>instances := hs, actor_profiles := released pid (prd_username d) (prd_webfinger_hostname d) (actor_profiles s) @ [p],
       profile_emojis := profile_emojis s @ links pid es\<rparr>"
  show ?thesis by (subst t) simp
qed

lemma released_ids: "p_id ` set (released pid name h ps) = p_id ` set ps"
  by (auto simp: released_def update_where_def image_Un image_image)

lemma updated_profile_row:
  assumes "update_profile X pid d s = (Ok (p, dq), t)"
  shows "p \<in> set (actor_profiles t)"
  using assms
proof (rule update_profile_effect)
  fix old hs
  let ?rel = "released pid (prd_username d) (prd_webfinger_hostname d) (actor_profiles s)"
  assume old: "filter (\<lambda>p. p_id p = pid) (actor_profiles s) = [old]"
    and t: "t = s\<lparr>instances := hs, profile_emojis := profile_emojis t, actor_profiles := update_where (\<lambda>q. p_id q = pid) (\<lambda>_. p) ?rel\<rparr>"
  have "pid \<in> p_id ` set ?rel"
    unfolding released_ids using filter_query_row [OF old] by auto
  then obtain q where "q \<in> set ?rel" "p_id q = pid" by auto
  then have "p \<in> set (update_where (\<lambda>q. p_id q = pid) (\<lambda>_. p) ?rel)"
    by (force simp: update_where_def)
  then show ?thesis by (subst t) simp
qed

lemma remote_profile_row:
  "get_remote_profile_by_actor_id X i s = (Ok p, t) \<Longrightarrow> p \<in> set (actor_profiles t) \<and> map_option da_id (p_actor_json p) = Some i"
  by (auto simp: get_remote_profile_by_actor_id_def profile_try_from_def ok_runs bnd_Ok seq_Ok select_or_not_found_Ok type_check_Ok ret_Ok
      dest: filter_query_row)

lemma saved_actor_profiles:
  "save_actor_object V p v s = (Ok u, t) \<Longrightarrow> actor_profiles t = actor_profiles s"
  "enqueue_deletion V q s = (Ok u, t) \<Longrightarrow> actor_profiles t = actor_profiles s"
  by (auto simp: save_actor_object_def save_actor_def enqueue_deletion_def deletion_queue_into_job_def enqueue_job_def
      expect_actor_data_Ok ok_runs run_Ok split: if_splits)

lemma created_remote_row:
  assumes "create_remote_profile V K act s = (Ok p, t)"
  shows "p \<in> set (actor_profiles t)"
proof -
  from assms obtain pid d u v where "create_profile (ev_ext V) pid d u = (Ok p, v)" "save_actor_object V p (act_value act) v = (Ok (), t)"
    unfolding create_remote_profile_def Let_def
    by (auto simp: ok_runs split: prod.splits if_splits)
  then show ?thesis
    using created_profile_row saved_actor_profiles(1) by metis
qed

lemma updated_remote_row:
  assumes "update_remote_profile V K q act s = (Ok p, t)"
  shows "p \<in> set (actor_profiles t)"
proof -
  from assms obtain d dq u v w where "update_profile (ev_ext V) (p_id q) d u = (Ok (p, dq), v)" "enqueue_deletion V dq v = (Ok (), w)"
      "save_actor_object V p (act_value act) w = (Ok (), t)"
    unfolding update_remote_profile_def Let_def
    by (auto simp: ok_runs split: prod.splits if_splits)
  then show ?thesis
    using updated_profile_row saved_actor_profiles by metis
qed

lemma case_outcome_Ok:
  "case_outcome f g h r s = (Ok b, t) \<longleftrightarrow> (\<exists>a. r = Ok a \<and> f a s = (Ok b, t)) \<or> (\<exists>e. r = Err e \<and> g e s = (Ok b, t))
     \<or> (\<exists>m. r = Panic m \<and> h m s = (Ok b, t))"
  by (cases r) simp_all

lemma refreshed_row:
  assumes "refresh_remote_profile V K q force s = (Ok p, t)" and "q \<in> set (actor_profiles s)"
  shows "p \<in> set (actor_profiles t)"
  using assms
  by (auto simp: refresh_remote_profile_def ok_runs expect_actor_data_Ok case_outcome_Ok split: if_splits prod.splits
      dest: updated_remote_row)

lemma resolved_remote_row:
  assumes "resolve V K (only_remote default_resolver) i s = (Ok p, t)"
  shows "p \<in> set (actor_profiles t)"
  using assms
  by (auto simp: resolve_def import_actor_def ok_runs Let_def only_remote_def default_resolver_def split: if_splits
    dest: remote_profile_row refreshed_row created_remote_row updated_remote_row)

lemma get_signer_row:
  assumes "get_signer V K i no_fetch s = (Ok p, t)"
  shows "p \<in> set (actor_profiles t) \<and> \<not> profile_is_local p"
proof -
  have "find_signer V K i no_fetch s = (Ok p, t)" and "\<not> profile_is_local p"
    using assms by (auto simp: get_signer_def require_remote_def ok_runs split: if_splits)
  then show ?thesis
    by (auto simp: find_signer_def match_result_def auth_validate_def prog_defs split: if_splits outcome.splits prod.splits
        handler_error.splits database_error.splits dest: remote_profile_row resolved_remote_row)
qed

section \<open>The receiver\<close>

text \<open>The request carries a signature for this server that has not expired, covers the body, and verifies under the key
  that the owner of the key lists under its identifier. The owner is looked up in \<open>s\<close>, by the actor identifier that
  belongs to the key identifier, and is a remote profile stored in \<open>t\<close>.\<close>

definition signed_request ::
  "ap_env \<Rightarrow> ap_client \<Rightarrow> received_request \<Rightarrow> bool \<Rightarrow> database \<Rightarrow> actor_profile \<Rightarrow> database \<Rightarrow> bool" where
  "signed_request V K req no_fetch s signer t \<longleftrightarrow>
     (\<exists>d signer_id key. parse_http_signature (sc_http (fe_signing (ev_fetch V))) (uris V) (rr_method req) (rr_uri req) (rr_headers req) = Ok d
       \<and> hs_authority d = hu_authority (ac_instance_uri K)
       \<and> signer_id_of (uris V) (hs_key_id d) = Ok signer_id \<and> get_signer V K signer_id no_fetch s = (Ok signer, t)
       \<and> signer \<in> set (actor_profiles t) \<and> \<not> profile_is_local signer
       \<and> get_signer_key V signer (verification_method_to_string (uris V) (hs_key_id d)) = Ok key
       \<and> current_timestamp s \<le> hs_expires_at d \<and> hs_content_digest d = Some (rr_digest req)
       \<and> key_verifies (cryptography V) key (hs_base d) (hs_signature d))"

lemma verify_signed_request_Ok:
  assumes "verify_signed_request V K (rr_method req) (rr_uri req) (rr_headers req) (Some (rr_digest req)) no_fetch s = (Ok (kid, p), t)"
  shows "signed_request V K req no_fetch s p t"
proof -
  obtain d sid key where d: "parse_http_signature (sc_http (fe_signing (ev_fetch V))) (uris V) (rr_method req) (rr_uri req) (rr_headers req) = Ok d"
      "hs_authority d = hu_authority (ac_instance_uri K)" "signer_id_of (uris V) (hs_key_id d) = Ok sid"
      and signer: "get_signer V K sid no_fetch s = (Ok p, t)"
      and key: "get_signer_key V p (verification_method_to_string (uris V) (hs_key_id d)) = Ok key"
        "verify_http_signature (cryptography V) (current_timestamp t) d key (Some (rr_digest req)) = Ok ()"
    using assms by (auto simp: verify_signed_request_def ok_runs split: if_splits)
  have "current_timestamp t = current_timestamp s"
    using preservesD [OF same_incoming_signer [of "incoming_jobs s" "current_timestamp s"] _ signer]
    by (simp add: same_incoming_def)
  with d key signer get_signer_row [OF signer] show ?thesis
    by (auto simp: signed_request_def verify_http_signature_def split: if_splits)
qed

text \<open>The activity itself is signed: a portable activity by the key in its identifier, and the signer is its owner; any
  other by an Ed25519 key of the signer, who is the owner. The signer is looked up in \<open>s\<close> and stored in \<open>t\<close>.\<close>

definition signed_activity :: "ap_env \<Rightarrow> ap_client \<Rightarrow> json \<Rightarrow> bool \<Rightarrow> database \<Rightarrow> actor_profile \<Rightarrow> database \<Rightarrow> bool" where
  "signed_activity V K activity no_fetch s signer t \<longleftrightarrow>
     (\<exists>owner. get_owner activity CtActivity = Ok owner \<and> signer \<in> set (actor_profiles t) \<and> \<not> profile_is_local signer
       \<and> (is_ok (verify_portable_object (cryptography V) (uris V) activity) \<and> get_signer V K owner no_fetch s = (Ok signer, t)
         \<or> (\<exists>d w signer_id key. get_json_signature (cryptography V) (uris V) activity = Ok d
              \<and> js_verification_method d = VmHttp w \<and> key_id_to_actor_id (uris V) (http_uri_to_string w) = Ok signer_id
              \<and> get_signer V K signer_id no_fetch s = (Ok signer, t)
              \<and> get_signer_ed25519_key V signer (http_uri_to_string w) = Ok key
              \<and> verify_eddsa_json_signature (cryptography V) key (js_object d) (js_proof_config d) (js_signature d) = Ok ()
              \<and> map_option da_id (p_actor_json signer) = Some owner)))"

lemma verify_signed_object_Ok:
  assumes "verify_signed_object V K activity CtActivity no_fetch s = (Ok p, t)"
  shows "signed_activity V K activity no_fetch s p t"
proof (cases "verify_portable_object (cryptography V) (uris V) activity")
  case (Ok x)
  with assms obtain owner where "get_owner activity CtActivity = Ok owner" "get_signer V K owner no_fetch s = (Ok p, t)"
    by (auto simp: verify_signed_object_def ok_runs)
  with Ok get_signer_row show ?thesis by (auto simp: signed_activity_def)
next
  case (Err e)
  with assms have "verify_object_proof V K activity CtActivity no_fetch s = (Ok p, t)"
    by (cases e) (auto simp: verify_signed_object_def ok_runs)
  then obtain d w sid key owner where "get_json_signature (cryptography V) (uris V) activity = Ok d"
      "js_verification_method d = VmHttp w" "key_id_to_actor_id (uris V) (http_uri_to_string w) = Ok sid"
      "get_signer V K sid no_fetch s = (Ok p, t)" "get_signer_ed25519_key V p (http_uri_to_string w) = Ok key"
      "verify_eddsa_json_signature (cryptography V) key (js_object d) (js_proof_config d) (js_signature d) = Ok ()"
      "get_owner activity CtActivity = Ok owner" "map_option da_id (p_actor_json p) = Some owner"
    by (auto simp: verify_object_proof_def remote_actor_id_def ok_runs split: if_splits verification_method.splits option.splits)
  with get_signer_row show ?thesis unfolding signed_activity_def by blast
qed (use assms in \<open>simp add: verify_signed_object_def ok_runs\<close>)

text \<open>What the receiver adds to the queue.\<close>

definition received_job :: "json \<Rightarrow> string \<Rightarrow> string \<Rightarrow> string \<Rightarrow> background_job \<Rightarrow> bool" where
  "received_job activity recipient_id aid signer_id job \<longleftrightarrow> bj_job_type job = IncomingActivity
     \<and> bj_job_data job = incoming_to_value (incoming_job_data_new activity (Some (recipient_id, signer_id)) (aid = signer_id))"

lemma enqueue_authenticated_jobs:
  assumes "enqueue_authenticated V K activity rid aid self_delete signer s = (r, t)"
  shows "incoming_jobs t = incoming_jobs s
    \<or> (\<exists>data job. p_actor_json signer = Some data \<and> incoming_jobs t = incoming_jobs s @ [job]
         \<and> received_job activity rid aid (da_id data) job)"
proof (cases "p_actor_json signer")
  case (Some data)
  then have "ep_actor_data signer s = (Ok data, s)"
    by (simp add: ep_actor_data_def expect_actor_data_def prog_defs)
  with Some assms show ?thesis
    by (cases "get_moderation_domain (uris V) data")
      (auto simp: enqueue_authenticated_def prog_defs incoming_into_job_def enqueue_job_def run_def incoming_jobs_def
        received_job_def split: if_splits)
qed (use assms in \<open>auto simp: enqueue_authenticated_def ep_actor_data_def expect_actor_data_def prog_defs\<close>)

text \<open>The signer of the request, or of the activity itself when the activity is signed.\<close>

definition accepted_signer ::
  "ap_env \<Rightarrow> ap_client \<Rightarrow> received_request \<Rightarrow> json \<Rightarrow> bool \<Rightarrow> database \<Rightarrow> actor_profile \<Rightarrow> bool" where
  "accepted_signer V K req activity no_fetch s signer \<longleftrightarrow>
     (\<exists>request_signer u v. signed_request V K req no_fetch s request_signer u
       \<and> (signer = request_signer \<and> verify_signed_object V K activity CtActivity no_fetch u = (Err AuNoJsonSignature, v)
          \<or> signed_activity V K activity no_fetch u signer v))"

definition only_signed ::
  "ap_env \<Rightarrow> ap_client \<Rightarrow> received_request \<Rightarrow> json \<Rightarrow> string \<Rightarrow> string \<Rightarrow> bool \<Rightarrow> database \<Rightarrow> database \<Rightarrow> bool" where
  "only_signed V K req activity rid aid no_fetch s t \<longleftrightarrow>
     (\<exists>signer data job. accepted_signer V K req activity no_fetch s signer \<and> p_actor_json signer = Some data
        \<and> incoming_jobs t = incoming_jobs s @ [job] \<and> received_job activity rid aid (da_id data) job)"

lemma activity_signer_Ok:
  assumes "activity_signer V K activity sd p s = (Ok signer, t)"
  shows "signer = p \<and> verify_signed_object V K activity CtActivity sd s = (Err AuNoJsonSignature, t)
    \<or> verify_signed_object V K activity CtActivity sd s = (Ok signer, t)"
  using assms
  by (auto simp: activity_signer_def match_result_def prog_defs split: prod.splits outcome.splits auth_error.splits)

lemma same_incoming_activity_signer: "preserves (same_incoming J T) (activity_signer V K activity sd p)"
  unfolding activity_signer_def by (auto intro!: preserves_rules keeps_incoming split: auth_error.split)

lemma verified_part:
  assumes "match_result (verify_signed_request V K (rr_method req) (rr_uri req) (rr_headers req) (Some (rr_digest req)) sd)
      (\<lambda>(_, request_signer). bnd (activity_signer V K activity sd request_signer)
        (enqueue_authenticated V K activity rid aid sd))
      (\<lambda>e. if B e then ret () else throw (endpoint_error_of e)) s = (r, t)"
  shows "incoming_jobs t = incoming_jobs s \<or> only_signed V K req activity rid aid sd s t"
proof -
  let ?I = "same_incoming (incoming_jobs s) (current_timestamp s)"
  obtain x u where vr: "verify_signed_request V K (rr_method req) (rr_uri req) (rr_headers req) (Some (rr_digest req)) sd s = (x, u)"
    by fastforce
  then have u: "?I u"
    by (rule preservesD [OF same_incoming_request, rotated]) (simp add: same_incoming_def)
  show ?thesis
  proof (cases x)
    case (Ok y)
    then obtain kid p where p: "x = Ok (kid, p)" by (cases y) simp
    obtain z v where sg: "activity_signer V K activity sd p u = (z, v)" by fastforce
    then have v: "?I v"
      by (rule preservesD [OF same_incoming_activity_signer u])
    show ?thesis
    proof (cases z)
      case (Ok signer)
      have "accepted_signer V K req activity sd s signer"
        using verify_signed_request_Ok [OF vr [unfolded p]] activity_signer_Ok [OF sg [unfolded Ok]] verify_signed_object_Ok
        unfolding accepted_signer_def by blast
      moreover have "enqueue_authenticated V K activity rid aid sd signer v = (r, t)"
        using assms vr p sg Ok by (simp add: match_result_def bnd_def)
      ultimately show ?thesis
        using enqueue_authenticated_jobs [of V K activity rid aid sd signer v r t] v
        by (auto simp: only_signed_def same_incoming_def)
    qed (use assms vr p sg v in \<open>auto simp: match_result_def bnd_def only_signed_def same_incoming_def\<close>)
  qed (use assms vr u in \<open>auto simp: match_result_def prog_defs only_signed_def same_incoming_def split: if_splits\<close>)
qed

lemma bnd_validate_cases:
  "bnd (ep_validate x) f s = (r, t) \<Longrightarrow> (\<And>a. x = Ok a \<Longrightarrow> f a s = (r, t) \<Longrightarrow> P) \<Longrightarrow> (t = s \<Longrightarrow> P) \<Longrightarrow> P"
  by (cases x) (auto simp: ep_validate_def prog_defs)

lemma receive_activity_signed:
  assumes "receive_activity V K req activity rid s = (r, t)" and "incoming_jobs t \<noteq> incoming_jobs s"
  shows "\<exists>actor c ty self_delete. object_to_id (json_index activity ''actor'') = Ok actor \<and> canonicalize_id (uris V) actor = Ok c
    \<and> string_property activity ''type'' = Some ty \<and> is_self_delete activity ty actor = Ok self_delete
    \<and> only_signed V K req activity rid (canonical_to_string (uris V) c) self_delete s t"
proof -
  have "t \<noteq> s" using assms(2) by blast
  with assms(1) obtain activity_id ty actor c sd where
    actor: "object_to_id (json_index activity ''actor'') = Ok actor" "canonicalize_id (uris V) actor = Ok c"
      "string_property activity ''type'' = Some ty" "is_self_delete activity ty actor = Ok sd"
    and run: "match_result (verify_signed_request V K (rr_method req) (rr_uri req) (rr_headers req) (Some (rr_digest req)) sd)
      (\<lambda>(_, request_signer). bnd (activity_signer V K activity sd request_signer)
        (enqueue_authenticated V K activity rid (canonical_to_string (uris V) c) sd))
      (\<lambda>e. if sd \<and> (case e of AuNoHttpSignature \<Rightarrow> True | AuActorNotFound _ \<Rightarrow> True | _ \<Rightarrow> False) then ret ()
            else throw (endpoint_error_of e)) s = (r, t)"
    unfolding receive_activity_def
    by (elim bnd_validate_cases) (auto simp: ret_def map_err_Ok ok_or_Ok split: if_splits elim!: bnd_validate_cases)
  from verified_part [where B = "\<lambda>e. sd \<and> (case e of AuNoHttpSignature \<Rightarrow> True | AuActorNotFound _ \<Rightarrow> True | _ \<Rightarrow> False)", OF run]
    actor assms(2) show ?thesis
    by blast
qed

end
