(* ===== verification/ApSamples.thy ===== *)
theory ApSamples
  imports Samples FetchResults HandlerResults AuthResults
begin

text \<open>
  Concrete instances behind the federation layer: cryptography that verifies what it signed, a network on which
  no other server answers, two remote actors, and activities they send.
\<close>

section \<open>Packages\<close>

text \<open>Dates as a sign and binary digits, the lowest first.\<close>

fun show_bits :: "int \<Rightarrow> string" where
  "show_bits n = (if n \<le> 0 then [] else (if n mod 2 = 1 then CHR ''1'' else CHR ''0'') # show_bits (n div 2))"

fun read_bits :: "string \<Rightarrow> int" where
  "read_bits [] = 0"
| "read_bits (c # cs) = (if c = CHR ''1'' then 1 else 0) + 2 * read_bits cs"

declare show_bits.simps [simp del]

definition show_date :: "datetime \<Rightarrow> string" where
  "show_date t = (if t < 0 then ''-'' else ''+'') @ show_bits \<bar>t\<bar>"

definition read_date :: "string \<Rightarrow> datetime option" where
  "read_date x = Some (if take 1 x = ''-'' then - read_bits (drop 1 x) else read_bits (drop 1 x))"

definition sample_crypto :: crypto where
  "sample_crypto = \<lparr>eddsa_sign = (\<lambda>sk m. sk @ m), eddsa_verify = (\<lambda>pk m sg. sg = pk @ m), eddsa_public = (\<lambda>sk. sk),
     rsa_sign = (\<lambda>sk m. Some (sk @ m)), rsa_verify = (\<lambda>pk m sg. sg = pk @ m), rsa_public = (\<lambda>sk. sk),
     rsa_public_parses = (\<lambda>_. True), rsa_public_from_pem = Some, ed25519_public_from_pem = Some,
     eip191_verify = (\<lambda>_ _ _. False), minisign_verify = (\<lambda>_ _ _. False), sha256 = (\<lambda>m. m), sha512 = (\<lambda>m. m),
     to_jcs = (\<lambda>v. case v of JObject kvs \<Rightarrow> Some (concat (map fst kvs)) | _ \<Rightarrow> Some ''''),
     show_rfc3339 = show_date, read_rfc3339 = read_date\<rparr>"

text \<open>Signatures in headers: line breaks are written as semicolons.\<close>

definition sample_http :: http_library where
  "sample_http = \<lparr>b64_encode = map (\<lambda>c. if c = CHR 0x0A then CHR '';'' else c),
     b64_decode = (\<lambda>x. Some (map (\<lambda>c. if c = CHR '';'' then CHR 0x0A else c) x)), sfv_parse_dictionary = (\<lambda>_. None),
     sfv_list_to_string = (\<lambda>_. None), sfv_dictionary_to_string = (\<lambda>_. None),
     read_rfc2822 = read_date, show_http_date = show_date\<rparr>"

definition sample_net :: net_library where
  "sample_net = \<lparr>url_host = sample_hostname, url_ip_address = (\<lambda>_. None), url_fragment = (\<lambda>_. None), url_join = (\<lambda>_ l. Some l),
     url_set_fragment = (\<lambda>u _. u), proxy_parses = (\<lambda>_. True), client_builds = (\<lambda>_. True), json_from_slice = (\<lambda>_. None),
     json_to_text = (\<lambda>_. None), sniff_media_type = (\<lambda>_. None)\<rparr>"

definition sample_fetching :: fetch_env where
  "sample_fetching = \<lparr>fe_uris = sample_uris, fe_net = sample_net, fe_servers = (\<lambda>_ _. None),
     fe_signing = \<lparr>sc_crypto = sample_crypto, sc_http = sample_http, sc_now = seconds 1000000\<rparr>\<rparr>"

definition sample_env :: ap_env where
  "sample_env = \<lparr>ev_ext = sample_externals, ev_fetch = sample_fetching, ev_wildmatch = sample_wildmatch, ev_uuids = sample_uuids,
     ev_text = sample_text, ev_save_file = (\<lambda>_ _. None), ev_fresh = (\<lambda>_ s. 5 + length (background_jobs s)),
     ev_lowercase = (\<lambda>x. x), ev_language = (\<lambda>_. None), ev_language_code = (\<lambda>_. None)\<rparr>"

definition sample_agent :: federation_agent where
  "sample_agent = \<lparr>fa_user_agent = None, fa_ssrf_protection_enabled = True, fa_response_size_limit = 1000, fa_fetcher_timeout = 60,
     fa_deliverer_timeout = 30, fa_proxy_url = None, fa_onion_proxy_url = None, fa_i2p_proxy_url = None, fa_no_proxy = [],
     fa_signer = None, fa_rfc9421_enabled = False\<rparr>"

definition sample_client :: ap_client where
  "sample_client = \<lparr>ac_instance_uri = sample_server, ac_webfinger_hostname = ''a.example'', ac_agent = sample_agent,
     ac_filter = sample_filter, ac_recursion_limit = 10, ac_fep_1b12_full_enabled = False, ac_fep_171b_public_enabled = False,
     ac_attachment_limit = 4, ac_file_size_limit = 1000, ac_emoji_size_limit = 1000, ac_profile_image_size_limit = 1000,
     ac_media_types = []\<rparr>"

section \<open>Remote actors\<close>

definition remote_actor :: "string \<Rightarrow> db_actor" where
  "remote_actor i = \<lparr>da_object_type = ''Person'', da_id = i, da_inbox = i @ ''/inbox'', da_shared_inbox = None, da_outbox = i @ ''/outbox'',
     da_followers = Some (i @ ''/followers''), da_subscribers = Some (i @ ''/subscribers''), da_featured = Some (i @ ''/featured''),
     da_url = None, da_gateways = [], da_public_key = None\<rparr>"

definition carol_id :: string where
  "carol_id = ''https://b.example/users/carol''"

definition dave_id :: string where
  "dave_id = ''https://c.example/users/dave''"

definition bob_id :: string where
  "bob_id = ''https://a.example/users/bob''"

definition remote_profile :: "uuid \<Rightarrow> string \<Rightarrow> string \<Rightarrow> string \<Rightarrow> actor_profile" where
  "remote_profile n name host aid = (sample_profile n name)\<lparr>p_user_id := None, p_hostname := Some host,
     p_webfinger_hostname := Some host, p_payment_options := [], p_actor_json := Some (remote_actor aid),
     p_updated_at := seconds 1000000\<rparr>"

definition carol :: actor_profile where
  "carol = remote_profile 3 ''carol'' ''b.example'' carol_id"

definition dave :: actor_profile where
  "dave = remote_profile 4 ''dave'' ''c.example'' dave_id"

text \<open>Bob is a local user who approves followers himself; a request of carol is waiting.\<close>

definition bob :: actor_profile where
  "bob = (sample_profile 2 ''bob'')\<lparr>p_manually_approves_followers := True\<rparr>"

definition follow_request_id :: string where
  "follow_request_id = ''https://b.example/activities/Follow''"

definition pending_request :: follow_request where
  "pending_request = \<lparr>fr_id = 8, fr_source_id = 3, fr_target_id = 2, fr_activity_id = Some follow_request_id,
     fr_status = FrPending, fr_has_deprecated_ap_id = False, fr_created_at = 0\<rparr>"

definition carol_post_id :: string where
  "carol_post_id = ''https://b.example/posts/1''"

definition reply_id :: string where
  "reply_id = ''https://b.example/posts/2''"

definition carol_post :: post where
  "carol_post = sample_post\<lparr>po_id := 53, po_author_id := 3, po_conversation_id := Some 63, po_object_id := Some carol_post_id\<rparr>"

definition carol_conversation :: conversation where
  "carol_conversation = sample_conversation\<lparr>cv_id := 63, cv_root_id := 53, cv_is_managed := False\<rparr>"

text \<open>An invoice that alice owes to carol.\<close>

definition agreement_id :: string where
  "agreement_id = ''https://b.example/agreements/1''"

definition remote_invoice :: invoice where
  "remote_invoice = (sample_invoice 110 Open None None)\<lparr>inv_recipient_id := 3, inv_payment_type := None,
     inv_object_id := Some agreement_id\<rparr>"

definition federated_db :: database where
  "federated_db = sample_db\<lparr>actor_profiles := [sample_profile 1 ''alice'', bob, carol, dave],
     posts := [sample_post, carol_post], conversations := [sample_conversation, carol_conversation],
     follow_requests := [pending_request], invoices := [remote_invoice]\<rparr>"

definition bob_account :: managed_account where
  "bob_account = (case fst (get_managed_account_by_username sample_externals ''bob'' federated_db) of Ok a \<Rightarrow> a | _ \<Rightarrow> undefined)"

definition carol_detailed :: post_detailed where
  "carol_detailed = (case fst (get_remote_post_by_object_id sample_externals carol_post_id federated_db) of
      Ok d \<Rightarrow> d | _ \<Rightarrow> undefined)"

section \<open>Identifiers and rows\<close>

definition plain_id :: "string \<Rightarrow> bool" where
  "plain_id i \<longleftrightarrow> (case canonicalize_id sample_uris i of Ok c \<Rightarrow> canonical_to_string sample_uris c = i | _ \<Rightarrow> False)"

definition local_id :: "string \<Rightarrow> bool" where
  "local_id i \<longleftrightarrow> (case canonicalize_id sample_uris i of
      Ok c \<Rightarrow> canonical_origin sample_uris c = http_origin sample_server | _ \<Rightarrow> False)"

section \<open>A repeated Follow\<close>

definition repeated_follow :: json where
  "repeated_follow = JObject [(''id'', JString follow_request_id), (''type'', JString ''Follow''), (''actor'', JString carol_id),
     (''object'', JString bob_id)]"

definition accepted_db :: database where
  "accepted_db = snd (accept_and_add_follower sample_env (client_root sample_client) 8 federated_db)"

definition accept_job :: outgoing_activity_job_data where
  "accept_job = (case fst (prepare_accept_follow sample_env sample_client bob_account (remote_actor carol_id) follow_request_id sample_db) of
      Ok d \<Rightarrow> d | _ \<Rightarrow> undefined)"

section \<open>A signed document\<close>

definition sample_key_id :: string where
  "sample_key_id = ''https://a.example/users/alice#ed25519-key''"

definition sample_entries :: "(string \<times> json) list" where
  "sample_entries = [(''content'', JString ''hello''), (''id'', JString ''https://a.example/posts/1''), (''type'', JString ''Note'')]"

definition sample_signed :: json where
  "sample_signed = (case sign_object sample_crypto (codecs_of sample_uris) ''key'' sample_key_id (JObject sample_entries) 0 of
      Ok v \<Rightarrow> v | _ \<Rightarrow> JNull)"

section \<open>A signed request\<close>

text \<open>Carol has published a key, and sends her request to bob with a signature of the target, the host and the digest.\<close>

definition keyed_carol :: actor_profile where
  "keyed_carol = carol\<lparr>p_public_keys := [\<lparr>dk_id = carol_id @ ''#main-key'', dk_key_type = RsaPkcs1, dk_key_data = ''key''\<rparr>]\<rparr>"

definition keyed_db :: database where
  "keyed_db = federated_db\<lparr>actor_profiles := [sample_profile 1 ''alice'', bob, keyed_carol, dave]\<rparr>"

definition signature_header :: string where
  "signature_header = concat [''keyId=\"'', carol_id, ''#main-key\",headers=\"(request-target) host digest\",signature=\"'',
     ''key(request-target): post /inbox;host: a.example;digest: SHA-256=body\"'']"

definition follow_http :: received_request where
  "follow_http = \<lparr>rr_method = ''POST'', rr_uri = \<lparr>ru_path = ''/inbox'', ru_query = None, ru_authority = None, ru_string = ''/inbox''\<rparr>,
     rr_headers = [(''host'', ''a.example''), (''date'', show_date (seconds 1000000)), (''digest'', ''SHA-256=body''),
       (''signature'', signature_header)],
     rr_digest = \<lparr>cd_algorithm = DigestSha256, cd_digest = ''body''\<rparr>\<rparr>"

definition signature_fields :: "(string \<times> string) list" where
  "signature_fields = [(''keyId'', carol_id @ ''#main-key''), (''headers'', ''(request-target) host digest''),
     (''signature'', ''key(request-target): post /inbox;host: a.example;digest: SHA-256=body'')]"

definition signed_text :: string where
  "signed_text = concat [''(request-target): post /inbox'', [CHR 0x0A], ''host: a.example'', [CHR 0x0A], ''digest: SHA-256=body'']"

definition carol_key :: verification_method where
  "carol_key = (case verification_method_parse sample_uris (carol_id @ ''#main-key'') of Ok k \<Rightarrow> k | _ \<Rightarrow> undefined)"

definition follow_signature :: http_signature_data where
  "follow_signature = \<lparr>hs_is_rfc9421 = False, hs_key_id = carol_key, hs_base = signed_text, hs_signature = ''key'' @ signed_text,
     hs_expires_at = seconds 1043200, hs_authority = ''a.example'', hs_content_digest = Some (rr_digest follow_http)\<rparr>"

section \<open>A reply from another server\<close>

definition reply_note :: attributed_object where
  "reply_note = \<lparr>ob_id = reply_id, ob_type = ''Note'', ob_attributed_to = carol_id, ob_name = None, ob_content = Some ''hi'',
     ob_content_map = [], ob_media_type = None, ob_sensitive = None, ob_summary = None, ob_icon = [], ob_attachment = [], ob_tag = [],
     ob_in_reply_to = Some carol_post_id, ob_context = None, ob_to = [ap_public], ob_cc = [], ob_audience = [],
     ob_published = None, ob_updated = None, ob_url = None, ob_one_of = None, ob_any_of = None, ob_voters_count = None,
     ob_end_time = None, ob_closed = None, ob_quote = None, ob_quote_url = None, ob_inbox = None\<rparr>"

definition reply_object :: object_json where
  "reply_object = \<lparr>oj_inner = reply_note, oj_value = JNull\<rparr>"

definition reply_data :: post_create_data where
  "reply_data = \<lparr>pc_id = None, pc_context = CtxReply 63 53, pc_title = None, pc_content = ''hi'', pc_content_source = None,
     pc_language = None, pc_visibility = VisPublic, pc_is_sensitive = False, pc_poll = None, pc_attachments = [], pc_mentions = [],
     pc_tags = [], pc_links = [], pc_emojis = [], pc_url = None, pc_object_id = Some reply_id, pc_created_at = seconds 1000000\<rparr>"

definition created_db :: database where
  "created_db = snd (create_post sample_externals 5 5 3 reply_data federated_db)"

definition created_post :: post_detailed where
  "created_post = (case fst (create_post sample_externals 5 5 3 reply_data federated_db) of Ok p \<Rightarrow> p | _ \<Rightarrow> undefined)"

section \<open>Activities of another actor\<close>

definition sample_commitment :: json where
  "sample_commitment = JObject [(''satisfies'', JString ''https://b.example/proposals/1''),
     (''resourceQuantity'', JObject [(''hasUnit'', JString ''one''), (''hasNumericalValue'', JString ''1000'')])]"

definition paid_agreement :: json where
  "paid_agreement = JObject [(''id'', JString agreement_id), (''type'', JString ''Agreement''), (''attributedTo'', JString carol_id),
     (''stipulates'', sample_commitment), (''stipulatesReciprocal'', sample_commitment),
     (''preview'', JObject [(''name'', JString ''Paid'')])]"

text \<open>Dave claims that the invoice of carol has been paid.\<close>

definition paid_update :: json where
  "paid_update = JObject [(''id'', JString ''https://c.example/activities/1''), (''type'', JString ''Update''), (''actor'', JString dave_id),
     (''object'', paid_agreement)]"

definition paid_data :: agreement where
  "paid_data = (case agreement_from_value paid_agreement of Some a \<Rightarrow> a | None \<Rightarrow> undefined)"

text \<open>Dave adds the post of carol to his own featured collection.\<close>

definition featured_add :: json where
  "featured_add = JObject [(''type'', JString ''Add''), (''actor'', JString dave_id), (''object'', JString carol_post_id),
     (''target'', JString (dave_id @ ''/featured''))]"

text \<open>Dave asks to delete the post of carol.\<close>

definition foreign_delete :: json where
  "foreign_delete = JObject [(''type'', JString ''Delete''), (''actor'', JString dave_id), (''object'', JString carol_post_id)]"

section \<open>Packages: evaluation\<close>

lemma read_show_bits: "0 \<le> n \<Longrightarrow> read_bits (show_bits n) = n"
proof (induction n rule: show_bits.induct)
  case (1 n)
  then show ?case
    by (cases "n \<le> 0") (auto simp: show_bits.simps [of n] show_bits.simps [of 0], presburger)
qed

lemma read_show_date: "read_date (show_date t) = Some t"
  by (simp add: read_date_def show_date_def read_show_bits)

lemma sample_crypto_laws: "crypto_laws sample_crypto"
  by (simp add: crypto_laws_def sample_crypto_def read_show_date)

section \<open>Identifiers and rows: evaluation\<close>

lemma sample_ids:
  "list_all plain_id [carol_id, dave_id, bob_id, follow_request_id, carol_post_id, reply_id]
   \<and> \<not> local_id carol_id \<and> \<not> local_id dave_id \<and> local_id bob_id
   \<and> validate_any_object_id sample_uris follow_request_id = Ok ()
   \<and> validate_any_object_id sample_uris reply_id = Ok ()
   \<and> parse_local_actor_id sample_uris sample_uuids (authority_server sample_server) bob_id = Ok (IdUsername ''bob'')
   \<and> \<not> is_ok (parse_local_object_id sample_uris sample_uuids (authority_server sample_server) carol_post_id)
   \<and> is_same_origin sample_uris carol_id reply_id = Ok True
   \<and> get_moderation_domain sample_uris (remote_actor carol_id) = Ok ''b.example''"
  by code_simp

lemma sample_rows:
  "fst (get_remote_profile_by_actor_id sample_externals carol_id federated_db) = Ok carol
   \<and> fst (get_remote_profile_by_actor_id sample_externals dave_id federated_db) = Ok dave
   \<and> fst (get_managed_account_by_username sample_externals ''bob'' federated_db) = Ok bob_account
   \<and> fst (get_managed_account_by_id sample_externals 2 federated_db) = Ok bob_account
   \<and> managed_profile bob_account = bob
   \<and> create_remote_follow_request_opt 5 3 2 follow_request_id federated_db = (Ok (pending_request, False), federated_db)
   \<and> fst (get_remote_post_by_object_id sample_externals carol_post_id federated_db) = Ok carol_detailed
   \<and> pd_post carol_detailed = carol_post \<and> pd_author carol_detailed = carol \<and> pd_conversation carol_detailed = Some carol_conversation"
  by code_simp

lemma plain_idD: "plain_id i \<Longrightarrow> \<exists>c. canonicalize_id sample_uris i = Ok c \<and> canonical_to_string sample_uris c = i"
  by (auto simp: plain_id_def split: outcome.splits)

lemma sample_env_fields [simp]:
  "ev_ext sample_env = sample_externals" "uris sample_env = sample_uris" "ev_uuids sample_env = sample_uuids"
  "ev_text sample_env = sample_text" "cryptography sample_env = sample_crypto" "ev_fresh sample_env ty s = 5 + length (background_jobs s)"
  "ac_instance_uri sample_client = sample_server" "client_authority sample_client = authority_server sample_server"
  "ac_attachment_limit sample_client = 4"
  by (simp_all add: sample_env_def sample_fetching_def uris_def cryptography_def sample_client_def client_authority_def)

lemma canonical_plain: "plain_id i \<Longrightarrow> canonical_id sample_env i s = (Ok i, s)"
  using plain_idD [of i] by (auto simp: canonical_id_def validate_def prog_defs)

lemma reads_only_run: "reads_only m \<Longrightarrow> fst (m s) = r \<Longrightarrow> m s = (r, s)"
  by (metis prod.collapse reads_only_def)

lemma row_runs:
  "get_remote_profile_by_actor_id sample_externals carol_id federated_db = (Ok carol, federated_db)"
  "get_remote_profile_by_actor_id sample_externals dave_id federated_db = (Ok dave, federated_db)"
  "get_remote_post_by_object_id sample_externals carol_post_id federated_db = (Ok carol_detailed, federated_db)"
  by (rule reads_only_run, simp, use sample_rows in blast)+

lemma reads_only_managed:
  "reads_only (get_managed_account_by_username X n)" "reads_only (get_managed_account_by_id X i)"
proof -
  have "reads_only (get_managed_account_where X P)" for X P
    unfolding get_managed_account_where_def managed_account_try_from_def
    by (intro reads_onlyI preserves_rules) (auto intro!: preserves_rules split: prod.split option.split)
  then show "reads_only (get_managed_account_by_username X n)" "reads_only (get_managed_account_by_id X i)"
    by (simp_all add: get_managed_account_by_username_def get_managed_account_by_id_def)
qed

lemma account_runs:
  "get_managed_account_by_username sample_externals ''bob'' federated_db = (Ok bob_account, federated_db)"
  "get_managed_account_by_id sample_externals 2 federated_db = (Ok bob_account, federated_db)"
  by (rule reads_only_run, rule reads_only_managed, use sample_rows in blast)+

lemma sample_clock: "current_timestamp federated_db = seconds 1000000"
  by (simp add: federated_db_def sample_db_def)

lemma carol_fields: "p_actor_json carol = Some (remote_actor carol_id)" "p_id carol = 3" "p_updated_at carol = seconds 1000000"
  "p_actor_json bob = None" "p_id bob = 2" "p_id dave = 4" "p_actor_json dave = Some (remote_actor dave_id)"
  by (simp_all add: carol_def bob_def dave_def remote_profile_def sample_profile_def)

lemma resolve_runs:
  "resolve sample_env sample_client (only_remote default_resolver) carol_id federated_db = (Ok carol, federated_db)"
  "resolve sample_env sample_client (include_automated_accounts default_resolver) bob_id federated_db = (Ok bob, federated_db)"
proof -
  obtain c where c: "canonicalize_id sample_uris carol_id = Ok c" "canonical_to_string sample_uris c = carol_id"
      "canonical_origin sample_uris c \<noteq> http_origin sample_server"
    using sample_ids plain_idD [of carol_id] by (auto simp: local_id_def)
  then show "resolve sample_env sample_client (only_remote default_resolver) carol_id federated_db = (Ok carol, federated_db)"
    by (simp add: resolve_def validate_def prog_defs found_or_def refresh_remote_profile_def only_remote_def
        default_resolver_def row_runs sample_clock carol_fields one_day_def seconds_def)
  obtain d where d: "canonicalize_id sample_uris bob_id = Ok d" "canonical_to_string sample_uris d = bob_id"
      "canonical_origin sample_uris d = http_origin sample_server"
    using sample_ids plain_idD [of bob_id] by (auto simp: local_id_def)
  then show "resolve sample_env sample_client (include_automated_accounts default_resolver) bob_id federated_db = (Ok bob, federated_db)"
    using sample_ids sample_rows
    by (auto simp: resolve_def validate_def prog_defs in_db_def include_automated_accounts_def
        default_resolver_def get_managed_account_by_actor_id_def account_runs)
qed

section \<open>A signed request: evaluation\<close>

lemma header_parts:
  "try_map signature_parameter (split_char (CHR '','') signature_header) = Ok signature_fields
   \<and> header_to_str signature_header = Some signature_header
   \<and> header_text (rr_headers follow_http) ''date'' (HsMissingHeader ''Date'') ''Date'' = Ok (show_date (seconds 1000000))
   \<and> header_text (rr_headers follow_http) ''Host'' (HsMissingHeader ''Host'') ''Host'' = Ok ''a.example''
   \<and> get_content_digest sample_http ''POST'' (rr_headers follow_http) [''(request-target)'', ''host'', ''digest'']
     = Ok (Some (''digest'', rr_digest follow_http))
   \<and> try_map (cavage_component ''POST'' (rr_uri follow_http) (rr_headers follow_http) (map_of (rev signature_fields)))
        [''(request-target)'', ''host'', ''digest'']
     = Ok [(''(request-target)'', ''post /inbox''), (''host'', ''a.example''), (''digest'', ''SHA-256=body'')]
   \<and> split_char (CHR '' '') ''(request-target) host digest'' = [''(request-target)'', ''host'', ''digest'']
   \<and> cavage_base (index_map [(''(request-target)'', ''post /inbox''), (''host'', ''a.example''), (''digest'', ''SHA-256=body'')]) = signed_text
   \<and> b64_decode sample_http ''key(request-target): post /inbox;host: a.example;digest: SHA-256=body'' = Some (''key'' @ signed_text)
   \<and> add_seconds (seconds 1000000) signature_expires_in = (Ok (seconds 1043200) :: (http_signature_error, datetime) outcome)
   \<and> header_get (rr_headers follow_http) ''Signature-Input'' = None \<and> header_get (rr_headers follow_http) ''signature'' = Some signature_header"
  by code_simp

lemma carol_key_parts:
  "verification_method_parse sample_uris (carol_id @ ''#main-key'') = Ok carol_key \<and> signer_id_of sample_uris carol_key = Ok carol_id
   \<and> get_signer_key sample_env keyed_carol (verification_method_to_string sample_uris carol_key) = Ok (PkRsa ''key'')
   \<and> fst (get_remote_profile_by_actor_id sample_externals carol_id keyed_db) = Ok keyed_carol
   \<and> hu_authority sample_server = ''a.example'' \<and> \<not> profile_is_local keyed_carol
   \<and> url_host sample_net carol_id = Some ''b.example'' \<and> \<not> is_incoming_blocked sample_wildmatch sample_filter ''b.example''"
  by code_simp

lemma follow_unsigned:
  "verify_portable_object sample_crypto sample_uris repeated_follow = Err PeNotPortable
   \<and> get_object_id repeated_follow = Ok follow_request_id \<and> get_json_signature sample_crypto sample_uris repeated_follow = Err JsNoProof
   \<and> string_property repeated_follow ''id'' = Some follow_request_id \<and> string_property repeated_follow ''type'' = Some ''Follow''
   \<and> object_to_id (json_index repeated_follow ''actor'') = Ok carol_id
   \<and> is_self_delete repeated_follow ''Follow'' carol_id = Ok False \<and> \<not> is_local_id sample_env sample_client follow_request_id"
  by code_simp

lemma sample_http_env: "sc_http (fe_signing (ev_fetch sample_env)) = sample_http" "fe_net (ev_fetch sample_env) = sample_net"
  "ev_wildmatch sample_env = sample_wildmatch" "ac_filter sample_client = sample_filter"
  by (simp_all add: sample_env_def sample_fetching_def sample_client_def)

lemma follow_parsed:
  "parse_http_signature sample_http sample_uris (rr_method follow_http) (rr_uri follow_http) (rr_headers follow_http) = Ok follow_signature"
proof -
  have "header_text (rr_headers follow_http) ''signature'' HsNoSignature ''Signature'' = Ok signature_header"
    "signature_parameters signature_header = Ok (map_of (rev signature_fields))"
    using header_parts by (simp_all add: header_text_def signature_parameters_def)
  moreover have "cavage_created_at sample_http (rr_headers follow_http) (map_of (rev signature_fields)) = Ok (seconds 1000000)"
    "cavage_expires_at (map_of (rev signature_fields)) (seconds 1000000) = Ok (seconds 1043200)"
    using header_parts by (simp_all add: cavage_created_at_def cavage_expires_at_def signature_fields_def sample_http_def read_show_date)
  moreover have "rr_method follow_http = ''POST''" by (simp add: follow_http_def)
  moreover have "map_of (rev signature_fields) ''keyId'' = Some (carol_id @ ''#main-key'')"
    "map_of (rev signature_fields) ''headers'' = Some ''(request-target) host digest''"
    "map_of (rev signature_fields) ''signature'' = Some ''key(request-target): post /inbox;host: a.example;digest: SHA-256=body''"
    by (simp_all add: signature_fields_def)
  ultimately show ?thesis
    using header_parts carol_key_parts
    by (simp add: parse_http_signature_def parse_http_signature_cavage_def follow_signature_def required_components_cavage_def)
qed

lemma carol_is_signer: "get_signer sample_env sample_client carol_id False keyed_db = (Ok keyed_carol, keyed_db)"
proof -
  obtain c where c: "canonicalize_id sample_uris carol_id = Ok c" "canonical_to_string sample_uris c = carol_id"
      "canonical_origin sample_uris c \<noteq> http_origin sample_server"
    using sample_ids plain_idD [of carol_id] by (auto simp: local_id_def)
  have row: "get_remote_profile_by_actor_id sample_externals carol_id keyed_db = (Ok keyed_carol, keyed_db)"
    by (rule reads_only_run, simp, use carol_key_parts in blast)
  have "p_updated_at keyed_carol = current_timestamp keyed_db"
    using sample_clock by (simp add: keyed_carol_def keyed_db_def carol_fields)
  with c row carol_key_parts show ?thesis
    by (simp add: get_signer_def find_signer_def require_remote_def resolve_def validate_def prog_defs found_or_def
        refresh_remote_profile_def only_remote_def default_resolver_def one_day_def seconds_def with_fetcher_timeout_def)
qed

lemma follow_verified:
  "verify_signed_request sample_env sample_client (rr_method follow_http) (rr_uri follow_http) (rr_headers follow_http)
     (Some (rr_digest follow_http)) False keyed_db = (Ok (carol_key, keyed_carol), keyed_db)"
proof -
  have "current_timestamp keyed_db = seconds 1000000" "hs_key_id follow_signature = carol_key"
    using sample_clock by (simp_all add: keyed_db_def follow_signature_def)
  moreover have "verify_http_signature sample_crypto (seconds 1000000) follow_signature (PkRsa ''key'') (Some (rr_digest follow_http)) = Ok ()"
    by (simp add: verify_http_signature_def follow_signature_def sample_crypto_def seconds_def)
  ultimately show ?thesis
    using carol_key_parts follow_parsed carol_is_signer
    by (simp add: verify_signed_request_def sample_http_env prog_defs follow_signature_def)
qed

lemma follow_received_run:
  "\<exists>t. receive_activity sample_env sample_client follow_http repeated_follow bob_id keyed_db = (Ok (), t)
     \<and> incoming_jobs t \<noteq> incoming_jobs keyed_db"
proof -
  obtain c i where c: "canonicalize_id sample_uris carol_id = Ok c" "canonical_to_string sample_uris c = carol_id"
      "canonicalize_id sample_uris follow_request_id = Ok i"
    using sample_ids plain_idD [of carol_id] plain_idD [of follow_request_id] by auto
  have "activity_signer sample_env sample_client repeated_follow False keyed_carol keyed_db = (Ok keyed_carol, keyed_db)"
    using follow_unsigned
    by (simp add: activity_signer_def match_result_def verify_signed_object_def verify_object_proof_def auth_validate_def prog_defs)
  moreover have "p_actor_json keyed_carol = Some (remote_actor carol_id)" "da_id (remote_actor carol_id) = carol_id" "background_jobs keyed_db = []"
    by (simp_all add: keyed_carol_def carol_fields remote_actor_def keyed_db_def federated_db_def sample_db_def)
  then have "\<exists>t. enqueue_authenticated sample_env sample_client repeated_follow bob_id carol_id False keyed_carol keyed_db = (Ok (), t)
     \<and> incoming_jobs t \<noteq> incoming_jobs keyed_db"
    using carol_key_parts sample_ids
    by (simp add: enqueue_authenticated_def ep_actor_data_def expect_actor_data_def sample_http_env prog_defs
        incoming_into_job_def enqueue_job_def run_def incoming_jobs_def)
  ultimately show ?thesis
    using follow_unsigned c follow_verified carol_key_parts
    by (simp add: receive_activity_def ep_validate_def prog_defs sample_http_env)
qed

lemma follow_signer:
  assumes "accepted_signer sample_env sample_client follow_http repeated_follow False keyed_db signer"
  shows "signer = keyed_carol"
proof -
  from assms obtain p u v where p: "signed_request sample_env sample_client follow_http False keyed_db p u"
    and "signer = p \<or> signed_activity sample_env sample_client repeated_follow False u signer v"
    by (auto simp: accepted_signer_def)
  moreover have "\<not> signed_activity sample_env sample_client repeated_follow False u signer v"
    using follow_unsigned by (auto simp: signed_activity_def)
  moreover have "p = keyed_carol"
    using p follow_parsed carol_is_signer carol_key_parts by (auto simp: signed_request_def sample_http_env follow_signature_def)
  ultimately show ?thesis by blast
qed

section \<open>A repeated Follow: evaluation\<close>

lemma follow_fields:
  "json_required_str repeated_follow ''id'' = Some follow_request_id" "id_field repeated_follow ''actor'' = Some carol_id"
  "id_field repeated_follow ''object'' = Some bob_id"
  by (simp_all add: repeated_follow_def json_required_str_def id_field_def of_outcome_def)

lemma follow_accepted:
  "fst (accept_and_add_follower sample_env (client_root sample_client) 8 federated_db) = Ok () \<and> background_jobs accepted_db = []
   \<and> current_timestamp accepted_db = seconds 1000000"
  by code_simp

lemma accept_prepared:
  "case fst (prepare_accept_follow sample_env sample_client bob_account (remote_actor carol_id) follow_request_id sample_db) of
     Ok d \<Rightarrow> (case Option.bind (json_field (oj_activity d) ''id'') json_str of Some i \<Rightarrow> canonical_opt sample_env i \<noteq> None | None \<Rightarrow> False)
   | _ \<Rightarrow> False"
  by code_simp

lemma accept_job_id: "\<exists>i c. Option.bind (json_field (oj_activity accept_job) ''id'') json_str = Some i \<and> canonical_opt sample_env i = Some c"
  using accept_prepared by (auto simp: accept_job_def split: outcome.splits option.splits)

lemma accept_saved: "\<exists>t. save_and_enqueue_activity sample_env accept_job accepted_db = (Ok (), t)"
proof -
  obtain i c where "Option.bind (json_field (oj_activity accept_job) ''id'') json_str = Some i" "canonical_opt sample_env i = Some c"
    using accept_job_id by blast
  with follow_accepted show ?thesis
    by (simp add: save_and_enqueue_activity_def save_and_enqueue_def outgoing_save_activity_def outgoing_enqueue_def
        outgoing_into_job_def enqueue_job_def save_activity_def prog_defs run_def)
qed

lemma reads_only_prepare: "reads_only (prepare_accept_follow V K acc a i)"
  unfolding prepare_accept_follow_def outgoing_new_def compatible_def expect_def
  by (intro reads_onlyI preserves_rules) (auto intro!: preserves_rules split: outcome.split)

text \<open>Of the state the activity depends only on the clock and the identifier drawn.\<close>

lemma prepare_same:
  assumes "background_jobs s = background_jobs t" and "current_timestamp s = current_timestamp t"
  shows "fst (prepare_accept_follow sample_env K acc a i s) = fst (prepare_accept_follow sample_env K acc a i t)"
  using assms
  by (simp add: prepare_accept_follow_def outgoing_new_def compatible_def expect_def type_check_def prog_defs
      split: outcome.split)

lemma follow_processed:
  "\<exists>t. process_follow_request sample_env sample_client (remote_actor carol_id) bob_account follow_request_id
     pending_request False federated_db = (Ok (), t)"
proof -
  have accept: "accept_and_add_follower sample_env (client_root sample_client) 8 federated_db = (Ok (), accepted_db)"
    using follow_accepted by (simp add: accepted_db_def prod_eq_iff)
  have "fst (prepare_accept_follow sample_env sample_client bob_account (remote_actor carol_id) follow_request_id sample_db) = Ok accept_job"
    using accept_prepared by (auto simp: accept_job_def split: outcome.splits)
  then have "fst (prepare_accept_follow sample_env sample_client bob_account (remote_actor carol_id) follow_request_id accepted_db) = Ok accept_job"
    using prepare_same [of accepted_db sample_db] follow_accepted by (simp add: sample_db_def)
  then have prepare: "prepare_accept_follow sample_env sample_client bob_account (remote_actor carol_id) follow_request_id accepted_db
      = (Ok accept_job, accepted_db)"
    by (rule reads_only_run [OF reads_only_prepare])
  obtain t where "save_and_enqueue_activity sample_env accept_job accepted_db = (Ok (), t)"
    using accept_saved by blast
  with accept prepare show ?thesis
    by (simp add: process_follow_request_def pending_request_def match_result_def bnd_def seq_def ret_def)
qed

lemma repeated_request:
  "create_remote_follow_request_opt 5 3 2 follow_request_id federated_db = (Ok (pending_request, False), federated_db)"
  using sample_rows by blast

lemma repeated_follow_run:
  "\<exists>t. handle_follow sample_env sample_client repeated_follow federated_db = (Ok (Some (DescObject ''Actor'')), t)"
proof -
  obtain t where t: "process_follow_request sample_env sample_client (remote_actor carol_id) bob_account
      follow_request_id pending_request False federated_db = (Ok (), t)"
    using follow_processed by blast
  have fresh: "background_jobs federated_db = []"
    by (simp add: federated_db_def sample_db_def)
  have "handle_follow sample_env sample_client repeated_follow federated_db = (Ok (Some (DescObject ''Actor'')), t)"
    unfolding handle_follow_def
    using sample_ids
    by (simp add: bnd_def seq_def deserialized_def validate_def follow_fields resolve_runs canonical_plain gets_def lift_def fresh
        handled_def ret_def in_db_def map_err_p_def t expect_actor_data_def carol_fields profile_is_local_def repeated_request
        account_runs)
  then show ?thesis ..
qed

section \<open>A signed document: evaluation\<close>

lemma sample_signing:
  "is_ok (verification_method_parse sample_uris sample_key_id) \<and> entries_ok sample_entries
   \<and> map_of sample_entries ''signature'' = None
   \<and> sign_object sample_crypto (codecs_of sample_uris) ''key'' sample_key_id (JObject sample_entries) 0 = Ok sample_signed"
  by code_simp

section \<open>A reply from another server: evaluation\<close>

lemma reply_saved:
  "fst (create_post sample_externals 5 5 3 reply_data federated_db) = Ok created_post
   \<and> fst (save_attributed_object reply_id JNull (po_id (pd_post created_post)) created_db) = Ok ()
   \<and> filter_mentions sample_externals [] carol (Some 53) federated_db = (Ok [], federated_db)"
  by code_simp

lemma reply_checked:
  "check_not_actor reply_note = Ok () \<and> get_object_url reply_note = Ok None \<and> attachment_values reply_note = Ok []
   \<and> get_audience sample_uris reply_note = Ok [ap_public] \<and> is_public ap_public \<and> validate_post_mentions [] VisPublic = Ok ()
   \<and> check_post_limits 4 4 [] OriginRemote = Ok () \<and> object_poll sample_text reply_note = None
   \<and> \<not> is_marked_sensitive sample_env sample_client reply_note ''b.example'' \<and> object_link reply_note None = []
   \<and> object_language sample_env reply_note = None \<and> object_quote reply_note = None
   \<and> reply_visibility (remote_actor carol_id) [ap_public] (cv_audience carol_conversation) = VisPublic"
  by code_simp

lemma reply_valid: "validate_post_create_data sample_text sample_uris reply_data OriginRemote = Ok ()"
  using sample_ids
  by (simp add: validate_post_create_data_def reply_data_def validate_content_def clean_remote_content_def sample_text_def
      andThen_def require_def check_opt_def validate_post_limits_def)

lemma reply_read:
  "check_attribution sample_env reply_note federated_db = (Ok (), federated_db)"
  "find_parent sample_env sample_client [] reply_note federated_db = (Ok (Some carol_detailed), federated_db)"
  "get_object_content sample_text reply_note = Ok (None, ''hi'')"
  "get_object_attachments sample_env sample_client reply_note carol federated_db = (Ok ([], []), federated_db)"
  "get_object_tags sample_env sample_client reply_note carol [] federated_db = (Ok ([], [], [], []), federated_db)"
  "find_group sample_env sample_client reply_note federated_db = (Ok None, federated_db)"
  "object_context_id sample_env reply_note federated_db = (Ok None, federated_db)"
  "domain_of sample_env (remote_actor carol_id) federated_db = (Ok ''b.example'', federated_db)"
proof -
  show domain: "domain_of sample_env (remote_actor carol_id) federated_db = (Ok ''b.example'', federated_db)"
    using sample_ids by (simp add: domain_of_def in_db_def prog_defs)
  have no_tag: "ob_tag reply_note = []"
    by (simp add: reply_note_def)
  show "check_attribution sample_env reply_note federated_db = (Ok (), federated_db)"
    using sample_ids by (simp add: check_attribution_def validate_def prog_defs reply_note_def)
  show "find_parent sample_env sample_client [] reply_note federated_db = (Ok (Some carol_detailed), federated_db)"
    using sample_ids row_runs(3)
    by (auto simp: find_parent_def get_linked_def follow_redirect_def reply_note_def canonical_plain get_post_by_object_id_def
        prog_defs in_db_def split: outcome.split)
  show "get_object_content sample_text reply_note = Ok (None, ''hi'')"
    by (simp add: get_object_content_def object_title_def validate_content_def clean_remote_content_def sample_text_def
        andThen_def require_def reply_note_def)
  show "get_object_attachments sample_env sample_client reply_note carol federated_db = (Ok ([], []), federated_db)"
    using reply_checked domain
    by (simp add: get_object_attachments_def expect_actor_data_def carol_fields in_db_def prog_defs validate_def)
  show "get_object_tags sample_env sample_client reply_note carol [] federated_db = (Ok ([], [], [], []), federated_db)"
    using reply_checked domain no_tag
    by (simp add: get_object_tags_def expect_actor_data_def carol_fields in_db_def prog_defs validate_def add_quote_def
        no_tags_def)
  show "find_group sample_env sample_client reply_note federated_db = (Ok None, federated_db)"
    by (simp add: find_group_def reply_note_def prog_defs)
  show "object_context_id sample_env reply_note federated_db = (Ok None, federated_db)"
    by (simp add: object_context_id_def reply_note_def prog_defs)
qed

lemma carol_detailed_fields: "pd_post carol_detailed = carol_post" "pd_author carol_detailed = carol"
  "pd_conversation carol_detailed = Some carol_conversation"
  using sample_rows by blast+

lemma carol_ids: "po_id carol_post = 53" "cv_id carol_conversation = 63" "po_repost_of_id carol_post = None"
  by (simp_all add: carol_post_def carol_conversation_def sample_post_def)

lemma reply_classified:
  "get_object_visibility carol None [ap_public] (Some carol_detailed) None federated_db
   = (Ok (VisPublic, CtxReply 63 53), federated_db)"
  using reply_checked
  by (simp add: get_object_visibility_def expect_actor_data_def expect_conversation_def carol_fields prog_defs
      carol_detailed_fields carol_ids)

lemma reply_run: "\<exists>t. create_remote_post sample_env sample_client reply_object [] federated_db = (Ok created_post, t)"
proof -
  have post: "create_post sample_externals 5 5 3 reply_data federated_db = (Ok created_post, created_db)"
    using reply_saved unfolding created_db_def by (metis prod.collapse)
  obtain t where t: "save_attributed_object reply_id JNull (po_id (pd_post created_post)) created_db = (Ok (), t)"
    using reply_saved by (metis prod.collapse)
  have mentions: "filter_mentions sample_externals [] carol (Some (po_id (pd_post carol_detailed))) federated_db = (Ok [], federated_db)"
    using reply_saved by (simp add: carol_detailed_fields carol_ids)
  have jobs: "background_jobs federated_db = []"
    by (simp add: federated_db_def sample_db_def)
  have fields: "ob_id reply_note = reply_id" "ob_attributed_to reply_note = carol_id" "ob_published reply_note = None"
      "oj_inner reply_object = reply_note" "oj_value reply_object = JNull"
    by (simp_all add: reply_note_def reply_object_def)
  have "create_remote_post sample_env sample_client reply_object [] federated_db = (Ok created_post, t)"
    unfolding create_remote_post_def
    using sample_ids reply_checked reply_valid post t mentions
    by (simp add: Let_def bnd_def seq_def validate_def gets_def lift_def ret_def in_db_def map_err_p_def fields canonical_plain
        resolve_runs expect_actor_data_def carol_fields reply_read reply_classified jobs sample_clock reply_data_def add_links_def)
  then show ?thesis ..
qed

section \<open>Activities of another actor: evaluation\<close>

lemma paid_update_facts:
  "json_index paid_update ''object'' = paid_agreement \<and> \<not> is_string paid_agreement \<and> is_object paid_agreement
   \<and> verify_portable_object sample_crypto sample_uris paid_agreement = Err PeNotPortable
   \<and> verify_object_owner sample_uris paid_agreement = Ok () \<and> string_property paid_agreement ''type'' = Some ''Agreement''
   \<and> agreement_from_value paid_agreement = Some paid_data \<and> ag_id paid_data = Some agreement_id
   \<and> ag_preview paid_data = Some ''Paid''"
  by code_simp

lemma federated_invoices:
  "invoices_inv federated_db" "filter (\<lambda>i. inv_object_id i = Some agreement_id) (invoices federated_db) = [remote_invoice]"
  "inv_status remote_invoice = Open"
  by (simp_all add: federated_db_def sample_db_def remote_invoice_def sample_invoice_def invoices_inv_def unique_by_def
      invoice_ok_def invoice_check_consistency_def invoice_is_local_def payout_recorded_def)

lemma featured_add_fields:
  "json_required_str featured_add ''actor'' = Some dave_id" "id_field featured_add ''object'' = Some carol_post_id"
  "id_field featured_add ''target'' = Some (dave_id @ ''/featured'')" "json_field featured_add ''endTime'' = None"
  "json_optional_str featured_add ''context'' = Some None"
  by (simp_all add: featured_add_def json_required_str_def id_field_def of_outcome_def json_optional_str_def json_opt_str_def
      json_opt_value_def)

lemma foreign_delete_fields:
  "id_field foreign_delete ''actor'' = Some dave_id" "id_field foreign_delete ''object'' = Some carol_post_id"
  by (simp_all add: foreign_delete_def id_field_def of_outcome_def)

end
