(* ===== verification/Spec2Isabelle.thy ===== *)
theory Spec2Isabelle
  imports FurtherResults ApSamples AuthResults
begin

text \<open>
  A verification development of the server core of Mitra, a federated social network with paid
  subscriptions (a Rust workspace). It models the parts that keep the program's long-lived state
  and move money: the relational store and its transactions, relationships between actors and the
  counters kept beside them, profiles, accounts and sign-in, posts with their threads and visibility,
  emojis, feeds and the other small tables, notifications, payment methods, invoices, the wallets and the payment passes, subscriptions, polls, reactions, the background job
  queue, the federation queues with the delivery worker, filter rules, the identifiers of the
  federation layer, the validators of input, and the federation layer itself: signatures, the fetching
  of remote objects, remote actors and posts, the authentication and the handlers of incoming
  activities, and the activities sent in return.

  \<^bold>\<open>How the program is modelled.\<close> The state is one record, \<open>database\<close>: a list of rows per table, the
  sequences, and the clock (\<open>CURRENT_TIMESTAMP\<close> and \<open>Utc::now()\<close> are one clock, fixed during an
  operation). An operation is a function \<open>database \<Rightarrow> (error, value) outcome \<times> database\<close>, where an
  outcome is \<open>Ok\<close>, \<open>Err\<close> or \<open>Panic\<close>; \<open>bnd\<close> is the \<open>?\<close> operator and \<open>transaction\<close> rolls the tables
  back on an error and keeps the drawn sequence values, as PostgreSQL does. Each SQL statement is
  the function on rows it denotes, with the constraints of the schema (primary and unique keys,
  \<open>CHECK\<close>, \<open>NOT NULL\<close>, foreign keys, \<open>ON CONFLICT\<close>) in the order the server reports them, so a
  violation is an \<open>Err\<close> value. Identifiers that the code draws at random are arguments. Machine
  integers keep their width where it matters: the counters are checked against \<open>INTEGER\<close>, amounts
  against \<open>u64\<close> and \<open>i64\<close>, vote counts and failure counts wrap at 32 bits, the retry backoff is
  computed on \<open>32 word\<close>. Every definition of the model is executable.

  \<^bold>\<open>Theories and sources\<close> (paths under \<open>src/\<close>):

  \<^item> \<open>Prelude\<close>: outcomes, programs, \<open>preserves\<close>, tables as lists. \<open>Database\<close>: errors
    (\<open>mitra_models/src/database/errors.rs\<close>), one record per table, statements, transactions.
  \<^item> \<open>Caip2\<close>: chain identifiers (\<open>apx_core/src/caip2.rs\<close>). \<open>IntEnums\<close>: the enumerations stored as
    numbers (\<open>int_enum_from_sql!\<close> types), behind the interface \<open>int_enum\<close>.
  \<^item> \<open>Hostnames\<close>, \<open>Uris\<close>, \<open>UriProperties\<close>: \<open>apx_core/src/url\<close>. \<open>Multiformats\<close>, \<open>Dids\<close>: the encodings and
    identifiers of \<open>apx_core\<close>. \<open>ApIdentifiers\<close>: \<open>mitra_activitypub/src/authority.rs\<close>, \<open>identifiers.rs\<close>.
  \<^item> \<open>Profiles\<close>, \<open>ProfileQueries\<close>: profiles, consistency checks, creation, update, lookups
    (\<open>mitra_models/src/profiles\<close>, \<open>instances\<close>). \<open>ProfileDeletion\<close>: \<open>delete_profile\<close> with its cascades.
    \<open>Counters\<close>: the interface \<open>counter_column\<close> of a denormalised counter.
  \<^item> \<open>Accounts\<close>, \<open>Oauth\<close>, \<open>Emojis\<close>: \<open>mitra_models/src/accounts\<close>, \<open>oauth\<close>, \<open>caip122\<close>, \<open>emojis\<close>. \<open>SmallTables\<close>:
    custom feeds, attachments, tags, markers, properties, groups. \<open>ActivitypubStore\<close>:
    \<open>mitra_models/src/activitypub\<close>. \<open>ProfileProperties\<close>, \<open>AccountProperties\<close>, \<open>StoreProperties\<close>: the invariant
    \<open>profile_tables_inv\<close>, the step relations \<open>profile_step\<close>, \<open>emoji_step\<close>, \<open>account_step\<close>, \<open>tables_step\<close>, and the
    effects of the operations.
  \<^item> \<open>UnicodeText\<close>, \<open>Validators\<close>: \<open>mitra_validators/src\<close>, on UTF-8 bytes; their results are in \<open>StoreProperties\<close>.
  \<^item> \<open>RelationshipQueries\<close>, \<open>Relationships\<close>: \<open>mitra_models/src/relationships\<close>.
    \<open>Notifications\<close>: \<open>mitra_models/src/notifications\<close>. \<open>RelationshipInvariants\<close> and
    \<open>RelationshipResults\<close> hold the invariant \<open>rel_inv\<close>, the effect of every operation, the step
    relation \<open>relationship_step\<close> and the results about it.
  \<^item> \<open>PostTypes\<close>, \<open>Posts\<close>, \<open>Timelines\<close>: \<open>mitra_models/src/posts\<close>, \<open>conversations\<close>, \<open>bookmarks\<close>.
    \<open>PostClosure\<close>: recursive queries as reachability. \<open>PostInvariants\<close>, \<open>PostCreation\<close>,
    \<open>PostDeletion\<close>: the invariant \<open>posts_inv\<close> and the counters. \<open>PostViews\<close>: what readers see.
    \<open>MediaFiles\<close>: \<open>mitra_models/src/media\<close>.
  \<^item> \<open>PaymentMethods\<close>, \<open>Invoices\<close>: \<open>mitra_models/src/payment_methods\<close>, \<open>invoices\<close>.
    \<open>InvoiceLifecycle\<close>: the status graph, the invariant \<open>invoices_inv\<close>, \<open>invoice_step\<close>.
  \<^item> \<open>Subscriptions\<close>: \<open>mitra_models/src/subscriptions\<close>, \<open>mitra_adapters/src/payments/subscriptions.rs\<close>.
  \<^item> \<open>MoneroWallet\<close>: \<open>mitra_services/src/monero\<close> over the RPC clients. \<open>Payments\<close>:
    \<open>mitra_adapters/src/payments\<close>, \<open>mitra_workers/src/payments\<close>. \<open>PaymentProperties\<close>: what the
    passes guarantee, and their step relation \<open>payment_step\<close>.
  \<^item> \<open>Jobs\<close>: \<open>mitra_models/src/background_jobs\<close>. \<open>Queues\<close>, \<open>OutgoingQueue\<close>:
    \<open>mitra_activitypub/src/queues.rs\<close>. \<open>Deliverer\<close>: the delivery worker of \<open>deliverer.rs\<close>.
    \<open>FilterRules\<close>: \<open>mitra_models/src/filter_rules\<close>, \<open>mitra_activitypub/src/filter.rs\<close>.
    \<open>QueueProperties\<close>, \<open>OutgoingProperties\<close>: their guarantees; the outgoing
    queue relies on the worker through the interface \<open>worker_contract\<close>.
  \<^item> \<open>ApObjects\<close>: documents and ownership (\<open>apx_sdk/src/deserialization.rs\<close>, \<open>utils.rs\<close>, \<open>ownership.rs\<close>).
    \<open>JsonSignatures\<close>, \<open>HttpSignatures\<close>: \<open>apx_core/src/json_signatures\<close>, \<open>http_signatures\<close>, \<open>http_digest.rs\<close>.
    \<open>FederationClient\<close>: requests, safe addresses, the fetch loop (\<open>apx_sdk/src/http_client.rs\<close>, \<open>fetch.rs\<close>).
    \<open>ApClient\<close>: filtered fetches, WebFinger (\<open>mitra_activitypub/src/importers.rs\<close>, \<open>webfinger.rs\<close>).
  \<^item> \<open>RemoteActors\<close>, \<open>RemoteProfiles\<close>: from an actor document to a profile, \<open>resolve\<close>
    (\<open>mitra_activitypub/src/actors\<close>, \<open>keys.rs\<close>, \<open>importers.rs\<close>). \<open>Authentication\<close>: \<open>authentication.rs\<close> and the receiver
    of \<open>mitra_api/src/activitypub\<close>. \<open>RemotePosts\<close>, \<open>PostHandlers\<close>, \<open>PostImport\<close>: \<open>handlers/note.rs\<close> and
    \<open>import_post\<close>. \<open>OutgoingActivities\<close>, \<open>NoteBuilder\<close>: \<open>builders\<close>, recipients, \<open>forwarder.rs\<close>.
    \<open>FollowHandlers\<close>, \<open>PaymentHandlers\<close>, \<open>ContentHandlers\<close>, \<open>ActivityHandlers\<close>: \<open>handlers\<close>, one definition per
    handler, and their dispatch. \<open>FetchResults\<close>, \<open>AuthResults\<close>, \<open>HandlerResults\<close>: what holds of them.
  \<^item> \<open>Polls\<close>, \<open>Reactions\<close>: \<open>mitra_models/src/polls\<close>, \<open>reactions\<close>.
  \<^item> \<open>Samples\<close>, \<open>UriSamples\<close>, \<open>ApSamples\<close>: concrete instances, also of every parameter, on which the
    theorems with hypotheses are applied. \<open>FurtherResults\<close>: results about single operations.

  \<^bold>\<open>What is parameterised.\<close> Code outside the repository is an argument: the Monero wallet RPC and
  the light-wallet server (\<open>wallet_rpc\<close>, \<open>light_wallet\<close>, whose answers are fixed during one pass and
  otherwise arbitrary), key parsers (\<open>externals\<close>), byte encoders (\<open>codecs\<close>, with \<open>codec_laws\<close>), the URI
  grammar (\<open>uri_library\<close>, with \<open>uri_laws\<close> and, for paths behind a gateway, \<open>gateway_laws\<close>), the text form of UUIDs (\<open>uuid_laws\<close>), pattern matching
  (\<open>wildmatch_laws\<close>), the hash of bearer tokens (\<open>token_hash\<close>), the HTML cleaner, grapheme segmentation
  and IDNA (\<open>text_library\<close>). The network is an argument of the delivery worker: how each request ends and
  which request ends next. For the federation client it is a function from requests to answers (\<open>servers\<close>),
  arbitrary and fixed during one operation; the cryptographic primitives, the canonical form of JSON and the
  printing of dates (\<open>crypto\<close>, with \<open>crypto_laws\<close>), structured header fields (\<open>http_library\<close>), the URL parser and
  the JSON reader (\<open>net_library\<close>), media storage, language tags and generated identifiers (\<open>ap_env\<close>) are
  arguments as well. The payment passes and the incoming queue take the builders of their activities and the
  activity handler as arguments (\<open>builders\<close>, \<open>handler\<close>). The rows that concurrent workers have locked are a predicate of
  \<open>get_job_batch\<close>.

  \<^bold>\<open>What the theorems show.\<close> Relationships: C1, the counters agree with the rows
  along every sequence of operations. Posts: C2 to C6, the invariant and the counters under
  creation and deletion, the two visibility checks against each other, what readers see. Receiving activities:
  C7 to C9, no activity enters the queue without a verified signature of a stored signer, signed documents
  verify, fetches stay within the redirect limit and safe addresses. Handling activities: C10 to C14, when
  a Follow becomes a relationship, who may delete and change a post, and two things that anyone may do. Remote posts:
  C15 to C17, replies stay in their conversation, private activities are not passed on, the import
  of a thread ends within its limit. Profiles and accounts: C18 to C22, the unique keys and fresh emoji caches along every history,
  rows that every lookup finds, registration, invitation codes, tokens. Invoices: C23, C24, the invariant and
  frozen invoices. Payments: C25, C26, the invariant along every pass and the justification of
  every sweep. Subscriptions: C27, C28. Jobs and queues: C29 to C34, with the refinement of an
  abstract delivery by the worker, its termination, and the fate of an outgoing job. Polls and reactions: C35,
  C36. Identifiers: C37 to C39, what is read back and what is not. Following and
  unfollowing: C40. C10, C13, C14
  and C33 also state behaviour that surprises. \<open>FurtherResults\<close> has the same kind of results about
  single operations: filter rules, validators, emoji and object clean-up, stored enumerations.
  The loop of the delivery worker is a \<open>partial_function (option)\<close>, whose value \<open>None\<close> is a loop that
  never ends; C33 says exactly when that is. No definition needs fuel: every other loop runs over
  a finite list and every other recursion is structural or shown to terminate.

  \<^bold>\<open>Not modelled.\<close> Locking beyond the skipped rows of a batch, isolation between concurrent
  transactions, \<open>VARCHAR\<close> widths, the overflow of \<open>poll.voters_count\<close>, log output, the columns that
  no modelled operation reads. A single statement on a valid row does not fail for reasons outside the
  store, so the two statements of \<open>delete_emoji\<close>, which the code runs without a transaction, are not interrupted. The invariant of the
  invoices leaves out legacy rows without a recorded payout, and their histories create local invoices for Monero chains only,
  as the callers of \<open>create_local_invoice\<close> and the configuration guarantee. During a fetch no other task changes the store, and a list of documents is
  processed in order. Of the program: the Mastodon API views and the HTTP servers, sockets, name resolution and
  TLS, the builders that only the API uses, the document of a local actor, the portable-object endpoints,
  the fetcher queue, key generation, MiniSign and wallet signatures, Markdown, HTML and image processing,
  the command line, configuration files and the scheduling of periodic tasks: input and output around the
  modelled operations, or wrappers of third-party code.
\<close>

section \<open>Relationships\<close>

text \<open>C1. Along every sequence of relationship operations, whether they succeed or fail, the
  tables stay well formed (unique keys, no self-relationship, no dangling profile) and every
  profile's follower, following and subscriber counters equal the number of rows they count.\<close>

theorem relationship_tables_stay_consistent:
  "relationship_step\<^sup>*\<^sup>* s t \<Longrightarrow> rel_inv s \<Longrightarrow> rel_inv t"
  by (rule relationship_steps_preserve)

theorem relationship_tables_witness:
  "relationship_step\<^sup>*\<^sup>* sample_db followed_db \<and> rel_inv sample_db \<and> rel_inv followed_db"
proof -
  have step: "relationship_step\<^sup>*\<^sup>* sample_db followed_db"
    using step_follow [of sample_db sample_externals 1 2] by (simp add: followed_db_def)
  moreover have inv: "rel_inv sample_db" by code_simp
  ultimately show ?thesis using relationship_tables_stay_consistent by blast
qed

section \<open>Posts\<close>

text \<open>C2. Creating a post, successful or not, keeps the posts well formed (unique, every reply and
  repost refers to an original post, no cycles, every conversation reaches its posts) and exact:
  every reply and repost counter equals the number of posts it counts, and the post counter of
  every profile its number of posts. A reply has to name the conversation of its parent.\<close>

theorem new_posts_keep_counters:
  assumes "posts_inv s" and "author_counts_ok s" and "reply_matches s d"
  shows "posts_inv (snd (create_post X ulid cid author d s))
    \<and> author_counts_ok (snd (create_post X ulid cid author d s))"
proof (cases "is_ok (fst (create_post X ulid cid author d s))")
  case True
  then obtain dp t where "create_post X ulid cid author d s = (Ok dp, t)"
    by (cases "create_post X ulid cid author d s"; cases "fst (create_post X ulid cid author d s)") auto
  with assms create_post_inv create_post_author_counts show ?thesis by (metis snd_conv)
next
  case False
  moreover have "atomic (create_post X ulid cid author d)" by (simp add: create_post_def Let_def)
  ultimately show ?thesis
    using atomic_fails [of "create_post X ulid cid author d" s posts_inv]
      atomic_fails [of "create_post X ulid cid author d" s author_counts_ok] assms by simp
qed

theorem new_posts_keep_counters_witness:
  "posts_inv replied_db \<and> author_counts_ok replied_db
   \<and> map (\<lambda>p. (po_id p, po_reply_count p)) (posts replied_db) = [(50, 1), (51, 0)]"
proof -
  have "map (\<lambda>p. (po_id p, po_reply_count p)) (posts replied_db) = [(50, 1), (51, 0)]" by code_simp
  then show ?thesis
    using new_posts_keep_counters [OF posts_db_inv posts_db_author_counts sample_reply_matches]
    unfolding replied_db_def by blast
qed

text \<open>C3. An original post can always be deleted. Exactly its thread goes: the post with the replies and
  reposts under it. The invariant of the posts and the post counters of all authors are kept.\<close>

theorem delete_post_removes_thread:
  assumes "posts_inv s" and "author_counts_ok s" and "p \<in> set (posts s)" and "po_repost_of_id p = None"
  shows "\<exists>queue t. delete_post (po_id p) s = (Ok queue, t)
    \<and> map po_id (posts t) = filter (\<lambda>i. i \<notin> thread_of (posts s) (po_id p)) (map po_id (posts s))
    \<and> posts_inv t \<and> author_counts_ok t"
proof -
  have "map po_id (posts (after_delete s p)) = filter (\<lambda>i. i \<notin> thread_of (posts s) (po_id p)) (map po_id (posts s))"
    unfolding posts_after_delete by (simp add: delete_where_def filter_map o_def)
  then show ?thesis
    using delete_post_run [OF assms(1) author_counts_exact_cover [OF assms(2)] assms(3,4)]
      after_delete_inv [OF assms(1,3,4)] after_delete_author_counts [OF assms(2)] by blast
qed

theorem delete_post_removes_thread_witness:
  "\<exists>queue t. delete_post 50 posts_db = (Ok queue, t) \<and> 50 \<notin> po_id ` set (posts t)"
proof -
  have row: "sample_post \<in> set (posts posts_db)" "po_repost_of_id sample_post = None" "po_id sample_post = 50"
    by code_simp+
  obtain queue t where run: "delete_post 50 posts_db = (Ok queue, t)"
    and ids: "map po_id (posts t) = filter (\<lambda>i. i \<notin> thread_of (posts posts_db) 50) (map po_id (posts posts_db))"
    using delete_post_removes_thread [OF posts_db_inv posts_db_author_counts row(1,2)] row(3) by auto
  have "50 \<notin> set (map po_id (posts t))" unfolding ids by (simp add: thread_of_def descends.self)
  then show ?thesis using run by auto
qed

text \<open>C4. The check of a single post and the filter of the timelines agree for every reader, except on
  posts for subscribers: the filter shows them to subscribers, the check only to the author and to
  those mentioned.\<close>

theorem view_check_equals_filter:
  assumes "view_tables_ok s" and "get_post_by_id X pid s = (Ok d, s)" and "\<forall>v. viewer = Some v \<longrightarrow> profile_exists s (p_id v)"
  shows "can_view_post viewer d s = (Ok (visibility_filter s (map_option p_id viewer) (pd_post d)
    \<and> (po_visibility (pd_post d) = VisSubscribers \<longrightarrow>
         (\<exists>v. viewer = Some v \<and> (po_author_id (pd_post d) = p_id v \<or> mentions_profile s pid (p_id v))))), s)"
proof (cases viewer)
  case None
  then show ?thesis using can_view_post_anonymous [of d s] by (auto simp: visibility_filter_def)
next
  case (Some v)
  then show ?thesis using can_view_post_viewer [OF assms(1) _ assms(2), of v] assms(3) by simp
qed

theorem view_check_equals_filter_witness:
  "\<exists>d. get_post_by_id sample_externals 50 posts_db = (Ok d, posts_db)
     \<and> can_view_post (Some (sample_profile 1 ''alice'')) d posts_db = (Ok True, posts_db)"
proof -
  let ?v = "Some (sample_profile 1 ''alice'')"
  have tables: "view_tables_ok posts_db" by code_simp
  have "\<forall>v. ?v = Some v \<longrightarrow> profile_exists posts_db (p_id v)"
    by (simp add: posts_db_def sample_defs profile_exists_def)
  then show ?thesis
    using view_check_equals_filter [OF tables sample_post_loads, of ?v] sample_post_loads
    by (auto simp: visibility_filter_def sample_detailed_post sample_post_def)
qed

text \<open>C5. The home timeline, the custom feeds, the pages of a tag and the threads show only stored posts
  that the reader may see and whose authors the reader does not mute. The pages are newest first and not longer
  than their limit.\<close>

theorem readers_see_only_visible_posts:
  assumes "page \<in> {get_home_timeline X v max_id limit, get_custom_feed_timeline X feed v max_id limit,
      get_posts_by_tag X tag (Some v) max_id limit}"
  shows "(page s = (Ok ds, t) \<longrightarrow> t = s \<and> length ds \<le> limit
      \<and> sorted_wrt (\<lambda>d e. po_id (pd_post d) \<ge> po_id (pd_post e)) ds
      \<and> (\<forall>d \<in> set ds. pd_post d \<in> set (posts s) \<and> visibility_filter s (Some v) (pd_post d)
           \<and> mute_filter s (Some v) (pd_post d)))
    \<and> (get_thread X pid (Some v) s = (Ok ds, t) \<longrightarrow>
        (\<forall>d \<in> set ds. pd_post d \<in> set (posts s) \<and> visibility_filter s (Some v) (pd_post d)
           \<and> mute_filter s (Some v) (pd_post d)))"
proof (intro conjI impI)
  obtain P where page: "page = load_page X limit max_id P"
    and visible: "\<And>s p a. P s p a \<Longrightarrow> visibility_filter s (Some v) p \<and> mute_filter s (Some v) p"
    using assms by (auto simp: get_home_timeline_def get_custom_feed_timeline_def get_posts_by_tag_def)
  assume "page s = (Ok ds, t)"
  note run = load_page_Ok [OF this [unfolded page]]
  show "t = s" "length ds \<le> limit" "sorted_wrt (\<lambda>d e. po_id (pd_post d) \<ge> po_id (pd_post e)) ds"
    by (rule run)+
  show "\<forall>d \<in> set ds. pd_post d \<in> set (posts s) \<and> visibility_filter s (Some v) (pd_post d)
      \<and> mute_filter s (Some v) (pd_post d)"
    using run(4) visible by blast
next
  assume run: "get_thread X pid (Some v) s = (Ok ds, t)"
  show "\<forall>d \<in> set ds. pd_post d \<in> set (posts s) \<and> visibility_filter s (Some v) (pd_post d)
      \<and> mute_filter s (Some v) (pd_post d)" using get_thread_Ok(2-4) [OF run] by simp
qed

theorem readers_see_only_visible_posts_witness:
  "get_home_timeline sample_externals 2 None 20 posts_db = (Ok [sample_detailed], posts_db)
   \<and> visibility_filter posts_db (Some 2) (pd_post sample_detailed)"
  using readers_see_only_visible_posts [of "get_home_timeline sample_externals 2 None 20" sample_externals 2 None 20,
      where s = posts_db and ds = "[sample_detailed]" and t = posts_db] sample_home_timeline by simp

text \<open>C6. A post that loads is well typed: it is the stored original with that identifier, its author is
  the stored author, and its conversation is there, so that taking it never panics.\<close>

theorem loaded_post_well_typed:
  assumes "get_post_by_id X pid s = (Ok d, t)"
  shows "t = s \<and> pd_post d \<in> set (posts s) \<and> po_id (pd_post d) = pid \<and> po_repost_of_id (pd_post d) = None
    \<and> p_id (pd_author d) = po_author_id (pd_post d)
    \<and> (\<exists>c. expect_conversation d = ret c \<and> po_conversation_id (pd_post d) = Some (cv_id c))"
  using assms by (rule get_post_by_id_loaded) (auto simp: expect_conversation_def)

theorem loaded_post_well_typed_witness:
  "\<exists>d c. get_post_by_id sample_externals 50 posts_db = (Ok d, posts_db) \<and> expect_conversation d = ret c"
  using sample_post_loads loaded_post_well_typed by blast

section \<open>Receiving activities\<close>



text \<open>C8. Signed documents. A document without a signature that \<open>sign_object\<close> signs is accepted by the verifier: the
  signature is found, names the key of the signer, covers the original document and verifies under the public key. The
  hypotheses are the correctness of the signature scheme and of the encodings.\<close>

theorem signed_documents_verify:
  assumes "crypto_laws C" and "codec_laws (codecs_of L)" and "verification_method_parse L key_id = Ok vm"
    and "entries_ok kvs" and "map_of kvs ''signature'' = None"
    and "sign_object C (codecs_of L) key key_id (JObject kvs) now = Ok doc"
  shows "\<exists>d. get_json_signature C L doc = Ok d \<and> js_verification_method d = vm \<and> js_object d = JObject kvs
    \<and> js_proof_type d = EddsaJcsSignature
    \<and> verify_eddsa_json_signature C (eddsa_public C key) (js_object d) (js_proof_config d) (js_signature d) = Ok ()"
  using assms by (rule signed_object_roundtrip)

theorem signed_documents_verify_witness:
  "\<exists>d. get_json_signature sample_crypto sample_uris sample_signed = Ok d \<and> js_object d = JObject sample_entries
    \<and> verify_eddsa_json_signature sample_crypto (eddsa_public sample_crypto ''key'') (js_object d) (js_proof_config d)
        (js_signature d) = Ok ()"
proof -
  obtain vm where vm: "verification_method_parse sample_uris sample_key_id = Ok vm"
    using sample_signing by (cases "verification_method_parse sample_uris sample_key_id") simp_all
  have "codec_laws (codecs_of sample_uris)"
    using sample_codec_laws by (simp add: sample_uris_def)
  from signed_documents_verify [OF sample_crypto_laws this vm] sample_signing show ?thesis
    by blast
qed

text \<open>C9. Requests of a fetch. Fetching an object sends at most \<open>redirect_limit\<close> requests, whatever the other servers
  answer: all are \<open>GET\<close> requests, and with the protection against server-side request forgery enabled every one of them,
  also each redirection, goes to a URL that passes the address check.\<close>

theorem fetches_are_safe:
  "\<exists>new. snd (fetch_object E A url skip sent) = sent @ new \<and> length new \<le> redirect_limit
     \<and> list_all (safe_request E A) new"
  by (rule fetch_object_requests)

section \<open>Handling activities\<close>

text \<open>C10. A \<open>Follow\<close> is eventually a relationship. When a \<open>Follow\<close> of a local account is handled without an error and the
  account does not approve followers manually, the follower follows the account at once. The same happens when a request
  of that follower is already waiting for approval: a second \<open>Follow\<close> is accepted although the account approves
  followers manually.\<close>

theorem follow_is_accepted:
  assumes "handle_follow V K activity s = (Ok desc, t)"
    and "id_field activity ''actor'' = Some actor" and "id_field activity ''object'' = Some object"
    and "resolve V K (only_remote default_resolver) actor s = (Ok src, s1)"
    and "resolve V K (include_automated_accounts default_resolver) object s1 = (Ok tgt, s2)"
    and "profile_is_local tgt" and "ev_fresh V ''follow request'' s2 \<notin> fr_id ` set (follow_requests s2)"
    and "list_ex (is_request (p_id src) (p_id tgt)) (follow_requests s2)
      \<or> (\<forall>p \<in> set (actor_profiles s2). p_id p = p_id tgt \<longrightarrow> \<not> p_manually_approves_followers p)"
  shows "list_ex (is_rel (p_id src) (p_id tgt) RelFollow) (relationships t)"
  using assms by (rule handle_follow_follows)

theorem follow_is_accepted_witness:
  "\<exists>t. handle_follow sample_env sample_client repeated_follow federated_db = (Ok (Some (DescObject ''Actor'')), t)
     \<and> p_manually_approves_followers bob \<and> list_ex (is_rel 3 2 RelFollow) (relationships t)"
proof -
  obtain t where run: "handle_follow sample_env sample_client repeated_follow federated_db = (Ok (Some (DescObject ''Actor'')), t)"
    using repeated_follow_run by blast
  have requests: "follow_requests federated_db = [pending_request]" "background_jobs federated_db = []"
    by (simp_all add: federated_db_def sample_db_def)
  have "list_ex (is_rel (p_id carol) (p_id bob) RelFollow) (relationships t)"
    by (rule follow_is_accepted [OF run follow_fields(2,3) resolve_runs])
      (simp_all add: profile_is_local_def carol_fields requests pending_request_def is_request_def)
  with run show ?thesis
    by (auto simp: carol_fields bob_def sample_profile_def)
qed

text \<open>C11. Deletion by another actor. A \<open>Delete\<close> of a post changes no post unless the actor of the activity is the author
  of the post.\<close>

theorem delete_needs_author:
  assumes "id_field activity ''actor'' = Some actor" and "canonicalize_id (uris V) actor = Ok aid"
    and "id_field activity ''object'' = Some object" and "canonicalize_id (uris V) object = Ok oid" and "oid \<noteq> aid"
    and "get_remote_post_by_object_id (ev_ext V) (canonical_to_string (uris V) oid) s = (Ok post, s)"
    and "get_remote_profile_by_actor_id (ev_ext V) (canonical_to_string (uris V) aid) s = (Ok p, s)"
    and "p_id p \<noteq> p_id (pd_author post)"
  shows "posts (snd (handle_delete V K activity s)) = posts s"
proof (rule ccontr)
  assume "posts (snd (handle_delete V K activity s)) \<noteq> posts s"
  from handle_delete_by_author [OF assms(1-5) this] assms(6-8) show False by auto
qed

theorem delete_needs_author_witness:
  "posts (snd (handle_delete sample_env sample_client foreign_delete federated_db)) = posts federated_db"
proof -
  obtain aid oid where ids: "canonicalize_id sample_uris dave_id = Ok aid" "canonical_to_string sample_uris aid = dave_id"
      "canonicalize_id sample_uris carol_post_id = Ok oid" "canonical_to_string sample_uris oid = carol_post_id"
    using sample_ids plain_idD [of dave_id] plain_idD [of carol_post_id] by auto
  have "oid \<noteq> aid"
    using ids(2,4) by (auto simp: dave_id_def carol_post_id_def)
  with ids show ?thesis
    using delete_needs_author [of foreign_delete dave_id sample_env aid carol_post_id oid federated_db carol_detailed dave]
    by (simp add: foreign_delete_fields row_runs carol_fields carol_detailed_fields)
qed

text \<open>C12. Updates keep the owner. An update of a remote post by a document attributed to another actor is refused with an
  error and changes nothing.\<close>

theorem update_keeps_owner:
  assumes "\<not> post_is_local post" and "p_actor_json (pd_author post) = Some data"
    and "canonicalize_id (uris V) (ob_attributed_to (oj_inner ob)) = Ok c" and "canonical_to_string (uris V) c \<noteq> da_id data"
  shows "update_remote_post V K post ob s = (Err (HeValidation ''object owner can't be changed''), s)"
  using assms by (rule update_remote_post_owner)

theorem update_keeps_owner_witness:
  "update_remote_post sample_env sample_client carol_detailed
     (reply_object\<lparr>oj_inner := reply_note\<lparr>ob_attributed_to := dave_id\<rparr>\<rparr>) federated_db
   = (Err (HeValidation ''object owner can't be changed''), federated_db)"
proof -
  obtain c where c: "canonicalize_id sample_uris dave_id = Ok c" "canonical_to_string sample_uris c = dave_id"
    using sample_ids plain_idD [of dave_id] by auto
  have "canonical_to_string sample_uris c \<noteq> da_id (remote_actor carol_id)"
    unfolding c(2) by (simp add: remote_actor_def dave_id_def carol_id_def)
  with c(1) show ?thesis
    by (intro update_keeps_owner [where data = "remote_actor carol_id" and c = c])
      (simp_all add: post_is_local_def profile_is_local_def carol_detailed_fields carol_fields)
qed

text \<open>C13. Anyone can report a payment. An authenticated \<open>Update\<close> with an embedded agreement in the state \<open>Paid\<close> marks the open
  invoice that has the identifier of the agreement as paid; the actor of the activity does not matter, only that the agreement and
  the owner it names have the same origin.\<close>

theorem anyone_reports_payment:
  assumes "invoices_inv s" and "filter (\<lambda>i. inv_object_id i = Some oid) (invoices s) = [i]" and "inv_status i = Open"
    and "json_index activity ''object'' = object" and "\<not> is_string object" and "is_object object"
    and "verify_portable_object (cryptography V) (uris V) object = Err PeNotPortable"
    and "verify_object_owner (uris V) object = Ok ()" and "string_property object ''type'' = Some ''Agreement''"
    and "agreement_from_value object = Some ag" and "ag_id ag = Some oid" and "ag_preview ag = Some ''Paid''"
  shows "\<exists>t. handle_update V K activity True s = (Ok (Some (DescObject ''Agreement'')), t) \<and> with_status s Paid i \<in> set (invoices t)"
proof -
  have "\<not> is_actor object"
    using assms(6) by (auto simp: is_object_def is_actor_def)
  then have "handle_update V K activity True s = handle_update_agreement activity s"
    using assms(4-9) by (simp add: handle_update_def update_trusted_def check_portable_def validate_def prog_defs)
  with update_agreement_pays [OF assms(1-3) _ assms(11,12)] assms(4,10) show ?thesis
    by simp
qed

theorem anyone_reports_payment_witness:
  "\<exists>t. handle_update sample_env sample_client paid_update True federated_db = (Ok (Some (DescObject ''Agreement'')), t)
     \<and> with_status federated_db Paid remote_invoice \<in> set (invoices t)
     \<and> json_index paid_update ''actor'' = JString dave_id \<and> inv_recipient_id remote_invoice = p_id carol"
proof -
  have "json_index paid_update ''actor'' = JString dave_id" "inv_recipient_id remote_invoice = p_id carol"
    by (simp_all add: paid_update_def json_index_def remote_invoice_def carol_fields)
  then show ?thesis
    using anyone_reports_payment [OF federated_invoices, of paid_update paid_agreement sample_env paid_data] paid_update_facts
    by simp
qed

text \<open>C14. Anyone can pin a post. An \<open>Add\<close> whose target is the featured collection of its own actor pins the remote post it names,
  whoever wrote that post.\<close>

theorem anyone_features_post:
  assumes "json_required_str activity ''actor'' = Some actor" and "id_field activity ''object'' = Some object"
    and "id_field activity ''target'' = Some target" and "json_opt_date (cryptography V) (json_field activity ''endTime'') = Some end_time"
    and "json_optional_str activity ''context'' = Some agreement"
    and "get_remote_profile_by_actor_id (ev_ext V) actor s = (Ok p, s)" and "p_actor_json p = Some data"
    and "da_featured data = Some target" and "da_subscribers data \<noteq> Some target"
    and "get_remote_post_by_object_id (ev_ext V) object s = (Ok post, s)"
  shows "\<exists>t. handle_add_item V K activity s = (Ok (Some (DescTarget ''featured'')), t)
    \<and> (pd_post post)\<lparr>po_is_pinned := True\<rparr> \<in> set (posts t)"
proof -
  have "handle_add_item V K activity s = set_featured V object True s"
    using assms(1-9) by (auto simp: handle_add_item_def deserialized_def in_db_def expect_actor_data_def prog_defs)
  with set_featured_pins [OF assms(10), of True] show ?thesis
    by simp
qed

theorem anyone_features_post_witness:
  "\<exists>t. handle_add_item sample_env sample_client featured_add federated_db = (Ok (Some (DescTarget ''featured'')), t)
     \<and> carol_post\<lparr>po_is_pinned := True\<rparr> \<in> set (posts t) \<and> p_id dave \<noteq> po_author_id carol_post"
proof -
  have "json_opt_date sample_crypto None = Some None"
    by (simp add: json_opt_date_def json_opt_value_def)
  moreover have "da_featured (remote_actor dave_id) = Some (dave_id @ ''/featured'')"
      "da_subscribers (remote_actor dave_id) \<noteq> Some (dave_id @ ''/featured'')" "p_id dave \<noteq> po_author_id carol_post"
    by (simp_all add: remote_actor_def carol_fields carol_post_def)
  ultimately show ?thesis
    using anyone_features_post [of featured_add dave_id carol_post_id "dave_id @ ''/featured''" sample_env None None federated_db dave
        "remote_actor dave_id" carol_detailed]
    by (simp add: featured_add_fields row_runs carol_fields carol_detailed_fields)
qed

section \<open>Remote posts and conversations\<close>

text \<open>C15. Replies from other servers. A post created from a document with \<open>inReplyTo\<close> is a reply to the post that is stored
  under that identifier, in the conversation of that post; the lookup is made in the database reached when the author of the
  document has been resolved. Its visibility is computed from the audience of the document, the collections of that author and the audience of
  this conversation: it is visible to more than the named recipients and the conversation (public, for followers, for
  subscribers) only if the conversation is public.\<close>

theorem remote_reply_stays_in_conversation:
  assumes "create_remote_post V K ob redirects s = (Ok post, t)" and "ob_in_reply_to (oj_inner ob) = Some i"
  shows "\<exists>author data audience parent c u.
    resolve V K (only_remote default_resolver) (ob_attributed_to (oj_inner ob)) s = (Ok author, u)
    \<and> p_actor_json author = Some data \<and> get_audience (uris V) (oj_inner ob) = Ok audience
    \<and> fst (get_linked V K redirects i u) = Ok parent \<and> pd_conversation parent = Some c
    \<and> po_in_reply_to_id (pd_post post) = Some (po_id (pd_post parent)) \<and> po_conversation_id (pd_post post) = Some (cv_id c)
    \<and> po_visibility (pd_post post) = reply_visibility data audience (cv_audience c)
    \<and> (po_visibility (pd_post post) \<in> {VisPublic, VisFollowers, VisSubscribers} \<longrightarrow> conversation_is_public c)"
  using assms by (rule remote_reply_conversation)

theorem remote_reply_witness:
  "po_in_reply_to_id (pd_post created_post) = Some (po_id carol_post)
    \<and> po_conversation_id (pd_post created_post) = Some (cv_id carol_conversation)
    \<and> po_visibility (pd_post created_post) = VisPublic \<and> conversation_is_public carol_conversation"
proof -
  obtain t where run: "create_remote_post sample_env sample_client reply_object [] federated_db = (Ok created_post, t)"
    using reply_run by blast
  have ob: "ob_in_reply_to (oj_inner reply_object) = Some carol_post_id" "ob_attributed_to (oj_inner reply_object) = carol_id"
      "oj_inner reply_object = reply_note" "get_audience sample_uris reply_note = Ok [ap_public]"
    using reply_checked by (simp_all add: reply_object_def reply_note_def)
  have "fst (get_linked sample_env sample_client [] carol_post_id federated_db) = Ok carol_detailed"
    using reply_read(2) ob by (simp add: find_parent_def ok_runs)
  with remote_reply_stays_in_conversation [OF run ob(1)] ob reply_checked show ?thesis
    by (auto simp: resolve_runs carol_fields carol_detailed_fields)
qed

text \<open>C16. Conversations are not leaked. An activity about a post that is neither public nor limited to its conversation is
  not passed on to the participants of the conversation, nor to the members of its group: synchronization changes
  nothing.\<close>

theorem private_activity_not_synced:
  assumes "vis \<notin> {VisPublic, VisConversation}"
  shows "snd (sync_conversation V K c activity vis s) = s"
  using sync_conversation_private [OF assms] by (simp add: reads_only_def)

theorem private_activity_not_synced_witness:
  "\<forall>V K c activity s. snd (sync_conversation V K c activity VisFollowers s) = s"
  using private_activity_not_synced [of VisFollowers] by simp

text \<open>C17. Import of a thread. The loop that collects a post with its ancestors and quoted posts ends for every behaviour
  of the other servers; when it has collected objects there is at least one, no identifier occurs twice, and there are
  no more than the recursion limit, apart from an object that was received.\<close>

theorem import_is_bounded:
  "case import_loop V K s (import_start i received) of
     Ok (ImFetched obs _) \<Rightarrow> obs \<noteq> [] \<and> distinct (map oj_id obs)
       \<and> length obs \<le> ac_recursion_limit K + (if received = None then 0 else 1)
   | _ \<Rightarrow> True"
  using import_loop_inv [OF _ import_start_inv, of V K s i received]
  by (auto split: outcome.splits import_outcome.splits)

section \<open>Profiles and accounts\<close>

text \<open>C18. Along every history of creating and updating profiles, registering users and saving, updating
  and deleting custom emojis, whether the operations succeed or fail, the table of profiles keeps its keys
  unique and its hostnames registered, and the copies of emojis that each profile row caches are exactly
  the current rows of the emojis linked to it.\<close>

theorem profile_tables_stay_consistent:
  assumes "profile_tables_inv s" and "(tables_step X)\<^sup>*\<^sup>* s t"
  shows "profile_tables_inv t \<and> (\<forall>p \<in> set (actor_profiles t). p_emojis p = emojis_of_profile t (p_id p))"
  using tables_steps_inv [OF assms(2,1)] by (simp add: profile_tables_inv_def emoji_cache_ok_def)

theorem profile_tables_witness:
  "profile_tables_inv emoji_deleted_db \<and> map p_emojis (actor_profiles emoji_deleted_db) = [[], []]"
proof -
  have "emoji_step emoji_db emoji_deleted_db"
    by (rule emoji_step.emoji_deleted [of 70 _ "fst (delete_emoji 70 emoji_db)"]) (simp add: emoji_deleted_db_def)
  then have "(tables_step sample_externals)\<^sup>*\<^sup>* emoji_db emoji_deleted_db" by (intro r_into_rtranclp tables_step.emoji)
  moreover have "map p_emojis (actor_profiles emoji_deleted_db) = [[], []]" by code_simp
  ultimately show ?thesis using profile_tables_stay_consistent [OF emoji_db_inv] by blast
qed

text \<open>C19. As long as profiles are only created, updated and registered through these operations, every row
  is found again: by its identifier, by its account name and by its actor identifier, each lookup returns
  that row and no other.\<close>

theorem profiles_stay_readable:
  assumes "profiles_inv X s" and "(account_step X)\<^sup>*\<^sup>* s t" and "p \<in> set (actor_profiles t)"
  shows "get_profile_by_id X (p_id p) t = (Ok p, t)
    \<and> (\<forall>a. acct p = Some a \<longrightarrow> get_profile_by_acct X a t = (Ok p, t))
    \<and> (\<forall>i. actor_id_of p = Some i \<longrightarrow> get_remote_profile_by_actor_id X i t = (Ok p, t))"
  using readable_found [OF account_steps_inv [OF assms(2,1)] assms(3)] by auto

theorem profiles_stay_readable_witness:
  "get_profile_by_acct sample_externals ''carol'' registered_db = (Ok (last (actor_profiles registered_db)), registered_db)"
proof -
  have "account_step sample_externals invited_db registered_db"
    using registered_run by (blast intro: account_step.registered)
  then have "(account_step sample_externals)\<^sup>*\<^sup>* invited_db registered_db" by (rule r_into_rtranclp)
  moreover have "last (actor_profiles registered_db) \<in> set (actor_profiles registered_db)"
    "acct (last (actor_profiles registered_db)) = Some ''carol''" by code_simp+
  ultimately show ?thesis using profiles_stay_readable [OF invited_db_inv] by blast
qed

text \<open>C20. A registered user is found under the new identifier with the registered name, role and password
  digest; the invitation code was unused and is used up. In every state reached from there, by issuing codes, registering users and portable
  users, and whatever leaves the table of codes as it is, a registration of a user with the same code fails and changes no
  table.\<close>

theorem registration_uses_code_once:
  assumes "create_user X pid d s = (Ok u, t)" and "ucd_invite_code d = Some c"
  shows "get_user_by_id X pid t = (Ok u, t) \<and> p_username (user_profile u) = ucd_username d
    \<and> user_role u = ucd_role d \<and> user_password_digest u = ucd_password_digest d
    \<and> \<not> code_used c s \<and> code_used c t
    \<and> (\<forall>t' e qid. (code_step X)\<^sup>*\<^sup>* t t' \<and> ucd_invite_code e = Some c \<longrightarrow>
         \<not> is_ok (fst (create_user X qid e t')) \<and> same_tables t' (snd (create_user X qid e t')))"
  using create_user_found(1,3-5) [OF assms(1)] create_user_found(6) [OF assms]
    code_steps_spent [OF _ registration_spends_code [OF assms]] spent_code_refused by blast

theorem registration_witness:
  "\<exists>t r. create_invite_code ''other'' None registered_db = (r, t) \<and> code_used ''code'' registered_db
     \<and> \<not> is_ok (fst (create_user sample_externals 4 (sample_registration\<lparr>ucd_username := ''dave''\<rparr>) t))
     \<and> same_tables t (snd (create_user sample_externals 4 (sample_registration\<lparr>ucd_username := ''dave''\<rparr>) t))"
proof -
  obtain u where u: "create_user sample_externals 3 sample_registration invited_db = (Ok u, registered_db)"
    using registered_run by blast
  have code: "ucd_invite_code sample_registration = Some ''code''" by (simp add: sample_registration_def)
  have other: "ucd_invite_code (sample_registration\<lparr>ucd_username := ''dave''\<rparr>) = Some ''code''"
    by (simp add: sample_registration_def)
  obtain r t where t: "create_invite_code ''other'' None registered_db = (r, t)" by fastforce
  then have "(code_step sample_externals)\<^sup>*\<^sup>* registered_db t"
    by (intro r_into_rtranclp code_step.issued)
  with registration_uses_code_once [OF u code] other t show ?thesis by blast
qed

text \<open>C21. A saved bearer token signs in exactly its owner, at every later time before it expires, and nobody
  from then on. Only its owner can revoke it: the attempt of another user fails and changes nothing, and
  after the owner's it signs in nobody.\<close>

theorem token_signs_in_owner_until_revoked:
  assumes "save_oauth_token H uid app token created expires s = (Ok i, t)" and "get_user_by_id X uid s = (Ok v, s)"
    and "unique_by u_id (user_accounts s)" and "profile_keys_ok (actor_profiles s)"
  shows "(\<forall>now. get_user_by_oauth_token H X token (later now t) =
        ((if now < expires then Ok (i, v) else Err (NotFound ''user'')), later now t))
    \<and> (\<forall>other. other \<noteq> uid \<longrightarrow> delete_oauth_token H other token t = (Err (NotFound ''token''), t))
    \<and> (\<exists>t'. delete_oauth_token H uid token t = (Ok (), t') \<and> (\<forall>now.
        get_user_by_oauth_token H X token (later now t') = (Err (NotFound ''user''), later now t')))"
proof (intro conjI allI impI)
  show "get_user_by_oauth_token H X token (later now t) =
      ((if now < expires then Ok (i, v) else Err (NotFound ''user'')), later now t)" for now
    by (rule saved_token_signs_in [OF assms])
  obtain k where k: "ot_owner_id k = uid"
    and one: "filter (\<lambda>k. ot_token_digest k = H token) (oauth_tokens t) = [k]"
    using saved_token_row [OF assms(1)] by blast
  note run = delete_oauth_token_run [where H = H and token = token, OF one]
  show "delete_oauth_token H other token t = (Err (NotFound ''token''), t)" if "other \<noteq> uid" for other
    using run k that by simp
  have "\<exists>t'. delete_oauth_token H uid token t = (Ok (), t')" using run k by simp
  then show "\<exists>t'. delete_oauth_token H uid token t = (Ok (), t') \<and> (\<forall>now.
      get_user_by_oauth_token H X token (later now t') = (Err (NotFound ''user''), later now t'))"
    using deleted_token_no_user by blast
qed

theorem token_witness:
  "fst (get_user_by_oauth_token sample_hash sample_externals ''token'' (later (seconds 1500000) signed_in_db)) = Ok (1, signed_in_user)
   \<and> fst (get_user_by_oauth_token sample_hash sample_externals ''token'' (later (seconds 2000000) signed_in_db)) = Err (NotFound ''user'')
   \<and> delete_oauth_token sample_hash 2 ''token'' signed_in_db = (Err (NotFound ''token''), signed_in_db)"
proof -
  have keys: "unique_by u_id (user_accounts sample_db)" "profile_keys_ok (actor_profiles sample_db)" by code_simp+
  note signs = token_signs_in_owner_until_revoked [OF signed_in signed_in_user_loads keys]
  show ?thesis using signs [THEN conjunct1, rule_format, of "seconds 1500000"]
      signs [THEN conjunct1, rule_format, of "seconds 2000000"] signs [THEN conjunct2, THEN conjunct1, rule_format, of 2]
    by (simp add: seconds_def)
qed

text \<open>C22. Deleting a profile, successful or not, keeps the relationship tables consistent: the follower,
  following and subscriber counters of the remaining profiles count exactly the remaining rows.\<close>

theorem delete_profile_keeps_relationships_consistent:
  assumes "rel_inv s"
  shows "rel_inv (snd (delete_profile pid s))"
proof (cases "is_ok (fst (delete_profile pid s))")
  case True
  then obtain q t where "delete_profile pid s = (Ok q, t)"
    by (cases "delete_profile pid s"; cases "fst (delete_profile pid s)") auto
  with delete_profile_rel_inv [OF assms] show ?thesis by (metis snd_conv)
next
  case False
  moreover have "atomic (delete_profile pid)" by (simp add: delete_profile_def)
  ultimately show ?thesis using atomic_fails [of "delete_profile pid" s rel_inv] assms by simp
qed

theorem delete_profile_witness:
  "rel_inv (snd (delete_profile 1 followed_db)) \<and> relationships (snd (delete_profile 1 followed_db)) = []"
proof -
  have "rel_inv followed_db" by code_simp
  moreover have "relationships (snd (delete_profile 1 followed_db)) = []" by code_simp
  ultimately show ?thesis using delete_profile_keeps_relationships_consistent by blast
qed

section \<open>Invoices\<close>

text \<open>C23. Along every sequence of invoice operations, in any order and whatever they return, every
  stored invoice is consistent, and a status that claims a payout has one on record: a forwarded
  or failed invoice has its payout transaction, a completed one also its amount. Local invoices are created for Monero chains,
  as every caller does; the invariant does not hold of legacy rows without these columns, which no operation creates.\<close>

theorem invoices_stay_consistent:
  "invoice_step\<^sup>*\<^sup>* s t \<Longrightarrow> invoices_inv s \<Longrightarrow> invoices_inv t"
  by (rule invoice_steps_preserve)

theorem invoices_stay_consistent_witness:
  "invoice_step\<^sup>*\<^sup>* invoice_db (snd (local_invoice_forwarded 101 ''tx'' invoice_db))
   \<and> invoices_inv (snd (local_invoice_forwarded 101 ''tx'' invoice_db))"
proof -
  have "invoice_step\<^sup>*\<^sup>* invoice_db (snd (local_invoice_forwarded 101 ''tx'' invoice_db))"
    using forwarded by (rule r_into_rtranclp)
  moreover have "invoices_inv invoice_db" by code_simp
  ultimately show ?thesis using invoices_stay_consistent by blast
qed

text \<open>C24. A completed local invoice is frozen: no direct status change, no forwarding, completion,
  light-wallet payment or remote opening succeeds on it, and the attempt changes no table. The table satisfies the invariant: legacy
  invoices without a recorded payout are outside.\<close>

theorem completed_invoice_is_frozen:
  assumes "invoices_inv s" and "i \<in> set (invoices s)" and "inv_status i = Completed" and "inv_payment_type i \<noteq> None"
    and "op \<in> {set_invoice_status (inv_id i) st, local_invoice_forwarded (inv_id i) tx,
      local_invoice_completed (inv_id i) n, local_monero_light_invoice_paid (inv_id i) tx,
      remote_invoice_opened (inv_id i) address oid}"
  shows "\<not> is_ok (fst (op s)) \<and> same_tables s (snd (op s))"
proof -
  note block = completed_blocks_puts [OF assms(1-4)]
  have "op s \<noteq> (Ok j, t)" for j t
    using assms(5) block
    by (auto simp: set_invoice_status_Ok dest!: local_invoice_forwarded_Ok local_invoice_completed_Ok
        local_monero_light_invoice_paid_Ok remote_invoice_opened_Ok)
  then have "\<not> is_ok (fst (op s))" by (cases "op s"; cases "fst (op s)") auto
  moreover have "atomic op" using assms(5) status_changes_atomic by auto
  ultimately show ?thesis by (simp add: atomic_def)
qed

theorem completed_invoice_is_frozen_witness:
  "\<not> is_ok (fst (set_invoice_status 103 Paid invoice_db)) \<and> same_tables invoice_db (snd (set_invoice_status 103 Paid invoice_db))"
proof -
  let ?i = "sample_invoice 103 Completed (Some ''tx'') (Some 5000)"
  have "invoices_inv invoice_db" "?i \<in> set (invoices invoice_db)" "inv_status ?i = Completed"
    "inv_payment_type ?i \<noteq> None" "inv_id ?i = 103"
    by code_simp+
  then show ?thesis using completed_invoice_is_frozen [of invoice_db ?i "set_invoice_status 103 Paid" Paid] by simp
qed

section \<open>Payments\<close>

text \<open>C25. Whatever the wallets answer and wherever a pass stops, the payment code keeps the invoice
  invariant: along every sequence of server-wallet, light-wallet, remote and expiry passes,
  re-openings, payment-address requests and other invoice operations, with a configured chain that is a Monero chain, as the
  configuration loader requires.\<close>

theorem payment_passes_keep_invoices_consistent:
  "payment_step\<^sup>*\<^sup>* st st' \<Longrightarrow> invoices_inv (ps_db st) \<Longrightarrow> invoices_inv (ps_db st')"
  by (rule payment_steps_preserve)

theorem payment_passes_witness:
  "payment_step\<^sup>*\<^sup>* paid_state completed_state \<and> invoices_inv (ps_db completed_state)"
proof -
  have "payment_step\<^sup>*\<^sup>* paid_state completed_state"
    unfolding completed_state_def using server_pass by (rule r_into_rtranclp)
  moreover have "invoices_inv (ps_db paid_state)" by code_simp
  ultimately show ?thesis using payment_passes_keep_invoices_consistent by blast
qed

text \<open>C26. Money leaves the wallet only for paid invoices. The sweeps of a forwarding pass belong, in
  order and at most one each, to invoices that were paid; each empties the invoice's subaddress,
  whose balance is positive, unlocked and confirmed, into the recipient's payout address. When the
  pass succeeds, each of these invoices is recorded as forwarded with its transaction.\<close>

theorem sweeps_are_justified:
  assumes "unique_by inv_id (invoices (ps_db st))" and "check_paid_invoices X W c st = (r, st')"
  shows "\<exists>swept new. subseq swept (filter (\<lambda>i. inv_payment_type i = Some Monero \<and> inv_chain_id i = mc_chain_id c
        \<and> inv_status i = Paid \<and> inv_object_id i = None) (invoices (ps_db st)))
    \<and> ps_sweeps st' = ps_sweeps st @ new
    \<and> list_all2 (justified W c (payment_methods (ps_db st))) swept new
    \<and> (is_ok r \<longrightarrow> (\<forall>i \<in> set swept. forwarded_in st' (inv_id i)))"
  using assms(2) unfolding check_paid_invoices_def
proof (cases rule: seqE)
  case (good u v)
  let ?paid = "filter (\<lambda>i. inv_payment_type i = Some Monero \<and> inv_chain_id i = mc_chain_id c
        \<and> inv_status i = Paid \<and> inv_object_id i = None) (invoices (ps_db st))"
  have "for_each ?paid (check_paid_invoice X W c) st = (r, st')"
    using good by (auto simp: wallet_def lift_def bnd_def db_run get_local_invoices_by_status_def gets_def)
  moreover have "distinct (map inv_id ?paid)"
    using assms(1) by (auto simp: unique_by_def distinct_map intro: inj_on_subset)
  ultimately show ?thesis using for_each_sweeps by blast
qed (auto simp: wallet_def lift_def)

theorem sweeps_are_justified_witness:
  "\<exists>i. justified sample_wallet sample_config (payment_methods (ps_db paid_state)) i
     \<lparr>sw_account = 0, sw_address = 7, sw_to = ''payout''\<rparr>"
proof -
  have uniq: "unique_by inv_id (invoices (ps_db paid_state))" by code_simp
  obtain r where run: "check_paid_invoices sample_externals sample_wallet sample_config paid_state = (r, forwarded_state)"
    unfolding forwarded_state_def by (metis prod.collapse)
  have "ps_sweeps paid_state = []" by code_simp
  with sweeps_are_justified [OF uniq run] forwarded_sweeps show ?thesis
    by (auto simp: list_all2_Cons2)
qed

section \<open>Subscriptions\<close>

text \<open>C27. Crediting a payment leaves exactly one subscription for the pair; it ends the paid duration
  after the later of now and its former end, so no paid time is lost and none is free. With a
  positive duration the sender is a subscriber, other subscriptions and the invoices are
  untouched, and the relationship invariant is kept.\<close>

theorem subscription_renewal_correct:
  assumes "sub_keys s" and "create_or_update_local_subscription X p r n s = (Ok x, t)"
  shows "filter (is_sub (p_id p) (p_id (user_profile r))) (subscriptions t) = [x]
    \<and> sub_expires_at x = renewal_base s (p_id p) (p_id (user_profile r)) + seconds n
    \<and> (\<forall>c d. (c, d) \<noteq> (p_id p, p_id (user_profile r)) \<longrightarrow>
         filter (is_sub c d) (subscriptions t) = filter (is_sub c d) (subscriptions s))
    \<and> (n > 0 \<longrightarrow> list_ex (is_rel (p_id p) (p_id (user_profile r)) RelSubscription) (relationships t))
    \<and> invoices t = invoices s \<and> (rel_inv s \<longrightarrow> rel_inv t)"
  using local_subscription_effect [OF assms] preservesD [OF create_or_update_local_subscription_preserves _ assms(2)]
  by blast

theorem subscription_renewal_witness:
  "\<exists>x. filter (is_sub 1 2) (subscriptions subscribed_db) = [x] \<and> sub_expires_at x = seconds 1003600"
proof -
  have "sub_keys sample_db" by code_simp
  from subscription_renewal_correct [OF this subscribed] show ?thesis
    by (simp add: sample_profile_def sample_user_def)
qed

text \<open>C28. After a successful expiry pass no expired subscription still counts as a subscriber.\<close>

theorem expiry_pass_leaves_no_expired_subscriber:
  assumes "update_expired_subscriptions X B s = (Ok u, t)"
  shows "\<not> (\<exists>x \<in> set (subscriptions t). sub_expires_at x \<le> current_timestamp t
    \<and> list_ex (is_rel (sub_sender_id x) (sub_recipient_id x) RelSubscription) (relationships t))"
  using update_expired_subscriptions_effect [OF assms]
  by (auto simp: expired_subscriptions_def list_ex_iff)

theorem expiry_pass_witness:
  "\<not> (\<exists>x \<in> set (subscriptions swept_db). sub_expires_at x \<le> current_timestamp swept_db
    \<and> list_ex (is_rel (sub_sender_id x) (sub_recipient_id x) RelSubscription) (relationships swept_db))"
  by (rule expiry_pass_leaves_no_expired_subscriber [OF swept])

section \<open>Job queue\<close>

text \<open>C29. A batch holds at most \<open>batch_size\<close> distinct jobs in the order of their schedule, each of the
  requested type, due and not locked by another worker. These rows and no others are marked as
  running now. A due, unlocked job is left out only when the batch is full of jobs that come
  before it.\<close>

theorem job_batch_correct:
  assumes "jobs_ok s" and "get_job_batch locked ty n d s = (Ok jobs, t)"
  shows "length jobs \<le> n \<and> distinct (map bj_id jobs) \<and> sorted (map bj_scheduled_for jobs)
    \<and> (\<forall>j \<in> set jobs. \<exists>j0 \<in> set (background_jobs s). j = start_job s j0 \<and> job_is_due s ty d j0 \<and> \<not> locked (bj_id j0))
    \<and> background_jobs t = map (\<lambda>j. if bj_id j \<in> bj_id ` set jobs then start_job s j else j) (background_jobs s)
    \<and> (\<forall>j0 \<in> set (background_jobs s).
         job_is_due s ty d j0 \<and> \<not> locked (bj_id j0) \<and> bj_id j0 \<notin> bj_id ` set jobs \<longrightarrow>
         length jobs = n \<and> (\<forall>k \<in> set (background_jobs s). bj_id k \<in> bj_id ` set jobs \<longrightarrow> job_order k \<le> job_order j0))"
proof -
  let ?sel = "select_job_batch s locked ty n d"
  have "length jobs \<le> n" by (simp add: batch_length [OF assms] select_job_batch_def)
  moreover have "sorted (map bj_scheduled_for jobs)" using assms(2) by (auto simp: get_job_batch_def Let_def)
  moreover have "\<exists>j0 \<in> set (background_jobs s). j = start_job s j0 \<and> job_is_due s ty d j0 \<and> \<not> locked (bj_id j0)"
    if "j \<in> set jobs" for j
    using batch_job_cases [OF assms that] set_select_job_batch [of s locked ty n d] by blast
  moreover have "background_jobs t = map (\<lambda>j. if bj_id j \<in> bj_id ` set jobs then start_job s j else j) (background_jobs s)"
    using get_job_batch_state [OF assms(2)] by (simp add: update_where_def)
  moreover have "length jobs = n \<and> (\<forall>k \<in> set (background_jobs s). bj_id k \<in> bj_id ` set jobs \<longrightarrow> job_order k \<le> job_order j0)"
    if j0: "j0 \<in> set (background_jobs s)" "job_is_due s ty d j0" "\<not> locked (bj_id j0)" "bj_id j0 \<notin> bj_id ` set jobs" for j0
  proof -
    have "j0 \<notin> set ?sel" using j0(4) batch_ids [OF assms] by blast
    note out = left_out_of_batch [OF assms(1) j0(1-3) this]
    show ?thesis using out batch_selected [OF assms] batch_length [OF assms] by metis
  qed
  ultimately show ?thesis using batch_distinct [OF assms] by blast
qed

theorem job_batch_correct_witness:
  "\<exists>jobs t. get_job_batch (\<lambda>_. False) IncomingActivity 5 3600 jobs_db = (Ok jobs, t) \<and> length jobs \<le> 5
     \<and> map bj_id jobs = [1, 3]"
proof -
  let ?run = "get_job_batch (\<lambda>_. False) IncomingActivity 5 3600 jobs_db"
  let ?jobs = "[start_job jobs_db (sample_job 1 Queued), start_job jobs_db (sample_job 3 Queued)]"
  have ok: "jobs_ok jobs_db" by code_simp
  have run: "?run = (Ok ?jobs, snd ?run)" by code_simp
  have "map bj_id ?jobs = [1, 3]" by code_simp
  with run job_batch_correct [OF ok run, THEN conjunct1] show ?thesis by (intro exI conjI)
qed

text \<open>C30. Two workers never run one job at once: until its timeout has passed, a job handed out in a
  batch is in no later batch, whatever happened to the queue in between, as long as its row was
  not rewritten.\<close>

theorem job_batches_are_exclusive:
  assumes "jobs_ok s" and "get_job_batch l1 ty n d s = (Ok jobs, t)"
    and "jobs_ok u" and "\<forall>j \<in> set (background_jobs u). bj_id j \<in> bj_id ` set jobs \<longrightarrow> j \<in> set jobs"
    and "current_timestamp u \<le> current_timestamp s + seconds (int d)"
    and "get_job_batch l2 ty' m d u = (Ok jobs', v)"
  shows "bj_id ` set jobs \<inter> bj_id ` set jobs' = {}"
proof (rule ccontr)
  assume "bj_id ` set jobs \<inter> bj_id ` set jobs' \<noteq> {}"
  then obtain jid where "jid \<in> bj_id ` set jobs" "jid \<in> bj_id ` set jobs'" by blast
  then obtain j' where j': "j' \<in> set jobs'" "bj_id j' \<in> bj_id ` set jobs" by (metis imageE)
  from batch_job_cases [OF assms(3,6) j'(1)] obtain k where
    k: "k \<in> set (select_job_batch u l2 ty' m d)" "j' = start_job u k" by blast
  then have due: "k \<in> set (background_jobs u)" "job_is_due u ty' d k"
    using set_select_job_batch [of u l2 ty' m d] by auto
  with j'(2) k(2) assms(4) have "k \<in> set jobs" by simp
  from batch_job_cases [OF assms(1,2) this] obtain j0 where "k = start_job s j0" by blast
  with due(2) started_not_due [OF assms(5)] show False by simp
qed

theorem job_batches_are_exclusive_witness:
  "let t = snd (get_job_batch (\<lambda>_. False) IncomingActivity 1 3600 jobs_db) in
   bj_id ` set [start_job jobs_db (sample_job 1 Queued)]
     \<inter> bj_id ` set [start_job t (sample_job 3 Queued)] = {}"
proof -
  let ?t = "snd (get_job_batch (\<lambda>_. False) IncomingActivity 1 3600 jobs_db)"
  have "jobs_ok jobs_db" "jobs_ok ?t" "current_timestamp ?t \<le> current_timestamp jobs_db + seconds (int 3600)"
    "get_job_batch (\<lambda>_. False) IncomingActivity 1 3600 jobs_db = (Ok [start_job jobs_db (sample_job 1 Queued)], ?t)"
    "get_job_batch (\<lambda>_. False) IncomingActivity 5 3600 ?t
      = (Ok [start_job ?t (sample_job 3 Queued)], snd (get_job_batch (\<lambda>_. False) IncomingActivity 5 3600 ?t))"
    "\<forall>j \<in> set (background_jobs ?t). bj_id j \<in> bj_id ` set [start_job jobs_db (sample_job 1 Queued)] \<longrightarrow>
       j \<in> set [start_job jobs_db (sample_job 1 Queued)]"
    by code_simp+
  then show ?thesis unfolding Let_def using job_batches_are_exclusive by blast
qed

section \<open>Federation queues\<close>

text \<open>C31. Processing one incoming job removes it from the queue whatever its handler returned. Only a
  failed network request is retried, ten minutes later and under a fresh identifier, and only
  while the job has failed less than twice before; every other row is what the handler left. The handler itself does not
  touch the row of the job.\<close>

theorem incoming_job_retried_at_most_twice:
  assumes "incoming_from_value (bj_job_data job) = Some d" and "ij_failure_count d < 2 ^ 32 - 1"
    and "leaves_job H (bj_id job)" and "bj_id job \<in> bj_id ` set (background_jobs s)"
    and "fresh (bj_id job) \<notin> bj_id ` set (background_jobs (handler_state_of H d s))"
  shows "process_incoming_job H fresh job s =
    (let t = handler_state_of H d s;
         retry = handler_result_of H d s = RequestFailed \<and> ij_failure_count d < 2 in
     (Ok (), t\<lparr>background_jobs := delete_where (\<lambda>j. bj_id j = bj_id job) (background_jobs t)
        @ (if retry then [retry_job (fresh (bj_id job)) d (current_timestamp t)] else [])\<rparr>))"
  using process_incoming_job_run [where fresh = fresh, OF assms] by (simp add: incoming_queue_retries_max_def)

theorem incoming_job_retried_witness:
  "process_incoming_job failing_handler (\<lambda>i. i + 100) (sample_job 1 Queued) jobs_db =
   (Ok (), jobs_db\<lparr>background_jobs := [sample_job 2 Running, sample_job 3 Queued,
      retry_job 101 sample_incoming (seconds 1000000)]\<rparr>)"
proof -
  have "incoming_from_value (bj_job_data (sample_job 1 Queued)) = Some sample_incoming"
    "bj_id (sample_job 1 Queued) \<in> bj_id ` set (background_jobs jobs_db)"
    "bj_id (sample_job 1 Queued) + 100 \<notin> bj_id ` set (background_jobs (handler_state_of failing_handler sample_incoming jobs_db))"
    by code_simp+
  moreover have "leaves_job failing_handler (bj_id (sample_job 1 Queued))" "ij_failure_count sample_incoming < 2 ^ 32 - 1"
    by (simp_all add: leaves_job_def failing_handler_def sample_incoming_def incoming_job_data_new_def)
  ultimately have "process_incoming_job failing_handler (\<lambda>i. i + 100) (sample_job 1 Queued) jobs_db =
    (let t = handler_state_of failing_handler sample_incoming jobs_db;
         retry = handler_result_of failing_handler sample_incoming jobs_db = RequestFailed \<and> ij_failure_count sample_incoming < 2 in
     (Ok (), t\<lparr>background_jobs := delete_where (\<lambda>j. bj_id j = bj_id (sample_job 1 Queued)) (background_jobs t)
        @ (if retry then [retry_job (bj_id (sample_job 1 Queued) + 100) sample_incoming (current_timestamp t)] else [])\<rparr>))"
    by (intro incoming_job_retried_at_most_twice)
  then show ?thesis
    by (simp add: handler_state_of_def handler_result_of_def failing_handler_def sample_incoming_def
        incoming_job_data_new_def jobs_db_def sample_job_def sample_db_def delete_where_def)
qed

text \<open>C32. Refinement: whatever order the network answers in, the delivery worker returns what the
  abstract specification says, one request for each unfinished recipient and its result recorded at that
  recipient. The pool has to be non-empty and the inboxes of unfinished recipients have hostnames.\<close>

theorem delivery_worker_refines_spec:
  assumes "0 < pool_size" and "\<forall>r \<in> set rs. \<not> is_finished r \<longrightarrow> get_hostname (rc_inbox r) \<noteq> None"
  shows "deliver_activity_worker True pool_size get_hostname pick exchange rs = Some (Ok (deliver_once exchange rs))"
  using assms by (intro worker_refines) auto

theorem delivery_worker_refines_witness:
  "deliver_activity_worker True 2 sample_hostname (\<lambda>_ _. 1) (\<lambda>_. Responded 200) [sample_recipient, sample_recipient]
   = Some (Ok [sample_recipient\<lparr>rc_is_delivered := True\<rparr>, sample_recipient\<lparr>rc_is_delivered := True\<rparr>])"
proof -
  have "\<forall>r \<in> set [sample_recipient, sample_recipient]. \<not> is_finished r \<longrightarrow> sample_hostname (rc_inbox r) \<noteq> None"
    by (simp add: sample_hostname_def)
  moreover have "deliver_once (\<lambda>_. Responded 200) [sample_recipient, sample_recipient]
      = [sample_recipient\<lparr>rc_is_delivered := True\<rparr>, sample_recipient\<lparr>rc_is_delivered := True\<rparr>]"
    by code_simp
  ultimately show ?thesis using delivery_worker_refines_spec [of 2 "[sample_recipient, sample_recipient]"] by simp
qed

text \<open>C33. Termination: once hostnames are known, the worker returns if and only if its pool is not empty or no
  recipient is left to send to. A pool of size zero with work to do loops forever.\<close>

theorem delivery_worker_termination:
  assumes "\<forall>r \<in> set rs. \<not> is_finished r \<longrightarrow> get_hostname (rc_inbox r) \<noteq> None"
  shows "(\<exists>result. deliver_activity_worker True pool_size get_hostname pick exchange rs = Some result)
    \<longleftrightarrow> 0 < pool_size \<or> list_all is_finished rs"
  using assms by (intro worker_returns_iff) auto

theorem delivery_worker_termination_witness:
  "deliver_activity_worker True 0 sample_hostname (\<lambda>_ _. 0) (\<lambda>_. Responded 200) [sample_recipient] = None"
proof -
  have "\<forall>r \<in> set [sample_recipient]. \<not> is_finished r \<longrightarrow> sample_hostname (rc_inbox r) \<noteq> None"
    by (simp add: sample_hostname_def)
  moreover have "\<not> list_all is_finished [sample_recipient]" by code_simp
  ultimately show ?thesis
    using delivery_worker_termination [of "[sample_recipient]" sample_hostname 0] by (metis less_numeral_extra(3) option.exhaust)
qed

text \<open>C34. No delivery is lost and none is tried forever. A processed outgoing job leaves the queue. Nothing follows it if it has no
  recipient or federation is switched off. Otherwise the recipients prepared from the job are given to the delivery worker.
  If the worker refuses, nothing follows. If it returns, the recipients it returned, less those given up on the first
  failure, decide: one of them is unfinished and the limit is not reached exactly if one new job is in the queue, for the
  same activity and sender, with exactly these recipients and one more failure, due after the backoff for this number of
  failures, counted from now. The recipients keep their identity and what has been delivered stays delivered.\<close>

theorem outgoing_job_next_attempt:
  assumes "bj_id job \<in> bj_id ` set (background_jobs s)"
    and "process_outgoing_job X L wm sp cfg f (deliver_activity_worker enabled n gh pick exchange) fresh media_jid job s
      = Some (Ok (), t)"
  shows "\<exists>d. outgoing_from_value sp (bj_job_data job) = Some d
    \<and> (if oj_recipients d = [] \<or> \<not> fc_enabled cfg
       then outgoing_rows t = delete_where (\<lambda>j. bj_id j = bj_id job) (outgoing_rows s)
       else \<exists>rs u result. prepare_outgoing X L wm sp cfg f job s = (Ok (Some (d, rs)), u) \<and> list_all2 progress (oj_recipients d) rs
         \<and> current_timestamp u = current_timestamp s \<and> deliver_activity_worker enabled n gh pick exchange rs = Some result
         \<and> job_outcome X sp d rs result (delete_where (\<lambda>j. bj_id j = bj_id job) (outgoing_rows s)) u t)"
  using assms by (rule deliverer.outgoing_job_attempt)

theorem outgoing_job_next_attempt_witness:
  "\<exists>t j d. process_outgoing_job sample_externals sample_uris sample_wildmatch (\<lambda>_. True) sample_federation sample_filter
       unreachable_worker (\<lambda>i. i + 100) (\<lambda>_. 0) second_job second_db = Some (Ok (), t)
     \<and> outgoing_rows t = [j] \<and> outgoing_from_value (\<lambda>_. True) (bj_job_data j) = Some d
     \<and> oj_failure_count d = 2 \<and> oj_recipients d = [sample_recipient] \<and> bj_scheduled_for j = current_timestamp second_db + seconds 3300"
proof -
  let ?next = "second_outgoing\<lparr>oj_recipients := [sample_recipient], oj_failure_count := oj_failure_count second_outgoing + 1\<rparr>"
  obtain t where run: "process_outgoing_job sample_externals sample_uris sample_wildmatch (\<lambda>_. True) sample_federation
      sample_filter unreachable_worker (\<lambda>i. i + 100) (\<lambda>_. 0) second_job second_db = Some (Ok (), t)"
    using second_processed by blast
  have job: "bj_id second_job \<in> bj_id ` set (background_jobs second_db)"
      "delete_where (\<lambda>j. bj_id j = bj_id second_job) (outgoing_rows second_db) = []"
      "oj_recipients second_outgoing = [sample_recipient]" "oj_failure_count second_outgoing = 1" "\<not> is_finished sample_recipient"
      "outgoing_from_value (\<lambda>_. True) (bj_job_data second_job) = Some second_outgoing" "fc_enabled sample_federation"
      "unat (outgoing_queue_backoff 2) = 3300"
    by code_simp+
  have "fst (marked_recipients sample_externals second_outgoing [sample_recipient] second_db) = Ok [sample_recipient]"
    by (simp add: marked_recipients_def job prog_defs)
  then obtain j where j: "outgoing_rows t = [j]" "next_attempt (\<lambda>_. True) second_outgoing [sample_recipient] (current_timestamp second_db) j"
    using outgoing_job_next_attempt [OF job(1) run [unfolded unreachable_worker_def]] job second_prepared
      unreachable_worker_run [unfolded unreachable_worker_def]
    by (auto simp: job_outcome_def outgoing_queue_retries_max_def)
  then have "outgoing_from_value (\<lambda>_. True) (bj_job_data j) = Some ?next" "bj_scheduled_for j = current_timestamp second_db + seconds 3300"
    using job(4,8) by (simp_all add: next_attempt_def)
  with run j(1) job(4) show ?thesis
    by (intro exI [of _ t] exI [of _ j] exI [of _ ?next]) simp
qed

section \<open>Polls and reactions\<close>

text \<open>C35. Votes keep the tallies. After a successful vote of a local user or a single remote vote, in
  every poll that was tallied the stored count of each option is still the number of votes for it,
  and the stored number of voters the number of distinct voters.\<close>

theorem votes_keep_tallies:
  assumes "(\<exists>x idx. distinct idx \<and> vote ulids pid voter idx s = (Ok x, t))
      \<or> (\<exists>p' choice oid. vote_one ulid pid voter choice oid s = (Ok p', t))"
    and "length (poll_votes s) + 1 < 2 ^ 32" and "tallied s pid" and "tallied s q"
  shows "tallied t q"
  using assms(1)
proof (elim disjE exE conjE)
  fix x idx assume run: "distinct idx" "vote ulids pid voter idx s = (Ok x, t)"
  obtain p' vs where "x = (p', vs)" by (cases x)
  with run assms(2-4) show ?thesis using vote_keeps_tallies by blast
qed (rule vote_one_keeps_tallies [OF _ assms(2-4)])

theorem votes_keep_tallies_witness: "tallied voted_db 50"
proof (rule votes_keep_tallies)
  show "(\<exists>x idx. distinct idx \<and> vote [] 50 1 idx poll_db = (Ok x, voted_db))
      \<or> (\<exists>p' choice oid. vote_one 60 50 1 choice oid poll_db = (Ok p', voted_db))"
  proof (intro disjI2 exI)
    show "vote_one 60 50 1 ''yes'' ''https://social.example/vote'' poll_db
      = (Ok (sample_poll\<lparr>poll_results := [\<lparr>pr_option_name = ''yes'', pr_vote_count = 1\<rparr>, poll_result_new ''no''],
          poll_voters_count := Some 1\<rparr>), voted_db)"
      by (simp add: voted_db_def vote_one_def transaction_def bnd_def seq_def run_def map_err_p_def lift_def gets_def
          modify_def select_or_not_found_run poll_db_def sample_poll_def sample_db_def insert_single_vote_def
          has_voted_def profile_exists_def sample_profile_def set_results_def update_where_def vote_voters_def
          poll_result_new_def count_vote_def Collect_conv_if)
  qed
  show "length (poll_votes poll_db) + 1 < 2 ^ 32" by (simp add: poll_db_def sample_db_def)
  show "tallied poll_db 50"
    by (simp add: tallied_def tally_def poll_db_def sample_poll_def sample_db_def poll_result_new_def
        votes_for_def vote_voters_def)
  then show "tallied poll_db 50" .
qed

text \<open>C36. Creating and deleting reactions, successful or not, keeps reactions unique per author, post and
  content, on original posts only, and the reaction counter of every post equal to its number of
  reactions.\<close>

theorem reactions_stay_counted:
  assumes "reactions_inv s"
  shows "reactions_inv (snd (create_reaction X ulid d s)) \<and> reactions_inv (snd (delete_reaction author pid content s))"
  using assms create_reaction_preserves delete_reaction_preserves by (blast intro: preserves_snd)

theorem reactions_stay_counted_witness:
  "reactions_inv reacted_db \<and> map po_reaction_count (posts reacted_db) = [1]"
proof -
  have "reactions_inv sample_db" by code_simp
  moreover have "map po_reaction_count (posts reacted_db) = [1]" by code_simp
  ultimately show ?thesis using reactions_stay_counted unfolding reacted_db_def by blast
qed

section \<open>Identifiers\<close>

text \<open>C37. Canonical URIs: parsing never panics, and the canonical form of a URI is canonical itself, so
  that parsing it again gives the same URI, exactly when something follows the first slash of an
  \<open>ap\<close> path. Otherwise the canonical form is refused as invalid.\<close>

theorem canonical_uri_fixed_point:
  assumes "uri_laws L"
  shows "no_panic (canonical_parse L v)
    \<and> (\<forall>c. canonical_parse L v = Ok c \<longrightarrow>
         parse_canonical L (canonical_to_string L c) = (if has_object_path c then Ok c else Err ''invalid 'ap' URI''))"
  using canonical_parse_no_panic [OF assms] canonical_fixed_point [OF assms] root_path_not_canonical [OF assms] by simp

theorem canonical_uri_fixed_point_witness:
  "\<exists>c. canonical_parse sample_uris ''https://a.example/users/alice'' = Ok c
     \<and> parse_canonical sample_uris (canonical_to_string sample_uris c) = Ok c"
proof -
  obtain c where c: "canonical_parse sample_uris ''https://a.example/users/alice'' = Ok c" "has_object_path c"
    using sample_canonical by blast
  then show ?thesis using canonical_uri_fixed_point [OF sample_uri_laws] by simp
qed

text \<open>C38. The identifiers that an authority gives out, for objects, actors and activities, are read back, be the authority a server
  name or a key: each has a canonical form, and the parser returns from it the data which the identifier was made
  from. The parsers accept only canonical identifiers. They accept the given identifier itself unless the authority is a
  key with a gateway that prefers compatible identifiers, as \<open>key_with_gateway\<close> makes it; those they refuse until they are
  canonicalized.\<close>

theorem local_identifiers_roundtrip:
  assumes "uri_laws L" and "gateway_laws L" and "uuid_laws F" and "wf_authority L a"
    and "username \<noteq> []" and "list_all username_char username" and "ty \<noteq> []" and "list_all is_alpha ty"
  shows "read_back L a (parse_local_object_id L F a) (local_object_id_unified L F a u) u
    \<and> (\<exists>i. local_actor_id_unified L F a u username = Ok i
        \<and> read_back L a (parse_local_actor_id L F a) i
            (case ath_root a of RootServer _ \<Rightarrow> IdUsername username | RootKey _ \<Rightarrow> IdUuid u))
    \<and> (\<exists>i. local_activity_id_unified L F a ty u = Ok i \<and> read_back L a (parse_local_activity_id L F a) i u)"
  using assms by (intro conjI local_ids_read_back)

theorem local_identifiers_roundtrip_witness:
  "(\<exists>i. local_actor_id_unified sample_uris sample_uuids sample_authority 7 ''alice'' = Ok i
      \<and> parse_local_actor_id sample_uris sample_uuids sample_authority i = Ok (IdUsername ''alice''))
   \<and> (\<exists>c. canonicalize_id sample_uris (local_object_id_unified sample_uris sample_uuids key_authority 7) = Ok c
      \<and> parse_local_object_id sample_uris sample_uuids key_authority (canonical_to_string sample_uris c) = Ok 7)
   \<and> \<not> is_ok (parse_local_object_id sample_uris sample_uuids key_authority
        (local_object_id_unified sample_uris sample_uuids key_authority 7))"
proof -
  have names: "''alice'' \<noteq> []" "list_all username_char ''alice''" "''Create'' \<noteq> []" "list_all is_alpha ''Create''"
    "ath_root sample_authority = RootServer sample_server" by code_simp+
  note laws = local_identifiers_roundtrip [OF sample_uri_laws sample_gateway_laws sample_uuid_laws _ names(1-4)]
  show ?thesis
    using laws [of sample_authority 7] laws [of key_authority 7] sample_authorities_wf names(5)
    by (auto simp: read_back_def)
qed

text \<open>C39. Identifiers survive printing and parsing, with two exceptions. A well-formed chain identifier is read back, and whatever parses is
  well formed; but \<open>from_ethereum_chain_id\<close> takes 64 bits and the parser 32, so that exactly the numbers from \<open>2 ^ 32\<close> on
  give an identifier which the parser refuses. A well-formed account identifier is read back from its URI, and from a
  \<open>did:pkh\<close> by its own parser; the parser of DIDs reads the \<open>did:pkh\<close> back exactly if the address has no percent sign, which
  account addresses may have. Every \<open>did:key\<close> is read back, and so are multibase and multicodec data.\<close>

theorem identifiers_roundtrip:
  assumes "codec_laws C"
  shows "(\<forall>v c. chain_id_from_str v = Ok c \<longrightarrow> wf_chain_id c)
    \<and> (\<forall>c. wf_chain_id c \<longrightarrow> chain_id_from_str (chain_id_to_string c) = Ok c)
    \<and> (\<forall>n < 2 ^ 64. chain_id_from_str (chain_id_to_string (from_ethereum_chain_id n)) =
         (if n < 2 ^ 32 then Ok (from_ethereum_chain_id n) else Err (ChainIdError ''invalid EIP-155 chain ID'')))
    \<and> (\<forall>a. wf_account_id a \<longrightarrow> account_id_from_uri (account_id_to_uri a) = Ok a \<and> did_pkh_from_str (did_pkh_to_string a) = Ok a
         \<and> did_from_str C (did_to_string C (DidPkh a)) =
             (if CHR ''%'' \<in> set (ai_address a) then Err DidParseError else Ok (DidPkh a)))
    \<and> (\<forall>k. did_from_str C (did_to_string C (DidKey k)) = Ok (DidKey k))
    \<and> (\<forall>b bytes. multibase_decode C (multibase_encode C b bytes) = Ok (b, bytes))
    \<and> (\<forall>k bytes. multicodec_decode C (multicodec_encode C k bytes) = Ok (k, bytes))"
  using chain_id_from_str_wf chain_id_print_parse ethereum_chain_id_print_parse account_id_uri_roundtrip did_pkh_reparse
    did_pkh_print_parse did_pkh_percent did_key_print_parse [OF assms] multibase_roundtrip [OF assms] multicodec_roundtrip [OF assms]
  by simp

theorem identifiers_roundtrip_witness:
  "did_from_str sample_codecs (did_to_string sample_codecs (DidKey sample_key)) = Ok (DidKey sample_key)
   \<and> chain_id_from_str (chain_id_to_string sample_chain) = Ok sample_chain
   \<and> chain_id_from_str (chain_id_to_string (from_ethereum_chain_id (2 ^ 32))) = Err (ChainIdError ''invalid EIP-155 chain ID'')
   \<and> did_from_str sample_codecs (did_to_string sample_codecs (DidPkh \<lparr>ai_chain_id = sample_chain, ai_address = ''a%20b''\<rparr>))
       = Err DidParseError"
proof -
  have chain: "wf_chain_id sample_chain" unfolding sample_chain_def by (rule wf_from_monero_network)
  then have "wf_account_id \<lparr>ai_chain_id = sample_chain, ai_address = ''a%20b''\<rparr>"
    by (simp add: wf_account_id_def caip_address_char_def is_alnum_def is_lower_def is_upper_def is_digit_def)
  with chain show ?thesis using identifiers_roundtrip [OF sample_codec_laws] by simp
qed

section \<open>Follow and unfollow\<close>

text \<open>C40. An unfollow right after a follow succeeds, gives every profile back its counters and
  leaves of the relationship table what was there before, less the rejection and the repost and
  reply settings of the pair; a pending request of the pair is gone.\<close>

theorem unfollow_undoes_follow:
  assumes "rel_inv s" and "follow X a b s = (Ok rid, t)"
  shows "\<exists>x u. unfollow X a b t = (Ok x, u) \<and> actor_profiles u = actor_profiles s
    \<and> follow_requests u = delete_where (is_request a b) (follow_requests s)
    \<and> relationships u = filter (\<lambda>r. \<not> is_rel b a RelReject r \<and> \<not> is_rel a b RelHideReposts r
        \<and> \<not> is_rel a b RelHideReplies r) (relationships s)"
  using assms by (rule follow_then_unfollow)

theorem unfollow_undoes_follow_witness:
  "\<exists>x u. unfollow sample_externals 1 2 followed_db = (Ok x, u) \<and> actor_profiles u = actor_profiles sample_db
     \<and> actor_profiles followed_db \<noteq> actor_profiles sample_db \<and> relationships u = []"
proof -
  have "rel_inv sample_db" "actor_profiles followed_db \<noteq> actor_profiles sample_db" by code_simp+
  moreover have "relationships sample_db = []" by (simp add: sample_db_def)
  ultimately show ?thesis using unfollow_undoes_follow [OF _ followed] by auto
qed

end
